(* ===== verification/GoPrelude.thy ===== *)
theory GoPrelude
  imports Main "HOL-Library.AList" "HOL-Library.List_Lexorder" "HOL-Library.Char_ord"
    "HOL-Library.Word" "HOL-Library.Multiset"
begin

text \<open>
  What the components share: Go strings and the functions of package \<^verbatim>\<open>strings\<close> the
  sources call, results that are an error or a value, Go maps as association lists, and
  the lemma collections used by the automation of the component theories.

  A Go string is modelled as the list of its code points, a \<open>char\<close> being one code point
  U+0000 to U+00FF (Latin-1, which covers the Spanish texts of the catalog). Comparison of
  such lists is Go's byte-wise comparison, because UTF-8 keeps code point order;
  \<open>byte_len\<close> is Go's \<^verbatim>\<open>len([]byte(s))\<close>. White space and case are Unicode's, restricted to
  these code points; the two whose upper case lies outside (micro sign, y with diaeresis)
  are left unchanged.
\<close>

named_theorems text_simps \<open>Go string functions on canonical texts\<close>
named_theorems result_elims \<open>inversion of results\<close>
named_theorems canon_simps \<open>canonical forms are fixed points\<close>

type_synonym gstring = string

section \<open>Characters\<close>

definition is_space :: "char \<Rightarrow> bool" where
  "is_space c \<longleftrightarrow> c \<in> set [CHR 0x09, CHR 0x0A, CHR 0x0B, CHR 0x0C, CHR 0x0D, CHR 0x20, CHR 0x85, CHR 0xA0]"

definition upper_char :: "char \<Rightarrow> char" where
  "upper_char c = (let n = (of_char c :: nat) in
     if (97 \<le> n \<and> n \<le> 122) \<or> (224 \<le> n \<and> n \<le> 254 \<and> n \<noteq> 247) then char_of (n - 32) else c)"

definition lower_char :: "char \<Rightarrow> char" where
  "lower_char c = (let n = (of_char c :: nat) in
     if (65 \<le> n \<and> n \<le> 90) \<or> (192 \<le> n \<and> n \<le> 222 \<and> n \<noteq> 215) then char_of (n + 32) else c)"

lemma is_space_nat:
  "is_space c \<longleftrightarrow> (let n = (of_char c :: nat) in (9 \<le> n \<and> n \<le> 13) \<or> n = 32 \<or> n = 133 \<or> n = 160)"
proof -
  have eq: "c = d \<longleftrightarrow> (of_char c :: nat) = of_char d" for d by simp
  show ?thesis
    unfolding is_space_def Let_def by (auto simp: eq simp del: of_char_eq_iff)
qed

lemma char_eq_nat: "c = d \<longleftrightarrow> (of_char c :: nat) = of_char d"
  by simp

lemma of_char_less [simp]: "(of_char c :: nat) < 256"
  by simp

lemma of_char_upper:
  "(of_char (upper_char c) :: nat) = (let n = of_char c in
     if (97 \<le> n \<and> n \<le> 122) \<or> (224 \<le> n \<and> n \<le> 254 \<and> n \<noteq> 247) then n - 32 else n)"
  by (auto simp: upper_char_def Let_def)

lemma of_char_lower:
  "(of_char (lower_char c) :: nat) = (let n = of_char c in
     if (65 \<le> n \<and> n \<le> 90) \<or> (192 \<le> n \<and> n \<le> 222 \<and> n \<noteq> 215) then n + 32 else n)"
  by (auto simp: lower_char_def Let_def)

lemma upper_char_idem [simp]: "upper_char (upper_char c) = upper_char c"
  unfolding char_eq_nat of_char_upper Let_def by auto

lemma lower_char_idem [simp]: "lower_char (lower_char c) = lower_char c"
  unfolding char_eq_nat of_char_lower Let_def by auto

lemma is_space_upper [simp]: "is_space (upper_char c) = is_space c"
  unfolding is_space_nat of_char_upper Let_def by auto

lemma is_space_lower [simp]: "is_space (lower_char c) = is_space c"
  unfolding is_space_nat of_char_lower Let_def by auto

lemma lower_upper_char [simp]: "lower_char (upper_char c) = lower_char c"
  unfolding char_eq_nat of_char_lower of_char_upper Let_def by auto

lemma upper_lower_char [simp]: "upper_char (lower_char c) = upper_char c"
  unfolding char_eq_nat of_char_lower of_char_upper Let_def by auto

text \<open>Code equations on the bits of a character, for evaluation inside the logic.\<close>

definition letter_bits :: "bool \<Rightarrow> bool \<Rightarrow> bool \<Rightarrow> bool \<Rightarrow> bool \<Rightarrow> bool \<Rightarrow> bool" where
  "letter_bits b0 b1 b2 b3 b4 b7 =
     (if b7 then \<not> (b0 \<and> b1 \<and> b2 \<and> b4) else (b0 \<or> b1 \<or> b2 \<or> b3 \<or> b4) \<and> \<not> (b4 \<and> b3 \<and> (b2 \<or> b1 \<and> b0)))"

lemma upper_char_bits [code]:
  "upper_char (Char b0 b1 b2 b3 b4 b5 b6 b7) =
     Char b0 b1 b2 b3 b4 (b5 \<and> \<not> (b6 \<and> letter_bits b0 b1 b2 b3 b4 b7)) b6 b7"
  unfolding char_eq_nat of_char_upper Let_def letter_bits_def
  by (cases b0; cases b1; cases b2; cases b3; cases b4; cases b5; cases b6; cases b7) simp_all

lemma lower_char_bits [code]:
  "lower_char (Char b0 b1 b2 b3 b4 b5 b6 b7) =
     Char b0 b1 b2 b3 b4 (b5 \<or> b6 \<and> letter_bits b0 b1 b2 b3 b4 b7) b6 b7"
  unfolding char_eq_nat of_char_lower Let_def letter_bits_def
  by (cases b0; cases b1; cases b2; cases b3; cases b4; cases b5; cases b6; cases b7) simp_all

section \<open>Package strings\<close>

definition to_upper :: "gstring \<Rightarrow> gstring" where
  "to_upper s = map upper_char s"

definition to_lower :: "gstring \<Rightarrow> gstring" where
  "to_lower s = map lower_char s"

definition trim_space :: "gstring \<Rightarrow> gstring" where
  "trim_space s = rev (dropWhile is_space (rev (dropWhile is_space s)))"

fun str_fields_from :: "gstring \<Rightarrow> gstring \<Rightarrow> gstring list" where
  "str_fields_from w [] = (if w = [] then [] else [w])"
| "str_fields_from w (c # cs) =
     (if is_space c then (if w = [] then str_fields_from [] cs else w # str_fields_from [] cs)
      else str_fields_from (w @ [c]) cs)"

definition str_fields :: "gstring \<Rightarrow> gstring list" where
  "str_fields s = str_fields_from [] s"

fun join :: "gstring \<Rightarrow> gstring list \<Rightarrow> gstring" where
  "join sep [] = []"
| "join sep [w] = w"
| "join sep (w # ws) = w @ sep @ join sep ws"

fun has_prefix :: "gstring \<Rightarrow> gstring \<Rightarrow> bool" where
  "has_prefix s [] = True"
| "has_prefix [] (p # ps) = False"
| "has_prefix (c # cs) (p # ps) = (c = p \<and> has_prefix cs ps)"

fun split_at :: "char \<Rightarrow> gstring \<Rightarrow> gstring list" where
  "split_at sep [] = [[]]"
| "split_at sep (c # cs) =
     (if c = sep then [] # split_at sep cs
      else (case split_at sep cs of [] \<Rightarrow> [[c]] | w # ws \<Rightarrow> (c # w) # ws))"

definition byte_len :: "gstring \<Rightarrow> nat" where
  "byte_len s = sum_list (map (\<lambda>c. if (of_char c :: nat) < 128 then 1 else 2) s)"

subsection \<open>Words of a text\<close>

definition word :: "gstring \<Rightarrow> bool" where
  "word w \<longleftrightarrow> w \<noteq> [] \<and> (\<forall>c\<in>set w. \<not> is_space c)"

lemma str_fields_from_words:
  "\<forall>c\<in>set w. \<not> is_space c \<Longrightarrow> \<forall>x\<in>set (str_fields_from w s). word x"
proof (induction s arbitrary: w)
  case Nil
  then show ?case by (simp add: word_def)
next
  case (Cons c s)
  then show ?case
    using Cons.IH [of "[]"] Cons.IH [of "w @ [c]"] by (cases "is_space c") (auto simp: word_def)
qed

lemma str_fields_words: "x \<in> set (str_fields s) \<Longrightarrow> word x"
  unfolding str_fields_def using str_fields_from_words [of "[]" s] by simp

lemma str_fields_from_nonspace:
  "\<forall>c\<in>set v. \<not> is_space c \<Longrightarrow> str_fields_from w (v @ s) = str_fields_from (w @ v) s"
  by (induction v arbitrary: w) auto

lemma str_fields_from_word_space:
  "word w \<Longrightarrow> is_space c \<Longrightarrow> str_fields_from [] (w @ c # s) = w # str_fields_from [] s"
  by (simp add: str_fields_from_nonspace word_def)

lemma str_fields_join:
  assumes "\<forall>w\<in>set ws. word w" and "is_space c"
  shows "str_fields (join [c] ws) = ws"
  unfolding str_fields_def using assms(1)
proof (induction ws rule: induct_list012)
  case 1
  then show ?case by simp
next
  case (2 w)
  then show ?case using str_fields_from_nonspace [of w "[]" "[]"] by (auto simp: word_def)
next
  case (3 w v ws)
  then show ?case using assms(2) str_fields_from_word_space [of w c] by simp
qed

lemma str_fields_from_drop_left: "str_fields_from [] (dropWhile is_space s) = str_fields_from [] s"
  by (induction s) auto

lemma str_fields_from_spaces_right:
  "\<forall>c\<in>set t. is_space c \<Longrightarrow> str_fields_from w (s @ t) = str_fields_from w s"
proof (induction w s rule: str_fields_from.induct)
  case (1 w)
  have "str_fields_from [] t = []" using 1 by (induction t) auto
  with 1 show ?case by (cases t) auto
qed auto

lemma str_fields_trim [simp]: "str_fields (trim_space s) = str_fields s"
proof -
  let ?d = "dropWhile is_space s"
  have "?d = rev (dropWhile is_space (rev ?d)) @ rev (takeWhile is_space (rev ?d))"
    by (metis rev_append rev_rev_ident takeWhile_dropWhile_id)
  moreover have "\<forall>c\<in>set (rev (takeWhile is_space (rev ?d))). is_space c"
    by (metis set_rev set_takeWhileD)
  ultimately have "str_fields_from [] ?d = str_fields_from [] (rev (dropWhile is_space (rev ?d)))"
    by (metis str_fields_from_spaces_right)
  then show ?thesis
    by (simp add: str_fields_def trim_space_def str_fields_from_drop_left)
qed

lemma str_fields_from_nil_iff: "str_fields_from w s = [] \<longleftrightarrow> w = [] \<and> (\<forall>c\<in>set s. is_space c)"
  by (induction s arbitrary: w) auto

lemma str_fields_nil_iff: "str_fields s = [] \<longleftrightarrow> (\<forall>c\<in>set s. is_space c)"
  by (simp add: str_fields_def str_fields_from_nil_iff)

lemma trim_nil_iff: "trim_space s = [] \<longleftrightarrow> (\<forall>c\<in>set s. is_space c)"
proof -
  have "trim_space s = [] \<longleftrightarrow> (\<forall>c\<in>set (dropWhile is_space s). is_space c)"
    by (simp add: trim_space_def)
  also have "\<dots> \<longleftrightarrow> (\<forall>c\<in>set s. is_space c)"
    by (induction s) auto
  finally show ?thesis .
qed

lemma trim_space_idem [simp]: "trim_space (trim_space s) = trim_space s"
proof -
  let ?d = "dropWhile is_space s"
  let ?t = "rev (dropWhile is_space (rev ?d))"
  have hd: "\<not> is_space (hd ?t)" if ne: "?t \<noteq> []"
  proof -
    have "?d = ?t @ rev (takeWhile is_space (rev ?d))"
      by (metis rev_append rev_rev_ident takeWhile_dropWhile_id)
    then have "hd ?t = hd ?d" using ne by (metis hd_append2)
    moreover have "?d \<noteq> []" using ne by force
    ultimately show ?thesis using hd_dropWhile by metis
  qed
  have "dropWhile is_space ?t = ?t"
    using hd dropWhile_eq_self_iff by blast
  then show ?thesis by (simp add: trim_space_def dropWhile_idem)
qed

lemma join_nil_iff [simp]: "\<forall>w\<in>set ws. word w \<Longrightarrow> join sep ws = [] \<longleftrightarrow> ws = []"
  by (induction sep ws rule: join.induct) (auto simp: word_def)

lemma map_join: "map f (join sep ws) = join (map f sep) (map (map f) ws)"
  by (induction sep ws rule: join.induct) auto

lemma to_upper_idem [simp]: "to_upper (to_upper s) = to_upper s"
  by (simp add: to_upper_def o_def)

lemma to_lower_idem [simp]: "to_lower (to_lower s) = to_lower s"
  by (simp add: to_lower_def o_def)

lemma to_upper_nil [simp]: "to_upper s = [] \<longleftrightarrow> s = []"
  by (simp add: to_upper_def)

lemma to_lower_nil [simp]: "to_lower s = [] \<longleftrightarrow> s = []"
  by (simp add: to_lower_def)

lemma str_fields_from_map:
  assumes "\<And>c. is_space (f c) = is_space c"
  shows "str_fields_from (map f w) (map f s) = map (map f) (str_fields_from w s)"
proof (induction w s rule: str_fields_from.induct)
  case (2 w c cs)
  then show ?case
    using "2.IH"(3) by (cases "is_space c") (auto simp: assms)
qed auto

lemma str_fields_upper: "str_fields (to_upper s) = map to_upper (str_fields s)"
  using str_fields_from_map [of upper_char "[]" s] by (simp add: str_fields_def to_upper_def)

lemma str_fields_lower: "str_fields (to_lower s) = map to_lower (str_fields s)"
  using str_fields_from_map [of lower_char "[]" s] by (simp add: str_fields_def to_lower_def)

lemma trim_upper: "trim_space (to_upper s) = to_upper (trim_space s)"
  by (simp add: trim_space_def to_upper_def dropWhile_map rev_map o_def)

lemma trim_lower: "trim_space (to_lower s) = to_lower (trim_space s)"
  by (simp add: trim_space_def to_lower_def dropWhile_map rev_map o_def)

lemma word_upper [simp]: "word (to_upper w) = word w"
  by (auto simp: word_def to_upper_def)

lemma word_lower [simp]: "word (to_lower w) = word w"
  by (auto simp: word_def to_lower_def)

lemma split_at_no_sep: "sep \<notin> set s \<Longrightarrow> split_at sep s = [s]"
  by (induction s) auto

lemma split_at_ne [simp]: "split_at sep s \<noteq> []"
  by (induction s) (auto split: list.splits)

lemma split_at_append: "sep \<notin> set a \<Longrightarrow> split_at sep (a @ sep # b) = a # split_at sep b"
  by (induction a) auto

lemma has_prefix_iff: "has_prefix s p \<longleftrightarrow> (\<exists>r. s = p @ r)"
  by (induction s p rule: has_prefix.induct) auto

section \<open>Decimal numerals\<close>

definition digit_char :: "nat \<Rightarrow> char" where
  "digit_char d = char_of (48 + d)"

fun show_nat :: "nat \<Rightarrow> gstring" where
  "show_nat n = (if n < 10 then [digit_char n] else show_nat (n div 10) @ [digit_char (n mod 10)])"

declare show_nat.simps [simp del]

definition show_int :: "int \<Rightarrow> gstring" where
  "show_int i = (if i < 0 then CHR ''-'' # show_nat (nat (- i)) else show_nat (nat i))"

definition read_nat :: "gstring \<Rightarrow> nat" where
  "read_nat s = foldl (\<lambda>n c. 10 * n + (of_char c - 48)) 0 s"

lemma read_show_nat: "read_nat (show_nat n) = n"
proof (induction n rule: show_nat.induct)
  case (1 n)
  show ?case
  proof (cases "n < 10")
    case True
    then show ?thesis by (subst show_nat.simps) (simp add: read_nat_def digit_char_def)
  next
    case False
    with "1.IH" have "read_nat (show_nat (n div 10)) = n div 10" by simp
    with False show ?thesis
      by (subst show_nat.simps) (simp add: read_nat_def digit_char_def)
  qed
qed

lemma show_nat_inj: "show_nat m = show_nat n \<longleftrightarrow> m = n"
  by (metis read_show_nat)

lemma show_nat_digits: "c \<in> set (show_nat n) \<Longrightarrow> (48::nat) \<le> of_char c \<and> (of_char c :: nat) \<le> 57"
proof (induction n rule: show_nat.induct)
  case (1 n)
  show ?case
  proof (cases "n < 10")
    case True
    with "1.prems" show ?thesis by (subst (asm) show_nat.simps) (simp add: digit_char_def)
  next
    case False
    have "n mod 10 < 10" by simp
    then have "(of_char (digit_char (n mod 10)) :: nat) \<in> {48..57}"
      by (simp add: digit_char_def)
    with "1.prems" "1.IH" False show ?thesis by (subst (asm) show_nat.simps) auto
  qed
qed

lemma colon_not_digit: "CHR '':'' \<notin> set (show_nat n)"
  using show_nat_digits [of "CHR '':''" n] by auto

lemma show_nat_nonempty [simp]: "show_nat n \<noteq> []"
  by (subst show_nat.simps) simp

lemma byte_len_append [simp]: "byte_len (a @ b) = byte_len a + byte_len b"
  by (simp add: byte_len_def)

lemma byte_len_pos: "s \<noteq> [] \<Longrightarrow> 0 < byte_len s"
  by (cases s) (auto simp: byte_len_def)

section \<open>Results\<close>

text \<open>
  A Go function returning \<^verbatim>\<open>(T, error)\<close> is a function into \<open>'e + 'a\<close>: \<open>Inl\<close> the error,
  \<open>Inr\<close> the value. \<open>bindr\<close> is the \<^verbatim>\<open>if err != nil { return err }\<close> step, \<open>mapr\<close> the loop
  that appends one result per element and returns at the first error, \<open>first_error\<close> the
  loop that only checks.
\<close>

definition bindr :: "'e + 'a \<Rightarrow> ('a \<Rightarrow> 'e + 'b) \<Rightarrow> 'e + 'b" where
  "bindr m f = (case m of Inl e \<Rightarrow> Inl e | Inr x \<Rightarrow> f x)"

lemma bindr_simps [simp]: "bindr (Inl e) f = Inl e" "bindr (Inr x) f = f x"
  by (simp_all add: bindr_def)

lemma bindr_Inr_iff [result_elims]: "bindr m f = Inr y \<longleftrightarrow> (\<exists>x. m = Inr x \<and> f x = Inr y)"
  by (cases m) auto

lemma bindr_Inl_iff: "bindr m f = Inl e \<longleftrightarrow> m = Inl e \<or> (\<exists>x. m = Inr x \<and> f x = Inl e)"
  by (cases m) auto

lemma bindr_cong [fundef_cong]:
  "m = m' \<Longrightarrow> (\<And>x. m' = Inr x \<Longrightarrow> f x = f' x) \<Longrightarrow> bindr m f = bindr m' f'"
  by (cases m') auto

lemma bindr_Inr_right [simp]: "bindr m Inr = m"
  by (cases m) auto

definition ok :: "'e + 'a \<Rightarrow> bool" where
  "ok r \<longleftrightarrow> (case r of Inl _ \<Rightarrow> False | Inr _ \<Rightarrow> True)"

lemma ok_simps [simp]: "ok (Inl e) = False" "ok (Inr x) = True"
  by (simp_all add: ok_def)

lemma ok_iff: "ok r \<longleftrightarrow> (\<exists>x. r = Inr x)"
  by (cases r) auto

lemma ok_bindr [simp]: "ok (bindr m f) \<longleftrightarrow> (\<exists>x. m = Inr x \<and> ok (f x))"
  by (cases m) auto

fun mapr :: "('a \<Rightarrow> 'e + 'b) \<Rightarrow> 'a list \<Rightarrow> 'e + 'b list" where
  "mapr f [] = Inr []"
| "mapr f (x # xs) = bindr (f x) (\<lambda>y. bindr (mapr f xs) (\<lambda>ys. Inr (y # ys)))"

lemma mapr_Inr_iff: "mapr f xs = Inr ys \<longleftrightarrow> list_all2 (\<lambda>x y. f x = Inr y) xs ys"
  by (induction xs arbitrary: ys) (auto simp: bindr_Inr_iff list_all2_Cons1)

lemma mapr_cong [fundef_cong]:
  "xs = ys \<Longrightarrow> (\<And>x. x \<in> set ys \<Longrightarrow> f x = g x) \<Longrightarrow> mapr f xs = mapr g ys"
  by (induction ys arbitrary: xs) auto

text \<open>A loop that normalises each element and checks the result.\<close>

lemma mapr_canonical:
  assumes "\<And>x y. f x = Inr y \<longleftrightarrow> y = g x \<and> P y"
  shows "mapr f xs = Inr ys \<longleftrightarrow> ys = map g xs \<and> list_all P ys"
proof (induction xs arbitrary: ys)
  case (Cons x xs)
  show ?case by (cases ys) (auto simp: bindr_Inr_iff assms Cons.IH)
qed auto

fun first_error :: "('a \<Rightarrow> 'e option) \<Rightarrow> 'a list \<Rightarrow> 'e option" where
  "first_error f [] = None"
| "first_error f (x # xs) = (case f x of Some e \<Rightarrow> Some e | None \<Rightarrow> first_error f xs)"

lemma first_error_None_iff [simp]: "first_error f xs = None \<longleftrightarrow> (\<forall>x\<in>set xs. f x = None)"
  by (induction xs) (auto split: option.splits)

lemma first_error_Some: "first_error f xs = Some e \<Longrightarrow> \<exists>x\<in>set xs. f x = Some e"
  by (induction xs) (auto split: option.splits)

definition check :: "'e option \<Rightarrow> ('e + 'a) \<Rightarrow> 'e + 'a" where
  "check c r = (case c of Some e \<Rightarrow> Inl e | None \<Rightarrow> r)"

lemma check_simps [simp]: "check None r = r" "check (Some e) r = Inl e"
  by (simp_all add: check_def)

lemma check_Inr_iff [result_elims]: "check c r = Inr y \<longleftrightarrow> c = None \<and> r = Inr y"
  by (cases c) auto

lemma ok_check [simp]: "ok (check c r) \<longleftrightarrow> c = None \<and> ok r"
  by (cases c) auto

section \<open>Go maps\<close>

text \<open>
  A Go map is an association list with distinct keys. \<^verbatim>\<open>range\<close> visits the keys once each in
  an order the language leaves open: the definitions that iterate a map take that order as
  the argument \<open>rng\<close>, of which only \<open>range_ok\<close> is ever assumed.
\<close>

type_synonym ('k, 'v) gmap = "('k \<times> 'v) list"

definition gput :: "'k \<Rightarrow> 'v \<Rightarrow> ('k, 'v) gmap \<Rightarrow> ('k, 'v) gmap" where
  "gput k v m = AList.update k v m"

definition gdel :: "'k \<Rightarrow> ('k, 'v) gmap \<Rightarrow> ('k, 'v) gmap" where
  "gdel k m = AList.delete k m"

definition gkeys :: "('k, 'v) gmap \<Rightarrow> 'k list" where
  "gkeys m = map fst m"

lemma map_of_gput [simp]: "map_of (gput k v m) = (map_of m)(k \<mapsto> v)"
  by (simp add: gput_def update_conv')

lemma map_of_gdel [simp]: "map_of (gdel k m) = (map_of m)(k := None)"
  by (simp add: gdel_def delete_conv')

lemma distinct_gput [simp]: "distinct (gkeys m) \<Longrightarrow> distinct (gkeys (gput k v m))"
  unfolding gkeys_def gput_def by (rule distinct_update)

lemma distinct_gdel [simp]: "distinct (gkeys m) \<Longrightarrow> distinct (gkeys (gdel k m))"
  unfolding gkeys_def gdel_def by (rule distinct_delete)

lemma set_gkeys: "set (gkeys m) = dom (map_of m)"
  by (simp add: gkeys_def dom_map_of_conv_image_fst)

lemma gkeys_Nil [simp]: "gkeys [] = []"
  by (simp add: gkeys_def)

type_synonym range_order = "gstring list \<Rightarrow> gstring list"

definition range_ok :: "range_order \<Rightarrow> bool" where
  "range_ok rng \<longleftrightarrow> (\<forall>ks. mset (rng ks) = mset ks)"

lemma range_ok_set [simp]: "range_ok rng \<Longrightarrow> set (rng ks) = set ks"
  unfolding range_ok_def by (metis set_mset_mset)

lemma range_ok_id: "range_ok (\<lambda>ks. ks)" "range_ok rev"
  by (simp_all add: range_ok_def)

section \<open>Canonical forms\<close>

text \<open>
  Every lookup of the catalog compares keys through a canonical form. The contract of such
  a form is that it is a projection; the clients need that a stored canonical key compares
  like the raw one.
\<close>

locale canonicalizer =
  fixes canon :: "gstring \<Rightarrow> gstring"
  assumes canon_idem: "canon (canon s) = canon s"
begin

definition same_key :: "gstring \<Rightarrow> gstring \<Rightarrow> bool" where
  "same_key a b \<longleftrightarrow> canon a = canon b"

lemma same_key_equiv: "equivp same_key"
  by (auto intro!: equivpI reflpI sympI transpI simp: same_key_def)

lemma same_key_canon: "same_key (canon a) b \<longleftrightarrow> same_key a b"
  by (simp add: same_key_def canon_idem)

lemma lookup_canon: "(\<exists>r\<in>set rs. canon (key r) = canon (canon k)) \<longleftrightarrow> (\<exists>r\<in>set rs. canon (key r) = canon k)"
  by (simp add: canon_idem)

lemma canon_image: "canon s \<in> range canon \<and> (t \<in> range canon \<longleftrightarrow> canon t = t)"
  by (auto simp: canon_idem) (metis range_eqI)

end

end
