(* ===== verification/Errors.thy ===== *)
theory Errors
  imports GoPrelude
begin

text \<open>
  Go error values and the neutral error boundary (\<^verbatim>\<open>internal/core/errors.go\<close>,
  \<^verbatim>\<open>internal/domain/core_errors.go\<close> and the sentinels the packages declare).

  An error is a tree: a package-level sentinel, an error made by \<^verbatim>\<open>errors.New\<close> at a call
  site, the wrapping of \<^verbatim>\<open>fmt.Errorf\<close> (format, rendered-argument texts, the errors of its
  \<^verbatim>\<open>%w\<close> verbs), \<^verbatim>\<open>errors.Join\<close>, a field validation error of the supplier or purchase
  module, or a neutral core error. Message rendering is not modelled, the tree is.
  \<open>Panic\<close> is no error value: it marks a run-time panic (a nil dereference), which no caller
  recovers from.
\<close>

section \<open>Sentinels\<close>

datatype (plugins only: code size) domain_err =
    ErrResourceValidation | ErrResourceReference | ErrDuplicateResource | ErrResourceNotFound
  | ErrResourceIntegrity | ErrInvalidSearch | ErrResourceRevisionConflict
  | ErrIdentityConflict | ErrInvalidLifecycle | ErrReactivationImpossible
  | ErrInvalidCatalog | ErrAttributeOrderRevisionConflict | ErrAttributeOrderUnavailable
  | ErrCatalogKindUnknown | ErrCatalogRecordNotFound | ErrSoftDeleteUnsupported
  | ErrMutationOpUnknown | ErrCatalogDuplicate | ErrCatalogReference | ErrCatalogInUse
  | ErrCodeImmutable

datatype (plugins only: code size) app_err =
    CoreErrInvalidArgument | CoreErrUnavailable | RecursosErrInvalidArgument
  | ErrAttributeOrderStoreUnavailable | ErrCatalogAdminRepositoryV2Unavailable
  | ErrCatalogWriteIndeterminate | ErrCatalogWriterUnavailable | ContextCanceled
  | ContextDeadlineExceeded

datatype (plugins only: code size) supplier_err =
    SupErrValidation | SupErrNotFound | SupErrConflict | ErrSupplierNotFound
  | ErrBranchNotFound | ErrContactNotFound | ErrTaxIdentifierConflict | ErrBranchOwnership

datatype (plugins only: code size) purchase_err =
    PurErrValidation | PurErrNotFound | PurErrConflict | ErrPurchaseNotFound
  | ErrPurchaseLineNotFound | ErrSupplierProductNotFound | ErrPurchaseConflict
  | ErrInvalidMappingTransition | ErrStaleMappingRevision | ErrInvalidDecisionMetadata
  | ErrCommercialSupplierSKURequired | ErrCommercialSupplierSKUForbidden
  | ErrPurchaseLineStateConflict | ErrStaleResolutionRevision | ErrMappingTargetConflict
  | ErrPurchaseIntegrityConflict | PurErrResourceNotFound | PurErrResourceInactive
  | ErrCommitAmbiguous

datatype (plugins only: code size) sentinel =
    Dom domain_err | App app_err | Sup supplier_err | Pur purchase_err

text \<open>The package-level \<^verbatim>\<open>fmt.Errorf("%w: ...", X)\<close> values and what they wrap.\<close>

definition core_wraps :: "sentinel \<Rightarrow> sentinel option" where
  "core_wraps s = (
     if s = Dom ErrIdentityConflict then Some (Dom ErrResourceIntegrity) else
     None)"

definition catalogo_wraps :: "sentinel \<Rightarrow> sentinel option" where
  "catalogo_wraps s = (
     if s = App ErrCatalogAdminRepositoryV2Unavailable then Some (App CoreErrUnavailable) else
     if s = App ErrCatalogWriteIndeterminate then Some (App CoreErrUnavailable) else
     if s = App ErrCatalogWriterUnavailable then Some (App CoreErrUnavailable) else
     None)"

definition recursos_wraps :: "sentinel \<Rightarrow> sentinel option" where
  "recursos_wraps s = (
     if s = App ErrAttributeOrderStoreUnavailable then Some (App CoreErrUnavailable) else
     None)"

definition supplier_wraps :: "sentinel \<Rightarrow> sentinel option" where
  "supplier_wraps s = (
     if s = Sup ErrSupplierNotFound then Some (Sup SupErrNotFound) else
     if s = Sup ErrBranchNotFound then Some (Sup SupErrNotFound) else
     if s = Sup ErrContactNotFound then Some (Sup SupErrNotFound) else
     if s = Sup ErrTaxIdentifierConflict then Some (Sup SupErrConflict) else
     if s = Sup ErrBranchOwnership then Some (Sup SupErrValidation) else
     None)"

definition purchase_wraps :: "sentinel \<Rightarrow> sentinel option" where
  "purchase_wraps s = (
     if s = Pur ErrPurchaseNotFound then Some (Pur PurErrNotFound) else
     if s = Pur ErrPurchaseLineNotFound then Some (Pur PurErrNotFound) else
     if s = Pur ErrSupplierProductNotFound then Some (Pur PurErrNotFound) else
     if s = Pur ErrPurchaseConflict then Some (Pur PurErrConflict) else
     None)"

definition sentinel_wraps :: "sentinel \<Rightarrow> sentinel option" where
  "sentinel_wraps s = (case core_wraps s of Some t \<Rightarrow> Some t | None \<Rightarrow>
     (case catalogo_wraps s of Some t \<Rightarrow> Some t | None \<Rightarrow>
     (case recursos_wraps s of Some t \<Rightarrow> Some t | None \<Rightarrow>
     (case supplier_wraps s of Some t \<Rightarrow> Some t | None \<Rightarrow> purchase_wraps s))))"

lemmas wraps_simps = sentinel_wraps_def core_wraps_def catalogo_wraps_def recursos_wraps_def
  supplier_wraps_def purchase_wraps_def

section \<open>Neutral errors\<close>

datatype error_code =
    InvalidArgument | NotFound | Duplicate | InvalidReference | Validation | Integrity
  | IdentityConflict | InvalidLifecycle | ReactivationImpossible | InvalidCatalog | InUse
  | ImmutableCode | Conflict | Unavailable | Internal

fun messages :: "error_code \<Rightarrow> gstring" where
  "messages InvalidArgument = ''the request argument is invalid''"
| "messages NotFound = ''the requested record was not found''"
| "messages Duplicate = ''the record already exists''"
| "messages InvalidReference = ''the referenced record is invalid''"
| "messages Validation = ''the request failed validation''"
| "messages Integrity = ''a persistence integrity failure occurred''"
| "messages IdentityConflict = ''the resource identity conflicts with the canonical identity''"
| "messages InvalidLifecycle = ''the operation is forbidden by the current lifecycle state''"
| "messages ReactivationImpossible = ''the retained record cannot be reactivated under the current authority''"
| "messages InvalidCatalog = ''the catalog authority is invalid''"
| "messages InUse = ''the record is still in use''"
| "messages ImmutableCode = ''the code cannot be changed''"
| "messages Conflict = ''the expected revision conflicts with the current state''"
| "messages Unavailable = ''the service is temporarily unavailable''"
| "messages Internal = ''an internal error occurred''"

text \<open>\<open>None\<close> is the zero \<^verbatim>\<open>Error{}\<close> that \<^verbatim>\<open>Map(nil)\<close> returns.\<close>

datatype core_error = CoreError (core_code: error_code) (core_message: gstring)

datatype go_error =
    Sentinel sentinel
  | ErrNew gstring
  | Wrapf gstring "gstring list" "go_error list"
  | Joined "go_error list"
  | SupFieldError gstring gstring
  | PurFieldError gstring gstring
  | Core core_error
  | Panic gstring

text \<open>\<^verbatim>\<open>errors.Is(err, target)\<close> for a sentinel target: a depth-first walk of the tree.\<close>

fun error_is :: "go_error \<Rightarrow> sentinel \<Rightarrow> bool" where
  "error_is (Sentinel s) t \<longleftrightarrow> s = t \<or> sentinel_wraps s = Some t"
| "error_is (ErrNew m) t \<longleftrightarrow> False"
| "error_is (Wrapf f args es) t \<longleftrightarrow> (\<exists>e\<in>set es. error_is e t)"
| "error_is (Joined es) t \<longleftrightarrow> (\<exists>e\<in>set es. error_is e t)"
| "error_is (SupFieldError f m) t \<longleftrightarrow> t = Sup SupErrValidation"
| "error_is (PurFieldError f m) t \<longleftrightarrow> t = Pur PurErrValidation"
| "error_is (Core c) t \<longleftrightarrow> False"
| "error_is (Panic m) t \<longleftrightarrow> False"

text \<open>\<^verbatim>\<open>errors.As(err, &e)\<close> with \<^verbatim>\<open>e\<close> a neutral error: the first one in the same walk.\<close>

fun error_as_core :: "go_error \<Rightarrow> core_error option"
  and error_as_core_list :: "go_error list \<Rightarrow> core_error option" where
  "error_as_core (Core c) = Some c"
| "error_as_core (Wrapf f args es) = error_as_core_list es"
| "error_as_core (Joined es) = error_as_core_list es"
| "error_as_core (Sentinel s) = None"
| "error_as_core (ErrNew m) = None"
| "error_as_core (SupFieldError f m) = None"
| "error_as_core (PurFieldError f m) = None"
| "error_as_core (Panic m) = None"
| "error_as_core_list [] = None"
| "error_as_core_list (e # es) =
     (case error_as_core e of Some c \<Rightarrow> Some c | None \<Rightarrow> error_as_core_list es)"

definition core_new :: "error_code \<Rightarrow> core_error" where
  "core_new c = CoreError c (messages c)"

definition core_map :: "go_error option \<Rightarrow> core_error option" where
  "core_map err = (case err of None \<Rightarrow> None | Some e \<Rightarrow> Some
     (case error_as_core e of Some c \<Rightarrow> c | None \<Rightarrow>
       if error_is e (Dom ErrResourceRevisionConflict) then core_new Conflict
       else if error_is e (Dom ErrAttributeOrderRevisionConflict) then core_new Conflict
       else if error_is e (Dom ErrIdentityConflict) then core_new IdentityConflict
       else if error_is e (Dom ErrReactivationImpossible) then core_new ReactivationImpossible
       else if error_is e (Dom ErrInvalidCatalog) then core_new InvalidCatalog
       else if error_is e (Dom ErrInvalidLifecycle) then core_new InvalidLifecycle
       else if error_is e (Dom ErrCodeImmutable) then core_new ImmutableCode
       else if error_is e (Dom ErrCatalogInUse) then core_new InUse
       else if error_is e (Dom ErrResourceIntegrity) then core_new Integrity
       else if error_is e (Dom ErrResourceValidation) then core_new Validation
       else if error_is e (Dom ErrCatalogDuplicate) \<or> error_is e (Dom ErrDuplicateResource) then core_new Duplicate
       else if error_is e (Dom ErrCatalogReference) \<or> error_is e (Dom ErrResourceReference) then core_new InvalidReference
       else if error_is e (Dom ErrCatalogRecordNotFound) \<or> error_is e (Dom ErrResourceNotFound) then core_new NotFound
       else if error_is e (App CoreErrInvalidArgument) then core_new InvalidArgument
       else if error_is e (Dom ErrAttributeOrderUnavailable) then core_new Unavailable
       else if error_is e (App CoreErrUnavailable) \<or> error_is e (App ContextCanceled) \<or> error_is e (App ContextDeadlineExceeded)
         then core_new Unavailable
       else core_new Internal))"

definition core_code_of :: "go_error option \<Rightarrow> error_code option" where
  "core_code_of err = map_option core_code (core_map err)"

definition wrap_reactivation_impossible :: "go_error option \<Rightarrow> go_error option" where
  "wrap_reactivation_impossible reason = (case reason of None \<Rightarrow> None
     | Some e \<Rightarrow> Some (Wrapf ''%w: %w'' [] [Sentinel (Dom ErrReactivationImpossible), e]))"

definition wrap_invalid_catalog :: "go_error option \<Rightarrow> go_error option" where
  "wrap_invalid_catalog reason = (case reason of None \<Rightarrow> None
     | Some e \<Rightarrow> Some (Wrapf ''%w: %w'' [] [Sentinel (Dom ErrInvalidCatalog), e]))"

text \<open>\<^verbatim>\<open>validation(format, args...)\<close> and \<^verbatim>\<open>validationReference(format, args...)\<close> of the domain.\<close>

definition validation :: "gstring \<Rightarrow> gstring list \<Rightarrow> go_error" where
  "validation format args = Wrapf format args [Sentinel (Dom ErrResourceValidation)]"

definition validation_reference :: "gstring \<Rightarrow> gstring list \<Rightarrow> go_error" where
  "validation_reference format args = Wrapf format args [Sentinel (Dom ErrResourceReference)]"

end
