(* ===== verification/CatalogTypes.thy ===== *)
theory CatalogTypes
  imports Errors
begin

text \<open>
  The data of the Resource Master domain (\<^verbatim>\<open>internal/domain/resource_types.go\<close>,
  \<^verbatim>\<open>resource_class.go\<close>, \<^verbatim>\<open>resource_scope.go\<close>, the struct declarations of
  \<^verbatim>\<open>resource_catalog_validate.go\<close>). Record fields carry a prefix per struct. Go's string
  types with named constants (value types, modes) stay strings, so that the default branch
  of a switch exists. Decimals come from a third-party package: their type is the
  parameter \<open>'d\<close> and their operations the record \<open>decimal_ops\<close>.
\<close>

section \<open>Decimals\<close>

record 'd decimal_ops =
  dec_parse :: "gstring \<Rightarrow> 'd option"
  dec_zero :: 'd
  dec_string :: "'d \<Rightarrow> gstring"
  dec_is_negative :: "'d \<Rightarrow> bool"
  dec_is_zero :: "'d \<Rightarrow> bool"
  dec_equal :: "'d \<Rightarrow> 'd \<Rightarrow> bool"
  dec_add :: "'d \<Rightarrow> 'd \<Rightarrow> 'd"

section \<open>Value types and modes\<close>

definition ValueTypeControlledOption :: gstring where "ValueTypeControlledOption = ''CONTROLLED_OPTION''"
definition ValueTypeInteger :: gstring where "ValueTypeInteger = ''INTEGER''"
definition ValueTypeDecimal :: gstring where "ValueTypeDecimal = ''DECIMAL''"
definition ValueTypeQuantity :: gstring where "ValueTypeQuantity = ''QUANTITY''"
definition ValueTypeBoolean :: gstring where "ValueTypeBoolean = ''BOOLEAN''"
definition ValueTypeControlledText :: gstring where "ValueTypeControlledText = ''CONTROLLED_TEXT''"

definition ModeRequired :: gstring where "ModeRequired = ''REQUIRED''"
definition ModeOptional :: gstring where "ModeOptional = ''OPTIONAL''"
definition ModeConditional :: gstring where "ModeConditional = ''CONDITIONAL''"
definition ModeForbidden :: gstring where "ModeForbidden = ''FORBIDDEN''"

definition NotApplicableText :: gstring where "NotApplicableText = ''NOT_APPLICABLE''"

lemmas value_type_defs = ValueTypeControlledOption_def ValueTypeInteger_def ValueTypeDecimal_def ValueTypeQuantity_def ValueTypeBoolean_def ValueTypeControlledText_def
lemmas mode_defs = ModeRequired_def ModeOptional_def ModeConditional_def ModeForbidden_def

lemma value_type_distinct [simp]:
  "ValueTypeControlledOption \<noteq> ValueTypeInteger"
  "ValueTypeControlledOption \<noteq> ValueTypeDecimal"
  "ValueTypeControlledOption \<noteq> ValueTypeQuantity"
  "ValueTypeControlledOption \<noteq> ValueTypeBoolean"
  "ValueTypeControlledOption \<noteq> ValueTypeControlledText"
  "ValueTypeInteger \<noteq> ValueTypeControlledOption"
  "ValueTypeInteger \<noteq> ValueTypeDecimal"
  "ValueTypeInteger \<noteq> ValueTypeQuantity"
  "ValueTypeInteger \<noteq> ValueTypeBoolean"
  "ValueTypeInteger \<noteq> ValueTypeControlledText"
  "ValueTypeDecimal \<noteq> ValueTypeControlledOption"
  "ValueTypeDecimal \<noteq> ValueTypeInteger"
  "ValueTypeDecimal \<noteq> ValueTypeQuantity"
  "ValueTypeDecimal \<noteq> ValueTypeBoolean"
  "ValueTypeDecimal \<noteq> ValueTypeControlledText"
  "ValueTypeQuantity \<noteq> ValueTypeControlledOption"
  "ValueTypeQuantity \<noteq> ValueTypeInteger"
  "ValueTypeQuantity \<noteq> ValueTypeDecimal"
  "ValueTypeQuantity \<noteq> ValueTypeBoolean"
  "ValueTypeQuantity \<noteq> ValueTypeControlledText"
  "ValueTypeBoolean \<noteq> ValueTypeControlledOption"
  "ValueTypeBoolean \<noteq> ValueTypeInteger"
  "ValueTypeBoolean \<noteq> ValueTypeDecimal"
  "ValueTypeBoolean \<noteq> ValueTypeQuantity"
  "ValueTypeBoolean \<noteq> ValueTypeControlledText"
  "ValueTypeControlledText \<noteq> ValueTypeControlledOption"
  "ValueTypeControlledText \<noteq> ValueTypeInteger"
  "ValueTypeControlledText \<noteq> ValueTypeDecimal"
  "ValueTypeControlledText \<noteq> ValueTypeQuantity"
  "ValueTypeControlledText \<noteq> ValueTypeBoolean"
  by (simp_all add: value_type_defs)

lemma mode_distinct [simp]:
  "ModeRequired \<noteq> ModeOptional"
  "ModeRequired \<noteq> ModeConditional"
  "ModeRequired \<noteq> ModeForbidden"
  "ModeOptional \<noteq> ModeRequired"
  "ModeOptional \<noteq> ModeConditional"
  "ModeOptional \<noteq> ModeForbidden"
  "ModeConditional \<noteq> ModeRequired"
  "ModeConditional \<noteq> ModeOptional"
  "ModeConditional \<noteq> ModeForbidden"
  "ModeForbidden \<noteq> ModeRequired"
  "ModeForbidden \<noteq> ModeOptional"
  "ModeForbidden \<noteq> ModeConditional"
  by (simp_all add: mode_defs)

type_synonym revision = "64 word"

section \<open>Catalog rows\<close>

record resource_class =
  rc_code :: gstring
  rc_name :: gstring
  rc_plural :: gstring
  rc_slug :: gstring
  rc_aliases :: "gstring list"
  rc_keywords :: "gstring list"
  rc_order :: int
  rc_active :: bool

record resource_family =
  rf_class :: gstring
  rf_code :: gstring
  rf_name :: gstring
  rf_active :: bool

record resource_type =
  rt_class :: gstring
  rt_family :: gstring
  rt_code :: gstring
  rt_name :: gstring
  rt_active :: bool

record presentation_field =
  pf_class :: gstring
  pf_family :: gstring
  pf_type :: gstring
  pf_attribute :: gstring
  pf_position :: int
  pf_active :: bool

record unit_definition =
  ud_code :: gstring
  ud_name :: gstring
  ud_symbol :: gstring
  ud_dimension :: gstring
  ud_active :: bool

record resource_unit_policy =
  up_class :: gstring
  up_family :: gstring
  up_unit :: gstring
  up_allowed :: bool
  up_suggested :: bool
  up_active :: bool

record attribute_definition =
  ad_code :: gstring
  ad_name :: gstring
  ad_value_type :: gstring
  ad_dimension :: gstring
  ad_default_identity :: bool
  ad_active :: bool

record attribute_condition =
  when_attribute :: gstring
  when_equals :: gstring

record attribute_rule =
  ar_when :: attribute_condition
  ar_mode :: gstring
  ar_identity :: bool
  ar_not_applicable :: bool
  ar_active :: bool

record resource_attribute =
  ra_class :: gstring
  ra_family :: gstring
  ra_type :: gstring
  ra_option_set :: gstring
  ra_definition :: attribute_definition
  ra_mode :: gstring
  ra_identity :: bool
  ra_rules :: "attribute_rule list"
  ra_active :: bool

record attribute_option =
  ao_set :: gstring
  ao_attribute :: gstring
  ao_code :: gstring
  ao_label :: gstring
  ao_active :: bool

record attribute_option_relation =
  rel_set :: gstring
  rel_from_attribute :: gstring
  rel_from_option :: gstring
  rel_to_attribute :: gstring
  rel_to_option :: gstring
  rel_active :: bool

record resource_option_set =
  os_code :: gstring
  os_name :: gstring
  os_active :: bool

record resource_catalog =
  cat_classes :: "resource_class list"
  cat_families :: "resource_family list"
  cat_types :: "resource_type list"
  cat_presentation :: "presentation_field list"
  cat_units :: "unit_definition list"
  cat_unit_policies :: "resource_unit_policy list"
  cat_definitions :: "attribute_definition list"
  cat_attributes :: "resource_attribute list"
  cat_options :: "attribute_option list"
  cat_relations :: "attribute_option_relation list"
  cat_option_sets :: "resource_option_set list"

section \<open>Resources\<close>

record 'd quantity =
  q_value :: 'd
  q_unit :: gstring

record 'd attr_value =
  av_code :: gstring
  av_type :: gstring
  av_option :: gstring
  av_integer :: "int option"
  av_decimal :: "'d option"
  av_quantity :: "'d quantity option"
  av_boolean :: "bool option"
  av_text :: gstring

record resource_scope =
  sc_class :: gstring
  sc_family :: gstring
  sc_type :: gstring

record 'd resource =
  r_id :: int
  r_class :: gstring
  r_family :: gstring
  r_type :: gstring
  r_unit :: gstring
  r_attributes :: "'d attr_value list"
  r_identity :: gstring
  r_revision :: revision
  r_active :: bool
  r_canonical :: bool

record 'd resource_snapshot =
  sn_id :: int
  sn_class :: gstring
  sn_family :: gstring
  sn_type :: gstring
  sn_unit :: gstring
  sn_attributes :: "'d attr_value list"
  sn_identity :: gstring
  sn_revision :: revision
  sn_active :: bool

definition empty_value :: "'d attr_value" where
  "empty_value = \<lparr>av_code = [], av_type = [], av_option = [], av_integer = None, av_decimal = None,
     av_quantity = None, av_boolean = None, av_text = []\<rparr>"

definition option_value :: "gstring \<Rightarrow> gstring \<Rightarrow> 'd attr_value" where
  "option_value attribute opt =
     empty_value\<lparr>av_code := attribute, av_type := ValueTypeControlledOption, av_option := opt\<rparr>"

definition quantity_value :: "'d decimal_ops \<Rightarrow> gstring \<Rightarrow> gstring \<Rightarrow> gstring \<Rightarrow> 'd attr_value" where
  "quantity_value D attribute v unit =
     (let parsed = (case dec_parse D v of Some d \<Rightarrow> d | None \<Rightarrow> dec_zero D)
      in empty_value\<lparr>av_code := attribute, av_type := ValueTypeQuantity,
           av_quantity := Some \<lparr>q_value = parsed, q_unit = unit\<rparr>\<rparr>)"

definition integer_value :: "gstring \<Rightarrow> int \<Rightarrow> 'd attr_value" where
  "integer_value attribute v =
     empty_value\<lparr>av_code := attribute, av_type := ValueTypeInteger, av_integer := Some v\<rparr>"

definition decimal_value :: "'d decimal_ops \<Rightarrow> gstring \<Rightarrow> gstring \<Rightarrow> 'd attr_value" where
  "decimal_value D attribute v =
     (let parsed = (case dec_parse D v of Some d \<Rightarrow> d | None \<Rightarrow> dec_zero D)
      in empty_value\<lparr>av_code := attribute, av_type := ValueTypeDecimal, av_decimal := Some parsed\<rparr>)"

definition boolean_value :: "gstring \<Rightarrow> bool \<Rightarrow> 'd attr_value" where
  "boolean_value attribute v =
     empty_value\<lparr>av_code := attribute, av_type := ValueTypeBoolean, av_boolean := Some v\<rparr>"

definition controlled_text_value :: "gstring \<Rightarrow> gstring \<Rightarrow> 'd attr_value" where
  "controlled_text_value attribute v =
     empty_value\<lparr>av_code := attribute, av_type := ValueTypeControlledText, av_text := v\<rparr>"

end
