(* ===== verification/Canonical.thy ===== *)
theory Canonical
  imports CatalogTypes
begin

text \<open>
  Canonical forms (\<^verbatim>\<open>internal/domain/resource_canonical.go\<close>, \<^verbatim>\<open>resource_scope.go\<close> and
  \<^verbatim>\<open>canonicalOptionSet\<close>/\<^verbatim>\<open>setKey\<close> of \<^verbatim>\<open>resource_catalog_query.go\<close>): codes, attribute codes,
  option sets, scopes and attribute values, and the identity encoding of
  \<^verbatim>\<open>resource_validation.go\<close>. The lemmas show that each form is a projection (locale
  \<open>canonicalizer\<close>), and that the length-prefixed identity encoding decodes uniquely.
\<close>

section \<open>Codes\<close>

definition canonical :: "gstring \<Rightarrow> gstring" where
  "canonical v = to_upper (join '' '' (str_fields (trim_space v)))"

definition canonical_attribute :: "gstring \<Rightarrow> gstring" where
  "canonical_attribute v = to_lower (join '' '' (str_fields (trim_space v)))"

abbreviation default_option_set :: gstring where "default_option_set \<equiv> ''DEFAULT''"

definition canonical_option_set :: "gstring \<Rightarrow> gstring" where
  "canonical_option_set s = (let s = canonical s in if s = [] then default_option_set else s)"

definition set_key :: "resource_attribute \<Rightarrow> gstring" where
  "set_key a = canonical_option_set (ra_option_set a)"

lemma space_is_space [simp]: "is_space CHR 0x20"
  by (simp add: is_space_def)

lemma str_fields_join_space: "\<forall>w\<in>set ws. word w \<Longrightarrow> str_fields (join '' '' ws) = ws"
  by (rule str_fields_join) auto

lemma canonical_alt: "canonical v = join '' '' (map to_upper (str_fields v))"
proof -
  have "upper_char CHR 0x20 = CHR 0x20" by (simp add: upper_char_def)
  then show ?thesis by (simp add: canonical_def to_upper_def[abs_def] map_join)
qed

lemma canonical_attribute_alt: "canonical_attribute v = join '' '' (map to_lower (str_fields v))"
proof -
  have "lower_char CHR 0x20 = CHR 0x20" by (simp add: lower_char_def)
  then show ?thesis by (simp add: canonical_attribute_def to_lower_def[abs_def] map_join)
qed

lemma str_fields_canonical [simp]: "str_fields (canonical v) = map to_upper (str_fields v)"
  unfolding canonical_alt by (rule str_fields_join_space) (auto dest: str_fields_words)

lemma str_fields_canonical_attribute [simp]: "str_fields (canonical_attribute v) = map to_lower (str_fields v)"
  unfolding canonical_attribute_alt by (rule str_fields_join_space) (auto dest: str_fields_words)

lemma canonical_idem [simp]: "canonical (canonical v) = canonical v"
  by (subst (1 3) canonical_alt) (simp add: o_def)

lemma canonical_attribute_idem [simp]: "canonical_attribute (canonical_attribute v) = canonical_attribute v"
  by (subst (1 3) canonical_attribute_alt) (simp add: o_def)

lemma canonical_trim [simp]: "canonical (trim_space v) = canonical v"
  by (simp add: canonical_alt)

lemma canonical_attribute_trim [simp]: "canonical_attribute (trim_space v) = canonical_attribute v"
  by (simp add: canonical_attribute_alt)

lemma canonical_nil [simp]: "canonical [] = []"
  by (simp add: canonical_alt str_fields_def)

lemma canonical_eq_nil: "canonical v = [] \<longleftrightarrow> trim_space v = []"
proof -
  have "canonical v = [] \<longleftrightarrow> str_fields v = []"
    unfolding canonical_alt by (subst join_nil_iff) (auto dest: str_fields_words)
  then show ?thesis by (simp add: str_fields_nil_iff trim_nil_iff)
qed

lemma canonical_attribute_eq_nil: "canonical_attribute v = [] \<longleftrightarrow> trim_space v = []"
proof -
  have "canonical_attribute v = [] \<longleftrightarrow> str_fields v = []"
    unfolding canonical_attribute_alt by (subst join_nil_iff) (auto dest: str_fields_words)
  then show ?thesis by (simp add: str_fields_nil_iff trim_nil_iff)
qed

lemma canonical_default [simp]: "canonical default_option_set = default_option_set"
  by code_simp

lemma canonical_option_set_idem [simp]:
  "canonical_option_set (canonical_option_set s) = canonical_option_set s"
  by (simp add: canonical_option_set_def Let_def)

lemma canonical_option_set_nonempty [simp]: "canonical_option_set s \<noteq> []"
  by (simp add: canonical_option_set_def Let_def)

interpretation code: canonicalizer canonical
  by unfold_locales simp

interpretation attribute_code: canonicalizer canonical_attribute
  by unfold_locales simp

interpretation option_set: canonicalizer canonical_option_set
  by unfold_locales simp

section \<open>Scopes\<close>

definition canonicalize :: "resource_scope \<Rightarrow> resource_scope" where
  "canonicalize s = \<lparr>sc_class = canonical (sc_class s), sc_family = canonical (sc_family s),
     sc_type = canonical (sc_type s)\<rparr>"

definition scope_matches :: "resource_scope \<Rightarrow> gstring \<Rightarrow> gstring \<Rightarrow> gstring \<Rightarrow> bool" where
  "scope_matches s classCode familyCode typeCode =
     (let scope = canonicalize s in
      if sc_class scope \<noteq> canonical classCode then False
      else if sc_family scope \<noteq> canonical familyCode then False
      else let rowType = canonical typeCode in
        if rowType = [] \<or> sc_type scope = [] then True
        else rowType = sc_type scope)"

lemma canonicalize_simps [simp]:
  "sc_class (canonicalize s) = canonical (sc_class s)"
  "sc_family (canonicalize s) = canonical (sc_family s)"
  "sc_type (canonicalize s) = canonical (sc_type s)"
  by (simp_all add: canonicalize_def)

lemma canonicalize_idem [simp]: "canonicalize (canonicalize s) = canonicalize s"
  by (simp add: canonicalize_def)

lemma scope_matches_canonicalize [simp]:
  "scope_matches (canonicalize s) c f t = scope_matches s c f t"
  by (simp add: scope_matches_def)

lemma scope_matches_iff:
  "scope_matches s c f t \<longleftrightarrow> canonical (sc_class s) = canonical c \<and> canonical (sc_family s) = canonical f
     \<and> (canonical t = [] \<or> canonical (sc_type s) = [] \<or> canonical t = canonical (sc_type s))"
  by (simp add: scope_matches_def Let_def)

section \<open>Values\<close>

definition catalog_option :: "resource_catalog \<Rightarrow> resource_attribute \<Rightarrow> gstring \<Rightarrow> gstring option" where
  "catalog_option c attribute raw =
     (let code = canonical_attribute (ad_code (ra_definition attribute)); set = set_key attribute in
      map_option ao_code
        (find (\<lambda>opt. canonical_attribute (ao_attribute opt) = code \<and>
                     canonical_option_set (ao_set opt) = set \<and> ao_code opt = raw) (cat_options c)))"

definition canonical_value ::
  "'d decimal_ops \<Rightarrow> resource_catalog \<Rightarrow> resource_attribute \<Rightarrow> 'd attr_value \<Rightarrow> go_error + 'd attr_value" where
  "canonical_value D c attribute value =
     (let definition = ra_definition attribute;
          value = value\<lparr>av_code := canonical_attribute (av_code value)\<rparr> in
      if av_type value \<noteq> ad_value_type definition
      then Inl (validation ''attribute %q has type %q, want %q''
                  [av_code value, av_type value, ad_value_type definition])
      else if av_type value = ValueTypeControlledOption then
        (case catalog_option c attribute (av_option value) of
           None \<Rightarrow> Inl (validation ''option %q is invalid for attribute %q'' [av_option value, av_code value])
         | Some opt \<Rightarrow> Inr (value\<lparr>av_option := opt\<rparr>))
      else if av_type value = ValueTypeQuantity then
        (case av_quantity value of
           None \<Rightarrow> Inl (validation ''quantity %q must be positive'' [av_code value])
         | Some q \<Rightarrow>
             if dec_is_negative D (q_value q) \<or> dec_is_zero D (q_value q)
             then Inl (validation ''quantity %q must be positive'' [av_code value])
             else Inr (value\<lparr>av_quantity := Some (q\<lparr>q_unit := canonical (q_unit q)\<rparr>)\<rparr>))
      else if av_type value = ValueTypeInteger then
        (if av_integer value = None then Inl (validation ''integer %q is missing'' [av_code value]) else Inr value)
      else if av_type value = ValueTypeDecimal then
        (case av_decimal value of
           None \<Rightarrow> Inl (validation ''decimal %q is missing'' [av_code value])
         | Some _ \<Rightarrow> Inr value)
      else if av_type value = ValueTypeBoolean then
        (if av_boolean value = None then Inl (validation ''boolean %q is missing'' [av_code value]) else Inr value)
      else if av_type value = ValueTypeControlledText then
        (if trim_space (av_text value) = []
         then Inl (validation ''controlled text %q is empty'' [av_code value])
         else Inr (value\<lparr>av_text := join '' '' (str_fields (trim_space (av_text value)))\<rparr>))
      else Inl (validation ''value type %q is unknown'' [av_type value]))"

definition canonical_quantity :: "'d decimal_ops \<Rightarrow> gstring \<Rightarrow> 'd quantity \<Rightarrow> gstring" where
  "canonical_quantity D dimension q = dec_string D (q_value q) @ '' '' @ canonical (q_unit q)"

definition show_bool :: "bool \<Rightarrow> gstring" where
  "show_bool b = (if b then ''true'' else ''false'')"

definition nil_dereference :: go_error where
  "nil_dereference = Panic ''invalid memory address or nil pointer dereference''"

definition value_canonical ::
  "'d decimal_ops \<Rightarrow> 'd attr_value \<Rightarrow> attribute_definition \<Rightarrow> go_error + gstring" where
  "value_canonical D v definition =
     (if av_type v = ValueTypeControlledOption then Inr (av_option v)
      else if av_type v = ValueTypeQuantity then
        (case av_quantity v of None \<Rightarrow> Inl nil_dereference
         | Some q \<Rightarrow> Inr (canonical_quantity D (ad_dimension definition) q))
      else if av_type v = ValueTypeInteger then
        (case av_integer v of None \<Rightarrow> Inl nil_dereference | Some i \<Rightarrow> Inr (show_int i))
      else if av_type v = ValueTypeDecimal then
        (case av_decimal v of None \<Rightarrow> Inl nil_dereference | Some d \<Rightarrow> Inr (dec_string D d))
      else if av_type v = ValueTypeBoolean then
        (case av_boolean v of None \<Rightarrow> Inl nil_dereference | Some b \<Rightarrow> Inr (show_bool b))
      else Inr (canonical (av_text v)))"

text \<open>What a canonical value looks like for its attribute.\<close>

definition value_wf :: "'d decimal_ops \<Rightarrow> resource_catalog \<Rightarrow> resource_attribute \<Rightarrow> 'd attr_value \<Rightarrow> bool" where
  "value_wf D c a v \<longleftrightarrow>
     av_type v = ad_value_type (ra_definition a)
     \<and> av_type v \<in> {ValueTypeControlledOption, ValueTypeQuantity, ValueTypeInteger, ValueTypeDecimal,
                    ValueTypeBoolean, ValueTypeControlledText}
     \<and> canonical_attribute (av_code v) = av_code v
     \<and> (av_type v = ValueTypeControlledOption \<longrightarrow> catalog_option c a (av_option v) = Some (av_option v))
     \<and> (av_type v = ValueTypeQuantity \<longrightarrow> (\<exists>q. av_quantity v = Some q \<and> \<not> dec_is_negative D (q_value q)
           \<and> \<not> dec_is_zero D (q_value q) \<and> canonical (q_unit q) = q_unit q))
     \<and> (av_type v = ValueTypeInteger \<longrightarrow> av_integer v \<noteq> None)
     \<and> (av_type v = ValueTypeDecimal \<longrightarrow> av_decimal v \<noteq> None)
     \<and> (av_type v = ValueTypeBoolean \<longrightarrow> av_boolean v \<noteq> None)
     \<and> (av_type v = ValueTypeControlledText \<longrightarrow> av_text v \<noteq> [] \<and> join '' '' (str_fields (av_text v)) = av_text v)"

lemma catalog_option_Some: "catalog_option c a raw = Some r \<Longrightarrow> r = raw"
  by (auto simp: catalog_option_def Let_def find_Some_iff)

lemma join_fields_idem [simp]: "join '' '' (str_fields (join '' '' (str_fields s))) = join '' '' (str_fields s)"
  by (subst str_fields_join_space) (auto dest: str_fields_words)

lemma join_fields_nil [simp]: "join '' '' (str_fields s) = [] \<longleftrightarrow> trim_space s = []"
  by (subst join_nil_iff) (auto dest: str_fields_words simp: str_fields_nil_iff trim_nil_iff)

lemma canonical_value_wf:
  assumes "canonical_value D c a v = Inr w"
  shows "value_wf D c a w"
  using assms
  by (auto simp: canonical_value_def value_wf_def Let_def
      dest: arg_cong[where f = "catalog_option c a"] split: if_splits option.splits)
    (metis catalog_option_Some)

lemma canonical_value_code:
  "canonical_value D c a v = Inr w \<Longrightarrow> av_code w = canonical_attribute (av_code v)"
  by (auto simp: canonical_value_def Let_def split: if_splits option.splits)

lemma value_wf_cases:
  assumes "value_wf D c a v"
  obtains
    (option) "av_type v = ValueTypeControlledOption" "catalog_option c a (av_option v) = Some (av_option v)"
  | (quantity) q where "av_type v = ValueTypeQuantity" "av_quantity v = Some q"
      "\<not> dec_is_negative D (q_value q)" "\<not> dec_is_zero D (q_value q)" "canonical (q_unit q) = q_unit q"
  | (integer) i where "av_type v = ValueTypeInteger" "av_integer v = Some i"
  | (decimal) d where "av_type v = ValueTypeDecimal" "av_decimal v = Some d"
  | (boolean) b where "av_type v = ValueTypeBoolean" "av_boolean v = Some b"
  | (ctext) "av_type v = ValueTypeControlledText" "av_text v \<noteq> []" "join '' '' (str_fields (av_text v)) = av_text v"
  using assms unfolding value_wf_def by blast

lemma value_update_same:
  "canonical_attribute (av_code v) = av_code v \<Longrightarrow> v\<lparr>av_code := canonical_attribute (av_code v)\<rparr> = v"
  "av_quantity v = Some q \<Longrightarrow> v\<lparr>av_quantity := Some q\<rparr> = v"
  by (cases v, simp)+

lemma canonical_value_fixed:
  assumes wf: "value_wf D c a v"
  shows "canonical_value D c a v = Inr v"
proof -
  have code: "v\<lparr>av_code := canonical_attribute (av_code v)\<rparr> = v"
    using wf by (simp add: value_wf_def value_update_same)
  have type: "ad_value_type (ra_definition a) = av_type v"
    using wf by (simp add: value_wf_def)
  have same: "v\<lparr>av_option := av_option v\<rparr> = v" by simp
  from wf show ?thesis
  proof (cases rule: value_wf_cases)
    case (quantity q)
    then have "v\<lparr>av_quantity := Some (q\<lparr>q_unit := canonical (q_unit q)\<rparr>)\<rparr> = v"
      by (cases v, cases q) simp
    with quantity(1-4) show ?thesis
      unfolding canonical_value_def Let_def code type by simp
  next
    case ctext
    then have "trim_space (av_text v) \<noteq> []" by (metis join_fields_nil)
    with ctext show ?thesis
      unfolding canonical_value_def Let_def code type by simp
  qed (unfold canonical_value_def Let_def code type, simp_all)
qed

lemma canonical_value_idem:
  "canonical_value D c a v = Inr w \<Longrightarrow> canonical_value D c a w = Inr w"
  by (rule canonical_value_fixed) (rule canonical_value_wf)

lemma value_canonical_defined:
  assumes "value_wf D c a v"
  shows "\<exists>t. value_canonical D v d = Inr t"
  using assms by (cases rule: value_wf_cases) (simp_all add: value_canonical_def)

lemma canonical_value_error:
  "canonical_value D c a v = Inl e \<Longrightarrow> error_is e (Dom ErrResourceValidation)"
  by (auto simp: canonical_value_def Let_def validation_def split: if_splits option.splits)

end
