(* ===== verification/CatalogQuery.thy ===== *)
theory CatalogQuery
  imports Canonical "HOL-Library.Product_Lexorder"
begin

text \<open>
  Read queries of the catalog: \<^verbatim>\<open>resource_catalog_query.go\<close>,
  \<^verbatim>\<open>resource_effective_attributes.go\<close>, \<^verbatim>\<open>resource_presentation.go\<close> and the membership
  tests of \<^verbatim>\<open>resource_validation.go\<close> and \<^verbatim>\<open>resource_catalog_validate.go\<close>. A Go map used
  for lookups only is a HOL map. \<^verbatim>\<open>sort.Slice\<close> is the stable sort, which it is up to the
  order of elements with equal keys.
\<close>

section \<open>Membership\<close>

definition has_family :: "resource_catalog \<Rightarrow> resource_scope \<Rightarrow> bool" where
  "has_family c s = (let s = canonicalize s in
     list_ex (\<lambda>f. canonical (rf_class f) = sc_class s \<and> canonical (rf_code f) = sc_family s)
       (cat_families c))"

definition has_type :: "resource_catalog \<Rightarrow> resource_scope \<Rightarrow> bool" where
  "has_type c s = (let s = canonicalize s in
     if sc_type s = [] then False
     else list_ex (\<lambda>t. canonical (rt_class t) = sc_class s \<and> canonical (rt_family t) = sc_family s
            \<and> canonical (rt_code t) = sc_type s) (cat_types c))"

definition has_unit :: "resource_catalog \<Rightarrow> gstring \<Rightarrow> bool" where
  "has_unit c code = (let code = canonical code in
     list_ex (\<lambda>u. canonical (ud_code u) = code) (cat_units c))"

definition allowed_unit :: "resource_catalog \<Rightarrow> resource_scope \<Rightarrow> gstring \<Rightarrow> bool" where
  "allowed_unit c s u = (let s = canonicalize s; u = canonical u in
     case find (\<lambda>p. canonical (up_class p) = sc_class s \<and> canonical (up_family p) = sc_family s
            \<and> canonical (up_unit p) = u \<and> up_allowed p) (cat_unit_policies c) of
       Some _ \<Rightarrow> has_unit c u
     | None \<Rightarrow> False)"

definition active_semantics_enabled :: "resource_catalog \<Rightarrow> bool" where
  "active_semantics_enabled c \<longleftrightarrow> length (cat_option_sets c) > 0"

definition active_option_set :: "resource_catalog \<Rightarrow> gstring \<Rightarrow> bool" where
  "active_option_set c optionSet =
     (if \<not> active_semantics_enabled c then True
      else let set = canonical_option_set optionSet in
        case find (\<lambda>os. canonical_option_set (os_code os) = set) (cat_option_sets c) of
          Some os \<Rightarrow> os_active os
        | None \<Rightarrow> False)"

section \<open>Attributes of a scope\<close>

definition attributes_for :: "resource_catalog \<Rightarrow> resource_scope \<Rightarrow> resource_attribute list" where
  "attributes_for c s = (let s = canonicalize s in
     filter (\<lambda>a. scope_matches s (ra_class a) (ra_family a) (ra_type a)) (cat_attributes c))"

abbreviation attribute_key :: "resource_attribute \<Rightarrow> gstring" where
  "attribute_key a \<equiv> canonical_attribute (ad_code (ra_definition a))"

definition resource_attributes :: "resource_catalog \<Rightarrow> resource_scope \<Rightarrow> (gstring, resource_attribute) gmap" where
  "resource_attributes c s =
     foldl (\<lambda>result a. if \<not> scope_matches s (ra_class a) (ra_family a) (ra_type a) then result
                        else gput (attribute_key a) a result) [] (cat_attributes c)"

definition effective ::
  "resource_attribute \<Rightarrow> (gstring \<rightharpoonup> 'd attr_value) \<Rightarrow> gstring \<times> bool \<times> bool" where
  "effective a values =
     (case find (\<lambda>rule. case values (canonical_attribute (when_attribute (ar_when rule))) of
                    Some v \<Rightarrow> av_option v = canonical (when_equals (ar_when rule))
                  | None \<Rightarrow> False) (ra_rules a) of
        Some rule \<Rightarrow> (ar_mode rule, ar_identity rule, ar_not_applicable rule)
      | None \<Rightarrow> if ra_mode a = ModeConditional then (ModeRequired, ra_identity a, False)
                else (ra_mode a, ra_identity a, False))"

definition values_by_code :: "'d attr_value list \<Rightarrow> gstring \<rightharpoonup> 'd attr_value" where
  "values_by_code vs = foldl (\<lambda>m v. m(canonical_attribute (av_code v) \<mapsto> v)) Map.empty vs"

definition Effective ::
  "resource_attribute \<Rightarrow> 'd attr_value list \<Rightarrow> gstring \<times> bool \<times> bool" where
  "Effective a current = effective a (values_by_code current)"

section \<open>Options\<close>

definition options_for :: "resource_catalog \<Rightarrow> resource_attribute \<Rightarrow> attribute_option list" where
  "options_for c attr =
     (let code = attribute_key attr; set = set_key attr in
      filter (\<lambda>opt. ao_active opt \<and> canonical_attribute (ao_attribute opt) = code
                \<and> canonical_option_set (ao_set opt) = set) (cat_options c))"

definition option_equals :: "'d attr_value option \<Rightarrow> gstring \<Rightarrow> bool" where
  "option_equals v opt = (case v of Some v \<Rightarrow> av_option v = opt | None \<Rightarrow> False)"

text \<open>One iteration of the relation loop of \<^verbatim>\<open>ValidOptions\<close>: the allowed codes and the flag
  \<^verbatim>\<open>constrained\<close>.\<close>

definition narrow_step ::
  "gstring \<Rightarrow> gstring \<Rightarrow> (gstring \<rightharpoonup> 'd attr_value) \<Rightarrow> gstring list \<times> bool \<Rightarrow> attribute_option_relation
     \<Rightarrow> gstring list \<times> bool" where
  "narrow_step code own chosen st rel =
     (if canonical_option_set (rel_set rel) \<noteq> own then st
      else
        let from_code = canonical_attribute (rel_from_attribute rel);
            to_code = canonical_attribute (rel_to_attribute rel);
            st = (if to_code = code \<and> option_equals (chosen from_code) (rel_from_option rel)
                  then (rel_to_option rel # fst st, True) else st)
        in (if from_code = code \<and> option_equals (chosen to_code) (rel_to_option rel)
            then (rel_from_option rel # fst st, True) else st))"

definition valid_options ::
  "resource_catalog \<Rightarrow> resource_attribute \<Rightarrow> 'd attr_value list \<Rightarrow> attribute_option list" where
  "valid_options c attr current =
     (let code = attribute_key attr; own = set_key attr; chosen = values_by_code current;
          st = foldl (narrow_step code own chosen) ([], False) (cat_relations c);
          options = options_for c attr in
      if \<not> snd st then options
      else filter (\<lambda>opt. ao_code opt \<in> set (fst st)) options)"

section \<open>Units, families, classes, types\<close>

definition natural_units_for :: "resource_catalog \<Rightarrow> resource_scope \<Rightarrow> unit_definition list" where
  "natural_units_for c s = (let s = canonicalize s;
     st = foldl (\<lambda>(suggested, other) policy.
        if canonical (up_class policy) \<noteq> sc_class s \<or> canonical (up_family policy) \<noteq> sc_family s
           \<or> \<not> up_allowed policy then (suggested, other)
        else (case find (\<lambda>u. ud_active u \<and> canonical (ud_code u) = canonical (up_unit policy)) (cat_units c) of
                None \<Rightarrow> (suggested, other)
              | Some u \<Rightarrow> if up_suggested policy then (suggested @ [u], other)
                           else (suggested, other @ [u]))) ([], []) (cat_unit_policies c)
     in fst st @ snd st)"

definition families_for :: "resource_catalog \<Rightarrow> gstring \<Rightarrow> resource_family list" where
  "families_for c classCode = (let classCode = canonical classCode in
     filter (\<lambda>f. rf_active f \<and> canonical (rf_class f) = classCode) (cat_families c))"

definition active_classes :: "resource_catalog \<Rightarrow> resource_class list" where
  "active_classes c = sort_key (\<lambda>k. (rc_order k, rc_name k)) (filter rc_active (cat_classes c))"

definition types_for :: "resource_catalog \<Rightarrow> resource_scope \<Rightarrow> resource_type list" where
  "types_for c s = (let s = canonicalize s in
     filter (\<lambda>t. rt_active t \<and> canonical (rt_class t) = sc_class s \<and> canonical (rt_family t) = sc_family s)
       (cat_types c))"

section \<open>Presentation\<close>

definition find_resource_type :: "resource_catalog \<Rightarrow> resource_scope \<Rightarrow> resource_type option" where
  "find_resource_type c s =
     find (\<lambda>t. canonical (rt_class t) = sc_class s \<and> canonical (rt_family t) = sc_family s
        \<and> canonical (rt_code t) = sc_type s) (cat_types c)"

definition presentation_fields :: "resource_catalog \<Rightarrow> resource_scope \<Rightarrow> presentation_field list" where
  "presentation_fields c s = sort_key pf_position
     (filter (\<lambda>f. pf_active f \<and> canonical (pf_class f) = sc_class s \<and> canonical (pf_family f) = sc_family s
        \<and> canonical (pf_type f) = sc_type s) (cat_presentation c))"

definition empty_definition :: attribute_definition where
  "empty_definition = \<lparr>ad_code = [], ad_name = [], ad_value_type = [], ad_dimension = [],
     ad_default_identity = False, ad_active = False\<rparr>"

definition definition_for :: "resource_catalog \<Rightarrow> gstring \<Rightarrow> attribute_definition" where
  "definition_for c code = (let code = canonical_attribute code in
     case find (\<lambda>d. canonical_attribute (ad_code d) = code) (cat_definitions c) of
       Some d \<Rightarrow> d | None \<Rightarrow> empty_definition)"

definition describe :: "'d decimal_ops \<Rightarrow> resource_catalog \<Rightarrow> 'd resource \<Rightarrow> go_error + gstring" where
  "describe D c r =
     (let scope = canonicalize \<lparr>sc_class = r_class r, sc_family = r_family r, sc_type = r_type r\<rparr> in
      case find_resource_type c scope of
        None \<Rightarrow> Inr []
      | Some resourceType \<Rightarrow>
          (let fs = presentation_fields c scope in
           if fs = [] then Inr (rt_name resourceType)
           else
             let byCode = values_by_code (r_attributes r);
                 shown = filter (\<lambda>f. case byCode (canonical_attribute (pf_attribute f)) of
                            None \<Rightarrow> False | Some v \<Rightarrow> av_text v \<noteq> NotApplicableText) fs
             in bindr (mapr (\<lambda>f. value_canonical D (the (byCode (canonical_attribute (pf_attribute f))))
                                  (definition_for c (pf_attribute f))) shown)
                  (\<lambda>parts. Inr (join '' '' (rt_name resourceType # parts)))))"

section \<open>Effective attributes\<close>

abbreviation SourceLevelFamily :: gstring where "SourceLevelFamily \<equiv> ''FAMILY''"
abbreviation SourceLevelType :: gstring where "SourceLevelType \<equiv> ''TYPE''"

record effective_attribute =
  ea_attribute :: resource_attribute
  ea_mode :: gstring
  ea_identity :: bool
  ea_not_applicable :: bool
  ea_position :: int
  ea_has_position :: bool
  ea_source_level :: gstring
  ea_source_code :: gstring
  ea_options :: "attribute_option list"

text \<open>The loop that canonicalizes the caller's current values; \<open>seen\<close> are the codes met.\<close>

fun canonical_current ::
  "'d decimal_ops \<Rightarrow> resource_catalog \<Rightarrow> resource_scope \<Rightarrow> (gstring \<rightharpoonup> resource_attribute) \<Rightarrow> gstring list
     \<Rightarrow> 'd attr_value list \<Rightarrow> go_error + 'd attr_value list" where
  "canonical_current D c s byCode seen [] = Inr []"
| "canonical_current D c s byCode seen (value # vs) =
     (let code = canonical_attribute (av_code value) in
      if code \<in> set seen then Inl (validation ''attribute %q is repeated'' [code])
      else (case byCode code of
              None \<Rightarrow> Inl (validation ''attribute %q is not defined for family %q'' [code, sc_family s])
            | Some attribute \<Rightarrow>
                bindr (canonical_value D c attribute value) (\<lambda>v.
                bindr (canonical_current D c s byCode (code # seen) vs) (\<lambda>rest. Inr (v # rest)))))"

definition effective_attribute_for ::
  "resource_catalog \<Rightarrow> resource_scope \<Rightarrow> (gstring \<rightharpoonup> int) \<Rightarrow> 'd attr_value list \<Rightarrow> resource_attribute
     \<Rightarrow> effective_attribute" where
  "effective_attribute_for c s positions current a =
     (case Effective a current of (mode, participates, notApplicable) \<Rightarrow>
      let position = positions (attribute_key a) in
      \<lparr>ea_attribute = a, ea_mode = mode, ea_identity = participates, ea_not_applicable = notApplicable,
       ea_position = (case position of Some p \<Rightarrow> p | None \<Rightarrow> 0), ea_has_position = (position \<noteq> None),
       ea_source_level = (if ra_type a \<noteq> [] then SourceLevelType else SourceLevelFamily),
       ea_source_code = (if ra_type a \<noteq> [] then ra_type a else sc_family s),
       ea_options = valid_options c a current\<rparr>)"

definition effective_attributes_for ::
  "'d decimal_ops \<Rightarrow> resource_catalog \<Rightarrow> resource_scope \<Rightarrow> 'd attr_value list
     \<Rightarrow> go_error + effective_attribute list" where
  "effective_attributes_for D c s current =
     (let s = canonicalize s; attributes = attributes_for c s;
          byCode = foldl (\<lambda>m a. m(attribute_key a \<mapsto> a)) Map.empty attributes in
      bindr (canonical_current D c s byCode [] current) (\<lambda>canonicalCurrent.
        let positions = foldl (\<lambda>m f. m(canonical_attribute (pf_attribute f) \<mapsto> pf_position f)) Map.empty
                          (presentation_fields c s) in
        Inr (sort_key (\<lambda>e. (\<not> ea_has_position e, if ea_has_position e then ea_position e else 0))
              (map (effective_attribute_for c s positions canonicalCurrent) attributes))))"


section \<open>Lemmas\<close>

lemma find_case_list_ex: "(case find P xs of Some _ \<Rightarrow> b | None \<Rightarrow> False) \<longleftrightarrow> list_ex P xs \<and> b"
  by (induction xs) auto

lemma has_family_iff:
  "has_family c s \<longleftrightarrow> (\<exists>f\<in>set (cat_families c). canonical (rf_class f) = canonical (sc_class s)
     \<and> canonical (rf_code f) = canonical (sc_family s))"
  by (simp add: has_family_def list_ex_iff)

lemma has_type_iff:
  "has_type c s \<longleftrightarrow> canonical (sc_type s) \<noteq> [] \<and> (\<exists>t\<in>set (cat_types c). canonical (rt_class t) = canonical (sc_class s)
     \<and> canonical (rt_family t) = canonical (sc_family s) \<and> canonical (rt_code t) = canonical (sc_type s))"
  by (simp add: has_type_def list_ex_iff Let_def)

lemma has_unit_iff: "has_unit c u \<longleftrightarrow> (\<exists>d\<in>set (cat_units c). canonical (ud_code d) = canonical u)"
  by (simp add: has_unit_def list_ex_iff)

lemma allowed_unit_iff:
  "allowed_unit c s u \<longleftrightarrow> (\<exists>p\<in>set (cat_unit_policies c). canonical (up_class p) = canonical (sc_class s)
     \<and> canonical (up_family p) = canonical (sc_family s) \<and> canonical (up_unit p) = canonical u \<and> up_allowed p)
     \<and> has_unit c u"
  by (simp add: allowed_unit_def Let_def find_case_list_ex list_ex_iff has_unit_iff)

lemma scope_canonicalize [simp, canon_simps]:
  "has_family c (canonicalize s) = has_family c s"
  "has_type c (canonicalize s) = has_type c s"
  "allowed_unit c (canonicalize s) u = allowed_unit c s u"
  "allowed_unit c s (canonical u) = allowed_unit c s u"
  "attributes_for c (canonicalize s) = attributes_for c s"
  "resource_attributes c (canonicalize s) = resource_attributes c s"
  by (simp_all add: has_family_def has_type_def allowed_unit_def attributes_for_def
      resource_attributes_def has_unit_def)

lemma foldl_gput_filter:
  "foldl (\<lambda>m a. if \<not> P a then m else gput (k a) a m) m0 as = foldl (\<lambda>m a. gput (k a) a m) m0 (filter P as)"
  by (induction as arbitrary: m0) auto

lemma map_of_foldl_gput:
  "map_of (foldl (\<lambda>m a. gput (k a) a m) m0 as) = map_of m0 ++ map_of (rev (map (\<lambda>a. (k a, a)) as))"
  by (induction as arbitrary: m0) (auto simp: map_add_def fun_eq_iff split: option.splits)

lemma distinct_foldl_gput: "distinct (gkeys m0) \<Longrightarrow> distinct (gkeys (foldl (\<lambda>m a. gput (k a) a m) m0 as))"
  by (induction as arbitrary: m0) auto

lemma resource_attributes_alt:
  "resource_attributes c s = foldl (\<lambda>m a. gput (attribute_key a) a m) [] (attributes_for c s)"
  by (simp add: resource_attributes_def foldl_gput_filter attributes_for_def)

text \<open>The last matching row of a code wins, as in the Go map it fills.\<close>

lemma map_of_resource_attributes:
  "map_of (resource_attributes c s) = map_of (rev (map (\<lambda>a. (attribute_key a, a)) (attributes_for c s)))"
  by (simp add: resource_attributes_alt map_of_foldl_gput)

lemma distinct_resource_attributes [simp]: "distinct (gkeys (resource_attributes c s))"
  by (simp add: resource_attributes_alt distinct_foldl_gput)

lemma resource_attributes_Some:
  assumes "map_of (resource_attributes c s) k = Some a"
  shows "a \<in> set (cat_attributes c)" "attribute_key a = k" "scope_matches s (ra_class a) (ra_family a) (ra_type a)"
  using map_of_SomeD[OF assms[unfolded map_of_resource_attributes]]
  by (auto simp: attributes_for_def Let_def)

lemma resource_attributes_dom:
  "set (gkeys (resource_attributes c s)) = attribute_key ` set (attributes_for c s)"
  by (auto simp: set_gkeys map_of_resource_attributes dom_map_of_conv_image_fst image_image)

lemma resource_attributes_keys_canonical:
  "k \<in> set (gkeys (resource_attributes c s)) \<Longrightarrow> canonical_attribute k = k"
  by (auto simp: resource_attributes_dom)

lemma values_by_code_last:
  "values_by_code vs = map_of (rev (map (\<lambda>v. (canonical_attribute (av_code v), v)) vs))"
proof -
  have "foldl (\<lambda>m v. m(canonical_attribute (av_code v) \<mapsto> v)) m0 vs
      = m0 ++ map_of (rev (map (\<lambda>v. (canonical_attribute (av_code v), v)) vs))" for m0
    by (induction vs arbitrary: m0) (auto simp: map_add_def fun_eq_iff split: option.splits)
  then show ?thesis by (simp add: values_by_code_def)
qed

subsection \<open>Option narrowing\<close>

text \<open>The specification of \<^verbatim>\<open>ValidOptions\<close>: a relation supports an option code when it lies in
  the attribute's own set, touches the attribute and the other end is the chosen value.\<close>

definition supports ::
  "gstring \<Rightarrow> gstring \<Rightarrow> (gstring \<rightharpoonup> 'd attr_value) \<Rightarrow> attribute_option_relation \<Rightarrow> gstring \<Rightarrow> bool" where
  "supports code own chosen rel opt \<longleftrightarrow> canonical_option_set (rel_set rel) = own \<and>
     (canonical_attribute (rel_to_attribute rel) = code \<and> rel_to_option rel = opt
        \<and> option_equals (chosen (canonical_attribute (rel_from_attribute rel))) (rel_from_option rel)
    \<or> canonical_attribute (rel_from_attribute rel) = code \<and> rel_from_option rel = opt
        \<and> option_equals (chosen (canonical_attribute (rel_to_attribute rel))) (rel_to_option rel))"

lemma narrow_step_spec:
  assumes "snd st = (fst st \<noteq> [])"
  shows "set (fst (narrow_step code own chosen st rel)) = set (fst st) \<union> {opt. supports code own chosen rel opt}"
    and "snd (narrow_step code own chosen st rel) = (fst (narrow_step code own chosen st rel) \<noteq> [])"
  using assms by (auto simp: narrow_step_def supports_def Let_def)

lemma narrow_fold_spec:
  assumes "snd st = (fst st \<noteq> [])"
  shows "set (fst (foldl (narrow_step code own chosen) st rels))
           = set (fst st) \<union> {opt. \<exists>rel\<in>set rels. supports code own chosen rel opt}
       \<and> snd (foldl (narrow_step code own chosen) st rels)
           = (fst (foldl (narrow_step code own chosen) st rels) \<noteq> [])"
  using assms
proof (induction rels arbitrary: st)
  case (Cons rel rels)
  show ?case
    using Cons.IH[of "narrow_step code own chosen st rel"] narrow_step_spec[OF Cons.prems, of code own chosen rel]
    by auto
qed simp

definition supported ::
  "resource_catalog \<Rightarrow> resource_attribute \<Rightarrow> 'd attr_value list \<Rightarrow> gstring \<Rightarrow> bool" where
  "supported c attr current opt \<longleftrightarrow> (\<exists>rel\<in>set (cat_relations c).
     supports (attribute_key attr) (set_key attr) (values_by_code current) rel opt)"

lemma valid_options_spec:
  "valid_options c attr current =
     filter (\<lambda>opt. supported c attr current (ao_code opt) \<or> (\<forall>o'. \<not> supported c attr current o')) (options_for c attr)"
proof -
  let ?st = "foldl (narrow_step (attribute_key attr) (set_key attr) (values_by_code current))
    ([], False) (cat_relations c)"
  have "set (fst ?st) = {opt. supported c attr current opt}" and flag: "snd ?st = (fst ?st \<noteq> [])"
    using narrow_fold_spec[of "([], False)" "attribute_key attr" "set_key attr" "values_by_code current"
        "cat_relations c"] by (simp_all add: supported_def)
  then have mem: "opt \<in> set (fst ?st) \<longleftrightarrow> supported c attr current opt" for opt by simp
  have none: "fst ?st = [] \<longleftrightarrow> (\<forall>opt. \<not> supported c attr current opt)"
    using mem by (metis list.set_intros(1) neq_Nil_conv empty_iff empty_set)
  show ?thesis
    unfolding valid_options_def Let_def flag mem none by (auto intro!: filter_cong)
qed

subsection \<open>Effective attributes\<close>

lemma canonical_current_error:
  "canonical_current D c s byCode seen vs = Inl e \<Longrightarrow> error_is e (Dom ErrResourceValidation)"
  by (induction D c s byCode seen vs rule: canonical_current.induct)
    (auto simp: Let_def validation_def bindr_Inl_iff dest: canonical_value_error split: if_splits option.splits)

lemma canonical_current_map:
  "canonical_current D c s byCode seen vs = Inr ws \<Longrightarrow>
     map av_code ws = map (\<lambda>v. canonical_attribute (av_code v)) vs
     \<and> distinct (map (\<lambda>v. canonical_attribute (av_code v)) vs)
     \<and> (\<forall>v\<in>set vs. canonical_attribute (av_code v) \<notin> set seen)
     \<and> (\<forall>w\<in>set ws. \<exists>a. byCode (av_code w) = Some a \<and> value_wf D c a w)"
proof (induction D c s byCode seen vs arbitrary: ws rule: canonical_current.induct)
  case (2 D c s byCode seen val vs)
  let ?code = "canonical_attribute (av_code val)"
  from "2.prems" obtain a v rest where *: "?code \<notin> set seen" "byCode ?code = Some a"
    "canonical_value D c a val = Inr v" "canonical_current D c s byCode (?code # seen) vs = Inr rest" "ws = v # rest"
    by (auto simp: Let_def bindr_Inr_iff split: if_splits option.splits)
  have "av_code v = ?code" "value_wf D c a v"
    using canonical_value_code[OF *(3)] canonical_value_wf[OF *(3)] by auto
  with "2.IH"[OF refl *(1,2,3,4)] * show ?case by auto
qed simp

end
