(* ===== verification/ResourceModel.thy ===== *)
theory ResourceModel
  imports CatalogQuery
begin

text \<open>
  Construction, hydration and lifecycle of resources (\<^verbatim>\<open>internal/domain/resource_validation.go\<close>
  and the methods of \<^verbatim>\<open>resource_types.go\<close>). \<^verbatim>\<open>newResource\<close> is \<open>new_resource\<close>: its loops are
  \<open>bind_values\<close> (caller values), \<open>validate_active_chain\<close>, \<open>validate_relations\<close> and
  \<open>assemble\<close> (sorted attribute codes). Where Go ranges over a map, the order is \<open>rng\<close>.
\<close>

section \<open>Construction\<close>

definition identity_component :: "gstring \<Rightarrow> gstring" where
  "identity_component v = show_nat (byte_len v) @ '':'' @ v"

fun bind_values ::
  "'d decimal_ops \<Rightarrow> resource_catalog \<Rightarrow> resource_scope \<Rightarrow> (gstring, resource_attribute) gmap
     \<Rightarrow> (gstring \<rightharpoonup> 'd attr_value) \<Rightarrow> 'd attr_value list \<Rightarrow> go_error + (gstring \<rightharpoonup> 'd attr_value)" where
  "bind_values D c scope attributes byCode [] = Inr byCode"
| "bind_values D c scope attributes byCode (v # vs) =
     (let code = canonical_attribute (av_code v) in
      if byCode code \<noteq> None then Inl (validation ''attribute %q is repeated'' [code])
      else (case map_of attributes code of
              None \<Rightarrow> Inl (validation ''attribute %q is not defined for family %q'' [code, sc_family scope])
            | Some attribute \<Rightarrow>
                bindr (canonical_value D c attribute v) (\<lambda>cv.
                  bind_values D c scope attributes (byCode(code \<mapsto> cv)) vs)))"

definition attribute_chain_error ::
  "resource_catalog \<Rightarrow> (gstring, resource_attribute) gmap \<Rightarrow> (gstring \<rightharpoonup> 'd attr_value) \<Rightarrow> gstring
     \<Rightarrow> go_error option" where
  "attribute_chain_error c attributes values code =
     (let attribute = the (map_of attributes code);
          definitionActive = (case find (\<lambda>d. canonical_attribute (ad_code d) = code) (cat_definitions c) of
              Some d \<Rightarrow> ad_active d | None \<Rightarrow> ad_active (ra_definition attribute)) in
      if \<not> ra_active attribute \<or> \<not> definitionActive
      then Some (validation_reference ''attribute %q is inactive'' [code])
      else if \<not> active_option_set c (ra_option_set attribute)
      then Some (validation_reference ''option set for attribute %q is inactive'' [code])
      else if list_ex (\<lambda>rule. \<not> ar_active rule) (ra_rules attribute)
      then Some (validation_reference ''rule for attribute %q is inactive'' [code])
      else (case values code of
              None \<Rightarrow> None
            | Some v \<Rightarrow>
                if av_type v = ValueTypeControlledOption then
                  (case find (\<lambda>opt. canonical_attribute (ao_attribute opt) = code \<and>
                         canonical_option_set (ao_set opt) = set_key attribute \<and> ao_code opt = av_option v)
                         (cat_options c) of
                     None \<Rightarrow> None
                   | Some opt \<Rightarrow> if \<not> ao_active opt
                       then Some (validation_reference ''option %q for attribute %q is inactive'' [ao_code opt, code])
                       else None)
                else None))"

definition relation_chain_error ::
  "(gstring, resource_attribute) gmap \<Rightarrow> attribute_option_relation \<Rightarrow> go_error option" where
  "relation_chain_error attributes relation =
     (let f = canonical_attribute (rel_from_attribute relation);
          t = canonical_attribute (rel_to_attribute relation) in
      case (map_of attributes f, map_of attributes t) of
        (Some fa, Some ta) \<Rightarrow>
          (let set = canonical_option_set (rel_set relation) in
           if set = set_key fa \<and> set = set_key ta \<and> \<not> rel_active relation
           then Some (validation_reference ''relation between %q and %q is inactive'' [f, t]) else None)
      | _ \<Rightarrow> None)"

definition validate_active_chain ::
  "range_order \<Rightarrow> resource_catalog \<Rightarrow> resource_scope \<Rightarrow> gstring \<Rightarrow> (gstring, resource_attribute) gmap
     \<Rightarrow> (gstring \<rightharpoonup> 'd attr_value) \<Rightarrow> go_error option" where
  "validate_active_chain rng c scope naturalUnit attributes values =
     (if \<not> active_semantics_enabled c then None
      else let scope = canonicalize scope; unit = canonical naturalUnit;
        unitActive = (case find (\<lambda>u. canonical (ud_code u) = unit) (cat_units c) of
            Some u \<Rightarrow> ud_active u | None \<Rightarrow> False);
        policyActive = (case find (\<lambda>p. canonical (up_class p) = sc_class scope \<and> canonical (up_family p) = sc_family scope
              \<and> canonical (up_unit p) = unit \<and> up_allowed p) (cat_unit_policies c) of
            Some p \<Rightarrow> up_active p | None \<Rightarrow> False) in
      if list_ex (\<lambda>k. canonical (rc_code k) = sc_class scope \<and> \<not> rc_active k) (cat_classes c)
      then Some (validation_reference ''class %q is inactive'' [sc_class scope])
      else if list_ex (\<lambda>f. canonical (rf_class f) = sc_class scope \<and> canonical (rf_code f) = sc_family scope
             \<and> \<not> rf_active f) (cat_families c)
      then Some (validation_reference ''family %q is inactive'' [sc_family scope])
      else if list_ex (\<lambda>t. canonical (rt_class t) = sc_class scope \<and> canonical (rt_family t) = sc_family scope
             \<and> canonical (rt_code t) = sc_type scope \<and> \<not> rt_active t) (cat_types c)
      then Some (validation_reference ''type %q is inactive'' [sc_type scope])
      else if \<not> unitActive then Some (validation_reference ''unit %q is inactive'' [unit])
      else if \<not> policyActive
      then Some (validation_reference ''unit policy for %q is inactive or unavailable'' [unit])
      else (case first_error (attribute_chain_error c attributes values) (rng (gkeys attributes)) of
              Some e \<Rightarrow> Some e
            | None \<Rightarrow> first_error (relation_chain_error attributes) (cat_relations c)))"

text \<open>\<^verbatim>\<open>validateRelations\<close>: relations are grouped under the key \<^verbatim>\<open>from|to\<close>, which is split again
  when the groups are visited.\<close>

definition relation_groups ::
  "resource_catalog \<Rightarrow> (gstring, resource_attribute) gmap \<Rightarrow> (gstring, attribute_option_relation list) gmap" where
  "relation_groups c attributes =
     foldl (\<lambda>groups relation.
        let f = canonical_attribute (rel_from_attribute relation);
            t = canonical_attribute (rel_to_attribute relation) in
        case (map_of attributes f, map_of attributes t) of
          (Some fa, Some ta) \<Rightarrow>
            (let set = canonical_option_set (rel_set relation) in
             if set \<noteq> set_key fa \<or> set \<noteq> set_key ta then groups
             else let key = f @ ''|'' @ t in
               gput key ((case map_of groups key of Some rs \<Rightarrow> rs | None \<Rightarrow> []) @ [relation]) groups)
        | _ \<Rightarrow> groups) [] (cat_relations c)"

definition relation_group_error ::
  "(gstring, attribute_option_relation list) gmap \<Rightarrow> (gstring \<rightharpoonup> 'd attr_value) \<Rightarrow> gstring \<Rightarrow> go_error option" where
  "relation_group_error groups values key =
     (let parts = split_at CHR ''|'' key in
      case (values (parts ! 0), values (parts ! 1)) of
        (Some f, Some t) \<Rightarrow>
          if list_ex (\<lambda>rel. av_option f = rel_from_option rel \<and> av_option t = rel_to_option rel)
               (the (map_of groups key))
          then None
          else Some (validation ''incoherent relation between %q and %q'' [parts ! 0, parts ! 1])
      | _ \<Rightarrow> None)"

definition validate_relations ::
  "range_order \<Rightarrow> resource_catalog \<Rightarrow> (gstring, resource_attribute) gmap \<Rightarrow> (gstring \<rightharpoonup> 'd attr_value)
     \<Rightarrow> go_error option" where
  "validate_relations rng c attributes values =
     (let groups = relation_groups c attributes in
      first_error (relation_group_error groups values) (rng (gkeys groups)))"

text \<open>The loop over the sorted attribute codes: the identity components and the values.\<close>

fun assemble ::
  "'d decimal_ops \<Rightarrow> (gstring, resource_attribute) gmap \<Rightarrow> (gstring \<rightharpoonup> 'd attr_value) \<Rightarrow> gstring list
     \<Rightarrow> go_error + gstring list \<times> 'd attr_value list" where
  "assemble D attributes byCode [] = Inr ([], [])"
| "assemble D attributes byCode (code # codes) =
     (let attribute = the (map_of attributes code) in
      case effective attribute byCode of (mode, participates, notApplicable) \<Rightarrow>
      if mode = ModeRequired \<and> byCode code = None
      then Inl (validation ''required attribute %q is missing'' [code])
      else if mode = ModeForbidden \<and> byCode code \<noteq> None
      then Inl (validation ''attribute %q is forbidden'' [code])
      else if mode = ModeConditional
      then Inl (validation ''conditional attribute %q has no applicable rule'' [code])
      else (case byCode code of
              None \<Rightarrow> assemble D attributes byCode codes
            | Some v \<Rightarrow>
                if notApplicable then Inl (validation ''attribute %q must be not applicable'' [code])
                else if participates then
                  bindr (value_canonical D v (ra_definition attribute)) (\<lambda>text.
                  bindr (assemble D attributes byCode codes) (\<lambda>(identity, vs).
                    Inr (identity_component code # identity_component (av_type v) # identity_component text # identity,
                         v # vs)))
                else bindr (assemble D attributes byCode codes) (\<lambda>(identity, vs). Inr (identity, v # vs))))"

definition new_resource ::
  "range_order \<Rightarrow> 'd decimal_ops \<Rightarrow> resource_catalog \<Rightarrow> resource_scope \<Rightarrow> gstring \<Rightarrow> 'd attr_value list
     \<Rightarrow> bool \<Rightarrow> go_error + 'd resource" where
  "new_resource rng D c scope naturalUnit vs requireActive =
     (let scope = canonicalize scope; unit = canonical naturalUnit in
      if \<not> has_family c scope
      then Inl (validation ''family %q is not defined for class %q'' [sc_family scope, sc_class scope])
      else if \<not> has_type c scope
      then Inl (validation ''type %q is not defined for family %q'' [sc_type scope, sc_family scope])
      else if \<not> allowed_unit c scope unit
      then Inl (validation ''natural unit %q is not allowed for family %q'' [unit, sc_family scope])
      else let attributes = resource_attributes c scope in
        bindr (bind_values D c scope attributes Map.empty vs) (\<lambda>byCode.
        check (if requireActive then validate_active_chain rng c scope unit attributes byCode else None)
        (check (validate_relations rng c attributes byCode)
        (bindr (assemble D attributes byCode (sort (rng (gkeys attributes)))) (\<lambda>(identity, values).
          Inr \<lparr>r_id = 0, r_class = sc_class scope, r_family = sc_family scope, r_type = sc_type scope,
               r_unit = unit, r_attributes = sort_key av_code values,
               r_identity = ''v1|'' @ identity_component (sc_class scope) @ identity_component (sc_family scope)
                 @ identity_component (sc_type scope) @ join [] identity,
               r_revision = 0, r_active = True, r_canonical = True\<rparr>)))))"

definition NewResource ::
  "range_order \<Rightarrow> 'd decimal_ops \<Rightarrow> resource_catalog \<Rightarrow> resource_scope \<Rightarrow> gstring \<Rightarrow> 'd attr_value list
     \<Rightarrow> go_error + 'd resource" where
  "NewResource rng D c scope naturalUnit vs = new_resource rng D c scope naturalUnit vs True"

section \<open>Hydration and lifecycle\<close>

definition RehydrateResource ::
  "range_order \<Rightarrow> 'd decimal_ops \<Rightarrow> resource_catalog \<Rightarrow> 'd resource_snapshot \<Rightarrow> go_error + 'd resource" where
  "RehydrateResource rng D c snapshot =
     (if sn_id snapshot \<le> 0 then Inl (validation ''resource snapshot ID must be positive'' [])
      else
        let applicable = filter (\<lambda>v. av_text v \<noteq> NotApplicableText) (sn_attributes snapshot) in
        bindr (new_resource rng D c \<lparr>sc_class = sn_class snapshot, sc_family = sn_family snapshot,
                 sc_type = sn_type snapshot\<rparr> (sn_unit snapshot) applicable False) (\<lambda>resource.
        if sn_identity snapshot \<noteq> r_identity resource
        then Inl (validation ''stored identity %q does not match canonical identity %q''
                    [sn_identity snapshot, r_identity resource])
        else
          let kept = filter (\<lambda>v. av_text v = NotApplicableText) (sn_attributes snapshot) in
          Inr (resource\<lparr>r_id := sn_id snapshot, r_active := sn_active snapshot,
                 r_attributes := sort_key av_code (r_attributes resource @ kept)\<rparr>)))"

definition HydrateResource :: "'d resource_snapshot \<Rightarrow> go_error + 'd resource" where
  "HydrateResource s =
     (if sn_id s \<le> 0 \<or> trim_space (sn_class s) = [] \<or> trim_space (sn_family s) = []
         \<or> trim_space (sn_type s) = [] \<or> trim_space (sn_unit s) = []
      then Inl (validation ''resource snapshot is incomplete'' [])
      else if \<not> has_prefix (sn_identity s) ''v1|''
      then Inl (validation ''resource snapshot identity is not v1'' [])
      else Inr \<lparr>r_id = sn_id s, r_class = sn_class s, r_family = sn_family s, r_type = sn_type s,
             r_unit = sn_unit s, r_attributes = sn_attributes s, r_identity = sn_identity s,
             r_revision = sn_revision s, r_active = sn_active s, r_canonical = True\<rparr>)"

definition resource_deactivate :: "'d resource \<Rightarrow> 'd resource \<times> bool" where
  "resource_deactivate r = (if \<not> r_active r then (r, False) else (r\<lparr>r_active := False\<rparr>, True))"

definition resource_reactivate :: "'d resource \<Rightarrow> 'd resource \<times> bool" where
  "resource_reactivate r = (if r_active r then (r, False) else (r\<lparr>r_active := True\<rparr>, True))"

definition ValidateForPersistence :: "'d resource \<Rightarrow> go_error option" where
  "ValidateForPersistence r =
     (if \<not> r_canonical r then Some (Sentinel (Dom ErrResourceReference)) else None)"

definition ExactDuplicate :: "'d resource \<Rightarrow> 'd resource \<Rightarrow> bool" where
  "ExactDuplicate a b \<longleftrightarrow> r_identity a \<noteq> [] \<and> r_identity a = r_identity b"

section \<open>Search criteria\<close>

abbreviation LifecycleScopeActive :: "8 word" where "LifecycleScopeActive \<equiv> 0"
abbreviation LifecycleScopeInactive :: "8 word" where "LifecycleScopeInactive \<equiv> 1"
abbreviation DefaultSearchPageSize :: int where "DefaultSearchPageSize \<equiv> 50"
abbreviation MaxSearchPageSize :: int where "MaxSearchPageSize \<equiv> 50"

record 'd search_criteria =
  cr_text :: gstring
  cr_class :: gstring
  cr_family :: gstring
  cr_type :: gstring
  cr_filters :: "'d attr_value list"
  cr_lifecycle :: "8 word"
  cr_limit :: int
  cr_offset :: int

definition Normalize :: "'d search_criteria \<Rightarrow> go_error + 'd search_criteria" where
  "Normalize c =
     (if cr_limit c < 0 \<or> cr_limit c > MaxSearchPageSize \<or> cr_offset c < 0
      then Inl (Sentinel (Dom ErrInvalidSearch))
      else let c = (if cr_limit c = 0 then c\<lparr>cr_limit := DefaultSearchPageSize\<rparr> else c) in
        if cr_lifecycle c \<noteq> LifecycleScopeActive \<and> cr_lifecycle c \<noteq> LifecycleScopeInactive
        then Inl (Sentinel (Dom ErrInvalidSearch))
        else Inr c)"

end
