(* ===== verification/ResourceLemmas.thy ===== *)
theory ResourceLemmas
  imports ResourceModel
begin

text \<open>
  What \<^verbatim>\<open>newResource\<close> guarantees. The identity encoding decodes uniquely, the loops of
  \<open>new_resource\<close> are characterised by predicates over the values bound to the attribute
  codes (\<open>bound_ok\<close>, \<open>slot_ok\<close>, \<open>relations_coherent\<close>), and these give the invariant
  \<open>resource_wf\<close> of a created resource, from which creation can be replayed.
\<close>

section \<open>The identity encoding\<close>

lemma identity_component_cancel:
  assumes "identity_component a @ s = identity_component b @ t"
  shows "a = b \<and> s = t"
proof -
  let ?m = "show_nat (byte_len a)" and ?n = "show_nat (byte_len b)"
  have split: "?m @ CHR '':'' # (a @ s) = ?n @ CHR '':'' # (b @ t)"
    using assms by (simp add: identity_component_def)
  have "split_at CHR '':'' (?m @ CHR '':'' # (a @ s)) = ?m # split_at CHR '':'' (a @ s)"
    by (rule split_at_append) (rule colon_not_digit)
  moreover have "split_at CHR '':'' (?n @ CHR '':'' # (b @ t)) = ?n # split_at CHR '':'' (b @ t)"
    by (rule split_at_append) (rule colon_not_digit)
  ultimately have "?m = ?n" using split by simp
  then have len: "byte_len a = byte_len b" by (simp add: show_nat_inj)
  from split \<open>?m = ?n\<close> have "a @ s = b @ t" by simp
  then obtain u where "(a = b @ u \<and> u @ s = t) \<or> (a @ u = b \<and> s = u @ t)"
    by (auto simp: append_eq_append_conv2)
  with len have "u = []" using byte_len_pos[of u] by (cases "u = []") auto
  with \<open>(a = b @ u \<and> u @ s = t) \<or> (a @ u = b \<and> s = u @ t)\<close> show ?thesis by auto
qed

lemma identity_component_nonempty [simp]: "identity_component a \<noteq> []"
  by (simp add: identity_component_def)

lemma identity_components_inj:
  "concat (map identity_component xs) = concat (map identity_component ys) \<Longrightarrow> xs = ys"
proof (induction xs arbitrary: ys)
  case Nil
  then show ?case by (cases ys) auto
next
  case (Cons x xs)
  then show ?case by (cases ys) (auto dest: identity_component_cancel)
qed

lemma join_concat: "join [] xs = concat xs"
  by (induction "[] :: gstring" xs rule: join.induct) auto

section \<open>Order of iteration\<close>

lemma range_ok_first_error:
  "range_ok rng \<Longrightarrow> first_error f (rng ks) = None \<longleftrightarrow> (\<forall>k\<in>set ks. f k = None)"
  by simp

lemma range_ok_sort: "range_ok rng \<Longrightarrow> sort (rng ks) = sort ks"
  unfolding range_ok_def by (metis mset_sort properties_for_sort sorted_sort)

section \<open>Binding the caller's values\<close>

definition bound_ok ::
  "'d decimal_ops \<Rightarrow> resource_catalog \<Rightarrow> (gstring, resource_attribute) gmap \<Rightarrow> (gstring \<rightharpoonup> 'd attr_value) \<Rightarrow> bool" where
  "bound_ok D c attributes M \<longleftrightarrow> (\<forall>k v. M k = Some v \<longrightarrow> av_code v = k \<and> canonical_attribute k = k
     \<and> (\<exists>a. map_of attributes k = Some a \<and> value_wf D c a v))"

lemma bound_okD:
  assumes "bound_ok D c attributes M" "M k = Some v"
  shows "av_code v = k" "canonical_attribute k = k" "\<exists>a. map_of attributes k = Some a \<and> value_wf D c a v"
    "k \<in> set (gkeys attributes)"
  using assms by (auto simp: bound_ok_def set_gkeys)

lemma bind_values_ok:
  assumes "bind_values D c s attributes M vs = Inr N" "bound_ok D c attributes M"
  shows "bound_ok D c attributes N"
  using assms
proof (induction D c s attributes M vs rule: bind_values.induct)
  case (2 D c s attributes M v vs)
  let ?code = "canonical_attribute (av_code v)"
  from "2.prems"(1) obtain a cv where *: "M ?code = None" "map_of attributes ?code = Some a"
    "canonical_value D c a v = Inr cv" "bind_values D c s attributes (M(?code \<mapsto> cv)) vs = Inr N"
    by (auto simp: Let_def bindr_Inr_iff split: if_splits option.splits)
  have "bound_ok D c attributes (M(?code \<mapsto> cv))"
    using "2.prems"(2) * canonical_value_code[OF *(3)] canonical_value_wf[OF *(3)]
    by (auto simp: bound_ok_def)
  moreover have "\<not> M ?code \<noteq> None" using *(1) by simp
  ultimately show ?case using "2.IH"[OF refl _ *(2) *(3) *(4)] by blast
qed simp

definition validation_error :: "go_error \<Rightarrow> bool" where
  "validation_error e \<longleftrightarrow> (\<forall>t. error_is e t \<longleftrightarrow> t = Dom ErrResourceValidation) \<and> error_as_core e = None"

definition reference_error :: "go_error \<Rightarrow> bool" where
  "reference_error e \<longleftrightarrow> (\<forall>t. error_is e t \<longleftrightarrow> t = Dom ErrResourceReference) \<and> error_as_core e = None"

lemma validation_is [simp]: "validation_error (validation f args)"
  by (auto simp: validation_error_def validation_def wraps_simps)

lemma reference_is [simp]: "reference_error (validation_reference f args)"
  by (auto simp: reference_error_def validation_reference_def wraps_simps)

lemma validation_code: "validation_error e \<Longrightarrow> core_code_of (Some e) = Some Validation"
  by (simp add: validation_error_def core_code_of_def core_map_def core_new_def)

lemma reference_code: "reference_error e \<Longrightarrow> core_code_of (Some e) = Some InvalidReference"
  by (simp add: reference_error_def core_code_of_def core_map_def core_new_def)

lemma canonical_value_validation: "canonical_value D c a v = Inl e \<Longrightarrow> validation_error e"
  by (auto simp: canonical_value_def Let_def split: if_splits option.splits)

lemma bind_values_error:
  "bind_values D c s attributes M vs = Inl e \<Longrightarrow> validation_error e"
  by (induction D c s attributes M vs rule: bind_values.induct)
    (auto simp: Let_def bindr_Inl_iff dest: canonical_value_validation split: if_splits option.splits)

lemma bind_values_distinct:
  "bind_values D c s attributes M vs = Inr N \<Longrightarrow>
     distinct (map (\<lambda>v. canonical_attribute (av_code v)) vs)
     \<and> dom N = dom M \<union> (\<lambda>v. canonical_attribute (av_code v)) ` set vs
     \<and> dom M \<inter> (\<lambda>v. canonical_attribute (av_code v)) ` set vs = {}"
proof (induction D c s attributes M vs rule: bind_values.induct)
  case (2 D c s attributes M v vs)
  let ?code = "canonical_attribute (av_code v)"
  from "2.prems" obtain a cv where *: "M ?code = None" "map_of attributes ?code = Some a"
    "canonical_value D c a v = Inr cv" "bind_values D c s attributes (M(?code \<mapsto> cv)) vs = Inr N"
    by (auto simp: Let_def bindr_Inr_iff split: if_splits option.splits)
  have "\<not> M ?code \<noteq> None" using *(1) by simp
  note ih = "2.IH"[OF refl this *(2) *(3) *(4)]
  have "dom (M(?code \<mapsto> cv)) = insert ?code (dom M)" by simp
  with ih *(1) show ?case by (auto simp del: fun_upd_apply)
qed simp

text \<open>Values that are already canonical are bound as they are.\<close>

lemma bind_values_fixed:
  assumes "\<forall>v\<in>set vs. \<exists>a. map_of attributes (av_code v) = Some a \<and> value_wf D c a v"
    "distinct (map av_code vs)" "\<forall>v\<in>set vs. M (av_code v) = None"
  shows "bind_values D c s attributes M vs = Inr (M ++ map_of (map (\<lambda>v. (av_code v, v)) vs))"
  using assms
proof (induction vs arbitrary: M)
  case (Cons v vs)
  from Cons.prems(1) obtain a where a: "map_of attributes (av_code v) = Some a" "value_wf D c a v" by auto
  have code: "canonical_attribute (av_code v) = av_code v" using a by (simp add: value_wf_def)
  have free: "\<forall>w\<in>set vs. (M(av_code v \<mapsto> v)) (av_code w) = None"
    using Cons.prems(2,3) by (auto, metis imageI)
  have "M(av_code v \<mapsto> v) ++ map_of (map (\<lambda>v. (av_code v, v)) vs)
      = M ++ map_of (map (\<lambda>v. (av_code v, v)) (v # vs))"
  proof -
    have "av_code v \<notin> dom (map_of (map (\<lambda>v. (av_code v, v)) vs))"
      using Cons.prems(2) by (auto simp: dom_map_of_conv_image_fst)
    then show ?thesis by (simp add: map_add_upd_left)
  qed
  then show ?case
    using Cons.IH[OF _ _ free] Cons.prems a code canonical_value_fixed[OF a(2)]
    by (simp del: fun_upd_apply map_add_upd)
qed simp

section \<open>Assembling\<close>

definition slot_ok ::
  "(gstring, resource_attribute) gmap \<Rightarrow> (gstring \<rightharpoonup> 'd attr_value) \<Rightarrow> gstring \<Rightarrow> bool" where
  "slot_ok attributes M code \<longleftrightarrow>
     (case effective (the (map_of attributes code)) M of (mode, participates, notApplicable) \<Rightarrow>
        (mode = ModeRequired \<longrightarrow> M code \<noteq> None) \<and> (mode = ModeForbidden \<longrightarrow> M code = None)
        \<and> mode \<noteq> ModeConditional \<and> (M code \<noteq> None \<longrightarrow> \<not> notApplicable))"

definition identity_parts ::
  "'d decimal_ops \<Rightarrow> (gstring, resource_attribute) gmap \<Rightarrow> (gstring \<rightharpoonup> 'd attr_value) \<Rightarrow> gstring \<Rightarrow> gstring list" where
  "identity_parts D attributes M code =
     (case M code of None \<Rightarrow> []
      | Some v \<Rightarrow>
          let a = the (map_of attributes code) in
          if fst (snd (effective a M))
          then [code, av_type v, (case value_canonical D v (ra_definition a) of Inr t \<Rightarrow> t | Inl _ \<Rightarrow> [])]
          else [])"

abbreviation present :: "(gstring \<rightharpoonup> 'v) \<Rightarrow> gstring list \<Rightarrow> gstring list" where
  "present M codes \<equiv> filter (\<lambda>k. M k \<noteq> None) codes"

lemma assemble_spec:
  assumes "bound_ok D c attributes M"
  shows "(\<forall>k\<in>set codes. slot_ok attributes M k) \<Longrightarrow>
      assemble D attributes M codes = Inr (map identity_component (concat (map (identity_parts D attributes M) codes)),
        map (the \<circ> M) (present M codes))"
    and "\<not> (\<forall>k\<in>set codes. slot_ok attributes M k) \<Longrightarrow>
      \<exists>e. assemble D attributes M codes = Inl e \<and> validation_error e"
proof (induction codes)
  case (Cons k ks)
  obtain mode p na where eff: "effective (the (map_of attributes k)) M = (mode, p, na)"
    by (cases "effective (the (map_of attributes k)) M") auto
  have val: "\<exists>t. value_canonical D v d = Inr t" if "M k = Some v" for v d
    using bound_okD(3)[OF assms that] value_canonical_defined by blast
  { case 1
    then have ih: "assemble D attributes M ks = Inr (map identity_component (concat (map (identity_parts D attributes M) ks)),
        map (the \<circ> M) (present M ks))" and slot: "slot_ok attributes M k"
      using Cons.IH(1) by auto
    show ?case
    proof (cases "M k")
      case None
      then have "identity_parts D attributes M k = []" by (simp add: identity_parts_def)
      then show ?thesis using slot ih eff None by (simp add: slot_ok_def)
    next
      case (Some v)
      obtain t where t: "value_canonical D v (ra_definition (the (map_of attributes k))) = Inr t"
        using val[OF Some] by blast
      then have "identity_parts D attributes M k = (if p then [k, av_type v, t] else [])"
        using Some eff by (simp add: identity_parts_def)
      then show ?thesis using slot ih eff Some t by (simp add: slot_ok_def)
    qed
  next
    case 2
    show ?case
    proof (cases "slot_ok attributes M k")
      case False
      then show ?thesis using eff by (cases "M k") (auto simp: slot_ok_def Let_def)
    next
      case True
      with 2 obtain e where ih: "assemble D attributes M ks = Inl e" "validation_error e"
        using Cons.IH(2) by auto
      show ?thesis
      proof (cases "M k")
        case None
        with ih True eff show ?thesis by (auto simp: slot_ok_def Let_def)
      next
        case (Some v)
        obtain t where "value_canonical D v (ra_definition (the (map_of attributes k))) = Inr t"
          using val[OF Some] by blast
        with Some ih True eff show ?thesis by (auto simp: slot_ok_def Let_def)
      qed
    qed
  }
qed simp_all


lemma present_codes:
  "bound_ok D c attributes M \<Longrightarrow> map av_code (map (the \<circ> M) (present M codes)) = present M codes"
  by (induction codes) (auto dest: bound_okD(1))

lemma map_of_rev_distinct: "distinct (map fst xs) \<Longrightarrow> map_of (rev xs) = map_of xs"
  by (induction xs) (auto simp: map_add_upd_left dom_map_of_conv_image_fst)

lemma map_the_map_of:
  "distinct (map f vs) \<Longrightarrow> map (the \<circ> map_of (map (\<lambda>v. (f v, v)) vs)) (map f vs) = vs"
proof -
  assume "distinct (map f vs)"
  then have "map_of (map (\<lambda>v. (f v, v)) vs) (f v) = Some v" if "v \<in> set vs" for v
    using that by (intro map_of_is_SomeI) (auto simp: o_def)
  then show ?thesis by (intro nth_equalityI) auto
qed

lemma values_by_code_present:
  assumes b: "bound_ok D c attributes M" and keys: "dom M \<subseteq> set codes" and d: "distinct codes"
  shows "values_by_code (map (the \<circ> M) (present M codes)) = M"
proof
  fix k
  let ?ps = "map (\<lambda>k. (k, the (M k))) (present M codes)"
  have "map (\<lambda>v. (canonical_attribute (av_code v), v)) (map (the \<circ> M) (present M codes)) = ?ps"
    using b by (auto simp: bound_ok_def)
  then have "values_by_code (map (the \<circ> M) (present M codes)) k = map_of (rev ?ps) k"
    by (simp only: values_by_code_last)
  also have "\<dots> = map_of ?ps k"
    using d by (intro fun_cong[OF map_of_rev_distinct]) (simp add: o_def)
  also have "\<dots> = M k"
    using keys by (cases "M k") (auto simp: map_of_map_restrict restrict_map_def)
  finally show "values_by_code (map (the \<circ> M) (present M codes)) k = M k" .
qed

section \<open>Option relations\<close>

abbreviation rel_from :: "attribute_option_relation \<Rightarrow> gstring" where
  "rel_from rel \<equiv> canonical_attribute (rel_from_attribute rel)"
abbreviation rel_to :: "attribute_option_relation \<Rightarrow> gstring" where
  "rel_to rel \<equiv> canonical_attribute (rel_to_attribute rel)"
abbreviation rel_key :: "attribute_option_relation \<Rightarrow> gstring" where
  "rel_key rel \<equiv> rel_from rel @ ''|'' @ rel_to rel"

definition relation_applies :: "(gstring, resource_attribute) gmap \<Rightarrow> attribute_option_relation \<Rightarrow> bool" where
  "relation_applies attributes rel \<longleftrightarrow>
     (case (map_of attributes (rel_from rel), map_of attributes (rel_to rel)) of
        (Some fa, Some ta) \<Rightarrow> canonical_option_set (rel_set rel) = set_key fa
           \<and> canonical_option_set (rel_set rel) = set_key ta
      | _ \<Rightarrow> False)"

text \<open>The intended rule: two chosen values joined by applicable relations must be one of the
  declared pairs.\<close>

definition relations_coherent ::
  "resource_catalog \<Rightarrow> (gstring, resource_attribute) gmap \<Rightarrow> (gstring \<rightharpoonup> 'd attr_value) \<Rightarrow> bool" where
  "relations_coherent c attributes M \<longleftrightarrow> (\<forall>rel\<in>set (cat_relations c). relation_applies attributes rel \<longrightarrow>
     (\<forall>f t. M (rel_from rel) = Some f \<and> M (rel_to rel) = Some t \<longrightarrow>
        (\<exists>rel'\<in>set (cat_relations c). relation_applies attributes rel' \<and> rel_from rel' = rel_from rel
           \<and> rel_to rel' = rel_to rel \<and> av_option f = rel_from_option rel' \<and> av_option t = rel_to_option rel')))"

lemma relation_groups_alt:
  "relation_groups c attributes = foldl (\<lambda>groups rel. if relation_applies attributes rel
     then gput (rel_key rel) ((case map_of groups (rel_key rel) of Some rs \<Rightarrow> rs | None \<Rightarrow> []) @ [rel]) groups
     else groups) [] (cat_relations c)"
  unfolding relation_groups_def
  by (intro arg_cong[where f = "\<lambda>h. foldl h [] (cat_relations c)"] ext)
    (auto simp: relation_applies_def Let_def split: option.splits)

lemma group_foldl_lookup:
  fixes k :: "'r \<Rightarrow> gstring"
  shows "map_of (foldl (\<lambda>groups rel. if P rel
     then gput (k rel) ((case map_of groups (k rel) of Some rs \<Rightarrow> rs | None \<Rightarrow> []) @ [rel]) groups
     else groups) g rels) key =
   (let rs = (case map_of g key of Some rs \<Rightarrow> rs | None \<Rightarrow> []) @ filter (\<lambda>r. P r \<and> k r = key) rels
    in if rs = [] then map_of g key else Some rs)"
  by (induction rels arbitrary: g) (auto simp: Let_def split: option.splits if_splits)

lemma relation_groups_lookup:
  "map_of (relation_groups c attributes) key =
     (let rs = filter (\<lambda>r. relation_applies attributes r \<and> rel_key r = key) (cat_relations c)
      in if rs = [] then None else Some rs)"
  unfolding relation_groups_alt group_foldl_lookup by (simp add: Let_def)

lemma relation_groups_keys:
  "set (gkeys (relation_groups c attributes)) =
     rel_key ` {r \<in> set (cat_relations c). relation_applies attributes r}"
  by (auto simp: set_gkeys dom_def relation_groups_lookup Let_def filter_empty_conv split: if_splits)

lemma validate_relations_None:
  assumes "range_ok rng"
  shows "validate_relations rng c attributes M = None \<longleftrightarrow>
     (\<forall>key\<in>set (gkeys (relation_groups c attributes)). relation_group_error (relation_groups c attributes) M key = None)"
  using assms by (simp add: validate_relations_def Let_def)

lemma validate_relations_error:
  "validate_relations rng c attributes M = Some e \<Longrightarrow> validation_error e"
  by (auto simp: validate_relations_def relation_group_error_def Let_def
      dest!: first_error_Some split: option.splits if_splits)

lemma split_rel_key:
  assumes "CHR ''|'' \<notin> set (rel_from r)" "CHR ''|'' \<notin> set (rel_to r)"
  shows "split_at CHR ''|'' (rel_key r) = [rel_from r, rel_to r]"
  using assms split_at_append[of "CHR ''|''" "rel_from r" "rel_to r"] split_at_no_sep[of _ "rel_to r"] by simp

lemma relation_applies_keys:
  "relation_applies attributes r \<Longrightarrow> rel_from r \<in> set (gkeys attributes) \<and> rel_to r \<in> set (gkeys attributes)"
  by (auto simp: relation_applies_def set_gkeys split: option.splits)

lemma rel_key_eq:
  assumes "CHR ''|'' \<notin> set (rel_from r)" "CHR ''|'' \<notin> set (rel_to r)"
    "CHR ''|'' \<notin> set (rel_from r')" "CHR ''|'' \<notin> set (rel_to r')"
  shows "rel_key r' = rel_key r \<longleftrightarrow> rel_from r' = rel_from r \<and> rel_to r' = rel_to r"
  using split_rel_key[OF assms(1,2)] split_rel_key[OF assms(3,4)] by fastforce

lemma relation_group_error_None:
  assumes bar: "\<forall>k\<in>set (gkeys attributes). CHR ''|'' \<notin> set k"
    and r: "r \<in> set (cat_relations c)" "relation_applies attributes r"
  shows "relation_group_error (relation_groups c attributes) M (rel_key r) = None \<longleftrightarrow>
    (\<forall>f t. M (rel_from r) = Some f \<and> M (rel_to r) = Some t \<longrightarrow>
        (\<exists>rel'\<in>set (cat_relations c). relation_applies attributes rel' \<and> rel_from rel' = rel_from r
           \<and> rel_to rel' = rel_to r \<and> av_option f = rel_from_option rel' \<and> av_option t = rel_to_option rel'))"
proof -
  have nobar: "CHR ''|'' \<notin> set (rel_from r')" "CHR ''|'' \<notin> set (rel_to r')" if "relation_applies attributes r'" for r'
    using relation_applies_keys[OF that] bar by auto
  let ?rs = "filter (\<lambda>r'. relation_applies attributes r' \<and> rel_key r' = rel_key r) (cat_relations c)"
  have "r \<in> set ?rs" using r by simp
  then have "?rs \<noteq> []" by (metis empty_iff empty_set)
  then have "map_of (relation_groups c attributes) (rel_key r) = Some ?rs"
    by (simp only: relation_groups_lookup Let_def if_False)
  moreover have "set ?rs = {r' \<in> set (cat_relations c). relation_applies attributes r'
      \<and> rel_from r' = rel_from r \<and> rel_to r' = rel_to r}"
    using rel_key_eq[OF nobar[OF r(2)] nobar] by auto
  ultimately show ?thesis
    unfolding relation_group_error_def Let_def split_rel_key[OF nobar[OF r(2)]]
    by (auto simp: list_ex_iff split: option.splits)
qed

lemma validate_relations_coherent:
  assumes "range_ok rng" and "\<forall>k\<in>set (gkeys attributes). CHR ''|'' \<notin> set k"
  shows "validate_relations rng c attributes M = None \<longleftrightarrow> relations_coherent c attributes M"
  unfolding validate_relations_None[OF assms(1)] relation_groups_keys relations_coherent_def
  using relation_group_error_None[OF assms(2), of _ c M] by (simp only: ball_simps) blast


section \<open>The invariant of a canonical resource\<close>

definition own_scope :: "'d resource \<Rightarrow> resource_scope" where
  "own_scope r = \<lparr>sc_class = r_class r, sc_family = r_family r, sc_type = r_type r\<rparr>"

text \<open>What the identity key encodes: class, family, type and, for every value whose attribute
  participates, its code, type and canonical text, in code order.\<close>

definition identity_fields :: "'d decimal_ops \<Rightarrow> resource_catalog \<Rightarrow> 'd resource \<Rightarrow> gstring list" where
  "identity_fields D c r =
     [r_class r, r_family r, r_type r] @
     concat (map (identity_parts D (resource_attributes c (own_scope r)) (values_by_code (r_attributes r)))
       (map av_code (r_attributes r)))"

definition resource_wf :: "'d decimal_ops \<Rightarrow> resource_catalog \<Rightarrow> 'd resource \<Rightarrow> bool" where
  "resource_wf D c r \<longleftrightarrow>
     (let s = own_scope r; attributes = resource_attributes c s; M = values_by_code (r_attributes r) in
      canonicalize s = s \<and> canonical (r_unit r) = r_unit r
      \<and> has_family c s \<and> has_type c s \<and> allowed_unit c s (r_unit r)
      \<and> sorted_wrt (<) (map av_code (r_attributes r))
      \<and> (\<forall>v\<in>set (r_attributes r). \<exists>a. map_of attributes (av_code v) = Some a \<and> value_wf D c a v)
      \<and> (\<forall>k\<in>set (gkeys attributes). slot_ok attributes M k)
      \<and> validate_relations (\<lambda>ks. ks) c attributes M = None
      \<and> r_identity r = ''v1|'' @ concat (map identity_component (identity_fields D c r))
      \<and> r_canonical r)"

text \<open>The result of \<open>new_resource\<close> once the caller's values are bound.\<close>

definition resource_of ::
  "'d decimal_ops \<Rightarrow> resource_catalog \<Rightarrow> resource_scope \<Rightarrow> gstring \<Rightarrow> (gstring \<rightharpoonup> 'd attr_value) \<Rightarrow> 'd resource" where
  "resource_of D c s u M =
     (let attributes = resource_attributes c s; codes = sort (gkeys attributes) in
      \<lparr>r_id = 0, r_class = canonical (sc_class s), r_family = canonical (sc_family s), r_type = canonical (sc_type s),
       r_unit = canonical u, r_attributes = map (the \<circ> M) (present M codes),
       r_identity = ''v1|'' @ concat (map identity_component ([canonical (sc_class s), canonical (sc_family s),
          canonical (sc_type s)] @ concat (map (identity_parts D attributes M) codes))),
       r_revision = 0, r_active = True, r_canonical = True\<rparr>)"

definition acceptable ::
  "resource_catalog \<Rightarrow> resource_scope \<Rightarrow> gstring \<Rightarrow> (gstring \<rightharpoonup> 'd attr_value) \<Rightarrow> bool \<Rightarrow> bool" where
  "acceptable c s u M active \<longleftrightarrow> has_family c s \<and> has_type c s \<and> allowed_unit c s u
     \<and> (active \<longrightarrow> validate_active_chain (\<lambda>ks. ks) c s u (resource_attributes c s) M = None)
     \<and> validate_relations (\<lambda>ks. ks) c (resource_attributes c s) M = None
     \<and> (\<forall>k\<in>set (gkeys (resource_attributes c s)). slot_ok (resource_attributes c s) M k)"

lemma case_option_first_error:
  "(case first_error f xs of Some e \<Rightarrow> Some e | None \<Rightarrow> g) = None \<longleftrightarrow> (\<forall>x\<in>set xs. f x = None) \<and> g = None"
  by (cases "first_error f xs") (auto simp del: first_error_None_iff simp add: first_error_None_iff[symmetric])

lemma if_None_iff: "(if b then Some e else r) = None \<longleftrightarrow> \<not> b \<and> r = None"
  by simp

lemma active_chain_range:
  assumes "range_ok rng"
  shows "validate_active_chain rng c (canonicalize s) (canonical u) attributes M = None
     \<longleftrightarrow> validate_active_chain (\<lambda>ks. ks) c s u attributes M = None"
  unfolding validate_active_chain_def Let_def
  by (cases "active_semantics_enabled c")
    (simp_all only: if_None_iff case_option_first_error canonicalize_simps canonicalize_idem canonical_idem
      range_ok_set[OF assms] if_True if_False not_True_eq_False not_False_eq_True)

lemma relations_range:
  "range_ok rng \<Longrightarrow> validate_relations rng c attributes M = None \<longleftrightarrow> validate_relations (\<lambda>ks. ks) c attributes M = None"
  by (simp add: validate_relations_None range_ok_id)

lemma sorted_codes: "sorted (map av_code vs) \<Longrightarrow> sort_key av_code vs = vs"
  by (rule sort_key_id_if_sorted)

lemma new_resource_Inr_iff:
  assumes rng: "range_ok rng"
  shows "new_resource rng D c s u vs active = Inr r \<longleftrightarrow>
    (\<exists>M. bind_values D c (canonicalize s) (resource_attributes c s) Map.empty vs = Inr M
       \<and> acceptable c s u M active \<and> r = resource_of D c s u M)"
proof -
  let ?A = "resource_attributes c s"
  let ?codes = "sort (gkeys ?A)"
  have asm: "assemble D ?A M (sort (rng (gkeys ?A))) = Inr (i, ws) \<longleftrightarrow>
      (\<forall>k\<in>set (gkeys ?A). slot_ok ?A M k)
      \<and> i = map identity_component (concat (map (identity_parts D ?A M) ?codes))
      \<and> ws = map (the \<circ> M) (present M ?codes)"
    if "bind_values D c (canonicalize s) ?A Map.empty vs = Inr M" for M i ws
  proof -
    have b: "bound_ok D c ?A M"
      using bind_values_ok[OF that] by (simp add: bound_ok_def)
    show ?thesis
    proof (cases "\<forall>k\<in>set (gkeys ?A). slot_ok ?A M k")
      case True
      then have "assemble D ?A M ?codes = Inr (map identity_component (concat (map (identity_parts D ?A M) ?codes)),
          map (the \<circ> M) (present M ?codes))"
        by (intro assemble_spec(1)[OF b]) simp
      with True show ?thesis by (simp only: range_ok_sort[OF rng] sum.inject prod.inject simp_thms) blast
    next
      case False
      then have "\<exists>e. assemble D ?A M ?codes = Inl e \<and> validation_error e"
        by (intro assemble_spec(2)[OF b]) simp
      then obtain e where "assemble D ?A M ?codes = Inl e" by blast
      with False show ?thesis by (simp add: range_ok_sort[OF rng])
    qed
  qed
  have srt: "sort_key av_code (map (the \<circ> M) (present M ?codes)) = map (the \<circ> M) (present M ?codes)"
    if "bind_values D c (canonicalize s) ?A Map.empty vs = Inr M" for M
  proof -
    have b: "bound_ok D c ?A M"
      using bind_values_ok[OF that] by (simp add: bound_ok_def)
    show ?thesis
      by (rule sorted_codes) (simp only: present_codes[OF b] sorted_wrt_filter sorted_sort)
  qed
  have chain: "((if active then validate_active_chain rng c (canonicalize s) (canonical u) ?A M else None) = None)
      = (active \<longrightarrow> validate_active_chain (\<lambda>ks. ks) c s u ?A M = None)" for M
    by (cases active) (simp_all only: active_chain_range[OF rng] if_True if_False simp_thms)
  have body: "check (if active then validate_active_chain rng c (canonicalize s) (canonical u) ?A M else None)
      (check (validate_relations rng c ?A M) (bindr (assemble D ?A M (sort (rng (gkeys ?A)))) (\<lambda>(identity, values).
         Inr \<lparr>r_id = 0, r_class = canonical (sc_class s), r_family = canonical (sc_family s),
           r_type = canonical (sc_type s), r_unit = canonical u, r_attributes = sort_key av_code values,
           r_identity = ''v1|'' @ identity_component (canonical (sc_class s)) @ identity_component (canonical (sc_family s))
             @ identity_component (canonical (sc_type s)) @ join [] identity,
           r_revision = 0, r_active = True, r_canonical = True\<rparr>))) = Inr r
    \<longleftrightarrow> (active \<longrightarrow> validate_active_chain (\<lambda>ks. ks) c s u ?A M = None)
      \<and> validate_relations (\<lambda>ks. ks) c ?A M = None
      \<and> (\<forall>k\<in>set (gkeys ?A). slot_ok ?A M k) \<and> resource_of D c s u M = r"
    if m: "bind_values D c (canonicalize s) ?A Map.empty vs = Inr M" for M
  proof -
    have step: "bindr (assemble D ?A M (sort (rng (gkeys ?A)))) f = Inr r \<longleftrightarrow>
        (\<forall>k\<in>set (gkeys ?A). slot_ok ?A M k) \<and>
        f (map identity_component (concat (map (identity_parts D ?A M) ?codes)), map (the \<circ> M) (present M ?codes)) = Inr r"
      for f :: "gstring list \<times> 'a attr_value list \<Rightarrow> go_error + 'a resource"
      unfolding bindr_Inr_iff split_paired_Ex asm[OF m] by auto
    have result: "resource_of D c s u M = \<lparr>r_id = 0, r_class = canonical (sc_class s),
           r_family = canonical (sc_family s), r_type = canonical (sc_type s), r_unit = canonical u,
           r_attributes = sort_key av_code (map (the \<circ> M) (present M ?codes)),
           r_identity = ''v1|'' @ identity_component (canonical (sc_class s)) @ identity_component (canonical (sc_family s))
             @ identity_component (canonical (sc_type s))
             @ join [] (map identity_component (concat (map (identity_parts D ?A M) ?codes))),
           r_revision = 0, r_active = True, r_canonical = True\<rparr>"
      unfolding srt[OF m] by (simp add: resource_of_def Let_def join_concat)
    show ?thesis
      unfolding check_Inr_iff chain relations_range[OF rng] step prod.case result sum.inject by blast
  qed
  show ?thesis
  proof (cases "bind_values D c (canonicalize s) ?A Map.empty vs")
    case (Inl e)
    then show ?thesis by (simp add: new_resource_def Let_def)
  next
    case (Inr M)
    show ?thesis
      using body[OF Inr]
      by (simp only: new_resource_def Let_def acceptable_def scope_canonicalize canonicalize_simps Inr bindr_simps
          if_not_P not_not split: if_split) (auto simp: Inr)
  qed
qed


lemma own_scope_resource_of [simp]: "own_scope (resource_of D c s u M) = canonicalize s"
  by (simp add: own_scope_def resource_of_def Let_def canonicalize_def)

lemma concat_present: "concat (map (identity_parts D A M) (present M codes)) = concat (map (identity_parts D A M) codes)"
  by (induction codes) (auto simp: identity_parts_def)

lemma bound_ok_empty [simp]: "bound_ok D c A Map.empty"
  by (simp add: bound_ok_def)

lemma bound_ok_dom: "bound_ok D c A M \<Longrightarrow> dom M \<subseteq> set (gkeys A)"
  by (auto simp: bound_ok_def set_gkeys)

lemma resource_of_wf:
  assumes b: "bound_ok D c (resource_attributes c s) M" and a: "acceptable c s u M active"
  shows "resource_wf D c (resource_of D c s u M)"
proof -
  let ?A = "resource_attributes c s" and ?r = "resource_of D c s u M"
  let ?codes = "sort (gkeys ?A)"
  have attrs: "r_attributes ?r = map (the \<circ> M) (present M ?codes)"
    by (simp add: resource_of_def Let_def)
  have M: "values_by_code (r_attributes ?r) = M"
    unfolding attrs using bound_ok_dom[OF b] by (intro values_by_code_present[OF b]) auto
  have codes: "map av_code (r_attributes ?r) = present M ?codes"
    unfolding attrs by (rule present_codes[OF b])
  have "sorted_wrt (<) ?codes" by (simp add: strict_sorted_iff)
  then have sorted: "sorted_wrt (<) (map av_code (r_attributes ?r))"
    unfolding codes by (rule sorted_wrt_filter)
  have vals: "\<forall>v\<in>set (r_attributes ?r). \<exists>x. map_of ?A (av_code v) = Some x \<and> value_wf D c x v"
    unfolding attrs using b by (auto simp: bound_ok_def)
  have idf: "identity_fields D c ?r = [r_class ?r, r_family ?r, r_type ?r] @ concat (map (identity_parts D ?A M) ?codes)"
    unfolding identity_fields_def codes own_scope_resource_of scope_canonicalize M concat_present ..
  have key: "r_identity ?r = ''v1|'' @ concat (map identity_component (identity_fields D c ?r))"
    unfolding idf by (simp add: resource_of_def Let_def)
  show ?thesis
    unfolding resource_wf_def Let_def M
    using a sorted vals key by (simp add: acceptable_def) (simp add: resource_of_def Let_def)
qed

lemma new_resource_wf:
  assumes "range_ok rng" "new_resource rng D c s u vs active = Inr r"
  shows "resource_wf D c r"
  using assms unfolding new_resource_Inr_iff[OF assms(1)]
  by (auto intro!: resource_of_wf dest: bind_values_ok)

lemma values_by_code_wf:
  assumes "\<forall>v\<in>set vs. canonical_attribute (av_code v) = av_code v" "distinct (map av_code vs)"
  shows "values_by_code vs = map_of (map (\<lambda>v. (av_code v, v)) vs)"
proof -
  have "map (\<lambda>v. (canonical_attribute (av_code v), v)) vs = map (\<lambda>v. (av_code v, v)) vs"
    using assms(1) by simp
  then have "values_by_code vs = map_of (rev (map (\<lambda>v. (av_code v, v)) vs))"
    by (simp only: values_by_code_last)
  also have "\<dots> = map_of (map (\<lambda>v. (av_code v, v)) vs)"
    by (rule map_of_rev_distinct) (simp add: o_def assms(2))
  finally show ?thesis .
qed

text \<open>Replaying the construction on the parts of a canonical resource gives it back.\<close>

lemma new_resource_fixed:
  assumes rng: "range_ok rng" and wf: "resource_wf D c r"
  shows "new_resource rng D c (own_scope r) (r_unit r) (r_attributes r) False
    = Inr (r\<lparr>r_id := 0, r_revision := 0, r_active := True\<rparr>)"
proof -
  let ?s = "own_scope r" and ?vs = "r_attributes r"
  let ?A = "resource_attributes c ?s" and ?M = "values_by_code ?vs"
  let ?codes = "sort (gkeys ?A)"
  have vals: "\<forall>v\<in>set ?vs. \<exists>x. map_of ?A (av_code v) = Some x \<and> value_wf D c x v"
    and sorted: "sorted_wrt (<) (map av_code ?vs)" and scope: "canonicalize ?s = ?s"
    using wf by (simp_all add: resource_wf_def Let_def)
  have dist: "distinct (map av_code ?vs)" using sorted by (simp add: strict_sorted_iff)
  have canon: "\<forall>v\<in>set ?vs. canonical_attribute (av_code v) = av_code v"
    using vals by (auto simp: value_wf_def)
  have M: "?M = map_of (map (\<lambda>v. (av_code v, v)) ?vs)"
    by (rule values_by_code_wf[OF canon dist])
  have bind: "bind_values D c (canonicalize ?s) ?A Map.empty ?vs = Inr ?M"
    using bind_values_fixed[OF vals dist, of Map.empty] by (simp add: M)
  have b: "bound_ok D c ?A ?M" using bind_values_ok[OF bind] by simp
  have acc: "acceptable c ?s (r_unit r) ?M False"
    using wf by (simp add: resource_wf_def acceptable_def Let_def)
  have dom: "dom ?M = set (map av_code ?vs)"
    unfolding M by (simp add: dom_map_of_conv_image_fst image_image)
  have keys: "set (map av_code ?vs) \<subseteq> set ?codes"
    using bound_ok_dom[OF b] dom by simp
  have "set (present ?M ?codes) = set (map av_code ?vs)"
    using keys dom by (auto simp: dom_def)
  moreover have "sorted_wrt (<) (present ?M ?codes)"
    by (rule sorted_wrt_filter) (simp add: strict_sorted_iff)
  ultimately have pres: "present ?M ?codes = map av_code ?vs"
    using sorted by (metis strict_sorted_equal)
  have "map (the \<circ> ?M) (map av_code ?vs) = ?vs"
    unfolding M using dist by (intro map_the_map_of)
  then have attrs: "map (the \<circ> ?M) (present ?M ?codes) = ?vs" unfolding pres .
  have id: "identity_fields D c r = [r_class r, r_family r, r_type r] @ concat (map (identity_parts D ?A ?M) ?codes)"
    unfolding identity_fields_def pres[symmetric] concat_present ..
  have parts: "canonical (r_class r) = r_class r" "canonical (r_family r) = r_family r"
    "canonical (r_type r) = r_type r" "canonical (r_unit r) = r_unit r" "r_canonical r"
    using wf by (auto simp: resource_wf_def Let_def canonicalize_def own_scope_def)
  have key: "r_identity r = ''v1|'' @ concat (map identity_component (identity_fields D c r))"
    using wf by (simp add: resource_wf_def Let_def)
  have "resource_of D c ?s (r_unit r) ?M = r\<lparr>r_id := 0, r_revision := 0, r_active := True\<rparr>"
    unfolding resource_of_def Let_def attrs
    by (rule resource.equality) (simp_all add: own_scope_def parts key id)
  then show ?thesis
    unfolding new_resource_Inr_iff[OF rng] using bind acc by metis
qed


section \<open>Rejections\<close>

lemma reference_chain:
  "attribute_chain_error c attributes values code = Some e \<Longrightarrow> reference_error e"
  "relation_chain_error attributes rel = Some e \<Longrightarrow> reference_error e"
  by (auto simp: attribute_chain_error_def relation_chain_error_def Let_def split: if_splits option.splits)

lemma case_option_Some_iff:
  "(case x of Some e \<Rightarrow> Some e | None \<Rightarrow> y) = Some e \<longleftrightarrow> x = Some e \<or> x = None \<and> y = Some e"
  by (cases x) auto

lemma if_Some_iff: "(if b then Some e else r) = Some e' \<longleftrightarrow> b \<and> e = e' \<or> \<not> b \<and> r = Some e'"
  by auto

lemma active_chain_error:
  assumes "validate_active_chain rng c s u attributes values = Some e"
  shows "reference_error e"
proof -
  have "first_error (attribute_chain_error c attributes values) ks = Some e \<Longrightarrow> reference_error e" for ks
    by (blast dest: first_error_Some reference_chain)
  moreover have "first_error (relation_chain_error attributes) rs = Some e \<Longrightarrow> reference_error e" for rs
    by (blast dest: first_error_Some reference_chain)
  ultimately show ?thesis
    using assms unfolding validate_active_chain_def Let_def if_Some_iff case_option_Some_iff
    by (cases "active_semantics_enabled c") (auto simp only: if_Some_iff case_option_Some_iff if_True if_False
        not_True_eq_False not_False_eq_True reference_is option.distinct)
qed

text \<open>The stage at which a construction fails decides the kind of its error.\<close>

definition chain_stage ::
  "'d decimal_ops \<Rightarrow> resource_catalog \<Rightarrow> resource_scope \<Rightarrow> gstring \<Rightarrow> 'd attr_value list \<Rightarrow> bool \<Rightarrow> bool" where
  "chain_stage D c s u vs active \<longleftrightarrow> has_family c s \<and> has_type c s \<and> allowed_unit c s u \<and> active
     \<and> (case bind_values D c (canonicalize s) (resource_attributes c s) Map.empty vs of
          Inl _ \<Rightarrow> False
        | Inr M \<Rightarrow> validate_active_chain (\<lambda>ks. ks) c s u (resource_attributes c s) M \<noteq> None)"

lemma new_resource_error:
  assumes rng: "range_ok rng" and err: "new_resource rng D c s u vs active = Inl e"
  shows "if chain_stage D c s u vs active then reference_error e else validation_error e"
proof (cases "has_family c s \<and> has_type c s \<and> allowed_unit c s u")
  case False
  then show ?thesis using err by (auto simp: new_resource_def Let_def chain_stage_def split: if_splits)
next
  case exists: True
  let ?A = "resource_attributes c s"
  show ?thesis
  proof (cases "bind_values D c (canonicalize s) ?A Map.empty vs")
    case (Inl e')
    then show ?thesis
      using err exists by (auto simp: new_resource_def Let_def chain_stage_def dest: bind_values_error)
  next
    case (Inr M)
    have b: "bound_ok D c ?A M" using bind_values_ok[OF Inr] by simp
    let ?chain = "validate_active_chain rng c (canonicalize s) (canonical u) ?A M"
    have stage: "chain_stage D c s u vs active \<longleftrightarrow> active \<and> ?chain \<noteq> None"
      using exists Inr by (simp add: chain_stage_def active_chain_range[OF rng, of c s u ?A M] del: not_None_eq)
    have asm: "assemble D ?A M codes = Inl e' \<Longrightarrow> validation_error e'" for codes e'
      using assemble_spec[OF b, of codes] by (cases "\<forall>k\<in>set codes. slot_ok ?A M k") auto
    show ?thesis
    proof (cases "active \<and> ?chain \<noteq> None")
      case True
      then show ?thesis using err exists Inr stage
        by (auto simp: new_resource_def Let_def dest: active_chain_error)
    next
      case False
      then have none: "(if active then ?chain else None) = None" by auto
      have tail: "validation_error e"
        if "check (validate_relations rng c ?A M) (bindr (assemble D ?A M codes) f) = Inl e" "\<And>p. ok (f p)"
        for codes and f :: "gstring list \<times> 'a attr_value list \<Rightarrow> go_error + 'a resource"
      proof (cases "validate_relations rng c ?A M")
        case None
        with that(1) have "bindr (assemble D ?A M codes) f = Inl e" by simp
        then have "assemble D ?A M codes = Inl e"
          unfolding bindr_Inl_iff using that(2) by (metis ok_simps(1))
        then show ?thesis by (rule asm)
      next
        case (Some e')
        with that(1) show ?thesis using validate_relations_error by fastforce
      qed
      have "validation_error e"
        using err exists
        apply (simp only: new_resource_def Let_def scope_canonicalize canonicalize_simps Inr bindr_simps none
            check_simps not_True_eq_False if_False simp_thms)
        apply (erule tail)
        apply (simp split: prod.split)
        done
      moreover have "\<not> chain_stage D c s u vs active" using stage False by blast
      ultimately show ?thesis by (simp only: if_False)
    qed
  qed
qed

lemma no_panic_kind: "\<not> reference_error (Panic m)" "\<not> validation_error (Panic m)"
  by (auto simp: reference_error_def validation_error_def)

lemma new_resource_no_panic:
  assumes "range_ok rng" "new_resource rng D c s u vs active = Inl e"
  shows "e \<noteq> Panic m"
proof
  assume "e = Panic m"
  then show False
    using new_resource_error[OF assms] no_panic_kind[of m] by (cases "chain_stage D c s u vs active") simp_all
qed

end
