(* ===== verification/DemoCatalog.thy ===== *)
theory DemoCatalog
  imports CatalogTypes
begin

text \<open>
  Concrete inputs of the witnesses: a decimal implementation on integers and a small
  catalog with one class, family and type, a controlled option \<^verbatim>\<open>color\<close>, a second one
  \<^verbatim>\<open>tono\<close> related to it and a text \<^verbatim>\<open>nota\<close>. Nothing here models code.
\<close>

definition unit_decimals :: "int decimal_ops" where
  "unit_decimals = \<lparr>dec_parse = (\<lambda>s. if s = [] then None else Some (int (read_nat s))), dec_zero = 0,
     dec_string = show_int, dec_is_negative = (\<lambda>d. d < 0), dec_is_zero = (\<lambda>d. d = 0), dec_equal = (=),
     dec_add = (+)\<rparr>"

definition demo_definition :: "gstring \<Rightarrow> gstring \<Rightarrow> attribute_definition" where
  "demo_definition code vt = \<lparr>ad_code = code, ad_name = code, ad_value_type = vt, ad_dimension = [],
     ad_default_identity = True, ad_active = True\<rparr>"

definition demo_attribute :: "gstring \<Rightarrow> gstring \<Rightarrow> gstring \<Rightarrow> bool \<Rightarrow> resource_attribute" where
  "demo_attribute code vt mode identity = \<lparr>ra_class = ''C'', ra_family = ''F'', ra_type = [], ra_option_set = [],
     ra_definition = demo_definition code vt, ra_mode = mode, ra_identity = identity, ra_rules = [],
     ra_active = True\<rparr>"

definition demo_option :: "gstring \<Rightarrow> gstring \<Rightarrow> attribute_option" where
  "demo_option attribute code = \<lparr>ao_set = [], ao_attribute = attribute, ao_code = code, ao_label = code, ao_active = True\<rparr>"

definition demo_relation :: "gstring \<Rightarrow> gstring \<Rightarrow> attribute_option_relation" where
  "demo_relation a b = \<lparr>rel_set = [], rel_from_attribute = ''Color'', rel_from_option = a,
     rel_to_attribute = ''tono'', rel_to_option = b, rel_active = True\<rparr>"

definition demo_catalog :: resource_catalog where
  "demo_catalog = \<lparr>
     cat_classes = [\<lparr>rc_code = ''C'', rc_name = ''Clase'', rc_plural = ''Clases'', rc_slug = ''c'', rc_aliases = [],
        rc_keywords = [], rc_order = 1, rc_active = True\<rparr>],
     cat_families = [\<lparr>rf_class = ''C'', rf_code = ''F'', rf_name = ''Familia'', rf_active = True\<rparr>],
     cat_types = [\<lparr>rt_class = ''C'', rt_family = ''F'', rt_code = ''T'', rt_name = ''Tipo'', rt_active = True\<rparr>],
     cat_presentation = [\<lparr>pf_class = ''C'', pf_family = ''F'', pf_type = ''T'', pf_attribute = ''tono'',
        pf_position = 1, pf_active = True\<rparr>],
     cat_units = [\<lparr>ud_code = ''M'', ud_name = ''Metro'', ud_symbol = ''m'', ud_dimension = ''L'', ud_active = True\<rparr>],
     cat_unit_policies = [\<lparr>up_class = ''C'', up_family = ''F'', up_unit = ''M'', up_allowed = True,
        up_suggested = True, up_active = True\<rparr>],
     cat_definitions = [demo_definition ''color'' ValueTypeControlledOption, demo_definition ''tono'' ValueTypeControlledOption,
        demo_definition ''nota'' ValueTypeControlledText],
     cat_attributes = [demo_attribute ''color'' ValueTypeControlledOption ModeRequired True,
        demo_attribute ''tono'' ValueTypeControlledOption ModeOptional True,
        demo_attribute ''nota'' ValueTypeControlledText ModeOptional False],
     cat_options = [demo_option ''color'' ''ROJO'', demo_option ''color'' ''AZUL'', demo_option ''tono'' ''CLARO'',
        demo_option ''tono'' ''OSCURO''],
     cat_relations = [demo_relation ''ROJO'' ''CLARO'', demo_relation ''AZUL'' ''OSCURO''],
     cat_option_sets = [\<lparr>os_code = ''DEFAULT'', os_name = ''Base'', os_active = True\<rparr>]\<rparr>"

definition demo_scope :: resource_scope where
  "demo_scope = \<lparr>sc_class = '' c'', sc_family = ''f'', sc_type = ''T''\<rparr>"

definition demo_values :: "int attr_value list" where
  "demo_values = [option_value ''Tono'' ''CLARO'', option_value ''COLOR'' ''ROJO'',
     controlled_text_value ''nota'' '' dos  palabras'']"

definition demo_resource :: "int resource" where
  "demo_resource = \<lparr>r_id = 0, r_class = ''C'', r_family = ''F'', r_type = ''T'', r_unit = ''M'',
     r_attributes = [option_value ''color'' ''ROJO'', controlled_text_value ''nota'' ''dos palabras'',
       option_value ''tono'' ''CLARO''],
     r_identity = ''v1|1:C1:F1:T5:color17:CONTROLLED_OPTION4:ROJO4:tono17:CONTROLLED_OPTION5:CLARO'',
     r_revision = 0, r_active = True, r_canonical = True\<rparr>"

end
