(* ===== verification/ResourceTheorems.thy ===== *)
theory ResourceTheorems
  imports ResourceLemmas DemoCatalog
begin

text \<open>
  The properties of resource construction, hydration and the read queries, with their
  witnesses on the catalog of \<open>DemoCatalog\<close>.
\<close>

section \<open>Inputs of the witnesses\<close>

text \<open>One list is a selection of the other in the same order.\<close>

definition sublist_of_attributes :: "resource_attribute list \<Rightarrow> resource_attribute list \<Rightarrow> bool" where
  "sublist_of_attributes xs ys \<longleftrightarrow> (\<exists>P. xs = filter P ys)"

definition demo_tono :: resource_attribute where
  "demo_tono = demo_attribute ''tono'' ValueTypeControlledOption ModeOptional True"

definition demo_choice :: "int attr_value list" where
  "demo_choice = [option_value ''color'' ''AZUL'']"

definition inactive_catalog :: resource_catalog where
  "inactive_catalog = demo_catalog\<lparr>cat_families := map (rf_active_update (\<lambda>_. False)) (cat_families demo_catalog)\<rparr>"

definition snapshot_of :: "'d resource \<Rightarrow> int \<Rightarrow> revision \<Rightarrow> bool \<Rightarrow> 'd resource_snapshot" where
  "snapshot_of r rid revision active = \<lparr>sn_id = rid, sn_class = r_class r, sn_family = r_family r, sn_type = r_type r,
     sn_unit = r_unit r, sn_attributes = r_attributes r, sn_identity = r_identity r, sn_revision = revision,
     sn_active = active\<rparr>"

definition note_catalog :: resource_catalog where
  "note_catalog = demo_catalog\<lparr>cat_attributes := [demo_attribute ''nota'' ValueTypeControlledText ModeRequired True]\<rparr>"

lemma demo_created: "NewResource rev unit_decimals demo_catalog demo_scope ''m'' demo_values = Inr demo_resource"
  by code_simp

lemma demo_created_id: "NewResource (\<lambda>ks. ks) unit_decimals demo_catalog demo_scope ''m'' demo_values = Inr demo_resource"
  by code_simp


section \<open>Creation\<close>

text \<open>C1: the identity key of created resources is injective: two created resources, possibly
  under different catalogs and iteration orders, have the same \<^verbatim>\<open>IdentityKey\<close> exactly when
  class, family, type and every identifying (attribute code, type, canonical value) agree.
  The length prefix of \<^verbatim>\<open>identityComponent\<close> leaves no collision by concatenation.\<close>

theorem identity_key_injective:
  assumes "range_ok rng1" "range_ok rng2"
    and "NewResource rng1 D c1 s1 u1 vs1 = Inr r1" "NewResource rng2 D c2 s2 u2 vs2 = Inr r2"
  shows "r_identity r1 = r_identity r2 \<longleftrightarrow> identity_fields D c1 r1 = identity_fields D c2 r2"
proof -
  have "resource_wf D c1 r1" "resource_wf D c2 r2"
    using assms unfolding NewResource_def by (auto intro: new_resource_wf)
  then show ?thesis
    by (auto simp: resource_wf_def Let_def dest: identity_components_inj)
qed

theorem identity_key_injective_witness:
  "r_identity demo_resource = r_identity demo_resource \<longleftrightarrow>
     identity_fields unit_decimals demo_catalog demo_resource = identity_fields unit_decimals demo_catalog demo_resource"
  by (rule identity_key_injective[OF range_ok_id(2) range_ok_id(1) demo_created demo_created_id])

text \<open>C33: the result of \<^verbatim>\<open>NewResource\<close> does not depend on the order in which Go iterates its
  maps: the same inputs give the same resource under every order, and a rejection is a
  rejection of the same kind (only the message may name another attribute).\<close>

theorem new_resource_order_independent:
  assumes "range_ok rng1" "range_ok rng2"
  shows "(case NewResource rng1 D c s u vs of
      Inr r \<Rightarrow> NewResource rng2 D c s u vs = Inr r
    | Inl e \<Rightarrow> \<exists>e'. NewResource rng2 D c s u vs = Inl e' \<and> (\<forall>t. error_is e t = error_is e' t))"
proof -
  have same: "NewResource rng1 D c s u vs = Inr r \<longleftrightarrow> NewResource rng2 D c s u vs = Inr r" for r
    unfolding NewResource_def new_resource_Inr_iff[OF assms(1)] new_resource_Inr_iff[OF assms(2)] ..
  show ?thesis
  proof (cases "NewResource rng1 D c s u vs")
    case (Inr r)
    with same have "NewResource rng2 D c s u vs = Inr r" by blast
    with Inr show ?thesis by simp
  next
    case (Inl e)
    with same have "\<nexists>r. NewResource rng2 D c s u vs = Inr r" by (metis sum.distinct(1))
  then obtain e' where e': "NewResource rng2 D c s u vs = Inl e'"
    by (cases "NewResource rng2 D c s u vs") auto
  have "\<forall>t. error_is e t = error_is e' t"
    using new_resource_error[OF assms(1) Inl[unfolded NewResource_def]]
      new_resource_error[OF assms(2) e'[unfolded NewResource_def]]
    by (auto simp: validation_error_def reference_error_def split: if_splits)
  with Inl e' show ?thesis by simp
  qed
qed

theorem new_resource_order_independent_witness:
  "(case NewResource rev unit_decimals demo_catalog demo_scope ''m'' demo_values of
      Inr r \<Rightarrow> NewResource (\<lambda>ks. ks) unit_decimals demo_catalog demo_scope ''m'' demo_values = Inr r
    | Inl e \<Rightarrow> \<exists>e'. NewResource (\<lambda>ks. ks) unit_decimals demo_catalog demo_scope ''m'' demo_values = Inl e'
        \<and> (\<forall>t. error_is e t = error_is e' t))"
  by (rule new_resource_order_independent[OF range_ok_id(2) range_ok_id(1)])

text \<open>A created resource satisfies the invariant of a canonical resource (\<open>resource_wf\<close>):
  canonical scope and unit that the catalog defines, attribute values strictly sorted by
  code, each canonical for an attribute of the scope, every attribute slot in its effective
  mode (required ones present, forbidden and not applicable ones absent), coherent option
  relations, and the identity key spelled from exactly these parts.\<close>

theorem new_resource_invariant:
  assumes "range_ok rng" "NewResource rng D c s u vs = Inr r"
  shows "resource_wf D c r \<and> r_active r \<and> own_scope r = canonicalize s \<and> r_unit r = canonical u"
proof -
  obtain M where "r = resource_of D c s u M"
    using assms(2) unfolding NewResource_def new_resource_Inr_iff[OF assms(1)] by blast
  then have "r_active r \<and> own_scope r = canonicalize s \<and> r_unit r = canonical u"
    by (simp add: own_scope_def resource_of_def Let_def canonicalize_def)
  with assms show ?thesis unfolding NewResource_def by (auto intro: new_resource_wf)
qed

theorem new_resource_invariant_witness:
  "resource_wf unit_decimals demo_catalog demo_resource \<and> r_active demo_resource
    \<and> own_scope demo_resource = canonicalize demo_scope \<and> r_unit demo_resource = canonical ''m''"
  by (rule new_resource_invariant[OF range_ok_id(2) demo_created])

text \<open>Every rejection of \<^verbatim>\<open>NewResource\<close> is classified by the neutral error boundary as
  VALIDATION or INVALID_REFERENCE; it is INVALID_REFERENCE exactly when the inputs are
  well-formed but the active chain (class, family, type, unit, policy, attributes, options,
  relations) has an inactive member. No nil pointer is dereferenced on the way.\<close>

theorem new_resource_error_kind:
  assumes "range_ok rng" "NewResource rng D c s u vs = Inl e"
  shows "core_code_of (Some e) = Some (if chain_stage D c s u vs True then InvalidReference else Validation)
    \<and> (\<forall>m. e \<noteq> Panic m)"
  using new_resource_error[OF assms(1) assms(2)[unfolded NewResource_def]]
    new_resource_no_panic[OF assms(1) assms(2)[unfolded NewResource_def]]
  by (auto dest: validation_code reference_code split: if_splits)

lemma inactive_rejected:
  "NewResource rev unit_decimals inactive_catalog demo_scope ''m'' demo_values
     = Inl (validation_reference ''family %q is inactive'' [''F''])"
  by code_simp

theorem new_resource_error_kind_witness:
  "core_code_of (Some (validation_reference ''family %q is inactive'' [''F''])) =
     Some (if chain_stage unit_decimals inactive_catalog demo_scope ''m'' demo_values True then InvalidReference else Validation)
    \<and> (\<forall>m. validation_reference ''family %q is inactive'' [''F''] \<noteq> Panic m)"
  by (rule new_resource_error_kind[OF range_ok_id(2) inactive_rejected])

text \<open>Option relations are enforced: when no attribute code of the scope contains the group
  separator \<^verbatim>\<open>|\<close>, the two chosen values of a created resource joined by applicable relations
  are one of the declared pairs.\<close>

theorem new_resource_relations:
  assumes "range_ok rng" "NewResource rng D c s u vs = Inr r"
    and "\<forall>a\<in>set (attributes_for c s). CHR ''|'' \<notin> set (attribute_key a)"
  shows "relations_coherent c (resource_attributes c s) (values_by_code (r_attributes r))"
proof -
  let ?A = "resource_attributes c s"
  have wf: "resource_wf D c r" and scope: "own_scope r = canonicalize s"
    using new_resource_invariant[OF assms(1,2)] by auto
  from wf scope have "validate_relations (\<lambda>ks. ks) c ?A (values_by_code (r_attributes r)) = None"
    by (simp add: resource_wf_def Let_def)
  moreover have "\<forall>k\<in>set (gkeys ?A). CHR ''|'' \<notin> set k"
    using assms(3) by (auto simp: resource_attributes_dom)
  ultimately show ?thesis using validate_relations_coherent[OF range_ok_id(1)] by blast
qed

theorem new_resource_relations_witness:
  "relations_coherent demo_catalog (resource_attributes demo_catalog demo_scope)
     (values_by_code (r_attributes demo_resource))"
proof -
  have "\<forall>a\<in>set (attributes_for demo_catalog demo_scope). CHR ''|'' \<notin> set (attribute_key a)"
    by code_simp
  then show ?thesis by (rule new_resource_relations[OF range_ok_id(2) demo_created])
qed

section \<open>Hydration\<close>

text \<open>C28: creation and rehydration round-trip, for created resources none of whose values carries the
  \<^verbatim>\<open>NOT_APPLICABLE\<close> text: the stored snapshot rehydrates under the same catalog to the same resource with the
  stored ID and lifecycle state. The lemma below shows that the restriction is needed.\<close>

theorem rehydrate_created:
  assumes "range_ok rng1" "range_ok rng2" "NewResource rng1 D c s u vs = Inr r" "0 < rid"
    and "\<forall>v\<in>set (r_attributes r). av_text v \<noteq> NotApplicableText"
  shows "RehydrateResource rng2 D c (snapshot_of r rid revision active) = Inr (r\<lparr>r_id := rid, r_active := active\<rparr>)"
proof -
  have wf: "resource_wf D c r"
    using assms(1,3) unfolding NewResource_def by (rule new_resource_wf)
  have same: "r\<lparr>r_id := 0, r_revision := 0, r_active := True\<rparr> = r"
    using assms(3) unfolding NewResource_def new_resource_Inr_iff[OF assms(1)]
    by (auto simp: resource_of_def Let_def)
  have again: "new_resource rng2 D c (own_scope r) (r_unit r) (r_attributes r) False = Inr r"
    using new_resource_fixed[OF assms(2) wf] by (simp only: same)
  have "sorted (map av_code (r_attributes r))"
    using wf by (simp add: resource_wf_def Let_def strict_sorted_iff)
  then have sorted: "sort_key av_code (r_attributes r) = r_attributes r" by (rule sorted_codes)
  have kept: "filter (\<lambda>v. av_text v \<noteq> NotApplicableText) (r_attributes r) = r_attributes r"
    "filter (\<lambda>v. av_text v = NotApplicableText) (r_attributes r) = []"
    using assms(5) by (auto simp: filter_id_conv filter_empty_conv)
  have "RehydrateResource rng2 D c (snapshot_of r rid revision active) =
      Inr (r\<lparr>r_id := rid, r_active := active, r_attributes := sort_key av_code (r_attributes r @ [])\<rparr>)"
    using assms(4) again[unfolded own_scope_def] kept by (simp add: RehydrateResource_def snapshot_of_def)
  then show ?thesis by (simp add: sorted)
qed

theorem rehydrate_created_witness:
  "RehydrateResource (\<lambda>ks. ks) unit_decimals demo_catalog (snapshot_of demo_resource 7 3 False)
     = Inr (demo_resource\<lparr>r_id := 7, r_active := False\<rparr>)"
proof -
  have "\<forall>v\<in>set (r_attributes demo_resource). av_text v \<noteq> NotApplicableText"
    by code_simp
  then show ?thesis
    by (intro rehydrate_created[OF range_ok_id(2) range_ok_id(1) demo_created]) simp
qed

text \<open>The restriction of the round trip is needed: \<^verbatim>\<open>NewResource\<close> accepts the controlled text
  \<^verbatim>\<open>NOT_APPLICABLE\<close> for an identifying attribute, and the snapshot of the resource it creates is
  rejected by \<^verbatim>\<open>RehydrateResource\<close> (the value is dropped before the identity is recomputed).\<close>

theorem not_applicable_text_lost:
  "case NewResource rev unit_decimals note_catalog demo_scope ''m'' [controlled_text_value ''nota'' NotApplicableText] of
     Inl e \<Rightarrow> False
   | Inr r \<Rightarrow> \<not> ok (RehydrateResource rev unit_decimals note_catalog (snapshot_of r 7 1 True))"
  by code_simp


section \<open>Read queries\<close>

text \<open>\<^verbatim>\<open>ValidOptions\<close> narrows exactly by the relations: an active option of the attribute's own
  set is offered when a relation of that set pairs it with an already chosen value, and all of
  them are offered when no relation pairs the attribute with anything chosen.\<close>

theorem valid_options_narrowed:
  "set (valid_options c attr current) = {opt \<in> set (options_for c attr).
     supported c attr current (ao_code opt) \<or> (\<forall>code. \<not> supported c attr current code)}"
  by (auto simp: valid_options_spec)

theorem valid_options_narrowed_witness:
  "ao_code ` set (valid_options demo_catalog demo_tono demo_choice) = {''OSCURO''} \<and>
   ao_code ` {opt \<in> set (options_for demo_catalog demo_tono).
     supported demo_catalog demo_tono demo_choice (ao_code opt)
     \<or> (\<forall>code. \<not> supported demo_catalog demo_tono demo_choice code)} = {''OSCURO''}"
proof -
  have "ao_code ` set (valid_options demo_catalog demo_tono demo_choice) = {''OSCURO''}"
    by code_simp
  moreover from this have "ao_code ` {opt \<in> set (options_for demo_catalog demo_tono).
     supported demo_catalog demo_tono demo_choice (ao_code opt)
     \<or> (\<forall>code. \<not> supported demo_catalog demo_tono demo_choice code)} = {''OSCURO''}"
    by (simp only: valid_options_narrowed)
  ultimately show ?thesis by (rule conjI)
qed

lemma foldl_upd_map_of:
  "foldl (\<lambda>m a. m(k a \<mapsto> a)) Map.empty as = map_of (rev (map (\<lambda>a. (k a, a)) as))"
proof -
  have "foldl (\<lambda>m a. m(k a \<mapsto> a)) m0 as = m0 ++ map_of (rev (map (\<lambda>a. (k a, a)) as))" for m0
    by (induction as arbitrary: m0) (auto simp: map_add_def fun_eq_iff split: option.splits)
  then show ?thesis by simp
qed

lemma filter_no_position:
  "filter (\<lambda>e. \<not> ea_has_position e) (sort_key (\<lambda>e. (\<not> ea_has_position e, if ea_has_position e then ea_position e else 0)) es)
     = filter (\<lambda>e. \<not> ea_has_position e) (es :: effective_attribute list)" (is "filter ?P (sort_key ?f es) = _")
proof -
  have "filter ?P xs = filter (\<lambda>e. ?f e = (True, 0)) xs" for xs :: "effective_attribute list"
    by (intro filter_cong) auto
  then show ?thesis by (simp only: sort_key_stable)
qed

text \<open>\<^verbatim>\<open>EffectiveAttributesFor\<close> returns every attribute of the scope exactly once, those with a
  configured position first and by that position, the others after them in declaration
  order; each carries the mode and options resolved against the canonicalized values.\<close>

theorem effective_attributes_order:
  assumes "effective_attributes_for D c s current = Inr es"
  shows "mset (map ea_attribute es) = mset (attributes_for c s)
    \<and> sorted_wrt (\<lambda>a b. ea_has_position b \<longrightarrow> ea_has_position a \<and> ea_position a \<le> ea_position b) es
    \<and> sublist_of_attributes (map ea_attribute (filter (\<lambda>e. \<not> ea_has_position e) es)) (attributes_for c s)
    \<and> (\<exists>cur. map av_code cur = map (\<lambda>v. canonical_attribute (av_code v)) current \<and> distinct (map av_code cur)
         \<and> (\<forall>v\<in>set cur. \<exists>a\<in>set (attributes_for c s). attribute_key a = av_code v \<and> value_wf D c a v)
         \<and> (\<forall>e\<in>set es. (ea_mode e, ea_identity e, ea_not_applicable e) = Effective (ea_attribute e) cur
              \<and> ea_options e = valid_options c (ea_attribute e) cur))"
proof -
  let ?f = "\<lambda>e. (\<not> ea_has_position e, if ea_has_position e then ea_position e else 0)"
  let ?byCode = "foldl (\<lambda>m a. m(attribute_key a \<mapsto> a)) Map.empty (attributes_for c s)"
  obtain cur pos where cur: "canonical_current D c (canonicalize s) ?byCode [] current = Inr cur"
    and es: "es = sort_key ?f (map (effective_attribute_for c (canonicalize s) pos cur) (attributes_for c s))"
    using assms unfolding effective_attributes_for_def Let_def bindr_Inr_iff sum.inject scope_canonicalize by blast
  have attr: "ea_attribute (effective_attribute_for c s' pos cur a) = a" for s' a
    by (auto simp: effective_attribute_for_def Let_def split: prod.splits)
  note vals = canonical_current_map[OF cur]
  have "\<forall>v\<in>set cur. \<exists>a\<in>set (attributes_for c s). attribute_key a = av_code v \<and> value_wf D c a v"
  proof
    fix v
    assume "v \<in> set cur"
    then obtain a where a: "?byCode (av_code v) = Some a" "value_wf D c a v" using vals by blast
    then show "\<exists>a\<in>set (attributes_for c s). attribute_key a = av_code v \<and> value_wf D c a v"
      using map_of_SomeD[OF a(1)[unfolded foldl_upd_map_of]] by auto
  qed
  moreover have "map av_code cur = map (\<lambda>v. canonical_attribute (av_code v)) current \<and> distinct (map av_code cur)"
    using vals by simp
  moreover have "sorted_wrt (\<lambda>a b. ea_has_position b \<longrightarrow> ea_has_position a \<and> ea_position a \<le> ea_position b) es"
  proof -
  have "sorted_wrt (\<lambda>a b. ?f a \<le> ?f b) es"
    using sorted_sort_key[of ?f] unfolding es sorted_map by blast
  then show ?thesis
    by (rule sorted_wrt_mono_rel[rotated]) (auto split: if_splits)
  qed
  moreover have "mset (map ea_attribute es) = mset (attributes_for c s)"
    unfolding es by (simp add: attr multiset.map_comp o_def)
  moreover have "sublist_of_attributes (map ea_attribute (filter (\<lambda>e. \<not> ea_has_position e) es)) (attributes_for c s)"
    unfolding es filter_no_position filter_map by (simp add: o_def attr sublist_of_attributes_def) blast
  moreover have "\<forall>e\<in>set es. (ea_mode e, ea_identity e, ea_not_applicable e) = Effective (ea_attribute e) cur
         \<and> ea_options e = valid_options c (ea_attribute e) cur"
    unfolding es by (auto simp: effective_attribute_for_def Let_def split: prod.splits)
  ultimately show ?thesis by blast
qed

theorem effective_attributes_order_witness:
  "\<exists>es. effective_attributes_for unit_decimals demo_catalog demo_scope [option_value ''color'' ''AZUL''] = Inr es
    \<and> map (\<lambda>e. ad_code (ra_definition (ea_attribute e))) es = [''tono'', ''color'', ''nota'']
    \<and> mset (map ea_attribute es) = mset (attributes_for demo_catalog demo_scope)"
proof -
  have "case effective_attributes_for unit_decimals demo_catalog demo_scope [option_value ''color'' ''AZUL''] of
      Inl _ \<Rightarrow> False | Inr es \<Rightarrow> map (\<lambda>e. ad_code (ra_definition (ea_attribute e))) es = [''tono'', ''color'', ''nota'']"
    by code_simp
  then show ?thesis
    using effective_attributes_order[of unit_decimals demo_catalog demo_scope "[option_value ''color'' ''AZUL'']"]
    by (auto split: sum.splits)
qed

section \<open>Search criteria\<close>

text \<open>\<^verbatim>\<open>SearchCriteria.Normalize\<close> accepts exactly the criteria with a limit of 0 to 50, a
  non-negative offset and a known lifecycle scope; an accepted page has between 1 and 50 rows,
  only the limit changes, and normalizing again changes nothing.\<close>

theorem normalize_bounds:
  "(ok (Normalize c) \<longleftrightarrow> 0 \<le> cr_limit c \<and> cr_limit c \<le> 50 \<and> 0 \<le> cr_offset c \<and> cr_lifecycle c \<in> {0, 1})
   \<and> (\<forall>n. Normalize c = Inr n \<longrightarrow> 1 \<le> cr_limit n \<and> cr_limit n \<le> 50 \<and> n\<lparr>cr_limit := cr_limit c\<rparr> = c
        \<and> Normalize n = Inr n)"
  by (auto simp: Normalize_def Let_def)

theorem normalize_bounds_witness:
  "\<exists>n. Normalize \<lparr>cr_text = [], cr_class = [], cr_family = [], cr_type = [], cr_filters = [] :: int attr_value list,
      cr_lifecycle = 1, cr_limit = 0, cr_offset = 4\<rparr> = Inr n \<and> Normalize n = Inr n \<and> 1 \<le> cr_limit n"
proof -
  let ?c = "\<lparr>cr_text = [], cr_class = [], cr_family = [], cr_type = [], cr_filters = [] :: int attr_value list,
      cr_lifecycle = 1, cr_limit = 0, cr_offset = 4\<rparr>"
  have "ok (Normalize ?c)" using normalize_bounds[of ?c] by simp
  then obtain n where "Normalize ?c = Inr n" by (auto simp: ok_iff)
  moreover have "1 \<le> cr_limit n \<and> Normalize n = Inr n"
    using normalize_bounds[of ?c] \<open>Normalize ?c = Inr n\<close> by blast
  ultimately show ?thesis by blast
qed

end
