(* ===== verification/ErrorTheorems.thy ===== *)
theory ErrorTheorems
  imports Errors
begin

text \<open>
  Properties of the neutral error boundary \<^verbatim>\<open>core.Map\<close>: it sees through wrapping, a neutral
  error passes unchanged, and the precedence keeps the dedicated outcomes apart from the
  broader sentinels they wrap.
\<close>

lemma error_is_wrap [simp]: "error_is (Wrapf f args [e]) t = error_is e t"
  by simp

lemma error_as_core_wrap [simp]: "error_as_core (Wrapf f args [e]) = error_as_core e"
  by (cases "error_as_core e") simp_all

text \<open>The classification does not depend on how often an error was wrapped on its way up:
  \<^verbatim>\<open>fmt.Errorf\<close> with one \<^verbatim>\<open>%w\<close> verb keeps the neutral code and message, and mapping an already
  neutral error gives it back.\<close>

theorem core_map_transparent:
  "core_map (Some (Wrapf f args [e])) = core_map (Some e) \<and> core_map (map_option Core (core_map err)) = core_map err"
proof
  show "core_map (Some (Wrapf f args [e])) = core_map (Some e)"
    unfolding core_map_def option.case error_as_core_wrap error_is_wrap ..
  show "core_map (map_option Core (core_map err)) = core_map err"
    by (cases err) (simp_all add: core_map_def)
qed

text \<open>The dedicated outcomes survive their wrapping: a reactivation failure is reported as
  REACTIVATION_IMPOSSIBLE whatever validation, reference or lifecycle error caused it, unless
  the cause is a stale revision or an identity conflict, which keep their own codes.\<close>

theorem reactivation_classified:
  assumes "error_as_core e = None"
  shows "core_code_of (wrap_reactivation_impossible (Some e)) = Some (
    if error_is e (Dom ErrResourceRevisionConflict) \<or> error_is e (Dom ErrAttributeOrderRevisionConflict) then Conflict
    else if error_is e (Dom ErrIdentityConflict) then IdentityConflict
    else ReactivationImpossible)"
  using assms
  by (simp add: core_code_of_def core_map_def wrap_reactivation_impossible_def core_new_def wraps_simps)

theorem reactivation_classified_witness:
  "core_code_of (wrap_reactivation_impossible (Some (validation ''unit %q'' [''M'']))) = Some ReactivationImpossible"
  using reactivation_classified[of "validation ''unit %q'' [''M'']"] by (simp add: validation_def wraps_simps)

text \<open>An identity conflict is also an integrity error for \<^verbatim>\<open>errors.Is\<close>, yet it is reported as
  IDENTITY_CONFLICT and a bare integrity failure as INTEGRITY; the argument error of package
  \<^verbatim>\<open>recursos\<close> is not the neutral one and comes out as INTERNAL.\<close>

theorem identity_conflict_distinguished:
  "error_is (Sentinel (Dom ErrIdentityConflict)) (Dom ErrResourceIntegrity)
   \<and> core_code_of (Some (Sentinel (Dom ErrIdentityConflict))) = Some IdentityConflict
   \<and> core_code_of (Some (Sentinel (Dom ErrResourceIntegrity))) = Some Integrity
   \<and> core_code_of (Some (Sentinel (App CoreErrInvalidArgument))) = Some InvalidArgument
   \<and> core_code_of (Some (Sentinel (App RecursosErrInvalidArgument))) = Some Internal"
  by (simp add: core_code_of_def core_map_def core_new_def wraps_simps)

end
