(* ===== verification/CatalogValidate.thy ===== *)
theory CatalogValidate
  imports CatalogQuery
begin

text \<open>
  \<^verbatim>\<open>ResourceCatalog.Validate\<close> (\<^verbatim>\<open>internal/domain/resource_catalog_validate.go\<close>): one function
  per validator, each returning the list of its errors in order; a loop with \<^verbatim>\<open>seen\<close> maps is a
  recursion that carries the keys seen. \<open>catalog_valid\<close> is the declarative contract, and the
  lemmas show that \<^verbatim>\<open>Validate\<close> returns nil exactly when it holds.
\<close>

section \<open>The validators\<close>

definition invalid :: "gstring \<Rightarrow> gstring list \<Rightarrow> go_error" where
  "invalid f args = Wrapf f args [Sentinel (Dom ErrResourceValidation)]"

definition dangling :: "gstring \<Rightarrow> gstring list \<Rightarrow> go_error" where
  "dangling f args = Wrapf f args [Sentinel (Dom ErrResourceReference)]"

definition when_error :: "bool \<Rightarrow> go_error \<Rightarrow> go_error list" where
  "when_error b e = (if b then [e] else [])"

definition has_class_code :: "resource_catalog \<Rightarrow> gstring \<Rightarrow> bool" where
  "has_class_code c code = (let code = canonical code in
     list_ex (\<lambda>k. canonical (rc_code k) = code) (cat_classes c))"

definition has_family_in :: "resource_catalog \<Rightarrow> gstring \<Rightarrow> gstring \<Rightarrow> bool" where
  "has_family_in c classCode familyCode = (let classCode = canonical classCode; familyCode = canonical familyCode in
     list_ex (\<lambda>f. canonical (rf_class f) = classCode \<and> canonical (rf_code f) = familyCode) (cat_families c))"

definition has_type_in :: "resource_catalog \<Rightarrow> gstring \<Rightarrow> gstring \<Rightarrow> gstring \<Rightarrow> bool" where
  "has_type_in c classCode familyCode typeCode =
     (let classCode = canonical classCode; familyCode = canonical familyCode; typeCode = canonical typeCode in
      list_ex (\<lambda>t. canonical (rt_class t) = classCode \<and> canonical (rt_family t) = familyCode
         \<and> canonical (rt_code t) = typeCode) (cat_types c))"

definition has_option_set :: "resource_catalog \<Rightarrow> gstring \<Rightarrow> bool" where
  "has_option_set c optionSet = (let optionSet = canonical optionSet in
     list_ex (\<lambda>opt. canonical (ao_set opt) = optionSet) (cat_options c))"

definition has_unit_code :: "resource_catalog \<Rightarrow> gstring \<Rightarrow> bool" where
  "has_unit_code c unitCode = (let unitCode = canonical unitCode in
     list_ex (\<lambda>u. canonical (ud_code u) = unitCode) (cat_units c))"

fun class_errors :: "gstring list \<Rightarrow> gstring list \<Rightarrow> resource_class list \<Rightarrow> go_error list" where
  "class_errors seenCode seenSlug [] = []"
| "class_errors seenCode seenSlug (class # rest) =
     (let code = canonical (rc_code class); slug = canonical (rc_slug class) in
      when_error (trim_space (rc_name class) = []) (invalid ''%w: class %q has an empty name'' [rc_code class]) @
      when_error (trim_space (rc_plural class) = []) (invalid ''%w: class %q has an empty plural'' [rc_code class]) @
      when_error (trim_space (rc_slug class) = []) (invalid ''%w: class %q has an empty slug'' [rc_code class]) @
      when_error (code \<noteq> [] \<and> code \<in> set seenCode) (invalid ''%w: duplicate class code %q'' [rc_code class]) @
      when_error (slug \<noteq> [] \<and> slug \<in> set seenSlug) (invalid ''%w: duplicate class slug %q'' [rc_slug class]) @
      class_errors (if code \<noteq> [] then code # seenCode else seenCode)
        (if slug \<noteq> [] then slug # seenSlug else seenSlug) rest)"

definition validate_classes :: "resource_catalog \<Rightarrow> go_error list" where
  "validate_classes c = class_errors [] [] (cat_classes c)"

definition family_key :: "resource_family \<Rightarrow> gstring" where
  "family_key f = canonical (rf_class f) @ ''|'' @ canonical (rf_code f)"

fun family_errors :: "resource_catalog \<Rightarrow> gstring list \<Rightarrow> resource_family list \<Rightarrow> go_error list" where
  "family_errors c seen [] = []"
| "family_errors c seen (f # rest) =
     (if \<not> has_class_code c (rf_class f)
      then dangling ''%w: family %q references unknown class %q'' [rf_code f, rf_class f] # family_errors c seen rest
      else when_error (family_key f \<in> set seen)
             (invalid ''%w: duplicate family code %q within class %q'' [rf_code f, rf_class f]) @
           family_errors c (family_key f # seen) rest)"

definition validate_families :: "resource_catalog \<Rightarrow> go_error list" where
  "validate_families c = family_errors c [] (cat_families c)"

definition validate_types :: "resource_catalog \<Rightarrow> go_error list" where
  "validate_types c = concat (map (\<lambda>t. when_error (\<not> has_family_in c (rt_class t) (rt_family t))
     (dangling ''%w: type %q references unknown family %q in class %q'' [rt_code t, rt_family t, rt_class t]))
     (cat_types c))"

definition attribute_errors :: "resource_catalog \<Rightarrow> resource_attribute \<Rightarrow> go_error list" where
  "attribute_errors c a =
     (if \<not> has_family_in c (ra_class a) (ra_family a)
      then [dangling ''%w: attribute %q references unknown family %q in class %q''
              [ad_code (ra_definition a), ra_family a, ra_class a]]
      else if ra_type a \<noteq> [] \<and> \<not> has_type_in c (ra_class a) (ra_family a) (ra_type a)
      then [dangling ''%w: attribute %q references unknown type %q in family %q''
              [ad_code (ra_definition a), ra_type a, ra_family a]]
      else []) @
     when_error (ra_option_set a \<noteq> [] \<and> \<not> has_option_set c (ra_option_set a))
       (dangling ''%w: attribute %q references unknown option set %q'' [ad_code (ra_definition a), ra_option_set a])"

definition validate_attributes :: "resource_catalog \<Rightarrow> go_error list" where
  "validate_attributes c = concat (map (attribute_errors c) (cat_attributes c))"

definition attribute_rule_errors :: "resource_attribute \<Rightarrow> go_error list" where
  "attribute_rule_errors a =
     (let hasRules = length (ra_rules a) > 0 in
      if ra_mode a = ModeConditional \<and> \<not> hasRules
      then [invalid ''%w: conditional attribute %q has no rules'' [ad_code (ra_definition a)]]
      else if ra_mode a \<noteq> ModeConditional \<and> hasRules
      then [invalid ''%w: non-conditional attribute %q must not have rules (mode %q is not conditional)''
              [ad_code (ra_definition a), ra_mode a]]
      else [])"

definition validate_attribute_rules :: "resource_catalog \<Rightarrow> go_error list" where
  "validate_attribute_rules c = concat (map attribute_rule_errors (cat_attributes c))"

text \<open>\<^verbatim>\<open>validateActiveHierarchy\<close>: the maps \<^verbatim>\<open>classActive\<close> and \<^verbatim>\<open>familyActive\<close>, read with the zero
  value \<^verbatim>\<open>false\<close> for a missing key. The family loop reads the class map while it fills its own.\<close>

definition active_map :: "('a \<Rightarrow> gstring) \<Rightarrow> ('a \<Rightarrow> bool) \<Rightarrow> 'a list \<Rightarrow> gstring \<Rightarrow> bool" where
  "active_map key act xs = (\<lambda>k. case map_of (rev (map (\<lambda>x. (key x, act x)) xs)) k of Some b \<Rightarrow> b | None \<Rightarrow> False)"

definition validate_active_hierarchy :: "resource_catalog \<Rightarrow> go_error list" where
  "validate_active_hierarchy c =
     (let classActive = active_map (\<lambda>k. canonical (rc_code k)) rc_active (cat_classes c);
          familyActive = active_map family_key rf_active (cat_families c) in
      concat (map (\<lambda>f. when_error (rf_active f \<and> \<not> classActive (canonical (rf_class f)))
          (invalid ''%w: active family %q sits under inactive class %q'' [rf_code f, rf_class f])) (cat_families c)) @
      concat (map (\<lambda>t. when_error (rt_active t \<and> \<not> familyActive (canonical (rt_class t) @ ''|'' @ canonical (rt_family t)))
          (invalid ''%w: active type %q sits under inactive family %q'' [rt_code t, rt_family t])) (cat_types c)))"

definition validate_unit_policies :: "resource_catalog \<Rightarrow> go_error list" where
  "validate_unit_policies c = concat (map (\<lambda>p. when_error (\<not> has_unit_code c (up_unit p))
     (dangling ''%w: unit policy for family %q references unknown unit %q'' [up_family p, up_unit p]))
     (cat_unit_policies c))"

fun unit_errors :: "gstring list \<Rightarrow> gstring list \<Rightarrow> unit_definition list \<Rightarrow> go_error list" where
  "unit_errors seenCodes seenSymbols [] = []"
| "unit_errors seenCodes seenSymbols (u # rest) =
     (let code = canonical (ud_code u); symbol = canonical (ud_symbol u) in
      concat (map (\<lambda>(name, v). when_error (trim_space v = []) (invalid ''%w: unit %s is blank'' [name]))
        [(''code'', ud_code u), (''name'', ud_name u), (''symbol'', ud_symbol u), (''dimension'', ud_dimension u)]) @
      when_error (code \<noteq> [] \<and> code \<in> set seenCodes) (invalid ''%w: duplicate unit code %q'' [ud_code u]) @
      when_error (symbol \<noteq> [] \<and> symbol \<in> set seenSymbols) (invalid ''%w: duplicate unit symbol %q'' [ud_symbol u]) @
      unit_errors (code # seenCodes) (symbol # seenSymbols) rest)"

definition validate_units :: "resource_catalog \<Rightarrow> go_error list" where
  "validate_units c = unit_errors [] [] (cat_units c)"

definition validate_catalog :: "resource_catalog \<Rightarrow> go_error option" where
  "validate_catalog c =
     (let errs = validate_classes c @ validate_families c @ validate_types c @ validate_attributes c
        @ validate_attribute_rules c @ validate_units c @ validate_unit_policies c @ validate_active_hierarchy c in
      if errs = [] then None else Some (Joined errs))"

section \<open>The contract\<close>

definition distinct_nonblank :: "gstring list \<Rightarrow> bool" where
  "distinct_nonblank ks \<longleftrightarrow> distinct (filter (\<lambda>k. k \<noteq> []) ks)"

definition catalog_valid :: "resource_catalog \<Rightarrow> bool" where
  "catalog_valid c \<longleftrightarrow>
     (\<forall>k\<in>set (cat_classes c). trim_space (rc_name k) \<noteq> [] \<and> trim_space (rc_plural k) \<noteq> [] \<and> trim_space (rc_slug k) \<noteq> [])
     \<and> distinct_nonblank (map (\<lambda>x. canonical (rc_code x)) (cat_classes c))
     \<and> distinct_nonblank (map (\<lambda>x. canonical (rc_slug x)) (cat_classes c))
     \<and> (\<forall>f\<in>set (cat_families c). has_class_code c (rf_class f))
     \<and> distinct (map family_key (cat_families c))
     \<and> (\<forall>t\<in>set (cat_types c). has_family_in c (rt_class t) (rt_family t))
     \<and> (\<forall>a\<in>set (cat_attributes c). has_family_in c (ra_class a) (ra_family a)
          \<and> (ra_type a = [] \<or> has_type_in c (ra_class a) (ra_family a) (ra_type a))
          \<and> (ra_option_set a = [] \<or> has_option_set c (ra_option_set a))
          \<and> (ra_mode a = ModeConditional \<longleftrightarrow> ra_rules a \<noteq> []))
     \<and> (\<forall>u\<in>set (cat_units c). trim_space (ud_code u) \<noteq> [] \<and> trim_space (ud_name u) \<noteq> []
          \<and> trim_space (ud_symbol u) \<noteq> [] \<and> trim_space (ud_dimension u) \<noteq> [])
     \<and> distinct (map (\<lambda>x. canonical (ud_code x)) (cat_units c))
     \<and> distinct (map (\<lambda>x. canonical (ud_symbol x)) (cat_units c))
     \<and> (\<forall>p\<in>set (cat_unit_policies c). has_unit_code c (up_unit p))
     \<and> (\<forall>f\<in>set (cat_families c). rf_active f \<longrightarrow>
          active_map (\<lambda>k. canonical (rc_code k)) rc_active (cat_classes c) (canonical (rf_class f)))
     \<and> (\<forall>t\<in>set (cat_types c). rt_active t \<longrightarrow>
          active_map family_key rf_active (cat_families c) (canonical (rt_class t) @ ''|'' @ canonical (rt_family t)))"

section \<open>Lemmas\<close>

lemma when_error_nil [simp]: "when_error b e = [] \<longleftrightarrow> \<not> b"
  by (simp add: when_error_def)

lemma distinct_nonblank_simps [simp]:
  "distinct_nonblank []"
  "distinct_nonblank (x # xs) \<longleftrightarrow> (x \<noteq> [] \<longrightarrow> x \<notin> set xs) \<and> distinct_nonblank xs"
  by (auto simp: distinct_nonblank_def)

lemma notin_map: "x \<notin> set (map f xs) \<longleftrightarrow> (\<forall>y\<in>set xs. f y \<noteq> x)"
  by auto

lemma seen_nonblank:
  "(x \<noteq> [] \<longrightarrow> x \<notin> set (if y \<noteq> [] then y # seen else seen)) \<longleftrightarrow> (x \<noteq> [] \<longrightarrow> x \<noteq> y \<and> x \<notin> set seen)"
  by auto

lemma class_errors_nil:
  "class_errors seenCode seenSlug ks = [] \<longleftrightarrow>
     (\<forall>k\<in>set ks. trim_space (rc_name k) \<noteq> [] \<and> trim_space (rc_plural k) \<noteq> [] \<and> trim_space (rc_slug k) \<noteq> [])
     \<and> distinct_nonblank (map (\<lambda>x. canonical (rc_code x)) ks) \<and> distinct_nonblank (map (\<lambda>x. canonical (rc_slug x)) ks)
     \<and> (\<forall>k\<in>set ks. canonical (rc_code k) \<noteq> [] \<longrightarrow> canonical (rc_code k) \<notin> set seenCode)
     \<and> (\<forall>k\<in>set ks. canonical (rc_slug k) \<noteq> [] \<longrightarrow> canonical (rc_slug k) \<notin> set seenSlug)"
proof (induction seenCode seenSlug ks rule: class_errors.induct)
  case (2 seenCode seenSlug k ks)
  show ?case
    unfolding class_errors.simps Let_def append_is_Nil_conv when_error_nil "2.IH"[OF refl refl]
    apply (simp del: set_map add: notin_map seen_nonblank)
    apply (rule iffI; elim conjE; intro conjI)
                    apply (assumption | fastforce)+
    done
qed simp

lemma family_errors_nil:
  "family_errors c seen fs = [] \<longleftrightarrow> (\<forall>f\<in>set fs. has_class_code c (rf_class f) \<and> family_key f \<notin> set seen)
     \<and> distinct (map family_key fs)"
proof (induction c seen fs rule: family_errors.induct)
  case (2 c seen f rest)
  then show ?case
    by (cases "has_class_code c (rf_class f)") (simp_all del: set_map add: notin_map, blast)
qed simp

lemma unit_errors_nil:
  "unit_errors seenCodes seenSymbols us = [] \<longleftrightarrow>
     (\<forall>u\<in>set us. trim_space (ud_code u) \<noteq> [] \<and> trim_space (ud_name u) \<noteq> []
          \<and> trim_space (ud_symbol u) \<noteq> [] \<and> trim_space (ud_dimension u) \<noteq> []
          \<and> canonical (ud_code u) \<notin> set seenCodes \<and> canonical (ud_symbol u) \<notin> set seenSymbols)
     \<and> distinct (map (\<lambda>x. canonical (ud_code x)) us) \<and> distinct (map (\<lambda>x. canonical (ud_symbol x)) us)"
proof (induction seenCodes seenSymbols us rule: unit_errors.induct)
  case (2 seenCodes seenSymbols u us)
  show ?case
    unfolding unit_errors.simps Let_def append_is_Nil_conv when_error_nil "2.IH"[OF refl refl]
    by (simp del: set_map add: notin_map canonical_eq_nil) blast
qed simp

lemma attribute_errors_nil:
  "attribute_errors c a = [] \<longleftrightarrow> has_family_in c (ra_class a) (ra_family a)
     \<and> (ra_type a = [] \<or> has_type_in c (ra_class a) (ra_family a) (ra_type a))
     \<and> (ra_option_set a = [] \<or> has_option_set c (ra_option_set a))"
  by (auto simp: attribute_errors_def)

lemma attribute_rule_errors_nil:
  "attribute_rule_errors a = [] \<longleftrightarrow> (ra_mode a = ModeConditional \<longleftrightarrow> ra_rules a \<noteq> [])"
  by (auto simp: attribute_rule_errors_def Let_def)

lemma concat_map_nil: "concat (map f xs) = [] \<longleftrightarrow> (\<forall>x\<in>set xs. f x = [])"
  by auto

lemma validate_catalog_iff: "validate_catalog c = None \<longleftrightarrow> catalog_valid c"
  unfolding validate_catalog_def Let_def catalog_valid_def validate_classes_def validate_families_def
    validate_types_def validate_attributes_def validate_attribute_rules_def validate_units_def
    validate_unit_policies_def validate_active_hierarchy_def append_is_Nil_conv concat_map_nil
    class_errors_nil family_errors_nil unit_errors_nil attribute_errors_nil attribute_rule_errors_nil when_error_nil
  by (auto split: if_splits)

end
