(* ===== verification/SeedCatalog.thy ===== *)
theory SeedCatalog
  imports CatalogTypes
begin

text \<open>
  The fixture catalog \<^verbatim>\<open>SeedResourceCatalog\<close> (\<^verbatim>\<open>internal/domain/resource_catalog.go\<close>): the
  literals as written, then the loops that switch every row on (\<open>activate_all\<close>). Accented
  letters are written by code point, the inch sign by \<open>inch\<close>.
\<close>

definition inch :: "gstring \<Rightarrow> gstring" where
  "inch s = s @ [CHR 0x22]"

definition option_definition :: "gstring \<Rightarrow> gstring \<Rightarrow> bool \<Rightarrow> attribute_definition" where
  "option_definition code name identity = \<lparr>ad_code = code, ad_name = name,
     ad_value_type = ValueTypeControlledOption, ad_dimension = [], ad_default_identity = identity,
     ad_active = False\<rparr>"

definition catalog_definitions :: "attribute_definition list" where
  "catalog_definitions = [
     option_definition ''conductor_material'' ''Material del conductor'' True,
     option_definition ''gauge'' ''Calibre'' True,
     option_definition ''insulation'' ''Aislamiento'' True,
     option_definition ''color'' ''Color'' True,
     option_definition ''voltage'' ''Voltaje'' True,
     option_definition ''tipo'' ''Tipo'' True,
     option_definition ''diameter_inch'' (''Di'' @ [CHR 0xE1] @ ''metro pulgadas'') True,
     option_definition ''diameter_mm'' (''Di'' @ [CHR 0xE1] @ ''metro mm'') False]"

definition seed_definition :: "gstring \<Rightarrow> attribute_definition" where
  "seed_definition code = (case find (\<lambda>d. ad_code d = code) catalog_definitions of
     Some d \<Rightarrow> d
   | None \<Rightarrow> \<lparr>ad_code = [], ad_name = [], ad_value_type = [], ad_dimension = [], ad_default_identity = False,
       ad_active = False\<rparr>)"

definition seed_options :: "gstring \<Rightarrow> gstring list \<Rightarrow> attribute_option list" where
  "seed_options attribute vs = map (\<lambda>v. \<lparr>ao_set = [], ao_attribute = attribute, ao_code = v, ao_label = v,
     ao_active = True\<rparr>) vs"

definition conductor_options :: "attribute_option list" where
  "conductor_options =
     seed_options ''conductor_material'' [''COBRE'', ''ALUMINIO''] @
     seed_options ''gauge'' [''14 AWG'', ''12 AWG'', ''10 AWG'', ''8 AWG'', ''6 AWG'', ''4 AWG'', ''2 AWG'',
       ''1 AWG'', ''1/0 AWG'', ''2/0 AWG'', ''3/0 AWG'', ''4/0 AWG''] @
     seed_options ''insulation'' [''DESNUDO'', ''THW'', ''THW-LS'', ''THHN'', ''THHN/THWN-2'', ''XHHW-2'', ''RHH/RHW-2''] @
     seed_options ''color'' [''NEGRO'', ''BLANCO'', ''ROJO'', ''AZUL'', ''VERDE''] @
     seed_options ''voltage'' [''300 V'', ''600 V'', ''1000 V'', ''5000 V'', ''15000 V'', ''25000 V'', ''35000 V'']"

definition tuberias_options :: "attribute_option list" where
  "tuberias_options =
     seed_options ''tipo'' [''CONDUIT PARED DELGADA'', ''CONDUIT PARED GRUESA'', ''PVC CONDUIT''] @
     seed_options ''diameter_inch'' (map inch [''1/2'', ''3/4'', ''1'', ''1 1/4'', ''1 1/2'', ''2'', ''2 1/2'', ''3'', ''4'']) @
     seed_options ''diameter_mm'' [''13 mm'', ''19 mm'', ''25 mm'', ''32 mm'', ''38 mm'', ''50 mm'', ''60 mm'', ''75 mm'', ''100 mm'']"

definition tuberias_relations :: "attribute_option_relation list" where
  "tuberias_relations = map (\<lambda>(i, mm). \<lparr>rel_set = [], rel_from_attribute = ''diameter_inch'', rel_from_option = inch i,
       rel_to_attribute = ''diameter_mm'', rel_to_option = mm, rel_active = False\<rparr>)
     [(''1/2'', ''13 mm''), (''3/4'', ''19 mm''), (''1'', ''25 mm''), (''1 1/4'', ''32 mm''), (''1 1/2'', ''38 mm''),
      (''2'', ''50 mm''), (''2 1/2'', ''60 mm''), (''3'', ''75 mm''), (''4'', ''100 mm'')]"

definition seed_attribute :: "gstring \<Rightarrow> gstring \<Rightarrow> gstring \<Rightarrow> gstring \<Rightarrow> bool \<Rightarrow> attribute_rule list \<Rightarrow> resource_attribute" where
  "seed_attribute family type code mode identity rules = \<lparr>ra_class = ''MATERIAL'', ra_family = family, ra_type = type,
     ra_option_set = [], ra_definition = seed_definition code, ra_mode = mode, ra_identity = identity,
     ra_rules = rules, ra_active = False\<rparr>"

definition bare_rule :: attribute_rule where
  "bare_rule = \<lparr>ar_when = \<lparr>when_attribute = ''insulation'', when_equals = ''DESNUDO''\<rparr>, ar_mode = ModeForbidden,
     ar_identity = False, ar_not_applicable = True, ar_active = False\<rparr>"

definition seed_class :: "gstring \<Rightarrow> gstring \<Rightarrow> gstring \<Rightarrow> gstring \<Rightarrow> int \<Rightarrow> resource_class" where
  "seed_class code name plural slug ord = \<lparr>rc_code = code, rc_name = name, rc_plural = plural, rc_slug = slug,
     rc_aliases = [], rc_keywords = [], rc_order = ord, rc_active = True\<rparr>"

definition seed_field :: "gstring \<Rightarrow> gstring \<Rightarrow> gstring \<Rightarrow> int \<Rightarrow> presentation_field" where
  "seed_field family type attribute position = \<lparr>pf_class = ''MATERIAL'', pf_family = family, pf_type = type,
     pf_attribute = attribute, pf_position = position, pf_active = False\<rparr>"

definition seed_policy :: "gstring \<Rightarrow> gstring \<Rightarrow> resource_unit_policy" where
  "seed_policy family unit = \<lparr>up_class = ''MATERIAL'', up_family = family, up_unit = unit, up_allowed = True,
     up_suggested = True, up_active = False\<rparr>"

definition seed_literals :: resource_catalog where
  "seed_literals = \<lparr>
     cat_classes = [
       seed_class ''MATERIAL'' ''Material'' ''Materiales'' ''materiales'' 1,
       seed_class ''MANO_DE_OBRA'' ''Mano de obra'' ''Mano de obra'' ''mano-de-obra'' 2,
       seed_class ''EQUIPO_HERRAMIENTA'' ''Equipo/Herramienta'' ''Equipo/Herramienta'' ''equipo-herramienta'' 3],
     cat_families = [
       \<lparr>rf_class = ''MATERIAL'', rf_code = ''CONDUCTORES'', rf_name = ''Conductores'', rf_active = True\<rparr>,
       \<lparr>rf_class = ''MATERIAL'', rf_code = ''CANALIZACIONES'', rf_name = ''Canalizaciones'', rf_active = True\<rparr>],
     cat_types = [
       \<lparr>rt_class = ''MATERIAL'', rt_family = ''CONDUCTORES'', rt_code = ''CABLE'', rt_name = ''Cable'', rt_active = True\<rparr>,
       \<lparr>rt_class = ''MATERIAL'', rt_family = ''CANALIZACIONES'', rt_code = ''TUBERIA'',
          rt_name = ''Tuber'' @ [CHR 0xED] @ ''a'', rt_active = True\<rparr>],
     cat_presentation = [
       seed_field ''CONDUCTORES'' ''CABLE'' ''insulation'' 1,
       seed_field ''CONDUCTORES'' ''CABLE'' ''gauge'' 2,
       seed_field ''CONDUCTORES'' ''CABLE'' ''color'' 3,
       seed_field ''CANALIZACIONES'' ''TUBERIA'' ''tipo'' 1,
       seed_field ''CANALIZACIONES'' ''TUBERIA'' ''diameter_inch'' 2],
     cat_units = [
       \<lparr>ud_code = ''M'', ud_name = ''Metro'', ud_symbol = ''M'', ud_dimension = ''LENGTH'', ud_active = True\<rparr>,
       \<lparr>ud_code = ''PZA'', ud_name = ''Pieza'', ud_symbol = ''PZA'', ud_dimension = ''PIECE'', ud_active = True\<rparr>],
     cat_unit_policies = [seed_policy ''CONDUCTORES'' ''M'', seed_policy ''CANALIZACIONES'' ''PZA''],
     cat_definitions = catalog_definitions,
     cat_attributes = [
       seed_attribute ''CONDUCTORES'' ''CABLE'' ''conductor_material'' ModeRequired True [],
       seed_attribute ''CONDUCTORES'' ''CABLE'' ''gauge'' ModeRequired True [],
       seed_attribute ''CONDUCTORES'' ''CABLE'' ''insulation'' ModeRequired True [],
       seed_attribute ''CONDUCTORES'' ''CABLE'' ''color'' ModeConditional True [bare_rule],
       seed_attribute ''CONDUCTORES'' ''CABLE'' ''voltage'' ModeConditional True [bare_rule],
       seed_attribute ''CANALIZACIONES'' ''TUBERIA'' ''tipo'' ModeRequired True [],
       seed_attribute ''CANALIZACIONES'' ''TUBERIA'' ''diameter_inch'' ModeRequired True [],
       seed_attribute ''CANALIZACIONES'' ''TUBERIA'' ''diameter_mm'' ModeRequired False []],
     cat_options = conductor_options @ tuberias_options,
     cat_relations = tuberias_relations,
     cat_option_sets = [\<lparr>os_code = ''DEFAULT'', os_name = ''Conjunto por defecto'', os_active = True\<rparr>]\<rparr>"

definition activate_all :: "resource_catalog \<Rightarrow> resource_catalog" where
  "activate_all c = c\<lparr>
     cat_presentation := map (pf_active_update (\<lambda>_. True)) (cat_presentation c),
     cat_definitions := map (ad_active_update (\<lambda>_. True)) (cat_definitions c),
     cat_attributes := map (\<lambda>a. a\<lparr>ra_active := True, ra_definition := (ra_definition a)\<lparr>ad_active := True\<rparr>,
         ra_rules := map (ar_active_update (\<lambda>_. True)) (ra_rules a)\<rparr>) (cat_attributes c),
     cat_unit_policies := map (up_active_update (\<lambda>_. True)) (cat_unit_policies c),
     cat_relations := map (rel_active_update (\<lambda>_. True)) (cat_relations c)\<rparr>"

definition SeedResourceCatalog :: resource_catalog where
  "SeedResourceCatalog = activate_all seed_literals"

end
