(* ===== verification/CatalogValidateTheorems.thy ===== *)
theory CatalogValidateTheorems
  imports CatalogValidate SeedCatalog
begin

text \<open>
  The properties of catalog validation: it decides the contract \<open>catalog_valid\<close>, a valid
  catalog has no active row under an inactive parent, and the seed catalog is valid.
\<close>

lemma active_mapD:
  "active_map key act xs k \<Longrightarrow> \<exists>x\<in>set xs. key x = k \<and> act x"
  by (auto simp: active_map_def dest!: map_of_SomeD split: option.splits)

lemma validator_errors:
  assumes "validate_catalog c = Some e"
  shows "\<exists>errs. e = Joined errs \<and> errs \<noteq> [] \<and> (\<forall>x\<in>set errs. (\<exists>f args. x = invalid f args) \<or> (\<exists>f args. x = dangling f args))"
proof -
  have we: "x \<in> set (when_error b e') \<Longrightarrow> x = e'" for x b e' by (simp add: when_error_def split: if_splits)
  have cls: "x \<in> set (class_errors a b ks) \<Longrightarrow> \<exists>f args. x = invalid f args" for x a b ks
    by (induction a b ks rule: class_errors.induct) (auto simp: Let_def dest!: we)
  have fam: "x \<in> set (family_errors c a fs) \<Longrightarrow> (\<exists>f args. x = invalid f args) \<or> (\<exists>f args. x = dangling f args)" for x a fs
    by (induction c a fs rule: family_errors.induct) (auto dest!: we split: if_splits)
  have unit: "x \<in> set (unit_errors a b us) \<Longrightarrow> \<exists>f args. x = invalid f args" for x a b us
    by (induction a b us rule: unit_errors.induct) (auto simp: Let_def dest!: we)
  have attr: "x \<in> set (attribute_errors c a) \<Longrightarrow> \<exists>f args. x = dangling f args" for x a
    by (auto simp: attribute_errors_def dest!: we split: if_splits)
  have rule: "x \<in> set (attribute_rule_errors a) \<Longrightarrow> \<exists>f args. x = invalid f args" for x a
    by (auto simp: attribute_rule_errors_def Let_def split: if_splits)
  let ?K = "\<lambda>x. (\<exists>f args. x = invalid f args) \<or> (\<exists>f args. x = dangling f args)"
  have "\<forall>x\<in>set (validate_classes c). ?K x" unfolding validate_classes_def by (blast dest: cls)
  moreover have "\<forall>x\<in>set (validate_families c). ?K x" unfolding validate_families_def by (blast dest: fam)
  moreover have "\<forall>x\<in>set (validate_types c). ?K x" unfolding validate_types_def by (auto dest!: we)
  moreover have "\<forall>x\<in>set (validate_attributes c). ?K x" unfolding validate_attributes_def by (auto dest!: attr)
  moreover have "\<forall>x\<in>set (validate_attribute_rules c). ?K x" unfolding validate_attribute_rules_def by (auto dest!: rule)
  moreover have "\<forall>x\<in>set (validate_units c). ?K x" unfolding validate_units_def by (blast dest: unit)
  moreover have "\<forall>x\<in>set (validate_unit_policies c). ?K x" unfolding validate_unit_policies_def by (auto dest!: we)
  moreover have "\<forall>x\<in>set (validate_active_hierarchy c). ?K x"
    unfolding validate_active_hierarchy_def Let_def set_append set_concat set_map by (blast dest: we)
  ultimately have "\<forall>x\<in>set (validate_classes c @ validate_families c @ validate_types c @ validate_attributes c
        @ validate_attribute_rules c @ validate_units c @ validate_unit_policies c @ validate_active_hierarchy c). ?K x"
    unfolding set_append by blast
  then show ?thesis
    using assms unfolding validate_catalog_def Let_def by (metis option.distinct(1) option.inject)
qed

lemma joined_code:
  assumes "errs \<noteq> []" "\<forall>x\<in>set errs. (\<exists>f args. x = invalid f args) \<or> (\<exists>f args. x = dangling f args)"
  shows "core_code_of (Some (Joined errs)) =
    Some (if \<exists>x\<in>set errs. error_is x (Dom ErrResourceValidation) then Validation else InvalidReference)"
proof -
  have is_dom: "error_is x t \<Longrightarrow> t = Dom ErrResourceValidation \<or> t = Dom ErrResourceReference"
    if "x \<in> set errs" for x t
    using assms(2) that by (auto simp: invalid_def dangling_def wraps_simps)
  have core: "error_as_core_list es = None" if "set es \<subseteq> set errs" for es
    using that assms(2) by (induction es) (auto simp: invalid_def dangling_def)
  have ref: "\<exists>x\<in>set errs. error_is x (Dom ErrResourceReference)"
    if "\<not> (\<exists>x\<in>set errs. error_is x (Dom ErrResourceValidation))"
  proof -
    obtain x where "x \<in> set errs" using assms(1) by (cases errs) auto
    with assms(2) that show ?thesis by (force simp: invalid_def dangling_def)
  qed
  have no: "\<not> error_is (Joined errs) t" if "t \<noteq> Dom ErrResourceValidation" "t \<noteq> Dom ErrResourceReference" for t
    using is_dom that by auto
  show ?thesis
    unfolding core_code_of_def core_map_def
    using ref core[of errs] by (auto simp: no core_new_def simp del: error_is.simps(4)) auto
qed

text \<open>C12: \<^verbatim>\<open>Validate\<close> returns nil exactly for the catalogs that satisfy the declarative contract
  (non-empty class names, unique class codes and slugs, resolvable references, unique family
  codes per class, rules exactly on conditional attributes, complete and unique units, no active
  row under an inactive parent); the joined error it returns otherwise is classified as VALIDATION when a validation
  failure is among the errors and as INVALID_REFERENCE when only references dangle.\<close>

theorem validate_decides:
  "case validate_catalog c of
     None \<Rightarrow> catalog_valid c
   | Some e \<Rightarrow> \<not> catalog_valid c \<and> core_code_of (Some e) =
       Some (if error_is e (Dom ErrResourceValidation) then Validation else InvalidReference)"
proof (cases "validate_catalog c")
  case None
  moreover from this have "catalog_valid c" by (simp only: validate_catalog_iff)
  ultimately show ?thesis by (simp only: option.case)
next
  case (Some e)
  then obtain errs where e: "e = Joined errs" and ne: "errs \<noteq> []"
    and kinds: "\<forall>x\<in>set errs. (\<exists>f args. x = invalid f args) \<or> (\<exists>f args. x = dangling f args)"
    using validator_errors by blast
  have "core_code_of (Some e) = Some (if error_is e (Dom ErrResourceValidation) then Validation else InvalidReference)"
    unfolding e using joined_code[OF ne kinds] by simp
  moreover have "\<not> catalog_valid c" using Some by (simp flip: validate_catalog_iff)
  ultimately show ?thesis using Some by simp
qed

text \<open>A catalog that passes \<^verbatim>\<open>Validate\<close> has a sound lifecycle hierarchy: every active type has
  its own family row, that row is active, and it sits under an active class row.\<close>

theorem active_hierarchy:
  assumes "validate_catalog c = None" "t \<in> set (cat_types c)" "rt_active t"
  shows "\<exists>f\<in>set (cat_families c). canonical (rf_class f) = canonical (rt_class t)
      \<and> canonical (rf_code f) = canonical (rt_family t) \<and> rf_active f
      \<and> (\<exists>k\<in>set (cat_classes c). canonical (rc_code k) = canonical (rf_class f) \<and> rc_active k)"
proof -
  have v: "catalog_valid c" using assms(1) by (simp add: validate_catalog_iff)
  let ?key = "canonical (rt_class t) @ ''|'' @ canonical (rt_family t)"
  have "has_family_in c (rt_class t) (rt_family t)"
    using v assms(2) by (simp add: catalog_valid_def)
  then obtain f where f: "f \<in> set (cat_families c)" "canonical (rf_class f) = canonical (rt_class t)"
      "canonical (rf_code f) = canonical (rt_family t)"
    by (auto simp: has_family_in_def list_ex_iff)
  have "active_map family_key rf_active (cat_families c) ?key"
    using v assms(2,3) by (simp add: catalog_valid_def)
  then obtain g where g: "g \<in> set (cat_families c)" "family_key g = ?key" "rf_active g"
    using active_mapD by metis
  have "family_key f = ?key" using f by (simp add: family_key_def)
  moreover have "distinct (map family_key (cat_families c))" using v by (simp add: catalog_valid_def)
  ultimately have "f = g" using f(1) g(1,2) by (metis distinct_map inj_onD)
  have "active_map (\<lambda>k. canonical (rc_code k)) rc_active (cat_classes c) (canonical (rf_class g))"
    using v g by (simp add: catalog_valid_def)
  from active_mapD[OF this] show ?thesis using f g \<open>f = g\<close> by blast
qed

lemma seed_cable: "\<lparr>rt_class = ''MATERIAL'', rt_family = ''CONDUCTORES'', rt_code = ''CABLE'', rt_name = ''Cable'', rt_active = True\<rparr>
    \<in> set (cat_types SeedResourceCatalog)"
  by code_simp

lemma seed_checked: "validate_catalog SeedResourceCatalog = None"
  by code_simp

theorem active_hierarchy_witness:
  "\<exists>f\<in>set (cat_families SeedResourceCatalog). canonical (rf_class f) = canonical ''MATERIAL''
      \<and> canonical (rf_code f) = canonical ''CONDUCTORES'' \<and> rf_active f
      \<and> (\<exists>k\<in>set (cat_classes SeedResourceCatalog). canonical (rc_code k) = canonical (rf_class f) \<and> rc_active k)"
  using active_hierarchy[OF seed_checked seed_cable] by simp

text \<open>\<^verbatim>\<open>Validate\<close> looks an attribute's option set up among the codes of the options as written,
  without the default spelling that every query applies: naming the default set explicitly is
  rejected although the queries resolve it and offer its options.\<close>

definition explicit_default_catalog :: resource_catalog where
  "explicit_default_catalog = SeedResourceCatalog\<lparr>cat_attributes := [(hd (cat_attributes SeedResourceCatalog))\<lparr>ra_option_set := ''DEFAULT''\<rparr>]\<rparr>"

theorem explicit_default_set_rejected:
  "validate_catalog explicit_default_catalog \<noteq> None
   \<and> active_option_set explicit_default_catalog ''DEFAULT''
   \<and> map ao_code (options_for explicit_default_catalog (hd (cat_attributes explicit_default_catalog))) = [''COBRE'', ''ALUMINIO'']"
  by code_simp

end
