(* ===== verification/CatalogKinds.thy ===== *)
theory CatalogKinds
  imports Canonical
begin

text \<open>
  The registry of administrable catalog kinds (\<^verbatim>\<open>internal/domain/catalog_kind.go\<close>) and the
  generic record that carries one row of any kind (\<^verbatim>\<open>catalog_record.go\<close>). A record's
  \<^verbatim>\<open>Values\<close> map is an association list; \<^verbatim>\<open>Rules\<close> is \<open>None\<close> for nil, because nil (omitted) and
  empty rules differ for an applicability.
\<close>

section \<open>Kinds\<close>

definition KindClass :: gstring where "KindClass = ''CLASE''"
definition KindFamily :: gstring where "KindFamily = ''FAMILIA''"
definition KindType :: gstring where "KindType = ''TIPO''"
definition KindAttributeDefinition :: gstring where "KindAttributeDefinition = ''CARACTERISTICA''"
definition KindOptionSet :: gstring where "KindOptionSet = ''CONJUNTO_OPCIONES''"
definition KindOption :: gstring where "KindOption = ''OPCION''"
definition KindOptionRelation :: gstring where "KindOptionRelation = ''RELACION_OPCIONES''"
definition KindUnit :: gstring where "KindUnit = ''UNIDAD''"
definition KindUnitPolicy :: gstring where "KindUnitPolicy = ''POLITICA_UNIDAD''"
definition KindAttributeBinding :: gstring where "KindAttributeBinding = ''APLICABILIDAD''"
definition KindPresentationField :: gstring where "KindPresentationField = ''PRESENTACION''"

lemmas kind_defs = KindClass_def KindFamily_def KindType_def KindAttributeDefinition_def KindOptionSet_def KindOption_def KindOptionRelation_def KindUnit_def KindUnitPolicy_def KindAttributeBinding_def KindPresentationField_def

lemma kind_distinct [simp]:
  "KindClass \<noteq> KindFamily"
  "KindClass \<noteq> KindType"
  "KindClass \<noteq> KindAttributeDefinition"
  "KindClass \<noteq> KindOptionSet"
  "KindClass \<noteq> KindOption"
  "KindClass \<noteq> KindOptionRelation"
  "KindClass \<noteq> KindUnit"
  "KindClass \<noteq> KindUnitPolicy"
  "KindClass \<noteq> KindAttributeBinding"
  "KindClass \<noteq> KindPresentationField"
  "KindFamily \<noteq> KindClass"
  "KindFamily \<noteq> KindType"
  "KindFamily \<noteq> KindAttributeDefinition"
  "KindFamily \<noteq> KindOptionSet"
  "KindFamily \<noteq> KindOption"
  "KindFamily \<noteq> KindOptionRelation"
  "KindFamily \<noteq> KindUnit"
  "KindFamily \<noteq> KindUnitPolicy"
  "KindFamily \<noteq> KindAttributeBinding"
  "KindFamily \<noteq> KindPresentationField"
  "KindType \<noteq> KindClass"
  "KindType \<noteq> KindFamily"
  "KindType \<noteq> KindAttributeDefinition"
  "KindType \<noteq> KindOptionSet"
  "KindType \<noteq> KindOption"
  "KindType \<noteq> KindOptionRelation"
  "KindType \<noteq> KindUnit"
  "KindType \<noteq> KindUnitPolicy"
  "KindType \<noteq> KindAttributeBinding"
  "KindType \<noteq> KindPresentationField"
  "KindAttributeDefinition \<noteq> KindClass"
  "KindAttributeDefinition \<noteq> KindFamily"
  "KindAttributeDefinition \<noteq> KindType"
  "KindAttributeDefinition \<noteq> KindOptionSet"
  "KindAttributeDefinition \<noteq> KindOption"
  "KindAttributeDefinition \<noteq> KindOptionRelation"
  "KindAttributeDefinition \<noteq> KindUnit"
  "KindAttributeDefinition \<noteq> KindUnitPolicy"
  "KindAttributeDefinition \<noteq> KindAttributeBinding"
  "KindAttributeDefinition \<noteq> KindPresentationField"
  "KindOptionSet \<noteq> KindClass"
  "KindOptionSet \<noteq> KindFamily"
  "KindOptionSet \<noteq> KindType"
  "KindOptionSet \<noteq> KindAttributeDefinition"
  "KindOptionSet \<noteq> KindOption"
  "KindOptionSet \<noteq> KindOptionRelation"
  "KindOptionSet \<noteq> KindUnit"
  "KindOptionSet \<noteq> KindUnitPolicy"
  "KindOptionSet \<noteq> KindAttributeBinding"
  "KindOptionSet \<noteq> KindPresentationField"
  "KindOption \<noteq> KindClass"
  "KindOption \<noteq> KindFamily"
  "KindOption \<noteq> KindType"
  "KindOption \<noteq> KindAttributeDefinition"
  "KindOption \<noteq> KindOptionSet"
  "KindOption \<noteq> KindOptionRelation"
  "KindOption \<noteq> KindUnit"
  "KindOption \<noteq> KindUnitPolicy"
  "KindOption \<noteq> KindAttributeBinding"
  "KindOption \<noteq> KindPresentationField"
  "KindOptionRelation \<noteq> KindClass"
  "KindOptionRelation \<noteq> KindFamily"
  "KindOptionRelation \<noteq> KindType"
  "KindOptionRelation \<noteq> KindAttributeDefinition"
  "KindOptionRelation \<noteq> KindOptionSet"
  "KindOptionRelation \<noteq> KindOption"
  "KindOptionRelation \<noteq> KindUnit"
  "KindOptionRelation \<noteq> KindUnitPolicy"
  "KindOptionRelation \<noteq> KindAttributeBinding"
  "KindOptionRelation \<noteq> KindPresentationField"
  "KindUnit \<noteq> KindClass"
  "KindUnit \<noteq> KindFamily"
  "KindUnit \<noteq> KindType"
  "KindUnit \<noteq> KindAttributeDefinition"
  "KindUnit \<noteq> KindOptionSet"
  "KindUnit \<noteq> KindOption"
  "KindUnit \<noteq> KindOptionRelation"
  "KindUnit \<noteq> KindUnitPolicy"
  "KindUnit \<noteq> KindAttributeBinding"
  "KindUnit \<noteq> KindPresentationField"
  "KindUnitPolicy \<noteq> KindClass"
  "KindUnitPolicy \<noteq> KindFamily"
  "KindUnitPolicy \<noteq> KindType"
  "KindUnitPolicy \<noteq> KindAttributeDefinition"
  "KindUnitPolicy \<noteq> KindOptionSet"
  "KindUnitPolicy \<noteq> KindOption"
  "KindUnitPolicy \<noteq> KindOptionRelation"
  "KindUnitPolicy \<noteq> KindUnit"
  "KindUnitPolicy \<noteq> KindAttributeBinding"
  "KindUnitPolicy \<noteq> KindPresentationField"
  "KindAttributeBinding \<noteq> KindClass"
  "KindAttributeBinding \<noteq> KindFamily"
  "KindAttributeBinding \<noteq> KindType"
  "KindAttributeBinding \<noteq> KindAttributeDefinition"
  "KindAttributeBinding \<noteq> KindOptionSet"
  "KindAttributeBinding \<noteq> KindOption"
  "KindAttributeBinding \<noteq> KindOptionRelation"
  "KindAttributeBinding \<noteq> KindUnit"
  "KindAttributeBinding \<noteq> KindUnitPolicy"
  "KindAttributeBinding \<noteq> KindPresentationField"
  "KindPresentationField \<noteq> KindClass"
  "KindPresentationField \<noteq> KindFamily"
  "KindPresentationField \<noteq> KindType"
  "KindPresentationField \<noteq> KindAttributeDefinition"
  "KindPresentationField \<noteq> KindOptionSet"
  "KindPresentationField \<noteq> KindOption"
  "KindPresentationField \<noteq> KindOptionRelation"
  "KindPresentationField \<noteq> KindUnit"
  "KindPresentationField \<noteq> KindUnitPolicy"
  "KindPresentationField \<noteq> KindAttributeBinding"
  by (simp_all add: kind_defs)

datatype (plugins only: code size) field_kind =
  FieldText | FieldCode | FieldBool | FieldInt | FieldRef | FieldEnum | FieldStringList

datatype (plugins only: code size) immutability = Mutable | ImmutableOnceReferenced | ImmutableAlways

record enum_value =
  ev_value :: gstring
  ev_label :: gstring

record field_descriptor =
  fd_name :: gstring
  fd_label :: gstring
  fd_kind :: field_kind
  fd_required :: bool
  fd_immutable :: immutability
  fd_searchable :: bool
  fd_guidance :: gstring
  fd_ref_kind :: gstring
  fd_ref_scoped_by :: "gstring list"
  fd_allow_create :: bool
  fd_enum_values :: "enum_value list"

record relation_descriptor =
  rd_kind :: gstring
  rd_via_fields :: "gstring list"
  rd_blocking :: bool

record catalog_kind =
  ck_code :: gstring
  ck_singular :: gstring
  ck_plural :: gstring
  ck_fields :: "field_descriptor list"
  ck_identity_fields :: "gstring list"
  ck_parent_kind :: gstring
  ck_parent_field :: gstring
  ck_soft_delete :: bool
  ck_children :: "relation_descriptor list"

definition field :: "gstring \<Rightarrow> gstring \<Rightarrow> field_kind \<Rightarrow> field_descriptor" where
  "field name label kind = \<lparr>fd_name = name, fd_label = label, fd_kind = kind, fd_required = False,
     fd_immutable = Mutable, fd_searchable = False, fd_guidance = [], fd_ref_kind = [], fd_ref_scoped_by = [],
     fd_allow_create = False, fd_enum_values = []\<rparr>"

definition code_field :: field_descriptor where
  "code_field = (field ''code'' (''C'' @ [CHR 0xF3] @ ''digo'') FieldCode)\<lparr>fd_required := True,
     fd_immutable := ImmutableOnceReferenced, fd_searchable := True\<rparr>"

definition enum :: "gstring \<Rightarrow> gstring \<Rightarrow> enum_value" where
  "enum v label = \<lparr>ev_value = v, ev_label = label\<rparr>"

definition attribute_value_type_enum :: "enum_value list" where
  "attribute_value_type_enum = [
     enum ''CONTROLLED_OPTION'' (''Opci'' @ [CHR 0xF3] @ ''n controlada''),
     enum ''INTEGER'' ''Entero'', enum ''DECIMAL'' ''Decimal'', enum ''QUANTITY'' ''Cantidad'',
     enum ''BOOLEAN'' ''Booleano'', enum ''CONTROLLED_TEXT'' ''Texto controlado'']"

definition attribute_mode_enum :: "enum_value list" where
  "attribute_mode_enum = [enum ''REQUIRED'' ''Requerido'', enum ''OPTIONAL'' ''Opcional'',
     enum ''CONDITIONAL'' ''Condicional'', enum ''FORBIDDEN'' ''Prohibido'']"

definition kind_class_descriptor :: catalog_kind where
  "kind_class_descriptor = \<lparr>ck_code = KindClass, ck_singular = ''Clase'', ck_plural = ''Clases'',
     ck_fields = [code_field,
       (field ''name'' ''Nombre'' FieldText)\<lparr>fd_required := True, fd_searchable := True\<rparr>,
       (field ''plural'' ''Plural'' FieldText)\<lparr>fd_required := True\<rparr>,
       (field ''slug'' ''Slug'' FieldText)\<lparr>fd_required := True\<rparr>,
       field ''order'' ''Orden'' FieldInt,
       field ''aliases'' ''Alias'' FieldStringList,
       field ''keywords'' ''Palabras clave'' FieldStringList],
     ck_identity_fields = [''code''], ck_parent_kind = [], ck_parent_field = [], ck_soft_delete = True,
     ck_children = [\<lparr>rd_kind = KindFamily, rd_via_fields = [''class''], rd_blocking = True\<rparr>]\<rparr>"

definition kind_family_descriptor :: catalog_kind where
  "kind_family_descriptor = \<lparr>ck_code = KindFamily, ck_singular = ''Familia'', ck_plural = ''Familias'',
     ck_fields = [(field ''class'' ''Clase'' FieldRef)\<lparr>fd_required := True, fd_ref_kind := KindClass\<rparr>,
       code_field,
       (field ''name'' ''Nombre'' FieldText)\<lparr>fd_required := True, fd_searchable := True\<rparr>],
     ck_identity_fields = [''class'', ''code''], ck_parent_kind = KindClass, ck_parent_field = ''class'', ck_soft_delete = True,
     ck_children = [\<lparr>rd_kind = KindType, rd_via_fields = [''family''], rd_blocking = True\<rparr>, \<lparr>rd_kind = KindAttributeBinding, rd_via_fields = [''family''], rd_blocking = True\<rparr>, \<lparr>rd_kind = KindUnitPolicy, rd_via_fields = [''family''], rd_blocking = True\<rparr>]\<rparr>"

definition kind_type_descriptor :: catalog_kind where
  "kind_type_descriptor = \<lparr>ck_code = KindType, ck_singular = ''Tipo'', ck_plural = ''Tipos'',
     ck_fields = [(field ''class'' ''Clase'' FieldRef)\<lparr>fd_required := True, fd_ref_kind := KindClass\<rparr>,
       (field ''family'' ''Familia'' FieldRef)\<lparr>fd_required := True, fd_ref_kind := KindFamily, fd_ref_scoped_by := [''class'']\<rparr>,
       code_field,
       (field ''name'' ''Nombre'' FieldText)\<lparr>fd_required := True, fd_searchable := True\<rparr>],
     ck_identity_fields = [''class'', ''family'', ''code''], ck_parent_kind = KindFamily, ck_parent_field = ''family'', ck_soft_delete = True,
     ck_children = [\<lparr>rd_kind = KindAttributeBinding, rd_via_fields = [''type''], rd_blocking = True\<rparr>, \<lparr>rd_kind = KindPresentationField, rd_via_fields = [''type''], rd_blocking = False\<rparr>]\<rparr>"

definition kind_attribute_definition_descriptor :: catalog_kind where
  "kind_attribute_definition_descriptor = \<lparr>ck_code = KindAttributeDefinition, ck_singular = (''Caracter'' @ [CHR 0xED] @ ''stica''), ck_plural = (''Caracter'' @ [CHR 0xED] @ ''sticas''),
     ck_fields = [code_field,
       (field ''name'' ''Nombre'' FieldText)\<lparr>fd_required := True, fd_searchable := True\<rparr>,
       (field ''valueType'' ''Tipo de valor'' FieldEnum)\<lparr>fd_required := True, fd_enum_values := attribute_value_type_enum\<rparr>,
       field ''dimension'' (''Dimensi'' @ [CHR 0xF3] @ ''n'') FieldText,
       field ''defaultIdentityParticipates'' ''Participa en Identidad por defecto'' FieldBool],
     ck_identity_fields = [''code''], ck_parent_kind = [], ck_parent_field = [], ck_soft_delete = True,
     ck_children = [\<lparr>rd_kind = KindAttributeBinding, rd_via_fields = [''characteristic''], rd_blocking = True\<rparr>, \<lparr>rd_kind = KindOption, rd_via_fields = [''characteristic''], rd_blocking = True\<rparr>]\<rparr>"

definition kind_option_set_descriptor :: catalog_kind where
  "kind_option_set_descriptor = \<lparr>ck_code = KindOptionSet, ck_singular = ''Conjunto de Opciones'', ck_plural = ''Conjuntos de Opciones'',
     ck_fields = [code_field,
       (field ''name'' ''Nombre'' FieldText)\<lparr>fd_required := True, fd_searchable := True\<rparr>],
     ck_identity_fields = [''code''], ck_parent_kind = [], ck_parent_field = [], ck_soft_delete = True,
     ck_children = [\<lparr>rd_kind = KindOption, rd_via_fields = [''optionSet''], rd_blocking = True\<rparr>, \<lparr>rd_kind = KindOptionRelation, rd_via_fields = [''optionSet''], rd_blocking = True\<rparr>]\<rparr>"

definition kind_option_descriptor :: catalog_kind where
  "kind_option_descriptor = \<lparr>ck_code = KindOption, ck_singular = (''Opci'' @ [CHR 0xF3] @ ''n''), ck_plural = ''Opciones'',
     ck_fields = [(field ''optionSet'' ''Conjunto de Opciones'' FieldRef)\<lparr>fd_required := True, fd_ref_kind := KindOptionSet, fd_allow_create := True\<rparr>,
       (field ''characteristic'' (''Caracter'' @ [CHR 0xED] @ ''stica'') FieldRef)\<lparr>fd_required := True, fd_ref_kind := KindAttributeDefinition, fd_allow_create := True\<rparr>,
       code_field,
       (field ''label'' ''Etiqueta'' FieldText)\<lparr>fd_required := True, fd_searchable := True\<rparr>],
     ck_identity_fields = [''optionSet'', ''characteristic'', ''code''], ck_parent_kind = KindOptionSet, ck_parent_field = ''optionSet'', ck_soft_delete = True,
     ck_children = [\<lparr>rd_kind = KindOptionRelation, rd_via_fields = [''fromOption'', ''toOption''], rd_blocking = True\<rparr>]\<rparr>"

definition kind_option_relation_descriptor :: catalog_kind where
  "kind_option_relation_descriptor = \<lparr>ck_code = KindOptionRelation, ck_singular = (''Relaci'' @ [CHR 0xF3] @ ''n de Opciones''), ck_plural = ''Relaciones de Opciones'',
     ck_fields = [(field ''optionSet'' ''Conjunto de Opciones'' FieldRef)\<lparr>fd_required := True, fd_ref_kind := KindOptionSet\<rparr>,
       (field ''fromCharacteristic'' (''Caracter'' @ [CHR 0xED] @ ''stica origen'') FieldRef)\<lparr>fd_required := True, fd_ref_kind := KindAttributeDefinition\<rparr>,
       (field ''fromOption'' (''Opci'' @ [CHR 0xF3] @ ''n origen'') FieldRef)\<lparr>fd_required := True, fd_ref_kind := KindOption, fd_ref_scoped_by := [''optionSet'', ''fromCharacteristic'']\<rparr>,
       (field ''toCharacteristic'' (''Caracter'' @ [CHR 0xED] @ ''stica destino'') FieldRef)\<lparr>fd_required := True, fd_ref_kind := KindAttributeDefinition\<rparr>,
       (field ''toOption'' (''Opci'' @ [CHR 0xF3] @ ''n destino'') FieldRef)\<lparr>fd_required := True, fd_ref_kind := KindOption, fd_ref_scoped_by := [''optionSet'', ''toCharacteristic'']\<rparr>],
     ck_identity_fields = [''optionSet'', ''fromOption'', ''toOption''], ck_parent_kind = KindOptionSet, ck_parent_field = ''optionSet'', ck_soft_delete = True,
     ck_children = []\<rparr>"

definition kind_unit_descriptor :: catalog_kind where
  "kind_unit_descriptor = \<lparr>ck_code = KindUnit, ck_singular = ''Unidad'', ck_plural = ''Unidades'',
     ck_fields = [code_field,
       (field ''name'' ''Nombre'' FieldText)\<lparr>fd_required := True, fd_searchable := True\<rparr>,
       (field ''symbol'' (''S'' @ [CHR 0xED] @ ''mbolo'') FieldText)\<lparr>fd_required := True\<rparr>,
       (field ''dimension'' (''Dimensi'' @ [CHR 0xF3] @ ''n'') FieldText)\<lparr>fd_required := True, fd_guidance := (''Categor'' @ [CHR 0xED] @ ''a de medici'' @ [CHR 0xF3] @ ''n. Ejemplos: Longitud, Masa, Tiempo o Pieza.'')\<rparr>],
     ck_identity_fields = [''code''], ck_parent_kind = [], ck_parent_field = [], ck_soft_delete = True,
     ck_children = [\<lparr>rd_kind = KindUnitPolicy, rd_via_fields = [''unit''], rd_blocking = True\<rparr>]\<rparr>"

definition kind_unit_policy_descriptor :: catalog_kind where
  "kind_unit_policy_descriptor = \<lparr>ck_code = KindUnitPolicy, ck_singular = (''Pol'' @ [CHR 0xED] @ ''tica de Unidad''), ck_plural = (''Pol'' @ [CHR 0xED] @ ''ticas de Unidad''),
     ck_fields = [(field ''class'' ''Clase'' FieldRef)\<lparr>fd_required := True, fd_ref_kind := KindClass\<rparr>,
       (field ''family'' ''Familia'' FieldRef)\<lparr>fd_required := True, fd_ref_kind := KindFamily, fd_ref_scoped_by := [''class'']\<rparr>,
       (field ''unit'' ''Unidad'' FieldRef)\<lparr>fd_required := True, fd_ref_kind := KindUnit, fd_allow_create := True\<rparr>,
       field ''allowed'' ''Permitida'' FieldBool,
       field ''suggested'' ''Sugerida'' FieldBool],
     ck_identity_fields = [''class'', ''family'', ''unit''], ck_parent_kind = KindFamily, ck_parent_field = ''family'', ck_soft_delete = True,
     ck_children = []\<rparr>"

definition kind_attribute_binding_descriptor :: catalog_kind where
  "kind_attribute_binding_descriptor = \<lparr>ck_code = KindAttributeBinding, ck_singular = ''Aplicabilidad'', ck_plural = ''Aplicabilidades'',
     ck_fields = [(field ''class'' ''Clase'' FieldRef)\<lparr>fd_required := True, fd_ref_kind := KindClass\<rparr>,
       (field ''family'' ''Familia'' FieldRef)\<lparr>fd_required := True, fd_ref_kind := KindFamily, fd_ref_scoped_by := [''class'']\<rparr>,
       (field ''type'' ''Tipo'' FieldRef)\<lparr>fd_ref_kind := KindType, fd_ref_scoped_by := [''class'', ''family'']\<rparr>,
       (field ''characteristic'' (''Caracter'' @ [CHR 0xED] @ ''stica'') FieldRef)\<lparr>fd_required := True, fd_ref_kind := KindAttributeDefinition, fd_allow_create := True\<rparr>,
       (field ''optionSet'' ''Conjunto de Opciones'' FieldRef)\<lparr>fd_ref_kind := KindOptionSet, fd_allow_create := True\<rparr>,
       (field ''mode'' ''Modo'' FieldEnum)\<lparr>fd_required := True, fd_enum_values := attribute_mode_enum\<rparr>,
       field ''identityParticipates'' ''Participa en Identidad'' FieldBool],
     ck_identity_fields = [''class'', ''family'', ''type'', ''characteristic''], ck_parent_kind = KindFamily, ck_parent_field = ''family'', ck_soft_delete = True,
     ck_children = []\<rparr>"

definition kind_presentation_field_descriptor :: catalog_kind where
  "kind_presentation_field_descriptor = \<lparr>ck_code = KindPresentationField, ck_singular = (''Campo de Presentaci'' @ [CHR 0xF3] @ ''n''), ck_plural = (''Campos de Presentaci'' @ [CHR 0xF3] @ ''n''),
     ck_fields = [(field ''class'' ''Clase'' FieldRef)\<lparr>fd_required := True, fd_ref_kind := KindClass\<rparr>,
       (field ''family'' ''Familia'' FieldRef)\<lparr>fd_required := True, fd_ref_kind := KindFamily, fd_ref_scoped_by := [''class'']\<rparr>,
       (field ''type'' ''Tipo'' FieldRef)\<lparr>fd_required := True, fd_ref_kind := KindType, fd_ref_scoped_by := [''class'', ''family'']\<rparr>,
       (field ''characteristic'' (''Caracter'' @ [CHR 0xED] @ ''stica'') FieldRef)\<lparr>fd_required := True, fd_ref_kind := KindAttributeDefinition\<rparr>,
       (field ''position'' (''Posici'' @ [CHR 0xF3] @ ''n'') FieldInt)\<lparr>fd_required := True\<rparr>],
     ck_identity_fields = [''class'', ''family'', ''type'', ''characteristic''], ck_parent_kind = KindType, ck_parent_field = ''type'', ck_soft_delete = True,
     ck_children = []\<rparr>"

definition catalog_kinds :: "catalog_kind list" where
  "catalog_kinds = [kind_class_descriptor, kind_family_descriptor, kind_type_descriptor, kind_attribute_definition_descriptor, kind_option_set_descriptor, kind_option_descriptor, kind_option_relation_descriptor, kind_unit_descriptor, kind_unit_policy_descriptor, kind_attribute_binding_descriptor, kind_presentation_field_descriptor]"

definition registry_kind :: "gstring \<Rightarrow> catalog_kind option" where
  "registry_kind code = find (\<lambda>k. ck_code k = code) catalog_kinds"

section \<open>Records\<close>

record catalog_ref =
  ref_kind :: gstring
  ref_code :: gstring
  ref_label :: gstring
  ref_id :: int

record catalog_value =
  cv_text :: gstring
  cv_bool :: bool
  cv_int :: int
  cv_list :: "gstring list"
  cv_ref :: catalog_ref

record catalog_record =
  rec_kind :: gstring
  rec_id :: int
  rec_revision :: revision
  rec_active :: bool
  rec_values :: "(gstring, catalog_value) gmap"
  rec_rules :: "attribute_rule list option"

definition zero_value :: catalog_value where
  "zero_value = \<lparr>cv_text = [], cv_bool = False, cv_int = 0, cv_list = [],
     cv_ref = \<lparr>ref_kind = [], ref_code = [], ref_label = [], ref_id = 0\<rparr>\<rparr>"

definition rec_value :: "catalog_record \<Rightarrow> gstring \<Rightarrow> catalog_value" where
  "rec_value r name = (case map_of (rec_values r) name of Some v \<Rightarrow> v | None \<Rightarrow> zero_value)"

definition rec_text :: "catalog_record \<Rightarrow> gstring \<Rightarrow> gstring" where
  "rec_text r name = cv_text (rec_value r name)"

definition rec_bool :: "catalog_record \<Rightarrow> gstring \<Rightarrow> bool" where
  "rec_bool r name = cv_bool (rec_value r name)"

definition rec_int :: "catalog_record \<Rightarrow> gstring \<Rightarrow> int" where
  "rec_int r name = cv_int (rec_value r name)"

definition rec_list :: "catalog_record \<Rightarrow> gstring \<Rightarrow> gstring list" where
  "rec_list r name = cv_list (rec_value r name)"

definition rec_ref :: "catalog_record \<Rightarrow> gstring \<Rightarrow> gstring" where
  "rec_ref r name = ref_code (cv_ref (rec_value r name))"

definition CanonicalizeCatalogRecordCodes :: "catalog_kind \<Rightarrow> catalog_record \<Rightarrow> catalog_record" where
  "CanonicalizeCatalogRecordCodes kind r =
     foldl (\<lambda>r f. if fd_kind f \<noteq> FieldCode then r
                  else (case map_of (rec_values r) (fd_name f) of
                          None \<Rightarrow> r
                        | Some v \<Rightarrow> r\<lparr>rec_values := gput (fd_name f) (v\<lparr>cv_text := canonical (cv_text v)\<rparr>) (rec_values r)\<rparr>))
       r (ck_fields kind)"

record catalog_dependency =
  dep_kind :: gstring
  dep_count :: int
  dep_blocking :: bool

section \<open>The registry is closed\<close>

definition kind_fields_named :: "catalog_kind \<Rightarrow> gstring list" where
  "kind_fields_named k = map fd_name (ck_fields k)"

definition field_closed :: "catalog_kind \<Rightarrow> field_descriptor \<Rightarrow> bool" where
  "field_closed k f \<longleftrightarrow> (if fd_kind f = FieldRef then registry_kind (fd_ref_kind f) \<noteq> None else fd_ref_kind f = [])
     \<and> (fd_kind f = FieldEnum \<longleftrightarrow> fd_enum_values f \<noteq> [])
     \<and> set (fd_ref_scoped_by f) \<subseteq> set (kind_fields_named k)"

definition child_closed :: "catalog_kind \<Rightarrow> relation_descriptor \<Rightarrow> bool" where
  "child_closed k r \<longleftrightarrow> (case registry_kind (rd_kind r) of None \<Rightarrow> False
     | Some child \<Rightarrow> list_all (\<lambda>via. list_ex (\<lambda>f. fd_name f = via \<and> fd_kind f = FieldRef \<and> fd_ref_kind f = ck_code k)
          (ck_fields child)) (rd_via_fields r))"

definition kind_closed :: "catalog_kind \<Rightarrow> bool" where
  "kind_closed k \<longleftrightarrow> distinct (kind_fields_named k) \<and> list_all (field_closed k) (ck_fields k)
     \<and> set (ck_identity_fields k) \<subseteq> set (kind_fields_named k) \<and> ck_identity_fields k \<noteq> []
     \<and> list_all (child_closed k) (ck_children k)
     \<and> (if ck_parent_kind k = [] then ck_parent_field k = []
        else list_ex (\<lambda>f. fd_name f = ck_parent_field k \<and> fd_kind f = FieldRef \<and> fd_ref_kind f = ck_parent_kind k)
          (ck_fields k))
     \<and> registry_kind (ck_code k) = Some k"

text \<open>the registry of the eleven catalog kinds is closed: codes are unique, every reference
  field names a registered kind and is scoped by fields of its own kind, identity and parent
  fields exist and have the declared type, and every dependency probe goes through reference
  fields of the child kind that point back at the kind probed.\<close>

theorem registry_closed:
  "length catalog_kinds = 11 \<and> list_all kind_closed catalog_kinds"
  by code_simp

section \<open>Lemmas\<close>

lemma registry_codes: "map ck_code catalog_kinds = [KindClass, KindFamily, KindType, KindAttributeDefinition, KindOptionSet, KindOption, KindOptionRelation, KindUnit, KindUnitPolicy, KindAttributeBinding, KindPresentationField]"
  by code_simp

lemma registry_kind_None: "registry_kind code = None \<longleftrightarrow> code \<notin> set (map ck_code catalog_kinds)"
  by (auto simp: registry_kind_def find_None_iff)

lemma registry_kind_cases:
  assumes "registry_kind code \<noteq> None"
  shows "code \<in> {KindClass, KindFamily, KindType, KindAttributeDefinition, KindOptionSet, KindOption, KindOptionRelation, KindUnit, KindUnitPolicy, KindAttributeBinding, KindPresentationField}"
proof -
  have "code \<in> set (map ck_code catalog_kinds)" using assms registry_kind_None[of code] by (simp only: not_not)
  then show ?thesis unfolding registry_codes by simp
qed

end
