(* ===== verification/CatalogMutation.thy ===== *)
theory CatalogMutation
  imports CatalogKinds CatalogValidate
begin

text \<open>
  Mutations of the in-memory catalog (\<^verbatim>\<open>internal/domain/catalog_mutation.go\<close>).
  \<^verbatim>\<open>ApplyCatalogMutation\<close> is \<open>apply_mutation\<close>: one branch per kind, each \<^verbatim>\<open>mutateSlice\<close> on the
  kind's rows with the kind's key comparison, row builder and active setter. Go returns the
  unchanged catalog with an error, which is \<open>Inl\<close> here. The copies Go makes to isolate the
  caller's slices are the identity on HOL values. The contract every kind gives the slice
  engine is the locale \<open>keyed_rows\<close>, interpreted for the eleven kinds.
\<close>

section \<open>Operations\<close>

abbreviation OpInsert :: "8 word" where "OpInsert \<equiv> 0"
abbreviation OpUpdate :: "8 word" where "OpUpdate \<equiv> 1"
abbreviation OpDeactivate :: "8 word" where "OpDeactivate \<equiv> 2"
abbreviation OpReactivate :: "8 word" where "OpReactivate \<equiv> 3"
abbreviation OpDelete :: "8 word" where "OpDelete \<equiv> 4"

record catalog_mutation =
  mut_op :: "8 word"
  mut_record :: catalog_record
  mut_replacement :: "catalog_record option"

fun index_of :: "'a list \<Rightarrow> ('a \<Rightarrow> bool) \<Rightarrow> nat option" where
  "index_of [] matches = None"
| "index_of (v # vs) matches = (if matches v then Some 0 else map_option Suc (index_of vs matches))"

definition mutate_slice ::
  "'a list \<Rightarrow> 8 word \<Rightarrow> ('a \<Rightarrow> bool) \<Rightarrow> 'a \<Rightarrow> ('a \<Rightarrow> bool \<Rightarrow> 'a) \<Rightarrow> go_error + 'a list" where
  "mutate_slice vs mop matches built setActive =
     (if mop = OpInsert then Inr (vs @ [built])
      else if mop = OpUpdate then
        (case index_of vs matches of None \<Rightarrow> Inl (Sentinel (Dom ErrCatalogRecordNotFound))
         | Some idx \<Rightarrow> Inr (vs[idx := built]))
      else if mop = OpDeactivate \<or> mop = OpReactivate then
        (case index_of vs matches of None \<Rightarrow> Inl (Sentinel (Dom ErrCatalogRecordNotFound))
         | Some idx \<Rightarrow> Inr (vs[idx := setActive (vs ! idx) (mop = OpReactivate)]))
      else if mop = OpDelete then
        (case index_of vs matches of None \<Rightarrow> Inl (Sentinel (Dom ErrCatalogRecordNotFound))
         | Some idx \<Rightarrow> Inr (take idx vs @ drop (idx + 1) vs))
      else Inl (Sentinel (Dom ErrMutationOpUnknown)))"

section \<open>Row builders\<close>

definition class_from_record :: "catalog_record \<Rightarrow> resource_class" where
  "class_from_record r = \<lparr>rc_code = rec_text r ''code'', rc_name = rec_text r ''name'', rc_plural = rec_text r ''plural'',
     rc_slug = rec_text r ''slug'', rc_aliases = rec_list r ''aliases'', rc_keywords = rec_list r ''keywords'',
     rc_order = rec_int r ''order'', rc_active = rec_active r\<rparr>"

definition family_from_record :: "catalog_record \<Rightarrow> resource_family" where
  "family_from_record r = \<lparr>rf_class = rec_ref r ''class'', rf_code = rec_text r ''code'', rf_name = rec_text r ''name'',
     rf_active = rec_active r\<rparr>"

definition type_from_record :: "catalog_record \<Rightarrow> resource_type" where
  "type_from_record r = \<lparr>rt_class = rec_ref r ''class'', rt_family = rec_ref r ''family'', rt_code = rec_text r ''code'',
     rt_name = rec_text r ''name'', rt_active = rec_active r\<rparr>"

definition definition_from_record :: "catalog_record \<Rightarrow> attribute_definition" where
  "definition_from_record r = \<lparr>ad_code = rec_text r ''code'', ad_name = rec_text r ''name'',
     ad_value_type = rec_text r ''valueType'', ad_dimension = rec_text r ''dimension'',
     ad_default_identity = rec_bool r ''defaultIdentityParticipates'', ad_active = rec_active r\<rparr>"

definition option_set_from_record :: "catalog_record \<Rightarrow> resource_option_set" where
  "option_set_from_record r = \<lparr>os_code = rec_text r ''code'', os_name = rec_text r ''name'', os_active = rec_active r\<rparr>"

definition unit_from_record :: "catalog_record \<Rightarrow> unit_definition" where
  "unit_from_record r = \<lparr>ud_code = rec_text r ''code'', ud_name = rec_text r ''name'', ud_symbol = rec_text r ''symbol'',
     ud_dimension = rec_text r ''dimension'', ud_active = rec_active r\<rparr>"

definition option_from_record :: "catalog_record \<Rightarrow> attribute_option" where
  "option_from_record r = \<lparr>ao_set = rec_ref r ''optionSet'', ao_attribute = rec_ref r ''characteristic'',
     ao_code = rec_text r ''code'', ao_label = rec_text r ''label'', ao_active = rec_active r\<rparr>"

definition option_relation_from_record :: "catalog_record \<Rightarrow> attribute_option_relation" where
  "option_relation_from_record r = \<lparr>rel_set = rec_ref r ''optionSet'',
     rel_from_attribute = rec_ref r ''fromCharacteristic'', rel_from_option = rec_ref r ''fromOption'',
     rel_to_attribute = rec_ref r ''toCharacteristic'', rel_to_option = rec_ref r ''toOption'', rel_active = rec_active r\<rparr>"

definition unit_policy_from_record :: "catalog_record \<Rightarrow> resource_unit_policy" where
  "unit_policy_from_record r = \<lparr>up_class = rec_ref r ''class'', up_family = rec_ref r ''family'', up_unit = rec_ref r ''unit'',
     up_allowed = rec_bool r ''allowed'', up_suggested = rec_bool r ''suggested'', up_active = rec_active r\<rparr>"

definition attribute_binding_from_record :: "resource_catalog \<Rightarrow> catalog_record \<Rightarrow> resource_attribute" where
  "attribute_binding_from_record c r = \<lparr>ra_class = rec_ref r ''class'', ra_family = rec_ref r ''family'',
     ra_type = rec_ref r ''type'', ra_option_set = rec_ref r ''optionSet'',
     ra_definition = definition_for c (rec_ref r ''characteristic''), ra_mode = rec_text r ''mode'',
     ra_identity = rec_bool r ''identityParticipates'',
     ra_rules = (case rec_rules r of None \<Rightarrow> [] | Some rules \<Rightarrow> rules), ra_active = rec_active r\<rparr>"

definition presentation_field_from_record :: "catalog_record \<Rightarrow> presentation_field" where
  "presentation_field_from_record r = \<lparr>pf_class = rec_ref r ''class'', pf_family = rec_ref r ''family'',
     pf_type = rec_ref r ''type'', pf_attribute = rec_ref r ''characteristic'', pf_position = rec_int r ''position'',
     pf_active = rec_active r\<rparr>"

section \<open>Key comparison per kind\<close>

definition class_matches :: "catalog_record \<Rightarrow> resource_class \<Rightarrow> bool" where
  "class_matches r v \<longleftrightarrow> canonical (rc_code v) = canonical (rec_text r ''code'')"

definition family_matches :: "catalog_record \<Rightarrow> resource_family \<Rightarrow> bool" where
  "family_matches r v \<longleftrightarrow> canonical (rf_class v) = canonical (rec_ref r ''class'')
     \<and> canonical (rf_code v) = canonical (rec_text r ''code'')"

definition type_matches :: "catalog_record \<Rightarrow> resource_type \<Rightarrow> bool" where
  "type_matches r v \<longleftrightarrow> canonical (rt_class v) = canonical (rec_ref r ''class'')
     \<and> canonical (rt_family v) = canonical (rec_ref r ''family'') \<and> canonical (rt_code v) = canonical (rec_text r ''code'')"

definition definition_matches :: "catalog_record \<Rightarrow> attribute_definition \<Rightarrow> bool" where
  "definition_matches r v \<longleftrightarrow> canonical_attribute (ad_code v) = canonical_attribute (rec_text r ''code'')"

definition option_set_matches :: "catalog_record \<Rightarrow> resource_option_set \<Rightarrow> bool" where
  "option_set_matches r v \<longleftrightarrow> canonical_option_set (os_code v) = canonical_option_set (rec_text r ''code'')"

definition option_matches :: "catalog_record \<Rightarrow> attribute_option \<Rightarrow> bool" where
  "option_matches r v \<longleftrightarrow> canonical_option_set (ao_set v) = canonical_option_set (rec_ref r ''optionSet'')
     \<and> canonical_attribute (ao_attribute v) = canonical_attribute (rec_ref r ''characteristic'')
     \<and> canonical (ao_code v) = canonical (rec_text r ''code'')"

definition option_relation_matches :: "catalog_record \<Rightarrow> attribute_option_relation \<Rightarrow> bool" where
  "option_relation_matches r v \<longleftrightarrow> canonical_option_set (rel_set v) = canonical_option_set (rec_ref r ''optionSet'')
     \<and> canonical (rel_from_option v) = canonical (rec_ref r ''fromOption'')
     \<and> canonical (rel_to_option v) = canonical (rec_ref r ''toOption'')"

definition unit_matches :: "catalog_record \<Rightarrow> unit_definition \<Rightarrow> bool" where
  "unit_matches r v \<longleftrightarrow> canonical (ud_code v) = canonical (rec_text r ''code'')"

definition unit_policy_matches :: "catalog_record \<Rightarrow> resource_unit_policy \<Rightarrow> bool" where
  "unit_policy_matches r v \<longleftrightarrow> canonical (up_class v) = canonical (rec_ref r ''class'')
     \<and> canonical (up_family v) = canonical (rec_ref r ''family'') \<and> canonical (up_unit v) = canonical (rec_ref r ''unit'')"

definition attribute_binding_matches :: "catalog_record \<Rightarrow> resource_attribute \<Rightarrow> bool" where
  "attribute_binding_matches r v \<longleftrightarrow> canonical (ra_class v) = canonical (rec_ref r ''class'')
     \<and> canonical (ra_family v) = canonical (rec_ref r ''family'') \<and> canonical (ra_type v) = canonical (rec_ref r ''type'')
     \<and> attribute_key v = canonical_attribute (rec_ref r ''characteristic'')"

definition presentation_field_matches :: "catalog_record \<Rightarrow> presentation_field \<Rightarrow> bool" where
  "presentation_field_matches r v \<longleftrightarrow> canonical (pf_class v) = canonical (rec_ref r ''class'')
     \<and> canonical (pf_family v) = canonical (rec_ref r ''family'') \<and> canonical (pf_type v) = canonical (rec_ref r ''type'')
     \<and> canonical_attribute (pf_attribute v) = canonical_attribute (rec_ref r ''characteristic'')"

section \<open>Embedded definitions\<close>

definition has_definition :: "resource_catalog \<Rightarrow> gstring \<Rightarrow> bool" where
  "has_definition c code = (let code = canonical_attribute code in
     list_ex (\<lambda>d. canonical_attribute (ad_code d) = code) (cat_definitions c))"

definition synchronize_embedded_definition_active :: "resource_catalog \<Rightarrow> gstring \<Rightarrow> resource_catalog" where
  "synchronize_embedded_definition_active c code =
     (let active = (case find (\<lambda>d. canonical_attribute (ad_code d) = code) (cat_definitions c) of
          Some d \<Rightarrow> ad_active d | None \<Rightarrow> False) in
      c\<lparr>cat_attributes := map (\<lambda>a. if attribute_key a = code
           then a\<lparr>ra_definition := (ra_definition a)\<lparr>ad_active := active\<rparr>\<rparr> else a) (cat_attributes c)\<rparr>)"

definition definition_has_references :: "resource_catalog \<Rightarrow> gstring \<Rightarrow> bool" where
  "definition_has_references c code \<longleftrightarrow>
     list_ex (\<lambda>a. attribute_key a = code) (cat_attributes c)
     \<or> list_ex (\<lambda>opt. canonical_attribute (ao_attribute opt) = code) (cat_options c)
     \<or> list_ex (\<lambda>rel. canonical_attribute (rel_from_attribute rel) = code
          \<or> canonical_attribute (rel_to_attribute rel) = code) (cat_relations c)
     \<or> list_ex (\<lambda>f. canonical_attribute (pf_attribute f) = code) (cat_presentation c)"

definition rebuild_embedded_definitions ::
  "resource_catalog \<Rightarrow> gstring \<Rightarrow> attribute_definition \<Rightarrow> go_error + resource_catalog" where
  "rebuild_embedded_definitions c oldCode replacement =
     (let newCode = canonical_attribute (ad_code replacement) in
      if newCode \<noteq> oldCode \<and> definition_has_references c oldCode
      then Inl (Wrapf ''%w: definition %q is referenced'' [oldCode] [Sentinel (Dom ErrCodeImmutable)])
      else if newCode = oldCode
      then Inr (c\<lparr>cat_attributes := map (\<lambda>a. if attribute_key a = oldCode then a\<lparr>ra_definition := replacement\<rparr> else a)
             (cat_attributes c)\<rparr>)
      else Inr c)"

section \<open>Applicability records\<close>

definition optional_catalog_ref :: "catalog_record \<Rightarrow> gstring \<Rightarrow> gstring \<Rightarrow> go_error + gstring" where
  "optional_catalog_ref r fieldName kind =
     (case map_of (rec_values r) fieldName of
        None \<Rightarrow> Inr []
      | Some v \<Rightarrow>
          if ref_kind (cv_ref v) \<noteq> [] \<and> ref_kind (cv_ref v) \<noteq> kind
          then Inl (dangling ''%w: applicability field %q has the wrong reference kind'' [fieldName])
          else Inr (ref_code (cv_ref v)))"

definition required_catalog_ref :: "catalog_record \<Rightarrow> gstring \<Rightarrow> gstring \<Rightarrow> go_error + gstring" where
  "required_catalog_ref r fieldName kind =
     bindr (optional_catalog_ref r fieldName kind) (\<lambda>code.
       if code = [] then Inl (invalid ''%w: applicability field %q is required'' [fieldName]) else Inr code)"

definition has_catalog_option_set :: "resource_catalog \<Rightarrow> gstring \<Rightarrow> bool" where
  "has_catalog_option_set c code = (let code = canonical_option_set code in
     list_ex (\<lambda>os. canonical_option_set (os_code os) = code) (cat_option_sets c)
     \<or> list_ex (\<lambda>opt. canonical_option_set (ao_set opt) = code) (cat_options c))"

definition valid_attribute_mode :: "gstring \<Rightarrow> bool" where
  "valid_attribute_mode mode \<longleftrightarrow> mode = ModeRequired \<or> mode = ModeOptional \<or> mode = ModeConditional \<or> mode = ModeForbidden"

definition applicability_rule_error :: "resource_catalog \<Rightarrow> attribute_rule \<Rightarrow> go_error option" where
  "applicability_rule_error c rule =
     (if canonical_attribute (when_attribute (ar_when rule)) = [] \<or> canonical (when_equals (ar_when rule)) = []
         \<or> \<not> valid_attribute_mode (ar_mode rule)
      then Some (invalid ''%w: applicability rule is incomplete'' [])
      else if \<not> has_definition c (when_attribute (ar_when rule))
      then Some (dangling ''%w: applicability rule references unknown characteristic %q'' [when_attribute (ar_when rule)])
      else None)"

definition validate_applicability_record :: "resource_catalog \<Rightarrow> catalog_record \<Rightarrow> go_error + unit" where
  "validate_applicability_record c r =
     (case rec_rules r of
        None \<Rightarrow> Inl (invalid ''%w: applicability rules are omitted'' [])
      | Some rules \<Rightarrow>
     bindr (required_catalog_ref r ''class'' KindClass) (\<lambda>classCode.
     bindr (required_catalog_ref r ''family'' KindFamily) (\<lambda>familyCode.
     if \<not> has_family_in c classCode familyCode
     then Inl (dangling ''%w: applicability references unknown family %q'' [familyCode])
     else
     bindr (optional_catalog_ref r ''type'' KindType) (\<lambda>typeCode.
     if typeCode \<noteq> [] \<and> \<not> has_type_in c classCode familyCode typeCode
     then Inl (dangling ''%w: applicability references unknown type %q'' [typeCode])
     else
     bindr (required_catalog_ref r ''characteristic'' KindAttributeDefinition) (\<lambda>characteristic.
     if \<not> has_definition c characteristic
     then Inl (dangling ''%w: applicability references unknown characteristic %q'' [characteristic])
     else
     bindr (optional_catalog_ref r ''optionSet'' KindOptionSet) (\<lambda>optionSet.
     if optionSet \<noteq> [] \<and> \<not> has_catalog_option_set c optionSet
     then Inl (dangling ''%w: applicability references unknown option set %q'' [optionSet])
     else let mode = rec_text r ''mode'' in
       if \<not> valid_attribute_mode mode then Inl (invalid ''%w: applicability mode is invalid'' [])
       else if mode = ModeConditional \<and> length rules = 0
       then Inl (invalid ''%w: conditional applicability has no rules'' [])
       else if mode \<noteq> ModeConditional \<and> length rules > 0
       then Inl (invalid ''%w: non-conditional applicability has rules'' [])
       else check (first_error (applicability_rule_error c) rules) (Inr ())))))))"

section \<open>ApplyCatalogMutation\<close>

definition mutate_definitions :: "resource_catalog \<Rightarrow> catalog_mutation \<Rightarrow> catalog_record \<Rightarrow> go_error + resource_catalog" where
  "mutate_definitions c m buildRecord =
     bindr (mutate_slice (cat_definitions c) (mut_op m) (definition_matches (mut_record m))
              (definition_from_record buildRecord) (\<lambda>v active. v\<lparr>ad_active := active\<rparr>)) (\<lambda>rows.
       let next_catalog = c\<lparr>cat_definitions := rows\<rparr>; code = canonical_attribute (rec_text (mut_record m) ''code'') in
       if mut_op m = OpUpdate then rebuild_embedded_definitions next_catalog code (definition_from_record buildRecord)
       else if mut_op m = OpDeactivate \<or> mut_op m = OpReactivate
       then Inr (synchronize_embedded_definition_active next_catalog code)
       else Inr next_catalog)"

definition mutate_attributes :: "resource_catalog \<Rightarrow> catalog_mutation \<Rightarrow> catalog_record \<Rightarrow> go_error + resource_catalog" where
  "mutate_attributes c m buildRecord =
     bindr (if mut_op m = OpInsert \<or> mut_op m = OpUpdate then validate_applicability_record c buildRecord else Inr ()) (\<lambda>_.
     bindr (mutate_slice (cat_attributes c) (mut_op m) (attribute_binding_matches (mut_record m))
              (attribute_binding_from_record c buildRecord) (\<lambda>v active. v\<lparr>ra_active := active\<rparr>)) (\<lambda>rows.
       Inr (c\<lparr>cat_attributes := rows\<rparr>)))"

definition apply_mutation :: "resource_catalog \<Rightarrow> catalog_mutation \<Rightarrow> go_error + resource_catalog" where
  "apply_mutation c m =
     (let r = mut_record m; kind = rec_kind r; mop = mut_op m;
          buildRecord = (case mut_replacement m of Some replacement \<Rightarrow> replacement | None \<Rightarrow> r) in
      if registry_kind kind = None then Inl (Wrapf ''%w: %q'' [kind] [Sentinel (Dom ErrCatalogKindUnknown)])
      else if kind = KindClass then
        bindr (mutate_slice (cat_classes c) mop (class_matches r) (class_from_record buildRecord)
          (\<lambda>v active. v\<lparr>rc_active := active\<rparr>)) (\<lambda>rows. Inr (c\<lparr>cat_classes := rows\<rparr>))
      else if kind = KindFamily then
        bindr (mutate_slice (cat_families c) mop (family_matches r) (family_from_record buildRecord)
          (\<lambda>v active. v\<lparr>rf_active := active\<rparr>)) (\<lambda>rows. Inr (c\<lparr>cat_families := rows\<rparr>))
      else if kind = KindType then
        bindr (mutate_slice (cat_types c) mop (type_matches r) (type_from_record buildRecord)
          (\<lambda>v active. v\<lparr>rt_active := active\<rparr>)) (\<lambda>rows. Inr (c\<lparr>cat_types := rows\<rparr>))
      else if kind = KindAttributeDefinition then mutate_definitions c m buildRecord
      else if kind = KindOptionSet then
        bindr (mutate_slice (cat_option_sets c) mop (option_set_matches r) (option_set_from_record buildRecord)
          (\<lambda>v active. v\<lparr>os_active := active\<rparr>)) (\<lambda>rows. Inr (c\<lparr>cat_option_sets := rows\<rparr>))
      else if kind = KindOption then
        bindr (mutate_slice (cat_options c) mop (option_matches r) (option_from_record buildRecord)
          (\<lambda>v active. v\<lparr>ao_active := active\<rparr>)) (\<lambda>rows. Inr (c\<lparr>cat_options := rows\<rparr>))
      else if kind = KindOptionRelation then
        bindr (mutate_slice (cat_relations c) mop (option_relation_matches r) (option_relation_from_record buildRecord)
          (\<lambda>v active. v\<lparr>rel_active := active\<rparr>)) (\<lambda>rows. Inr (c\<lparr>cat_relations := rows\<rparr>))
      else if kind = KindUnit then
        bindr (mutate_slice (cat_units c) mop (unit_matches r) (unit_from_record buildRecord)
          (\<lambda>v active. v\<lparr>ud_active := active\<rparr>)) (\<lambda>rows. Inr (c\<lparr>cat_units := rows\<rparr>))
      else if kind = KindUnitPolicy then
        bindr (mutate_slice (cat_unit_policies c) mop (unit_policy_matches r) (unit_policy_from_record buildRecord)
          (\<lambda>v active. v\<lparr>up_active := active\<rparr>)) (\<lambda>rows. Inr (c\<lparr>cat_unit_policies := rows\<rparr>))
      else if kind = KindAttributeBinding then mutate_attributes c m buildRecord
      else if kind = KindPresentationField then
        bindr (mutate_slice (cat_presentation c) mop (presentation_field_matches r) (presentation_field_from_record buildRecord)
          (\<lambda>v active. v\<lparr>pf_active := active\<rparr>)) (\<lambda>rows. Inr (c\<lparr>cat_presentation := rows\<rparr>))
      else Inl (Wrapf ''%w: %q'' [kind] [Sentinel (Dom ErrCatalogKindUnknown)]))"

end
