(* ===== verification/CatalogMutationLemmas.thy ===== *)
theory CatalogMutationLemmas
  imports CatalogMutation
begin

text \<open>
  The slice engine under the contract of a kind (locale \<open>keyed_rows\<close>: the active setter keeps
  the key), its interpretation for the eleven kinds, and the invariant that the definitions
  materialized in the attribute bindings are those of the catalog.
\<close>

section \<open>The slice engine\<close>

lemma index_of_Some:
  "index_of vs P = Some i \<Longrightarrow> i < length vs \<and> P (vs ! i) \<and> (\<forall>j<i. \<not> P (vs ! j)) \<and> find P vs = Some (vs ! i)"
proof (induction vs arbitrary: i)
  case (Cons v vs)
  show ?case
  proof (cases "P v")
    case False
    with Cons.prems obtain k where k: "index_of vs P = Some k" "i = Suc k" by auto
    with Cons.IH[OF k(1)] False show ?thesis by (auto simp: less_Suc_eq_0_disj)
  qed (use Cons.prems in auto)
qed simp

lemma index_of_None: "index_of vs P = None \<longleftrightarrow> find P vs = None"
  by (induction vs) auto

lemma find_update:
  "index_of vs P = Some i \<Longrightarrow> P w \<Longrightarrow> find P (vs[i := w]) = Some w"
  by (induction vs arbitrary: i) (auto split: if_splits)

lemma index_of_update:
  "index_of vs P = Some i \<Longrightarrow> P w \<Longrightarrow> index_of (vs[i := w]) P = Some i"
  by (induction vs arbitrary: i) (auto split: if_splits)

lemma find_append: "find P (vs @ ws) = (case find P vs of Some v \<Rightarrow> Some v | None \<Rightarrow> find P ws)"
  by (induction vs) auto

lemma mutate_slice_insert: "mutate_slice vs OpInsert matches built setActive = Inr (vs @ [built])"
  by (simp add: mutate_slice_def)

lemma mutate_slice_missing:
  assumes "mop \<in> {OpUpdate, OpDeactivate, OpReactivate, OpDelete}" "find matches vs = None"
  shows "mutate_slice vs mop matches built setActive = Inl (Sentinel (Dom ErrCatalogRecordNotFound))"
  using assms by (auto simp: mutate_slice_def index_of_None[symmetric])

lemma mutate_slice_found:
  assumes "mop \<in> {OpUpdate, OpDeactivate, OpReactivate, OpDelete}" "find matches vs \<noteq> None"
  shows "ok (mutate_slice vs mop matches built setActive)"
  using assms by (auto simp: mutate_slice_def index_of_None[symmetric])

lemma mutate_slice_delete:
  assumes "mutate_slice vs OpDelete matches built setActive = Inr ws"
  shows "\<exists>v. find matches vs = Some v \<and> mset vs = add_mset v (mset ws)"
proof -
  from assms obtain i where i: "index_of vs matches = Some i" "ws = take i vs @ drop (i + 1) vs"
    by (auto simp: mutate_slice_def split: option.splits)
  note at = index_of_Some[OF i(1)]
  then have "vs = take i vs @ vs ! i # drop (i + 1) vs" by (simp add: id_take_nth_drop)
  then have "mset vs = add_mset (vs ! i) (mset ws)"
    unfolding i(2) by (metis mset.simps(2) mset_append union_mset_add_mset_right)
  with at show ?thesis by blast
qed

locale keyed_rows =
  fixes matches :: "'a \<Rightarrow> bool" and active :: "'a \<Rightarrow> bool" and setActive :: "'a \<Rightarrow> bool \<Rightarrow> 'a"
  assumes matches_setActive: "matches (setActive v b) = matches v"
    and active_setActive: "active (setActive v b) = b"
    and setActive_setActive: "setActive (setActive v a) b = setActive v b"
    and setActive_same: "setActive v (active v) = v"
begin

lemma insert_found:
  assumes "mutate_slice vs OpInsert matches built setActive = Inr ws" "find matches vs = None" "matches built"
  shows "find matches ws = Some built"
  using assms by (auto simp: mutate_slice_insert find_append)

lemma update_found:
  assumes "mutate_slice vs OpUpdate matches built setActive = Inr ws" "matches built"
  shows "find matches ws = Some built"
  using assms find_update[of vs matches _ built] by (auto simp: mutate_slice_def split: option.splits)

lemma toggle_found:
  assumes "mutate_slice vs mop matches built setActive = Inr ws" "mop = OpDeactivate \<or> mop = OpReactivate"
  shows "\<exists>v. find matches vs = Some v \<and> find matches ws = Some (setActive v (mop = OpReactivate))"
proof -
  from assms obtain i where i: "index_of vs matches = Some i" "ws = vs[i := setActive (vs ! i) (mop = OpReactivate)]"
    by (auto simp: mutate_slice_def split: option.splits)
  with index_of_Some[OF i(1)] find_update[OF i(1), of "setActive (vs ! i) (mop = OpReactivate)"]
  show ?thesis by (auto simp: matches_setActive)
qed

lemma toggle_state:
  assumes "mutate_slice vs mop matches built setActive = Inr ws" "mop = OpDeactivate \<or> mop = OpReactivate"
  shows "map_option active (find matches ws) = Some (mop = OpReactivate)"
  using toggle_found[OF assms] by (auto simp: active_setActive)

lemma restore:
  assumes "mutate_slice vs OpDeactivate matches b1 setActive = Inr ws"
    and "map_option active (find matches vs) = Some True"
  shows "mutate_slice ws OpReactivate matches b2 setActive = Inr vs"
proof -
  from assms(1) obtain i where i: "index_of vs matches = Some i" "ws = vs[i := setActive (vs ! i) False]"
    by (auto simp: mutate_slice_def split: option.splits)
  note at = index_of_Some[OF i(1)]
  have "active (vs ! i)" using at assms(2) by simp
  then have same: "setActive (vs ! i) True = vs ! i" using setActive_same[of "vs ! i"] by simp
  have "index_of ws matches = Some i"
    unfolding i(2) using at by (intro index_of_update[OF i(1)]) (simp add: matches_setActive)
  then show ?thesis
    using at unfolding mutate_slice_def i(2) by (simp add: setActive_setActive same)
qed

end

interpretation class_rows: keyed_rows "class_matches r" rc_active "\<lambda>v a. v\<lparr>rc_active := a\<rparr>" for r
  by unfold_locales (simp_all add: class_matches_def)

interpretation family_rows: keyed_rows "family_matches r" rf_active "\<lambda>v a. v\<lparr>rf_active := a\<rparr>" for r
  by unfold_locales (simp_all add: family_matches_def)

interpretation type_rows: keyed_rows "type_matches r" rt_active "\<lambda>v a. v\<lparr>rt_active := a\<rparr>" for r
  by unfold_locales (simp_all add: type_matches_def)

interpretation definition_rows: keyed_rows "definition_matches r" ad_active "\<lambda>v a. v\<lparr>ad_active := a\<rparr>" for r
  by unfold_locales (simp_all add: definition_matches_def)

interpretation option_set_rows: keyed_rows "option_set_matches r" os_active "\<lambda>v a. v\<lparr>os_active := a\<rparr>" for r
  by unfold_locales (simp_all add: option_set_matches_def)

interpretation option_rows: keyed_rows "option_matches r" ao_active "\<lambda>v a. v\<lparr>ao_active := a\<rparr>" for r
  by unfold_locales (simp_all add: option_matches_def)

interpretation option_relation_rows: keyed_rows "option_relation_matches r" rel_active "\<lambda>v a. v\<lparr>rel_active := a\<rparr>" for r
  by unfold_locales (simp_all add: option_relation_matches_def)

interpretation unit_rows: keyed_rows "unit_matches r" ud_active "\<lambda>v a. v\<lparr>ud_active := a\<rparr>" for r
  by unfold_locales (simp_all add: unit_matches_def)

interpretation unit_policy_rows: keyed_rows "unit_policy_matches r" up_active "\<lambda>v a. v\<lparr>up_active := a\<rparr>" for r
  by unfold_locales (simp_all add: unit_policy_matches_def)

interpretation attribute_rows: keyed_rows "attribute_binding_matches r" ra_active "\<lambda>v a. v\<lparr>ra_active := a\<rparr>" for r
  by unfold_locales (simp_all add: attribute_binding_matches_def)

interpretation presentation_rows: keyed_rows "presentation_field_matches r" pf_active "\<lambda>v a. v\<lparr>pf_active := a\<rparr>" for r
  by unfold_locales (simp_all add: presentation_field_matches_def)

lemmas rows_toggle = class_rows.toggle_state family_rows.toggle_state type_rows.toggle_state
  definition_rows.toggle_state option_set_rows.toggle_state option_rows.toggle_state
  option_relation_rows.toggle_state unit_rows.toggle_state unit_policy_rows.toggle_state
  attribute_rows.toggle_state presentation_rows.toggle_state

lemmas rows_restore = class_rows.restore family_rows.restore type_rows.restore
  definition_rows.restore option_set_rows.restore option_rows.restore
  option_relation_rows.restore unit_rows.restore unit_policy_rows.restore
  attribute_rows.restore presentation_rows.restore

lemmas rows_update = class_rows.update_found family_rows.update_found type_rows.update_found
  definition_rows.update_found option_set_rows.update_found option_rows.update_found
  option_relation_rows.update_found unit_rows.update_found unit_policy_rows.update_found
  attribute_rows.update_found presentation_rows.update_found

lemmas rows_insert = class_rows.insert_found family_rows.insert_found type_rows.insert_found
  definition_rows.insert_found option_set_rows.insert_found option_rows.insert_found
  option_relation_rows.insert_found unit_rows.insert_found unit_policy_rows.insert_found
  attribute_rows.insert_found presentation_rows.insert_found

section \<open>The state of the addressed row\<close>

text \<open>The active flag of the row a record addresses, \<open>None\<close> when the catalog has no such row.\<close>

definition row_state :: "resource_catalog \<Rightarrow> catalog_record \<Rightarrow> bool option" where
  "row_state c r =
     (let kind = rec_kind r in
      if kind = KindClass then map_option rc_active (find (class_matches r) (cat_classes c))
      else if kind = KindFamily then map_option rf_active (find (family_matches r) (cat_families c))
      else if kind = KindType then map_option rt_active (find (type_matches r) (cat_types c))
      else if kind = KindAttributeDefinition then map_option ad_active (find (definition_matches r) (cat_definitions c))
      else if kind = KindOptionSet then map_option os_active (find (option_set_matches r) (cat_option_sets c))
      else if kind = KindOption then map_option ao_active (find (option_matches r) (cat_options c))
      else if kind = KindOptionRelation then map_option rel_active (find (option_relation_matches r) (cat_relations c))
      else if kind = KindUnit then map_option ud_active (find (unit_matches r) (cat_units c))
      else if kind = KindUnitPolicy then map_option up_active (find (unit_policy_matches r) (cat_unit_policies c))
      else if kind = KindAttributeBinding then map_option ra_active (find (attribute_binding_matches r) (cat_attributes c))
      else if kind = KindPresentationField then map_option pf_active (find (presentation_field_matches r) (cat_presentation c))
      else None)"

lemma sync_frame [simp]:
  "cat_definitions (synchronize_embedded_definition_active c code) = cat_definitions c"
  by (simp add: synchronize_embedded_definition_active_def Let_def)

lemma rebuild_frame: "rebuild_embedded_definitions c code d = Inr c' \<Longrightarrow> cat_definitions c' = cat_definitions c"
  by (auto simp: rebuild_embedded_definitions_def Let_def split: if_splits)

lemma apply_kind_cases:
  assumes "apply_mutation c m = Inr c'"
  shows "rec_kind (mut_record m) \<in> {KindClass, KindFamily, KindType, KindAttributeDefinition, KindOptionSet, KindOption,
    KindOptionRelation, KindUnit, KindUnitPolicy, KindAttributeBinding, KindPresentationField}"
  using assms registry_kind_cases[of "rec_kind (mut_record m)"]
  by (cases "registry_kind (rec_kind (mut_record m))") (simp_all add: apply_mutation_def Let_def)

lemma registered [simp]:
  "registry_kind KindClass \<noteq> None" "registry_kind KindFamily \<noteq> None" "registry_kind KindType \<noteq> None"
  "registry_kind KindAttributeDefinition \<noteq> None" "registry_kind KindOptionSet \<noteq> None" "registry_kind KindOption \<noteq> None"
  "registry_kind KindOptionRelation \<noteq> None" "registry_kind KindUnit \<noteq> None" "registry_kind KindUnitPolicy \<noteq> None"
  "registry_kind KindAttributeBinding \<noteq> None" "registry_kind KindPresentationField \<noteq> None"
  unfolding registry_kind_None registry_codes by simp_all

end
