(* ===== verification/CatalogMutationTheorems.thy ===== *)
theory CatalogMutationTheorems
  imports CatalogMutationLemmas DemoCatalog
begin

text \<open>
  The properties of \<^verbatim>\<open>ApplyCatalogMutation\<close>: its effect on the addressed row, the frame, the
  inverse of a deactivation, and the coherence of the materialized definitions.
\<close>

lemmas apply_unfold = apply_mutation_def row_state_def mutate_definitions_def mutate_attributes_def Let_def bindr_Inr_iff

lemma toggle_state_kind:
  assumes "apply_mutation c m = Inr c'" and mop: "mut_op m = OpDeactivate \<or> mut_op m = OpReactivate"
  shows "row_state c' (mut_record m) = Some (mut_op m = OpReactivate)"
proof -
  note kind = apply_kind_cases[OF assms(1), simplified]
  have not_update: "mut_op m \<noteq> OpUpdate" "mut_op m \<noteq> OpInsert" using mop by auto
  show ?thesis
    using kind assms(1) not_update mop
    by (elim disjE) (auto simp: apply_unfold dest!: rows_toggle)
qed


lemma definition_for_has:
  assumes "has_definition c code"
  shows "definition_for c code \<in> set (cat_definitions c)"
    "canonical_attribute (ad_code (definition_for c code)) = canonical_attribute code"
proof -
  obtain d where d: "find (\<lambda>d. canonical_attribute (ad_code d) = canonical_attribute code) (cat_definitions c) = Some d"
    using assms by (cases "find (\<lambda>d. canonical_attribute (ad_code d) = canonical_attribute code) (cat_definitions c)")
      (auto simp: has_definition_def list_ex_iff find_None_iff)
  then show "definition_for c code \<in> set (cat_definitions c)"
    "canonical_attribute (ad_code (definition_for c code)) = canonical_attribute code"
    using find_Some_iff[THEN iffD1, OF d] by (auto simp: definition_for_def Let_def)
qed

lemma optional_ref_value: "optional_catalog_ref r f k = Inr code \<Longrightarrow> code = rec_ref r f"
  by (auto simp: optional_catalog_ref_def rec_ref_def rec_value_def zero_value_def split: option.splits if_splits)

lemma required_ref_value: "required_catalog_ref r f k = Inr code \<Longrightarrow> code = rec_ref r f \<and> code \<noteq> []"
  by (auto simp: required_catalog_ref_def bindr_Inr_iff dest: optional_ref_value split: if_splits)

lemma applicability_valid:
  assumes "validate_applicability_record c r = Inr ()"
  shows "rec_rules r \<noteq> None" "has_definition c (rec_ref r ''characteristic'')"
    "has_family_in c (rec_ref r ''class'') (rec_ref r ''family'')"
    "rec_ref r ''type'' = [] \<or> has_type_in c (rec_ref r ''class'') (rec_ref r ''family'') (rec_ref r ''type'')"
    "rec_text r ''mode'' = ModeConditional \<longleftrightarrow> the (rec_rules r) \<noteq> []"
  using assms unfolding validate_applicability_record_def
  by (auto simp: bindr_Inr_iff Let_def check_Inr_iff dest!: optional_ref_value required_ref_value
      split: option.splits if_splits)

lemma built_matches [simp]:
  "class_matches r (class_from_record r)" "family_matches r (family_from_record r)"
  "type_matches r (type_from_record r)" "definition_matches r (definition_from_record r)"
  "option_set_matches r (option_set_from_record r)" "option_matches r (option_from_record r)"
  "option_relation_matches r (option_relation_from_record r)" "unit_matches r (unit_from_record r)"
  "unit_policy_matches r (unit_policy_from_record r)"
  "presentation_field_matches r (presentation_field_from_record r)"
  by (simp_all add: class_matches_def class_from_record_def family_matches_def family_from_record_def
      type_matches_def type_from_record_def definition_matches_def definition_from_record_def
      option_set_matches_def option_set_from_record_def option_matches_def option_from_record_def
      option_relation_matches_def option_relation_from_record_def unit_matches_def unit_from_record_def
      unit_policy_matches_def unit_policy_from_record_def presentation_field_matches_def
      presentation_field_from_record_def)

lemma built_binding_matches:
  "validate_applicability_record c r = Inr () \<Longrightarrow> attribute_binding_matches r (attribute_binding_from_record c r)"
  by (simp add: attribute_binding_matches_def attribute_binding_from_record_def definition_for_has(2) applicability_valid(2))

lemma built_active [simp]:
  "rc_active (class_from_record r) = rec_active r" "rf_active (family_from_record r) = rec_active r"
  "rt_active (type_from_record r) = rec_active r" "ad_active (definition_from_record r) = rec_active r"
  "os_active (option_set_from_record r) = rec_active r" "ao_active (option_from_record r) = rec_active r"
  "rel_active (option_relation_from_record r) = rec_active r" "ud_active (unit_from_record r) = rec_active r"
  "up_active (unit_policy_from_record r) = rec_active r" "ra_active (attribute_binding_from_record c r) = rec_active r"
  "pf_active (presentation_field_from_record r) = rec_active r"
  by (simp_all add: class_from_record_def family_from_record_def type_from_record_def definition_from_record_def
      option_set_from_record_def option_from_record_def option_relation_from_record_def unit_from_record_def
      unit_policy_from_record_def attribute_binding_from_record_def presentation_field_from_record_def)

lemma update_state_kind:
  assumes "apply_mutation c m = Inr c'" "mut_op m = OpUpdate" "mut_replacement m = None"
  shows "row_state c' (mut_record m) = Some (rec_active (mut_record m))"
proof -
  note kind = apply_kind_cases[OF assms(1), simplified]
  show ?thesis
    using kind assms
    by (elim disjE) (auto simp: apply_unfold dest!: rows_update rebuild_frame built_binding_matches)
qed

lemma insert_state_kind:
  assumes "apply_mutation c m = Inr c'" "mut_op m = OpInsert" "mut_replacement m = None" "row_state c (mut_record m) = None"
  shows "row_state c' (mut_record m) = Some (rec_active (mut_record m))"
proof -
  note kind = apply_kind_cases[OF assms(1), simplified]
  show ?thesis
    using kind assms
    by (elim disjE) (auto simp: apply_unfold dest!: rows_insert built_binding_matches)
qed


lemma missing_state_kind:
  assumes "row_state c (mut_record m) = None" "mut_op m \<in> {OpDeactivate, OpReactivate, OpDelete}"
    "registry_kind (rec_kind (mut_record m)) \<noteq> None"
  shows "apply_mutation c m = Inl (Sentinel (Dom ErrCatalogRecordNotFound))"
proof -
  note kind = registry_kind_cases[OF assms(3), simplified]
  have mop: "mut_op m \<in> {OpUpdate, OpDeactivate, OpReactivate, OpDelete}" and nin: "mut_op m \<noteq> OpUpdate" "mut_op m \<noteq> OpInsert"
    using assms(2) by auto
  show ?thesis
    using kind assms(1) nin
    by (elim disjE) (simp_all add: apply_mutation_def row_state_def mutate_definitions_def mutate_attributes_def
        Let_def mutate_slice_missing[OF mop])
qed

section \<open>Frame\<close>

definition same_bindings :: "resource_attribute list \<Rightarrow> resource_attribute list \<Rightarrow> bool" where
  "same_bindings as bs \<longleftrightarrow> map (ra_definition_update (\<lambda>_. empty_definition)) as
     = map (ra_definition_update (\<lambda>_. empty_definition)) bs"

definition untouched :: "gstring \<Rightarrow> resource_catalog \<Rightarrow> resource_catalog \<Rightarrow> bool" where
  "untouched kind c c' \<longleftrightarrow>
     (kind = KindClass \<or> cat_classes c' = cat_classes c) \<and> (kind = KindFamily \<or> cat_families c' = cat_families c)
     \<and> (kind = KindType \<or> cat_types c' = cat_types c)
     \<and> (kind = KindAttributeDefinition \<or> cat_definitions c' = cat_definitions c)
     \<and> (kind = KindOptionSet \<or> cat_option_sets c' = cat_option_sets c) \<and> (kind = KindOption \<or> cat_options c' = cat_options c)
     \<and> (kind = KindOptionRelation \<or> cat_relations c' = cat_relations c) \<and> (kind = KindUnit \<or> cat_units c' = cat_units c)
     \<and> (kind = KindUnitPolicy \<or> cat_unit_policies c' = cat_unit_policies c)
     \<and> (kind = KindPresentationField \<or> cat_presentation c' = cat_presentation c)
     \<and> (kind = KindAttributeBinding \<or> same_bindings (cat_attributes c') (cat_attributes c))
     \<and> (kind \<in> {KindAttributeBinding, KindAttributeDefinition} \<or> cat_attributes c' = cat_attributes c)"

lemma same_bindings_refl [simp]: "same_bindings as as"
  by (simp add: same_bindings_def)

lemma sync_untouched:
  "untouched KindAttributeDefinition c (synchronize_embedded_definition_active (c\<lparr>cat_definitions := ds\<rparr>) code)"
  by (simp add: untouched_def synchronize_embedded_definition_active_def Let_def same_bindings_def o_def)

lemma rebuild_untouched:
  "rebuild_embedded_definitions (c\<lparr>cat_definitions := ds\<rparr>) code d = Inr c' \<Longrightarrow> untouched KindAttributeDefinition c c'"
  by (auto simp: untouched_def rebuild_embedded_definitions_def Let_def same_bindings_def split: if_splits)

lemma frame_kind:
  assumes "apply_mutation c m = Inr c'"
  shows "untouched (rec_kind (mut_record m)) c c'"
proof -
  note kind = apply_kind_cases[OF assms(1), simplified]
  have simple: "untouched KindClass c (c\<lparr>cat_classes := x1\<rparr>)" "untouched KindFamily c (c\<lparr>cat_families := x2\<rparr>)"
    "untouched KindType c (c\<lparr>cat_types := x3\<rparr>)" "untouched KindAttributeDefinition c (c\<lparr>cat_definitions := x4\<rparr>)"
    "untouched KindOptionSet c (c\<lparr>cat_option_sets := x5\<rparr>)" "untouched KindOption c (c\<lparr>cat_options := x6\<rparr>)"
    "untouched KindOptionRelation c (c\<lparr>cat_relations := x7\<rparr>)" "untouched KindUnit c (c\<lparr>cat_units := x8\<rparr>)"
    "untouched KindUnitPolicy c (c\<lparr>cat_unit_policies := x9\<rparr>)" "untouched KindAttributeBinding c (c\<lparr>cat_attributes := x10\<rparr>)"
    "untouched KindPresentationField c (c\<lparr>cat_presentation := x11\<rparr>)"
    for x1 x2 x3 x4 x5 x6 x7 x8 x9 x10 x11
    by (simp_all add: untouched_def)
  show ?thesis
    using kind assms
    by (elim disjE) (auto simp: apply_unfold simple sync_untouched dest!: rebuild_untouched split: if_splits)
qed

section \<open>Materialized definitions\<close>

definition bindings_known :: "resource_catalog \<Rightarrow> bool" where
  "bindings_known c \<longleftrightarrow> (\<forall>a\<in>set (cat_attributes c). ra_definition a \<in> set (cat_definitions c))"

definition unique_definitions :: "resource_catalog \<Rightarrow> bool" where
  "unique_definitions c \<longleftrightarrow> distinct (map (\<lambda>d. canonical_attribute (ad_code d)) (cat_definitions c))"

lemma in_set_update: "d \<in> set xs \<Longrightarrow> i < length xs \<Longrightarrow> d \<noteq> xs ! i \<Longrightarrow> d \<in> set (xs[i := v])"
  by (metis in_set_conv_nth length_list_update nth_list_update_neq)


lemma unique_found:
  assumes "unique_definitions c" "index_of (cat_definitions c) (definition_matches r) = Some i" "d \<in> set (cat_definitions c)"
    "canonical_attribute (ad_code d) = canonical_attribute (rec_text r ''code'')"
  shows "d = cat_definitions c ! i"
proof -
  note at = index_of_Some[OF assms(2)]
  then have "canonical_attribute (ad_code (cat_definitions c ! i)) = canonical_attribute (ad_code d)"
    using assms(4) by (simp add: definition_matches_def)
  with assms(1,3) at show ?thesis
    unfolding unique_definitions_def by (metis distinct_map inj_onD nth_mem)
qed

lemma known_update:
  assumes known: "bindings_known c" and uniq: "unique_definitions c"
    and i: "index_of (cat_definitions c) (definition_matches r) = Some i"
    and reb: "rebuild_embedded_definitions (c\<lparr>cat_definitions := (cat_definitions c)[i := d]\<rparr>)
      (canonical_attribute (rec_text r ''code'')) d = Inr c'"
  shows "bindings_known c'"
proof -
  let ?code = "canonical_attribute (rec_text r ''code'')" and ?ds = "cat_definitions c"
  have ilen: "i < length ?ds" and icode: "canonical_attribute (ad_code (?ds ! i)) = ?code"
    using index_of_Some[OF i] by (simp_all add: definition_matches_def)
  have other: "ra_definition a \<in> set (?ds[i := d])" if "a \<in> set (cat_attributes c)" "attribute_key a \<noteq> ?code" for a
    using known that icode ilen unfolding bindings_known_def by (metis in_set_update)
  have new: "d \<in> set (?ds[i := d])" using ilen by (simp add: set_update_memI)
  show ?thesis
  proof (cases "canonical_attribute (ad_code d) = ?code")
    case True
    then have "c' = c\<lparr>cat_definitions := ?ds[i := d], cat_attributes := map (\<lambda>a. if attribute_key a = ?code
        then a\<lparr>ra_definition := d\<rparr> else a) (cat_attributes c)\<rparr>"
      using reb by (simp add: rebuild_embedded_definitions_def Let_def)
    then show ?thesis using other new by (auto simp: bindings_known_def)
  next
    case False
    then have "c' = c\<lparr>cat_definitions := ?ds[i := d]\<rparr>" "\<forall>a\<in>set (cat_attributes c). attribute_key a \<noteq> ?code"
      using reb by (auto simp: rebuild_embedded_definitions_def Let_def definition_has_references_def list_ex_iff
          split: if_splits)
    then show ?thesis using other by (simp add: bindings_known_def)
  qed
qed

lemma known_sync:
  assumes known: "bindings_known c" and uniq: "unique_definitions c"
    and i: "index_of (cat_definitions c) (definition_matches r) = Some i"
  shows "bindings_known (synchronize_embedded_definition_active
     (c\<lparr>cat_definitions := (cat_definitions c)[i := (cat_definitions c ! i)\<lparr>ad_active := b\<rparr>]\<rparr>)
     (canonical_attribute (rec_text r ''code'')))"
proof -
  let ?code = "canonical_attribute (rec_text r ''code'')" and ?ds = "cat_definitions c"
  let ?d = "(?ds ! i)\<lparr>ad_active := b\<rparr>"
  have ilen: "i < length ?ds" and icode: "canonical_attribute (ad_code (?ds ! i)) = ?code"
    using index_of_Some[OF i] by (simp_all add: definition_matches_def)
  have "find (definition_matches r) (?ds[i := ?d]) = Some ?d"
    by (rule find_update[OF i]) (simp add: definition_matches_def icode)
  then have found: "find (\<lambda>d. canonical_attribute (ad_code d) = ?code) (?ds[i := ?d]) = Some ?d"
    by (simp add: definition_matches_def[abs_def])
  have own: "(ra_definition a)\<lparr>ad_active := b\<rparr> = ?d" if "a \<in> set (cat_attributes c)" "attribute_key a = ?code" for a
  proof -
    have "ra_definition a = ?ds ! i"
      using known that unfolding bindings_known_def by (intro unique_found[OF uniq i]) auto
    then show ?thesis by simp
  qed
  have other: "ra_definition a \<in> set (?ds[i := ?d])" if "a \<in> set (cat_attributes c)" "attribute_key a \<noteq> ?code" for a
    using known that icode ilen unfolding bindings_known_def by (metis in_set_update)
  have new: "?d \<in> set (?ds[i := ?d])" using ilen by (simp add: set_update_memI)
  show ?thesis
    unfolding synchronize_embedded_definition_active_def Let_def bindings_known_def
    using own other new by (auto simp: found)
qed

lemma known_definitions:
  assumes known: "bindings_known c" and uniq: "unique_definitions c"
    and m: "mutate_definitions c m r' = Inr c'"
    and del: "mut_op m = OpDelete \<longrightarrow> \<not> definition_has_references c (canonical_attribute (rec_text (mut_record m) ''code''))"
  shows "bindings_known c'"
proof -
  let ?r = "mut_record m" and ?ds = "cat_definitions c"
  obtain rows where rows: "mutate_slice ?ds (mut_op m) (definition_matches ?r) (definition_from_record r')
      (\<lambda>v active. v\<lparr>ad_active := active\<rparr>) = Inr rows"
    using m by (auto simp: mutate_definitions_def bindr_Inr_iff)
  consider "mut_op m = OpInsert" | "mut_op m = OpUpdate" | "mut_op m = OpDeactivate \<or> mut_op m = OpReactivate" | "mut_op m = OpDelete"
    using rows by (auto simp: mutate_slice_def split: if_splits)
  then show ?thesis
  proof cases
    case 1
    then show ?thesis using m known by (auto simp: mutate_definitions_def mutate_slice_def bindings_known_def)
  next
    case 2
    then obtain i where "index_of ?ds (definition_matches ?r) = Some i"
      "rebuild_embedded_definitions (c\<lparr>cat_definitions := ?ds[i := definition_from_record r']\<rparr>)
        (canonical_attribute (rec_text ?r ''code'')) (definition_from_record r') = Inr c'"
      using m by (auto simp: mutate_definitions_def mutate_slice_def Let_def split: option.splits)
    then show ?thesis by (rule known_update[OF known uniq])
  next
    case 3
    then obtain i where "index_of ?ds (definition_matches ?r) = Some i"
      "c' = synchronize_embedded_definition_active
        (c\<lparr>cat_definitions := ?ds[i := (?ds ! i)\<lparr>ad_active := (mut_op m = OpReactivate)\<rparr>]\<rparr>)
        (canonical_attribute (rec_text ?r ''code''))"
      using m by (auto simp: mutate_definitions_def mutate_slice_def Let_def split: option.splits)
    then show ?thesis using known_sync[OF known uniq] by blast
  next
    case 4
    from mutate_slice_delete[OF rows[unfolded 4]] obtain v where
      v: "find (definition_matches ?r) ?ds = Some v" "mset ?ds = add_mset v (mset rows)" by blast
    have c': "c' = c\<lparr>cat_definitions := rows\<rparr>" using m 4 rows by (simp add: mutate_definitions_def)
    have code: "canonical_attribute (ad_code v) = canonical_attribute (rec_text ?r ''code'')"
      using find_Some_iff[THEN iffD1, OF v(1)] by (auto simp: definition_matches_def)
    have "ra_definition a \<in> set rows" if a: "a \<in> set (cat_attributes c)" for a
    proof -
      have "ra_definition a \<noteq> v"
        using del 4 a code by (auto simp: definition_has_references_def list_ex_iff)
      moreover have "ra_definition a \<in># add_mset v (mset rows)"
        using known a unfolding bindings_known_def by (metis set_mset_mset v(2))
      ultimately show ?thesis by simp
    qed
    then show ?thesis by (simp add: c' bindings_known_def)
  qed
qed


lemma mutate_slice_members:
  assumes "mutate_slice vs mop matches built setActive = Inr ws" "w \<in> set ws"
  shows "w \<in> set vs \<or> w = built \<and> (mop = OpInsert \<or> mop = OpUpdate) \<or> (\<exists>v\<in>set vs. \<exists>b. w = setActive v b)"
proof -
  have upd: "w \<in> insert x (set vs)" if "w \<in> set (vs[i := x])" for i x
    using that set_update_subset_insert[of vs i x] by blast
  from assms show ?thesis
    by (auto simp: mutate_slice_def split: if_splits option.splits
        dest!: upd dest: in_set_takeD in_set_dropD) (metis index_of_Some nth_mem)+
qed

lemma known_attributes:
  assumes known: "bindings_known c" and m: "mutate_attributes c m r' = Inr c'"
  shows "bindings_known c'"
proof -
  obtain rows where rows: "mutate_slice (cat_attributes c) (mut_op m) (attribute_binding_matches (mut_record m))
      (attribute_binding_from_record c r') (\<lambda>v active. v\<lparr>ra_active := active\<rparr>) = Inr rows"
    and c': "c' = c\<lparr>cat_attributes := rows\<rparr>"
    and valid: "mut_op m = OpInsert \<or> mut_op m = OpUpdate \<Longrightarrow> validate_applicability_record c r' = Inr ()"
    using m by (auto simp: mutate_attributes_def bindr_Inr_iff split: if_splits)
  have "ra_definition a \<in> set (cat_definitions c)" if "a \<in> set rows" for a
    using mutate_slice_members[OF rows that] known valid
      definition_for_has(1)[OF applicability_valid(2)]
    by (auto simp: bindings_known_def attribute_binding_from_record_def)
  then show ?thesis by (simp add: c' bindings_known_def)
qed

lemma known_untouched:
  assumes "untouched kind c c'" "kind \<noteq> KindAttributeDefinition" "kind \<noteq> KindAttributeBinding" "bindings_known c"
  shows "bindings_known c'"
  using assms by (simp add: untouched_def bindings_known_def)

section \<open>Properties\<close>

text \<open>The materialized definitions stay coherent: when every attribute binding carries a
  definition of the catalog and definition codes are unique, the same holds of the bindings
  after any successful mutation of any kind; the only exception is the physical deletion of a
  definition that is still referenced, which the mutation engine does not prevent by itself.\<close>

theorem mutation_keeps_bindings:
  assumes "bindings_known c" "unique_definitions c" "apply_mutation c m = Inr c'"
    and "rec_kind (mut_record m) = KindAttributeDefinition \<and> mut_op m = OpDelete
      \<longrightarrow> \<not> definition_has_references c (canonical_attribute (rec_text (mut_record m) ''code''))"
  shows "bindings_known c'"
proof -
  let ?kind = "rec_kind (mut_record m)"
  consider "?kind = KindAttributeDefinition" | "?kind = KindAttributeBinding"
    | "?kind \<noteq> KindAttributeDefinition" "?kind \<noteq> KindAttributeBinding" by blast
  then show ?thesis
  proof cases
    case 1
    then show ?thesis using assms known_definitions[OF assms(1,2)]
      by (simp add: apply_mutation_def Let_def)
  next
    case 2
    then show ?thesis using assms known_attributes[OF assms(1)]
      by (simp add: apply_mutation_def Let_def)
  next
    case 3
    then show ?thesis using known_untouched[OF frame_kind[OF assms(3)]] assms(1) by blast
  qed
qed

definition color_record :: "bool \<Rightarrow> catalog_record" where
  "color_record active = \<lparr>rec_kind = KindAttributeDefinition, rec_id = 0, rec_revision = 0, rec_active = active,
     rec_values = [(''code'', zero_value\<lparr>cv_text := ''COLOR ''\<rparr>), (''name'', zero_value\<lparr>cv_text := ''Tinta''\<rparr>),
       (''valueType'', zero_value\<lparr>cv_text := ''CONTROLLED_OPTION''\<rparr>)], rec_rules = None\<rparr>"

definition color_mutation :: "8 word \<Rightarrow> catalog_mutation" where
  "color_mutation mop = \<lparr>mut_op = mop, mut_record = color_record True, mut_replacement = None\<rparr>"

definition color_off :: resource_catalog where
  "color_off = (case apply_mutation demo_catalog (color_mutation OpDeactivate) of Inr c \<Rightarrow> c | Inl _ \<Rightarrow> demo_catalog)"

lemma color_off_applied: "apply_mutation demo_catalog (color_mutation OpDeactivate) = Inr color_off"
proof -
  have "ok (apply_mutation demo_catalog (color_mutation OpDeactivate))" by code_simp
  then show ?thesis by (auto simp: ok_iff color_off_def)
qed

lemma demo_bindings: "bindings_known demo_catalog" "unique_definitions demo_catalog"
  by code_simp+

theorem mutation_keeps_bindings_witness:
  "bindings_known color_off \<and> map (ad_active \<circ> ra_definition) (cat_attributes color_off) = [False, True, True]"
proof
  show "bindings_known color_off"
    by (rule mutation_keeps_bindings[OF demo_bindings color_off_applied]) (simp add: color_mutation_def)
  show "map (ad_active \<circ> ra_definition) (cat_attributes color_off) = [False, True, True]" by code_simp
qed

section \<open>The effect of a mutation\<close>

text \<open>What an operation does to the rows of a kind: an insert appends the new row; the others work on the first row the
  record addresses, which an update replaces, a deactivation or reactivation flags and a delete removes, and leave
  every other row and the order alone.\<close>

definition row_effect :: "8 word \<Rightarrow> ('a \<Rightarrow> bool) \<Rightarrow> 'a \<Rightarrow> ('a \<Rightarrow> bool \<Rightarrow> 'a) \<Rightarrow> 'a list \<Rightarrow> 'a list \<Rightarrow> bool" where
  "row_effect mop addresses new flag before after \<longleftrightarrow>
     mop = OpInsert \<and> after = before @ [new]
     \<or> (\<exists>pre old post. before = pre @ old # post \<and> addresses old \<and> (\<forall>v\<in>set pre. \<not> addresses v)
         \<and> (mop = OpUpdate \<and> after = pre @ new # post \<or> mop = OpDeactivate \<and> after = pre @ flag old False # post
           \<or> mop = OpReactivate \<and> after = pre @ flag old True # post \<or> mop = OpDelete \<and> after = pre @ post))"

lemma slice_effect:
  assumes "mutate_slice vs mop matches built setActive = Inr ws"
  shows "row_effect mop matches built setActive vs ws"
proof (cases "mop = OpInsert")
  case False
  then obtain i where i: "index_of vs matches = Some i" and
    ws: "mop = OpUpdate \<and> ws = vs[i := built] \<or> mop = OpDeactivate \<and> ws = vs[i := setActive (vs ! i) False]
      \<or> mop = OpReactivate \<and> ws = vs[i := setActive (vs ! i) True] \<or> mop = OpDelete \<and> ws = take i vs @ drop (Suc i) vs"
    using assms by (auto simp: mutate_slice_def split: option.splits if_splits)
  note at = index_of_Some[OF i]
  have "vs = take i vs @ vs ! i # drop (Suc i) vs" using at by (simp add: id_take_nth_drop)
  moreover have "\<forall>v\<in>set (take i vs). \<not> matches v" using at by (auto simp: in_set_conv_nth)
  moreover have "vs[i := v] = take i vs @ v # drop (Suc i) vs" for v using at by (simp add: upd_conv_take_nth_drop)
  ultimately show ?thesis unfolding row_effect_def using at ws by blast
qed (use assms in \<open>simp add: mutate_slice_insert row_effect_def\<close>)

text \<open>What a mutation of a characteristic does to the definitions materialized in the bindings of its code: an update
  replaces them, and may change the code only if nothing refers to it; a deactivation or reactivation flags them; an
  insert or a delete leaves them.\<close>

definition bindings_follow :: "8 word \<Rightarrow> gstring \<Rightarrow> attribute_definition \<Rightarrow> resource_catalog \<Rightarrow> resource_catalog \<Rightarrow> bool" where
  "bindings_follow mop code d c c' \<longleftrightarrow>
     (if mop = OpUpdate \<and> canonical_attribute (ad_code d) = code
      then cat_attributes c' = map (\<lambda>a. if attribute_key a = code then a\<lparr>ra_definition := d\<rparr> else a) (cat_attributes c)
      else if mop = OpUpdate then \<not> definition_has_references c code \<and> cat_attributes c' = cat_attributes c
      else if mop = OpDeactivate \<or> mop = OpReactivate
      then cat_attributes c' = map (\<lambda>a. if attribute_key a = code
        then a\<lparr>ra_definition := (ra_definition a)\<lparr>ad_active := (mop = OpReactivate)\<rparr>\<rparr> else a) (cat_attributes c)
      else cat_attributes c' = cat_attributes c)"

lemma definitions_effect:
  assumes "mutate_definitions c m r' = Inr c'"
  shows "row_effect (mut_op m) (definition_matches (mut_record m)) (definition_from_record r') (\<lambda>v a. v\<lparr>ad_active := a\<rparr>)
      (cat_definitions c) (cat_definitions c')
    \<and> bindings_follow (mut_op m) (canonical_attribute (rec_text (mut_record m) ''code'')) (definition_from_record r') c c'"
proof -
  let ?code = "canonical_attribute (rec_text (mut_record m) ''code'')"
  obtain rows where rows: "mutate_slice (cat_definitions c) (mut_op m) (definition_matches (mut_record m))
      (definition_from_record r') (\<lambda>v a. v\<lparr>ad_active := a\<rparr>) = Inr rows"
    using assms by (auto simp: mutate_definitions_def bindr_Inr_iff)
  have slice: "cat_definitions c' = rows"
    using assms rows by (auto simp: mutate_definitions_def Let_def dest!: rebuild_frame split: if_splits)
  have flag: "(case find (\<lambda>d. canonical_attribute (ad_code d) = ?code) rows of Some d \<Rightarrow> ad_active d | None \<Rightarrow> False) = (mut_op m = OpReactivate)"
    if "mut_op m = OpDeactivate \<or> mut_op m = OpReactivate"
    using definition_rows.toggle_state[OF rows that] by (auto simp: definition_matches_def[abs_def] split: option.splits)
  have "bindings_follow (mut_op m) ?code (definition_from_record r') c c'"
    using assms rows flag
    by (auto simp: mutate_definitions_def Let_def bindings_follow_def rebuild_embedded_definitions_def
        synchronize_embedded_definition_active_def definition_has_references_def cong: if_cong split: if_splits)
  then show ?thesis using slice_effect[OF rows] slice by simp
qed

definition addressed_effect :: "resource_catalog \<Rightarrow> catalog_mutation \<Rightarrow> resource_catalog \<Rightarrow> bool" where
  "addressed_effect c m c' = (let r = mut_record m; new = (case mut_replacement m of Some r' \<Rightarrow> r' | None \<Rightarrow> r) in
     (rec_kind r = KindClass \<longrightarrow> row_effect (mut_op m) (class_matches r) (class_from_record new) (\<lambda>v a. v\<lparr>rc_active := a\<rparr>) (cat_classes c) (cat_classes c'))
     \<and> (rec_kind r = KindFamily \<longrightarrow> row_effect (mut_op m) (family_matches r) (family_from_record new) (\<lambda>v a. v\<lparr>rf_active := a\<rparr>) (cat_families c) (cat_families c'))
     \<and> (rec_kind r = KindType \<longrightarrow> row_effect (mut_op m) (type_matches r) (type_from_record new) (\<lambda>v a. v\<lparr>rt_active := a\<rparr>) (cat_types c) (cat_types c'))
     \<and> (rec_kind r = KindAttributeDefinition \<longrightarrow> row_effect (mut_op m) (definition_matches r) (definition_from_record new) (\<lambda>v a. v\<lparr>ad_active := a\<rparr>) (cat_definitions c) (cat_definitions c'))
     \<and> (rec_kind r = KindOptionSet \<longrightarrow> row_effect (mut_op m) (option_set_matches r) (option_set_from_record new) (\<lambda>v a. v\<lparr>os_active := a\<rparr>) (cat_option_sets c) (cat_option_sets c'))
     \<and> (rec_kind r = KindOption \<longrightarrow> row_effect (mut_op m) (option_matches r) (option_from_record new) (\<lambda>v a. v\<lparr>ao_active := a\<rparr>) (cat_options c) (cat_options c'))
     \<and> (rec_kind r = KindOptionRelation \<longrightarrow> row_effect (mut_op m) (option_relation_matches r) (option_relation_from_record new) (\<lambda>v a. v\<lparr>rel_active := a\<rparr>) (cat_relations c) (cat_relations c'))
     \<and> (rec_kind r = KindUnit \<longrightarrow> row_effect (mut_op m) (unit_matches r) (unit_from_record new) (\<lambda>v a. v\<lparr>ud_active := a\<rparr>) (cat_units c) (cat_units c'))
     \<and> (rec_kind r = KindUnitPolicy \<longrightarrow> row_effect (mut_op m) (unit_policy_matches r) (unit_policy_from_record new) (\<lambda>v a. v\<lparr>up_active := a\<rparr>) (cat_unit_policies c) (cat_unit_policies c'))
     \<and> (rec_kind r = KindAttributeBinding \<longrightarrow> row_effect (mut_op m) (attribute_binding_matches r) (attribute_binding_from_record c new) (\<lambda>v a. v\<lparr>ra_active := a\<rparr>) (cat_attributes c) (cat_attributes c'))
     \<and> (rec_kind r = KindPresentationField \<longrightarrow> row_effect (mut_op m) (presentation_field_matches r) (presentation_field_from_record new) (\<lambda>v a. v\<lparr>pf_active := a\<rparr>) (cat_presentation c) (cat_presentation c'))
     \<and> (rec_kind r = KindAttributeDefinition \<longrightarrow>
         bindings_follow (mut_op m) (canonical_attribute (rec_text r ''code'')) (definition_from_record new) c c'))"

lemma addressed_kind:
  assumes "apply_mutation c m = Inr c'"
  shows "addressed_effect c m c'"
proof -
  note kind = apply_kind_cases[OF assms, simplified]
  show ?thesis
    using kind assms
    by (elim disjE) (auto simp: addressed_effect_def apply_mutation_def mutate_attributes_def Let_def bindr_Inr_iff
        intro: slice_effect dest!: definitions_effect)
qed

lemma missing_row_effect: "row_effect mop P new flag xs ys \<Longrightarrow> find P xs = None \<Longrightarrow> mop = OpInsert"
  by (auto simp: row_effect_def find_None_iff)

lemma no_row_inserts:
  assumes "apply_mutation c m = Inr c'" "row_state c (mut_record m) = None"
  shows "mut_op m = OpInsert"
  using apply_kind_cases[OF assms(1), simplified] addressed_kind[OF assms(1)] assms(2)
  by (elim disjE) (auto simp: addressed_effect_def row_state_def Let_def dest: missing_row_effect)

text \<open>C20: the whole effect of a successful mutation, for all eleven kinds. In the slice of its kind an insert appends
  the row built from the record (or from its replacement); an update puts that row in the place of the first row the
  record addresses, a deactivation or reactivation only sets the active flag of that row, and a delete removes that
  row and no other; every other row, the order, and every other slice of the catalogue stay. A mutation of a
  characteristic also carries its new definition or flag into the bindings that materialize it, and can rename it
  only if nothing refers to it. A record that addresses no row lets only an insert succeed.\<close>

theorem mutation_effect:
  assumes "apply_mutation c m = Inr c'"
  shows "untouched (rec_kind (mut_record m)) c c' \<and> addressed_effect c m c'
    \<and> (row_state c (mut_record m) = None \<longrightarrow> mut_op m = OpInsert)"
  using frame_kind addressed_kind no_row_inserts assms by blast

theorem mutation_effect_witness:
  "untouched KindAttributeDefinition demo_catalog color_off \<and> addressed_effect demo_catalog (color_mutation OpDeactivate) color_off"
  using mutation_effect[OF color_off_applied] by (simp add: color_mutation_def color_record_def)

text \<open>Deactivate, reactivate and delete of a record that addresses no row fail with
  \<^verbatim>\<open>ErrCatalogRecordNotFound\<close> for every registered kind, and a record of an unregistered kind
  fails with \<^verbatim>\<open>ErrCatalogKindUnknown\<close> before anything else.\<close>

theorem mutation_missing_row:
  assumes "row_state c (mut_record m) = None" "mut_op m \<in> {OpDeactivate, OpReactivate, OpDelete}"
  shows "apply_mutation c m = Inl (if registry_kind (rec_kind (mut_record m)) = None
     then Wrapf ''%w: %q'' [rec_kind (mut_record m)] [Sentinel (Dom ErrCatalogKindUnknown)]
     else Sentinel (Dom ErrCatalogRecordNotFound))"
  using missing_state_kind[OF assms] by (cases "registry_kind (rec_kind (mut_record m)) = None")
    (simp_all add: apply_mutation_def Let_def)

theorem mutation_missing_row_witness:
  "apply_mutation (demo_catalog\<lparr>cat_definitions := []\<rparr>) (color_mutation OpDelete) = Inl (Sentinel (Dom ErrCatalogRecordNotFound))"
proof -
  have "row_state (demo_catalog\<lparr>cat_definitions := []\<rparr>) (mut_record (color_mutation OpDelete)) = None"
    by (simp add: row_state_def color_mutation_def color_record_def Let_def)
  moreover have "mut_op (color_mutation OpDelete) \<in> {OpDeactivate, OpReactivate, OpDelete}"
    by (simp add: color_mutation_def)
  ultimately show ?thesis
    using mutation_missing_row[of "demo_catalog\<lparr>cat_definitions := []\<rparr>" "color_mutation OpDelete"]
    by (simp add: color_mutation_def color_record_def)
qed

lemma restore_definitions:
  assumes known: "bindings_known c" and uniq: "unique_definitions c"
    and off: "mutate_definitions c m r1 = Inr c1" "mut_op m = OpDeactivate"
    and state: "map_option ad_active (find (definition_matches (mut_record m)) (cat_definitions c)) = Some True"
  shows "mutate_definitions c1 (m\<lparr>mut_op := OpReactivate\<rparr>) r2 = Inr c"
proof -
  let ?r = "mut_record m" and ?ds = "cat_definitions c"
  let ?code = "canonical_attribute (rec_text ?r ''code'')"
  obtain rows where rows: "mutate_slice ?ds OpDeactivate (definition_matches ?r) (definition_from_record r1)
      (\<lambda>v active. v\<lparr>ad_active := active\<rparr>) = Inr rows"
    and c1: "c1 = synchronize_embedded_definition_active (c\<lparr>cat_definitions := rows\<rparr>) ?code"
    using off by (auto simp: mutate_definitions_def bindr_Inr_iff Let_def)
  have undo: "mutate_slice rows OpReactivate (definition_matches ?r) (definition_from_record r2)
      (\<lambda>v active. v\<lparr>ad_active := active\<rparr>) = Inr ?ds"
    by (rule definition_rows.restore[OF rows state])
  have again: "synchronize_embedded_definition_active (c1\<lparr>cat_definitions := ?ds\<rparr>) ?code
      = synchronize_embedded_definition_active c ?code"
    unfolding c1 synchronize_embedded_definition_active_def[of "c\<lparr>cat_definitions := rows\<rparr>"] Let_def
    by (simp add: synchronize_embedded_definition_active_def o_def cong: if_cong)
  obtain i where i: "index_of ?ds (definition_matches ?r) = Some i"
    using rows by (auto simp: mutate_slice_def split: option.splits)
  note at = index_of_Some[OF i]
  have found: "find (\<lambda>d. canonical_attribute (ad_code d) = ?code) ?ds = Some (?ds ! i)" and act: "ad_active (?ds ! i)"
    using at state by (simp_all add: definition_matches_def[abs_def])
  have "(ra_definition a)\<lparr>ad_active := True\<rparr> = ra_definition a" if "a \<in> set (cat_attributes c)" "attribute_key a = ?code" for a
  proof -
    have "ra_definition a = ?ds ! i"
      using known that unfolding bindings_known_def by (intro unique_found[OF uniq i]) auto
    with act show ?thesis by (cases "?ds ! i") simp
  qed
  then have "map (\<lambda>a. if attribute_key a = ?code then a\<lparr>ra_definition := (ra_definition a)\<lparr>ad_active := True\<rparr>\<rparr> else a)
      (cat_attributes c) = cat_attributes c"
    by (intro map_idI) auto
  then have "synchronize_embedded_definition_active c ?code = c"
    using act by (simp add: synchronize_embedded_definition_active_def found)
  with again undo show ?thesis
    by (simp add: mutate_definitions_def c1 Let_def)
qed


text \<open>Reactivation undoes deactivation: from a catalog with coherent materialized definitions
  in which the addressed row is active, deactivating it and then reactivating it gives the
  original catalog back, for all eleven kinds.\<close>

theorem deactivate_reactivate:
  assumes "bindings_known c" "unique_definitions c" "row_state c (mut_record m) = Some True"
    and "mut_op m = OpDeactivate" "apply_mutation c m = Inr c1"
  shows "apply_mutation c1 (m\<lparr>mut_op := OpReactivate\<rparr>) = Inr c"
proof -
  note kind = apply_kind_cases[OF assms(5), simplified]
  show ?thesis
  proof (cases "rec_kind (mut_record m) = KindAttributeDefinition")
    case True
    with assms restore_definitions[OF assms(1,2) _ assms(4)] show ?thesis
      by (simp add: apply_mutation_def row_state_def Let_def)
  next
    case False
    with kind assms show ?thesis
      by (elim disjE) (auto simp: apply_mutation_def row_state_def mutate_attributes_def Let_def bindr_Inr_iff
          dest!: rows_restore)
  qed
qed

theorem deactivate_reactivate_witness:
  "apply_mutation color_off ((color_mutation OpDeactivate)\<lparr>mut_op := OpReactivate\<rparr>) = Inr demo_catalog"
proof -
  have "row_state demo_catalog (mut_record (color_mutation OpDeactivate)) = Some True" by code_simp
  then show ?thesis
    by (intro deactivate_reactivate[OF demo_bindings _ _ color_off_applied]) (simp_all add: color_mutation_def)
qed

end
