(* ===== verification/GoState.thy ===== *)
theory GoState
  imports GoPrelude
begin

text \<open>
  Stateful Go code: a method that reads and writes state and may fail is a function from the
  state to a result and the state it leaves behind, also when it fails. \<open>bnd\<close> is the
  sequence with the early return of an error, \<open>attempt\<close> turns an error into a value for the
  code that inspects it.
\<close>

type_synonym ('s, 'e, 'a) action = "'s \<Rightarrow> ('e + 'a) \<times> 's"

definition ret :: "'a \<Rightarrow> ('s, 'e, 'a) action" where
  "ret x = (\<lambda>s. (Inr x, s))"

definition fail :: "'e \<Rightarrow> ('s, 'e, 'a) action" where
  "fail e = (\<lambda>s. (Inl e, s))"

definition bnd :: "('s, 'e, 'a) action \<Rightarrow> ('a \<Rightarrow> ('s, 'e, 'b) action) \<Rightarrow> ('s, 'e, 'b) action" where
  "bnd m f = (\<lambda>s. case m s of (Inl e, s') \<Rightarrow> (Inl e, s') | (Inr x, s') \<Rightarrow> f x s')"

definition lift :: "'e + 'a \<Rightarrow> ('s, 'e, 'a) action" where
  "lift r = (\<lambda>s. (r, s))"

definition require :: "'e option \<Rightarrow> ('s, 'e, unit) action" where
  "require c = (\<lambda>s. (case c of Some e \<Rightarrow> Inl e | None \<Rightarrow> Inr (), s))"

definition asks :: "('s \<Rightarrow> 'a) \<Rightarrow> ('s, 'e, 'a) action" where
  "asks f = (\<lambda>s. (Inr (f s), s))"

definition change :: "('s \<Rightarrow> 's) \<Rightarrow> ('s, 'e, unit) action" where
  "change f = (\<lambda>s. (Inr (), f s))"

definition attempt :: "('s, 'e, 'a) action \<Rightarrow> ('s, 'e, 'e + 'a) action" where
  "attempt m = (\<lambda>s. case m s of (r, s') \<Rightarrow> (Inr r, s'))"

lemmas action_defs = ret_def fail_def lift_def require_def asks_def change_def attempt_def

lemma bnd_simps [simp]:
  "bnd (ret x) f = f x" "bnd (fail e) f = fail e" "bnd (lift (Inr x)) f = f x" "bnd (lift (Inl e)) f = fail e"
  "bnd (require None) f = f ()" "bnd (require (Some e)) f = fail e"
  by (simp_all add: bnd_def action_defs)

lemma bnd_run:
  "bnd m f s = (case m s of (Inl e, s') \<Rightarrow> (Inl e, s') | (Inr x, s') \<Rightarrow> f x s')"
  by (simp add: bnd_def)

lemma action_run [simp]:
  "ret x s = (Inr x, s)" "fail e s = (Inl e, s)" "lift r s = (r, s)" "asks g s = (Inr (g s), s)"
  "change h s = (Inr (), h s)" "require None s = (Inr (), s)" "require (Some e) s = (Inl e, s)"
  by (simp_all add: action_defs)

lemma bnd_asks [simp]: "bnd (asks g) f s = f (g s) s"
  by (simp add: bnd_def asks_def)

lemma bnd_change [simp]: "bnd (change h) f s = f () (h s)"
  by (simp add: bnd_def change_def)

lemma bnd_lift: "bnd (lift r) f s = (case r of Inl e \<Rightarrow> (Inl e, s) | Inr x \<Rightarrow> f x s)"
  by (cases r) (simp_all add: bnd_def lift_def)

lemma bnd_require: "bnd (require c) f s = (case c of Some e \<Rightarrow> (Inl e, s) | None \<Rightarrow> f () s)"
  by (cases c) (simp_all add: bnd_def require_def)

lemma bnd_attempt: "bnd (attempt m) f s = (case m s of (r, s') \<Rightarrow> f r s')"
  by (simp add: bnd_def attempt_def split: prod.split)

lemma bnd_Inr: "bnd m f s = (Inr y, t) \<longleftrightarrow> (\<exists>x s'. m s = (Inr x, s') \<and> f x s' = (Inr y, t))"
  by (auto simp: bnd_def split: prod.splits sum.splits)

lemma bnd_Inl: "bnd m f s = (Inl e, t) \<longleftrightarrow> m s = (Inl e, t) \<or> (\<exists>x s'. m s = (Inr x, s') \<and> f x s' = (Inl e, t))"
  by (auto simp: bnd_def split: prod.splits sum.splits)

text \<open>A relation between the state before and after that holds of every step holds of the
  sequence.\<close>

definition keeps :: "('s \<Rightarrow> 's \<Rightarrow> bool) \<Rightarrow> ('s, 'e, 'a) action \<Rightarrow> bool" where
  "keeps R m \<longleftrightarrow> (\<forall>s. R s (snd (m s)))"

lemma keeps_bnd:
  assumes "\<And>s t u. R s t \<Longrightarrow> R t u \<Longrightarrow> R s u" "keeps R m" "\<And>x. keeps R (f x)"
  shows "keeps R (bnd m f)"
  unfolding keeps_def
proof
  fix s
  obtain r s' where m: "m s = (r, s')" by (cases "m s")
  then have "R s s'" using assms(2) unfolding keeps_def by (metis snd_conv)
  then show "R s (snd (bnd m f s))"
    using m assms(1,3) by (cases r) (auto simp: bnd_def keeps_def)
qed

lemma keeps_pure:
  assumes "\<And>s. R s s"
  shows "keeps R (ret x)" "keeps R (fail e)" "keeps R (lift r)" "keeps R (require c)" "keeps R (asks g)"
  using assms by (simp_all add: keeps_def action_defs)

end
