(* ===== verification/CatalogService.thy ===== *)
theory CatalogService
  imports CatalogMutation GoState
begin

text \<open>
  The catalog administration service (\<^verbatim>\<open>internal/app/catalogo/service.go\<close>) over its shared
  authority (\<^verbatim>\<open>internal/domain/catalog_authority.go\<close>). The service state holds the snapshot,
  the authority, the writer latch and the database \<open>'db\<close> behind the two repository ports. The
  ports (\<^verbatim>\<open>CatalogAdminRepository\<close>, \<^verbatim>\<open>CatalogAdminRepositoryV2\<close>) are Go interfaces: records of
  functions on \<open>'db\<close>, parameters of every method. Each method runs under the service mutex, so a
  call is one action; contexts and diagnostics are not modelled.
\<close>

section \<open>The authority\<close>

record catalog_authority =
  ca_catalog :: resource_catalog
  ca_version :: "64 word"

definition NewCatalogAuthority :: "resource_catalog \<Rightarrow> catalog_authority" where
  "NewCatalogAuthority catalog = \<lparr>ca_catalog = catalog, ca_version = 1\<rparr>"

definition authority_current :: "catalog_authority \<Rightarrow> resource_catalog \<times> 64 word" where
  "authority_current a = (ca_catalog a, ca_version a)"

definition authority_publish :: "resource_catalog \<Rightarrow> catalog_authority \<Rightarrow> catalog_authority" where
  "authority_publish catalog a = \<lparr>ca_catalog = catalog, ca_version = ca_version a + 1\<rparr>"

section \<open>Ports and state\<close>

record catalog_write_result =
  wr_record :: "catalog_record option"
  wr_catalog :: resource_catalog

record catalog_filter =
  cf_text :: gstring
  cf_parent :: "(gstring, catalog_value) gmap"
  cf_status :: "8 word"
  cf_limit :: int
  cf_offset :: int

record 'db catalog_repo =
  cr_list :: "gstring \<Rightarrow> catalog_filter \<Rightarrow> 'db \<Rightarrow> go_error + catalog_record list"
  cr_get :: "gstring \<Rightarrow> int \<Rightarrow> 'db \<Rightarrow> go_error + catalog_record"
  cr_dependents :: "gstring \<Rightarrow> int \<Rightarrow> 'db \<Rightarrow> go_error + catalog_dependency list"
  cr_referenced :: "gstring \<Rightarrow> int \<Rightarrow> 'db \<Rightarrow> go_error + bool"
  cr_insert :: "catalog_record \<Rightarrow> 'db \<Rightarrow> (go_error + int) \<times> 'db"
  cr_update :: "catalog_record \<Rightarrow> 'db \<Rightarrow> (go_error + unit) \<times> 'db"
  cr_set_active :: "gstring \<Rightarrow> int \<Rightarrow> bool \<Rightarrow> 'db \<Rightarrow> (go_error + unit) \<times> 'db"
  cr_delete :: "gstring \<Rightarrow> int \<Rightarrow> 'db \<Rightarrow> (go_error + unit) \<times> 'db"

record 'db catalog_repo_v2 =
  v2_insert :: "catalog_record \<Rightarrow> 'db \<Rightarrow> (go_error + catalog_write_result) \<times> 'db"
  v2_update :: "catalog_record \<Rightarrow> revision \<Rightarrow> 'db \<Rightarrow> (go_error + catalog_write_result) \<times> 'db"
  v2_set_active :: "gstring \<Rightarrow> int \<Rightarrow> bool \<Rightarrow> revision \<Rightarrow> 'db \<Rightarrow> (go_error + catalog_write_result) \<times> 'db"
  v2_delete :: "gstring \<Rightarrow> int \<Rightarrow> revision \<Rightarrow> 'db \<Rightarrow> (go_error + catalog_write_result) \<times> 'db"

record 'db catalogo =
  cs_snapshot :: resource_catalog
  cs_authority :: catalog_authority
  cs_writer_unavailable :: bool
  cs_repo_v2 :: "'db catalog_repo_v2 option"
  cs_db :: 'db

type_synonym ('db, 'a) catalogo_action = "('db catalogo, go_error, 'a) action"

definition db_read :: "('db \<Rightarrow> go_error + 'a) \<Rightarrow> ('db, 'a) catalogo_action" where
  "db_read q = (\<lambda>s. (q (cs_db s), s))"

definition db_write :: "('db \<Rightarrow> (go_error + 'a) \<times> 'db) \<Rightarrow> ('db, 'a) catalogo_action" where
  "db_write q = (\<lambda>s. case q (cs_db s) of (r, db) \<Rightarrow> (r, s\<lparr>cs_db := db\<rparr>))"

definition NewServiceWithCatalogAuthority :: "catalog_authority \<Rightarrow> 'db \<Rightarrow> 'db catalogo" where
  "NewServiceWithCatalogAuthority authority db = \<lparr>cs_snapshot = fst (authority_current authority),
     cs_authority = authority, cs_writer_unavailable = False, cs_repo_v2 = None, cs_db = db\<rparr>"

definition NewCatalogService :: "resource_catalog \<Rightarrow> 'db \<Rightarrow> 'db catalogo" where
  "NewCatalogService snapshot db = NewServiceWithCatalogAuthority (NewCatalogAuthority snapshot) db"

definition WithCatalogAdminRepositoryV2 :: "'db catalog_repo_v2 \<Rightarrow> 'db catalogo \<Rightarrow> 'db catalogo" where
  "WithCatalogAdminRepositoryV2 repoV2 s = s\<lparr>cs_repo_v2 := Some repoV2\<rparr>"

definition ResetCatalogWriterAvailability :: "'db catalogo \<Rightarrow> 'db catalogo" where
  "ResetCatalogWriterAvailability s = s\<lparr>cs_writer_unavailable := False\<rparr>"

definition invalid_argument :: go_error where
  "invalid_argument = Sentinel (App CoreErrInvalidArgument)"

section \<open>Shared steps\<close>

definition canonicalize_codes :: "catalog_record \<Rightarrow> catalog_record" where
  "canonicalize_codes r = (case registry_kind (rec_kind r) of
     Some def \<Rightarrow> CanonicalizeCatalogRecordCodes def r | None \<Rightarrow> r)"

definition publish :: "resource_catalog \<Rightarrow> ('db, unit) catalogo_action" where
  "publish nxt = change (\<lambda>s. s\<lparr>cs_snapshot := nxt, cs_authority := authority_publish nxt (cs_authority s)\<rparr>)"

text \<open>Apply the mutation to the snapshot and validate the candidate.\<close>

definition candidate :: "catalog_mutation \<Rightarrow> ('db, resource_catalog) catalogo_action" where
  "candidate m =
     bnd (asks cs_snapshot) (\<lambda>snapshot.
     bnd (lift (apply_mutation snapshot m)) (\<lambda>nxt.
     bnd (require (wrap_invalid_catalog (validate_catalog nxt))) (\<lambda>_. ret nxt)))"

text \<open>The loop over the immutable fields of an update: the authoritative code guard, and the
  record that still carries the persisted codes.\<close>

fun freeze_codes ::
  "'db catalog_repo \<Rightarrow> gstring \<Rightarrow> catalog_record \<Rightarrow> catalog_record \<Rightarrow> catalog_record \<Rightarrow> field_descriptor list
     \<Rightarrow> ('db, catalog_record) catalogo_action" where
  "freeze_codes repo kind current r mutationRecord [] = ret mutationRecord"
| "freeze_codes repo kind current r mutationRecord (f # fs) =
     (if fd_immutable f \<noteq> ImmutableOnceReferenced then freeze_codes repo kind current r mutationRecord fs
      else (case map_of (rec_values current) (fd_name f) of
              None \<Rightarrow> freeze_codes repo kind current r mutationRecord fs
            | Some oldValue \<Rightarrow>
                bnd (case map_of (rec_values r) (fd_name f) of
                       None \<Rightarrow> ret ()
                     | Some newValue \<Rightarrow>
                         if cv_text oldValue \<noteq> cv_text newValue then
                           bnd (db_read (cr_referenced repo kind (rec_id r))) (\<lambda>referenced.
                             if referenced then fail (Sentinel (Dom ErrCodeImmutable)) else ret ())
                         else ret ()) (\<lambda>_.
                freeze_codes repo kind current r
                  (mutationRecord\<lparr>rec_values := gput (fd_name f) oldValue (rec_values mutationRecord)\<rparr>) fs)))"

definition update_candidate ::
  "'db catalog_repo \<Rightarrow> gstring \<Rightarrow> catalog_record \<Rightarrow> ('db, resource_catalog) catalogo_action" where
  "update_candidate repo kind r =
     bnd (db_read (cr_get repo kind (rec_id r))) (\<lambda>current.
     (case registry_kind kind of
        None \<Rightarrow> fail (Sentinel (Dom ErrCatalogKindUnknown))
      | Some def \<Rightarrow>
          bnd (freeze_codes repo kind current r r (ck_fields def)) (\<lambda>mutationRecord.
          candidate \<lparr>mut_op = OpUpdate, mut_record = mutationRecord, mut_replacement = Some r\<rparr>)))"

definition delete_candidate ::
  "'db catalog_repo \<Rightarrow> gstring \<Rightarrow> int \<Rightarrow> ('db, resource_catalog) catalogo_action" where
  "delete_candidate repo kind rid =
     bnd (db_read (cr_get repo kind rid)) (\<lambda>current.
     if rec_active current then fail (Sentinel (Dom ErrInvalidLifecycle)) else
     bnd (db_read (cr_dependents repo kind rid)) (\<lambda>dependencies.
     if list_ex (\<lambda>d. dep_count d \<noteq> 0) dependencies then fail (Sentinel (Dom ErrCatalogInUse)) else
     bnd (db_read (cr_referenced repo kind rid)) (\<lambda>referenced.
     if referenced then fail (Sentinel (Dom ErrCatalogInUse)) else
     candidate \<lparr>mut_op = OpDelete, mut_record = current, mut_replacement = None\<rparr>)))"

section \<open>Legacy writes\<close>

definition prepare_v2_write :: "('db, 'db catalog_repo_v2) catalogo_action" where
  "prepare_v2_write = (\<lambda>s.
     if cs_writer_unavailable s then (Inl (Sentinel (App ErrCatalogWriterUnavailable)), s)
     else (case cs_repo_v2 s of
             None \<Rightarrow> (Inl (Sentinel (App ErrCatalogAdminRepositoryV2Unavailable)), s)
           | Some repoV2 \<Rightarrow> (Inr repoV2, s)))"

definition classify_v2_write_error :: "go_error \<Rightarrow> ('db, 'a) catalogo_action" where
  "classify_v2_write_error e = (\<lambda>s.
     if error_is e (App ErrCatalogWriteIndeterminate)
     then (Inl (Sentinel (App ErrCatalogWriterUnavailable)), s\<lparr>cs_writer_unavailable := True\<rparr>)
     else (Inl e, s))"

text \<open>A write through the V2 port: publish the committed result, or classify the error.\<close>

definition v2_write ::
  "('db \<Rightarrow> (go_error + catalog_write_result) \<times> 'db) \<Rightarrow> ('db, catalog_write_result) catalogo_action" where
  "v2_write q =
     bnd (attempt (db_write q)) (\<lambda>r. case r of
       Inl e \<Rightarrow> classify_v2_write_error e
     | Inr result \<Rightarrow> bnd (publish (wr_catalog result)) (\<lambda>_. ret result))"

definition written_record :: "catalog_record \<Rightarrow> catalog_write_result \<Rightarrow> catalog_record" where
  "written_record r result = (case wr_record result of Some w \<Rightarrow> w | None \<Rightarrow> r)"

definition insert_locked :: "'db catalog_repo_v2 \<Rightarrow> catalog_record \<Rightarrow> ('db, catalog_record) catalogo_action" where
  "insert_locked repoV2 r =
     (let r = canonicalize_codes r in
      bnd (candidate \<lparr>mut_op = OpInsert, mut_record = r, mut_replacement = None\<rparr>) (\<lambda>_.
      bnd (v2_write (v2_insert repoV2 r)) (\<lambda>result. ret (written_record r result))))"

definition catalog_get :: "'db catalog_repo \<Rightarrow> gstring \<Rightarrow> int \<Rightarrow> ('db, catalog_record) catalogo_action" where
  "catalog_get repo kind rid = (if rid = 0 then fail invalid_argument else db_read (cr_get repo kind rid))"

definition catalog_list :: "'db catalog_repo \<Rightarrow> gstring \<Rightarrow> catalog_filter \<Rightarrow> ('db, catalog_record list) catalogo_action" where
  "catalog_list repo kind flt = db_read (cr_list repo kind flt)"

definition catalog_dependencies :: "'db catalog_repo \<Rightarrow> gstring \<Rightarrow> int \<Rightarrow> ('db, catalog_dependency list) catalogo_action" where
  "catalog_dependencies repo kind rid = db_read (cr_dependents repo kind rid)"

definition catalog_referenced_by_resources :: "'db catalog_repo \<Rightarrow> gstring \<Rightarrow> int \<Rightarrow> ('db, bool) catalogo_action" where
  "catalog_referenced_by_resources repo kind rid = db_read (cr_referenced repo kind rid)"

definition catalog_create :: "'db catalog_repo \<Rightarrow> gstring \<Rightarrow> catalog_record \<Rightarrow> ('db, catalog_record) catalogo_action" where
  "catalog_create repo kind r =
     (let r = r\<lparr>rec_kind := kind\<rparr> in
      bnd (asks cs_repo_v2) (\<lambda>repoV2. case repoV2 of
        Some _ \<Rightarrow> bnd prepare_v2_write (\<lambda>v2. insert_locked v2 r)
      | None \<Rightarrow>
          let r = canonicalize_codes r in
          bnd (candidate \<lparr>mut_op = OpInsert, mut_record = r, mut_replacement = None\<rparr>) (\<lambda>nxt.
          bnd (db_write (cr_insert repo r)) (\<lambda>rid.
          bnd (publish nxt) (\<lambda>_. ret (r\<lparr>rec_id := rid\<rparr>))))))"

definition catalog_update :: "'db catalog_repo \<Rightarrow> gstring \<Rightarrow> catalog_record \<Rightarrow> ('db, catalog_record) catalogo_action" where
  "catalog_update repo kind r =
     (if rec_id r = 0 then fail invalid_argument
      else let r = canonicalize_codes (r\<lparr>rec_kind := kind\<rparr>) in
        bnd (update_candidate repo kind r) (\<lambda>nxt.
        bnd (db_write (cr_update repo r)) (\<lambda>_.
        bnd (publish nxt) (\<lambda>_. ret r))))"

definition catalog_set_active :: "'db catalog_repo \<Rightarrow> gstring \<Rightarrow> int \<Rightarrow> bool \<Rightarrow> ('db, unit) catalogo_action" where
  "catalog_set_active repo kind rid active =
     (if rid = 0 then fail invalid_argument
      else
        bnd (db_read (cr_get repo kind rid)) (\<lambda>current.
        bnd (candidate \<lparr>mut_op = (if active then OpReactivate else OpDeactivate), mut_record = current,
               mut_replacement = None\<rparr>) (\<lambda>nxt.
        bnd (db_write (cr_set_active repo kind rid active)) (\<lambda>_. publish nxt))))"

definition catalog_deactivate :: "'db catalog_repo \<Rightarrow> gstring \<Rightarrow> int \<Rightarrow> ('db, unit) catalogo_action" where
  "catalog_deactivate repo kind rid = catalog_set_active repo kind rid False"

definition catalog_reactivate :: "'db catalog_repo \<Rightarrow> gstring \<Rightarrow> int \<Rightarrow> ('db, unit) catalogo_action" where
  "catalog_reactivate repo kind rid = catalog_set_active repo kind rid True"

definition catalog_delete :: "'db catalog_repo \<Rightarrow> gstring \<Rightarrow> int \<Rightarrow> ('db, unit) catalogo_action" where
  "catalog_delete repo kind rid =
     (if rid = 0 then fail invalid_argument
      else
        bnd (delete_candidate repo kind rid) (\<lambda>nxt.
        bnd (db_write (cr_delete repo kind rid)) (\<lambda>_. publish nxt)))"

section \<open>Revision-aware writes\<close>

definition CreateV2 :: "gstring \<Rightarrow> catalog_record \<Rightarrow> ('db, catalog_record) catalogo_action" where
  "CreateV2 kind r = bnd prepare_v2_write (\<lambda>v2. insert_locked v2 (r\<lparr>rec_kind := kind\<rparr>))"

definition UpdateRevision ::
  "'db catalog_repo \<Rightarrow> gstring \<Rightarrow> catalog_record \<Rightarrow> revision \<Rightarrow> ('db, catalog_record) catalogo_action" where
  "UpdateRevision repo kind r expectedRevision =
     (if rec_id r = 0 \<or> expectedRevision = 0 then fail invalid_argument
      else let r = canonicalize_codes (r\<lparr>rec_kind := kind\<rparr>) in
        bnd prepare_v2_write (\<lambda>v2.
        bnd (update_candidate repo kind r) (\<lambda>_.
        bnd (v2_write (v2_update v2 r expectedRevision)) (\<lambda>result. ret (written_record r result)))))"

definition set_active_revision ::
  "'db catalog_repo \<Rightarrow> gstring \<Rightarrow> int \<Rightarrow> bool \<Rightarrow> revision \<Rightarrow> ('db, unit) catalogo_action" where
  "set_active_revision repo kind rid active expectedRevision =
     (if rid = 0 \<or> expectedRevision = 0 then fail invalid_argument
      else
        bnd prepare_v2_write (\<lambda>v2.
        bnd (db_read (cr_get repo kind rid)) (\<lambda>current.
        if rec_active current = active then ret ()
        else
          bnd (candidate \<lparr>mut_op = (if active then OpReactivate else OpDeactivate), mut_record = current,
                 mut_replacement = None\<rparr>) (\<lambda>_.
          bnd (v2_write (v2_set_active v2 kind rid active expectedRevision)) (\<lambda>_. ret ())))))"

definition DeactivateRevision :: "'db catalog_repo \<Rightarrow> gstring \<Rightarrow> int \<Rightarrow> revision \<Rightarrow> ('db, unit) catalogo_action" where
  "DeactivateRevision repo kind rid expectedRevision = set_active_revision repo kind rid False expectedRevision"

definition ReactivateRevision :: "'db catalog_repo \<Rightarrow> gstring \<Rightarrow> int \<Rightarrow> revision \<Rightarrow> ('db, unit) catalogo_action" where
  "ReactivateRevision repo kind rid expectedRevision = set_active_revision repo kind rid True expectedRevision"

definition HardDeleteRevision :: "'db catalog_repo \<Rightarrow> gstring \<Rightarrow> int \<Rightarrow> revision \<Rightarrow> ('db, unit) catalogo_action" where
  "HardDeleteRevision repo kind rid expectedRevision =
     (if rid = 0 \<or> expectedRevision = 0 then fail invalid_argument
      else
        bnd prepare_v2_write (\<lambda>v2.
        bnd (delete_candidate repo kind rid) (\<lambda>_.
        bnd (v2_write (v2_delete v2 kind rid expectedRevision)) (\<lambda>_. ret ()))))"


section \<open>Calls\<close>

text \<open>The write methods as data, so that properties speak of every call at once.\<close>

datatype (plugins only: code size) catalogo_call =
    Create gstring catalog_record
  | Update gstring catalog_record
  | Deactivate gstring int
  | Reactivate gstring int
  | Delete gstring int
  | CallCreateV2 gstring catalog_record
  | CallUpdateRevision gstring catalog_record revision
  | CallDeactivateRevision gstring int revision
  | CallReactivateRevision gstring int revision
  | CallHardDeleteRevision gstring int revision

definition discard :: "('s, 'e, 'a) action \<Rightarrow> ('s, 'e, unit) action" where
  "discard m = bnd m (\<lambda>_. ret ())"

fun run_call :: "'db catalog_repo \<Rightarrow> catalogo_call \<Rightarrow> ('db, unit) catalogo_action" where
  "run_call repo (Create kind r) = discard (catalog_create repo kind r)"
| "run_call repo (Update kind r) = discard (catalog_update repo kind r)"
| "run_call repo (Deactivate kind rid) = catalog_deactivate repo kind rid"
| "run_call repo (Reactivate kind rid) = catalog_reactivate repo kind rid"
| "run_call repo (Delete kind rid) = catalog_delete repo kind rid"
| "run_call repo (CallCreateV2 kind r) = discard (CreateV2 kind r)"
| "run_call repo (CallUpdateRevision kind r er) = discard (UpdateRevision repo kind r er)"
| "run_call repo (CallDeactivateRevision kind rid er) = DeactivateRevision repo kind rid er"
| "run_call repo (CallReactivateRevision kind rid er) = ReactivateRevision repo kind rid er"
| "run_call repo (CallHardDeleteRevision kind rid er) = HardDeleteRevision repo kind rid er"

section \<open>Lemmas\<close>

text \<open>Quiet actions leave the whole state alone, also when they fail.\<close>

definition quiet :: "('s, 'e, 'a) action \<Rightarrow> bool" where
  "quiet m \<longleftrightarrow> (\<forall>s. snd (m s) = s)"

lemma quietD: "quiet m \<Longrightarrow> m s = (r, t) \<Longrightarrow> t = s"
  unfolding quiet_def by (metis snd_conv)

lemma quiet_bnd: "quiet m \<Longrightarrow> (\<And>x. quiet (f x)) \<Longrightarrow> quiet (bnd m f)"
  unfolding quiet_def by (auto simp: bnd_def split: prod.splits sum.splits) (metis snd_conv)+

lemma quiet_pure [simp]:
  "quiet (ret x)" "quiet (fail e)" "quiet (lift r)" "quiet (require c)" "quiet (asks g)" "quiet (db_read q)"
  "quiet (Pair r)"
  by (simp_all add: quiet_def action_defs db_read_def)

lemma quiet_candidate [simp]: "quiet (candidate m)"
  by (simp add: candidate_def quiet_bnd)

lemma quiet_prepare [simp]: "quiet prepare_v2_write"
  by (simp add: quiet_def prepare_v2_write_def split: option.splits)

lemma quiet_freeze [simp]: "quiet (freeze_codes repo kind current r mr fs)"
  by (induction repo kind current r mr fs rule: freeze_codes.induct)
    (auto intro!: quiet_bnd split: option.splits)

lemma quiet_update_candidate [simp]: "quiet (update_candidate repo kind r)"
  by (auto simp: update_candidate_def intro!: quiet_bnd split: option.splits)

lemma quiet_delete_candidate [simp]: "quiet (delete_candidate repo kind rid)"
  by (auto simp: delete_candidate_def intro!: quiet_bnd)

lemma quiet_run: "quiet m \<Longrightarrow> bnd m f s = (case fst (m s) of Inl e \<Rightarrow> (Inl e, s) | Inr x \<Rightarrow> f x s)"
  unfolding quiet_def bnd_def by (cases "m s") (auto dest!: spec[of _ s] split: sum.split)

lemma wrap_invalid_None [simp]: "wrap_invalid_catalog x = None \<longleftrightarrow> x = None"
  by (cases x) (simp_all add: wrap_invalid_catalog_def)

lemma candidate_valid:
  assumes "fst (candidate m s) = Inr nxt"
  shows "catalog_valid nxt \<and> apply_mutation (cs_snapshot s) m = Inr nxt"
  using assms by (auto simp: candidate_def bnd_lift bnd_require validate_catalog_iff split: sum.splits option.splits)

lemma update_candidate_valid:
  assumes "fst (update_candidate repo kind r s) = Inr nxt"
  shows "catalog_valid nxt"
  using assms
  by (auto simp: update_candidate_def quiet_run split: sum.splits option.splits dest!: candidate_valid)

lemma delete_candidate_valid:
  assumes "fst (delete_candidate repo kind rid s) = Inr nxt"
  shows "catalog_valid nxt"
  using assms
  by (auto simp: delete_candidate_def quiet_run split: sum.splits if_splits dest!: candidate_valid)

subsection \<open>Publication\<close>

definition unpublished :: "'db catalogo \<Rightarrow> 'db catalogo \<Rightarrow> bool" where
  "unpublished s t \<longleftrightarrow> cs_snapshot t = cs_snapshot s \<and> cs_authority t = cs_authority s \<and> cs_repo_v2 t = cs_repo_v2 s"

definition published :: "resource_catalog \<Rightarrow> 'db catalogo \<Rightarrow> 'db catalogo \<Rightarrow> bool" where
  "published c s t \<longleftrightarrow> cs_snapshot t = c \<and> cs_authority t = authority_publish c (cs_authority s)
     \<and> cs_repo_v2 t = cs_repo_v2 s \<and> cs_writer_unavailable t = cs_writer_unavailable s"

text \<open>The catalog a write may publish: a validated candidate, or what the V2 port committed.\<close>

definition committed_by :: "'db catalog_repo_v2 \<Rightarrow> 'db \<Rightarrow> resource_catalog \<Rightarrow> bool" where
  "committed_by v2 db c \<longleftrightarrow>
     (\<exists>result db'. c = wr_catalog result \<and> ((\<exists>r. v2_insert v2 r db = (Inr result, db'))
       \<or> (\<exists>r er. v2_update v2 r er db = (Inr result, db'))
       \<or> (\<exists>kind rid active er. v2_set_active v2 kind rid active er db = (Inr result, db'))
       \<or> (\<exists>kind rid er. v2_delete v2 kind rid er db = (Inr result, db'))))"

definition publishable :: "'db catalogo \<Rightarrow> resource_catalog \<Rightarrow> bool" where
  "publishable s c \<longleftrightarrow> catalog_valid c \<or> (\<exists>v2. cs_repo_v2 s = Some v2 \<and> committed_by v2 (cs_db s) c)"

definition writes :: "('db, 'a) catalogo_action \<Rightarrow> bool" where
  "writes m \<longleftrightarrow> (\<forall>s r t. m s = (r, t) \<longrightarrow> (case r of
       Inl e \<Rightarrow> unpublished s t \<and> (cs_writer_unavailable t = cs_writer_unavailable s
                 \<or> cs_writer_unavailable t \<and> e = Sentinel (App ErrCatalogWriterUnavailable))
     | Inr x \<Rightarrow> t = s \<or> (\<exists>c. publishable s c \<and> published c s t)))"

lemma writes_quiet: "quiet m \<Longrightarrow> writes m"
proof (unfold writes_def unpublished_def, intro allI impI)
  fix s r t
  assume "quiet m" "m s = (r, t)"
  then have "t = s" by (rule quietD)
  then show "case r of Inl e \<Rightarrow> (cs_snapshot t = cs_snapshot s \<and> cs_authority t = cs_authority s \<and> cs_repo_v2 t = cs_repo_v2 s)
      \<and> (cs_writer_unavailable t = cs_writer_unavailable s
        \<or> cs_writer_unavailable t \<and> e = Sentinel (App ErrCatalogWriterUnavailable))
    | Inr x \<Rightarrow> t = s \<or> (\<exists>c. publishable s c \<and> published c s t)"
    by (simp split: sum.split)
qed

lemma writes_bnd_quiet:
  assumes "quiet m" "\<And>x s t. m s = (Inr x, t) \<Longrightarrow> \<exists>g. writes g \<and> f x s = g s"
  shows "writes (bnd m f)"
  unfolding writes_def
proof (intro allI impI)
  fix s r t
  assume run: "bnd m f s = (r, t)"
  obtain r' where m: "m s = (r', s)" using assms(1) quietD by (metis surj_pair)
  show "case r of Inl e \<Rightarrow> unpublished s t \<and> (cs_writer_unavailable t = cs_writer_unavailable s
                 \<or> cs_writer_unavailable t \<and> e = Sentinel (App ErrCatalogWriterUnavailable))
     | Inr x \<Rightarrow> t = s \<or> (\<exists>c. publishable s c \<and> published c s t)"
  proof (cases r')
    case (Inl e)
    then show ?thesis using run m by (auto simp: bnd_def unpublished_def)
  next
    case (Inr x)
    with m assms(2) obtain g where "writes g" "f x s = g s" by blast
    moreover have "g s = (r, t)" using run m Inr \<open>f x s = g s\<close> by (simp add: bnd_def)
    ultimately show ?thesis unfolding writes_def by blast
  qed
qed

lemma writes_legacy:
  assumes "catalog_valid nxt"
  shows "writes (bnd (db_write q) (\<lambda>x. bnd (publish nxt) (\<lambda>_. ret (h x))))" "writes (bnd (db_write q) (\<lambda>_. publish nxt))"
  using assms
  by (auto simp: writes_def db_write_def bnd_def publish_def change_def ret_def unpublished_def published_def
      publishable_def split: prod.splits sum.splits)

lemma writes_v2:
  assumes "\<And>result db'. q (cs_db s) = (Inr result, db') \<Longrightarrow> publishable s (wr_catalog result)"
  shows "\<exists>g. writes g \<and> bnd (v2_write q) (\<lambda>result. ret (h result)) s = g s"
proof -
  let ?m = "bnd (v2_write q) (\<lambda>result. ret (h result))"
  let ?g = "\<lambda>s'. if s' = s then ?m s' else fail (ErrNew []) s'"
  have "writes ?g"
    unfolding writes_def
    using assms
    by (auto simp: v2_write_def db_write_def attempt_def bnd_def publish_def change_def ret_def fail_def
        classify_v2_write_error_def unpublished_def published_def split: prod.splits sum.splits if_splits)
  then show ?thesis by (intro exI[of _ ?g]) simp
qed


lemma writes_discard: "writes m \<Longrightarrow> writes (discard m)"
  unfolding writes_def discard_def
  by (auto simp: bnd_def ret_def split: prod.splits sum.splits)

lemma prepare_Inr: "prepare_v2_write s = (Inr v2, t) \<Longrightarrow> t = s \<and> cs_repo_v2 s = Some v2 \<and> \<not> cs_writer_unavailable s"
  by (auto simp: prepare_v2_write_def split: if_splits option.splits)

lemma committed_publishable:
  assumes "cs_repo_v2 s = Some v2"
  shows "v2_insert v2 r (cs_db s) = (Inr result, db') \<Longrightarrow> publishable s (wr_catalog result)"
    "v2_update v2 r er (cs_db s) = (Inr result, db') \<Longrightarrow> publishable s (wr_catalog result)"
    "v2_set_active v2 kind rid active er (cs_db s) = (Inr result, db') \<Longrightarrow> publishable s (wr_catalog result)"
    "v2_delete v2 kind rid er (cs_db s) = (Inr result, db') \<Longrightarrow> publishable s (wr_catalog result)"
  unfolding publishable_def committed_by_def using assms by blast+

text \<open>Writing through the port in a state that has it configured.\<close>

lemma writes_at_bnd_quiet:
  assumes "quiet m" "\<And>x. fst (m s) = Inr x \<Longrightarrow> \<exists>g. writes g \<and> f x s = g s"
  shows "\<exists>g. writes g \<and> bnd m f s = g s"
proof -
  obtain r where m: "m s = (r, s)" using assms(1) quietD by (metis surj_pair)
  show ?thesis
  proof (cases r)
    case (Inl e)
    then have "bnd m f s = fail e s" using m by (simp add: bnd_def)
    moreover have "writes (fail e)" by (simp add: writes_quiet)
    ultimately show ?thesis by blast
  next
    case (Inr x)
    then show ?thesis using assms(2)[of x] m by (simp add: bnd_def)
  qed
qed

lemma insert_locked_at:
  assumes "cs_repo_v2 s = Some v2"
  shows "\<exists>g. writes g \<and> insert_locked v2 r s = g s"
  unfolding insert_locked_def Let_def
  by (rule writes_at_bnd_quiet[OF quiet_candidate]) (rule writes_v2, rule committed_publishable(1)[OF assms])

lemma writes_prepared:
  assumes "\<And>v2 s. cs_repo_v2 s = Some v2 \<Longrightarrow> \<exists>g. writes g \<and> f v2 s = g s"
  shows "writes (bnd prepare_v2_write f)"
  by (rule writes_bnd_quiet[OF quiet_prepare]) (use assms prepare_Inr in blast)

lemma writes_bnd:
  assumes "quiet m" "\<And>x s t. m s = (Inr x, t) \<Longrightarrow> writes (f x)"
  shows "writes (bnd m f)"
  by (rule writes_bnd_quiet[OF assms(1)]) (use assms(2) in blast)

lemma writes_create: "writes (catalog_create repo kind r)"
proof -
  have legacy: "writes (bnd (candidate m) (\<lambda>nxt. bnd (db_write q) (\<lambda>rid. bnd (publish nxt) (\<lambda>_. ret (h rid)))))"
    for m and q :: "'a \<Rightarrow> (go_error + int) \<times> 'a" and h :: "int \<Rightarrow> catalog_record"
    by (rule writes_bnd[OF quiet_candidate]) (metis candidate_valid fst_conv writes_legacy(1))
  have v2: "writes (bnd prepare_v2_write (\<lambda>v2. insert_locked v2 x))" for x :: catalog_record
    by (rule writes_prepared) (rule insert_locked_at)
  show ?thesis
    unfolding catalog_create_def Let_def
    by (rule writes_bnd[OF quiet_pure(5)]) (auto simp: legacy v2 split: option.split)
qed

lemma valid_results:
  "candidate m s = (Inr nxt, t) \<Longrightarrow> catalog_valid nxt"
  "update_candidate repo kind r s = (Inr nxt, t) \<Longrightarrow> catalog_valid nxt"
  "delete_candidate repo kind rid s = (Inr nxt, t) \<Longrightarrow> catalog_valid nxt"
  using candidate_valid[of m s nxt] update_candidate_valid[of repo kind r s nxt] delete_candidate_valid[of repo kind rid s nxt]
  by auto

lemma writes_fail [simp]: "writes (fail e)"
  by (simp add: writes_quiet)

lemma writes_update: "writes (catalog_update repo kind r)"
  unfolding catalog_update_def Let_def
  by (auto intro!: writes_bnd[OF quiet_update_candidate] writes_legacy dest: valid_results)

lemma writes_set_active: "writes (catalog_set_active repo kind rid active)"
  unfolding catalog_set_active_def
  by (auto intro!: writes_bnd[OF quiet_pure(6)] writes_bnd[OF quiet_candidate] writes_legacy(2) dest: valid_results)

lemma writes_delete: "writes (catalog_delete repo kind rid)"
  unfolding catalog_delete_def
  by (auto intro!: writes_bnd[OF quiet_delete_candidate] writes_legacy(2) dest: valid_results)

lemma writes_create_v2: "writes (CreateV2 kind r)"
  unfolding CreateV2_def by (rule writes_prepared) (rule insert_locked_at)

lemma writes_update_revision: "writes (UpdateRevision repo kind r er)"
  unfolding UpdateRevision_def Let_def
  by (auto intro!: writes_prepared writes_at_bnd_quiet[OF quiet_update_candidate] writes_v2
      intro: committed_publishable(2))

lemma writes_set_active_revision: "writes (set_active_revision repo kind rid active er)"
proof -
  have step: "\<exists>g. writes g \<and> (if rec_active current = active then ret ()
        else bnd (candidate m) (\<lambda>_. bnd (v2_write (v2_set_active v2 kind rid active er)) (\<lambda>_. ret ()))) s = g s"
    if "cs_repo_v2 s = Some v2" for v2 s current m
  proof (cases "rec_active current = active")
    case True
    then show ?thesis using writes_quiet[OF quiet_pure(1)[of "()"]] by auto
  next
    case False
    have "\<exists>g. writes g \<and> bnd (candidate m) (\<lambda>_. bnd (v2_write (v2_set_active v2 kind rid active er)) (\<lambda>_. ret ())) s = g s"
      by (rule writes_at_bnd_quiet[OF quiet_candidate]) (rule writes_v2, rule committed_publishable(3)[OF that])
    with False show ?thesis by simp
  qed
  show ?thesis
    unfolding set_active_revision_def
    by (cases "rid = 0 \<or> er = 0") (simp_all only: if_True if_False writes_fail,
      rule writes_prepared, rule writes_at_bnd_quiet[OF quiet_pure(6)], rule step)
qed

lemma writes_hard_delete: "writes (HardDeleteRevision repo kind rid er)"
  unfolding HardDeleteRevision_def
  by (auto intro!: writes_prepared writes_at_bnd_quiet[OF quiet_delete_candidate] writes_v2
      intro: committed_publishable(4))

lemma writes_run_call: "writes (run_call repo call)"
  by (cases call) (simp_all add: writes_discard writes_create writes_update writes_set_active writes_delete
      writes_create_v2 writes_update_revision writes_set_active_revision writes_hard_delete
      catalog_deactivate_def catalog_reactivate_def DeactivateRevision_def ReactivateRevision_def)

end
