(* ===== verification/CatalogServiceTheorems.thy ===== *)
theory CatalogServiceTheorems
  imports CatalogService DemoCatalog
begin

text \<open>
  The properties of the catalog service: publication (nothing on failure, one coherent version
  on success), the writer latch, the guards of update and delete, and the invariant of all
  states reachable through its calls.
\<close>

section \<open>Reachable states\<close>

inductive catalogo_reach :: "'db catalog_repo \<Rightarrow> 'db catalogo \<Rightarrow> 'db catalogo \<Rightarrow> bool"
  for repo :: "'db catalog_repo" and start :: "'db catalogo" where
  start: "catalogo_reach repo start start"
| call: "catalogo_reach repo start s \<Longrightarrow> run_call repo c s = (r, t) \<Longrightarrow> catalogo_reach repo start t"
| reset: "catalogo_reach repo start s \<Longrightarrow> catalogo_reach repo start (ResetCatalogWriterAvailability s)"

definition coherent :: "'db catalogo \<Rightarrow> bool" where
  "coherent s \<longleftrightarrow> cs_snapshot s = ca_catalog (cs_authority s) \<and> catalog_valid (cs_snapshot s)"

section \<open>Inputs of the witnesses\<close>

definition demo_repo :: "catalog_record list catalog_repo" where
  "demo_repo = \<lparr>
     cr_list = (\<lambda>kind f db. Inr (filter (\<lambda>r. rec_kind r = kind) db)),
     cr_get = (\<lambda>kind rid db. case find (\<lambda>r. rec_kind r = kind \<and> rec_id r = rid) db of
        Some r \<Rightarrow> Inr r | None \<Rightarrow> Inl (Sentinel (Dom ErrCatalogRecordNotFound))),
     cr_dependents = (\<lambda>kind rid db. Inr []),
     cr_referenced = (\<lambda>kind rid db. Inr (rid = 7)),
     cr_insert = (\<lambda>r db. (Inr (int (length db) + 1), db @ [r])),
     cr_update = (\<lambda>r db. (Inr (), map (\<lambda>x. if rec_id x = rec_id r then r else x) db)),
     cr_set_active = (\<lambda>kind rid active db. (Inr (), map (\<lambda>x. if rec_id x = rid then x\<lparr>rec_active := active\<rparr> else x) db)),
     cr_delete = (\<lambda>kind rid db. (Inr (), filter (\<lambda>x. rec_id x \<noteq> rid) db))\<rparr>"

definition indeterminate :: go_error where
  "indeterminate = Wrapf ''commit: %w'' [] [Sentinel (App ErrCatalogWriteIndeterminate)]"

definition demo_v2 :: "bool \<Rightarrow> catalog_record list catalog_repo_v2" where
  "demo_v2 works =
     (let answer = (if works then Inr \<lparr>wr_record = None, wr_catalog = demo_catalog\<rparr> else Inl indeterminate) in
      \<lparr>v2_insert = (\<lambda>r db. (answer, db)), v2_update = (\<lambda>r er db. (answer, db)),
       v2_set_active = (\<lambda>kind rid active er db. (answer, db)), v2_delete = (\<lambda>kind rid er db. (answer, db))\<rparr>)"

definition unit_record :: "int \<Rightarrow> gstring \<Rightarrow> bool \<Rightarrow> catalog_record" where
  "unit_record rid code active = \<lparr>rec_kind = KindUnit, rec_id = rid, rec_revision = 1, rec_active = active,
     rec_values = [(''code'', zero_value\<lparr>cv_text := code\<rparr>), (''name'', zero_value\<lparr>cv_text := ''Metro''\<rparr>),
       (''symbol'', zero_value\<lparr>cv_text := code\<rparr>), (''dimension'', zero_value\<lparr>cv_text := ''L''\<rparr>)], rec_rules = None\<rparr>"

definition demo_service :: "catalog_record list catalogo" where
  "demo_service = NewCatalogService demo_catalog [unit_record 7 ''M'' True, unit_record 8 ''KG'' False]"

definition demo_service_v2 :: "bool \<Rightarrow> catalog_record list catalogo" where
  "demo_service_v2 works = WithCatalogAdminRepositoryV2 (demo_v2 works) demo_service"

definition demo_service_kg :: "catalog_record list catalogo" where
  "demo_service_kg = NewCatalogService
     (demo_catalog\<lparr>cat_units := cat_units demo_catalog @ [\<lparr>ud_code = ''KG'', ud_name = ''Kilo'', ud_symbol = ''kg'',
        ud_dimension = ''M'', ud_active = False\<rparr>]\<rparr>) [unit_record 7 ''M'' True, unit_record 8 ''KG'' False]"

definition new_unit :: catalog_record where
  "new_unit = (unit_record 0 '' kg '' True)\<lparr>rec_values := [(''code'', zero_value\<lparr>cv_text := '' kg ''\<rparr>),
     (''name'', zero_value\<lparr>cv_text := ''Kilo''\<rparr>), (''symbol'', zero_value\<lparr>cv_text := ''kg''\<rparr>),
     (''dimension'', zero_value\<lparr>cv_text := ''M''\<rparr>)]\<rparr>"

lemma demo_valid: "catalog_valid demo_catalog"
proof -
  have "validate_catalog demo_catalog = None" by code_simp
  then show ?thesis by (simp add: validate_catalog_iff)
qed

section \<open>Publication\<close>

text \<open>C18: a failed write publishes nothing: whatever of the ten write methods returns an error,
  the snapshot, the authority's catalog and its version are as before, and the only other
  change the service can make is to latch the writer, which it reports as
  \<^verbatim>\<open>ErrCatalogWriterUnavailable\<close>. A successful write either changed nothing at all or
  published exactly one new version: a candidate that passed \<^verbatim>\<open>Validate\<close>, or the catalog the
  V2 repository committed.\<close>

theorem write_publication:
  assumes "run_call repo call s = (r, t)"
  shows "case r of
     Inl e \<Rightarrow> cs_snapshot t = cs_snapshot s \<and> cs_authority t = cs_authority s
        \<and> (cs_writer_unavailable t = cs_writer_unavailable s \<or> e = Sentinel (App ErrCatalogWriterUnavailable))
   | Inr _ \<Rightarrow> t = s \<or> (\<exists>c. (catalog_valid c \<or> (\<exists>v2. cs_repo_v2 s = Some v2 \<and> committed_by v2 (cs_db s) c))
        \<and> cs_snapshot t = c \<and> cs_authority t = \<lparr>ca_catalog = c, ca_version = ca_version (cs_authority s) + 1\<rparr>)"
  using writes_run_call[of repo call] assms unfolding writes_def unpublished_def published_def publishable_def authority_publish_def
  by (fastforce split: sum.splits)

theorem write_publication_witness:
  "let t = snd (run_call demo_repo (CallCreateV2 KindUnit new_unit) (demo_service_v2 False)) in
     cs_snapshot t = demo_catalog \<and> cs_authority t = NewCatalogAuthority demo_catalog \<and> cs_writer_unavailable t"
proof -
  have run: "fst (run_call demo_repo (CallCreateV2 KindUnit new_unit) (demo_service_v2 False))
      = Inl (Sentinel (App ErrCatalogWriterUnavailable))
    \<and> cs_writer_unavailable (snd (run_call demo_repo (CallCreateV2 KindUnit new_unit) (demo_service_v2 False)))"
    by code_simp
  then obtain t where t: "run_call demo_repo (CallCreateV2 KindUnit new_unit) (demo_service_v2 False)
      = (Inl (Sentinel (App ErrCatalogWriterUnavailable)), t)" "cs_writer_unavailable t"
    by (metis prod.collapse)
  from write_publication[OF t(1)] have "cs_snapshot t = cs_snapshot (demo_service_v2 False)"
    "cs_authority t = cs_authority (demo_service_v2 False)" by simp_all
  then show ?thesis
    unfolding Let_def t(1) using t(2)
    by (simp add: demo_service_v2_def WithCatalogAdminRepositoryV2_def demo_service_def NewCatalogService_def
        NewServiceWithCatalogAuthority_def NewCatalogAuthority_def authority_current_def)
qed

text \<open>C6: in every reachable state of a service started on a valid catalog with a V2 repository
  that commits valid catalogs, the snapshot used to validate candidates is the catalog the
  authority serves, and it satisfies the catalog contract.\<close>

theorem reachable_coherent:
  assumes "catalogo_reach repo (WithCatalogAdminRepositoryV2 v2 (NewCatalogService snapshot db)) s"
    and "catalog_valid snapshot" "\<forall>db c. committed_by v2 db c \<longrightarrow> catalog_valid c"
  shows "coherent s"
proof -
  have "coherent s \<and> cs_repo_v2 s = Some v2"
    using assms(1)
  proof induction
    case start
    show ?case
      using assms(2) by (simp add: coherent_def WithCatalogAdminRepositoryV2_def NewCatalogService_def
          NewServiceWithCatalogAuthority_def NewCatalogAuthority_def authority_current_def)
  next
    case (call s c r t)
    have w: "writes (run_call repo c)" by (rule writes_run_call)
    show ?case
    proof (cases r)
      case (Inl e)
      with w call have "unpublished s t" unfolding writes_def by fastforce
      with call.IH show ?thesis unfolding coherent_def unpublished_def by metis
    next
      case (Inr x)
      with w call(2) have "t = s \<or> (\<exists>c. publishable s c \<and> published c s t)" unfolding writes_def by fastforce
      with call.IH assms(3) show ?thesis
        by (auto simp: coherent_def publishable_def published_def authority_publish_def)
    qed
  next
    case (reset s)
    then show ?case by (auto simp: coherent_def ResetCatalogWriterAvailability_def)
  qed
  then show ?thesis ..
qed

theorem reachable_coherent_witness:
  "coherent (ResetCatalogWriterAvailability (snd (run_call demo_repo (CallCreateV2 KindUnit new_unit) (demo_service_v2 True))))"
proof -
  let ?start = "WithCatalogAdminRepositoryV2 (demo_v2 True) (NewCatalogService demo_catalog [unit_record 7 ''M'' True, unit_record 8 ''KG'' False])"
  have "catalogo_reach demo_repo ?start (ResetCatalogWriterAvailability (snd (run_call demo_repo (CallCreateV2 KindUnit new_unit) ?start)))"
    by (rule catalogo_reach.reset, rule catalogo_reach.call[OF catalogo_reach.start]) (rule surjective_pairing)
  from reachable_coherent[OF this demo_valid] show ?thesis
    unfolding demo_service_v2_def demo_service_def
    by (auto simp: committed_by_def demo_v2_def Let_def demo_valid)
qed

section \<open>The writer latch\<close>

fun uses_v2 :: "catalogo_call \<Rightarrow> bool" where
  "uses_v2 (CallCreateV2 kind r) = True"
| "uses_v2 (CallUpdateRevision kind r er) = (rec_id r \<noteq> 0 \<and> er \<noteq> 0)"
| "uses_v2 (CallDeactivateRevision kind rid er) = (rid \<noteq> 0 \<and> er \<noteq> 0)"
| "uses_v2 (CallReactivateRevision kind rid er) = (rid \<noteq> 0 \<and> er \<noteq> 0)"
| "uses_v2 (CallHardDeleteRevision kind rid er) = (rid \<noteq> 0 \<and> er \<noteq> 0)"
| "uses_v2 _ = False"

lemma prepare_latched: "cs_writer_unavailable s \<Longrightarrow> bnd prepare_v2_write f s = (Inl (Sentinel (App ErrCatalogWriterUnavailable)), s)"
  by (simp add: bnd_def prepare_v2_write_def)

lemma prepare_latched_bnd:
  "cs_writer_unavailable s \<Longrightarrow> bnd (bnd prepare_v2_write f) g s = (Inl (Sentinel (App ErrCatalogWriterUnavailable)), s)"
  by (simp add: bnd_def prepare_v2_write_def)

text \<open>Once an indeterminate commit has latched the writer, every revision-aware write with
  valid arguments, and \<^verbatim>\<open>Create\<close> when the V2 repository is configured, is refused before any
  candidate work: the error is \<^verbatim>\<open>ErrCatalogWriterUnavailable\<close>, which the neutral boundary reports
  as UNAVAILABLE, and neither the service nor the database changes.\<close>

theorem latched_writer_refuses:
  assumes "cs_writer_unavailable s"
    and "uses_v2 call \<or> (\<exists>kind r. call = Create kind r) \<and> cs_repo_v2 s \<noteq> None"
  shows "run_call repo call s = (Inl (Sentinel (App ErrCatalogWriterUnavailable)), s)
    \<and> core_code_of (Some (Sentinel (App ErrCatalogWriterUnavailable))) = Some Unavailable"
proof
  show "run_call repo call s = (Inl (Sentinel (App ErrCatalogWriterUnavailable)), s)"
    using assms(2)
  proof
    assume "uses_v2 call"
    then show ?thesis
      by (cases call) (simp_all add: prepare_latched[OF assms(1)] prepare_latched_bnd[OF assms(1)]
          discard_def CreateV2_def UpdateRevision_def DeactivateRevision_def ReactivateRevision_def
          set_active_revision_def HardDeleteRevision_def Let_def)
  next
    assume "(\<exists>kind r. call = Create kind r) \<and> cs_repo_v2 s \<noteq> None"
    then obtain kind r v2 where "call = Create kind r" "cs_repo_v2 s = Some v2" by auto
    then show ?thesis
      by (simp add: discard_def catalog_create_def Let_def bnd_def prepare_v2_write_def assms(1))
  qed
  show "core_code_of (Some (Sentinel (App ErrCatalogWriterUnavailable))) = Some Unavailable"
    by (simp add: core_code_of_def core_map_def core_new_def wraps_simps)
qed

theorem latched_writer_refuses_witness:
  "run_call demo_repo (CallHardDeleteRevision KindUnit 8 1) (demo_service\<lparr>cs_writer_unavailable := True\<rparr>)
     = (Inl (Sentinel (App ErrCatalogWriterUnavailable)), demo_service\<lparr>cs_writer_unavailable := True\<rparr>)"
  using latched_writer_refuses[of "demo_service\<lparr>cs_writer_unavailable := True\<rparr>" "CallHardDeleteRevision KindUnit 8 1" demo_repo]
  by simp

section \<open>Guards\<close>

lemma freeze_guard:
  assumes "freeze_codes repo kind current r mr fs s = (Inr mr', t)" "f \<in> set fs" "fd_immutable f = ImmutableOnceReferenced"
    "map_of (rec_values current) (fd_name f) = Some old" "map_of (rec_values r) (fd_name f) = Some new"
    "cv_text old \<noteq> cv_text new"
  shows "cr_referenced repo kind (rec_id r) (cs_db s) = Inr False"
  using assms
proof (induction repo kind current r mr fs rule: freeze_codes.induct)
  case (2 repo kind current r mr g fs)
  show ?case
  proof (cases "f = g")
    case True
    then show ?thesis using "2.prems"
      by (auto simp: bnd_def db_read_def fail_def ret_def split: sum.splits prod.splits if_splits)
  next
    case False
    then show ?thesis using "2.prems" "2.IH"
      by (auto simp: bnd_def db_read_def fail_def ret_def split: sum.splits prod.splits if_splits option.splits)
  qed
qed simp

lemma update_candidate_guard:
  assumes "update_candidate repo kind r s = (Inr nxt, t)" "cr_get repo kind (rec_id r) (cs_db s) = Inr current"
    "registry_kind kind = Some def" "f \<in> set (ck_fields def)" "fd_immutable f = ImmutableOnceReferenced"
    "map_of (rec_values current) (fd_name f) = Some old" "map_of (rec_values r) (fd_name f) = Some new"
    "cv_text old \<noteq> cv_text new"
  shows "cr_referenced repo kind (rec_id r) (cs_db s) = Inr False"
proof -
  obtain mr t' where "freeze_codes repo kind current r r (ck_fields def) s = (Inr mr, t')"
    using assms(1-3) by (auto simp: update_candidate_def bnd_Inr db_read_def)
  then show ?thesis by (rule freeze_guard[OF _ assms(4-8)])
qed

text \<open>C30: code immutability: when \<^verbatim>\<open>Update\<close> or \<^verbatim>\<open>UpdateRevision\<close> succeeds although the canonicalized
  record changes a code field of the persisted one, no resource references the record. A
  referenced record can only be updated with its codes unchanged.\<close>

theorem code_immutability:
  assumes "run_call repo call s = (Inr (), t)" "call = Update kind r \<or> call = CallUpdateRevision kind r er"
    and "cr_get repo kind (rec_id r) (cs_db s) = Inr current" "registry_kind kind = Some def"
    and "f \<in> set (ck_fields def)" "fd_immutable f = ImmutableOnceReferenced"
    and "map_of (rec_values current) (fd_name f) = Some old"
    and "map_of (rec_values (canonicalize_codes (r\<lparr>rec_kind := kind\<rparr>))) (fd_name f) = Some new"
    and "cv_text old \<noteq> cv_text new"
  shows "cr_referenced repo kind (rec_id r) (cs_db s) = Inr False"
proof -
  let ?r = "canonicalize_codes (r\<lparr>rec_kind := kind\<rparr>)"
  have keep: "rec_id (foldl (\<lambda>r f. if fd_kind f \<noteq> FieldCode then r
      else (case map_of (rec_values r) (fd_name f) of None \<Rightarrow> r
        | Some v \<Rightarrow> r\<lparr>rec_values := gput (fd_name f) (v\<lparr>cv_text := canonical (cv_text v)\<rparr>) (rec_values r)\<rparr>)) x fs) = rec_id x"
    for x and fs :: "field_descriptor list"
    by (induction fs arbitrary: x) (auto split: option.split)
  have rid: "rec_id ?r = rec_id r"
    by (simp add: canonicalize_codes_def CanonicalizeCatalogRecordCodes_def keep split: option.split)
  obtain nxt t' where "update_candidate repo kind ?r s = (Inr nxt, t')"
    using assms(1,2)
    by (auto simp: discard_def bnd_Inr catalog_update_def UpdateRevision_def Let_def fail_def
        dest!: prepare_Inr split: if_splits)
  from update_candidate_guard[OF this] show ?thesis using assms(3-9) by (simp add: rid)
qed

theorem code_immutability_witness:
  "cr_referenced demo_repo KindUnit 8 (cs_db demo_service_kg) = Inr False"
proof -
  have "fst (run_call demo_repo (Update KindUnit (unit_record 8 '' gr '' False)) demo_service_kg) = Inr ()" by code_simp
  then obtain t where run: "run_call demo_repo (Update KindUnit (unit_record 8 '' gr '' False)) demo_service_kg = (Inr (), t)"
    by (metis prod.collapse)
  have old: "cr_get demo_repo KindUnit 8 (cs_db demo_service_kg) = Inr (unit_record 8 ''KG'' False)"
    "map_of (rec_values (unit_record 8 ''KG'' False)) (fd_name code_field) = Some (zero_value\<lparr>cv_text := ''KG''\<rparr>)"
    by code_simp+
  have new: "map_of (rec_values (canonicalize_codes ((unit_record 8 '' gr '' False)\<lparr>rec_kind := KindUnit\<rparr>))) (fd_name code_field)
      = Some (zero_value\<lparr>cv_text := ''GR''\<rparr>)" by code_simp
  have kind: "registry_kind KindUnit = Some kind_unit_descriptor" by code_simp
  have rid: "rec_id (unit_record 8 '' gr '' False) = 8" by (simp add: unit_record_def)
  show ?thesis
    using code_immutability[OF run disjI1[OF refl] _ kind _ _ old(2) new] old(1)
    by (simp add: rid kind_unit_descriptor_def) (simp add: code_field_def field_def)
qed

text \<open>C22: the guarded delete: when \<^verbatim>\<open>Delete\<close> or \<^verbatim>\<open>HardDeleteRevision\<close> succeeds, the record existed and
  was inactive, no dependency was counted and no resource referenced it. Deleting an active
  record fails with INVALID_LIFECYCLE and deleting a referenced one with IN_USE.\<close>

theorem delete_guard:
  assumes "run_call repo call s = (Inr (), t)" "call = Delete kind rid \<or> call = CallHardDeleteRevision kind rid er"
  shows "\<exists>current deps. cr_get repo kind rid (cs_db s) = Inr current \<and> \<not> rec_active current
    \<and> cr_dependents repo kind rid (cs_db s) = Inr deps \<and> (\<forall>d\<in>set deps. dep_count d = 0)
    \<and> cr_referenced repo kind rid (cs_db s) = Inr False"
proof -
  obtain nxt t' where "delete_candidate repo kind rid s = (Inr nxt, t')"
    using assms
    by (auto simp: bnd_Inr catalog_delete_def HardDeleteRevision_def fail_def dest!: prepare_Inr split: if_splits)
  then show ?thesis
    by (auto simp: delete_candidate_def bnd_Inr db_read_def fail_def list_ex_iff split: if_splits)
qed

theorem delete_guard_witness:
  "\<exists>current. cr_get demo_repo KindUnit 8 (cs_db demo_service_kg) = Inr current \<and> \<not> rec_active current"
proof -
  have "fst (run_call demo_repo (Delete KindUnit 8) demo_service_kg) = Inr ()" by code_simp
  then obtain t where run: "run_call demo_repo (Delete KindUnit 8) demo_service_kg = (Inr (), t)"
    by (metis prod.collapse)
  from delete_guard[OF this, of KindUnit 8 0] show ?thesis by auto
qed

text \<open>A revision-aware transition to the state the record already has succeeds without
  touching anything whatever revision the caller expects: the precondition is not checked on
  this path, so a stale revision is reported as success.\<close>

theorem stale_revision_ignored:
  assumes "cs_repo_v2 s \<noteq> None" "\<not> cs_writer_unavailable s" "rid \<noteq> 0" "er \<noteq> 0"
    and "cr_get repo kind rid (cs_db s) = Inr current" "rec_active current = active"
  shows "set_active_revision repo kind rid active er s = (Inr (), s)"
  using assms by (auto simp: set_active_revision_def bnd_def prepare_v2_write_def db_read_def)

theorem stale_revision_ignored_witness:
  "set_active_revision demo_repo KindUnit 8 False 99 (demo_service_v2 True) = (Inr (), demo_service_v2 True)"
  by (rule stale_revision_ignored[where current = "unit_record 8 ''KG'' False"])
    (simp_all add: demo_service_v2_def WithCatalogAdminRepositoryV2_def demo_service_def NewCatalogService_def
      NewServiceWithCatalogAuthority_def demo_repo_def unit_record_def)

end
