(* ===== verification/AttributeOrder.thy ===== *)
theory AttributeOrder
  imports CatalogQuery "HOL-Library.Multiset"
begin

text \<open>
  The visual order of the attributes of one type
  (\<^verbatim>\<open>internal/domain/resource_attribute_order.go\<close>, \<^verbatim>\<open>resource_attribute_order_repository.go\<close>):
  \<^verbatim>\<open>ResolveAttributeOrder\<close> overlays the saved preferences on the structural baseline, and
  \<^verbatim>\<open>ValidatePermutation\<close> accepts a new order. The SHA-256 of the JSON document that makes the
  opaque revision is the parameter \<open>digest\<close>, applied to the document itself.
\<close>

section \<open>Data\<close>

record order_key =
  ok_level :: gstring
  ok_source :: gstring
  ok_characteristic :: gstring

record order_member =
  om_key :: order_key
  om_id :: int
  om_revision :: revision

record order_state =
  ost_type :: int
  ost_head :: revision
  ost_members :: "order_member list"
  ost_saved :: "int list"

record order_snapshot =
  osn_scope :: resource_scope
  osn_keys :: "order_key list"
  osn_revision :: gstring

record order_document =
  odoc_scope :: resource_scope
  odoc_type :: int
  odoc_head :: revision
  odoc_members :: "order_member list"

section \<open>Operations\<close>

definition CanonicalAttributeOrderScope :: "resource_scope \<Rightarrow> go_error + resource_scope" where
  "CanonicalAttributeOrderScope s =
     (let s = canonicalize s in
      if sc_class s = [] \<or> sc_family s = [] \<or> sc_type s = []
      then Inl (validation ''attribute order requires an exact class/family/type scope'' []) else Inr s)"

definition CanonicalFor :: "resource_scope \<Rightarrow> order_key \<Rightarrow> go_error + order_key" where
  "CanonicalFor s k =
     (let k = \<lparr>ok_level = canonical (ok_level k), ok_source = canonical (ok_source k),
                ok_characteristic = canonical_attribute (ok_characteristic k)\<rparr>;
          validFamily = ok_level k = SourceLevelFamily \<and> ok_source k = sc_family s;
          validType = ok_level k = SourceLevelType \<and> ok_source k = sc_type s in
      if \<not> validFamily \<and> \<not> validType
      then Inl (validation ''attribute order source does not belong to target scope'' [])
      else if ok_characteristic k = [] then Inl (validation ''attribute order characteristic is required'' [])
      else Inr k)"

text \<open>The first loop of \<^verbatim>\<open>ResolveAttributeOrder\<close>: \<open>members\<close> by binding, \<open>keys\<close> already met.\<close>

fun collect_members ::
  "resource_scope \<Rightarrow> (int, order_member) gmap \<Rightarrow> order_key list \<Rightarrow> order_member list
     \<Rightarrow> go_error + (int, order_member) gmap" where
  "collect_members s members keys [] = Inr members"
| "collect_members s members keys (m # ms) =
     bindr (CanonicalFor s (om_key m)) (\<lambda>key.
       if om_id m \<le> 0 \<or> key \<in> set keys
       then Inl (validation ''invalid or duplicate attribute order member'' [])
       else if map_of members (om_id m) \<noteq> None
       then Inl (validation ''duplicate attribute order binding'' [])
       else collect_members s (gput (om_id m) (m\<lparr>om_key := key\<rparr>) members) (key # keys) ms)"

definition append_member ::
  "(int, order_member) gmap \<times> order_member list \<Rightarrow> int \<Rightarrow> (int, order_member) gmap \<times> order_member list" where
  "append_member acc i = (case acc of (members, ordered) \<Rightarrow>
     (case map_of members i of Some m \<Rightarrow> (gdel i members, ordered @ [m]) | None \<Rightarrow> (members, ordered)))"

definition ResolveAttributeOrder ::
  "(order_document \<Rightarrow> gstring) \<Rightarrow> resource_scope \<Rightarrow> order_state \<Rightarrow> go_error + order_snapshot" where
  "ResolveAttributeOrder digest s state =
     bindr (CanonicalAttributeOrderScope s) (\<lambda>s.
     if ost_type state \<le> 0 then Inl (validation ''attribute order requires a resolved type incarnation'' [])
     else bindr (collect_members s [] [] (ost_members state)) (\<lambda>members.
       let ordered = snd (foldl append_member (foldl append_member (members, []) (ost_saved state))
             (map om_id (ost_members state))) in
       Inr \<lparr>osn_scope = s, osn_keys = map om_key ordered,
         osn_revision = digest \<lparr>odoc_scope = s, odoc_type = ost_type state, odoc_head = ost_head state, odoc_members = ordered\<rparr>\<rparr>))"

fun take_keys :: "resource_scope \<Rightarrow> order_key list \<Rightarrow> order_key list \<Rightarrow> go_error + order_key list" where
  "take_keys s remaining [] = Inr []"
| "take_keys s remaining (k # ks) =
     bindr (CanonicalFor s k) (\<lambda>canonicalKey.
       if canonicalKey \<notin> set remaining then Inl (validation ''unknown or repeated attribute order key'' [])
       else bindr (take_keys s (removeAll canonicalKey remaining) ks) (\<lambda>rest. Inr (canonicalKey # rest)))"

definition ValidatePermutation :: "order_snapshot \<Rightarrow> order_key list \<Rightarrow> go_error + order_key list" where
  "ValidatePermutation s keys =
     (if length keys \<noteq> length (osn_keys s)
      then Inl (validation ''attribute order must contain every effective occurrence'' [])
      else take_keys (osn_scope s) (osn_keys s) keys)"

section \<open>Lemmas\<close>

text \<open>The abstract order: first occurrences of the saved bindings that are still members, then
  the other members in baseline order.\<close>

fun firsts :: "'a list \<Rightarrow> 'a list" where
  "firsts [] = []"
| "firsts (x # xs) = x # filter (\<lambda>y. y \<noteq> x) (firsts xs)"

definition resolved_ids :: "int list \<Rightarrow> int list \<Rightarrow> int list" where
  "resolved_ids saved baseline = firsts (filter (\<lambda>i. i \<in> set baseline) saved) @ filter (\<lambda>i. i \<notin> set saved) baseline"

definition canonical_members :: "resource_scope \<Rightarrow> order_member list \<Rightarrow> go_error + order_member list" where
  "canonical_members s = mapr (\<lambda>m. bindr (CanonicalFor s (om_key m)) (\<lambda>k. Inr (m\<lparr>om_key := k\<rparr>)))"

lemma set_firsts [simp]: "set (firsts xs) = set xs"
  by (induction xs) auto

lemma distinct_firsts [simp]: "distinct (firsts xs)"
  by (induction xs) auto

lemma firsts_filter: "firsts (filter P xs) = filter P (firsts xs)"
  by (induction xs) (auto intro: filter_cong)

lemma firsts_distinct: "distinct xs \<Longrightarrow> firsts xs = xs"
proof (induction xs)
  case (Cons x xs)
  then have "filter (\<lambda>y. y \<noteq> x) xs = xs" by (auto simp: filter_id_conv)
  with Cons show ?case by simp
qed simp

lemma firsts_append: "firsts (xs @ ys) = firsts xs @ filter (\<lambda>y. y \<notin> set xs) (firsts ys)"
  by (induction xs) (auto simp: intro!: filter_cong)

lemma resolved_ids_set: "set (resolved_ids saved baseline) = set baseline"
  by (auto simp: resolved_ids_def)

lemma resolved_ids_distinct: "distinct baseline \<Longrightarrow> distinct (resolved_ids saved baseline)"
  by (auto simp: resolved_ids_def)

lemma resolved_ids_alt:
  "distinct baseline \<Longrightarrow> resolved_ids saved baseline = firsts (filter (\<lambda>i. i \<in> set baseline) (saved @ baseline))"
  by (auto simp: resolved_ids_def firsts_append firsts_distinct intro!: filter_cong)

lemma resolved_ids_permutation:
  assumes "distinct ids" "distinct baseline" "set ids = set baseline"
  shows "resolved_ids ids baseline = ids"
  using assms by (simp add: resolved_ids_def firsts_distinct)

lemma CanonicalFor_idem:
  assumes "CanonicalFor s k = Inr k'"
  shows "CanonicalFor s k' = Inr k'"
proof -
  have k': "k' = \<lparr>ok_level = canonical (ok_level k), ok_source = canonical (ok_source k),
      ok_characteristic = canonical_attribute (ok_characteristic k)\<rparr>"
    using assms by (simp add: CanonicalFor_def Let_def split: if_splits)
  have "CanonicalFor s k' = CanonicalFor s k"
    unfolding k' by (simp only: CanonicalFor_def Let_def order_key.simps canonical_idem canonical_attribute_idem)
  with assms show ?thesis by simp
qed

lemma CanonicalFor_error: "CanonicalFor s k = Inl e \<Longrightarrow> \<exists>f. e = validation f []"
  by (auto simp: CanonicalFor_def Let_def split: if_splits)

lemma canonical_members_Cons:
  "canonical_members s (m # ms) = bindr (CanonicalFor s (om_key m)) (\<lambda>k.
     bindr (canonical_members s ms) (\<lambda>cs. Inr (m\<lparr>om_key := k\<rparr> # cs)))"
  by (cases "CanonicalFor s (om_key m)") (simp_all add: canonical_members_def)

lemma canonical_members_ids: "canonical_members s ms = Inr cs \<Longrightarrow> map om_id cs = map om_id ms"
  by (induction ms arbitrary: cs) (auto simp: canonical_members_Cons bindr_Inr_iff, simp add: canonical_members_def)

lemma collect_members_iff:
  "(\<exists>res. collect_members s members keys ms = Inr res) \<longleftrightarrow> (\<exists>cs. canonical_members s ms = Inr cs
     \<and> (\<forall>c\<in>set cs. 0 < om_id c) \<and> distinct (map om_key cs) \<and> set (map om_key cs) \<inter> set keys = {}
     \<and> distinct (map om_id cs) \<and> (\<forall>c\<in>set cs. map_of members (om_id c) = None))"
proof (induction s members keys ms rule: collect_members.induct)
  case (1 s members keys)
  show ?case by (simp add: canonical_members_def)
next
  case (2 s members keys m ms)
  show ?case
  proof (cases "CanonicalFor s (om_key m)")
    case (Inl e)
    then show ?thesis by (simp add: canonical_members_Cons)
  next
    case (Inr k)
    show ?thesis
    proof (cases "om_id m \<le> 0 \<or> k \<in> set keys \<or> map_of members (om_id m) \<noteq> None")
      case True
      then show ?thesis using Inr by (auto simp: canonical_members_Cons bindr_Inr_iff)
    next
      case False
      with Inr have "(\<exists>res. collect_members s members keys (m # ms) = Inr res) \<longleftrightarrow>
          (\<exists>res. collect_members s (gput (om_id m) (m\<lparr>om_key := k\<rparr>) members) (k # keys) ms = Inr res)"
        by simp
      also have "\<dots> \<longleftrightarrow> (\<exists>cs. canonical_members s ms = Inr cs
           \<and> (\<forall>c\<in>set cs. 0 < om_id c) \<and> distinct (map om_key cs) \<and> set (map om_key cs) \<inter> set (k # keys) = {}
           \<and> distinct (map om_id cs)
           \<and> (\<forall>c\<in>set cs. map_of (gput (om_id m) (m\<lparr>om_key := k\<rparr>) members) (om_id c) = None))"
        using False by (intro "2.IH"[OF Inr]) simp_all
      also have "\<dots> \<longleftrightarrow> (\<exists>cs. canonical_members s (m # ms) = Inr cs
           \<and> (\<forall>c\<in>set cs. 0 < om_id c) \<and> distinct (map om_key cs) \<and> set (map om_key cs) \<inter> set keys = {}
           \<and> distinct (map om_id cs) \<and> (\<forall>c\<in>set cs. map_of members (om_id c) = None))"
      proof (cases "canonical_members s ms")
        case (Inr cs)
        have fresh: "om_id m \<notin> om_id ` set cs \<and> (\<forall>c\<in>set cs. map_of (gput (om_id m) (m\<lparr>om_key := k\<rparr>) members) (om_id c) = None)
            \<longleftrightarrow> om_id m \<notin> om_id ` set cs \<and> (\<forall>c\<in>set cs. map_of members (om_id c) = None)"
          by (auto simp: image_iff)
        show ?thesis using False \<open>CanonicalFor s (om_key m) = Inr k\<close> Inr fresh by (auto simp: canonical_members_Cons)
      qed (use Inr in \<open>simp add: canonical_members_Cons\<close>)
      finally show ?thesis .
    qed
  qed
qed

lemma collect_members_map:
  assumes "collect_members s members keys ms = Inr res" "canonical_members s ms = Inr cs" "distinct (map om_id cs)"
    "\<forall>c\<in>set cs. map_of members (om_id c) = None"
  shows "map_of res = map_of members ++ map_of (map (\<lambda>c. (om_id c, c)) cs)"
  using assms
proof (induction s members keys ms arbitrary: cs rule: collect_members.induct)
  case (1 s members keys)
  then show ?case by (simp add: canonical_members_def)
next
  case (2 s members keys m ms)
  from "2.prems"(1) obtain k where k: "CanonicalFor s (om_key m) = Inr k" by (auto simp: bindr_Inr_iff)
  with "2.prems"(2) obtain cs' where cs': "canonical_members s ms = Inr cs'" "cs = m\<lparr>om_key := k\<rparr> # cs'"
    by (auto simp: canonical_members_Cons bindr_Inr_iff)
  have rest: "collect_members s (gput (om_id m) (m\<lparr>om_key := k\<rparr>) members) (k # keys) ms = Inr res"
    and ok: "\<not> (om_id m \<le> 0 \<or> k \<in> set keys)" "map_of members (om_id m) = None"
    using "2.prems"(1) k by (auto split: if_splits)
  have fresh: "\<forall>c\<in>set cs'. map_of (gput (om_id m) (m\<lparr>om_key := k\<rparr>) members) (om_id c) = None" "distinct (map om_id cs')"
    using "2.prems"(3,4) cs'(2) by (auto simp: image_iff)
  have "map_of res = map_of (gput (om_id m) (m\<lparr>om_key := k\<rparr>) members) ++ map_of (map (\<lambda>c. (om_id c, c)) cs')"
    using ok(2) by (intro "2.IH"[OF k ok(1) _ rest cs'(1) fresh(2,1)]) simp
  moreover have "map_of (map (\<lambda>c. (om_id c, c)) cs') (om_id m) = None"
    using "2.prems"(3) cs'(2) by (auto simp: map_of_eq_None_iff image_iff)
  ultimately show ?case
    using cs'(2) by (auto simp: fun_eq_iff map_add_def split: option.splits)
qed

lemma append_members:
  "snd (foldl append_member (members, ordered) ids) =
     ordered @ map (\<lambda>i. the (map_of members i)) (firsts (filter (\<lambda>i. map_of members i \<noteq> None) ids))"
proof (induction ids arbitrary: members ordered)
  case (Cons i ids)
  show ?case
  proof (cases "map_of members i")
    case None
    then show ?thesis using Cons[of members ordered] by (simp add: append_member_def)
  next
    case (Some m)
    have "filter (\<lambda>j. map_of (gdel i members) j \<noteq> None) ids = filter (\<lambda>j. j \<noteq> i) (filter (\<lambda>j. map_of members j \<noteq> None) ids)"
      by (auto intro: filter_cong)
    then have *: "firsts (filter (\<lambda>j. map_of (gdel i members) j \<noteq> None) ids)
        = filter (\<lambda>j. j \<noteq> i) (firsts (filter (\<lambda>j. map_of members j \<noteq> None) ids))"
      by (simp only: firsts_filter)
    have "snd (foldl append_member (members, ordered) (i # ids)) = snd (foldl append_member (gdel i members, ordered @ [m]) ids)"
      using Some by (simp add: append_member_def)
    also have "\<dots> = (ordered @ [m]) @ map (\<lambda>j. the (map_of (gdel i members) j))
        (filter (\<lambda>j. j \<noteq> i) (firsts (filter (\<lambda>j. map_of members j \<noteq> None) ids)))"
      unfolding Cons * ..
    also have "map (\<lambda>j. the (map_of (gdel i members) j)) (filter (\<lambda>j. j \<noteq> i) (firsts (filter (\<lambda>j. map_of members j \<noteq> None) ids)))
        = map (\<lambda>j. the (map_of members j)) (filter (\<lambda>j. j \<noteq> i) (firsts (filter (\<lambda>j. map_of members j \<noteq> None) ids)))"
      by (intro map_cong) auto
    finally show ?thesis using Some by simp
  qed
qed simp

lemma resolve_Inr:
  assumes "ResolveAttributeOrder digest s state = Inr sn"
  obtains cs ordered where "CanonicalAttributeOrderScope s = Inr (canonicalize s)" "0 < ost_type state"
    "canonical_members (canonicalize s) (ost_members state) = Inr cs" "distinct (map om_key cs)" "distinct (map om_id cs)"
    "\<forall>c\<in>set cs. 0 < om_id c" "map om_id ordered = resolved_ids (ost_saved state) (map om_id cs)" "mset ordered = mset cs"
    "sn = \<lparr>osn_scope = canonicalize s, osn_keys = map om_key ordered, osn_revision = digest \<lparr>odoc_scope = canonicalize s,
       odoc_type = ost_type state, odoc_head = ost_head state, odoc_members = ordered\<rparr>\<rparr>"
proof -
  have sc: "CanonicalAttributeOrderScope s = Inr (canonicalize s)" "0 < ost_type state"
    using assms by (auto simp: ResolveAttributeOrder_def CanonicalAttributeOrderScope_def Let_def split: if_splits)
  then obtain res where res: "collect_members (canonicalize s) [] [] (ost_members state) = Inr res"
    using assms by (auto simp: ResolveAttributeOrder_def bindr_Inr_iff)
  then obtain cs where cs: "canonical_members (canonicalize s) (ost_members state) = Inr cs" "\<forall>c\<in>set cs. 0 < om_id c"
      "distinct (map om_key cs)" "distinct (map om_id cs)"
    using collect_members_iff[of "canonicalize s" "[]" "[]" "ost_members state"] by auto
  have res_map: "map_of res = map_of (map (\<lambda>c. (om_id c, c)) cs)"
    using collect_members_map[OF res cs(1) cs(4)] by simp
  have at: "map_of (map (\<lambda>c. (om_id c, c)) cs) (om_id c) = Some c" if "c \<in> set cs" for c
    using that cs(4) by (intro map_of_is_SomeI) (simp_all add: o_def)
  have dom: "(map_of res i \<noteq> None) \<longleftrightarrow> i \<in> set (map om_id cs)" for i
    unfolding res_map by (auto simp: map_of_eq_None_iff image_iff)
  let ?ids = "resolved_ids (ost_saved state) (map om_id cs)"
  let ?ordered = "map (\<lambda>i. the (map_of res i)) ?ids"
  have ordered: "snd (foldl append_member (foldl append_member (res, []) (ost_saved state)) (map om_id (ost_members state))) = ?ordered"
    unfolding foldl_append[symmetric] append_members canonical_members_ids[OF cs(1), symmetric] dom append_Nil
      resolved_ids_alt[OF cs(4)] ..
  have ids: "om_id (the (map_of res i)) = i \<and> the (map_of res i) \<in> set cs" if "i \<in> set (map om_id cs)" for i
    using that at by (auto simp: res_map)
  have "map om_id ?ordered = ?ids"
    unfolding map_map o_def using ids by (intro map_idI) (simp add: resolved_ids_set)
  moreover have "mset ?ordered = mset cs"
  proof -
    have "distinct ?ordered" using \<open>map om_id ?ordered = ?ids\<close> resolved_ids_distinct[OF cs(4)] by (metis distinct_map)
    moreover have "set ?ordered = set cs"
    proof
      show "set ?ordered \<subseteq> set cs" using ids by (auto simp: resolved_ids_set)
      show "set cs \<subseteq> set ?ordered" using at by (force simp: resolved_ids_set res_map)
    qed
    moreover have "distinct cs" using cs(4) by (simp add: distinct_map)
    ultimately show ?thesis by (simp only: set_eq_iff_mset_eq_distinct)
  qed
  moreover have "sn = \<lparr>osn_scope = canonicalize s, osn_keys = map om_key ?ordered, osn_revision = digest \<lparr>odoc_scope = canonicalize s,
       odoc_type = ost_type state, odoc_head = ost_head state, odoc_members = ?ordered\<rparr>\<rparr>"
    using assms sc(2) unfolding ResolveAttributeOrder_def sc(1) by (simp add: res ordered Let_def)
  ultimately show thesis using that sc cs by blast
qed

lemma resolve_defined:
  assumes "CanonicalAttributeOrderScope s = Inr s'" "0 < ost_type state"
    "canonical_members (canonicalize s) (ost_members state) = Inr cs" "distinct (map om_key cs)" "distinct (map om_id cs)"
    "\<forall>c\<in>set cs. 0 < om_id c"
  shows "\<exists>sn. ResolveAttributeOrder digest s state = Inr sn"
proof -
  have "s' = canonicalize s" using assms(1) by (auto simp: CanonicalAttributeOrderScope_def Let_def split: if_splits)
  moreover have "\<exists>res. collect_members (canonicalize s) [] [] (ost_members state) = Inr res"
    using collect_members_iff[of "canonicalize s" "[]" "[]" "ost_members state"] assms(3-6) by auto
  ultimately show ?thesis using assms(1,2) by (auto simp: ResolveAttributeOrder_def Let_def)
qed

lemma collect_members_error: "collect_members s members keys ms = Inl e \<Longrightarrow> \<exists>f. e = validation f []"
  by (induction s members keys ms rule: collect_members.induct)
    (auto simp: bindr_Inl_iff split: if_splits dest: CanonicalFor_error)

lemma resolve_error: "ResolveAttributeOrder digest s state = Inl e \<Longrightarrow> \<exists>f. e = validation f []"
  by (auto simp: ResolveAttributeOrder_def CanonicalAttributeOrderScope_def Let_def bindr_Inl_iff
      split: if_splits dest: collect_members_error)

lemma take_keys_iff:
  "take_keys s remaining ks = Inr cs \<longleftrightarrow> mapr (CanonicalFor s) ks = Inr cs \<and> distinct cs \<and> set cs \<subseteq> set remaining"
proof (induction s remaining ks arbitrary: cs rule: take_keys.induct)
  case (2 s remaining k ks)
  show ?case
  proof (cases "CanonicalFor s k")
    case (Inr c)
    show ?thesis
    proof (cases "c \<in> set remaining")
      case True
      have IH: "take_keys s (removeAll c remaining) ks = Inr cs' \<longleftrightarrow>
          mapr (CanonicalFor s) ks = Inr cs' \<and> distinct cs' \<and> set cs' \<subseteq> set remaining - {c}" for cs'
        using "2.IH"[OF Inr, of cs'] True by simp
      show ?thesis using Inr True by (auto simp: bindr_Inr_iff IH)
    qed (use Inr in \<open>auto simp: bindr_Inr_iff\<close>)
  qed simp
qed auto

lemma take_keys_error: "take_keys s remaining ks = Inl e \<Longrightarrow> \<exists>f. e = validation f []"
  by (induction s remaining ks rule: take_keys.induct)
    (auto simp: bindr_Inl_iff split: if_splits dest: CanonicalFor_error)

lemma validate_permutation_iff:
  assumes "distinct (osn_keys sn)"
  shows "ValidatePermutation sn keys = Inr ks \<longleftrightarrow> mapr (CanonicalFor (osn_scope sn)) keys = Inr ks \<and> mset ks = mset (osn_keys sn)"
proof -
  have len: "mapr (CanonicalFor (osn_scope sn)) keys = Inr ks \<Longrightarrow> length keys = length ks"
    by (auto simp: mapr_Inr_iff dest: list_all2_lengthD)
  have "mset ks = mset (osn_keys sn) \<longleftrightarrow> length ks = length (osn_keys sn) \<and> distinct ks \<and> set ks \<subseteq> set (osn_keys sn)"
  proof
    assume "mset ks = mset (osn_keys sn)"
    then show "length ks = length (osn_keys sn) \<and> distinct ks \<and> set ks \<subseteq> set (osn_keys sn)"
      using assms by (metis distinct_count_atmost_1 mset_eq_length mset_eq_setD subset_refl)
  next
    assume r: "length ks = length (osn_keys sn) \<and> distinct ks \<and> set ks \<subseteq> set (osn_keys sn)"
    then have "set ks = set (osn_keys sn)"
      using assms by (metis List.finite_set card_subset_eq distinct_card)
    then show "mset ks = mset (osn_keys sn)" using r assms by (simp add: set_eq_iff_mset_eq_distinct)
  qed
  then show ?thesis
    using len by (auto simp: ValidatePermutation_def take_keys_iff)
qed

end
