(* ===== verification/OrderStore.thy ===== *)
theory OrderStore
  imports AttributeOrder CatalogValidate GoState
begin

text \<open>
  The persisted attribute order (\<^verbatim>\<open>internal/postgres/resource_attribute_order_repository.go\<close>):
  the coherent read and the locked compare-and-swap write. The database is the tables the SQL
  statements name; a statement or the commit may fail with the error the parameter \<open>F\<close> gives
  it, and a failed commit may or may not have taken effect.
\<close>

section \<open>Tables\<close>

text \<open>A row of \<^verbatim>\<open>resource_types\<close> joined with its family and class.\<close>

record type_row =
  tr_class :: gstring
  tr_family :: gstring
  tr_type :: gstring
  tr_id :: int
  tr_family_id :: int

text \<open>A row of \<^verbatim>\<open>resource_attributes\<close> joined with its definition.\<close>

record binding_row =
  br_id :: int
  br_revision :: revision
  br_family_id :: int
  br_type_id :: "int option"
  br_code :: gstring

record item_row =
  it_type :: int
  it_binding :: int
  it_position :: int

record order_db =
  odb_types :: "type_row list"
  odb_bindings :: "binding_row list"
  odb_heads :: "(int, int) gmap"
  odb_items :: "item_row list"
  odb_catalog :: resource_catalog

datatype (plugins only: code size) order_stmt =
    OrderContext | OrderBegin | LockType | LockStructural | ResolveScope bool | LoadCatalog bool
  | ReadMembers bool | ReadSaved bool | ClearItems | BumpHead | InsertItem nat | OrderCommit

type_synonym order_faults = "order_stmt \<Rightarrow> go_error option"

record order_request =
  oreq_scope :: resource_scope
  oreq_expected :: gstring
  oreq_keys :: "order_key list"

type_synonym order_result = "resource_catalog \<times> order_snapshot"

definition fault_as :: "gstring \<Rightarrow> go_error option \<Rightarrow> go_error option" where
  "fault_as format = map_option (\<lambda>e. Wrapf format [] [e])"

definition sql_exec :: "order_faults \<Rightarrow> order_stmt \<Rightarrow> gstring \<Rightarrow> (order_db \<Rightarrow> order_db) \<Rightarrow> (order_db, go_error, unit) action" where
  "sql_exec F stmt format update = bnd (require (fault_as format (F stmt))) (\<lambda>_. change update)"

section \<open>Reading\<close>

definition find_type :: "resource_scope \<Rightarrow> order_db \<Rightarrow> type_row option" where
  "find_type s db = find (\<lambda>t. tr_class t = sc_class s \<and> tr_family t = sc_family s \<and> tr_type t = sc_type s) (odb_types db)"

definition binding_member :: "resource_scope \<Rightarrow> binding_row \<Rightarrow> order_member" where
  "binding_member s b = \<lparr>
     om_key = (if br_type_id b = None
       then \<lparr>ok_level = SourceLevelFamily, ok_source = sc_family s, ok_characteristic = br_code b\<rparr>
       else \<lparr>ok_level = SourceLevelType, ok_source = sc_type s, ok_characteristic = br_code b\<rparr>),
     om_id = br_id b, om_revision = br_revision b\<rparr>"

definition read_attribute_order_state ::
  "order_faults \<Rightarrow> bool \<Rightarrow> resource_scope \<Rightarrow> order_db \<Rightarrow> go_error + resource_catalog \<times> order_state" where
  "read_attribute_order_state F again s db =
     check (fault_as ''resolve attribute order scope: %w'' (F (ResolveScope again)))
     (case find_type s db of
        None \<Rightarrow> Inl (Sentinel (Dom ErrCatalogRecordNotFound))
      | Some t \<Rightarrow>
          let head = (case map_of (odb_heads db) (tr_id t) of Some r \<Rightarrow> r | None \<Rightarrow> 0) in
          check (F (LoadCatalog again))
          (check (fault_as ''read attribute order members: %w'' (F (ReadMembers again)))
          (check (fault_as ''read saved attribute order: %w'' (F (ReadSaved again)))
          (Inr (odb_catalog db,
             \<lparr>ost_type = tr_id t, ost_head = word_of_int head,
              ost_members = map (binding_member s) (filter (\<lambda>b. br_family_id b = tr_family_id t
                 \<and> (br_type_id b = None \<or> br_type_id b = Some (tr_id t))) (odb_bindings db)),
              ost_saved = map it_binding (sort_key it_position (filter (\<lambda>i. it_type i = tr_id t) (odb_items db)))\<rparr>)))))"

definition members_by_key :: "order_member list \<Rightarrow> (order_key, order_member) gmap" where
  "members_by_key members = foldl (\<lambda>m x. gput (om_key x) x m) [] members"

definition baseline_attribute_order_members ::
  "'d decimal_ops \<Rightarrow> resource_catalog \<Rightarrow> resource_scope \<Rightarrow> order_member list \<Rightarrow> go_error + order_member list" where
  "baseline_attribute_order_members D c s members =
     bindr (effective_attributes_for D c s []) (\<lambda>effective.
     let byKey = members_by_key members in
     if length byKey \<noteq> length members \<or> length byKey \<noteq> length effective
     then Inl (invalid ''%w: inconsistent attribute order membership'' [])
     else mapr (\<lambda>a. case map_of byKey \<lparr>ok_level = ea_source_level a, ok_source = ea_source_code a,
               ok_characteristic = ad_code (ra_definition (ea_attribute a))\<rparr> of
             Some m \<Rightarrow> Inr m
           | None \<Rightarrow> Inl (invalid ''%w: missing attribute order binding'' [])) effective)"

definition resolve_current ::
  "'d decimal_ops \<Rightarrow> (order_document \<Rightarrow> gstring) \<Rightarrow> resource_catalog \<Rightarrow> resource_scope \<Rightarrow> order_state
     \<Rightarrow> go_error + order_member list \<times> order_snapshot" where
  "resolve_current D digest c s state =
     bindr (baseline_attribute_order_members D c s (ost_members state)) (\<lambda>baseline.
     bindr (ResolveAttributeOrder digest s (state\<lparr>ost_members := baseline\<rparr>)) (\<lambda>current.
     Inr (baseline, current)))"

definition assemble_attribute_order_read ::
  "'d decimal_ops \<Rightarrow> (order_document \<Rightarrow> gstring) \<Rightarrow> resource_catalog \<Rightarrow> resource_scope \<Rightarrow> order_state
     \<Rightarrow> go_error + order_result" where
  "assemble_attribute_order_read D digest c s state =
     bindr (resolve_current D digest c s state) (\<lambda>(baseline, order). Inr (c, order))"

definition read_attribute_order_tx ::
  "'d decimal_ops \<Rightarrow> (order_document \<Rightarrow> gstring) \<Rightarrow> order_faults \<Rightarrow> bool \<Rightarrow> resource_scope \<Rightarrow> order_db
     \<Rightarrow> go_error + order_result" where
  "read_attribute_order_tx D digest F again s db =
     bindr (read_attribute_order_state F again s db) (\<lambda>(c, state). assemble_attribute_order_read D digest c s state)"

definition ReadAttributeOrder ::
  "'d decimal_ops \<Rightarrow> (order_document \<Rightarrow> gstring) \<Rightarrow> order_faults \<Rightarrow> resource_scope \<Rightarrow> order_db \<Rightarrow> go_error + order_result" where
  "ReadAttributeOrder D digest F s db =
     bindr (CanonicalAttributeOrderScope s) (\<lambda>s.
     check (F OrderContext)
     (check (fault_as ''begin attribute order read: %w'' (F OrderBegin))
     (bindr (read_attribute_order_tx D digest F False s db) (\<lambda>result.
     check (fault_as ''commit attribute order read: %w'' (F OrderCommit)) (Inr result)))))"

section \<open>Writing\<close>

definition plan_attribute_order_write ::
  "'d decimal_ops \<Rightarrow> (order_document \<Rightarrow> gstring) \<Rightarrow> resource_catalog \<Rightarrow> resource_scope \<Rightarrow> order_state \<Rightarrow> order_request
     \<Rightarrow> go_error + order_key list \<times> int list" where
  "plan_attribute_order_write D digest c s state req =
     bindr (resolve_current D digest c s state) (\<lambda>(baseline, current).
     if oreq_expected req \<noteq> osn_revision current then Inl (Sentinel (Dom ErrAttributeOrderRevisionConflict))
     else
       bindr (ValidatePermutation current (oreq_keys req)) (\<lambda>orderedKeys.
       bindr (mapr (\<lambda>m. bindr (CanonicalFor s (om_key m)) (\<lambda>k. Inr (k, om_id m))) baseline) (\<lambda>keyed.
       let byKey = foldl (\<lambda>m (k, i). gput k i m) [] keyed in
       bindr (mapr (\<lambda>k. case map_of byKey k of Some i \<Rightarrow> Inr i
               | None \<Rightarrow> Inl (invalid ''%w: unresolved attribute order key'' [])) orderedKeys) (\<lambda>orderedIDs.
       Inr (orderedKeys, orderedIDs)))))"

definition verify_attribute_order_write :: "order_key list \<Rightarrow> order_key list \<Rightarrow> go_error option" where
  "verify_attribute_order_write got want =
     (if got \<noteq> want then Some (invalid ''%w: post-write attribute order mismatch'' []) else None)"

definition clear_items :: "int \<Rightarrow> order_db \<Rightarrow> order_db" where
  "clear_items typeID db = db\<lparr>odb_items := filter (\<lambda>i. it_type i \<noteq> typeID) (odb_items db)\<rparr>"

text \<open>The upsert of the head row: a first write inserts the default revision 1; a bigint that
  cannot be incremented is an error of the statement.\<close>

definition bump_head :: "order_faults \<Rightarrow> int \<Rightarrow> (order_db, go_error, unit) action" where
  "bump_head F typeID = bnd (asks (\<lambda>db. map_of (odb_heads db) typeID)) (\<lambda>head.
     bnd (require (if head = Some (2 ^ 63 - 1)
       then fault_as ''bump attribute order head revision: %w'' (Some (ErrNew ''bigint out of range'')) else None)) (\<lambda>_.
     sql_exec F BumpHead ''bump attribute order head revision: %w''
       (\<lambda>db. db\<lparr>odb_heads := gput typeID (case head of Some r \<Rightarrow> r + 1 | None \<Rightarrow> 1) (odb_heads db)\<rparr>)))"

fun insert_items :: "order_faults \<Rightarrow> int \<Rightarrow> nat \<Rightarrow> int list \<Rightarrow> (order_db, go_error, unit) action" where
  "insert_items F typeID position [] = ret ()"
| "insert_items F typeID position (i # ids) =
     bnd (sql_exec F (InsertItem position) ''insert attribute order item: %w''
       (\<lambda>db. db\<lparr>odb_items := odb_items db @ [\<lparr>it_type = typeID, it_binding = i, it_position = int position\<rparr>]\<rparr>)) (\<lambda>_.
     insert_items F typeID (position + 1) ids)"

definition write_attribute_order_tx ::
  "'d decimal_ops \<Rightarrow> (order_document \<Rightarrow> gstring) \<Rightarrow> order_faults \<Rightarrow> resource_scope \<Rightarrow> order_request
     \<Rightarrow> (order_db, go_error, order_result) action" where
  "write_attribute_order_tx D digest F s req =
     bnd (require (fault_as ''lock attribute order target type: %w'' (F LockType))) (\<lambda>_.
     bnd (asks (find_type s)) (\<lambda>target.
     (case target of
        None \<Rightarrow> fail (Sentinel (Dom ErrCatalogRecordNotFound))
      | Some t \<Rightarrow>
          bnd (require (fault_as ''lock attribute order structural catalog: %w'' (F LockStructural))) (\<lambda>_.
          bnd (asks (read_attribute_order_state F False s)) (\<lambda>loaded.
          bnd (lift loaded) (\<lambda>(c, state).
          bnd (lift (plan_attribute_order_write D digest c s state req)) (\<lambda>(orderedKeys, orderedIDs).
          bnd (sql_exec F ClearItems ''clear attribute order items: %w'' (clear_items (tr_id t))) (\<lambda>_.
          bnd (bump_head F (tr_id t)) (\<lambda>_.
          bnd (insert_items F (tr_id t) 0 orderedIDs) (\<lambda>_.
          bnd (asks (read_attribute_order_tx D digest F True s)) (\<lambda>reread.
          bnd (lift reread) (\<lambda>result.
          bnd (require (verify_attribute_order_write (osn_keys (snd result)) orderedKeys)) (\<lambda>_.
          ret result)))))))))))))"

definition classify_attribute_order_commit_failure :: "go_error \<Rightarrow> go_error" where
  "classify_attribute_order_commit_failure e =
     Wrapf ''%w: commit attribute order write: %v'' [] [Sentinel (Dom ErrAttributeOrderUnavailable)]"

definition WriteAttributeOrder ::
  "'d decimal_ops \<Rightarrow> (order_document \<Rightarrow> gstring) \<Rightarrow> order_faults \<Rightarrow> bool \<Rightarrow> order_request
     \<Rightarrow> (order_db, go_error, order_result) action" where
  "WriteAttributeOrder D digest F applied req = (\<lambda>db.
     case CanonicalAttributeOrderScope (oreq_scope req) of Inl e \<Rightarrow> (Inl e, db) | Inr s \<Rightarrow>
     if trim_space (oreq_expected req) = []
     then (Inl (invalid ''%w: attribute order write requires an expected revision'' []), db)
     else case F OrderContext of Some e \<Rightarrow> (Inl e, db) | None \<Rightarrow>
     case fault_as ''begin attribute order write: %w'' (F OrderBegin) of Some e \<Rightarrow> (Inl e, db) | None \<Rightarrow>
     case write_attribute_order_tx D digest F s req db of
       (Inl e, _) \<Rightarrow> (Inl e, db)
     | (Inr result, written) \<Rightarrow>
         (case F OrderCommit of
            Some e \<Rightarrow> (Inl (classify_attribute_order_commit_failure e), if applied then written else db)
          | None \<Rightarrow> (Inr result, written)))"

end
