(* ===== verification/OrderStoreTheorems.thy ===== *)
theory OrderStoreTheorems
  imports OrderStore DemoCatalog
begin

text \<open>
  The properties of the attribute order: what a resolved order is, what a successful write
  leaves behind, that a failed one leaves nothing behind unless the commit itself is ambiguous,
  that a revision token has at most one winner, and that a well-formed write is accepted.
\<close>

section \<open>Resolution\<close>

text \<open>\<^verbatim>\<open>ResolveAttributeOrder\<close> returns every effective occurrence exactly once: the saved
  bindings that are still members first, in the saved order, then the others in baseline order;
  bindings deleted since and repeated preferences are ignored. It rejects, always with a
  VALIDATION error, exactly an inexact scope, an unresolved type and members that do not belong
  to the scope or repeat a key or a binding.\<close>

theorem resolve_order:
  "case ResolveAttributeOrder digest s state of
     Inr sn \<Rightarrow> \<exists>cs ordered. canonical_members (canonicalize s) (ost_members state) = Inr cs
        \<and> distinct (map om_key cs) \<and> osn_keys sn = map om_key ordered \<and> mset ordered = mset cs
        \<and> map om_id ordered = firsts (filter (\<lambda>i. i \<in> set (map om_id cs)) (ost_saved state))
             @ filter (\<lambda>i. i \<notin> set (ost_saved state)) (map om_id cs)
   | Inl e \<Rightarrow> core_code_of (Some e) = Some Validation
        \<and> (\<not> ok (CanonicalAttributeOrderScope s) \<or> ost_type state \<le> 0
           \<or> (case canonical_members (canonicalize s) (ost_members state) of Inl _ \<Rightarrow> True
              | Inr cs \<Rightarrow> \<not> distinct (map om_key cs) \<or> \<not> distinct (map om_id cs) \<or> (\<exists>c\<in>set cs. om_id c \<le> 0)))"
proof (cases "ResolveAttributeOrder digest s state")
  case (Inl e)
  then obtain f where e: "e = validation f []" using resolve_error by blast
  have "core_code_of (Some e) = Some Validation"
    by (simp add: e core_code_of_def core_map_def core_new_def validation_def wraps_simps)
  moreover have "\<not> ok (CanonicalAttributeOrderScope s) \<or> ost_type state \<le> 0
           \<or> (case canonical_members (canonicalize s) (ost_members state) of Inl _ \<Rightarrow> True
              | Inr cs \<Rightarrow> \<not> distinct (map om_key cs) \<or> \<not> distinct (map om_id cs) \<or> (\<exists>c\<in>set cs. om_id c \<le> 0))"
  proof (rule ccontr)
    assume a: "\<not> ?thesis"
    then obtain s' cs where "CanonicalAttributeOrderScope s = Inr s'" "0 < ost_type state"
      "canonical_members (canonicalize s) (ost_members state) = Inr cs" "distinct (map om_key cs)" "distinct (map om_id cs)"
      "\<forall>c\<in>set cs. 0 < om_id c"
      by (auto simp: ok_iff not_le split: sum.splits)
    from resolve_defined[OF this, of digest] Inl show False by simp
  qed
  ultimately show ?thesis using Inl by simp
next
  case (Inr sn)
  then obtain cs ordered where r: "canonical_members (canonicalize s) (ost_members state) = Inr cs" "distinct (map om_key cs)"
      "map om_id ordered = resolved_ids (ost_saved state) (map om_id cs)" "mset ordered = mset cs" "osn_keys sn = map om_key ordered"
    by (elim resolve_Inr) simp
  show ?thesis
    unfolding Inr sum.case using r(1,2,4,5) r(3)[unfolded resolved_ids_def] by blast
qed

section \<open>The write plan\<close>

definition canonical_scope :: "resource_scope \<Rightarrow> bool" where
  "canonical_scope s \<longleftrightarrow> CanonicalAttributeOrderScope s = Inr s"

lemma canonical_scope_fixed: "canonical_scope s \<Longrightarrow> canonicalize s = s"
  by (auto simp: canonical_scope_def CanonicalAttributeOrderScope_def Let_def split: if_splits)

lemma canonical_scope_result: "CanonicalAttributeOrderScope s = Inr s' \<Longrightarrow> canonical_scope s' \<and> s' = canonicalize s"
  by (auto simp: canonical_scope_def CanonicalAttributeOrderScope_def Let_def split: if_splits)

lemma resolve_current_Inr:
  assumes "resolve_current D digest c s state = Inr (baseline, sn)" "canonical_scope s"
  obtains cs ordered where "baseline_attribute_order_members D c s (ost_members state) = Inr baseline"
    "0 < ost_type state" "canonical_members s baseline = Inr cs" "distinct (map om_key cs)" "distinct (map om_id cs)"
    "\<forall>c\<in>set cs. 0 < om_id c" "map om_id ordered = resolved_ids (ost_saved state) (map om_id cs)" "mset ordered = mset cs"
    "osn_scope sn = s" "osn_keys sn = map om_key ordered" "osn_revision sn = digest \<lparr>odoc_scope = s,
       odoc_type = ost_type state, odoc_head = ost_head state, odoc_members = ordered\<rparr>"
proof -
  have b: "baseline_attribute_order_members D c s (ost_members state) = Inr baseline"
      "ResolveAttributeOrder digest s (state\<lparr>ost_members := baseline\<rparr>) = Inr sn"
    using assms(1) by (auto simp: resolve_current_def bindr_Inr_iff)
  from b(2) show thesis
    by (rule resolve_Inr) (use that b(1) in \<open>simp add: canonical_scope_fixed[OF assms(2)]\<close>)
qed

lemma resolve_current_saved:
  assumes "resolve_current D digest c s state = Inr (baseline, sn)" "canonical_scope s"
    "canonical_members s baseline = Inr cs" "distinct ids" "set ids = set (map om_id cs)"
  shows "\<exists>sn'. resolve_current D digest c s (state\<lparr>ost_head := head, ost_saved := ids\<rparr>) = Inr (baseline, sn')
    \<and> (\<forall>ordered. mset ordered = mset cs \<longrightarrow> map om_id ordered = ids \<longrightarrow> osn_keys sn' = map om_key ordered)"
proof -
  from resolve_current_Inr[OF assms(1,2)] assms(3) obtain
    b: "baseline_attribute_order_members D c s (ost_members state) = Inr baseline" "0 < ost_type state"
      "distinct (map om_key cs)" "distinct (map om_id cs)" "\<forall>c\<in>set cs. 0 < om_id c"
    by (metis sum.inject(2))
  let ?state = "state\<lparr>ost_head := head, ost_saved := ids\<rparr>\<lparr>ost_members := baseline\<rparr>"
  obtain sn' where sn': "ResolveAttributeOrder digest s ?state = Inr sn'"
    using resolve_defined[of s s ?state cs digest] assms(2,3) b canonical_scope_fixed[OF assms(2)]
    by (auto simp: canonical_scope_def)
  then obtain ordered where o: "map om_id ordered = ids" "mset ordered = mset cs" "osn_keys sn' = map om_key ordered"
    by (rule resolve_Inr)
      (use assms(3-5) b(4) canonical_scope_fixed[OF assms(2)] in \<open>simp add: resolved_ids_permutation\<close>)
  have "ordered' = ordered" if "mset ordered' = mset cs" "map om_id ordered' = ids" for ordered'
  proof -
    have "inj_on om_id (set cs)" using b(4) by (simp add: distinct_map)
    moreover have "set ordered' = set cs" "set ordered = set cs" using that(1) o(2) by (auto dest: mset_eq_setD)
    ultimately show ?thesis
      using that(2) o(1) by (intro map_inj_on[of om_id]) auto
  qed
  moreover have "resolve_current D digest c s (state\<lparr>ost_head := head, ost_saved := ids\<rparr>) = Inr (baseline, sn')"
    using b(1) sn' by (simp add: resolve_current_def)
  ultimately show ?thesis using o(3) by blast
qed

lemma keyed_members:
  "mapr (\<lambda>m. bindr (CanonicalFor s (om_key m)) (\<lambda>k. Inr (k, om_id m))) ms =
     bindr (canonical_members s ms) (\<lambda>cs. Inr (map (\<lambda>c. (om_key c, om_id c)) cs))"
proof (induction ms)
  case (Cons m ms)
  then show ?case by (cases "CanonicalFor s (om_key m)") (auto simp: canonical_members_Cons bindr_def split: sum.splits)
qed (simp add: canonical_members_def)

lemma foldl_gput: "map_of (foldl (\<lambda>m (k, i). gput k i m) acc kis) = map_of acc ++ map_of (rev kis)"
  by (induction kis arbitrary: acc) (auto simp: fun_eq_iff map_add_def split: option.splits prod.splits)

lemma mset_map_inv: "mset ys = image_mset f M \<Longrightarrow> \<exists>xs. ys = map f xs \<and> mset xs = M"
proof (induction ys arbitrary: M)
  case (Cons y ys)
  then obtain M' x where "M = add_mset x M'" "f x = y" "image_mset f M' = mset ys"
    by (metis mset.simps(2) msed_map_invR)
  with Cons.IH[of M'] show ?case by (metis list.simps(9) mset.simps(2))
qed simp

lemma plan_Inr:
  assumes "plan_attribute_order_write D digest c s state req = Inr (ks, ids)" "canonical_scope s"
  obtains baseline sn cs ordered where "resolve_current D digest c s state = Inr (baseline, sn)"
    "oreq_expected req = osn_revision sn" "canonical_members s baseline = Inr cs"
    "mapr (CanonicalFor s) (oreq_keys req) = Inr ks" "mset ks = mset (osn_keys sn)"
    "mset ordered = mset cs" "ks = map om_key ordered" "ids = map om_id ordered" "distinct ids"
proof -
  obtain baseline sn where rc: "resolve_current D digest c s state = Inr (baseline, sn)"
    using assms(1) by (auto simp: plan_attribute_order_write_def bindr_Inr_iff)
  from rc assms(2) obtain cs ord where cs: "canonical_members s baseline = Inr cs" "distinct (map om_key cs)"
      "distinct (map om_id cs)" "osn_scope sn = s" "mset ord = mset cs" "osn_keys sn = map om_key ord"
    by (rule resolve_current_Inr)
  let ?byKey = "foldl (\<lambda>m (k, i). gput k i m) [] (map (\<lambda>c. (om_key c, om_id c)) cs)"
  let ?look = "\<lambda>k. case map_of ?byKey k of Some i \<Rightarrow> Inr i | None \<Rightarrow> Inl (invalid ''%w: unresolved attribute order key'' [])"
  have p: "oreq_expected req = osn_revision sn" "ValidatePermutation sn (oreq_keys req) = Inr ks" "mapr ?look ks = Inr ids"
    using assms(1) by (auto simp: plan_attribute_order_write_def rc keyed_members cs(1) bindr_Inr_iff Let_def split: if_splits)
  have dk: "distinct (osn_keys sn)"
    using cs(2,5,6) by (metis mset_eq_imp_distinct_iff mset_map)
  have v: "mapr (CanonicalFor s) (oreq_keys req) = Inr ks" "mset ks = mset (osn_keys sn)"
    using validate_permutation_iff[OF dk] p(2) cs(4) by auto
  have at: "map_of ?byKey (om_key m) = Some (om_id m)" if "m \<in> set cs" for m
  proof -
    have "distinct (map fst (rev (map (\<lambda>c. (om_key c, om_id c)) cs)))" using cs(2) by (simp add: o_def flip: rev_map)
    then show ?thesis using that unfolding foldl_gput by (simp add: map_of_is_SomeI)
  qed
  obtain ordered where o: "mset ordered = mset cs" "ks = map om_key ordered"
    using mset_map_inv[of ks om_key "mset ord"] v(2) cs(5,6) by auto
  have "ids = map om_id ordered"
  proof -
    have "mapr ?look (map om_key ordered) = Inr (map om_id ordered)"
      unfolding mapr_Inr_iff list_all2_map1 list_all2_map2
      using at mset_eq_setD[OF o(1)] by (auto simp: list_all2_same)
    then show ?thesis using p(3) o(2) by simp
  qed
  moreover have "distinct ids" using \<open>ids = map om_id ordered\<close> o(1) cs(3) by (metis mset_eq_imp_distinct_iff mset_map)
  ultimately show thesis using that rc p(1) cs(1) v o by blast
qed

section \<open>The state after a write\<close>

definition written_items :: "int \<Rightarrow> nat \<Rightarrow> int list \<Rightarrow> item_row list" where
  "written_items typeID position ids =
     map (\<lambda>(p, i). \<lparr>it_type = typeID, it_binding = i, it_position = int p\<rparr>) (enumerate position ids)"

definition head_of :: "order_db \<Rightarrow> int \<Rightarrow> int" where
  "head_of db typeID = (case map_of (odb_heads db) typeID of Some r \<Rightarrow> r | None \<Rightarrow> 0)"

definition written :: "int \<Rightarrow> int list \<Rightarrow> order_db \<Rightarrow> order_db" where
  "written typeID ids db = db\<lparr>odb_items := filter (\<lambda>i. it_type i \<noteq> typeID) (odb_items db) @ written_items typeID 0 ids,
     odb_heads := gput typeID (head_of db typeID + 1) (odb_heads db)\<rparr>"

lemma sql_exec_Inr: "sql_exec F stmt f u s = (Inr x, t) \<longleftrightarrow> F stmt = None \<and> t = u s"
  by (cases "F stmt") (auto simp: sql_exec_def fault_as_def bnd_require)

lemma insert_items_Inr:
  "insert_items F typeID position ids s = (Inr x, t) \<Longrightarrow> t = s\<lparr>odb_items := odb_items s @ written_items typeID position ids\<rparr>"
proof (induction ids arbitrary: position s)
  case (Cons i ids)
  then obtain s' where "s' = s\<lparr>odb_items := odb_items s @ [\<lparr>it_type = typeID, it_binding = i, it_position = int position\<rparr>]\<rparr>"
    "insert_items F typeID (position + 1) ids s' = (Inr x, t)"
    by (auto simp: bnd_Inr sql_exec_Inr)
  with Cons.IH[of "position + 1" s'] show ?case by (simp add: written_items_def)
qed (simp add: written_items_def)

lemma insert_items_ok: "(\<And>p. F (InsertItem p) = None) \<Longrightarrow>
  insert_items F typeID position ids s = (Inr (), s\<lparr>odb_items := odb_items s @ written_items typeID position ids\<rparr>)"
  by (induction ids arbitrary: position s) (auto simp: written_items_def bnd_def sql_exec_def fault_as_def bnd_require ret_def)

lemma bump_head_Inr:
  "bump_head F typeID s = (Inr x, t) \<Longrightarrow> F BumpHead = None \<and> map_of (odb_heads s) typeID \<noteq> Some (2 ^ 63 - 1)
     \<and> t = s\<lparr>odb_heads := gput typeID (head_of s typeID + 1) (odb_heads s)\<rparr>"
  by (auto simp: bump_head_def bnd_require fault_as_def bnd_Inr sql_exec_Inr head_of_def split: if_splits option.splits)

lemma saved_written:
  "map it_binding (sort_key it_position (filter (\<lambda>i. it_type i = typeID) (odb_items (written typeID ids db)))) = ids"
proof -
  have "sorted (map it_position (written_items typeID n ids))" for n
    by (auto simp: written_items_def sorted_iff_nth_mono nth_enumerate_eq)
  then have "sort_key it_position (written_items typeID 0 ids) = written_items typeID 0 ids"
    by (intro sort_key_id_if_sorted)
  moreover have "filter (\<lambda>i. it_type i = typeID) (written_items typeID 0 ids) = written_items typeID 0 ids"
    by (auto simp: written_items_def filter_id_conv)
  moreover have "map it_binding (written_items typeID 0 ids) = ids"
    by (simp add: written_items_def o_def case_prod_unfold)
  ultimately show ?thesis by (simp add: written_def)
qed

lemma find_type_written [simp]: "find_type s (written typeID ids db) = find_type s db"
  by (simp add: find_type_def written_def)

lemma read_state_written:
  assumes "read_attribute_order_state F again s db = Inr (c, state)" "find_type s db = Some t"
    "read_attribute_order_state F' again' s (written (tr_id t) ids db) = Inr r"
  shows "r = (c, state\<lparr>ost_head := word_of_int (head_of db (tr_id t) + 1), ost_saved := ids\<rparr>)"
  using assms by (auto simp: read_attribute_order_state_def check_Inr_iff saved_written) (simp_all add: written_def)

lemma read_state_facts:
  assumes "read_attribute_order_state F again s db = Inr (c, state)" "find_type s db = Some t"
  shows "ost_type state = tr_id t \<and> ost_head state = word_of_int (head_of db (tr_id t))
    \<and> read_attribute_order_state (\<lambda>_. None) again' s db = Inr (c, state)"
  using assms by (auto simp: read_attribute_order_state_def head_of_def check_Inr_iff fault_as_def)

lemma read_state_defined: "find_type s db = Some t \<Longrightarrow> \<exists>c state. read_attribute_order_state (\<lambda>_. None) again s db = Inr (c, state)"
  by (auto simp: read_attribute_order_state_def fault_as_def)

text \<open>What the transaction has done when it reaches its commit.\<close>

lemma write_tx_Inr:
  assumes "write_attribute_order_tx D digest F s req db = (Inr res, db')"
  obtains t c state ks ids where "find_type s db = Some t" "read_attribute_order_state F False s db = Inr (c, state)"
    "plan_attribute_order_write D digest c s state req = Inr (ks, ids)" "db' = written (tr_id t) ids db"
    "read_attribute_order_tx D digest F True s db' = Inr res" "osn_keys (snd res) = ks"
proof -
  obtain t where t: "find_type s db = Some t"
    using assms by (auto simp: write_attribute_order_tx_def bnd_require split: option.splits)
  obtain c state where st: "read_attribute_order_state F False s db = Inr (c, state)"
    using assms t by (auto simp: write_attribute_order_tx_def bnd_require bnd_lift split: option.splits sum.splits)
  obtain ks ids where p: "plan_attribute_order_write D digest c s state req = Inr (ks, ids)"
    using assms t st by (auto simp: write_attribute_order_tx_def bnd_require bnd_lift split: option.splits sum.splits)
  have "bnd (sql_exec F ClearItems ''clear attribute order items: %w'' (clear_items (tr_id t))) (\<lambda>_.
          bnd (bump_head F (tr_id t)) (\<lambda>_.
          bnd (insert_items F (tr_id t) 0 ids) (\<lambda>_.
          bnd (asks (read_attribute_order_tx D digest F True s)) (\<lambda>reread.
          bnd (lift reread) (\<lambda>result.
          bnd (require (verify_attribute_order_write (osn_keys (snd result)) ks)) (\<lambda>_.
          ret result)))))) db = (Inr res, db')"
    using assms t st by (simp add: write_attribute_order_tx_def bnd_require bnd_lift p split: option.splits)
  then obtain d where d: "insert_items F (tr_id t) 0 ids
        ((clear_items (tr_id t) db)\<lparr>odb_heads := gput (tr_id t) (head_of (clear_items (tr_id t) db) (tr_id t) + 1) (odb_heads (clear_items (tr_id t) db))\<rparr>) = (Inr (), d)"
      "bnd (lift (read_attribute_order_tx D digest F True s d)) (\<lambda>result.
          bnd (require (verify_attribute_order_write (osn_keys (snd result)) ks)) (\<lambda>_. ret result)) d = (Inr res, db')"
    by (auto simp: bnd_Inr sql_exec_Inr dest!: bump_head_Inr)
  have "d = written (tr_id t) ids db"
    using insert_items_Inr[OF d(1)] by (simp add: written_def clear_items_def head_of_def)
  moreover have "db' = d \<and> read_attribute_order_tx D digest F True s d = Inr res \<and> osn_keys (snd res) = ks"
    using d(2) by (auto simp: bnd_lift bnd_require ret_def verify_attribute_order_write_def split: sum.splits if_splits)
  ultimately show thesis using that t st p by blast
qed

lemma read_state_fault_free:
  "read_attribute_order_state F again s db = Inr r \<Longrightarrow> read_attribute_order_state (\<lambda>_. None) again' s db = Inr r"
  by (cases "find_type s db") (simp_all add: read_attribute_order_state_def fault_as_def check_Inr_iff)

lemma read_tx_fault_free:
  "read_attribute_order_tx D digest F again s db = Inr r \<Longrightarrow> read_attribute_order_tx D digest (\<lambda>_. None) again' s db = Inr r"
  unfolding read_attribute_order_tx_def bindr_Inr_iff using read_state_fault_free by blast

lemma read_order_fault_free:
  "CanonicalAttributeOrderScope s0 = Inr s \<Longrightarrow>
   ReadAttributeOrder D digest (\<lambda>_. None) s0 db = Inr r \<longleftrightarrow> read_attribute_order_tx D digest (\<lambda>_. None) False s db = Inr r"
  by (auto simp: ReadAttributeOrder_def fault_as_def bindr_Inr_iff)

lemma write_order_cases:
  assumes "WriteAttributeOrder D digest F applied req db = (r, db')"
  obtains (rejected) e where "r = Inl e" "db' = db"
  | (ambiguous) e where "r = Inl (classify_attribute_order_commit_failure e)" "applied" "F OrderCommit = Some e"
  | (accepted) res s where "r = Inr res" "CanonicalAttributeOrderScope (oreq_scope req) = Inr s"
      "write_attribute_order_tx D digest F s req db = (Inr res, db')"
  using assms unfolding WriteAttributeOrder_def
  by (auto split: sum.splits if_splits option.splits prod.splits)

lemma written_frame:
  "odb_types (written T ids db) = odb_types db \<and> odb_bindings (written T ids db) = odb_bindings db
   \<and> odb_catalog (written T ids db) = odb_catalog db
   \<and> filter (\<lambda>i. it_type i \<noteq> T) (odb_items (written T ids db)) = filter (\<lambda>i. it_type i \<noteq> T) (odb_items db)
   \<and> map_of (odb_heads (written T ids db)) = (map_of (odb_heads db))(T \<mapsto> head_of db T + 1)"
proof -
  have "filter (\<lambda>i. it_type i \<noteq> T) (written_items T 0 ids) = []"
    by (auto simp: written_items_def filter_empty_conv)
  then show ?thesis by (simp add: written_def)
qed

section \<open>Inputs of the witnesses\<close>

definition demo_order_db :: order_db where
  "demo_order_db = \<lparr>odb_types = [\<lparr>tr_class = ''C'', tr_family = ''F'', tr_type = ''T'', tr_id = 9, tr_family_id = 5\<rparr>],
     odb_bindings = [\<lparr>br_id = 11, br_revision = 1, br_family_id = 5, br_type_id = None, br_code = ''color''\<rparr>,
       \<lparr>br_id = 12, br_revision = 1, br_family_id = 5, br_type_id = None, br_code = ''tono''\<rparr>,
       \<lparr>br_id = 13, br_revision = 2, br_family_id = 5, br_type_id = None, br_code = ''nota''\<rparr>],
     odb_heads = [], odb_items = [\<lparr>it_type = 3, it_binding = 11, it_position = 0\<rparr>], odb_catalog = demo_catalog\<rparr>"

definition demo_order_state :: order_state where
  "demo_order_state = \<lparr>ost_type = 9, ost_head = 1, ost_members = [
     \<lparr>om_key = \<lparr>ok_level = ''family'', ok_source = ''F'', ok_characteristic = ''Color''\<rparr>, om_id = 11, om_revision = 1\<rparr>,
     \<lparr>om_key = \<lparr>ok_level = ''family'', ok_source = ''F'', ok_characteristic = ''nota''\<rparr>, om_id = 13, om_revision = 1\<rparr>],
     ost_saved = [13, 99]\<rparr>"

definition demo_digest :: "order_document \<Rightarrow> gstring" where
  "demo_digest d = show_nat (if odoc_type d < 0 then 2 * nat (- odoc_type d) + 1 else 2 * nat (odoc_type d)) @ '':'' @ show_nat (unat (odoc_head d))"

definition demo_order_keys :: "order_key list" where
  "demo_order_keys = map (\<lambda>x. \<lparr>ok_level = '' family'', ok_source = ''F'', ok_characteristic = x\<rparr>) [''Nota'', ''COLOR'', ''tono'']"

definition demo_order_request :: order_request where
  "demo_order_request = \<lparr>oreq_scope = demo_scope, oreq_expected = ''18:0'', oreq_keys = demo_order_keys\<rparr>"

definition demo_before :: order_result where
  "demo_before = (case ReadAttributeOrder unit_decimals demo_digest (\<lambda>_. None) demo_scope demo_order_db of Inr r \<Rightarrow> r)"

definition demo_after :: "(go_error + order_result) \<times> order_db" where
  "demo_after = WriteAttributeOrder unit_decimals demo_digest (\<lambda>_. None) False demo_order_request demo_order_db"

lemma demo_read: "ReadAttributeOrder unit_decimals demo_digest (\<lambda>_. None) demo_scope demo_order_db = Inr demo_before"
proof -
  have "ok (ReadAttributeOrder unit_decimals demo_digest (\<lambda>_. None) demo_scope demo_order_db)" by code_simp
  then show ?thesis unfolding demo_before_def by (auto simp: ok_iff)
qed

lemma demo_written: "\<exists>c order. demo_after = (Inr (c, order), snd demo_after) \<and> map ok_characteristic (osn_keys order) = [''nota'', ''color'', ''tono'']"
proof -
  have "case fst demo_after of Inr (c, order) \<Rightarrow> map ok_characteristic (osn_keys order) = [''nota'', ''color'', ''tono''] | Inl _ \<Rightarrow> False"
    by code_simp
  then show ?thesis by (auto simp: prod_eq_iff split: sum.splits)
qed

lemma demo_digest_separates: "\<forall>d d'. demo_digest d = demo_digest d' \<longrightarrow> odoc_type d = odoc_type d' \<and> odoc_head d = odoc_head d'"
proof (intro allI impI)
  fix d d'
  let ?t = "\<lambda>d. if odoc_type d < 0 then 2 * nat (- odoc_type d) + 1 else 2 * nat (odoc_type d)"
  assume "demo_digest d = demo_digest d'"
  then have "split_at (CHR '':'') (demo_digest d) = split_at (CHR '':'') (demo_digest d')" by simp
  then have *: "?t d = ?t d'" "unat (odoc_head d) = unat (odoc_head d')"
    unfolding demo_digest_def append_Cons append_Nil
    by (simp_all add: split_at_append split_at_no_sep colon_not_digit show_nat_inj)
  moreover have "2 * a \<noteq> Suc (2 * b)" for a b :: nat by presburger
  ultimately have "odoc_type d = odoc_type d'"
    by (auto split: if_splits) metis
  with *(2) show "odoc_type d = odoc_type d' \<and> odoc_head d = odoc_head d'" by (simp add: word_unat_eq_iff)
qed

section \<open>Writing\<close>

text \<open>C11: the compare-and-swap write of an order. A successful write had the revision token a
  fresh read returns, stored exactly the requested permutation of the current occurrences, and
  the next read returns it; of the database only the items and the head revision of that one
  type change, the head by one. A failed write changes nothing, unless the commit itself failed
  and took effect all the same, which is reported as UNAVAILABLE.\<close>

theorem attribute_order_write:
  assumes "WriteAttributeOrder D digest F applied req db = (r, db')"
  shows "case r of
     Inl e \<Rightarrow> db' = db \<or> applied \<and> F OrderCommit \<noteq> None \<and> core_code_of (Some e) = Some Unavailable
   | Inr (c, order) \<Rightarrow> \<exists>before t.
        ReadAttributeOrder D digest (\<lambda>_. None) (oreq_scope req) db = Inr (c, before)
        \<and> oreq_expected req = osn_revision before
        \<and> mapr (CanonicalFor (canonicalize (oreq_scope req))) (oreq_keys req) = Inr (osn_keys order)
        \<and> mset (osn_keys order) = mset (osn_keys before)
        \<and> ReadAttributeOrder D digest (\<lambda>_. None) (oreq_scope req) db' = Inr (c, order)
        \<and> find_type (canonicalize (oreq_scope req)) db = Some t
        \<and> odb_types db' = odb_types db \<and> odb_bindings db' = odb_bindings db \<and> odb_catalog db' = odb_catalog db
        \<and> filter (\<lambda>i. it_type i \<noteq> tr_id t) (odb_items db') = filter (\<lambda>i. it_type i \<noteq> tr_id t) (odb_items db)
        \<and> map_of (odb_heads db') = (map_of (odb_heads db))(tr_id t \<mapsto> head_of db (tr_id t) + 1)"
  using assms
proof (cases rule: write_order_cases)
  case (rejected e)
  then show ?thesis by simp
next
  case (ambiguous e)
  then show ?thesis
    by (simp add: classify_attribute_order_commit_failure_def core_code_of_def core_map_def core_new_def wraps_simps)
next
  case (accepted res s)
  have s: "canonical_scope s" "s = canonicalize (oreq_scope req)" using canonical_scope_result[OF accepted(2)] by auto
  from accepted(3) obtain t c state ks ids where w: "find_type s db = Some t"
      "read_attribute_order_state F False s db = Inr (c, state)"
      "plan_attribute_order_write D digest c s state req = Inr (ks, ids)" "db' = written (tr_id t) ids db"
      "read_attribute_order_tx D digest F True s db' = Inr res" "osn_keys (snd res) = ks"
    by (rule write_tx_Inr)
  from w(3) s(1) obtain baseline sn where p: "resolve_current D digest c s state = Inr (baseline, sn)"
      "oreq_expected req = osn_revision sn" "mapr (CanonicalFor s) (oreq_keys req) = Inr ks" "mset ks = mset (osn_keys sn)"
    by (rule plan_Inr)
  have before: "ReadAttributeOrder D digest (\<lambda>_. None) (oreq_scope req) db = Inr (c, sn)"
    unfolding read_order_fault_free[OF accepted(2)] read_attribute_order_tx_def
    using read_state_fault_free[OF w(2), of False] p(1) by (simp add: assemble_attribute_order_read_def)
  have after: "ReadAttributeOrder D digest (\<lambda>_. None) (oreq_scope req) db' = Inr res"
    unfolding read_order_fault_free[OF accepted(2)] by (rule read_tx_fault_free[OF w(5)])
  obtain order where res: "res = (c, order)"
  proof -
    obtain c' state' where "read_attribute_order_state F True s db' = Inr (c', state')"
        "assemble_attribute_order_read D digest c' s state' = Inr res"
      using w(5) by (auto simp: read_attribute_order_tx_def bindr_Inr_iff)
    moreover from this(1) have "c' = c" using read_state_written[OF w(2,1)] unfolding w(4) by blast
    ultimately show thesis using that by (auto simp: assemble_attribute_order_read_def bindr_Inr_iff)
  qed
  show ?thesis
    unfolding accepted(1) res sum.case prod.case
  proof (intro exI conjI)
    show "ReadAttributeOrder D digest (\<lambda>_. None) (oreq_scope req) db = Inr (c, sn)" by (rule before)
    show "ReadAttributeOrder D digest (\<lambda>_. None) (oreq_scope req) db' = Inr (c, order)" using after res by simp
    show "find_type (canonicalize (oreq_scope req)) db = Some t" using w(1) s(2) by simp
  qed (use p w(6) res s(2) written_frame[of "tr_id t" ids db] w(4) in simp_all)
qed

theorem attribute_order_write_witness:
  "\<exists>c order before. demo_after = (Inr (c, order), snd demo_after)
    \<and> ReadAttributeOrder unit_decimals demo_digest (\<lambda>_. None) demo_scope demo_order_db = Inr (c, before)
    \<and> ReadAttributeOrder unit_decimals demo_digest (\<lambda>_. None) demo_scope (snd demo_after) = Inr (c, order)
    \<and> mset (osn_keys order) = mset (osn_keys before)"
proof -
  obtain c order where w: "demo_after = (Inr (c, order), snd demo_after)" using demo_written by blast
  from attribute_order_write[OF w[unfolded demo_after_def]] show ?thesis
    using w unfolding demo_after_def by (auto simp: demo_order_request_def)
qed

text \<open>One token, one winner: after a successful write no request that carries the same
  expected revision can succeed or change the database, whatever scope it names, provided the
  digest separates documents of different types or head revisions.\<close>

theorem attribute_order_one_winner:
  assumes "WriteAttributeOrder D digest F applied req db = (Inr res, db')"
    and "oreq_expected req' = oreq_expected req"
    and "\<forall>d d'. digest d = digest d' \<longrightarrow> odoc_type d = odoc_type d' \<and> odoc_head d = odoc_head d'"
  shows "\<exists>e. WriteAttributeOrder D digest F' applied' req' db' = (Inl e, db')"
proof -
  have doc: "\<exists>t d. find_type s db = Some t \<and> oreq_expected req = digest d \<and> odoc_type d = tr_id t
      \<and> odoc_head d = word_of_int (head_of db (tr_id t))"
    if tx: "write_attribute_order_tx D digest F s req db = (Inr res, db')" and s: "canonical_scope s"
    for F s req db res db'
  proof -
    from tx obtain t c state ks ids where w: "find_type s db = Some t"
        "read_attribute_order_state F False s db = Inr (c, state)"
        "plan_attribute_order_write D digest c s state req = Inr (ks, ids)"
      by (rule write_tx_Inr)
    from w(3) s obtain baseline sn where p: "resolve_current D digest c s state = Inr (baseline, sn)"
        "oreq_expected req = osn_revision sn" by (rule plan_Inr)
    from p(1) s obtain ordered where "osn_revision sn = digest \<lparr>odoc_scope = s, odoc_type = ost_type state,
        odoc_head = ost_head state, odoc_members = ordered\<rparr>" by (rule resolve_current_Inr)
    then show ?thesis using w(1) p(2) read_state_facts[OF w(2,1), of False] by force
  qed
  from assms(1) obtain s where s: "CanonicalAttributeOrderScope (oreq_scope req) = Inr s"
      "write_attribute_order_tx D digest F s req db = (Inr res, db')"
    by (cases rule: write_order_cases) auto
  obtain t d where d: "oreq_expected req = digest d" "odoc_type d = tr_id t"
      "odoc_head d = word_of_int (head_of db (tr_id t))" "find_type s db = Some t"
    using doc[OF s(2)] canonical_scope_result[OF s(1)] by blast
  have head: "head_of db' (tr_id t) = head_of db (tr_id t) + 1"
    using s(2) by (rule write_tx_Inr) (use d(4) in \<open>simp add: written_def head_of_def\<close>)
  have no: "write_attribute_order_tx D digest F' s' req' db' \<noteq> (Inr res', db'')" if "canonical_scope s'" for s' res' db''
  proof
    assume "write_attribute_order_tx D digest F' s' req' db' = (Inr res', db'')"
    from doc[OF this that] obtain t' :: type_row and d' where d': "oreq_expected req' = digest d'" "odoc_type d' = tr_id t'"
        "odoc_head d' = word_of_int (head_of db' (tr_id t'))" by auto
    have "odoc_type d = odoc_type d'" "odoc_head d = odoc_head d'" using assms(2,3) d(1) d'(1) by metis+
    then have "(word_of_int (head_of db (tr_id t)) :: revision) = word_of_int (head_of db (tr_id t) + 1)"
      using d d' head by simp
    then show False by simp
  qed
  show ?thesis
  proof (cases "CanonicalAttributeOrderScope (oreq_scope req')")
    case (Inr s')
    then have "canonical_scope s'" using canonical_scope_result by blast
    then obtain e x where "write_attribute_order_tx D digest F' s' req' db' = (Inl e, x)"
      using no by (metis old.sum.exhaust surj_pair)
    then show ?thesis using Inr by (auto simp: WriteAttributeOrder_def split: option.splits)
  qed (simp add: WriteAttributeOrder_def)
qed

theorem attribute_order_one_winner_witness:
  "\<exists>e. WriteAttributeOrder unit_decimals demo_digest (\<lambda>_. None) True (demo_order_request\<lparr>oreq_keys := []\<rparr>) (snd demo_after)
     = (Inl e, snd demo_after)"
proof -
  obtain c order where "demo_after = (Inr (c, order), snd demo_after)" using demo_written by blast
  then have "WriteAttributeOrder unit_decimals demo_digest (\<lambda>_. None) False demo_order_request demo_order_db
      = (Inr (c, order), snd demo_after)" unfolding demo_after_def .
  then show ?thesis
    by (rule attribute_order_one_winner[OF _ _ demo_digest_separates])
      (simp add: demo_order_request_def)
qed

text \<open>C34: A well-formed write is accepted: with a reachable database, the token of the last read
  and any permutation of the keys it returned, the write succeeds, stores that permutation and
  the final re-read verification cannot fail.\<close>

theorem attribute_order_write_accepts:
  assumes "ReadAttributeOrder D digest (\<lambda>_. None) (oreq_scope req) db = Inr (c, before)"
    and "oreq_expected req = osn_revision before" "trim_space (oreq_expected req) \<noteq> []"
    and "mapr (CanonicalFor (canonicalize (oreq_scope req))) (oreq_keys req) = Inr ks" "mset ks = mset (osn_keys before)"
    and "\<forall>t. find_type (canonicalize (oreq_scope req)) db = Some t \<longrightarrow> map_of (odb_heads db) (tr_id t) \<noteq> Some (2 ^ 63 - 1)"
  shows "\<exists>order db'. WriteAttributeOrder D digest (\<lambda>_. None) applied req db = (Inr (c, order), db') \<and> osn_keys order = ks"
proof -
  let ?F = "\<lambda>_. None" let ?s = "canonicalize (oreq_scope req)"
  have sc: "CanonicalAttributeOrderScope (oreq_scope req) = Inr ?s" "canonical_scope ?s"
    using assms(1) by (auto simp: ReadAttributeOrder_def bindr_Inr_iff dest: canonical_scope_result)
  have rd: "read_attribute_order_tx D digest ?F False ?s db = Inr (c, before)"
    unfolding read_order_fault_free[OF sc(1), symmetric] by (rule assms(1))
  then obtain state baseline where st: "read_attribute_order_state ?F False ?s db = Inr (c, state)"
      "resolve_current D digest c ?s state = Inr (baseline, before)"
    by (auto simp: read_attribute_order_tx_def assemble_attribute_order_read_def bindr_Inr_iff)
  from st(2) sc(2) obtain cs ord where cs: "canonical_members ?s baseline = Inr cs" "distinct (map om_key cs)"
      "distinct (map om_id cs)" "mset ord = mset cs" "osn_keys before = map om_key ord" "osn_scope before = ?s"
    by (rule resolve_current_Inr)
  obtain ordered where o: "mset ordered = mset cs" "ks = map om_key ordered"
    using mset_map_inv[of ks om_key "mset ord"] assms(5) cs(4,5) by auto
  let ?ids = "map om_id ordered"
  have ids: "distinct ?ids" "set ?ids = set (map om_id cs)"
    using o(1) cs(3) by (metis mset_eq_imp_distinct_iff mset_map) (metis o(1) mset_eq_setD list.set_map)
  have plan: "plan_attribute_order_write D digest c ?s state req = Inr (ks, ?ids)"
  proof -
    let ?byKey = "foldl (\<lambda>m (k, i). gput k i m) [] (map (\<lambda>c. (om_key c, om_id c)) cs)"
    let ?look = "\<lambda>k. case map_of ?byKey k of Some i \<Rightarrow> Inr i | None \<Rightarrow> Inl (invalid ''%w: unresolved attribute order key'' [])"
    have at: "map_of ?byKey (om_key m) = Some (om_id m)" if "m \<in> set cs" for m
    proof -
      have "distinct (map fst (rev (map (\<lambda>c. (om_key c, om_id c)) cs)))" using cs(2) by (simp add: o_def flip: rev_map)
      then show ?thesis using that unfolding foldl_gput by (simp add: map_of_is_SomeI)
    qed
    have "mapr ?look (map om_key ordered) = Inr ?ids"
      unfolding mapr_Inr_iff list_all2_map1 list_all2_map2
      using at mset_eq_setD[OF o(1)] by (auto simp: list_all2_same)
    moreover have "ValidatePermutation before (oreq_keys req) = Inr ks"
    proof -
      have "distinct (osn_keys before)" using cs(2,4,5) by (metis mset_eq_imp_distinct_iff mset_map)
      then show ?thesis using validate_permutation_iff assms(4,5) cs(6) by simp
    qed
    ultimately show ?thesis
      using o(2) by (simp add: plan_attribute_order_write_def st(2) assms(2) keyed_members cs(1))
  qed
  obtain t where t: "find_type ?s db = Some t"
    using st(1) by (auto simp: read_attribute_order_state_def check_Inr_iff split: option.splits)
  let ?db = "written (tr_id t) ?ids db"
  obtain c' state' where st': "read_attribute_order_state ?F True ?s ?db = Inr (c', state')"
    using read_state_defined[of ?s ?db t True] t by auto
  have st'': "c' = c" "state' = state\<lparr>ost_head := word_of_int (head_of db (tr_id t) + 1), ost_saved := ?ids\<rparr>"
    using read_state_written[OF st(1) t st'] by simp_all
  obtain order where order: "resolve_current D digest c ?s state' = Inr (baseline, order)" "osn_keys order = ks"
    using resolve_current_saved[OF st(2) sc(2) cs(1) ids, of "word_of_int (head_of db (tr_id t) + 1)"] o st''(2) by auto
  have reread: "read_attribute_order_tx D digest ?F True ?s ?db = Inr (c, order)"
    using st' st''(1) order(1) by (simp add: read_attribute_order_tx_def assemble_attribute_order_read_def)
  have head: "bump_head ?F (tr_id t) (clear_items (tr_id t) db)
      = (Inr (), (clear_items (tr_id t) db)\<lparr>odb_heads := gput (tr_id t) (head_of db (tr_id t) + 1) (odb_heads db)\<rparr>)"
    using assms(6) t by (auto simp: bump_head_def bnd_require fault_as_def sql_exec_def clear_items_def head_of_def split: option.splits)
  have "insert_items ?F (tr_id t) 0 ?ids ((clear_items (tr_id t) db)\<lparr>odb_heads := gput (tr_id t) (head_of db (tr_id t) + 1) (odb_heads db)\<rparr>)
      = (Inr (), ?db)"
    by (subst insert_items_ok) (simp_all add: clear_items_def written_def)
  then have "write_attribute_order_tx D digest ?F ?s req db = (Inr (c, order), ?db)"
    by (simp add: write_attribute_order_tx_def fault_as_def t st(1) plan sql_exec_def bnd_lift change_def
        bnd_run[of "\<lambda>a. (Inr (), clear_items (tr_id t) a)"] bnd_run[of "bump_head _ _"] head
        bnd_run[of "insert_items _ _ _ _"] reread verify_attribute_order_write_def order(2))
  then show ?thesis
    using sc(1) assms(3) order(2) by (auto simp: WriteAttributeOrder_def fault_as_def)
qed

theorem attribute_order_write_accepts_witness:
  "\<exists>order db'. WriteAttributeOrder unit_decimals demo_digest (\<lambda>_. None) False demo_order_request demo_order_db
      = (Inr (fst demo_before, order), db') \<and> map ok_characteristic (osn_keys order) = [''nota'', ''color'', ''tono'']"
proof -
  obtain ks where ks: "mapr (CanonicalFor (canonicalize demo_scope)) demo_order_keys = Inr ks"
    "mset ks = mset (osn_keys (snd demo_before))" "map ok_characteristic ks = [''nota'', ''color'', ''tono'']"
  proof -
    have "case mapr (CanonicalFor (canonicalize demo_scope)) demo_order_keys of Inl _ \<Rightarrow> False
      | Inr ks \<Rightarrow> ks = rev (osn_keys (snd demo_before)) \<and> map ok_characteristic ks = [''nota'', ''color'', ''tono'']" by code_simp
    then show thesis using that by (auto split: sum.splits)
  qed
  have before: "ReadAttributeOrder unit_decimals demo_digest (\<lambda>_. None) (oreq_scope demo_order_request) demo_order_db
      = Inr (fst demo_before, snd demo_before)" using demo_read by (simp add: demo_order_request_def)
  have token: "oreq_expected demo_order_request = osn_revision (snd demo_before)" by code_simp
  have nonempty: "trim_space (oreq_expected demo_order_request) \<noteq> []" by code_simp
  show ?thesis
    using attribute_order_write_accepts[OF before token nonempty, of ks False] ks
    by (auto simp: demo_order_request_def demo_order_db_def)
qed

theorem resolve_order_witness:
  "case ResolveAttributeOrder demo_digest demo_scope demo_order_state of
     Inr sn \<Rightarrow> map ok_characteristic (osn_keys sn) = [''nota'', ''color''] \<and>
       (\<exists>cs. canonical_members (canonicalize demo_scope) (ost_members demo_order_state) = Inr cs \<and> distinct (map om_key cs))
   | Inl _ \<Rightarrow> False"
proof -
  have "case ResolveAttributeOrder demo_digest demo_scope demo_order_state of
      Inr sn \<Rightarrow> map ok_characteristic (osn_keys sn) = [''nota'', ''color''] | Inl _ \<Rightarrow> False" by code_simp
  then show ?thesis using resolve_order[where digest = demo_digest and s = demo_scope and state = demo_order_state] by (auto split: sum.splits)
qed

end
