(* ===== verification/CatalogEquivalence.thy ===== *)
theory CatalogEquivalence
  imports Canonical
begin

text \<open>
  \<^verbatim>\<open>EquivalentResourceCatalogs\<close> (\<^verbatim>\<open>internal/domain/catalog_equivalence.go\<close>): the positional
  comparison of two catalogs, with the default option set under either spelling. The property
  is that it is equality of the catalogs once that spelling is resolved. A nil and an empty
  slice are the same list.
\<close>

section \<open>The comparison\<close>

definition normalized_option_set :: "gstring \<Rightarrow> gstring" where
  "normalized_option_set code = (if code = [] then default_option_set else code)"

fun equivalent_slices :: "('a \<Rightarrow> 'a \<Rightarrow> bool) \<Rightarrow> 'a list \<Rightarrow> 'a list \<Rightarrow> bool" where
  "equivalent_slices eq [] [] = True"
| "equivalent_slices eq (a # as) (b # bs) = (eq a b \<and> equivalent_slices eq as bs)"
| "equivalent_slices eq _ _ = False"

definition strings_equal :: "gstring list \<Rightarrow> gstring list \<Rightarrow> bool" where
  "strings_equal a b = equivalent_slices (\<lambda>x y. x = y) a b"

definition equivalent_class :: "resource_class \<Rightarrow> resource_class \<Rightarrow> bool" where
  "equivalent_class a b \<longleftrightarrow> rc_code a = rc_code b \<and> rc_name a = rc_name b \<and> rc_plural a = rc_plural b \<and> rc_slug a = rc_slug b
     \<and> rc_order a = rc_order b \<and> rc_active a = rc_active b
     \<and> strings_equal (rc_aliases a) (rc_aliases b) \<and> strings_equal (rc_keywords a) (rc_keywords b)"

definition equivalent_family :: "resource_family \<Rightarrow> resource_family \<Rightarrow> bool" where
  "equivalent_family a b \<longleftrightarrow> rf_class a = rf_class b \<and> rf_code a = rf_code b \<and> rf_name a = rf_name b \<and> rf_active a = rf_active b"

definition equivalent_type :: "resource_type \<Rightarrow> resource_type \<Rightarrow> bool" where
  "equivalent_type a b \<longleftrightarrow> rt_class a = rt_class b \<and> rt_family a = rt_family b \<and> rt_code a = rt_code b
     \<and> rt_name a = rt_name b \<and> rt_active a = rt_active b"

definition equivalent_definition :: "attribute_definition \<Rightarrow> attribute_definition \<Rightarrow> bool" where
  "equivalent_definition a b \<longleftrightarrow> ad_code a = ad_code b \<and> ad_name a = ad_name b \<and> ad_value_type a = ad_value_type b
     \<and> ad_dimension a = ad_dimension b \<and> ad_default_identity a = ad_default_identity b \<and> ad_active a = ad_active b"

definition equivalent_option_set :: "resource_option_set \<Rightarrow> resource_option_set \<Rightarrow> bool" where
  "equivalent_option_set a b \<longleftrightarrow> normalized_option_set (os_code a) = normalized_option_set (os_code b)
     \<and> os_name a = os_name b \<and> os_active a = os_active b"

definition equivalent_option :: "attribute_option \<Rightarrow> attribute_option \<Rightarrow> bool" where
  "equivalent_option a b \<longleftrightarrow> normalized_option_set (ao_set a) = normalized_option_set (ao_set b)
     \<and> ao_attribute a = ao_attribute b \<and> ao_code a = ao_code b \<and> ao_label a = ao_label b \<and> ao_active a = ao_active b"

definition equivalent_relation :: "attribute_option_relation \<Rightarrow> attribute_option_relation \<Rightarrow> bool" where
  "equivalent_relation a b \<longleftrightarrow> normalized_option_set (rel_set a) = normalized_option_set (rel_set b)
     \<and> rel_from_attribute a = rel_from_attribute b \<and> rel_from_option a = rel_from_option b
     \<and> rel_to_attribute a = rel_to_attribute b \<and> rel_to_option a = rel_to_option b \<and> rel_active a = rel_active b"

definition equivalent_unit :: "unit_definition \<Rightarrow> unit_definition \<Rightarrow> bool" where
  "equivalent_unit a b \<longleftrightarrow> ud_code a = ud_code b \<and> ud_name a = ud_name b \<and> ud_symbol a = ud_symbol b
     \<and> ud_dimension a = ud_dimension b \<and> ud_active a = ud_active b"

definition equivalent_unit_policy :: "resource_unit_policy \<Rightarrow> resource_unit_policy \<Rightarrow> bool" where
  "equivalent_unit_policy a b \<longleftrightarrow> up_class a = up_class b \<and> up_family a = up_family b \<and> up_unit a = up_unit b
     \<and> up_allowed a = up_allowed b \<and> up_suggested a = up_suggested b \<and> up_active a = up_active b"

definition equivalent_rule :: "attribute_rule \<Rightarrow> attribute_rule \<Rightarrow> bool" where
  "equivalent_rule a b \<longleftrightarrow> ar_when a = ar_when b \<and> ar_mode a = ar_mode b \<and> ar_identity a = ar_identity b
     \<and> ar_not_applicable a = ar_not_applicable b \<and> ar_active a = ar_active b"

definition equivalent_attribute :: "resource_attribute \<Rightarrow> resource_attribute \<Rightarrow> bool" where
  "equivalent_attribute a b \<longleftrightarrow> ra_class a = ra_class b \<and> ra_family a = ra_family b \<and> ra_type a = ra_type b
     \<and> normalized_option_set (ra_option_set a) = normalized_option_set (ra_option_set b)
     \<and> equivalent_definition (ra_definition a) (ra_definition b) \<and> ra_mode a = ra_mode b
     \<and> ra_identity a = ra_identity b \<and> ra_active a = ra_active b
     \<and> equivalent_slices equivalent_rule (ra_rules a) (ra_rules b)"

definition equivalent_presentation_field :: "presentation_field \<Rightarrow> presentation_field \<Rightarrow> bool" where
  "equivalent_presentation_field a b \<longleftrightarrow> pf_class a = pf_class b \<and> pf_family a = pf_family b \<and> pf_type a = pf_type b
     \<and> pf_attribute a = pf_attribute b \<and> pf_position a = pf_position b \<and> pf_active a = pf_active b"

definition EquivalentResourceCatalogs :: "resource_catalog \<Rightarrow> resource_catalog \<Rightarrow> bool" where
  "EquivalentResourceCatalogs a b \<longleftrightarrow>
     equivalent_slices equivalent_class (cat_classes a) (cat_classes b) \<and>
     equivalent_slices equivalent_family (cat_families a) (cat_families b) \<and>
     equivalent_slices equivalent_type (cat_types a) (cat_types b) \<and>
     equivalent_slices equivalent_presentation_field (cat_presentation a) (cat_presentation b) \<and>
     equivalent_slices equivalent_unit (cat_units a) (cat_units b) \<and>
     equivalent_slices equivalent_unit_policy (cat_unit_policies a) (cat_unit_policies b) \<and>
     equivalent_slices equivalent_definition (cat_definitions a) (cat_definitions b) \<and>
     equivalent_slices equivalent_attribute (cat_attributes a) (cat_attributes b) \<and>
     equivalent_slices equivalent_option (cat_options a) (cat_options b) \<and>
     equivalent_slices equivalent_relation (cat_relations a) (cat_relations b) \<and>
     equivalent_slices equivalent_option_set (cat_option_sets a) (cat_option_sets b)"

section \<open>Equality of normal forms\<close>

definition normalize_catalog :: "resource_catalog \<Rightarrow> resource_catalog" where
  "normalize_catalog c = c\<lparr>
     cat_attributes := map (\<lambda>a. a\<lparr>ra_option_set := normalized_option_set (ra_option_set a)\<rparr>) (cat_attributes c),
     cat_options := map (\<lambda>x. x\<lparr>ao_set := normalized_option_set (ao_set x)\<rparr>) (cat_options c),
     cat_relations := map (\<lambda>x. x\<lparr>rel_set := normalized_option_set (rel_set x)\<rparr>) (cat_relations c),
     cat_option_sets := map (\<lambda>x. x\<lparr>os_code := normalized_option_set (os_code x)\<rparr>) (cat_option_sets c)\<rparr>"

lemma equivalent_slices_norm:
  assumes "\<And>a b. eq a b \<longleftrightarrow> f a = f b"
  shows "equivalent_slices eq as bs \<longleftrightarrow> map f as = map f bs"
  using assms by (induction eq as bs rule: equivalent_slices.induct) simp_all

lemma equivalent_slices_eq: "(\<And>a b. eq a b \<longleftrightarrow> a = b) \<Longrightarrow> equivalent_slices eq as bs \<longleftrightarrow> as = bs"
  using equivalent_slices_norm[of eq "\<lambda>x. x"] by simp

lemma equivalent_rows:
  "equivalent_class a b \<longleftrightarrow> a = b" "equivalent_family f g \<longleftrightarrow> f = g" "equivalent_type t u \<longleftrightarrow> t = u"
  "equivalent_definition d e \<longleftrightarrow> d = e" "equivalent_unit m n \<longleftrightarrow> m = n" "equivalent_unit_policy p q \<longleftrightarrow> p = q"
  "equivalent_rule r s \<longleftrightarrow> r = s" "equivalent_presentation_field x y \<longleftrightarrow> x = y"
  by (auto simp: equivalent_class_def equivalent_family_def equivalent_type_def equivalent_definition_def
      equivalent_unit_def equivalent_unit_policy_def equivalent_rule_def equivalent_presentation_field_def
      strings_equal_def equivalent_slices_eq)

lemma equivalent_option_rows:
  "equivalent_option_set s t \<longleftrightarrow> s\<lparr>os_code := normalized_option_set (os_code s)\<rparr> = t\<lparr>os_code := normalized_option_set (os_code t)\<rparr>"
  "equivalent_option o1 o2 \<longleftrightarrow> o1\<lparr>ao_set := normalized_option_set (ao_set o1)\<rparr> = o2\<lparr>ao_set := normalized_option_set (ao_set o2)\<rparr>"
  "equivalent_relation r1 r2 \<longleftrightarrow> r1\<lparr>rel_set := normalized_option_set (rel_set r1)\<rparr> = r2\<lparr>rel_set := normalized_option_set (rel_set r2)\<rparr>"
  by ((cases s; cases t; simp add: equivalent_option_set_def), (cases o1; cases o2; simp add: equivalent_option_def),
    (cases r1; cases r2; simp add: equivalent_relation_def))

lemma equivalent_attribute_row:
  "equivalent_attribute a b \<longleftrightarrow> a\<lparr>ra_option_set := normalized_option_set (ra_option_set a)\<rparr>
     = b\<lparr>ra_option_set := normalized_option_set (ra_option_set b)\<rparr>"
  by (cases a; cases b)
    (auto simp: equivalent_attribute_def equivalent_rows equivalent_slices_eq)

text \<open>Two catalogs are equivalent exactly when they are equal after the default option set is
  given its code; in particular the relation is an equivalence and nothing else is forgiven, not
  the order of rows or rules, the flags or the embedded definitions.\<close>

theorem equivalent_catalogs:
  "(EquivalentResourceCatalogs a b \<longleftrightarrow> normalize_catalog a = normalize_catalog b)
   \<and> normalize_catalog (normalize_catalog a) = normalize_catalog a"
proof
  have idem: "normalized_option_set (normalized_option_set x) = normalized_option_set x" for x
    by (simp add: normalized_option_set_def)
  show "EquivalentResourceCatalogs a b \<longleftrightarrow> normalize_catalog a = normalize_catalog b"
    unfolding EquivalentResourceCatalogs_def equivalent_slices_norm[OF equivalent_attribute_row]
      equivalent_slices_norm[OF equivalent_option_rows(1)] equivalent_slices_norm[OF equivalent_option_rows(2)]
      equivalent_slices_norm[OF equivalent_option_rows(3)]
    by (cases a; cases b) (auto simp: equivalent_slices_eq equivalent_rows normalize_catalog_def)
  show "normalize_catalog (normalize_catalog a) = normalize_catalog a"
    by (simp add: normalize_catalog_def idem)
qed

end
