(* ===== verification/ResourceService.thy ===== *)
theory ResourceService
  imports ResourceModel CatalogService
begin

text \<open>
  \<^verbatim>\<open>recursos.Service\<close> (\<^verbatim>\<open>internal/app/recursos/service.go\<close> and \<^verbatim>\<open>attribute_order.go\<close>): the use
  cases of the Resource Master. The repository is a record of operations on an arbitrary
  database state; the optional interfaces the service type-asserts for are options. The state
  is the shared catalog authority and the database. A value that Go returns beside an error is
  left out.
\<close>

section \<open>Interfaces\<close>

record 'd lifecycle_result =
  lr_resource :: "'d resource option"
  lr_changed :: bool

record 'd create_command =
  cmd_scope :: resource_scope
  cmd_unit :: gstring
  cmd_attributes :: "'d attr_value list"

record 'd update_command = "'d create_command" +
  cmd_id :: int

record 'd resource_page =
  pg_criteria :: "'d search_criteria"
  pg_resources :: "'d resource list"
  pg_previous :: bool
  pg_next :: bool

record ('d, 'db) resource_repo_v2 =
  rv_deactivate :: "int \<Rightarrow> revision \<Rightarrow> 'db \<Rightarrow> (go_error + 'd resource) \<times> 'db"
  rv_reactivate :: "int \<Rightarrow> gstring \<Rightarrow> revision \<Rightarrow> 'db \<Rightarrow> (go_error + 'd resource) \<times> 'db"
  rv_update :: "'d resource \<Rightarrow> revision \<Rightarrow> 'db \<Rightarrow> (go_error + 'd resource) \<times> 'db"

record ('d, 'db) resource_repo =
  rr_create :: "'d resource \<Rightarrow> 'db \<Rightarrow> (go_error + unit) \<times> 'db"
  rr_get :: "gstring \<Rightarrow> gstring \<Rightarrow> 'db \<Rightarrow> go_error + 'd resource"
  rr_search :: "'d search_criteria \<Rightarrow> 'db \<Rightarrow> go_error + 'd resource list"
  rr_update :: "'d resource \<Rightarrow> 'db \<Rightarrow> (go_error + unit) \<times> 'db"
  rr_deactivate :: "int \<Rightarrow> 'db \<Rightarrow> (go_error + 'd lifecycle_result) \<times> 'db"
  rr_reactivate :: "int \<Rightarrow> gstring \<Rightarrow> 'db \<Rightarrow> (go_error + 'd lifecycle_result) \<times> 'db"
  rr_search_page :: "('d search_criteria \<Rightarrow> 'db \<Rightarrow> go_error + 'd resource_page) option"
  rr_get_by_id :: "(int \<Rightarrow> 'db \<Rightarrow> go_error + 'd resource) option"
  rr_v2 :: "('d, 'db) resource_repo_v2 option"

record 'db recursos =
  rs_authority :: catalog_authority
  rs_db :: 'db

type_synonym ('db, 'a) recursos_action = "('db recursos, go_error, 'a) action"

definition rs_read :: "('db \<Rightarrow> go_error + 'a) \<Rightarrow> ('db, 'a) recursos_action" where
  "rs_read q = (\<lambda>s. (q (rs_db s), s))"

definition rs_write :: "('db \<Rightarrow> (go_error + 'a) \<times> 'db) \<Rightarrow> ('db, 'a) recursos_action" where
  "rs_write q = (\<lambda>s. case q (rs_db s) of (r, db) \<Rightarrow> (r, s\<lparr>rs_db := db\<rparr>))"

definition rs_catalog :: "'db recursos \<Rightarrow> resource_catalog" where
  "rs_catalog s = fst (authority_current (rs_authority s))"

text \<open>Turning the error of a call into the error of its caller.\<close>

definition on_error :: "(go_error \<Rightarrow> go_error) \<Rightarrow> ('s, go_error, 'a) action \<Rightarrow> ('s, go_error, 'a) action" where
  "on_error f m = (\<lambda>s. case m s of (Inl e, t) \<Rightarrow> (Inl (f e), t) | (Inr x, t) \<Rightarrow> (Inr x, t))"

fun first_sentinel :: "domain_err list \<Rightarrow> go_error \<Rightarrow> go_error \<Rightarrow> go_error" where
  "first_sentinel [] other e = other"
| "first_sentinel (d # ds) other e = (if error_is e (Dom d) then Sentinel (Dom d) else first_sentinel ds other e)"

definition recursos_invalid_argument :: go_error where
  "recursos_invalid_argument = Sentinel (App RecursosErrInvalidArgument)"

section \<open>Reads\<close>

definition resource_get :: "('d, 'db) resource_repo \<Rightarrow> gstring \<Rightarrow> gstring \<Rightarrow> ('db, 'd resource) recursos_action" where
  "resource_get repo classCode identityKey =
     (if trim_space classCode = [] \<or> trim_space identityKey = [] then fail recursos_invalid_argument
      else on_error (\<lambda>e. first_sentinel [ErrResourceNotFound] (Wrapf ''get resource %s/%s: %w'' [classCode, identityKey] [e]) e)
        (rs_read (rr_get repo classCode identityKey)))"

definition resource_search :: "('d, 'db) resource_repo \<Rightarrow> 'd search_criteria \<Rightarrow> ('db, 'd resource list) recursos_action" where
  "resource_search repo criteria = on_error (\<lambda>e. Wrapf ''search resources: %w'' [] [e]) (rs_read (rr_search repo criteria))"

definition resource_search_page :: "('d, 'db) resource_repo \<Rightarrow> 'd search_criteria \<Rightarrow> ('db, 'd resource_page) recursos_action" where
  "resource_search_page repo criteria =
     bnd (lift (Normalize criteria)) (\<lambda>normalized.
     (case rr_search_page repo of
        None \<Rightarrow> fail (ErrNew ''resource repository does not support paged search'')
      | Some search \<Rightarrow>
          bnd (on_error (\<lambda>e. Wrapf ''search resources: %w'' [] [e]) (rs_read (search normalized))) (\<lambda>page.
          ret (page\<lparr>pg_criteria := normalized\<rparr>))))"

definition resource_describe :: "'d decimal_ops \<Rightarrow> 'd resource \<Rightarrow> 'db recursos \<Rightarrow> go_error + gstring" where
  "resource_describe D r s = describe D (rs_catalog s) r"

definition resource_effective_attributes ::
  "'d decimal_ops \<Rightarrow> resource_scope \<Rightarrow> 'd attr_value list \<Rightarrow> ('db, effective_attribute list) recursos_action" where
  "resource_effective_attributes D s current = bnd (asks rs_catalog) (\<lambda>c. lift (effective_attributes_for D c s current))"

section \<open>Writes\<close>

definition resource_create ::
  "range_order \<Rightarrow> 'd decimal_ops \<Rightarrow> ('d, 'db) resource_repo \<Rightarrow> ('d, 'z) create_command_scheme
     \<Rightarrow> ('db, 'd resource) recursos_action" where
  "resource_create rng D repo command =
     bnd (asks rs_catalog) (\<lambda>catalog.
     bnd (lift (NewResource rng D catalog (cmd_scope command) (cmd_unit command) (cmd_attributes command))) (\<lambda>resource.
     bnd (on_error (\<lambda>e. first_sentinel [ErrDuplicateResource, ErrResourceReference, ErrResourceIntegrity]
              (Wrapf ''create resource: %w'' [] [e]) e) (rs_write (rr_create repo resource))) (\<lambda>_.
     ret resource)))"

definition resource_update ::
  "range_order \<Rightarrow> 'd decimal_ops \<Rightarrow> ('d, 'db) resource_repo \<Rightarrow> 'd update_command \<Rightarrow> ('db, 'd resource) recursos_action" where
  "resource_update rng D repo command =
     (if cmd_id command \<le> 0 then fail recursos_invalid_argument
      else
        bnd (asks rs_catalog) (\<lambda>catalog.
        bnd (lift (NewResource rng D catalog (cmd_scope command) (cmd_unit command) (cmd_attributes command))) (\<lambda>built.
        let resource = built\<lparr>r_id := cmd_id command\<rparr> in
        bnd (on_error (\<lambda>e. first_sentinel [ErrResourceNotFound, ErrDuplicateResource, ErrResourceReference, ErrResourceIntegrity]
                 (Wrapf ''update resource %d: %w'' [show_int (r_id resource)] [e]) e) (rs_write (rr_update repo resource))) (\<lambda>_.
        ret resource))))"

section \<open>Lifecycle\<close>

definition resource_deactivate_by_id ::
  "('d, 'db) resource_repo \<Rightarrow> int \<Rightarrow> ('db, 'd lifecycle_result) recursos_action" where
  "resource_deactivate_by_id repo rid =
     (if rid \<le> 0 then fail recursos_invalid_argument
      else on_error (\<lambda>e. first_sentinel [ErrResourceNotFound] (Wrapf ''deactivate resource %d: %w'' [show_int rid] [e]) e)
        (rs_write (rr_deactivate repo rid)))"

definition resource_delete :: "('d, 'db) resource_repo \<Rightarrow> int \<Rightarrow> ('db, unit) recursos_action" where
  "resource_delete repo rid =
     on_error (\<lambda>e. if error_is e (App RecursosErrInvalidArgument) \<or> error_is e (Dom ErrResourceNotFound) then e
         else Wrapf ''delete resource %d: %w'' [show_int rid] [e])
       (bnd (resource_deactivate_by_id repo rid) (\<lambda>_. ret ()))"

definition stored_values :: "'d resource \<Rightarrow> 'd attr_value list" where
  "stored_values current = filter (\<lambda>v. av_text v \<noteq> NotApplicableText) (r_attributes current)"

definition reactivation_candidate ::
  "range_order \<Rightarrow> 'd decimal_ops \<Rightarrow> resource_catalog \<Rightarrow> 'd resource \<Rightarrow> go_error + 'd resource" where
  "reactivation_candidate rng D catalog current =
     (case NewResource rng D catalog
        \<lparr>sc_class = r_class current, sc_family = r_family current, sc_type = r_type current\<rparr>
        (r_unit current) (stored_values current) of
        Inl e \<Rightarrow> Inl (the (wrap_reactivation_impossible (Some e)))
      | Inr rebuilt \<Rightarrow>
          if r_identity rebuilt \<noteq> r_identity current then Inl (Sentinel (Dom ErrIdentityConflict)) else Inr rebuilt)"

definition load_for_reactivation :: "('d, 'db) resource_repo \<Rightarrow> int \<Rightarrow> ('db, 'd resource) recursos_action" where
  "load_for_reactivation repo rid =
     (case rr_get_by_id repo of
        None \<Rightarrow> fail (ErrNew ''resource repository cannot load lifecycle identity'')
      | Some getter \<Rightarrow>
          on_error (\<lambda>e. first_sentinel [ErrResourceNotFound]
            (Wrapf ''load resource %d for reactivation: %w'' [show_int rid] [e]) e) (rs_read (getter rid)))"

definition reactivation_error :: "int \<Rightarrow> domain_err list \<Rightarrow> go_error \<Rightarrow> go_error" where
  "reactivation_error rid kept e =
     (if list_ex (\<lambda>d. error_is e (Dom d)) kept then e
      else if error_is e (Dom ErrResourceIntegrity) then Sentinel (Dom ErrIdentityConflict)
      else if error_is e (Dom ErrResourceReference) then the (wrap_reactivation_impossible (Some e))
      else Wrapf ''reactivate resource %d: %w'' [show_int rid] [e])"

definition resource_reactivate_by_id ::
  "range_order \<Rightarrow> 'd decimal_ops \<Rightarrow> ('d, 'db) resource_repo \<Rightarrow> int \<Rightarrow> ('db, 'd lifecycle_result) recursos_action" where
  "resource_reactivate_by_id rng D repo rid =
     (if rid \<le> 0 then fail recursos_invalid_argument
      else
        bnd (load_for_reactivation repo rid) (\<lambda>current.
        if r_active current then ret \<lparr>lr_resource = Some current, lr_changed = False\<rparr>
        else
          bnd (asks rs_catalog) (\<lambda>catalog.
          bnd (lift (reactivation_candidate rng D catalog current)) (\<lambda>rebuilt.
          on_error (reactivation_error rid [ErrResourceNotFound, ErrDuplicateResource])
            (rs_write (rr_reactivate repo rid (r_identity rebuilt)))))))"

definition resource_deactivate_revision ::
  "('d, 'db) resource_repo \<Rightarrow> int \<Rightarrow> revision \<Rightarrow> ('db, 'd lifecycle_result) recursos_action" where
  "resource_deactivate_revision repo rid expectedRevision =
     (if rid \<le> 0 \<or> expectedRevision = 0 then fail recursos_invalid_argument
      else (case rr_v2 repo of
        None \<Rightarrow> fail (ErrNew ''resource repository does not support revision-aware lifecycle'')
      | Some v2 \<Rightarrow>
          bnd (on_error (\<lambda>e. if error_is e (Dom ErrResourceNotFound) \<or> error_is e (Dom ErrResourceRevisionConflict) then e
                 else Wrapf ''deactivate resource %d: %w'' [show_int rid] [e])
               (rs_write (rv_deactivate v2 rid expectedRevision))) (\<lambda>result.
          ret \<lparr>lr_resource = Some result, lr_changed = r_revision result \<noteq> expectedRevision\<rparr>)))"

definition resource_reactivate_revision ::
  "range_order \<Rightarrow> 'd decimal_ops \<Rightarrow> ('d, 'db) resource_repo \<Rightarrow> int \<Rightarrow> revision
     \<Rightarrow> ('db, 'd lifecycle_result) recursos_action" where
  "resource_reactivate_revision rng D repo rid expectedRevision =
     (if rid \<le> 0 \<or> expectedRevision = 0 then fail recursos_invalid_argument
      else
        bnd (load_for_reactivation repo rid) (\<lambda>current.
        if r_active current then ret \<lparr>lr_resource = Some current, lr_changed = False\<rparr>
        else
          bnd (asks rs_catalog) (\<lambda>catalog.
          bnd (lift (reactivation_candidate rng D catalog current)) (\<lambda>rebuilt.
          (case rr_v2 repo of
             None \<Rightarrow> fail (ErrNew ''resource repository does not support revision-aware lifecycle'')
           | Some v2 \<Rightarrow>
               bnd (on_error (reactivation_error rid [ErrResourceRevisionConflict, ErrResourceNotFound])
                      (rs_write (rv_reactivate v2 rid (r_identity rebuilt) expectedRevision))) (\<lambda>result.
               ret \<lparr>lr_resource = Some result, lr_changed = r_revision result \<noteq> expectedRevision\<rparr>))))))"

definition resource_update_revision ::
  "range_order \<Rightarrow> 'd decimal_ops \<Rightarrow> ('d, 'db) resource_repo \<Rightarrow> 'd update_command \<Rightarrow> revision
     \<Rightarrow> ('db, 'd resource) recursos_action" where
  "resource_update_revision rng D repo command expectedRevision =
     (if cmd_id command \<le> 0 \<or> expectedRevision = 0 then fail recursos_invalid_argument
      else
        bnd (asks rs_catalog) (\<lambda>catalog.
        bnd (lift (NewResource rng D catalog (cmd_scope command) (cmd_unit command) (cmd_attributes command))) (\<lambda>built.
        let resource = built\<lparr>r_id := cmd_id command\<rparr> in
        (case rr_v2 repo of
           None \<Rightarrow> fail (ErrNew ''resource repository does not support revision-aware update'')
         | Some v2 \<Rightarrow>
             on_error (\<lambda>e. if list_ex (\<lambda>d. error_is e (Dom d)) [ErrResourceNotFound, ErrDuplicateResource,
                   ErrResourceReference, ErrResourceIntegrity, ErrResourceRevisionConflict] then e
                 else Wrapf ''update resource %d: %w'' [show_int (r_id resource)] [e])
               (rs_write (rv_update v2 resource expectedRevision))))))"

end
