(* ===== verification/ResourceServiceTheorems.thy ===== *)
theory ResourceServiceTheorems
  imports ResourceService ResourceTheorems
begin

text \<open>
  The properties of the resource use cases: nothing reaches the repository that
  \<^verbatim>\<open>NewResource\<close> has not built under the committed catalog, and a reactivation is guarded by the
  rebuilt identity.
\<close>

section \<open>Lemmas\<close>

lemma on_error_run:
  "on_error f m s = (case m s of (Inl e, t) \<Rightarrow> (Inl (f e), t) | (Inr x, t) \<Rightarrow> (Inr x, t))"
  by (simp add: on_error_def)

lemma on_error_Inr [simp]: "on_error f m s = (Inr x, t) \<longleftrightarrow> m s = (Inr x, t)"
  by (auto simp: on_error_def split: prod.splits sum.splits)

lemma on_error_Inl: "on_error f m s = (Inl e, t) \<longleftrightarrow> (\<exists>e'. m s = (Inl e', t) \<and> e = f e')"
  by (auto simp: on_error_def split: prod.splits sum.splits)

lemma rs_write_run: "rs_write q s = (r, t) \<longleftrightarrow> (\<exists>db. q (rs_db s) = (r, db) \<and> t = s\<lparr>rs_db := db\<rparr>)"
  by (auto simp: rs_write_def split: prod.splits)

lemma rs_read_run: "rs_read q s = (r, t) \<longleftrightarrow> r = q (rs_db s) \<and> t = s"
  by (auto simp: rs_read_def)

text \<open>Replaying \<^verbatim>\<open>NewResource\<close> on the parts of a resource it built gives the resource back.\<close>

lemma new_resource_again:
  assumes "range_ok rng1" "range_ok rng2" "NewResource rng1 D c s u vs = Inr r"
  shows "NewResource rng2 D c (own_scope r) (r_unit r) (r_attributes r) = Inr r"
proof -
  from assms(3) obtain M where M: "bind_values D c (canonicalize s) (resource_attributes c s) Map.empty vs = Inr M"
      "acceptable c s u M True" "r = resource_of D c s u M"
    unfolding NewResource_def new_resource_Inr_iff[OF assms(1)] by blast
  have own: "own_scope r = canonicalize s" and unit: "r_unit r = canonical u"
    unfolding M(3) by (simp_all add: resource_of_def Let_def own_scope_def canonicalize_def)
  have A: "resource_attributes c (own_scope r) = resource_attributes c s" by (simp add: own)
  have wf: "resource_wf D c r" using assms(1,3) unfolding NewResource_def by (rule new_resource_wf)
  have same: "r\<lparr>r_id := 0, r_revision := 0, r_active := True\<rparr> = r" unfolding M(3) by (simp add: resource_of_def Let_def)
  have b: "bound_ok D c (resource_attributes c s) M" using bind_values_ok[OF M(1)] by simp
  from new_resource_fixed[OF assms(2) wf] obtain M' where M': "bind_values D c (canonicalize (own_scope r))
      (resource_attributes c (own_scope r)) Map.empty (r_attributes r) = Inr M'"
      "acceptable c (own_scope r) (r_unit r) M' False" "r = resource_of D c (own_scope r) (r_unit r) M'"
    unfolding same new_resource_Inr_iff[OF assms(2)] by blast
  have "M' = M"
  proof -
    have vals: "\<forall>v\<in>set (r_attributes r). \<exists>x. map_of (resource_attributes c (own_scope r)) (av_code v) = Some x \<and> value_wf D c x v"
      and sorted: "sorted_wrt (<) (map av_code (r_attributes r))"
      using wf by (simp_all add: resource_wf_def Let_def)
    have dist: "distinct (map av_code (r_attributes r))" using sorted by (simp add: strict_sorted_iff)
    have canon: "\<forall>v\<in>set (r_attributes r). canonical_attribute (av_code v) = av_code v"
      using vals by (auto simp: value_wf_def)
    have "bind_values D c (canonicalize (own_scope r)) (resource_attributes c (own_scope r)) Map.empty (r_attributes r)
        = Inr (map_of (map (\<lambda>v. (av_code v, v)) (r_attributes r)))"
      using bind_values_fixed[OF vals dist, of Map.empty] by simp
    then have "M' = values_by_code (r_attributes r)" using M'(1) values_by_code_wf[OF canon dist] by simp
    also have "\<dots> = M"
      unfolding M(3) resource_of_def Let_def resource.select_convs
      using bound_ok_dom[OF b] by (intro values_by_code_present[OF b]) simp_all
    finally show ?thesis .
  qed
  moreover have "validate_active_chain (\<lambda>ks. ks) c (own_scope r) (r_unit r) (resource_attributes c (own_scope r)) M = None"
    unfolding A using M(2) active_chain_range[of "\<lambda>ks. ks" c s u "resource_attributes c s" M]
    by (simp add: acceptable_def own unit range_ok_id)
  ultimately have "acceptable c (own_scope r) (r_unit r) M True"
    using M'(2) by (simp add: acceptable_def)
  then show ?thesis
    unfolding NewResource_def new_resource_Inr_iff[OF assms(2)] using M' \<open>M' = M\<close> by blast
qed

lemma candidate_error_code:
  assumes "range_ok rng" "reactivation_candidate rng D c current = Inl e"
  shows "core_code_of (Some e) \<in> {Some ReactivationImpossible, Some IdentityConflict}"
proof (cases "NewResource rng D c \<lparr>sc_class = r_class current, sc_family = r_family current, sc_type = r_type current\<rparr>
    (r_unit current) (stored_values current)")
  case (Inl e')
  have e: "e = the (wrap_reactivation_impossible (Some e'))"
    using assms(2) unfolding reactivation_candidate_def Inl by simp
  have "validation_error e' \<or> reference_error e'"
    using new_resource_error[OF assms(1) Inl[unfolded NewResource_def]] by (simp split: if_splits)
  then obtain d where d: "\<And>t. error_is e' t \<longleftrightarrow> t = Dom d" "error_as_core e' = None" "d \<in> {ErrResourceValidation, ErrResourceReference}"
    unfolding validation_error_def reference_error_def by blast
  have "core_code_of (Some e) = Some ReactivationImpossible"
    using d(3) by (simp add: e wrap_reactivation_impossible_def core_code_of_def core_map_def core_new_def d(1,2) wraps_simps)
      auto
  then show ?thesis by simp
next
  case (Inr x)
  then have "e = Sentinel (Dom ErrIdentityConflict)"
    using assms(2) unfolding reactivation_candidate_def Inr by (simp split: if_splits)
  then show ?thesis by (simp add: core_code_of_def core_map_def core_new_def wraps_simps)
qed

lemma wrapped_code: "core_code_of (Some (Wrapf f args [e])) = core_code_of (Some e)"
proof -
  have "error_as_core (Wrapf f args [e]) = error_as_core e" by (cases "error_as_core e") simp_all
  moreover have "error_is (Wrapf f args [e]) t = error_is e t" for t by simp
  ultimately show ?thesis unfolding core_code_of_def core_map_def option.case by (simp only:)
qed

lemma sentinel_codes:
  "core_code_of (Some (Sentinel (Dom ErrDuplicateResource))) = Some Duplicate"
  "core_code_of (Some (Sentinel (Dom ErrResourceReference))) = Some InvalidReference"
  "core_code_of (Some (Sentinel (Dom ErrResourceIntegrity))) = Some Integrity"
  by (simp_all add: core_code_of_def core_map_def core_new_def wraps_simps)

section \<open>Creation\<close>

text \<open>A resource reaches the repository only as \<^verbatim>\<open>NewResource\<close> built it under the catalog the
  authority serves: when that construction fails \<^verbatim>\<open>Create\<close> returns its error and the repository is
  not called; otherwise the repository is called once with the canonical resource, and its
  duplicate, reference and integrity errors keep their neutral code.\<close>

theorem create_authoritative:
  "case NewResource rng D (rs_catalog s) (cmd_scope cmd) (cmd_unit cmd) (cmd_attributes cmd) of
     Inl e \<Rightarrow> resource_create rng D repo cmd s = (Inl e, s)
   | Inr resource \<Rightarrow> (case rr_create repo resource (rs_db s) of
        (Inr _, db) \<Rightarrow> resource_create rng D repo cmd s = (Inr resource, s\<lparr>rs_db := db\<rparr>)
      | (Inl e, db) \<Rightarrow> \<exists>e'. resource_create rng D repo cmd s = (Inl e', s\<lparr>rs_db := db\<rparr>)
           \<and> core_code_of (Some e') = (if error_is e (Dom ErrDuplicateResource) then Some Duplicate
               else if error_is e (Dom ErrResourceReference) then Some InvalidReference
               else if error_is e (Dom ErrResourceIntegrity) then Some Integrity
               else core_code_of (Some e)))"
proof (cases "NewResource rng D (rs_catalog s) (cmd_scope cmd) (cmd_unit cmd) (cmd_attributes cmd)")
  case (Inl e)
  then show ?thesis by (simp add: resource_create_def bnd_lift)
next
  case (Inr resource)
  obtain r db where call: "rr_create repo resource (rs_db s) = (r, db)" by fastforce
  show ?thesis
  proof (cases r)
    case (Inr x)
    then show ?thesis
      using call \<open>NewResource _ _ _ _ _ _ = Inr resource\<close>
      by (simp add: resource_create_def bnd_lift bnd_run[of "on_error _ _"] on_error_run rs_write_def)
  next
    case (Inl e)
    let ?e = "first_sentinel [ErrDuplicateResource, ErrResourceReference, ErrResourceIntegrity] (Wrapf ''create resource: %w'' [] [e]) e"
    have "resource_create rng D repo cmd s = (Inl ?e, s\<lparr>rs_db := db\<rparr>)"
      using call Inl \<open>NewResource _ _ _ _ _ _ = Inr resource\<close>
      by (simp add: resource_create_def bnd_lift bnd_run[of "on_error _ _"] on_error_run rs_write_def)
    moreover have code: "core_code_of (Some ?e) = (if error_is e (Dom ErrDuplicateResource) then Some Duplicate
               else if error_is e (Dom ErrResourceReference) then Some InvalidReference
               else if error_is e (Dom ErrResourceIntegrity) then Some Integrity
               else core_code_of (Some e))"
      by (simp only: first_sentinel.simps wrapped_code sentinel_codes split: if_split) simp
    ultimately have "\<exists>e'. resource_create rng D repo cmd s = (Inl e', s\<lparr>rs_db := db\<rparr>)
        \<and> core_code_of (Some e') = (if error_is e (Dom ErrDuplicateResource) then Some Duplicate
               else if error_is e (Dom ErrResourceReference) then Some InvalidReference
               else if error_is e (Dom ErrResourceIntegrity) then Some Integrity
               else core_code_of (Some e))" by blast
    then show ?thesis
      unfolding \<open>NewResource _ _ _ _ _ _ = Inr resource\<close> call Inl sum.case prod.case .
  qed
qed

section \<open>Reactivation\<close>

definition demo_resources :: "(int, unit) resource_repo" where
  "demo_resources = \<lparr>rr_create = (\<lambda>r db. (Inr (), db)), rr_get = (\<lambda>c k db. Inl (Sentinel (Dom ErrResourceNotFound))),
     rr_search = (\<lambda>c db. Inr []), rr_update = (\<lambda>r db. (Inr (), db)),
     rr_deactivate = (\<lambda>i db. (Inl (Sentinel (Dom ErrResourceNotFound)), db)),
     rr_reactivate = (\<lambda>i k db. (Inl (Sentinel (Dom ErrResourceNotFound)), db)), rr_search_page = None,
     rr_get_by_id = Some (\<lambda>rid db. Inr (demo_resource\<lparr>r_id := 7, r_active := False\<rparr>)), rr_v2 = None\<rparr>"

text \<open>Reactivation, with or without a revision, is guarded by the committed catalog: it succeeds
  only for a resource that already is active, then without any write, or for one whose stored
  values rebuild under the current catalog to exactly the stored identity. A resource that does
  not rebuild is rejected as REACTIVATION_IMPOSSIBLE or IDENTITY_CONFLICT before any write.\<close>

theorem reactivation_guarded:
  assumes "range_ok rng" "rr_get_by_id repo = Some getter" "getter rid (rs_db s) = Inr current"
    and "resource_reactivate_by_id rng D repo rid s = (r, t)
       \<or> resource_reactivate_revision rng D repo rid expected s = (r, t)"
  shows "(ok r \<longrightarrow> (if r_active current then t = s
            else \<exists>rebuilt. NewResource rng D (rs_catalog s) (own_scope current) (r_unit current) (stored_values current) = Inr rebuilt
              \<and> r_identity rebuilt = r_identity current))
       \<and> (0 < rid \<and> expected \<noteq> 0 \<and> \<not> r_active current \<and> \<not> ok (reactivation_candidate rng D (rs_catalog s) current) \<longrightarrow>
            t = s \<and> (\<exists>e. r = Inl e \<and> core_code_of (Some e) \<in> {Some ReactivationImpossible, Some IdentityConflict}))"
proof (cases "0 < rid \<and> (expected \<noteq> 0 \<or> resource_reactivate_by_id rng D repo rid s = (r, t))")
  case False
  then show ?thesis
    using assms(4) by (auto simp: resource_reactivate_by_id_def resource_reactivate_revision_def fail_def not_less)
next
  case True
  have load: "load_for_reactivation repo rid s = (Inr current, s)"
    using assms(2,3) by (simp add: load_for_reactivation_def on_error_run rs_read_def)
  show ?thesis
  proof (cases "r_active current")
    case True
    then show ?thesis
      using assms(4) load
      by (auto simp: resource_reactivate_by_id_def resource_reactivate_revision_def bnd_run[of "load_for_reactivation _ _"]
          fail_def split: if_splits)
  next
    case False
    show ?thesis
    proof (cases "reactivation_candidate rng D (rs_catalog s) current")
      case (Inl e)
      then have "(r, t) = (Inl e, s)"
        using assms(4) load False True
        by (auto simp: resource_reactivate_by_id_def resource_reactivate_revision_def bnd_run[of "load_for_reactivation _ _"]
            fail_def bnd_lift split: if_splits)
      then show ?thesis using candidate_error_code[OF assms(1) Inl] by simp
    next
      case (Inr rebuilt)
      then have "NewResource rng D (rs_catalog s) (own_scope current) (r_unit current) (stored_values current) = Inr rebuilt
          \<and> r_identity rebuilt = r_identity current"
        by (auto simp: reactivation_candidate_def own_scope_def split: sum.splits if_splits)
      then show ?thesis using False Inr by auto
    qed
  qed
qed

theorem reactivation_guarded_witness:
  "\<exists>e. fst (resource_reactivate_revision (\<lambda>ks. ks) unit_decimals demo_resources 7 4
      \<lparr>rs_authority = NewCatalogAuthority inactive_catalog, rs_db = ()\<rparr>) = Inl e
    \<and> core_code_of (Some e) \<in> {Some ReactivationImpossible, Some IdentityConflict}"
proof -
  let ?s = "\<lparr>rs_authority = NewCatalogAuthority inactive_catalog, rs_db = ()\<rparr>"
  obtain r t where run: "resource_reactivate_revision (\<lambda>ks. ks) unit_decimals demo_resources 7 4 ?s = (r, t)"
    by fastforce
  have bad: "\<not> ok (reactivation_candidate (\<lambda>ks. ks) unit_decimals (rs_catalog ?s) (demo_resource\<lparr>r_id := 7, r_active := False\<rparr>))"
    by code_simp
  have get: "rr_get_by_id demo_resources = Some (\<lambda>rid db. Inr (demo_resource\<lparr>r_id := 7, r_active := False\<rparr>))"
    by (simp add: demo_resources_def)
  show ?thesis
    using reactivation_guarded[OF range_ok_id(1) get refl disjI2[OF run]] bad run by simp
qed

text \<open>C35: reactivating what \<^verbatim>\<open>Create\<close> stored: under an unchanged catalog the rebuild of a stored
  resource without \<^verbatim>\<open>NOT_APPLICABLE\<close> texts succeeds when the stored identity is the one
  \<^verbatim>\<open>NewResource\<close> computed, and is an identity conflict for every other stored identity: a row
  whose identifying attributes were replaced while its identity key was kept can never be
  reactivated.\<close>

theorem reactivation_of_created:
  assumes "range_ok rng1" "range_ok rng2" "NewResource rng1 D c sc u vs = Inr r"
    and "\<forall>v\<in>set (r_attributes r). av_text v \<noteq> NotApplicableText"
  shows "reactivation_candidate rng2 D c (r\<lparr>r_id := rid, r_revision := revision, r_active := False, r_identity := key\<rparr>)
    = (if key = r_identity r then Inr r else Inl (Sentinel (Dom ErrIdentityConflict)))"
proof -
  have "filter (\<lambda>v. av_text v \<noteq> NotApplicableText) (r_attributes r) = r_attributes r"
    using assms(4) by (simp add: filter_id_conv)
  then show ?thesis
    using new_resource_again[OF assms(1-3)]
    by (simp add: reactivation_candidate_def stored_values_def own_scope_def)
qed

theorem reactivation_of_created_witness:
  "reactivation_candidate (\<lambda>ks. ks) unit_decimals demo_catalog (demo_resource\<lparr>r_id := 7, r_active := False\<rparr>) = Inr demo_resource
   \<and> reactivation_candidate (\<lambda>ks. ks) unit_decimals demo_catalog (demo_resource\<lparr>r_id := 7, r_active := False, r_identity := ''v1|old''\<rparr>)
     = Inl (Sentinel (Dom ErrIdentityConflict))"
proof -
  have "\<forall>v\<in>set (r_attributes demo_resource). av_text v \<noteq> NotApplicableText" by code_simp
  then have *: "reactivation_candidate (\<lambda>ks. ks) unit_decimals demo_catalog
        (demo_resource\<lparr>r_id := 7, r_revision := r_revision demo_resource, r_active := False, r_identity := key\<rparr>)
      = (if key = r_identity demo_resource then Inr demo_resource else Inl (Sentinel (Dom ErrIdentityConflict)))" for key
    by (intro reactivation_of_created[OF range_ok_id(2) range_ok_id(1) demo_created]) simp
  show ?thesis using *[of "r_identity demo_resource"] *[of "''v1|old''"] by (simp add: demo_resource_def)
qed

end
