(* ===== verification/SupplierDomain.thy ===== *)
theory SupplierDomain
  imports Errors
begin

text \<open>
  The supplier master (\<^verbatim>\<open>internal/modules/suppliers/domain\<close>): suppliers, their branches and their
  contacts, built from details that are trimmed first, and their lifecycle. A pointer method that
  changes its receiver returns the changed value.
\<close>

section \<open>Suppliers\<close>

record supplier_details =
  su_trade :: gstring
  su_legal :: gstring
  su_tax :: gstring
  su_website :: gstring
  su_notes :: gstring

record supplier = supplier_details +
  su_id :: int
  su_active :: bool
  su_created :: int
  su_updated :: int

definition canonical_supplier :: "supplier_details \<Rightarrow> supplier_details" where
  "canonical_supplier d = \<lparr>su_trade = trim_space (su_trade d), su_legal = trim_space (su_legal d),
     su_tax = trim_space (su_tax d), su_website = trim_space (su_website d), su_notes = trim_space (su_notes d)\<rparr>"

definition NewSupplier :: "supplier_details \<Rightarrow> go_error + supplier" where
  "NewSupplier details =
     (let d = canonical_supplier details in
      if su_trade d = [] \<and> su_legal d = [] \<and> su_tax d = []
      then Inl (SupFieldError ''supplier'' ''trade name, legal name, or tax identifier is required'')
      else Inr \<lparr>su_trade = su_trade d, su_legal = su_legal d, su_tax = su_tax d, su_website = su_website d,
        su_notes = su_notes d, su_id = 0, su_active = True, su_created = 0, su_updated = 0\<rparr>)"

definition supplier_with_details :: "supplier_details \<Rightarrow> supplier \<Rightarrow> go_error + supplier" where
  "supplier_with_details details s = bindr (NewSupplier details) (\<lambda>nxt.
     Inr (s\<lparr>su_trade := su_trade nxt, su_legal := su_legal nxt, su_tax := su_tax nxt,
        su_website := su_website nxt, su_notes := su_notes nxt\<rparr>))"

section \<open>Branches\<close>

record branch_details =
  bh_name :: gstring
  bh_reference :: gstring
  bh_city :: gstring
  bh_state :: gstring
  bh_country :: gstring
  bh_address :: gstring
  bh_phone :: gstring
  bh_email :: gstring
  bh_notes :: gstring

record branch = branch_details +
  bh_id :: int
  bh_supplier :: int
  bh_active :: bool
  bh_created :: int
  bh_updated :: int

definition canonical_branch :: "branch_details \<Rightarrow> branch_details" where
  "canonical_branch d = \<lparr>bh_name = trim_space (bh_name d), bh_reference = trim_space (bh_reference d),
     bh_city = trim_space (bh_city d), bh_state = trim_space (bh_state d), bh_country = trim_space (bh_country d),
     bh_address = trim_space (bh_address d), bh_phone = trim_space (bh_phone d), bh_email = trim_space (bh_email d),
     bh_notes = trim_space (bh_notes d)\<rparr>"

definition NewBranch :: "int \<Rightarrow> branch_details \<Rightarrow> go_error + branch" where
  "NewBranch supplierID details =
     (if supplierID \<le> 0 then Inl (SupFieldError ''supplier_id'' ''must be positive'')
      else let d = canonical_branch details in
        Inr \<lparr>bh_name = bh_name d, bh_reference = bh_reference d, bh_city = bh_city d, bh_state = bh_state d,
          bh_country = bh_country d, bh_address = bh_address d, bh_phone = bh_phone d, bh_email = bh_email d,
          bh_notes = bh_notes d, bh_id = 0, bh_supplier = supplierID, bh_active = True, bh_created = 0, bh_updated = 0\<rparr>)"

definition branch_with_details :: "branch_details \<Rightarrow> branch \<Rightarrow> go_error + branch" where
  "branch_with_details details b = bindr (NewBranch (bh_supplier b) details) (\<lambda>nxt.
     Inr (b\<lparr>bh_name := bh_name nxt, bh_reference := bh_reference nxt, bh_city := bh_city nxt, bh_state := bh_state nxt,
        bh_country := bh_country nxt, bh_address := bh_address nxt, bh_phone := bh_phone nxt,
        bh_email := bh_email nxt, bh_notes := bh_notes nxt\<rparr>))"

section \<open>Contacts\<close>

record contact_details =
  co_branch :: "int option"
  co_name :: gstring
  co_role :: gstring
  co_phone :: gstring
  co_mobile :: gstring
  co_email :: gstring
  co_notes :: gstring

record contact = contact_details +
  co_id :: int
  co_supplier :: int
  co_active :: bool
  co_created :: int
  co_updated :: int

definition canonical_contact :: "contact_details \<Rightarrow> contact_details" where
  "canonical_contact d = \<lparr>co_branch = co_branch d, co_name = trim_space (co_name d), co_role = trim_space (co_role d),
     co_phone = trim_space (co_phone d), co_mobile = trim_space (co_mobile d), co_email = trim_space (co_email d),
     co_notes = trim_space (co_notes d)\<rparr>"

definition NewContact :: "int \<Rightarrow> contact_details \<Rightarrow> go_error + contact" where
  "NewContact supplierID details =
     (if supplierID \<le> 0 then Inl (SupFieldError ''supplier_id'' ''must be positive'')
      else let d = canonical_contact details in
        if (case co_branch d of Some b \<Rightarrow> b \<le> 0 | None \<Rightarrow> False)
        then Inl (SupFieldError ''branch_id'' ''must be positive when provided'')
        else if co_name d = [] then Inl (SupFieldError ''name'' ''is required'')
        else Inr \<lparr>co_branch = co_branch d, co_name = co_name d, co_role = co_role d, co_phone = co_phone d,
          co_mobile = co_mobile d, co_email = co_email d, co_notes = co_notes d, co_id = 0,
          co_supplier = supplierID, co_active = True, co_created = 0, co_updated = 0\<rparr>)"

definition contact_with_details :: "contact_details \<Rightarrow> contact \<Rightarrow> go_error + contact" where
  "contact_with_details details c = bindr (NewContact (co_supplier c) details) (\<lambda>nxt.
     Inr (c\<lparr>co_branch := co_branch nxt, co_name := co_name nxt, co_role := co_role nxt, co_phone := co_phone nxt,
        co_mobile := co_mobile nxt, co_email := co_email nxt, co_notes := co_notes nxt\<rparr>))"

section \<open>Lifecycle\<close>

text \<open>\<^verbatim>\<open>setActive(current *bool, target)\<close>: whether it changed, and the flag afterwards.\<close>

definition setActive :: "bool \<Rightarrow> bool \<Rightarrow> bool \<times> bool" where
  "setActive current target = (if current = target then (False, current) else (True, target))"

definition set_supplier_active :: "bool \<Rightarrow> supplier \<Rightarrow> bool \<times> supplier" where
  "set_supplier_active target s = (case setActive (su_active s) target of (changed, a) \<Rightarrow> (changed, s\<lparr>su_active := a\<rparr>))"

definition set_branch_active :: "bool \<Rightarrow> branch \<Rightarrow> bool \<times> branch" where
  "set_branch_active target b = (case setActive (bh_active b) target of (changed, a) \<Rightarrow> (changed, b\<lparr>bh_active := a\<rparr>))"

definition set_contact_active :: "bool \<Rightarrow> contact \<Rightarrow> bool \<times> contact" where
  "set_contact_active target c = (case setActive (co_active c) target of (changed, a) \<Rightarrow> (changed, c\<lparr>co_active := a\<rparr>))"

section \<open>Canonical details\<close>

lemma supplier_exact:
  "NewSupplier d = Inr s \<longleftrightarrow> \<not> (trim_space (su_trade d) = [] \<and> trim_space (su_legal d) = [] \<and> trim_space (su_tax d) = [])
     \<and> s = \<lparr>su_trade = trim_space (su_trade d), su_legal = trim_space (su_legal d), su_tax = trim_space (su_tax d),
        su_website = trim_space (su_website d), su_notes = trim_space (su_notes d), su_id = 0, su_active = True,
        su_created = 0, su_updated = 0\<rparr>"
  by (auto simp: NewSupplier_def canonical_supplier_def Let_def)

end
