(* ===== verification/Sql.thy ===== *)
theory Sql
  imports GoState Errors
begin

text \<open>
  What the PostgreSQL repositories of the supplier and purchase modules share
  (\<^verbatim>\<open>internal/modules/suppliers/postgres/repository.go\<close>,
  \<^verbatim>\<open>internal/modules/purchases/postgres/repository.go\<close>): how a statement fails, transactions,
  paging. The driver and the server are no code of the repository; of them the model keeps what
  the code relies on. A statement sees the tables and either fails without effect or returns a
  row; a transaction takes effect at its commit or not at all, and sequences are never rolled
  back. Which statement fails, and with which error, is the parameter \<open>F\<close> (by the name of the SQL
  constant and the index of the execution); the constraints the migrations declare are checked by
  the statements themselves. When the connection is lost while a statement outside a transaction
  or a commit is in flight, the change may or may not have happened: the parameter \<open>applied\<close>.
\<close>

section \<open>Errors of a statement\<close>

text \<open>\<open>PgError code constraint message\<close> is \<^verbatim>\<open>*pgconn.PgError\<close>, \<open>NoRows\<close> is \<^verbatim>\<open>pgx.ErrNoRows\<close>.\<close>

datatype (plugins only: code size) sql_fault = PgError gstring gstring gstring | DriverError go_error

datatype (plugins only: code size) db_error = NoRows | Broken sql_fault

type_synonym sql_faults = "gstring \<Rightarrow> nat \<Rightarrow> sql_fault option"

fun fault_error :: "sql_fault \<Rightarrow> go_error" where
  "fault_error (PgError code constraint message) = ErrNew message"
| "fault_error (DriverError e) = e"

fun db_error_value :: "db_error \<Rightarrow> go_error" where
  "db_error_value NoRows = ErrNew ''no rows in result set''"
| "db_error_value (Broken f) = fault_error f"

text \<open>The server's error for a violated constraint; its text is only ever quoted.\<close>

definition violates :: "gstring \<Rightarrow> gstring \<Rightarrow> db_error" where
  "violates code constraint = Broken (PgError code constraint constraint)"

definition wrap_read :: "gstring \<Rightarrow> go_error \<Rightarrow> go_error" where
  "wrap_read operation e = Wrapf ''%s: %w'' [operation] [e]"

section \<open>Statements\<close>

definition map_err :: "('e \<Rightarrow> 'f) \<Rightarrow> ('s, 'e, 'a) action \<Rightarrow> ('s, 'f, 'a) action" where
  "map_err f m = (\<lambda>s. case m s of (Inl e, t) \<Rightarrow> (Inl (f e), t) | (Inr x, t) \<Rightarrow> (Inr x, t))"

text \<open>A statement inside a transaction, and one that is its own transaction.\<close>

definition stmt :: "sql_faults \<Rightarrow> gstring \<Rightarrow> nat \<Rightarrow> ('s, db_error, 'a) action \<Rightarrow> ('s, db_error, 'a) action" where
  "stmt F name k act = (case F name k of Some f \<Rightarrow> fail (Broken f) | None \<Rightarrow> act)"

fun in_doubt :: "sql_fault \<Rightarrow> bool" where
  "in_doubt (PgError code constraint message) = False"
| "in_doubt (DriverError e) = True"

definition autocommit ::
  "sql_faults \<Rightarrow> bool \<Rightarrow> gstring \<Rightarrow> ('s, db_error, 'a) action \<Rightarrow> ('s, db_error, 'a) action" where
  "autocommit F applied name act = (case F name 0 of
      Some f \<Rightarrow> (\<lambda>s. (Inl (Broken f), if applied \<and> in_doubt f then snd (act s) else s))
    | None \<Rightarrow> act)"

definition try_stmt :: "('s, db_error, 'a) action \<Rightarrow> ('s, 'e, db_error + 'a) action" where
  "try_stmt m = (\<lambda>s. case m s of (r, t) \<Rightarrow> (Inr r, t))"

definition query_row :: "('s \<Rightarrow> 'a option) \<Rightarrow> ('s, db_error, 'a) action" where
  "query_row sel = (\<lambda>s. (case sel s of Some r \<Rightarrow> Inr r | None \<Rightarrow> Inl NoRows, s))"

definition pool_ready :: "sql_faults \<Rightarrow> gstring \<Rightarrow> ('s, go_error, unit) action" where
  "pool_ready F repo = (case F ''pool'' 0 of Some f \<Rightarrow> fail (ErrNew (repo @ '': nil pool'')) | None \<Rightarrow> ret ())"

section \<open>Transactions\<close>

text \<open>
  \<^verbatim>\<open>Begin\<close>, the body, \<^verbatim>\<open>Commit\<close>, with the deferred \<^verbatim>\<open>Rollback\<close>: \<open>undo s t\<close> is the state a rollback of
  \<open>t\<close> leaves behind, the tables of \<open>s\<close> with the sequences of \<open>t\<close>.
\<close>

definition transact ::
  "sql_faults \<Rightarrow> gstring \<Rightarrow> (go_error \<Rightarrow> go_error) \<Rightarrow> bool \<Rightarrow> ('s \<Rightarrow> 's \<Rightarrow> 's) \<Rightarrow> ('s, go_error, 'a) action
     \<Rightarrow> ('s, go_error, 'a) action" where
  "transact F begins commits applied undo body = (\<lambda>s. case F ''begin'' 0 of
      Some f \<Rightarrow> (Inl (wrap_read begins (fault_error f)), s)
    | None \<Rightarrow> (case body s of
        (Inl e, t) \<Rightarrow> (Inl e, undo s t)
      | (Inr x, t) \<Rightarrow> (case F ''commit'' 0 of
          None \<Rightarrow> (Inr x, t)
        | Some f \<Rightarrow> (Inl (commits (fault_error f)), if applied then t else undo s t))))"

section \<open>Paging\<close>

definition defaultLimit :: int where "defaultLimit = 100"

definition sql_limit :: "int \<Rightarrow> int" where
  "sql_limit v = (if v \<le> 0 then defaultLimit else v)"

definition sql_offset :: "int \<Rightarrow> int" where
  "sql_offset v = (if v < 0 then 0 else v)"

definition limitPlusOne :: "int \<Rightarrow> int" where
  "limitPlusOne v = sql_limit v + 1"

definition page :: "int \<Rightarrow> int \<Rightarrow> 'a list \<Rightarrow> 'a list" where
  "page lim off xs = take (nat lim) (drop (nat off) xs)"

text \<open>\<^verbatim>\<open>btrim\<close> removes spaces only.\<close>

definition btrim :: "gstring \<Rightarrow> gstring" where
  "btrim s = rev (dropWhile (\<lambda>c. c = CHR '' '') (rev (dropWhile (\<lambda>c. c = CHR '' '') s)))"

text \<open>\<^verbatim>\<open>timestamptz\<close> keeps microseconds.\<close>

definition pg_time :: "int \<Rightarrow> int" where
  "pg_time t = t div 1000 * 1000"

section \<open>Running statements\<close>

lemma map_err_run: "map_err f m s = (case m s of (Inl e, t) \<Rightarrow> (Inl (f e), t) | (Inr x, t) \<Rightarrow> (Inr x, t))"
  by (simp add: map_err_def)

lemma map_err_Inr [simp]: "map_err f m s = (Inr x, t) \<longleftrightarrow> m s = (Inr x, t)"
  by (auto simp: map_err_def split: prod.splits sum.splits)

lemma map_err_Inl: "map_err f m s = (Inl e, t) \<longleftrightarrow> (\<exists>e'. m s = (Inl e', t) \<and> e = f e')"
  by (auto simp: map_err_def split: prod.splits sum.splits)

lemma snd_map_err [simp]: "snd (map_err f m s) = snd (m s)"
  by (auto simp: map_err_def split: prod.splits sum.splits)

lemma stmt_Inr: "stmt F name k act s = (Inr x, t) \<longleftrightarrow> F name k = None \<and> act s = (Inr x, t)"
  by (auto simp: stmt_def fail_def split: option.splits)

lemma query_row_Inr [simp]: "query_row sel s = (Inr x, t) \<longleftrightarrow> sel s = Some x \<and> t = s"
  by (auto simp: query_row_def split: option.splits)

lemma query_row_state [simp]: "snd (query_row sel s) = s"
  by (simp add: query_row_def)

lemma try_stmt_run [simp]: "try_stmt m s = (Inr (fst (m s)), snd (m s))"
  by (simp add: try_stmt_def split: prod.split)

lemma autocommit_Inr: "autocommit F applied name act s = (Inr x, t) \<longleftrightarrow> F name 0 = None \<and> act s = (Inr x, t)"
  by (auto simp: autocommit_def split: option.splits)

lemma pool_ready_Inr [simp]: "pool_ready F repo s = (Inr x, t) \<longleftrightarrow> F ''pool'' 0 = None \<and> t = s"
  by (auto simp: pool_ready_def ret_def fail_def split: option.splits)

lemma pool_ready_state [simp]: "snd (pool_ready F repo s) = s"
  by (simp add: pool_ready_def ret_def fail_def split: option.splits)

lemma transact_Inr:
  "transact F begins commits applied undo body s = (Inr x, t)
     \<longleftrightarrow> F ''begin'' 0 = None \<and> F ''commit'' 0 = None \<and> body s = (Inr x, t)"
  by (auto simp: transact_def split: option.splits prod.splits sum.splits)

text \<open>A relation between the tables before and after that every statement keeps is kept by the
  whole operation.\<close>

definition steps_in :: "('s \<Rightarrow> bool) \<Rightarrow> ('s, 'e, 'a) action \<Rightarrow> bool" where
  "steps_in I m \<longleftrightarrow> (\<forall>s. I s \<longrightarrow> I (snd (m s)))"

lemma steps_in_bnd [intro!]: "steps_in I m \<Longrightarrow> (\<And>x. steps_in I (f x)) \<Longrightarrow> steps_in I (bnd m f)"
  unfolding steps_in_def bnd_def by (auto split: prod.splits sum.splits)

lemma steps_in_pure [intro, simp]:
  "steps_in I (ret x)" "steps_in I (fail e)" "steps_in I (lift r)" "steps_in I (require c)" "steps_in I (asks g)"
  by (simp_all add: steps_in_def action_defs)

lemma steps_in_map_err [intro!]: "steps_in I m \<Longrightarrow> steps_in I (map_err f m)"
  by (simp add: steps_in_def)

lemma steps_in_try [intro!]: "steps_in I m \<Longrightarrow> steps_in I (try_stmt m)"
  by (simp add: steps_in_def)

lemma steps_in_query [intro, simp]: "steps_in I (query_row sel)"
  by (simp add: steps_in_def)

lemma steps_in_ready [intro, simp]: "steps_in I (pool_ready F repo)"
  by (simp add: steps_in_def)

lemma steps_in_stmt [intro!]: "steps_in I act \<Longrightarrow> steps_in I (stmt F name k act)"
  by (simp add: stmt_def split: option.splits)

lemma steps_in_autocommit [intro!]: "steps_in I act \<Longrightarrow> steps_in I (autocommit F applied name act)"
  by (auto simp: autocommit_def steps_in_def split: option.splits)

lemma steps_in_transact [intro!]:
  assumes "steps_in I body" "\<And>s t. I s \<Longrightarrow> I t \<Longrightarrow> I (undo s t)"
  shows "steps_in I (transact F begins commits applied undo body)"
  using assms unfolding steps_in_def transact_def
  by (auto split: option.splits prod.splits sum.splits)

lemma steps_in_case [intro!]:
  "steps_in I m \<Longrightarrow> steps_in I m' \<Longrightarrow> steps_in I (if c then m else m')"
  "steps_in I n \<Longrightarrow> (\<And>x. steps_in I (k x)) \<Longrightarrow> steps_in I (case opt of None \<Rightarrow> n | Some x \<Rightarrow> k x)"
  by (auto split: option.splits)

end
