(* ===== verification/SupplierStore.thy ===== *)
theory SupplierStore
  imports SupplierDomain Sql "HOL-Library.Product_Lexorder"
begin

text \<open>
  The supplier master repository (\<^verbatim>\<open>internal/modules/suppliers/postgres\<close>): three tables with the
  constraints of migration \<^verbatim>\<open>000006_supplier_master\<close>, one statement per operation. A nullable tax
  identifier is stored as the empty text, which the statements map to NULL and back. \<open>now\<close> is the
  server's \<^verbatim>\<open>NOW()\<close>; text matching (\<^verbatim>\<open>ILIKE\<close>) and collation are the server's, the parameters
  \<open>ilike\<close> and \<open>coll\<close> (the sort key of a text).
\<close>

section \<open>Tables\<close>

record supplier_db =
  sdb_suppliers :: "(int, supplier) gmap"
  sdb_branches :: "(int, branch) gmap"
  sdb_contacts :: "(int, contact) gmap"
  sdb_supplier_seq :: int
  sdb_branch_seq :: int
  sdb_contact_seq :: int

text \<open>The key of the unique index: \<^verbatim>\<open>upper(btrim(tax_identifier))\<close> where it is not NULL.\<close>

definition tax_key :: "gstring \<Rightarrow> gstring option" where
  "tax_key tax = (if tax = [] then None else Some (to_upper (btrim tax)))"

definition tax_taken :: "int \<Rightarrow> gstring \<Rightarrow> ('x) supplier_db_scheme \<Rightarrow> bool" where
  "tax_taken i tax db \<longleftrightarrow> tax_key tax \<noteq> None
     \<and> (\<exists>(j, s) \<in> set (sdb_suppliers db). j \<noteq> i \<and> tax_key (su_tax s) = tax_key tax)"

text \<open>The constraints of \<^verbatim>\<open>suppliers\<close>, in the order the server checks them.\<close>

definition supplier_violation :: "supplier \<Rightarrow> ('x) supplier_db_scheme \<Rightarrow> db_error option" where
  "supplier_violation s db =
     (if btrim (su_trade s) = [] \<and> btrim (su_legal s) = [] \<and> btrim (su_tax s) = []
      then Some (violates ''23514'' ''suppliers_meaningful'')
      else if su_tax s \<noteq> [] \<and> btrim (su_tax s) = []
      then Some (violates ''23514'' ''suppliers_tax_identifier_nonblank'')
      else if tax_taken (su_id s) (su_tax s) db
      then Some (violates ''23505'' ''suppliers_tax_identifier_key'')
      else None)"

definition branch_violation :: "branch \<Rightarrow> ('x) supplier_db_scheme \<Rightarrow> db_error option" where
  "branch_violation b db =
     (if map_of (sdb_suppliers db) (bh_supplier b) = None
      then Some (violates ''23503'' ''supplier_branches_supplier_id_fkey'') else None)"

definition owns_branch :: "int \<Rightarrow> int \<Rightarrow> ('x) supplier_db_scheme \<Rightarrow> bool" where
  "owns_branch supplierID branchID db \<longleftrightarrow>
     (case map_of (sdb_branches db) branchID of Some b \<Rightarrow> bh_supplier b = supplierID | None \<Rightarrow> False)"

definition contact_violation :: "contact \<Rightarrow> ('x) supplier_db_scheme \<Rightarrow> db_error option" where
  "contact_violation c db =
     (if btrim (co_name c) = [] then Some (violates ''23514'' ''supplier_contacts_name_nonblank'')
      else if map_of (sdb_suppliers db) (co_supplier c) = None
      then Some (violates ''23503'' ''supplier_contacts_supplier_id_fkey'')
      else (case co_branch c of
          Some b \<Rightarrow> if owns_branch (co_supplier c) b db then None
            else Some (violates ''23503'' ''supplier_contacts_supplier_branch_fkey'')
        | None \<Rightarrow> None))"

section \<open>Errors\<close>

definition sup_error :: "supplier_err \<Rightarrow> go_error" where
  "sup_error e = Sentinel (Sup e)"

fun supplier_write_fault :: "gstring \<Rightarrow> sql_fault \<Rightarrow> go_error" where
  "supplier_write_fault operation (PgError code constraint message) =
     (if code = ''23505'' then
        (if constraint = ''suppliers_tax_identifier_key''
         then Wrapf ''%s: %w'' [operation] [sup_error ErrTaxIdentifierConflict]
         else Wrapf ''%s: %w: %s'' [operation, constraint] [sup_error SupErrConflict])
      else if code = ''23503'' then
        (if constraint = ''supplier_contacts_supplier_branch_fkey''
         then Wrapf ''%s: %w'' [operation] [sup_error ErrBranchOwnership]
         else if constraint = ''supplier_branches_supplier_id_fkey'' \<or> constraint = ''supplier_contacts_supplier_id_fkey''
         then Wrapf ''%s: %w'' [operation] [sup_error ErrSupplierNotFound]
         else Wrapf ''%s: %w: %s'' [operation, message] [sup_error SupErrValidation])
      else if code = ''23502'' \<or> code = ''23514''
      then Wrapf ''%s: %w: %s'' [operation, message] [sup_error SupErrValidation]
      else Wrapf ''%s: %w'' [operation] [ErrNew message])"
| "supplier_write_fault operation (DriverError e) = Wrapf ''%s: %w'' [operation] [e]"

definition supplier_not_found :: "int \<Rightarrow> go_error" where
  "supplier_not_found i = Wrapf ''%w: id %d'' [show_int i] [sup_error ErrSupplierNotFound]"

definition branch_not_found :: "int \<Rightarrow> int \<Rightarrow> go_error" where
  "branch_not_found s i = Wrapf ''%w: supplier %d, branch %d'' [show_int s, show_int i] [sup_error ErrBranchNotFound]"

definition contact_not_found :: "int \<Rightarrow> int \<Rightarrow> go_error" where
  "contact_not_found s i = Wrapf ''%w: supplier %d, contact %d'' [show_int s, show_int i] [sup_error ErrContactNotFound]"

text \<open>A read, and a write that returns its row: no row is the error \<open>missing\<close>. An INSERT always
  returns its row, so \<open>missing\<close> never shows there.\<close>

definition read_error :: "gstring \<Rightarrow> go_error \<Rightarrow> db_error \<Rightarrow> go_error" where
  "read_error operation missing e = (case e of NoRows \<Rightarrow> missing | Broken f \<Rightarrow> wrap_read operation (fault_error f))"

definition write_error :: "gstring \<Rightarrow> go_error \<Rightarrow> db_error \<Rightarrow> go_error" where
  "write_error operation missing e = (case e of NoRows \<Rightarrow> missing | Broken f \<Rightarrow> supplier_write_fault operation f)"

definition nullableBool_matches :: "bool option \<Rightarrow> bool \<Rightarrow> bool" where
  "nullableBool_matches criterion active \<longleftrightarrow> (case criterion of None \<Rightarrow> True | Some a \<Rightarrow> active = a)"

section \<open>Rows\<close>

text \<open>\<^verbatim>\<open>INSERT ... RETURNING\<close>: the identifier comes from the sequence, which advances even when a
  constraint refuses the row.\<close>

definition insert_supplier :: "int \<Rightarrow> supplier \<Rightarrow> ('x supplier_db_scheme, db_error, supplier) action" where
  "insert_supplier now v = (\<lambda>db.
     let i = sdb_supplier_seq db + 1; row = v\<lparr>su_id := i, su_created := now, su_updated := now\<rparr>;
         db' = db\<lparr>sdb_supplier_seq := i\<rparr> in
     case supplier_violation row db of Some e \<Rightarrow> (Inl e, db')
     | None \<Rightarrow> (Inr row, db'\<lparr>sdb_suppliers := gput i row (sdb_suppliers db')\<rparr>))"

definition insert_branch :: "int \<Rightarrow> branch \<Rightarrow> ('x supplier_db_scheme, db_error, branch) action" where
  "insert_branch now v = (\<lambda>db.
     let i = sdb_branch_seq db + 1; row = v\<lparr>bh_id := i, bh_created := now, bh_updated := now\<rparr>;
         db' = db\<lparr>sdb_branch_seq := i\<rparr> in
     case branch_violation row db of Some e \<Rightarrow> (Inl e, db')
     | None \<Rightarrow> (Inr row, db'\<lparr>sdb_branches := gput i row (sdb_branches db')\<rparr>))"

definition insert_contact :: "int \<Rightarrow> contact \<Rightarrow> ('x supplier_db_scheme, db_error, contact) action" where
  "insert_contact now v = (\<lambda>db.
     let i = sdb_contact_seq db + 1; row = v\<lparr>co_id := i, co_created := now, co_updated := now\<rparr>;
         db' = db\<lparr>sdb_contact_seq := i\<rparr> in
     case contact_violation row db of Some e \<Rightarrow> (Inl e, db')
     | None \<Rightarrow> (Inr row, db'\<lparr>sdb_contacts := gput i row (sdb_contacts db')\<rparr>))"

text \<open>\<^verbatim>\<open>UPDATE ... WHERE ... RETURNING\<close>; the trigger stamps \<^verbatim>\<open>updated_at\<close>.\<close>

definition update_supplier ::
  "int \<Rightarrow> int \<Rightarrow> (supplier \<Rightarrow> supplier) \<Rightarrow> ('x supplier_db_scheme, db_error, supplier) action" where
  "update_supplier now i f = (\<lambda>db. case map_of (sdb_suppliers db) i of None \<Rightarrow> (Inl NoRows, db)
     | Some old \<Rightarrow> let row = (f old)\<lparr>su_updated := now\<rparr> in
         (case supplier_violation row db of Some e \<Rightarrow> (Inl e, db)
          | None \<Rightarrow> (Inr row, db\<lparr>sdb_suppliers := gput i row (sdb_suppliers db)\<rparr>)))"

definition update_branch ::
  "int \<Rightarrow> int \<Rightarrow> int \<Rightarrow> (branch \<Rightarrow> branch) \<Rightarrow> ('x supplier_db_scheme, db_error, branch) action" where
  "update_branch now supplierID i f = (\<lambda>db. case map_of (sdb_branches db) i of None \<Rightarrow> (Inl NoRows, db)
     | Some old \<Rightarrow> if bh_supplier old \<noteq> supplierID then (Inl NoRows, db) else
         let row = (f old)\<lparr>bh_updated := now\<rparr> in
         (case branch_violation row db of Some e \<Rightarrow> (Inl e, db)
          | None \<Rightarrow> (Inr row, db\<lparr>sdb_branches := gput i row (sdb_branches db)\<rparr>)))"

definition update_contact ::
  "int \<Rightarrow> int \<Rightarrow> int \<Rightarrow> (contact \<Rightarrow> contact) \<Rightarrow> ('x supplier_db_scheme, db_error, contact) action" where
  "update_contact now supplierID i f = (\<lambda>db. case map_of (sdb_contacts db) i of None \<Rightarrow> (Inl NoRows, db)
     | Some old \<Rightarrow> if co_supplier old \<noteq> supplierID then (Inl NoRows, db) else
         let row = (f old)\<lparr>co_updated := now\<rparr> in
         (case contact_violation row db of Some e \<Rightarrow> (Inl e, db)
          | None \<Rightarrow> (Inr row, db\<lparr>sdb_contacts := gput i row (sdb_contacts db)\<rparr>)))"

section \<open>Suppliers\<close>

definition repo_ready :: "sql_faults \<Rightarrow> ('s, go_error, unit) action" where
  "repo_ready F = pool_ready F ''supplier repository''"

definition CreateSupplier ::
  "sql_faults \<Rightarrow> bool \<Rightarrow> int \<Rightarrow> supplier \<Rightarrow> ('x supplier_db_scheme, go_error, supplier) action" where
  "CreateSupplier F applied now v = bnd (repo_ready F) (\<lambda>_.
     map_err (write_error ''create supplier'' (ErrNew []))
       (autocommit F applied ''createSupplierSQL'' (insert_supplier now v)))"

definition GetSupplier :: "sql_faults \<Rightarrow> int \<Rightarrow> ('x supplier_db_scheme, go_error, supplier) action" where
  "GetSupplier F i = bnd (repo_ready F) (\<lambda>_.
     map_err (read_error ''get supplier'' (supplier_not_found i))
       (stmt F ''getSupplierSQL'' 0 (query_row (\<lambda>db. map_of (sdb_suppliers db) i))))"

definition GetSupplierByTaxIdentifier :: "sql_faults \<Rightarrow> gstring \<Rightarrow> ('x supplier_db_scheme, go_error, supplier) action" where
  "GetSupplierByTaxIdentifier F tax = bnd (repo_ready F) (\<lambda>_.
     map_err (read_error ''get supplier by tax identifier'' (sup_error ErrSupplierNotFound))
       (stmt F ''getSupplierByTaxIdentifierSQL'' 0 (query_row (\<lambda>db.
          find (\<lambda>s. su_tax s \<noteq> [] \<and> to_upper (btrim (su_tax s)) = to_upper (btrim tax)) (map snd (sdb_suppliers db))))))"

definition UpdateSupplier ::
  "sql_faults \<Rightarrow> bool \<Rightarrow> int \<Rightarrow> supplier \<Rightarrow> ('x supplier_db_scheme, go_error, supplier) action" where
  "UpdateSupplier F applied now v = bnd (repo_ready F) (\<lambda>_.
     map_err (write_error ''update supplier'' (supplier_not_found (su_id v)))
       (autocommit F applied ''update suppliers'' (update_supplier now (su_id v) (\<lambda>old.
          old\<lparr>su_trade := su_trade v, su_legal := su_legal v, su_tax := su_tax v, su_website := su_website v,
            su_notes := su_notes v\<rparr>))))"

definition SetSupplierActive ::
  "sql_faults \<Rightarrow> bool \<Rightarrow> int \<Rightarrow> int \<Rightarrow> bool \<Rightarrow> ('x supplier_db_scheme, go_error, supplier) action" where
  "SetSupplierActive F applied now i active = bnd (repo_ready F) (\<lambda>_.
     map_err (write_error ''set supplier active'' (supplier_not_found i))
       (autocommit F applied ''update suppliers active'' (update_supplier now i (\<lambda>old. old\<lparr>su_active := active\<rparr>))))"

text \<open>\<open>matches ilike text columns\<close>: \<^verbatim>\<open>$n = '' OR c1 ILIKE '%' || $n || '%' OR ...\<close>.\<close>

record supplier_search =
  ss_text :: gstring
  ss_active :: "bool option"
  ss_limit :: int
  ss_offset :: int

definition matches :: "(gstring \<Rightarrow> gstring \<Rightarrow> bool) \<Rightarrow> gstring \<Rightarrow> gstring list \<Rightarrow> bool" where
  "matches ilike txt columns \<longleftrightarrow> txt = [] \<or> (\<exists>c\<in>set columns. ilike c (''%'' @ txt @ ''%''))"

definition display_key :: "supplier \<Rightarrow> gstring" where
  "display_key s = to_lower (if su_trade s \<noteq> [] then su_trade s else if su_legal s \<noteq> [] then su_legal s else su_tax s)"

definition SearchSuppliers ::
  "sql_faults \<Rightarrow> (gstring \<Rightarrow> gstring \<Rightarrow> bool) \<Rightarrow> (gstring \<Rightarrow> gstring) \<Rightarrow> supplier_search
     \<Rightarrow> ('x supplier_db_scheme, go_error, supplier list) action" where
  "SearchSuppliers F ilike coll c = bnd (repo_ready F) (\<lambda>_.
     map_err (\<lambda>e. Wrapf ''search suppliers: %w'' [] [db_error_value e]) (stmt F ''searchSuppliersSQL'' 0 (asks (\<lambda>db.
       page (sql_limit (ss_limit c)) (sql_offset (ss_offset c))
         (sort_key (\<lambda>s. (coll (display_key s), su_id s)) (filter (\<lambda>s.
            matches ilike (ss_text c) ([su_trade s, su_legal s] @ (if su_tax s = [] then [] else [su_tax s]))
            \<and> nullableBool_matches (ss_active c) (su_active s)) (map snd (sdb_suppliers db))))))))"

section \<open>Branches\<close>

record list_criteria =
  lc_text :: gstring
  lc_active :: "bool option"
  lc_limit :: int
  lc_offset :: int

definition CreateBranch ::
  "sql_faults \<Rightarrow> bool \<Rightarrow> int \<Rightarrow> branch \<Rightarrow> ('x supplier_db_scheme, go_error, branch) action" where
  "CreateBranch F applied now v = bnd (repo_ready F) (\<lambda>_.
     map_err (write_error ''create branch'' (ErrNew []))
       (autocommit F applied ''createBranchSQL'' (insert_branch now v)))"

definition find_branch :: "int \<Rightarrow> int \<Rightarrow> 'x supplier_db_scheme \<Rightarrow> branch option" where
  "find_branch supplierID i db = (case map_of (sdb_branches db) i of
     Some b \<Rightarrow> if bh_supplier b = supplierID then Some b else None | None \<Rightarrow> None)"

definition GetBranch :: "sql_faults \<Rightarrow> int \<Rightarrow> int \<Rightarrow> ('x supplier_db_scheme, go_error, branch) action" where
  "GetBranch F supplierID i = bnd (repo_ready F) (\<lambda>_.
     map_err (read_error ''get branch'' (branch_not_found supplierID i))
       (stmt F ''getBranchSQL'' 0 (query_row (find_branch supplierID i))))"

definition ListBranches ::
  "sql_faults \<Rightarrow> (gstring \<Rightarrow> gstring \<Rightarrow> bool) \<Rightarrow> (gstring \<Rightarrow> gstring) \<Rightarrow> int \<Rightarrow> list_criteria
     \<Rightarrow> ('x supplier_db_scheme, go_error, branch list) action" where
  "ListBranches F ilike coll supplierID c = bnd (repo_ready F) (\<lambda>_.
     map_err (\<lambda>e. Wrapf ''list branches: %w'' [] [db_error_value e]) (stmt F ''listBranchesSQL'' 0 (asks (\<lambda>db.
       page (limitPlusOne (lc_limit c)) (sql_offset (lc_offset c))
         (sort_key (\<lambda>b. (coll (to_lower (bh_city b)), coll (to_lower (bh_name b)), bh_id b)) (filter (\<lambda>b.
            bh_supplier b = supplierID \<and> nullableBool_matches (lc_active c) (bh_active b)
            \<and> matches ilike (lc_text c) [bh_name b, bh_reference b, bh_city b, bh_state b, bh_country b, bh_address b,
                bh_phone b, bh_email b, bh_notes b]) (map snd (sdb_branches db))))))))"

definition UpdateBranch ::
  "sql_faults \<Rightarrow> bool \<Rightarrow> int \<Rightarrow> branch \<Rightarrow> ('x supplier_db_scheme, go_error, branch) action" where
  "UpdateBranch F applied now v = bnd (repo_ready F) (\<lambda>_.
     map_err (write_error ''update branch'' (branch_not_found (bh_supplier v) (bh_id v)))
       (autocommit F applied ''update supplier_branches'' (update_branch now (bh_supplier v) (bh_id v) (\<lambda>old.
          old\<lparr>bh_name := bh_name v, bh_reference := bh_reference v, bh_city := bh_city v, bh_state := bh_state v,
            bh_country := bh_country v, bh_address := bh_address v, bh_phone := bh_phone v, bh_email := bh_email v,
            bh_notes := bh_notes v\<rparr>))))"

definition SetBranchActive ::
  "sql_faults \<Rightarrow> bool \<Rightarrow> int \<Rightarrow> int \<Rightarrow> int \<Rightarrow> bool \<Rightarrow> ('x supplier_db_scheme, go_error, branch) action" where
  "SetBranchActive F applied now supplierID i active = bnd (repo_ready F) (\<lambda>_.
     map_err (write_error ''set branch active'' (branch_not_found supplierID i))
       (autocommit F applied ''update supplier_branches active''
          (update_branch now supplierID i (\<lambda>old. old\<lparr>bh_active := active\<rparr>))))"

section \<open>Contacts\<close>

record contact_criteria = list_criteria +
  lc_branch :: "int option"

definition CreateContact ::
  "sql_faults \<Rightarrow> bool \<Rightarrow> int \<Rightarrow> contact \<Rightarrow> ('x supplier_db_scheme, go_error, contact) action" where
  "CreateContact F applied now v = bnd (repo_ready F) (\<lambda>_.
     map_err (write_error ''create contact'' (ErrNew []))
       (autocommit F applied ''createContactSQL'' (insert_contact now v)))"

definition GetContact :: "sql_faults \<Rightarrow> int \<Rightarrow> int \<Rightarrow> ('x supplier_db_scheme, go_error, contact) action" where
  "GetContact F supplierID i = bnd (repo_ready F) (\<lambda>_.
     map_err (read_error ''get contact'' (contact_not_found supplierID i))
       (stmt F ''getContactSQL'' 0 (query_row (\<lambda>db. case map_of (sdb_contacts db) i of
          Some c \<Rightarrow> if co_supplier c = supplierID then Some c else None | None \<Rightarrow> None))))"

definition ListContacts ::
  "sql_faults \<Rightarrow> (gstring \<Rightarrow> gstring \<Rightarrow> bool) \<Rightarrow> (gstring \<Rightarrow> gstring) \<Rightarrow> int \<Rightarrow> contact_criteria
     \<Rightarrow> ('x supplier_db_scheme, go_error, contact list) action" where
  "ListContacts F ilike coll supplierID c = bnd (repo_ready F) (\<lambda>_.
     map_err (\<lambda>e. Wrapf ''list contacts: %w'' [] [db_error_value e]) (stmt F ''listContactsSQL'' 0 (asks (\<lambda>db.
       page (limitPlusOne (lc_limit c)) (sql_offset (lc_offset c))
         (sort_key (\<lambda>x. (coll (to_lower (co_name x)), co_id x)) (filter (\<lambda>x.
            co_supplier x = supplierID \<and> nullableBool_matches (lc_active c) (co_active x)
            \<and> (lc_branch c = None \<or> co_branch x = lc_branch c)
            \<and> matches ilike (lc_text c) [co_name x, co_role x, co_phone x, co_mobile x, co_email x, co_notes x])
            (map snd (sdb_contacts db))))))))"

definition UpdateContact ::
  "sql_faults \<Rightarrow> bool \<Rightarrow> int \<Rightarrow> contact \<Rightarrow> ('x supplier_db_scheme, go_error, contact) action" where
  "UpdateContact F applied now v = bnd (repo_ready F) (\<lambda>_.
     map_err (write_error ''update contact'' (contact_not_found (co_supplier v) (co_id v)))
       (autocommit F applied ''update supplier_contacts'' (update_contact now (co_supplier v) (co_id v) (\<lambda>old.
          old\<lparr>co_branch := co_branch v, co_name := co_name v, co_role := co_role v, co_phone := co_phone v,
            co_mobile := co_mobile v, co_email := co_email v, co_notes := co_notes v\<rparr>))))"

definition SetContactActive ::
  "sql_faults \<Rightarrow> bool \<Rightarrow> int \<Rightarrow> int \<Rightarrow> int \<Rightarrow> bool \<Rightarrow> ('x supplier_db_scheme, go_error, contact) action" where
  "SetContactActive F applied now supplierID i active = bnd (repo_ready F) (\<lambda>_.
     map_err (write_error ''set contact active'' (contact_not_found supplierID i))
       (autocommit F applied ''update supplier_contacts active''
          (update_contact now supplierID i (\<lambda>old. old\<lparr>co_active := active\<rparr>))))"

end
