(* ===== verification/SupplierService.thy ===== *)
theory SupplierService
  imports SupplierStore
begin

text \<open>
  The supplier use cases (\<^verbatim>\<open>internal/modules/suppliers/app\<close>) over a repository given as a record of
  its operations (\<^verbatim>\<open>domain.Repository\<close>), and the record the PostgreSQL repository is. A value
  returned beside an error is not kept.
\<close>

section \<open>The repository\<close>

record 's supplier_repo =
  sr_create_supplier :: "supplier \<Rightarrow> ('s, go_error, supplier) action"
  sr_get_supplier :: "int \<Rightarrow> ('s, go_error, supplier) action"
  sr_get_by_tax :: "gstring \<Rightarrow> ('s, go_error, supplier) action"
  sr_search_suppliers :: "supplier_search \<Rightarrow> ('s, go_error, supplier list) action"
  sr_update_supplier :: "supplier \<Rightarrow> ('s, go_error, supplier) action"
  sr_set_supplier_active :: "int \<Rightarrow> bool \<Rightarrow> ('s, go_error, supplier) action"
  sr_create_branch :: "branch \<Rightarrow> ('s, go_error, branch) action"
  sr_get_branch :: "int \<Rightarrow> int \<Rightarrow> ('s, go_error, branch) action"
  sr_list_branches :: "int \<Rightarrow> list_criteria \<Rightarrow> ('s, go_error, branch list) action"
  sr_update_branch :: "branch \<Rightarrow> ('s, go_error, branch) action"
  sr_set_branch_active :: "int \<Rightarrow> int \<Rightarrow> bool \<Rightarrow> ('s, go_error, branch) action"
  sr_create_contact :: "contact \<Rightarrow> ('s, go_error, contact) action"
  sr_get_contact :: "int \<Rightarrow> int \<Rightarrow> ('s, go_error, contact) action"
  sr_list_contacts :: "int \<Rightarrow> contact_criteria \<Rightarrow> ('s, go_error, contact list) action"
  sr_update_contact :: "contact \<Rightarrow> ('s, go_error, contact) action"
  sr_set_contact_active :: "int \<Rightarrow> int \<Rightarrow> bool \<Rightarrow> ('s, go_error, contact) action"

definition supplier_repository ::
  "sql_faults \<Rightarrow> bool \<Rightarrow> int \<Rightarrow> (gstring \<Rightarrow> gstring \<Rightarrow> bool) \<Rightarrow> (gstring \<Rightarrow> gstring) \<Rightarrow> 'x supplier_db_scheme supplier_repo" where
  "supplier_repository F applied now ilike coll = \<lparr>
     sr_create_supplier = CreateSupplier F applied now, sr_get_supplier = GetSupplier F,
     sr_get_by_tax = GetSupplierByTaxIdentifier F, sr_search_suppliers = SearchSuppliers F ilike coll,
     sr_update_supplier = UpdateSupplier F applied now, sr_set_supplier_active = SetSupplierActive F applied now,
     sr_create_branch = CreateBranch F applied now, sr_get_branch = GetBranch F,
     sr_list_branches = ListBranches F ilike coll, sr_update_branch = UpdateBranch F applied now,
     sr_set_branch_active = SetBranchActive F applied now, sr_create_contact = CreateContact F applied now,
     sr_get_contact = GetContact F, sr_list_contacts = ListContacts F ilike coll,
     sr_update_contact = UpdateContact F applied now, sr_set_contact_active = SetContactActive F applied now\<rparr>"

definition sup_valid_id :: "gstring \<Rightarrow> int \<Rightarrow> go_error option" where
  "sup_valid_id field i = (if i \<le> 0 then Some (SupFieldError field ''must be positive'') else None)"

definition wrapped :: "gstring \<Rightarrow> ('s, go_error, 'a) action \<Rightarrow> ('s, go_error, 'a) action" where
  "wrapped operation m = map_err (wrap_read operation) m"

section \<open>Suppliers\<close>

definition create_supplier :: "'s supplier_repo \<Rightarrow> supplier_details \<Rightarrow> ('s, go_error, supplier) action" where
  "create_supplier R details = bnd (lift (NewSupplier details)) (\<lambda>s. wrapped ''create supplier'' (sr_create_supplier R s))"

definition get_supplier :: "'s supplier_repo \<Rightarrow> int \<Rightarrow> ('s, go_error, supplier) action" where
  "get_supplier R i = bnd (require (sup_valid_id ''supplier_id'' i)) (\<lambda>_. wrapped ''get supplier'' (sr_get_supplier R i))"

definition get_supplier_by_tax :: "'s supplier_repo \<Rightarrow> gstring \<Rightarrow> ('s, go_error, supplier) action" where
  "get_supplier_by_tax R taxID =
     (let tax = to_upper (trim_space taxID) in
      if tax = [] then fail (SupFieldError ''tax_identifier'' ''must not be blank'')
      else wrapped ''get supplier by tax identifier'' (sr_get_by_tax R tax))"

definition search_suppliers :: "'s supplier_repo \<Rightarrow> supplier_search \<Rightarrow> ('s, go_error, supplier list) action" where
  "search_suppliers R c = wrapped ''search suppliers'' (sr_search_suppliers R c)"

definition update_supplier_details :: "'s supplier_repo \<Rightarrow> int \<Rightarrow> supplier_details \<Rightarrow> ('s, go_error, supplier) action" where
  "update_supplier_details R i details = bnd (get_supplier R i) (\<lambda>current.
     bnd (lift (supplier_with_details details current)) (\<lambda>nxt. wrapped ''update supplier'' (sr_update_supplier R nxt)))"

definition change_supplier_active :: "'s supplier_repo \<Rightarrow> int \<Rightarrow> bool \<Rightarrow> ('s, go_error, supplier) action" where
  "change_supplier_active R i active = bnd (get_supplier R i) (\<lambda>current.
     case set_supplier_active active current of (changed, current) \<Rightarrow>
       if \<not> changed then ret current else wrapped ''set supplier active'' (sr_set_supplier_active R i active))"

definition deactivate_supplier :: "'s supplier_repo \<Rightarrow> int \<Rightarrow> ('s, go_error, supplier) action" where
  "deactivate_supplier R i = change_supplier_active R i False"

definition reactivate_supplier :: "'s supplier_repo \<Rightarrow> int \<Rightarrow> ('s, go_error, supplier) action" where
  "reactivate_supplier R i = change_supplier_active R i True"

section \<open>Branches\<close>

definition add_branch :: "'s supplier_repo \<Rightarrow> int \<Rightarrow> branch_details \<Rightarrow> ('s, go_error, branch) action" where
  "add_branch R supplierID details = bnd (get_supplier R supplierID) (\<lambda>_.
     bnd (lift (NewBranch supplierID details)) (\<lambda>b. wrapped ''add branch'' (sr_create_branch R b)))"

definition get_branch :: "'s supplier_repo \<Rightarrow> int \<Rightarrow> int \<Rightarrow> ('s, go_error, branch) action" where
  "get_branch R supplierID i = bnd (require (sup_valid_id ''supplier_id'' supplierID)) (\<lambda>_.
     bnd (require (sup_valid_id ''branch_id'' i)) (\<lambda>_. wrapped ''get branch'' (sr_get_branch R supplierID i)))"

definition list_branches :: "'s supplier_repo \<Rightarrow> int \<Rightarrow> list_criteria \<Rightarrow> ('s, go_error, branch list) action" where
  "list_branches R supplierID c = bnd (get_supplier R supplierID) (\<lambda>_. wrapped ''list branches'' (sr_list_branches R supplierID c))"

definition update_branch_details :: "'s supplier_repo \<Rightarrow> int \<Rightarrow> int \<Rightarrow> branch_details \<Rightarrow> ('s, go_error, branch) action" where
  "update_branch_details R supplierID i details = bnd (get_branch R supplierID i) (\<lambda>current.
     bnd (lift (branch_with_details details current)) (\<lambda>nxt. wrapped ''update branch'' (sr_update_branch R nxt)))"

definition change_branch_active :: "'s supplier_repo \<Rightarrow> int \<Rightarrow> int \<Rightarrow> bool \<Rightarrow> ('s, go_error, branch) action" where
  "change_branch_active R supplierID i active = bnd (get_branch R supplierID i) (\<lambda>current.
     case set_branch_active active current of (changed, current) \<Rightarrow>
       if \<not> changed then ret current else wrapped ''set branch active'' (sr_set_branch_active R supplierID i active))"

definition deactivate_branch :: "'s supplier_repo \<Rightarrow> int \<Rightarrow> int \<Rightarrow> ('s, go_error, branch) action" where
  "deactivate_branch R supplierID i = change_branch_active R supplierID i False"

definition reactivate_branch :: "'s supplier_repo \<Rightarrow> int \<Rightarrow> int \<Rightarrow> ('s, go_error, branch) action" where
  "reactivate_branch R supplierID i = change_branch_active R supplierID i True"

section \<open>Contacts\<close>

definition ensureBranchOwnership :: "'s supplier_repo \<Rightarrow> int \<Rightarrow> int option \<Rightarrow> ('s, go_error, unit) action" where
  "ensureBranchOwnership R supplierID branchID = (case branchID of None \<Rightarrow> ret ()
     | Some b \<Rightarrow> map_err (\<lambda>e. if error_is e (Sup ErrBranchNotFound)
           then Wrapf ''%w: branch %d is outside supplier %d'' [show_int b, show_int supplierID] [sup_error ErrBranchOwnership]
           else e)
         (bnd (get_branch R supplierID b) (\<lambda>_. ret ())))"

definition add_contact :: "'s supplier_repo \<Rightarrow> int \<Rightarrow> contact_details \<Rightarrow> ('s, go_error, contact) action" where
  "add_contact R supplierID details = bnd (get_supplier R supplierID) (\<lambda>_.
     bnd (lift (NewContact supplierID details)) (\<lambda>c.
     bnd (ensureBranchOwnership R supplierID (co_branch c)) (\<lambda>_. wrapped ''add contact'' (sr_create_contact R c))))"

definition get_contact :: "'s supplier_repo \<Rightarrow> int \<Rightarrow> int \<Rightarrow> ('s, go_error, contact) action" where
  "get_contact R supplierID i = bnd (require (sup_valid_id ''supplier_id'' supplierID)) (\<lambda>_.
     bnd (require (sup_valid_id ''contact_id'' i)) (\<lambda>_. wrapped ''get contact'' (sr_get_contact R supplierID i)))"

definition list_contacts :: "'s supplier_repo \<Rightarrow> int \<Rightarrow> contact_criteria \<Rightarrow> ('s, go_error, contact list) action" where
  "list_contacts R supplierID c = bnd (get_supplier R supplierID) (\<lambda>_.
     bnd (ensureBranchOwnership R supplierID (lc_branch c)) (\<lambda>_. wrapped ''list contacts'' (sr_list_contacts R supplierID c)))"

definition update_contact_details :: "'s supplier_repo \<Rightarrow> int \<Rightarrow> int \<Rightarrow> contact_details \<Rightarrow> ('s, go_error, contact) action" where
  "update_contact_details R supplierID i details = bnd (get_contact R supplierID i) (\<lambda>current.
     bnd (lift (contact_with_details details current)) (\<lambda>nxt.
     bnd (ensureBranchOwnership R supplierID (co_branch nxt)) (\<lambda>_. wrapped ''update contact'' (sr_update_contact R nxt))))"

definition change_contact_active :: "'s supplier_repo \<Rightarrow> int \<Rightarrow> int \<Rightarrow> bool \<Rightarrow> ('s, go_error, contact) action" where
  "change_contact_active R supplierID i active = bnd (get_contact R supplierID i) (\<lambda>current.
     case set_contact_active active current of (changed, current) \<Rightarrow>
       if \<not> changed then ret current else wrapped ''set contact active'' (sr_set_contact_active R supplierID i active))"

definition deactivate_contact :: "'s supplier_repo \<Rightarrow> int \<Rightarrow> int \<Rightarrow> ('s, go_error, contact) action" where
  "deactivate_contact R supplierID i = change_contact_active R supplierID i False"

definition reactivate_contact :: "'s supplier_repo \<Rightarrow> int \<Rightarrow> int \<Rightarrow> ('s, go_error, contact) action" where
  "reactivate_contact R supplierID i = change_contact_active R supplierID i True"

end
