(* ===== verification/SupplierTheorems.thy ===== *)
theory SupplierTheorems
  imports SupplierService
begin

text \<open>
  The supplier master: what every reachable database satisfies, and the round trip between
  registering a tax identifier and looking it up.
\<close>

section \<open>The tables\<close>

definition supplier_row :: "int \<Rightarrow> int \<Rightarrow> supplier \<Rightarrow> bool" where
  "supplier_row seq i s \<longleftrightarrow> su_id s = i \<and> 0 < i \<and> i \<le> seq
     \<and> (btrim (su_trade s) \<noteq> [] \<or> btrim (su_legal s) \<noteq> [] \<or> btrim (su_tax s) \<noteq> [])
     \<and> (su_tax s = [] \<or> btrim (su_tax s) \<noteq> [])"

definition branch_row :: "(int \<Rightarrow> bool) \<Rightarrow> int \<Rightarrow> int \<Rightarrow> branch \<Rightarrow> bool" where
  "branch_row known seq i b \<longleftrightarrow> bh_id b = i \<and> 0 < i \<and> i \<le> seq \<and> known (bh_supplier b)"

definition contact_row :: "(int \<Rightarrow> bool) \<Rightarrow> (int \<Rightarrow> int \<Rightarrow> bool) \<Rightarrow> int \<Rightarrow> int \<Rightarrow> contact \<Rightarrow> bool" where
  "contact_row known owns seq i c \<longleftrightarrow> co_id c = i \<and> 0 < i \<and> i \<le> seq \<and> known (co_supplier c)
     \<and> btrim (co_name c) \<noteq> [] \<and> (case co_branch c of None \<Rightarrow> True | Some b \<Rightarrow> owns (co_supplier c) b)"

definition table_ok :: "(int \<Rightarrow> 'r \<Rightarrow> bool) \<Rightarrow> (int, 'r) gmap \<Rightarrow> bool" where
  "table_ok row t \<longleftrightarrow> distinct (gkeys t) \<and> (\<forall>i r. map_of t i = Some r \<longrightarrow> row i r)"

definition unique_tax :: "(int, supplier) gmap \<Rightarrow> bool" where
  "unique_tax t \<longleftrightarrow> (\<forall>i j s s'. map_of t i = Some s \<longrightarrow> map_of t j = Some s' \<longrightarrow> tax_key (su_tax s) \<noteq> None
     \<longrightarrow> tax_key (su_tax s) = tax_key (su_tax s') \<longrightarrow> i = j)"

definition known_supplier :: "'x supplier_db_scheme \<Rightarrow> int \<Rightarrow> bool" where
  "known_supplier db i \<longleftrightarrow> map_of (sdb_suppliers db) i \<noteq> None"

definition supplier_master :: "'x supplier_db_scheme \<Rightarrow> bool" where
  "supplier_master db \<longleftrightarrow> 0 \<le> sdb_supplier_seq db \<and> 0 \<le> sdb_branch_seq db \<and> 0 \<le> sdb_contact_seq db
     \<and> table_ok (supplier_row (sdb_supplier_seq db)) (sdb_suppliers db) \<and> unique_tax (sdb_suppliers db)
     \<and> table_ok (branch_row (known_supplier db) (sdb_branch_seq db)) (sdb_branches db)
     \<and> table_ok (contact_row (known_supplier db) (\<lambda>s b. owns_branch s b db) (sdb_contact_seq db)) (sdb_contacts db)"

lemma table_ok_put:
  "table_ok row t \<Longrightarrow> row i r \<Longrightarrow> table_ok row (gput i r t)"
  by (auto simp: table_ok_def)

lemma table_ok_mono:
  "table_ok row t \<Longrightarrow> (\<And>i r. row i r \<Longrightarrow> row' i r) \<Longrightarrow> table_ok row' t"
  by (auto simp: table_ok_def)

lemma table_ok_fresh: "table_ok row t \<Longrightarrow> \<forall>r. \<not> row i r \<Longrightarrow> map_of t i = None"
  by (cases "map_of t i") (auto simp: table_ok_def)

lemma unique_tax_put:
  assumes "unique_tax t" "\<And>j s'. map_of t j = Some s' \<Longrightarrow> j \<noteq> i \<Longrightarrow> tax_key (su_tax s) \<noteq> None \<Longrightarrow> tax_key (su_tax s') \<noteq> tax_key (su_tax s)"
  shows "unique_tax (gput i s t)"
  using assms unfolding unique_tax_def map_of_gput fun_upd_apply by (metis option.sel)

lemma supplier_put:
  assumes I: "supplier_master db" and v: "supplier_violation s db = None"
    and i: "su_id s = i" "0 < i" "i \<le> n" "sdb_supplier_seq db \<le> n"
  shows "supplier_master (db\<lparr>sdb_supplier_seq := n, sdb_suppliers := gput i s (sdb_suppliers db)\<rparr>)" (is "supplier_master ?db")
proof -
  have "supplier_row n i s"
    using v i by (auto simp: supplier_row_def supplier_violation_def violates_def split: if_splits)
  moreover have "table_ok (supplier_row n) (sdb_suppliers db)"
    by (rule table_ok_mono[of "supplier_row (sdb_supplier_seq db)"])
      (use I i(4) in \<open>auto simp: supplier_master_def supplier_row_def\<close>)
  ultimately have "table_ok (supplier_row n) (gput i s (sdb_suppliers db))" by (rule table_ok_put[rotated])
  moreover have "unique_tax (gput i s (sdb_suppliers db))"
  proof (rule unique_tax_put)
    show "unique_tax (sdb_suppliers db)" using I by (simp add: supplier_master_def)
    fix j s' assume "map_of (sdb_suppliers db) j = Some s'" "j \<noteq> i" "tax_key (su_tax s) \<noteq> None"
    then show "tax_key (su_tax s') \<noteq> tax_key (su_tax s)"
      using v i(1) map_of_SomeD[of "sdb_suppliers db" j s'] by (auto simp: supplier_violation_def tax_taken_def split: if_splits)
  qed
  moreover have "known_supplier db j \<Longrightarrow> known_supplier ?db j" for j
    by (auto simp: known_supplier_def)
  then have "table_ok (branch_row (known_supplier ?db) (sdb_branch_seq db)) (sdb_branches db)"
      "table_ok (contact_row (known_supplier ?db) (\<lambda>s b. owns_branch s b ?db) (sdb_contact_seq db)) (sdb_contacts db)"
    using I unfolding supplier_master_def
    by (auto elim!: table_ok_mono simp: branch_row_def contact_row_def owns_branch_def split: option.splits)
  ultimately show ?thesis
    using I i(4) by (simp add: supplier_master_def)
qed

lemma branch_put:
  assumes I: "supplier_master db" and v: "branch_violation b db = None"
    and i: "bh_id b = i" "0 < i" "i \<le> n" "sdb_branch_seq db \<le> n"
    and same: "\<And>old. map_of (sdb_branches db) i = Some old \<Longrightarrow> bh_supplier old = bh_supplier b"
  shows "supplier_master (db\<lparr>sdb_branch_seq := n, sdb_branches := gput i b (sdb_branches db)\<rparr>)" (is "supplier_master ?db")
proof -
  have known: "known_supplier ?db = known_supplier db" by (simp add: known_supplier_def fun_eq_iff)
  have "branch_row (known_supplier ?db) n i b"
    using v i by (auto simp: branch_row_def branch_violation_def known_supplier_def split: if_splits)
  moreover have "table_ok (branch_row (known_supplier ?db) n) (sdb_branches db)"
    by (rule table_ok_mono[of "branch_row (known_supplier db) (sdb_branch_seq db)"])
      (use I i(4) in \<open>auto simp: supplier_master_def branch_row_def known\<close>)
  ultimately have "table_ok (branch_row (known_supplier ?db) n) (gput i b (sdb_branches db))" by (rule table_ok_put[rotated])
  moreover have "owns_branch s j db \<Longrightarrow> owns_branch s j ?db" for s j
    using same by (auto simp: owns_branch_def split: option.splits)
  then have "table_ok (contact_row (known_supplier ?db) (\<lambda>s b. owns_branch s b ?db) (sdb_contact_seq db)) (sdb_contacts db)"
    using I unfolding supplier_master_def known
    by (auto elim!: table_ok_mono simp: contact_row_def split: option.splits)
  ultimately show ?thesis
    using I i(4) by (simp add: supplier_master_def known_supplier_def)
qed

lemma contact_put:
  assumes I: "supplier_master db" and v: "contact_violation c db = None"
    and i: "co_id c = i" "0 < i" "i \<le> n" "sdb_contact_seq db \<le> n"
  shows "supplier_master (db\<lparr>sdb_contact_seq := n, sdb_contacts := gput i c (sdb_contacts db)\<rparr>)" (is "supplier_master ?db")
proof -
  have frame: "known_supplier ?db = known_supplier db" "(\<lambda>s b. owns_branch s b ?db) = (\<lambda>s b. owns_branch s b db)"
    by (simp_all add: known_supplier_def owns_branch_def fun_eq_iff)
  have "contact_row (known_supplier db) (\<lambda>s b. owns_branch s b db) n i c"
    using v i by (auto simp: contact_row_def contact_violation_def known_supplier_def split: if_splits option.splits)
  moreover have "table_ok (contact_row (known_supplier db) (\<lambda>s b. owns_branch s b db) n) (sdb_contacts db)"
    by (rule table_ok_mono[of "contact_row (known_supplier db) (\<lambda>s b. owns_branch s b db) (sdb_contact_seq db)"])
      (use I i(4) in \<open>auto simp: supplier_master_def contact_row_def\<close>)
  ultimately have "table_ok (contact_row (known_supplier db) (\<lambda>s b. owns_branch s b db) n) (gput i c (sdb_contacts db))"
    by (rule table_ok_put[rotated])
  then show ?thesis
    using I i(4) unfolding supplier_master_def frame by simp
qed

text \<open>A refused insertion only consumes a sequence value.\<close>

lemma sequence_bump:
  assumes "supplier_master db"
  shows "supplier_master (db\<lparr>sdb_supplier_seq := sdb_supplier_seq db + 1\<rparr>)"
    "supplier_master (db\<lparr>sdb_branch_seq := sdb_branch_seq db + 1\<rparr>)"
    "supplier_master (db\<lparr>sdb_contact_seq := sdb_contact_seq db + 1\<rparr>)"
  using assms unfolding supplier_master_def
  by (auto elim!: table_ok_mono simp: supplier_row_def branch_row_def contact_row_def known_supplier_def owns_branch_def)

section \<open>Statements keep the tables\<close>

lemma insert_supplier_steps [intro]: "steps_in supplier_master (insert_supplier now v)"
  unfolding steps_in_def insert_supplier_def Let_def
proof (intro allI impI)
  fix db :: "'a supplier_db_scheme"
  let ?row = "v\<lparr>su_id := sdb_supplier_seq db + 1, su_created := now, su_updated := now\<rparr>"
  assume I: "supplier_master db"
  then have "0 \<le> sdb_supplier_seq db" by (simp add: supplier_master_def)
  with supplier_put[OF I, of ?row] sequence_bump(1)[OF I]
  show "supplier_master (snd (case supplier_violation ?row db of None \<Rightarrow> (Inr ?row, db\<lparr>sdb_supplier_seq := sdb_supplier_seq db + 1,
          sdb_suppliers := gput (sdb_supplier_seq db + 1) ?row (sdb_suppliers (db\<lparr>sdb_supplier_seq := sdb_supplier_seq db + 1\<rparr>))\<rparr>)
      | Some e \<Rightarrow> (Inl e, db\<lparr>sdb_supplier_seq := sdb_supplier_seq db + 1\<rparr>)))"
    by (auto split: option.split)
qed

lemma insert_branch_steps [intro]: "steps_in supplier_master (insert_branch now v)"
  unfolding steps_in_def insert_branch_def Let_def
proof (intro allI impI)
  fix db :: "'a supplier_db_scheme"
  let ?row = "v\<lparr>bh_id := sdb_branch_seq db + 1, bh_created := now, bh_updated := now\<rparr>"
  assume I: "supplier_master db"
  then have "0 \<le> sdb_branch_seq db" "map_of (sdb_branches db) (sdb_branch_seq db + 1) = None"
    using table_ok_fresh[of _ "sdb_branches db"] by (auto simp: supplier_master_def branch_row_def)
  with branch_put[OF I, of ?row "sdb_branch_seq db + 1" "sdb_branch_seq db + 1"] sequence_bump(2)[OF I]
  show "supplier_master (snd (case branch_violation ?row db of None \<Rightarrow> (Inr ?row, db\<lparr>sdb_branch_seq := sdb_branch_seq db + 1,
          sdb_branches := gput (sdb_branch_seq db + 1) ?row (sdb_branches (db\<lparr>sdb_branch_seq := sdb_branch_seq db + 1\<rparr>))\<rparr>)
      | Some e \<Rightarrow> (Inl e, db\<lparr>sdb_branch_seq := sdb_branch_seq db + 1\<rparr>)))"
    by (auto split: option.split)
qed

lemma insert_contact_steps [intro]: "steps_in supplier_master (insert_contact now v)"
  unfolding steps_in_def insert_contact_def Let_def
proof (intro allI impI)
  fix db :: "'a supplier_db_scheme"
  let ?row = "v\<lparr>co_id := sdb_contact_seq db + 1, co_created := now, co_updated := now\<rparr>"
  assume I: "supplier_master db"
  then have "0 \<le> sdb_contact_seq db" by (simp add: supplier_master_def)
  with contact_put[OF I, of ?row] sequence_bump(3)[OF I]
  show "supplier_master (snd (case contact_violation ?row db of None \<Rightarrow> (Inr ?row, db\<lparr>sdb_contact_seq := sdb_contact_seq db + 1,
          sdb_contacts := gput (sdb_contact_seq db + 1) ?row (sdb_contacts (db\<lparr>sdb_contact_seq := sdb_contact_seq db + 1\<rparr>))\<rparr>)
      | Some e \<Rightarrow> (Inl e, db\<lparr>sdb_contact_seq := sdb_contact_seq db + 1\<rparr>)))"
    by (auto split: option.split)
qed

lemma update_supplier_steps:
  assumes f: "\<And>s. su_id (f s) = su_id s"
  shows "steps_in supplier_master (update_supplier now i f)"
  unfolding steps_in_def
proof (intro allI impI)
  fix db :: "'a supplier_db_scheme"
  assume I: "supplier_master db"
  show "supplier_master (snd (update_supplier now i f db))"
  proof (cases "map_of (sdb_suppliers db) i")
    case (Some old)
    then have "supplier_row (sdb_supplier_seq db) i old" using I by (simp add: supplier_master_def table_ok_def)
    with supplier_put[OF I, of "(f old)\<lparr>su_updated := now\<rparr>" i "sdb_supplier_seq db"] f I Some show ?thesis
      by (auto simp: update_supplier_def supplier_row_def Let_def split: option.split)
  qed (simp add: update_supplier_def I)
qed

lemma update_branch_steps:
  assumes f: "\<And>b. bh_id (f b) = bh_id b" "\<And>b. bh_supplier (f b) = bh_supplier b"
  shows "steps_in supplier_master (update_branch now supplierID i f)"
  unfolding steps_in_def
proof (intro allI impI)
  fix db :: "'a supplier_db_scheme"
  assume I: "supplier_master db"
  show "supplier_master (snd (update_branch now supplierID i f db))"
  proof (cases "map_of (sdb_branches db) i")
    case (Some old)
    then have "branch_row (known_supplier db) (sdb_branch_seq db) i old" using I by (simp add: supplier_master_def table_ok_def)
    with branch_put[OF I, of "(f old)\<lparr>bh_updated := now\<rparr>" i "sdb_branch_seq db"] f I Some show ?thesis
      by (auto simp: update_branch_def branch_row_def Let_def split: option.split)
  qed (simp add: update_branch_def I)
qed

lemma update_contact_steps:
  assumes f: "\<And>c. co_id (f c) = co_id c"
  shows "steps_in supplier_master (update_contact now supplierID i f)"
  unfolding steps_in_def
proof (intro allI impI)
  fix db :: "'a supplier_db_scheme"
  assume I: "supplier_master db"
  show "supplier_master (snd (update_contact now supplierID i f db))"
  proof (cases "map_of (sdb_contacts db) i")
    case (Some old)
    then have "contact_row (known_supplier db) (\<lambda>s b. owns_branch s b db) (sdb_contact_seq db) i old"
      using I by (simp add: supplier_master_def table_ok_def)
    with contact_put[OF I, of "(f old)\<lparr>co_updated := now\<rparr>" i "sdb_contact_seq db"] f I Some show ?thesis
      by (auto simp: update_contact_def contact_row_def Let_def split: option.split)
  qed (simp add: update_contact_def I)
qed

section \<open>Writing use cases\<close>

text \<open>Any process runs any use case with any faults; between two statements of one use case the
  others may run, because every statement keeps the tables.\<close>

datatype (plugins only: code size) supplier_call =
    CallCreateSupplier supplier_details | CallUpdateSupplier int supplier_details | CallSupplierActive int bool
  | CallAddBranch int branch_details | CallUpdateBranch int int branch_details | CallBranchActive int int bool
  | CallAddContact int contact_details | CallUpdateContact int int contact_details | CallContactActive int int bool

fun run_supplier_call :: "'s supplier_repo \<Rightarrow> supplier_call \<Rightarrow> 's \<Rightarrow> 's" where
  "run_supplier_call R (CallCreateSupplier d) s = snd (create_supplier R d s)"
| "run_supplier_call R (CallUpdateSupplier i d) s = snd (update_supplier_details R i d s)"
| "run_supplier_call R (CallSupplierActive i a) s = snd (if a then reactivate_supplier R i s else deactivate_supplier R i s)"
| "run_supplier_call R (CallAddBranch i d) s = snd (add_branch R i d s)"
| "run_supplier_call R (CallUpdateBranch i j d) s = snd (update_branch_details R i j d s)"
| "run_supplier_call R (CallBranchActive i j a) s = snd (if a then reactivate_branch R i j s else deactivate_branch R i j s)"
| "run_supplier_call R (CallAddContact i d) s = snd (add_contact R i d s)"
| "run_supplier_call R (CallUpdateContact i j d) s = snd (update_contact_details R i j d s)"
| "run_supplier_call R (CallContactActive i j a) s = snd (if a then reactivate_contact R i j s else deactivate_contact R i j s)"

section \<open>The repository contract\<close>

text \<open>What the use cases ask of the repository: no operation leaves the well-formed states.\<close>

locale supplier_contract =
  fixes R :: "'s supplier_repo" and I :: "'s \<Rightarrow> bool"
  assumes create_supplier_op [intro]: "steps_in I (sr_create_supplier R s)"
    and get_supplier_op [intro]: "steps_in I (sr_get_supplier R i)"
    and get_by_tax_op [intro]: "steps_in I (sr_get_by_tax R tax)"
    and search_suppliers_op [intro]: "steps_in I (sr_search_suppliers R q)"
    and update_supplier_op [intro]: "steps_in I (sr_update_supplier R s)"
    and set_supplier_active_op [intro]: "steps_in I (sr_set_supplier_active R i a)"
    and create_branch_op [intro]: "steps_in I (sr_create_branch R b)"
    and get_branch_op [intro]: "steps_in I (sr_get_branch R i j)"
    and list_branches_op [intro]: "steps_in I (sr_list_branches R i lc)"
    and update_branch_op [intro]: "steps_in I (sr_update_branch R b)"
    and set_branch_active_op [intro]: "steps_in I (sr_set_branch_active R i j a)"
    and create_contact_op [intro]: "steps_in I (sr_create_contact R c)"
    and get_contact_op [intro]: "steps_in I (sr_get_contact R i j)"
    and list_contacts_op [intro]: "steps_in I (sr_list_contacts R i cc)"
    and update_contact_op [intro]: "steps_in I (sr_update_contact R c)"
    and set_contact_active_op [intro]: "steps_in I (sr_set_contact_active R i j a)"
begin

lemma read_calls [intro]:
  "steps_in I (get_supplier R i)" "steps_in I (get_branch R i j)" "steps_in I (get_contact R i j)"
  "steps_in I (get_supplier_by_tax R tax)" "steps_in I (search_suppliers R q)"
  by (auto simp: get_supplier_def get_branch_def get_contact_def get_supplier_by_tax_def search_suppliers_def wrapped_def Let_def)

lemma ownership_call [intro]: "steps_in I (ensureBranchOwnership R i b)"
  by (auto simp: ensureBranchOwnership_def split: option.split)

lemma list_calls [intro]: "steps_in I (list_branches R i lc)" "steps_in I (list_contacts R i cc)"
  by (auto simp: list_branches_def list_contacts_def wrapped_def)

lemma supplier_calls [intro]:
  "steps_in I (create_supplier R details)" "steps_in I (update_supplier_details R i details)"
  "steps_in I (change_supplier_active R i a)"
  by (auto simp: create_supplier_def update_supplier_details_def change_supplier_active_def wrapped_def split: prod.split)

lemma branch_calls [intro]:
  "steps_in I (add_branch R i bd)" "steps_in I (update_branch_details R i j bd)" "steps_in I (change_branch_active R i j a)"
  by (auto simp: add_branch_def update_branch_details_def change_branch_active_def wrapped_def split: prod.split)

lemma contact_calls [intro]:
  "steps_in I (add_contact R i cd)" "steps_in I (update_contact_details R i j cd)" "steps_in I (change_contact_active R i j a)"
  by (auto simp: add_contact_def update_contact_details_def change_contact_active_def wrapped_def split: prod.split)

lemma call_keeps: "I s \<Longrightarrow> I (run_supplier_call R c s)"
proof (cases c)
qed (use supplier_calls branch_calls contact_calls in \<open>simp_all add: steps_in_def reactivate_supplier_def
  deactivate_supplier_def reactivate_branch_def deactivate_branch_def reactivate_contact_def deactivate_contact_def\<close>)

end

interpretation pg_suppliers: supplier_contract "supplier_repository F applied now ilike coll" supplier_master for F applied now ilike coll
  by unfold_locales
    (auto simp: supplier_repository_def repo_ready_def CreateSupplier_def GetSupplier_def GetSupplierByTaxIdentifier_def
      SearchSuppliers_def UpdateSupplier_def SetSupplierActive_def CreateBranch_def GetBranch_def ListBranches_def
      UpdateBranch_def SetBranchActive_def CreateContact_def GetContact_def ListContacts_def UpdateContact_def SetContactActive_def
      intro!: update_supplier_steps update_branch_steps update_contact_steps)

section \<open>Reachable databases\<close>

definition empty_suppliers :: supplier_db where
  "empty_suppliers = \<lparr>sdb_suppliers = [], sdb_branches = [], sdb_contacts = [], sdb_supplier_seq = 0, sdb_branch_seq = 0,
     sdb_contact_seq = 0\<rparr>"

inductive supplier_reachable :: "supplier_db \<Rightarrow> bool" where
  empty: "supplier_reachable empty_suppliers"
| call: "supplier_reachable db \<Longrightarrow> supplier_reachable (run_supplier_call (supplier_repository F applied now ilike coll) c db)"

text \<open>In every database the use cases can reach, whatever statements fail and in whatever order the calls run, the
  constraints of the tables hold.\<close>

lemma reachable_supplier_master: "supplier_reachable db \<Longrightarrow> supplier_master db"
  by (induction rule: supplier_reachable.induct)
    (simp_all add: pg_suppliers.call_keeps, simp add: empty_suppliers_def supplier_master_def table_ok_def unique_tax_def)

definition demo_supplier :: supplier_details where
  "demo_supplier = \<lparr>su_trade = [], su_legal = ''Proveedor SA'', su_tax = '' abc010101aa1 '', su_website = [], su_notes = []\<rparr>"

definition no_faults :: sql_faults where
  "no_faults = (\<lambda>_ _. None)"

definition plain_suppliers :: "supplier_db supplier_repo" where
  "plain_suppliers = supplier_repository no_faults False 1000 (\<lambda>a b. a = b) (\<lambda>s. s)"

definition demo_suppliers :: supplier_db where
  "demo_suppliers = fold (run_supplier_call plain_suppliers)
     [CallCreateSupplier demo_supplier,
      CallAddBranch 1 \<lparr>bh_name = ''Norte'', bh_reference = [], bh_city = ''Monterrey'', bh_state = [], bh_country = [],
        bh_address = [], bh_phone = [], bh_email = [], bh_notes = []\<rparr>,
      CallAddContact 1 \<lparr>co_branch = Some 1, co_name = ''Ana'', co_role = [], co_phone = [], co_mobile = [], co_email = [],
        co_notes = []\<rparr>,
      CallCreateSupplier (demo_supplier\<lparr>su_tax := ''ABC010101AA1''\<rparr>)] empty_suppliers"

lemma demo_suppliers_reachable: "supplier_reachable demo_suppliers"
  unfolding demo_suppliers_def plain_suppliers_def fold_simps
  by (intro supplier_reachable.intros)

section \<open>Tax identifiers\<close>

lemma btrim_trim: "btrim (trim_space s) = trim_space s"
proof -
  have sp: "is_space (CHR '' '')" by (simp add: is_space_def)
  let ?t = "trim_space s"
  have "\<not> is_space (hd ?t)" "\<not> is_space (last ?t)" if "?t \<noteq> []"
  proof -
    let ?u = "dropWhile is_space s"
    have t: "?t = rev (dropWhile is_space (rev ?u))" by (simp add: trim_space_def)
    then have "dropWhile is_space (rev ?u) \<noteq> []" using that by simp
    then have "\<not> is_space (hd (dropWhile is_space (rev ?u)))" by (rule hd_dropWhile)
    then show "\<not> is_space (last ?t)" using that by (simp add: t last_rev)
    obtain w where w: "?u = ?t @ w"
      unfolding t by (metis rev_append rev_rev_ident takeWhile_dropWhile_id)
    have "?u \<noteq> []" using that w by auto
    then have "\<not> is_space (hd ?u)" by (rule hd_dropWhile)
    then show "\<not> is_space (hd ?t)" using w that by (metis hd_append2)
  qed
  then have "dropWhile (\<lambda>c. c = CHR '' '') ?t = ?t" "dropWhile (\<lambda>c. c = CHR '' '') (rev ?t) = rev ?t"
    unfolding dropWhile_eq_self_iff using sp by (metis, metis hd_rev rev_is_Nil_conv)
  then show ?thesis by (simp add: btrim_def)
qed

lemma find_the_one:
  assumes "x \<in> set xs" "P x" "\<And>y. y \<in> set xs \<Longrightarrow> P y \<Longrightarrow> y = x"
  shows "find P xs = Some x"
proof (cases "find P xs")
  case None
  with assms(1,2) show ?thesis unfolding find_None_iff by blast
next
  case (Some y)
  then have "y \<in> set xs" "P y" unfolding find_Some_iff by auto
  then have "y = x" by (rule assms(3))
  with Some show ?thesis by (simp only:)
qed

lemma unique_taxD:
  "unique_tax t \<Longrightarrow> map_of t i = Some s \<Longrightarrow> map_of t j = Some s' \<Longrightarrow> tax_key (su_tax s) = Some k
     \<Longrightarrow> tax_key (su_tax s') = Some k \<Longrightarrow> s' = s"
  unfolding unique_tax_def by (metis option.distinct(1) option.inject)

lemma tax_key_Some: "tax_key t = Some k \<longleftrightarrow> t \<noteq> [] \<and> to_upper (btrim t) = k"
  by (simp add: tax_key_def)

lemma find_by_tax:
  assumes I: "supplier_master db" and s: "map_of (sdb_suppliers db) i = Some s" "tax_key (su_tax s) = Some k"
  shows "find (\<lambda>s. su_tax s \<noteq> [] \<and> to_upper (btrim (su_tax s)) = k) (map snd (sdb_suppliers db)) = Some s"
  unfolding tax_key_Some[symmetric]
proof (rule find_the_one)
  show "s \<in> set (map snd (sdb_suppliers db))" using map_of_SomeD[OF s(1)] by force
  fix y assume y: "y \<in> set (map snd (sdb_suppliers db))" "tax_key (su_tax y) = Some k"
  obtain j where "(j, y) \<in> set (sdb_suppliers db)" using y(1) by auto
  moreover have "distinct (map fst (sdb_suppliers db))" and u: "unique_tax (sdb_suppliers db)"
    using I unfolding supplier_master_def table_ok_def gkeys_def by blast+
  ultimately have "map_of (sdb_suppliers db) j = Some y" by (metis map_of_is_SomeI)
  then show "y = s" using unique_taxD[OF u s(1) _ s(2) y(2)] by blast
qed (rule s(2))

lemma create_supplier_Inr:
  assumes "create_supplier (supplier_repository F applied now ilike coll) d db = (Inr s, db')"
  obtains v where "NewSupplier d = Inr v" "s = v\<lparr>su_id := sdb_supplier_seq db + 1, su_created := now, su_updated := now\<rparr>"
    "supplier_violation s db = None"
    "db' = db\<lparr>sdb_supplier_seq := sdb_supplier_seq db + 1, sdb_suppliers := gput (sdb_supplier_seq db + 1) s (sdb_suppliers db)\<rparr>"
  using assms
  by (auto simp: create_supplier_def supplier_repository_def wrapped_def CreateSupplier_def bnd_Inr autocommit_Inr
      repo_ready_def insert_supplier_def Let_def split: option.splits)

lemma create_supplier_Inl:
  assumes "create_supplier (supplier_repository no_faults applied now ilike coll) d db = (r, db')"
    "NewSupplier d = Inr v" "supplier_violation (v\<lparr>su_id := sdb_supplier_seq db + 1, su_created := now, su_updated := now\<rparr>) db = Some (Broken f)"
  shows "r = Inl (wrap_read ''create supplier'' (supplier_write_fault ''create supplier'' f))
    \<and> db' = db\<lparr>sdb_supplier_seq := sdb_supplier_seq db + 1\<rparr>"
  using assms
  by (auto simp: create_supplier_def supplier_repository_def wrapped_def CreateSupplier_def bnd_def autocommit_def no_faults_def
      insert_supplier_def Let_def map_err_def repo_ready_def pool_ready_def ret_def lift_def write_error_def split: option.splits)

text \<open>The lookup by tax identifier and the registration of a taken one, from the row that holds it.\<close>

lemma upper_key: "to_upper (btrim (to_upper (trim_space tax))) = to_upper (trim_space tax)"
  by (metis btrim_trim to_upper_idem trim_upper)

lemma tax_lookup:
  assumes I: "supplier_master db" and row: "map_of (sdb_suppliers db) i = Some s" "tax_key (su_tax s) = Some (to_upper (trim_space tax))"
    and tax: "trim_space tax \<noteq> []"
  shows "get_supplier_by_tax (supplier_repository no_faults a now ilike coll) tax db = (Inr s, db)"
  using find_by_tax[OF I row] tax
  by (simp add: get_supplier_by_tax_def supplier_repository_def wrapped_def GetSupplierByTaxIdentifier_def Let_def bnd_def
      repo_ready_def pool_ready_def no_faults_def ret_def stmt_def map_err_def query_row_def upper_key)

definition tax_conflict :: go_error where
  "tax_conflict = wrap_read ''create supplier'' (Wrapf ''%s: %w'' [''create supplier''] [sup_error ErrTaxIdentifierConflict])"

lemma tax_conflict_is [simp]: "error_is tax_conflict (Sup ErrTaxIdentifierConflict)" "error_is tax_conflict (Sup SupErrConflict)"
  by (simp_all add: tax_conflict_def wrap_read_def sup_error_def wraps_simps)

lemma tax_refused:
  assumes I: "supplier_master db" and row: "map_of (sdb_suppliers db) i = Some s" "tax_key (su_tax s) = Some (to_upper (trim_space (su_tax d)))"
    and tax: "trim_space (su_tax d) \<noteq> []"
  shows "create_supplier (supplier_repository no_faults a now ilike coll) d db = (Inl tax_conflict, db\<lparr>sdb_supplier_seq := sdb_supplier_seq db + 1\<rparr>)"
proof -
  obtain w where w: "NewSupplier d = Inr w" "su_tax w = trim_space (su_tax d)"
    using tax by (auto simp: NewSupplier_def canonical_supplier_def Let_def)
  let ?row = "w\<lparr>su_id := sdb_supplier_seq db + 1, su_created := now, su_updated := now\<rparr>"
  have "i \<noteq> sdb_supplier_seq db + 1" using I row(1) by (force simp: supplier_master_def table_ok_def supplier_row_def)
  then have "tax_taken (su_id ?row) (su_tax ?row) db"
    using map_of_SomeD[OF row(1)] row(2) tax by (auto simp: tax_taken_def w(2) tax_key_def btrim_trim intro!: bexI[of _ "(i, s)"] split: if_splits)
  then have "supplier_violation ?row db = Some (violates ''23505'' ''suppliers_tax_identifier_key'')"
    using tax by (simp add: supplier_violation_def w(2) btrim_trim)
  then show ?thesis
    using create_supplier_Inl[OF _ w(1), of a now ilike coll db] unfolding violates_def tax_conflict_def
    by (cases "create_supplier (supplier_repository no_faults a now ilike coll) d db") force
qed

text \<open>The registration of a tax identifier nobody holds cannot fail but in the driver.\<close>

lemma created_row:
  assumes I: "supplier_master db" and created: "create_supplier (supplier_repository F a now ilike coll) d db = (Inr s, db')"
    and tax: "trim_space (su_tax d) \<noteq> []"
  shows "supplier_master db' \<and> map_of (sdb_suppliers db') (su_id s) = Some s \<and> tax_key (su_tax s) = Some (to_upper (trim_space (su_tax d)))"
proof -
  let ?i = "sdb_supplier_seq db + 1"
  obtain v where v: "NewSupplier d = Inr v" "s = v\<lparr>su_id := ?i, su_created := now, su_updated := now\<rparr>"
      "supplier_violation s db = None" "db' = db\<lparr>sdb_supplier_seq := ?i, sdb_suppliers := gput ?i s (sdb_suppliers db)\<rparr>"
    using created by (rule create_supplier_Inr)
  have "su_tax s = trim_space (su_tax d)" using v(1,2) by (simp add: supplier_exact)
  moreover have "supplier_master db'"
    using supplier_put[OF I v(3), of ?i ?i] I v(2,4) by (simp add: supplier_master_def)
  ultimately show ?thesis using v(2,4) tax by (simp add: tax_key_def btrim_trim)
qed

lemma registration:
  fixes db :: "'x supplier_db_scheme"
  assumes I: "supplier_master db" and tax: "trim_space (su_tax d) \<noteq> []"
  shows "(\<exists>s db'. create_supplier (supplier_repository no_faults a now ilike coll) d db = (Inr s, db'))
    \<or> (\<exists>i s. map_of (sdb_suppliers db) i = Some s \<and> tax_key (su_tax s) = Some (to_upper (trim_space (su_tax d))))"
proof -
  obtain w where w: "NewSupplier d = Inr w" "su_tax w = trim_space (su_tax d)"
    using tax by (auto simp: NewSupplier_def canonical_supplier_def Let_def)
  let ?row = "w\<lparr>su_id := sdb_supplier_seq db + 1, su_created := now, su_updated := now\<rparr>"
  have d: "distinct (map fst (sdb_suppliers db))" using I unfolding supplier_master_def table_ok_def gkeys_def by blast
  show ?thesis
  proof (cases "tax_taken (su_id ?row) (su_tax ?row) db")
    case True
    then obtain j s where "(j, s) \<in> set (sdb_suppliers db)" "tax_key (su_tax s) = tax_key (trim_space (su_tax d))"
      by (auto simp: tax_taken_def w(2))
    then have "map_of (sdb_suppliers db) j = Some s" "tax_key (su_tax s) = Some (to_upper (trim_space (su_tax d)))"
      using d tax by (simp_all add: tax_key_def btrim_trim)
    then show ?thesis by blast
  next
    case False
    then have "supplier_violation ?row db = None" using tax by (simp add: supplier_violation_def w(2) btrim_trim)
    then show ?thesis
      by (simp add: create_supplier_def supplier_repository_def wrapped_def CreateSupplier_def bnd_def autocommit_def no_faults_def
          insert_supplier_def Let_def map_err_def repo_ready_def pool_ready_def ret_def lift_def w(1))
  qed
qed

text \<open>A registered tax identifier is found again under every spelling that differs in letter
  case or surrounding white space, and its second registration under any such spelling is refused as
  a tax identifier conflict that leaves the tables as they were.\<close>

theorem tax_registration_roundtrip:
  assumes I: "supplier_master db" and created: "create_supplier (supplier_repository F a now ilike coll) details db = (Inr s, db')"
    and tax: "trim_space (su_tax details) \<noteq> []" "to_upper (trim_space spelling) = to_upper (trim_space (su_tax details))"
  shows "get_supplier_by_tax (supplier_repository no_faults a now ilike coll) spelling db' = (Inr s, db')
    \<and> (\<exists>e db''. create_supplier (supplier_repository no_faults a now ilike coll) (other\<lparr>su_tax := spelling\<rparr>) db' = (Inl e, db'')
      \<and> error_is e (Sup ErrTaxIdentifierConflict) \<and> sdb_suppliers db'' = sdb_suppliers db')"
proof -
  have row: "supplier_master db'" "map_of (sdb_suppliers db') (su_id s) = Some s"
      "tax_key (su_tax s) = Some (to_upper (trim_space spelling))" "trim_space spelling \<noteq> []"
    using created_row[OF I created tax(1)] tax by (auto simp: to_upper_def)
  have "create_supplier (supplier_repository no_faults a now ilike coll) (other\<lparr>su_tax := spelling\<rparr>) db'
      = (Inl tax_conflict, db'\<lparr>sdb_supplier_seq := sdb_supplier_seq db' + 1\<rparr>)"
    by (rule tax_refused) (use row in simp_all)
  moreover have "get_supplier_by_tax (supplier_repository no_faults a now ilike coll) spelling db' = (Inr s, db')"
    using row by (rule tax_lookup)
  ultimately show ?thesis by simp
qed

theorem tax_registration_roundtrip_witness:
  "\<exists>s db'. create_supplier plain_suppliers demo_supplier empty_suppliers = (Inr s, db')
     \<and> get_supplier_by_tax plain_suppliers ''Abc010101AA1  '' db' = (Inr s, db')
     \<and> (\<exists>e db''. create_supplier plain_suppliers (demo_supplier\<lparr>su_tax := ''Abc010101AA1  ''\<rparr>) db' = (Inl e, db'')
        \<and> error_is e (Sup ErrTaxIdentifierConflict) \<and> sdb_suppliers db'' = sdb_suppliers db')"
proof -
  have "ok (fst (create_supplier plain_suppliers demo_supplier empty_suppliers))" by code_simp
  then obtain s db' where c: "create_supplier plain_suppliers demo_supplier empty_suppliers = (Inr s, db')"
    by (metis ok_iff prod.collapse)
  have t: "trim_space (su_tax demo_supplier) \<noteq> []"
      "to_upper (trim_space ''Abc010101AA1  '') = to_upper (trim_space (su_tax demo_supplier))" by code_simp+
  have "supplier_master empty_suppliers" by (rule reachable_supplier_master) (rule supplier_reachable.empty)
  from tax_registration_roundtrip[OF this c[unfolded plain_suppliers_def] t, where other = demo_supplier] c
  show ?thesis unfolding plain_suppliers_def by blast
qed

end
