(* ===== verification/SupplierProduct.thy ===== *)
theory SupplierProduct
  imports Errors CatalogTypes
begin

text \<open>
  The supplier product aggregate (\<^verbatim>\<open>internal/modules/purchases/domain/supplier_product.go\<close> and
  \<^verbatim>\<open>supplier_product_mapping.go\<close>): what is known about the resource a supplier's SKU stands for,
  the five transitions of that knowledge and their audit entries. A method on the pointer is a
  function that returns the changed aggregate; on an error the aggregate is untouched. An
  instant is the number of nanoseconds since the zero time.
\<close>

section \<open>Data\<close>

type_synonym go_time = int

definition MappingOriginManual :: gstring where "MappingOriginManual = ''manual''"

record decision_metadata =
  dm_actor :: gstring
  dm_origin :: gstring
  dm_reason :: gstring
  dm_at :: go_time

datatype (plugins only: code size) mapping_state =
    MappingStateUnresolved | MappingStateConfirmed | MappingStateSuspended | MappingStateIdentityConflict

datatype (plugins only: code size) mapping_cause =
    MappingCauseNone | MappingCauseUnresolved | MappingCauseResourceInactive | MappingCauseIdentityConflict
  | MappingCauseLineNotApplicable | MappingCauseLineConflictOverride

datatype (plugins only: code size) mapping_operation =
    MappingOperationConfirm | MappingOperationCorrect | MappingOperationExceptionalUnlink
  | MappingOperationReportIdentityConflict | MappingOperationResolveIdentityConflict

record product_mapping =
  pm_resource :: "int option"
  pm_conflict :: bool

record supplier_product =
  sp_id :: int
  sp_supplier :: int
  sp_sku :: gstring
  sp_description :: gstring
  sp_mapping :: product_mapping
  sp_revision :: revision
  sp_resource_active :: "bool option"
  sp_notes :: gstring
  sp_created :: go_time
  sp_updated :: go_time

record mapping_audit_entry =
  ma_product :: int
  ma_previous :: product_mapping
  ma_new :: product_mapping
  ma_previous_state :: mapping_state
  ma_new_state :: mapping_state
  ma_previous_revision :: revision
  ma_new_revision :: revision
  ma_operation :: mapping_operation
  ma_decision :: decision_metadata

record mapping_transition =
  mt_changed :: bool
  mt_audit :: "mapping_audit_entry option"

definition pur_error :: "purchase_err \<Rightarrow> go_error" where
  "pur_error e = Sentinel (Pur e)"

definition no_transition :: mapping_transition where
  "no_transition = \<lparr>mt_changed = False, mt_audit = None\<rparr>"

section \<open>Mapping knowledge\<close>

definition decision_error :: "decision_metadata \<Rightarrow> bool \<Rightarrow> go_error option" where
  "decision_error m requireReason =
     (if trim_space (dm_actor m) = [] then Some (Wrapf ''%w: actor is required'' [] [pur_error ErrInvalidDecisionMetadata])
      else if dm_origin m \<noteq> MappingOriginManual then Some (Wrapf ''%w: unsupported origin'' [] [pur_error ErrInvalidDecisionMetadata])
      else if requireReason \<and> trim_space (dm_reason m) = []
        then Some (Wrapf ''%w: reason is required'' [] [pur_error ErrInvalidDecisionMetadata])
      else if dm_at m = 0 then Some (Wrapf ''%w: time is required'' [] [pur_error ErrInvalidDecisionMetadata])
      else None)"

definition NewUnresolvedSupplierProductMapping :: product_mapping where
  "NewUnresolvedSupplierProductMapping = \<lparr>pm_resource = None, pm_conflict = False\<rparr>"

definition NewConfirmedSupplierProductMapping :: "int \<Rightarrow> product_mapping" where
  "NewConfirmedSupplierProductMapping resourceID =
     (if resourceID \<le> 0 then \<lparr>pm_resource = None, pm_conflict = False\<rparr>
      else \<lparr>pm_resource = Some resourceID, pm_conflict = False\<rparr>)"

definition KnowledgeState :: "product_mapping \<Rightarrow> mapping_state" where
  "KnowledgeState m = (if pm_conflict m then MappingStateIdentityConflict
     else if pm_resource m = None then MappingStateUnresolved else MappingStateConfirmed)"

definition mapping_state_of :: "product_mapping \<Rightarrow> bool \<Rightarrow> mapping_state" where
  "mapping_state_of m resourceActive = (if pm_conflict m then MappingStateIdentityConflict
     else if pm_resource m = None then MappingStateUnresolved
     else if \<not> resourceActive then MappingStateSuspended else MappingStateConfirmed)"

definition mapping_cause_of :: "product_mapping \<Rightarrow> bool \<Rightarrow> mapping_cause" where
  "mapping_cause_of m resourceActive = (case mapping_state_of m resourceActive of
     MappingStateIdentityConflict \<Rightarrow> MappingCauseIdentityConflict
   | MappingStateSuspended \<Rightarrow> MappingCauseResourceInactive
   | MappingStateUnresolved \<Rightarrow> MappingCauseUnresolved
   | _ \<Rightarrow> MappingCauseNone)"

definition EffectiveMappingState :: "supplier_product \<Rightarrow> bool \<Rightarrow> mapping_state" where
  "EffectiveMappingState sp resourceActive = mapping_state_of (sp_mapping sp) resourceActive"

definition EffectiveMappingCause :: "supplier_product \<Rightarrow> bool \<Rightarrow> mapping_cause" where
  "EffectiveMappingCause sp resourceActive = mapping_cause_of (sp_mapping sp) resourceActive"

definition mapping_equal :: "product_mapping \<Rightarrow> product_mapping \<Rightarrow> bool" where
  "mapping_equal m other \<longleftrightarrow> pm_conflict m = pm_conflict other \<and>
     (case (pm_resource m, pm_resource other) of
        (Some a, Some b) \<Rightarrow> a = b
      | (a, b) \<Rightarrow> a = None \<and> b = None)"

section \<open>Construction\<close>

definition NewSupplierProductIdentity :: "int \<Rightarrow> gstring \<Rightarrow> gstring \<Rightarrow> go_error + int \<times> gstring \<times> gstring" where
  "NewSupplierProductIdentity supplierID sku description =
     (let sku = trim_space sku; description = trim_space description in
      if supplierID \<le> 0 then Inl (PurFieldError ''supplier_id'' ''must be positive'')
      else if sku = [] then Inl (PurFieldError ''supplier_sku'' ''is required'')
      else Inr (supplierID, sku, description))"

definition NewSupplierProduct :: "int \<Rightarrow> gstring \<Rightarrow> gstring \<Rightarrow> go_error + supplier_product" where
  "NewSupplierProduct supplierID sku description =
     bindr (NewSupplierProductIdentity supplierID sku description) (\<lambda>(supplierID, sku, description).
     Inr \<lparr>sp_id = 0, sp_supplier = supplierID, sp_sku = sku, sp_description = description,
        sp_mapping = NewUnresolvedSupplierProductMapping, sp_revision = 0, sp_resource_active = None,
        sp_notes = [], sp_created = 0, sp_updated = 0\<rparr>)"

definition UpdateDescription :: "gstring \<Rightarrow> supplier_product \<Rightarrow> supplier_product" where
  "UpdateDescription description sp = sp\<lparr>sp_description := trim_space description\<rparr>"

section \<open>Transitions\<close>

definition transition ::
  "mapping_operation \<Rightarrow> product_mapping \<Rightarrow> revision \<Rightarrow> decision_metadata \<Rightarrow> supplier_product
     \<Rightarrow> go_error + mapping_transition \<times> supplier_product" where
  "transition operation nxt expected decision sp =
     check (decision_error decision (operation \<noteq> MappingOperationConfirm))
     (if sp_revision sp \<noteq> expected
      then Inl (Wrapf ''%w: expected %d, actual %d'' [show_nat (unat expected), show_nat (unat (sp_revision sp))]
             [pur_error ErrStaleMappingRevision])
      else if (case pm_resource nxt of Some i \<Rightarrow> i \<le> 0 | None \<Rightarrow> False)
      then Inl (PurFieldError ''resource_id'' ''must be positive'')
      else
        let previous = sp_mapping sp in
        Inr (\<lparr>mt_changed = True, mt_audit = Some
                \<lparr>ma_product = sp_id sp, ma_previous = previous, ma_new = nxt, ma_previous_state = KnowledgeState previous,
                 ma_new_state = KnowledgeState nxt, ma_previous_revision = sp_revision sp,
                 ma_new_revision = sp_revision sp + 1, ma_operation = operation, ma_decision = decision\<rparr>\<rparr>,
             sp\<lparr>sp_mapping := nxt, sp_revision := sp_revision sp + 1\<rparr>))"

definition expected_resource_error :: "int \<Rightarrow> go_error" where
  "expected_resource_error expected =
     Wrapf ''%w: expected current resource %d'' [show_int expected] [pur_error ErrInvalidMappingTransition]"

definition ConfirmMapping ::
  "int \<Rightarrow> revision \<Rightarrow> decision_metadata \<Rightarrow> supplier_product \<Rightarrow> go_error + mapping_transition \<times> supplier_product" where
  "ConfirmMapping resourceID expected decision sp =
     (if resourceID \<le> 0 then Inl (PurFieldError ''resource_id'' ''must be positive'')
      else let nxt = NewConfirmedSupplierProductMapping resourceID in
        if KnowledgeState (sp_mapping sp) = MappingStateConfirmed then
          (if mapping_equal (sp_mapping sp) nxt then
             check (decision_error decision False)
             (if sp_revision sp \<noteq> expected then Inl (pur_error ErrStaleMappingRevision) else Inr (no_transition, sp))
           else Inl (pur_error ErrInvalidMappingTransition))
        else if KnowledgeState (sp_mapping sp) \<noteq> MappingStateUnresolved then Inl (pur_error ErrInvalidMappingTransition)
        else transition MappingOperationConfirm nxt expected decision sp)"

definition CorrectMapping ::
  "int \<Rightarrow> int \<Rightarrow> revision \<Rightarrow> decision_metadata \<Rightarrow> supplier_product \<Rightarrow> go_error + mapping_transition \<times> supplier_product" where
  "CorrectMapping expectedResourceID resourceID expected decision sp =
     (if resourceID \<le> 0 then Inl (PurFieldError ''resource_id'' ''must be positive'')
      else if KnowledgeState (sp_mapping sp) \<noteq> MappingStateConfirmed \<or> pm_resource (sp_mapping sp) = None
        \<or> the (pm_resource (sp_mapping sp)) = resourceID then Inl (pur_error ErrInvalidMappingTransition)
      else if expectedResourceID \<le> 0 \<or> the (pm_resource (sp_mapping sp)) \<noteq> expectedResourceID
        then Inl (expected_resource_error expectedResourceID)
      else transition MappingOperationCorrect (NewConfirmedSupplierProductMapping resourceID) expected decision sp)"

definition ExceptionalUnlink ::
  "int \<Rightarrow> revision \<Rightarrow> decision_metadata \<Rightarrow> supplier_product \<Rightarrow> go_error + mapping_transition \<times> supplier_product" where
  "ExceptionalUnlink expectedResourceID expected decision sp =
     (if KnowledgeState (sp_mapping sp) \<noteq> MappingStateConfirmed \<or> pm_resource (sp_mapping sp) = None
      then Inl (pur_error ErrInvalidMappingTransition)
      else if expectedResourceID \<le> 0 \<or> the (pm_resource (sp_mapping sp)) \<noteq> expectedResourceID
        then Inl (expected_resource_error expectedResourceID)
      else transition MappingOperationExceptionalUnlink NewUnresolvedSupplierProductMapping expected decision sp)"

definition ReportIdentityConflict ::
  "int \<Rightarrow> revision \<Rightarrow> decision_metadata \<Rightarrow> supplier_product \<Rightarrow> go_error + mapping_transition \<times> supplier_product" where
  "ReportIdentityConflict expectedResourceID expected decision sp =
     (if KnowledgeState (sp_mapping sp) \<noteq> MappingStateConfirmed \<or> pm_resource (sp_mapping sp) = None
      then Inl (pur_error ErrInvalidMappingTransition)
      else if expectedResourceID \<le> 0 \<or> the (pm_resource (sp_mapping sp)) \<noteq> expectedResourceID
        then Inl (expected_resource_error expectedResourceID)
      else transition MappingOperationReportIdentityConflict ((sp_mapping sp)\<lparr>pm_conflict := True\<rparr>) expected decision sp)"

definition ResolveIdentityConflict ::
  "int \<Rightarrow> int \<Rightarrow> revision \<Rightarrow> decision_metadata \<Rightarrow> supplier_product \<Rightarrow> go_error + mapping_transition \<times> supplier_product" where
  "ResolveIdentityConflict expectedResourceID resourceID expected decision sp =
     (if resourceID \<le> 0 then Inl (PurFieldError ''resource_id'' ''must be positive'')
      else if KnowledgeState (sp_mapping sp) \<noteq> MappingStateIdentityConflict \<or> pm_resource (sp_mapping sp) = None
        then Inl (pur_error ErrInvalidMappingTransition)
      else if expectedResourceID \<le> 0 \<or> the (pm_resource (sp_mapping sp)) \<noteq> expectedResourceID
        then Inl (expected_resource_error expectedResourceID)
      else transition MappingOperationResolveIdentityConflict (NewConfirmedSupplierProductMapping resourceID) expected decision sp)"

text \<open>The five transitions as data.\<close>

datatype (plugins only: code size) mapping_command =
    Confirm int | Correct int int | Unlink int | ReportConflict int | ResolveConflict int int

fun run_mapping ::
  "mapping_command \<Rightarrow> revision \<Rightarrow> decision_metadata \<Rightarrow> supplier_product \<Rightarrow> go_error + mapping_transition \<times> supplier_product" where
  "run_mapping (Confirm resourceID) = ConfirmMapping resourceID"
| "run_mapping (Correct current resourceID) = CorrectMapping current resourceID"
| "run_mapping (Unlink current) = ExceptionalUnlink current"
| "run_mapping (ReportConflict current) = ReportIdentityConflict current"
| "run_mapping (ResolveConflict current resourceID) = ResolveIdentityConflict current resourceID"

end
