(* ===== verification/PurchaseDomain.thy ===== *)
theory PurchaseDomain
  imports SupplierProduct
begin

text \<open>
  Purchases and their lines (\<^verbatim>\<open>internal/modules/purchases/domain\<close>: \<^verbatim>\<open>link_status.go\<close>,
  \<^verbatim>\<open>purchase_line.go\<close>, \<^verbatim>\<open>purchase_line_resolution.go\<close>, \<^verbatim>\<open>purchase.go\<close>): draft validation, the content
  comparison of duplicate imports, the derived status of a line and its manual override.
\<close>

section \<open>Line status\<close>

definition LinkStatusNone :: gstring where "LinkStatusNone = ''NONE''"
definition LinkPending :: gstring where "LinkPending = ''PENDIENTE''"
definition LinkLinked :: gstring where "LinkLinked = ''VINCULADO''"
definition LinkSuspended :: gstring where "LinkSuspended = ''SUSPENDIDO''"
definition LinkNotApplicable :: gstring where "LinkNotApplicable = ''NO_APLICA''"
definition LinkConflict :: gstring where "LinkConflict = ''CONFLICTO''"

lemmas link_status_defs = LinkStatusNone_def LinkPending_def LinkLinked_def LinkSuspended_def LinkNotApplicable_def
  LinkConflict_def

lemma link_status_distinct [simp]:
  "LinkStatusNone \<noteq> LinkNotApplicable" "LinkStatusNone \<noteq> LinkConflict" "LinkNotApplicable \<noteq> LinkConflict"
  "LinkNotApplicable \<noteq> LinkStatusNone" "LinkConflict \<noteq> LinkStatusNone" "LinkConflict \<noteq> LinkNotApplicable"
  "LinkPending \<noteq> LinkLinked" "LinkPending \<noteq> LinkSuspended" "LinkPending \<noteq> LinkNotApplicable" "LinkPending \<noteq> LinkConflict"
  "LinkLinked \<noteq> LinkPending" "LinkLinked \<noteq> LinkSuspended" "LinkLinked \<noteq> LinkNotApplicable" "LinkLinked \<noteq> LinkConflict"
  "LinkSuspended \<noteq> LinkPending" "LinkSuspended \<noteq> LinkLinked" "LinkSuspended \<noteq> LinkNotApplicable" "LinkSuspended \<noteq> LinkConflict"
  "LinkNotApplicable \<noteq> LinkPending" "LinkNotApplicable \<noteq> LinkLinked" "LinkNotApplicable \<noteq> LinkSuspended"
  "LinkConflict \<noteq> LinkPending" "LinkConflict \<noteq> LinkLinked" "LinkConflict \<noteq> LinkSuspended"
  by (simp_all add: link_status_defs)

definition link_valid :: "gstring \<Rightarrow> bool" where
  "link_valid s \<longleftrightarrow> s = LinkPending \<or> s = LinkLinked \<or> s = LinkSuspended \<or> s = LinkNotApplicable \<or> s = LinkConflict"

definition ValidOverride :: "gstring \<Rightarrow> bool" where
  "ValidOverride s \<longleftrightarrow> s = LinkStatusNone \<or> s = LinkNotApplicable \<or> s = LinkConflict"

definition EffectiveLineStatus :: "gstring \<Rightarrow> product_mapping \<Rightarrow> bool \<Rightarrow> gstring \<times> mapping_cause" where
  "EffectiveLineStatus override mapping resourceActive =
     (if override = LinkNotApplicable then (LinkNotApplicable, MappingCauseLineNotApplicable)
      else if override = LinkConflict then (LinkConflict, MappingCauseLineConflictOverride)
      else (case mapping_state_of mapping resourceActive of
          MappingStateIdentityConflict \<Rightarrow> (LinkConflict, MappingCauseIdentityConflict)
        | MappingStateSuspended \<Rightarrow> (LinkSuspended, MappingCauseResourceInactive)
        | MappingStateUnresolved \<Rightarrow> (LinkPending, MappingCauseUnresolved)
        | _ \<Rightarrow> (LinkLinked, MappingCauseNone)))"

section \<open>Lines\<close>

record 'd line_draft =
  ld_number :: int
  ld_description :: gstring
  ld_sku :: gstring
  ld_sat_code :: gstring
  ld_quantity :: 'd
  ld_unit_code :: gstring
  ld_unit :: gstring
  ld_unit_price :: 'd
  ld_amount :: 'd
  ld_discount :: 'd
  ld_tax_transferred :: 'd
  ld_tax_withheld :: 'd
  ld_tax_object :: gstring

record 'd purchase_line = "'d line_draft" +
  pl_id :: int
  pl_purchase :: int
  pl_product :: "int option"
  pl_override :: gstring
  pl_revision :: revision
  pl_status :: gstring
  pl_cause :: mapping_cause

record resolution_audit_entry =
  rx_line :: int
  rx_previous :: gstring
  rx_new :: gstring
  rx_previous_revision :: revision
  rx_new_revision :: revision
  rx_decision :: decision_metadata

record resolution_transition =
  rt_changed :: bool
  rt_audit :: "resolution_audit_entry option"

definition new_purchase_line_draft :: "'d decimal_ops \<Rightarrow> 'd line_draft \<Rightarrow> go_error + 'd line_draft" where
  "new_purchase_line_draft D line0 =
     (let line = line0\<lparr>ld_description := trim_space (ld_description line0), ld_sku := trim_space (ld_sku line0),
            ld_sat_code := trim_space (ld_sat_code line0), ld_unit_code := trim_space (ld_unit_code line0),
            ld_unit := trim_space (ld_unit line0), ld_tax_object := trim_space (ld_tax_object line0)\<rparr> in
      if ld_number line \<le> 0 then Inl (PurFieldError ''lines.line_number'' ''must be positive'')
      else if ld_description line = [] then Inl (PurFieldError ''lines.description'' ''is required'')
      else if dec_is_negative D (ld_quantity line) then Inl (PurFieldError ''lines.quantity'' ''must not be negative'')
      else if dec_is_negative D (ld_unit_price line) then Inl (PurFieldError ''lines.unit_price'' ''must not be negative'')
      else if dec_is_negative D (ld_amount line) then Inl (PurFieldError ''lines.amount'' ''must not be negative'')
      else Inr line)"

definition HasSupplierIdentity :: "'d line_draft \<Rightarrow> bool" where
  "HasSupplierIdentity line \<longleftrightarrow> ld_sku line \<noteq> []"

definition EffectiveStatus :: "'d purchase_line \<Rightarrow> product_mapping \<Rightarrow> bool \<Rightarrow> gstring \<times> mapping_cause" where
  "EffectiveStatus line mapping resourceActive = EffectiveLineStatus (pl_override line) mapping resourceActive"

definition ChangeResolutionOverride ::
  "gstring \<Rightarrow> revision \<Rightarrow> decision_metadata \<Rightarrow> 'd purchase_line \<Rightarrow> go_error + resolution_transition \<times> 'd purchase_line" where
  "ChangeResolutionOverride override expected decision line =
     (if \<not> ValidOverride override then Inl (PurFieldError ''resolution_override'' ''must be NONE, NO_APLICA, or CONFLICTO'')
      else if trim_space (dm_actor decision) = [] \<or> trim_space (dm_reason decision) = []
        \<or> dm_origin decision \<noteq> MappingOriginManual \<or> dm_at decision = 0 then Inl (pur_error ErrInvalidDecisionMetadata)
      else if pl_revision line \<noteq> expected
        then Inl (Wrapf ''%w: expected %d, actual %d'' [show_nat (unat expected), show_nat (unat (pl_revision line))]
               [pur_error ErrStaleResolutionRevision])
      else if pl_override line = override then Inr (\<lparr>rt_changed = False, rt_audit = None\<rparr>, line)
      else Inr (\<lparr>rt_changed = True, rt_audit = Some
             \<lparr>rx_line = pl_id line, rx_previous = pl_override line, rx_new = override, rx_previous_revision = pl_revision line,
              rx_new_revision = pl_revision line + 1, rx_decision = decision\<rparr>\<rparr>,
           line\<lparr>pl_override := override, pl_revision := pl_revision line + 1\<rparr>))"

section \<open>Purchases\<close>

record purchase_party =
  pp_supplier :: int
  pp_branch :: "int option"

record xml_document =
  xd_content :: gstring
  xd_hash :: gstring
  xd_filename :: gstring

record 'd purchase_document =
  pd_party :: purchase_party
  pd_uuid :: gstring
  pd_series :: gstring
  pd_folio :: gstring
  pd_issued :: go_time
  pd_currency :: gstring
  pd_exchange_rate :: "'d option"
  pd_subtotal :: 'd
  pd_discount :: 'd
  pd_tax_transferred :: 'd
  pd_tax_withheld :: 'd
  pd_total :: 'd
  pd_issuer_tax_id :: gstring
  pd_issuer_name :: gstring
  pd_xml :: xml_document

record 'd purchase_draft = "'d purchase_document" +
  pd_lines :: "'d line_draft list"

record 'd purchase = "'d purchase_document" +
  p_id :: int
  p_imported :: go_time
  p_created :: go_time
  p_updated :: go_time

definition canonical_draft :: "'d purchase_draft \<Rightarrow> 'd purchase_draft" where
  "canonical_draft d = d\<lparr>pd_uuid := to_upper (trim_space (pd_uuid d)), pd_series := trim_space (pd_series d),
     pd_folio := trim_space (pd_folio d), pd_currency := to_upper (trim_space (pd_currency d)),
     pd_issuer_tax_id := to_upper (trim_space (pd_issuer_tax_id d)), pd_issuer_name := trim_space (pd_issuer_name d),
     pd_xml := (pd_xml d)\<lparr>xd_hash := to_lower (trim_space (xd_hash (pd_xml d))), xd_filename := trim_space (xd_filename (pd_xml d))\<rparr>\<rparr>"

definition NewPurchaseDraft :: "'d decimal_ops \<Rightarrow> 'd purchase_draft \<Rightarrow> go_error + 'd purchase_draft" where
  "NewPurchaseDraft D draft =
     (let d = canonical_draft draft in
      if pp_supplier (pd_party d) \<le> 0 then Inl (PurFieldError ''supplier_id'' ''must be positive'')
      else if (case pp_branch (pd_party d) of Some b \<Rightarrow> b \<le> 0 | None \<Rightarrow> False)
        then Inl (PurFieldError ''branch_id'' ''must be positive when present'')
      else if pd_uuid d = [] then Inl (PurFieldError ''cfdi_uuid'' ''is required'')
      else if pd_issued d = 0 then Inl (PurFieldError ''issued_at'' ''is required'')
      else if pd_currency d = [] then Inl (PurFieldError ''currency'' ''is required'')
      else if pd_issuer_tax_id d = [] then Inl (PurFieldError ''issuer_tax_id'' ''is required'')
      else if xd_content (pd_xml d) = [] then Inl (PurFieldError ''xml_content'' ''is required'')
      else if byte_len (xd_hash (pd_xml d)) \<noteq> 64
        then Inl (PurFieldError ''xml_hash'' ''must be a 64-character hex sha-256 digest'')
      else if dec_is_negative D (pd_subtotal d) then Inl (PurFieldError ''subtotal'' ''must not be negative'')
      else if dec_is_negative D (pd_total d) then Inl (PurFieldError ''total'' ''must not be negative'')
      else if pd_lines d = [] then Inl (PurFieldError ''lines'' ''at least one purchase line is required'')
      else bindr (mapr (new_purchase_line_draft D) (pd_lines d)) (\<lambda>lines. Inr (d\<lparr>pd_lines := lines\<rparr>)))"

definition SameRelevantContent ::
  "'d decimal_ops \<Rightarrow> ('d, 'x) purchase_document_scheme \<Rightarrow> ('d, 'y) purchase_document_scheme \<Rightarrow> bool" where
  "SameRelevantContent D p draft \<longleftrightarrow> pd_series p = pd_series draft \<and> pd_folio p = pd_folio draft
     \<and> pd_currency p = pd_currency draft \<and> pd_issuer_tax_id p = pd_issuer_tax_id draft \<and> pd_issued p = pd_issued draft
     \<and> dec_equal D (pd_subtotal p) (pd_subtotal draft) \<and> dec_equal D (pd_discount p) (pd_discount draft)
     \<and> dec_equal D (pd_tax_transferred p) (pd_tax_transferred draft) \<and> dec_equal D (pd_tax_withheld p) (pd_tax_withheld draft)
     \<and> dec_equal D (pd_total p) (pd_total draft)"

definition same_line :: "'d decimal_ops \<Rightarrow> ('d, 'x) line_draft_scheme \<Rightarrow> ('d, 'y) line_draft_scheme \<Rightarrow> bool" where
  "same_line D line draft \<longleftrightarrow> ld_number line = ld_number draft \<and> ld_description line = ld_description draft
     \<and> ld_sku line = ld_sku draft \<and> dec_equal D (ld_quantity line) (ld_quantity draft)
     \<and> dec_equal D (ld_unit_price line) (ld_unit_price draft) \<and> dec_equal D (ld_amount line) (ld_amount draft)"

definition SameLines ::
  "'d decimal_ops \<Rightarrow> ('d, 'x) line_draft_scheme list \<Rightarrow> ('d, 'y) line_draft_scheme list \<Rightarrow> bool" where
  "SameLines D existing draftLines \<longleftrightarrow> list_all2 (same_line D) existing draftLines"

end
