(* ===== verification/AuditTrail.thy ===== *)
theory AuditTrail
  imports GoPrelude CatalogTypes
begin

text \<open>
  Aggregates with an optimistic revision and an append-only audit: the supplier product mapping and
  the line override share the discipline that every accepted change advances the revision by one and
  writes an entry naming the value before and after it. The contract is a locale, its consequences
  (the entries of any history chain from the first value to the last) are proved once.
\<close>

section \<open>Chains\<close>

type_synonym 'v audit_link = "'v \<times> revision \<times> 'v \<times> revision"

fun audit_chain :: "'v \<times> revision \<Rightarrow> 'v audit_link list \<Rightarrow> 'v \<times> revision \<Rightarrow> bool" where
  "audit_chain a [] b \<longleftrightarrow> b = a"
| "audit_chain a ((v, r, v', r') # es) b \<longleftrightarrow> a = (v, r) \<and> r' = r + 1 \<and> v' \<noteq> v \<and> audit_chain (v', r') es b"

lemma audit_chain_append: "audit_chain a (es @ fs) c \<longleftrightarrow> (\<exists>b. audit_chain a es b \<and> audit_chain b fs c)"
proof (induction es arbitrary: a)
  case (Cons e es)
  then show ?case by (cases e) simp
qed simp

lemma audit_chain_revision: "audit_chain (v, r) es (w, q) \<Longrightarrow> q = r + of_nat (length es)"
proof (induction es arbitrary: v r)
  case (Cons e es)
  obtain v' r' where "audit_chain (v', r') es (w, q)" "r' = r + 1" using Cons.prems by (cases e) auto
  then have "q = r' + of_nat (length es)" by (intro Cons.IH)
  with \<open>r' = r + 1\<close> show ?case by simp
qed simp

section \<open>Histories\<close>

text \<open>A list of commands run one after the other; a rejected one changes nothing.\<close>

fun history :: "('c \<Rightarrow> 'a \<Rightarrow> 'e + 't \<times> 'a) \<Rightarrow> 'c list \<Rightarrow> 'a \<Rightarrow> 't list \<times> 'a" where
  "history run [] a = ([], a)"
| "history run (c # cs) a = (case run c a of Inl _ \<Rightarrow> history run cs a
     | Inr (t, a') \<Rightarrow> (case history run cs a' of (ts, b) \<Rightarrow> (t # ts, b)))"

text \<open>The contract: \<open>run\<close> executes a command, \<open>link\<close> is the audit entry it asks for, \<open>view\<close> the audited
  value and the revision, \<open>fixed\<close> everything a command must leave alone.\<close>

locale audited =
  fixes run :: "'c \<Rightarrow> 'a \<Rightarrow> 'e + 't \<times> 'a" and link :: "'t \<Rightarrow> 'v audit_link option"
    and view :: "'a \<Rightarrow> 'v \<times> revision" and fixed :: "'a \<Rightarrow> 'f" and sound :: "'a \<Rightarrow> bool"
  assumes unchanged: "sound a \<Longrightarrow> run c a = Inr (t, a') \<Longrightarrow> link t = None \<Longrightarrow> a' = a"
    and changed: "sound a \<Longrightarrow> run c a = Inr (t, a') \<Longrightarrow> link t = Some l \<Longrightarrow> audit_chain (view a) [l] (view a')"
    and frame: "sound a \<Longrightarrow> run c a = Inr (t, a') \<Longrightarrow> fixed a' = fixed a"
    and sound: "sound a \<Longrightarrow> run c a = Inr (t, a') \<Longrightarrow> sound a'"
begin

lemma step_chain:
  assumes "sound a" "run c a = Inr (t, a')"
  shows "audit_chain (view a) (List.map_filter link [t]) (view a')"
  using unchanged[OF assms] changed[OF assms] by (cases "link t") (auto simp: List.map_filter_simps)

lemma history_chain:
  "sound a \<Longrightarrow> history run cs a = (ts, b) \<Longrightarrow>
     audit_chain (view a) (List.map_filter link ts) (view b) \<and> fixed b = fixed a \<and> sound b"
proof (induction cs arbitrary: a ts)
  case Nil
  then show ?case by (simp add: List.map_filter_simps)
next
  case (Cons c cs)
  show ?case
  proof (cases "run c a")
    case (Inl e)
    with Cons show ?thesis by simp
  next
    case (Inr r)
    obtain t a' where r: "run c a = Inr (t, a')" using Inr by (cases r) simp
    obtain us where h: "history run cs a' = (us, b)" "ts = t # us"
      using Cons.prems(2) r by (cases "history run cs a'") simp
    have "List.map_filter link (t # us) = List.map_filter link [t] @ List.map_filter link us"
      by (simp add: List.map_filter_simps split: option.split)
    then show ?thesis
      using step_chain[OF Cons.prems(1) r] frame[OF Cons.prems(1) r] Cons.IH[OF sound[OF Cons.prems(1) r] h(1)]
      unfolding h(2) by (simp only: audit_chain_append) blast
  qed
qed

end

end
