(* ===== verification/PurchaseDomainTheorems.thy ===== *)
theory PurchaseDomainTheorems
  imports PurchaseDomain AuditTrail DemoCatalog
begin

text \<open>
  The purchase aggregates: when each mapping command is accepted and what it does, the audit that
  their histories leave behind, the override of a line, and the constructor of drafts.
\<close>

section \<open>Mapping commands\<close>

definition mapping_wf :: "product_mapping \<Rightarrow> bool" where
  "mapping_wf m \<longleftrightarrow> (case pm_resource m of None \<Rightarrow> \<not> pm_conflict m | Some r \<Rightarrow> 0 < r)"

text \<open>The table of commands: the knowledge each one needs, and the knowledge it leaves.\<close>

fun mapping_effect :: "mapping_command \<Rightarrow> product_mapping \<Rightarrow> product_mapping option" where
  "mapping_effect (Confirm r) m =
     (if 0 < r \<and> \<not> pm_conflict m \<and> (pm_resource m = None \<or> pm_resource m = Some r)
      then Some \<lparr>pm_resource = Some r, pm_conflict = False\<rparr> else None)"
| "mapping_effect (Correct c r) m =
     (if 0 < r \<and> 0 < c \<and> \<not> pm_conflict m \<and> pm_resource m = Some c \<and> c \<noteq> r
      then Some \<lparr>pm_resource = Some r, pm_conflict = False\<rparr> else None)"
| "mapping_effect (Unlink c) m =
     (if 0 < c \<and> \<not> pm_conflict m \<and> pm_resource m = Some c
      then Some \<lparr>pm_resource = None, pm_conflict = False\<rparr> else None)"
| "mapping_effect (ReportConflict c) m =
     (if 0 < c \<and> \<not> pm_conflict m \<and> pm_resource m = Some c
      then Some \<lparr>pm_resource = Some c, pm_conflict = True\<rparr> else None)"
| "mapping_effect (ResolveConflict c r) m =
     (if 0 < r \<and> 0 < c \<and> pm_conflict m \<and> pm_resource m = Some c
      then Some \<lparr>pm_resource = Some r, pm_conflict = False\<rparr> else None)"

fun needs_reason :: "mapping_command \<Rightarrow> bool" where
  "needs_reason (Confirm r) = False"
| "needs_reason c = True"

fun operation_of :: "mapping_command \<Rightarrow> mapping_operation" where
  "operation_of (Confirm r) = MappingOperationConfirm"
| "operation_of (Correct c r) = MappingOperationCorrect"
| "operation_of (Unlink c) = MappingOperationExceptionalUnlink"
| "operation_of (ReportConflict c) = MappingOperationReportIdentityConflict"
| "operation_of (ResolveConflict c r) = MappingOperationResolveIdentityConflict"

lemmas mapping_defs = ConfirmMapping_def CorrectMapping_def ExceptionalUnlink_def ReportIdentityConflict_def
  ResolveIdentityConflict_def transition_def KnowledgeState_def mapping_equal_def NewConfirmedSupplierProductMapping_def
  NewUnresolvedSupplierProductMapping_def no_transition_def

definition mapping_entry :: "mapping_command \<Rightarrow> decision_metadata \<Rightarrow> supplier_product \<Rightarrow> product_mapping \<Rightarrow> mapping_audit_entry" where
  "mapping_entry c d sp m = \<lparr>ma_product = sp_id sp, ma_previous = sp_mapping sp, ma_new = m,
     ma_previous_state = KnowledgeState (sp_mapping sp), ma_new_state = KnowledgeState m,
     ma_previous_revision = sp_revision sp, ma_new_revision = sp_revision sp + 1, ma_operation = operation_of c,
     ma_decision = d\<rparr>"

lemma mapping_eqI: "pm_resource m = r \<Longrightarrow> pm_conflict m = c \<Longrightarrow> (m :: product_mapping) = \<lparr>pm_resource = r, pm_conflict = c\<rparr>"
  by simp

lemma run_mapping_accepted:
  assumes "mapping_effect c (sp_mapping sp) = Some m" "decision_error d (needs_reason c) = None" "sp_revision sp = expected"
  shows "run_mapping c expected d sp = Inr (if m = sp_mapping sp then (no_transition, sp)
    else (\<lparr>mt_changed = True, mt_audit = Some (mapping_entry c d sp m)\<rparr>,
      sp\<lparr>sp_mapping := m, sp_revision := sp_revision sp + 1\<rparr>))"
proof -
  obtain r k where m: "sp_mapping sp = \<lparr>pm_resource = r, pm_conflict = k\<rparr>" by (cases "sp_mapping sp") simp
  show ?thesis
    using assms m
    by (cases c; cases r) (auto simp: mapping_defs mapping_entry_def Let_def split: if_splits)
qed

lemma run_mapping_refused:
  assumes "run_mapping c expected d sp = Inr r"
  shows "mapping_effect c (sp_mapping sp) \<noteq> None \<and> decision_error d (needs_reason c) = None \<and> sp_revision sp = expected"
proof -
  obtain q k where m: "sp_mapping sp = \<lparr>pm_resource = q, pm_conflict = k\<rparr>" by (cases "sp_mapping sp") simp
  show ?thesis
    using assms m
    by (cases c; cases q) (auto simp: mapping_defs check_Inr_iff Let_def split: if_splits)
qed

text \<open>C36: a mapping command on a supplier product is accepted exactly when the table of commands
  allows it for the current knowledge, the decision is complete and the expected revision is the
  current one; it then leaves the knowledge of the table, advances the revision and reports its audit
  entry, or changes nothing when the knowledge is already there. A rejected command says which of the
  three failed: the transition or an argument, the decision, the revision.\<close>

theorem mapping_commands:
  "case run_mapping c expected d sp of
     Inr r \<Rightarrow> \<exists>m. mapping_effect c (sp_mapping sp) = Some m \<and> decision_error d (needs_reason c) = None
        \<and> sp_revision sp = expected
        \<and> r = (if m = sp_mapping sp then (no_transition, sp)
             else (\<lparr>mt_changed = True, mt_audit = Some (mapping_entry c d sp m)\<rparr>,
               sp\<lparr>sp_mapping := m, sp_revision := sp_revision sp + 1\<rparr>))
   | Inl e \<Rightarrow> (case mapping_effect c (sp_mapping sp) of
          None \<Rightarrow> error_is e (Pur ErrInvalidMappingTransition) \<or> error_is e (Pur PurErrValidation)
        | Some m \<Rightarrow> (case decision_error d (needs_reason c) of
            Some e' \<Rightarrow> error_is e (Pur ErrInvalidDecisionMetadata)
          | None \<Rightarrow> sp_revision sp \<noteq> expected \<and> error_is e (Pur ErrStaleMappingRevision)))"
proof (cases "run_mapping c expected d sp")
  case (Inr r)
  from run_mapping_refused[OF Inr] obtain m where "mapping_effect c (sp_mapping sp) = Some m"
    "decision_error d (needs_reason c) = None" "sp_revision sp = expected" by blast
  with run_mapping_accepted[OF this] Inr show ?thesis by auto
next
  case (Inl e)
  obtain q k where m: "sp_mapping sp = \<lparr>pm_resource = q, pm_conflict = k\<rparr>" by (cases "sp_mapping sp") simp
  have dec: "error_is e' (Pur ErrInvalidDecisionMetadata)" if "decision_error d b = Some e'" for b e'
    using that by (auto simp: decision_error_def pur_error_def split: if_splits)
  show ?thesis
    using Inl m dec
    by (cases c; cases q)
      (auto simp: mapping_defs check_def Let_def expected_resource_error_def pur_error_def split: if_splits option.splits)
qed

section \<open>Histories of a product\<close>

type_synonym mapping_request = "mapping_command \<times> revision \<times> decision_metadata"

fun mapping_run :: "mapping_request \<Rightarrow> supplier_product \<Rightarrow> go_error + mapping_transition \<times> supplier_product" where
  "mapping_run (c, expected, d) sp = run_mapping c expected d sp"

definition mapping_link :: "mapping_transition \<Rightarrow> product_mapping audit_link option" where
  "mapping_link t = map_option (\<lambda>e. (ma_previous e, ma_previous_revision e, ma_new e, ma_new_revision e)) (mt_audit t)"

definition mapping_view :: "supplier_product \<Rightarrow> product_mapping \<times> revision" where
  "mapping_view sp = (sp_mapping sp, sp_revision sp)"

definition without_mapping :: "supplier_product \<Rightarrow> supplier_product" where
  "without_mapping sp = sp\<lparr>sp_mapping := NewUnresolvedSupplierProductMapping, sp_revision := 0\<rparr>"

lemma mapping_effect_wf: "mapping_effect c m = Some m' \<Longrightarrow> mapping_wf m'"
  by (cases c) (auto simp: mapping_wf_def split: if_splits)

lemma run_mapping_Inr:
  assumes "run_mapping c expected d sp = Inr (t, sp')"
  obtains "t = no_transition" "sp' = sp" "mapping_effect c (sp_mapping sp) = Some (sp_mapping sp)"
      "decision_error d (needs_reason c) = None" "sp_revision sp = expected"
  | m where "mapping_effect c (sp_mapping sp) = Some m" "m \<noteq> sp_mapping sp" "decision_error d (needs_reason c) = None"
      "sp_revision sp = expected" "t = \<lparr>mt_changed = True, mt_audit = Some (mapping_entry c d sp m)\<rparr>"
      "sp' = sp\<lparr>sp_mapping := m, sp_revision := sp_revision sp + 1\<rparr>"
proof -
  from run_mapping_refused[OF assms] obtain m where m: "mapping_effect c (sp_mapping sp) = Some m"
    "decision_error d (needs_reason c) = None" "sp_revision sp = expected" by blast
  show thesis
  proof (cases "m = sp_mapping sp")
    case True
    with assms m show thesis unfolding run_mapping_accepted[OF m] by (intro that(1)) auto
  next
    case False
    with assms show thesis unfolding run_mapping_accepted[OF m] by (intro that(2)[OF m(1) False m(2,3)]) auto
  qed
qed

interpretation mapping_audit: audited mapping_run mapping_link mapping_view without_mapping "\<lambda>sp. mapping_wf (sp_mapping sp)"
proof
  fix sp sp' :: supplier_product and c :: mapping_request and t l
  assume wf: "mapping_wf (sp_mapping sp)" and run: "mapping_run c sp = Inr (t, sp')"
  obtain k expected d where c: "c = (k, expected, d)" by (cases c)
  note r = run[unfolded c mapping_run.simps]
  show "sp' = sp" if "mapping_link t = None"
    using r by (rule run_mapping_Inr) (use that in \<open>auto simp: mapping_link_def\<close>)
  show "audit_chain (mapping_view sp) [l] (mapping_view sp')" if "mapping_link t = Some l"
    using r by (rule run_mapping_Inr) (use that in \<open>auto simp: mapping_link_def mapping_view_def mapping_entry_def no_transition_def\<close>)
  show "without_mapping sp' = without_mapping sp"
    using r by (rule run_mapping_Inr) (auto simp: without_mapping_def)
  show "mapping_wf (sp_mapping sp')"
    using r by (rule run_mapping_Inr) (use wf mapping_effect_wf in auto)
qed

text \<open>Whatever commands are tried on a supplier product, the audit entries of the accepted ones
  lead link by link from the first knowledge and revision to the last, the revision counts them, the
  knowledge stays well formed (a conflict always retains its resource) and nothing else of the product
  changes.\<close>

theorem mapping_history:
  assumes "mapping_wf (sp_mapping sp)" and "history mapping_run requests sp = (ts, sp')"
  shows "audit_chain (sp_mapping sp, sp_revision sp) (List.map_filter mapping_link ts) (sp_mapping sp', sp_revision sp')
    \<and> sp_revision sp' = sp_revision sp + of_nat (length (List.map_filter mapping_link ts))
    \<and> mapping_wf (sp_mapping sp') \<and> sp' = sp\<lparr>sp_mapping := sp_mapping sp', sp_revision := sp_revision sp'\<rparr>"
proof -
  note h = mapping_audit.history_chain[OF assms, unfolded mapping_view_def]
  have "sp' = sp\<lparr>sp_mapping := sp_mapping sp', sp_revision := sp_revision sp'\<rparr>"
    using h by (cases sp; cases sp') (simp add: without_mapping_def)
  then show ?thesis
    using conjunct1[OF h] audit_chain_revision[OF conjunct1[OF h]] conjunct2[OF conjunct2[OF h]] by (intro conjI)
qed

definition demo_decision :: decision_metadata where
  "demo_decision = \<lparr>dm_actor = ''ana'', dm_origin = MappingOriginManual, dm_reason = ''catalogo'', dm_at = 5000\<rparr>"

definition demo_product :: supplier_product where
  "demo_product = \<lparr>sp_id = 1, sp_supplier = 7, sp_sku = ''SKU-1'', sp_description = ''Cable'',
     sp_mapping = NewUnresolvedSupplierProductMapping, sp_revision = 0, sp_resource_active = None, sp_notes = [],
     sp_created = 1000, sp_updated = 1000\<rparr>"

definition demo_requests :: "mapping_request list" where
  "demo_requests = [(Confirm 5, 0, demo_decision), (Correct 4 6, 1, demo_decision), (ReportConflict 5, 1, demo_decision),
     (Unlink 5, 2, demo_decision), (ResolveConflict 5 6, 2, demo_decision), (Confirm 6, 3, demo_decision)]"

theorem mapping_history_witness:
  "case history mapping_run demo_requests demo_product of (ts, sp') \<Rightarrow>
     length (List.map_filter mapping_link ts) = 3 \<and> sp_mapping sp' = \<lparr>pm_resource = Some 6, pm_conflict = False\<rparr>
     \<and> audit_chain (sp_mapping demo_product, 0) (List.map_filter mapping_link ts) (sp_mapping sp', 3)"
proof -
  obtain ts sp' where h: "history mapping_run demo_requests demo_product = (ts, sp')"
    by (cases "history mapping_run demo_requests demo_product")
  have "mapping_wf (sp_mapping demo_product)" by code_simp
  note t = conjunct1[OF mapping_history[OF this h]]
  have "case history mapping_run demo_requests demo_product of (ts, sp') \<Rightarrow>
     length (List.map_filter mapping_link ts) = 3 \<and> sp_mapping sp' = \<lparr>pm_resource = Some 6, pm_conflict = False\<rparr>
     \<and> sp_revision sp' = 3 \<and> sp_revision demo_product = 0" by code_simp
  with t show ?thesis by (simp add: h)
qed

section \<open>The override of a line\<close>

definition override_link :: "resolution_transition \<Rightarrow> gstring audit_link option" where
  "override_link t = map_option (\<lambda>e. (rx_previous e, rx_previous_revision e, rx_new e, rx_new_revision e)) (rt_audit t)"

fun override_run :: "gstring \<times> revision \<times> decision_metadata \<Rightarrow> 'd purchase_line \<Rightarrow> go_error + resolution_transition \<times> 'd purchase_line" where
  "override_run (override, expected, d) line = ChangeResolutionOverride override expected d line"

definition override_accepted :: "gstring \<Rightarrow> revision \<Rightarrow> decision_metadata \<Rightarrow> 'd purchase_line \<Rightarrow> bool" where
  "override_accepted override expected d line \<longleftrightarrow> ValidOverride override \<and> trim_space (dm_actor d) \<noteq> []
     \<and> trim_space (dm_reason d) \<noteq> [] \<and> dm_origin d = MappingOriginManual \<and> dm_at d \<noteq> 0 \<and> pl_revision line = expected"

lemma change_override_Inr:
  "ChangeResolutionOverride override expected d line = Inr (t, line') \<longleftrightarrow> override_accepted override expected d line
     \<and> (if pl_override line = override then t = \<lparr>rt_changed = False, rt_audit = None\<rparr> \<and> line' = line
        else t = \<lparr>rt_changed = True, rt_audit = Some \<lparr>rx_line = pl_id line, rx_previous = pl_override line, rx_new = override,
            rx_previous_revision = pl_revision line, rx_new_revision = pl_revision line + 1, rx_decision = d\<rparr>\<rparr>
          \<and> line' = line\<lparr>pl_override := override, pl_revision := pl_revision line + 1\<rparr>)"
  by (auto simp: ChangeResolutionOverride_def override_accepted_def)

interpretation override_audit: audited override_run override_link "\<lambda>line :: 'd purchase_line. (pl_override line, pl_revision line)"
  "\<lambda>line. line\<lparr>pl_override := [], pl_revision := 0\<rparr>" "\<lambda>line. ValidOverride (pl_override line)"
  by unfold_locales (auto simp: change_override_Inr override_link_def override_accepted_def split: if_splits)

section \<open>Drafts\<close>

definition canonical_line :: "'d line_draft \<Rightarrow> 'd line_draft" where
  "canonical_line l = l\<lparr>ld_description := trim_space (ld_description l), ld_sku := trim_space (ld_sku l),
     ld_sat_code := trim_space (ld_sat_code l), ld_unit_code := trim_space (ld_unit_code l),
     ld_unit := trim_space (ld_unit l), ld_tax_object := trim_space (ld_tax_object l)\<rparr>"

definition line_wf :: "'d decimal_ops \<Rightarrow> 'd line_draft \<Rightarrow> bool" where
  "line_wf D l \<longleftrightarrow> canonical_line l = l \<and> 0 < ld_number l \<and> ld_description l \<noteq> []
     \<and> \<not> dec_is_negative D (ld_quantity l) \<and> \<not> dec_is_negative D (ld_unit_price l) \<and> \<not> dec_is_negative D (ld_amount l)"

definition draft_wf :: "'d decimal_ops \<Rightarrow> 'd purchase_draft \<Rightarrow> bool" where
  "draft_wf D d \<longleftrightarrow> canonical_draft d = d \<and> 0 < pp_supplier (pd_party d)
     \<and> (case pp_branch (pd_party d) of None \<Rightarrow> True | Some b \<Rightarrow> 0 < b)
     \<and> pd_uuid d \<noteq> [] \<and> pd_issued d \<noteq> 0 \<and> pd_currency d \<noteq> [] \<and> pd_issuer_tax_id d \<noteq> [] \<and> xd_content (pd_xml d) \<noteq> []
     \<and> byte_len (xd_hash (pd_xml d)) = 64 \<and> \<not> dec_is_negative D (pd_subtotal d) \<and> \<not> dec_is_negative D (pd_total d)
     \<and> pd_lines d \<noteq> [] \<and> list_all (line_wf D) (pd_lines d)"

definition canonical_lines :: "'d purchase_draft \<Rightarrow> 'd purchase_draft" where
  "canonical_lines d = d\<lparr>pd_lines := map canonical_line (pd_lines d)\<rparr>"

lemma canonical_line_idem [simp]: "canonical_line (canonical_line l) = canonical_line l"
  by (simp add: canonical_line_def)

lemma canonical_draft_idem [simp]: "canonical_draft (canonical_draft d) = canonical_draft d"
  by (simp add: canonical_draft_def trim_upper trim_lower)

lemma new_line_iff: "new_purchase_line_draft D l = Inr l' \<longleftrightarrow> l' = canonical_line l \<and> line_wf D l'"
  by (auto simp: new_purchase_line_draft_def line_wf_def canonical_line_def Let_def)

lemmas new_lines_iff = mapr_canonical[of "new_purchase_line_draft D" canonical_line "line_wf D" for D, OF new_line_iff]

text \<open>C37: the constructor of purchase drafts returns exactly the well-typed drafts: it accepts a draft
  precisely when its canonical form satisfies every typing constraint of a draft, and what it returns
  is that canonical form.\<close>

theorem draft_typing:
  "NewPurchaseDraft D d = Inr d' \<longleftrightarrow> d' = canonical_lines (canonical_draft d) \<and> draft_wf D d'"
proof -
  have lines: "pd_lines (canonical_draft d) = pd_lines d" for d :: "'a purchase_draft"
    by (simp add: canonical_draft_def)
  have c: "canonical_draft (canonical_lines (canonical_draft d)) = canonical_lines (canonical_draft d)"
    by (simp add: canonical_draft_def canonical_lines_def trim_upper trim_lower)
  show ?thesis
    unfolding NewPurchaseDraft_def Let_def draft_wf_def
    using c by (auto simp: bindr_Inr_iff new_lines_iff canonical_lines_def lines not_le split: option.splits if_splits)
qed

end
