(* ===== verification/PurchaseStore.thy ===== *)
theory PurchaseStore
  imports PurchaseDomain SupplierStore
begin

text \<open>
  The purchase repository (\<^verbatim>\<open>internal/modules/purchases/postgres\<close>): the tables of migrations
  \<^verbatim>\<open>000011\<close>, \<^verbatim>\<open>000013\<close> and \<^verbatim>\<open>000014\<close> beside those of the supplier master, and the transactions over
  them. Row locks make a transaction one step. A \<^verbatim>\<open>NUMERIC\<close> column holds the text of its decimal,
  a \<^verbatim>\<open>TIMESTAMPTZ\<close> column whole microseconds, a \<^verbatim>\<open>BIGINT\<close> column refuses a revision above its range.
\<close>

section \<open>Tables\<close>

record resource_row =
  rr_active :: bool
  rr_identity :: gstring
  rr_display :: gstring

record line_row = "gstring line_draft" +
  lr_id :: int
  lr_purchase :: int
  lr_product :: "int option"
  lr_override :: gstring
  lr_revision :: revision

type_synonym purchase_row = "gstring purchase"

record purchase_db = supplier_db +
  pdb_resources :: "(int, resource_row) gmap"
  pdb_products :: "(int, supplier_product) gmap"
  pdb_purchases :: "(int, purchase_row) gmap"
  pdb_lines :: "(int, line_row) gmap"
  pdb_mapping_audit :: "mapping_audit_entry list"
  pdb_line_audit :: "resolution_audit_entry list"
  pdb_product_seq :: int
  pdb_purchase_seq :: int
  pdb_line_seq :: int

text \<open>What a rollback of \<open>t\<close> to the tables of \<open>s\<close> leaves: the sequences have moved on.\<close>

definition undo :: "'x purchase_db_scheme \<Rightarrow> 'x purchase_db_scheme \<Rightarrow> 'x purchase_db_scheme" where
  "undo s t = s\<lparr>pdb_product_seq := pdb_product_seq t, pdb_purchase_seq := pdb_purchase_seq t, pdb_line_seq := pdb_line_seq t\<rparr>"

section \<open>Errors\<close>

fun pur_write_fault :: "gstring \<Rightarrow> sql_fault \<Rightarrow> go_error" where
  "pur_write_fault operation (PgError code constraint message) =
     (if code = ''23503'' then Wrapf ''%s: %w: %s'' [operation, constraint] [pur_error PurErrValidation]
      else if code = ''23502'' \<or> code = ''23514'' then Wrapf ''%s: %w: %s'' [operation, message] [pur_error PurErrValidation]
      else if code = ''23505'' then Wrapf ''%s: %w: %s'' [operation, constraint] [pur_error PurErrConflict]
      else Wrapf ''%s: %w'' [operation] [ErrNew message])"
| "pur_write_fault operation (DriverError e) = Wrapf ''%s: %w'' [operation] [e]"

text \<open>\<^verbatim>\<open>mapWriteError(operation, err)\<close>, \<^verbatim>\<open>wrapRead(operation, notFound(err, missing))\<close> and the check for
  \<^verbatim>\<open>pgx.ErrNoRows\<close> before \<^verbatim>\<open>wrapRead\<close> or \<^verbatim>\<open>mapWriteError\<close>.\<close>

definition pur_write_error :: "gstring \<Rightarrow> db_error \<Rightarrow> go_error" where
  "pur_write_error operation e = (case e of
     NoRows \<Rightarrow> Wrapf ''%s: %w'' [operation] [db_error_value NoRows] | Broken f \<Rightarrow> pur_write_fault operation f)"

definition pur_read_error :: "gstring \<Rightarrow> db_error \<Rightarrow> go_error" where
  "pur_read_error operation e = wrap_read operation (db_error_value e)"

definition found_or :: "go_error \<Rightarrow> (db_error \<Rightarrow> go_error) \<Rightarrow> db_error \<Rightarrow> go_error" where
  "found_or missing otherwise e = (case e of NoRows \<Rightarrow> missing | Broken f \<Rightarrow> otherwise e)"

definition mapCommitError :: "go_error \<Rightarrow> go_error" where
  "mapCommitError e = Wrapf ''mapping transaction commit: %w: %v'' [] [pur_error ErrCommitAmbiguous]"

definition purchase_ready :: "sql_faults \<Rightarrow> ('s, go_error, unit) action" where
  "purchase_ready F = pool_ready F ''purchase repository''"

text \<open>A revision is sent as \<^verbatim>\<open>BIGINT\<close>.\<close>

definition int8 :: "revision \<Rightarrow> db_error option" where
  "int8 r = (if r < 0x8000000000000000 then None
     else Some (Broken (DriverError (ErrNew ''greater than maximum value for int8''))))"

section \<open>Supplier products\<close>

definition resource_active :: "'x purchase_db_scheme \<Rightarrow> product_mapping \<Rightarrow> bool option" where
  "resource_active db m = (case pm_resource m of None \<Rightarrow> None
     | Some r \<Rightarrow> map_option rr_active (map_of (pdb_resources db) r))"

definition joined_product :: "'x purchase_db_scheme \<Rightarrow> supplier_product \<Rightarrow> supplier_product" where
  "joined_product db sp = sp\<lparr>sp_resource_active := resource_active db (sp_mapping sp)\<rparr>"

definition product_by_id :: "int \<Rightarrow> 'x purchase_db_scheme \<Rightarrow> supplier_product option" where
  "product_by_id i db = map_option (joined_product db) (map_of (pdb_products db) i)"

definition product_by_sku :: "int \<Rightarrow> gstring \<Rightarrow> 'x purchase_db_scheme \<Rightarrow> supplier_product option" where
  "product_by_sku supplierID sku db = map_option (joined_product db)
     (find (\<lambda>sp. sp_supplier sp = supplierID \<and> sp_sku sp = sku) (map snd (pdb_products db)))"

definition product_not_found :: "int \<Rightarrow> go_error" where
  "product_not_found i = Wrapf ''%w: id %d'' [show_int i] [pur_error ErrSupplierProductNotFound]"

definition GetSupplierProduct :: "sql_faults \<Rightarrow> int \<Rightarrow> ('x purchase_db_scheme, go_error, supplier_product) action" where
  "GetSupplierProduct F i = bnd (purchase_ready F) (\<lambda>_.
     map_err (\<lambda>e. wrap_read ''get supplier product'' (found_or (product_not_found i) db_error_value e))
       (stmt F ''getSupplierProductSQL'' 0 (query_row (product_by_id i))))"

definition FindSupplierProduct ::
  "sql_faults \<Rightarrow> int \<Rightarrow> gstring \<Rightarrow> ('x purchase_db_scheme, go_error, supplier_product) action" where
  "FindSupplierProduct F supplierID sku = bnd (purchase_ready F) (\<lambda>_.
     map_err (\<lambda>e. wrap_read ''find supplier product'' (found_or (pur_error ErrSupplierProductNotFound) db_error_value e))
       (stmt F ''findSupplierProductSQL'' 0 (query_row (product_by_sku supplierID sku))))"

definition ListSupplierProducts ::
  "sql_faults \<Rightarrow> (gstring \<Rightarrow> gstring) \<Rightarrow> int \<Rightarrow> int \<Rightarrow> int \<Rightarrow> ('x purchase_db_scheme, go_error, supplier_product list) action" where
  "ListSupplierProducts F coll supplierID lim off = bnd (purchase_ready F) (\<lambda>_.
     map_err (pur_read_error ''list supplier products'') (stmt F ''listSupplierProductsSQL'' 0 (asks (\<lambda>db.
       page (sql_limit lim) (sql_offset off) (map (joined_product db) (sort_key (\<lambda>sp. coll (sp_sku sp))
         (filter (\<lambda>sp. sp_supplier sp = supplierID) (map snd (pdb_products db)))))))))"

section \<open>Mapping transitions\<close>

definition update_mapping :: "int \<Rightarrow> supplier_product \<Rightarrow> revision \<Rightarrow> ('x purchase_db_scheme, db_error, nat) action" where
  "update_mapping now product expected = (\<lambda>db.
     case int8 (sp_revision product) of Some e \<Rightarrow> (Inl e, db) | None \<Rightarrow>
     (case map_of (pdb_products db) (sp_id product) of None \<Rightarrow> (Inr 0, db)
      | Some row \<Rightarrow> if sp_revision row \<noteq> expected then (Inr 0, db)
        else if (case pm_resource (sp_mapping product) of Some r \<Rightarrow> map_of (pdb_resources db) r = None | None \<Rightarrow> False)
        then (Inl (violates ''23503'' ''supplier_products_resource_id_fkey''), db)
        else (Inr 1, db\<lparr>pdb_products := gput (sp_id product) (row\<lparr>sp_mapping := sp_mapping product,
            sp_revision := sp_revision product, sp_updated := now\<rparr>) (pdb_products db)\<rparr>)))"

text \<open>The constraints of both audit tables on the decision, and on the revisions.\<close>

definition audit_violation :: "gstring \<Rightarrow> revision \<Rightarrow> revision \<Rightarrow> decision_metadata \<Rightarrow> db_error option" where
  "audit_violation table previous new decision =
     (if int8 previous \<noteq> None then int8 previous
      else if int8 new \<noteq> None then int8 new
      else if unat new \<noteq> unat previous + 1 then Some (violates ''23514'' (table @ ''_new_revision_check''))
      else if btrim (dm_actor decision) = [] then Some (violates ''23514'' (table @ ''_actor_check''))
      else if dm_origin decision \<noteq> MappingOriginManual then Some (violates ''23514'' (table @ ''_origin_check''))
      else None)"

definition stored_decision :: "decision_metadata \<Rightarrow> decision_metadata" where
  "stored_decision d = d\<lparr>dm_at := pg_time (dm_at d)\<rparr>"

definition insert_mapping_audit :: "mapping_audit_entry \<Rightarrow> ('x purchase_db_scheme, db_error, unit) action" where
  "insert_mapping_audit entry = (\<lambda>db.
     let known = (\<lambda>m. case pm_resource m of Some r \<Rightarrow> map_of (pdb_resources db) r \<noteq> None | None \<Rightarrow> True) in
     case audit_violation ''supplier_product_mapping_audit'' (ma_previous_revision entry) (ma_new_revision entry) (ma_decision entry) of
       Some e \<Rightarrow> (Inl e, db)
     | None \<Rightarrow> if map_of (pdb_products db) (ma_product entry) = None
         then (Inl (violates ''23503'' ''supplier_product_mapping_audit_supplier_fkey''), db)
       else if \<not> known (ma_previous entry)
         then (Inl (violates ''23503'' ''supplier_product_mapping_audit_previous_resource_fkey''), db)
       else if \<not> known (ma_new entry)
         then (Inl (violates ''23503'' ''supplier_product_mapping_audit_new_resource_fkey''), db)
       else (Inr (), db\<lparr>pdb_mapping_audit := pdb_mapping_audit db @ [entry\<lparr>ma_decision := stored_decision (ma_decision entry)\<rparr>]\<rparr>))"

definition persistMappingTransition ::
  "sql_faults \<Rightarrow> int \<Rightarrow> supplier_product \<Rightarrow> mapping_transition \<Rightarrow> revision \<Rightarrow> ('x purchase_db_scheme, go_error, unit) action" where
  "persistMappingTransition F now product tr expected =
     (if \<not> mt_changed tr then ret ()
      else bnd (map_err (pur_write_error ''update supplier product mapping'')
          (stmt F ''updateSupplierProductMappingSQL'' 0 (update_mapping now product expected))) (\<lambda>rows.
        if rows \<noteq> 1 then fail (pur_error ErrStaleMappingRevision)
        else (case mt_audit tr of
          None \<Rightarrow> fail (ErrNew ''mapping transition changed without audit entry'')
        | Some entry \<Rightarrow> map_err (pur_write_error ''insert supplier product mapping audit'')
            (stmt F ''insertMappingAuditSQL'' 0 (insert_mapping_audit entry)))))"

definition lockResource :: "sql_faults \<Rightarrow> int \<Rightarrow> ('x purchase_db_scheme, go_error, int \<times> bool) action" where
  "lockResource F i =
     (if i \<le> 0 then fail (pur_error PurErrResourceNotFound)
      else map_err (found_or (pur_error PurErrResourceNotFound) (pur_read_error ''lock resource''))
        (stmt F ''lock recursos'' (nat i) (query_row (\<lambda>db. map_option (\<lambda>r. (i, rr_active r)) (map_of (pdb_resources db) i)))))"

definition orderedResourceIDs :: "int list \<Rightarrow> int list" where
  "orderedResourceIDs ids = sort (gkeys (foldl (\<lambda>m i. if 0 < i then gput i () m else m) [] ids))"

fun lock_each :: "sql_faults \<Rightarrow> int list \<Rightarrow> (int, bool) gmap \<Rightarrow> ('x purchase_db_scheme, go_error, (int, bool) gmap) action" where
  "lock_each F [] active = ret active"
| "lock_each F (i # ids) active = bnd (lockResource F i) (\<lambda>(_, a). lock_each F ids (gput i a active))"

definition lockResources :: "sql_faults \<Rightarrow> int list \<Rightarrow> ('x purchase_db_scheme, go_error, (int, bool) gmap) action" where
  "lockResources F ids =
     (if \<exists>i\<in>set ids. i \<le> 0 then fail (pur_error PurErrResourceNotFound)
      else lock_each F (orderedResourceIDs ids) [])"

definition requireTargetActive :: "(int, bool) gmap \<Rightarrow> int \<Rightarrow> go_error option" where
  "requireTargetActive active target =
     (if map_of active target = Some True then None else Some (pur_error PurErrResourceInactive))"

definition readResourceActive :: "sql_faults \<Rightarrow> int \<Rightarrow> ('x purchase_db_scheme, go_error, bool) action" where
  "readResourceActive F i = map_err (pur_read_error ''read resource activity'')
     (stmt F ''read recursos active'' 0 (query_row (\<lambda>db. map_option rr_active (map_of (pdb_resources db) i))))"

text \<open>The callback of \<^verbatim>\<open>runMappingTransition\<close> returns the transition, the resource whose activity is read
  back (0 for none) and the changed product.\<close>

type_synonym 'x mapping_body =
  "supplier_product \<Rightarrow> ('x purchase_db_scheme, go_error, mapping_transition \<times> int \<times> supplier_product) action"

definition refresh_activity ::
  "sql_faults \<Rightarrow> mapping_transition \<Rightarrow> int \<Rightarrow> supplier_product \<Rightarrow> ('x purchase_db_scheme, go_error, supplier_product) action" where
  "refresh_activity F tr resourceID product =
     (if \<not> mt_changed tr then ret product
      else if 0 < resourceID then bnd (readResourceActive F resourceID) (\<lambda>active. ret (product\<lparr>sp_resource_active := Some active\<rparr>))
      else ret (product\<lparr>sp_resource_active := None\<rparr>))"

definition runMappingTransition ::
  "sql_faults \<Rightarrow> bool \<Rightarrow> int \<Rightarrow> int \<Rightarrow> revision \<Rightarrow> 'x mapping_body \<Rightarrow> ('x purchase_db_scheme, go_error, supplier_product) action" where
  "runMappingTransition F applied now i expected body = bnd (purchase_ready F) (\<lambda>_.
     transact F ''begin mapping transaction'' mapCommitError applied undo
       (bnd (map_err (\<lambda>e. case e of
             NoRows \<Rightarrow> Wrapf ''%s: %w'' [''lock supplier product''] [product_not_found i]
           | Broken f \<Rightarrow> pur_write_fault ''lock supplier product'' f)
          (stmt F ''lockSupplierProductSQL'' 0 (query_row (product_by_id i)))) (\<lambda>product.
        bnd (body product) (\<lambda>(tr, resourceID, product).
        bnd (refresh_activity F tr resourceID product) (\<lambda>product.
        bnd (persistMappingTransition F now product tr expected) (\<lambda>_. ret product))))))"

definition store_confirm ::
  "sql_faults \<Rightarrow> bool \<Rightarrow> int \<Rightarrow> int \<Rightarrow> int \<Rightarrow> revision \<Rightarrow> decision_metadata \<Rightarrow> ('x purchase_db_scheme, go_error, supplier_product) action" where
  "store_confirm F applied now i resourceID expected decision =
     runMappingTransition F applied now i expected (\<lambda>product.
       bnd (lift (ConfirmMapping resourceID expected decision product)) (\<lambda>(tr, product).
       if \<not> mt_changed tr then ret (tr, 0, product)
       else bnd (lockResources F [resourceID]) (\<lambda>active.
         bnd (require (requireTargetActive active resourceID)) (\<lambda>_. ret (tr, resourceID, product)))))"

definition store_correct ::
  "sql_faults \<Rightarrow> bool \<Rightarrow> int \<Rightarrow> int \<Rightarrow> int \<Rightarrow> int \<Rightarrow> revision \<Rightarrow> decision_metadata \<Rightarrow> ('x purchase_db_scheme, go_error, supplier_product) action" where
  "store_correct F applied now i current resourceID expected decision = bnd (purchase_ready F) (\<lambda>_.
     runMappingTransition F applied now i expected (\<lambda>product.
       bnd (lockResources F [current, resourceID]) (\<lambda>active.
       bnd (require (requireTargetActive active resourceID)) (\<lambda>_.
       bnd (lift (CorrectMapping current resourceID expected decision product)) (\<lambda>(tr, product). ret (tr, resourceID, product))))))"

definition store_unlink ::
  "sql_faults \<Rightarrow> bool \<Rightarrow> int \<Rightarrow> int \<Rightarrow> int \<Rightarrow> revision \<Rightarrow> decision_metadata \<Rightarrow> ('x purchase_db_scheme, go_error, supplier_product) action" where
  "store_unlink F applied now i current expected decision =
     runMappingTransition F applied now i expected (\<lambda>product.
       bnd (lockResources F [current]) (\<lambda>_.
       bnd (lift (ExceptionalUnlink current expected decision product)) (\<lambda>(tr, product). ret (tr, 0, product))))"

definition store_report ::
  "sql_faults \<Rightarrow> bool \<Rightarrow> int \<Rightarrow> int \<Rightarrow> int \<Rightarrow> revision \<Rightarrow> decision_metadata \<Rightarrow> ('x purchase_db_scheme, go_error, supplier_product) action" where
  "store_report F applied now i current expected decision =
     runMappingTransition F applied now i expected (\<lambda>product.
       bnd (lockResources F [current]) (\<lambda>_.
       bnd (lift (ReportIdentityConflict current expected decision product)) (\<lambda>(tr, product). ret (tr, current, product))))"

definition store_resolve ::
  "sql_faults \<Rightarrow> bool \<Rightarrow> int \<Rightarrow> int \<Rightarrow> int \<Rightarrow> int \<Rightarrow> revision \<Rightarrow> decision_metadata \<Rightarrow> ('x purchase_db_scheme, go_error, supplier_product) action" where
  "store_resolve F applied now i current resourceID expected decision =
     runMappingTransition F applied now i expected (\<lambda>product.
       bnd (lockResources F [current, resourceID]) (\<lambda>active.
       bnd (require (requireTargetActive active resourceID)) (\<lambda>_.
       bnd (lift (ResolveIdentityConflict current resourceID expected decision product)) (\<lambda>(tr, product). ret (tr, resourceID, product)))))"

text \<open>The five commands of \<^verbatim>\<open>MappingRepository\<close> on one product.\<close>

fun store_mapping ::
  "sql_faults \<Rightarrow> bool \<Rightarrow> int \<Rightarrow> int \<Rightarrow> mapping_command \<Rightarrow> revision \<Rightarrow> decision_metadata
     \<Rightarrow> ('x purchase_db_scheme, go_error, supplier_product) action" where
  "store_mapping F applied now i (Confirm r) = store_confirm F applied now i r"
| "store_mapping F applied now i (Correct c r) = store_correct F applied now i c r"
| "store_mapping F applied now i (Unlink c) = store_unlink F applied now i c"
| "store_mapping F applied now i (ReportConflict c) = store_report F applied now i c"
| "store_mapping F applied now i (ResolveConflict c r) = store_resolve F applied now i c r"

text \<open>The audit of one product, oldest first; the two states of an entry are derived when it is read.\<close>

definition ListMappingAudit ::
  "sql_faults \<Rightarrow> int \<Rightarrow> int \<Rightarrow> int \<Rightarrow> ('x purchase_db_scheme, go_error, mapping_audit_entry list) action" where
  "ListMappingAudit F i lim off = bnd (purchase_ready F) (\<lambda>_.
     map_err (pur_read_error ''list supplier product mapping audit'') (stmt F ''mappingAuditSQL'' 0 (asks (\<lambda>db.
       page (sql_limit lim) (sql_offset off) (map (\<lambda>e. e\<lparr>ma_previous_state := KnowledgeState (ma_previous e),
         ma_new_state := KnowledgeState (ma_new e)\<rparr>) (filter (\<lambda>e. ma_product e = i) (pdb_mapping_audit db)))))))"

end
