(* ===== verification/PurchaseLineStore.thy ===== *)
theory PurchaseLineStore
  imports PurchaseStore
begin

text \<open>
  Purchase lines in the database (\<^verbatim>\<open>purchase_line.go\<close>, \<^verbatim>\<open>resolve_purchase_line.go\<close>, \<^verbatim>\<open>link.go\<close> and
  \<^verbatim>\<open>history.go\<close> of \<^verbatim>\<open>internal/modules/purchases/postgres\<close>): the joined projections, the manual override
  and the line-centred resolution, each one transaction.
\<close>

section \<open>Scanning\<close>

definition decode :: "'d decimal_ops \<Rightarrow> gstring \<Rightarrow> gstring \<Rightarrow> db_error + 'd" where
  "decode D format column = (case dec_parse D column of Some d \<Rightarrow> Inr d
     | None \<Rightarrow> Inl (Broken (DriverError (Wrapf format [] [ErrNew column]))))"

text \<open>The columns \<^verbatim>\<open>sp.resource_id\<close>, \<^verbatim>\<open>sp.mapping_identity_conflict\<close> and \<^verbatim>\<open>r.active\<close> of the left joins.\<close>

definition line_product :: "'x purchase_db_scheme \<Rightarrow> line_row \<Rightarrow> supplier_product option" where
  "line_product db row = (case lr_product row of None \<Rightarrow> None | Some p \<Rightarrow> map_of (pdb_products db) p)"

definition joined_resource :: "'x purchase_db_scheme \<Rightarrow> line_row \<Rightarrow> int option" where
  "joined_resource db row = (case line_product db row of None \<Rightarrow> None | Some sp \<Rightarrow> pm_resource (sp_mapping sp))"

definition joined_conflict :: "'x purchase_db_scheme \<Rightarrow> line_row \<Rightarrow> bool option" where
  "joined_conflict db row = map_option (\<lambda>sp. pm_conflict (sp_mapping sp)) (line_product db row)"

definition joined_active :: "'x purchase_db_scheme \<Rightarrow> line_row \<Rightarrow> bool option" where
  "joined_active db row = (case joined_resource db row of None \<Rightarrow> None
     | Some r \<Rightarrow> map_option rr_active (map_of (pdb_resources db) r))"

definition coalesce :: "'a option \<Rightarrow> 'a \<Rightarrow> 'a" where
  "coalesce v d = (case v of Some x \<Rightarrow> x | None \<Rightarrow> d)"

definition scanPurchaseLine :: "'d decimal_ops \<Rightarrow> 'x purchase_db_scheme \<Rightarrow> line_row \<Rightarrow> db_error + 'd purchase_line" where
  "scanPurchaseLine D db row =
     (let mapping = \<lparr>pm_resource = joined_resource db row, pm_conflict = coalesce (joined_conflict db row) False\<rparr>;
          active = coalesce (joined_active db row) True;
          derived = EffectiveLineStatus (lr_override row) mapping active in
      bindr (decode D ''decode quantity: %w'' (ld_quantity row)) (\<lambda>quantity.
      bindr (decode D ''decode unit price: %w'' (ld_unit_price row)) (\<lambda>unitPrice.
      bindr (decode D ''decode amount: %w'' (ld_amount row)) (\<lambda>amount.
      bindr (decode D ''decode discount: %w'' (ld_discount row)) (\<lambda>discount.
      bindr (decode D ''decode tax transferred: %w'' (ld_tax_transferred row)) (\<lambda>transferred.
      bindr (decode D ''decode tax withheld: %w'' (ld_tax_withheld row)) (\<lambda>withheld.
      Inr \<lparr>ld_number = ld_number row, ld_description = ld_description row, ld_sku = ld_sku row,
        ld_sat_code = ld_sat_code row, ld_quantity = quantity, ld_unit_code = ld_unit_code row, ld_unit = ld_unit row,
        ld_unit_price = unitPrice, ld_amount = amount, ld_discount = discount, ld_tax_transferred = transferred,
        ld_tax_withheld = withheld, ld_tax_object = ld_tax_object row, pl_id = lr_id row, pl_purchase = lr_purchase row,
        pl_product = lr_product row, pl_override = lr_override row, pl_revision = lr_revision row,
        pl_status = fst derived, pl_cause = snd derived\<rparr>)))))))"

definition line_by_id :: "'d decimal_ops \<Rightarrow> int \<Rightarrow> ('x purchase_db_scheme, db_error, 'd purchase_line) action" where
  "line_by_id D i = (\<lambda>db. (case map_of (pdb_lines db) i of None \<Rightarrow> Inl NoRows | Some row \<Rightarrow> scanPurchaseLine D db row, db))"

definition lines_of :: "int \<Rightarrow> 'x purchase_db_scheme \<Rightarrow> line_row list" where
  "lines_of purchaseID db = sort_key ld_number (filter (\<lambda>row. lr_purchase row = purchaseID) (map snd (pdb_lines db)))"

definition queryPurchaseLines ::
  "'d decimal_ops \<Rightarrow> sql_faults \<Rightarrow> int \<Rightarrow> ('x purchase_db_scheme, go_error, 'd purchase_line list) action" where
  "queryPurchaseLines D F purchaseID =
     bnd (map_err (pur_read_error ''list purchase lines'') (stmt F ''listPurchaseLinesSQL'' 0 (asks (lines_of purchaseID)))) (\<lambda>rows.
     bnd (asks (\<lambda>db. mapr (scanPurchaseLine D db) rows)) (\<lambda>lines.
     map_err (pur_read_error ''scan purchase line'') (lift lines)))"

definition ListPurchaseLines ::
  "'d decimal_ops \<Rightarrow> sql_faults \<Rightarrow> int \<Rightarrow> ('x purchase_db_scheme, go_error, 'd purchase_line list) action" where
  "ListPurchaseLines D F purchaseID = bnd (purchase_ready F) (\<lambda>_. queryPurchaseLines D F purchaseID)"

section \<open>The manual override\<close>

definition update_override :: "'d purchase_line \<Rightarrow> revision \<Rightarrow> ('x purchase_db_scheme, db_error, nat) action" where
  "update_override line expected = (\<lambda>db.
     case int8 (pl_revision line) of Some e \<Rightarrow> (Inl e, db) | None \<Rightarrow>
     (case map_of (pdb_lines db) (pl_id line) of None \<Rightarrow> (Inr 0, db)
      | Some row \<Rightarrow> if lr_revision row \<noteq> expected then (Inr 0, db)
        else if \<not> ValidOverride (pl_override line) then (Inl (violates ''23514'' ''purchase_lines_resolution_override_check''), db)
        else (Inr 1, db\<lparr>pdb_lines := gput (pl_id line) (row\<lparr>lr_override := pl_override line, lr_revision := pl_revision line\<rparr>)
          (pdb_lines db)\<rparr>)))"

definition insert_line_audit :: "resolution_audit_entry \<Rightarrow> ('x purchase_db_scheme, db_error, unit) action" where
  "insert_line_audit entry = (\<lambda>db.
     case audit_violation ''purchase_line_resolution_audit'' (rx_previous_revision entry) (rx_new_revision entry) (rx_decision entry) of
       Some e \<Rightarrow> (Inl e, db)
     | None \<Rightarrow> if \<not> ValidOverride (rx_previous entry)
         then (Inl (violates ''23514'' ''purchase_line_resolution_audit_previous_override_check''), db)
       else if \<not> ValidOverride (rx_new entry)
         then (Inl (violates ''23514'' ''purchase_line_resolution_audit_new_override_check''), db)
       else if map_of (pdb_lines db) (rx_line entry) = None
         then (Inl (violates ''23503'' ''purchase_line_resolution_audit_line_fkey''), db)
       else (Inr (), db\<lparr>pdb_line_audit := pdb_line_audit db @ [entry\<lparr>rx_decision := stored_decision (rx_decision entry)\<rparr>]\<rparr>))"

definition persist_override ::
  "'d decimal_ops \<Rightarrow> sql_faults \<Rightarrow> 'd purchase_line \<Rightarrow> resolution_transition \<Rightarrow> revision
     \<Rightarrow> ('x purchase_db_scheme, go_error, 'd purchase_line) action" where
  "persist_override D F line tr expected =
     (if \<not> rt_changed tr then ret line
      else bnd (map_err (pur_write_error ''update purchase line override'')
          (stmt F ''update purchase_lines override'' 0 (update_override line expected))) (\<lambda>rows.
        if rows \<noteq> 1 then fail (pur_error ErrStaleResolutionRevision)
        else (case rt_audit tr of
          None \<Rightarrow> fail (ErrNew ''resolution override changed without audit entry'')
        | Some entry \<Rightarrow> bnd (map_err (pur_write_error ''insert purchase line resolution audit'')
            (stmt F ''insertResolutionAuditSQL'' 0 (insert_line_audit entry))) (\<lambda>_.
            map_err (pur_read_error ''read updated purchase line override'')
              (stmt F ''getPurchaseLineForResolveSQL'' 1 (line_by_id D (pl_id line)))))))"

definition SetResolutionOverride ::
  "'d decimal_ops \<Rightarrow> sql_faults \<Rightarrow> bool \<Rightarrow> int \<Rightarrow> gstring \<Rightarrow> revision \<Rightarrow> decision_metadata
     \<Rightarrow> ('x purchase_db_scheme, go_error, 'd purchase_line) action" where
  "SetResolutionOverride D F applied lineID override expected decision = bnd (purchase_ready F) (\<lambda>_.
     transact F ''begin purchase line override transaction'' mapCommitError applied undo
       (bnd (map_err (found_or (pur_error ErrPurchaseLineNotFound) (pur_read_error ''lock purchase line override''))
          (stmt F ''getPurchaseLineForResolveSQL'' 0 (line_by_id D lineID))) (\<lambda>line.
        bnd (lift (ChangeResolutionOverride override expected decision line)) (\<lambda>(tr, line).
        persist_override D F line tr expected))))"

section \<open>Supplier product identities\<close>

definition sku_owner :: "int \<Rightarrow> gstring \<Rightarrow> 'x purchase_db_scheme \<Rightarrow> (int \<times> supplier_product) option" where
  "sku_owner supplierID sku db = find (\<lambda>(i, sp). sp_supplier sp = supplierID \<and> sp_sku sp = sku) (pdb_products db)"

definition product_violation :: "int \<Rightarrow> gstring \<Rightarrow> 'x purchase_db_scheme \<Rightarrow> db_error option" where
  "product_violation supplierID sku db =
     (if btrim sku = [] then Some (violates ''23514'' ''supplier_products_sku_nonblank'')
      else if map_of (sdb_suppliers db) supplierID = None then Some (violates ''23503'' ''supplier_products_supplier_id_fkey'')
      else None)"

definition new_product_row :: "int \<Rightarrow> int \<Rightarrow> int \<Rightarrow> gstring \<Rightarrow> gstring \<Rightarrow> supplier_product" where
  "new_product_row now i supplierID sku description = \<lparr>sp_id = i, sp_supplier = supplierID, sp_sku = sku,
     sp_description = description, sp_mapping = NewUnresolvedSupplierProductMapping, sp_revision = 0,
     sp_resource_active = None, sp_notes = [], sp_created = now, sp_updated = now\<rparr>"

text \<open>\<^verbatim>\<open>INSERT ... ON CONFLICT DO NOTHING RETURNING\<close>, \<^verbatim>\<open>UPDATE ... SET description ... RETURNING\<close> and
  \<^verbatim>\<open>INSERT ... ON CONFLICT DO UPDATE SET description ... RETURNING\<close>.\<close>

definition insert_product :: "int \<Rightarrow> int \<Rightarrow> gstring \<Rightarrow> gstring \<Rightarrow> ('x purchase_db_scheme, db_error, supplier_product) action" where
  "insert_product now supplierID sku description = (\<lambda>db0.
     let i = pdb_product_seq db0 + 1; db = db0\<lparr>pdb_product_seq := i\<rparr>; row = new_product_row now i supplierID sku description in
     if btrim sku \<noteq> [] \<and> sku_owner supplierID sku db \<noteq> None then (Inl NoRows, db)
     else (case product_violation supplierID sku db of Some e \<Rightarrow> (Inl e, db)
       | None \<Rightarrow> (Inr row, db\<lparr>pdb_products := gput i row (pdb_products db)\<rparr>)))"

definition reuse_product :: "int \<Rightarrow> int \<Rightarrow> gstring \<Rightarrow> gstring \<Rightarrow> ('x purchase_db_scheme, db_error, supplier_product) action" where
  "reuse_product now supplierID sku description = (\<lambda>db. case sku_owner supplierID sku db of None \<Rightarrow> (Inl NoRows, db)
     | Some (i, old) \<Rightarrow> let row = old\<lparr>sp_description := description, sp_updated := now\<rparr> in
         (Inr (joined_product db row), db\<lparr>pdb_products := gput i row (pdb_products db)\<rparr>))"

definition upsert_product :: "int \<Rightarrow> int \<Rightarrow> gstring \<Rightarrow> gstring \<Rightarrow> ('x purchase_db_scheme, db_error, supplier_product) action" where
  "upsert_product now supplierID sku description = (\<lambda>db0.
     case insert_product now supplierID sku description db0 of
       (Inl NoRows, db) \<Rightarrow> reuse_product now supplierID sku description db
     | r \<Rightarrow> r)"

definition upsertSupplierProduct ::
  "sql_faults \<Rightarrow> nat \<Rightarrow> int \<Rightarrow> int \<Rightarrow> gstring \<Rightarrow> gstring \<Rightarrow> ('x purchase_db_scheme, go_error, supplier_product) action" where
  "upsertSupplierProduct F k now supplierID sku description =
     map_err (pur_write_error ''upsert supplier product'') (stmt F ''upsertSQL'' k (upsert_product now supplierID sku description))"

definition resolveSupplierProduct ::
  "sql_faults \<Rightarrow> int \<Rightarrow> int \<Rightarrow> gstring \<Rightarrow> gstring \<Rightarrow> ('x purchase_db_scheme, go_error, supplier_product \<times> bool) action" where
  "resolveSupplierProduct F now supplierID sku description =
     bnd (try_stmt (stmt F ''insertSQL'' 0 (insert_product now supplierID sku description))) (\<lambda>r. case r of
       Inr product \<Rightarrow> ret (product, True)
     | Inl (Broken f) \<Rightarrow> fail (pur_write_fault ''insert resolved supplier product'' f)
     | Inl NoRows \<Rightarrow> bnd (map_err (found_or (pur_error ErrPurchaseIntegrityConflict) (pur_write_error ''reuse resolved supplier product''))
           (stmt F ''reuseSQL'' 0 (reuse_product now supplierID sku description))) (\<lambda>product. ret (product, False)))"

section \<open>Resolving a line\<close>

record resolve_command =
  rc_line :: int
  rc_resource :: int
  rc_sku :: gstring
  rc_product :: "int option"
  rc_mapping_revision :: "revision option"
  rc_resolution_revision :: revision
  rc_actor :: gstring
  rc_reason :: gstring
  rc_decision :: decision_metadata

datatype (plugins only: code size) disposition =
    CommercialIdentityCreated | CommercialIdentityReused | CommercialIdentityAlreadyMapped

record 'd resolve_result =
  rres_line :: "'d purchase_line"
  rres_product :: supplier_product
  rres_disposition :: disposition

definition sameOptionalID :: "int option \<Rightarrow> int option \<Rightarrow> bool" where
  "sameOptionalID left right = (case (left, right) of (Some a, Some b) \<Rightarrow> a = b | (a, b) \<Rightarrow> a = None \<and> b = None)"

definition commercialIdentityDisposition :: "bool \<Rightarrow> mapping_transition \<Rightarrow> disposition" where
  "commercialIdentityDisposition created tr =
     (if created then CommercialIdentityCreated
      else if mt_changed tr then CommercialIdentityReused else CommercialIdentityAlreadyMapped)"

definition locked_line :: "int \<Rightarrow> 'x purchase_db_scheme \<Rightarrow> (line_row \<times> int) option" where
  "locked_line i db = (case map_of (pdb_lines db) i of None \<Rightarrow> None
     | Some row \<Rightarrow> (case map_of (pdb_purchases db) (lr_purchase row) of None \<Rightarrow> None
         | Some p \<Rightarrow> Some (row, pp_supplier (pd_party p))))"

definition resolveSupplierProductIdentity ::
  "sql_faults \<Rightarrow> int \<Rightarrow> int \<Rightarrow> gstring \<Rightarrow> int option \<Rightarrow> resolve_command
     \<Rightarrow> ('x purchase_db_scheme, go_error, supplier_product \<times> bool \<times> bool) action" where
  "resolveSupplierProductIdentity F now supplierID description actual command = (case actual of
     Some i \<Rightarrow>
       bnd (map_err (found_or (pur_error ErrPurchaseIntegrityConflict) (pur_read_error ''lock purchase line supplier product''))
         (stmt F ''lockSupplierProductSQL'' 0 (query_row (product_by_id i)))) (\<lambda>product.
       if sp_supplier product \<noteq> supplierID then fail (pur_error ErrPurchaseIntegrityConflict)
       else ret (product, False, False))
   | None \<Rightarrow>
       bnd (resolveSupplierProduct F now supplierID (rc_sku command) description) (\<lambda>(product, created).
       if KnowledgeState (sp_mapping product) = MappingStateConfirmed
       then (if pm_resource (sp_mapping product) = None \<or> the (pm_resource (sp_mapping product)) \<noteq> rc_resource command
             then fail (pur_error ErrMappingTargetConflict) else ret (product, True, created))
       else if KnowledgeState (sp_mapping product) \<noteq> MappingStateUnresolved then fail (pur_error ErrMappingTargetConflict)
       else ret (product, True, created)))"

definition associate_line :: "int \<Rightarrow> int \<Rightarrow> ('x purchase_db_scheme, db_error, nat) action" where
  "associate_line lineID productID = (\<lambda>db. case map_of (pdb_lines db) lineID of None \<Rightarrow> (Inr 0, db)
     | Some row \<Rightarrow> if lr_product row \<noteq> None then (Inr 0, db)
         else if map_of (pdb_products db) productID = None
         then (Inl (violates ''23503'' ''purchase_lines_supplier_product_id_fkey''), db)
         else (Inr 1, db\<lparr>pdb_lines := gput lineID (row\<lparr>lr_product := Some productID\<rparr>) (pdb_lines db)\<rparr>))"

text \<open>The three guards on the locked line.\<close>

definition line_guard :: "line_row \<Rightarrow> resolve_command \<Rightarrow> go_error option" where
  "line_guard row command =
     (if lr_revision row \<noteq> rc_resolution_revision command then Some (pur_error ErrStaleResolutionRevision)
      else if \<not> sameOptionalID (lr_product row) (rc_product command) then Some (pur_error ErrPurchaseLineStateConflict)
      else if lr_override row \<noteq> LinkStatusNone then Some (pur_error ErrPurchaseLineStateConflict)
      else None)"

definition pending_guard :: "line_row \<Rightarrow> supplier_product \<Rightarrow> go_error option" where
  "pending_guard row product =
     (let active = (if pm_resource (sp_mapping product) \<noteq> None then coalesce (sp_resource_active product) True else True);
          status = fst (EffectiveLineStatus LinkStatusNone (sp_mapping product) active) in
      if lr_product row \<noteq> None \<and> status \<noteq> LinkPending then Some (pur_error ErrPurchaseLineStateConflict) else None)"

definition confirm_for_line :: "bool \<Rightarrow> int \<Rightarrow> revision \<Rightarrow> decision_metadata \<Rightarrow> supplier_product
    \<Rightarrow> go_error + mapping_transition \<times> supplier_product" where
  "confirm_for_line associated resourceID expected decision product =
     (case ConfirmMapping resourceID expected decision product of
        Inl e \<Rightarrow> Inl (if error_is e (Pur ErrInvalidMappingTransition) \<and> associated then pur_error ErrMappingTargetConflict else e)
      | Inr r \<Rightarrow> Inr r)"

definition associate_if ::
  "sql_faults \<Rightarrow> bool \<Rightarrow> int \<Rightarrow> int \<Rightarrow> ('x purchase_db_scheme, go_error, unit) action" where
  "associate_if F newly lineID productID =
     (if \<not> newly then ret ()
      else bnd (map_err (pur_write_error ''associate purchase line supplier product'')
          (stmt F ''associate purchase_lines'' 0 (associate_line lineID productID))) (\<lambda>rows.
        if rows \<noteq> 1 then fail (pur_error ErrPurchaseLineStateConflict) else ret ()))"

definition resolve_line_body ::
  "'d decimal_ops \<Rightarrow> sql_faults \<Rightarrow> int \<Rightarrow> resolve_command \<Rightarrow> ('x purchase_db_scheme, go_error, 'd resolve_result) action" where
  "resolve_line_body D F now command =
     bnd (map_err (found_or (pur_error ErrPurchaseLineNotFound) (pur_read_error ''lock purchase line''))
       (stmt F ''lockPurchaseLineForResolveSQL'' 0 (query_row (locked_line (rc_line command))))) (\<lambda>(row, supplierID).
     bnd (require (line_guard row command)) (\<lambda>_.
     bnd (resolveSupplierProductIdentity F now supplierID (ld_description row) (lr_product row) command) (\<lambda>(product, newly, created).
     bnd (require (pending_guard row product)) (\<lambda>_.
     bnd (lockResources F [rc_resource command]) (\<lambda>states.
     bnd (require (requireTargetActive states (rc_resource command))) (\<lambda>_.
     let expected = coalesce (rc_mapping_revision command) (sp_revision product) in
     bnd (lift (confirm_for_line newly (rc_resource command) expected (rc_decision command) product)) (\<lambda>(tr, product).
     bnd (persistMappingTransition F now product tr expected) (\<lambda>_.
     let product = product\<lparr>sp_resource_active := Some True\<rparr> in
     bnd (associate_if F newly (rc_line command) (sp_id product)) (\<lambda>_.
     bnd (map_err (pur_read_error ''read resolved purchase line'')
       (stmt F ''getPurchaseLineForResolveSQL'' 0 (line_by_id D (rc_line command)))) (\<lambda>line.
     if pl_product line \<noteq> Some (sp_id product)
     then fail (Wrapf ''%w: resolved line association'' [] [pur_error ErrPurchaseIntegrityConflict])
     else ret \<lparr>rres_line = line, rres_product = product, rres_disposition = commercialIdentityDisposition created tr\<rparr>))))))))))"

definition ResolvePurchaseLine ::
  "'d decimal_ops \<Rightarrow> sql_faults \<Rightarrow> bool \<Rightarrow> int \<Rightarrow> resolve_command \<Rightarrow> ('x purchase_db_scheme, go_error, 'd resolve_result) action" where
  "ResolvePurchaseLine D F applied now command = bnd (purchase_ready F) (\<lambda>_.
     transact F ''begin purchase line resolution'' mapCommitError applied undo (resolve_line_body D F now command))"

end
