(* ===== verification/PurchaseImport.thy ===== *)
theory PurchaseImport
  imports PurchaseLineStore
begin

text \<open>
  Purchases in the database (\<^verbatim>\<open>purchase.go\<close> and \<^verbatim>\<open>import.go\<close> of
  \<^verbatim>\<open>internal/modules/purchases/postgres\<close>): reading them, and the import of a draft as one transaction
  that is idempotent on the fiscal UUID.
\<close>

section \<open>Purchases\<close>

fun decode_rate :: "'d decimal_ops \<Rightarrow> gstring option \<Rightarrow> db_error + 'd option" where
  "decode_rate D None = Inr None"
| "decode_rate D (Some column) = bindr (decode D ''decode exchange rate: %w'' column) (\<lambda>rate. Inr (Some rate))"

definition scanPurchase :: "'d decimal_ops \<Rightarrow> purchase_row \<Rightarrow> db_error + 'd purchase" where
  "scanPurchase D row =
     bindr (decode D ''decode subtotal: %w'' (pd_subtotal row)) (\<lambda>subtotal.
     bindr (decode D ''decode discount: %w'' (pd_discount row)) (\<lambda>discount.
     bindr (decode D ''decode tax transferred: %w'' (pd_tax_transferred row)) (\<lambda>transferred.
     bindr (decode D ''decode tax withheld: %w'' (pd_tax_withheld row)) (\<lambda>withheld.
     bindr (decode D ''decode total: %w'' (pd_total row)) (\<lambda>total.
     bindr (decode_rate D (pd_exchange_rate row)) (\<lambda>rate.
     Inr \<lparr>pd_party = pd_party row, pd_uuid = pd_uuid row, pd_series = pd_series row, pd_folio = pd_folio row,
       pd_issued = pd_issued row, pd_currency = pd_currency row, pd_exchange_rate = rate, pd_subtotal = subtotal,
       pd_discount = discount, pd_tax_transferred = transferred, pd_tax_withheld = withheld, pd_total = total,
       pd_issuer_tax_id = pd_issuer_tax_id row, pd_issuer_name = pd_issuer_name row, pd_xml = pd_xml row,
       p_id = p_id row, p_imported = p_imported row, p_created = p_created row, p_updated = p_updated row\<rparr>))))))"

text \<open>A query for one purchase: no row, or the scan of the row.\<close>

definition purchase_where ::
  "'d decimal_ops \<Rightarrow> (purchase_row \<Rightarrow> bool) \<Rightarrow> ('x purchase_db_scheme, db_error, 'd purchase) action" where
  "purchase_where D P = (\<lambda>db. (case find P (map snd (pdb_purchases db)) of None \<Rightarrow> Inl NoRows | Some row \<Rightarrow> scanPurchase D row, db))"

definition purchase_not_found :: "int \<Rightarrow> go_error" where
  "purchase_not_found i = Wrapf ''%w: id %d'' [show_int i] [pur_error ErrPurchaseNotFound]"

definition normalizeUUID :: "gstring \<Rightarrow> gstring" where
  "normalizeUUID uuid = to_upper (trim_space uuid)"

definition GetPurchase :: "'d decimal_ops \<Rightarrow> sql_faults \<Rightarrow> int \<Rightarrow> ('x purchase_db_scheme, go_error, 'd purchase) action" where
  "GetPurchase D F i = bnd (purchase_ready F) (\<lambda>_.
     map_err (\<lambda>e. wrap_read ''get purchase'' (found_or (purchase_not_found i) db_error_value e))
       (stmt F ''getPurchaseSQL'' 0 (purchase_where D (\<lambda>p. p_id p = i))))"

definition GetPurchaseByUUID :: "'d decimal_ops \<Rightarrow> sql_faults \<Rightarrow> gstring \<Rightarrow> ('x purchase_db_scheme, go_error, 'd purchase) action" where
  "GetPurchaseByUUID D F uuid = bnd (purchase_ready F) (\<lambda>_.
     map_err (\<lambda>e. wrap_read ''get purchase by uuid'' (found_or (pur_error ErrPurchaseNotFound) db_error_value e))
       (stmt F ''getPurchaseByUUIDSQL'' 0 (purchase_where D (\<lambda>p. pd_uuid p = normalizeUUID uuid))))"

definition ListPurchasesBySupplier ::
  "'d decimal_ops \<Rightarrow> sql_faults \<Rightarrow> int \<Rightarrow> int \<Rightarrow> int \<Rightarrow> ('x purchase_db_scheme, go_error, 'd purchase list) action" where
  "ListPurchasesBySupplier D F supplierID lim off = bnd (purchase_ready F) (\<lambda>_.
     bnd (map_err (pur_read_error ''list purchases by supplier'') (stmt F ''listPurchasesBySupplierSQL'' 0 (asks (\<lambda>db.
       page (sql_limit lim) (sql_offset off) (sort_key (\<lambda>p. (- pd_issued p, - p_id p))
         (filter (\<lambda>p. pp_supplier (pd_party p) = supplierID) (map snd (pdb_purchases db)))))))) (\<lambda>rows.
     map_err (pur_read_error ''scan purchase'') (lift (mapr (scanPurchase D) rows))))"

section \<open>Insertion\<close>

definition purchase_violation :: "purchase_row \<Rightarrow> 'x purchase_db_scheme \<Rightarrow> db_error option" where
  "purchase_violation p db =
     (if map_of (sdb_suppliers db) (pp_supplier (pd_party p)) = None then Some (violates ''23503'' ''purchases_supplier_id_fkey'')
      else (case pp_branch (pd_party p) of None \<Rightarrow> None
        | Some b \<Rightarrow> if owns_branch (pp_supplier (pd_party p)) b db then None
            else Some (violates ''23503'' ''purchases_supplier_branch_fkey'')))"

text \<open>The values bound to the columns, and the row the server makes of them.\<close>

definition purchase_row_of :: "'d decimal_ops \<Rightarrow> int \<Rightarrow> int \<Rightarrow> ('d, 'y) purchase_document_scheme \<Rightarrow> purchase_row" where
  "purchase_row_of D now i d = \<lparr>pd_party = pd_party d, pd_uuid = pd_uuid d, pd_series = pd_series d, pd_folio = pd_folio d,
     pd_issued = pg_time (pd_issued d), pd_currency = pd_currency d,
     pd_exchange_rate = map_option (dec_string D) (pd_exchange_rate d), pd_subtotal = dec_string D (pd_subtotal d),
     pd_discount = dec_string D (pd_discount d), pd_tax_transferred = dec_string D (pd_tax_transferred d),
     pd_tax_withheld = dec_string D (pd_tax_withheld d), pd_total = dec_string D (pd_total d),
     pd_issuer_tax_id = pd_issuer_tax_id d, pd_issuer_name = pd_issuer_name d, pd_xml = pd_xml d,
     p_id = i, p_imported = now, p_created = now, p_updated = now\<rparr>"

definition insert_purchase ::
  "'d decimal_ops \<Rightarrow> int \<Rightarrow> 'd purchase_draft \<Rightarrow> ('x purchase_db_scheme, db_error, 'd purchase) action" where
  "insert_purchase D now draft = (\<lambda>db0.
     let i = pdb_purchase_seq db0 + 1; db = db0\<lparr>pdb_purchase_seq := i\<rparr>; row = purchase_row_of D now i draft in
     if btrim (pd_uuid draft) = [] then (Inl (violates ''23514'' ''purchases_cfdi_uuid_nonblank''), db)
     else if length (xd_hash (pd_xml draft)) \<noteq> 64 then (Inl (violates ''23514'' ''purchases_xml_hash_length''), db)
     else if \<exists>p\<in>set (map snd (pdb_purchases db)). pd_uuid p = pd_uuid draft then (Inl NoRows, db)
     else (case purchase_violation row db of Some e \<Rightarrow> (Inl e, db)
       | None \<Rightarrow> (scanPurchase D row, db\<lparr>pdb_purchases := gput i row (pdb_purchases db)\<rparr>)))"

text \<open>\<^verbatim>\<open>insertPurchase\<close>: \<open>None\<close> when the UUID is already registered.\<close>

definition insertPurchase ::
  "'d decimal_ops \<Rightarrow> sql_faults \<Rightarrow> int \<Rightarrow> 'd purchase_draft \<Rightarrow> ('x purchase_db_scheme, go_error, 'd purchase option) action" where
  "insertPurchase D F now draft = bnd (try_stmt (stmt F ''insertSQL'' 0 (insert_purchase D now draft))) (\<lambda>r. case r of
     Inr created \<Rightarrow> ret (Some created)
   | Inl NoRows \<Rightarrow> ret None
   | Inl (Broken f) \<Rightarrow> fail (pur_write_fault ''insert purchase'' f))"

definition line_row_of :: "'d decimal_ops \<Rightarrow> int \<Rightarrow> int \<Rightarrow> 'd line_draft \<Rightarrow> int option \<Rightarrow> line_row" where
  "line_row_of D i purchaseID d product = \<lparr>ld_number = ld_number d, ld_description = ld_description d, ld_sku = ld_sku d,
     ld_sat_code = ld_sat_code d, ld_quantity = dec_string D (ld_quantity d), ld_unit_code = ld_unit_code d,
     ld_unit = ld_unit d, ld_unit_price = dec_string D (ld_unit_price d), ld_amount = dec_string D (ld_amount d),
     ld_discount = dec_string D (ld_discount d), ld_tax_transferred = dec_string D (ld_tax_transferred d),
     ld_tax_withheld = dec_string D (ld_tax_withheld d), ld_tax_object = ld_tax_object d, lr_id = i,
     lr_purchase = purchaseID, lr_product = product, lr_override = LinkStatusNone, lr_revision = 0\<rparr>"

definition line_violation :: "line_row \<Rightarrow> 'x purchase_db_scheme \<Rightarrow> db_error option" where
  "line_violation row db =
     (if ld_number row \<le> 0 then Some (violates ''23514'' ''purchase_lines_line_number_check'')
      else if \<exists>l\<in>set (map snd (pdb_lines db)). lr_purchase l = lr_purchase row \<and> ld_number l = ld_number row
      then Some (violates ''23505'' ''purchase_lines_purchase_id_line_number_key'')
      else if map_of (pdb_purchases db) (lr_purchase row) = None then Some (violates ''23503'' ''purchase_lines_purchase_id_fkey'')
      else if (case lr_product row of Some p \<Rightarrow> map_of (pdb_products db) p = None | None \<Rightarrow> False)
      then Some (violates ''23503'' ''purchase_lines_supplier_product_id_fkey'')
      else None)"

definition insert_line ::
  "'d decimal_ops \<Rightarrow> int \<Rightarrow> 'd line_draft \<Rightarrow> int option \<Rightarrow> ('x purchase_db_scheme, db_error, 'd purchase_line) action" where
  "insert_line D purchaseID d product = (\<lambda>db0.
     let i = pdb_line_seq db0 + 1; db = db0\<lparr>pdb_line_seq := i\<rparr>; row = line_row_of D i purchaseID d product in
     case line_violation row db of Some e \<Rightarrow> (Inl e, db)
     | None \<Rightarrow> let db' = db\<lparr>pdb_lines := gput i row (pdb_lines db)\<rparr> in (scanPurchaseLine D db' row, db'))"

definition insertPurchaseLine ::
  "'d decimal_ops \<Rightarrow> sql_faults \<Rightarrow> nat \<Rightarrow> int \<Rightarrow> 'd line_draft \<Rightarrow> int option
     \<Rightarrow> ('x purchase_db_scheme, go_error, 'd purchase_line) action" where
  "insertPurchaseLine D F k purchaseID d product =
     map_err (pur_write_error ''insert purchase line'') (stmt F ''insertLineSQL'' k (insert_line D purchaseID d product))"

section \<open>Import\<close>

record 'd import_result =
  ir_purchase :: "'d purchase"
  ir_lines :: "'d purchase_line list"
  ir_existed :: bool

definition resolveDuplicateImport ::
  "'d decimal_ops \<Rightarrow> sql_faults \<Rightarrow> 'd purchase_draft \<Rightarrow> ('x purchase_db_scheme, go_error, 'd import_result) action" where
  "resolveDuplicateImport D F draft =
     bnd (map_err (pur_read_error ''load existing purchase'')
       (stmt F ''getPurchaseByUUIDSQL'' 0 (purchase_where D (\<lambda>p. pd_uuid p = pd_uuid draft)))) (\<lambda>existing.
     bnd (queryPurchaseLines D F (p_id existing)) (\<lambda>lines.
     if SameRelevantContent D existing draft \<and> SameLines D lines (pd_lines draft)
     then ret \<lparr>ir_purchase = existing, ir_lines = lines, ir_existed = True\<rparr>
     else fail (Wrapf ''import purchase %s: %w'' [pd_uuid draft] [pur_error ErrPurchaseConflict])))"

fun import_lines ::
  "'d decimal_ops \<Rightarrow> sql_faults \<Rightarrow> int \<Rightarrow> int \<Rightarrow> int \<Rightarrow> nat \<Rightarrow> 'd line_draft list
     \<Rightarrow> ('x purchase_db_scheme, go_error, 'd purchase_line list) action" where
  "import_lines D F now supplierID purchaseID k [] = ret []"
| "import_lines D F now supplierID purchaseID k (d # ds) =
     bnd (if HasSupplierIdentity d
          then bnd (upsertSupplierProduct F k now supplierID (ld_sku d) (ld_description d)) (\<lambda>p. ret (Some (sp_id p)))
          else ret None) (\<lambda>product.
     bnd (insertPurchaseLine D F k purchaseID d product) (\<lambda>line.
     bnd (import_lines D F now supplierID purchaseID (Suc k) ds) (\<lambda>lines. ret (line # lines))))"

text \<open>The two commits report their failure under different names; the transaction body says which.\<close>

definition import_body ::
  "'d decimal_ops \<Rightarrow> sql_faults \<Rightarrow> int \<Rightarrow> 'd purchase_draft \<Rightarrow> ('x purchase_db_scheme, go_error, 'd import_result) action" where
  "import_body D F now draft = bnd (insertPurchase D F now draft) (\<lambda>created. case created of
     None \<Rightarrow> resolveDuplicateImport D F draft
   | Some purchase \<Rightarrow>
       bnd (import_lines D F now (pp_supplier (pd_party draft)) (p_id purchase) 0 (pd_lines draft)) (\<lambda>lines.
       ret \<lparr>ir_purchase = purchase, ir_lines = lines, ir_existed = False\<rparr>))"

definition Import ::
  "'d decimal_ops \<Rightarrow> sql_faults \<Rightarrow> bool \<Rightarrow> int \<Rightarrow> 'd purchase_draft \<Rightarrow> ('x purchase_db_scheme, go_error, 'd import_result) action" where
  "Import D F applied now draft = bnd (purchase_ready F) (\<lambda>_ db.
     transact F ''begin import transaction''
       (wrap_read (case import_body D F now draft db of
           (Inr r, _) \<Rightarrow> if ir_existed r then ''commit import (duplicate)'' else ''commit import'' | _ \<Rightarrow> []))
       applied undo (import_body D F now draft) db)"

end
