(* ===== verification/PurchaseInvariant.thy ===== *)
theory PurchaseInvariant
  imports PurchaseImport PurchaseDomainTheorems SupplierTheorems
begin

text \<open>
  What the tables of the purchase module always satisfy: keys and references, and for every supplier
  product and every line the audit rows that lead from its initial value and revision 0 to the stored
  ones. Every successful transaction keeps it; a failed one leaves the tables as they were.
\<close>

section \<open>The invariant\<close>

definition mapping_links :: "mapping_audit_entry list \<Rightarrow> int \<Rightarrow> product_mapping audit_link list" where
  "mapping_links audit i = map (\<lambda>e. (ma_previous e, ma_previous_revision e, ma_new e, ma_new_revision e))
     (filter (\<lambda>e. ma_product e = i) audit)"

definition override_links :: "resolution_audit_entry list \<Rightarrow> int \<Rightarrow> gstring audit_link list" where
  "override_links audit i = map (\<lambda>e. (rx_previous e, rx_previous_revision e, rx_new e, rx_new_revision e))
     (filter (\<lambda>e. rx_line e = i) audit)"

definition known_resource :: "'x purchase_db_scheme \<Rightarrow> int \<Rightarrow> bool" where
  "known_resource db r \<longleftrightarrow> map_of (pdb_resources db) r \<noteq> None"

definition product_row ::
  "int \<Rightarrow> (int \<Rightarrow> bool) \<Rightarrow> (int \<Rightarrow> bool) \<Rightarrow> mapping_audit_entry list \<Rightarrow> int \<Rightarrow> supplier_product \<Rightarrow> bool" where
  "product_row seq suppliers resources audit i sp \<longleftrightarrow> sp_id sp = i \<and> 0 < i \<and> i \<le> seq \<and> suppliers (sp_supplier sp)
     \<and> btrim (sp_sku sp) \<noteq> [] \<and> mapping_wf (sp_mapping sp)
     \<and> (case pm_resource (sp_mapping sp) of None \<Rightarrow> True | Some r \<Rightarrow> resources r)
     \<and> audit_chain (NewUnresolvedSupplierProductMapping, 0) (mapping_links audit i) (sp_mapping sp, sp_revision sp)
     \<and> unat (sp_revision sp) = length (mapping_links audit i)"

definition unique_sku :: "(int, supplier_product) gmap \<Rightarrow> bool" where
  "unique_sku t \<longleftrightarrow> (\<forall>i j s s'. map_of t i = Some s \<longrightarrow> map_of t j = Some s' \<longrightarrow> sp_supplier s = sp_supplier s'
     \<longrightarrow> sp_sku s = sp_sku s' \<longrightarrow> i = j)"

definition products_ok :: "'x purchase_db_scheme \<Rightarrow> bool" where
  "products_ok db \<longleftrightarrow> 0 \<le> pdb_product_seq db
     \<and> table_ok (product_row (pdb_product_seq db) (known_supplier db) (known_resource db) (pdb_mapping_audit db)) (pdb_products db)
     \<and> unique_sku (pdb_products db)
     \<and> (\<forall>e\<in>set (pdb_mapping_audit db). map_of (pdb_products db) (ma_product e) \<noteq> None)"

definition purchase_row_ok :: "int \<Rightarrow> (int \<Rightarrow> bool) \<Rightarrow> int \<Rightarrow> purchase_row \<Rightarrow> bool" where
  "purchase_row_ok seq suppliers i p \<longleftrightarrow> p_id p = i \<and> 0 < i \<and> i \<le> seq \<and> suppliers (pp_supplier (pd_party p))"

definition unique_uuid :: "(int, purchase_row) gmap \<Rightarrow> bool" where
  "unique_uuid t \<longleftrightarrow> (\<forall>i j p p'. map_of t i = Some p \<longrightarrow> map_of t j = Some p' \<longrightarrow> pd_uuid p = pd_uuid p' \<longrightarrow> i = j)"

definition purchases_ok :: "'x purchase_db_scheme \<Rightarrow> bool" where
  "purchases_ok db \<longleftrightarrow> 0 \<le> pdb_purchase_seq db
     \<and> table_ok (purchase_row_ok (pdb_purchase_seq db) (known_supplier db)) (pdb_purchases db) \<and> unique_uuid (pdb_purchases db)"

definition supplier_of_purchase :: "'x purchase_db_scheme \<Rightarrow> int \<Rightarrow> int option" where
  "supplier_of_purchase db i = map_option (\<lambda>p. pp_supplier (pd_party p)) (map_of (pdb_purchases db) i)"

definition supplier_of_product :: "'x purchase_db_scheme \<Rightarrow> int \<Rightarrow> int option" where
  "supplier_of_product db i = map_option sp_supplier (map_of (pdb_products db) i)"

definition stored_line ::
  "int \<Rightarrow> (int \<Rightarrow> int option) \<Rightarrow> (int \<Rightarrow> int option) \<Rightarrow> resolution_audit_entry list \<Rightarrow> int \<Rightarrow> line_row \<Rightarrow> bool" where
  "stored_line seq purchases products audit i row \<longleftrightarrow> lr_id row = i \<and> 0 < i \<and> i \<le> seq
     \<and> purchases (lr_purchase row) \<noteq> None
     \<and> (case lr_product row of None \<Rightarrow> True | Some p \<Rightarrow> products p = purchases (lr_purchase row))
     \<and> ValidOverride (lr_override row)
     \<and> audit_chain (LinkStatusNone, 0) (override_links audit i) (lr_override row, lr_revision row)
     \<and> unat (lr_revision row) = length (override_links audit i)"

definition unique_number :: "(int, line_row) gmap \<Rightarrow> bool" where
  "unique_number t \<longleftrightarrow> (\<forall>i j l l'. map_of t i = Some l \<longrightarrow> map_of t j = Some l' \<longrightarrow> lr_purchase l = lr_purchase l'
     \<longrightarrow> ld_number l = ld_number l' \<longrightarrow> i = j)"

definition lines_ok :: "'x purchase_db_scheme \<Rightarrow> bool" where
  "lines_ok db \<longleftrightarrow> 0 \<le> pdb_line_seq db
     \<and> table_ok (stored_line (pdb_line_seq db) (supplier_of_purchase db) (supplier_of_product db) (pdb_line_audit db)) (pdb_lines db)
     \<and> unique_number (pdb_lines db)
     \<and> (\<forall>e\<in>set (pdb_line_audit db). map_of (pdb_lines db) (rx_line e) \<noteq> None)"

definition purchase_tables :: "'x purchase_db_scheme \<Rightarrow> bool" where
  "purchase_tables db \<longleftrightarrow> products_ok db \<and> purchases_ok db \<and> lines_ok db"

section \<open>Frames\<close>

text \<open>Each part of the invariant depends on some tables only, and on the others monotonically.\<close>

lemma table_ok_weaken:
  "table_ok row t \<Longrightarrow> (\<And>i r. map_of t i = Some r \<Longrightarrow> row i r \<Longrightarrow> row' i r) \<Longrightarrow> table_ok row' t"
  by (auto simp: table_ok_def)

lemma products_frame:
  assumes "products_ok db" "pdb_products db' = pdb_products db" "pdb_mapping_audit db' = pdb_mapping_audit db"
    "pdb_product_seq db \<le> pdb_product_seq db'" "\<And>s. known_supplier db s \<Longrightarrow> known_supplier db' s"
    "\<And>i sp r. map_of (pdb_products db) i = Some sp \<Longrightarrow> pm_resource (sp_mapping sp) = Some r \<Longrightarrow> known_resource db' r"
  shows "products_ok db'"
proof -
  have "table_ok (product_row (pdb_product_seq db') (known_supplier db') (known_resource db') (pdb_mapping_audit db)) (pdb_products db)"
    using assms(1) unfolding products_ok_def
    by (auto elim!: table_ok_weaken simp: product_row_def intro: assms(5,6) order_trans[OF _ assms(4)] split: option.splits)
  then show ?thesis using assms(1-4) by (simp add: products_ok_def)
qed

lemma purchases_frame:
  assumes "purchases_ok db" "pdb_purchases db' = pdb_purchases db" "pdb_purchase_seq db \<le> pdb_purchase_seq db'"
    "\<And>s. known_supplier db s \<Longrightarrow> known_supplier db' s"
  shows "purchases_ok db'"
proof -
  have "table_ok (purchase_row_ok (pdb_purchase_seq db') (known_supplier db')) (pdb_purchases db)"
    using assms(1) unfolding purchases_ok_def
    by (auto elim!: table_ok_weaken simp: purchase_row_ok_def intro: assms(4) order_trans[OF _ assms(3)])
  then show ?thesis using assms(1-3) by (simp add: purchases_ok_def)
qed

lemma lines_frame:
  assumes "lines_ok db" "pdb_lines db' = pdb_lines db" "pdb_line_audit db' = pdb_line_audit db"
    "pdb_line_seq db \<le> pdb_line_seq db'" "\<And>i s. supplier_of_purchase db i = Some s \<Longrightarrow> supplier_of_purchase db' i = Some s"
    "\<And>i s. supplier_of_product db i = Some s \<Longrightarrow> supplier_of_product db' i = Some s"
  shows "lines_ok db'"
proof -
  have "stored_line (pdb_line_seq db') (supplier_of_purchase db') (supplier_of_product db') (pdb_line_audit db) i row"
    if "stored_line (pdb_line_seq db) (supplier_of_purchase db) (supplier_of_product db) (pdb_line_audit db) i row" for i row
    using that assms(4-6) by (fastforce simp: stored_line_def split: option.splits)
  then have "table_ok (stored_line (pdb_line_seq db') (supplier_of_purchase db') (supplier_of_product db') (pdb_line_audit db)) (pdb_lines db)"
    using assms(1) by (auto simp: lines_ok_def elim: table_ok_mono)
  then show ?thesis using assms(1-4) by (simp add: lines_ok_def)
qed

section \<open>Storing rows\<close>

lemma mapping_links_snoc:
  "mapping_links (audit @ [e]) i = mapping_links audit i
     @ (if ma_product e = i then [(ma_previous e, ma_previous_revision e, ma_new e, ma_new_revision e)] else [])"
  by (simp add: mapping_links_def)

lemma override_links_snoc:
  "override_links (audit @ [e]) i = override_links audit i
     @ (if rx_line e = i then [(rx_previous e, rx_previous_revision e, rx_new e, rx_new_revision e)] else [])"
  by (simp add: override_links_def)

lemma no_links:
  "\<forall>e\<in>set audit. ma_product e \<noteq> i \<Longrightarrow> mapping_links audit i = []"
  "\<forall>e\<in>set audit'. rx_line e \<noteq> i \<Longrightarrow> override_links audit' i = []"
  by (auto simp: mapping_links_def override_links_def filter_empty_conv)

lemma unique_sku_put:
  assumes "unique_sku t" "\<And>j s'. map_of t j = Some s' \<Longrightarrow> j \<noteq> i \<Longrightarrow> sp_supplier s' = sp_supplier s \<Longrightarrow> sp_sku s' \<noteq> sp_sku s"
  shows "unique_sku (gput i s t)"
  using assms unfolding unique_sku_def map_of_gput fun_upd_apply by (metis option.sel)

lemma unique_number_put:
  assumes "unique_number t" "\<And>j s'. map_of t j = Some s' \<Longrightarrow> j \<noteq> i \<Longrightarrow> lr_purchase s' = lr_purchase s \<Longrightarrow> ld_number s' \<noteq> ld_number s"
  shows "unique_number (gput i s t)"
  using assms unfolding unique_number_def map_of_gput fun_upd_apply by (metis option.sel)

lemma unique_uuid_put:
  assumes "unique_uuid t" "\<And>j s'. map_of t j = Some s' \<Longrightarrow> j \<noteq> i \<Longrightarrow> pd_uuid s' \<noteq> pd_uuid s"
  shows "unique_uuid (gput i s t)"
  using assms unfolding unique_uuid_def map_of_gput fun_upd_apply by (metis option.sel)

lemma product_put:
  assumes ok: "products_ok db" and row: "product_row n (known_supplier db) (known_resource db) audit i sp"
    and n: "pdb_product_seq db \<le> n"
    and links: "\<And>j. j \<noteq> i \<Longrightarrow> mapping_links audit j = mapping_links (pdb_mapping_audit db) j"
    and sku: "\<And>j s'. map_of (pdb_products db) j = Some s' \<Longrightarrow> j \<noteq> i \<Longrightarrow> sp_supplier s' = sp_supplier sp \<Longrightarrow> sp_sku s' \<noteq> sp_sku sp"
    and refs: "\<And>e. e \<in> set audit \<Longrightarrow> ma_product e = i \<or> e \<in> set (pdb_mapping_audit db)"
  shows "products_ok (db\<lparr>pdb_product_seq := n, pdb_products := gput i sp (pdb_products db), pdb_mapping_audit := audit\<rparr>)"
proof -
  have k: "known_supplier (db\<lparr>pdb_product_seq := n, pdb_products := gput i sp (pdb_products db), pdb_mapping_audit := audit\<rparr>) = known_supplier db"
    "known_resource (db\<lparr>pdb_product_seq := n, pdb_products := gput i sp (pdb_products db), pdb_mapping_audit := audit\<rparr>) = known_resource db"
    by (simp_all add: known_supplier_def known_resource_def fun_eq_iff)
  have "product_row n (known_supplier db) (known_resource db) audit j r"
    if "map_of (gput i sp (pdb_products db)) j = Some r" for j r
  proof (cases "j = i")
    case True
    with that row show ?thesis by simp
  next
    case False
    with that ok have "product_row (pdb_product_seq db) (known_supplier db) (known_resource db) (pdb_mapping_audit db) j r"
      by (simp add: products_ok_def table_ok_def)
    with n links[OF False] show ?thesis unfolding product_row_def by (auto intro: order_trans[OF _ n])
  qed
  then have "table_ok (product_row n (known_supplier db) (known_resource db) audit) (gput i sp (pdb_products db))"
    using ok unfolding table_ok_def products_ok_def by simp
  moreover have "unique_sku (gput i sp (pdb_products db))"
    using ok sku by (intro unique_sku_put) (auto simp: products_ok_def)
  moreover have "map_of (gput i sp (pdb_products db)) (ma_product e) \<noteq> None" if "e \<in> set audit" for e
    using refs[OF that] ok by (auto simp: products_ok_def)
  ultimately show ?thesis using ok n by (auto simp: products_ok_def k)
qed

lemma line_put:
  assumes ok: "lines_ok db" and row: "stored_line n (supplier_of_purchase db) (supplier_of_product db) audit i l"
    and n: "pdb_line_seq db \<le> n"
    and links: "\<And>j. j \<noteq> i \<Longrightarrow> override_links audit j = override_links (pdb_line_audit db) j"
    and num: "\<And>j l'. map_of (pdb_lines db) j = Some l' \<Longrightarrow> j \<noteq> i \<Longrightarrow> lr_purchase l' = lr_purchase l \<Longrightarrow> ld_number l' \<noteq> ld_number l"
    and refs: "\<And>e. e \<in> set audit \<Longrightarrow> rx_line e = i \<or> e \<in> set (pdb_line_audit db)"
  shows "lines_ok (db\<lparr>pdb_line_seq := n, pdb_lines := gput i l (pdb_lines db), pdb_line_audit := audit\<rparr>)"
proof -
  have k: "supplier_of_purchase (db\<lparr>pdb_line_seq := n, pdb_lines := gput i l (pdb_lines db), pdb_line_audit := audit\<rparr>) = supplier_of_purchase db"
    "supplier_of_product (db\<lparr>pdb_line_seq := n, pdb_lines := gput i l (pdb_lines db), pdb_line_audit := audit\<rparr>) = supplier_of_product db"
    by (simp_all add: supplier_of_purchase_def supplier_of_product_def fun_eq_iff)
  have "stored_line n (supplier_of_purchase db) (supplier_of_product db) audit j r"
    if "map_of (gput i l (pdb_lines db)) j = Some r" for j r
  proof (cases "j = i")
    case True
    with that row show ?thesis by simp
  next
    case False
    with that ok have "stored_line (pdb_line_seq db) (supplier_of_purchase db) (supplier_of_product db) (pdb_line_audit db) j r"
      by (simp add: lines_ok_def table_ok_def)
    with n links[OF False] show ?thesis unfolding stored_line_def by (auto intro: order_trans[OF _ n])
  qed
  then have "table_ok (stored_line n (supplier_of_purchase db) (supplier_of_product db) audit) (gput i l (pdb_lines db))"
    using ok unfolding table_ok_def lines_ok_def by simp
  moreover have "unique_number (gput i l (pdb_lines db))"
    using ok num by (intro unique_number_put) (auto simp: lines_ok_def)
  moreover have "map_of (gput i l (pdb_lines db)) (rx_line e) \<noteq> None" if "e \<in> set audit" for e
    using refs[OF that] ok by (auto simp: lines_ok_def)
  ultimately show ?thesis using ok n by (auto simp: lines_ok_def k)
qed

definition purchase_inv :: "'x purchase_db_scheme \<Rightarrow> bool" where
  "purchase_inv db \<longleftrightarrow> supplier_master db \<and> purchase_tables db"

text \<open>The supplier part of the tables is untouched by the purchase module.\<close>

lemma supplier_master_same:
  assumes "sdb_suppliers db' = sdb_suppliers db" "sdb_branches db' = sdb_branches db" "sdb_contacts db' = sdb_contacts db"
    "sdb_supplier_seq db' = sdb_supplier_seq db" "sdb_branch_seq db' = sdb_branch_seq db" "sdb_contact_seq db' = sdb_contact_seq db"
  shows "supplier_master db' = supplier_master db"
proof -
  have "known_supplier db' = known_supplier db" by (rule ext) (simp add: known_supplier_def assms(1))
  then show ?thesis using assms by (simp add: supplier_master_def owns_branch_def)
qed

section \<open>Mapping transitions\<close>

lemma require_Inr: "require c s = (Inr x, t) \<longleftrightarrow> c = None \<and> t = s"
  by (auto simp: require_def split: option.splits)

lemma persist_mapping_Inr:
  assumes "persistMappingTransition F now product tr expected db = (Inr u, db')" "tr = \<lparr>mt_changed = True, mt_audit = Some e\<rparr>"
  obtains row where "map_of (pdb_products db) (sp_id product) = Some row" "sp_revision row = expected"
    "\<forall>r. pm_resource (sp_mapping product) = Some r \<longrightarrow> known_resource db r"
    "unat (ma_new_revision e) = unat (ma_previous_revision e) + 1"
    "db' = db\<lparr>pdb_products := gput (sp_id product) (row\<lparr>sp_mapping := sp_mapping product, sp_revision := sp_revision product,
        sp_updated := now\<rparr>) (pdb_products db),
      pdb_mapping_audit := pdb_mapping_audit db @ [e\<lparr>ma_decision := stored_decision (ma_decision e)\<rparr>]\<rparr>"
proof -
  from assms obtain n db1 where u: "update_mapping now product expected db = (Inr n, db1)" "n = 1"
      and a: "insert_mapping_audit e db1 = (Inr u, db')"
    by (auto simp: persistMappingTransition_def bnd_Inr stmt_Inr split: if_splits)
  from u obtain row where row: "map_of (pdb_products db) (sp_id product) = Some row" "sp_revision row = expected"
      "case pm_resource (sp_mapping product) of Some r \<Rightarrow> known_resource db r | None \<Rightarrow> True"
      "db1 = db\<lparr>pdb_products := gput (sp_id product) (row\<lparr>sp_mapping := sp_mapping product, sp_revision := sp_revision product,
        sp_updated := now\<rparr>) (pdb_products db)\<rparr>"
    by (auto simp: update_mapping_def known_resource_def split: option.splits if_splits)
  from a have "unat (ma_new_revision e) = unat (ma_previous_revision e) + 1"
      "db' = db1\<lparr>pdb_mapping_audit := pdb_mapping_audit db1 @ [e\<lparr>ma_decision := stored_decision (ma_decision e)\<rparr>]\<rparr>"
    by (auto simp: insert_mapping_audit_def audit_violation_def Let_def split: option.splits if_splits)
  with row show thesis by (intro that) auto
qed

lemma persist_mapping_inv:
  assumes inv: "purchase_inv db" and row: "map_of (pdb_products db) i = Some row"
    and run: "run_mapping c expected d (joined_product db row) = Inr (tr, p)"
    and same: "sp_id product = i" "sp_mapping product = sp_mapping p" "sp_revision product = sp_revision p"
    and persist: "persistMappingTransition F now product tr expected db = (Inr u, db')"
  shows "purchase_inv db' \<and> pdb_purchases db' = pdb_purchases db \<and> pdb_lines db' = pdb_lines db
    \<and> supplier_of_product db' = supplier_of_product db"
  using run
proof (cases rule: run_mapping_Inr)
  case 1
  then show ?thesis using persist inv by (simp add: persistMappingTransition_def no_transition_def)
next
  case (2 m)
  let ?e = "mapping_entry c d (joined_product db row) m"
  obtain row' where r: "map_of (pdb_products db) (sp_id product) = Some row'"
      and cas: "sp_revision row' = expected" and r': "\<forall>r. pm_resource (sp_mapping product) = Some r \<longrightarrow> known_resource db r"
      "unat (ma_new_revision ?e) = unat (ma_previous_revision ?e) + 1"
      "db' = db\<lparr>pdb_products := gput (sp_id product) (row'\<lparr>sp_mapping := sp_mapping product, sp_revision := sp_revision product,
        sp_updated := now\<rparr>) (pdb_products db),
      pdb_mapping_audit := pdb_mapping_audit db @ [?e\<lparr>ma_decision := stored_decision (ma_decision ?e)\<rparr>]\<rparr>"
    using persist 2(5) by (rule persist_mapping_Inr)
  have [simp]: "row' = row" using r row same(1) by simp
  have new: "sp_mapping product = m" "sp_revision product = sp_revision row + 1" using 2(6) same by (simp_all add: joined_product_def)
  have ok: "products_ok db" using inv by (simp add: purchase_inv_def purchase_tables_def)
  then have pr: "product_row (pdb_product_seq db) (known_supplier db) (known_resource db) (pdb_mapping_audit db) i row"
    using row by (simp add: products_ok_def table_ok_def)
  let ?audit = "pdb_mapping_audit db @ [?e\<lparr>ma_decision := stored_decision (ma_decision ?e)\<rparr>]"
  let ?row = "row\<lparr>sp_mapping := m, sp_revision := sp_revision row + 1, sp_updated := now\<rparr>"
  have e: "ma_product ?e = i" "ma_previous ?e = sp_mapping row" "ma_previous_revision ?e = sp_revision row"
      "ma_new ?e = m" "ma_new_revision ?e = sp_revision row + 1"
    using pr by (simp_all add: mapping_entry_def joined_product_def product_row_def)
  have links: "mapping_links ?audit i = mapping_links (pdb_mapping_audit db) i @ [(sp_mapping row, sp_revision row, m, sp_revision row + 1)]"
    by (simp add: mapping_links_snoc e)
  have rev: "unat (sp_revision row + 1) = unat (sp_revision row) + 1" using r'(2) by (simp add: e)
  have "m \<noteq> sp_mapping row" using 2(2) by (simp add: joined_product_def)
  then have "product_row (pdb_product_seq db) (known_supplier db) (known_resource db) ?audit i ?row"
    using pr r'(1) mapping_effect_wf[OF 2(1)] unfolding new
    by (auto simp: product_row_def links rev audit_chain_append split: option.split)
  then have "products_ok (db\<lparr>pdb_product_seq := pdb_product_seq db, pdb_products := gput i ?row (pdb_products db), pdb_mapping_audit := ?audit\<rparr>)"
  proof (rule product_put[OF ok])
    show "sp_sku s' \<noteq> sp_sku ?row"
      if "map_of (pdb_products db) j = Some s'" "j \<noteq> i" "sp_supplier s' = sp_supplier ?row" for j s'
      using ok row that by (auto simp: products_ok_def unique_sku_def)
  qed (auto simp: mapping_links_snoc e)
  then have "products_ok db'" by (simp add: r'(3) same(1) new)
  moreover have s: "supplier_of_product db' = supplier_of_product db"
    using row by (auto simp: r'(3) same(1) supplier_of_product_def fun_eq_iff)
  moreover have "lines_ok db'"
    by (rule lines_frame[of db]) (use inv s in \<open>simp_all add: r'(3) purchase_inv_def purchase_tables_def supplier_of_purchase_def\<close>)
  moreover have "purchases_ok db'"
    by (rule purchases_frame[of db]) (use inv in \<open>simp_all add: r'(3) purchase_inv_def purchase_tables_def known_supplier_def\<close>)
  moreover have "supplier_master db' = supplier_master db" by (rule supplier_master_same) (simp_all add: r'(3))
  ultimately show ?thesis using inv by (simp add: purchase_inv_def purchase_tables_def r'(3))
qed

definition mapping_of :: "'x purchase_db_scheme \<Rightarrow> int \<Rightarrow> product_mapping option" where
  "mapping_of db p = map_option sp_mapping (map_of (pdb_products db) p)"

section \<open>The mapping commands\<close>

definition is_active :: "'x purchase_db_scheme \<Rightarrow> int \<Rightarrow> bool" where
  "is_active db r \<longleftrightarrow> (case map_of (pdb_resources db) r of Some x \<Rightarrow> rr_active x | None \<Rightarrow> False)"

lemma lockResource_Inr:
  "lockResource F r db = (Inr (j, a), db') \<Longrightarrow> db' = db \<and> (\<exists>x. map_of (pdb_resources db) r = Some x \<and> rr_active x = a)"
  by (auto simp: lockResource_def stmt_Inr split: if_splits)

lemma lock_each_Inr:
  "lock_each F ids active db = (Inr active', db') \<Longrightarrow> (\<forall>r. map_of active r = Some True \<longrightarrow> is_active db r) \<Longrightarrow>
     db' = db \<and> (\<forall>r. map_of active' r = Some True \<longrightarrow> is_active db r)"
proof (induction ids arbitrary: active)
  case (Cons i ids)
  from Cons.prems(1) obtain j a db1 where l: "lockResource F i db = (Inr (j, a), db1)"
      "lock_each F ids (gput i a active) db1 = (Inr active', db')"
    by (auto simp: bnd_Inr)
  from lockResource_Inr[OF l(1)] have a: "db1 = db" "is_active db i = a" by (auto simp: is_active_def)
  have "\<forall>r. map_of (gput i a active) r = Some True \<longrightarrow> is_active db r" using Cons.prems(2) a(2) by simp
  with l(2) show ?case unfolding a(1) by (rule Cons.IH)
qed (simp add: ret_def)

lemma lockResources_Inr:
  assumes "lockResources F ids db = (Inr active, db')"
  shows "db' = db \<and> (\<forall>r. requireTargetActive active r = None \<longrightarrow> is_active db r)"
  using assms lock_each_Inr[of F "orderedResourceIDs ids" "[]" db active db']
  by (auto simp: lockResources_def requireTargetActive_def split: if_splits)

fun command_target :: "mapping_command \<Rightarrow> int option" where
  "command_target (Confirm r) = Some r"
| "command_target (Correct c r) = Some r"
| "command_target (ResolveConflict c r) = Some r"
| "command_target _ = None"

lemma refresh_activity_Inr:
  "refresh_activity F tr r p db = (Inr product, db') \<Longrightarrow>
     db' = db \<and> (\<exists>a. product = p\<lparr>sp_resource_active := a\<rparr>)"
  by (auto simp: refresh_activity_def readResourceActive_def bnd_Inr stmt_Inr split: if_splits)
    (metis supplier_product.surjective supplier_product.update_convs(7))

end
