(* ===== verification/PurchaseTransactions.thy ===== *)
theory PurchaseTransactions
  imports PurchaseInvariant
begin

text \<open>
  Every transaction of the purchase repository keeps the tables well formed: what each statement
  leaves behind, then the bodies of the transactions, then the commit or the rollback.
\<close>

section \<open>Rollback\<close>

definition seq_le :: "'x purchase_db_scheme \<Rightarrow> 'x purchase_db_scheme \<Rightarrow> bool" where
  "seq_le s t \<longleftrightarrow> pdb_product_seq s \<le> pdb_product_seq t \<and> pdb_purchase_seq s \<le> pdb_purchase_seq t
     \<and> pdb_line_seq s \<le> pdb_line_seq t"

lemma seq_le_refl [simp]: "seq_le s s"
  by (simp add: seq_le_def)

lemma seq_le_trans: "seq_le s t \<Longrightarrow> seq_le t u \<Longrightarrow> seq_le s u"
  by (auto simp: seq_le_def)

lemma undo_inv:
  assumes "purchase_inv s" "seq_le s t"
  shows "purchase_inv (undo s t)"
proof -
  have "products_ok (undo s t)"
  proof (rule products_frame[of s])
    show "known_resource (undo s t) r"
      if "map_of (pdb_products s) i = Some sp" "pm_resource (sp_mapping sp) = Some r" for i sp r
      using assms that by (auto simp: purchase_inv_def purchase_tables_def products_ok_def table_ok_def product_row_def undo_def
        known_resource_def split: option.splits)
  qed (use assms in \<open>simp_all add: purchase_inv_def purchase_tables_def undo_def seq_le_def known_supplier_def\<close>)
  moreover have "purchases_ok (undo s t)"
    by (rule purchases_frame[of s])
      (use assms in \<open>simp_all add: purchase_inv_def purchase_tables_def undo_def seq_le_def known_supplier_def\<close>)
  moreover have "lines_ok (undo s t)"
    by (rule lines_frame[of s]) (use assms in \<open>simp_all add: purchase_inv_def purchase_tables_def undo_def seq_le_def
      supplier_of_purchase_def supplier_of_product_def\<close>)
  moreover have "supplier_master (undo s t)"
    using assms(1) supplier_master_same[of "undo s t" s] by (simp add: purchase_inv_def undo_def)
  ultimately show ?thesis by (simp add: purchase_inv_def purchase_tables_def)
qed

lemma transact_keeps:
  assumes "purchase_inv s" "keeps seq_le body" "\<And>x t. body s = (Inr x, t) \<Longrightarrow> purchase_inv t"
  shows "purchase_inv (snd (transact F begins commits applied undo body s))"
proof -
  have "seq_le s (snd (body s))" using assms(2) by (simp add: keeps_def)
  then show ?thesis using assms(1,3) undo_inv[OF assms(1)]
    by (auto simp: transact_def split: option.splits prod.splits sum.splits)
qed

lemma ready_keeps:
  "purchase_inv s \<Longrightarrow> purchase_inv (snd (m s)) \<Longrightarrow> purchase_inv (snd (bnd (purchase_ready F) (\<lambda>_. m) s))"
  by (simp add: purchase_ready_def pool_ready_def split: option.split)

lemma transact_failed:
  "transact F begins commits applied undo body s = (Inl e, t) \<Longrightarrow>
     t = s \<or> (\<exists>u. t = undo s u) \<or> (applied \<and> (\<exists>f x. F ''commit'' 0 = Some f \<and> e = commits (fault_error f) \<and> body s = (Inr x, t)))"
  by (auto simp: transact_def split: option.splits prod.splits sum.splits if_splits)

section \<open>Sequences only advance\<close>

lemma keeps_seq_bnd [intro!]: "keeps seq_le m \<Longrightarrow> (\<And>x. keeps seq_le (f x)) \<Longrightarrow> keeps seq_le (bnd m f)"
  by (rule keeps_bnd) (rule seq_le_trans)

lemma keeps_seq_pure [intro, simp]:
  "keeps seq_le (ret x)" "keeps seq_le (fail e)" "keeps seq_le (lift r)" "keeps seq_le (require c)" "keeps seq_le (asks g)"
  by (rule keeps_pure, simp)+

lemma keeps_map_err [intro!]: "keeps R m \<Longrightarrow> keeps R (map_err f m)"
  by (simp add: keeps_def)

lemma keeps_try [intro!]: "keeps R m \<Longrightarrow> keeps R (try_stmt m)"
  by (simp add: keeps_def)

lemma keeps_stmt [intro!]: "keeps seq_le act \<Longrightarrow> keeps seq_le (stmt F name k act)"
  by (simp add: stmt_def split: option.split)

lemma keeps_query [intro, simp]: "keeps seq_le (query_row sel)"
  by (simp add: keeps_def)

lemma keeps_if [intro!]: "keeps R m \<Longrightarrow> keeps R m' \<Longrightarrow> keeps R (if c then m else m')"
  by simp

lemma row_statements_seq [intro]:
  "keeps seq_le (update_mapping now p expected)" "keeps seq_le (insert_mapping_audit e)"
  "keeps seq_le (update_override l expected)" "keeps seq_le (insert_line_audit a)"
  "keeps seq_le (reuse_product now s sku desc)" "keeps seq_le (associate_line i j)"
  "keeps seq_le (line_by_id D i)" "keeps seq_le (purchase_where D P)"
  by (auto simp: keeps_def update_mapping_def insert_mapping_audit_def update_override_def insert_line_audit_def
      reuse_product_def associate_line_def line_by_id_def purchase_where_def Let_def seq_le_def split: option.split)

lemma insert_product_seq [intro]: "keeps seq_le (insert_product now s sku desc)"
  by (auto simp: keeps_def insert_product_def Let_def seq_le_def split: option.split)

lemma upsert_product_seq [intro]: "keeps seq_le (upsert_product now s sku desc)"
  unfolding keeps_def
proof
  fix db :: "'x purchase_db_scheme"
  have "seq_le db (snd (insert_product now s sku desc db))" using insert_product_seq unfolding keeps_def by blast
  moreover have "seq_le t (snd (reuse_product now s sku desc t))" for t :: "'x purchase_db_scheme" using row_statements_seq(5) unfolding keeps_def by blast
  ultimately show "seq_le db (snd (upsert_product now s sku desc db))"
    by (auto simp: upsert_product_def split: prod.splits sum.splits db_error.splits) (metis seq_le_trans)
qed

lemma insert_rows_seq [intro]: "keeps seq_le (insert_purchase D now d)" "keeps seq_le (insert_line D p l i)"
  by (auto simp: keeps_def insert_purchase_def insert_line_def Let_def seq_le_def split: option.split)

section \<open>Bodies advance sequences only\<close>

lemma persist_seq [intro]: "keeps seq_le (persistMappingTransition F now p tr expected)"
  by (auto simp: persistMappingTransition_def split: option.split)

lemma lockResource_seq [intro]: "keeps seq_le (lockResource F i)"
  by (auto simp: lockResource_def)

lemma lock_each_seq [intro]: "keeps seq_le (lock_each F ids active)"
  by (induction ids arbitrary: active) auto

lemma lockResources_seq [intro]: "keeps seq_le (lockResources F ids)"
  by (auto simp: lockResources_def)

lemma refresh_seq [intro]: "keeps seq_le (refresh_activity F tr r p)"
  by (auto simp: refresh_activity_def readResourceActive_def)

lemma persist_override_seq [intro]: "keeps seq_le (persist_override D F l tr expected)"
  by (auto simp: persist_override_def split: option.split)

lemma resolve_product_seq [intro]: "keeps seq_le (resolveSupplierProduct F now s sku desc)"
  by (auto simp: resolveSupplierProduct_def split: sum.split db_error.split)

lemma identity_seq [intro]: "keeps seq_le (resolveSupplierProductIdentity F now s desc actual command)"
  by (auto simp: resolveSupplierProductIdentity_def split: option.split prod.split)

lemma associate_seq [intro]: "keeps seq_le (associate_if F newly l p)"
  by (auto simp: associate_if_def)

lemma resolve_body_seq [intro]: "keeps seq_le (resolve_line_body D F now command)"
  by (auto simp: resolve_line_body_def Let_def split: prod.split)

lemma query_lines_seq [intro]: "keeps seq_le (queryPurchaseLines D F i)"
  by (auto simp: queryPurchaseLines_def)

lemma import_lines_seq [intro]: "keeps seq_le (import_lines D F now s p k ds)"
  by (induction ds arbitrary: k) (auto simp: upsertSupplierProduct_def insertPurchaseLine_def)

lemma import_body_seq [intro]: "keeps seq_le (import_body D F now draft)"
  by (auto simp: import_body_def insertPurchase_def resolveDuplicateImport_def split: option.split sum.split db_error.split)

section \<open>Statements\<close>

lemma purchase_inv_parts:
  assumes "purchase_inv db"
  shows "products_ok db" "purchases_ok db" "lines_ok db" "supplier_master db"
  using assms by (simp_all add: purchase_inv_def purchase_tables_def)

lemma stored_product:
  assumes "purchase_inv db" "map_of (pdb_products db) i = Some row"
  shows "product_row (pdb_product_seq db) (known_supplier db) (known_resource db) (pdb_mapping_audit db) i row"
  using assms by (simp add: purchase_inv_def purchase_tables_def products_ok_def table_ok_def)

lemma stored_line_row:
  assumes "purchase_inv db" "map_of (pdb_lines db) i = Some row"
  shows "stored_line (pdb_line_seq db) (supplier_of_purchase db) (supplier_of_product db) (pdb_line_audit db) i row"
  using assms by (simp add: purchase_inv_def purchase_tables_def lines_ok_def table_ok_def)

lemma fresh_key:
  assumes "purchase_inv db"
  shows "map_of (pdb_products db) (pdb_product_seq db + 1) = None" "map_of (pdb_purchases db) (pdb_purchase_seq db + 1) = None"
    "map_of (pdb_lines db) (pdb_line_seq db + 1) = None"
  using assms unfolding purchase_inv_def purchase_tables_def products_ok_def purchases_ok_def lines_ok_def
  by (auto intro!: table_ok_fresh simp: product_row_def purchase_row_ok_def stored_line_def)

lemma products_changed:
  assumes inv: "purchase_inv db" and products: "products_ok (db\<lparr>pdb_product_seq := n, pdb_products := t\<rparr>)"
    and mono: "\<And>i s. supplier_of_product db i = Some s \<Longrightarrow> map_option sp_supplier (map_of t i) = Some s"
  shows "purchase_inv (db\<lparr>pdb_product_seq := n, pdb_products := t\<rparr>)"
proof -
  let ?db = "db\<lparr>pdb_product_seq := n, pdb_products := t\<rparr>"
  note parts = purchase_inv_parts[OF inv]
  have "purchases_ok ?db" by (rule purchases_frame[OF parts(2)]) (simp_all add: known_supplier_def)
  moreover have "lines_ok ?db"
    by (rule lines_frame[OF parts(3)]) (simp_all add: supplier_of_purchase_def, simp add: supplier_of_product_def[of ?db] mono)
  ultimately show ?thesis
    using products parts(4) supplier_master_same[of ?db db] by (simp add: purchase_inv_def purchase_tables_def)
qed

lemma sku_owner_Some: "sku_owner s sku db = Some (i, sp) \<Longrightarrow> (i, sp) \<in> set (pdb_products db) \<and> sp_supplier sp = s \<and> sp_sku sp = sku"
  by (auto simp: sku_owner_def find_Some_iff) (metis nth_mem)

lemma product_table: "purchase_inv db \<Longrightarrow> (i, sp) \<in> set (pdb_products db) \<longleftrightarrow> map_of (pdb_products db) i = Some sp"
  by (auto simp: purchase_inv_def purchase_tables_def products_ok_def table_ok_def gkeys_def intro: map_of_is_SomeI map_of_SomeD)

lemma sku_owner_None:
  "sku_owner s sku db = None \<Longrightarrow> map_of (pdb_products db) i = Some sp \<Longrightarrow> sp_supplier sp = s \<Longrightarrow> sp_sku sp \<noteq> sku"
  by (auto simp: sku_owner_def find_None_iff dest: map_of_SomeD)

lemma bump_product_seq: "purchase_inv db \<Longrightarrow> purchase_inv (db\<lparr>pdb_product_seq := pdb_product_seq db + 1\<rparr>)"
  using undo_inv[of db "db\<lparr>pdb_product_seq := pdb_product_seq db + 1\<rparr>"] by (simp add: undo_def seq_le_def)

lemma bump_purchase_seq: "purchase_inv db \<Longrightarrow> purchase_inv (db\<lparr>pdb_purchase_seq := pdb_purchase_seq db + 1\<rparr>)"
  using undo_inv[of db "db\<lparr>pdb_purchase_seq := pdb_purchase_seq db + 1\<rparr>"] by (simp add: undo_def seq_le_def)

lemma bump_line_seq: "purchase_inv db \<Longrightarrow> purchase_inv (db\<lparr>pdb_line_seq := pdb_line_seq db + 1\<rparr>)"
  using undo_inv[of db "db\<lparr>pdb_line_seq := pdb_line_seq db + 1\<rparr>"] by (simp add: undo_def seq_le_def)

text \<open>What a statement that names a supplier product leaves: well-formed tables, the same purchases
  and lines, and on success a row of the supplier whose columns are the ones returned.\<close>

lemma joined_columns [simp]:
  "sp_id (joined_product db sp) = sp_id sp" "sp_supplier (joined_product db sp) = sp_supplier sp"
  "sp_mapping (joined_product db sp) = sp_mapping sp" "sp_revision (joined_product db sp) = sp_revision sp"
  by (simp_all add: joined_product_def)

definition product_step :: "int \<Rightarrow> 'x purchase_db_scheme \<Rightarrow> ('e + supplier_product) \<times> 'x purchase_db_scheme \<Rightarrow> bool" where
  "product_step s db r \<longleftrightarrow> purchase_inv (snd r) \<and> pdb_purchases (snd r) = pdb_purchases db \<and> pdb_lines (snd r) = pdb_lines db
     \<and> (case fst r of Inl e \<Rightarrow> True | Inr p \<Rightarrow> (\<exists>row. map_of (pdb_products (snd r)) (sp_id p) = Some row
          \<and> p = joined_product (snd r) row \<and> sp_supplier row = s))"

lemma insert_product_step:
  assumes inv: "purchase_inv db"
  shows "product_step s db (insert_product now s sku desc db)"
proof -
  let ?i = "pdb_product_seq db + 1" and ?row = "new_product_row now (pdb_product_seq db + 1) s sku desc"
  let ?bump = "db\<lparr>pdb_product_seq := ?i\<rparr>"
  note bump = bump_product_seq[OF inv]
  have joined: "joined_product db' ?row = ?row" for db' :: "'a purchase_db_scheme"
    by (simp add: joined_product_def new_product_row_def resource_active_def NewUnresolvedSupplierProductMapping_def)
  show ?thesis
  proof (cases "btrim sku \<noteq> [] \<and> sku_owner s sku ?bump = None \<and> product_violation s sku ?bump = None")
    case True
    then have known: "known_supplier db s" by (auto simp: product_violation_def known_supplier_def split: if_splits)
    have owner: "sku_owner s sku db = None" using True by (simp add: sku_owner_def)
    have noref: "ma_product e \<noteq> ?i" if "e \<in> set (pdb_mapping_audit db)" for e
      using purchase_inv_parts(1)[OF inv] fresh_key(1)[OF inv] that by (auto simp: products_ok_def)
    have "product_row ?i (known_supplier db) (known_resource db) (pdb_mapping_audit db) ?i ?row"
      using inv True known noref by (simp add: product_row_def new_product_row_def mapping_wf_def no_links
          NewUnresolvedSupplierProductMapping_def purchase_inv_def purchase_tables_def products_ok_def)
    from product_put[OF purchase_inv_parts(1)[OF inv] this] sku_owner_None[OF owner]
    have "products_ok (db\<lparr>pdb_product_seq := ?i, pdb_products := gput ?i ?row (pdb_products db)\<rparr>)"
      by (force simp: new_product_row_def)
    then have "purchase_inv (db\<lparr>pdb_product_seq := ?i, pdb_products := gput ?i ?row (pdb_products db)\<rparr>)"
      by (rule products_changed[OF inv]) (use fresh_key(1)[OF inv] in \<open>auto simp: supplier_of_product_def\<close>)
    then show ?thesis
      using True by (simp add: insert_product_def Let_def product_step_def joined) (simp add: new_product_row_def)
  next
    case False
    then show ?thesis
      using bump by (auto simp: insert_product_def Let_def product_step_def split: option.split) (auto simp: product_violation_def)
  qed
qed

lemma reuse_product_step:
  assumes inv: "purchase_inv db"
  shows "product_step s db (reuse_product now s sku desc db)"
proof (cases "sku_owner s sku db")
  case None
  then show ?thesis using inv by (simp add: reuse_product_def product_step_def)
next
  case (Some r)
  obtain i old where r: "r = (i, old)" by (cases r)
  let ?row = "old\<lparr>sp_description := desc, sp_updated := now\<rparr>"
  let ?db = "db\<lparr>pdb_products := gput i ?row (pdb_products db)\<rparr>"
  have old: "map_of (pdb_products db) i = Some old" "sp_supplier old = s" "sp_sku old = sku"
    using sku_owner_Some Some product_table[OF inv] unfolding r by blast+
  have row: "product_row (pdb_product_seq db) (known_supplier db) (known_resource db) (pdb_mapping_audit db) i ?row"
    using stored_product[OF inv old(1)] by (simp add: product_row_def)
  have "products_ok (db\<lparr>pdb_product_seq := pdb_product_seq db, pdb_products := gput i ?row (pdb_products db),
      pdb_mapping_audit := pdb_mapping_audit db\<rparr>)"
  proof (rule product_put[OF purchase_inv_parts(1)[OF inv] row])
    show "sp_sku s' \<noteq> sp_sku ?row"
      if "map_of (pdb_products db) j = Some s'" "j \<noteq> i" "sp_supplier s' = sp_supplier ?row" for j s'
      using purchase_inv_parts(1)[OF inv] old that by (auto simp: products_ok_def unique_sku_def)
  qed simp_all
  then have "purchase_inv (db\<lparr>pdb_product_seq := pdb_product_seq db, pdb_products := gput i ?row (pdb_products db)\<rparr>)"
    by (intro products_changed[OF inv]) (use old in \<open>auto simp: supplier_of_product_def\<close>)
  then have inv': "purchase_inv ?db" by simp
  have "sp_id old = i" using row by (simp add: product_row_def)
  moreover have "joined_product db ?row = joined_product ?db ?row"
    by (simp add: joined_product_def resource_active_def split: option.split)
  ultimately show ?thesis
    using inv' Some r old by (simp add: reuse_product_def product_step_def Let_def)
qed

lemma upsert_product_step:
  assumes inv: "purchase_inv db"
  shows "product_step s db (upsert_product now s sku desc db)"
proof -
  note ins = insert_product_step[OF inv, of s now sku desc]
  have "product_step s db (reuse_product now s sku desc t)" if "insert_product now s sku desc db = (Inl NoRows, t)" for t
  proof -
    have "purchase_inv t" "pdb_purchases t = pdb_purchases db" "pdb_lines t = pdb_lines db"
      using ins that by (simp_all add: product_step_def)
    then show ?thesis using reuse_product_step[of t s now sku desc] by (simp add: product_step_def)
  qed
  then show ?thesis
    using ins unfolding upsert_product_def by (auto split: prod.splits sum.splits db_error.splits)
qed

text \<open>A purchase row and a line row.\<close>

lemma scan_purchase_id: "scanPurchase D row = Inr p \<Longrightarrow> p_id p = p_id row \<and> pd_party p = pd_party row"
  by (auto simp: scanPurchase_def bindr_Inr_iff)

lemma insert_purchase_inv:
  assumes inv: "purchase_inv db"
  shows "purchase_inv (snd (insert_purchase D now draft db))"
    "insert_purchase D now draft db = (Inr p, db') \<Longrightarrow> supplier_of_purchase db' (p_id p) = Some (pp_supplier (pd_party draft))"
proof -
  let ?i = "pdb_purchase_seq db + 1" and ?row = "purchase_row_of D now (pdb_purchase_seq db + 1) draft"
  let ?db = "db\<lparr>pdb_purchase_seq := ?i, pdb_purchases := gput ?i ?row (pdb_purchases db)\<rparr>"
  note parts = purchase_inv_parts[OF inv] and bump = bump_purchase_seq[OF inv]
  have inv': "purchase_inv ?db"
    if v: "purchase_violation ?row (db\<lparr>pdb_purchase_seq := ?i\<rparr>) = None" "\<forall>p\<in>set (map snd (pdb_purchases db)). pd_uuid p \<noteq> pd_uuid draft"
  proof -
    have "known_supplier db (pp_supplier (pd_party draft))"
      using v(1) by (auto simp: purchase_violation_def purchase_row_of_def known_supplier_def split: if_splits)
    then have "purchase_row_ok ?i (known_supplier db) ?i ?row"
      using parts(2) by (simp add: purchase_row_ok_def purchase_row_of_def purchases_ok_def)
    moreover have "table_ok (purchase_row_ok ?i (known_supplier db)) (pdb_purchases db)"
      using parts(2) unfolding purchases_ok_def by (auto elim!: table_ok_mono simp: purchase_row_ok_def)
    ultimately have "table_ok (purchase_row_ok ?i (known_supplier db)) (gput ?i ?row (pdb_purchases db))"
      by (rule table_ok_put[rotated])
    moreover have "unique_uuid (gput ?i ?row (pdb_purchases db))"
      using parts(2) v(2) by (intro unique_uuid_put) (auto simp: purchases_ok_def purchase_row_of_def dest!: map_of_SomeD)
    moreover have "known_supplier ?db = known_supplier db" by (rule ext) (simp add: known_supplier_def)
    ultimately have "purchases_ok ?db" using parts(2) by (simp add: purchases_ok_def)
    moreover have "products_ok ?db"
      by (rule products_frame[OF parts(1)])
        (use stored_product[OF inv] in \<open>force simp: known_supplier_def known_resource_def product_row_def\<close>)+
    moreover have "lines_ok ?db"
      by (rule lines_frame[OF parts(3)])
        (use fresh_key(2)[OF inv] in \<open>auto simp: supplier_of_purchase_def supplier_of_product_def\<close>)
    ultimately show ?thesis
      using parts(4) supplier_master_same[of ?db db] by (simp add: purchase_inv_def purchase_tables_def)
  qed
  show "purchase_inv (snd (insert_purchase D now draft db))"
    using bump inv' by (auto simp: insert_purchase_def Let_def split: option.split)
  show "supplier_of_purchase db' (p_id p) = Some (pp_supplier (pd_party draft))"
    if "insert_purchase D now draft db = (Inr p, db')"
    using that scan_purchase_id[of D ?row p]
    by (auto simp: insert_purchase_def Let_def supplier_of_purchase_def purchase_row_of_def split: if_splits option.splits)
qed

lemma lines_changed:
  assumes inv: "purchase_inv db" and lines: "lines_ok (db\<lparr>pdb_line_seq := n, pdb_lines := t, pdb_line_audit := audit\<rparr>)"
  shows "purchase_inv (db\<lparr>pdb_line_seq := n, pdb_lines := t, pdb_line_audit := audit\<rparr>)"
proof -
  let ?db = "db\<lparr>pdb_line_seq := n, pdb_lines := t, pdb_line_audit := audit\<rparr>"
  note parts = purchase_inv_parts[OF inv]
  have "products_ok ?db"
    by (rule products_frame[OF parts(1)])
      (use stored_product[OF inv] in \<open>force simp: known_supplier_def known_resource_def product_row_def\<close>)+
  moreover have "purchases_ok ?db" by (rule purchases_frame[OF parts(2)]) (simp_all add: known_supplier_def)
  ultimately show ?thesis
    using lines parts(4) supplier_master_same[of ?db db] by (simp add: purchase_inv_def purchase_tables_def)
qed

lemma same_numbers:
  assumes "purchase_inv db" "map_of (pdb_lines db) i = Some row" "lr_purchase row' = lr_purchase row" "ld_number row' = ld_number row"
    "map_of (pdb_lines db) j = Some l'" "j \<noteq> i" "lr_purchase l' = lr_purchase row'"
  shows "ld_number l' \<noteq> ld_number row'"
  using assms unfolding purchase_inv_def purchase_tables_def lines_ok_def unique_number_def by metis

lemma insert_line_inv:
  assumes inv: "purchase_inv db"
    and product: "\<And>p. product = Some p \<Longrightarrow> supplier_of_product db p = supplier_of_purchase db pid \<and> supplier_of_purchase db pid \<noteq> None"
  shows "purchase_inv (snd (insert_line D pid d product db))"
proof -
  let ?i = "pdb_line_seq db + 1" and ?row = "line_row_of D (pdb_line_seq db + 1) pid d product"
  show ?thesis
  proof (cases "line_violation ?row (db\<lparr>pdb_line_seq := ?i\<rparr>)")
    case (Some e)
    then show ?thesis using bump_line_seq[OF inv] by (simp add: insert_line_def Let_def)
  next
    case None
    note v = None[unfolded line_violation_def]
    have pid: "supplier_of_purchase db pid \<noteq> None"
      using v by (auto simp: line_row_of_def supplier_of_purchase_def split: if_splits)
    have noref: "rx_line e \<noteq> ?i" if "e \<in> set (pdb_line_audit db)" for e
      using purchase_inv_parts(3)[OF inv] fresh_key(3)[OF inv] that by (auto simp: lines_ok_def)
    have row: "stored_line ?i (supplier_of_purchase db) (supplier_of_product db) (pdb_line_audit db) ?i ?row"
      using purchase_inv_parts(3)[OF inv] pid product noref
      by (auto simp: stored_line_def line_row_of_def ValidOverride_def no_links lines_ok_def split: option.split)
    have "lines_ok (db\<lparr>pdb_line_seq := ?i, pdb_lines := gput ?i ?row (pdb_lines db), pdb_line_audit := pdb_line_audit db\<rparr>)"
      by (rule line_put[OF purchase_inv_parts(3)[OF inv] row])
        (use v in \<open>auto simp: line_row_of_def dest!: map_of_SomeD split: if_splits\<close>)
    then have "purchase_inv (db\<lparr>pdb_line_seq := ?i, pdb_lines := gput ?i ?row (pdb_lines db), pdb_line_audit := pdb_line_audit db\<rparr>)"
      by (rule lines_changed[OF inv])
    then show ?thesis using None by (simp add: insert_line_def Let_def)
  qed
qed

lemma insert_line_frame:
  "pdb_purchases (snd (insert_line D pid d product db)) = pdb_purchases db"
  by (simp add: insert_line_def Let_def split: option.split)

lemma associate_line_inv:
  assumes inv: "purchase_inv db" and row: "map_of (pdb_lines db) i = Some row"
    and p: "supplier_of_product db p = supplier_of_purchase db (lr_purchase row)"
  shows "purchase_inv (snd (associate_line i p db))"
proof -
  let ?row = "row\<lparr>lr_product := Some p\<rparr>"
  have "stored_line (pdb_line_seq db) (supplier_of_purchase db) (supplier_of_product db) (pdb_line_audit db) i ?row"
    using stored_line_row[OF inv row] p by (simp add: stored_line_def)
  then have "lines_ok (db\<lparr>pdb_line_seq := pdb_line_seq db, pdb_lines := gput i ?row (pdb_lines db), pdb_line_audit := pdb_line_audit db\<rparr>)"
    by (rule line_put[OF purchase_inv_parts(3)[OF inv]]) (use same_numbers[OF inv row] in auto)
  then have "purchase_inv (db\<lparr>pdb_line_seq := pdb_line_seq db, pdb_lines := gput i ?row (pdb_lines db), pdb_line_audit := pdb_line_audit db\<rparr>)"
    by (rule lines_changed[OF inv])
  then show ?thesis using inv row by (simp add: associate_line_def split: option.split)
qed

section \<open>The override transaction\<close>

lemma line_by_id_Inr:
  assumes "line_by_id D i db = (Inr line, db')"
  obtains row where "db' = db" "map_of (pdb_lines db) i = Some row" "pl_id line = lr_id row" "pl_override line = lr_override row"
    "pl_revision line = lr_revision row" "pl_product line = lr_product row" "scanPurchaseLine D db row = Inr line"
  using assms by (auto simp: line_by_id_def scanPurchaseLine_def Let_def bindr_Inr_iff split: option.splits)

lemma override_body_inv:
  assumes inv: "purchase_inv db" and line: "line_by_id D i db = (Inr line, db)"
    and change: "ChangeResolutionOverride override expected d line = Inr (tr, line')"
    and persist: "persist_override D F line' tr expected db = (Inr result, db')"
  shows "purchase_inv db'"
proof (cases "pl_override line = override")
  case True
  then show ?thesis using change persist inv by (auto simp: change_override_Inr persist_override_def)
next
  case False
  from line obtain row where row: "map_of (pdb_lines db) i = Some row" "pl_id line = lr_id row" "pl_override line = lr_override row"
      "pl_revision line = lr_revision row"
    by (rule line_by_id_Inr)
  have id: "lr_id row = i" using stored_line_row[OF inv row(1)] by (simp add: stored_line_def)
  let ?e = "\<lparr>rx_line = i, rx_previous = lr_override row, rx_new = override, rx_previous_revision = lr_revision row,
      rx_new_revision = lr_revision row + 1, rx_decision = d\<rparr>"
  let ?row = "row\<lparr>lr_override := override, lr_revision := lr_revision row + 1\<rparr>"
  let ?audit = "pdb_line_audit db @ [?e\<lparr>rx_decision := stored_decision d\<rparr>]"
  have tr: "tr = \<lparr>rt_changed = True, rt_audit = Some ?e\<rparr>" "pl_id line' = i" "pl_override line' = override"
      "pl_revision line' = lr_revision row + 1" "ValidOverride override"
    using change False row id by (auto simp: change_override_Inr override_accepted_def)
  have p: "unat (lr_revision row + 1) = unat (lr_revision row) + 1"
      "db' = db\<lparr>pdb_line_seq := pdb_line_seq db, pdb_lines := gput i ?row (pdb_lines db), pdb_line_audit := ?audit\<rparr>"
    using persist row(1) tr
    by (auto simp: persist_override_def bnd_Inr stmt_Inr update_override_def insert_line_audit_def audit_violation_def
        elim!: line_by_id_Inr split: option.splits if_splits)
  have "override \<noteq> lr_override row" using False row(3) by simp
  then have "stored_line (pdb_line_seq db) (supplier_of_purchase db) (supplier_of_product db) ?audit i ?row"
    using stored_line_row[OF inv row(1)] tr(5) p(1)
    by (auto simp: stored_line_def override_links_snoc audit_chain_append split: option.splits)
  then have "lines_ok (db\<lparr>pdb_line_seq := pdb_line_seq db, pdb_lines := gput i ?row (pdb_lines db), pdb_line_audit := ?audit\<rparr>)"
    by (rule line_put[OF purchase_inv_parts(3)[OF inv]]) (use same_numbers[OF inv row(1)] in \<open>auto simp: override_links_snoc\<close>)
  then show ?thesis unfolding p(2) by (rule lines_changed[OF inv])
qed

lemma override_keeps:
  assumes "purchase_inv db"
  shows "purchase_inv (snd (SetResolutionOverride D F applied i override expected d db))"
proof -
  have body: "purchase_inv t" if "bnd (map_err (found_or (pur_error ErrPurchaseLineNotFound) (pur_read_error ''lock purchase line override''))
          (stmt F ''getPurchaseLineForResolveSQL'' 0 (line_by_id D i))) (\<lambda>line.
        bnd (lift (ChangeResolutionOverride override expected d line)) (\<lambda>(tr, line). persist_override D F line tr expected)) db = (Inr x, t)" for x t
  proof -
    from that obtain line s' tr line' where b: "line_by_id D i db = (Inr line, s')"
        "ChangeResolutionOverride override expected d line = Inr (tr, line')"
        "persist_override D F line' tr expected s' = (Inr x, t)"
      by (auto simp: bnd_Inr stmt_Inr)
    have "s' = db" using b(1) by (rule line_by_id_Inr)
    then show ?thesis using override_body_inv[OF assms _ b(2)] b by blast
  qed
  show ?thesis unfolding SetResolutionOverride_def
    by (rule ready_keeps[OF assms], rule transact_keeps[OF assms]) (auto dest: body split: prod.split)
qed

section \<open>The mapping transactions\<close>

lemma transition_keeps:
  assumes inv: "purchase_inv db"
    and body: "\<And>product tr r p t. body product db = (Inr (tr, r, p), t) \<Longrightarrow>
      t = db \<and> (\<exists>c d. run_mapping c expected d product = Inr (tr, p))" "\<And>product. keeps seq_le (body product)"
  shows "purchase_inv (snd (runMappingTransition F applied now i expected body db))"
  unfolding runMappingTransition_def
proof (rule ready_keeps[OF inv], rule transact_keeps[OF inv])
  fix x t
  assume "bnd (map_err (\<lambda>e. case e of
             NoRows \<Rightarrow> Wrapf ''%s: %w'' [''lock supplier product''] [product_not_found i]
           | Broken f \<Rightarrow> pur_write_fault ''lock supplier product'' f)
          (stmt F ''lockSupplierProductSQL'' 0 (query_row (product_by_id i)))) (\<lambda>product.
        bnd (body product) (\<lambda>(tr, resourceID, product).
        bnd (refresh_activity F tr resourceID product) (\<lambda>product.
        bnd (persistMappingTransition F now product tr expected) (\<lambda>_. ret product)))) db = (Inr x, t)"
  then obtain p0 tr r p db1 product db2 where b: "product_by_id i db = Some p0" "body p0 db = (Inr (tr, r, p), db1)"
      "refresh_activity F tr r p db1 = (Inr product, db2)" "persistMappingTransition F now product tr expected db2 = (Inr (), t)"
    by (auto simp: bnd_Inr stmt_Inr)
  have "db1 = db" "db2 = db" using body(1)[OF b(2)] refresh_activity_Inr[OF b(3)] by simp_all
  note b = b[unfolded this]
  obtain row where row: "map_of (pdb_products db) i = Some row" "p0 = joined_product db row"
    using b(1) by (auto simp: product_by_id_def)
  obtain c d where run: "run_mapping c expected d (joined_product db row) = Inr (tr, p)" using body(1)[OF b(2)] row(2) by blast
  obtain a where "product = p\<lparr>sp_resource_active := a\<rparr>" using refresh_activity_Inr[OF b(3)] by blast
  then have same: "sp_id product = sp_id p" "sp_mapping product = sp_mapping p" "sp_revision product = sp_revision p" by simp_all
  have "sp_id p = sp_id (joined_product db row)" using run by (rule run_mapping_Inr) auto
  then have "sp_id product = i" using same(1) stored_product[OF inv row(1)] by (simp add: product_row_def)
  then show "purchase_inv t" using persist_mapping_inv[OF inv row(1) run _ same(2,3) b(4)] by blast
qed (auto simp: body(2) split: prod.split)

lemma mapping_keeps:
  assumes inv: "purchase_inv db"
  shows "purchase_inv (snd (store_mapping F applied now i c expected d db))"
proof (cases c)
  case (Confirm r)
  show ?thesis unfolding Confirm store_mapping.simps store_confirm_def
    by (rule transition_keeps[OF inv])
      (auto simp: bnd_Inr require_Inr dest!: lockResources_Inr split: if_splits prod.split intro!: exI[of _ "Confirm r"] exI[of _ d])
next
  case (Correct k r)
  show ?thesis unfolding Correct store_mapping.simps store_correct_def
    by (rule ready_keeps[OF inv], rule transition_keeps[OF inv])
      (auto simp: bnd_Inr require_Inr dest!: lockResources_Inr split: prod.split intro!: exI[of _ "Correct k r"] exI[of _ d])
next
  case (Unlink k)
  show ?thesis unfolding Unlink store_mapping.simps store_unlink_def
    by (rule transition_keeps[OF inv])
      (auto simp: bnd_Inr require_Inr dest!: lockResources_Inr split: prod.split intro!: exI[of _ "Unlink k"] exI[of _ d])
next
  case (ReportConflict k)
  show ?thesis unfolding ReportConflict store_mapping.simps store_report_def
    by (rule transition_keeps[OF inv])
      (auto simp: bnd_Inr require_Inr dest!: lockResources_Inr split: prod.split intro!: exI[of _ "ReportConflict k"] exI[of _ d])
next
  case (ResolveConflict k r)
  show ?thesis unfolding ResolveConflict store_mapping.simps store_resolve_def
    by (rule transition_keeps[OF inv])
      (auto simp: bnd_Inr require_Inr dest!: lockResources_Inr split: prod.split intro!: exI[of _ "ResolveConflict k r"] exI[of _ d])
qed

section \<open>The import transaction\<close>

lemma upsert_Inr:
  assumes "purchase_inv db" "upsertSupplierProduct F k now s sku desc db = (Inr p, db')"
  shows "purchase_inv db' \<and> pdb_purchases db' = pdb_purchases db \<and> pdb_lines db' = pdb_lines db \<and> supplier_of_product db' (sp_id p) = Some s"
  using upsert_product_step[OF assms(1), of s now sku desc] assms(2)
  by (auto simp: upsertSupplierProduct_def stmt_Inr product_step_def supplier_of_product_def)

lemma import_lines_inv:
  "purchase_inv db \<Longrightarrow> supplier_of_purchase db pid = Some s \<Longrightarrow> import_lines D F now s pid k ds db = (Inr ls, db') \<Longrightarrow> purchase_inv db'"
proof (induction ds arbitrary: k db ls)
  case (Cons d ds)
  from Cons.prems(3) obtain product db1 line db2 ls' where
      p: "(if HasSupplierIdentity d then bnd (upsertSupplierProduct F k now s (ld_sku d) (ld_description d)) (\<lambda>p. ret (Some (sp_id p)))
          else ret None) db = (Inr product, db1)"
      and l: "insert_line D pid d product db1 = (Inr line, db2)"
      and rest: "import_lines D F now s pid (Suc k) ds db2 = (Inr ls', db')"
    by (auto simp: bnd_Inr insertPurchaseLine_def stmt_Inr)
  have inv1: "purchase_inv db1 \<and> pdb_purchases db1 = pdb_purchases db \<and> (\<forall>q. product = Some q \<longrightarrow> supplier_of_product db1 q = Some s)"
    using p upsert_Inr[OF Cons.prems(1)] Cons.prems(1) by (auto simp: bnd_Inr split: if_splits)
  have "supplier_of_purchase db1 pid = Some s" using inv1 Cons.prems(2) by (simp add: supplier_of_purchase_def)
  with inv1 have "purchase_inv (snd (insert_line D pid d product db1))" by (intro insert_line_inv) auto
  moreover have "pdb_purchases db2 = pdb_purchases db1" using insert_line_frame[of D pid d product db1] l by simp
  ultimately show ?case
    using Cons.IH[OF _ _ rest] l inv1 Cons.prems(2) by (simp add: supplier_of_purchase_def)
qed simp

lemma duplicate_Inr: "resolveDuplicateImport D F draft db = (Inr r, db') \<Longrightarrow> db' = db"
  by (auto simp: resolveDuplicateImport_def bnd_Inr stmt_Inr queryPurchaseLines_def purchase_where_def lift_def
      split: if_splits option.splits)

lemma insertPurchase_Inr:
  assumes "insertPurchase D F now draft db = (Inr created, db1)"
  shows "db1 = snd (insert_purchase D now draft db) \<and> (\<forall>p. created = Some p \<longrightarrow> insert_purchase D now draft db = (Inr p, db1))"
proof (cases "F ''insertSQL'' 0")
  case (Some f)
  then show ?thesis using assms by (simp add: insertPurchase_def stmt_def bnd_Inr fail_def try_stmt_def)
next
  case None
  obtain r t where r: "insert_purchase D now draft db = (r, t)" by (cases "insert_purchase D now draft db")
  have "(case r of Inr created \<Rightarrow> ret (Some created) | Inl NoRows \<Rightarrow> ret None
      | Inl (Broken f) \<Rightarrow> fail (pur_write_fault ''insert purchase'' f)) t = (Inr created, db1)"
    using assms None by (simp add: insertPurchase_def stmt_def bnd_run r)
  then show ?thesis unfolding r by (cases r; cases "projl r") (auto split: db_error.splits sum.splits)
qed

lemma import_body_inv:
  assumes "purchase_inv db" "import_body D F now draft db = (Inr r, db')"
  shows "purchase_inv db'"
proof -
  from assms(2) obtain created db1 where c: "insertPurchase D F now draft db = (Inr created, db1)"
      and rest: "(case created of None \<Rightarrow> resolveDuplicateImport D F draft
        | Some purchase \<Rightarrow> bnd (import_lines D F now (pp_supplier (pd_party draft)) (p_id purchase) 0 (pd_lines draft)) (\<lambda>lines.
            ret \<lparr>ir_purchase = purchase, ir_lines = lines, ir_existed = False\<rparr>)) db1 = (Inr r, db')"
    unfolding import_body_def bnd_Inr by blast
  note i = insertPurchase_Inr[OF c]
  have inv1: "purchase_inv db1" unfolding conjunct1[OF i] by (rule insert_purchase_inv(1)[OF assms(1)])
  show ?thesis
  proof (cases created)
    case None
    have "resolveDuplicateImport D F draft db1 = (Inr r, db')" using rest unfolding None by (simp only: option.case)
    then show ?thesis using inv1 duplicate_Inr by metis
  next
    case (Some p)
    have "supplier_of_purchase db1 (p_id p) = Some (pp_supplier (pd_party draft))"
      by (rule insert_purchase_inv(2)[OF assms(1)]) (rule mp[OF spec[OF conjunct2[OF i]] Some])
    moreover obtain lines where "import_lines D F now (pp_supplier (pd_party draft)) (p_id p) 0 (pd_lines draft) db1 = (Inr lines, db')"
      using rest unfolding Some by (auto simp: bnd_Inr)
    ultimately show ?thesis by (rule import_lines_inv[OF inv1])
  qed
qed

lemma import_keeps: "purchase_inv db \<Longrightarrow> purchase_inv (snd (Import D F applied now draft db))"
  unfolding Import_def purchase_ready_def bnd_run pool_ready_def
  using transact_keeps[OF _ import_body_seq import_body_inv] by (cases "F ''pool'' 0") simp_all

section \<open>The resolution transaction\<close>

lemma resolve_product_Inr:
  assumes inv: "purchase_inv db" and run: "resolveSupplierProduct F now s sku desc db = (Inr (p, created), db')"
  shows "product_step s db (Inr p :: go_error + supplier_product, db')"
proof -
  obtain r t where r: "stmt F ''insertSQL'' 0 (insert_product now s sku desc) db = (r, t)"
    by (cases "stmt F ''insertSQL'' 0 (insert_product now s sku desc) db")
  have t: "product_step s db (r, t)"
  proof (cases "F ''insertSQL'' 0")
    case None
    then have "insert_product now s sku desc db = (r, t)" using r by (simp add: stmt_def)
    then show ?thesis using insert_product_step[OF inv, of s now sku desc] by metis
  next
    case (Some f)
    then show ?thesis using r inv by (auto simp: stmt_def product_step_def)
  qed
  from run r have k: "(case r of Inr product \<Rightarrow> ret (product, True)
     | Inl (Broken f) \<Rightarrow> fail (pur_write_fault ''insert resolved supplier product'' f)
     | Inl NoRows \<Rightarrow> bnd (map_err (found_or (pur_error ErrPurchaseIntegrityConflict) (pur_write_error ''reuse resolved supplier product''))
           (stmt F ''reuseSQL'' 0 (reuse_product now s sku desc))) (\<lambda>product. ret (product, False))) t = (Inr (p, created), db')"
    by (simp add: resolveSupplierProduct_def bnd_run)
  show ?thesis
  proof (cases r)
    case (Inr q)
    with k t show ?thesis by (simp add: product_step_def)
  next
    case (Inl e)
    with k have "e = NoRows" by (cases e) simp_all
    with k Inl have "reuse_product now s sku desc t = (Inr p, db')" by (auto simp: bnd_Inr stmt_Inr)
    moreover have "purchase_inv t" "pdb_purchases t = pdb_purchases db" "pdb_lines t = pdb_lines db"
      using t by (simp_all add: product_step_def)
    ultimately show ?thesis using reuse_product_step[of t s now sku desc] by (simp add: product_step_def)
  qed
qed

lemma identity_Inr:
  assumes inv: "purchase_inv db" and run: "resolveSupplierProductIdentity F now s desc actual command db = (Inr (p, newly, created), db')"
  shows "product_step s db (Inr p :: go_error + supplier_product, db')"
proof (cases actual)
  case None
  then obtain c where "resolveSupplierProduct F now s (rc_sku command) desc db = (Inr (p, c), db')"
    using run by (auto simp: resolveSupplierProductIdentity_def bnd_Inr split: if_splits)
  then show ?thesis by (rule resolve_product_Inr[OF inv])
next
  case (Some i)
  then have "product_by_id i db = Some p" "sp_supplier p = s" "db' = db"
    using run by (auto simp: resolveSupplierProductIdentity_def bnd_Inr stmt_Inr split: if_splits)
  then show ?thesis
    using inv stored_product[OF inv] by (auto simp: product_by_id_def product_step_def product_row_def)
qed

lemma resolve_body_Inr:
  assumes run: "resolve_line_body D F now command db = (Inr r, db')"
  obtains row s p newly created db1 tr p' db2 l where
    "locked_line (rc_line command) db = Some (row, s)" "line_guard row command = None"
    "resolveSupplierProductIdentity F now s (ld_description row) (lr_product row) command db = (Inr (p, newly, created), db1)"
    "is_active db1 (rc_resource command)"
    "run_mapping (Confirm (rc_resource command)) (coalesce (rc_mapping_revision command) (sp_revision p)) (rc_decision command) p = Inr (tr, p')"
    "persistMappingTransition F now p' tr (coalesce (rc_mapping_revision command) (sp_revision p)) db1 = (Inr (), db2)"
    "associate_if F newly (rc_line command) (sp_id p') db2 = (Inr (), db')" "line_by_id D (rc_line command) db' = (Inr l, db')"
    "r = \<lparr>rres_line = l, rres_product = p'\<lparr>sp_resource_active := Some True\<rparr>,
       rres_disposition = commercialIdentityDisposition created tr\<rparr>" "pl_product l = Some (sp_id p')"
proof -
  let ?i = "rc_line command"
  from run obtain row s p newly created db1 active db2 tr p' db3 db4 l where
      1: "locked_line ?i db = Some (row, s)" "line_guard row command = None"
      "resolveSupplierProductIdentity F now s (ld_description row) (lr_product row) command db = (Inr (p, newly, created), db1)"
      and lock: "lockResources F [rc_resource command] db1 = (Inr active, db2)" "requireTargetActive active (rc_resource command) = None"
      and confirm: "confirm_for_line newly (rc_resource command) (coalesce (rc_mapping_revision command) (sp_revision p)) (rc_decision command) p = Inr (tr, p')"
      and 2: "persistMappingTransition F now p' tr (coalesce (rc_mapping_revision command) (sp_revision p)) db2 = (Inr (), db3)"
      "associate_if F newly ?i (sp_id p') db3 = (Inr (), db4)" "line_by_id D ?i db4 = (Inr l, db')"
      and 3: "r = \<lparr>rres_line = l, rres_product = p'\<lparr>sp_resource_active := Some True\<rparr>,
         rres_disposition = commercialIdentityDisposition created tr\<rparr>" "pl_product l = Some (sp_id p')"
    unfolding resolve_line_body_def Let_def
    by (auto simp: bnd_Inr stmt_Inr require_Inr split: if_splits)
  have db2: "db2 = db1" "is_active db1 (rc_resource command)" using lockResources_Inr[OF lock(1)] lock(2) by blast+
  have db4: "db4 = db'" using 2(3) by (rule line_by_id_Inr) simp
  have "run_mapping (Confirm (rc_resource command)) (coalesce (rc_mapping_revision command) (sp_revision p)) (rc_decision command) p = Inr (tr, p')"
    using confirm by (simp add: confirm_for_line_def split: sum.splits)
  from that[OF 1 db2(2) this 2(1)[unfolded db2(1)] 2(2,3)[unfolded db4] 3] show thesis .
qed

lemma resolve_body_inv:
  assumes inv: "purchase_inv db" and body: "resolve_line_body D F now command db = (Inr r, db')"
  shows "purchase_inv db'"
proof -
  let ?i = "rc_line command"
  obtain row s p newly created db1 tr p' db2 where
      lock: "locked_line ?i db = Some (row, s)"
      and ident: "resolveSupplierProductIdentity F now s (ld_description row) (lr_product row) command db = (Inr (p, newly, created), db1)"
      and run: "run_mapping (Confirm (rc_resource command)) (coalesce (rc_mapping_revision command) (sp_revision p)) (rc_decision command) p = Inr (tr, p')"
      and persist: "persistMappingTransition F now p' tr (coalesce (rc_mapping_revision command) (sp_revision p)) db1 = (Inr (), db2)"
      and assoc: "associate_if F newly ?i (sp_id p') db2 = (Inr (), db')"
    using resolve_body_Inr[OF body] by metis
  let ?expected = "coalesce (rc_mapping_revision command) (sp_revision p)"
  have step: "product_step s db (Inr p :: go_error + supplier_product, db1)" by (rule identity_Inr[OF inv ident])
  then obtain prow where p: "purchase_inv db1" "pdb_purchases db1 = pdb_purchases db" "pdb_lines db1 = pdb_lines db"
      "map_of (pdb_products db1) (sp_id p) = Some prow" "p = joined_product db1 prow" "sp_supplier prow = s"
    by (auto simp: product_step_def)
  have run': "run_mapping (Confirm (rc_resource command)) ?expected (rc_decision command) (joined_product db1 prow) = Inr (tr, p')"
    using run unfolding p(5)[symmetric] .
  have id: "sp_id p' = sp_id p" using run' by (rule run_mapping_Inr) (use p(5) in auto)
  have m: "purchase_inv db2" "pdb_purchases db2 = pdb_purchases db1" "pdb_lines db2 = pdb_lines db1"
      "supplier_of_product db2 = supplier_of_product db1"
    using persist_mapping_inv[OF p(1,4) run' id refl refl persist] by blast+
  have row: "map_of (pdb_lines db2) ?i = Some row" "supplier_of_purchase db2 (lr_purchase row) = Some s"
    using lock p(2,3) m(2,3) by (auto simp: locked_line_def supplier_of_purchase_def split: option.splits)
  have "supplier_of_product db2 (sp_id p') = Some s" using p(4,6) m(4) id by (simp add: supplier_of_product_def)
  then have "purchase_inv (snd (associate_line ?i (sp_id p') db2))" by (intro associate_line_inv[OF m(1) row(1)]) (simp add: row(2))
  then show ?thesis using assoc m(1)
    by (auto simp: associate_if_def bnd_Inr stmt_Inr split: if_splits)
qed

lemma resolve_keeps: "purchase_inv db \<Longrightarrow> purchase_inv (snd (ResolvePurchaseLine D F applied now command db))"
  unfolding ResolvePurchaseLine_def
  by (rule ready_keeps, assumption, rule transact_keeps, assumption, rule resolve_body_seq, rule resolve_body_inv)

section \<open>The supplier use cases beside the purchase tables\<close>

text \<open>A supplier call leaves the purchase tables alone and never removes a supplier.\<close>

definition beside :: "'x \<Rightarrow> (int \<Rightarrow> bool) \<Rightarrow> 'x supplier_db_scheme \<Rightarrow> bool" where
  "beside m known db \<longleftrightarrow> supplier_db.more db = m \<and> (\<forall>s. known s \<longrightarrow> known_supplier db s)"

lemma beside_rows [intro]:
  "steps_in (beside m known) (insert_supplier now v)" "steps_in (beside m known) (insert_branch now b)"
  "steps_in (beside m known) (insert_contact now c)" "steps_in (beside m known) (update_supplier now i f)"
  "steps_in (beside m known) (update_branch now i j g)" "steps_in (beside m known) (update_contact now i j h)"
  by (auto simp: steps_in_def beside_def known_supplier_def insert_supplier_def insert_branch_def insert_contact_def
      update_supplier_def update_branch_def update_contact_def Let_def split: option.splits)

interpretation beside_suppliers: supplier_contract "supplier_repository F applied now ilike coll" "beside m known"
  for F applied now ilike coll m known
  by unfold_locales
    (auto simp: supplier_repository_def repo_ready_def CreateSupplier_def GetSupplier_def GetSupplierByTaxIdentifier_def
      SearchSuppliers_def UpdateSupplier_def SetSupplierActive_def CreateBranch_def GetBranch_def ListBranches_def
      UpdateBranch_def SetBranchActive_def CreateContact_def GetContact_def ListContacts_def UpdateContact_def SetContactActive_def)

lemma same_more:
  fixes db db' :: "'x purchase_db_scheme"
  assumes "supplier_db.more db' = supplier_db.more db"
  shows "pdb_resources db' = pdb_resources db" "pdb_products db' = pdb_products db" "pdb_purchases db' = pdb_purchases db"
    "pdb_lines db' = pdb_lines db" "pdb_mapping_audit db' = pdb_mapping_audit db" "pdb_line_audit db' = pdb_line_audit db"
    "pdb_product_seq db' = pdb_product_seq db" "pdb_purchase_seq db' = pdb_purchase_seq db" "pdb_line_seq db' = pdb_line_seq db"
  using assms by (cases db; cases db'; simp)+

lemma supplier_call_keeps:
  assumes inv: "purchase_inv db"
  shows "purchase_inv (run_supplier_call (supplier_repository F applied now ilike coll) c db)"
proof -
  let ?db = "run_supplier_call (supplier_repository F applied now ilike coll) c db"
  note parts = purchase_inv_parts[OF inv]
  have "beside (supplier_db.more db) (known_supplier db) ?db"
    by (rule beside_suppliers.call_keeps) (simp add: beside_def)
  then have m: "supplier_db.more ?db = supplier_db.more db" and k: "\<And>s. known_supplier db s \<Longrightarrow> known_supplier ?db s"
    by (simp_all add: beside_def)
  note same = same_more[OF m]
  have "products_ok ?db"
  proof (rule products_frame[OF parts(1)])
    show "known_resource ?db r" if "map_of (pdb_products db) i = Some sp" "pm_resource (sp_mapping sp) = Some r" for i sp r
      using stored_product[OF inv that(1)] that(2) by (simp add: product_row_def known_resource_def same)
  qed (simp_all add: same k)
  moreover have "purchases_ok ?db" by (rule purchases_frame[OF parts(2)]) (simp_all add: same k)
  moreover have "lines_ok ?db"
    by (rule lines_frame[OF parts(3)]) (simp_all add: same supplier_of_purchase_def supplier_of_product_def)
  ultimately show ?thesis
    using pg_suppliers.call_keeps[OF parts(4)] by (simp add: purchase_inv_def purchase_tables_def)
qed

text \<open>The catalogue of resources is another module's: a referenced resource is never removed.\<close>

definition keeps_resources :: "'x purchase_db_scheme \<Rightarrow> (int, resource_row) gmap \<Rightarrow> bool" where
  "keeps_resources db t \<longleftrightarrow> (\<forall>r. known_resource db r \<longrightarrow> map_of t r \<noteq> None)"

lemma resources_keep:
  assumes inv: "purchase_inv db" and t: "keeps_resources db t"
  shows "purchase_inv (db\<lparr>pdb_resources := t\<rparr>)"
proof -
  let ?db = "db\<lparr>pdb_resources := t\<rparr>"
  note parts = purchase_inv_parts[OF inv]
  have "products_ok ?db"
  proof (rule products_frame[OF parts(1)])
    show "known_resource ?db r" if "map_of (pdb_products db) i = Some sp" "pm_resource (sp_mapping sp) = Some r" for i sp r
      using stored_product[OF inv that(1)] that(2) t by (simp add: product_row_def keeps_resources_def known_resource_def)
  qed (simp_all add: known_supplier_def)
  moreover have "purchases_ok ?db" by (rule purchases_frame[OF parts(2)]) (simp_all add: known_supplier_def)
  moreover have "lines_ok ?db"
    by (rule lines_frame[OF parts(3)]) (simp_all add: supplier_of_purchase_def supplier_of_product_def)
  ultimately show ?thesis
    using parts(4) supplier_master_same[of ?db db] by (simp add: purchase_inv_def purchase_tables_def)
qed

section \<open>Reachable databases\<close>

definition empty_purchases :: purchase_db where
  "empty_purchases = \<lparr>sdb_suppliers = [], sdb_branches = [], sdb_contacts = [], sdb_supplier_seq = 0, sdb_branch_seq = 0,
     sdb_contact_seq = 0, pdb_resources = [], pdb_products = [], pdb_purchases = [], pdb_lines = [], pdb_mapping_audit = [],
     pdb_line_audit = [], pdb_product_seq = 0, pdb_purchase_seq = 0, pdb_line_seq = 0\<rparr>"

inductive purchase_reachable :: "'d decimal_ops \<Rightarrow> purchase_db \<Rightarrow> bool" for D where
  empty: "purchase_reachable D empty_purchases"
| supplier: "purchase_reachable D db \<Longrightarrow> purchase_reachable D (run_supplier_call (supplier_repository F applied now ilike coll) c db)"
| resources: "purchase_reachable D db \<Longrightarrow> keeps_resources db t \<Longrightarrow> purchase_reachable D (db\<lparr>pdb_resources := t\<rparr>)"
| mapping: "purchase_reachable D db \<Longrightarrow> purchase_reachable D (snd (store_mapping F applied now i k expected d db))"
| override: "purchase_reachable D db \<Longrightarrow> purchase_reachable D (snd (SetResolutionOverride D F applied i v expected d db))"
| resolve: "purchase_reachable D db \<Longrightarrow> purchase_reachable D (snd (ResolvePurchaseLine D F applied now command db))"
| importing: "purchase_reachable D db \<Longrightarrow> purchase_reachable D (snd (Import D F applied now draft db))"

lemma empty_purchase_inv: "purchase_inv empty_purchases"
  by (simp add: purchase_inv_def purchase_tables_def products_ok_def purchases_ok_def lines_ok_def supplier_master_def
      empty_purchases_def table_ok_def unique_sku_def unique_uuid_def unique_number_def unique_tax_def)

lemma reachable_inv: "purchase_reachable D db \<Longrightarrow> purchase_inv db"
  by (induction rule: purchase_reachable.induct)
    (auto intro: empty_purchase_inv supplier_call_keeps resources_keep mapping_keeps override_keeps resolve_keeps import_keeps)

end
