(* ===== verification/PurchaseStoreTheorems.thy ===== *)
theory PurchaseStoreTheorems
  imports PurchaseTransactions
begin

text \<open>
  What the transactions of the purchase repository promise, and a small database on which they run.
\<close>

section \<open>A small database\<close>

definition demo_decimals :: "nat decimal_ops" where
  "demo_decimals = \<lparr>dec_parse = (\<lambda>s. if s = [] then None else Some (read_nat s)), dec_zero = 0, dec_string = show_nat,
     dec_is_negative = (\<lambda>n. False), dec_is_zero = (\<lambda>n. n = 0), dec_equal = (=), dec_add = (+)\<rparr>"

definition demo_line :: "int \<Rightarrow> gstring \<Rightarrow> gstring \<Rightarrow> nat line_draft" where
  "demo_line n sku description = \<lparr>ld_number = n, ld_description = description, ld_sku = sku, ld_sat_code = ''26121600'',
     ld_quantity = 2, ld_unit_code = ''H87'', ld_unit = ''pieza'', ld_unit_price = 50, ld_amount = 100, ld_discount = 0,
     ld_tax_transferred = 16, ld_tax_withheld = 0, ld_tax_object = ''02''\<rparr>"

definition demo_hash :: gstring where
  "demo_hash = replicate 64 (CHR ''a'')"

definition demo_draft :: "nat purchase_draft" where
  "demo_draft = \<lparr>pd_party = \<lparr>pp_supplier = 1, pp_branch = None\<rparr>, pd_uuid = ''UUID-1'', pd_series = ''A'', pd_folio = ''7'',
     pd_issued = 9000, pd_currency = ''MXN'', pd_exchange_rate = None, pd_subtotal = 200, pd_discount = 0,
     pd_tax_transferred = 32, pd_tax_withheld = 0, pd_total = 232, pd_issuer_tax_id = ''ABC010101AA1'',
     pd_issuer_name = ''Proveedor SA'', pd_xml = \<lparr>xd_content = ''<cfdi/>'', xd_hash = demo_hash, xd_filename = ''f.xml''\<rparr>,
     pd_lines = [demo_line 1 ''SKU-1'' ''Cable'', demo_line 2 [] ''Flete'']\<rparr>"

definition demo_resources :: "(int, resource_row) gmap" where
  "demo_resources = [(5, \<lparr>rr_active = True, rr_identity = ''k5'', rr_display = ''Cable THW''\<rparr>),
     (6, \<lparr>rr_active = False, rr_identity = ''k6'', rr_display = ''Tubo''\<rparr>)]"

definition demo_empty :: purchase_db where
  "demo_empty = (run_supplier_call (supplier_repository no_faults False 1000 (\<lambda>a b. a = b) (\<lambda>s. s)) (CallCreateSupplier demo_supplier)
     empty_purchases)\<lparr>pdb_resources := demo_resources\<rparr>"

definition demo_imported :: purchase_db where
  "demo_imported = snd (Import demo_decimals no_faults False 2000 demo_draft demo_empty)"

definition demo_resolution :: resolve_command where
  "demo_resolution = \<lparr>rc_line = 2, rc_resource = 5, rc_sku = ''SKU-2'', rc_product = None, rc_mapping_revision = None,
     rc_resolution_revision = 2, rc_actor = ''ana'', rc_reason = ''catalogo'', rc_decision = demo_decision\<rparr>"

definition demo_purchases :: purchase_db where
  "demo_purchases =
     (let db = snd (store_mapping no_faults False 3000 1 (Confirm 5) 0 demo_decision demo_imported);
          db = snd (store_mapping no_faults False 3000 1 (Correct 5 6) 1 demo_decision db);
          db = snd (SetResolutionOverride demo_decimals no_faults False 2 LinkConflict 0 demo_decision db);
          db = snd (SetResolutionOverride demo_decimals no_faults False 2 LinkStatusNone 1 demo_decision db) in
      snd (ResolvePurchaseLine demo_decimals no_faults False 4000 demo_resolution db))"

lemma demo_empty_reachable: "purchase_reachable D demo_empty"
proof -
  have "pdb_resources (run_supplier_call (supplier_repository no_faults False 1000 (\<lambda>a b. a = b) (\<lambda>s. s))
      (CallCreateSupplier demo_supplier) empty_purchases) = []" by code_simp
  then show ?thesis unfolding demo_empty_def
    by (intro purchase_reachable.intros) (simp add: keeps_resources_def known_resource_def)
qed

lemma demo_reachable: "purchase_reachable demo_decimals demo_purchases"
  unfolding demo_purchases_def demo_imported_def Let_def
  by (intro purchase_reachable.intros demo_empty_reachable)

text \<open>C2: in every database the module can reach, whatever statements and commits fail and in whatever
  order supplier calls, imports, resolutions, overrides and mapping commands run, every reference
  resolves, a supplier has one product per SKU and a fiscal UUID one purchase, a line's product belongs
  to the supplier of its purchase, and the audit rows of every product and every line lead link by
  link from the initial value at revision 0 to the stored value, whose revision counts them.\<close>

theorem purchase_store_invariant:
  assumes "purchase_reachable D db"
  shows "purchase_inv db"
  using assms by (rule reachable_inv)

theorem purchase_store_invariant_witness:
  "purchase_inv demo_purchases \<and> map (length \<circ> mapping_links (pdb_mapping_audit demo_purchases)) [1, 2] = [1, 1]
     \<and> override_links (pdb_line_audit demo_purchases) 2 = [(LinkStatusNone, 0, LinkConflict, 1), (LinkConflict, 1, LinkStatusNone, 2)]
     \<and> map (lr_product \<circ> snd) (pdb_lines demo_purchases) = [Some 1, Some 2]"
proof -
  have "map (length \<circ> mapping_links (pdb_mapping_audit demo_purchases)) [1, 2] = [1, 1]" by code_simp
  moreover have "override_links (pdb_line_audit demo_purchases) 2
      = [(LinkStatusNone, 0, LinkConflict, 1), (LinkConflict, 1, LinkStatusNone, 2)]" by code_simp
  moreover have "map (lr_product \<circ> snd) (pdb_lines demo_purchases) = [Some 1, Some 2]" by code_simp
  ultimately show ?thesis using purchase_store_invariant[OF demo_reachable] by blast
qed

section \<open>Mapping transactions\<close>

lemma undo_self: "db = undo db db"
  by (simp add: undo_def)

lemma run_transition_cases:
  assumes run: "runMappingTransition F applied now i expected body db = (r, db')"
    and body: "\<And>product tr t p db'. body product db = (Inr (tr, t, p), db') \<Longrightarrow> db' = db \<and> Q product tr p"
  shows "(\<exists>e u. r = Inl e \<and> db' = undo db u)
    \<or> (\<exists>row tr p product. map_of (pdb_products db) i = Some row \<and> Q (joined_product db row) tr p
        \<and> (\<exists>a. product = p\<lparr>sp_resource_active := a\<rparr>)
        \<and> persistMappingTransition F now product tr expected db = (Inr (), db')
        \<and> (r = Inr product \<or> applied \<and> (\<exists>e. r = Inl (mapCommitError e))))"
proof -
  let ?body = "bnd (map_err (\<lambda>e. case e of
             NoRows \<Rightarrow> Wrapf ''%s: %w'' [''lock supplier product''] [product_not_found i]
           | Broken f \<Rightarrow> pur_write_fault ''lock supplier product'' f)
          (stmt F ''lockSupplierProductSQL'' 0 (query_row (product_by_id i)))) (\<lambda>product.
        bnd (body product) (\<lambda>(tr, resourceID, product).
        bnd (refresh_activity F tr resourceID product) (\<lambda>product.
        bnd (persistMappingTransition F now product tr expected) (\<lambda>_. ret product))))"
  have success: "\<exists>row tr p. map_of (pdb_products db) i = Some row \<and> Q (joined_product db row) tr p
        \<and> (\<exists>a. product = p\<lparr>sp_resource_active := a\<rparr>) \<and> persistMappingTransition F now product tr expected db = (Inr (), db')"
    if b: "?body db = (Inr product, db')" for product
  proof -
    from b obtain p0 tr t p db1 db2 where 1: "product_by_id i db = Some p0" "body p0 db = (Inr (tr, t, p), db1)"
        "refresh_activity F tr t p db1 = (Inr product, db2)" "persistMappingTransition F now product tr expected db2 = (Inr (), db')"
      by (auto simp: bnd_Inr stmt_Inr)
    have "db1 = db" "db2 = db" using body[OF 1(2)] refresh_activity_Inr[OF 1(3)] by simp_all
    note 0 = 1[unfolded this]
    from 0(1) obtain row where row: "map_of (pdb_products db) i = Some row" "p0 = joined_product db row"
      by (auto simp: product_by_id_def)
    have "Q (joined_product db row) tr p" using body[OF 0(2)] row(2) by blast
    with row(1) 0(4) refresh_activity_Inr[OF 0(3)] show ?thesis by blast
  qed
  show ?thesis
  proof (cases "F ''pool'' 0")
    case (Some f)
    then have "isl r \<and> db' = db"
      using run by (auto simp: runMappingTransition_def purchase_ready_def pool_ready_def)
    then obtain e where "r = Inl e" "db' = undo db db" by (auto simp: isl_def simp flip: undo_self)
    then show ?thesis by (intro disjI1 exI conjI)
  next
    case None
    then have t: "transact F ''begin mapping transaction'' mapCommitError applied undo ?body db = (r, db')"
      using run by (simp add: runMappingTransition_def purchase_ready_def pool_ready_def)
    show ?thesis
    proof (cases r)
      case (Inl e)
      from transact_failed[OF t[unfolded Inl]] show ?thesis
      proof (elim disjE conjE exE)
        assume "db' = db"
        then have "db' = undo db db" by (simp flip: undo_self)
        with Inl show ?thesis by (intro disjI1 exI conjI)
      next
        fix u assume "db' = undo db u"
        with Inl show ?thesis by (intro disjI1 exI conjI)
      next
        fix f product assume "applied" "e = mapCommitError (fault_error f)" "?body db = (Inr product, db')"
        then show ?thesis using success[of product] Inl by (intro disjI2) blast
      qed
    next
      case (Inr product)
      then have "?body db = (Inr product, db')" using t by (simp add: transact_Inr)
      from success[OF this] Inr show ?thesis by (intro disjI2) blast
    qed
  qed
qed

lemma store_mapping_cases:
  assumes "store_mapping F applied now i c expected d db = (r, db')"
  shows "(\<exists>e u. r = Inl e \<and> db' = undo db u)
    \<or> (\<exists>row tr p product. map_of (pdb_products db) i = Some row
        \<and> (run_mapping c expected d (joined_product db row) = Inr (tr, p)
          \<and> (mt_changed tr \<longrightarrow> pred_option (is_active db) (command_target c)))
        \<and> (\<exists>a. product = p\<lparr>sp_resource_active := a\<rparr>)
        \<and> persistMappingTransition F now product tr expected db = (Inr (), db')
        \<and> (r = Inr product \<or> applied \<and> (\<exists>e. r = Inl (mapCommitError e))))"
proof (cases c)
  case (Confirm k)
  from assms[unfolded Confirm store_mapping.simps store_confirm_def] show ?thesis
    by (rule run_transition_cases)
      (auto simp: bnd_Inr require_Inr Confirm dest!: lockResources_Inr split: if_splits)
next
  case (Correct j k)
  let ?body = "\<lambda>product. bnd (lockResources F [j, k]) (\<lambda>active.
       bnd (require (requireTargetActive active k)) (\<lambda>_.
       bnd (lift (CorrectMapping j k expected d product)) (\<lambda>(tr, product). ret (tr, k, product))))"
  show ?thesis
  proof (cases "F ''pool'' 0")
    case None
    then have "runMappingTransition F applied now i expected ?body db = (r, db')"
      using assms by (simp add: Correct store_correct_def purchase_ready_def pool_ready_def)
    then show ?thesis
      by (rule run_transition_cases) (auto simp: bnd_Inr require_Inr Correct dest!: lockResources_Inr)
  next
    case (Some f)
    then obtain e where "r = Inl e" "db' = undo db db"
      using assms by (auto simp: Correct store_correct_def purchase_ready_def pool_ready_def simp flip: undo_self)
    then show ?thesis by (intro disjI1 exI conjI)
  qed
next
  case (Unlink k)
  from assms[unfolded Unlink store_mapping.simps store_unlink_def] show ?thesis
    by (rule run_transition_cases) (auto simp: bnd_Inr Unlink dest!: lockResources_Inr)
next
  case (ReportConflict k)
  from assms[unfolded ReportConflict store_mapping.simps store_report_def] show ?thesis
    by (rule run_transition_cases) (auto simp: bnd_Inr ReportConflict dest!: lockResources_Inr)
next
  case (ResolveConflict j k)
  from assms[unfolded ResolveConflict store_mapping.simps store_resolve_def] show ?thesis
    by (rule run_transition_cases) (auto simp: bnd_Inr require_Inr ResolveConflict dest!: lockResources_Inr)
qed

text \<open>What an accepted command does to the tables.\<close>

definition mapping_done ::
  "int \<Rightarrow> int \<Rightarrow> mapping_command \<Rightarrow> revision \<Rightarrow> decision_metadata \<Rightarrow> 'x purchase_db_scheme \<Rightarrow> supplier_product
     \<Rightarrow> 'x purchase_db_scheme \<Rightarrow> bool" where
  "mapping_done now i c expected d db product db' \<longleftrightarrow> (\<exists>row m. map_of (pdb_products db) i = Some row
     \<and> sp_revision row = expected \<and> decision_error d (needs_reason c) = None \<and> mapping_effect c (sp_mapping row) = Some m
     \<and> sp_id product = i \<and> sp_mapping product = m
     \<and> (if m = sp_mapping row then db' = db \<and> sp_revision product = expected
        else pred_option (is_active db) (command_target c) \<and> sp_revision product = expected + 1
          \<and> unat (expected + 1) = unat expected + 1
          \<and> db' = db\<lparr>pdb_products := gput i (row\<lparr>sp_mapping := m, sp_revision := expected + 1, sp_updated := now\<rparr>) (pdb_products db),
              pdb_mapping_audit := pdb_mapping_audit db
                @ [mapping_entry c (stored_decision d) (joined_product db row) m]\<rparr>))"

text \<open>C10: a mapping command on a stored product either fails and leaves the tables as they were, or
  does exactly what the table of effects says: it is run at the expected revision, requires the target
  resource to exist and be active when it changes the mapping, stores the new mapping with the next
  revision and appends one audit row, and leaves everything else alone. The only failure that may come
  with the effect is an ambiguous commit.\<close>

theorem mapping_transaction:
  assumes inv: "purchase_inv db" and run: "store_mapping F applied now i c expected d db = (r, db')"
  shows "(\<exists>e u. r = Inl e \<and> db' = undo db u)
    \<or> (\<exists>product. mapping_done now i c expected d db product db' \<and> (r = Inr product \<or> applied \<and> (\<exists>e. r = Inl (mapCommitError e))))"
  using store_mapping_cases[OF run]
proof
  assume "\<exists>row tr p product. map_of (pdb_products db) i = Some row
        \<and> (run_mapping c expected d (joined_product db row) = Inr (tr, p)
          \<and> (mt_changed tr \<longrightarrow> pred_option (is_active db) (command_target c)))
        \<and> (\<exists>a. product = p\<lparr>sp_resource_active := a\<rparr>)
        \<and> persistMappingTransition F now product tr expected db = (Inr (), db')
        \<and> (r = Inr product \<or> applied \<and> (\<exists>e. r = Inl (mapCommitError e)))"
  then obtain row tr p product a where row: "map_of (pdb_products db) i = Some row" and m: "run_mapping c expected d (joined_product db row) = Inr (tr, p)"
    and target: "mt_changed tr \<longrightarrow> pred_option (is_active db) (command_target c)" and product: "product = p\<lparr>sp_resource_active := a\<rparr>"
    and persist: "persistMappingTransition F now product tr expected db = (Inr (), db')"
    and r: "r = Inr product \<or> applied \<and> (\<exists>e. r = Inl (mapCommitError e))"
    by blast
  have id: "sp_id row = i" using stored_product[OF inv row] by (simp add: product_row_def)
  from m have "mapping_done now i c expected d db product db'"
  proof (cases rule: run_mapping_Inr)
    case 1
    then show ?thesis using persist row product id
      by (auto simp: mapping_done_def persistMappingTransition_def no_transition_def)
  next
    case (2 m)
    from persist 2(5) obtain row' where "map_of (pdb_products db) (sp_id product) = Some row'"
        "unat (ma_new_revision (mapping_entry c d (joined_product db row) m)) = unat (ma_previous_revision (mapping_entry c d (joined_product db row) m)) + 1"
        "db' = db\<lparr>pdb_products := gput (sp_id product) (row'\<lparr>sp_mapping := sp_mapping product, sp_revision := sp_revision product,
        sp_updated := now\<rparr>) (pdb_products db),
      pdb_mapping_audit := pdb_mapping_audit db @ [(mapping_entry c d (joined_product db row) m)\<lparr>ma_decision := stored_decision
        (ma_decision (mapping_entry c d (joined_product db row) m))\<rparr>]\<rparr>"
      by (rule persist_mapping_Inr)
    then show ?thesis using 2 row product id target
      unfolding mapping_done_def by (intro exI[of _ row] exI[of _ m]) (auto simp: mapping_entry_def)
  qed
  with r show ?thesis by blast
qed (rule disjI1)

theorem mapping_transaction_witness:
  "\<exists>product db'. store_mapping no_faults False 3000 1 (Confirm 5) 0 demo_decision demo_imported = (Inr product, db')
     \<and> mapping_done 3000 1 (Confirm 5) 0 demo_decision demo_imported product db' \<and> sp_revision product = 1"
proof -
  have p: "ok (fst (store_mapping no_faults False 3000 1 (Confirm 5) 0 demo_decision demo_imported))" by code_simp
  then obtain product db' where run: "store_mapping no_faults False 3000 1 (Confirm 5) 0 demo_decision demo_imported = (Inr product, db')"
    by (metis ok_iff prod.collapse)
  have "case fst (store_mapping no_faults False 3000 1 (Confirm 5) 0 demo_decision demo_imported) of Inr p \<Rightarrow> sp_revision p = 1 | Inl _ \<Rightarrow> False"
    by code_simp
  then have "sp_revision product = 1" unfolding run by simp
  moreover have "purchase_inv demo_imported"
    unfolding demo_imported_def by (intro import_keeps reachable_inv[OF demo_empty_reachable])
  ultimately show ?thesis using mapping_transaction[OF _ run] run by auto
qed

end
