(* ===== verification/LineStatusTheorems.thy ===== *)
theory LineStatusTheorems
  imports PurchaseViews PurchaseStoreTheorems
begin

text \<open>
  The status of a line: the workbench derives it in SQL, the other readers in Go, and a resolved line
  reads as linked.
\<close>

section \<open>Both derivations agree\<close>

lemma case_status_effective:
  "EffectiveLineStatus override \<lparr>pm_resource = resource, pm_conflict = coalesce conflict False\<rparr> (coalesce active True) = (status, cause)
    \<Longrightarrow> case_status override conflict resource active = status \<and> case_cause override conflict resource active = cause_text cause"
  by (cases resource)
    (auto simp: case_status_def case_cause_def EffectiveLineStatus_def mapping_state_of_def link_status_defs coalesce_def
      split: option.splits if_splits)

lemma projected:
  assumes inv: "purchase_inv db" and row: "map_of (pdb_lines db) i = Some row"
  shows "line_projection db row \<noteq> None"
proof -
  obtain s where s: "supplier_of_purchase db (lr_purchase row) = Some s"
    using stored_line_row[OF inv row] by (auto simp: stored_line_def)
  then obtain p where p: "map_of (pdb_purchases db) (lr_purchase row) = Some p" by (auto simp: supplier_of_purchase_def)
  have "known_supplier db (pp_supplier (pd_party p))"
    using purchase_inv_parts(2)[OF inv] p by (simp add: purchases_ok_def table_ok_def purchase_row_ok_def)
  with p show ?thesis by (auto simp: line_projection_def known_supplier_def Let_def)
qed

text \<open>C31: the workbench shows every stored line that the line reader can read, with the same amounts,
  override, product and revision, and the status and cause its SQL derives are the ones the domain
  derives.\<close>

theorem workbench_status:
  assumes inv: "purchase_inv db" and row: "map_of (pdb_lines db) i = Some row" and scan: "scanPurchaseLine D db row = Inr l"
  shows "\<exists>w w'. line_projection db row = Some w \<and> scanPurchaseLineWorkbenchRow D w = Inr w'
    \<and> wr_line w' = pl_id l \<and> wr_quantity w' = ld_quantity l \<and> wr_unit_price w' = ld_unit_price l \<and> wr_amount w' = ld_amount l
    \<and> wr_override w' = pl_override l \<and> wr_product w' = pl_product l \<and> wr_resolution_revision w' = pl_revision l
    \<and> wr_status w' = pl_status l \<and> wr_cause w' = cause_text (pl_cause l)"
proof -
  obtain w where w: "line_projection db row = Some w" using projected[OF inv row] by blast
  define d where "d = EffectiveLineStatus (lr_override row) \<lparr>pm_resource = joined_resource db row,
      pm_conflict = coalesce (joined_conflict db row) False\<rparr> (coalesce (joined_active db row) True)"
  have l: "pl_status l = fst d" "pl_cause l = snd d" "pl_id l = lr_id row" "pl_override l = lr_override row"
      "pl_product l = lr_product row" "pl_revision l = lr_revision row"
      "decode D ''decode quantity: %w'' (ld_quantity row) = Inr (ld_quantity l)"
      "decode D ''decode unit price: %w'' (ld_unit_price row) = Inr (ld_unit_price l)"
      "decode D ''decode amount: %w'' (ld_amount row) = Inr (ld_amount l)"
    using scan unfolding scanPurchaseLine_def Let_def d_def[symmetric] by (auto simp: bindr_Inr_iff)
  have c: "wr_status w = fst d" "wr_cause w = cause_text (snd d)" "wr_line w = lr_id row" "wr_override w = lr_override row"
      "wr_product w = lr_product row" "wr_resolution_revision w = lr_revision row" "wr_quantity w = ld_quantity row"
      "wr_unit_price w = ld_unit_price row" "wr_amount w = ld_amount row"
    using w case_status_effective[OF prod.collapse[of d, unfolded d_def, symmetric], folded d_def]
    unfolding line_projection_def Let_def by (auto simp: d_def split: option.splits)
  show ?thesis
    by (simp add: w scanPurchaseLineWorkbenchRow_def c l)
qed

theorem workbench_status_witness:
  "\<exists>l w w'. scanPurchaseLine demo_decimals demo_purchases (snd (pdb_lines demo_purchases ! 1)) = Inr l
     \<and> line_projection demo_purchases (snd (pdb_lines demo_purchases ! 1)) = Some w
     \<and> scanPurchaseLineWorkbenchRow demo_decimals w = Inr w' \<and> wr_status w' = pl_status l \<and> pl_status l = LinkLinked"
proof -
  let ?row = "snd (pdb_lines demo_purchases ! 1)"
  have s: "case scanPurchaseLine demo_decimals demo_purchases ?row of Inr l \<Rightarrow> pl_status l = LinkLinked | Inl _ \<Rightarrow> False" by code_simp
  then obtain l where l: "scanPurchaseLine demo_decimals demo_purchases ?row = Inr l" "pl_status l = LinkLinked"
    by (auto split: sum.splits)
  have "case map_of (pdb_lines demo_purchases) 2 of Some row \<Rightarrow> lr_id row = lr_id ?row \<and> row = ?row | None \<Rightarrow> False" by code_simp
  then have "map_of (pdb_lines demo_purchases) 2 = Some ?row" by (auto split: option.splits)
  from workbench_status[OF reachable_inv[OF demo_reachable] this l(1)] l show ?thesis by auto
qed

section \<open>A resolved line is linked\<close>

text \<open>The frames of the last steps of a resolution.\<close>

lemma persist_row:
  assumes row: "map_of (pdb_products db) (sp_id p) = Some row" and run: "run_mapping c expected d (joined_product db row) = Inr (tr, p')"
    and id: "sp_id p' = sp_id p" and persist: "persistMappingTransition F now p' tr expected db = (Inr (), db')"
  shows "mapping_of db' (sp_id p') = Some (sp_mapping p') \<and> pdb_resources db' = pdb_resources db"
  using run
proof (cases rule: run_mapping_Inr)
  case 1
  then show ?thesis using persist row id by (simp add: persistMappingTransition_def no_transition_def mapping_of_def)
next
  case (2 m)
  from persist 2(5) show ?thesis by (rule persist_mapping_Inr) (simp add: mapping_of_def)
qed

lemma associate_row:
  assumes "associate_if F newly i p db = (Inr (), db')" "map_of (pdb_lines db) i = Some row"
  shows "pdb_products db' = pdb_products db \<and> pdb_resources db' = pdb_resources db
    \<and> (\<exists>row'. map_of (pdb_lines db') i = Some row' \<and> lr_override row' = lr_override row)"
  using assms by (auto simp: associate_if_def bnd_Inr stmt_Inr associate_line_def split: if_splits)

lemma linked_status:
  assumes "scanPurchaseLine D db row = Inr l" "lr_override row = LinkStatusNone" "lr_product row = Some p"
    "mapping_of db p = Some \<lparr>pm_resource = Some r, pm_conflict = False\<rparr>" "is_active db r"
  shows "pl_status l = LinkLinked \<and> pl_cause l = MappingCauseNone"
proof -
  obtain sp where sp: "map_of (pdb_products db) p = Some sp" "sp_mapping sp = \<lparr>pm_resource = Some r, pm_conflict = False\<rparr>"
    using assms(4) by (auto simp: mapping_of_def)
  then have j: "joined_resource db row = Some r" "joined_conflict db row = Some False"
    using assms(3) by (simp_all add: joined_resource_def joined_conflict_def line_product_def)
  moreover have "joined_active db row = Some True"
    using assms(5) j by (simp add: joined_active_def is_active_def split: option.splits)
  ultimately show ?thesis
    using assms(1,2) by (auto simp: scanPurchaseLine_def Let_def bindr_Inr_iff coalesce_def EffectiveLineStatus_def mapping_state_of_def)
qed

text \<open>C19: after a successful resolution the line has the product that stands for the supplier's SKU,
  the product is mapped to the requested resource without conflict, the resource is active, and the
  line that is returned reads as linked.\<close>

theorem resolved_line_linked:
  assumes inv: "purchase_inv db" and run: "ResolvePurchaseLine D F applied now command db = (Inr r, db')"
  shows "pl_id (rres_line r) = rc_line command \<and> pl_product (rres_line r) = Some (sp_id (rres_product r))
    \<and> sp_mapping (rres_product r) = \<lparr>pm_resource = Some (rc_resource command), pm_conflict = False\<rparr>
    \<and> is_active db' (rc_resource command) \<and> pl_status (rres_line r) = LinkLinked \<and> pl_cause (rres_line r) = MappingCauseNone"
proof -
  have body: "resolve_line_body D F now command db = (Inr r, db')"
    using run by (auto simp: ResolvePurchaseLine_def purchase_ready_def bnd_Inr transact_Inr)
  note inv' = resolve_body_inv[OF inv body]
  obtain row s p newly created db1 tr p' db2 l where b:
      "locked_line (rc_line command) db = Some (row, s)" "line_guard row command = None"
      "resolveSupplierProductIdentity F now s (ld_description row) (lr_product row) command db = (Inr (p, newly, created), db1)"
      "is_active db1 (rc_resource command)"
      "run_mapping (Confirm (rc_resource command)) (coalesce (rc_mapping_revision command) (sp_revision p)) (rc_decision command) p = Inr (tr, p')"
      "persistMappingTransition F now p' tr (coalesce (rc_mapping_revision command) (sp_revision p)) db1 = (Inr (), db2)"
      "associate_if F newly (rc_line command) (sp_id p') db2 = (Inr (), db')" "line_by_id D (rc_line command) db' = (Inr l, db')"
      "r = \<lparr>rres_line = l, rres_product = p'\<lparr>sp_resource_active := Some True\<rparr>,
         rres_disposition = commercialIdentityDisposition created tr\<rparr>" "pl_product l = Some (sp_id p')"
    using body by (rule resolve_body_Inr)
  obtain prow where p: "purchase_inv db1" "pdb_lines db1 = pdb_lines db" "map_of (pdb_products db1) (sp_id p) = Some prow"
      "p = joined_product db1 prow"
    using identity_Inr[OF inv b(3)] by (auto simp: product_step_def)
  have run1: "run_mapping (Confirm (rc_resource command)) (coalesce (rc_mapping_revision command) (sp_revision p)) (rc_decision command)
      (joined_product db1 prow) = Inr (tr, p')" using b(5) by (simp only: p(4)[symmetric])
  have p': "sp_id p' = sp_id p" "sp_mapping p' = \<lparr>pm_resource = Some (rc_resource command), pm_conflict = False\<rparr>"
    using b(5) by (rule run_mapping_Inr, auto split: if_splits)+
  have m: "mapping_of db2 (sp_id p') = Some (sp_mapping p')" "pdb_resources db2 = pdb_resources db1"
    using persist_row[OF p(3) run1 p'(1) b(6)] by simp_all
  have "pdb_lines db2 = pdb_lines db1" using persist_mapping_inv[OF p(1,3) run1 p'(1) refl refl b(6)] by simp
  then have "map_of (pdb_lines db2) (rc_line command) = Some row" using b(1) p(2) by (auto simp: locked_line_def split: option.splits)
  note a = associate_row[OF b(7) this]
  have none: "lr_override row = LinkStatusNone" using b(2) by (auto simp: line_guard_def split: if_splits)
  obtain row' where row': "map_of (pdb_lines db') (rc_line command) = Some row'" "pl_id l = lr_id row'" "pl_product l = lr_product row'"
      "scanPurchaseLine D db' row' = Inr l"
    using b(8) by (rule line_by_id_Inr) simp
  have o: "lr_override row' = LinkStatusNone" using a row'(1) none by auto
  have pr: "lr_product row' = Some (sp_id p')" using row'(3) b(10) by simp
  have mm: "mapping_of db' (sp_id p') = Some \<lparr>pm_resource = Some (rc_resource command), pm_conflict = False\<rparr>"
    using a m(1) p'(2) by (simp add: mapping_of_def)
  have act: "is_active db' (rc_resource command)" using a m(2) b(4) by (simp add: is_active_def)
  have "pl_id l = rc_line command" using stored_line_row[OF inv' row'(1)] row'(2) by (simp add: stored_line_def)
  then show ?thesis using linked_status[OF row'(4) o pr mm act] act b(10) p'(2) by (simp add: b(9))
qed

theorem resolved_line_linked_witness:
  "\<exists>r. fst (ResolvePurchaseLine demo_decimals no_faults False 4000 (demo_resolution\<lparr>rc_resolution_revision := 0\<rparr>) demo_imported) = Inr r
     \<and> pl_status (rres_line r) = LinkLinked \<and> rres_disposition r = CommercialIdentityCreated"
proof -
  let ?run = "ResolvePurchaseLine demo_decimals no_faults False 4000 (demo_resolution\<lparr>rc_resolution_revision := 0\<rparr>) demo_imported"
  have "case fst ?run of Inr r \<Rightarrow> rres_disposition r = CommercialIdentityCreated | Inl _ \<Rightarrow> False" by code_simp
  then obtain r where r: "fst ?run = Inr r" "rres_disposition r = CommercialIdentityCreated" by (auto split: sum.splits)
  have inv: "purchase_inv demo_imported"
    unfolding demo_imported_def by (intro import_keeps reachable_inv[OF demo_empty_reachable])
  have run: "?run = (Inr r, snd ?run)" using r(1) by (metis prod.collapse)
  from resolved_line_linked[OF inv run] r show ?thesis by blast
qed

end
