(* ===== verification/Cfdi.thy ===== *)
theory Cfdi
  imports SupplierProduct
begin

text \<open>
  The CFDI 4.0 reader (\<^verbatim>\<open>cfdicore\<close>): the voucher in the XML bytes of an invoice. The tokenizer of
  \<^verbatim>\<open>encoding/xml\<close> is the parameter \<open>xml_decoder\<close>; how \<^verbatim>\<open>DecodeElement\<close> fills the tagged struct
  \<^verbatim>\<open>xmlComprobante\<close> and how \<^verbatim>\<open>time.Parse\<close> reads the SAT date layout is written out. A document is a
  list of bytes, one \<open>char\<close> each; the texts in it are Go strings.
\<close>

section \<open>Errors\<close>

datatype (plugins only: code size) cfdi_code = InvalidXML | NotCFDI | UnsupportedVersion | InvalidCFDI | Internal

record cfdi_error =
  ce_code :: cfdi_code
  ce_message :: gstring

definition cfdi_failure :: "cfdi_code \<Rightarrow> gstring \<Rightarrow> cfdi_error" where
  "cfdi_failure code message = \<lparr>ce_code = code, ce_message = message\<rparr>"

section \<open>Invoices\<close>

record tax =
  tx_base :: gstring
  tx_tax :: gstring
  tx_factor :: gstring
  tx_rate :: gstring
  tx_amount :: gstring

record related_cfdis =
  rl_type :: gstring
  rl_uuids :: "gstring list"

record issuer =
  is_tax_id :: gstring
  is_name :: gstring
  is_regime :: gstring

record receiver =
  rv_tax_id :: gstring
  rv_name :: gstring
  rv_postal :: gstring
  rv_regime :: gstring
  rv_use :: gstring
  rv_residence :: gstring
  rv_foreign :: gstring

record taxes =
  ct_transferred :: "tax list"
  ct_withheld :: "tax list"

record tax_totals = taxes +
  ct_total_transferred :: gstring
  ct_total_withheld :: gstring

record concept =
  cn_code :: gstring
  cn_item :: gstring
  cn_quantity :: gstring
  cn_unit_code :: gstring
  cn_unit :: gstring
  cn_description :: gstring
  cn_unit_price :: gstring
  cn_amount :: gstring
  cn_discount :: gstring
  cn_tax_object :: gstring
  cn_taxes :: taxes

text \<open>The dates are \<open>'t\<close>: the texts of the XML, and instants once they are parsed.\<close>

record 't stamp =
  st_version :: gstring
  st_uuid :: gstring
  st_at :: 't
  st_provider :: gstring
  st_legend :: gstring
  st_seal :: gstring
  st_certificate :: gstring
  st_sat_seal :: gstring

record 't voucher =
  vo_version :: gstring
  vo_series :: gstring
  vo_folio :: gstring
  vo_date :: 't
  vo_seal :: gstring
  vo_payment_form :: gstring
  vo_certificate_number :: gstring
  vo_certificate :: gstring
  vo_conditions :: gstring
  vo_subtotal :: gstring
  vo_discount :: gstring
  vo_currency :: gstring
  vo_exchange_rate :: gstring
  vo_total :: gstring
  vo_type :: gstring
  vo_export :: gstring
  vo_method :: gstring
  vo_place :: gstring
  vo_confirmation :: gstring
  vo_related :: "related_cfdis list"
  vo_concepts :: "concept list"
  vo_taxes :: tax_totals
  vo_stamp :: "'t stamp option"

record xml_comprobante = "gstring voucher" +
  xc_issuer :: "issuer option"
  xc_receiver :: "receiver option"

record invoice = "go_time voucher" +
  iv_issuer :: issuer
  iv_receiver :: receiver

section \<open>The XML decoder\<close>

record xml_name =
  xn_space :: gstring
  xn_local :: gstring

type_synonym xml_attrs = "(xml_name \<times> gstring) list"

text \<open>An element with its attributes and child elements, in document order; character data is of no
  use to the tags.\<close>

datatype (plugins only: code size) xml_node = Element xml_name xml_attrs "xml_node list"

datatype (plugins only: code size) xml_token = StartElement xml_name xml_attrs | OtherToken

datatype (plugins only: code size) xml_fault = EndOfFile | SyntaxError gstring

text \<open>\<^verbatim>\<open>NewDecoder\<close>, \<^verbatim>\<open>Token\<close>, and the rest of an element as \<^verbatim>\<open>DecodeElement\<close> reads it.\<close>

record 's xml_decoder =
  xd_new :: "char list \<Rightarrow> 's"
  xd_token :: "'s \<Rightarrow> (xml_fault + xml_token) \<times> 's"
  xd_element :: "'s \<Rightarrow> xml_name \<Rightarrow> xml_attrs \<Rightarrow> gstring + xml_node"

section \<open>Struct tags\<close>

definition nsCFDI :: gstring where "nsCFDI = ''http://www.sat.gob.mx/cfd/4''"
definition nsTFD :: gstring where "nsTFD = ''http://www.sat.gob.mx/TimbreFiscalDigital''"

text \<open>\<open>xml:"name,attr"\<close>: the last attribute of that local name, whatever its name space; a field
  keeps its value when there is none.\<close>

definition attr :: "xml_attrs \<Rightarrow> gstring \<Rightarrow> gstring \<Rightarrow> gstring" where
  "attr attrs name old = foldl (\<lambda>v (n, x). if xn_local n = name then x else v) old attrs"

text \<open>The children that match \<open>xml:"space name"\<close>, one after the other.\<close>

definition children :: "gstring \<Rightarrow> gstring \<Rightarrow> (xml_attrs \<Rightarrow> xml_node list \<Rightarrow> 'a \<Rightarrow> 'a) \<Rightarrow> xml_node list \<Rightarrow> 'a \<Rightarrow> 'a" where
  "children space name f kids a = foldl (\<lambda>a k. case k of Element n attrs sub \<Rightarrow>
     if xn_space n = space \<and> xn_local n = name then f attrs sub a else a) a kids"

text \<open>\<open>xml:"space outer>inner"\<close> into a slice.\<close>

definition nested :: "gstring \<Rightarrow> gstring \<Rightarrow> gstring \<Rightarrow> (xml_attrs \<Rightarrow> xml_node list \<Rightarrow> 'a) \<Rightarrow> xml_node list \<Rightarrow> 'a list \<Rightarrow> 'a list" where
  "nested space outer inner f = children space outer (\<lambda>_ sub. children space inner (\<lambda>attrs kids xs. xs @ [f attrs kids]) sub)"

definition raw_tax :: "xml_attrs \<Rightarrow> xml_node list \<Rightarrow> tax" where
  "raw_tax a _ = \<lparr>tx_base = attr a ''Base'' [], tx_tax = attr a ''Impuesto'' [], tx_factor = attr a ''TipoFactor'' [],
     tx_rate = attr a ''TasaOCuota'' [], tx_amount = attr a ''Importe'' []\<rparr>"

definition raw_taxes :: "xml_node list \<Rightarrow> ('x) taxes_scheme \<Rightarrow> 'x taxes_scheme" where
  "raw_taxes kids g = g\<lparr>ct_transferred := nested nsCFDI ''Traslados'' ''Traslado'' raw_tax kids (ct_transferred g),
     ct_withheld := nested nsCFDI ''Retenciones'' ''Retencion'' raw_tax kids (ct_withheld g)\<rparr>"

definition raw_concept :: "xml_attrs \<Rightarrow> xml_node list \<Rightarrow> concept" where
  "raw_concept a kids = \<lparr>cn_code = attr a ''ClaveProdServ'' [], cn_item = attr a ''NoIdentificacion'' [],
     cn_quantity = attr a ''Cantidad'' [], cn_unit_code = attr a ''ClaveUnidad'' [], cn_unit = attr a ''Unidad'' [],
     cn_description = attr a ''Descripcion'' [], cn_unit_price = attr a ''ValorUnitario'' [], cn_amount = attr a ''Importe'' [],
     cn_discount = attr a ''Descuento'' [], cn_tax_object = attr a ''ObjetoImp'' [],
     cn_taxes = children nsCFDI ''Impuestos'' (\<lambda>_ sub. raw_taxes sub) kids \<lparr>ct_transferred = [], ct_withheld = []\<rparr>\<rparr>"

definition raw_related :: "xml_attrs \<Rightarrow> xml_node list \<Rightarrow> related_cfdis" where
  "raw_related a kids = \<lparr>rl_type = attr a ''TipoRelacion'' [],
     rl_uuids = children nsCFDI ''CfdiRelacionado'' (\<lambda>b _ us. us @ [attr b ''UUID'' []]) kids []\<rparr>"

text \<open>A pointer to a struct is allocated by the first matching element and filled further by the next.\<close>

definition raw_issuer :: "xml_attrs \<Rightarrow> issuer option \<Rightarrow> issuer option" where
  "raw_issuer a old = (let i = (case old of Some i \<Rightarrow> i | None \<Rightarrow> \<lparr>is_tax_id = [], is_name = [], is_regime = []\<rparr>) in
     Some \<lparr>is_tax_id = attr a ''Rfc'' (is_tax_id i), is_name = attr a ''Nombre'' (is_name i),
       is_regime = attr a ''RegimenFiscal'' (is_regime i)\<rparr>)"

definition raw_receiver :: "xml_attrs \<Rightarrow> receiver option \<Rightarrow> receiver option" where
  "raw_receiver a old = (let r = (case old of Some r \<Rightarrow> r | None \<Rightarrow> \<lparr>rv_tax_id = [], rv_name = [], rv_postal = [],
       rv_regime = [], rv_use = [], rv_residence = [], rv_foreign = []\<rparr>) in
     Some \<lparr>rv_tax_id = attr a ''Rfc'' (rv_tax_id r), rv_name = attr a ''Nombre'' (rv_name r),
       rv_postal = attr a ''DomicilioFiscalReceptor'' (rv_postal r), rv_regime = attr a ''RegimenFiscalReceptor'' (rv_regime r),
       rv_use = attr a ''UsoCFDI'' (rv_use r), rv_residence = attr a ''ResidenciaFiscal'' (rv_residence r),
       rv_foreign = attr a ''NumRegIdTrib'' (rv_foreign r)\<rparr>)"

definition raw_stamp :: "xml_attrs \<Rightarrow> gstring stamp option \<Rightarrow> gstring stamp option" where
  "raw_stamp a old = (let s = (case old of Some s \<Rightarrow> s | None \<Rightarrow> \<lparr>st_version = [], st_uuid = [], st_at = [], st_provider = [],
       st_legend = [], st_seal = [], st_certificate = [], st_sat_seal = []\<rparr>) in
     Some \<lparr>st_version = attr a ''Version'' (st_version s), st_uuid = attr a ''UUID'' (st_uuid s),
       st_at = attr a ''FechaTimbrado'' (st_at s), st_provider = attr a ''RfcProvCertif'' (st_provider s),
       st_legend = attr a ''Leyenda'' (st_legend s), st_seal = attr a ''SelloCFD'' (st_seal s),
       st_certificate = attr a ''NoCertificadoSAT'' (st_certificate s), st_sat_seal = attr a ''SelloSAT'' (st_sat_seal s)\<rparr>)"

definition decode_comprobante :: "xml_attrs \<Rightarrow> xml_node list \<Rightarrow> xml_comprobante" where
  "decode_comprobante a kids = \<lparr>vo_version = attr a ''Version'' [], vo_series = attr a ''Serie'' [], vo_folio = attr a ''Folio'' [],
     vo_date = attr a ''Fecha'' [], vo_seal = attr a ''Sello'' [], vo_payment_form = attr a ''FormaPago'' [],
     vo_certificate_number = attr a ''NoCertificado'' [], vo_certificate = attr a ''Certificado'' [],
     vo_conditions = attr a ''CondicionesDePago'' [], vo_subtotal = attr a ''SubTotal'' [], vo_discount = attr a ''Descuento'' [],
     vo_currency = attr a ''Moneda'' [], vo_exchange_rate = attr a ''TipoCambio'' [], vo_total = attr a ''Total'' [],
     vo_type = attr a ''TipoDeComprobante'' [], vo_export = attr a ''Exportacion'' [], vo_method = attr a ''MetodoPago'' [],
     vo_place = attr a ''LugarExpedicion'' [], vo_confirmation = attr a ''Confirmacion'' [],
     vo_related = children nsCFDI ''CfdiRelacionados'' (\<lambda>b sub rs. rs @ [raw_related b sub]) kids [],
     vo_concepts = nested nsCFDI ''Conceptos'' ''Concepto'' raw_concept kids [],
     vo_taxes = children nsCFDI ''Impuestos'' (\<lambda>b sub t. raw_taxes sub
         (t\<lparr>ct_total_transferred := attr b ''TotalImpuestosTrasladados'' (ct_total_transferred t),
            ct_total_withheld := attr b ''TotalImpuestosRetenidos'' (ct_total_withheld t)\<rparr>)) kids
       \<lparr>ct_transferred = [], ct_withheld = [], ct_total_transferred = [], ct_total_withheld = []\<rparr>,
     vo_stamp = children nsCFDI ''Complemento'' (\<lambda>_. children nsTFD ''TimbreFiscalDigital'' (\<lambda>b _. raw_stamp b)) kids None,
     xc_issuer = children nsCFDI ''Emisor'' (\<lambda>b _. raw_issuer b) kids None,
     xc_receiver = children nsCFDI ''Receptor'' (\<lambda>b _. raw_receiver b) kids None\<rparr>"

section \<open>Dates\<close>

definition is_digit :: "char \<Rightarrow> bool" where
  "is_digit c \<longleftrightarrow> (let n = (of_char c :: nat) in 48 \<le> n \<and> n \<le> 57)"

definition digits :: "gstring \<Rightarrow> int" where
  "digits s = int (read_nat s)"

text \<open>The chunks of the layout \<^verbatim>\<open>2006-01-02T15:04:05\<close>: a four-digit year, numbers of two digits (the hour
  may have one), and after the seconds an optional fraction, cut to nine digits.\<close>

definition get_year :: "gstring \<Rightarrow> (int \<times> gstring) option" where
  "get_year s = (if 4 \<le> length s \<and> list_all is_digit (take 4 s) then Some (digits (take 4 s), drop 4 s) else None)"

fun get_num :: "bool \<Rightarrow> gstring \<Rightarrow> (int \<times> gstring) option" where
  "get_num fixed [] = None"
| "get_num fixed (c # cs) = (if \<not> is_digit c then None
     else (case cs of
        d # rest \<Rightarrow> if is_digit d then Some (digits [c, d], rest) else if fixed then None else Some (digits [c], cs)
      | [] \<Rightarrow> if fixed then None else Some (digits [c], cs)))"

fun expect :: "char \<Rightarrow> gstring \<Rightarrow> gstring option" where
  "expect c [] = None"
| "expect c (d # ds) = (if d = c then Some ds else None)"

definition get_fraction :: "gstring \<Rightarrow> int \<times> gstring" where
  "get_fraction s = (case s of
     c # d # rest \<Rightarrow> if (c = CHR ''.'' \<or> c = CHR '','') \<and> is_digit d
       then let ds = takeWhile is_digit (d # rest); nine = take 9 ds in
         (digits nine * 10 ^ (9 - length nine), dropWhile is_digit (d # rest))
       else (0, s)
   | _ \<Rightarrow> (0, s))"

definition is_leap :: "int \<Rightarrow> bool" where
  "is_leap y \<longleftrightarrow> y mod 4 = 0 \<and> (y mod 100 \<noteq> 0 \<or> y mod 400 = 0)"

definition month_days :: "int \<Rightarrow> int list" where
  "month_days y = [31, if is_leap y then 29 else 28, 31, 30, 31, 30, 31, 31, 30, 31, 30, 31]"

text \<open>\<^verbatim>\<open>time.Date\<close> in UTC, as nanoseconds since the zero time.\<close>

definition go_date :: "int \<Rightarrow> int \<Rightarrow> int \<Rightarrow> int \<Rightarrow> int \<Rightarrow> int \<Rightarrow> int \<Rightarrow> go_time" where
  "go_date y m d h mi s ns =
     (let p = y - 1; days = 365 * p + p div 4 - p div 100 + p div 400 + sum_list (take (nat (m - 1)) (month_days y)) + (d - 1) in
      (((days * 24 + h) * 60 + mi) * 60 + s) * 1000000000 + ns)"

definition parse_layout :: "gstring \<Rightarrow> go_time option" where
  "parse_layout v =
     Option.bind (get_year v) (\<lambda>(y, v).
     Option.bind (expect (CHR ''-'') v) (\<lambda>v.
     Option.bind (get_num True v) (\<lambda>(m, v).
     Option.bind (expect (CHR ''-'') v) (\<lambda>v.
     Option.bind (get_num True v) (\<lambda>(d, v).
     Option.bind (expect (CHR ''T'') v) (\<lambda>v.
     Option.bind (get_num False v) (\<lambda>(h, v).
     Option.bind (expect (CHR '':'') v) (\<lambda>v.
     Option.bind (get_num True v) (\<lambda>(mi, v).
     Option.bind (expect (CHR '':'') v) (\<lambda>v.
     Option.bind (get_num True v) (\<lambda>(s, v).
     case get_fraction v of (ns, v) \<Rightarrow>
     if v = [] \<and> 1 \<le> m \<and> m \<le> 12 \<and> h < 24 \<and> mi < 60 \<and> s < 60 \<and> 1 \<le> d \<and> d \<le> month_days y ! nat (m - 1)
     then Some (go_date y m d h mi s ns) else None)))))))))))"

definition clean :: "gstring \<Rightarrow> gstring" where
  "clean s = trim_space s"

definition upper :: "gstring \<Rightarrow> gstring" where
  "upper s = to_upper (trim_space s)"

definition parse_date :: "gstring \<Rightarrow> gstring \<Rightarrow> cfdi_error + go_time" where
  "parse_date v attribute = (let v = clean v in
     if v = [] then Inr 0
     else (case parse_layout v of Some t \<Rightarrow> Inr t
       | None \<Rightarrow> Inl (cfdi_failure InvalidCFDI (attribute @ '' is not a valid CFDI date''))))"

section \<open>The invoice\<close>

text \<open>Sixteen bytes of the value; a character cut in two is dropped.\<close>

fun cut :: "nat \<Rightarrow> gstring \<Rightarrow> gstring" where
  "cut n [] = []"
| "cut n (c # cs) = (if byte_len [c] \<le> n then c # cut (n - byte_len [c]) cs else [])"

definition quote :: "gstring \<Rightarrow> gstring" where
  "quote v = (if v = [] then ''(missing)''
     else CHR 0x22 # map (\<lambda>c. if c = CHR 0x0A then CHR '' '' else c) (cut 16 v) @ [CHR 0x22])"

definition supportedVersion :: gstring where "supportedVersion = ''4.0''"

definition map_taxes :: "tax list \<Rightarrow> tax list" where
  "map_taxes ts = map (\<lambda>t. \<lparr>tx_base = clean (tx_base t), tx_tax = clean (tx_tax t), tx_factor = clean (tx_factor t),
     tx_rate = clean (tx_rate t), tx_amount = clean (tx_amount t)\<rparr>) ts"

definition map_concept :: "concept \<Rightarrow> concept" where
  "map_concept c = \<lparr>cn_code = clean (cn_code c), cn_item = clean (cn_item c), cn_quantity = clean (cn_quantity c),
     cn_unit_code = clean (cn_unit_code c), cn_unit = clean (cn_unit c), cn_description = clean (cn_description c),
     cn_unit_price = clean (cn_unit_price c), cn_amount = clean (cn_amount c), cn_discount = clean (cn_discount c),
     cn_tax_object = clean (cn_tax_object c), cn_taxes = \<lparr>ct_transferred = map_taxes (ct_transferred (cn_taxes c)),
       ct_withheld = map_taxes (ct_withheld (cn_taxes c))\<rparr>\<rparr>"

definition map_receiver :: "receiver option \<Rightarrow> receiver" where
  "map_receiver r = (case r of None \<Rightarrow> \<lparr>rv_tax_id = [], rv_name = [], rv_postal = [], rv_regime = [], rv_use = [],
       rv_residence = [], rv_foreign = []\<rparr>
     | Some r \<Rightarrow> \<lparr>rv_tax_id = upper (rv_tax_id r), rv_name = clean (rv_name r), rv_postal = clean (rv_postal r),
       rv_regime = clean (rv_regime r), rv_use = clean (rv_use r), rv_residence = clean (rv_residence r),
       rv_foreign = clean (rv_foreign r)\<rparr>)"

fun map_stamp :: "gstring stamp option \<Rightarrow> cfdi_error + go_time stamp option" where
  "map_stamp None = Inr None"
| "map_stamp (Some s) = bindr (parse_date (st_at s) ''FechaTimbrado'') (\<lambda>stampedAt. Inr (Some
     \<lparr>st_version = clean (st_version s), st_uuid = upper (st_uuid s), st_at = stampedAt, st_provider = upper (st_provider s),
      st_legend = clean (st_legend s), st_seal = clean (st_seal s), st_certificate = clean (st_certificate s),
      st_sat_seal = clean (st_sat_seal s)\<rparr>))"

definition map_invoice :: "xml_comprobante \<Rightarrow> issuer \<Rightarrow> go_time \<Rightarrow> go_time stamp option \<Rightarrow> invoice" where
  "map_invoice r i issuedAt stamp = \<lparr>vo_version = supportedVersion, vo_series = clean (vo_series r), vo_folio = clean (vo_folio r), vo_date = issuedAt,
     vo_seal = clean (vo_seal r), vo_payment_form = clean (vo_payment_form r),
     vo_certificate_number = clean (vo_certificate_number r), vo_certificate = clean (vo_certificate r),
     vo_conditions = clean (vo_conditions r), vo_subtotal = clean (vo_subtotal r), vo_discount = clean (vo_discount r),
     vo_currency = clean (vo_currency r), vo_exchange_rate = clean (vo_exchange_rate r), vo_total = clean (vo_total r),
     vo_type = clean (vo_type r), vo_export = clean (vo_export r), vo_method = clean (vo_method r),
     vo_place = clean (vo_place r), vo_confirmation = clean (vo_confirmation r),
     vo_related = map (\<lambda>g. \<lparr>rl_type = clean (rl_type g), rl_uuids = map upper (rl_uuids g)\<rparr>) (vo_related r),
     vo_concepts = map map_concept (vo_concepts r),
     vo_taxes = \<lparr>ct_transferred = map_taxes (ct_transferred (vo_taxes r)), ct_withheld = map_taxes (ct_withheld (vo_taxes r)),
       ct_total_transferred = clean (ct_total_transferred (vo_taxes r)), ct_total_withheld = clean (ct_total_withheld (vo_taxes r))\<rparr>,
     vo_stamp = stamp,
     iv_issuer = \<lparr>is_tax_id = upper (is_tax_id i), is_name = clean (is_name i), is_regime = clean (is_regime i)\<rparr>,
     iv_receiver = map_receiver (xc_receiver r)\<rparr>"

definition toInvoice :: "xml_comprobante \<Rightarrow> cfdi_error + invoice" where
  "toInvoice r =
     (if clean (vo_version r) \<noteq> supportedVersion
      then Inl (cfdi_failure UnsupportedVersion (''unsupported CFDI version '' @ quote (clean (vo_version r))))
      else (case xc_issuer r of
        None \<Rightarrow> Inl (cfdi_failure InvalidCFDI ''Emisor Rfc is missing'')
      | Some i \<Rightarrow> if clean (is_tax_id i) = [] then Inl (cfdi_failure InvalidCFDI ''Emisor Rfc is missing'')
          else bindr (parse_date (vo_date r) ''Fecha'') (\<lambda>issuedAt.
            bindr (map_stamp (vo_stamp r)) (\<lambda>stamp.
            Inr (map_invoice r i issuedAt stamp)))))"

section \<open>Parsing\<close>

text \<open>The loop over the tokens before the root element; \<open>None\<close> is a loop that does not end.\<close>

partial_function (option) firstElement ::
  "'s xml_decoder \<Rightarrow> 's \<Rightarrow> ((cfdi_error + xml_name \<times> xml_attrs) \<times> 's) option" where
  "firstElement X dec = (case xd_token X dec of
     (Inl EndOfFile, dec') \<Rightarrow> Some (Inl (cfdi_failure InvalidXML ''invalid XML: no root element''), dec')
   | (Inl (SyntaxError e), dec') \<Rightarrow> Some (Inl (cfdi_failure InvalidXML (''invalid XML: '' @ e)), dec')
   | (Inr (StartElement n attrs), dec') \<Rightarrow> Some (Inr (n, attrs), dec')
   | (Inr OtherToken, dec') \<Rightarrow> firstElement X dec')"

declare firstElement.simps [code]

definition utf8BOM :: "char list" where
  "utf8BOM = [CHR 0xEF, CHR 0xBB, CHR 0xBF]"

definition trim_data :: "char list \<Rightarrow> char list" where
  "trim_data data = dropWhile (\<lambda>c. c \<in> {CHR '' '', CHR 0x09, CHR 0x0D, CHR 0x0A})
     (if take 3 data = utf8BOM then drop 3 data else data)"

definition Parse :: "'s xml_decoder \<Rightarrow> char list \<Rightarrow> (cfdi_error + invoice) option" where
  "Parse X data = (case firstElement X (xd_new X (trim_data data)) of
     None \<Rightarrow> None
   | Some (Inl e, dec) \<Rightarrow> Some (Inl e)
   | Some (Inr (n, attrs), dec) \<Rightarrow> Some (
       if xn_space n \<noteq> nsCFDI \<or> xn_local n \<noteq> ''Comprobante''
       then Inl (cfdi_failure NotCFDI ''document is not a CFDI 4.0 Comprobante'')
       else (case xd_element X dec n attrs of
         Inl e \<Rightarrow> Inl (cfdi_failure InvalidXML (''invalid XML: '' @ e))
       | Inr (Element m root kids) \<Rightarrow> toInvoice (decode_comprobante root kids))))"

end
