(* ===== verification/PurchaseService.thy ===== *)
theory PurchaseService
  imports PurchaseViews SupplierService Cfdi
begin

text \<open>
  The purchase use cases (\<^verbatim>\<open>internal/modules/purchases/app\<close>) over two ports given as records of
  operations: \<^verbatim>\<open>domain.Repository\<close> and \<^verbatim>\<open>SupplierDirectory\<close>. The invoice parser is \<open>Cfdi.Parse\<close>; the
  digest of the document (\<^verbatim>\<open>crypto/sha256\<close> in hexadecimal) is the parameter \<open>digest\<close>, the clock
  \<open>now\<close>. A value returned beside an error is not kept.
\<close>

section \<open>Ports\<close>

record ('s, 'd) purchase_repo =
  pr_import :: "'d purchase_draft \<Rightarrow> ('s, go_error, 'd import_result) action"
  pr_get :: "int \<Rightarrow> ('s, go_error, 'd purchase) action"
  pr_get_by_uuid :: "gstring \<Rightarrow> ('s, go_error, 'd purchase) action"
  pr_lines :: "int \<Rightarrow> ('s, go_error, 'd purchase_line list) action"
  pr_workbench :: "workbench_criteria \<Rightarrow> ('s, go_error, 'd workbench_row list) action"
  pr_by_supplier :: "int \<Rightarrow> int \<Rightarrow> int \<Rightarrow> ('s, go_error, 'd purchase list) action"
  pr_product :: "int \<Rightarrow> ('s, go_error, supplier_product) action"
  pr_find_product :: "int \<Rightarrow> gstring \<Rightarrow> ('s, go_error, supplier_product) action"
  pr_products :: "int \<Rightarrow> int \<Rightarrow> int \<Rightarrow> ('s, go_error, supplier_product list) action"
  pr_override :: "int \<Rightarrow> gstring \<Rightarrow> revision \<Rightarrow> decision_metadata \<Rightarrow> ('s, go_error, 'd purchase_line) action"
  pr_resolve :: "resolve_command \<Rightarrow> ('s, go_error, 'd resolve_result) action"
  pr_history :: "int \<Rightarrow> int \<Rightarrow> int \<Rightarrow> ('s, go_error, 'd line_history list) action"
  pr_mapping :: "int \<Rightarrow> mapping_command \<Rightarrow> revision \<Rightarrow> decision_metadata \<Rightarrow> ('s, go_error, supplier_product) action"
  pr_mapping_audit :: "int \<Rightarrow> int \<Rightarrow> int \<Rightarrow> ('s, go_error, mapping_audit_entry list) action"

record 's supplier_directory =
  sd_by_tax :: "gstring \<Rightarrow> ('s, go_error, supplier) action"
  sd_create :: "supplier_details \<Rightarrow> ('s, go_error, supplier) action"
  sd_branch :: "int \<Rightarrow> int \<Rightarrow> ('s, go_error, branch) action"

text \<open>The two modules: the purchase repository on the database, and the supplier service beside it.\<close>

definition purchase_repository ::
  "'d decimal_ops \<Rightarrow> sql_faults \<Rightarrow> bool \<Rightarrow> int \<Rightarrow> (gstring \<Rightarrow> gstring \<Rightarrow> bool) \<Rightarrow> (gstring \<Rightarrow> gstring)
     \<Rightarrow> ('x purchase_db_scheme, 'd) purchase_repo" where
  "purchase_repository D F applied now ilike coll = \<lparr>
     pr_import = Import D F applied now, pr_get = GetPurchase D F, pr_get_by_uuid = GetPurchaseByUUID D F,
     pr_lines = ListPurchaseLines D F, pr_workbench = ListPurchaseLinesWorkbench D F ilike,
     pr_by_supplier = ListPurchasesBySupplier D F, pr_product = GetSupplierProduct F,
     pr_find_product = FindSupplierProduct F, pr_products = ListSupplierProducts F coll,
     pr_override = SetResolutionOverride D F applied, pr_resolve = ResolvePurchaseLine D F applied now,
     pr_history = ListPurchaseLinesByResource D F, pr_mapping = store_mapping F applied now,
     pr_mapping_audit = ListMappingAudit F\<rparr>"

definition directory_of :: "'s supplier_repo \<Rightarrow> 's supplier_directory" where
  "directory_of R = \<lparr>sd_by_tax = get_supplier_by_tax R, sd_create = create_supplier R, sd_branch = get_branch R\<rparr>"

definition pur_valid_id :: "gstring \<Rightarrow> int \<Rightarrow> go_error option" where
  "pur_valid_id field i = (if i \<le> 0 then Some (PurFieldError field ''must be positive'') else None)"

section \<open>Reading\<close>

definition get_purchase :: "('s, 'd) purchase_repo \<Rightarrow> int \<Rightarrow> ('s, go_error, 'd purchase) action" where
  "get_purchase R i = bnd (require (pur_valid_id ''purchase_id'' i)) (\<lambda>_. wrapped ''get purchase'' (pr_get R i))"

definition get_purchase_by_uuid :: "('s, 'd) purchase_repo \<Rightarrow> gstring \<Rightarrow> ('s, go_error, 'd purchase) action" where
  "get_purchase_by_uuid R uuid = wrapped ''get purchase by uuid'' (pr_get_by_uuid R uuid)"

definition list_purchase_lines :: "('s, 'd) purchase_repo \<Rightarrow> int \<Rightarrow> ('s, go_error, 'd purchase_line list) action" where
  "list_purchase_lines R i = bnd (require (pur_valid_id ''purchase_id'' i)) (\<lambda>_. wrapped ''list purchase lines'' (pr_lines R i))"

definition list_workbench :: "('s, 'd) purchase_repo \<Rightarrow> workbench_criteria \<Rightarrow> ('s, go_error, 'd workbench_row list) action" where
  "list_workbench R c = wrapped ''list purchase lines workbench'' (pr_workbench R c)"

definition list_purchases_by_supplier ::
  "('s, 'd) purchase_repo \<Rightarrow> int \<Rightarrow> int \<Rightarrow> int \<Rightarrow> ('s, go_error, 'd purchase list) action" where
  "list_purchases_by_supplier R s lim off = bnd (require (pur_valid_id ''supplier_id'' s)) (\<lambda>_.
     wrapped ''list purchases by supplier'' (pr_by_supplier R s lim off))"

definition get_supplier_product :: "('s, 'd) purchase_repo \<Rightarrow> int \<Rightarrow> ('s, go_error, supplier_product) action" where
  "get_supplier_product R i = bnd (require (pur_valid_id ''supplier_product_id'' i)) (\<lambda>_.
     wrapped ''get supplier product'' (pr_product R i))"

definition find_supplier_product :: "('s, 'd) purchase_repo \<Rightarrow> int \<Rightarrow> gstring \<Rightarrow> ('s, go_error, supplier_product) action" where
  "find_supplier_product R s sku = bnd (require (pur_valid_id ''supplier_id'' s)) (\<lambda>_.
     wrapped ''find supplier product'' (pr_find_product R s sku))"

definition list_supplier_products ::
  "('s, 'd) purchase_repo \<Rightarrow> int \<Rightarrow> int \<Rightarrow> int \<Rightarrow> ('s, go_error, supplier_product list) action" where
  "list_supplier_products R s lim off = bnd (require (pur_valid_id ''supplier_id'' s)) (\<lambda>_.
     wrapped ''list supplier products'' (pr_products R s lim off))"

definition list_lines_by_resource ::
  "('s, 'd) purchase_repo \<Rightarrow> int \<Rightarrow> int \<Rightarrow> int \<Rightarrow> ('s, go_error, 'd line_history list) action" where
  "list_lines_by_resource R r lim off = bnd (require (pur_valid_id ''resource_id'' r)) (\<lambda>_.
     wrapped ''list purchase lines by resource'' (pr_history R r lim off))"

definition list_mapping_audit ::
  "('s, 'd) purchase_repo \<Rightarrow> int \<Rightarrow> int \<Rightarrow> int \<Rightarrow> ('s, go_error, mapping_audit_entry list) action" where
  "list_mapping_audit R i lim off = bnd (require (pur_valid_id ''supplier_product_id'' i)) (\<lambda>_.
     wrapped ''list supplier product mapping audit'' (pr_mapping_audit R i lim off))"

section \<open>Decisions\<close>

text \<open>Confirm, Correct and ResolveIdentityConflict also check the resource they name.\<close>

fun mapping_checks :: "mapping_command \<Rightarrow> go_error option" where
  "mapping_checks (Confirm r) = pur_valid_id ''resource_id'' r"
| "mapping_checks (Correct c r) = pur_valid_id ''resource_id'' r"
| "mapping_checks (ResolveConflict c r) = pur_valid_id ''resource_id'' r"
| "mapping_checks _ = None"

fun mapping_name :: "mapping_command \<Rightarrow> gstring" where
  "mapping_name (Confirm r) = ''confirm supplier product mapping''"
| "mapping_name (Correct c r) = ''correct supplier product mapping''"
| "mapping_name (Unlink c) = ''exceptionally unlink supplier product mapping''"
| "mapping_name (ReportConflict c) = ''report supplier product identity conflict''"
| "mapping_name (ResolveConflict c r) = ''resolve supplier product identity conflict''"

definition change_mapping ::
  "('s, 'd) purchase_repo \<Rightarrow> int \<Rightarrow> mapping_command \<Rightarrow> revision \<Rightarrow> decision_metadata \<Rightarrow> ('s, go_error, supplier_product) action" where
  "change_mapping R i c expected d = bnd (require (pur_valid_id ''supplier_product_id'' i)) (\<lambda>_.
     bnd (require (mapping_checks c)) (\<lambda>_. wrapped (mapping_name c) (pr_mapping R i c expected d)))"

definition set_override ::
  "('s, 'd) purchase_repo \<Rightarrow> go_time \<Rightarrow> int \<Rightarrow> gstring \<Rightarrow> revision \<Rightarrow> gstring \<Rightarrow> gstring \<Rightarrow> ('s, go_error, 'd purchase_line) action" where
  "set_override R now lineID override expected actor reason =
     bnd (require (pur_valid_id ''purchase_line_id'' lineID)) (\<lambda>_.
     if \<not> ValidOverride override
     then fail (PurFieldError ''resolution_override'' ''must be NONE, NO_APLICA, or CONFLICTO'')
     else if trim_space actor = [] then fail (PurFieldError ''actor'' ''is required'')
     else if trim_space reason = [] then fail (PurFieldError ''reason'' ''is required'')
     else wrapped ''set purchase line resolution override'' (pr_override R lineID override expected
       \<lparr>dm_actor = trim_space actor, dm_origin = MappingOriginManual, dm_reason = trim_space reason, dm_at = now\<rparr>))"

text \<open>The snapshot of the line a resolution must name: without a product, a SKU and no mapping revision;
  with one, its revision and no SKU.\<close>

definition resolve_checks :: "resolve_command \<Rightarrow> go_error option" where
  "resolve_checks c =
     (case rc_product c of
        None \<Rightarrow> if rc_mapping_revision c \<noteq> None then Some (pur_error ErrPurchaseLineStateConflict)
          else if trim_space (rc_sku c) = [] then Some (pur_error ErrCommercialSupplierSKURequired) else None
      | Some p \<Rightarrow> if p \<le> 0 then pur_valid_id ''expected_supplier_product_id'' p
          else if rc_mapping_revision c = None then Some (pur_error ErrPurchaseLineStateConflict)
          else if trim_space (rc_sku c) \<noteq> [] then Some (pur_error ErrCommercialSupplierSKUForbidden) else None)"

definition resolve_purchase_line ::
  "('s, 'd) purchase_repo \<Rightarrow> go_time \<Rightarrow> resolve_command \<Rightarrow> ('s, go_error, 'd resolve_result) action" where
  "resolve_purchase_line R now c =
     bnd (require (pur_valid_id ''purchase_line_id'' (rc_line c))) (\<lambda>_.
     bnd (require (pur_valid_id ''resource_id'' (rc_resource c))) (\<lambda>_.
     bnd (require (resolve_checks c)) (\<lambda>_.
     if trim_space (rc_actor c) = [] then fail (PurFieldError ''actor'' ''is required'')
     else wrapped ''resolve purchase line'' (pr_resolve R (c\<lparr>rc_sku := trim_space (rc_sku c),
       rc_decision := \<lparr>dm_actor = rc_actor c, dm_origin = MappingOriginManual, dm_reason = trim_space (rc_reason c), dm_at = now\<rparr>\<rparr>)))))"

section \<open>Importing an invoice\<close>

definition parseDecimal :: "'d decimal_ops \<Rightarrow> gstring \<Rightarrow> gstring \<Rightarrow> go_error + 'd" where
  "parseDecimal D field raw = (let raw = trim_space raw in
     if raw = [] then Inr (dec_zero D)
     else (case dec_parse D raw of Some v \<Rightarrow> Inr v | None \<Rightarrow> Inl (PurFieldError field ''is not a valid decimal amount'')))"

definition parseOptionalDecimal :: "'d decimal_ops \<Rightarrow> gstring \<Rightarrow> gstring \<Rightarrow> go_error + 'd option" where
  "parseOptionalDecimal D field raw = (let raw = trim_space raw in
     if raw = [] then Inr None
     else (case dec_parse D raw of Some v \<Rightarrow> Inr (Some v) | None \<Rightarrow> Inl (PurFieldError field ''is not a valid decimal amount'')))"

fun sum_from :: "'d decimal_ops \<Rightarrow> gstring \<Rightarrow> 'd \<Rightarrow> tax list \<Rightarrow> go_error + 'd" where
  "sum_from D field acc [] = Inr acc"
| "sum_from D field acc (t # ts) = bindr (parseDecimal D field (tx_amount t)) (\<lambda>a. sum_from D field (dec_add D acc a) ts)"

definition sumTaxes :: "'d decimal_ops \<Rightarrow> gstring \<Rightarrow> tax list \<Rightarrow> go_error + 'd" where
  "sumTaxes D field ts = sum_from D field (dec_zero D) ts"

definition buildLineDraft :: "'d decimal_ops \<Rightarrow> int \<Rightarrow> concept \<Rightarrow> go_error + 'd line_draft" where
  "buildLineDraft D n c =
     bindr (parseDecimal D ''lines.quantity'' (cn_quantity c)) (\<lambda>quantity.
     bindr (parseDecimal D ''lines.unit_price'' (cn_unit_price c)) (\<lambda>unitPrice.
     bindr (parseDecimal D ''lines.amount'' (cn_amount c)) (\<lambda>amount.
     bindr (parseDecimal D ''lines.discount'' (cn_discount c)) (\<lambda>discount.
     bindr (sumTaxes D ''lines.tax_transferred'' (ct_transferred (cn_taxes c))) (\<lambda>transferred.
     bindr (sumTaxes D ''lines.tax_withheld'' (ct_withheld (cn_taxes c))) (\<lambda>withheld.
     Inr \<lparr>ld_number = n, ld_description = cn_description c, ld_sku = cn_item c, ld_sat_code = cn_code c, ld_quantity = quantity,
       ld_unit_code = cn_unit_code c, ld_unit = cn_unit c, ld_unit_price = unitPrice, ld_amount = amount, ld_discount = discount,
       ld_tax_transferred = transferred, ld_tax_withheld = withheld, ld_tax_object = cn_tax_object c\<rparr>))))))"

fun build_lines :: "'d decimal_ops \<Rightarrow> int \<Rightarrow> concept list \<Rightarrow> go_error + 'd line_draft list" where
  "build_lines D i [] = Inr []"
| "build_lines D i (c # cs) = bindr (buildLineDraft D (i + 1) c) (\<lambda>l. bindr (build_lines D (i + 1) cs) (\<lambda>ls. Inr (l # ls)))"

text \<open>A document without stamp never gets here; dereferencing its stamp would panic.\<close>

definition buildPurchaseDraft ::
  "'d decimal_ops \<Rightarrow> (char list \<Rightarrow> gstring) \<Rightarrow> invoice \<Rightarrow> char list \<Rightarrow> int \<Rightarrow> int option \<Rightarrow> gstring \<Rightarrow> go_error + 'd purchase_draft" where
  "buildPurchaseDraft D digest invoice xml supplierID branchID filename =
     bindr (parseDecimal D ''subtotal'' (vo_subtotal invoice)) (\<lambda>subtotal.
     bindr (parseDecimal D ''discount'' (vo_discount invoice)) (\<lambda>discount.
     bindr (parseDecimal D ''tax_transferred'' (ct_total_transferred (vo_taxes invoice))) (\<lambda>transferred.
     bindr (parseDecimal D ''tax_withheld'' (ct_total_withheld (vo_taxes invoice))) (\<lambda>withheld.
     bindr (parseDecimal D ''total'' (vo_total invoice)) (\<lambda>total.
     bindr (parseOptionalDecimal D ''exchange_rate'' (vo_exchange_rate invoice)) (\<lambda>rate.
     bindr (build_lines D 0 (vo_concepts invoice)) (\<lambda>lines.
     case vo_stamp invoice of None \<Rightarrow> Inl (Panic ''nil pointer dereference'') | Some stamp \<Rightarrow>
     NewPurchaseDraft D \<lparr>pd_party = \<lparr>pp_supplier = supplierID, pp_branch = branchID\<rparr>, pd_uuid = st_uuid stamp,
       pd_series = vo_series invoice, pd_folio = vo_folio invoice, pd_issued = vo_date invoice, pd_currency = vo_currency invoice,
       pd_exchange_rate = rate, pd_subtotal = subtotal, pd_discount = discount, pd_tax_transferred = transferred,
       pd_tax_withheld = withheld, pd_total = total, pd_issuer_tax_id = is_tax_id (iv_issuer invoice),
       pd_issuer_name = is_name (iv_issuer invoice),
       pd_xml = \<lparr>xd_content = xml, xd_hash = digest xml, xd_filename = filename\<rparr>, pd_lines = lines\<rparr>)))))))"

text \<open>The supplier of the invoice is looked up, registered when it is unknown, and looked up again when
  another import registered it in between.\<close>

definition resolveSupplier :: "'s supplier_directory \<Rightarrow> gstring \<Rightarrow> gstring \<Rightarrow> ('s, go_error, int) action" where
  "resolveSupplier S taxID name = (let taxID = to_upper (trim_space taxID) in
     if taxID = [] then fail (PurFieldError ''issuer_tax_id'' ''is required'')
     else bnd (attempt (sd_by_tax S taxID)) (\<lambda>r. case r of
       Inr s \<Rightarrow> ret (su_id s)
     | Inl e \<Rightarrow> if \<not> error_is e (Sup SupErrNotFound) then fail e
         else bnd (attempt (sd_create S \<lparr>su_trade = [], su_legal = name, su_tax = taxID, su_website = [], su_notes = []\<rparr>)) (\<lambda>c. case c of
           Inr s \<Rightarrow> ret (su_id s)
         | Inl e \<Rightarrow> if \<not> error_is e (Sup SupErrConflict) then fail e
             else bnd (sd_by_tax S taxID) (\<lambda>s. ret (su_id s)))))"

definition resolve_branch :: "'s supplier_directory \<Rightarrow> int \<Rightarrow> int \<Rightarrow> ('s, go_error, int option) action" where
  "resolve_branch S supplierID branchID =
     (if 0 < branchID then bnd (wrapped ''resolve purchase branch'' (sd_branch S supplierID branchID)) (\<lambda>b. ret (Some (bh_id b)))
      else ret None)"

record import_options =
  io_branch :: int
  io_filename :: gstring

text \<open>\<open>None\<close> is an import that does not return because its parser does not.\<close>

definition import_cfdi ::
  "'d decimal_ops \<Rightarrow> (char list \<Rightarrow> gstring) \<Rightarrow> 'x xml_decoder \<Rightarrow> ('s, 'd) purchase_repo \<Rightarrow> 's supplier_directory
     \<Rightarrow> char list \<Rightarrow> import_options \<Rightarrow> ('s, go_error, 'd import_result) action option" where
  "import_cfdi D digest X R S xml opts =
     (if xml = [] then Some (fail (PurFieldError ''xml_content'' ''is required''))
      else (case Parse X xml of
        None \<Rightarrow> None
      | Some (Inl e) \<Rightarrow> Some (fail (PurFieldError ''xml_content'' (''not a usable CFDI 4.0 document: '' @ ce_message e)))
      | Some (Inr invoice) \<Rightarrow> Some (
          if (case vo_stamp invoice of None \<Rightarrow> True | Some s \<Rightarrow> trim_space (st_uuid s) = [])
          then fail (PurFieldError ''cfdi_uuid'' ''document carries no fiscal stamp (TimbreFiscalDigital)'')
          else bnd (wrapped ''resolve purchase supplier'' (resolveSupplier S (is_tax_id (iv_issuer invoice)) (is_name (iv_issuer invoice)))) (\<lambda>supplierID.
            bnd (resolve_branch S supplierID (io_branch opts)) (\<lambda>branchID.
            bnd (lift (buildPurchaseDraft D digest invoice xml supplierID branchID (io_filename opts))) (\<lambda>draft.
            wrapped ''import purchase'' (pr_import R draft)))))))"

end
