(* ===== verification/CfdiTheorems.thy ===== *)
theory CfdiTheorems
  imports Cfdi
begin

text \<open>
  The reader of invoices returns on every document, and what it returns is canonical.
\<close>

section \<open>Canonical invoices\<close>

definition trimmed :: "gstring \<Rightarrow> bool" where
  "trimmed s \<longleftrightarrow> clean s = s"

definition uppercased :: "gstring \<Rightarrow> bool" where
  "uppercased s \<longleftrightarrow> upper s = s"

definition tax_wf :: "tax \<Rightarrow> bool" where
  "tax_wf t \<longleftrightarrow> trimmed (tx_base t) \<and> trimmed (tx_tax t) \<and> trimmed (tx_factor t) \<and> trimmed (tx_rate t) \<and> trimmed (tx_amount t)"

definition concept_wf :: "concept \<Rightarrow> bool" where
  "concept_wf c \<longleftrightarrow> list_all trimmed [cn_code c, cn_item c, cn_quantity c, cn_unit_code c, cn_unit c, cn_description c,
     cn_unit_price c, cn_amount c, cn_discount c, cn_tax_object c]
     \<and> list_all tax_wf (ct_transferred (cn_taxes c)) \<and> list_all tax_wf (ct_withheld (cn_taxes c))"

definition stamp_wf :: "go_time stamp \<Rightarrow> bool" where
  "stamp_wf s \<longleftrightarrow> uppercased (st_uuid s) \<and> uppercased (st_provider s)
     \<and> list_all trimmed [st_version s, st_legend s, st_seal s, st_certificate s, st_sat_seal s]"

definition invoice_wf :: "invoice \<Rightarrow> bool" where
  "invoice_wf i \<longleftrightarrow> vo_version i = supportedVersion \<and> uppercased (is_tax_id (iv_issuer i)) \<and> is_tax_id (iv_issuer i) \<noteq> []
     \<and> uppercased (rv_tax_id (iv_receiver i))
     \<and> list_all trimmed [vo_series i, vo_folio i, vo_subtotal i, vo_discount i, vo_currency i, vo_exchange_rate i, vo_total i,
         is_name (iv_issuer i), ct_total_transferred (vo_taxes i), ct_total_withheld (vo_taxes i)]
     \<and> list_all concept_wf (vo_concepts i) \<and> list_all tax_wf (ct_transferred (vo_taxes i)) \<and> list_all tax_wf (ct_withheld (vo_taxes i))
     \<and> list_all (\<lambda>g. list_all uppercased (rl_uuids g)) (vo_related i) \<and> pred_option stamp_wf (vo_stamp i)"

lemma clean_trimmed [simp]: "trimmed (clean s)"
  by (simp add: trimmed_def clean_def)

lemma upper_uppercased [simp]: "uppercased (upper s)"
  by (simp add: uppercased_def upper_def trim_upper)

lemma blank_trimmed [simp]: "trimmed []" "uppercased []"
  by (simp_all add: trimmed_def uppercased_def clean_def upper_def trim_space_def to_upper_def)

lemma map_taxes_wf [simp]: "list_all tax_wf (map_taxes ts)"
  by (simp add: map_taxes_def list_all_iff tax_wf_def)

lemma map_concept_wf [simp]: "concept_wf (map_concept c)"
  by (simp add: map_concept_def concept_wf_def)

lemma map_stamp_wf: "map_stamp s = Inr s' \<Longrightarrow> pred_option stamp_wf s'"
  by (cases s) (auto simp: bindr_Inr_iff stamp_wf_def)

lemma toInvoice_wf:
  assumes "toInvoice r = Inr i"
  shows "invoice_wf i"
proof -
  from assms obtain j issuedAt stamp where j: "xc_issuer r = Some j" "clean (is_tax_id j) \<noteq> []" and st: "map_stamp (vo_stamp r) = Inr stamp"
      and i: "i = map_invoice r j issuedAt stamp"
    by (auto simp: toInvoice_def bindr_Inr_iff split: if_splits option.splits)
  have "upper (is_tax_id j) \<noteq> []" using j(2) by (simp add: upper_def clean_def to_upper_def)
  moreover have "pred_option stamp_wf stamp" using st by (rule map_stamp_wf)
  moreover have "list_all concept_wf (map map_concept cs)" for cs by (simp add: list_all_iff)
  moreover have "list_all (\<lambda>g. list_all uppercased (rl_uuids g)) (map (\<lambda>g. \<lparr>rl_type = clean (rl_type g), rl_uuids = map upper (rl_uuids g)\<rparr>) gs)" for gs
    by (simp add: list_all_iff)
  moreover have "uppercased (rv_tax_id (map_receiver rc))" for rc by (cases rc) (simp_all add: map_receiver_def)
  ultimately show ?thesis by (simp add: i invoice_wf_def map_invoice_def)
qed

section \<open>Termination\<close>

lemma firstElement_returns:
  fixes remaining :: "'s \<Rightarrow> nat"
  assumes progress: "\<And>s t s'. xd_token X s = (Inr t, s') \<Longrightarrow> remaining s' < remaining s"
  shows "firstElement X s \<noteq> None"
proof (induction s rule: measure_induct_rule[of remaining])
  case (less s)
  obtain r s' where t: "xd_token X s = (r, s')" by (cases "xd_token X s")
  show ?case
  proof (cases "r = Inr OtherToken")
    case True
    have "firstElement X s' \<noteq> None" by (rule less, rule progress[of s OtherToken]) (simp add: t True)
    then show ?thesis by (subst firstElement.simps) (simp add: t True)
  next
    case False
    then show ?thesis
      by (subst firstElement.simps) (auto simp: t split: sum.split xml_fault.split xml_token.split)
  qed
qed

text \<open>C38: if every token consumes input, the reader returns on every document, and what it accepts is
  canonical: version 4.0, a non-blank upper-case issuer, texts without surrounding white space, upper-case
  fiscal identifiers.\<close>

theorem parse_total:
  fixes remaining :: "'s \<Rightarrow> nat"
  assumes progress: "\<And>s t s'. xd_token X s = (Inr t, s') \<Longrightarrow> remaining s' < remaining s"
  shows "\<exists>r. Parse X data = Some r \<and> (\<forall>i. r = Inr i \<longrightarrow> invoice_wf i)"
proof -
  obtain e dec where f: "firstElement X (xd_new X (trim_data data)) = Some (e, dec)"
    using firstElement_returns[of X remaining, OF progress] by fastforce
  show ?thesis
    using toInvoice_wf by (auto simp: Parse_def f split: sum.split prod.split xml_node.split)
qed

section \<open>A document\<close>

text \<open>A decoder of documents that are already token lists: comments, then the root element.\<close>

definition cfdi_name :: "gstring \<Rightarrow> xml_name" where
  "cfdi_name n = \<lparr>xn_space = nsCFDI, xn_local = n\<rparr>"

definition plain_attrs :: "(gstring \<times> gstring) list \<Rightarrow> xml_attrs" where
  "plain_attrs = map (\<lambda>(n, v). (\<lparr>xn_space = [], xn_local = n\<rparr>, v))"

definition demo_comprobante :: "gstring \<Rightarrow> xml_node" where
  "demo_comprobante fecha = Element (cfdi_name ''Comprobante'')
     (plain_attrs [(''Version'', ''4.0''), (''Serie'', ''A''), (''Folio'', '' 7''), (''Fecha'', fecha), (''Moneda'', ''mxn''),
        (''SubTotal'', ''200''), (''Total'', ''232'')])
     [Element (cfdi_name ''Emisor'') (plain_attrs [(''Rfc'', '' abc010101aa1''), (''Nombre'', ''Proveedor SA'')]) [],
      Element (cfdi_name ''Conceptos'') []
        [Element (cfdi_name ''Concepto'') (plain_attrs [(''NoIdentificacion'', ''SKU-1''), (''Cantidad'', ''2''), (''Descripcion'', ''Cable''),
            (''ValorUnitario'', ''50''), (''Importe'', ''100'')])
          [Element (cfdi_name ''Impuestos'') [] [Element (cfdi_name ''Traslados'') []
            [Element (cfdi_name ''Traslado'') (plain_attrs [(''Importe'', ''16'')]) []]]],
         Element (cfdi_name ''Concepto'') (plain_attrs [(''Cantidad'', ''1''), (''Descripcion'', ''Flete''), (''ValorUnitario'', ''100''),
            (''Importe'', ''100'')]) []],
      Element (cfdi_name ''Complemento'') []
        [Element \<lparr>xn_space = nsTFD, xn_local = ''TimbreFiscalDigital''\<rparr> (plain_attrs [(''UUID'', ''uuid-1'')]) []]]"

fun demo_token :: "gstring \<Rightarrow> nat \<Rightarrow> (xml_fault + xml_token) \<times> nat" where
  "demo_token fecha 0 = (Inl EndOfFile, 0)"
| "demo_token fecha (Suc 0) = (case demo_comprobante fecha of Element n attrs _ \<Rightarrow> (Inr (StartElement n attrs), 0))"
| "demo_token fecha (Suc n) = (Inr OtherToken, n)"

definition demo_xml :: "gstring \<Rightarrow> nat xml_decoder" where
  "demo_xml fecha = \<lparr>xd_new = length, xd_token = demo_token fecha, xd_element = (\<lambda>_ _ _. Inr (demo_comprobante fecha))\<rparr>"

definition demo_fecha :: gstring where
  "demo_fecha = ''2024-02-29T10:30:00''"

definition demo_document :: "char list" where
  "demo_document = utf8BOM @ '' <?>''"

lemma demo_xml_progress: "xd_token (demo_xml fecha) s = (Inr t, s') \<Longrightarrow> s' < s"
  by (cases "(fecha, s)" rule: demo_token.cases) (simp_all add: demo_xml_def split: xml_node.splits)

theorem parse_total_witness:
  "\<exists>i. Parse (demo_xml demo_fecha) demo_document = Some (Inr i) \<and> invoice_wf i \<and> is_tax_id (iv_issuer i) = ''ABC010101AA1''
     \<and> map cn_description (vo_concepts i) = [''Cable'', ''Flete''] \<and> vo_date i = 63844799400000000000"
proof -
  obtain r where r: "Parse (demo_xml demo_fecha) demo_document = Some r" "\<forall>i. r = Inr i \<longrightarrow> invoice_wf i"
    using parse_total[where X = "demo_xml demo_fecha" and remaining = "\<lambda>n. n" and data = demo_document] demo_xml_progress by blast
  have "case Parse (demo_xml demo_fecha) demo_document of Some (Inr i) \<Rightarrow> is_tax_id (iv_issuer i) = ''ABC010101AA1''
     \<and> map cn_description (vo_concepts i) = [''Cable'', ''Flete''] \<and> vo_date i = 63844799400000000000 | _ \<Rightarrow> False"
    by code_simp
  with r show ?thesis by (auto split: sum.splits)
qed

end
