(* ===== verification/ImportTheorems.thy ===== *)
theory ImportTheorems
  imports PurchaseStoreTheorems
begin

text \<open>
  The import is idempotent on the fiscal UUID: what a first import stores, and why importing the same
  draft again finds it.
\<close>

section \<open>What the import inserts\<close>

text \<open>The part of the tables that scanning a line reads, kept for every stored product.\<close>

definition same_scans :: "'x purchase_db_scheme \<Rightarrow> 'x purchase_db_scheme \<Rightarrow> bool" where
  "same_scans db db' \<longleftrightarrow> pdb_resources db' = pdb_resources db \<and> (\<forall>p m. mapping_of db p = Some m \<longrightarrow> mapping_of db' p = Some m)"

lemma same_scans_refl [simp]: "same_scans db db"
  by (simp add: same_scans_def)

lemma same_scans_trans: "same_scans a b \<Longrightarrow> same_scans b c \<Longrightarrow> same_scans a c"
  by (simp add: same_scans_def)

lemma scan_same:
  assumes "same_scans db db'" "\<And>p. lr_product row = Some p \<Longrightarrow> mapping_of db p \<noteq> None"
  shows "scanPurchaseLine D db' row = scanPurchaseLine D db row"
proof -
  have m: "map_option sp_mapping (line_product db' row) = map_option sp_mapping (line_product db row)"
  proof (cases "lr_product row")
    case (Some p)
    then obtain m where "mapping_of db p = Some m" using assms(2) by blast
    moreover have "mapping_of db' p = Some m" using assms(1) calculation by (simp add: same_scans_def)
    ultimately show ?thesis using Some unfolding mapping_of_def line_product_def by auto
  qed (simp add: line_product_def)
  then have "joined_resource db' row = joined_resource db row" "joined_conflict db' row = joined_conflict db row"
    by (cases "line_product db row"; cases "line_product db' row"; simp add: joined_resource_def joined_conflict_def)+
  moreover have "joined_active db' row = joined_active db row"
    using assms(1) calculation by (simp add: joined_active_def same_scans_def split: option.split)
  ultimately show ?thesis by (simp add: scanPurchaseLine_def)
qed

lemma scan_products:
  "pdb_products db' = pdb_products db \<Longrightarrow> pdb_resources db' = pdb_resources db \<Longrightarrow>
     scanPurchaseLine D db' row = scanPurchaseLine D db row"
  by (simp add: scanPurchaseLine_def joined_active_def joined_conflict_def joined_resource_def line_product_def
      cong del: option.case_cong_weak)

lemma insert_product_scans:
  assumes "purchase_inv db"
  shows "same_scans db (snd (insert_product now s sku desc db))"
  using fresh_key(1)[OF assms] by (auto simp: insert_product_def Let_def same_scans_def mapping_of_def split: option.splits)

lemma reuse_product_scans:
  assumes "purchase_inv db"
  shows "same_scans db (snd (reuse_product now s sku desc db))"
proof (cases "sku_owner s sku db")
  case (Some r)
  then have "map_of (pdb_products db) (fst r) = Some (snd r)"
    using sku_owner_Some[of s sku db "fst r" "snd r"] product_table[OF assms, of "fst r" "snd r"] by simp
  then show ?thesis using Some
    by (auto simp: reuse_product_def Let_def same_scans_def mapping_of_def split: prod.split)
qed (simp add: reuse_product_def)

lemma upsert_product_scans:
  assumes inv: "purchase_inv db"
  shows "same_scans db (snd (upsert_product now s sku desc db))"
proof -
  obtain r t where r: "insert_product now s sku desc db = (r, t)" by (cases "insert_product now s sku desc db")
  have t: "same_scans db t" "purchase_inv t"
    using insert_product_scans[OF inv, of now s sku desc] insert_product_step[OF inv, of s now sku desc] r
    by (simp_all add: product_step_def)
  have "same_scans db (snd (reuse_product now s sku desc t))"
    using reuse_product_scans[OF t(2)] t(1) by (rule same_scans_trans[rotated])
  with r t show ?thesis by (simp add: upsert_product_def split: sum.split db_error.split)
qed

lemma gput_fresh: "map_of t k = None \<Longrightarrow> gput k v t = t @ [(k, v)]"
  unfolding gput_def by (induction t) (auto split: if_splits)

lemma insert_line_rows:
  assumes inv: "purchase_inv db" and ins: "insert_line D pid d product db = (Inr line, db')"
  obtains row where "row = line_row_of D (lr_id row) pid d product" "pdb_lines db' = pdb_lines db @ [(lr_id row, row)]"
    "same_scans db db'" "pdb_purchases db' = pdb_purchases db" "scanPurchaseLine D db' row = Inr line"
    "\<forall>p. lr_product row = Some p \<longrightarrow> mapping_of db' p \<noteq> None"
proof -
  let ?i = "pdb_line_seq db + 1" and ?row = "line_row_of D (pdb_line_seq db + 1) pid d product"
  have v: "line_violation ?row (db\<lparr>pdb_line_seq := ?i\<rparr>) = None"
      "db' = db\<lparr>pdb_line_seq := ?i, pdb_lines := gput ?i ?row (pdb_lines db)\<rparr>" "scanPurchaseLine D db' ?row = Inr line"
    using ins by (auto simp: insert_line_def Let_def split: option.splits)
  have i: "lr_id ?row = ?i" by (simp add: line_row_of_def)
  show thesis
  proof (rule that[of ?row])
    show "pdb_lines db' = pdb_lines db @ [(lr_id ?row, ?row)]" unfolding i using v(2) gput_fresh[OF fresh_key(3)[OF inv]] by simp
    show "\<forall>p. lr_product ?row = Some p \<longrightarrow> mapping_of db' p \<noteq> None"
      using v(1,2) by (auto simp: line_violation_def mapping_of_def split: if_splits)
  qed (use v i in \<open>simp_all add: same_scans_def mapping_of_def\<close>)
qed

lemma upsert_scans:
  assumes "purchase_inv db" "upsertSupplierProduct F k now s sku desc db = (Inr p, db')"
  shows "same_scans db db'"
  using upsert_product_scans[OF assms(1), of now s sku desc] assms(2) by (auto simp: upsertSupplierProduct_def stmt_Inr)

lemma import_lines_rows:
  "purchase_inv db \<Longrightarrow> supplier_of_purchase db pid = Some s \<Longrightarrow> import_lines D F now s pid k ds db = (Inr ls, db') \<Longrightarrow>
     \<exists>rows. pdb_lines db' = pdb_lines db @ map (\<lambda>row. (lr_id row, row)) rows
       \<and> list_all2 (\<lambda>row d. \<exists>i p. row = line_row_of D i pid d p) rows ds
       \<and> list_all2 (\<lambda>row l. scanPurchaseLine D db' row = Inr l) rows ls
       \<and> pdb_purchases db' = pdb_purchases db \<and> same_scans db db'"
proof (induction ds arbitrary: k db ls)
  case (Cons d ds)
  from Cons.prems(3) obtain product db1 line db2 ls' where
      p: "(if HasSupplierIdentity d then bnd (upsertSupplierProduct F k now s (ld_sku d) (ld_description d)) (\<lambda>p. ret (Some (sp_id p)))
          else ret None) db = (Inr product, db1)"
      and l: "insert_line D pid d product db1 = (Inr line, db2)" and ls: "ls = line # ls'"
      and rest: "import_lines D F now s pid (Suc k) ds db2 = (Inr ls', db')"
    by (auto simp: bnd_Inr insertPurchaseLine_def stmt_Inr)
  have 1: "purchase_inv db1 \<and> pdb_purchases db1 = pdb_purchases db \<and> pdb_lines db1 = pdb_lines db \<and> same_scans db db1
      \<and> (\<forall>q. product = Some q \<longrightarrow> supplier_of_product db1 q = Some s)"
    using p upsert_Inr[OF Cons.prems(1)] upsert_scans[OF Cons.prems(1)] Cons.prems(1) by (auto simp: bnd_Inr split: if_splits)
  have s1: "supplier_of_purchase db1 pid = Some s" using 1 Cons.prems(2) by (simp add: supplier_of_purchase_def)
  have "purchase_inv (snd (insert_line D pid d product db1))" using 1 s1 by (intro insert_line_inv) auto
  then have 2: "purchase_inv db2" using l by simp
  have inv1: "purchase_inv db1" using 1 by simp
  from inv1 l obtain row where row: "row = line_row_of D (lr_id row) pid d product" "pdb_lines db2 = pdb_lines db1 @ [(lr_id row, row)]"
      "same_scans db1 db2" "pdb_purchases db2 = pdb_purchases db1" "scanPurchaseLine D db2 row = Inr line"
      "\<forall>p. lr_product row = Some p \<longrightarrow> mapping_of db2 p \<noteq> None"
    by (rule insert_line_rows)
  have s2: "supplier_of_purchase db2 pid = Some s" using s1 row(4) by (simp add: supplier_of_purchase_def)
  obtain rows where rows: "pdb_lines db' = pdb_lines db2 @ map (\<lambda>row. (lr_id row, row)) rows"
       "list_all2 (\<lambda>row d. \<exists>i p. row = line_row_of D i pid d p) rows ds"
       "list_all2 (\<lambda>row l. scanPurchaseLine D db' row = Inr l) rows ls'"
       "pdb_purchases db' = pdb_purchases db2" "same_scans db2 db'"
    using Cons.IH[OF 2 s2 rest] by blast
  have "scanPurchaseLine D db' row = Inr line" using scan_same[OF rows(5), of row D] row(5,6) by simp
  then show ?case
    using 1 row(1-4) rows ls by (intro exI[of _ "row # rows"]) (auto intro: same_scans_trans)
qed simp

lemma import_created:
  assumes inv: "purchase_inv db" and run: "import_body D F now draft db = (Inr r, db')" and new: "\<not> ir_existed r"
  obtains i rows where
    "map_of (pdb_purchases db') i = Some (purchase_row_of D now i draft)" "scanPurchase D (purchase_row_of D now i draft) = Inr (ir_purchase r)"
    "map snd (filter (\<lambda>(j, row). lr_purchase row = i) (pdb_lines db')) = rows"
    "list_all2 (\<lambda>row d. \<exists>j p. row = line_row_of D j i d p) rows (pd_lines draft)"
    "list_all2 (\<lambda>row l. scanPurchaseLine D db' row = Inr l) rows (ir_lines r)"
    "btrim (pd_uuid draft) \<noteq> []" "length (xd_hash (pd_xml draft)) = 64"
proof -
  let ?i = "pdb_purchase_seq db + 1"
  from run obtain created db1 where c: "insertPurchase D F now draft db = (Inr created, db1)"
      and rest: "(case created of None \<Rightarrow> resolveDuplicateImport D F draft
        | Some purchase \<Rightarrow> bnd (import_lines D F now (pp_supplier (pd_party draft)) (p_id purchase) 0 (pd_lines draft)) (\<lambda>lines.
            ret \<lparr>ir_purchase = purchase, ir_lines = lines, ir_existed = False\<rparr>)) db1 = (Inr r, db')"
    unfolding import_body_def bnd_Inr by blast
  note ins = insertPurchase_Inr[OF c]
  have "created \<noteq> None"
  proof
    assume "created = None"
    then have "resolveDuplicateImport D F draft db1 = (Inr r, db')" using rest by simp
    then show False using new by (auto simp: resolveDuplicateImport_def bnd_Inr split: if_splits)
  qed
  then obtain p where p: "created = Some p" by blast
  have i: "insert_purchase D now draft db = (Inr p, db1)" using conjunct2[OF ins] p by blast
  obtain lines where l: "import_lines D F now (pp_supplier (pd_party draft)) (p_id p) 0 (pd_lines draft) db1 = (Inr lines, db')"
      and r: "r = \<lparr>ir_purchase = p, ir_lines = lines, ir_existed = False\<rparr>"
    using rest unfolding p by (auto simp: bnd_Inr)
  let ?row = "purchase_row_of D now ?i draft"
  have s: "scanPurchase D ?row = Inr p" "pdb_lines db1 = pdb_lines db" "pdb_purchases db1 = gput ?i ?row (pdb_purchases db)"
      "btrim (pd_uuid draft) \<noteq> []" "length (xd_hash (pd_xml draft)) = 64"
    using i by (auto simp: insert_purchase_def Let_def split: if_splits option.splits)
  have id: "p_id p = ?i" using scan_purchase_id[OF s(1)] by (simp add: purchase_row_of_def)
  have inv1: "purchase_inv db1" using insert_purchase_inv(1)[OF inv, of D now draft] i by simp
  have s1: "supplier_of_purchase db1 ?i = Some (pp_supplier (pd_party draft))"
    using insert_purchase_inv(2)[OF inv i] id by simp
  obtain rows where rows: "pdb_lines db' = pdb_lines db1 @ map (\<lambda>row. (lr_id row, row)) rows"
       "list_all2 (\<lambda>row d. \<exists>j q. row = line_row_of D j ?i d q) rows (pd_lines draft)"
       "list_all2 (\<lambda>row l. scanPurchaseLine D db' row = Inr l) rows lines" "pdb_purchases db' = pdb_purchases db1"
    using import_lines_rows[OF inv1 s1 l[unfolded id]] by blast
  have old: "lr_purchase row \<noteq> ?i" if "(j, row) \<in> set (pdb_lines db)" for j row
  proof -
    have "map_of (pdb_lines db) j = Some row"
      using purchase_inv_parts(3)[OF inv] that by (auto simp: lines_ok_def table_ok_def gkeys_def)
    then show ?thesis
      using stored_line_row[OF inv] fresh_key(2)[OF inv] by (force simp: stored_line_def supplier_of_purchase_def)
  qed
  have "lr_purchase row = ?i" if "row \<in> set rows" for row
    using rows(2) that by (force simp: list_all2_conv_all_nth in_set_conv_nth line_row_of_def)
  then have "map snd (filter (\<lambda>(j, row). lr_purchase row = ?i) (pdb_lines db')) = rows"
    using old unfolding rows(1) s(2) by (auto simp: filter_empty_conv filter_map o_def intro!: map_idI)
  moreover have "map_of (pdb_purchases db') ?i = Some ?row" using rows(4) s(3) by simp
  ultimately show thesis using s(1,4,5) rows(2,3) r by (intro that[of ?i rows]) simp_all
qed

section \<open>Importing again\<close>

text \<open>What the code relies on of the decimal library: the text of a decimal parses to an equal one.\<close>

definition decimal_laws :: "'d decimal_ops \<Rightarrow> bool" where
  "decimal_laws D \<longleftrightarrow> (\<forall>x. \<exists>y. dec_parse D (dec_string D x) = Some y \<and> dec_equal D y x)"

lemma decode_string:
  "decimal_laws D \<Longrightarrow> decode D format (dec_string D x) = Inr y \<Longrightarrow> dec_equal D y x"
  unfolding decimal_laws_def decode_def by (auto split: option.splits) (metis option.inject)

lemma scanned_purchase_same:
  assumes laws: "decimal_laws D" and scan: "scanPurchase D (purchase_row_of D now i draft) = Inr p"
  shows "p_id p = i" "SameRelevantContent D p draft \<longleftrightarrow> pg_time (pd_issued draft) = pd_issued draft"
  using scan by (auto simp: scanPurchase_def bindr_Inr_iff purchase_row_of_def SameRelevantContent_def
      intro: decode_string[OF laws])

lemma scanned_line_same:
  assumes laws: "decimal_laws D" and scan: "scanPurchaseLine D db (line_row_of D j i d p) = Inr l"
  shows "same_line D l d"
  using scan by (auto simp: scanPurchaseLine_def bindr_Inr_iff line_row_of_def same_line_def Let_def intro: decode_string[OF laws])

definition import_conflict :: "'d purchase_draft \<Rightarrow> go_error" where
  "import_conflict draft = Wrapf ''import purchase %s: %w'' [pd_uuid draft] [pur_error ErrPurchaseConflict]"

lemma duplicate_found:
  assumes laws: "decimal_laws D" and order: "sorted (map ld_number (pd_lines draft))"
    and inv: "purchase_inv db"
    and row: "map_of (pdb_purchases db) i = Some (purchase_row_of D now i draft)" "scanPurchase D (purchase_row_of D now i draft) = Inr p"
    and lines: "map snd (filter (\<lambda>(j, row). lr_purchase row = i) (pdb_lines db)) = rows"
      "list_all2 (\<lambda>row d. \<exists>j q. row = line_row_of D j i d q) rows (pd_lines draft)"
      "list_all2 (\<lambda>row l. scanPurchaseLine D db row = Inr l) rows ls"
  shows "resolveDuplicateImport D no_faults draft db = (if pg_time (pd_issued draft) = pd_issued draft
     then Inr \<lparr>ir_purchase = p, ir_lines = ls, ir_existed = True\<rparr> else Inl (import_conflict draft), db)"
proof -
  let ?row = "purchase_row_of D now i draft"
  have "find (\<lambda>p. pd_uuid p = pd_uuid draft) (map snd (pdb_purchases db)) = Some ?row"
  proof (rule find_the_one)
    show "?row \<in> set (map snd (pdb_purchases db))" using map_of_SomeD[OF row(1)] by force
    show "pd_uuid ?row = pd_uuid draft" by (simp add: purchase_row_of_def)
    fix q assume "q \<in> set (map snd (pdb_purchases db))" "pd_uuid q = pd_uuid draft"
    then obtain j where "map_of (pdb_purchases db) j = Some q" "pd_uuid q = pd_uuid ?row"
      using purchase_inv_parts(2)[OF inv] by (auto simp: purchases_ok_def table_ok_def gkeys_def purchase_row_of_def)
    then have "j = i" using row(1) purchase_inv_parts(2)[OF inv] unfolding purchases_ok_def unique_uuid_def by blast
    then show "q = ?row" using \<open>map_of (pdb_purchases db) j = Some q\<close> row(1) by simp
  qed
  then have found: "purchase_where D (\<lambda>p. pd_uuid p = pd_uuid draft) db = (Inr p, db)" by (simp add: purchase_where_def row(2))
  have num: "map ld_number rows = map ld_number (pd_lines draft)"
    using lines(2) by (induction rule: list_all2_induct) (auto simp: line_row_of_def)
  have "lines_of i db = sort_key ld_number rows"
    unfolding lines_of_def lines(1)[symmetric] by (simp add: filter_map o_def case_prod_unfold)
  also have "\<dots> = rows" using order unfolding num[symmetric] by (rule sort_key_id_if_sorted)
  finally have all: "mapr (scanPurchaseLine D db) (lines_of i db) = Inr ls" using lines(3) by (simp add: mapr_Inr_iff)
  have "list_all2 (same_line D) ls (pd_lines draft)"
    using lines(2,3) scanned_line_same[OF laws] by (fastforce simp: list_all2_conv_all_nth)
  then show ?thesis
    using found all scanned_purchase_same[OF laws row(2)]
    by (simp add: resolveDuplicateImport_def queryPurchaseLines_def bnd_run stmt_def no_faults_def map_err_def SameLines_def
        import_conflict_def)
qed

text \<open>Importing a draft again finds the stored purchase, unless its instant lost digits in the table.\<close>

lemma import_again:
  assumes inv: "purchase_inv db" and laws: "decimal_laws D"
    and run: "Import D F applied now draft db = (Inr r, db')" and new: "\<not> ir_existed r"
    and order: "sorted (map ld_number (pd_lines draft))"
  shows "\<exists>u. Import D no_faults applied' now' draft db' = (if pg_time (pd_issued draft) = pd_issued draft
     then Inr (r\<lparr>ir_existed := True\<rparr>) else Inl (import_conflict draft), undo db' u)"
proof -
  have body: "import_body D F now draft db = (Inr r, db')"
    using run by (auto simp: Import_def purchase_ready_def bnd_Inr transact_Inr)
  have inv': "purchase_inv db'" by (rule import_body_inv[OF inv body])
  obtain i rows where c:
    "map_of (pdb_purchases db') i = Some (purchase_row_of D now i draft)" "scanPurchase D (purchase_row_of D now i draft) = Inr (ir_purchase r)"
    "map snd (filter (\<lambda>(j, row). lr_purchase row = i) (pdb_lines db')) = rows"
    "list_all2 (\<lambda>row d. \<exists>j p. row = line_row_of D j i d p) rows (pd_lines draft)"
    "list_all2 (\<lambda>row l. scanPurchaseLine D db' row = Inr l) rows (ir_lines r)"
    "btrim (pd_uuid draft) \<noteq> []" "length (xd_hash (pd_xml draft)) = 64"
    using inv body new by (rule import_created)
  let ?bump = "db'\<lparr>pdb_purchase_seq := pdb_purchase_seq db' + 1\<rparr>"
  have "\<exists>p\<in>set (map snd (pdb_purchases db')). pd_uuid p = pd_uuid draft"
    using map_of_SomeD[OF c(1)] by (force simp: purchase_row_of_def)
  then have ins: "insert_purchase D now' draft db' = (Inl NoRows, ?bump)"
    using c(6,7) by (simp add: insert_purchase_def Let_def)
  have "scanPurchaseLine D ?bump row = scanPurchaseLine D db' row" for row
    by (rule scan_products) simp_all
  then have "resolveDuplicateImport D no_faults draft ?bump = (if pg_time (pd_issued draft) = pd_issued draft
      then Inr \<lparr>ir_purchase = ir_purchase r, ir_lines = ir_lines r, ir_existed = True\<rparr> else Inl (import_conflict draft), ?bump)"
    using c by (intro duplicate_found[OF laws order bump_purchase_seq[OF inv']]) simp_all
  then have "import_body D no_faults now' draft db' = (if pg_time (pd_issued draft) = pd_issued draft
      then Inr (r\<lparr>ir_existed := True\<rparr>) else Inl (import_conflict draft), ?bump)"
    by (simp add: import_body_def insertPurchase_def bnd_run stmt_def no_faults_def ins)
  then have "Import D no_faults applied' now' draft db' = (if pg_time (pd_issued draft) = pd_issued draft
      then Inr (r\<lparr>ir_existed := True\<rparr>) else Inl (import_conflict draft), undo db' ?bump)"
    by (simp add: Import_def purchase_ready_def pool_ready_def no_faults_def transact_def) (simp add: undo_def)
  then show ?thesis by blast
qed

lemma demo_decimal_laws: "decimal_laws demo_decimals"
proof -
  have "show_nat n \<noteq> []" for n by (subst show_nat.simps) simp
  then show ?thesis by (simp add: decimal_laws_def demo_decimals_def read_show_nat)
qed

end
