(* ===== verification/PurchaseServiceTheorems.thy ===== *)
theory PurchaseServiceTheorems
  imports PurchaseService CfdiTheorems ImportTheorems
begin

text \<open>
  The import of an invoice as a whole: the reader, the supplier directory and the purchase repository
  together. The supplier of the issuer is registered once whatever other imports do in between, and a
  second import of the same document finds the first.
\<close>

section \<open>The supplier of an issuer\<close>

lemma key_idem: "to_upper (trim_space (to_upper (trim_space t))) = to_upper (trim_space t)"
  by (simp add: trim_upper)

lemma key_nonblank: "trim_space (to_upper (trim_space t)) = [] \<longleftrightarrow> to_upper (trim_space t) = []"
  by (simp add: trim_upper)

definition holds_tax :: "'x supplier_db_scheme \<Rightarrow> int \<Rightarrow> gstring \<Rightarrow> bool" where
  "holds_tax db i tax \<longleftrightarrow> (\<exists>s. map_of (sdb_suppliers db) i = Some s \<and> su_id s = i \<and> tax_key (su_tax s) = Some (to_upper (trim_space tax)))"

lemma stored_id: "supplier_master db \<Longrightarrow> map_of (sdb_suppliers db) i = Some s \<Longrightarrow> su_id s = i \<and> i \<le> sdb_supplier_seq db"
  by (force simp: supplier_master_def table_ok_def supplier_row_def)

lemma tax_found:
  fixes db :: "'x supplier_db_scheme"
  assumes I: "supplier_master db" and run: "get_supplier_by_tax (supplier_repository F a now ilike coll) tax db = (Inr s, db')"
  shows "db' = db \<and> holds_tax db (su_id s) tax"
proof -
  have f: "find (\<lambda>s. su_tax s \<noteq> [] \<and> to_upper (btrim (su_tax s)) = to_upper (trim_space tax)) (map snd (sdb_suppliers db)) = Some s" "db' = db"
    using run by (auto simp: get_supplier_by_tax_def wrapped_def supplier_repository_def GetSupplierByTaxIdentifier_def repo_ready_def
        bnd_Inr stmt_Inr upper_key Let_def split: if_splits)
  then obtain j where "(j, s) \<in> set (sdb_suppliers db)" "su_tax s \<noteq> []" "to_upper (btrim (su_tax s)) = to_upper (trim_space tax)"
    by (auto simp: find_Some_iff in_set_conv_nth) (metis nth_mem prod.collapse)
  moreover have "distinct (map fst (sdb_suppliers db))" using I unfolding supplier_master_def table_ok_def gkeys_def by blast
  ultimately have "map_of (sdb_suppliers db) j = Some s" "tax_key (su_tax s) = Some (to_upper (trim_space tax))"
    by (simp_all add: tax_key_def)
  then show ?thesis using stored_id[OF I] f(2) unfolding holds_tax_def by metis
qed

lemma holds_tax_lookup:
  assumes "supplier_master db" "holds_tax db i tax" "to_upper (trim_space tax) \<noteq> []"
  obtains s where "su_id s = i"
    "get_supplier_by_tax (supplier_repository no_faults a now ilike coll) (to_upper (trim_space tax)) db = (Inr s, db)"
proof -
  obtain s where s: "map_of (sdb_suppliers db) i = Some s" "su_id s = i" "tax_key (su_tax s) = Some (to_upper (trim_space tax))"
    using assms(2) by (auto simp: holds_tax_def)
  have "get_supplier_by_tax (supplier_repository no_faults a now ilike coll) (to_upper (trim_space tax)) db = (Inr s, db)"
    by (rule tax_lookup[OF assms(1) s(1)]) (use s assms(3) key_nonblank in \<open>simp_all add: key_idem\<close>)
  then show thesis using that s(2) by blast
qed

lemma resolveSupplier_Inr:
  fixes db :: "'x supplier_db_scheme"
  assumes I: "supplier_master db"
    and run: "resolveSupplier (directory_of (supplier_repository F a now ilike coll)) tax name db = (Inr i, db')"
  shows "to_upper (trim_space tax) \<noteq> [] \<and> holds_tax db' i tax \<and> supplier_master db'
    \<and> (db' = db \<or> (\<exists>d. db' = run_supplier_call (supplier_repository F a now ilike coll) (CallCreateSupplier d) db))"
proof -
  let ?R = "supplier_repository F a now ilike coll :: 'x supplier_db_scheme supplier_repo" and ?k = "to_upper (trim_space tax)"
  let ?d = "\<lparr>su_trade = [], su_legal = name, su_tax = ?k, su_website = [], su_notes = []\<rparr>"
  have k: "?k \<noteq> []" using run by (auto simp: resolveSupplier_def Let_def split: if_splits)
  obtain r db1 where 1: "get_supplier_by_tax ?R ?k db = (r, db1)" by fastforce
  have db1: "db1 = db" using 1 by (auto simp: get_supplier_by_tax_def wrapped_def supplier_repository_def
      GetSupplierByTaxIdentifier_def repo_ready_def pool_ready_def Let_def bnd_run stmt_def map_err_def query_row_def
      split: if_splits option.splits)
  have call: "snd (create_supplier ?R ?d db) = run_supplier_call ?R (CallCreateSupplier ?d) db" by simp
  have I2: "supplier_master (snd (create_supplier ?R ?d db))" using pg_suppliers.call_keeps[OF I] unfolding call by blast
  show ?thesis
  proof (cases r)
    case (Inr s)
    then have "i = su_id s" "db' = db" using run k 1 db1 by (simp_all add: resolveSupplier_def Let_def bnd_attempt directory_of_def)
    then show ?thesis using tax_found[OF I 1[unfolded Inr]] k I by (simp add: holds_tax_def key_idem)
  next
    case (Inl e)
    obtain c db2 where 2: "create_supplier ?R ?d db = (c, db2)" by fastforce
    then have call2: "\<exists>d. db2 = run_supplier_call ?R (CallCreateSupplier d) db" by (intro exI[of _ ?d]) simp
    show ?thesis
    proof (cases c)
      case (Inr s)
      then have "i = su_id s" "db' = db2" using run k 1 db1 2 Inl
        by (auto simp: resolveSupplier_def Let_def bnd_attempt directory_of_def split: if_splits)
      moreover have "supplier_master db2 \<and> map_of (sdb_suppliers db2) (su_id s) = Some s \<and> tax_key (su_tax s) = Some ?k"
        using created_row[OF I 2[unfolded Inr]] k by (simp add: key_idem key_nonblank)
      ultimately show ?thesis using k call2 by (simp add: holds_tax_def)
    next
      case (Inl e')
      then obtain s where s: "get_supplier_by_tax ?R ?k db2 = (Inr s, db')" "i = su_id s"
        using run k 1 db1 2 \<open>r = Inl e\<close>
        by (auto simp: resolveSupplier_def Let_def bnd_attempt bnd_Inr directory_of_def split: if_splits)
      have "supplier_master db2" using I2 2 by simp
      from tax_found[OF this s(1)] show ?thesis using k call2 2 I2 s(2) by (simp add: holds_tax_def key_idem)
    qed
  qed
qed


text \<open>Other imports running at any point only ever add rows.\<close>

definition other_imports :: "'s supplier_repo \<Rightarrow> ('s \<Rightarrow> supplier_details list) \<Rightarrow> 's \<Rightarrow> 's" where
  "other_imports R sched s = foldl (\<lambda>s d. run_supplier_call R (CallCreateSupplier d) s) s (sched s)"

definition interfered :: "('s \<Rightarrow> 's) \<Rightarrow> 's supplier_directory \<Rightarrow> 's supplier_directory" where
  "interfered g S = \<lparr>sd_by_tax = (\<lambda>tax s. sd_by_tax S tax (g s)), sd_create = (\<lambda>d s. sd_create S d (g s)),
     sd_branch = (\<lambda>i j s. sd_branch S i j (g s))\<rparr>"

definition grows :: "'x supplier_db_scheme \<Rightarrow> 'x supplier_db_scheme \<Rightarrow> bool" where
  "grows s t \<longleftrightarrow> supplier_master t \<and> (\<forall>i r. map_of (sdb_suppliers s) i = Some r \<longrightarrow> map_of (sdb_suppliers t) i = Some r)"

lemma create_grows:
  fixes db :: "'x supplier_db_scheme"
  assumes I: "supplier_master db"
  shows "grows db (run_supplier_call (supplier_repository F a now ilike coll) (CallCreateSupplier d) db)"
proof -
  have fresh: "map_of (sdb_suppliers db) (sdb_supplier_seq db + 1) = None"
    using stored_id[OF I, of "sdb_supplier_seq db + 1"] by (cases "map_of (sdb_suppliers db) (sdb_supplier_seq db + 1)") auto
  have ins: "map_of (sdb_suppliers db) i = Some r \<Longrightarrow> map_of (sdb_suppliers (snd (insert_supplier now v db))) i = Some r" for i r v
    using fresh by (auto simp: insert_supplier_def Let_def split: option.split)
  have "map_of (sdb_suppliers db) i = Some r \<Longrightarrow> map_of (sdb_suppliers (snd (create_supplier (supplier_repository F a now ilike coll) d db))) i = Some r" for i r
    by (auto simp: create_supplier_def supplier_repository_def wrapped_def CreateSupplier_def repo_ready_def pool_ready_def bnd_lift bnd_run
        autocommit_def ins split: sum.split option.split)
  then show ?thesis using pg_suppliers.call_keeps[OF I, of F a now ilike coll "CallCreateSupplier d"] by (simp add: grows_def)
qed

lemma grows_trans: "grows s t \<Longrightarrow> grows t u \<Longrightarrow> grows s u"
  by (simp add: grows_def)

lemma others_grow:
  assumes "supplier_master db"
  shows "grows db (other_imports (supplier_repository F a now ilike coll) sched db)"
proof -
  have "grows db (foldl (\<lambda>s d. run_supplier_call (supplier_repository F a now ilike coll) (CallCreateSupplier d) s) db ds)" for ds
  proof (induction ds rule: rev_induct)
    case (snoc d ds)
    have "supplier_master (foldl (\<lambda>s d. run_supplier_call (supplier_repository F a now ilike coll) (CallCreateSupplier d) s) db ds)"
      using snoc by (simp add: grows_def)
    from grows_trans[OF snoc create_grows[OF this]] show ?case by (simp only: foldl_append foldl.simps)
  qed (simp add: grows_def assms)
  then show ?thesis by (simp add: other_imports_def)
qed

lemma holds_grows: "grows s t \<Longrightarrow> holds_tax s i tax \<Longrightarrow> holds_tax t i tax"
  unfolding grows_def holds_tax_def by blast

lemma tax_missing:
  assumes "get_supplier_by_tax (supplier_repository no_faults a now ilike coll) tax db = (Inl e, db')" "to_upper (trim_space tax) \<noteq> []"
  shows "error_is e (Sup SupErrNotFound)"
  using assms by (auto simp: get_supplier_by_tax_def wrapped_def supplier_repository_def GetSupplierByTaxIdentifier_def repo_ready_def
      pool_ready_def no_faults_def Let_def map_err_Inl bnd_Inl stmt_def query_row_def read_error_def wrap_read_def sup_error_def
      wraps_simps split: if_splits option.splits)

text \<open>The issuer of an invoice resolves to a supplier whatever other imports do before every
  statement: when the directory answers and the tax identifier is not blank, the result is the one
  supplier that holds the identifier, found, registered, or registered by another import in between.\<close>

theorem resolve_supplier_race:
  fixes db :: "'x supplier_db_scheme"
  assumes I: "supplier_master db" and tax: "to_upper (trim_space tax) \<noteq> []"
  shows "\<exists>i db'. resolveSupplier (interfered (other_imports (supplier_repository F b now' ilike' coll') sched)
       (directory_of (supplier_repository no_faults a now ilike coll))) tax name db = (Inr i, db')
     \<and> supplier_master db' \<and> (\<forall>j. holds_tax db' j tax \<longleftrightarrow> j = i)"
proof -
  let ?R = "supplier_repository no_faults a now ilike coll :: 'x supplier_db_scheme supplier_repo"
  let ?g = "other_imports (supplier_repository F b now' ilike' coll') sched :: 'x supplier_db_scheme \<Rightarrow> _"
  let ?k = "to_upper (trim_space tax)" and ?S = "interfered ?g (directory_of ?R)"
  let ?d = "\<lparr>su_trade = [], su_legal = name, su_tax = ?k, su_website = [], su_notes = []\<rparr>"
  have one: "supplier_master t \<and> (\<forall>j. holds_tax t j tax \<longleftrightarrow> j = i)" if "supplier_master t" "holds_tax t i tax" for t :: "'x supplier_db_scheme" and i
    using that unique_taxD[of "sdb_suppliers t"] unfolding holds_tax_def supplier_master_def by metis
  have S: "sd_by_tax ?S t s = get_supplier_by_tax ?R t (?g s)" "sd_create ?S d s = create_supplier ?R d (?g s)" for t d s
    by (simp_all add: interfered_def directory_of_def)
  have I1: "supplier_master (?g db)" using others_grow[OF I] by (simp add: grows_def)
  obtain r db1 where 1: "get_supplier_by_tax ?R ?k (?g db) = (r, db1)" by fastforce
  show ?thesis
  proof (cases r)
    case (Inr s)
    then have "resolveSupplier ?S tax name db = (Inr (su_id s), db1)" using tax 1
      by (simp add: resolveSupplier_def Let_def bnd_attempt S)
    then show ?thesis using one tax_found[OF I1 1[unfolded Inr]] I1 by (force simp: holds_tax_def key_idem)
  next
    case (Inl e)
    have nf: "error_is e (Sup SupErrNotFound)" using tax_missing[OF 1[unfolded Inl]] tax by (simp add: key_idem)
    have "db1 = ?g db" using 1 by (auto simp: get_supplier_by_tax_def wrapped_def supplier_repository_def
        GetSupplierByTaxIdentifier_def repo_ready_def pool_ready_def Let_def bnd_run stmt_def map_err_def query_row_def
        split: if_splits option.splits)
    then have I2: "supplier_master (?g db1)" using others_grow[OF I1] by (simp add: grows_def)
    consider (made) s db2 where "create_supplier ?R ?d (?g db1) = (Inr s, db2)" | (held) i s where "map_of (sdb_suppliers (?g db1)) i = Some s"
        "tax_key (su_tax s) = Some ?k"
      using registration[OF I2, where d = ?d and a = a and now = now and ilike = ilike and coll = coll] tax
      by (auto simp: key_idem key_nonblank)
    then show ?thesis
    proof cases
      case made
      have "resolveSupplier ?S tax name db = (Inr (su_id s), db2)" using tax 1 Inl nf made
        by (simp add: resolveSupplier_def Let_def bnd_attempt S)
      moreover have "supplier_master db2 \<and> holds_tax db2 (su_id s) tax"
        using created_row[OF I2 made] tax by (simp add: holds_tax_def key_idem key_nonblank)
      ultimately show ?thesis using one by blast
    next
      case held
      let ?db2 = "(?g db1)\<lparr>sdb_supplier_seq := sdb_supplier_seq (?g db1) + 1\<rparr>"
      have c: "create_supplier ?R ?d (?g db1) = (Inl tax_conflict, ?db2)"
        by (rule tax_refused[OF I2 held(1)]) (use held(2) tax in \<open>simp_all add: key_idem key_nonblank\<close>)
      have g2: "grows (?g db1) ?db2" using create_grows[OF I2, of no_faults a now ilike coll ?d] c by simp
      then have "supplier_master ?db2" by (simp add: grows_def)
      then have g: "grows (?g db1) (?g ?db2)" using grows_trans[OF g2] others_grow by blast
      have "holds_tax (?g db1) i tax" using held stored_id[OF I2] by (auto simp: holds_tax_def)
      then have h: "holds_tax (?g ?db2) i tax" using g by (rule holds_grows[rotated])
      have I3: "supplier_master (?g ?db2)" using g by (simp add: grows_def)
      obtain s' where "su_id s' = i" "get_supplier_by_tax ?R ?k (?g ?db2) = (Inr s', ?g ?db2)"
        by (rule holds_tax_lookup[OF I3 h tax])
      then have "resolveSupplier ?S tax name db = (Inr i, ?g ?db2)" using tax 1 Inl nf c
        by (simp add: resolveSupplier_def Let_def bnd_run attempt_def S)
      then show ?thesis using one[OF I3 h] by blast
    qed
  qed
qed

text \<open>Another import registers the issuer between the lookup and the registration.\<close>

definition rival :: "supplier_db \<Rightarrow> supplier_details list" where
  "rival s = (if sdb_supplier_seq s = 1 then [demo_supplier] else [])"


theorem resolve_supplier_race_witness:
  "\<exists>i db'. resolveSupplier (interfered (other_imports plain_suppliers rival) (directory_of plain_suppliers))
       ''abc010101aa1'' ''Proveedor'' (empty_suppliers\<lparr>sdb_supplier_seq := 1\<rparr>) = (Inr i, db') \<and> holds_tax db' i ''ABC010101AA1''
     \<and> length (sdb_suppliers db') = 1"
proof -
  let ?db = "empty_suppliers\<lparr>sdb_supplier_seq := 1\<rparr>"
  have "supplier_master ?db" by (simp add: supplier_master_def table_ok_def unique_tax_def empty_suppliers_def)
  moreover have "to_upper (trim_space ''abc010101aa1'') \<noteq> []" by code_simp
  ultimately have "\<exists>i db'. resolveSupplier (interfered (other_imports plain_suppliers rival) (directory_of plain_suppliers))
       ''abc010101aa1'' ''Proveedor'' ?db = (Inr i, db') \<and> supplier_master db' \<and> (\<forall>j. holds_tax db' j ''abc010101aa1'' \<longleftrightarrow> j = i)"
    unfolding plain_suppliers_def by (rule resolve_supplier_race)
  moreover have "case resolveSupplier (interfered (other_imports plain_suppliers rival) (directory_of plain_suppliers))
       ''abc010101aa1'' ''Proveedor'' ?db of (Inr i, db') \<Rightarrow> length (sdb_suppliers db') = 1 | _ \<Rightarrow> False" by code_simp
  moreover have "holds_tax db' i ''ABC010101AA1'' \<longleftrightarrow> holds_tax db' i ''abc010101aa1''" for i and db' :: supplier_db
  proof -
    have "to_upper (trim_space ''ABC010101AA1'') = to_upper (trim_space ''abc010101aa1'')" by code_simp
    then show ?thesis by (simp add: holds_tax_def)
  qed
  ultimately show ?thesis by auto
qed

section \<open>The draft of an invoice\<close>

lemma new_line_number: "new_purchase_line_draft D l = Inr l' \<Longrightarrow> ld_number l' = ld_number l"
  by (auto simp: new_purchase_line_draft_def Let_def split: if_splits)

lemma draft_kept:
  assumes "NewPurchaseDraft D d = Inr d'"
  shows "map ld_number (pd_lines d') = map ld_number (pd_lines d)" "pd_issued d' = pd_issued d"
proof -
  obtain ls where ls: "mapr (new_purchase_line_draft D) (pd_lines d) = Inr ls" "d' = (canonical_draft d)\<lparr>pd_lines := ls\<rparr>"
    using assms by (auto simp: NewPurchaseDraft_def Let_def bindr_Inr_iff canonical_draft_def split: if_splits)
  have "list_all2 (\<lambda>l l'. new_purchase_line_draft D l = Inr l') (pd_lines d) ls" using ls(1) by (simp add: mapr_Inr_iff)
  then have "map ld_number ls = map ld_number (pd_lines d)"
    by (induction rule: list_all2_induct) (auto simp: new_line_number)
  then show "map ld_number (pd_lines d') = map ld_number (pd_lines d)" "pd_issued d' = pd_issued d"
    using ls(2) by (simp_all add: canonical_draft_def)
qed

lemma built_numbers: "build_lines D k cs = Inr ls \<Longrightarrow> map ld_number ls = [k + 1..k + int (length cs)]"
proof (induction cs arbitrary: k ls)
  case (Cons c cs)
  then obtain l ls' where l: "buildLineDraft D (k + 1) c = Inr l" "build_lines D (k + 1) cs = Inr ls'" "ls = l # ls'"
    by (auto simp: bindr_Inr_iff)
  have "ld_number l = k + 1" using l(1) by (auto simp: buildLineDraft_def bindr_Inr_iff)
  then show ?case using Cons.IH[OF l(2)] l(3) by (subst upto_rec1) (auto simp: algebra_simps)
qed simp

lemma built_draft:
  assumes "buildPurchaseDraft D digest invoice xml s b filename = Inr draft"
  shows "pd_issued draft = vo_date invoice" "sorted (map ld_number (pd_lines draft))"
proof -
  from assms obtain ls d where d: "build_lines D 0 (vo_concepts invoice) = Inr ls" "NewPurchaseDraft D d = Inr draft"
      "pd_lines d = ls" "pd_issued d = vo_date invoice"
    by (auto simp: buildPurchaseDraft_def bindr_Inr_iff split: option.splits)
  show "pd_issued draft = vo_date invoice" "sorted (map ld_number (pd_lines draft))"
    using draft_kept[OF d(2)] built_numbers[OF d(1)] d(3,4) by simp_all
qed

section \<open>Suppliers beside the import\<close>

definition same_parties :: "'x purchase_db_scheme \<Rightarrow> 'x purchase_db_scheme \<Rightarrow> bool" where
  "same_parties s t \<longleftrightarrow> sdb_suppliers t = sdb_suppliers s \<and> sdb_branches t = sdb_branches s \<and> sdb_supplier_seq t = sdb_supplier_seq s"

lemma parties_bnd [intro!]: "keeps same_parties m \<Longrightarrow> (\<And>x. keeps same_parties (f x)) \<Longrightarrow> keeps same_parties (bnd m f)"
  by (rule keeps_bnd) (simp add: same_parties_def)

lemma parties_pure [intro, simp]: "keeps same_parties (ret x)" "keeps same_parties (fail e)"
  by (rule keeps_pure, simp add: same_parties_def)+

lemma parties_stmt [intro!]: "keeps same_parties act \<Longrightarrow> keeps same_parties (stmt F name k act)"
  by (simp add: stmt_def split: option.split)

lemma parties_rows [intro]:
  "keeps same_parties (insert_purchase D now d)" "keeps same_parties (insert_line D p l i)" "keeps same_parties (upsert_product now s sku desc)"
  "keeps same_parties (purchase_where D P)" "keeps same_parties (queryPurchaseLines D F j)"
  by (auto simp: keeps_def insert_purchase_def insert_line_def upsert_product_def insert_product_def reuse_product_def purchase_where_def
      queryPurchaseLines_def bnd_run stmt_def map_err_def Let_def same_parties_def split: option.split sum.split prod.split db_error.split)

lemma import_lines_parties [intro]: "keeps same_parties (import_lines D F now s p k ds)"
  by (induction ds arbitrary: k) (auto simp: upsertSupplierProduct_def insertPurchaseLine_def)

lemma import_body_parties: "keeps same_parties (import_body D F now draft)"
  by (auto simp: import_body_def insertPurchase_def resolveDuplicateImport_def split: option.split sum.split db_error.split)

lemma import_parties: "Import D F applied now draft db = (Inr r, db') \<Longrightarrow> same_parties db db'"
  using import_body_parties[of D F now draft, unfolded keeps_def, rule_format, of db]
  by (auto simp: Import_def purchase_ready_def bnd_Inr transact_Inr)


section \<open>Importing a document again\<close>

text \<open>A read of a branch depends on the supplier tables only.\<close>

lemma branch_again:
  fixes db db' :: "'x purchase_db_scheme"
  assumes "resolve_branch (directory_of (supplier_repository F a now ilike coll)) i b db = (Inr r, t)" "same_parties t db'"
  shows "t = db" "resolve_branch (directory_of (supplier_repository no_faults a' now' ilike coll)) i b db' = (Inr r, db')"
proof -
  have f: "find_branch i b db' = find_branch i b db" if "same_parties db db'" using that
    by (simp add: find_branch_def same_parties_def)
  show t: "t = db"
    using assms(1) by (auto simp: resolve_branch_def wrapped_def directory_of_def get_branch_def supplier_repository_def GetBranch_def
        repo_ready_def bnd_Inr stmt_Inr require_Inr split: if_splits)
  show "resolve_branch (directory_of (supplier_repository no_faults a' now' ilike coll)) i b db' = (Inr r, db')"
  proof (cases "0 < b")
    case True
    with assms(1) obtain x where "sup_valid_id ''supplier_id'' i = None" "sup_valid_id ''branch_id'' b = None"
        "find_branch i b db = Some x" "r = Some (bh_id x)"
      by (auto simp: resolve_branch_def wrapped_def directory_of_def get_branch_def supplier_repository_def GetBranch_def
          repo_ready_def bnd_Inr stmt_Inr require_Inr)
    then show ?thesis using True f[OF assms(2)[unfolded t]]
      by (simp add: resolve_branch_def wrapped_def directory_of_def get_branch_def supplier_repository_def GetBranch_def
          repo_ready_def pool_ready_def no_faults_def bnd_run stmt_def map_err_def query_row_def)
  qed (use assms(1) in \<open>auto simp: resolve_branch_def\<close>)
qed

lemma import_cfdi_again:
  fixes db db' :: "'x purchase_db_scheme"
  assumes inv: "purchase_inv db" and laws: "decimal_laws D" and doc: "Parse X xml = Some (Inr invoice)"
    and run: "import_cfdi D digest X (purchase_repository D F a now ilike coll) (directory_of (supplier_repository G b now ilike coll)) xml opts = Some act"
      "act db = (Inr r, db')" "\<not> ir_existed r"
  shows "\<exists>act' e u. import_cfdi D digest X (purchase_repository D no_faults a' now' ilike coll)
      (directory_of (supplier_repository no_faults b' now' ilike coll)) xml opts = Some act'
    \<and> error_is e (Pur ErrPurchaseConflict)
    \<and> act' db' = (if pg_time (vo_date invoice) = vo_date invoice then Inr (r\<lparr>ir_existed := True\<rparr>) else Inl e, undo db' u)"
proof -
  let ?S = "directory_of (supplier_repository G b now ilike coll) :: 'x purchase_db_scheme supplier_directory"
  let ?S' = "directory_of (supplier_repository no_faults b' now' ilike coll) :: 'x purchase_db_scheme supplier_directory"
  let ?tax = "is_tax_id (iv_issuer invoice)" and ?name = "is_name (iv_issuer invoice)"
  have stamp: "xml \<noteq> []" "\<not> (case vo_stamp invoice of None \<Rightarrow> True | Some s \<Rightarrow> trim_space (st_uuid s) = [])"
    using run doc by (auto simp: import_cfdi_def split: if_splits)
  obtain i db1 bid t draft where
      s: "resolveSupplier ?S ?tax ?name db = (Inr i, db1)" and br: "resolve_branch ?S i (io_branch opts) db1 = (Inr bid, t)"
      and d: "buildPurchaseDraft D digest invoice xml i bid (io_filename opts) = Inr draft"
      and im: "Import D F a now draft t = (Inr r, db')"
    using run stamp doc by (auto simp: import_cfdi_def purchase_repository_def wrapped_def bnd_Inr)
  have t: "t = db1" by (rule branch_again(1)[OF br]) (simp add: same_parties_def)
  have p: "same_parties db1 db'" using import_parties[OF im] by (simp add: t)
  have inv1: "purchase_inv db1" and h: "holds_tax db1 i ?tax" and k: "to_upper (trim_space ?tax) \<noteq> []"
    using resolveSupplier_Inr[OF purchase_inv_parts(4)[OF inv] s] inv supplier_call_keeps[OF inv]
    by (auto simp del: run_supplier_call.simps)
  have "purchase_inv db'" using import_keeps[OF inv1, of D F a now draft] im by (simp add: t)
  then have I': "supplier_master db'" by (rule purchase_inv_parts(4))
  have h': "holds_tax db' i ?tax" using h p by (simp add: holds_tax_def same_parties_def)
  obtain su where su: "su_id su = i" "get_supplier_by_tax (supplier_repository no_faults b' now' ilike coll) (to_upper (trim_space ?tax)) db' = (Inr su, db')"
    by (rule holds_tax_lookup[OF I' h' k])
  have 1: "resolveSupplier ?S' ?tax ?name db' = (Inr i, db')"
    using k su by (simp add: resolveSupplier_def Let_def bnd_attempt directory_of_def)
  have 2: "resolve_branch ?S' i (io_branch opts) db' = (Inr bid, db')"
    using branch_again(2)[OF br] p by (simp add: t)
  obtain u where 3: "Import D no_faults a' now' draft db' = (if pg_time (pd_issued draft) = pd_issued draft
     then Inr (r\<lparr>ir_existed := True\<rparr>) else Inl (import_conflict draft), undo db' u)"
    using import_again[OF inv1 laws im[unfolded t] run(3) built_draft(2)[OF d]] by blast
  let ?e = "wrap_read ''import purchase'' (import_conflict draft)"
  have "\<exists>act'. import_cfdi D digest X (purchase_repository D no_faults a' now' ilike coll) ?S' xml opts = Some act'
    \<and> act' db' = (if pg_time (vo_date invoice) = vo_date invoice then Inr (r\<lparr>ir_existed := True\<rparr>) else Inl ?e, undo db' u)"
    using stamp doc d 1 2 3 built_draft(1)[OF d]
    by (simp add: import_cfdi_def purchase_repository_def wrapped_def bnd_run map_err_def)
  moreover have "error_is ?e (Pur ErrPurchaseConflict)" by (simp add: import_conflict_def wrap_read_def pur_error_def)
  ultimately show ?thesis by blast
qed


text \<open>C9: importing a document is idempotent from end to end: after one import stored a purchase,
  importing the same document again reads the same invoice, finds the same supplier and branch, and
  returns the stored purchase and lines as already existing; every table is as the first import left
  it. The instant of the document must be in whole microseconds.\<close>

theorem import_cfdi_idempotent:
  fixes db db' :: "'x purchase_db_scheme"
  assumes inv: "purchase_inv db" and laws: "decimal_laws D"
    and doc: "Parse X xml = Some (Inr invoice)" and time: "pg_time (vo_date invoice) = vo_date invoice"
    and run: "import_cfdi D digest X (purchase_repository D F a now ilike coll) (directory_of (supplier_repository G b now ilike coll)) xml opts = Some act"
      "act db = (Inr r, db')" "\<not> ir_existed r"
  shows "\<exists>act' u. import_cfdi D digest X (purchase_repository D no_faults a' now' ilike coll)
      (directory_of (supplier_repository no_faults b' now' ilike coll)) xml opts = Some act'
    \<and> act' db' = (Inr (r\<lparr>ir_existed := True\<rparr>), undo db' u)"
  using import_cfdi_again[OF inv laws doc run, where a' = a' and now' = now' and b' = b'] time by auto

text \<open>C39: a document whose instant has digits beyond the microsecond is refused at its second import as a
  conflict with itself: the table keeps microseconds, the comparison does not.\<close>

theorem import_cfdi_subsecond_conflict:
  fixes db db' :: "'x purchase_db_scheme"
  assumes inv: "purchase_inv db" and laws: "decimal_laws D"
    and doc: "Parse X xml = Some (Inr invoice)" and time: "pg_time (vo_date invoice) \<noteq> vo_date invoice"
    and run: "import_cfdi D digest X (purchase_repository D F a now ilike coll) (directory_of (supplier_repository G b now ilike coll)) xml opts = Some act"
      "act db = (Inr r, db')" "\<not> ir_existed r"
  shows "\<exists>act' e u. import_cfdi D digest X (purchase_repository D no_faults a' now' ilike coll)
      (directory_of (supplier_repository no_faults b' now' ilike coll)) xml opts = Some act'
    \<and> act' db' = (Inl e, undo db' u) \<and> error_is e (Pur ErrPurchaseConflict)"
  using import_cfdi_again[OF inv laws doc run, where a' = a' and now' = now' and b' = b'] time by auto

text \<open>The demonstration document, imported into a database without its supplier.\<close>

definition demo_act :: "gstring \<Rightarrow> int \<Rightarrow> (purchase_db, go_error, nat import_result) action" where
  "demo_act fecha now = the (import_cfdi demo_decimals (\<lambda>_. demo_hash) (demo_xml fecha)
     (purchase_repository demo_decimals no_faults False now (\<lambda>a b. a = b) (\<lambda>s. s))
     (directory_of (supplier_repository no_faults False now (\<lambda>a b. a = b) (\<lambda>s. s))) demo_document \<lparr>io_branch = 0, io_filename = ''a.xml''\<rparr>)"

lemma demo_import:
  assumes "Parse (demo_xml fecha) demo_document = Some (Inr invoice)"
  shows "import_cfdi demo_decimals (\<lambda>_. demo_hash) (demo_xml fecha)
     (purchase_repository demo_decimals no_faults False now (\<lambda>a b. a = b) (\<lambda>s. s))
     (directory_of (supplier_repository no_faults False now (\<lambda>a b. a = b) (\<lambda>s. s))) demo_document \<lparr>io_branch = 0, io_filename = ''a.xml''\<rparr>
     = Some (demo_act fecha now)"
  using assms by (simp add: demo_act_def import_cfdi_def demo_document_def utf8BOM_def)

theorem import_cfdi_idempotent_witness:
  "\<exists>r db u. demo_act demo_fecha 2000 empty_purchases = (Inr r, db) \<and> length (ir_lines r) = 2
     \<and> demo_act demo_fecha 7000 db = (Inr (r\<lparr>ir_existed := True\<rparr>), undo db u)"
proof -
  have "case Parse (demo_xml demo_fecha) demo_document of Some (Inr i) \<Rightarrow> pg_time (vo_date i) = vo_date i | _ \<Rightarrow> False" by code_simp
  then obtain invoice where doc: "Parse (demo_xml demo_fecha) demo_document = Some (Inr invoice)" "pg_time (vo_date invoice) = vo_date invoice"
    by (auto split: option.splits sum.splits)
  have "case fst (demo_act demo_fecha 2000 empty_purchases) of Inr r \<Rightarrow> \<not> ir_existed r \<and> length (ir_lines r) = 2 | Inl _ \<Rightarrow> False" by code_simp
  then obtain r db where r: "demo_act demo_fecha 2000 empty_purchases = (Inr r, db)" "\<not> ir_existed r" "length (ir_lines r) = 2"
    by (cases "demo_act demo_fecha 2000 empty_purchases") (auto split: sum.splits)
  from import_cfdi_idempotent[OF empty_purchase_inv demo_decimal_laws doc demo_import[OF doc(1)] r(1,2), where a' = False and b' = False and now' = 7000]
  show ?thesis using r by (auto simp: demo_import[OF doc(1)])
qed

theorem import_cfdi_subsecond_conflict_witness:
  "\<exists>r db e u. demo_act ''2024-02-29T10:30:00.0000001'' 2000 empty_purchases = (Inr r, db)
     \<and> demo_act ''2024-02-29T10:30:00.0000001'' 7000 db = (Inl e, undo db u) \<and> error_is e (Pur ErrPurchaseConflict)"
proof -
  let ?f = "''2024-02-29T10:30:00.0000001''"
  have "case Parse (demo_xml ?f) demo_document of Some (Inr i) \<Rightarrow> pg_time (vo_date i) \<noteq> vo_date i | _ \<Rightarrow> False" by code_simp
  then obtain invoice where doc: "Parse (demo_xml ?f) demo_document = Some (Inr invoice)" "pg_time (vo_date invoice) \<noteq> vo_date invoice"
    by (auto split: option.splits sum.splits)
  have "case fst (demo_act ?f 2000 empty_purchases) of Inr r \<Rightarrow> \<not> ir_existed r | Inl _ \<Rightarrow> False" by code_simp
  then obtain r db where r: "demo_act ?f 2000 empty_purchases = (Inr r, db)" "\<not> ir_existed r"
    by (cases "demo_act ?f 2000 empty_purchases") (auto split: sum.splits)
  from import_cfdi_subsecond_conflict[OF empty_purchase_inv demo_decimal_laws doc demo_import[OF doc(1)] r(1,2), where a' = False and b' = False and now' = 7000]
  show ?thesis using r by (auto simp: demo_import[OF doc(1)])
qed

end
