(* ===== verification/CatalogTables.thy ===== *)
theory CatalogTables
  imports CatalogKinds Sql "HOL-Library.Product_Lexorder"
begin

text \<open>
  The tables of the resource master as the migrations leave them
  (\<^verbatim>\<open>migrations/000002_resource_master.up.sql\<close> and its successors 3 to 12): the eleven tables of catalogue
  structure with the rules of a binding, and the resources with their attribute values. A table is the list
  of its rows. Every row of the catalogue has an identifier, a revision and a flag; names carry a prefix per
  table. \<open>constraints\<close> lists what the server checks when a statement ends, with the error code and the name
  of the constraint; a statement whose result breaks one has no effect but on the sequences. Rows keep the
  columns the sources read or write: the times are left out.
\<close>

section \<open>Rows\<close>

record pg_row =
  row_id :: int
  row_revision :: revision
  row_active :: bool

record pg_class = pg_row +
  cl_code :: gstring
  cl_name :: gstring
  cl_plural :: gstring
  cl_slug :: gstring
  cl_order :: int
  cl_aliases :: "gstring list"
  cl_keywords :: "gstring list"

record pg_option_set = pg_row +
  st_code :: gstring
  st_name :: gstring

record pg_family = pg_row +
  fa_class :: int
  fa_code :: gstring
  fa_name :: gstring

record pg_type = pg_row +
  ty_class :: int
  ty_family :: int
  ty_code :: gstring
  ty_name :: gstring

record pg_unit = pg_row +
  un_code :: gstring
  un_name :: gstring
  un_symbol :: gstring
  un_dimension :: gstring

record pg_policy = pg_row +
  po_family :: int
  po_unit :: int
  po_allowed :: bool
  po_suggested :: bool

record pg_definition = pg_row +
  de_code :: gstring
  de_name :: gstring
  de_value_type :: gstring
  de_dimension :: "gstring option"
  de_identity :: bool

record pg_option = pg_row +
  op_set :: gstring
  op_definition :: int
  op_code :: gstring
  op_label :: gstring
  op_order :: int

record pg_relation = pg_row +
  re_set :: gstring
  re_from_definition :: int
  re_from_option :: gstring
  re_to_definition :: int
  re_to_option :: gstring

record pg_attribute = pg_row +
  at_class :: int
  at_family :: int
  at_type :: "int option"
  at_definition :: int
  at_set :: gstring
  at_mode :: gstring
  at_identity :: bool
  at_order :: int

record pg_field = pg_row +
  fi_type :: int
  fi_definition :: int
  fi_position :: int

record pg_rule =
  ru_id :: int
  ru_attribute :: int
  ru_order :: int
  ru_when :: int
  ru_equals :: gstring
  ru_mode :: gstring
  ru_identity :: bool
  ru_not_applicable :: bool
  ru_active :: bool

record pg_resource = pg_row +
  rs_class :: int
  rs_family :: int
  rs_type :: int
  rs_unit :: int
  rs_name :: gstring
  rs_identity :: gstring

text \<open>Numeric columns hold the text the driver sends and reads.\<close>

record pg_value =
  va_id :: int
  va_resource :: int
  va_family :: int
  va_attribute :: int
  va_definition :: int
  va_set :: gstring
  va_state :: gstring
  va_option :: "gstring option"
  va_integer :: "int option"
  va_decimal :: "gstring option"
  va_quantity :: "gstring option"
  va_unit :: "int option"
  va_boolean :: "bool option"
  va_text :: "gstring option"

record catalog_db =
  tb_classes :: "pg_class list"
  tb_option_sets :: "pg_option_set list"
  tb_families :: "pg_family list"
  tb_types :: "pg_type list"
  tb_units :: "pg_unit list"
  tb_policies :: "pg_policy list"
  tb_definitions :: "pg_definition list"
  tb_options :: "pg_option list"
  tb_relations :: "pg_relation list"
  tb_attributes :: "pg_attribute list"
  tb_rules :: "pg_rule list"
  tb_fields :: "pg_field list"
  tb_resources :: "pg_resource list"
  tb_values :: "pg_value list"
  tb_sequences :: "(gstring, int) gmap"

type_synonym 'a catalog_stmt = "(catalog_db, db_error, 'a) action"
type_synonym 'a catalog_sql = "(catalog_db, go_error, 'a) action"

section \<open>Constraints\<close>

definition check_rows :: "'r list \<Rightarrow> gstring \<Rightarrow> ('r \<Rightarrow> bool) \<Rightarrow> bool \<times> gstring \<times> gstring" where
  "check_rows rows constraint p = (list_all p rows, ''23514'', constraint)"

definition unique_rows :: "'r list \<Rightarrow> gstring \<Rightarrow> ('r \<Rightarrow> 'k) \<Rightarrow> bool \<times> gstring \<times> gstring" where
  "unique_rows rows constraint key = (distinct (map key rows), ''23505'', constraint)"

definition foreign_rows :: "'r list \<Rightarrow> gstring \<Rightarrow> ('r \<Rightarrow> 'k) \<Rightarrow> 'k list \<Rightarrow> bool \<times> gstring \<times> gstring" where
  "foreign_rows rows constraint key keys = (list_all (\<lambda>r. key r \<in> set keys) rows, ''23503'', constraint)"

lemmas constraint_defs = check_rows_def unique_rows_def foreign_rows_def

definition nonblank :: "gstring \<Rightarrow> bool" where
  "nonblank s \<longleftrightarrow> btrim s \<noteq> []"

text \<open>The largest \<^verbatim>\<open>BIGINT\<close>; a revision is a positive one.\<close>

definition bigint_max :: revision where
  "bigint_max = 0x7FFFFFFFFFFFFFFF"

definition revision_constraint :: "gstring \<Rightarrow> ('r pg_row_scheme) list \<Rightarrow> bool \<times> gstring \<times> gstring" where
  "revision_constraint table rows =
     check_rows rows (table @ ''_revision_check'') (\<lambda>r. row_revision r \<noteq> 0 \<and> row_revision r \<le> bigint_max)"

definition key_constraint :: "gstring \<Rightarrow> ('r pg_row_scheme) list \<Rightarrow> bool \<times> gstring \<times> gstring" where
  "key_constraint constraint rows = unique_rows rows constraint row_id"

definition class_constraints :: "catalog_db \<Rightarrow> (bool \<times> gstring \<times> gstring) list" where
  "class_constraints db = (let rows = tb_classes db in
     [check_rows rows ''resource_classes_code_check'' (\<lambda>r. nonblank (cl_code r)),
      check_rows rows ''resource_classes_name_check'' (\<lambda>r. nonblank (cl_name r)),
      check_rows rows ''resource_classes_plural_check'' (\<lambda>r. nonblank (cl_plural r)),
      check_rows rows ''resource_classes_slug_check'' (\<lambda>r. nonblank (cl_slug r)),
      revision_constraint ''resource_classes'' rows,
      key_constraint ''resource_classes_pkey'' rows,
      unique_rows rows ''resource_classes_slug_key'' cl_slug,
      unique_rows rows ''resource_classes_code_upper_key'' (\<lambda>r. to_upper (cl_code r))])"

definition option_set_constraints :: "catalog_db \<Rightarrow> (bool \<times> gstring \<times> gstring) list" where
  "option_set_constraints db = (let rows = tb_option_sets db in
     [check_rows rows ''resource_option_sets_code_check'' (\<lambda>r. nonblank (st_code r)),
      check_rows rows ''resource_option_sets_name_check'' (\<lambda>r. nonblank (st_name r)),
      revision_constraint ''resource_option_sets'' rows,
      unique_rows rows ''resource_option_sets_pkey'' st_code,
      key_constraint ''resource_option_sets_id_key'' rows,
      unique_rows rows ''resource_option_sets_code_upper_key'' (\<lambda>r. to_upper (st_code r))])"

definition family_constraints :: "catalog_db \<Rightarrow> (bool \<times> gstring \<times> gstring) list" where
  "family_constraints db = (let rows = tb_families db in
     [check_rows rows ''resource_families_code_check'' (\<lambda>r. nonblank (fa_code r)),
      check_rows rows ''resource_families_name_check'' (\<lambda>r. nonblank (fa_name r)),
      revision_constraint ''resource_families'' rows,
      key_constraint ''resource_families_pkey'' rows,
      unique_rows rows ''resource_families_class_id_code_upper_key'' (\<lambda>r. (fa_class r, to_upper (fa_code r))),
      foreign_rows rows ''resource_families_class_id_fkey'' fa_class (map row_id (tb_classes db))])"

definition type_constraints :: "catalog_db \<Rightarrow> (bool \<times> gstring \<times> gstring) list" where
  "type_constraints db = (let rows = tb_types db in
     [check_rows rows ''resource_types_code_check'' (\<lambda>r. nonblank (ty_code r)),
      check_rows rows ''resource_types_name_check'' (\<lambda>r. nonblank (ty_name r)),
      revision_constraint ''resource_types'' rows,
      key_constraint ''resource_types_pkey'' rows,
      unique_rows rows ''resource_types_family_id_code_upper_key'' (\<lambda>r. (ty_family r, to_upper (ty_code r))),
      foreign_rows rows ''resource_types_family_id_class_id_fkey'' (\<lambda>r. (ty_family r, ty_class r))
        (map (\<lambda>f. (row_id f, fa_class f)) (tb_families db))])"

definition unit_constraints :: "catalog_db \<Rightarrow> (bool \<times> gstring \<times> gstring) list" where
  "unit_constraints db = (let rows = tb_units db in
     [check_rows rows ''unit_definitions_code_check'' (\<lambda>r. nonblank (un_code r)),
      check_rows rows ''unit_definitions_symbol_check'' (\<lambda>r. nonblank (un_symbol r)),
      check_rows rows ''unit_definitions_dimension_check'' (\<lambda>r. nonblank (un_dimension r)),
      check_rows rows ''unit_definitions_name_nonblank'' (\<lambda>r. nonblank (un_name r)),
      revision_constraint ''unit_definitions'' rows,
      key_constraint ''unit_definitions_pkey'' rows,
      unique_rows rows ''unit_definitions_symbol_key'' un_symbol,
      unique_rows rows ''unit_definitions_code_upper_key'' (\<lambda>r. to_upper (un_code r))])"

definition policy_constraints :: "catalog_db \<Rightarrow> (bool \<times> gstring \<times> gstring) list" where
  "policy_constraints db = (let rows = tb_policies db in
     [check_rows rows ''resource_unit_policies_check'' (\<lambda>r. \<not> po_suggested r \<or> po_allowed r),
      revision_constraint ''resource_unit_policies'' rows,
      unique_rows rows ''resource_unit_policies_pkey'' (\<lambda>r. (po_family r, po_unit r)),
      key_constraint ''resource_unit_policies_id_key'' rows,
      foreign_rows rows ''resource_unit_policies_family_id_fkey'' po_family (map row_id (tb_families db)),
      foreign_rows rows ''resource_unit_policies_unit_id_fkey'' po_unit (map row_id (tb_units db))])"

definition definition_constraints :: "catalog_db \<Rightarrow> (bool \<times> gstring \<times> gstring) list" where
  "definition_constraints db = (let rows = tb_definitions db in
     [check_rows rows ''attribute_definitions_code_check'' (\<lambda>r. nonblank (de_code r)),
      check_rows rows ''attribute_definitions_name_check'' (\<lambda>r. nonblank (de_name r)),
      check_rows rows ''attribute_definitions_value_type_check'' (\<lambda>r. de_value_type r \<in> set
        [ValueTypeControlledOption, ValueTypeInteger, ValueTypeDecimal, ValueTypeQuantity, ValueTypeBoolean,
         ValueTypeControlledText]),
      revision_constraint ''attribute_definitions'' rows,
      key_constraint ''attribute_definitions_pkey'' rows,
      unique_rows rows ''attribute_definitions_code_key'' de_code])"

definition option_key :: "('x) pg_option_scheme \<Rightarrow> gstring \<times> int \<times> gstring" where
  "option_key r = (op_set r, op_definition r, op_code r)"

definition option_constraints :: "catalog_db \<Rightarrow> (bool \<times> gstring \<times> gstring) list" where
  "option_constraints db = (let rows = tb_options db in
     [check_rows rows ''attribute_options_code_check'' (\<lambda>r. nonblank (op_code r)),
      check_rows rows ''attribute_options_label_check'' (\<lambda>r. nonblank (op_label r)),
      revision_constraint ''attribute_options'' rows,
      unique_rows rows ''attribute_options_pkey'' option_key,
      unique_rows rows ''attribute_options_display_order_key'' (\<lambda>r. (op_set r, op_definition r, op_order r)),
      key_constraint ''attribute_options_id_key'' rows,
      foreign_rows rows ''attribute_options_option_set_fkey'' op_set (map st_code (tb_option_sets db)),
      foreign_rows rows ''attribute_options_attribute_definition_id_fkey'' op_definition (map row_id (tb_definitions db))])"

definition relation_constraints :: "catalog_db \<Rightarrow> (bool \<times> gstring \<times> gstring) list" where
  "relation_constraints db = (let rows = tb_relations db in
     [check_rows rows ''attribute_option_relations_from_option_code_check'' (\<lambda>r. nonblank (re_from_option r)),
      check_rows rows ''attribute_option_relations_to_option_code_check'' (\<lambda>r. nonblank (re_to_option r)),
      check_rows rows ''attribute_option_relations_check'' (\<lambda>r. re_from_definition r \<noteq> re_to_definition r),
      revision_constraint ''attribute_option_relations'' rows,
      key_constraint ''attribute_option_relations_pkey'' rows,
      unique_rows rows ''attribute_option_relations_option_set_key''
        (\<lambda>r. (re_set r, re_from_definition r, re_from_option r, re_to_definition r, re_to_option r)),
      foreign_rows rows ''attribute_option_relations_option_set_fkey'' re_set (map st_code (tb_option_sets db)),
      foreign_rows rows ''attribute_option_relations_from_fkey'' (\<lambda>r. (re_set r, re_from_definition r, re_from_option r))
        (map option_key (tb_options db)),
      foreign_rows rows ''attribute_option_relations_to_fkey'' (\<lambda>r. (re_set r, re_to_definition r, re_to_option r))
        (map option_key (tb_options db))])"

definition attribute_modes :: "gstring list" where
  "attribute_modes = [ModeRequired, ModeOptional, ModeConditional, ModeForbidden]"

text \<open>The two partial unique indexes over a nullable type are one key with the type as an option.\<close>

definition attribute_constraints :: "catalog_db \<Rightarrow> (bool \<times> gstring \<times> gstring) list" where
  "attribute_constraints db = (let rows = tb_attributes db in
     [check_rows rows ''resource_attributes_mode_check'' (\<lambda>r. at_mode r \<in> set attribute_modes),
      revision_constraint ''resource_attributes'' rows,
      key_constraint ''resource_attributes_pkey'' rows,
      unique_rows rows ''resource_attributes_definition_key'' (\<lambda>r. (at_family r, at_type r, at_definition r)),
      unique_rows rows ''resource_attributes_display_order_key'' (\<lambda>r. (at_family r, at_type r, at_order r)),
      foreign_rows rows ''resource_attributes_definition_id_fkey'' at_definition (map row_id (tb_definitions db)),
      foreign_rows rows ''resource_attributes_option_set_fkey'' at_set (map st_code (tb_option_sets db)),
      foreign_rows rows ''resource_attributes_family_id_class_id_fkey'' (\<lambda>r. (at_family r, at_class r))
        (map (\<lambda>f. (row_id f, fa_class f)) (tb_families db)),
      foreign_rows (filter (\<lambda>r. at_type r \<noteq> None) rows) ''resource_attributes_type_id_family_id_fkey''
        (\<lambda>r. (at_type r, at_family r)) (map (\<lambda>t. (Some (row_id t), ty_family t)) (tb_types db))])"

definition rule_constraints :: "catalog_db \<Rightarrow> (bool \<times> gstring \<times> gstring) list" where
  "rule_constraints db = (let rows = tb_rules db in
     [check_rows rows ''resource_attribute_rules_when_equals_check'' (\<lambda>r. nonblank (ru_equals r)),
      check_rows rows ''resource_attribute_rules_mode_check'' (\<lambda>r. ru_mode r \<in> set attribute_modes),
      unique_rows rows ''resource_attribute_rules_pkey'' ru_id,
      unique_rows rows ''resource_attribute_rules_display_order_key'' (\<lambda>r. (ru_attribute r, ru_order r)),
      foreign_rows rows ''resource_attribute_rules_resource_attribute_id_fkey'' ru_attribute (map row_id (tb_attributes db)),
      foreign_rows rows ''resource_attribute_rules_when_definition_id_fkey'' ru_when (map row_id (tb_definitions db))])"

definition field_constraints :: "catalog_db \<Rightarrow> (bool \<times> gstring \<times> gstring) list" where
  "field_constraints db = (let rows = tb_fields db in
     [revision_constraint ''resource_type_presentation_fields'' rows,
      unique_rows rows ''resource_type_presentation_fields_pkey'' (\<lambda>r. (fi_type r, fi_definition r)),
      unique_rows rows ''resource_type_presentation_fields_type_id_position_key'' (\<lambda>r. (fi_type r, fi_position r)),
      key_constraint ''resource_type_presentation_fields_id_key'' rows,
      foreign_rows rows ''resource_type_presentation_fields_type_id_fkey'' fi_type (map row_id (tb_types db)),
      foreign_rows rows ''resource_type_presentation_fields_attribute_definition_id_fkey'' fi_definition
        (map row_id (tb_definitions db))])"

definition resource_constraints :: "catalog_db \<Rightarrow> (bool \<times> gstring \<times> gstring) list" where
  "resource_constraints db = (let rows = tb_resources db in
     [check_rows rows ''recursos_display_name_check'' (\<lambda>r. nonblank (rs_name r)),
      check_rows rows ''recursos_identity_key_check'' (\<lambda>r. nonblank (rs_identity r)),
      check_rows rows ''recursos_identity_key_v1'' (\<lambda>r. has_prefix (rs_identity r) ''v1|''),
      revision_constraint ''recursos'' rows,
      key_constraint ''recursos_pkey'' rows,
      unique_rows rows ''recursos_class_id_identity_key_key'' (\<lambda>r. (rs_class r, rs_identity r)),
      foreign_rows rows ''recursos_class_id_fkey'' rs_class (map row_id (tb_classes db)),
      foreign_rows rows ''recursos_natural_unit_id_fkey'' rs_unit (map row_id (tb_units db)),
      foreign_rows rows ''recursos_family_id_class_id_fkey'' (\<lambda>r. (rs_family r, rs_class r))
        (map (\<lambda>f. (row_id f, fa_class f)) (tb_families db)),
      foreign_rows rows ''recursos_type_id_family_id_fkey'' (\<lambda>r. (rs_type r, rs_family r))
        (map (\<lambda>t. (row_id t, ty_family t)) (tb_types db))])"

text \<open>\<^verbatim>\<open>num_nonnulls\<close> over the payload columns, and the trigger that ties the option to the value type.\<close>

definition payload_count :: "('x) pg_value_scheme \<Rightarrow> nat" where
  "payload_count v = length (filter (\<lambda>b. b) [va_option v \<noteq> None, va_integer v \<noteq> None, va_decimal v \<noteq> None,
     va_quantity v \<noteq> None, va_boolean v \<noteq> None, va_text v \<noteq> None])"

definition value_type_of :: "catalog_db \<Rightarrow> ('x) pg_value_scheme \<Rightarrow> gstring option" where
  "value_type_of db v = (case find (\<lambda>a. row_id a = va_attribute v \<and> at_family a = va_family v \<and> at_definition a = va_definition v)
       (tb_attributes db) of
     None \<Rightarrow> None
   | Some a \<Rightarrow> map_option de_value_type (find (\<lambda>d. row_id d = at_definition a) (tb_definitions db)))"

definition value_constraints :: "catalog_db \<Rightarrow> (bool \<times> gstring \<times> gstring) list" where
  "value_constraints db = (let rows = tb_values db in
     [check_rows rows ''resource_attribute_values_value_state_check''
        (\<lambda>v. va_state v = ''SET'' \<or> va_state v = NotApplicableText),
      check_rows rows ''resource_attribute_values_check''
        (\<lambda>v. payload_count v = (if va_state v = NotApplicableText then 0 else 1)),
      check_rows rows ''resource_attribute_values_check2''
        (\<lambda>v. va_state v = NotApplicableText \<or> va_quantity v = None \<or> va_unit v \<noteq> None),
      check_rows rows ''resource_attribute_values_check3''
        (\<lambda>v. va_state v = NotApplicableText \<or> (case va_text v of None \<Rightarrow> True | Some t \<Rightarrow> nonblank t)),
      unique_rows rows ''resource_attribute_values_pkey'' va_id,
      unique_rows rows ''resource_attribute_values_resource_id_resource_attribute_id_key''
        (\<lambda>v. (va_resource v, va_attribute v)),
      foreign_rows rows ''resource_attribute_values_resource_id_family_id_fkey'' (\<lambda>v. (va_resource v, va_family v))
        (map (\<lambda>r. (row_id r, rs_family r)) (tb_resources db)),
      foreign_rows rows ''resource_attribute_values_attribute_fkey''
        (\<lambda>v. (va_attribute v, va_family v, va_definition v))
        (map (\<lambda>a. (row_id a, at_family a, at_definition a)) (tb_attributes db)),
      foreign_rows rows ''resource_attribute_values_option_set_fkey'' va_set (map st_code (tb_option_sets db)),
      foreign_rows (filter (\<lambda>v. va_unit v \<noteq> None) rows) ''resource_attribute_values_quantity_unit_id_fkey'' va_unit
        (map (\<lambda>u. Some (row_id u)) (tb_units db)),
      foreign_rows (filter (\<lambda>v. va_option v \<noteq> None) rows) ''resource_attribute_values_option_fkey''
        (\<lambda>v. (va_set v, va_definition v, va_option v))
        (map (\<lambda>x. (op_set x, op_definition x, Some (op_code x))) (tb_options db))])"

definition constraints :: "catalog_db \<Rightarrow> (bool \<times> gstring \<times> gstring) list" where
  "constraints db = class_constraints db @ option_set_constraints db @ family_constraints db @ type_constraints db
     @ unit_constraints db @ policy_constraints db @ definition_constraints db @ option_constraints db
     @ relation_constraints db @ attribute_constraints db @ rule_constraints db @ field_constraints db
     @ resource_constraints db @ value_constraints db"

definition violation :: "catalog_db \<Rightarrow> db_error option" where
  "violation db = (case find (\<lambda>c. \<not> fst c) (constraints db) of
     None \<Rightarrow> None | Some (_, code, constraint) \<Rightarrow> Some (violates code constraint))"

definition tables_ok :: "catalog_db \<Rightarrow> bool" where
  "tables_ok db \<longleftrightarrow> violation db = None"

section \<open>Statements\<close>

text \<open>What a rollback leaves: the tables before, the sequences as they are.\<close>

definition undo_tables :: "catalog_db \<Rightarrow> catalog_db \<Rightarrow> catalog_db" where
  "undo_tables db t = db\<lparr>tb_sequences := tb_sequences t\<rparr>"

definition enforce :: "catalog_db \<Rightarrow> 'a \<Rightarrow> catalog_db \<Rightarrow> (db_error + 'a) \<times> catalog_db" where
  "enforce db x t = (case violation t of None \<Rightarrow> (Inr x, t) | Some e \<Rightarrow> (Inl e, undo_tables db t))"

definition nextval :: "gstring \<Rightarrow> catalog_db \<Rightarrow> int" where
  "nextval table db = (case map_of (tb_sequences db) table of Some n \<Rightarrow> n + 1 | None \<Rightarrow> 1)"

text \<open>\<^verbatim>\<open>INSERT ... SELECT ... RETURNING id\<close>: \<open>row\<close> is the row built from the new identifier when the
  selection finds one; a selection that finds nothing returns no row.\<close>

definition sql_insert ::
  "gstring \<Rightarrow> (('r list \<Rightarrow> 'r list) \<Rightarrow> catalog_db \<Rightarrow> catalog_db) \<Rightarrow> (catalog_db \<Rightarrow> (int \<Rightarrow> 'r) option) \<Rightarrow> int catalog_stmt" where
  "sql_insert table upd build = (\<lambda>db. case build db of None \<Rightarrow> (Inl NoRows, db)
     | Some row \<Rightarrow> let i = nextval table db in
         enforce db i (upd (\<lambda>rows. rows @ [row i]) (db\<lparr>tb_sequences := gput table i (tb_sequences db)\<rparr>)))"

text \<open>\<^verbatim>\<open>UPDATE ... WHERE\<close>, which reports how many rows it changed.\<close>

definition sql_update ::
  "(catalog_db \<Rightarrow> 'r list) \<Rightarrow> (('r list \<Rightarrow> 'r list) \<Rightarrow> catalog_db \<Rightarrow> catalog_db) \<Rightarrow> ('r \<Rightarrow> bool) \<Rightarrow> ('r \<Rightarrow> 'r)
     \<Rightarrow> int catalog_stmt" where
  "sql_update sel upd match f = (\<lambda>db.
     enforce db (int (length (filter match (sel db)))) (upd (map (\<lambda>r. if match r then f r else r)) db))"

definition sql_delete ::
  "(catalog_db \<Rightarrow> 'r list) \<Rightarrow> (('r \<Rightarrow> bool) \<Rightarrow> catalog_db \<Rightarrow> catalog_db) \<Rightarrow> ('r \<Rightarrow> bool) \<Rightarrow> int catalog_stmt" where
  "sql_delete sel remove match = (\<lambda>db. enforce db (int (length (filter match (sel db)))) (remove match db))"

definition remove_rows :: "(('r list \<Rightarrow> 'r list) \<Rightarrow> catalog_db \<Rightarrow> catalog_db) \<Rightarrow> ('r \<Rightarrow> bool) \<Rightarrow> catalog_db \<Rightarrow> catalog_db" where
  "remove_rows upd match = upd (filter (\<lambda>r. \<not> match r))"

text \<open>Deleting a binding deletes its rules (\<^verbatim>\<open>ON DELETE CASCADE\<close>).\<close>

definition remove_attributes :: "(pg_attribute \<Rightarrow> bool) \<Rightarrow> catalog_db \<Rightarrow> catalog_db" where
  "remove_attributes match db = (let gone = map row_id (filter match (tb_attributes db)) in
     db\<lparr>tb_attributes := filter (\<lambda>r. \<not> match r) (tb_attributes db),
        tb_rules := filter (\<lambda>r. ru_attribute r \<notin> set gone) (tb_rules db)\<rparr>)"

text \<open>\<^verbatim>\<open>UPDATE ... SET ..., revision = revision + 1 WHERE ... RETURNING revision\<close>.\<close>

definition sql_bump ::
  "(catalog_db \<Rightarrow> ('r pg_row_scheme) list) \<Rightarrow> ((('r pg_row_scheme) list \<Rightarrow> ('r pg_row_scheme) list) \<Rightarrow> catalog_db \<Rightarrow> catalog_db)
     \<Rightarrow> ('r pg_row_scheme \<Rightarrow> bool) \<Rightarrow> ('r pg_row_scheme \<Rightarrow> 'r pg_row_scheme) \<Rightarrow> revision catalog_stmt" where
  "sql_bump sel upd match f = (\<lambda>db. case filter match (sel db) of
       [] \<Rightarrow> (Inl NoRows, db)
     | r # rs \<Rightarrow> if list_ex (\<lambda>r. row_revision r = bigint_max) (r # rs)
         then (Inl (Broken (PgError ''22003'' [] ''bigint out of range'')), db)
         else enforce db (row_revision r + 1)
           (upd (map (\<lambda>r. if match r then (f r)\<lparr>row_revision := row_revision r + 1\<rparr> else r)) db))"

definition row_by_id :: "('r pg_row_scheme) list \<Rightarrow> int \<Rightarrow> ('r pg_row_scheme) option" where
  "row_by_id rows i = find (\<lambda>r. row_id r = i) rows"

end
