(* ===== verification/CatalogLoader.thy ===== *)
theory CatalogLoader
  imports CatalogTables
begin

text \<open>
  Reading the whole catalogue out of the tables (\<^verbatim>\<open>internal/postgres/catalog_loader.go\<close>). An inner join is a
  list comprehension over the joined tables, a left join an option. \<^verbatim>\<open>ORDER BY\<close> is a stable sort by the
  columns it names, rows that agree on them keeping the order of the table; \<open>coll\<close> is the collation key of a
  text. Each query may fail as \<open>F\<close> says, the \<open>k\<close>-th time it runs in a transaction.
\<close>

section \<open>Joins\<close>

definition join_families :: "catalog_db \<Rightarrow> (pg_family \<times> pg_class) list" where
  "join_families db = [(f, cl). f \<leftarrow> tb_families db, cl \<leftarrow> tb_classes db, row_id cl = fa_class f]"

definition join_types :: "catalog_db \<Rightarrow> (pg_type \<times> pg_family \<times> pg_class) list" where
  "join_types db = [(t, f, cl). t \<leftarrow> tb_types db, f \<leftarrow> tb_families db, row_id f = ty_family t,
     cl \<leftarrow> tb_classes db, row_id cl = ty_class t]"

definition join_fields :: "catalog_db \<Rightarrow> (pg_field \<times> (pg_type \<times> pg_family \<times> pg_class) \<times> pg_definition) list" where
  "join_fields db = [(x, (t, f, cl), d). x \<leftarrow> tb_fields db, (t, f, cl) \<leftarrow> join_types db, row_id t = fi_type x,
     d \<leftarrow> tb_definitions db, row_id d = fi_definition x]"

definition join_policies :: "catalog_db \<Rightarrow> (pg_policy \<times> (pg_family \<times> pg_class) \<times> pg_unit) list" where
  "join_policies db = [(p, (f, cl), u). p \<leftarrow> tb_policies db, (f, cl) \<leftarrow> join_families db, row_id f = po_family p,
     u \<leftarrow> tb_units db, row_id u = po_unit p]"

definition join_rules :: "catalog_db \<Rightarrow> (pg_rule \<times> pg_definition) list" where
  "join_rules db = [(r, d). r \<leftarrow> tb_rules db, d \<leftarrow> tb_definitions db, row_id d = ru_when r]"

definition left_type :: "catalog_db \<Rightarrow> pg_attribute \<Rightarrow> pg_type option" where
  "left_type db ra = (case at_type ra of None \<Rightarrow> None | Some i \<Rightarrow> row_by_id (tb_types db) i)"

definition join_attributes ::
  "catalog_db \<Rightarrow> (pg_attribute \<times> (pg_family \<times> pg_class) \<times> pg_type option \<times> pg_definition) list" where
  "join_attributes db = [(ra, (f, cl), left_type db ra, d). ra \<leftarrow> tb_attributes db,
     f \<leftarrow> tb_families db, row_id f = at_family ra, cl \<leftarrow> tb_classes db, row_id cl = at_class ra,
     d \<leftarrow> tb_definitions db, row_id d = at_definition ra]"

definition join_options :: "catalog_db \<Rightarrow> (pg_option \<times> pg_definition) list" where
  "join_options db = [(x, d). x \<leftarrow> tb_options db, d \<leftarrow> tb_definitions db, row_id d = op_definition x]"

definition join_relations :: "catalog_db \<Rightarrow> (pg_relation \<times> pg_definition \<times> pg_definition) list" where
  "join_relations db = [(x, fd, td). x \<leftarrow> tb_relations db, fd \<leftarrow> tb_definitions db, row_id fd = re_from_definition x,
     td \<leftarrow> tb_definitions db, row_id td = re_to_definition x]"

section \<open>The queries\<close>

definition dereference :: "gstring option \<Rightarrow> gstring" where
  "dereference v = (case v of None \<Rightarrow> [] | Some s \<Rightarrow> s)"

definition loadClasses :: "(gstring \<Rightarrow> gstring) \<Rightarrow> catalog_db \<Rightarrow> resource_class list" where
  "loadClasses coll db = map (\<lambda>c. \<lparr>rc_code = cl_code c, rc_name = cl_name c, rc_plural = cl_plural c, rc_slug = cl_slug c,
       rc_aliases = cl_aliases c, rc_keywords = cl_keywords c, rc_order = cl_order c, rc_active = row_active c\<rparr>)
     (sort_key (\<lambda>c. (cl_order c, coll (cl_code c))) (tb_classes db))"

definition loadOptionSets :: "(gstring \<Rightarrow> gstring) \<Rightarrow> catalog_db \<Rightarrow> resource_option_set list" where
  "loadOptionSets coll db = map (\<lambda>s. \<lparr>os_code = st_code s, os_name = st_name s, os_active = row_active s\<rparr>)
     (sort_key (\<lambda>s. coll (st_code s)) (tb_option_sets db))"

definition loadFamilies :: "catalog_db \<Rightarrow> resource_family list" where
  "loadFamilies db = map (\<lambda>(f, cl). \<lparr>rf_class = cl_code cl, rf_code = fa_code f, rf_name = fa_name f, rf_active = row_active f\<rparr>)
     (sort_key (\<lambda>(f, cl). (row_id cl, row_id f)) (join_families db))"

definition loadTypes :: "catalog_db \<Rightarrow> resource_type list" where
  "loadTypes db = map (\<lambda>(t, f, cl). \<lparr>rt_class = cl_code cl, rt_family = fa_code f, rt_code = ty_code t,
       rt_name = ty_name t, rt_active = row_active t\<rparr>)
     (sort_key (\<lambda>(t, f, cl). (row_id f, row_id t)) (join_types db))"

definition loadPresentationFields :: "catalog_db \<Rightarrow> presentation_field list" where
  "loadPresentationFields db = map (\<lambda>(x, (t, f, cl), d). \<lparr>pf_class = cl_code cl, pf_family = fa_code f, pf_type = ty_code t,
       pf_attribute = de_code d, pf_position = fi_position x, pf_active = row_active x\<rparr>)
     (sort_key (\<lambda>(x, (t, f, cl), d). (row_id t, fi_position x)) (join_fields db))"

definition loadUnits :: "catalog_db \<Rightarrow> unit_definition list" where
  "loadUnits db = map (\<lambda>u. \<lparr>ud_code = un_code u, ud_name = un_name u, ud_symbol = un_symbol u, ud_dimension = un_dimension u,
       ud_active = row_active u\<rparr>) (sort_key row_id (tb_units db))"

definition loadUnitPolicies :: "catalog_db \<Rightarrow> resource_unit_policy list" where
  "loadUnitPolicies db = map (\<lambda>(p, (f, cl), u). \<lparr>up_class = cl_code cl, up_family = fa_code f, up_unit = un_code u,
       up_allowed = po_allowed p, up_suggested = po_suggested p, up_active = row_active p\<rparr>)
     (sort_key (\<lambda>(p, (f, cl), u). (row_id f, row_id u)) (join_policies db))"

definition definition_of_row :: "pg_definition \<Rightarrow> attribute_definition" where
  "definition_of_row d = \<lparr>ad_code = de_code d, ad_name = de_name d, ad_value_type = de_value_type d,
     ad_dimension = dereference (de_dimension d), ad_default_identity = de_identity d, ad_active = row_active d\<rparr>"

definition loadDefinitions :: "catalog_db \<Rightarrow> attribute_definition list" where
  "loadDefinitions db = map definition_of_row (sort_key row_id (tb_definitions db))"

definition loadAttributeRules :: "catalog_db \<Rightarrow> int \<Rightarrow> attribute_rule list" where
  "loadAttributeRules db attributeID =
     map (\<lambda>(r, d). \<lparr>ar_when = \<lparr>when_attribute = de_code d, when_equals = ru_equals r\<rparr>, ar_mode = ru_mode r,
         ar_identity = ru_identity r, ar_not_applicable = ru_not_applicable r, ar_active = ru_active r\<rparr>)
       (filter (\<lambda>(r, d). ru_attribute r = attributeID)
         (sort_key (\<lambda>(r, d). (ru_attribute r, ru_order r)) (join_rules db)))"

definition type_code :: "pg_type option \<Rightarrow> gstring" where
  "type_code t = (case t of None \<Rightarrow> [] | Some t \<Rightarrow> ty_code t)"

definition type_id :: "pg_type option \<Rightarrow> int" where
  "type_id t = (case t of None \<Rightarrow> 0 | Some t \<Rightarrow> row_id t)"

definition loadAttributes :: "(int \<Rightarrow> attribute_rule list) \<Rightarrow> catalog_db \<Rightarrow> resource_attribute list" where
  "loadAttributes rules db = map (\<lambda>(ra, (f, cl), t, d). \<lparr>ra_class = cl_code cl, ra_family = fa_code f, ra_type = type_code t,
       ra_option_set = at_set ra, ra_definition = definition_of_row d, ra_mode = at_mode ra, ra_identity = at_identity ra,
       ra_rules = rules (row_id ra), ra_active = row_active ra\<rparr>)
     (sort_key (\<lambda>(ra, (f, cl), t, d). (row_id f, type_id t, at_order ra)) (join_attributes db))"

definition loadOptions :: "catalog_db \<Rightarrow> attribute_option list" where
  "loadOptions db = map (\<lambda>(x, d). \<lparr>ao_set = op_set x, ao_attribute = de_code d, ao_code = op_code x, ao_label = op_label x,
       ao_active = row_active x\<rparr>) (sort_key (\<lambda>(x, d). (row_id d, op_order x)) (join_options db))"

definition loadRelations :: "catalog_db \<Rightarrow> attribute_option_relation list" where
  "loadRelations db = map (\<lambda>(x, fd, td). \<lparr>rel_set = re_set x, rel_from_attribute = de_code fd, rel_from_option = re_from_option x,
       rel_to_attribute = de_code td, rel_to_option = re_to_option x, rel_active = row_active x\<rparr>)
     (sort_key (\<lambda>(x, fd, td). row_id x) (join_relations db))"

section \<open>The catalogue\<close>

definition read_table :: "sql_faults \<Rightarrow> nat \<Rightarrow> gstring \<Rightarrow> (catalog_db \<Rightarrow> 'a) \<Rightarrow> 'a catalog_sql" where
  "read_table F k table q = map_err (\<lambda>e. wrap_read (''query '' @ table) (db_error_value e)) (stmt F (''query '' @ table) k (asks q))"

definition loadResourceCatalogTx :: "sql_faults \<Rightarrow> (gstring \<Rightarrow> gstring) \<Rightarrow> nat \<Rightarrow> resource_catalog catalog_sql" where
  "loadResourceCatalogTx F coll k =
     bnd (read_table F k ''resource_classes'' (loadClasses coll)) (\<lambda>classes.
     bnd (read_table F k ''resource_option_sets'' (loadOptionSets coll)) (\<lambda>optionSets.
     bnd (read_table F k ''resource_families'' loadFamilies) (\<lambda>families.
     bnd (read_table F k ''resource_types'' loadTypes) (\<lambda>types.
     bnd (read_table F k ''resource_type_presentation_fields'' loadPresentationFields) (\<lambda>presentationFields.
     bnd (read_table F k ''unit_definitions'' loadUnits) (\<lambda>units.
     bnd (read_table F k ''resource_unit_policies'' loadUnitPolicies) (\<lambda>unitPolicies.
     bnd (read_table F k ''attribute_definitions'' loadDefinitions) (\<lambda>definitions.
     bnd (read_table F k ''resource_attribute_rules'' loadAttributeRules) (\<lambda>rules.
     bnd (read_table F k ''resource_attributes'' (loadAttributes rules)) (\<lambda>attributes.
     bnd (read_table F k ''attribute_options'' loadOptions) (\<lambda>options.
     bnd (read_table F k ''attribute_option_relations'' loadRelations) (\<lambda>relations.
     ret \<lparr>cat_classes = classes, cat_families = families, cat_types = types, cat_presentation = presentationFields,
       cat_units = units, cat_unit_policies = unitPolicies, cat_definitions = definitions, cat_attributes = attributes,
       cat_options = options, cat_relations = relations, cat_option_sets = optionSets\<rparr>))))))))))))"

definition ErrCatalogEmpty :: go_error where
  "ErrCatalogEmpty = ErrNew (''cat'' @ [CHR 0xE1] @ ''logo de recursos vac'' @ [CHR 0xED] @ ''o'')"

definition classifyLoadedCatalog :: "resource_catalog \<Rightarrow> go_error option" where
  "classifyLoadedCatalog c = (if cat_classes c = [] then Some ErrCatalogEmpty else None)"

definition LoadResourceCatalog :: "sql_faults \<Rightarrow> (gstring \<Rightarrow> gstring) \<Rightarrow> resource_catalog catalog_sql" where
  "LoadResourceCatalog F coll =
     bnd (transact F ''begin catalog load transaction'' (wrap_read ''commit catalog load transaction'') True undo_tables
       (loadResourceCatalogTx F coll 0)) (\<lambda>catalog.
     bnd (require (classifyLoadedCatalog catalog)) (\<lambda>_. ret catalog))"

text \<open>\<^verbatim>\<open>loadRevision\<close> validates the name of the table before it builds the query.\<close>

definition revisionTables :: "(gstring, catalog_db \<Rightarrow> (int \<times> revision) list) gmap" where
  "revisionTables =
    [(''recursos'', \<lambda>db. map (\<lambda>r. (row_id r, row_revision r)) (tb_resources db)),
     (''resource_classes'', \<lambda>db. map (\<lambda>r. (row_id r, row_revision r)) (tb_classes db)),
     (''resource_families'', \<lambda>db. map (\<lambda>r. (row_id r, row_revision r)) (tb_families db)),
     (''resource_types'', \<lambda>db. map (\<lambda>r. (row_id r, row_revision r)) (tb_types db)),
     (''attribute_definitions'', \<lambda>db. map (\<lambda>r. (row_id r, row_revision r)) (tb_definitions db)),
     (''resource_option_sets'', \<lambda>db. map (\<lambda>r. (row_id r, row_revision r)) (tb_option_sets db)),
     (''attribute_options'', \<lambda>db. map (\<lambda>r. (row_id r, row_revision r)) (tb_options db)),
     (''attribute_option_relations'', \<lambda>db. map (\<lambda>r. (row_id r, row_revision r)) (tb_relations db)),
     (''unit_definitions'', \<lambda>db. map (\<lambda>r. (row_id r, row_revision r)) (tb_units db)),
     (''resource_unit_policies'', \<lambda>db. map (\<lambda>r. (row_id r, row_revision r)) (tb_policies db)),
     (''resource_attributes'', \<lambda>db. map (\<lambda>r. (row_id r, row_revision r)) (tb_attributes db)),
     (''resource_type_presentation_fields'', \<lambda>db. map (\<lambda>r. (row_id r, row_revision r)) (tb_fields db))]"

definition loadRevision :: "sql_faults \<Rightarrow> gstring \<Rightarrow> int \<Rightarrow> revision catalog_sql" where
  "loadRevision F table i = (case map_of revisionTables table of
     None \<Rightarrow> fail (ErrNew (''loadRevision: table '' @ table @ '' has no revision column''))
   | Some revisions \<Rightarrow> map_err (\<lambda>e. wrap_read (''query '' @ table @ '' revision'') (db_error_value e))
       (stmt F (''query '' @ table @ '' revision'') 0 (query_row (\<lambda>db. map_of (revisions db) i))))"

text \<open>\<^verbatim>\<open>normalizeCatalogForParity\<close>: the default option set under the empty spelling.\<close>

definition normalizeOptionSet :: "gstring \<Rightarrow> gstring" where
  "normalizeOptionSet s = (if s = [] \<or> s = ''DEFAULT'' then [] else s)"

definition normalizeCatalogForParity :: "resource_catalog \<Rightarrow> resource_catalog" where
  "normalizeCatalogForParity c = c\<lparr>
     cat_attributes := map (\<lambda>a. a\<lparr>ra_option_set := normalizeOptionSet (ra_option_set a)\<rparr>) (cat_attributes c),
     cat_options := map (\<lambda>x. x\<lparr>ao_set := normalizeOptionSet (ao_set x)\<rparr>) (cat_options c),
     cat_relations := map (\<lambda>x. x\<lparr>rel_set := normalizeOptionSet (rel_set x)\<rparr>) (cat_relations c)\<rparr>"

end
