(* ===== verification/CatalogKindStore.thy ===== *)
theory CatalogKindStore
  imports CatalogService CatalogLoader
begin

text \<open>
  The catalogue repository over the tables (\<^verbatim>\<open>internal/postgres/catalog_admin_kinds.go\<close> and
  \<^verbatim>\<open>catalog_admin_repository.go\<close>): for each of the eleven kinds the list, get, insert, update, set-active,
  delete and reference queries, dispatched through \<^verbatim>\<open>kindTables\<close>. The result \<open>catalogAdminRepository\<close> is the
  interface \<open>catalog_repo\<close> of the catalogue service. A statement is named by the label of its error; \<open>F\<close> says
  which one fails. A row's record carries the identifiers of the rows it refers to, as the joins find them.
\<close>

section \<open>Errors\<close>

definition not_found :: go_error where
  "not_found = Sentinel (Dom ErrCatalogRecordNotFound)"

definition kind_unknown :: "gstring \<Rightarrow> go_error" where
  "kind_unknown kind = Wrapf ''%w: %q'' [kind] [Sentinel (Dom ErrCatalogKindUnknown)]"

definition bad_reference :: "gstring \<Rightarrow> gstring list \<Rightarrow> go_error" where
  "bad_reference format args = Wrapf format args [Sentinel (Dom ErrCatalogReference)]"

fun mapCatalogWriteError :: "gstring \<Rightarrow> sql_fault \<Rightarrow> go_error" where
  "mapCatalogWriteError operation (PgError code constraint message) =
     (if code = ''23505'' then Wrapf ''%w: %s'' [constraint] [Sentinel (Dom ErrCatalogDuplicate)]
      else if code = ''23503'' \<or> code = ''23514'' \<or> code = ''23502'' then bad_reference ''%w: %s'' [message]
      else wrap_read operation (ErrNew message))"
| "mapCatalogWriteError operation (DriverError e) = wrap_read operation e"

fun mapCatalogDeleteError :: "gstring \<Rightarrow> sql_fault \<Rightarrow> go_error" where
  "mapCatalogDeleteError operation (PgError code constraint message) =
     (if code = ''23503'' then Wrapf ''%w: %s'' [message] [Sentinel (Dom ErrCatalogInUse)]
      else wrap_read operation (ErrNew message))"
| "mapCatalogDeleteError operation (DriverError e) = wrap_read operation e"

definition requireRow :: "int \<Rightarrow> unit catalog_sql" where
  "requireRow affected = (if affected = 0 then fail not_found else ret ())"

section \<open>Queries\<close>

text \<open>\<^verbatim>\<open>QueryRow(...).Scan(...)\<close> with the error for no row; a write; an update that must hit a row.\<close>

definition read_row :: "sql_faults \<Rightarrow> gstring \<Rightarrow> go_error \<Rightarrow> (catalog_db \<Rightarrow> 'a option) \<Rightarrow> 'a catalog_sql" where
  "read_row F operation missing sel =
     map_err (\<lambda>e. case e of NoRows \<Rightarrow> missing | Broken f \<Rightarrow> wrap_read operation (fault_error f))
       (stmt F operation 0 (query_row sel))"

definition write_row :: "sql_faults \<Rightarrow> gstring \<Rightarrow> go_error \<Rightarrow> 'a catalog_stmt \<Rightarrow> 'a catalog_sql" where
  "write_row F operation missing act =
     map_err (\<lambda>e. case e of NoRows \<Rightarrow> missing | Broken f \<Rightarrow> mapCatalogWriteError operation f) (stmt F operation 0 act)"

definition exec_row :: "sql_faults \<Rightarrow> gstring \<Rightarrow> int catalog_stmt \<Rightarrow> unit catalog_sql" where
  "exec_row F operation act = bnd (write_row F operation (wrap_read operation (db_error_value NoRows)) act) requireRow"

definition delete_row :: "sql_faults \<Rightarrow> gstring \<Rightarrow> int catalog_stmt \<Rightarrow> unit catalog_sql" where
  "delete_row F operation act =
     bnd (map_err (\<lambda>e. case e of NoRows \<Rightarrow> wrap_read operation (db_error_value NoRows)
                            | Broken f \<Rightarrow> mapCatalogDeleteError operation f) (stmt F operation 0 act)) requireRow"

definition simpleSetActive ::
  "sql_faults \<Rightarrow> gstring \<Rightarrow> ((('r pg_row_scheme) list \<Rightarrow> ('r pg_row_scheme) list) \<Rightarrow> catalog_db \<Rightarrow> catalog_db)
     \<Rightarrow> (catalog_db \<Rightarrow> ('r pg_row_scheme) list) \<Rightarrow> int \<Rightarrow> bool \<Rightarrow> unit catalog_sql" where
  "simpleSetActive F table upd sel i active =
     exec_row F (''set active on '' @ table) (sql_update sel upd (\<lambda>r. row_id r = i) (\<lambda>r. r\<lparr>row_active := active\<rparr>))"

definition simpleDelete ::
  "sql_faults \<Rightarrow> gstring \<Rightarrow> ((('r pg_row_scheme) \<Rightarrow> bool) \<Rightarrow> catalog_db \<Rightarrow> catalog_db)
     \<Rightarrow> (catalog_db \<Rightarrow> ('r pg_row_scheme) list) \<Rightarrow> int \<Rightarrow> unit catalog_sql" where
  "simpleDelete F table remove sel i =
     delete_row F (''delete from '' @ table) (sql_delete sel remove (\<lambda>r. row_id r = i))"

definition read_exists :: "sql_faults \<Rightarrow> gstring \<Rightarrow> (catalog_db \<Rightarrow> bool) \<Rightarrow> bool catalog_sql" where
  "read_exists F operation p =
     map_err (\<lambda>e. wrap_read operation (db_error_value e)) (stmt F operation 0 (asks p))"

subsection \<open>Filters\<close>

type_synonym pattern_match = "gstring \<Rightarrow> gstring \<Rightarrow> bool"

abbreviation CatalogStatusInactive :: "8 word" where "CatalogStatusInactive \<equiv> 1"
abbreviation CatalogStatusAll :: "8 word" where "CatalogStatusAll \<equiv> 2"

definition appendTextFilter :: "pattern_match \<Rightarrow> gstring \<Rightarrow> gstring list \<Rightarrow> bool" where
  "appendTextFilter ilike txt columns \<longleftrightarrow> txt = [] \<or> columns = [] \<or> list_ex (\<lambda>c. ilike c (''%'' @ txt @ ''%'')) columns"

definition appendActiveFilter :: "8 word \<Rightarrow> bool \<Rightarrow> bool" where
  "appendActiveFilter status active \<longleftrightarrow>
     (if status = CatalogStatusInactive then \<not> active else if status = CatalogStatusAll then True else active)"

definition appendEqualsFilter :: "gstring \<Rightarrow> gstring \<Rightarrow> bool" where
  "appendEqualsFilter column v \<longleftrightarrow> v = [] \<or> column = v"

definition parentRefCode :: "catalog_filter \<Rightarrow> gstring \<Rightarrow> gstring" where
  "parentRefCode f key = (case map_of (cf_parent f) key of Some v \<Rightarrow> ref_code (cv_ref v) | None \<Rightarrow> [])"

definition limitOffsetClause :: "catalog_filter \<Rightarrow> 'a list \<Rightarrow> 'a list" where
  "limitOffsetClause f rows = (let rows = (if 0 < cf_offset f then drop (nat (cf_offset f)) rows else rows) in
     if 0 < cf_limit f then take (nat (cf_limit f)) rows else rows)"

definition finalizeQuery :: "('r \<Rightarrow> bool) \<Rightarrow> ('r \<Rightarrow> 'k::linorder) \<Rightarrow> catalog_filter \<Rightarrow> 'r list \<Rightarrow> 'r list" where
  "finalizeQuery conditions orderBy f rows = limitOffsetClause f (sort_key orderBy (filter conditions rows))"

definition list_rows :: "sql_faults \<Rightarrow> gstring \<Rightarrow> (catalog_db \<Rightarrow> 'a list) \<Rightarrow> 'a list catalog_sql" where
  "list_rows F table q = read_table F 0 table q"

subsection \<open>Values\<close>

definition textValue :: "gstring \<Rightarrow> catalog_value" where "textValue s = zero_value\<lparr>cv_text := s\<rparr>"
definition boolValue :: "bool \<Rightarrow> catalog_value" where "boolValue b = zero_value\<lparr>cv_bool := b\<rparr>"
definition intValue :: "int \<Rightarrow> catalog_value" where "intValue i = zero_value\<lparr>cv_int := i\<rparr>"
definition listValue :: "gstring list \<Rightarrow> catalog_value" where "listValue l = zero_value\<lparr>cv_list := l\<rparr>"

definition refValue :: "gstring \<Rightarrow> gstring \<Rightarrow> int \<Rightarrow> catalog_value" where
  "refValue kind code i = zero_value\<lparr>cv_ref := \<lparr>ref_kind = kind, ref_code = code, ref_label = [], ref_id = i\<rparr>\<rparr>"

definition refValueLabel :: "gstring \<Rightarrow> gstring \<Rightarrow> gstring \<Rightarrow> int \<Rightarrow> catalog_value" where
  "refValueLabel kind code label i = zero_value\<lparr>cv_ref := \<lparr>ref_kind = kind, ref_code = code, ref_label = label, ref_id = i\<rparr>\<rparr>"

definition row_record :: "gstring \<Rightarrow> ('r pg_row_scheme) \<Rightarrow> (gstring, catalog_value) gmap \<Rightarrow> catalog_record" where
  "row_record kind r vs = \<lparr>rec_kind = kind, rec_id = row_id r, rec_revision = row_revision r, rec_active = row_active r,
     rec_values = vs, rec_rules = None\<rparr>"

section \<open>References\<close>

definition resolveClassID :: "sql_faults \<Rightarrow> gstring \<Rightarrow> int catalog_sql" where
  "resolveClassID F code = read_row F ''resolve class'' (bad_reference ''%w: class %q'' [code])
     (\<lambda>db. map_option row_id (find (\<lambda>c. cl_code c = code) (tb_classes db)))"

definition resolveFamilyID :: "sql_faults \<Rightarrow> gstring \<Rightarrow> gstring \<Rightarrow> (int \<times> int) catalog_sql" where
  "resolveFamilyID F classCode familyCode =
     read_row F ''resolve family'' (bad_reference ''%w: class %q, family %q'' [classCode, familyCode])
     (\<lambda>db. map_option (\<lambda>(f, cl). (row_id f, fa_class f))
        (find (\<lambda>(f, cl). cl_code cl = classCode \<and> fa_code f = familyCode) (join_families db)))"

definition resolveTypeID :: "sql_faults \<Rightarrow> gstring \<Rightarrow> gstring \<Rightarrow> gstring \<Rightarrow> (int \<times> int) catalog_sql" where
  "resolveTypeID F classCode familyCode typeCode =
     read_row F ''resolve type'' (bad_reference ''%w: class %q, family %q, type %q'' [classCode, familyCode, typeCode])
     (\<lambda>db. map_option (\<lambda>(t, f, cl). (row_id t, ty_family t))
        (find (\<lambda>(t, f, cl). cl_code cl = classCode \<and> fa_code f = familyCode \<and> ty_code t = typeCode) (join_types db)))"

definition definition_id :: "catalog_db \<Rightarrow> gstring \<Rightarrow> int option" where
  "definition_id db code = map_option row_id (find (\<lambda>d. de_code d = code) (tb_definitions db))"

definition resolveDefinitionID :: "sql_faults \<Rightarrow> gstring \<Rightarrow> int catalog_sql" where
  "resolveDefinitionID F code = read_row F ''resolve attribute definition'' (bad_reference ''%w: characteristic %q'' [code])
     (\<lambda>db. definition_id db code)"

text \<open>The empty type code is the family level.\<close>

definition resolveOptionalTypeID :: "sql_faults \<Rightarrow> gstring \<Rightarrow> gstring \<Rightarrow> gstring \<Rightarrow> int \<Rightarrow> int option catalog_sql" where
  "resolveOptionalTypeID F classCode familyCode typeCode familyID =
     (if typeCode = [] then ret None
      else bnd (resolveTypeID F classCode familyCode typeCode) (\<lambda>(typeID, resolvedFamilyID).
        if resolvedFamilyID \<noteq> familyID
        then fail (bad_reference ''%w: type %q does not belong to family %q'' [typeCode, familyCode])
        else ret (Some typeID)))"

definition nullableString :: "gstring \<Rightarrow> gstring option" where
  "nullableString s = (if s = [] then None else Some s)"

text \<open>\<^verbatim>\<open>COALESCE((SELECT MAX(display_order)+1 ...), 0)\<close>.\<close>

definition next_order :: "int list \<Rightarrow> int" where
  "next_order xs = (case xs of [] \<Rightarrow> 0 | x # xs \<Rightarrow> fold max xs x + 1)"

section \<open>Classes\<close>

definition classRecord :: "pg_class \<Rightarrow> catalog_record" where
  "classRecord c = row_record KindClass c [(''code'', textValue (cl_code c)), (''name'', textValue (cl_name c)),
     (''plural'', textValue (cl_plural c)), (''slug'', textValue (cl_slug c)), (''order'', intValue (cl_order c)),
     (''aliases'', listValue (cl_aliases c)), (''keywords'', listValue (cl_keywords c))]"

definition listClasses :: "sql_faults \<Rightarrow> pattern_match \<Rightarrow> (gstring \<Rightarrow> gstring) \<Rightarrow> catalog_filter \<Rightarrow> catalog_record list catalog_sql" where
  "listClasses F ilike coll f = list_rows F ''resource_classes'' (\<lambda>db. map classRecord
     (finalizeQuery (\<lambda>c. appendTextFilter ilike (cf_text f) [cl_code c, cl_name c] \<and> appendActiveFilter (cf_status f) (row_active c))
        (\<lambda>c. (cl_order c, coll (cl_code c))) f (tb_classes db)))"

definition getClass :: "sql_faults \<Rightarrow> int \<Rightarrow> catalog_record catalog_sql" where
  "getClass F i = read_row F ''get resource_classes'' not_found (\<lambda>db. map_option classRecord (row_by_id (tb_classes db) i))"

definition class_row :: "catalog_record \<Rightarrow> int \<Rightarrow> pg_class" where
  "class_row r i = \<lparr>row_id = i, row_revision = 1, row_active = rec_active r, cl_code = rec_text r ''code'',
     cl_name = rec_text r ''name'', cl_plural = rec_text r ''plural'', cl_slug = rec_text r ''slug'',
     cl_order = rec_int r ''order'', cl_aliases = rec_list r ''aliases'', cl_keywords = rec_list r ''keywords''\<rparr>"

definition insertClass :: "sql_faults \<Rightarrow> catalog_record \<Rightarrow> int catalog_sql" where
  "insertClass F r = write_row F ''insert resource_classes'' not_found
     (sql_insert ''resource_classes'' tb_classes_update (\<lambda>db. Some (class_row r)))"

definition classReferencedByResources :: "sql_faults \<Rightarrow> int \<Rightarrow> bool catalog_sql" where
  "classReferencedByResources F i = read_exists F ''check class referenced by resources''
     (\<lambda>db. list_ex (\<lambda>r. rs_class r = i) (tb_resources db))"

text \<open>The columns an update sets: the code is left out once a resource refers to the row.\<close>

definition set_class :: "bool \<Rightarrow> catalog_record \<Rightarrow> pg_class \<Rightarrow> pg_class" where
  "set_class referenced r c = (let c = c\<lparr>cl_name := rec_text r ''name'', cl_plural := rec_text r ''plural'',
       cl_slug := rec_text r ''slug'', cl_order := rec_int r ''order'', cl_aliases := rec_list r ''aliases'',
       cl_keywords := rec_list r ''keywords'', row_active := rec_active r\<rparr> in
     if referenced then c else c\<lparr>cl_code := rec_text r ''code''\<rparr>)"

definition updateClass :: "sql_faults \<Rightarrow> catalog_record \<Rightarrow> unit catalog_sql" where
  "updateClass F r = bnd (classReferencedByResources F (rec_id r)) (\<lambda>referenced.
     exec_row F ''update resource_classes''
       (sql_update tb_classes tb_classes_update (\<lambda>c. row_id c = rec_id r) (set_class referenced r)))"

section \<open>Families\<close>

definition familyRecord :: "pg_family \<times> pg_class \<Rightarrow> catalog_record" where
  "familyRecord = (\<lambda>(f, cl). row_record KindFamily f
     [(''class'', refValueLabel KindClass (cl_code cl) (cl_name cl) (row_id cl)), (''code'', textValue (fa_code f)),
      (''name'', textValue (fa_name f))])"

definition listFamilies :: "sql_faults \<Rightarrow> pattern_match \<Rightarrow> catalog_filter \<Rightarrow> catalog_record list catalog_sql" where
  "listFamilies F ilike f = list_rows F ''resource_families'' (\<lambda>db. map familyRecord
     (finalizeQuery (\<lambda>(x, cl). appendTextFilter ilike (cf_text f) [fa_code x, fa_name x, cl_name cl]
          \<and> appendActiveFilter (cf_status f) (row_active x) \<and> appendEqualsFilter (cl_code cl) (parentRefCode f ''class''))
        (\<lambda>(x, cl). (row_id cl, row_id x)) f (join_families db)))"

definition getFamily :: "sql_faults \<Rightarrow> int \<Rightarrow> catalog_record catalog_sql" where
  "getFamily F i = read_row F ''get resource_families'' not_found
     (\<lambda>db. map_option familyRecord (find (\<lambda>(x, cl). row_id x = i) (join_families db)))"

definition family_row :: "int \<Rightarrow> catalog_record \<Rightarrow> int \<Rightarrow> pg_family" where
  "family_row classID r i = \<lparr>row_id = i, row_revision = 1, row_active = rec_active r, fa_class = classID,
     fa_code = rec_text r ''code'', fa_name = rec_text r ''name''\<rparr>"

definition insertFamily :: "sql_faults \<Rightarrow> catalog_record \<Rightarrow> int catalog_sql" where
  "insertFamily F r = write_row F ''insert resource_families'' (bad_reference ''%w: class %q'' [rec_ref r ''class''])
     (sql_insert ''resource_families'' tb_families_update (\<lambda>db.
        map_option (\<lambda>cl. family_row (row_id cl) r) (find (\<lambda>cl. cl_code cl = rec_ref r ''class'') (tb_classes db))))"

definition familyReferencedByResources :: "sql_faults \<Rightarrow> int \<Rightarrow> bool catalog_sql" where
  "familyReferencedByResources F i = read_exists F ''check family referenced by resources''
     (\<lambda>db. list_ex (\<lambda>r. rs_family r = i) (tb_resources db))"

definition set_family :: "bool \<Rightarrow> int \<Rightarrow> catalog_record \<Rightarrow> pg_family \<Rightarrow> pg_family" where
  "set_family referenced classID r x = (let x = x\<lparr>fa_class := classID, fa_name := rec_text r ''name'', row_active := rec_active r\<rparr> in
     if referenced then x else x\<lparr>fa_code := rec_text r ''code''\<rparr>)"

definition updateFamily :: "sql_faults \<Rightarrow> catalog_record \<Rightarrow> unit catalog_sql" where
  "updateFamily F r = bnd (resolveClassID F (rec_ref r ''class'')) (\<lambda>classID.
     bnd (familyReferencedByResources F (rec_id r)) (\<lambda>referenced.
     exec_row F ''update resource_families''
       (sql_update tb_families tb_families_update (\<lambda>x. row_id x = rec_id r) (set_family referenced classID r))))"

section \<open>Types\<close>

definition typeRecord :: "pg_type \<times> pg_family \<times> pg_class \<Rightarrow> catalog_record" where
  "typeRecord = (\<lambda>(t, f, cl). row_record KindType t
     [(''class'', refValueLabel KindClass (cl_code cl) (cl_name cl) (row_id cl)),
      (''family'', refValueLabel KindFamily (fa_code f) (fa_name f) (row_id f)),
      (''code'', textValue (ty_code t)), (''name'', textValue (ty_name t))])"

definition listTypes :: "sql_faults \<Rightarrow> pattern_match \<Rightarrow> catalog_filter \<Rightarrow> catalog_record list catalog_sql" where
  "listTypes F ilike f = list_rows F ''resource_types'' (\<lambda>db. map typeRecord
     (finalizeQuery (\<lambda>(t, x, cl). appendTextFilter ilike (cf_text f) [ty_code t, ty_name t, cl_name cl, fa_name x]
          \<and> appendActiveFilter (cf_status f) (row_active t) \<and> appendEqualsFilter (cl_code cl) (parentRefCode f ''class'')
          \<and> appendEqualsFilter (fa_code x) (parentRefCode f ''family''))
        (\<lambda>(t, x, cl). (row_id x, row_id t)) f (join_types db)))"

definition getType :: "sql_faults \<Rightarrow> int \<Rightarrow> catalog_record catalog_sql" where
  "getType F i = read_row F ''get resource_types'' not_found
     (\<lambda>db. map_option typeRecord (find (\<lambda>(t, x, cl). row_id t = i) (join_types db)))"

definition type_row_of :: "int \<Rightarrow> int \<Rightarrow> catalog_record \<Rightarrow> int \<Rightarrow> pg_type" where
  "type_row_of classID familyID r i = \<lparr>row_id = i, row_revision = 1, row_active = rec_active r, ty_class = classID,
     ty_family = familyID, ty_code = rec_text r ''code'', ty_name = rec_text r ''name''\<rparr>"

definition insertType :: "sql_faults \<Rightarrow> catalog_record \<Rightarrow> int catalog_sql" where
  "insertType F r = bnd (resolveFamilyID F (rec_ref r ''class'') (rec_ref r ''family'')) (\<lambda>(familyID, classID).
     write_row F ''insert resource_types'' not_found
       (sql_insert ''resource_types'' tb_types_update (\<lambda>db. Some (type_row_of classID familyID r))))"

definition typeReferencedByResources :: "sql_faults \<Rightarrow> int \<Rightarrow> bool catalog_sql" where
  "typeReferencedByResources F i = read_exists F ''check type referenced by resources''
     (\<lambda>db. list_ex (\<lambda>r. rs_type r = i) (tb_resources db))"

definition set_type :: "bool \<Rightarrow> int \<Rightarrow> int \<Rightarrow> catalog_record \<Rightarrow> pg_type \<Rightarrow> pg_type" where
  "set_type referenced classID familyID r t = (let t = t\<lparr>ty_class := classID, ty_family := familyID,
       ty_name := rec_text r ''name'', row_active := rec_active r\<rparr> in
     if referenced then t else t\<lparr>ty_code := rec_text r ''code''\<rparr>)"

definition updateType :: "sql_faults \<Rightarrow> catalog_record \<Rightarrow> unit catalog_sql" where
  "updateType F r = bnd (resolveFamilyID F (rec_ref r ''class'') (rec_ref r ''family'')) (\<lambda>(familyID, classID).
     bnd (typeReferencedByResources F (rec_id r)) (\<lambda>referenced.
     exec_row F ''update resource_types''
       (sql_update tb_types tb_types_update (\<lambda>t. row_id t = rec_id r) (set_type referenced classID familyID r))))"

section \<open>Characteristics\<close>

definition definitionRecord :: "pg_definition \<Rightarrow> catalog_record" where
  "definitionRecord d = row_record KindAttributeDefinition d [(''code'', textValue (de_code d)), (''name'', textValue (de_name d)),
     (''valueType'', textValue (de_value_type d)), (''dimension'', textValue (dereference (de_dimension d))),
     (''defaultIdentityParticipates'', boolValue (de_identity d))]"

definition listDefinitions :: "sql_faults \<Rightarrow> pattern_match \<Rightarrow> catalog_filter \<Rightarrow> catalog_record list catalog_sql" where
  "listDefinitions F ilike f = list_rows F ''attribute_definitions'' (\<lambda>db. map definitionRecord
     (finalizeQuery (\<lambda>d. appendTextFilter ilike (cf_text f) [de_code d, de_name d] \<and> appendActiveFilter (cf_status f) (row_active d))
        row_id f (tb_definitions db)))"

definition getDefinition :: "sql_faults \<Rightarrow> int \<Rightarrow> catalog_record catalog_sql" where
  "getDefinition F i = read_row F ''get attribute_definitions'' not_found
     (\<lambda>db. map_option definitionRecord (row_by_id (tb_definitions db) i))"

definition definition_row :: "catalog_record \<Rightarrow> int \<Rightarrow> pg_definition" where
  "definition_row r i = \<lparr>row_id = i, row_revision = 1, row_active = rec_active r, de_code = rec_text r ''code'',
     de_name = rec_text r ''name'', de_value_type = rec_text r ''valueType'',
     de_dimension = nullableString (rec_text r ''dimension''), de_identity = rec_bool r ''defaultIdentityParticipates''\<rparr>"

definition insertDefinition :: "sql_faults \<Rightarrow> catalog_record \<Rightarrow> int catalog_sql" where
  "insertDefinition F r = write_row F ''insert attribute_definitions'' not_found
     (sql_insert ''attribute_definitions'' tb_definitions_update (\<lambda>db. Some (definition_row r)))"

definition definitionReferencedByResources :: "sql_faults \<Rightarrow> int \<Rightarrow> bool catalog_sql" where
  "definitionReferencedByResources F i = read_exists F ''check characteristic referenced by resources''
     (\<lambda>db. list_ex (\<lambda>v. va_definition v = i) (tb_values db))"

definition set_definition :: "bool \<Rightarrow> catalog_record \<Rightarrow> pg_definition \<Rightarrow> pg_definition" where
  "set_definition referenced r d = (let d = d\<lparr>de_name := rec_text r ''name'', de_value_type := rec_text r ''valueType'',
       de_dimension := nullableString (rec_text r ''dimension''), de_identity := rec_bool r ''defaultIdentityParticipates'',
       row_active := rec_active r\<rparr> in
     if referenced then d else d\<lparr>de_code := rec_text r ''code''\<rparr>)"

definition updateDefinition :: "sql_faults \<Rightarrow> catalog_record \<Rightarrow> unit catalog_sql" where
  "updateDefinition F r = bnd (definitionReferencedByResources F (rec_id r)) (\<lambda>referenced.
     exec_row F ''update attribute_definitions''
       (sql_update tb_definitions tb_definitions_update (\<lambda>d. row_id d = rec_id r) (set_definition referenced r)))"

section \<open>Option sets\<close>

definition optionSetRecord :: "pg_option_set \<Rightarrow> catalog_record" where
  "optionSetRecord s = row_record KindOptionSet s [(''code'', textValue (st_code s)), (''name'', textValue (st_name s))]"

definition listOptionSets :: "sql_faults \<Rightarrow> pattern_match \<Rightarrow> (gstring \<Rightarrow> gstring) \<Rightarrow> catalog_filter \<Rightarrow> catalog_record list catalog_sql" where
  "listOptionSets F ilike coll f = list_rows F ''resource_option_sets'' (\<lambda>db. map optionSetRecord
     (finalizeQuery (\<lambda>s. appendTextFilter ilike (cf_text f) [st_code s, st_name s] \<and> appendActiveFilter (cf_status f) (row_active s))
        (\<lambda>s. coll (st_code s)) f (tb_option_sets db)))"

definition getOptionSet :: "sql_faults \<Rightarrow> int \<Rightarrow> catalog_record catalog_sql" where
  "getOptionSet F i = read_row F ''get resource_option_sets'' not_found
     (\<lambda>db. map_option optionSetRecord (row_by_id (tb_option_sets db) i))"

definition option_set_row :: "catalog_record \<Rightarrow> int \<Rightarrow> pg_option_set" where
  "option_set_row r i = \<lparr>row_id = i, row_revision = 1, row_active = rec_active r, st_code = rec_text r ''code'',
     st_name = rec_text r ''name''\<rparr>"

definition insertOptionSet :: "sql_faults \<Rightarrow> catalog_record \<Rightarrow> int catalog_sql" where
  "insertOptionSet F r = write_row F ''insert resource_option_sets'' not_found
     (sql_insert ''resource_option_sets'' tb_option_sets_update (\<lambda>db. Some (option_set_row r)))"

definition optionSetReferencedByResources :: "sql_faults \<Rightarrow> int \<Rightarrow> bool catalog_sql" where
  "optionSetReferencedByResources F i = read_exists F ''check option set referenced by resources''
     (\<lambda>db. list_ex (\<lambda>s. row_id s = i \<and> list_ex (\<lambda>v. va_set v = st_code s) (tb_values db)) (tb_option_sets db))"

definition set_option_set :: "bool \<Rightarrow> catalog_record \<Rightarrow> pg_option_set \<Rightarrow> pg_option_set" where
  "set_option_set referenced r s = (let s = s\<lparr>st_name := rec_text r ''name'', row_active := rec_active r\<rparr> in
     if referenced then s else s\<lparr>st_code := rec_text r ''code''\<rparr>)"

definition updateOptionSet :: "sql_faults \<Rightarrow> catalog_record \<Rightarrow> unit catalog_sql" where
  "updateOptionSet F r =
     bnd (read_row F ''resolve resource_option_sets'' not_found (\<lambda>db. map_option st_code (row_by_id (tb_option_sets db) (rec_id r)))) (\<lambda>currentCode.
     bnd (optionSetReferencedByResources F (rec_id r)) (\<lambda>referenced.
     exec_row F ''update resource_option_sets''
       (sql_update tb_option_sets tb_option_sets_update (\<lambda>s. st_code s = currentCode) (set_option_set referenced r))))"

definition setActiveOptionSet :: "sql_faults \<Rightarrow> int \<Rightarrow> bool \<Rightarrow> unit catalog_sql" where
  "setActiveOptionSet F i active = exec_row F ''set active on resource_option_sets''
     (sql_update tb_option_sets tb_option_sets_update (\<lambda>s. row_id s = i) (\<lambda>s. s\<lparr>row_active := active\<rparr>))"

definition deleteOptionSet :: "sql_faults \<Rightarrow> int \<Rightarrow> unit catalog_sql" where
  "deleteOptionSet F i = delete_row F ''delete from resource_option_sets''
     (sql_delete tb_option_sets (remove_rows tb_option_sets_update) (\<lambda>s. row_id s = i))"

section \<open>Options\<close>

definition join_option_rows :: "catalog_db \<Rightarrow> (pg_option \<times> pg_definition \<times> pg_option_set) list" where
  "join_option_rows db = [(x, d, s). x \<leftarrow> tb_options db, d \<leftarrow> tb_definitions db, row_id d = op_definition x,
     s \<leftarrow> tb_option_sets db, st_code s = op_set x]"

definition optionRecord :: "pg_option \<times> pg_definition \<times> pg_option_set \<Rightarrow> catalog_record" where
  "optionRecord = (\<lambda>(x, d, s). row_record KindOption x
     [(''optionSet'', refValue KindOptionSet (op_set x) (row_id s)),
      (''characteristic'', refValue KindAttributeDefinition (de_code d) (row_id d)),
      (''code'', textValue (op_code x)), (''label'', textValue (op_label x))])"

definition listOptions :: "sql_faults \<Rightarrow> pattern_match \<Rightarrow> catalog_filter \<Rightarrow> catalog_record list catalog_sql" where
  "listOptions F ilike f = list_rows F ''attribute_options'' (\<lambda>db. map optionRecord
     (finalizeQuery (\<lambda>(x, d, s). appendTextFilter ilike (cf_text f) [op_code x, op_label x]
          \<and> appendActiveFilter (cf_status f) (row_active x) \<and> appendEqualsFilter (op_set x) (parentRefCode f ''optionSet'')
          \<and> appendEqualsFilter (de_code d) (parentRefCode f ''characteristic''))
        (\<lambda>(x, d, s). (row_id d, op_order x)) f (join_option_rows db)))"

definition getOption :: "sql_faults \<Rightarrow> int \<Rightarrow> catalog_record catalog_sql" where
  "getOption F i = read_row F ''get attribute_options'' not_found
     (\<lambda>db. map_option optionRecord (find (\<lambda>(x, d, s). row_id x = i) (join_option_rows db)))"

definition option_row :: "int \<Rightarrow> int \<Rightarrow> catalog_record \<Rightarrow> int \<Rightarrow> pg_option" where
  "option_row definitionID position r i = \<lparr>row_id = i, row_revision = 1, row_active = rec_active r,
     op_set = rec_ref r ''optionSet'', op_definition = definitionID, op_code = rec_text r ''code'',
     op_label = rec_text r ''label'', op_order = position\<rparr>"

definition build_option :: "catalog_record \<Rightarrow> catalog_db \<Rightarrow> (int \<Rightarrow> pg_option) option" where
  "build_option r db = map_option (\<lambda>d. option_row d
       (next_order (map op_order (filter (\<lambda>x. op_set x = rec_ref r ''optionSet'' \<and> op_definition x = d) (tb_options db)))) r)
     (definition_id db (rec_ref r ''characteristic''))"

definition option_reference_error :: "catalog_record \<Rightarrow> go_error" where
  "option_reference_error r =
     bad_reference ''%w: characteristic %q or option set %q'' [rec_ref r ''characteristic'', rec_ref r ''optionSet'']"

definition insertOption :: "sql_faults \<Rightarrow> catalog_record \<Rightarrow> int catalog_sql" where
  "insertOption F r = write_row F ''insert attribute_options'' (option_reference_error r)
     (sql_insert ''attribute_options'' tb_options_update (build_option r))"

definition optionReferencedByResources :: "sql_faults \<Rightarrow> int \<Rightarrow> bool catalog_sql" where
  "optionReferencedByResources F i = read_exists F ''check option referenced by resources''
     (\<lambda>db. list_ex (\<lambda>x. row_id x = i \<and> list_ex (\<lambda>v. va_set v = op_set x \<and> va_definition v = op_definition x
        \<and> va_option v = Some (op_code x)) (tb_values db)) (tb_options db))"

definition set_option :: "bool \<Rightarrow> catalog_record \<Rightarrow> pg_option \<Rightarrow> pg_option" where
  "set_option referenced r x = (let x = x\<lparr>op_label := rec_text r ''label'', row_active := rec_active r\<rparr> in
     if referenced then x else x\<lparr>op_code := rec_text r ''code''\<rparr>)"

text \<open>An option is addressed by its natural key, resolved from the identifier first.\<close>

definition resolve_option :: "sql_faults \<Rightarrow> int \<Rightarrow> (gstring \<times> gstring \<times> gstring) catalog_sql" where
  "resolve_option F i = read_row F ''resolve attribute_options'' not_found
     (\<lambda>db. map_option (\<lambda>(x, d). (op_set x, de_code d, op_code x)) (find (\<lambda>(x, d). row_id x = i) (join_options db)))"

definition option_at :: "catalog_db \<Rightarrow> gstring \<times> gstring \<times> gstring \<Rightarrow> pg_option \<Rightarrow> bool" where
  "option_at db key x = (case key of (optionSet, defCode, code) \<Rightarrow>
     op_set x = optionSet \<and> Some (op_definition x) = definition_id db defCode \<and> op_code x = code)"

definition updateOption :: "sql_faults \<Rightarrow> catalog_record \<Rightarrow> unit catalog_sql" where
  "updateOption F r =
     bnd (resolve_option F (rec_id r)) (\<lambda>key.
     bnd (optionReferencedByResources F (rec_id r)) (\<lambda>referenced.
     exec_row F ''update attribute_options''
       (\<lambda>db. sql_update tb_options tb_options_update (option_at db key) (set_option referenced r) db)))"

definition setActiveOption :: "sql_faults \<Rightarrow> int \<Rightarrow> bool \<Rightarrow> unit catalog_sql" where
  "setActiveOption F i active = exec_row F ''set active on attribute_options''
     (sql_update tb_options tb_options_update (\<lambda>x. row_id x = i) (\<lambda>x. x\<lparr>row_active := active\<rparr>))"

definition deleteOption :: "sql_faults \<Rightarrow> int \<Rightarrow> unit catalog_sql" where
  "deleteOption F i = delete_row F ''delete from attribute_options''
     (sql_delete tb_options (remove_rows tb_options_update) (\<lambda>x. row_id x = i))"

section \<open>Option relations\<close>

definition join_relation_rows ::
  "catalog_db \<Rightarrow> (pg_relation \<times> pg_option_set \<times> (pg_definition \<times> pg_option) \<times> (pg_definition \<times> pg_option)) list" where
  "join_relation_rows db = [(x, s, (fd, fo), (td, too)). x \<leftarrow> tb_relations db, s \<leftarrow> tb_option_sets db, st_code s = re_set x,
     fd \<leftarrow> tb_definitions db, row_id fd = re_from_definition x, td \<leftarrow> tb_definitions db, row_id td = re_to_definition x,
     fo \<leftarrow> tb_options db, op_set fo = re_set x \<and> op_definition fo = row_id fd \<and> op_code fo = re_from_option x,
     too \<leftarrow> tb_options db, op_set too = re_set x \<and> op_definition too = row_id td \<and> op_code too = re_to_option x]"

definition optionRelationRecord ::
  "pg_relation \<times> pg_option_set \<times> (pg_definition \<times> pg_option) \<times> (pg_definition \<times> pg_option) \<Rightarrow> catalog_record" where
  "optionRelationRecord = (\<lambda>(x, s, (fd, fo), (td, too)). row_record KindOptionRelation x
     [(''optionSet'', refValue KindOptionSet (re_set x) (row_id s)),
      (''fromCharacteristic'', refValue KindAttributeDefinition (de_code fd) (row_id fd)),
      (''fromOption'', refValue KindOption (re_from_option x) (row_id fo)),
      (''toCharacteristic'', refValue KindAttributeDefinition (de_code td) (row_id td)),
      (''toOption'', refValue KindOption (re_to_option x) (row_id too))])"

definition listOptionRelations :: "sql_faults \<Rightarrow> catalog_filter \<Rightarrow> catalog_record list catalog_sql" where
  "listOptionRelations F f = list_rows F ''attribute_option_relations'' (\<lambda>db. map optionRelationRecord
     (finalizeQuery (\<lambda>(x, s, from, to). appendActiveFilter (cf_status f) (row_active x)
          \<and> appendEqualsFilter (re_set x) (parentRefCode f ''optionSet''))
        (\<lambda>(x, s, from, to). row_id x) f (join_relation_rows db)))"

definition getOptionRelation :: "sql_faults \<Rightarrow> int \<Rightarrow> catalog_record catalog_sql" where
  "getOptionRelation F i = read_row F ''get attribute_option_relations'' not_found
     (\<lambda>db. map_option optionRelationRecord (find (\<lambda>(x, s, from, to). row_id x = i) (join_relation_rows db)))"

definition build_relation :: "catalog_record \<Rightarrow> catalog_db \<Rightarrow> (int \<Rightarrow> pg_relation) option" where
  "build_relation r db =
     (case (definition_id db (rec_ref r ''fromCharacteristic''), definition_id db (rec_ref r ''toCharacteristic'')) of
        (Some fd, Some td) \<Rightarrow> Some (\<lambda>i. \<lparr>row_id = i, row_revision = 1, row_active = rec_active r,
          re_set = rec_ref r ''optionSet'', re_from_definition = fd, re_from_option = rec_ref r ''fromOption'',
          re_to_definition = td, re_to_option = rec_ref r ''toOption''\<rparr>)
      | _ \<Rightarrow> None)"

definition relation_reference_error :: "catalog_record \<Rightarrow> go_error" where
  "relation_reference_error r =
     bad_reference ''%w: characteristic %q or %q'' [rec_ref r ''fromCharacteristic'', rec_ref r ''toCharacteristic'']"

definition insertOptionRelation :: "sql_faults \<Rightarrow> catalog_record \<Rightarrow> int catalog_sql" where
  "insertOptionRelation F r = write_row F ''insert attribute_option_relations'' (relation_reference_error r)
     (sql_insert ''attribute_option_relations'' tb_relations_update (build_relation r))"

definition set_relation :: "int \<Rightarrow> int \<Rightarrow> catalog_record \<Rightarrow> pg_relation \<Rightarrow> pg_relation" where
  "set_relation fromDefinition toDefinition r x = x\<lparr>re_set := rec_ref r ''optionSet'', re_from_definition := fromDefinition,
     re_from_option := rec_ref r ''fromOption'', re_to_definition := toDefinition, re_to_option := rec_ref r ''toOption'',
     row_active := rec_active r\<rparr>"

text \<open>A characteristic that does not exist is a NULL in a column that admits none, when a row is hit.\<close>

definition with_definitions ::
  "catalog_record \<Rightarrow> (pg_relation \<Rightarrow> bool) \<Rightarrow> (int \<Rightarrow> int \<Rightarrow> 'a catalog_stmt) \<Rightarrow> (db_error + 'a) \<Rightarrow> 'a catalog_stmt" where
  "with_definitions r match run nothing = (\<lambda>db.
     case (definition_id db (rec_ref r ''fromCharacteristic''), definition_id db (rec_ref r ''toCharacteristic'')) of
        (Some fd, Some td) \<Rightarrow> run fd td db
      | (None, _) \<Rightarrow> (if list_ex match (tb_relations db) then Inl (violates ''23502'' ''from_attribute_definition_id'') else nothing, db)
      | (Some _, None) \<Rightarrow> (if list_ex match (tb_relations db) then Inl (violates ''23502'' ''to_attribute_definition_id'') else nothing, db))"

definition updateOptionRelation :: "sql_faults \<Rightarrow> catalog_record \<Rightarrow> unit catalog_sql" where
  "updateOptionRelation F r = exec_row F ''update attribute_option_relations''
     (with_definitions r (\<lambda>x. row_id x = rec_id r)
        (\<lambda>fd td. sql_update tb_relations tb_relations_update (\<lambda>x. row_id x = rec_id r) (set_relation fd td r)) (Inr 0))"

section \<open>Units\<close>

definition unitRecord :: "pg_unit \<Rightarrow> catalog_record" where
  "unitRecord u = row_record KindUnit u [(''code'', textValue (un_code u)), (''name'', textValue (un_name u)),
     (''symbol'', textValue (un_symbol u)), (''dimension'', textValue (un_dimension u))]"

definition listUnits :: "sql_faults \<Rightarrow> pattern_match \<Rightarrow> catalog_filter \<Rightarrow> catalog_record list catalog_sql" where
  "listUnits F ilike f = list_rows F ''unit_definitions'' (\<lambda>db. map unitRecord
     (finalizeQuery (\<lambda>u. appendTextFilter ilike (cf_text f) [un_code u, un_name u, un_symbol u, un_dimension u]
          \<and> appendActiveFilter (cf_status f) (row_active u)) row_id f (tb_units db)))"

definition getUnit :: "sql_faults \<Rightarrow> int \<Rightarrow> catalog_record catalog_sql" where
  "getUnit F i = read_row F ''get unit_definitions'' not_found (\<lambda>db. map_option unitRecord (row_by_id (tb_units db) i))"

definition unit_row :: "catalog_record \<Rightarrow> int \<Rightarrow> pg_unit" where
  "unit_row r i = \<lparr>row_id = i, row_revision = 1, row_active = rec_active r, un_code = rec_text r ''code'',
     un_name = rec_text r ''name'', un_symbol = rec_text r ''symbol'', un_dimension = rec_text r ''dimension''\<rparr>"

definition insertUnit :: "sql_faults \<Rightarrow> catalog_record \<Rightarrow> int catalog_sql" where
  "insertUnit F r = write_row F ''insert unit_definitions'' not_found
     (sql_insert ''unit_definitions'' tb_units_update (\<lambda>db. Some (unit_row r)))"

definition unitReferencedByResources :: "sql_faults \<Rightarrow> int \<Rightarrow> bool catalog_sql" where
  "unitReferencedByResources F i = read_exists F ''check unit referenced by resources''
     (\<lambda>db. list_ex (\<lambda>r. rs_unit r = i) (tb_resources db) \<or> list_ex (\<lambda>v. va_unit v = Some i) (tb_values db))"

definition set_unit :: "bool \<Rightarrow> catalog_record \<Rightarrow> pg_unit \<Rightarrow> pg_unit" where
  "set_unit referenced r u = (let u = u\<lparr>un_name := rec_text r ''name'', un_symbol := rec_text r ''symbol'',
       un_dimension := rec_text r ''dimension'', row_active := rec_active r\<rparr> in
     if referenced then u else u\<lparr>un_code := rec_text r ''code''\<rparr>)"

definition updateUnit :: "sql_faults \<Rightarrow> catalog_record \<Rightarrow> unit catalog_sql" where
  "updateUnit F r = bnd (unitReferencedByResources F (rec_id r)) (\<lambda>referenced.
     exec_row F ''update unit_definitions''
       (sql_update tb_units tb_units_update (\<lambda>u. row_id u = rec_id r) (set_unit referenced r)))"

section \<open>Unit policies\<close>

definition unitPolicyRecord :: "pg_policy \<times> (pg_family \<times> pg_class) \<times> pg_unit \<Rightarrow> catalog_record" where
  "unitPolicyRecord = (\<lambda>(p, (f, cl), u). row_record KindUnitPolicy p
     [(''class'', refValue KindClass (cl_code cl) (row_id cl)), (''family'', refValue KindFamily (fa_code f) (row_id f)),
      (''unit'', refValue KindUnit (un_code u) (row_id u)), (''allowed'', boolValue (po_allowed p)),
      (''suggested'', boolValue (po_suggested p))])"

definition listUnitPolicies :: "sql_faults \<Rightarrow> catalog_filter \<Rightarrow> catalog_record list catalog_sql" where
  "listUnitPolicies F f = list_rows F ''resource_unit_policies'' (\<lambda>db. map unitPolicyRecord
     (finalizeQuery (\<lambda>(p, (x, cl), u). appendActiveFilter (cf_status f) (row_active p)
          \<and> appendEqualsFilter (cl_code cl) (parentRefCode f ''class'') \<and> appendEqualsFilter (fa_code x) (parentRefCode f ''family''))
        (\<lambda>(p, (x, cl), u). (row_id x, row_id u)) f (join_policies db)))"

definition getUnitPolicy :: "sql_faults \<Rightarrow> int \<Rightarrow> catalog_record catalog_sql" where
  "getUnitPolicy F i = read_row F ''get resource_unit_policies'' not_found
     (\<lambda>db. map_option unitPolicyRecord (find (\<lambda>(p, (x, cl), u). row_id p = i) (join_policies db)))"

definition build_policy :: "catalog_record \<Rightarrow> catalog_db \<Rightarrow> (int \<Rightarrow> pg_policy) option" where
  "build_policy r db =
     (case (find (\<lambda>(f, cl). cl_code cl = rec_ref r ''class'' \<and> fa_code f = rec_ref r ''family'') (join_families db),
            find (\<lambda>u. un_code u = rec_ref r ''unit'') (tb_units db)) of
        (Some (f, cl), Some u) \<Rightarrow> Some (\<lambda>i. \<lparr>row_id = i, row_revision = 1, row_active = rec_active r, po_family = row_id f,
          po_unit = row_id u, po_allowed = rec_bool r ''allowed'', po_suggested = rec_bool r ''suggested''\<rparr>)
      | _ \<Rightarrow> None)"

definition policy_reference_error :: "catalog_record \<Rightarrow> go_error" where
  "policy_reference_error r =
     bad_reference ''%w: class %q, family %q, or unit %q'' [rec_ref r ''class'', rec_ref r ''family'', rec_ref r ''unit'']"

definition insertUnitPolicy :: "sql_faults \<Rightarrow> catalog_record \<Rightarrow> int catalog_sql" where
  "insertUnitPolicy F r = write_row F ''insert resource_unit_policies'' (policy_reference_error r)
     (sql_insert ''resource_unit_policies'' tb_policies_update (build_policy r))"

definition set_policy :: "catalog_record \<Rightarrow> pg_policy \<Rightarrow> pg_policy" where
  "set_policy r p = p\<lparr>po_allowed := rec_bool r ''allowed'', po_suggested := rec_bool r ''suggested'', row_active := rec_active r\<rparr>"

definition resolve_policy :: "sql_faults \<Rightarrow> int \<Rightarrow> (int \<times> int) catalog_sql" where
  "resolve_policy F i = read_row F ''resolve resource_unit_policies'' not_found
     (\<lambda>db. map_option (\<lambda>p. (po_family p, po_unit p)) (row_by_id (tb_policies db) i))"

definition updateUnitPolicy :: "sql_faults \<Rightarrow> catalog_record \<Rightarrow> unit catalog_sql" where
  "updateUnitPolicy F r = bnd (resolve_policy F (rec_id r)) (\<lambda>key.
     exec_row F ''update resource_unit_policies''
       (sql_update tb_policies tb_policies_update (\<lambda>p. (po_family p, po_unit p) = key) (set_policy r)))"

definition setActiveUnitPolicy :: "sql_faults \<Rightarrow> int \<Rightarrow> bool \<Rightarrow> unit catalog_sql" where
  "setActiveUnitPolicy F i active = exec_row F ''set active on resource_unit_policies''
     (sql_update tb_policies tb_policies_update (\<lambda>p. row_id p = i) (\<lambda>p. p\<lparr>row_active := active\<rparr>))"

definition deleteUnitPolicy :: "sql_faults \<Rightarrow> int \<Rightarrow> unit catalog_sql" where
  "deleteUnitPolicy F i = delete_row F ''delete from resource_unit_policies''
     (sql_delete tb_policies (remove_rows tb_policies_update) (\<lambda>p. row_id p = i))"

section \<open>Bindings\<close>

definition left_option_set :: "catalog_db \<Rightarrow> gstring \<Rightarrow> int" where
  "left_option_set db code = (case find (\<lambda>s. st_code s = code) (tb_option_sets db) of None \<Rightarrow> 0 | Some s \<Rightarrow> row_id s)"

definition attributeBindingRecord ::
  "catalog_db \<Rightarrow> pg_attribute \<times> (pg_family \<times> pg_class) \<times> pg_type option \<times> pg_definition \<Rightarrow> catalog_record" where
  "attributeBindingRecord db = (\<lambda>(ra, (f, cl), t, d). row_record KindAttributeBinding ra
     [(''class'', refValue KindClass (cl_code cl) (row_id cl)), (''family'', refValue KindFamily (fa_code f) (row_id f)),
      (''type'', refValue KindType (type_code t) (type_id t)),
      (''characteristic'', refValue KindAttributeDefinition (de_code d) (row_id d)),
      (''optionSet'', refValue KindOptionSet (at_set ra) (left_option_set db (at_set ra))),
      (''mode'', textValue (at_mode ra)), (''identityParticipates'', boolValue (at_identity ra))])"

text \<open>A filter on the type code leaves out the bindings of the family level, whose code is NULL there.\<close>

definition listAttributeBindings :: "sql_faults \<Rightarrow> catalog_filter \<Rightarrow> catalog_record list catalog_sql" where
  "listAttributeBindings F f = list_rows F ''resource_attributes'' (\<lambda>db. map (attributeBindingRecord db)
     (finalizeQuery (\<lambda>(ra, (x, cl), t, d). appendActiveFilter (cf_status f) (row_active ra)
          \<and> appendEqualsFilter (cl_code cl) (parentRefCode f ''class'') \<and> appendEqualsFilter (fa_code x) (parentRefCode f ''family'')
          \<and> (parentRefCode f ''type'' = [] \<or> map_option ty_code t = Some (parentRefCode f ''type''))
          \<and> appendEqualsFilter (de_code d) (parentRefCode f ''characteristic'')
          \<and> appendEqualsFilter (at_set ra) (parentRefCode f ''optionSet''))
        (\<lambda>(ra, (x, cl), t, d). (row_id x, type_id t, at_order ra)) f (join_attributes db)))"

definition getAttributeBinding :: "sql_faults \<Rightarrow> int \<Rightarrow> catalog_record catalog_sql" where
  "getAttributeBinding F i = read_row F ''get resource_attributes'' not_found
     (\<lambda>db. map_option (attributeBindingRecord db) (find (\<lambda>(ra, fc, t, d). row_id ra = i) (join_attributes db)))"

record binding_refs =
  bi_class :: int
  bi_family :: int
  bi_type :: "int option"
  bi_definition :: int
  bi_set :: gstring

definition resolve_binding_refs :: "sql_faults \<Rightarrow> catalog_record \<Rightarrow> binding_refs catalog_sql" where
  "resolve_binding_refs F r =
     bnd (resolveFamilyID F (rec_ref r ''class'') (rec_ref r ''family'')) (\<lambda>(familyID, classID).
     bnd (resolveOptionalTypeID F (rec_ref r ''class'') (rec_ref r ''family'') (rec_ref r ''type'') familyID) (\<lambda>typeID.
     bnd (resolveDefinitionID F (rec_ref r ''characteristic'')) (\<lambda>definitionID.
     ret \<lparr>bi_class = classID, bi_family = familyID, bi_type = typeID, bi_definition = definitionID,
       bi_set = (if rec_ref r ''optionSet'' = [] then ''DEFAULT'' else rec_ref r ''optionSet'')\<rparr>)))"

definition attribute_row :: "binding_refs \<Rightarrow> catalog_record \<Rightarrow> catalog_db \<Rightarrow> int \<Rightarrow> pg_attribute" where
  "attribute_row b r db i = \<lparr>row_id = i, row_revision = 1, row_active = rec_active r, at_class = bi_class b,
     at_family = bi_family b, at_type = bi_type b, at_definition = bi_definition b, at_set = bi_set b,
     at_mode = rec_text r ''mode'', at_identity = rec_bool r ''identityParticipates'',
     at_order = next_order (map at_order (filter (\<lambda>a. at_family a = bi_family b \<and> at_type a = bi_type b) (tb_attributes db)))\<rparr>"

definition insertAttributeBinding :: "sql_faults \<Rightarrow> catalog_record \<Rightarrow> int catalog_sql" where
  "insertAttributeBinding F r = bnd (resolve_binding_refs F r) (\<lambda>b.
     write_row F ''insert resource_attributes'' not_found
       (sql_insert ''resource_attributes'' tb_attributes_update (\<lambda>db. Some (attribute_row b r db))))"

definition set_attribute :: "binding_refs \<Rightarrow> catalog_record \<Rightarrow> pg_attribute \<Rightarrow> pg_attribute" where
  "set_attribute b r a = a\<lparr>at_class := bi_class b, at_family := bi_family b, at_type := bi_type b,
     at_definition := bi_definition b, at_set := bi_set b, at_mode := rec_text r ''mode'',
     at_identity := rec_bool r ''identityParticipates'', row_active := rec_active r\<rparr>"

definition updateAttributeBinding :: "sql_faults \<Rightarrow> catalog_record \<Rightarrow> unit catalog_sql" where
  "updateAttributeBinding F r = bnd (resolve_binding_refs F r) (\<lambda>b.
     exec_row F ''update resource_attributes''
       (sql_update tb_attributes tb_attributes_update (\<lambda>a. row_id a = rec_id r) (set_attribute b r)))"

section \<open>Presentation fields\<close>

definition presentationFieldRecord ::
  "pg_field \<times> (pg_type \<times> pg_family \<times> pg_class) \<times> pg_definition \<Rightarrow> catalog_record" where
  "presentationFieldRecord = (\<lambda>(x, (t, f, cl), d). row_record KindPresentationField x
     [(''class'', refValue KindClass (cl_code cl) (row_id cl)), (''family'', refValue KindFamily (fa_code f) (row_id f)),
      (''type'', refValue KindType (ty_code t) (row_id t)),
      (''characteristic'', refValue KindAttributeDefinition (de_code d) (row_id d)), (''position'', intValue (fi_position x))])"

definition listPresentationFields :: "sql_faults \<Rightarrow> catalog_filter \<Rightarrow> catalog_record list catalog_sql" where
  "listPresentationFields F f = list_rows F ''resource_type_presentation_fields'' (\<lambda>db. map presentationFieldRecord
     (finalizeQuery (\<lambda>(x, (t, y, cl), d). appendActiveFilter (cf_status f) (row_active x)
          \<and> appendEqualsFilter (cl_code cl) (parentRefCode f ''class'') \<and> appendEqualsFilter (fa_code y) (parentRefCode f ''family'')
          \<and> appendEqualsFilter (ty_code t) (parentRefCode f ''type''))
        (\<lambda>(x, (t, y, cl), d). (row_id t, fi_position x)) f (join_fields db)))"

definition getPresentationField :: "sql_faults \<Rightarrow> int \<Rightarrow> catalog_record catalog_sql" where
  "getPresentationField F i = read_row F ''get resource_type_presentation_fields'' not_found
     (\<lambda>db. map_option presentationFieldRecord (find (\<lambda>(x, tfc, d). row_id x = i) (join_fields db)))"

definition build_field :: "catalog_record \<Rightarrow> catalog_db \<Rightarrow> (int \<Rightarrow> pg_field) option" where
  "build_field r db =
     (case (find (\<lambda>(t, f, cl). cl_code cl = rec_ref r ''class'' \<and> fa_code f = rec_ref r ''family'' \<and> ty_code t = rec_ref r ''type'')
              (join_types db), definition_id db (rec_ref r ''characteristic'')) of
        (Some (t, f, cl), Some d) \<Rightarrow> Some (\<lambda>i. \<lparr>row_id = i, row_revision = 1, row_active = rec_active r, fi_type = row_id t,
          fi_definition = d, fi_position = rec_int r ''position''\<rparr>)
      | _ \<Rightarrow> None)"

definition field_reference_error :: "catalog_record \<Rightarrow> go_error" where
  "field_reference_error r =
     bad_reference ''%w: type %q or characteristic %q'' [rec_ref r ''type'', rec_ref r ''characteristic'']"

definition insertPresentationField :: "sql_faults \<Rightarrow> catalog_record \<Rightarrow> int catalog_sql" where
  "insertPresentationField F r = write_row F ''insert resource_type_presentation_fields'' (field_reference_error r)
     (sql_insert ''resource_type_presentation_fields'' tb_fields_update (build_field r))"

definition set_field :: "catalog_record \<Rightarrow> pg_field \<Rightarrow> pg_field" where
  "set_field r x = x\<lparr>fi_position := rec_int r ''position'', row_active := rec_active r\<rparr>"

definition resolve_field :: "sql_faults \<Rightarrow> int \<Rightarrow> (int \<times> int) catalog_sql" where
  "resolve_field F i = read_row F ''resolve resource_type_presentation_fields'' not_found
     (\<lambda>db. map_option (\<lambda>x. (fi_type x, fi_definition x)) (row_by_id (tb_fields db) i))"

definition updatePresentationField :: "sql_faults \<Rightarrow> catalog_record \<Rightarrow> unit catalog_sql" where
  "updatePresentationField F r = bnd (resolve_field F (rec_id r)) (\<lambda>key.
     exec_row F ''update resource_type_presentation_fields''
       (sql_update tb_fields tb_fields_update (\<lambda>x. (fi_type x, fi_definition x) = key) (set_field r)))"

definition setActivePresentationField :: "sql_faults \<Rightarrow> int \<Rightarrow> bool \<Rightarrow> unit catalog_sql" where
  "setActivePresentationField F i active = exec_row F ''set active on resource_type_presentation_fields''
     (sql_update tb_fields tb_fields_update (\<lambda>x. row_id x = i) (\<lambda>x. x\<lparr>row_active := active\<rparr>))"

definition deletePresentationField :: "sql_faults \<Rightarrow> int \<Rightarrow> unit catalog_sql" where
  "deletePresentationField F i = delete_row F ''delete from resource_type_presentation_fields''
     (sql_delete tb_fields (remove_rows tb_fields_update) (\<lambda>x. row_id x = i))"

section \<open>Dispatch\<close>

record dependency_probe =
  dp_kind :: gstring
  dp_blocking :: bool
  dp_count :: "int \<Rightarrow> catalog_db \<Rightarrow> int"

record kind_handlers =
  kh_list :: "catalog_filter \<Rightarrow> catalog_record list catalog_sql"
  kh_get :: "int \<Rightarrow> catalog_record catalog_sql"
  kh_insert :: "catalog_record \<Rightarrow> int catalog_sql"
  kh_update :: "catalog_record \<Rightarrow> unit catalog_sql"
  kh_set_active :: "int \<Rightarrow> bool \<Rightarrow> unit catalog_sql"
  kh_del :: "int \<Rightarrow> unit catalog_sql"
  kh_dependents :: "dependency_probe list"
  kh_referenced :: "(int \<Rightarrow> bool catalog_sql) option"

definition probe :: "gstring \<Rightarrow> bool \<Rightarrow> (catalog_db \<Rightarrow> 'r list) \<Rightarrow> (int \<Rightarrow> catalog_db \<Rightarrow> 'r \<Rightarrow> bool) \<Rightarrow> dependency_probe" where
  "probe kind blocking sel p = \<lparr>dp_kind = kind, dp_blocking = blocking,
     dp_count = (\<lambda>i db. int (length (filter (p i db) (sel db))))\<rparr>"

definition option_set_code :: "int \<Rightarrow> catalog_db \<Rightarrow> gstring option" where
  "option_set_code i db = map_option st_code (row_by_id (tb_option_sets db) i)"

definition option_relation_probe :: "int \<Rightarrow> catalog_db \<Rightarrow> pg_relation \<Rightarrow> bool" where
  "option_relation_probe i db ar = (case row_by_id (tb_options db) i of None \<Rightarrow> False
     | Some t \<Rightarrow> re_set ar = op_set t \<and> re_from_definition ar = op_definition t \<and> re_from_option ar = op_code t
         \<or> re_set ar = op_set t \<and> re_to_definition ar = op_definition t \<and> re_to_option ar = op_code t)"

definition kindTables :: "sql_faults \<Rightarrow> pattern_match \<Rightarrow> (gstring \<Rightarrow> gstring) \<Rightarrow> (gstring, kind_handlers) gmap" where
  "kindTables F ilike coll =
    [(KindClass, \<lparr>kh_list = listClasses F ilike coll, kh_get = getClass F, kh_insert = insertClass F, kh_update = updateClass F,
       kh_set_active = simpleSetActive F ''public.resource_classes'' tb_classes_update tb_classes,
       kh_del = simpleDelete F ''public.resource_classes'' (remove_rows tb_classes_update) tb_classes,
       kh_dependents = [probe KindFamily True tb_families (\<lambda>i db f. fa_class f = i)],
       kh_referenced = Some (classReferencedByResources F)\<rparr>),
     (KindFamily, \<lparr>kh_list = listFamilies F ilike, kh_get = getFamily F, kh_insert = insertFamily F, kh_update = updateFamily F,
       kh_set_active = simpleSetActive F ''public.resource_families'' tb_families_update tb_families,
       kh_del = simpleDelete F ''public.resource_families'' (remove_rows tb_families_update) tb_families,
       kh_dependents = [probe KindType True tb_types (\<lambda>i db t. ty_family t = i),
         probe KindAttributeBinding True tb_attributes (\<lambda>i db a. at_family a = i),
         probe KindUnitPolicy True tb_policies (\<lambda>i db p. po_family p = i)],
       kh_referenced = Some (familyReferencedByResources F)\<rparr>),
     (KindType, \<lparr>kh_list = listTypes F ilike, kh_get = getType F, kh_insert = insertType F, kh_update = updateType F,
       kh_set_active = simpleSetActive F ''public.resource_types'' tb_types_update tb_types,
       kh_del = simpleDelete F ''public.resource_types'' (remove_rows tb_types_update) tb_types,
       kh_dependents = [probe KindAttributeBinding True tb_attributes (\<lambda>i db a. at_type a = Some i),
         probe KindPresentationField False tb_fields (\<lambda>i db x. fi_type x = i)],
       kh_referenced = Some (typeReferencedByResources F)\<rparr>),
     (KindAttributeDefinition, \<lparr>kh_list = listDefinitions F ilike, kh_get = getDefinition F, kh_insert = insertDefinition F,
       kh_update = updateDefinition F,
       kh_set_active = simpleSetActive F ''public.attribute_definitions'' tb_definitions_update tb_definitions,
       kh_del = simpleDelete F ''public.attribute_definitions'' (remove_rows tb_definitions_update) tb_definitions,
       kh_dependents = [probe KindAttributeBinding True tb_attributes (\<lambda>i db a. at_definition a = i),
         probe KindOption True tb_options (\<lambda>i db x. op_definition x = i)],
       kh_referenced = Some (definitionReferencedByResources F)\<rparr>),
     (KindOptionSet, \<lparr>kh_list = listOptionSets F ilike coll, kh_get = getOptionSet F, kh_insert = insertOptionSet F,
       kh_update = updateOptionSet F, kh_set_active = setActiveOptionSet F, kh_del = deleteOptionSet F,
       kh_dependents = [probe KindOption True tb_options (\<lambda>i db x. Some (op_set x) = option_set_code i db),
         probe KindOptionRelation True tb_relations (\<lambda>i db x. Some (re_set x) = option_set_code i db)],
       kh_referenced = Some (optionSetReferencedByResources F)\<rparr>),
     (KindOption, \<lparr>kh_list = listOptions F ilike, kh_get = getOption F, kh_insert = insertOption F, kh_update = updateOption F,
       kh_set_active = setActiveOption F, kh_del = deleteOption F,
       kh_dependents = [probe KindOptionRelation True tb_relations option_relation_probe],
       kh_referenced = Some (optionReferencedByResources F)\<rparr>),
     (KindOptionRelation, \<lparr>kh_list = listOptionRelations F, kh_get = getOptionRelation F, kh_insert = insertOptionRelation F,
       kh_update = updateOptionRelation F,
       kh_set_active = simpleSetActive F ''public.attribute_option_relations'' tb_relations_update tb_relations,
       kh_del = simpleDelete F ''public.attribute_option_relations'' (remove_rows tb_relations_update) tb_relations,
       kh_dependents = [], kh_referenced = None\<rparr>),
     (KindUnit, \<lparr>kh_list = listUnits F ilike, kh_get = getUnit F, kh_insert = insertUnit F, kh_update = updateUnit F,
       kh_set_active = simpleSetActive F ''public.unit_definitions'' tb_units_update tb_units,
       kh_del = simpleDelete F ''public.unit_definitions'' (remove_rows tb_units_update) tb_units,
       kh_dependents = [probe KindUnitPolicy True tb_policies (\<lambda>i db p. po_unit p = i)],
       kh_referenced = Some (unitReferencedByResources F)\<rparr>),
     (KindUnitPolicy, \<lparr>kh_list = listUnitPolicies F, kh_get = getUnitPolicy F, kh_insert = insertUnitPolicy F,
       kh_update = updateUnitPolicy F, kh_set_active = setActiveUnitPolicy F, kh_del = deleteUnitPolicy F,
       kh_dependents = [], kh_referenced = None\<rparr>),
     (KindAttributeBinding, \<lparr>kh_list = listAttributeBindings F, kh_get = getAttributeBinding F,
       kh_insert = insertAttributeBinding F, kh_update = updateAttributeBinding F,
       kh_set_active = simpleSetActive F ''public.resource_attributes'' tb_attributes_update tb_attributes,
       kh_del = simpleDelete F ''public.resource_attributes'' remove_attributes tb_attributes,
       kh_dependents = [], kh_referenced = None\<rparr>),
     (KindPresentationField, \<lparr>kh_list = listPresentationFields F, kh_get = getPresentationField F,
       kh_insert = insertPresentationField F, kh_update = updatePresentationField F,
       kh_set_active = setActivePresentationField F, kh_del = deletePresentationField F,
       kh_dependents = [], kh_referenced = None\<rparr>)]"

section \<open>The repository\<close>

definition with_kind ::
  "sql_faults \<Rightarrow> pattern_match \<Rightarrow> (gstring \<Rightarrow> gstring) \<Rightarrow> gstring \<Rightarrow> (kind_handlers \<Rightarrow> 'a catalog_sql) \<Rightarrow> 'a catalog_sql" where
  "with_kind F ilike coll kind run = (case map_of (kindTables F ilike coll) kind of None \<Rightarrow> fail (kind_unknown kind) | Some h \<Rightarrow> run h)"

definition write_tx :: "sql_faults \<Rightarrow> bool \<Rightarrow> gstring \<Rightarrow> 'a catalog_sql \<Rightarrow> 'a catalog_sql" where
  "write_tx F applied operation body =
     transact F (''begin catalog '' @ operation) (wrap_read (''commit catalog '' @ operation)) applied undo_tables body"

definition repo_list where
  "repo_list F ilike coll kind f = with_kind F ilike coll kind (\<lambda>h. kh_list h f)"

definition repo_get where
  "repo_get F ilike coll kind i = with_kind F ilike coll kind (\<lambda>h. kh_get h i)"

definition repo_insert where
  "repo_insert F applied ilike coll r = with_kind F ilike coll (rec_kind r) (\<lambda>h. write_tx F applied ''insert'' (kh_insert h r))"

definition repo_update where
  "repo_update F applied ilike coll r = with_kind F ilike coll (rec_kind r) (\<lambda>h. write_tx F applied ''update'' (kh_update h r))"

definition repo_set_active where
  "repo_set_active F applied ilike coll kind i active =
     with_kind F ilike coll kind (\<lambda>h. write_tx F applied ''set active'' (kh_set_active h i active))"

definition repo_delete where
  "repo_delete F applied ilike coll kind i = with_kind F ilike coll kind (\<lambda>h. write_tx F applied ''delete'' (kh_del h i))"

fun count_dependents :: "sql_faults \<Rightarrow> gstring \<Rightarrow> int \<Rightarrow> dependency_probe list \<Rightarrow> catalog_dependency list catalog_sql" where
  "count_dependents F kind i [] = ret []"
| "count_dependents F kind i (p # ps) =
     bnd (map_err (\<lambda>e. Wrapf ''count dependents of %q for %q: %w'' [dp_kind p, kind] [db_error_value e])
       (stmt F (''count '' @ dp_kind p) 0 (asks (dp_count p i)))) (\<lambda>count.
     bnd (count_dependents F kind i ps) (\<lambda>deps.
     ret (\<lparr>dep_kind = dp_kind p, dep_count = count, dep_blocking = dp_blocking p\<rparr> # deps)))"

definition repo_dependents where
  "repo_dependents F ilike coll kind i = with_kind F ilike coll kind (\<lambda>h. count_dependents F kind i (kh_dependents h))"

definition repo_referenced where
  "repo_referenced F ilike coll kind i = with_kind F ilike coll kind (\<lambda>h.
     case kh_referenced h of None \<Rightarrow> ret False | Some q \<Rightarrow> q i)"

definition catalogAdminRepository ::
  "sql_faults \<Rightarrow> bool \<Rightarrow> pattern_match \<Rightarrow> (gstring \<Rightarrow> gstring) \<Rightarrow> catalog_db catalog_repo" where
  "catalogAdminRepository F applied ilike coll = \<lparr>
     cr_list = (\<lambda>kind f db. fst (repo_list F ilike coll kind f db)),
     cr_get = (\<lambda>kind i db. fst (repo_get F ilike coll kind i db)),
     cr_dependents = (\<lambda>kind i db. fst (repo_dependents F ilike coll kind i db)),
     cr_referenced = (\<lambda>kind i db. fst (repo_referenced F ilike coll kind i db)),
     cr_insert = repo_insert F applied ilike coll, cr_update = repo_update F applied ilike coll,
     cr_set_active = repo_set_active F applied ilike coll, cr_delete = repo_delete F applied ilike coll\<rparr>"

end
