(* ===== verification/ResourceStore.thy ===== *)
theory ResourceStore
  imports ResourceService CatalogKindStore
begin

text \<open>
  The resource repository over the tables (\<^verbatim>\<open>internal/postgres/resource_repository_crud.go\<close>,
  \<^verbatim>\<open>_attributes.go\<close>, \<^verbatim>\<open>_codec.go\<close> and \<^verbatim>\<open>_search.go\<close>): how attribute values are encoded, written, resolved and
  decoded, the writes of a resource with its values in one transaction, the lifecycle transitions with and
  without a revision, and the paged search. A row lock held to the end of a transaction makes it one step.
  A numeric column holds the text of the decimal; two numbers are compared through \<open>dec_equal\<close>. The
  diagnostics \<^verbatim>\<open>core.Record\<close> are left out.
\<close>

section \<open>Codec\<close>

record 'd value_payload =
  pay_state :: gstring
  pay_option :: gstring
  pay_integer :: "int option"
  pay_decimal :: "'d option"
  pay_quantity :: "'d option"
  pay_quantity_unit :: gstring
  pay_boolean :: "bool option"
  pay_text :: gstring

definition no_payload :: "gstring \<Rightarrow> 'd value_payload" where
  "no_payload state = \<lparr>pay_state = state, pay_option = [], pay_integer = None, pay_decimal = None, pay_quantity = None,
     pay_quantity_unit = [], pay_boolean = None, pay_text = []\<rparr>"

definition hasPayload :: "'d attr_value \<Rightarrow> bool" where
  "hasPayload v \<longleftrightarrow> av_option v \<noteq> [] \<or> av_integer v \<noteq> None \<or> av_decimal v \<noteq> None \<or> av_quantity v \<noteq> None
     \<or> av_boolean v \<noteq> None \<or> (av_type v = ValueTypeControlledText \<and> av_text v \<noteq> NotApplicableText)"

definition encodeValue :: "'d attr_value \<Rightarrow> go_error + 'd value_payload" where
  "encodeValue v =
     (if av_text v = NotApplicableText then
        if hasPayload v then Inl (Wrapf ''%w: NOT_APPLICABLE attribute %q has a payload'' [av_code v] [Sentinel (Dom ErrResourceReference)])
        else Inr (no_payload NotApplicableText)
      else let p = no_payload ''SET'' in
        if av_type v = ValueTypeControlledOption then Inr (p\<lparr>pay_option := av_option v\<rparr>)
        else if av_type v = ValueTypeInteger then Inr (p\<lparr>pay_integer := av_integer v\<rparr>)
        else if av_type v = ValueTypeDecimal then Inr (p\<lparr>pay_decimal := av_decimal v\<rparr>)
        else if av_type v = ValueTypeQuantity then
          (case av_quantity v of
             None \<Rightarrow> Inl (ErrNew ''quantity payload is missing'')
           | Some q \<Rightarrow> Inr (p\<lparr>pay_quantity := Some (q_value q), pay_quantity_unit := q_unit q\<rparr>))
        else if av_type v = ValueTypeBoolean then Inr (p\<lparr>pay_boolean := av_boolean v\<rparr>)
        else if av_type v = ValueTypeControlledText then Inr (p\<lparr>pay_text := av_text v\<rparr>)
        else Inl (Wrapf ''unsupported value type %q'' [av_type v] []))"

definition nullableQuantity :: "'d decimal_ops \<Rightarrow> 'd value_payload \<Rightarrow> gstring option" where
  "nullableQuantity D p = (if pay_quantity_unit p = [] then None
     else Some (dec_string D (case pay_quantity p of None \<Rightarrow> dec_zero D | Some q \<Rightarrow> q)))"

text \<open>The columns of a stored value as the query returns them, the unit as its code.\<close>

record value_columns =
  vc_state :: "gstring option"
  vc_option :: "gstring option"
  vc_integer :: "int option"
  vc_decimal :: "gstring option"
  vc_quantity :: "gstring option"
  vc_unit :: "gstring option"
  vc_boolean :: "bool option"
  vc_text :: "gstring option"

definition decode_number :: "'d decimal_ops \<Rightarrow> gstring \<Rightarrow> gstring option \<Rightarrow> go_error + 'd" where
  "decode_number D format s = (case dec_parse D (dereference s) of
     None \<Rightarrow> Inl (Wrapf format [dereference s] []) | Some d \<Rightarrow> Inr d)"

definition decodeValue :: "'d decimal_ops \<Rightarrow> gstring \<Rightarrow> gstring \<Rightarrow> value_columns \<Rightarrow> go_error + 'd attr_value" where
  "decodeValue D code valueType c =
     (let v = empty_value\<lparr>av_code := code, av_type := valueType\<rparr> in
      if dereference (vc_state c) = NotApplicableText then Inr (v\<lparr>av_text := NotApplicableText\<rparr>)
      else if valueType = ValueTypeControlledOption then Inr (v\<lparr>av_option := dereference (vc_option c)\<rparr>)
      else if valueType = ValueTypeInteger then Inr (v\<lparr>av_integer := vc_integer c\<rparr>)
      else if valueType = ValueTypeDecimal then
        bindr (decode_number D ''decode decimal %q'' (vc_decimal c)) (\<lambda>d. Inr (v\<lparr>av_decimal := Some d\<rparr>))
      else if valueType = ValueTypeQuantity then
        bindr (decode_number D ''decode quantity %q'' (vc_quantity c)) (\<lambda>d.
          Inr (v\<lparr>av_quantity := Some \<lparr>q_value = d, q_unit = dereference (vc_unit c)\<rparr>\<rparr>))
      else if valueType = ValueTypeBoolean then Inr (v\<lparr>av_boolean := vc_boolean c\<rparr>)
      else if valueType = ValueTypeControlledText then Inr (v\<lparr>av_text := dereference (vc_text c)\<rparr>)
      else Inl (Wrapf ''decode unsupported value type %q'' [valueType] []))"

section \<open>Errors\<close>

definition integrityError :: "gstring \<Rightarrow> gstring list \<Rightarrow> go_error" where
  "integrityError format args = Wrapf (''%w: '' @ format) args [Sentinel (Dom ErrResourceIntegrity)]"

fun mapRepositoryError :: "gstring \<Rightarrow> sql_fault \<Rightarrow> go_error" where
  "mapRepositoryError operation (PgError code constraint message) =
     (if code = ''23505'' then
        if constraint = ''resource_attribute_values_resource_id_resource_attribute_id_key''
        then Wrapf ''%w: %s'' [constraint] [Sentinel (Dom ErrResourceIntegrity)]
        else Wrapf ''%w: %s'' [constraint] [Sentinel (Dom ErrDuplicateResource)]
      else if code = ''23503'' \<or> code = ''23514'' then Wrapf ''%w: %s'' [message] [Sentinel (Dom ErrResourceReference)]
      else wrap_read operation (ErrNew message))"
| "mapRepositoryError operation (DriverError e) = wrap_read operation e"

definition resource_not_found :: "int \<Rightarrow> go_error" where
  "resource_not_found i = Wrapf ''%w: resource id %d'' [show_int i] [Sentinel (Dom ErrResourceNotFound)]"

definition resource_write_error :: "gstring \<Rightarrow> db_error \<Rightarrow> go_error" where
  "resource_write_error operation e = (case e of NoRows \<Rightarrow> wrap_read operation (db_error_value NoRows)
     | Broken f \<Rightarrow> mapRepositoryError operation f)"

section \<open>The effective values of a resource\<close>

text \<open>\<^verbatim>\<open>effectiveValuesCTE\<close>: the values whose binding still applies to the resource, each with the definition
  it stands for, its scope (family or type) and how many share both; of a definition only the values of the
  narrowest scope.\<close>

record candidate_value =
  ev_value :: pg_value
  ev_definition :: pg_definition
  ev_metadata_ok :: bool
  ev_scope_rank :: nat

definition applies_to :: "pg_resource \<Rightarrow> pg_attribute \<Rightarrow> bool" where
  "applies_to r ra \<longleftrightarrow> at_class ra = rs_class r \<and> at_family ra = rs_family r \<and> (at_type ra = None \<or> at_type ra = Some (rs_type r))"

definition effective_candidates :: "catalog_db \<Rightarrow> pg_resource \<Rightarrow> candidate_value list" where
  "effective_candidates db r =
     [\<lparr>ev_value = v, ev_definition = d, ev_metadata_ok = (va_definition v = at_definition ra \<and> va_set v = at_set ra),
       ev_scope_rank = (if at_type ra = None then 0 else 1)\<rparr>.
      v \<leftarrow> tb_values db, va_resource v = row_id r, ra \<leftarrow> tb_attributes db, row_id ra = va_attribute v, applies_to r ra,
      d \<leftarrow> tb_definitions db, row_id d = at_definition ra]"

definition ev_code :: "candidate_value \<Rightarrow> gstring" where
  "ev_code c = de_code (ev_definition c)"

definition scope_count :: "candidate_value list \<Rightarrow> candidate_value \<Rightarrow> nat" where
  "scope_count cs c = length (filter (\<lambda>w. ev_code w = ev_code c \<and> ev_scope_rank w = ev_scope_rank c) cs)"

definition effective_values :: "catalog_db \<Rightarrow> pg_resource \<Rightarrow> (candidate_value \<times> nat) list" where
  "effective_values db r = (let cs = effective_candidates db r in
     map (\<lambda>c. (c, scope_count cs c))
       (filter (\<lambda>c. list_all (\<lambda>w. ev_code w = ev_code c \<longrightarrow> ev_scope_rank w \<le> ev_scope_rank c) cs) cs))"

text \<open>The binding of each definition that applies to the resource, with the mode its rules give.\<close>

definition rule_matches :: "(candidate_value \<times> nat) list \<Rightarrow> pg_rule \<Rightarrow> bool" where
  "rule_matches evs rr \<longleftrightarrow> ru_active rr \<and> list_ex (\<lambda>(cv, _). row_id (ev_definition cv) = ru_when rr
     \<and> va_state (ev_value cv) = ''SET'' \<and> va_option (ev_value cv) = Some (ru_equals rr)) evs"

definition applied_mode :: "catalog_db \<Rightarrow> (candidate_value \<times> nat) list \<Rightarrow> pg_attribute \<Rightarrow> gstring" where
  "applied_mode db evs ra =
     (case sort_key ru_order (filter (\<lambda>rr. ru_attribute rr = row_id ra \<and> rule_matches evs rr) (tb_rules db)) of
        rr # _ \<Rightarrow> ru_mode rr
      | [] \<Rightarrow> if at_mode ra = ModeConditional then ModeRequired else at_mode ra)"

definition overridden :: "catalog_db \<Rightarrow> pg_resource \<Rightarrow> pg_definition \<Rightarrow> bool" where
  "overridden db r d \<longleftrightarrow> list_ex (\<lambda>ra. at_class ra = rs_class r \<and> at_family ra = rs_family r \<and> at_type ra = Some (rs_type r)
     \<and> list_ex (\<lambda>od. row_id od = at_definition ra \<and> de_code od = de_code d) (tb_definitions db)) (tb_attributes db)"

definition applicable_attributes :: "catalog_db \<Rightarrow> pg_resource \<Rightarrow> (pg_definition \<times> gstring) list" where
  "applicable_attributes db r = (let evs = effective_values db r in
     [(d, applied_mode db evs ra). ra \<leftarrow> tb_attributes db, applies_to r ra, d \<leftarrow> tb_definitions db, row_id d = at_definition ra,
      at_type ra = Some (rs_type r) \<or> \<not> overridden db r d])"

definition unit_code :: "catalog_db \<Rightarrow> int option \<Rightarrow> gstring option" where
  "unit_code db i = Option.bind i (\<lambda>i. map_option un_code (row_by_id (tb_units db) i))"

definition columns_of :: "catalog_db \<Rightarrow> pg_value \<Rightarrow> value_columns" where
  "columns_of db v = \<lparr>vc_state = Some (va_state v), vc_option = va_option v, vc_integer = va_integer v,
     vc_decimal = va_decimal v, vc_quantity = va_quantity v, vc_unit = unit_code db (va_unit v),
     vc_boolean = va_boolean v, vc_text = va_text v\<rparr>"

text \<open>One row of the final query: a left join of the attributes with the values of their definition code.\<close>

record attribute_line =
  al_resource :: int
  al_definition :: pg_definition
  al_mode :: gstring
  al_value :: "(candidate_value \<times> nat) option"

definition attribute_lines :: "catalog_db \<Rightarrow> pg_resource \<Rightarrow> attribute_line list" where
  "attribute_lines db r = concat (map (\<lambda>(d, mode).
     (case filter (\<lambda>(c, _). ev_code c = de_code d) (effective_values db r) of
        [] \<Rightarrow> [\<lparr>al_resource = row_id r, al_definition = d, al_mode = mode, al_value = None\<rparr>]
      | evs \<Rightarrow> map (\<lambda>ev. \<lparr>al_resource = row_id r, al_definition = d, al_mode = mode, al_value = Some ev\<rparr>) evs))
     (applicable_attributes db r))"

text \<open>The body of the loop over the rows.\<close>

definition attribute_of_line :: "'d decimal_ops \<Rightarrow> catalog_db \<Rightarrow> attribute_line \<Rightarrow> go_error + 'd attr_value option" where
  "attribute_of_line D db l =
     (let code = de_code (al_definition l); i = show_int (al_resource l); mode = al_mode l in
      case al_value l of
        None \<Rightarrow>
          if mode = ModeRequired then Inl (integrityError ''resource %d missing required attribute %q'' [i, code])
          else if mode \<noteq> ModeOptional \<and> mode \<noteq> ModeForbidden
          then Inl (integrityError ''resource %d has unsupported missing attribute mode %q for %q'' [i, mode, code])
          else Inr None
      | Some (c, n) \<Rightarrow>
          let state = va_state (ev_value c) in
          if n \<noteq> 1 \<or> \<not> ev_metadata_ok c
          then Inl (integrityError ''resource %d has inconsistent metadata for attribute %q'' [i, code])
          else if mode = ModeForbidden \<and> state \<noteq> NotApplicableText
          then Inl (integrityError ''resource %d has forbidden attribute %q'' [i, code])
          else if state = NotApplicableText \<and> mode \<noteq> ModeForbidden
          then Inl (integrityError ''resource %d has not-applicable required/optional attribute %q'' [i, code])
          else (case decodeValue D code (de_value_type (al_definition l)) (columns_of db (ev_value c)) of
              Inl e \<Rightarrow> Inl (integrityError ''decode resource %d attribute %q: %v'' [i, code])
            | Inr v \<Rightarrow> Inr (Some v)))"

fun collect_attributes ::
  "'d decimal_ops \<Rightarrow> catalog_db \<Rightarrow> attribute_line list \<Rightarrow> (int, 'd attr_value list) gmap \<Rightarrow> go_error + (int, 'd attr_value list) gmap" where
  "collect_attributes D db [] attributes = Inr attributes"
| "collect_attributes D db (l # ls) attributes =
     bindr (attribute_of_line D db l) (\<lambda>value.
       let values = (case map_of attributes (al_resource l) of None \<Rightarrow> [] | Some vs \<Rightarrow> vs) in
       collect_attributes D db ls (gput (al_resource l) (case value of None \<Rightarrow> values | Some v \<Rightarrow> values @ [v]) attributes))"

definition loadEffectiveAttributes ::
  "sql_faults \<Rightarrow> 'd decimal_ops \<Rightarrow> (gstring \<Rightarrow> gstring) \<Rightarrow> int list \<Rightarrow> catalog_db \<Rightarrow> go_error + (int, 'd attr_value list) gmap" where
  "loadEffectiveAttributes F D coll resourceIDs db =
     (if resourceIDs = [] then Inr []
      else (case F ''load resource attributes'' 0 of
          Some f \<Rightarrow> Inl (fault_error f)
        | None \<Rightarrow> collect_attributes D db
            (sort_key (\<lambda>l. (al_resource l, coll (de_code (al_definition l))))
              (concat (map (attribute_lines db) (filter (\<lambda>r. row_id r \<in> set resourceIDs) (tb_resources db))))) []))"

section \<open>Reading a resource\<close>

definition resource_repository :: gstring where "resource_repository = ''resource repository''"

definition stored_resources :: "catalog_db \<Rightarrow> (pg_resource \<times> pg_class \<times> pg_family \<times> pg_type \<times> pg_unit) list" where
  "stored_resources db = [(r, cl, f, t, u). r \<leftarrow> tb_resources db, cl \<leftarrow> tb_classes db, row_id cl = rs_class r,
     f \<leftarrow> tb_families db, row_id f = rs_family r, t \<leftarrow> tb_types db, row_id t = rs_type r, u \<leftarrow> tb_units db, row_id u = rs_unit r]"

definition query_one :: "sql_faults \<Rightarrow> gstring \<Rightarrow> go_error \<Rightarrow> (catalog_db \<Rightarrow> 'a option) \<Rightarrow> catalog_db \<Rightarrow> go_error + 'a" where
  "query_one F operation missing sel db = (case F operation 0 of
      Some f \<Rightarrow> Inl (wrap_read operation (fault_error f))
    | None \<Rightarrow> (case sel db of None \<Rightarrow> Inl missing | Some x \<Rightarrow> Inr x))"

definition pool_check :: "sql_faults \<Rightarrow> go_error + unit" where
  "pool_check F = (case F ''pool'' 0 of Some f \<Rightarrow> Inl (ErrNew (resource_repository @ '': nil pool'')) | None \<Rightarrow> Inr ())"

definition wrap_result :: "gstring \<Rightarrow> gstring list \<Rightarrow> go_error + 'a \<Rightarrow> go_error + 'a" where
  "wrap_result format args r = (case r of Inl e \<Rightarrow> Inl (Wrapf format args [e]) | Inr x \<Rightarrow> Inr x)"

definition hydrate_row ::
  "(int, 'd attr_value list) gmap \<Rightarrow> gstring \<Rightarrow> pg_resource \<times> pg_class \<times> pg_family \<times> pg_type \<times> pg_unit \<Rightarrow> go_error + 'd resource" where
  "hydrate_row attributes identityKey = (\<lambda>(r, cl, f, t, u).
     HydrateResource \<lparr>sn_id = row_id r, sn_class = cl_code cl, sn_family = fa_code f, sn_type = ty_code t, sn_unit = un_code u,
       sn_attributes = (case map_of attributes (row_id r) of None \<Rightarrow> [] | Some vs \<Rightarrow> vs), sn_identity = identityKey,
       sn_revision = 0, sn_active = row_active r\<rparr>)"

definition store_get ::
  "sql_faults \<Rightarrow> 'd decimal_ops \<Rightarrow> (gstring \<Rightarrow> gstring) \<Rightarrow> gstring \<Rightarrow> gstring \<Rightarrow> catalog_db \<Rightarrow> go_error + 'd resource" where
  "store_get F D coll classCode identityKey db =
     bindr (pool_check F) (\<lambda>_.
     bindr (query_one F ''load resource''
         (Wrapf ''%w: resource %s/%s'' [classCode, identityKey] [Sentinel (Dom ErrResourceNotFound)])
         (\<lambda>db. find (\<lambda>(r, cl, _). cl_code cl = classCode \<and> rs_identity r = identityKey) (stored_resources db)) db) (\<lambda>row.
     bindr (wrap_result ''load resource attributes: %w'' [] (loadEffectiveAttributes F D coll [row_id (fst row)] db)) (\<lambda>attributes.
     hydrate_row attributes identityKey row)))"

definition class_of_resource :: "catalog_db \<Rightarrow> int \<Rightarrow> (pg_resource \<times> pg_class) option" where
  "class_of_resource db i = find (\<lambda>(r, cl). row_id r = i)
     [(r, cl). r \<leftarrow> tb_resources db, cl \<leftarrow> tb_classes db, row_id cl = rs_class r]"

definition store_get_by_id ::
  "sql_faults \<Rightarrow> 'd decimal_ops \<Rightarrow> (gstring \<Rightarrow> gstring) \<Rightarrow> int \<Rightarrow> catalog_db \<Rightarrow> go_error + 'd resource" where
  "store_get_by_id F D coll i db =
     bindr (pool_check F) (\<lambda>_.
     bindr (query_one F (''find resource '' @ show_int i) (resource_not_found i) (\<lambda>db. class_of_resource db i) db) (\<lambda>(r, cl).
     store_get F D coll (cl_code cl) (rs_identity r) db))"

section \<open>Writing the values\<close>

text \<open>The active scope of a resource: its class, family, type and unit, allowed by an active policy.\<close>

definition active_scope :: "catalog_db \<Rightarrow> 'd resource \<Rightarrow> (int \<times> int \<times> int \<times> int) list" where
  "active_scope db x = [(row_id cl, row_id f, row_id t, row_id u).
     cl \<leftarrow> tb_classes db, cl_code cl = r_class x \<and> row_active cl,
     f \<leftarrow> tb_families db, fa_class f = row_id cl \<and> fa_code f = r_family x \<and> row_active f,
     t \<leftarrow> tb_types db, ty_family t = row_id f \<and> ty_code t = r_type x \<and> row_active t,
     u \<leftarrow> tb_units db, un_code u = r_unit x \<and> row_active u,
     p \<leftarrow> tb_policies db, po_family p = row_id f \<and> po_unit p = row_id u \<and> po_allowed p \<and> row_active p]"

definition first_row :: "'a list \<Rightarrow> 'a option" where
  "first_row rows = (case rows of [] \<Rightarrow> None | row # _ \<Rightarrow> Some row)"

definition scope_error :: "'d resource \<Rightarrow> go_error" where
  "scope_error x = Wrapf ''%w: class %q, family %q, type %q, or unit %q'' [r_class x, r_family x, r_type x, r_unit x]
     [Sentinel (Dom ErrResourceReference)]"

definition quantityUnitCode :: "'d attr_value \<Rightarrow> gstring" where
  "quantityUnitCode v = (if av_type v = ValueTypeQuantity then (case av_quantity v of None \<Rightarrow> [] | Some q \<Rightarrow> q_unit q) else [])"

record resource_attribute_target =
  tg_family :: int
  tg_attribute :: int
  tg_definition :: int
  tg_set :: gstring
  tg_unit :: "int option"

definition attribute_targets :: "catalog_db \<Rightarrow> 'd resource \<Rightarrow> 'd attr_value \<Rightarrow> resource_attribute_target list" where
  "attribute_targets db x v =
     [\<lparr>tg_family = row_id f, tg_attribute = row_id ra, tg_definition = row_id d, tg_set = at_set ra,
       tg_unit = map_option row_id (find (\<lambda>u. un_code u = quantityUnitCode v \<and> row_active u) (tb_units db))\<rparr>.
      cl \<leftarrow> tb_classes db, cl_code cl = r_class x \<and> row_active cl,
      f \<leftarrow> tb_families db, fa_class f = row_id cl \<and> fa_code f = r_family x \<and> row_active f,
      t \<leftarrow> tb_types db, ty_class t = row_id cl \<and> ty_family t = row_id f \<and> ty_code t = r_type x \<and> row_active t,
      ra \<leftarrow> tb_attributes db, at_class ra = row_id cl \<and> at_family ra = row_id f \<and> row_active ra
         \<and> (at_type ra = Some (row_id t) \<or> at_type ra = None),
      d \<leftarrow> tb_definitions db, row_id d = at_definition ra \<and> de_code d = av_code v \<and> de_value_type d = av_type v \<and> row_active d]"

definition resolveAttributeTarget ::
  "sql_faults \<Rightarrow> nat \<Rightarrow> 'd resource \<Rightarrow> 'd attr_value \<Rightarrow> resource_attribute_target catalog_sql" where
  "resolveAttributeTarget F k x v =
     bnd (map_err (\<lambda>e. Wrapf ''resolve attribute %q: %w'' [av_code v] [db_error_value e])
       (stmt F ''resolve attribute'' k (asks (\<lambda>db. attribute_targets db x v)))) (\<lambda>targets.
     case targets of
       [target] \<Rightarrow>
         if av_type v = ValueTypeQuantity \<and> tg_unit target = None
         then fail (integrityError ''quantity attribute %q has no active unit %q'' [av_code v, quantityUnitCode v])
         else ret target
     | _ \<Rightarrow> fail (integrityError ''attribute %q resolved to %d targets'' [av_code v, show_nat (length targets)]))"

definition value_row ::
  "'d decimal_ops \<Rightarrow> int \<Rightarrow> resource_attribute_target \<Rightarrow> 'd value_payload \<Rightarrow> int \<Rightarrow> pg_value" where
  "value_row D resourceID target p i = \<lparr>va_id = i, va_resource = resourceID, va_family = tg_family target,
     va_attribute = tg_attribute target, va_definition = tg_definition target, va_set = tg_set target, va_state = pay_state p,
     va_option = nullableString (pay_option p), va_integer = pay_integer p, va_decimal = map_option (dec_string D) (pay_decimal p),
     va_quantity = nullableQuantity D p, va_unit = tg_unit target, va_boolean = pay_boolean p, va_text = nullableString (pay_text p)\<rparr>"

text \<open>The trigger \<^verbatim>\<open>validate_resource_attribute_value\<close>, which runs before the row is stored.\<close>

definition value_trigger :: "catalog_db \<Rightarrow> pg_value \<Rightarrow> gstring option" where
  "value_trigger db v =
     (if va_state v = NotApplicableText then None
      else if value_type_of db v = Some ValueTypeControlledOption then
        if va_option v = None then Some ''SET CONTROLLED_OPTION values require an official option''
        else if payload_count v \<noteq> 1 then Some ''SET CONTROLLED_OPTION values require exactly one option payload''
        else None
      else if va_option v \<noteq> None then Some ''only CONTROLLED_OPTION values may reference an option''
      else None)"

definition insert_value :: "(int \<Rightarrow> pg_value) \<Rightarrow> int catalog_stmt" where
  "insert_value row = (\<lambda>db. case value_trigger db (row (nextval ''resource_attribute_values'' db)) of
      Some message \<Rightarrow> (Inl (Broken (PgError ''23514'' [] message)),
        db\<lparr>tb_sequences := gput ''resource_attribute_values'' (nextval ''resource_attribute_values'' db) (tb_sequences db)\<rparr>)
    | None \<Rightarrow> sql_insert ''resource_attribute_values'' tb_values_update (\<lambda>_. Some row) db)"

definition persistAttributeValue ::
  "sql_faults \<Rightarrow> 'd decimal_ops \<Rightarrow> nat \<Rightarrow> 'd resource \<Rightarrow> int \<Rightarrow> 'd attr_value \<Rightarrow> unit catalog_sql" where
  "persistAttributeValue F D k x resourceID v =
     (case encodeValue v of
        Inl e \<Rightarrow> fail (Wrapf ''encode attribute %q: %w'' [av_code v] [e])
      | Inr payload \<Rightarrow>
          bnd (resolveAttributeTarget F k x v) (\<lambda>target.
          bnd (map_err (resource_write_error (''insert resource attribute '' @ av_code v))
            (stmt F ''insert resource attribute'' k (insert_value (value_row D resourceID target payload)))) (\<lambda>_. ret ())))"

fun persist_values ::
  "sql_faults \<Rightarrow> 'd decimal_ops \<Rightarrow> 'd resource \<Rightarrow> int \<Rightarrow> nat \<Rightarrow> 'd attr_value list \<Rightarrow> unit catalog_sql" where
  "persist_values F D x resourceID k [] = ret ()"
| "persist_values F D x resourceID k (v # vs) =
     bnd (persistAttributeValue F D k x resourceID v) (\<lambda>_. persist_values F D x resourceID (Suc k) vs)"

definition verifyAttributeCount :: "sql_faults \<Rightarrow> int \<Rightarrow> nat \<Rightarrow> unit catalog_sql" where
  "verifyAttributeCount F resourceID expected =
     bnd (map_err (\<lambda>e. wrap_read ''count resource attributes'' (db_error_value e))
       (stmt F ''count resource attributes'' 0 (asks (\<lambda>db. length (filter (\<lambda>v. va_resource v = resourceID) (tb_values db)))))) (\<lambda>persisted.
     if persisted \<noteq> expected
     then fail (integrityError ''resource %d persisted %d attributes, expected %d''
       [show_int resourceID, show_nat persisted, show_nat expected])
     else ret ())"

section \<open>Transactions\<close>

text \<open>A transaction whose body also says how a failed commit is reported.\<close>

definition transact_as ::
  "sql_faults \<Rightarrow> gstring \<Rightarrow> bool \<Rightarrow> (gstring \<times> 'a) catalog_sql \<Rightarrow> 'a catalog_sql" where
  "transact_as F begins applied body = (\<lambda>db. case F ''begin'' 0 of
      Some f \<Rightarrow> (Inl (wrap_read begins (fault_error f)), db)
    | None \<Rightarrow> (case body db of
        (Inl e, t) \<Rightarrow> (Inl e, undo_tables db t)
      | (Inr (label, x), t) \<Rightarrow> (case F ''commit'' 0 of
          None \<Rightarrow> (Inr x, t)
        | Some f \<Rightarrow> (Inl (wrap_read label (fault_error f)), if applied then t else undo_tables db t))))"

definition read_back :: "(catalog_db \<Rightarrow> go_error + 'a) \<Rightarrow> 'a catalog_sql" where
  "read_back q = (\<lambda>db. (q db, db))"

definition resource_row :: "int \<times> int \<times> int \<times> int \<Rightarrow> 'd resource \<Rightarrow> int \<Rightarrow> pg_resource" where
  "resource_row = (\<lambda>(c, f, t, u) x i. \<lparr>row_id = i, row_revision = 1, row_active = True, rs_class = c, rs_family = f, rs_type = t,
     rs_unit = u, rs_name = r_family x, rs_identity = r_identity x\<rparr>)"

definition create_tx :: "sql_faults \<Rightarrow> 'd decimal_ops \<Rightarrow> 'd resource \<Rightarrow> (gstring \<times> unit) catalog_sql" where
  "create_tx F D x =
     bnd (map_err (\<lambda>e. case e of NoRows \<Rightarrow> scope_error x | Broken f \<Rightarrow> mapRepositoryError ''insert resource'' f)
       (stmt F ''insert resource'' 0 (sql_insert ''recursos'' tb_resources_update
         (\<lambda>db. map_option (\<lambda>ids. resource_row ids x) (first_row (active_scope db x)))))) (\<lambda>resourceID.
     bnd (persist_values F D x resourceID 0 (r_attributes x)) (\<lambda>_.
     bnd (verifyAttributeCount F resourceID (length (r_attributes x))) (\<lambda>_.
     ret (''commit resource create'', ()))))"

definition store_create :: "sql_faults \<Rightarrow> bool \<Rightarrow> 'd decimal_ops \<Rightarrow> 'd resource \<Rightarrow> unit catalog_sql" where
  "store_create F applied D x =
     bnd (require (ValidateForPersistence x)) (\<lambda>_.
     bnd (lift (pool_check F)) (\<lambda>_.
     transact_as F ''begin resource create'' applied (create_tx F D x)))"

definition resolve_scope :: "sql_faults \<Rightarrow> 'd resource \<Rightarrow> (int \<times> int \<times> int \<times> int) catalog_sql" where
  "resolve_scope F x = read_row F ''resolve resource references'' (scope_error x) (\<lambda>db. first_row (active_scope db x))"

definition replace_values :: "sql_faults \<Rightarrow> 'd decimal_ops \<Rightarrow> 'd resource \<Rightarrow> unit catalog_sql" where
  "replace_values F D x =
     bnd (map_err (\<lambda>e. wrap_read ''clear resource attributes'' (db_error_value e))
       (stmt F ''clear resource attributes'' 0 (sql_delete tb_values (remove_rows tb_values_update) (\<lambda>v. va_resource v = r_id x)))) (\<lambda>_.
     bnd (persist_values F D x (r_id x) 0 (r_attributes x)) (\<lambda>_.
     verifyAttributeCount F (r_id x) (length (r_attributes x))))"

definition set_scope :: "int \<times> int \<times> int \<times> int \<Rightarrow> 'd resource \<Rightarrow> pg_resource \<Rightarrow> pg_resource" where
  "set_scope = (\<lambda>(c, f, t, u) x r. r\<lparr>rs_class := c, rs_family := f, rs_type := t, rs_unit := u, rs_name := r_family x\<rparr>)"

definition update_tx :: "sql_faults \<Rightarrow> 'd decimal_ops \<Rightarrow> 'd resource \<Rightarrow> (gstring \<times> unit) catalog_sql" where
  "update_tx F D x =
     bnd (resolve_scope F x) (\<lambda>ids.
     bnd (map_err (resource_write_error ''update resource'') (stmt F ''update resource'' 0
       (sql_update tb_resources tb_resources_update (\<lambda>r. row_id r = r_id x)
         (\<lambda>r. (set_scope ids x r)\<lparr>rs_identity := r_identity x\<rparr>)))) (\<lambda>affected.
     if affected = 0 then fail (resource_not_found (r_id x))
     else bnd (replace_values F D x) (\<lambda>_. ret (''commit resource update'', ()))))"

definition store_update :: "sql_faults \<Rightarrow> bool \<Rightarrow> 'd decimal_ops \<Rightarrow> 'd resource \<Rightarrow> unit catalog_sql" where
  "store_update F applied D x =
     bnd (require (ValidateForPersistence x)) (\<lambda>_.
     bnd (lift (pool_check F)) (\<lambda>_.
     transact_as F ''begin resource update'' applied (update_tx F D x)))"

section \<open>Lifecycle\<close>

definition scope_active :: "catalog_db \<Rightarrow> pg_resource \<Rightarrow> bool" where
  "scope_active db r \<longleftrightarrow> list_ex (\<lambda>cl. row_id cl = rs_class r \<and> row_active cl) (tb_classes db)
     \<and> list_ex (\<lambda>f. row_id f = rs_family r \<and> row_active f) (tb_families db)
     \<and> list_ex (\<lambda>t. row_id t = rs_type r \<and> row_active t) (tb_types db)
     \<and> list_ex (\<lambda>u. row_id u = rs_unit r \<and> row_active u) (tb_units db)
     \<and> list_ex (\<lambda>p. po_family p = rs_family r \<and> po_unit p = rs_unit r \<and> po_allowed p \<and> row_active p) (tb_policies db)"

definition lifecycle_rows :: "int \<Rightarrow> bool \<Rightarrow> catalog_db \<Rightarrow> pg_resource \<Rightarrow> bool" where
  "lifecycle_rows i active db r \<longleftrightarrow> row_id r = i \<and> (active \<longrightarrow> scope_active db r)"

text \<open>The transaction returns the class and identity the result is read back by, and whether it changed the row.\<close>

definition lifecycle_tx :: "sql_faults \<Rightarrow> int \<Rightarrow> bool \<Rightarrow> gstring \<Rightarrow> (gstring \<times> gstring \<times> gstring \<times> bool) catalog_sql" where
  "lifecycle_tx F i active expectedIdentityKey =
     bnd (read_row F (''load resource lifecycle '' @ show_int i) (resource_not_found i) (\<lambda>db. class_of_resource db i)) (\<lambda>(r, cl).
     if expectedIdentityKey \<noteq> [] \<and> expectedIdentityKey \<noteq> rs_identity r then fail (Sentinel (Dom ErrResourceIntegrity))
     else if row_active r = active then ret (''commit resource lifecycle no-op'', cl_code cl, rs_identity r, False)
     else
       bnd (map_err (resource_write_error ''set resource active'') (stmt F ''set resource active'' 0
         (\<lambda>db. sql_update tb_resources tb_resources_update (lifecycle_rows i active db) (\<lambda>r. r\<lparr>row_active := active\<rparr>) db))) (\<lambda>affected.
       if affected = 1 then ret (''commit resource lifecycle'', cl_code cl, rs_identity r, True)
       else if active then
         bnd (try_stmt (stmt F ''check active identity'' 0
           (asks (\<lambda>db. list_ex (\<lambda>y. row_active y \<and> rs_identity y = rs_identity r \<and> row_id y \<noteq> i) (tb_resources db))))) (\<lambda>conflict.
         fail (Sentinel (Dom (if conflict = Inr True then ErrDuplicateResource else ErrResourceReference))))
       else fail (resource_not_found i)))"

definition setLifecycle ::
  "sql_faults \<Rightarrow> bool \<Rightarrow> 'd decimal_ops \<Rightarrow> (gstring \<Rightarrow> gstring) \<Rightarrow> int \<Rightarrow> bool \<Rightarrow> gstring \<Rightarrow> 'd lifecycle_result catalog_sql" where
  "setLifecycle F applied D coll i active expectedIdentityKey =
     bnd (lift (pool_check F)) (\<lambda>_.
     bnd (transact_as F ''begin resource lifecycle'' applied (lifecycle_tx F i active expectedIdentityKey)) (\<lambda>(classCode, identityKey, changed).
     bnd (read_back (store_get F D coll classCode identityKey)) (\<lambda>x.
     ret \<lparr>lr_resource = Some x, lr_changed = changed\<rparr>)))"

definition store_deactivate where
  "store_deactivate F applied D coll i = setLifecycle F applied D coll i False []"

definition store_reactivate where
  "store_reactivate F applied D coll i identityKey = setLifecycle F applied D coll i True identityKey"

definition store_set_active :: "sql_faults \<Rightarrow> bool \<Rightarrow> 'd decimal_ops \<Rightarrow> (gstring \<Rightarrow> gstring) \<Rightarrow> int \<Rightarrow> bool \<Rightarrow> unit catalog_sql" where
  "store_set_active F applied D coll i active =
     (if active then bnd (setLifecycle F applied D coll i True []) (\<lambda>_. ret ())
      else bnd (store_deactivate F applied D coll i) (\<lambda>_. ret ()))"

section \<open>Revision-aware writes\<close>

definition errResourceRevisionRequired :: go_error where
  "errResourceRevisionRequired = ErrNew ''resource lifecycle revision CAS requires a non-zero expected revision''"

definition revision_conflict :: go_error where
  "revision_conflict = Sentinel (Dom ErrResourceRevisionConflict)"

definition getWithRevision ::
  "sql_faults \<Rightarrow> 'd decimal_ops \<Rightarrow> (gstring \<Rightarrow> gstring) \<Rightarrow> int \<Rightarrow> gstring \<Rightarrow> gstring \<Rightarrow> catalog_db \<Rightarrow> go_error + 'd resource" where
  "getWithRevision F D coll i classCode identityKey db =
     bindr (wrap_result ''reload resource %d after lifecycle revision: %w'' [show_int i] (store_get F D coll classCode identityKey db)) (\<lambda>x.
     bindr (query_one F (''load resource '' @ show_int i @ '' revision'')
         (wrap_read (''load resource '' @ show_int i @ '' revision'') (db_error_value NoRows))
         (\<lambda>db. map_option row_revision (row_by_id (tb_resources db) i)) db) (\<lambda>revision.
     Inr (x\<lparr>r_revision := revision\<rparr>)))"

text \<open>A conditional update reports how many rows it hit.\<close>

definition bump_affected ::
  "sql_faults \<Rightarrow> gstring \<Rightarrow> (catalog_db \<Rightarrow> pg_resource \<Rightarrow> bool) \<Rightarrow> (pg_resource \<Rightarrow> pg_resource) \<Rightarrow> bool catalog_sql" where
  "bump_affected F operation match f =
     bnd (try_stmt (stmt F operation 0 (\<lambda>db. sql_bump tb_resources tb_resources_update (match db) f db))) (\<lambda>result. case result of
        Inr _ \<Rightarrow> ret True
      | Inl NoRows \<Rightarrow> ret False
      | Inl (Broken e) \<Rightarrow> fail (mapRepositoryError operation e))"

definition lifecycle_revision_tx ::
  "sql_faults \<Rightarrow> int \<Rightarrow> bool \<Rightarrow> gstring \<Rightarrow> revision \<Rightarrow> (gstring \<times> gstring \<times> gstring) catalog_sql" where
  "lifecycle_revision_tx F i active expectedIdentityKey expectedRevision =
     bnd (read_row F (''load resource lifecycle revision '' @ show_int i) (resource_not_found i) (\<lambda>db. class_of_resource db i)) (\<lambda>(r, cl).
     if expectedIdentityKey \<noteq> [] \<and> expectedIdentityKey \<noteq> rs_identity r then fail (Sentinel (Dom ErrResourceIntegrity))
     else if row_revision r \<noteq> expectedRevision then fail revision_conflict
     else if row_active r = active then ret (''commit resource lifecycle revision no-op'', cl_code cl, rs_identity r)
     else
       bnd (bump_affected F ''set resource active revision''
         (\<lambda>db x. lifecycle_rows i active db x \<and> row_revision x = expectedRevision) (\<lambda>x. x\<lparr>row_active := active\<rparr>)) (\<lambda>affected.
       if affected then ret (''commit resource lifecycle revision'', cl_code cl, rs_identity r)
       else if active then fail (Sentinel (Dom ErrResourceReference))
       else fail (resource_not_found i)))"

definition setLifecycleRevision ::
  "sql_faults \<Rightarrow> bool \<Rightarrow> 'd decimal_ops \<Rightarrow> (gstring \<Rightarrow> gstring) \<Rightarrow> int \<Rightarrow> bool \<Rightarrow> gstring \<Rightarrow> revision \<Rightarrow> 'd resource catalog_sql" where
  "setLifecycleRevision F applied D coll i active expectedIdentityKey expectedRevision =
     bnd (lift (pool_check F)) (\<lambda>_.
     if expectedRevision = 0 then fail errResourceRevisionRequired
     else
       bnd (transact_as F ''begin resource lifecycle revision'' applied
         (lifecycle_revision_tx F i active expectedIdentityKey expectedRevision)) (\<lambda>(classCode, identityKey).
       read_back (getWithRevision F D coll i classCode identityKey)))"

definition update_revision_tx ::
  "sql_faults \<Rightarrow> 'd decimal_ops \<Rightarrow> 'd resource \<Rightarrow> revision \<Rightarrow> (gstring \<times> gstring \<times> gstring) catalog_sql" where
  "update_revision_tx F D x expectedRevision =
     bnd (read_row F (''load resource update revision '' @ show_int (r_id x)) (resource_not_found (r_id x))
       (\<lambda>db. class_of_resource db (r_id x))) (\<lambda>(r, cl).
     if row_revision r \<noteq> expectedRevision then fail revision_conflict
     else
       bnd (resolve_scope F x) (\<lambda>ids.
       bnd (bump_affected F ''update resource revision''
         (\<lambda>_ x'. row_id x' = r_id x \<and> row_revision x' = expectedRevision) (set_scope ids x)) (\<lambda>affected.
       if \<not> affected then fail revision_conflict
       else bnd (replace_values F D x) (\<lambda>_. ret (''commit resource update revision'', cl_code cl, rs_identity r)))))"

definition store_update_revision ::
  "sql_faults \<Rightarrow> bool \<Rightarrow> 'd decimal_ops \<Rightarrow> (gstring \<Rightarrow> gstring) \<Rightarrow> 'd resource \<Rightarrow> revision \<Rightarrow> 'd resource catalog_sql" where
  "store_update_revision F applied D coll x expectedRevision =
     bnd (require (ValidateForPersistence x)) (\<lambda>_.
     bnd (lift (pool_check F)) (\<lambda>_.
     if expectedRevision = 0 then fail errResourceRevisionRequired
     else
       bnd (transact_as F ''begin resource update revision'' applied (update_revision_tx F D x expectedRevision)) (\<lambda>(classCode, identityKey).
       read_back (getWithRevision F D coll (r_id x) classCode identityKey))))"

section \<open>Search\<close>

abbreviation defaultSearchLimit :: int where "defaultSearchLimit \<equiv> 50"

definition clampLimitOffset :: "int \<Rightarrow> int \<Rightarrow> int \<times> int" where
  "clampLimitOffset lim off = (if lim \<le> 0 then defaultSearchLimit else lim, if off < 0 then 0 else off)"

definition numeric_equal :: "'d decimal_ops \<Rightarrow> gstring option \<Rightarrow> 'd option \<Rightarrow> bool" where
  "numeric_equal D column v = (case (column, v) of
      (Some s, Some d) \<Rightarrow> (case dec_parse D s of None \<Rightarrow> False | Some c \<Rightarrow> dec_equal D c d)
    | _ \<Rightarrow> False)"

text \<open>A comparison with NULL is not true.\<close>

definition column_equal :: "'a option \<Rightarrow> 'a option \<Rightarrow> bool" where
  "column_equal column v \<longleftrightarrow> column \<noteq> None \<and> column = v"

definition value_condition :: "'d decimal_ops \<Rightarrow> gstring \<Rightarrow> 'd value_payload \<Rightarrow> value_columns \<Rightarrow> bool" where
  "value_condition D valueType p c =
     (if valueType = ValueTypeControlledOption then column_equal (vc_option c) (Some (pay_option p))
      else if valueType = ValueTypeInteger then column_equal (vc_integer c) (pay_integer p)
      else if valueType = ValueTypeDecimal then numeric_equal D (vc_decimal c) (pay_decimal p)
      else if valueType = ValueTypeQuantity then numeric_equal D (vc_quantity c) (Some (case pay_quantity p of None \<Rightarrow> dec_zero D | Some q \<Rightarrow> q))
        \<and> column_equal (vc_unit c) (Some (pay_quantity_unit p))
      else if valueType = ValueTypeBoolean then column_equal (vc_boolean c) (pay_boolean p)
      else column_equal (vc_text c) (Some (pay_text p)))"

definition effectiveValueFilter ::
  "'d decimal_ops \<Rightarrow> 'd attr_value \<Rightarrow> go_error + (catalog_db \<Rightarrow> pg_resource \<Rightarrow> bool)" where
  "effectiveValueFilter D flt =
     bindr (encodeValue flt) (\<lambda>payload.
     if av_type flt \<in> {ValueTypeControlledOption, ValueTypeInteger, ValueTypeDecimal, ValueTypeQuantity, ValueTypeBoolean,
          ValueTypeControlledText}
     then Inr (\<lambda>db r. list_ex (\<lambda>(c, n). n > 1 \<or> (ev_code c = av_code flt \<and> va_state (ev_value c) = ''SET''
        \<and> value_condition D (av_type flt) payload (columns_of db (ev_value c)))) (effective_values db r))
     else Inl (Wrapf ''unsupported filter value type %q'' [av_type flt] []))"

fun search_filters ::
  "'d decimal_ops \<Rightarrow> 'd attr_value list \<Rightarrow> go_error + (catalog_db \<Rightarrow> pg_resource \<Rightarrow> bool) list" where
  "search_filters D [] = Inr []"
| "search_filters D (flt # flts) =
     bindr (wrap_result ''encode search filter %q: %w'' [av_code flt] (effectiveValueFilter D flt)) (\<lambda>condition.
     bindr (search_filters D flts) (\<lambda>conditions. Inr (condition # conditions)))"

definition search_matches ::
  "pattern_match \<Rightarrow> 'd search_criteria \<Rightarrow> (catalog_db \<Rightarrow> pg_resource \<Rightarrow> bool) list \<Rightarrow> catalog_db
     \<Rightarrow> pg_resource \<times> pg_class \<times> pg_family \<times> pg_type \<times> pg_unit \<Rightarrow> bool" where
  "search_matches ilike criteria conditions db = (\<lambda>(r, cl, f, t, u).
     row_active r = (cr_lifecycle criteria \<noteq> LifecycleScopeInactive)
     \<and> appendEqualsFilter (cl_code cl) (cr_class criteria) \<and> appendEqualsFilter (fa_code f) (cr_family criteria)
     \<and> appendEqualsFilter (ty_code t) (cr_type criteria)
     \<and> appendTextFilter ilike (cr_text criteria) [rs_identity r, fa_code f, fa_name f]
     \<and> list_all (\<lambda>p. p db r) conditions)"

definition duplicate_values :: "catalog_db \<Rightarrow> pg_resource \<Rightarrow> bool" where
  "duplicate_values db r \<longleftrightarrow> list_ex (\<lambda>(c, n). n > 1) (effective_values db r)"

fun hydrate_rows ::
  "(int, 'd attr_value list) gmap \<Rightarrow> (pg_resource \<times> pg_class \<times> pg_family \<times> pg_type \<times> pg_unit) list \<Rightarrow> go_error + 'd resource list" where
  "hydrate_rows attributes [] = Inr []"
| "hydrate_rows attributes (row # rows) =
     bindr (wrap_result ''hydrate matched resource %s/%s: %w'' [cl_code (fst (snd row)), rs_identity (fst row)]
       (hydrate_row attributes (rs_identity (fst row)) row)) (\<lambda>x.
     bindr (hydrate_rows attributes rows) (\<lambda>xs. Inr (x # xs)))"

definition SearchPage ::
  "sql_faults \<Rightarrow> 'd decimal_ops \<Rightarrow> pattern_match \<Rightarrow> (gstring \<Rightarrow> gstring) \<Rightarrow> 'd search_criteria \<Rightarrow> catalog_db
     \<Rightarrow> go_error + 'd resource_page" where
  "SearchPage F D ilike coll criteria db =
     bindr (pool_check F) (\<lambda>_.
     bindr (wrap_result ''search resources: %w'' [] (Normalize criteria)) (\<lambda>criteria.
     bindr (search_filters D (cr_filters criteria)) (\<lambda>conditions.
     let lim = cr_limit criteria; off = cr_offset criteria in
     bindr (query_one F ''search resources'' (ErrNew []) (\<lambda>db. Some (page (lim + 1) off
         (sort_key (\<lambda>(r, _). (coll (rs_identity r), row_id r))
           (filter (search_matches ilike criteria conditions db) (stored_resources db))))) db) (\<lambda>rows.
     let hasNext = lim < int (length rows); bases = (if hasNext then take (nat lim) rows else rows) in
     (case find (\<lambda>(r, _). duplicate_values db r) bases of
        Some (r, _) \<Rightarrow> Inl (integrityError ''resource %d has duplicate effective attribute values'' [show_int (row_id r)])
      | None \<Rightarrow>
          let result = \<lparr>pg_criteria = criteria, pg_resources = [], pg_previous = 0 < off, pg_next = hasNext\<rparr> in
          if bases = [] then Inr result
          else
            bindr (wrap_result ''hydrate search results: %w'' []
                (loadEffectiveAttributes F D coll (map (\<lambda>(r, _). row_id r) bases) db)) (\<lambda>attributes.
            bindr (hydrate_rows attributes bases) (\<lambda>xs. Inr (result\<lparr>pg_resources := xs\<rparr>))))))))"

definition store_search ::
  "sql_faults \<Rightarrow> 'd decimal_ops \<Rightarrow> pattern_match \<Rightarrow> (gstring \<Rightarrow> gstring) \<Rightarrow> 'd search_criteria \<Rightarrow> catalog_db
     \<Rightarrow> go_error + 'd resource list" where
  "store_search F D ilike coll criteria db = bindr (SearchPage F D ilike coll criteria db) (\<lambda>p. Inr (pg_resources p))"

section \<open>The repository\<close>

definition resource_store ::
  "sql_faults \<Rightarrow> bool \<Rightarrow> 'd decimal_ops \<Rightarrow> pattern_match \<Rightarrow> (gstring \<Rightarrow> gstring) \<Rightarrow> ('d, catalog_db) resource_repo" where
  "resource_store F applied D ilike coll = \<lparr>rr_create = store_create F applied D, rr_get = store_get F D coll,
     rr_search = store_search F D ilike coll, rr_update = store_update F applied D,
     rr_deactivate = store_deactivate F applied D coll, rr_reactivate = store_reactivate F applied D coll,
     rr_search_page = Some (SearchPage F D ilike coll), rr_get_by_id = Some (store_get_by_id F D coll),
     rr_v2 = Some \<lparr>rv_deactivate = (\<lambda>i. setLifecycleRevision F applied D coll i False []),
       rv_reactivate = (\<lambda>i identityKey. setLifecycleRevision F applied D coll i True identityKey),
       rv_update = store_update_revision F applied D coll\<rparr>\<rparr>"

end
