(* ===== verification/CatalogStoreV2.thy ===== *)
theory CatalogStoreV2
  imports CatalogKindStore CatalogEquivalence
begin

text \<open>
  The revision-aware catalogue repository (\<^verbatim>\<open>internal/postgres/catalog_admin_repository_v2.go\<close>): the
  compare-and-swap statement of each kind, the rules of a binding, and the protocol every write runs inside
  one transaction. \<^verbatim>\<open>runV2CoherentTx\<close> loads the catalogue, writes, applies the same mutation to the loaded
  catalogue, loads again, validates, and commits only if both catalogues agree up to the order of rows. The
  result \<open>catalogAdminRepositoryV2\<close> is the interface \<open>catalog_repo_v2\<close> of the catalogue service.
\<close>

section \<open>Compare and swap\<close>

definition errCatalogRevisionRequiredV2 :: go_error where
  "errCatalogRevisionRequiredV2 = ErrNew ''catalog update requires a non-zero expected revision''"

definition errApplicabilityRevisionRequired :: go_error where
  "errApplicabilityRevisionRequired = ErrNew ''applicability update requires a non-zero expected revision''"

definition errApplicabilityRulesOmitted :: go_error where
  "errApplicabilityRulesOmitted = ErrNew ''applicability rules are omitted''"

definition errCatalogCandidateMismatchV2 :: go_error where
  "errCatalogCandidateMismatchV2 = ErrNew ''reloaded catalog does not match the expected candidate''"

definition errCatalogStaleRevisionV2 :: go_error where
  "errCatalogStaleRevisionV2 = Sentinel (Dom ErrResourceRevisionConflict)"

text \<open>An expected revision beyond the largest \<^verbatim>\<open>BIGINT\<close> is refused by the driver before it is sent.\<close>

definition bind_bigint :: "revision \<Rightarrow> 'a catalog_stmt \<Rightarrow> 'a catalog_stmt" where
  "bind_bigint v act = (if bigint_max < v
     then fail (Broken (DriverError (ErrNew ''value is greater than maximum value for int8''))) else act)"

text \<open>A write that hit no row: absent, or present under another revision.\<close>

definition stale_or_absent :: "sql_faults \<Rightarrow> gstring \<Rightarrow> (catalog_db \<Rightarrow> 'r option) \<Rightarrow> 'a catalog_sql" where
  "stale_or_absent F operation current = bnd (read_row F operation not_found current) (\<lambda>_. fail errCatalogStaleRevisionV2)"

definition casUpdateRevision ::
  "sql_faults \<Rightarrow> revision catalog_stmt \<Rightarrow> (catalog_db \<Rightarrow> ('r pg_row_scheme) list) \<Rightarrow> int \<Rightarrow> revision \<Rightarrow> revision catalog_sql" where
  "casUpdateRevision F update sel i expectedRevision =
     (if expectedRevision = 0 then fail errCatalogRevisionRequiredV2
      else bnd (try_stmt (stmt F ''cas update'' 0 (bind_bigint expectedRevision update))) (\<lambda>result. case result of
          Inr revision \<Rightarrow> ret revision
        | Inl (Broken f) \<Rightarrow> fail (mapCatalogWriteError ''cas update'' f)
        | Inl NoRows \<Rightarrow> stale_or_absent F ''resolve revision'' (\<lambda>db. row_by_id (sel db) i)))"

definition casDeleteRevision ::
  "sql_faults \<Rightarrow> int catalog_stmt \<Rightarrow> (catalog_db \<Rightarrow> ('r pg_row_scheme) list) \<Rightarrow> int \<Rightarrow> revision \<Rightarrow> unit catalog_sql" where
  "casDeleteRevision F delete sel i expectedRevision =
     (if expectedRevision = 0 then fail errCatalogRevisionRequiredV2
      else bnd (try_stmt (stmt F ''cas delete'' 0 (bind_bigint expectedRevision delete))) (\<lambda>result. case result of
          Inl (Broken f) \<Rightarrow> fail (mapCatalogDeleteError ''cas delete'' f)
        | Inl NoRows \<Rightarrow> fail (wrap_read ''cas delete'' (db_error_value NoRows))
        | Inr affected \<Rightarrow> if 0 < affected then ret ()
            else stale_or_absent F ''resolve revision'' (\<lambda>db. row_by_id (sel db) i)))"

text \<open>\<^verbatim>\<open>... WHERE <key> AND revision = $expected\<close>: the statement of an update, a set-active, a delete.\<close>

definition cas_row :: "('r pg_row_scheme \<Rightarrow> bool) \<Rightarrow> revision \<Rightarrow> 'r pg_row_scheme \<Rightarrow> bool" where
  "cas_row match expectedRevision r \<longleftrightarrow> match r \<and> row_revision r = expectedRevision"

definition simpleSetActiveV2 ::
  "sql_faults \<Rightarrow> ((('r pg_row_scheme) list \<Rightarrow> ('r pg_row_scheme) list) \<Rightarrow> catalog_db \<Rightarrow> catalog_db)
     \<Rightarrow> (catalog_db \<Rightarrow> ('r pg_row_scheme) list) \<Rightarrow> int \<Rightarrow> bool \<Rightarrow> revision \<Rightarrow> revision catalog_sql" where
  "simpleSetActiveV2 F upd sel i active expectedRevision = casUpdateRevision F
     (sql_bump sel upd (cas_row (\<lambda>r. row_id r = i) expectedRevision) (\<lambda>r. r\<lparr>row_active := active\<rparr>)) sel i expectedRevision"

definition simpleDeleteV2 ::
  "sql_faults \<Rightarrow> ((('r pg_row_scheme) \<Rightarrow> bool) \<Rightarrow> catalog_db \<Rightarrow> catalog_db)
     \<Rightarrow> (catalog_db \<Rightarrow> ('r pg_row_scheme) list) \<Rightarrow> int \<Rightarrow> revision \<Rightarrow> unit catalog_sql" where
  "simpleDeleteV2 F remove sel i expectedRevision = casDeleteRevision F
     (sql_delete sel remove (cas_row (\<lambda>r. row_id r = i) expectedRevision)) sel i expectedRevision"

section \<open>Inserts and updates per kind\<close>

text \<open>\<^verbatim>\<open>RETURNING id, revision\<close>: a new row starts at revision 1.\<close>

definition with_first_revision :: "int catalog_sql \<Rightarrow> (int \<times> revision) catalog_sql" where
  "with_first_revision m = bnd m (\<lambda>i. ret (i, 1))"

definition insertClassV2 :: "sql_faults \<Rightarrow> catalog_record \<Rightarrow> (int \<times> revision) catalog_sql" where
  "insertClassV2 F r = with_first_revision (write_row F ''insert resource_classes'' not_found
     (sql_insert ''resource_classes'' tb_classes_update (\<lambda>db. Some (class_row r))))"

definition updateClassV2 :: "sql_faults \<Rightarrow> catalog_record \<Rightarrow> revision \<Rightarrow> revision catalog_sql" where
  "updateClassV2 F r expectedRevision = bnd (classReferencedByResources F (rec_id r)) (\<lambda>referenced.
     casUpdateRevision F (sql_bump tb_classes tb_classes_update (cas_row (\<lambda>c. row_id c = rec_id r) expectedRevision)
         (set_class referenced r)) tb_classes (rec_id r) expectedRevision)"

definition insertFamilyV2 :: "sql_faults \<Rightarrow> catalog_record \<Rightarrow> (int \<times> revision) catalog_sql" where
  "insertFamilyV2 F r = bnd (resolveClassID F (rec_ref r ''class'')) (\<lambda>classID.
     with_first_revision (write_row F ''insert resource_families'' not_found
       (sql_insert ''resource_families'' tb_families_update (\<lambda>db. Some (family_row classID r)))))"

definition updateFamilyV2 :: "sql_faults \<Rightarrow> catalog_record \<Rightarrow> revision \<Rightarrow> revision catalog_sql" where
  "updateFamilyV2 F r expectedRevision = bnd (resolveClassID F (rec_ref r ''class'')) (\<lambda>classID.
     bnd (familyReferencedByResources F (rec_id r)) (\<lambda>referenced.
     casUpdateRevision F (sql_bump tb_families tb_families_update (cas_row (\<lambda>x. row_id x = rec_id r) expectedRevision)
         (set_family referenced classID r)) tb_families (rec_id r) expectedRevision))"

definition insertTypeV2 :: "sql_faults \<Rightarrow> catalog_record \<Rightarrow> (int \<times> revision) catalog_sql" where
  "insertTypeV2 F r = bnd (resolveFamilyID F (rec_ref r ''class'') (rec_ref r ''family'')) (\<lambda>(familyID, classID).
     with_first_revision (write_row F ''insert resource_types'' not_found
       (sql_insert ''resource_types'' tb_types_update (\<lambda>db. Some (type_row_of classID familyID r)))))"

definition updateTypeV2 :: "sql_faults \<Rightarrow> catalog_record \<Rightarrow> revision \<Rightarrow> revision catalog_sql" where
  "updateTypeV2 F r expectedRevision = bnd (resolveFamilyID F (rec_ref r ''class'') (rec_ref r ''family'')) (\<lambda>(familyID, classID).
     bnd (typeReferencedByResources F (rec_id r)) (\<lambda>referenced.
     casUpdateRevision F (sql_bump tb_types tb_types_update (cas_row (\<lambda>t. row_id t = rec_id r) expectedRevision)
         (set_type referenced classID familyID r)) tb_types (rec_id r) expectedRevision))"

definition insertDefinitionV2 :: "sql_faults \<Rightarrow> catalog_record \<Rightarrow> (int \<times> revision) catalog_sql" where
  "insertDefinitionV2 F r = with_first_revision (write_row F ''insert attribute_definitions'' not_found
     (sql_insert ''attribute_definitions'' tb_definitions_update (\<lambda>db. Some (definition_row r))))"

definition updateDefinitionV2 :: "sql_faults \<Rightarrow> catalog_record \<Rightarrow> revision \<Rightarrow> revision catalog_sql" where
  "updateDefinitionV2 F r expectedRevision = bnd (definitionReferencedByResources F (rec_id r)) (\<lambda>referenced.
     casUpdateRevision F (sql_bump tb_definitions tb_definitions_update (cas_row (\<lambda>d. row_id d = rec_id r) expectedRevision)
         (set_definition referenced r)) tb_definitions (rec_id r) expectedRevision)"

definition insertOptionSetV2 :: "sql_faults \<Rightarrow> catalog_record \<Rightarrow> (int \<times> revision) catalog_sql" where
  "insertOptionSetV2 F r = with_first_revision (write_row F ''insert resource_option_sets'' not_found
     (sql_insert ''resource_option_sets'' tb_option_sets_update (\<lambda>db. Some (option_set_row r))))"

definition updateOptionSetV2 :: "sql_faults \<Rightarrow> catalog_record \<Rightarrow> revision \<Rightarrow> revision catalog_sql" where
  "updateOptionSetV2 F r expectedRevision = bnd (optionSetReferencedByResources F (rec_id r)) (\<lambda>referenced.
     casUpdateRevision F (sql_bump tb_option_sets tb_option_sets_update (cas_row (\<lambda>s. row_id s = rec_id r) expectedRevision)
         (set_option_set referenced r)) tb_option_sets (rec_id r) expectedRevision)"

definition insertUnitV2 :: "sql_faults \<Rightarrow> catalog_record \<Rightarrow> (int \<times> revision) catalog_sql" where
  "insertUnitV2 F r = with_first_revision (write_row F ''insert unit_definitions'' not_found
     (sql_insert ''unit_definitions'' tb_units_update (\<lambda>db. Some (unit_row r))))"

definition updateUnitV2 :: "sql_faults \<Rightarrow> catalog_record \<Rightarrow> revision \<Rightarrow> revision catalog_sql" where
  "updateUnitV2 F r expectedRevision = bnd (unitReferencedByResources F (rec_id r)) (\<lambda>referenced.
     casUpdateRevision F (sql_bump tb_units tb_units_update (cas_row (\<lambda>u. row_id u = rec_id r) expectedRevision)
         (set_unit referenced r)) tb_units (rec_id r) expectedRevision)"

definition insertOptionV2 :: "sql_faults \<Rightarrow> catalog_record \<Rightarrow> (int \<times> revision) catalog_sql" where
  "insertOptionV2 F r = with_first_revision (write_row F ''insert attribute_options'' (option_reference_error r)
     (sql_insert ''attribute_options'' tb_options_update (build_option r)))"

definition updateOptionV2 :: "sql_faults \<Rightarrow> catalog_record \<Rightarrow> revision \<Rightarrow> revision catalog_sql" where
  "updateOptionV2 F r expectedRevision =
     bnd (resolve_option F (rec_id r)) (\<lambda>key.
     bnd (optionReferencedByResources F (rec_id r)) (\<lambda>referenced.
     casUpdateRevision F (\<lambda>db. sql_bump tb_options tb_options_update (cas_row (option_at db key) expectedRevision)
         (set_option referenced r) db) tb_options (rec_id r) expectedRevision))"

definition insertOptionRelationV2 :: "sql_faults \<Rightarrow> catalog_record \<Rightarrow> (int \<times> revision) catalog_sql" where
  "insertOptionRelationV2 F r = with_first_revision (write_row F ''insert attribute_option_relations'' (relation_reference_error r)
     (sql_insert ''attribute_option_relations'' tb_relations_update (build_relation r)))"

definition updateOptionRelationV2 :: "sql_faults \<Rightarrow> catalog_record \<Rightarrow> revision \<Rightarrow> revision catalog_sql" where
  "updateOptionRelationV2 F r expectedRevision =
     (let match = cas_row (\<lambda>x. row_id x = rec_id r) expectedRevision in
      casUpdateRevision F (with_definitions r match
          (\<lambda>fd td. sql_bump tb_relations tb_relations_update match (set_relation fd td r)) (Inl NoRows))
        tb_relations (rec_id r) expectedRevision)"

definition insertUnitPolicyV2 :: "sql_faults \<Rightarrow> catalog_record \<Rightarrow> (int \<times> revision) catalog_sql" where
  "insertUnitPolicyV2 F r = with_first_revision (write_row F ''insert resource_unit_policies'' (policy_reference_error r)
     (sql_insert ''resource_unit_policies'' tb_policies_update (build_policy r)))"

definition updateUnitPolicyV2 :: "sql_faults \<Rightarrow> catalog_record \<Rightarrow> revision \<Rightarrow> revision catalog_sql" where
  "updateUnitPolicyV2 F r expectedRevision = bnd (resolve_policy F (rec_id r)) (\<lambda>key.
     casUpdateRevision F (sql_bump tb_policies tb_policies_update
         (cas_row (\<lambda>p. (po_family p, po_unit p) = key) expectedRevision) (set_policy r))
       tb_policies (rec_id r) expectedRevision)"

definition insertPresentationFieldV2 :: "sql_faults \<Rightarrow> catalog_record \<Rightarrow> (int \<times> revision) catalog_sql" where
  "insertPresentationFieldV2 F r = with_first_revision (write_row F ''insert resource_type_presentation_fields'' (field_reference_error r)
     (sql_insert ''resource_type_presentation_fields'' tb_fields_update (build_field r)))"

definition updatePresentationFieldV2 :: "sql_faults \<Rightarrow> catalog_record \<Rightarrow> revision \<Rightarrow> revision catalog_sql" where
  "updatePresentationFieldV2 F r expectedRevision = bnd (resolve_field F (rec_id r)) (\<lambda>key.
     casUpdateRevision F (sql_bump tb_fields tb_fields_update
         (cas_row (\<lambda>x. (fi_type x, fi_definition x) = key) expectedRevision) (set_field r))
       tb_fields (rec_id r) expectedRevision)"

section \<open>Bindings with their rules\<close>

definition rule_row :: "int \<Rightarrow> nat \<Rightarrow> int \<Rightarrow> attribute_rule \<Rightarrow> int \<Rightarrow> pg_rule" where
  "rule_row attributeID order whenDefinitionID rule i = \<lparr>ru_id = i, ru_attribute = attributeID, ru_order = int order,
     ru_when = whenDefinitionID, ru_equals = when_equals (ar_when rule), ru_mode = ar_mode rule,
     ru_identity = ar_identity rule, ru_not_applicable = ar_not_applicable rule, ru_active = ar_active rule\<rparr>"

definition insert_rule :: "sql_faults \<Rightarrow> int \<Rightarrow> nat \<Rightarrow> attribute_rule \<Rightarrow> int catalog_sql" where
  "insert_rule F attributeID order rule =
     bnd (resolveDefinitionID F (when_attribute (ar_when rule))) (\<lambda>whenDefinitionID.
     map_err (\<lambda>e. case e of NoRows \<Rightarrow> not_found | Broken f \<Rightarrow> mapCatalogWriteError ''insert resource_attribute_rules'' f)
       (stmt F ''insert resource_attribute_rules'' order
         (sql_insert ''resource_attribute_rules'' tb_rules_update
           (\<lambda>db. Some (rule_row attributeID order whenDefinitionID rule)))))"

fun insert_rules_from :: "sql_faults \<Rightarrow> int \<Rightarrow> nat \<Rightarrow> attribute_rule list \<Rightarrow> unit catalog_sql" where
  "insert_rules_from F attributeID order [] = ret ()"
| "insert_rules_from F attributeID order (rule # rules) =
     bnd (insert_rule F attributeID order rule) (\<lambda>_. insert_rules_from F attributeID (Suc order) rules)"

definition insertApplicabilityRulesV2 :: "sql_faults \<Rightarrow> int \<Rightarrow> attribute_rule list \<Rightarrow> unit catalog_sql" where
  "insertApplicabilityRulesV2 F attributeID rules = insert_rules_from F attributeID 0 rules"

definition replaceApplicabilityRulesV2 :: "sql_faults \<Rightarrow> int \<Rightarrow> attribute_rule list \<Rightarrow> unit catalog_sql" where
  "replaceApplicabilityRulesV2 F attributeID rules =
     bnd (write_row F ''delete resource_attribute_rules'' not_found
       (sql_delete tb_rules (remove_rows tb_rules_update) (\<lambda>r. ru_attribute r = attributeID))) (\<lambda>_.
     insertApplicabilityRulesV2 F attributeID rules)"

definition insertApplicabilityParentV2 :: "sql_faults \<Rightarrow> catalog_record \<Rightarrow> (int \<times> revision) catalog_sql" where
  "insertApplicabilityParentV2 F r = bnd (resolve_binding_refs F r) (\<lambda>b.
     with_first_revision (write_row F ''insert resource_attributes'' not_found
       (sql_insert ''resource_attributes'' tb_attributes_update (\<lambda>db. Some (attribute_row b r db)))))"

definition updateApplicabilityParentV2 :: "sql_faults \<Rightarrow> catalog_record \<Rightarrow> revision \<Rightarrow> revision catalog_sql" where
  "updateApplicabilityParentV2 F r expectedRevision =
     (if expectedRevision = 0 then fail errApplicabilityRevisionRequired
      else bnd (resolve_binding_refs F r) (\<lambda>b.
        bnd (try_stmt (stmt F ''update resource_attributes'' 0 (bind_bigint expectedRevision
          (sql_bump tb_attributes tb_attributes_update (cas_row (\<lambda>a. row_id a = rec_id r) expectedRevision) (set_attribute b r)))))
        (\<lambda>result. case result of
            Inr revision \<Rightarrow> ret revision
          | Inl (Broken f) \<Rightarrow> fail (mapCatalogWriteError ''update resource_attributes'' f)
          | Inl NoRows \<Rightarrow> stale_or_absent F ''resolve resource_attributes revision'' (\<lambda>db. row_by_id (tb_attributes db) (rec_id r)))))"

definition record_rules :: "catalog_record \<Rightarrow> attribute_rule list" where
  "record_rules r = (case rec_rules r of None \<Rightarrow> [] | Some rules \<Rightarrow> rules)"

definition insert_applicability :: "sql_faults \<Rightarrow> catalog_record \<Rightarrow> (int \<times> revision) catalog_sql" where
  "insert_applicability F r = bnd (insertApplicabilityParentV2 F r) (\<lambda>(i, revision).
     bnd (insertApplicabilityRulesV2 F i (record_rules r)) (\<lambda>_. ret (i, revision)))"

definition update_applicability :: "sql_faults \<Rightarrow> catalog_record \<Rightarrow> revision \<Rightarrow> revision catalog_sql" where
  "update_applicability F r expectedRevision = bnd (updateApplicabilityParentV2 F r expectedRevision) (\<lambda>revision.
     bnd (replaceApplicabilityRulesV2 F (rec_id r) (record_rules r)) (\<lambda>_. ret revision))"

section \<open>The order of comparison\<close>

text \<open>\<^verbatim>\<open>fmt.Sprintf("%+v", row)\<close>, by which both catalogues are sorted before they are compared.\<close>

definition fmt_fields :: "(gstring \<times> gstring) list \<Rightarrow> gstring" where
  "fmt_fields fs = ''{'' @ join '' '' (map (\<lambda>(n, v). n @ '':'' @ v) fs) @ ''}''"

definition fmt_list :: "gstring list \<Rightarrow> gstring" where
  "fmt_list xs = ''['' @ join '' '' xs @ '']''"

definition fmt_bool :: "bool \<Rightarrow> gstring" where
  "fmt_bool b = (if b then ''true'' else ''false'')"

definition fmt_class :: "resource_class \<Rightarrow> gstring" where
  "fmt_class c = fmt_fields [(''Code'', rc_code c), (''Name'', rc_name c), (''Plural'', rc_plural c), (''Slug'', rc_slug c),
     (''Aliases'', fmt_list (rc_aliases c)), (''Keywords'', fmt_list (rc_keywords c)), (''Order'', show_int (rc_order c)),
     (''Active'', fmt_bool (rc_active c))]"

definition fmt_family :: "resource_family \<Rightarrow> gstring" where
  "fmt_family f = fmt_fields [(''ClassCode'', rf_class f), (''Code'', rf_code f), (''Name'', rf_name f), (''Active'', fmt_bool (rf_active f))]"

definition fmt_type :: "resource_type \<Rightarrow> gstring" where
  "fmt_type t = fmt_fields [(''ClassCode'', rt_class t), (''FamilyCode'', rt_family t), (''Code'', rt_code t), (''Name'', rt_name t),
     (''Active'', fmt_bool (rt_active t))]"

definition fmt_field :: "presentation_field \<Rightarrow> gstring" where
  "fmt_field f = fmt_fields [(''ClassCode'', pf_class f), (''FamilyCode'', pf_family f), (''TypeCode'', pf_type f),
     (''AttributeCode'', pf_attribute f), (''Position'', show_int (pf_position f)), (''Active'', fmt_bool (pf_active f))]"

definition fmt_unit :: "unit_definition \<Rightarrow> gstring" where
  "fmt_unit u = fmt_fields [(''Code'', ud_code u), (''Name'', ud_name u), (''Symbol'', ud_symbol u), (''Dimension'', ud_dimension u),
     (''Active'', fmt_bool (ud_active u))]"

definition fmt_policy :: "resource_unit_policy \<Rightarrow> gstring" where
  "fmt_policy p = fmt_fields [(''ClassCode'', up_class p), (''FamilyCode'', up_family p), (''UnitCode'', up_unit p),
     (''Allowed'', fmt_bool (up_allowed p)), (''Suggested'', fmt_bool (up_suggested p)), (''Active'', fmt_bool (up_active p))]"

definition fmt_definition :: "attribute_definition \<Rightarrow> gstring" where
  "fmt_definition d = fmt_fields [(''Code'', ad_code d), (''Name'', ad_name d), (''ValueType'', ad_value_type d),
     (''Dimension'', ad_dimension d), (''DefaultIdentityParticipates'', fmt_bool (ad_default_identity d)),
     (''Active'', fmt_bool (ad_active d))]"

definition fmt_rule :: "attribute_rule \<Rightarrow> gstring" where
  "fmt_rule r = fmt_fields [(''When'', fmt_fields [(''AttributeCode'', when_attribute (ar_when r)), (''Equals'', when_equals (ar_when r))]),
     (''Mode'', ar_mode r), (''IdentityParticipates'', fmt_bool (ar_identity r)),
     (''NotApplicable'', fmt_bool (ar_not_applicable r)), (''Active'', fmt_bool (ar_active r))]"

definition fmt_attribute :: "resource_attribute \<Rightarrow> gstring" where
  "fmt_attribute a = fmt_fields [(''ClassCode'', ra_class a), (''FamilyCode'', ra_family a), (''TypeCode'', ra_type a),
     (''OptionSet'', ra_option_set a), (''Definition'', fmt_definition (ra_definition a)), (''Mode'', ra_mode a),
     (''IdentityParticipates'', fmt_bool (ra_identity a)), (''Rules'', fmt_list (map fmt_rule (ra_rules a))),
     (''Active'', fmt_bool (ra_active a))]"

definition fmt_option :: "attribute_option \<Rightarrow> gstring" where
  "fmt_option x = fmt_fields [(''OptionSet'', ao_set x), (''AttributeCode'', ao_attribute x), (''Code'', ao_code x),
     (''Label'', ao_label x), (''Active'', fmt_bool (ao_active x))]"

definition fmt_relation :: "attribute_option_relation \<Rightarrow> gstring" where
  "fmt_relation x = fmt_fields [(''OptionSet'', rel_set x), (''FromAttribute'', rel_from_attribute x), (''FromOption'', rel_from_option x),
     (''ToAttribute'', rel_to_attribute x), (''ToOption'', rel_to_option x), (''Active'', fmt_bool (rel_active x))]"

definition fmt_option_set :: "resource_option_set \<Rightarrow> gstring" where
  "fmt_option_set s = fmt_fields [(''Code'', os_code s), (''Name'', os_name s), (''Active'', fmt_bool (os_active s))]"

definition sortedByContentV2 :: "('a \<Rightarrow> gstring) \<Rightarrow> 'a list \<Rightarrow> 'a list" where
  "sortedByContentV2 fmt items = sort_key fmt items"

definition canonicalOrderV2 :: "resource_catalog \<Rightarrow> resource_catalog" where
  "canonicalOrderV2 c = \<lparr>cat_classes = sortedByContentV2 fmt_class (cat_classes c),
     cat_families = sortedByContentV2 fmt_family (cat_families c), cat_types = sortedByContentV2 fmt_type (cat_types c),
     cat_presentation = sortedByContentV2 fmt_field (cat_presentation c), cat_units = sortedByContentV2 fmt_unit (cat_units c),
     cat_unit_policies = sortedByContentV2 fmt_policy (cat_unit_policies c),
     cat_definitions = sortedByContentV2 fmt_definition (cat_definitions c),
     cat_attributes = sortedByContentV2 fmt_attribute (cat_attributes c), cat_options = sortedByContentV2 fmt_option (cat_options c),
     cat_relations = sortedByContentV2 fmt_relation (cat_relations c),
     cat_option_sets = sortedByContentV2 fmt_option_set (cat_option_sets c)\<rparr>"

section \<open>The protocol\<close>

definition runV2CoherentTx ::
  "sql_faults \<Rightarrow> bool \<Rightarrow> (gstring \<Rightarrow> gstring) \<Rightarrow> catalog_mutation catalog_sql \<Rightarrow> (int \<times> revision) catalog_sql
     \<Rightarrow> (int \<times> revision \<times> resource_catalog) catalog_sql" where
  "runV2CoherentTx F applied coll buildMutation apply =
     transact F ''begin catalog v2 transaction'' (wrap_read ''commit catalog v2 transaction'') applied undo_tables
      (bnd buildMutation (\<lambda>mutation.
       bnd (map_err (wrap_read ''load catalog before v2 write'') (loadResourceCatalogTx F coll 0)) (\<lambda>base.
       bnd apply (\<lambda>(i, revision).
       bnd (lift (apply_mutation base mutation)) (\<lambda>expected.
       bnd (map_err (wrap_read ''reload catalog after v2 write'') (loadResourceCatalogTx F coll 1)) (\<lambda>after.
       bnd (require (validate_catalog after)) (\<lambda>_.
       bnd (require (if EquivalentResourceCatalogs (canonicalOrderV2 after) (canonicalOrderV2 expected)
                     then None else Some errCatalogCandidateMismatchV2)) (\<lambda>_.
       ret (i, revision, after)))))))))"

definition insertMutationV2 :: "catalog_record \<Rightarrow> catalog_mutation catalog_sql" where
  "insertMutationV2 r = ret \<lparr>mut_op = OpInsert, mut_record = r, mut_replacement = None\<rparr>"

definition updateMutationV2 ::
  "sql_faults \<Rightarrow> pattern_match \<Rightarrow> (gstring \<Rightarrow> gstring) \<Rightarrow> catalog_record \<Rightarrow> catalog_mutation catalog_sql" where
  "updateMutationV2 F ilike coll r = with_kind F ilike coll (rec_kind r) (\<lambda>h.
     bnd (kh_get h (rec_id r)) (\<lambda>current.
     ret \<lparr>mut_op = OpUpdate, mut_record = current, mut_replacement = Some r\<rparr>))"

definition lifecycleMutationV2 ::
  "sql_faults \<Rightarrow> pattern_match \<Rightarrow> (gstring \<Rightarrow> gstring) \<Rightarrow> gstring \<Rightarrow> int \<Rightarrow> 8 word \<Rightarrow> catalog_mutation catalog_sql" where
  "lifecycleMutationV2 F ilike coll kind i mop = with_kind F ilike coll kind (\<lambda>h.
     bnd (kh_get h i) (\<lambda>current. ret \<lparr>mut_op = mop, mut_record = current, mut_replacement = None\<rparr>))"

section \<open>Dispatch\<close>

record write_handlers =
  wh_insert :: "(catalog_record \<Rightarrow> (int \<times> revision) catalog_sql) option"
  wh_update :: "(catalog_record \<Rightarrow> revision \<Rightarrow> revision catalog_sql) option"
  wh_set_active :: "int \<Rightarrow> bool \<Rightarrow> revision \<Rightarrow> revision catalog_sql"
  wh_del :: "int \<Rightarrow> revision \<Rightarrow> unit catalog_sql"

definition kindTablesV2 :: "sql_faults \<Rightarrow> (gstring, write_handlers) gmap" where
  "kindTablesV2 F =
    [(KindClass, \<lparr>wh_insert = Some (insertClassV2 F), wh_update = Some (updateClassV2 F),
       wh_set_active = simpleSetActiveV2 F tb_classes_update tb_classes,
       wh_del = simpleDeleteV2 F (remove_rows tb_classes_update) tb_classes\<rparr>),
     (KindFamily, \<lparr>wh_insert = Some (insertFamilyV2 F), wh_update = Some (updateFamilyV2 F),
       wh_set_active = simpleSetActiveV2 F tb_families_update tb_families,
       wh_del = simpleDeleteV2 F (remove_rows tb_families_update) tb_families\<rparr>),
     (KindType, \<lparr>wh_insert = Some (insertTypeV2 F), wh_update = Some (updateTypeV2 F),
       wh_set_active = simpleSetActiveV2 F tb_types_update tb_types,
       wh_del = simpleDeleteV2 F (remove_rows tb_types_update) tb_types\<rparr>),
     (KindAttributeDefinition, \<lparr>wh_insert = Some (insertDefinitionV2 F), wh_update = Some (updateDefinitionV2 F),
       wh_set_active = simpleSetActiveV2 F tb_definitions_update tb_definitions,
       wh_del = simpleDeleteV2 F (remove_rows tb_definitions_update) tb_definitions\<rparr>),
     (KindOptionSet, \<lparr>wh_insert = Some (insertOptionSetV2 F), wh_update = Some (updateOptionSetV2 F),
       wh_set_active = simpleSetActiveV2 F tb_option_sets_update tb_option_sets,
       wh_del = simpleDeleteV2 F (remove_rows tb_option_sets_update) tb_option_sets\<rparr>),
     (KindOption, \<lparr>wh_insert = Some (insertOptionV2 F), wh_update = Some (updateOptionV2 F),
       wh_set_active = simpleSetActiveV2 F tb_options_update tb_options,
       wh_del = simpleDeleteV2 F (remove_rows tb_options_update) tb_options\<rparr>),
     (KindOptionRelation, \<lparr>wh_insert = Some (insertOptionRelationV2 F), wh_update = Some (updateOptionRelationV2 F),
       wh_set_active = simpleSetActiveV2 F tb_relations_update tb_relations,
       wh_del = simpleDeleteV2 F (remove_rows tb_relations_update) tb_relations\<rparr>),
     (KindUnit, \<lparr>wh_insert = Some (insertUnitV2 F), wh_update = Some (updateUnitV2 F),
       wh_set_active = simpleSetActiveV2 F tb_units_update tb_units,
       wh_del = simpleDeleteV2 F (remove_rows tb_units_update) tb_units\<rparr>),
     (KindUnitPolicy, \<lparr>wh_insert = Some (insertUnitPolicyV2 F), wh_update = Some (updateUnitPolicyV2 F),
       wh_set_active = simpleSetActiveV2 F tb_policies_update tb_policies,
       wh_del = simpleDeleteV2 F (remove_rows tb_policies_update) tb_policies\<rparr>),
     (KindAttributeBinding, \<lparr>wh_insert = None, wh_update = None,
       wh_set_active = simpleSetActiveV2 F tb_attributes_update tb_attributes,
       wh_del = simpleDeleteV2 F remove_attributes tb_attributes\<rparr>),
     (KindPresentationField, \<lparr>wh_insert = Some (insertPresentationFieldV2 F), wh_update = Some (updatePresentationFieldV2 F),
       wh_set_active = simpleSetActiveV2 F tb_fields_update tb_fields,
       wh_del = simpleDeleteV2 F (remove_rows tb_fields_update) tb_fields\<rparr>)]"

definition write_result :: "catalog_record \<Rightarrow> (int \<times> revision \<times> resource_catalog) catalog_sql \<Rightarrow> catalog_write_result catalog_sql" where
  "write_result r m = bnd m (\<lambda>(i, revision, catalog).
     ret \<lparr>wr_record = Some (r\<lparr>rec_id := i, rec_revision := revision\<rparr>), wr_catalog = catalog\<rparr>)"

definition requireApplicabilityRules :: "catalog_record \<Rightarrow> go_error option" where
  "requireApplicabilityRules r = (if rec_rules r = None then Some errApplicabilityRulesOmitted else None)"

definition insertApplicabilityAggregateV2 ::
  "sql_faults \<Rightarrow> bool \<Rightarrow> (gstring \<Rightarrow> gstring) \<Rightarrow> catalog_record \<Rightarrow> catalog_write_result catalog_sql" where
  "insertApplicabilityAggregateV2 F applied coll r = bnd (require (requireApplicabilityRules r)) (\<lambda>_.
     write_result r (runV2CoherentTx F applied coll (insertMutationV2 r) (insert_applicability F r)))"

definition updateApplicabilityAggregateV2 ::
  "sql_faults \<Rightarrow> bool \<Rightarrow> pattern_match \<Rightarrow> (gstring \<Rightarrow> gstring) \<Rightarrow> catalog_record \<Rightarrow> revision \<Rightarrow> catalog_write_result catalog_sql" where
  "updateApplicabilityAggregateV2 F applied ilike coll r expectedRevision = bnd (require (requireApplicabilityRules r)) (\<lambda>_.
     write_result r (runV2CoherentTx F applied coll (updateMutationV2 F ilike coll r)
       (bnd (update_applicability F r expectedRevision) (\<lambda>revision. ret (rec_id r, revision)))))"

definition InsertV2 ::
  "sql_faults \<Rightarrow> bool \<Rightarrow> (gstring \<Rightarrow> gstring) \<Rightarrow> catalog_record \<Rightarrow> catalog_write_result catalog_sql" where
  "InsertV2 F applied coll r =
     (if rec_kind r = KindAttributeBinding then insertApplicabilityAggregateV2 F applied coll r
      else (case Option.bind (map_of (kindTablesV2 F) (rec_kind r)) wh_insert of
          None \<Rightarrow> fail (kind_unknown (rec_kind r))
        | Some ins \<Rightarrow> write_result r (runV2CoherentTx F applied coll (insertMutationV2 r) (ins r))))"

definition UpdateV2 ::
  "sql_faults \<Rightarrow> bool \<Rightarrow> pattern_match \<Rightarrow> (gstring \<Rightarrow> gstring) \<Rightarrow> catalog_record \<Rightarrow> revision \<Rightarrow> catalog_write_result catalog_sql" where
  "UpdateV2 F applied ilike coll r expectedRevision =
     (if rec_kind r = KindAttributeBinding then updateApplicabilityAggregateV2 F applied ilike coll r expectedRevision
      else (case Option.bind (map_of (kindTablesV2 F) (rec_kind r)) wh_update of
          None \<Rightarrow> fail (kind_unknown (rec_kind r))
        | Some update \<Rightarrow> write_result r (runV2CoherentTx F applied coll (updateMutationV2 F ilike coll r)
            (bnd (update r expectedRevision) (\<lambda>revision. ret (rec_id r, revision))))))"

definition SetActiveV2 ::
  "sql_faults \<Rightarrow> bool \<Rightarrow> pattern_match \<Rightarrow> (gstring \<Rightarrow> gstring) \<Rightarrow> gstring \<Rightarrow> int \<Rightarrow> bool \<Rightarrow> revision \<Rightarrow> catalog_write_result catalog_sql" where
  "SetActiveV2 F applied ilike coll kind i active expectedRevision =
     (case map_of (kindTablesV2 F) kind of
        None \<Rightarrow> fail (kind_unknown kind)
      | Some h \<Rightarrow> write_result \<lparr>rec_kind = kind, rec_id = i, rec_revision = 0, rec_active = active, rec_values = [], rec_rules = None\<rparr>
          (runV2CoherentTx F applied coll (lifecycleMutationV2 F ilike coll kind i (if active then OpReactivate else OpDeactivate))
            (bnd (wh_set_active h i active expectedRevision) (\<lambda>revision. ret (i, revision)))))"

definition DeleteV2 ::
  "sql_faults \<Rightarrow> bool \<Rightarrow> pattern_match \<Rightarrow> (gstring \<Rightarrow> gstring) \<Rightarrow> gstring \<Rightarrow> int \<Rightarrow> revision \<Rightarrow> catalog_write_result catalog_sql" where
  "DeleteV2 F applied ilike coll kind i expectedRevision =
     (case map_of (kindTablesV2 F) kind of
        None \<Rightarrow> fail (kind_unknown kind)
      | Some h \<Rightarrow> bnd (runV2CoherentTx F applied coll (lifecycleMutationV2 F ilike coll kind i OpDelete)
            (bnd (wh_del h i expectedRevision) (\<lambda>_. ret (0, 0)))) (\<lambda>(_, _, catalog).
          ret \<lparr>wr_record = None, wr_catalog = catalog\<rparr>))"

definition catalogAdminRepositoryV2 ::
  "sql_faults \<Rightarrow> bool \<Rightarrow> pattern_match \<Rightarrow> (gstring \<Rightarrow> gstring) \<Rightarrow> catalog_db catalog_repo_v2" where
  "catalogAdminRepositoryV2 F applied ilike coll = \<lparr>v2_insert = InsertV2 F applied coll,
     v2_update = UpdateV2 F applied ilike coll, v2_set_active = SetActiveV2 F applied ilike coll,
     v2_delete = DeleteV2 F applied ilike coll\<rparr>"

end
