(* ===== verification/CatalogStoreInvariant.thy ===== *)
theory CatalogStoreInvariant
  imports CatalogStoreV2
begin

text \<open>
  What every statement of the catalogue repositories keeps. A relation between the tables is kept by an
  operation when each of its statements keeps it (\<open>steps_in\<close>); the relation of this theory is that the
  constraints hold. The second half reads the constraints off \<open>tables_ok\<close> and shows that the loader loses
  no row and finds no dangling reference.
\<close>

section \<open>Statements keep the constraints\<close>

named_theorems kept \<open>steps of the catalogue repositories\<close>

lemma violation_sequences [simp]: "violation (db\<lparr>tb_sequences := q\<rparr>) = violation db"
  by (simp add: violation_def constraints_def class_constraints_def option_set_constraints_def family_constraints_def
      type_constraints_def unit_constraints_def policy_constraints_def definition_constraints_def option_constraints_def
      relation_constraints_def attribute_constraints_def rule_constraints_def field_constraints_def
      resource_constraints_def value_constraints_def Let_def)

lemma undo_tables_ok [simp]: "tables_ok (undo_tables db t) = tables_ok db"
  by (simp add: tables_ok_def undo_tables_def)

lemma enforce_ok: "tables_ok db \<Longrightarrow> tables_ok (snd (enforce db x t))"
  by (auto simp: enforce_def tables_ok_def undo_tables_def split: option.split)

lemma enforce_Inr: "enforce db x t = (Inr y, u) \<longleftrightarrow> violation t = None \<and> y = x \<and> u = t"
  by (auto simp: enforce_def split: option.splits)

lemma sql_insert_ok [kept]: "steps_in tables_ok (sql_insert table upd build)"
  by (auto simp: steps_in_def sql_insert_def Let_def enforce_ok split: option.split)

lemma sql_update_ok [kept]: "steps_in tables_ok (sql_update sel upd match f)"
  by (simp add: steps_in_def sql_update_def enforce_ok)

lemma sql_update_at_ok [kept]: "steps_in tables_ok (\<lambda>db. sql_update sel upd (match db) (f db) db)"
  by (simp add: steps_in_def sql_update_def enforce_ok)

lemma sql_delete_ok [kept]: "steps_in tables_ok (sql_delete sel remove match)"
  by (simp add: steps_in_def sql_delete_def enforce_ok)

lemma sql_bump_ok [kept]: "steps_in tables_ok (sql_bump sel upd match f)"
  by (auto simp: steps_in_def sql_bump_def enforce_ok split: list.split)

lemma sql_bump_at_ok [kept]: "steps_in tables_ok (\<lambda>db. sql_bump sel upd (match db) (f db) db)"
  using sql_bump_ok unfolding steps_in_def by blast

lemma bind_bigint_steps [intro!]: "steps_in I act \<Longrightarrow> steps_in I (bind_bigint v act)"
  by (simp add: bind_bigint_def)

lemma with_definitions_steps [kept]:
  assumes "\<And>fd td. steps_in tables_ok (run fd td)"
  shows "steps_in tables_ok (with_definitions r match run nothing)"
  using assms unfolding steps_in_def with_definitions_def by (auto split: option.split)

section \<open>Operations keep them\<close>

lemma read_steps [kept, intro!]:
  "steps_in I (read_row F l missing sel)" "steps_in I (read_exists F l p)" "steps_in I (read_table F k t q)"
  by (auto simp: read_row_def read_exists_def read_table_def)

lemma requireRow_steps [kept, intro!]: "steps_in I (requireRow n)"
  by (simp add: requireRow_def)

lemma row_write_steps [intro!]:
  "steps_in I act \<Longrightarrow> steps_in I (write_row F l missing act)"
  "steps_in I exec \<Longrightarrow> steps_in I (exec_row F l exec)"
  "steps_in I exec \<Longrightarrow> steps_in I (delete_row F l exec)"
  by (auto simp: write_row_def exec_row_def delete_row_def)

lemma steps_in_Pair [intro, simp]: "steps_in I (Pair r)"
  by (simp add: steps_in_def)

lemma prod_steps [intro!]: "(\<And>a b. steps_in I (f a b)) \<Longrightarrow> steps_in I (case p of (a, b) \<Rightarrow> f a b)"
  by (simp add: split_def)

lemma resolve_steps [kept, intro!]:
  "steps_in I (resolveClassID F c)" "steps_in I (resolveFamilyID F c f)" "steps_in I (resolveTypeID F c f t)"
  "steps_in I (resolveDefinitionID F c)" "steps_in I (resolveOptionalTypeID F c f t i)" "steps_in I (resolve_binding_refs F r)"
  "steps_in I (resolve_option F i)" "steps_in I (resolve_policy F i)" "steps_in I (resolve_field F i)"
  by (auto simp: resolveClassID_def resolveFamilyID_def resolveTypeID_def resolveDefinitionID_def resolveOptionalTypeID_def
      resolve_binding_refs_def resolve_option_def resolve_policy_def resolve_field_def)

lemma referenced_steps [kept, intro!]:
  "steps_in I (classReferencedByResources F i)" "steps_in I (familyReferencedByResources F i)"
  "steps_in I (typeReferencedByResources F i)" "steps_in I (definitionReferencedByResources F i)"
  "steps_in I (optionSetReferencedByResources F i)" "steps_in I (optionReferencedByResources F i)"
  "steps_in I (unitReferencedByResources F i)"
  by (auto simp: classReferencedByResources_def familyReferencedByResources_def typeReferencedByResources_def
      definitionReferencedByResources_def optionSetReferencedByResources_def optionReferencedByResources_def
      unitReferencedByResources_def)

lemma legacy_inserts [kept]:
  "steps_in tables_ok (insertClass F r)" "steps_in tables_ok (insertFamily F r)" "steps_in tables_ok (insertType F r)"
  "steps_in tables_ok (insertDefinition F r)" "steps_in tables_ok (insertOptionSet F r)" "steps_in tables_ok (insertOption F r)"
  "steps_in tables_ok (insertOptionRelation F r)" "steps_in tables_ok (insertUnit F r)" "steps_in tables_ok (insertUnitPolicy F r)"
  "steps_in tables_ok (insertAttributeBinding F r)" "steps_in tables_ok (insertPresentationField F r)"
  by (auto simp: kept insertClass_def insertFamily_def insertType_def insertDefinition_def insertOptionSet_def insertOption_def
      insertOptionRelation_def insertUnit_def insertUnitPolicy_def insertAttributeBinding_def insertPresentationField_def)

lemma legacy_updates [kept]:
  "steps_in tables_ok (updateClass F r)" "steps_in tables_ok (updateFamily F r)" "steps_in tables_ok (updateType F r)"
  "steps_in tables_ok (updateDefinition F r)" "steps_in tables_ok (updateOptionSet F r)" "steps_in tables_ok (updateOption F r)"
  "steps_in tables_ok (updateOptionRelation F r)" "steps_in tables_ok (updateUnit F r)" "steps_in tables_ok (updateUnitPolicy F r)"
  "steps_in tables_ok (updateAttributeBinding F r)" "steps_in tables_ok (updatePresentationField F r)"
  by (auto simp: kept updateClass_def updateFamily_def updateType_def updateDefinition_def updateOptionSet_def updateOption_def
      updateOptionRelation_def updateUnit_def updateUnitPolicy_def updateAttributeBinding_def updatePresentationField_def)

lemma legacy_flags [kept]:
  "steps_in tables_ok (simpleSetActive F t upd sel i active)" "steps_in tables_ok (simpleDelete F t remove sel i)"
  "steps_in tables_ok (setActiveOptionSet F i active)" "steps_in tables_ok (deleteOptionSet F i)"
  "steps_in tables_ok (setActiveOption F i active)" "steps_in tables_ok (deleteOption F i)"
  "steps_in tables_ok (setActiveUnitPolicy F i active)" "steps_in tables_ok (deleteUnitPolicy F i)"
  "steps_in tables_ok (setActivePresentationField F i active)" "steps_in tables_ok (deletePresentationField F i)"
  by (auto simp: kept simpleSetActive_def simpleDelete_def setActiveOptionSet_def deleteOptionSet_def setActiveOption_def
      deleteOption_def setActiveUnitPolicy_def deleteUnitPolicy_def setActivePresentationField_def deletePresentationField_def)

lemma cas_steps [intro!]:
  "steps_in I update \<Longrightarrow> steps_in I (casUpdateRevision F update sel i er)"
  "steps_in I delete \<Longrightarrow> steps_in I (casDeleteRevision F delete sel i er)"
  by (auto simp: casUpdateRevision_def casDeleteRevision_def stale_or_absent_def split: sum.split db_error.split)

lemma v2_inserts [kept]:
  "steps_in tables_ok (insertClassV2 F r)" "steps_in tables_ok (insertFamilyV2 F r)" "steps_in tables_ok (insertTypeV2 F r)"
  "steps_in tables_ok (insertDefinitionV2 F r)" "steps_in tables_ok (insertOptionSetV2 F r)" "steps_in tables_ok (insertOptionV2 F r)"
  "steps_in tables_ok (insertOptionRelationV2 F r)" "steps_in tables_ok (insertUnitV2 F r)" "steps_in tables_ok (insertUnitPolicyV2 F r)"
  "steps_in tables_ok (insertApplicabilityParentV2 F r)" "steps_in tables_ok (insertPresentationFieldV2 F r)"
  by (auto simp: kept with_first_revision_def insertClassV2_def insertFamilyV2_def insertTypeV2_def insertDefinitionV2_def
      insertOptionSetV2_def insertOptionV2_def insertOptionRelationV2_def insertUnitV2_def insertUnitPolicyV2_def
      insertApplicabilityParentV2_def insertPresentationFieldV2_def)

lemma v2_updates [kept]:
  "steps_in tables_ok (updateClassV2 F r er)" "steps_in tables_ok (updateFamilyV2 F r er)" "steps_in tables_ok (updateTypeV2 F r er)"
  "steps_in tables_ok (updateDefinitionV2 F r er)" "steps_in tables_ok (updateOptionSetV2 F r er)" "steps_in tables_ok (updateOptionV2 F r er)"
  "steps_in tables_ok (updateOptionRelationV2 F r er)" "steps_in tables_ok (updateUnitV2 F r er)" "steps_in tables_ok (updateUnitPolicyV2 F r er)"
  "steps_in tables_ok (updateApplicabilityParentV2 F r er)" "steps_in tables_ok (updatePresentationFieldV2 F r er)"
  "steps_in tables_ok (simpleSetActiveV2 F upd sel i active er)" "steps_in tables_ok (simpleDeleteV2 F remove sel i er)"
  by (auto simp: kept Let_def updateClassV2_def updateFamilyV2_def updateTypeV2_def updateDefinitionV2_def
      updateOptionSetV2_def updateOptionV2_def updateOptionRelationV2_def updateUnitV2_def updateUnitPolicyV2_def
      updateApplicabilityParentV2_def updatePresentationFieldV2_def simpleSetActiveV2_def simpleDeleteV2_def stale_or_absent_def
      split: sum.split db_error.split)

lemma rules_from_steps [kept]: "steps_in tables_ok (insert_rules_from F i order rules)"
  by (induction F i order rules rule: insert_rules_from.induct) (auto simp: insert_rule_def kept)

lemma applicability_steps [kept]:
  "steps_in tables_ok (insert_applicability F r)" "steps_in tables_ok (update_applicability F r er)"
  by (auto simp: insert_applicability_def update_applicability_def insertApplicabilityRulesV2_def replaceApplicabilityRulesV2_def
      kept)


lemma get_steps [kept, intro!]:
  "steps_in I (getClass F i)" "steps_in I (getFamily F i)" "steps_in I (getType F i)" "steps_in I (getDefinition F i)"
  "steps_in I (getOptionSet F i)" "steps_in I (getOption F i)" "steps_in I (getOptionRelation F i)" "steps_in I (getUnit F i)"
  "steps_in I (getUnitPolicy F i)" "steps_in I (getAttributeBinding F i)" "steps_in I (getPresentationField F i)"
  by (auto simp: getClass_def getFamily_def getType_def getDefinition_def getOptionSet_def getOption_def getOptionRelation_def
      getUnit_def getUnitPolicy_def getAttributeBinding_def getPresentationField_def)

lemma load_steps [kept, intro!]: "steps_in I (loadResourceCatalogTx F coll k)"
  by (auto simp: loadResourceCatalogTx_def)

text \<open>The handlers of a kind, as the dispatch tables hold them.\<close>

lemma kind_handlers_steps:
  assumes "map_of (kindTables F ilike coll) kind = Some h"
  shows "steps_in I (kh_get h i)" "steps_in tables_ok (kh_insert h r)" "steps_in tables_ok (kh_update h r)"
    "steps_in tables_ok (kh_set_active h i active)" "steps_in tables_ok (kh_del h i)"
proof -
  have "(kind, h) \<in> set (kindTables F ilike coll)" using assms by (rule map_of_SomeD)
  then show "steps_in I (kh_get h i)" "steps_in tables_ok (kh_insert h r)" "steps_in tables_ok (kh_update h r)"
      "steps_in tables_ok (kh_set_active h i active)" "steps_in tables_ok (kh_del h i)"
    unfolding kindTables_def by (auto simp: kept)
qed

lemma write_handlers_steps:
  assumes "map_of (kindTablesV2 F) kind = Some h"
  shows "wh_insert h = Some ins \<Longrightarrow> steps_in tables_ok (ins r)" "wh_update h = Some upd \<Longrightarrow> steps_in tables_ok (upd r er)"
    "steps_in tables_ok (wh_set_active h i active er)" "steps_in tables_ok (wh_del h i er)"
proof -
  have h: "(kind, h) \<in> set (kindTablesV2 F)" using assms by (rule map_of_SomeD)
  show "wh_insert h = Some ins \<Longrightarrow> steps_in tables_ok (ins r)" "wh_update h = Some upd \<Longrightarrow> steps_in tables_ok (upd r er)"
      "steps_in tables_ok (wh_set_active h i active er)" "steps_in tables_ok (wh_del h i er)"
    using h unfolding kindTablesV2_def by (auto simp: kept)
qed

lemma with_kind_steps:
  assumes "\<And>h. map_of (kindTables F ilike coll) kind = Some h \<Longrightarrow> steps_in I (run h)"
  shows "steps_in I (with_kind F ilike coll kind run)"
  using assms by (simp add: with_kind_def split: option.split)

lemma mutation_steps [intro!]:
  "steps_in I (insertMutationV2 r)" "steps_in I (updateMutationV2 F ilike coll r)"
  "steps_in I (lifecycleMutationV2 F ilike coll kind i mop)"
  by (auto simp: insertMutationV2_def updateMutationV2_def lifecycleMutationV2_def intro!: with_kind_steps kind_handlers_steps(1))

lemma transact_tables_ok: "steps_in tables_ok body \<Longrightarrow> steps_in tables_ok (transact F b c applied undo_tables body)"
  by (rule steps_in_transact) simp_all

lemma coherent_steps:
  assumes "steps_in tables_ok m" "steps_in tables_ok apply"
  shows "steps_in tables_ok (runV2CoherentTx F applied coll m apply)"
  unfolding runV2CoherentTx_def using assms by (auto intro!: transact_tables_ok)

lemma write_result_steps [intro!]: "steps_in I m \<Longrightarrow> steps_in I (write_result r m)"
  by (auto simp: write_result_def)

section \<open>Calls\<close>

text \<open>Every write of the two repositories, under any fault.\<close>

datatype (plugins only: code size) store_call =
    LegacyInsert catalog_record
  | LegacyUpdate catalog_record
  | LegacySetActive gstring int bool
  | LegacyDelete gstring int
  | RevisionInsert catalog_record
  | RevisionUpdate catalog_record revision
  | RevisionSetActive gstring int bool revision
  | RevisionDelete gstring int revision

fun run_store :: "sql_faults \<Rightarrow> bool \<Rightarrow> pattern_match \<Rightarrow> (gstring \<Rightarrow> gstring) \<Rightarrow> store_call \<Rightarrow> unit catalog_sql" where
  "run_store F applied ilike coll (LegacyInsert r) = discard (repo_insert F applied ilike coll r)"
| "run_store F applied ilike coll (LegacyUpdate r) = repo_update F applied ilike coll r"
| "run_store F applied ilike coll (LegacySetActive kind i active) = repo_set_active F applied ilike coll kind i active"
| "run_store F applied ilike coll (LegacyDelete kind i) = repo_delete F applied ilike coll kind i"
| "run_store F applied ilike coll (RevisionInsert r) = discard (InsertV2 F applied coll r)"
| "run_store F applied ilike coll (RevisionUpdate r er) = discard (UpdateV2 F applied ilike coll r er)"
| "run_store F applied ilike coll (RevisionSetActive kind i active er) = discard (SetActiveV2 F applied ilike coll kind i active er)"
| "run_store F applied ilike coll (RevisionDelete kind i er) = discard (DeleteV2 F applied ilike coll kind i er)"

lemma discard_steps: "steps_in I m \<Longrightarrow> steps_in I (discard m)"
  by (auto simp: discard_def)

lemma legacy_steps:
  "steps_in tables_ok (repo_insert F applied ilike coll r)" "steps_in tables_ok (repo_update F applied ilike coll r)"
  "steps_in tables_ok (repo_set_active F applied ilike coll kind i active)" "steps_in tables_ok (repo_delete F applied ilike coll kind i)"
  by (auto simp: repo_insert_def repo_update_def repo_set_active_def repo_delete_def write_tx_def
      intro!: with_kind_steps transact_tables_ok kind_handlers_steps)

lemma insert_v2_steps: "steps_in tables_ok (InsertV2 F applied coll r)"
  by (auto simp: InsertV2_def insertApplicabilityAggregateV2_def kept bind_eq_Some_conv split: option.split
      intro!: coherent_steps intro: write_handlers_steps(1))

lemma update_v2_steps: "steps_in tables_ok (UpdateV2 F applied ilike coll r er)"
  by (auto simp: UpdateV2_def updateApplicabilityAggregateV2_def kept bind_eq_Some_conv split: option.split
      intro!: coherent_steps intro: write_handlers_steps(2))

lemma lifecycle_v2_steps:
  "steps_in tables_ok (SetActiveV2 F applied ilike coll kind i active er)" "steps_in tables_ok (DeleteV2 F applied ilike coll kind i er)"
  by (auto simp: SetActiveV2_def DeleteV2_def split: option.split intro!: coherent_steps intro: write_handlers_steps(3,4))

lemma run_store_steps: "steps_in tables_ok (run_store F applied ilike coll call)"
  by (cases call) (auto intro!: discard_steps legacy_steps insert_v2_steps update_v2_steps lifecycle_v2_steps)

end
