(* ===== verification/CatalogLoadTheorems.thy ===== *)
theory CatalogLoadTheorems
  imports CatalogStoreInvariant
begin

text \<open>
  The catalogue the loader hydrates from a database whose constraints hold: no row is lost in a join, and no
  reference dangles. Together with the invariant of the repositories this holds of every catalogue read from
  a reachable database.
\<close>

section \<open>The catalogue of the tables\<close>

definition loaded :: "(gstring \<Rightarrow> gstring) \<Rightarrow> catalog_db \<Rightarrow> resource_catalog" where
  "loaded coll db = \<lparr>cat_classes = loadClasses coll db, cat_families = loadFamilies db, cat_types = loadTypes db,
     cat_presentation = loadPresentationFields db, cat_units = loadUnits db, cat_unit_policies = loadUnitPolicies db,
     cat_definitions = loadDefinitions db, cat_attributes = loadAttributes (loadAttributeRules db) db,
     cat_options = loadOptions db, cat_relations = loadRelations db, cat_option_sets = loadOptionSets coll db\<rparr>"

lemma read_table_Inr: "read_table F k t q db = (Inr x, u) \<longleftrightarrow> F (''query '' @ t) k = None \<and> x = q db \<and> u = db"
  by (auto simp: read_table_def map_err_run stmt_def asks_def fail_def split: option.splits)

lemma load_Inr:
  assumes "loadResourceCatalogTx F coll k db = (Inr c, u)"
  shows "c = loaded coll db \<and> u = db"
  using assms unfolding loadResourceCatalogTx_def
  by (auto simp: bnd_Inr read_table_Inr loaded_def ret_def)

lemma load_state: "snd (loadResourceCatalogTx F coll k db) = db"
  using load_steps[of "\<lambda>u. u = db" F coll k] unfolding steps_in_def by blast

lemma load_no_faults:
  assumes "\<And>t. F (''query '' @ t) k = None"
  shows "loadResourceCatalogTx F coll k db = (Inr (loaded coll db), db)"
proof -
  have read: "read_table F k t q = asks q" for t and q :: "catalog_db \<Rightarrow> 'a"
    using assms[of t] by (auto simp: read_table_def stmt_def map_err_def asks_def fun_eq_iff)
  show ?thesis unfolding loadResourceCatalogTx_def by (simp add: read loaded_def)
qed

section \<open>What the constraints say\<close>

lemma tables_ok_iff: "tables_ok db \<longleftrightarrow> list_all fst (constraints db)"
proof (cases "find (\<lambda>c. \<not> fst c) (constraints db)")
  case None
  then have "tables_ok db" by (simp add: tables_ok_def violation_def)
  moreover have "list_all fst (constraints db)" using None unfolding find_None_iff list_all_iff by blast
  ultimately show ?thesis by simp
next
  case (Some c)
  then have "c \<in> set (constraints db)" "\<not> fst c" by (auto simp: find_Some_iff)
  then have "\<not> list_all fst (constraints db)" unfolding list_all_iff by blast
  moreover have "\<not> tables_ok db" using Some by (simp add: tables_ok_def violation_def split: prod.split)
  ultimately show ?thesis by simp
qed

lemma tables_ok_parts:
  assumes "tables_ok db"
  shows "list_all fst (class_constraints db)" "list_all fst (option_set_constraints db)" "list_all fst (family_constraints db)"
    "list_all fst (type_constraints db)" "list_all fst (unit_constraints db)" "list_all fst (policy_constraints db)"
    "list_all fst (definition_constraints db)" "list_all fst (option_constraints db)" "list_all fst (relation_constraints db)"
    "list_all fst (attribute_constraints db)" "list_all fst (rule_constraints db)" "list_all fst (field_constraints db)"
    "list_all fst (resource_constraints db)" "list_all fst (value_constraints db)"
  using assms by (simp_all add: tables_ok_iff constraints_def)

lemmas constraint_simps = constraint_defs key_constraint_def revision_constraint_def Let_def

lemma tables_ok_keys:
  assumes "tables_ok db"
  shows "distinct (map row_id (tb_classes db))" "distinct (map row_id (tb_families db))" "distinct (map row_id (tb_types db))"
    "distinct (map row_id (tb_units db))" "distinct (map row_id (tb_definitions db))" "distinct (map st_code (tb_option_sets db))"
    "distinct (map option_key (tb_options db))" "distinct (map row_id (tb_attributes db))"
  using tables_ok_parts[OF assms]
  by (simp_all add: class_constraints_def family_constraints_def type_constraints_def unit_constraints_def
      definition_constraints_def option_set_constraints_def option_constraints_def attribute_constraints_def constraint_simps)

lemma foreign_rows_iff: "fst (foreign_rows rows name key keys) \<longleftrightarrow> (\<forall>r\<in>set rows. key r \<in> set keys)"
  by (simp add: foreign_rows_def list_all_iff)

lemma family_refs:
  assumes "tables_ok db"
  shows "\<forall>f\<in>set (tb_families db). fa_class f \<in> row_id ` set (tb_classes db)"
  using tables_ok_parts(3)[OF assms] unfolding family_constraints_def Let_def list.pred_inject foreign_rows_iff set_map by blast+

lemma type_refs:
  assumes "tables_ok db"
  shows "\<forall>t\<in>set (tb_types db). (ty_family t, ty_class t) \<in> (\<lambda>f. (row_id f, fa_class f)) ` set (tb_families db)"
  using tables_ok_parts(4)[OF assms] unfolding type_constraints_def Let_def list.pred_inject foreign_rows_iff set_map by blast+

lemma policy_refs:
  assumes "tables_ok db"
  shows "\<forall>p\<in>set (tb_policies db). po_family p \<in> row_id ` set (tb_families db)"
    "\<forall>p\<in>set (tb_policies db). po_unit p \<in> row_id ` set (tb_units db)"
  using tables_ok_parts(6)[OF assms] unfolding policy_constraints_def Let_def list.pred_inject foreign_rows_iff set_map by blast+

lemma option_refs:
  assumes "tables_ok db"
  shows "\<forall>x\<in>set (tb_options db). op_set x \<in> st_code ` set (tb_option_sets db)"
    "\<forall>x\<in>set (tb_options db). op_definition x \<in> row_id ` set (tb_definitions db)"
  using tables_ok_parts(8)[OF assms] unfolding option_constraints_def Let_def list.pred_inject foreign_rows_iff set_map by blast+

lemma relation_refs:
  assumes "tables_ok db"
  shows "\<forall>x\<in>set (tb_relations db). (re_set x, re_from_definition x, re_from_option x) \<in> option_key ` set (tb_options db)"
    "\<forall>x\<in>set (tb_relations db). (re_set x, re_to_definition x, re_to_option x) \<in> option_key ` set (tb_options db)"
  using tables_ok_parts(9)[OF assms] unfolding relation_constraints_def Let_def list.pred_inject foreign_rows_iff set_map by blast+

lemma attribute_refs:
  assumes "tables_ok db"
  shows "\<forall>a\<in>set (tb_attributes db). at_definition a \<in> row_id ` set (tb_definitions db)"
    "\<forall>a\<in>set (tb_attributes db). at_set a \<in> st_code ` set (tb_option_sets db)"
    "\<forall>a\<in>set (tb_attributes db). (at_family a, at_class a) \<in> (\<lambda>f. (row_id f, fa_class f)) ` set (tb_families db)"
    "\<forall>a\<in>set (filter (\<lambda>r. at_type r \<noteq> None) (tb_attributes db)).
       (at_type a, at_family a) \<in> (\<lambda>t. (Some (row_id t), ty_family t)) ` set (tb_types db)"
  using tables_ok_parts(10)[OF assms] unfolding attribute_constraints_def Let_def list.pred_inject foreign_rows_iff set_map by blast+

lemma rule_refs:
  assumes "tables_ok db"
  shows "\<forall>r\<in>set (tb_rules db). ru_when r \<in> row_id ` set (tb_definitions db)"
  using tables_ok_parts(11)[OF assms] unfolding rule_constraints_def Let_def list.pred_inject foreign_rows_iff set_map by blast+

lemma field_refs:
  assumes "tables_ok db"
  shows "\<forall>x\<in>set (tb_fields db). fi_type x \<in> row_id ` set (tb_types db)"
    "\<forall>x\<in>set (tb_fields db). fi_definition x \<in> row_id ` set (tb_definitions db)"
  using tables_ok_parts(12)[OF assms] unfolding field_constraints_def Let_def list.pred_inject foreign_rows_iff set_map by blast+

section \<open>Joins over foreign keys\<close>

text \<open>A key that is unique in a table finds at most one row, a foreign key at least one.\<close>

lemma join_unique:
  assumes "distinct (map key ys)" "y \<in> set ys"
  shows "concat (map (\<lambda>z. if key z = key y then h z else []) ys) = h y"
  using assms
proof (induction ys)
  case (Cons z ys)
  have none: "concat (map (\<lambda>x. if key x = key z then h x else []) ys) = []"
    using Cons.prems(1) by (induction ys) auto
  show ?case
  proof (cases "z = y")
    case True
    with none show ?thesis by simp
  next
    case False
    with Cons show ?thesis by (auto simp: rev_image_eqI)
  qed
qed simp

lemma join_foreign:
  assumes "distinct (map key ys)" "k \<in> key ` set ys"
  shows "\<exists>y\<in>set ys. key y = k \<and> (\<forall>h. concat (map (\<lambda>z. if key z = k then h z else []) ys) = h y)"
  using assms join_unique[of key ys] by blast

lemma join_obtain:
  assumes "distinct (map key ys)" "k \<in> key ` set ys"
  obtains y where "y \<in> set ys" "key y = k"
    "\<And>h :: 'a \<Rightarrow> 'b list. concat (map (\<lambda>z. if key z = k then h z else []) ys) = h y"
  using join_foreign[OF assms] by blast

lemma map_fst_join:
  assumes "\<And>x. x \<in> set xs \<Longrightarrow> \<exists>y. inner x = [(x, y)]"
  shows "map fst (concat (map inner xs)) = xs"
  using assms by (induction xs) force+

text \<open>No join of the loader loses or repeats a row of the table it starts from.\<close>

lemma joined_families:
  assumes "tables_ok db"
  shows "map fst (join_families db) = tb_families db"
  unfolding join_families_def
proof (rule map_fst_join)
  fix f assume "f \<in> set (tb_families db)"
  then have "fa_class f \<in> row_id ` set (tb_classes db)" using family_refs[OF assms] by blast
  from join_foreign[OF tables_ok_keys(1)[OF assms] this]
  show "\<exists>y. concat (map (\<lambda>cl. if row_id cl = fa_class f then [(f, cl)] else []) (tb_classes db)) = [(f, y)]" by auto
qed

lemma type_family:
  assumes "tables_ok db" "t \<in> set (tb_types db)"
  shows "ty_family t \<in> row_id ` set (tb_families db)" "ty_class t \<in> row_id ` set (tb_classes db)"
  using type_refs[OF assms(1)] family_refs[OF assms(1)] assms(2) by (force dest: bspec)+

lemma joined_types:
  assumes "tables_ok db"
  shows "map fst (join_types db) = tb_types db"
  unfolding join_types_def
proof (rule map_fst_join)
  fix t assume t: "t \<in> set (tb_types db)"
  obtain f where f: "\<And>h :: pg_family \<Rightarrow> (pg_type \<times> pg_family \<times> pg_class) list.
      concat (map (\<lambda>z. if row_id z = ty_family t then h z else []) (tb_families db)) = h f"
    by (rule join_obtain[OF tables_ok_keys(2)[OF assms] type_family(1)[OF assms t]], rule that)
  obtain cl where cl: "\<And>h :: pg_class \<Rightarrow> (pg_type \<times> pg_family \<times> pg_class) list.
      concat (map (\<lambda>z. if row_id z = ty_class t then h z else []) (tb_classes db)) = h cl"
    by (rule join_obtain[OF tables_ok_keys(1)[OF assms] type_family(2)[OF assms t]], rule that)
  show "\<exists>y. concat (map (\<lambda>f. if row_id f = ty_family t
          then concat (map (\<lambda>cl. if row_id cl = ty_class t then [(t, f, cl)] else []) (tb_classes db)) else []) (tb_families db))
      = [(t, y)]" by (simp add: f cl)
qed

lemma distinct_joined:
  assumes "map fst js = rows" "distinct (map row_id rows)"
  shows "distinct (map (\<lambda>p. row_id (fst p)) js)" "row_id ` set rows = (\<lambda>p. row_id (fst p)) ` set js"
  using assms(2) unfolding assms(1)[symmetric] set_map image_image map_map comp_def by simp_all

lemma joined_policies:
  assumes "tables_ok db"
  shows "map fst (join_policies db) = tb_policies db"
  unfolding join_policies_def split_def
proof (rule map_fst_join)
  fix p assume p: "p \<in> set (tb_policies db)"
  note families = distinct_joined[OF joined_families[OF assms] tables_ok_keys(2)[OF assms]]
  have "po_family p \<in> (\<lambda>q. row_id (fst q)) ` set (join_families db)" using policy_refs(1)[OF assms] p unfolding families(2)[symmetric] by blast
  note K = this
  obtain f where f: "\<And>h :: pg_family \<times> pg_class \<Rightarrow> (pg_policy \<times> (pg_family \<times> pg_class) \<times> pg_unit) list.
      concat (map (\<lambda>z. if row_id (fst z) = po_family p then h z else []) (join_families db)) = h f"
    by (rule join_obtain[OF families(1) K], rule that)
  obtain u where u: "\<And>h :: pg_unit \<Rightarrow> (pg_policy \<times> (pg_family \<times> pg_class) \<times> pg_unit) list.
      concat (map (\<lambda>z. if row_id z = po_unit p then h z else []) (tb_units db)) = h u"
    by (rule join_obtain[OF tables_ok_keys(4)[OF assms] bspec[OF policy_refs(2)[OF assms] p]], rule that)
  show "\<exists>y. concat (map (\<lambda>q. if row_id (fst q) = po_family p
          then concat (map (\<lambda>u. if row_id u = po_unit p then [(p, (fst q, snd q), u)] else []) (tb_units db)) else [])
        (join_families db)) = [(p, y)]" by (simp add: f u)
qed

lemma joined_fields:
  assumes "tables_ok db"
  shows "map fst (join_fields db) = tb_fields db"
  unfolding join_fields_def split_def
proof (rule map_fst_join)
  fix x assume x: "x \<in> set (tb_fields db)"
  note types = distinct_joined[OF joined_types[OF assms] tables_ok_keys(3)[OF assms]]
  have "fi_type x \<in> (\<lambda>q. row_id (fst q)) ` set (join_types db)" using field_refs(1)[OF assms] x unfolding types(2)[symmetric] by blast
  note K = this
  obtain t where t: "\<And>h :: pg_type \<times> pg_family \<times> pg_class \<Rightarrow> (pg_field \<times> (pg_type \<times> pg_family \<times> pg_class) \<times> pg_definition) list.
      concat (map (\<lambda>z. if row_id (fst z) = fi_type x then h z else []) (join_types db)) = h t"
    by (rule join_obtain[OF types(1) K], rule that)
  obtain d where d: "\<And>h :: pg_definition \<Rightarrow> (pg_field \<times> (pg_type \<times> pg_family \<times> pg_class) \<times> pg_definition) list.
      concat (map (\<lambda>z. if row_id z = fi_definition x then h z else []) (tb_definitions db)) = h d"
    by (rule join_obtain[OF tables_ok_keys(5)[OF assms] bspec[OF field_refs(2)[OF assms] x]], rule that)
  show "\<exists>y. concat (map (\<lambda>q. if row_id (fst q) = fi_type x
          then concat (map (\<lambda>d. if row_id d = fi_definition x then [(x, (fst q, fst (snd q), snd (snd q)), d)] else [])
            (tb_definitions db)) else []) (join_types db)) = [(x, y)]" by (cases t) (simp add: t d)
qed

lemma joined_options:
  assumes "tables_ok db"
  shows "map fst (join_options db) = tb_options db"
  unfolding join_options_def
proof (rule map_fst_join)
  fix x assume "x \<in> set (tb_options db)"
  then have "op_definition x \<in> row_id ` set (tb_definitions db)" using option_refs(2)[OF assms] by blast
  from join_foreign[OF tables_ok_keys(5)[OF assms] this]
  show "\<exists>y. concat (map (\<lambda>d. if row_id d = op_definition x then [(x, d)] else []) (tb_definitions db)) = [(x, y)]" by auto
qed

lemma relation_definitions:
  assumes "tables_ok db" "x \<in> set (tb_relations db)"
  shows "re_from_definition x \<in> row_id ` set (tb_definitions db)" "re_to_definition x \<in> row_id ` set (tb_definitions db)"
  using relation_refs[OF assms(1)] option_refs(2)[OF assms(1)] assms(2) by (force simp: option_key_def)+

lemma joined_relations:
  assumes "tables_ok db"
  shows "map fst (join_relations db) = tb_relations db"
  unfolding join_relations_def
proof (rule map_fst_join)
  fix x assume x: "x \<in> set (tb_relations db)"
  obtain fd where fd: "\<And>h :: pg_definition \<Rightarrow> (pg_relation \<times> pg_definition \<times> pg_definition) list.
      concat (map (\<lambda>z. if row_id z = re_from_definition x then h z else []) (tb_definitions db)) = h fd"
    by (rule join_obtain[OF tables_ok_keys(5)[OF assms] relation_definitions(1)[OF assms x]], rule that)
  obtain td where td: "\<And>h :: pg_definition \<Rightarrow> (pg_relation \<times> pg_definition \<times> pg_definition) list.
      concat (map (\<lambda>z. if row_id z = re_to_definition x then h z else []) (tb_definitions db)) = h td"
    by (rule join_obtain[OF tables_ok_keys(5)[OF assms] relation_definitions(2)[OF assms x]], rule that)
  show "\<exists>y. concat (map (\<lambda>fd. if row_id fd = re_from_definition x
          then concat (map (\<lambda>td. if row_id td = re_to_definition x then [(x, fd, td)] else []) (tb_definitions db)) else [])
        (tb_definitions db)) = [(x, y)]" by (simp add: fd td)
qed

lemma attribute_family:
  assumes "tables_ok db" "a \<in> set (tb_attributes db)"
  shows "at_family a \<in> row_id ` set (tb_families db)" "at_class a \<in> row_id ` set (tb_classes db)"
  using attribute_refs(3)[OF assms(1)] family_refs[OF assms(1)] assms(2) by (force dest: bspec)+

lemma joined_attributes:
  assumes "tables_ok db"
  shows "map fst (join_attributes db) = tb_attributes db"
  unfolding join_attributes_def
proof (rule map_fst_join)
  fix a assume a: "a \<in> set (tb_attributes db)"
  have d: "at_definition a \<in> row_id ` set (tb_definitions db)" using attribute_refs(1)[OF assms] a by blast
  obtain f where f: "\<And>h :: pg_family \<Rightarrow> (pg_attribute \<times> (pg_family \<times> pg_class) \<times> pg_type option \<times> pg_definition) list.
      concat (map (\<lambda>z. if row_id z = at_family a then h z else []) (tb_families db)) = h f"
    by (rule join_obtain[OF tables_ok_keys(2)[OF assms] attribute_family(1)[OF assms a]], rule that)
  obtain cl where cl: "\<And>h :: pg_class \<Rightarrow> (pg_attribute \<times> (pg_family \<times> pg_class) \<times> pg_type option \<times> pg_definition) list.
      concat (map (\<lambda>z. if row_id z = at_class a then h z else []) (tb_classes db)) = h cl"
    by (rule join_obtain[OF tables_ok_keys(1)[OF assms] attribute_family(2)[OF assms a]], rule that)
  obtain e where e: "\<And>h :: pg_definition \<Rightarrow> (pg_attribute \<times> (pg_family \<times> pg_class) \<times> pg_type option \<times> pg_definition) list.
      concat (map (\<lambda>z. if row_id z = at_definition a then h z else []) (tb_definitions db)) = h e"
    by (rule join_obtain[OF tables_ok_keys(5)[OF assms] d], rule that)
  show "\<exists>y. concat (map (\<lambda>f. if row_id f = at_family a
          then concat (map (\<lambda>cl. if row_id cl = at_class a
            then concat (map (\<lambda>d. if row_id d = at_definition a then [(a, (f, cl), left_type db a, d)] else []) (tb_definitions db))
            else []) (tb_classes db)) else []) (tb_families db)) = [(a, y)]" by (simp add: f cl e)
qed

section \<open>The loaded catalogue is complete and closed\<close>

definition complete_load :: "catalog_db \<Rightarrow> resource_catalog \<Rightarrow> bool" where
  "complete_load db c \<longleftrightarrow> length (cat_classes c) = length (tb_classes db) \<and> length (cat_families c) = length (tb_families db)
     \<and> length (cat_types c) = length (tb_types db) \<and> length (cat_presentation c) = length (tb_fields db)
     \<and> length (cat_units c) = length (tb_units db) \<and> length (cat_unit_policies c) = length (tb_policies db)
     \<and> length (cat_definitions c) = length (tb_definitions db) \<and> length (cat_attributes c) = length (tb_attributes db)
     \<and> length (cat_options c) = length (tb_options db) \<and> length (cat_relations c) = length (tb_relations db)
     \<and> length (cat_option_sets c) = length (tb_option_sets db)"

definition closed_catalog :: "resource_catalog \<Rightarrow> bool" where
  "closed_catalog c \<longleftrightarrow>
     (\<forall>f\<in>set (cat_families c). rf_class f \<in> rc_code ` set (cat_classes c)) \<and>
     (\<forall>t\<in>set (cat_types c). (rt_class t, rt_family t) \<in> (\<lambda>f. (rf_class f, rf_code f)) ` set (cat_families c)) \<and>
     (\<forall>x\<in>set (cat_presentation c). (pf_class x, pf_family x, pf_type x) \<in> (\<lambda>t. (rt_class t, rt_family t, rt_code t)) ` set (cat_types c)
        \<and> pf_attribute x \<in> ad_code ` set (cat_definitions c)) \<and>
     (\<forall>p\<in>set (cat_unit_policies c). (up_class p, up_family p) \<in> (\<lambda>f. (rf_class f, rf_code f)) ` set (cat_families c)
        \<and> up_unit p \<in> ud_code ` set (cat_units c)) \<and>
     (\<forall>a\<in>set (cat_attributes c). (ra_class a, ra_family a) \<in> (\<lambda>f. (rf_class f, rf_code f)) ` set (cat_families c)
        \<and> (ra_type a = [] \<or> (ra_class a, ra_family a, ra_type a) \<in> (\<lambda>t. (rt_class t, rt_family t, rt_code t)) ` set (cat_types c))
        \<and> ra_option_set a \<in> os_code ` set (cat_option_sets c) \<and> ra_definition a \<in> set (cat_definitions c)
        \<and> (\<forall>r\<in>set (ra_rules a). when_attribute (ar_when r) \<in> ad_code ` set (cat_definitions c))) \<and>
     (\<forall>x\<in>set (cat_options c). ao_set x \<in> os_code ` set (cat_option_sets c) \<and> ao_attribute x \<in> ad_code ` set (cat_definitions c)) \<and>
     (\<forall>x\<in>set (cat_relations c).
        {(rel_set x, rel_from_attribute x, rel_from_option x), (rel_set x, rel_to_attribute x, rel_to_option x)}
          \<subseteq> (\<lambda>y. (ao_set y, ao_attribute y, ao_code y)) ` set (cat_options c))"

lemma loaded_complete:
  assumes "tables_ok db"
  shows "complete_load db (loaded coll db)"
proof -
  have "length js = length rows" if "map fst js = rows" for js :: "('a \<times> 'b) list" and rows
    using that by auto
  note len = this
  show ?thesis
    using len[OF joined_families[OF assms]] len[OF joined_types[OF assms]] len[OF joined_policies[OF assms]]
      len[OF joined_fields[OF assms]] len[OF joined_options[OF assms]] len[OF joined_relations[OF assms]]
      len[OF joined_attributes[OF assms]]
    by (simp add: complete_load_def loaded_def loadClasses_def loadOptionSets_def loadFamilies_def loadTypes_def
        loadPresentationFields_def loadUnits_def loadUnitPolicies_def loadDefinitions_def loadAttributes_def loadOptions_def
        loadRelations_def)
qed

section \<open>The rows behind a joined row\<close>

lemma unique_row:
  assumes "distinct (map key ys)" "y \<in> set ys" "z \<in> set ys" "key y = key z"
  shows "y = z"
  using assms by (auto simp: distinct_map inj_on_def)

lemma in_join_families: "(f, cl) \<in> set (join_families db) \<longleftrightarrow>
  f \<in> set (tb_families db) \<and> cl \<in> set (tb_classes db) \<and> row_id cl = fa_class f"
  by (auto simp: join_families_def)

lemma in_join_types: "(t, f, cl) \<in> set (join_types db) \<longleftrightarrow>
  t \<in> set (tb_types db) \<and> f \<in> set (tb_families db) \<and> row_id f = ty_family t \<and> cl \<in> set (tb_classes db) \<and> row_id cl = ty_class t"
  by (auto simp: join_types_def)

lemma in_join_fields: "(x, (t, f, cl), d) \<in> set (join_fields db) \<longleftrightarrow>
  x \<in> set (tb_fields db) \<and> (t, f, cl) \<in> set (join_types db) \<and> row_id t = fi_type x \<and> d \<in> set (tb_definitions db)
    \<and> row_id d = fi_definition x"
  by (force simp: join_fields_def)

lemma in_join_policies: "(p, (f, cl), u) \<in> set (join_policies db) \<longleftrightarrow>
  p \<in> set (tb_policies db) \<and> (f, cl) \<in> set (join_families db) \<and> row_id f = po_family p \<and> u \<in> set (tb_units db)
    \<and> row_id u = po_unit p"
  by (force simp: join_policies_def)

lemma in_join_attributes: "(a, (f, cl), t, d) \<in> set (join_attributes db) \<longleftrightarrow>
  a \<in> set (tb_attributes db) \<and> f \<in> set (tb_families db) \<and> row_id f = at_family a \<and> cl \<in> set (tb_classes db)
    \<and> row_id cl = at_class a \<and> t = left_type db a \<and> d \<in> set (tb_definitions db) \<and> row_id d = at_definition a"
  by (auto simp: join_attributes_def)

lemma in_join_options: "(x, d) \<in> set (join_options db) \<longleftrightarrow>
  x \<in> set (tb_options db) \<and> d \<in> set (tb_definitions db) \<and> row_id d = op_definition x"
  by (auto simp: join_options_def)

lemma in_join_relations: "(x, fd, td) \<in> set (join_relations db) \<longleftrightarrow>
  x \<in> set (tb_relations db) \<and> fd \<in> set (tb_definitions db) \<and> row_id fd = re_from_definition x
    \<and> td \<in> set (tb_definitions db) \<and> row_id td = re_to_definition x"
  by (auto simp: join_relations_def)

lemmas in_joins = in_join_families in_join_types in_join_fields in_join_policies in_join_attributes in_join_options in_join_relations

lemma type_in_family:
  assumes "tables_ok db" "(t, f, cl) \<in> set (join_types db)"
  shows "(f, cl) \<in> set (join_families db)"
proof -
  have t: "t \<in> set (tb_types db)" "f \<in> set (tb_families db)" "row_id f = ty_family t" "cl \<in> set (tb_classes db)" "row_id cl = ty_class t"
    using assms(2) by (auto simp: in_joins)
  obtain g where g: "g \<in> set (tb_families db)" "row_id g = ty_family t" "fa_class g = ty_class t"
    using type_refs[OF assms(1)] t(1) by fastforce
  have "g = f" using unique_row[OF tables_ok_keys(2)[OF assms(1)] g(1) t(2)] g(2) t(3) by simp
  then show ?thesis using t g by (simp add: in_joins)
qed

lemma attribute_in_family:
  assumes "tables_ok db" "(a, (f, cl), t, d) \<in> set (join_attributes db)"
  shows "(f, cl) \<in> set (join_families db)"
proof -
  have a: "a \<in> set (tb_attributes db)" "f \<in> set (tb_families db)" "row_id f = at_family a" "cl \<in> set (tb_classes db)" "row_id cl = at_class a"
    using assms(2) by (auto simp: in_joins)
  obtain g where g: "g \<in> set (tb_families db)" "row_id g = at_family a" "fa_class g = at_class a"
    using attribute_refs(3)[OF assms(1)] a(1) by fastforce
  have "g = f" using unique_row[OF tables_ok_keys(2)[OF assms(1)] g(1) a(2)] g(2) a(3) by simp
  then show ?thesis using a g by (simp add: in_joins)
qed

lemma attribute_type:
  assumes "tables_ok db" "(a, (f, cl), Some t, d) \<in> set (join_attributes db)"
  shows "(t, f, cl) \<in> set (join_types db)"
proof -
  have fam: "(f, cl) \<in> set (join_families db)" by (rule attribute_in_family[OF assms])
  have a: "a \<in> set (tb_attributes db)" "row_id f = at_family a" "left_type db a = Some t"
    using assms(2) by (auto simp: in_joins)
  obtain i where i: "at_type a = Some i" "row_by_id (tb_types db) i = Some t"
    using a(3) by (auto simp: left_type_def split: option.splits)
  then have t: "t \<in> set (tb_types db)" "row_id t = i" by (auto simp: row_by_id_def find_Some_iff)
  obtain s where s: "s \<in> set (tb_types db)" "row_id s = i" "ty_family s = at_family a"
    using attribute_refs(4)[OF assms(1)] a(1) i(1) by fastforce
  have "s = t" using unique_row[OF tables_ok_keys(3)[OF assms(1)] s(1) t(1)] s(2) t(2) by simp
  moreover obtain g where g: "g \<in> set (tb_families db)" "row_id g = ty_family t" "fa_class g = ty_class t"
    using type_refs[OF assms(1)] t(1) by fastforce
  moreover have "g = f"
    using unique_row[OF tables_ok_keys(2)[OF assms(1)] g(1), of f] fam g(2) s(3) a(2) calculation(1) by (simp add: in_joins)
  ultimately show ?thesis using fam t(1) a(2) s(3) by (simp add: in_joins)
qed

lemma option_row_of:
  assumes "tables_ok db" "(s, i, c) \<in> option_key ` set (tb_options db)" "d \<in> set (tb_definitions db)" "row_id d = i"
  shows "(s, de_code d, c) \<in> (\<lambda>y. (ao_set y, ao_attribute y, ao_code y)) ` set (loadOptions db)"
proof -
  obtain x where x: "x \<in> set (tb_options db)" "op_set x = s" "op_definition x = i" "op_code x = c"
    using assms(2) by (auto simp: option_key_def)
  then have "(x, d) \<in> set (join_options db)" using assms(3,4) by (simp add: in_joins)
  then show ?thesis using x by (force simp: loadOptions_def)
qed


text \<open>The codes a joined row contributes to the loaded collections.\<close>

lemma loaded_class: "cl \<in> set (tb_classes db) \<Longrightarrow> cl_code cl \<in> rc_code ` set (loadClasses coll db)"
  by (force simp: loadClasses_def)

lemma loaded_family:
  "(f, cl) \<in> set (join_families db) \<Longrightarrow> (cl_code cl, fa_code f) \<in> (\<lambda>f. (rf_class f, rf_code f)) ` set (loadFamilies db)"
  by (force simp: loadFamilies_def)

lemma loaded_type: "(t, f, cl) \<in> set (join_types db) \<Longrightarrow>
    (cl_code cl, fa_code f, ty_code t) \<in> (\<lambda>t. (rt_class t, rt_family t, rt_code t)) ` set (loadTypes db)"
  by (force simp: loadTypes_def)

lemma loaded_definition: "d \<in> set (tb_definitions db) \<Longrightarrow> definition_of_row d \<in> set (loadDefinitions db)"
  "d \<in> set (tb_definitions db) \<Longrightarrow> de_code d \<in> ad_code ` set (loadDefinitions db)"
  by (force simp: loadDefinitions_def definition_of_row_def)+

lemma loaded_unit: "u \<in> set (tb_units db) \<Longrightarrow> un_code u \<in> ud_code ` set (loadUnits db)"
  by (force simp: loadUnits_def)

lemma loaded_option_set: "s \<in> st_code ` set (tb_option_sets db) \<Longrightarrow> s \<in> os_code ` set (loadOptionSets coll db)"
  by (force simp: loadOptionSets_def)

lemmas loaded_codes = loaded_class loaded_family loaded_type loaded_definition loaded_unit loaded_option_set

lemma closed_families: "\<forall>f\<in>set (loadFamilies db). rf_class f \<in> rc_code ` set (loadClasses coll db)"
  by (auto simp: loadFamilies_def in_joins intro!: loaded_codes)

lemma closed_types:
  assumes "tables_ok db"
  shows "\<forall>t\<in>set (loadTypes db). (rt_class t, rt_family t) \<in> (\<lambda>f. (rf_class f, rf_code f)) ` set (loadFamilies db)"
proof -
  have "(cl_code cl, fa_code f) \<in> (\<lambda>f. (rf_class f, rf_code f)) ` set (loadFamilies db)"
    if "(t, f, cl) \<in> set (join_types db)" for t f cl
    by (rule loaded_family[OF type_in_family[OF assms that]])
  then show ?thesis by (auto simp: loadTypes_def)
qed

lemma closed_fields: "\<forall>x\<in>set (loadPresentationFields db).
    (pf_class x, pf_family x, pf_type x) \<in> (\<lambda>t. (rt_class t, rt_family t, rt_code t)) ` set (loadTypes db)
      \<and> pf_attribute x \<in> ad_code ` set (loadDefinitions db)"
proof -
  have "(cl_code cl, fa_code f, ty_code t) \<in> (\<lambda>t. (rt_class t, rt_family t, rt_code t)) ` set (loadTypes db)
      \<and> de_code d \<in> ad_code ` set (loadDefinitions db)" if "(x, (t, f, cl), d) \<in> set (join_fields db)" for x t f cl d
    using that loaded_type loaded_definition(2) unfolding in_join_fields by blast
  then show ?thesis by (auto simp: loadPresentationFields_def)
qed

lemma closed_policies: "\<forall>p\<in>set (loadUnitPolicies db).
    (up_class p, up_family p) \<in> (\<lambda>f. (rf_class f, rf_code f)) ` set (loadFamilies db) \<and> up_unit p \<in> ud_code ` set (loadUnits db)"
proof -
  have "(cl_code cl, fa_code f) \<in> (\<lambda>f. (rf_class f, rf_code f)) ` set (loadFamilies db)
      \<and> un_code u \<in> ud_code ` set (loadUnits db)" if "(p, (f, cl), u) \<in> set (join_policies db)" for p f cl u
    using that loaded_family loaded_unit unfolding in_join_policies by blast
  then show ?thesis by (auto simp: loadUnitPolicies_def)
qed

lemma closed_rules: "\<forall>r\<in>set (loadAttributeRules db i). when_attribute (ar_when r) \<in> ad_code ` set (loadDefinitions db)"
  by (auto simp: loadAttributeRules_def join_rules_def intro!: loaded_definition(2))

lemma closed_attributes:
  assumes "tables_ok db"
  shows "\<forall>a\<in>set (loadAttributes (loadAttributeRules db) db).
    (ra_class a, ra_family a) \<in> (\<lambda>f. (rf_class f, rf_code f)) ` set (loadFamilies db)
    \<and> (ra_type a = [] \<or> (ra_class a, ra_family a, ra_type a) \<in> (\<lambda>t. (rt_class t, rt_family t, rt_code t)) ` set (loadTypes db))
    \<and> ra_option_set a \<in> os_code ` set (loadOptionSets coll db) \<and> ra_definition a \<in> set (loadDefinitions db)
    \<and> (\<forall>r\<in>set (ra_rules a). when_attribute (ar_when r) \<in> ad_code ` set (loadDefinitions db))"
proof -
  have "(cl_code cl, fa_code f) \<in> (\<lambda>f. (rf_class f, rf_code f)) ` set (loadFamilies db)
    \<and> (type_code t = [] \<or> (cl_code cl, fa_code f, type_code t) \<in> (\<lambda>t. (rt_class t, rt_family t, rt_code t)) ` set (loadTypes db))
    \<and> at_set a \<in> os_code ` set (loadOptionSets coll db) \<and> definition_of_row d \<in> set (loadDefinitions db)"
    if j: "(a, (f, cl), t, d) \<in> set (join_attributes db)" for a f cl t d
  proof -
    have "type_code t = [] \<or> (cl_code cl, fa_code f, type_code t) \<in> (\<lambda>t. (rt_class t, rt_family t, rt_code t)) ` set (loadTypes db)"
    proof (cases t)
      case (Some ty)
      then show ?thesis using loaded_type[OF attribute_type[OF assms]] j by (simp add: type_code_def)
    qed (simp add: type_code_def)
    then show ?thesis
      using loaded_family[OF attribute_in_family[OF assms j]] attribute_refs(2)[OF assms] j
        loaded_option_set loaded_definition(1) unfolding in_join_attributes by blast
  qed
  note row = this
  show ?thesis
  proof
    fix x assume "x \<in> set (loadAttributes (loadAttributeRules db) db)"
    then obtain a f cl t d where j: "(a, (f, cl), t, d) \<in> set (join_attributes db)"
      and x: "x = \<lparr>ra_class = cl_code cl, ra_family = fa_code f, ra_type = type_code t, ra_option_set = at_set a,
        ra_definition = definition_of_row d, ra_mode = at_mode a, ra_identity = at_identity a,
        ra_rules = loadAttributeRules db (row_id a), ra_active = row_active a\<rparr>"
      by (auto simp: loadAttributes_def)
    show "(ra_class x, ra_family x) \<in> (\<lambda>f. (rf_class f, rf_code f)) ` set (loadFamilies db)
      \<and> (ra_type x = [] \<or> (ra_class x, ra_family x, ra_type x) \<in> (\<lambda>t. (rt_class t, rt_family t, rt_code t)) ` set (loadTypes db))
      \<and> ra_option_set x \<in> os_code ` set (loadOptionSets coll db) \<and> ra_definition x \<in> set (loadDefinitions db)
      \<and> (\<forall>r\<in>set (ra_rules x). when_attribute (ar_when r) \<in> ad_code ` set (loadDefinitions db))"
      unfolding x resource_attribute.simps using row[OF j] closed_rules by blast
  qed
qed

lemma closed_options:
  assumes "tables_ok db"
  shows "\<forall>x\<in>set (loadOptions db).
    ao_set x \<in> os_code ` set (loadOptionSets coll db) \<and> ao_attribute x \<in> ad_code ` set (loadDefinitions db)"
proof -
  have "op_set x \<in> os_code ` set (loadOptionSets coll db) \<and> de_code d \<in> ad_code ` set (loadDefinitions db)"
    if "(x, d) \<in> set (join_options db)" for x d
    using that option_refs(1)[OF assms] loaded_option_set loaded_definition(2) unfolding in_join_options by blast
  then show ?thesis by (auto simp: loadOptions_def)
qed

lemma closed_relations:
  assumes "tables_ok db"
  shows "\<forall>x\<in>set (loadRelations db).
    {(rel_set x, rel_from_attribute x, rel_from_option x), (rel_set x, rel_to_attribute x, rel_to_option x)}
      \<subseteq> (\<lambda>y. (ao_set y, ao_attribute y, ao_code y)) ` set (loadOptions db)"
proof -
  have "(re_set x, de_code fd, re_from_option x) \<in> (\<lambda>y. (ao_set y, ao_attribute y, ao_code y)) ` set (loadOptions db)
    \<and> (re_set x, de_code td, re_to_option x) \<in> (\<lambda>y. (ao_set y, ao_attribute y, ao_code y)) ` set (loadOptions db)"
    if j: "(x, fd, td) \<in> set (join_relations db)" for x fd td
  proof -
    have x: "x \<in> set (tb_relations db)" "fd \<in> set (tb_definitions db)" "row_id fd = re_from_definition x"
      "td \<in> set (tb_definitions db)" "row_id td = re_to_definition x"
      using j unfolding in_join_relations by blast+
    show ?thesis
      using option_row_of[OF assms bspec[OF relation_refs(1)[OF assms] x(1)] x(2,3)]
        option_row_of[OF assms bspec[OF relation_refs(2)[OF assms] x(1)] x(4,5)] by (rule conjI)
  qed
  then show ?thesis by (auto simp: loadRelations_def)
qed

lemma loaded_closed:
  assumes "tables_ok db"
  shows "closed_catalog (loaded coll db)"
  unfolding closed_catalog_def loaded_def resource_catalog.simps
  using closed_families closed_types[OF assms] closed_fields closed_policies closed_attributes[OF assms]
    closed_options[OF assms] closed_relations[OF assms] by (intro conjI)

end
