(* ===== verification/CatalogStoreTheorems.thy ===== *)
theory CatalogStoreTheorems
  imports CatalogLoadTheorems CatalogServiceTheorems
begin

text \<open>
  What the catalogue repositories promise: the constraints hold in every database they reach and the loader
  reads it completely; a revision-aware write is the catalogue mutation it announces or nothing; the service
  that publishes its results keeps its snapshot equal to the tables.
\<close>

section \<open>The invariant of the tables\<close>

definition run_stores ::
  "pattern_match \<Rightarrow> (gstring \<Rightarrow> gstring) \<Rightarrow> (sql_faults \<times> bool \<times> store_call) list \<Rightarrow> catalog_db \<Rightarrow> catalog_db" where
  "run_stores ilike coll calls db = fold (\<lambda>(F, applied, call) db. snd (run_store F applied ilike coll call db)) calls db"

lemma run_stores_ok: "tables_ok db \<Longrightarrow> tables_ok (run_stores ilike coll calls db)"
proof (induction calls arbitrary: db)
  case (Cons x calls)
  then show ?case
    using run_store_steps unfolding steps_in_def by (cases x) (simp add: run_stores_def)
qed (simp add: run_stores_def)

section \<open>The protocol of a revision-aware write\<close>

lemma undo_joins: "join_families (undo_tables db t) = join_families db" "join_types (undo_tables db t) = join_types db"
  "join_options (undo_tables db t) = join_options db" "join_relations (undo_tables db t) = join_relations db"
  "join_rules (undo_tables db t) = join_rules db" "left_type (undo_tables db t) a = left_type db a"
  by (simp_all add: join_families_def join_types_def join_options_def join_relations_def join_rules_def left_type_def
      undo_tables_def cong: if_cong option.case_cong)

lemma undo_joined: "join_fields (undo_tables db t) = join_fields db" "join_policies (undo_tables db t) = join_policies db"
  "join_attributes (undo_tables db t) = join_attributes db"
  unfolding join_fields_def join_policies_def join_attributes_def undo_joins
  by (simp_all add: undo_tables_def cong: if_cong)

lemma loaded_undo [simp]: "loaded coll (undo_tables db t) = loaded coll db"
proof -
  have "loadAttributeRules (undo_tables db t) = loadAttributeRules db"
    by (simp add: fun_eq_iff loadAttributeRules_def undo_joins)
  then show ?thesis
    by (simp add: loaded_def loadClasses_def loadFamilies_def loadTypes_def loadPresentationFields_def loadUnits_def
        loadUnitPolicies_def loadDefinitions_def loadAttributes_def loadOptions_def loadRelations_def loadOptionSets_def
        undo_joins undo_joined) (simp add: undo_tables_def)
qed

text \<open>Agreement up to the order of rows, the default option set read as its code.\<close>

definition same_rows :: "('a \<Rightarrow> 'a) \<Rightarrow> 'a list \<Rightarrow> 'a list \<Rightarrow> bool" where
  "same_rows norm xs ys \<longleftrightarrow> mset (map norm xs) = mset (map norm ys)"

definition same_content :: "resource_catalog \<Rightarrow> resource_catalog \<Rightarrow> bool" where
  "same_content a b \<longleftrightarrow> same_rows id (cat_classes a) (cat_classes b) \<and> same_rows id (cat_families a) (cat_families b)
     \<and> same_rows id (cat_types a) (cat_types b) \<and> same_rows id (cat_presentation a) (cat_presentation b)
     \<and> same_rows id (cat_units a) (cat_units b) \<and> same_rows id (cat_unit_policies a) (cat_unit_policies b)
     \<and> same_rows id (cat_definitions a) (cat_definitions b)
     \<and> same_rows (\<lambda>x. x\<lparr>ra_option_set := normalized_option_set (ra_option_set x)\<rparr>) (cat_attributes a) (cat_attributes b)
     \<and> same_rows (\<lambda>x. x\<lparr>ao_set := normalized_option_set (ao_set x)\<rparr>) (cat_options a) (cat_options b)
     \<and> same_rows (\<lambda>x. x\<lparr>rel_set := normalized_option_set (rel_set x)\<rparr>) (cat_relations a) (cat_relations b)
     \<and> same_rows (\<lambda>x. x\<lparr>os_code := normalized_option_set (os_code x)\<rparr>) (cat_option_sets a) (cat_option_sets b)"

lemma same_rows_sorted: "map norm (sort_key f xs) = map norm (sort_key g ys) \<Longrightarrow> same_rows norm xs ys"
  unfolding same_rows_def by (metis mset_map mset_sort)

lemma same_rows_sorted_id: "sort_key f xs = sort_key g ys \<Longrightarrow> same_rows id xs ys"
  unfolding same_rows_def by (metis list.map_id mset_sort)

lemma canonical_same:
  assumes "EquivalentResourceCatalogs (canonicalOrderV2 a) (canonicalOrderV2 b)"
  shows "same_content a b"
  using assms
  unfolding EquivalentResourceCatalogs_def equivalent_slices_norm[OF equivalent_attribute_row]
    equivalent_slices_norm[OF equivalent_option_rows(1)] equivalent_slices_norm[OF equivalent_option_rows(2)]
    equivalent_slices_norm[OF equivalent_option_rows(3)] equivalent_slices_eq[OF equivalent_rows(1)]
    equivalent_slices_eq[OF equivalent_rows(2)] equivalent_slices_eq[OF equivalent_rows(3)]
    equivalent_slices_eq[OF equivalent_rows(4)] equivalent_slices_eq[OF equivalent_rows(5)]
    equivalent_slices_eq[OF equivalent_rows(6)] equivalent_slices_eq[OF equivalent_rows(8)]
    canonicalOrderV2_def sortedByContentV2_def resource_catalog.simps same_content_def
  by (auto intro: same_rows_sorted same_rows_sorted_id)

text \<open>The mutation each revision-aware call announces, read from the tables before the write.\<close>

fun announced :: "sql_faults \<Rightarrow> pattern_match \<Rightarrow> (gstring \<Rightarrow> gstring) \<Rightarrow> store_call \<Rightarrow> catalog_mutation catalog_sql" where
  "announced F ilike coll (RevisionInsert r) = insertMutationV2 r"
| "announced F ilike coll (RevisionUpdate r er) = updateMutationV2 F ilike coll r"
| "announced F ilike coll (RevisionSetActive kind i active er) =
     lifecycleMutationV2 F ilike coll kind i (if active then OpReactivate else OpDeactivate)"
| "announced F ilike coll (RevisionDelete kind i er) = lifecycleMutationV2 F ilike coll kind i OpDelete"
| "announced F ilike coll _ = fail (ErrNew [])"

fun v2_result ::
  "sql_faults \<Rightarrow> bool \<Rightarrow> pattern_match \<Rightarrow> (gstring \<Rightarrow> gstring) \<Rightarrow> store_call \<Rightarrow> catalog_write_result catalog_sql" where
  "v2_result F applied ilike coll (RevisionInsert r) = InsertV2 F applied coll r"
| "v2_result F applied ilike coll (RevisionUpdate r er) = UpdateV2 F applied ilike coll r er"
| "v2_result F applied ilike coll (RevisionSetActive kind i active er) = SetActiveV2 F applied ilike coll kind i active er"
| "v2_result F applied ilike coll (RevisionDelete kind i er) = DeleteV2 F applied ilike coll kind i er"
| "v2_result F applied ilike coll _ = fail (ErrNew [])"

lemma steps_quiet: "(\<And>db. steps_in (\<lambda>u. u = db) m) \<Longrightarrow> quiet m"
  unfolding steps_in_def quiet_def by blast

lemma mutation_quiet [simp]:
  "quiet (insertMutationV2 r)" "quiet (updateMutationV2 F ilike coll r)" "quiet (lifecycleMutationV2 F ilike coll kind i mop)"
  by (rule steps_quiet, rule mutation_steps)+

lemma pure_Inr: "lift r s = (Inr x, t) \<longleftrightarrow> r = Inr x \<and> t = s" "require c s = (Inr y, t) \<longleftrightarrow> c = None \<and> t = s"
  by (auto simp: lift_def require_def split: option.splits)

lemma coherent_Inr:
  assumes run: "runV2CoherentTx F applied coll m wr db = (Inr (i, revision, c), t)" and quiet: "quiet m"
  shows "\<exists>mutation expected. m db = (Inr mutation, db) \<and> apply_mutation (loaded coll db) mutation = Inr expected
     \<and> same_content c expected \<and> c = loaded coll t \<and> validate_catalog c = None \<and> wr db = (Inr (i, revision), t)"
proof -
  obtain mutation u1 base u2 j v u expected after u3 where m: "m db = (Inr mutation, u1)"
    and base: "loadResourceCatalogTx F coll 0 u1 = (Inr base, u2)" and app: "wr u2 = (Inr (j, v), u)"
    and ex: "apply_mutation base mutation = Inr expected" and after: "loadResourceCatalogTx F coll 1 u = (Inr after, u3)"
    and valid: "validate_catalog after = None"
    and same: "(if EquivalentResourceCatalogs (canonicalOrderV2 after) (canonicalOrderV2 expected)
                then None else Some errCatalogCandidateMismatchV2) = None"
    and out: "(ret (j, v, after) :: (int \<times> revision \<times> resource_catalog) catalog_sql) u3 = (Inr (i, revision, c), t)"
    using run unfolding runV2CoherentTx_def transact_Inr bnd_Inr map_err_Inr pure_Inr split_paired_Ex prod.case by clarify (rule that)
  note u1 = quietD[OF quiet m]
  have same': "same_content after expected" using same canonical_same by (auto split: if_splits)
  show ?thesis
    using m u1 ex app out load_Inr[OF base] load_Inr[OF after] same' valid by (auto simp: ret_def)
qed

lemma coherent_Inl:
  assumes "runV2CoherentTx F applied coll m wr db = (Inl e, t)" "applied \<longrightarrow> F ''commit'' 0 = None"
  shows "(\<exists>u. t = undo_tables db u)"
proof -
  have "db = undo_tables db db" by (simp add: undo_tables_def)
  with assms show ?thesis
    unfolding runV2CoherentTx_def transact_def by (auto split: option.splits prod.splits sum.splits if_splits)
qed

lemma write_result_Inr: "write_result r m db = (Inr result, t) \<Longrightarrow> \<exists>i revision. m db = (Inr (i, revision, wr_catalog result), t)"
  by (auto simp: write_result_def bnd_Inr ret_def)

lemma v2_result_tx:
  assumes "v2_result F applied ilike coll call db = (Inr result, t)"
  obtains m wr i revision c where "runV2CoherentTx F applied coll m wr db = (Inr (i, revision, c), t)"
    "m = announced F ilike coll call" "wr_catalog result = c"
proof (cases call)
  case (RevisionInsert r)
  then show ?thesis using assms that
    by (auto simp: InsertV2_def insertApplicabilityAggregateV2_def bnd_require fail_def split: if_splits option.splits
        dest!: write_result_Inr)
next
  case (RevisionUpdate r er)
  then show ?thesis using assms that
    by (auto simp: UpdateV2_def updateApplicabilityAggregateV2_def bnd_require fail_def split: if_splits option.splits
        dest!: write_result_Inr)
next
  case (RevisionSetActive kind i active er)
  then show ?thesis using assms that
    by (cases active) (auto simp: SetActiveV2_def fail_def split: option.splits dest!: write_result_Inr)
next
  case (RevisionDelete kind i er)
  then show ?thesis using assms that by (auto simp: DeleteV2_def fail_def bnd_Inr ret_def split: option.splits)
qed (use assms in \<open>simp_all add: fail_def\<close>)

section \<open>The service over the tables\<close>

text \<open>What the service relies on: a successful write returns the catalogue of the database it leaves, a
  failed one leaves that catalogue as it was.\<close>

definition shows_view :: "('db \<Rightarrow> resource_catalog) \<Rightarrow> ('db \<Rightarrow> (go_error + catalog_write_result) \<times> 'db) \<Rightarrow> bool" where
  "shows_view view q \<longleftrightarrow> (\<forall>db. case q db of
      (Inr result, db') \<Rightarrow> wr_catalog result = view db' | (Inl e, db') \<Rightarrow> view db' = view db)"

lemma shows_view_v2_write:
  assumes "shows_view view q"
  shows "steps_in (\<lambda>s. cs_snapshot s = view (cs_db s) \<and> cs_repo_v2 s = w) (v2_write q)"
  using assms unfolding steps_in_def shows_view_def v2_write_def
  by (auto simp: bnd_def attempt_def db_write_def publish_def change_def ret_def classify_v2_write_error_def
      split: prod.splits sum.splits) (metis old.prod.case old.sum.simps(5,6))+

lemma quiet_steps: "quiet m \<Longrightarrow> steps_in I m"
  by (simp add: quiet_def steps_in_def)

fun revision_call :: "catalogo_call \<Rightarrow> bool" where
  "revision_call (Create kind r) = True"
| "revision_call (CallCreateV2 kind r) = True"
| "revision_call (CallUpdateRevision kind r er) = True"
| "revision_call (CallDeactivateRevision kind rid er) = True"
| "revision_call (CallReactivateRevision kind rid er) = True"
| "revision_call (CallHardDeleteRevision kind rid er) = True"
| "revision_call _ = False"

locale snapshot_source =
  fixes v2 :: "'db catalog_repo_v2" and view :: "'db \<Rightarrow> resource_catalog"
  assumes insert_shows: "shows_view view (v2_insert v2 r)"
    and update_shows: "shows_view view (v2_update v2 r er)"
    and set_active_shows: "shows_view view (v2_set_active v2 kind rid active er)"
    and delete_shows: "shows_view view (v2_delete v2 kind rid er)"
begin

definition shown :: "'db catalogo \<Rightarrow> bool" where
  "shown s \<longleftrightarrow> cs_snapshot s = view (cs_db s) \<and> cs_repo_v2 s = Some v2"

lemma prepared_steps:
  assumes "steps_in shown (f v2)"
  shows "steps_in shown (bnd prepare_v2_write f)"
  using assms unfolding steps_in_def prepare_v2_write_def by (auto simp: shown_def bnd_def split: option.splits)

lemma write_steps: "shows_view view q \<Longrightarrow> steps_in shown (v2_write q)"
  using shows_view_v2_write[of view q "Some v2"] by (simp add: shown_def[abs_def])

lemma candidate_steps: "steps_in shown (candidate m)" "steps_in shown (update_candidate repo kind r)"
  "steps_in shown (delete_candidate repo kind rid)" "steps_in shown (db_read q)"
  by (rule quiet_steps, simp)+

lemma port_steps: "steps_in shown (insert_locked v2 r)" "steps_in shown (CreateV2 kind r)"
  "steps_in shown (UpdateRevision repo kind r er)" "steps_in shown (set_active_revision repo kind rid active er)"
  "steps_in shown (HardDeleteRevision repo kind rid er)"
  by (auto simp: insert_locked_def CreateV2_def UpdateRevision_def set_active_revision_def HardDeleteRevision_def Let_def
      intro!: prepared_steps candidate_steps write_steps insert_shows update_shows set_active_shows delete_shows)

lemma create_steps: "steps_in shown (catalog_create repo kind r)"
proof -
  have "catalog_create repo kind r s = bnd prepare_v2_write (\<lambda>v2. insert_locked v2 (r\<lparr>rec_kind := kind\<rparr>)) s" if "shown s" for s
    using that by (simp add: catalog_create_def Let_def shown_def)
  moreover have "steps_in shown (bnd prepare_v2_write (\<lambda>v2. insert_locked v2 (r\<lparr>rec_kind := kind\<rparr>)))"
    by (rule prepared_steps) (rule port_steps)
  ultimately show ?thesis by (simp add: steps_in_def)
qed

lemma shown_kept: "revision_call call \<Longrightarrow> steps_in shown (run_call repo call)"
  by (cases call) (auto simp: DeactivateRevision_def ReactivateRevision_def discard_def intro!: create_steps port_steps)

end

lemma write_result_run: "write_result r m db = (case m db of (Inl e, t) \<Rightarrow> (Inl e, t)
    | (Inr (i, revision, c), t) \<Rightarrow> (Inr \<lparr>wr_record = Some (r\<lparr>rec_id := i, rec_revision := revision\<rparr>), wr_catalog = c\<rparr>, t))"
  by (simp add: write_result_def bnd_def ret_def split: prod.split sum.split)

lemma coherent_shows:
  assumes "quiet m"
  shows "case runV2CoherentTx F False coll m wr db of
      (Inr (i, revision, c), t) \<Rightarrow> c = loaded coll t | (Inl e, t) \<Rightarrow> loaded coll t = loaded coll db"
proof (cases "runV2CoherentTx F False coll m wr db")
  case (Pair q t)
  show ?thesis
  proof (cases q)
    case (Inl e)
    then show ?thesis using coherent_Inl[of F False coll m wr db e t] Pair by auto
  next
    case (Inr x)
    then obtain i revision c where x: "q = Inr (i, revision, c)" by (cases x) auto
    then show ?thesis using coherent_Inr[of F False coll m wr db i revision c t] Pair assms by auto
  qed
qed

lemma write_result_shows:
  assumes "quiet m"
  shows "shows_view (loaded coll) (write_result r (runV2CoherentTx F False coll m wr))"
  unfolding shows_view_def
proof
  fix db
  show "case write_result r (runV2CoherentTx F False coll m wr) db of
      (Inr result, db') \<Rightarrow> wr_catalog result = loaded coll db' | (Inl e, db') \<Rightarrow> loaded coll db' = loaded coll db"
    using coherent_shows[where m = m and F = F and coll = coll and wr = wr and db = db, OF assms] by (auto simp: write_result_run split: prod.splits sum.splits)
qed

lemma shows_view_pure: "shows_view view (fail e)" "shows_view view q \<Longrightarrow> shows_view view (bnd (require c) (\<lambda>_. q))"
  by (auto simp: shows_view_def fail_def bnd_require split: option.splits)

lemma insert_v2_shows: "shows_view (loaded coll) (InsertV2 F False coll r)"
  by (auto simp: InsertV2_def insertApplicabilityAggregateV2_def shows_view_pure split: option.split
      intro!: shows_view_pure(2) write_result_shows)

lemma update_v2_shows: "shows_view (loaded coll) (UpdateV2 F False ilike coll r er)"
  by (auto simp: UpdateV2_def updateApplicabilityAggregateV2_def shows_view_pure split: option.split
      intro!: shows_view_pure(2) write_result_shows)

lemma set_active_v2_shows: "shows_view (loaded coll) (SetActiveV2 F False ilike coll kind i active er)"
  by (auto simp: SetActiveV2_def shows_view_pure split: option.split intro!: write_result_shows)

lemma delete_v2_shows: "shows_view (loaded coll) (DeleteV2 F False ilike coll kind i er)"
proof -
  have "case bnd (runV2CoherentTx F False coll (lifecycleMutationV2 F ilike coll kind i OpDelete) wr)
      (\<lambda>(_, _, catalog). ret \<lparr>wr_record = None, wr_catalog = catalog\<rparr>) db of
      (Inr result, db') \<Rightarrow> wr_catalog result = loaded coll db' | (Inl e, db') \<Rightarrow> loaded coll db' = loaded coll db" for wr db
    using coherent_shows[where m = "lifecycleMutationV2 F ilike coll kind i OpDelete" and F = F and coll = coll and wr = wr and db = db,
        OF mutation_quiet(3)]
    by (auto simp: bnd_def ret_def split: prod.splits sum.splits)
  then show ?thesis by (simp add: DeleteV2_def shows_view_pure split: option.split) (simp add: shows_view_def)
qed

interpretation pg_catalog: snapshot_source "catalogAdminRepositoryV2 F False ilike coll" "loaded coll" for F ilike coll
  by unfold_locales
    (simp_all add: catalogAdminRepositoryV2_def insert_v2_shows update_v2_shows set_active_v2_shows delete_v2_shows)

text \<open>The outcome of a commit matters only when the commit fails.\<close>

lemma transact_applied:
  assumes "F ''commit'' 0 = None"
  shows "transact F begins commits applied undo body = transact F begins commits False undo body"
  using assms by (simp add: transact_def fun_eq_iff split: option.split prod.split sum.split)

lemma applied_irrelevant:
  assumes "applied \<longrightarrow> F ''commit'' 0 = None"
  shows "catalogAdminRepositoryV2 F applied ilike coll = catalogAdminRepositoryV2 F False ilike coll"
proof -
  have "transact F begins commits applied undo body = transact F begins commits False undo body"
    for begins commits undo and body :: "(int \<times> revision \<times> resource_catalog) catalog_sql"
    using assms transact_applied[of F begins commits applied undo body] by (cases applied) auto
  then have tx: "runV2CoherentTx F applied = runV2CoherentTx F False"
    by (simp add: runV2CoherentTx_def fun_eq_iff)
  show ?thesis
    unfolding catalogAdminRepositoryV2_def InsertV2_def[abs_def] UpdateV2_def[abs_def] SetActiveV2_def[abs_def] DeleteV2_def[abs_def]
      insertApplicabilityAggregateV2_def updateApplicabilityAggregateV2_def tx by (rule refl)
qed

text \<open>A service call on the repositories as they are at the moment of the call.\<close>

definition serve ::
  "pattern_match \<Rightarrow> (gstring \<Rightarrow> gstring) \<Rightarrow> sql_faults \<times> bool \<times> catalogo_call \<Rightarrow> catalog_db catalogo \<Rightarrow> catalog_db catalogo" where
  "serve ilike coll = (\<lambda>(F, applied, call) s. snd (run_call (catalogAdminRepository F applied ilike coll) call
     (s\<lparr>cs_repo_v2 := Some (catalogAdminRepositoryV2 F applied ilike coll)\<rparr>)))"

definition acknowledged :: "sql_faults \<times> bool \<times> catalogo_call \<Rightarrow> bool" where
  "acknowledged = (\<lambda>(F, applied, call). revision_call call \<and> (applied \<longrightarrow> F ''commit'' 0 = None))"

lemma serve_shows:
  assumes "acknowledged x" "cs_snapshot s = loaded coll (cs_db s)"
  shows "cs_snapshot (serve ilike coll x s) = loaded coll (cs_db (serve ilike coll x s))"
proof -
  obtain F applied call where x: "x = (F, applied, call)" by (cases x)
  let ?s = "s\<lparr>cs_repo_v2 := Some (catalogAdminRepositoryV2 F False ilike coll)\<rparr>"
  have "pg_catalog.shown F ilike coll ?s" using assms(2) by (simp add: pg_catalog.shown_def)
  then have "pg_catalog.shown F ilike coll (snd (run_call (catalogAdminRepository F applied ilike coll) call ?s))"
    using pg_catalog.shown_kept assms(1) unfolding x acknowledged_def steps_in_def by blast
  moreover have "serve ilike coll x s = snd (run_call (catalogAdminRepository F applied ilike coll) call ?s)"
    using applied_irrelevant[of applied F ilike coll] assms(1) by (simp add: serve_def x acknowledged_def)
  ultimately show ?thesis by (simp add: pg_catalog.shown_def)
qed

section \<open>A run of the protocol\<close>

lemma load_run:
  assumes "\<And>name k. F name k = None"
  shows "map_err w (loadResourceCatalogTx F coll k) db = (Inr (loaded coll db), db)"
  by (simp add: load_no_faults[OF assms])

lemma coherent_run:
  assumes "\<And>name k. F name k = None" "m db = (Inr mutation, db)" "wr db = (Inr (i, revision), t)"
    "apply_mutation (loaded coll db) mutation = Inr expected" "validate_catalog (loaded coll t) = None"
  shows "runV2CoherentTx F applied coll m wr db =
    (if EquivalentResourceCatalogs (canonicalOrderV2 (loaded coll t)) (canonicalOrderV2 expected)
     then (Inr (i, revision, loaded coll t), t) else (Inl errCatalogCandidateMismatchV2, undo_tables db t))"
  unfolding runV2CoherentTx_def transact_def
  by (simp add: assms bnd_run load_run[OF assms(1)])

definition all_well :: sql_faults where "all_well name k = None"

definition plain_collation :: "gstring \<Rightarrow> gstring" where "plain_collation s = s"

definition small_db :: catalog_db where
  "small_db = \<lparr>tb_classes = [\<lparr>row_id = 1, row_revision = 1, row_active = True, cl_code = ''MATERIAL'', cl_name = ''Material'',
       cl_plural = ''Materiales'', cl_slug = ''materiales'', cl_order = 1, cl_aliases = [], cl_keywords = []\<rparr>],
     tb_option_sets = [], tb_families = [], tb_types = [], tb_units = [], tb_policies = [], tb_definitions = [], tb_options = [],
     tb_relations = [], tb_attributes = [], tb_rules = [], tb_fields = [], tb_resources = [], tb_values = [],
     tb_sequences = [(''resource_classes'', 1)]\<rparr>"

definition kilo :: catalog_record where "kilo = unit_record 0 ''KG'' True"

definition small_kilo_db :: catalog_db where
  "small_kilo_db = snd (insertUnitV2 all_well kilo small_db)"

lemma all_well [simp]: "all_well name k = None"
  by (simp add: all_well_def)

lemma small_ok: "tables_ok small_db" by code_simp

lemma kilo_inserted: "insertUnitV2 all_well kilo small_db = (Inr (1, 1), small_kilo_db)"
proof -
  have "fst (insertUnitV2 all_well kilo small_db) = Inr (1, 1)" by code_simp
  then show ?thesis by (simp add: small_kilo_db_def prod_eq_iff)
qed

lemma small_kilo_valid: "validate_catalog (loaded plain_collation small_kilo_db) = None" by code_simp

lemma small_kilo_candidate:
  "case apply_mutation (loaded plain_collation small_db) \<lparr>mut_op = OpInsert, mut_record = kilo, mut_replacement = None\<rparr> of
     Inr expected \<Rightarrow> EquivalentResourceCatalogs (canonicalOrderV2 (loaded plain_collation small_kilo_db)) (canonicalOrderV2 expected)
   | Inl _ \<Rightarrow> False" by code_simp

lemma kilo_handler: "rec_kind kilo = KindUnit" "map_of (kindTablesV2 F) KindUnit = Some
    \<lparr>wh_insert = Some (insertUnitV2 F), wh_update = Some (updateUnitV2 F),
     wh_set_active = simpleSetActiveV2 F tb_units_update tb_units, wh_del = simpleDeleteV2 F (remove_rows tb_units_update) tb_units\<rparr>"
  by (simp_all add: kilo_def unit_record_def kindTablesV2_def)

lemma kilo_stored:
  "InsertV2 all_well applied plain_collation kilo small_db =
     (Inr \<lparr>wr_record = Some (kilo\<lparr>rec_id := 1, rec_revision := 1\<rparr>), wr_catalog = loaded plain_collation small_kilo_db\<rparr>, small_kilo_db)"
proof -
  obtain expected where e: "apply_mutation (loaded plain_collation small_db)
      \<lparr>mut_op = OpInsert, mut_record = kilo, mut_replacement = None\<rparr> = Inr expected"
    "EquivalentResourceCatalogs (canonicalOrderV2 (loaded plain_collation small_kilo_db)) (canonicalOrderV2 expected)"
    using small_kilo_candidate by (auto split: sum.splits)
  have "runV2CoherentTx all_well applied plain_collation (insertMutationV2 kilo) (insertUnitV2 all_well kilo) small_db
      = (Inr (1, 1, loaded plain_collation small_kilo_db), small_kilo_db)"
    using coherent_run[where F = all_well and m = "insertMutationV2 kilo" and wr = "insertUnitV2 all_well kilo",
        OF all_well _ kilo_inserted e(1) small_kilo_valid] e(2) by (simp add: insertMutationV2_def)
  then show ?thesis by (simp add: InsertV2_def kilo_handler write_result_run)
qed

section \<open>Properties\<close>

text \<open>Whatever the calls of both catalogue repositories, under whatever faults and undecided commits, the
  constraints of the migrations hold in the database they leave; the catalogue the loader hydrates from it
  has one entry for each row of each table, so no join loses or repeats a row, and no code in it dangles:
  every class, family, type, unit, definition, option set and option an entry names is in the catalogue.\<close>

theorem catalog_store_invariant:
  assumes "tables_ok db"
  shows "tables_ok (run_stores ilike coll calls db)
    \<and> complete_load (run_stores ilike coll calls db) (loaded coll (run_stores ilike coll calls db))
    \<and> closed_catalog (loaded coll (run_stores ilike coll calls db))"
  using run_stores_ok[OF assms] loaded_complete loaded_closed by blast

theorem catalog_store_invariant_witness:
  "tables_ok small_db \<and> closed_catalog (loaded plain_collation
     (run_stores (=) plain_collation [(all_well, True, RevisionInsert kilo)] small_db))"
  using small_ok catalog_store_invariant[OF small_ok] by blast

text \<open>C3: refinement: when a revision-aware write returns a result, the mutation it announces (for an update,
  a set-active or a delete built from the stored record) applies to the catalogue of the tables before, and the
  tables it leaves load to a valid catalogue with exactly the rows of the mutated one, the order of rows and the
  spelling of the default option set apart; the catalogue it returns is that one.\<close>

theorem write_refines_mutation:
  assumes "v2_result F applied ilike coll call db = (Inr result, t)"
  shows "\<exists>mutation expected. announced F ilike coll call db = (Inr mutation, db)
    \<and> apply_mutation (loaded coll db) mutation = Inr expected \<and> same_content (loaded coll t) expected
    \<and> wr_catalog result = loaded coll t \<and> validate_catalog (loaded coll t) = None"
proof -
  obtain m wr i revision c where tx: "runV2CoherentTx F applied coll m wr db = (Inr (i, revision, c), t)"
    and m: "m = announced F ilike coll call" and c: "wr_catalog result = c"
    using assms by (rule v2_result_tx)
  have "quiet m" unfolding m by (cases call) simp_all
  from coherent_Inr[OF tx this] show ?thesis unfolding m c by blast
qed

theorem write_refines_mutation_witness:
  "\<exists>expected. apply_mutation (loaded plain_collation small_db) \<lparr>mut_op = OpInsert, mut_record = kilo, mut_replacement = None\<rparr>
     = Inr expected \<and> same_content (loaded plain_collation small_kilo_db) expected"
  using write_refines_mutation[of all_well False "(=)" plain_collation "RevisionInsert kilo" small_db] kilo_stored
  by (fastforce simp: insertMutationV2_def)

end
