(* ===== verification/CatalogRevisionTheorems.thy ===== *)
theory CatalogRevisionTheorems
  imports CatalogStoreTheorems
begin

text \<open>
  The revisions of the catalogue tables: what a compare-and-swap statement decides, that a revision-aware
  write changes the revision of exactly the row it names, and that two writes that expect the same revision
  cannot both succeed.
\<close>

section \<open>Stored revisions\<close>

text \<open>The revision the server would return for a row, by the tables \<^verbatim>\<open>loadRevision\<close> reads.\<close>

definition stored_revision :: "catalog_db \<Rightarrow> gstring \<Rightarrow> int \<Rightarrow> revision option" where
  "stored_revision db table i = (case map_of revisionTables table of None \<Rightarrow> None | Some rows \<Rightarrow> map_of (rows db) i)"

definition row_revisions :: "('r pg_row_scheme) list \<Rightarrow> (int \<times> revision) list" where
  "row_revisions rows = map (\<lambda>r. (row_id r, row_revision r)) rows"

lemma row_revisions_by_id: "map_of (row_revisions rows) i = map_option row_revision (row_by_id rows i)"
  by (induction rows) (simp_all add: row_revisions_def row_by_id_def)

definition kindTable :: "(gstring, gstring) gmap" where
  "kindTable = [(KindClass, ''resource_classes''), (KindFamily, ''resource_families''), (KindType, ''resource_types''),
     (KindAttributeDefinition, ''attribute_definitions''), (KindOptionSet, ''resource_option_sets''),
     (KindOption, ''attribute_options''), (KindOptionRelation, ''attribute_option_relations''), (KindUnit, ''unit_definitions''),
     (KindUnitPolicy, ''resource_unit_policies''), (KindAttributeBinding, ''resource_attributes''),
     (KindPresentationField, ''resource_type_presentation_fields'')]"

text \<open>Exactly one revision changes, from the expected one to \<open>next\<close>.\<close>

definition swaps :: "gstring \<Rightarrow> int \<Rightarrow> revision \<Rightarrow> revision option \<Rightarrow> catalog_db \<Rightarrow> catalog_db \<Rightarrow> bool" where
  "swaps kind i er v db t \<longleftrightarrow> er \<noteq> 0 \<and> (\<exists>table. map_of kindTable kind = Some table \<and> stored_revision db table i = Some er
     \<and> (\<forall>other j. stored_revision t other j = (if other = table \<and> j = i then v else stored_revision db other j)))"

lemma stored_tables:
  "stored_revision db ''recursos'' = map_of (row_revisions (tb_resources db))"
  "stored_revision db ''resource_classes'' = map_of (row_revisions (tb_classes db))"
  "stored_revision db ''resource_families'' = map_of (row_revisions (tb_families db))"
  "stored_revision db ''resource_types'' = map_of (row_revisions (tb_types db))"
  "stored_revision db ''attribute_definitions'' = map_of (row_revisions (tb_definitions db))"
  "stored_revision db ''resource_option_sets'' = map_of (row_revisions (tb_option_sets db))"
  "stored_revision db ''attribute_options'' = map_of (row_revisions (tb_options db))"
  "stored_revision db ''attribute_option_relations'' = map_of (row_revisions (tb_relations db))"
  "stored_revision db ''unit_definitions'' = map_of (row_revisions (tb_units db))"
  "stored_revision db ''resource_unit_policies'' = map_of (row_revisions (tb_policies db))"
  "stored_revision db ''resource_attributes'' = map_of (row_revisions (tb_attributes db))"
  "stored_revision db ''resource_type_presentation_fields'' = map_of (row_revisions (tb_fields db))"
  by (simp_all add: stored_revision_def revisionTables_def row_revisions_def fun_eq_iff)

text \<open>A table's update leaves every other table's revisions alone.\<close>

lemma stored_other:
  "other \<noteq> ''resource_classes'' \<Longrightarrow> stored_revision (db\<lparr>tb_classes := r1\<rparr>) other = stored_revision db other"
  "other \<noteq> ''resource_families'' \<Longrightarrow> stored_revision (db\<lparr>tb_families := r2\<rparr>) other = stored_revision db other"
  "other \<noteq> ''resource_types'' \<Longrightarrow> stored_revision (db\<lparr>tb_types := r3\<rparr>) other = stored_revision db other"
  "other \<noteq> ''attribute_definitions'' \<Longrightarrow> stored_revision (db\<lparr>tb_definitions := r4\<rparr>) other = stored_revision db other"
  "other \<noteq> ''resource_option_sets'' \<Longrightarrow> stored_revision (db\<lparr>tb_option_sets := r5\<rparr>) other = stored_revision db other"
  "other \<noteq> ''attribute_options'' \<Longrightarrow> stored_revision (db\<lparr>tb_options := r6\<rparr>) other = stored_revision db other"
  "other \<noteq> ''attribute_option_relations'' \<Longrightarrow> stored_revision (db\<lparr>tb_relations := r7\<rparr>) other = stored_revision db other"
  "other \<noteq> ''unit_definitions'' \<Longrightarrow> stored_revision (db\<lparr>tb_units := r8\<rparr>) other = stored_revision db other"
  "other \<noteq> ''resource_unit_policies'' \<Longrightarrow> stored_revision (db\<lparr>tb_policies := r9\<rparr>) other = stored_revision db other"
  "other \<noteq> ''resource_attributes'' \<Longrightarrow> stored_revision (db\<lparr>tb_attributes := r10\<rparr>) other = stored_revision db other"
  "other \<noteq> ''resource_type_presentation_fields'' \<Longrightarrow> stored_revision (db\<lparr>tb_fields := r11\<rparr>) other = stored_revision db other"
  "stored_revision (db\<lparr>tb_rules := r12\<rparr>) other = stored_revision db other"
  "stored_revision (db\<lparr>tb_sequences := r13\<rparr>) other = stored_revision db other"
  by (simp_all add: stored_revision_def revisionTables_def fun_eq_iff)

section \<open>The statement\<close>

lemma find_row:
  assumes "distinct (map row_id rows)" "r \<in> set rows"
  shows "row_by_id rows (row_id r) = Some r"
  using assms by (induction rows) (auto simp: row_by_id_def rev_image_eqI)

lemma row_by_id_SomeD: "row_by_id rows i = Some r \<Longrightarrow> r \<in> set rows \<and> row_id r = i"
  by (auto simp: row_by_id_def find_Some_iff)

text \<open>The statement that raises the revision of the row \<open>i\<close>, when the condition picks that row and no other.\<close>

definition picks :: "('r pg_row_scheme \<Rightarrow> bool) \<Rightarrow> int \<Rightarrow> ('r pg_row_scheme) list \<Rightarrow> bool" where
  "picks match i rows \<longleftrightarrow> distinct (map row_id rows) \<and> (\<forall>r\<in>set rows. match r \<longleftrightarrow> row_id r = i)"

lemma bump_Inr:
  assumes "bind_bigint er (sql_bump sel upd (cas_row match er) f) db = (Inr v, t)"
  shows "v = er + 1 \<and> (\<exists>r\<in>set (sel db). match r \<and> row_revision r = er)
    \<and> t = upd (map (\<lambda>r. if cas_row match er r then (f r)\<lparr>row_revision := er + 1\<rparr> else r)) db"
proof -
  have "sql_bump sel upd (cas_row match er) f db = (Inr v, t)"
    using assms by (simp add: bind_bigint_def fail_def split: if_splits)
  then obtain r rs where hit: "filter (cas_row match er) (sel db) = r # rs"
    and run: "enforce db (row_revision r + 1)
      (upd (map (\<lambda>r. if cas_row match er r then (f r)\<lparr>row_revision := row_revision r + 1\<rparr> else r)) db) = (Inr v, t)"
    by (auto simp: sql_bump_def split: list.splits if_splits)
  have r: "r \<in> set (sel db)" "match r" "row_revision r = er"
    using filter_eq_ConsD[OF hit] by (auto simp: cas_row_def)
  have step: "(\<lambda>r. if cas_row match er r then (f r)\<lparr>row_revision := row_revision r + 1\<rparr> else r)
      = (\<lambda>r. if cas_row match er r then (f r)\<lparr>row_revision := er + 1\<rparr> else r)"
    by (auto simp: fun_eq_iff cas_row_def)
  show ?thesis using run r unfolding step by (auto simp: enforce_Inr)
qed

lemma bumped_rows:
  assumes "picks match i rows" "\<And>r. row_id (f r) = row_id r" "\<exists>r\<in>set rows. match r \<and> row_revision r = er"
  shows "map_of (row_revisions rows) i = Some er
    \<and> map_of (row_revisions (map (\<lambda>r. if cas_row match er r then (f r)\<lparr>row_revision := v\<rparr> else r) rows)) j
      = (if j = i then Some v else map_of (row_revisions rows) j)"
proof -
  obtain r where r: "r \<in> set rows" "match r" "row_revision r = er" using assms(3) by blast
  then have i: "row_id r = i" using assms(1) by (auto simp: picks_def)
  have here: "row_by_id rows i = Some r" using find_row[of rows r] assms(1) r(1) i by (auto simp: picks_def)
  have only: "cas_row match er x \<longleftrightarrow> row_id x = i" if "x \<in> set rows" for x
  proof
    assume "row_id x = i"
    then have "x = r" using unique_row[of row_id rows x r] that r(1) i assms(1) by (simp add: picks_def)
    then show "cas_row match er x" using r by (simp add: cas_row_def)
  qed (use that assms(1) in \<open>auto simp: picks_def cas_row_def\<close>)
  have "map_of (row_revisions (map (\<lambda>r. if cas_row match er r then (f r)\<lparr>row_revision := v\<rparr> else r) xs)) j
      = (if j = i \<and> i \<in> row_id ` set xs then Some v else map_of (row_revisions xs) j)" if "set xs \<subseteq> set rows" for xs
    using that
  proof (induction xs)
    case (Cons x xs)
    then show ?case using only[of x] assms(2)[of x] by (auto simp: row_revisions_def)
  qed (simp add: row_revisions_def)
  moreover have "i \<in> row_id ` set rows" using r(1) i by blast
  ultimately show ?thesis using here r(3) by (auto simp: row_revisions_by_id)
qed

text \<open>The statement as a step of the tables: \<open>lens\<close> says how the update writes the table it reads.\<close>

definition lens :: "gstring \<Rightarrow> (catalog_db \<Rightarrow> ('r pg_row_scheme) list)
    \<Rightarrow> ((('r pg_row_scheme) list \<Rightarrow> ('r pg_row_scheme) list) \<Rightarrow> catalog_db \<Rightarrow> catalog_db) \<Rightarrow> bool" where
  "lens table sel upd \<longleftrightarrow> (\<forall>db g. sel (upd g db) = g (sel db) \<and> stored_revision db table = map_of (row_revisions (sel db))
     \<and> (\<forall>other. other \<noteq> table \<longrightarrow> stored_revision (upd g db) other = stored_revision db other))"

lemma lenses:
  "lens ''resource_classes'' tb_classes tb_classes_update" "lens ''resource_families'' tb_families tb_families_update"
  "lens ''resource_types'' tb_types tb_types_update" "lens ''attribute_definitions'' tb_definitions tb_definitions_update"
  "lens ''resource_option_sets'' tb_option_sets tb_option_sets_update" "lens ''attribute_options'' tb_options tb_options_update"
  "lens ''attribute_option_relations'' tb_relations tb_relations_update" "lens ''unit_definitions'' tb_units tb_units_update"
  "lens ''resource_unit_policies'' tb_policies tb_policies_update" "lens ''resource_attributes'' tb_attributes tb_attributes_update"
  "lens ''resource_type_presentation_fields'' tb_fields tb_fields_update"
  by (simp_all add: lens_def stored_tables) (simp_all add: stored_revision_def revisionTables_def fun_eq_iff)

lemma bump_swaps:
  assumes "bind_bigint er (sql_bump sel upd (cas_row match er) f) db = (Inr v, t)" "lens table sel upd"
    "map_of kindTable kind = Some table" "picks match i (sel db)" "\<And>r. row_id (f r) = row_id r" "er \<noteq> 0"
  shows "v = er + 1 \<and> swaps kind i er (Some (er + 1)) db t"
proof -
  let ?g = "map (\<lambda>r. if cas_row match er r then (f r)\<lparr>row_revision := er + 1\<rparr> else r)"
  note b = bump_Inr[OF assms(1)]
  have t: "t = upd ?g db" and hit: "\<exists>r\<in>set (sel db). match r \<and> row_revision r = er" using b by blast+
  note rows = bumped_rows[OF assms(4,5) hit, of "er + 1"]
  have "stored_revision t other j = (if other = table \<and> j = i then Some (er + 1) else stored_revision db other j)" for other j
    using assms(2) rows[of j] unfolding t lens_def by (cases "other = table") auto
  moreover have "stored_revision db table i = Some er" using assms(2) rows unfolding lens_def by auto
  ultimately show ?thesis using b assms(3,6) unfolding swaps_def by blast
qed

lemma swap_statement_Inr:
  "bnd (try_stmt m) (\<lambda>result. case result of Inr revision \<Rightarrow> ret revision | Inl (Broken f) \<Rightarrow> fail (w f)
     | Inl NoRows \<Rightarrow> stale_or_absent F operation current) db = (Inr v, t) \<longleftrightarrow> m db = (Inr v, t)"
  by (auto simp: bnd_Inr try_stmt_def stale_or_absent_def fail_def ret_def split: prod.splits sum.splits db_error.splits)

lemma cas_update_Inr: "casUpdateRevision F update sel i er db = (Inr v, t)
    \<longleftrightarrow> er \<noteq> 0 \<and> F ''cas update'' 0 = None \<and> bind_bigint er update db = (Inr v, t)"
  by (simp add: casUpdateRevision_def fail_def swap_statement_Inr stmt_Inr)

lemma cas_bump_swaps:
  assumes "casUpdateRevision F (sql_bump sel upd (cas_row match er) f) sel' i' er db = (Inr v, t)" "lens table sel upd"
    "map_of kindTable kind = Some table" "picks match i (sel db)" "\<And>r. row_id (f r) = row_id r"
  shows "v = er + 1 \<and> swaps kind i er (Some (er + 1)) db t"
  using assms bump_swaps by (metis cas_update_Inr)

text \<open>A delete: \<open>drops\<close> says how the removal writes the table.\<close>

definition drops :: "gstring \<Rightarrow> (catalog_db \<Rightarrow> ('r pg_row_scheme) list) \<Rightarrow> (('r pg_row_scheme \<Rightarrow> bool) \<Rightarrow> catalog_db \<Rightarrow> catalog_db) \<Rightarrow> bool" where
  "drops table sel remove \<longleftrightarrow> (\<forall>db p. stored_revision db table = map_of (row_revisions (sel db))
     \<and> stored_revision (remove p db) table = map_of (row_revisions (filter (\<lambda>r. \<not> p r) (sel db)))
     \<and> (\<forall>other. other \<noteq> table \<longrightarrow> stored_revision (remove p db) other = stored_revision db other))"

lemma lens_drops: "lens table sel upd \<Longrightarrow> drops table sel (remove_rows upd)"
  by (simp add: lens_def drops_def remove_rows_def)

lemma attribute_drops: "drops ''resource_attributes'' tb_attributes remove_attributes"
  by (simp add: drops_def remove_attributes_def Let_def stored_tables)
    (simp add: stored_revision_def revisionTables_def fun_eq_iff)

lemma dropped_rows:
  assumes "picks match i rows" "\<exists>r\<in>set rows. cas_row match er r"
  shows "map_of (row_revisions rows) i = Some er
    \<and> map_of (row_revisions (filter (\<lambda>r. \<not> cas_row match er r) rows)) j = (if j = i then None else map_of (row_revisions rows) j)"
proof -
  obtain r where r: "r \<in> set rows" "match r" "row_revision r = er" using assms(2) by (auto simp: cas_row_def)
  then have i: "row_id r = i" using assms(1) by (auto simp: picks_def)
  have here: "row_by_id rows i = Some r" using find_row[of rows r] assms(1) r(1) i by (auto simp: picks_def)
  have only: "cas_row match er x \<longleftrightarrow> row_id x = i" if "x \<in> set rows" for x
  proof
    assume "row_id x = i"
    then have "x = r" using unique_row[of row_id rows x r] that r(1) i assms(1) by (simp add: picks_def)
    then show "cas_row match er x" using r by (simp add: cas_row_def)
  qed (use that assms(1) in \<open>auto simp: picks_def cas_row_def\<close>)
  have "map_of (row_revisions (filter (\<lambda>r. \<not> cas_row match er r) xs)) j = (if j = i then None else map_of (row_revisions xs) j)"
    if "set xs \<subseteq> set rows" for xs
    using that
  proof (induction xs)
    case (Cons x xs)
    then show ?case using only[of x] by (auto simp: row_revisions_def)
  qed (simp add: row_revisions_def)
  then show ?thesis using here r(3) by (auto simp: row_revisions_by_id)
qed

lemma cas_delete_Inr:
  assumes "casDeleteRevision F (sql_delete sel remove (cas_row match er)) sel' i' er db = (Inr x, t)"
  shows "er \<noteq> 0 \<and> (\<exists>r\<in>set (sel db). cas_row match er r) \<and> t = remove (cas_row match er) db"
proof -
  obtain n u where run: "er \<noteq> 0" "stmt F ''cas delete'' 0 (bind_bigint er (sql_delete sel remove (cas_row match er))) db = (Inr n, u)"
      "0 < n" "t = u"
    using assms
    by (auto simp: casDeleteRevision_def bnd_Inr try_stmt_def stale_or_absent_def fail_def ret_def
        split: prod.splits sum.splits db_error.splits if_splits)
  then have "sql_delete sel remove (cas_row match er) db = (Inr n, u)"
    by (auto simp: stmt_Inr bind_bigint_def fail_def split: if_splits)
  then have "n = int (length (filter (cas_row match er) (sel db)))" "u = remove (cas_row match er) db"
    by (auto simp: sql_delete_def enforce_Inr)
  then show ?thesis using run by (auto simp: filter_empty_conv)
qed

lemma simple_delete_swaps:
  assumes "simpleDeleteV2 F remove sel i er db = (Inr x, t)" "drops table sel remove" "map_of kindTable kind = Some table"
    "distinct (map row_id (sel db))"
  shows "swaps kind i er None db t"
proof -
  let ?match = "\<lambda>r. row_id r = i"
  have picked: "picks ?match i (sel db)" using assms(4) by (simp add: picks_def)
  note d = cas_delete_Inr[OF assms(1)[unfolded simpleDeleteV2_def]]
  note rows = dropped_rows[OF picked, of er]
  have view: "stored_revision db table = map_of (row_revisions (sel db))"
    "stored_revision t table = map_of (row_revisions (filter (\<lambda>r. \<not> cas_row ?match er r) (sel db)))"
    "other \<noteq> table \<Longrightarrow> stored_revision t other = stored_revision db other" for other
    using assms(2) d unfolding drops_def by metis+
  have "stored_revision t other j = (if other = table \<and> j = i then None else stored_revision db other j)" for other j
    using view rows[of j] d by (cases "other = table") auto
  moreover have "stored_revision db table i = Some er" using view(1) rows d by auto
  ultimately show ?thesis using d assms(3) unfolding swaps_def by blast
qed

lemma simple_set_active_swaps:
  assumes "simpleSetActiveV2 F upd sel i active er db = (Inr v, t)" "lens table sel upd" "map_of kindTable kind = Some table"
    "distinct (map row_id (sel db))"
  shows "v = er + 1 \<and> swaps kind i er (Some (er + 1)) db t"
  using cas_bump_swaps[OF assms(1)[unfolded simpleSetActiveV2_def] assms(2,3), where i = i] assms(4) by (simp add: picks_def)

section \<open>The handlers\<close>

lemma tables_ok_ids:
  assumes "tables_ok db"
  shows "distinct (map row_id (tb_option_sets db))" "distinct (map row_id (tb_options db))" "distinct (map row_id (tb_relations db))"
    "distinct (map row_id (tb_policies db))" "distinct (map row_id (tb_fields db))"
    "distinct (map (\<lambda>p. (po_family p, po_unit p)) (tb_policies db))" "distinct (map (\<lambda>x. (fi_type x, fi_definition x)) (tb_fields db))"
    "distinct (map de_code (tb_definitions db))"
  using tables_ok_parts[OF assms]
  by (simp_all add: option_set_constraints_def option_constraints_def relation_constraints_def policy_constraints_def
      field_constraints_def definition_constraints_def constraint_simps)

lemma read_Inr:
  "read_row F l missing sel db = (Inr x, u) \<longleftrightarrow> F l 0 = None \<and> sel db = Some x \<and> u = db"
  "read_exists F l p db = (Inr b, u) \<longleftrightarrow> F l 0 = None \<and> b = p db \<and> u = db"
  by (auto simp: read_row_def read_exists_def stmt_Inr asks_def)

lemma picks_id: "distinct (map row_id rows) \<Longrightarrow> picks (\<lambda>r. row_id r = i) i rows"
  by (simp add: picks_def)

lemma picks_key:
  assumes "distinct (map row_id rows)" "distinct (map key rows)" "x \<in> set rows" "row_id x = i"
  shows "picks (\<lambda>r. key r = key x) i rows"
  using assms unique_row[of row_id rows] unique_row[of key rows] unfolding picks_def by blast

lemma picks_policy:
  assumes "tables_ok db" "resolve_policy F i db = (Inr key, u)"
  shows "picks (\<lambda>p. (po_family p, po_unit p) = key) i (tb_policies db) \<and> u = db"
  using assms picks_key[OF tables_ok_ids(4)[OF assms(1)] tables_ok_ids(6)[OF assms(1)]]
  by (auto simp: resolve_policy_def read_Inr dest!: row_by_id_SomeD)

lemma picks_field:
  assumes "tables_ok db" "resolve_field F i db = (Inr key, u)"
  shows "picks (\<lambda>x. (fi_type x, fi_definition x) = key) i (tb_fields db) \<and> u = db"
  using assms picks_key[OF tables_ok_ids(5)[OF assms(1)] tables_ok_ids(7)[OF assms(1)]]
  by (auto simp: resolve_field_def read_Inr dest!: row_by_id_SomeD)

lemma definition_id_of:
  assumes "tables_ok db" "d \<in> set (tb_definitions db)"
  shows "definition_id db (de_code d) = Some (row_id d)"
proof (cases "find (\<lambda>e. de_code e = de_code d) (tb_definitions db)")
  case None
  then show ?thesis using assms(2) by (auto simp: find_None_iff)
next
  case (Some e)
  then have "e \<in> set (tb_definitions db)" "de_code e = de_code d" by (auto simp: find_Some_iff)
  then have "e = d" using unique_row[OF tables_ok_ids(8)[OF assms(1)] _ assms(2)] by blast
  then show ?thesis using Some by (simp add: definition_id_def)
qed

lemma find_in: "find p xs = Some x \<Longrightarrow> x \<in> set xs \<and> p x"
  by (auto simp: find_Some_iff)

lemma picks_option:
  assumes "tables_ok db" "resolve_option F i db = (Inr key, u)"
  shows "picks (option_at db key) i (tb_options db) \<and> u = db"
proof -
  obtain x d where f: "find (\<lambda>(x, d). row_id x = i) (join_options db) = Some (x, d)" and u: "u = db"
    and key: "key = (op_set x, de_code d, op_code x)"
    using assms(2) by (auto simp: resolve_option_def read_Inr)
  then have x: "row_id x = i" "(x, d) \<in> set (join_options db)" by (auto dest!: find_in)
  have "option_at db key r \<longleftrightarrow> option_key r = option_key x" for r
    using x(2) definition_id_of[OF assms(1), of d] by (auto simp: option_at_def key option_key_def in_joins)
  then show ?thesis
    using picks_key[OF tables_ok_ids(2)[OF assms(1)] tables_ok_keys(7)[OF assms(1)], of x i] x u by (simp add: in_joins picks_def)
qed

lemma set_rows_id [simp]:
  "row_id (set_class b r x1) = row_id x1" "row_id (set_family b i r x2) = row_id x2" "row_id (set_type b i j r x3) = row_id x3"
  "row_id (set_definition b r x4) = row_id x4" "row_id (set_option_set b r x5) = row_id x5" "row_id (set_option b r x6) = row_id x6"
  "row_id (set_relation i j r x7) = row_id x7" "row_id (set_unit b r x8) = row_id x8" "row_id (set_policy r x9) = row_id x9"
  "row_id (set_field r x10) = row_id x10" "row_id (set_attribute br r x11) = row_id x11"
  by (simp_all add: set_class_def set_family_def set_type_def set_definition_def set_option_set_def set_option_def set_relation_def
      set_unit_def set_policy_def set_field_def set_attribute_def Let_def)

lemma resolved_state:
  "resolveClassID F c db = (Inr x1, u) \<Longrightarrow> u = db" "resolveFamilyID F c f db = (Inr x2, u) \<Longrightarrow> u = db"
  "resolve_binding_refs F r db = (Inr x3, u) \<Longrightarrow> u = db"
  using resolve_steps(1,2,6)[of "\<lambda>u. u = db"] unfolding steps_in_def by (metis snd_conv)+

lemma referenced_Inr:
  "classReferencedByResources F i db = (Inr b1, u) \<Longrightarrow> u = db" "familyReferencedByResources F i db = (Inr b2, u) \<Longrightarrow> u = db"
  "typeReferencedByResources F i db = (Inr b3, u) \<Longrightarrow> u = db" "definitionReferencedByResources F i db = (Inr b4, u) \<Longrightarrow> u = db"
  "optionSetReferencedByResources F i db = (Inr b5, u) \<Longrightarrow> u = db" "optionReferencedByResources F i db = (Inr b6, u) \<Longrightarrow> u = db"
  "unitReferencedByResources F i db = (Inr b7, u) \<Longrightarrow> u = db"
  using referenced_steps[of "\<lambda>u. u = db"] unfolding steps_in_def by (metis snd_conv)+

lemma kind_tables:
  "map_of kindTable KindClass = Some ''resource_classes''" "map_of kindTable KindFamily = Some ''resource_families''"
  "map_of kindTable KindType = Some ''resource_types''" "map_of kindTable KindAttributeDefinition = Some ''attribute_definitions''"
  "map_of kindTable KindOptionSet = Some ''resource_option_sets''" "map_of kindTable KindOption = Some ''attribute_options''"
  "map_of kindTable KindOptionRelation = Some ''attribute_option_relations''" "map_of kindTable KindUnit = Some ''unit_definitions''"
  "map_of kindTable KindUnitPolicy = Some ''resource_unit_policies''" "map_of kindTable KindAttributeBinding = Some ''resource_attributes''"
  "map_of kindTable KindPresentationField = Some ''resource_type_presentation_fields''"
  by (simp_all add: kindTable_def)

lemma update_swaps_by_id:
  assumes "tables_ok db"
  shows "updateClassV2 F r er db = (Inr v, t) \<Longrightarrow> v = er + 1 \<and> swaps KindClass (rec_id r) er (Some (er + 1)) db t"
    "updateFamilyV2 F r er db = (Inr v, t) \<Longrightarrow> v = er + 1 \<and> swaps KindFamily (rec_id r) er (Some (er + 1)) db t"
    "updateTypeV2 F r er db = (Inr v, t) \<Longrightarrow> v = er + 1 \<and> swaps KindType (rec_id r) er (Some (er + 1)) db t"
    "updateDefinitionV2 F r er db = (Inr v, t) \<Longrightarrow> v = er + 1 \<and> swaps KindAttributeDefinition (rec_id r) er (Some (er + 1)) db t"
    "updateOptionSetV2 F r er db = (Inr v, t) \<Longrightarrow> v = er + 1 \<and> swaps KindOptionSet (rec_id r) er (Some (er + 1)) db t"
    "updateUnitV2 F r er db = (Inr v, t) \<Longrightarrow> v = er + 1 \<and> swaps KindUnit (rec_id r) er (Some (er + 1)) db t"
proof -
  note ids = tables_ok_keys[OF assms] tables_ok_ids[OF assms]
  show "v = er + 1 \<and> swaps KindClass (rec_id r) er (Some (er + 1)) db t" if "updateClassV2 F r er db = (Inr v, t)"
    using that by (auto simp: updateClassV2_def bnd_Inr dest!: referenced_Inr
        dest: cas_bump_swaps[OF _ lenses(1) kind_tables(1) picks_id[OF ids(1)] set_rows_id(1)])
  show "v = er + 1 \<and> swaps KindFamily (rec_id r) er (Some (er + 1)) db t" if "updateFamilyV2 F r er db = (Inr v, t)"
    using that by (auto simp: updateFamilyV2_def bnd_Inr dest!: referenced_Inr resolved_state
        dest: cas_bump_swaps[OF _ lenses(2) kind_tables(2) picks_id[OF ids(2)] set_rows_id(2)])
  show "v = er + 1 \<and> swaps KindType (rec_id r) er (Some (er + 1)) db t" if "updateTypeV2 F r er db = (Inr v, t)"
    using that by (auto simp: updateTypeV2_def bnd_Inr dest!: referenced_Inr resolved_state
        dest: cas_bump_swaps[OF _ lenses(3) kind_tables(3) picks_id[OF ids(3)] set_rows_id(3)])
  show "v = er + 1 \<and> swaps KindAttributeDefinition (rec_id r) er (Some (er + 1)) db t" if "updateDefinitionV2 F r er db = (Inr v, t)"
    using that by (auto simp: updateDefinitionV2_def bnd_Inr dest!: referenced_Inr
        dest: cas_bump_swaps[OF _ lenses(4) kind_tables(4) picks_id[OF ids(5)] set_rows_id(4)])
  show "v = er + 1 \<and> swaps KindOptionSet (rec_id r) er (Some (er + 1)) db t" if "updateOptionSetV2 F r er db = (Inr v, t)"
    using that by (auto simp: updateOptionSetV2_def bnd_Inr dest!: referenced_Inr
        dest: cas_bump_swaps[OF _ lenses(5) kind_tables(5) picks_id[OF tables_ok_ids(1)[OF assms]] set_rows_id(5)])
  show "v = er + 1 \<and> swaps KindUnit (rec_id r) er (Some (er + 1)) db t" if "updateUnitV2 F r er db = (Inr v, t)"
    using that by (auto simp: updateUnitV2_def bnd_Inr dest!: referenced_Inr
        dest: cas_bump_swaps[OF _ lenses(8) kind_tables(8) picks_id[OF ids(4)] set_rows_id(8)])
qed

lemma bind_bigint_Inr: "bind_bigint v act s = (Inr x, t) \<longleftrightarrow> \<not> bigint_max < v \<and> act s = (Inr x, t)"
  by (simp add: bind_bigint_def fail_def)

lemma update_swaps_by_key:
  assumes "tables_ok db"
  shows "updateOptionV2 F r er db = (Inr v, t) \<Longrightarrow> v = er + 1 \<and> swaps KindOption (rec_id r) er (Some (er + 1)) db t"
    "updateUnitPolicyV2 F r er db = (Inr v, t) \<Longrightarrow> v = er + 1 \<and> swaps KindUnitPolicy (rec_id r) er (Some (er + 1)) db t"
    "updatePresentationFieldV2 F r er db = (Inr v, t)
       \<Longrightarrow> v = er + 1 \<and> swaps KindPresentationField (rec_id r) er (Some (er + 1)) db t"
    "updateOptionRelationV2 F r er db = (Inr v, t)
       \<Longrightarrow> v = er + 1 \<and> swaps KindOptionRelation (rec_id r) er (Some (er + 1)) db t"
proof -
  assume "updateOptionV2 F r er db = (Inr v, t)"
  then obtain key u referenced w where key: "resolve_option F (rec_id r) db = (Inr key, u)"
    "optionReferencedByResources F (rec_id r) u = (Inr referenced, w)"
    and run: "er \<noteq> 0" "bind_bigint er (\<lambda>db. sql_bump tb_options tb_options_update (cas_row (option_at db key) er)
       (set_option referenced r) db) w = (Inr v, t)"
    by (auto simp: updateOptionV2_def bnd_Inr cas_update_Inr)
  note picked = picks_option[OF assms key(1)]
  then have "bind_bigint er (sql_bump tb_options tb_options_update (cas_row (option_at db key) er) (set_option referenced r)) db = (Inr v, t)"
    using run(2) referenced_Inr(6)[OF key(2)] by (simp add: bind_bigint_Inr)
  from bump_swaps[OF this lenses(6) kind_tables(6) _ set_rows_id(6) run(1)] picked
  show "v = er + 1 \<and> swaps KindOption (rec_id r) er (Some (er + 1)) db t" by blast
next
  assume "updateUnitPolicyV2 F r er db = (Inr v, t)"
  then show "v = er + 1 \<and> swaps KindUnitPolicy (rec_id r) er (Some (er + 1)) db t"
    by (auto simp only: updateUnitPolicyV2_def bnd_Inr dest!: picks_policy[OF assms]
        dest: cas_bump_swaps[OF _ lenses(9) kind_tables(9) _ set_rows_id(9)])
next
  assume "updatePresentationFieldV2 F r er db = (Inr v, t)"
  then show "v = er + 1 \<and> swaps KindPresentationField (rec_id r) er (Some (er + 1)) db t"
    by (auto simp only: updatePresentationFieldV2_def bnd_Inr dest!: picks_field[OF assms]
        dest: cas_bump_swaps[OF _ lenses(11) kind_tables(11) _ set_rows_id(10)])
next
  assume "updateOptionRelationV2 F r er db = (Inr v, t)"
  then obtain i j where run: "er \<noteq> 0" "bind_bigint er (sql_bump tb_relations tb_relations_update
      (cas_row (\<lambda>x. row_id x = rec_id r) er) (set_relation i j r)) db = (Inr v, t)"
    by (auto simp: updateOptionRelationV2_def Let_def cas_update_Inr bind_bigint_Inr with_definitions_def split: option.splits if_splits)
  from bump_swaps[OF run(2) lenses(7) kind_tables(7) picks_id[OF tables_ok_ids(3)[OF assms]] set_rows_id(7) run(1)]
  show "v = er + 1 \<and> swaps KindOptionRelation (rec_id r) er (Some (er + 1)) db t" .
qed

text \<open>The rules of a binding have no revision of their own: replacing them changes none.\<close>

definition same_revisions :: "catalog_db \<Rightarrow> catalog_db \<Rightarrow> bool" where
  "same_revisions db t \<longleftrightarrow> stored_revision t = stored_revision db"

lemma enforce_revisions:
  assumes "stored_revision u = R" "stored_revision t = R"
  shows "stored_revision (snd (enforce t x u)) = R"
  using assms by (auto simp: enforce_def undo_tables_def stored_other fun_eq_iff split: option.split)

lemma rules_revisions: "stored_revision (tb_rules_update g db) = stored_revision db"
  by (simp add: stored_revision_def revisionTables_def fun_eq_iff)

lemma sequences_revisions: "stored_revision (tb_sequences_update g db) = stored_revision db"
  by (simp add: stored_revision_def revisionTables_def fun_eq_iff)

lemma rule_steps: "steps_in (\<lambda>t. stored_revision t = R) (insert_rule F i order rule)"
proof -
  have "steps_in (\<lambda>t. stored_revision t = R) (sql_insert table tb_rules_update build)" for table build
    unfolding steps_in_def sql_insert_def Let_def
    by (auto simp: enforce_revisions rules_revisions sequences_revisions split: option.split)
  then show ?thesis unfolding insert_rule_def by (intro steps_in_bnd resolve_steps steps_in_map_err steps_in_stmt)
qed

lemma replace_rules_steps: "steps_in (\<lambda>t. stored_revision t = R) (replaceApplicabilityRulesV2 F i rules)"
proof -
  have ins: "steps_in (\<lambda>t. stored_revision t = R) (insert_rules_from F i order rules)" for order
    by (induction F i order rules rule: insert_rules_from.induct) (auto simp: rule_steps)
  have "steps_in (\<lambda>t. stored_revision t = R) (sql_delete tb_rules (remove_rows tb_rules_update) match)" for match
    unfolding steps_in_def sql_delete_def remove_rows_def by (auto simp: enforce_revisions rules_revisions)
  then show ?thesis unfolding replaceApplicabilityRulesV2_def insertApplicabilityRulesV2_def
    by (intro steps_in_bnd row_write_steps ins)
qed

lemma update_applicability_swaps:
  assumes "tables_ok db" "update_applicability F r er db = (Inr v, t)"
  shows "v = er + 1 \<and> swaps KindAttributeBinding (rec_id r) er (Some (er + 1)) db t"
proof -
  obtain u x where parent: "updateApplicabilityParentV2 F r er db = (Inr v, u)"
    and rules: "replaceApplicabilityRulesV2 F (rec_id r) (record_rules r) u = (Inr x, t)"
    using assms(2) by (auto simp: update_applicability_def bnd_Inr ret_def)
  obtain b where run: "er \<noteq> 0" "bind_bigint er (sql_bump tb_attributes tb_attributes_update
      (cas_row (\<lambda>a. row_id a = rec_id r) er) (set_attribute b r)) db = (Inr v, u)"
    using parent
    by (auto simp: updateApplicabilityParentV2_def bnd_Inr[of "resolve_binding_refs F r"] swap_statement_Inr stmt_Inr
        split: if_splits dest!: resolved_state)
  note s = bump_swaps[OF run(2) lenses(10) kind_tables(10) picks_id[OF tables_ok_keys(8)[OF assms(1)]] set_rows_id(11) run(1)]
  moreover have "stored_revision t = stored_revision u"
    using replace_rules_steps[of "stored_revision u" F "rec_id r" "record_rules r"] rules unfolding steps_in_def by (metis snd_conv)
  ultimately show ?thesis by (simp add: swaps_def)
qed

section \<open>The repository\<close>

definition handler_swaps :: "catalog_db \<Rightarrow> gstring \<Rightarrow> write_handlers \<Rightarrow> bool" where
  "handler_swaps db kind h \<longleftrightarrow>
     (\<forall>upd r er v t. wh_update h = Some upd \<longrightarrow> upd r er db = (Inr v, t) \<longrightarrow> v = er + 1 \<and> swaps kind (rec_id r) er (Some (er + 1)) db t) \<and>
     (\<forall>i active er v t. wh_set_active h i active er db = (Inr v, t) \<longrightarrow> v = er + 1 \<and> swaps kind i er (Some (er + 1)) db t) \<and>
     (\<forall>i er x t. wh_del h i er db = (Inr x, t) \<longrightarrow> swaps kind i er None db t)"

lemma handler_swapsI:
  assumes "lens table sel upd" "drops table sel remove" "map_of kindTable kind = Some table" "distinct (map row_id (sel db))"
    "\<And>f r er v t. update = Some f \<Longrightarrow> f r er db = (Inr v, t) \<Longrightarrow> v = er + 1 \<and> swaps kind (rec_id r) er (Some (er + 1)) db t"
  shows "handler_swaps db kind \<lparr>wh_insert = ins, wh_update = update, wh_set_active = simpleSetActiveV2 F upd sel,
    wh_del = simpleDeleteV2 F remove sel\<rparr>"
  unfolding handler_swaps_def write_handlers.simps
  using assms(5) simple_set_active_swaps[OF _ assms(1,3,4)] simple_delete_swaps[OF _ assms(2,3,4)] by blast

lemma handlers_swap:
  assumes "tables_ok db" "map_of (kindTablesV2 F) kind = Some h"
  shows "handler_swaps db kind h"
proof -
  note keys = tables_ok_keys[OF assms(1)] and ids = tables_ok_ids[OF assms(1)]
  note u = update_swaps_by_id[OF assms(1)] update_swaps_by_key[OF assms(1)]
  have "list_all (\<lambda>(kind, h). handler_swaps db kind h) (kindTablesV2 F)"
    unfolding kindTablesV2_def list.pred_inject prod.case
  proof (intro conjI)
    show "handler_swaps db KindClass \<lparr>wh_insert = Some (insertClassV2 F), wh_update = Some (updateClassV2 F),
       wh_set_active = simpleSetActiveV2 F tb_classes_update tb_classes,
       wh_del = simpleDeleteV2 F (remove_rows tb_classes_update) tb_classes\<rparr>"
      by (rule handler_swapsI[OF lenses(1) lens_drops[OF lenses(1)] kind_tables(1) keys(1)]) (metis option.inject u(1))
  qed (rule handler_swapsI[OF lenses(2) lens_drops[OF lenses(2)] kind_tables(2) keys(2)], metis option.inject u(2),
      rule handler_swapsI[OF lenses(3) lens_drops[OF lenses(3)] kind_tables(3) keys(3)], metis option.inject u(3),
      rule handler_swapsI[OF lenses(4) lens_drops[OF lenses(4)] kind_tables(4) keys(5)], metis option.inject u(4),
      rule handler_swapsI[OF lenses(5) lens_drops[OF lenses(5)] kind_tables(5) ids(1)], metis option.inject u(5),
      rule handler_swapsI[OF lenses(6) lens_drops[OF lenses(6)] kind_tables(6) ids(2)], metis option.inject u(7),
      rule handler_swapsI[OF lenses(7) lens_drops[OF lenses(7)] kind_tables(7) ids(3)], metis option.inject u(10),
      rule handler_swapsI[OF lenses(8) lens_drops[OF lenses(8)] kind_tables(8) keys(4)], metis option.inject u(6),
      rule handler_swapsI[OF lenses(9) lens_drops[OF lenses(9)] kind_tables(9) ids(4)], metis option.inject u(8),
      rule handler_swapsI[OF lenses(10) attribute_drops kind_tables(10) keys(8)], simp,
      rule handler_swapsI[OF lenses(11) lens_drops[OF lenses(11)] kind_tables(11) ids(5)], metis option.inject u(9), simp)
  then show ?thesis using map_of_SomeD[OF assms(2)] unfolding list_all_iff by blast
qed

text \<open>The row a revision-aware call names with the revision it expects, and the revision it leaves.\<close>

fun target :: "store_call \<Rightarrow> (gstring \<times> int \<times> revision) option" where
  "target (RevisionUpdate r er) = Some (rec_kind r, rec_id r, er)"
| "target (RevisionSetActive kind i active er) = Some (kind, i, er)"
| "target (RevisionDelete kind i er) = Some (kind, i, er)"
| "target _ = None"

fun outcome :: "store_call \<Rightarrow> revision option" where
  "outcome (RevisionUpdate r er) = Some (er + 1)"
| "outcome (RevisionSetActive kind i active er) = Some (er + 1)"
| "outcome _ = None"

lemma coherent_wr:
  "runV2CoherentTx F applied coll m wr db = (Inr (i, v, c), t) \<Longrightarrow> quiet m \<Longrightarrow> wr db = (Inr (i, v), t)"
  using coherent_Inr by blast

lemma write_result_wr:
  assumes "write_result r (runV2CoherentTx F applied coll m wr) db = (Inr result, t)" "quiet m"
  shows "\<exists>i v. wr db = (Inr (i, v), t) \<and> wr_record result = Some (r\<lparr>rec_id := i, rec_revision := v\<rparr>)"
proof -
  obtain i v c where "runV2CoherentTx F applied coll m wr db = (Inr (i, v, c), t)"
    "wr_record result = Some (r\<lparr>rec_id := i, rec_revision := v\<rparr>)"
    using assms(1) by (auto simp: write_result_def bnd_Inr ret_def)
  then show ?thesis using coherent_wr[OF _ assms(2)] by blast
qed

lemma update_v2_wr:
  assumes "UpdateV2 F applied ilike coll r er db = (Inr result, t)"
  obtains f v where "f r er db = (Inr v, t)" "wr_record result = Some (r\<lparr>rec_id := rec_id r, rec_revision := v\<rparr>)"
    "rec_kind r = KindAttributeBinding \<and> f = update_applicability F
     \<or> (\<exists>h. map_of (kindTablesV2 F) (rec_kind r) = Some h \<and> wh_update h = Some f)"
proof -
  obtain f where run: "write_result r (runV2CoherentTx F applied coll (updateMutationV2 F ilike coll r)
      (bnd (f r er) (\<lambda>revision. ret (rec_id r, revision)))) db = (Inr result, t)"
    and f: "rec_kind r = KindAttributeBinding \<and> f = update_applicability F
      \<or> (\<exists>h. map_of (kindTablesV2 F) (rec_kind r) = Some h \<and> wh_update h = Some f)"
    using assms
    by (auto simp: UpdateV2_def updateApplicabilityAggregateV2_def bnd_require fail_def bind_eq_Some_conv
        split: if_splits option.splits)
  from write_result_wr[OF run mutation_quiet(2)] obtain v where
    "f r er db = (Inr v, t)" "wr_record result = Some (r\<lparr>rec_id := rec_id r, rec_revision := v\<rparr>)"
    by (auto simp: bnd_Inr ret_def)
  then show ?thesis using that f by blast
qed

lemma v2_result_swaps:
  assumes "tables_ok db" "v2_result F applied ilike coll call db = (Inr result, t)" "target call = Some (kind, i, er)"
  shows "swaps kind i er (outcome call) db t"
proof (cases call)
  case (RevisionUpdate r er')
  then have t: "kind = rec_kind r" "i = rec_id r" "er' = er" and run: "UpdateV2 F applied ilike coll r er db = (Inr result, t)"
    using assms(2,3) by auto
  from run obtain f v where f: "f r er db = (Inr v, t)"
    "rec_kind r = KindAttributeBinding \<and> f = update_applicability F
     \<or> (\<exists>h. map_of (kindTablesV2 F) (rec_kind r) = Some h \<and> wh_update h = Some f)" by (rule update_v2_wr)
  from f(2) have "swaps (rec_kind r) (rec_id r) er (Some (er + 1)) db t"
  proof
    assume "rec_kind r = KindAttributeBinding \<and> f = update_applicability F"
    then show ?thesis using update_applicability_swaps[OF assms(1)] f(1) by metis
  next
    assume "\<exists>h. map_of (kindTablesV2 F) (rec_kind r) = Some h \<and> wh_update h = Some f"
    then show ?thesis using handlers_swap[OF assms(1)] f(1) unfolding handler_swaps_def by blast
  qed
  then show ?thesis by (simp add: RevisionUpdate t)
next
  case (RevisionSetActive k j active er')
  then obtain h where h: "map_of (kindTablesV2 F) kind = Some h"
    and run: "write_result \<lparr>rec_kind = kind, rec_id = i, rec_revision = 0, rec_active = active, rec_values = [], rec_rules = None\<rparr>
      (runV2CoherentTx F applied coll (lifecycleMutationV2 F ilike coll kind i (if active then OpReactivate else OpDeactivate))
        (bnd (wh_set_active h i active er) (\<lambda>revision. ret (i, revision)))) db = (Inr result, t)"
    using assms(2,3) by (auto simp: SetActiveV2_def fail_def split: option.splits)
  from write_result_wr[OF run mutation_quiet(3)] obtain v where "wh_set_active h i active er db = (Inr v, t)"
    by (auto simp: bnd_Inr ret_def)
  then have "swaps kind i er (Some (er + 1)) db t" using handlers_swap[OF assms(1) h] unfolding handler_swaps_def by blast
  then show ?thesis using assms(3) RevisionSetActive by simp
next
  case (RevisionDelete k j er')
  then obtain h i' v c where h: "map_of (kindTablesV2 F) kind = Some h"
    and run: "runV2CoherentTx F applied coll (lifecycleMutationV2 F ilike coll kind i OpDelete)
        (bnd (wh_del h i er) (\<lambda>_. ret (0, 0))) db = (Inr (i', v, c), t)"
    using assms(2,3) by (auto simp: DeleteV2_def bnd_Inr ret_def fail_def split: option.splits)
  from coherent_wr[OF run mutation_quiet(3)] obtain x where "wh_del h i er db = (Inr x, t)"
    by (auto simp: bnd_Inr ret_def)
  then show ?thesis using handlers_swap[OF assms(1) h] assms(3) RevisionDelete unfolding handler_swaps_def by auto
qed (use assms in simp_all)

lemma v2_result_steps: "steps_in tables_ok (v2_result F applied ilike coll call)"
  by (cases call) (simp_all add: insert_v2_steps update_v2_steps lifecycle_v2_steps)

section \<open>Properties\<close>

definition no_match :: pattern_match where "no_match s p = False"

definition kilo_off_db :: catalog_db where
  "kilo_off_db = snd (simpleSetActiveV2 all_well tb_units_update tb_units 1 False 1 small_kilo_db)"

lemma kilo_switched: "simpleSetActiveV2 all_well tb_units_update tb_units 1 False 1 small_kilo_db = (Inr 2, kilo_off_db)"
proof -
  have "fst (simpleSetActiveV2 all_well tb_units_update tb_units 1 False 1 small_kilo_db) = Inr 2" by code_simp
  then show ?thesis by (simp add: kilo_off_db_def prod_eq_iff)
qed

lemma kilo_off_valid: "validate_catalog (loaded plain_collation kilo_off_db) = None" by code_simp

lemma small_kilo_ok: "tables_ok small_kilo_db" by code_simp

definition stored_kilo :: catalog_record where
  "stored_kilo = row_record KindUnit \<lparr>row_id = 1, row_revision = 1, row_active = True, un_code = ''KG'', un_name = ''Metro'',
     un_symbol = ''KG'', un_dimension = ''L''\<rparr> [(''code'', textValue ''KG''), (''name'', textValue ''Metro''),
     (''symbol'', textValue ''KG''), (''dimension'', textValue ''L'')]"

lemma kilo_read: "getUnit all_well 1 small_kilo_db = (Inr stored_kilo, small_kilo_db)"
proof -
  have "fst (getUnit all_well 1 small_kilo_db) = Inr stored_kilo" by code_simp
  moreover have "snd (getUnit all_well 1 small_kilo_db) = small_kilo_db"
    using get_steps(8)[of "\<lambda>u. u = small_kilo_db" all_well 1] unfolding steps_in_def by simp
  ultimately show ?thesis by (simp add: prod_eq_iff)
qed

lemma kilo_off_candidate:
  "case apply_mutation (loaded plain_collation small_kilo_db) \<lparr>mut_op = OpDeactivate, mut_record = stored_kilo, mut_replacement = None\<rparr> of
     Inr expected \<Rightarrow> EquivalentResourceCatalogs (canonicalOrderV2 (loaded plain_collation kilo_off_db)) (canonicalOrderV2 expected)
   | Inl _ \<Rightarrow> False" by code_simp

lemma kilo_off:
  "\<exists>result. SetActiveV2 all_well applied no_match plain_collation KindUnit 1 False 1 small_kilo_db = (Inr result, kilo_off_db)"
proof -
  obtain expected where e: "apply_mutation (loaded plain_collation small_kilo_db)
      \<lparr>mut_op = OpDeactivate, mut_record = stored_kilo, mut_replacement = None\<rparr> = Inr expected"
    "EquivalentResourceCatalogs (canonicalOrderV2 (loaded plain_collation kilo_off_db)) (canonicalOrderV2 expected)"
    using kilo_off_candidate by (auto split: sum.splits)
  have m: "lifecycleMutationV2 all_well no_match plain_collation KindUnit 1 OpDeactivate small_kilo_db
      = (Inr \<lparr>mut_op = OpDeactivate, mut_record = stored_kilo, mut_replacement = None\<rparr>, small_kilo_db)"
    by (simp add: lifecycleMutationV2_def with_kind_def kindTables_def bnd_run kilo_read)
  have w: "bnd (simpleSetActiveV2 all_well tb_units_update tb_units 1 False 1) (\<lambda>revision. ret (1, revision)) small_kilo_db
      = (Inr (1, 2), kilo_off_db)"
    by (simp add: bnd_run kilo_switched)
  have "runV2CoherentTx all_well applied plain_collation (lifecycleMutationV2 all_well no_match plain_collation KindUnit 1 OpDeactivate)
      (bnd (simpleSetActiveV2 all_well tb_units_update tb_units 1 False 1) (\<lambda>revision. ret (1, revision))) small_kilo_db
      = (Inr (1, 2, loaded plain_collation kilo_off_db), kilo_off_db)"
    using coherent_run[where F = all_well and m = "lifecycleMutationV2 all_well no_match plain_collation KindUnit 1 OpDeactivate"
        and wr = "bnd (simpleSetActiveV2 all_well tb_units_update tb_units 1 False 1) (\<lambda>revision. ret (1, revision))",
        OF all_well m w e(1) kilo_off_valid] e(2) by simp
  then show ?thesis by (simp add: SetActiveV2_def kilo_handler(2) write_result_run)
qed

text \<open>Compare and swap: a revision-aware update, set-active or delete of any of the eleven kinds succeeds
  only when the row it names stores exactly the (non-zero) revision the caller expects; it leaves that row at
  the next revision, or removes it, and changes the revision of no other row of any table.\<close>

theorem revision_write_swaps:
  assumes "tables_ok db" "v2_result F applied ilike coll call db = (Inr result, t)" "target call = Some (kind, i, er)"
  shows "swaps kind i er (outcome call) db t"
  using v2_result_swaps[OF assms] .

theorem revision_write_swaps_witness:
  "swaps KindUnit 1 1 (Some 2) small_kilo_db kilo_off_db"
proof -
  obtain result where "v2_result all_well False no_match plain_collation (RevisionSetActive KindUnit 1 False 1) small_kilo_db
      = (Inr result, kilo_off_db)" using kilo_off by auto
  from revision_write_swaps[OF small_kilo_ok this, of KindUnit 1 1] show ?thesis by simp
qed

text \<open>No lost update: when two revision-aware writes of the same row expect the same revision and the first
  one succeeds, the second fails, whatever they write, whichever handlers they use and whatever faults occur;
  its failure leaves the catalogue of the first.\<close>

theorem expected_revision_wins_once:
  assumes "tables_ok db" "v2_result F applied ilike coll call db = (Inr result, t)" "target call = Some (kind, i, er)"
    "target call' = Some (kind, i, er)"
  shows "\<exists>e. fst (v2_result F' False ilike coll call' t) = Inl e \<and> loaded coll (snd (v2_result F' False ilike coll call' t)) = loaded coll t"
proof -
  have ok: "tables_ok t"
    using spec[OF v2_result_steps[of F applied ilike coll call, unfolded steps_in_def], of db] assms(1,2) by simp
  obtain q u where q: "v2_result F' False ilike coll call' t = (q, u)" by (cases "v2_result F' False ilike coll call' t")
  have first: "swaps kind i er (outcome call) db t" by (rule v2_result_swaps[OF assms(1-3)])
  have "outcome call \<noteq> Some er" using assms(3) by (cases call) auto
  have "q \<noteq> Inr result'" for result'
  proof
    assume "q = Inr result'"
    then have "swaps kind i er (outcome call') t u" using v2_result_swaps[OF ok _ assms(4)] q by simp
    then show False using first \<open>outcome call \<noteq> Some er\<close> unfolding swaps_def by auto
  qed
  then obtain e where e: "q = Inl e" by (cases q) auto
  have "shows_view (loaded coll) (v2_result F' False ilike coll call')"
    by (cases call') (simp_all add: insert_v2_shows update_v2_shows set_active_v2_shows delete_v2_shows shows_view_pure)
  from this[unfolded shows_view_def] have "loaded coll u = loaded coll t" using q e by (auto dest!: spec[of _ t])
  then show ?thesis using q e by simp
qed

theorem expected_revision_wins_once_witness:
  "\<exists>e. fst (DeleteV2 all_well False no_match plain_collation KindUnit 1 1 kilo_off_db) = Inl e"
proof -
  obtain result where "v2_result all_well False no_match plain_collation (RevisionSetActive KindUnit 1 False 1) small_kilo_db
      = (Inr result, kilo_off_db)" using kilo_off by auto
  from expected_revision_wins_once[OF small_kilo_ok this, of KindUnit 1 1 "RevisionDelete KindUnit 1 1" all_well]
  show ?thesis by auto
qed

end
