(* ===== verification/CatalogSnapshotTheorems.thy ===== *)
theory CatalogSnapshotTheorems
  imports CatalogRevisionTheorems
begin

text \<open>
  The catalogue service over the PostgreSQL repositories: its snapshot is the catalogue of the tables as long
  as every commit is acknowledged, and what happens when one is not.
\<close>

text \<open>C4: the snapshot is the database: from a service whose snapshot is the catalogue of its tables, every
  sequence of revision-aware writes (creations included) over the PostgreSQL repositories leaves it so, whether
  a write succeeds, is refused, or fails at any statement or at its commit, provided no failed commit was
  applied after all.\<close>

theorem snapshot_is_database:
  assumes "list_all acknowledged calls" "cs_snapshot s = loaded coll (cs_db s)"
  shows "cs_snapshot (fold (serve ilike coll) calls s) = loaded coll (cs_db (fold (serve ilike coll) calls s))"
  using assms
proof (induction calls arbitrary: s)
  case (Cons x calls)
  then show ?case using serve_shows[of x s coll ilike] by simp
qed simp

definition small_service :: "catalog_db catalogo" where
  "small_service = \<lparr>cs_snapshot = loaded plain_collation small_db, cs_authority = NewCatalogAuthority (loaded plain_collation small_db),
     cs_writer_unavailable = False, cs_repo_v2 = None, cs_db = small_db\<rparr>"

theorem snapshot_is_database_witness:
  "cs_snapshot (fold (serve no_match plain_collation) [(all_well, True, CallCreateV2 KindUnit kilo)] small_service)
    = loaded plain_collation (cs_db (fold (serve no_match plain_collation) [(all_well, True, CallCreateV2 KindUnit kilo)] small_service))"
  by (rule snapshot_is_database) (simp_all add: acknowledged_def small_service_def)

section \<open>A commit nobody acknowledged\<close>

lemma coherent_lost:
  assumes "F ''begin'' 0 = None" "\<And>table k. F (''query '' @ table) k = None" "F ''commit'' 0 = Some f"
    "m db = (Inr mutation, db)" "wr db = (Inr (i, revision), t)" "apply_mutation (loaded coll db) mutation = Inr expected"
    "validate_catalog (loaded coll t) = None"
    "EquivalentResourceCatalogs (canonicalOrderV2 (loaded coll t)) (canonicalOrderV2 expected)"
  shows "runV2CoherentTx F True coll m wr db = (Inl (wrap_read ''commit catalog v2 transaction'' (fault_error f)), t)"
proof -
  have "loadResourceCatalogTx F coll k u = (Inr (loaded coll u), u)" for k u by (rule load_no_faults) (rule assms(2))
  then show ?thesis unfolding runV2CoherentTx_def transact_def by (simp add: assms bnd_run map_err_run)
qed

definition connection_reset :: go_error where "connection_reset = ErrNew ''connection reset by peer''"

definition commit_lost :: sql_faults where
  "commit_lost name k = (if name = ''commit'' then Some (DriverError connection_reset) else None)"

definition lost_service :: "catalog_db catalogo" where
  "lost_service = small_service\<lparr>cs_repo_v2 := Some (catalogAdminRepositoryV2 commit_lost True no_match plain_collation)\<rparr>"

lemma lost_commit:
  "InsertV2 commit_lost True plain_collation kilo small_db
     = (Inl (wrap_read ''commit catalog v2 transaction'' connection_reset), small_kilo_db)"
proof -
  obtain expected where e: "apply_mutation (loaded plain_collation small_db)
      \<lparr>mut_op = OpInsert, mut_record = kilo, mut_replacement = None\<rparr> = Inr expected"
    "EquivalentResourceCatalogs (canonicalOrderV2 (loaded plain_collation small_kilo_db)) (canonicalOrderV2 expected)"
    using small_kilo_candidate by (auto split: sum.splits)
  have same: "insertUnitV2 commit_lost = insertUnitV2 all_well"
    by (simp add: insertUnitV2_def write_row_def stmt_def commit_lost_def fun_eq_iff)
  have "runV2CoherentTx commit_lost True plain_collation (insertMutationV2 kilo) (insertUnitV2 commit_lost kilo) small_db
      = (Inl (wrap_read ''commit catalog v2 transaction'' connection_reset), small_kilo_db)"
    using coherent_lost[where F = commit_lost and m = "insertMutationV2 kilo" and wr = "insertUnitV2 commit_lost kilo"
        and f = "DriverError connection_reset", OF _ _ _ _ kilo_inserted[folded same] e(1) small_kilo_valid e(2)]
    by (simp add: insertMutationV2_def commit_lost_def)
  then show ?thesis by (simp add: InsertV2_def kilo_handler write_result_run)
qed

lemma kilo_admitted: "fst (candidate \<lparr>mut_op = OpInsert, mut_record = kilo, mut_replacement = None\<rparr> lost_service) \<noteq> Inl e"
proof -
  have "case apply_mutation (loaded plain_collation small_db) \<lparr>mut_op = OpInsert, mut_record = kilo, mut_replacement = None\<rparr> of
      Inr nxt \<Rightarrow> validate_catalog nxt = None | Inl _ \<Rightarrow> False" by code_simp
  then show ?thesis
    by (auto simp: candidate_def lost_service_def small_service_def bnd_lift bnd_require wrap_invalid_catalog_def split: sum.splits)
qed

text \<open>A commit whose acknowledgement is lost: the unit is stored, the caller gets an error, and the service
  neither publishes the new catalogue nor refuses the next write, so its snapshot is no longer the database.\<close>

theorem lost_commit_not_latched:
  "let t = snd (run_call (catalogAdminRepository commit_lost True no_match plain_collation) (CallCreateV2 KindUnit kilo) lost_service) in
     cs_db t = small_kilo_db \<and> cs_snapshot t = loaded plain_collation small_db \<and> \<not> cs_writer_unavailable t
     \<and> cs_snapshot t \<noteq> loaded plain_collation (cs_db t)"
proof -
  have kilo: "canonicalize_codes (kilo\<lparr>rec_kind := KindUnit\<rparr>) = kilo" by code_simp
  have plain: "\<not> error_is (wrap_read ''commit catalog v2 transaction'' connection_reset) (App ErrCatalogWriteIndeterminate)" by code_simp
  have units: "length (cat_units (loaded plain_collation small_kilo_db)) \<noteq> length (cat_units (loaded plain_collation small_db))"
    by code_simp
  obtain nxt where nxt: "candidate \<lparr>mut_op = OpInsert, mut_record = kilo, mut_replacement = None\<rparr> lost_service = (Inr nxt, lost_service)"
    using kilo_admitted quietD[OF quiet_candidate] by (metis old.sum.exhaust prod.exhaust_sel)
  have "snd (run_call (catalogAdminRepository commit_lost True no_match plain_collation) (CallCreateV2 KindUnit kilo) lost_service)
      = lost_service\<lparr>cs_db := small_kilo_db\<rparr>"
    using nxt
    by (simp add: discard_def CreateV2_def insert_locked_def kilo bnd_run prepare_v2_write_def v2_write_def attempt_def db_write_def
        classify_v2_write_error_def plain lost_commit lost_service_def small_service_def catalogAdminRepositoryV2_def Let_def)
  moreover have "loaded plain_collation small_kilo_db \<noteq> loaded plain_collation small_db" using units by metis
  ultimately show ?thesis by (simp add: Let_def lost_service_def small_service_def)
qed

section \<open>The default option set left blank\<close>

definition binding_db :: catalog_db where
  "binding_db = \<lparr>tb_classes = [\<lparr>row_id = 1, row_revision = 1, row_active = True, cl_code = ''M'', cl_name = ''M'',
       cl_plural = ''M'', cl_slug = ''m'', cl_order = 1, cl_aliases = [], cl_keywords = []\<rparr>],
     tb_option_sets = [\<lparr>row_id = 1, row_revision = 1, row_active = True, st_code = ''DEFAULT'', st_name = ''D''\<rparr>],
     tb_families = [\<lparr>row_id = 1, row_revision = 1, row_active = True, fa_class = 1, fa_code = ''F'', fa_name = ''F''\<rparr>],
     tb_types = [], tb_units = [], tb_policies = [],
     tb_definitions = [\<lparr>row_id = 1, row_revision = 1, row_active = True, de_code = ''a'', de_name = ''A'',
         de_value_type = ValueTypeControlledOption, de_dimension = None, de_identity = False\<rparr>,
       \<lparr>row_id = 2, row_revision = 1, row_active = True, de_code = ''b'', de_name = ''B'',
         de_value_type = ValueTypeControlledText, de_dimension = None, de_identity = False\<rparr>],
     tb_options = [\<lparr>row_id = 1, row_revision = 1, row_active = True, op_set = ''DEFAULT'', op_definition = 1, op_code = ''R'',
       op_label = ''R'', op_order = 1\<rparr>], tb_relations = [],
     tb_attributes = [\<lparr>row_id = 1, row_revision = 1, row_active = True, at_class = 1, at_family = 1, at_type = None,
       at_definition = 1, at_set = ''DEFAULT'', at_mode = ModeOptional, at_identity = False, at_order = 1\<rparr>],
     tb_rules = [], tb_fields = [], tb_resources = [], tb_values = [], tb_sequences = [(''resource_attributes'', 1)]\<rparr>"

definition binding_record :: "gstring \<Rightarrow> catalog_record" where
  "binding_record optionSet = \<lparr>rec_kind = KindAttributeBinding, rec_id = 0, rec_revision = 0, rec_active = True,
     rec_values = [(''class'', refValue KindClass ''M'' 1), (''family'', refValue KindFamily ''F'' 1),
       (''characteristic'', refValue KindAttributeDefinition ''b'' 2), (''optionSet'', refValue KindOptionSet optionSet 0),
       (''mode'', textValue ModeOptional), (''identityParticipates'', boolValue False)], rec_rules = Some []\<rparr>"

definition bound_db :: catalog_db where
  "bound_db = snd (insert_applicability all_well (binding_record []) binding_db)"

lemma binding_inserted:
  "insert_applicability all_well (binding_record []) binding_db = (Inr (2, 1), bound_db)"
  "insert_applicability all_well (binding_record ''DEFAULT'') binding_db = (Inr (2, 1), bound_db)"
proof -
  have "fst (insert_applicability all_well (binding_record []) binding_db) = Inr (2, 1)" by code_simp
  then show blank: "insert_applicability all_well (binding_record []) binding_db = (Inr (2, 1), bound_db)"
    by (simp add: bound_db_def prod_eq_iff)
  have refs: "resolve_binding_refs F (binding_record []) = resolve_binding_refs F (binding_record ''DEFAULT'')" for F
    by (simp add: resolve_binding_refs_def binding_record_def rec_ref_def rec_value_def refValue_def)
  have row: "attribute_row b (binding_record []) = attribute_row b (binding_record ''DEFAULT'')" for b
    by (simp add: attribute_row_def binding_record_def rec_text_def rec_bool_def rec_value_def fun_eq_iff)
  have "insert_applicability F (binding_record []) = insert_applicability F (binding_record ''DEFAULT'')" for F
    by (simp add: insert_applicability_def insertApplicabilityParentV2_def refs row) (simp add: record_rules_def binding_record_def)
  then show "insert_applicability all_well (binding_record ''DEFAULT'') binding_db = (Inr (2, 1), bound_db)" using blank by simp
qed

lemma bound_valid: "validate_catalog (loaded plain_collation bound_db) = None" by code_simp

lemma blank_candidate:
  "case apply_mutation (loaded plain_collation binding_db) \<lparr>mut_op = OpInsert, mut_record = binding_record [], mut_replacement = None\<rparr> of
     Inr expected \<Rightarrow> \<not> EquivalentResourceCatalogs (canonicalOrderV2 (loaded plain_collation bound_db)) (canonicalOrderV2 expected)
       \<and> EquivalentResourceCatalogs (loaded plain_collation bound_db) expected
   | Inl _ \<Rightarrow> False"
  by code_simp

lemma named_candidate:
  "case apply_mutation (loaded plain_collation binding_db) \<lparr>mut_op = OpInsert, mut_record = binding_record ''DEFAULT'', mut_replacement = None\<rparr> of
     Inr expected \<Rightarrow> EquivalentResourceCatalogs (canonicalOrderV2 (loaded plain_collation bound_db)) (canonicalOrderV2 expected)
   | Inl _ \<Rightarrow> False"
  by code_simp

text \<open>A binding whose option set is left blank, the spelling the comparison of catalogues reads as the default
  one, is refused as a mismatch although the reloaded catalogue is equivalent to the expected one: both are
  sorted by their raw content before the spellings are identified. The same binding under the code of the
  default set is stored.\<close>

theorem blank_option_set_refused:
  "InsertV2 all_well applied plain_collation (binding_record []) binding_db = (Inl errCatalogCandidateMismatchV2, undo_tables binding_db bound_db)
   \<and> (\<exists>result. InsertV2 all_well applied plain_collation (binding_record ''DEFAULT'') binding_db = (Inr result, bound_db))"
proof -
  have plain: "rec_kind (binding_record s) = KindAttributeBinding" "requireApplicabilityRules (binding_record s) = None" for s
    by (simp_all add: binding_record_def requireApplicabilityRules_def)
  obtain expected where e: "apply_mutation (loaded plain_collation binding_db)
      \<lparr>mut_op = OpInsert, mut_record = binding_record [], mut_replacement = None\<rparr> = Inr expected"
    "\<not> EquivalentResourceCatalogs (canonicalOrderV2 (loaded plain_collation bound_db)) (canonicalOrderV2 expected)"
    using blank_candidate by (auto split: sum.splits)
  obtain expected' where e': "apply_mutation (loaded plain_collation binding_db)
      \<lparr>mut_op = OpInsert, mut_record = binding_record ''DEFAULT'', mut_replacement = None\<rparr> = Inr expected'"
    "EquivalentResourceCatalogs (canonicalOrderV2 (loaded plain_collation bound_db)) (canonicalOrderV2 expected')"
    using named_candidate by (auto split: sum.splits)
  have blank: "runV2CoherentTx all_well applied plain_collation (insertMutationV2 (binding_record []))
      (insert_applicability all_well (binding_record [])) binding_db = (Inl errCatalogCandidateMismatchV2, undo_tables binding_db bound_db)"
    using coherent_run[where F = all_well and m = "insertMutationV2 (binding_record [])" and wr = "insert_applicability all_well (binding_record [])",
        OF all_well _ binding_inserted(1) e(1) bound_valid] e(2) by (simp add: insertMutationV2_def)
  have named: "runV2CoherentTx all_well applied plain_collation (insertMutationV2 (binding_record ''DEFAULT''))
      (insert_applicability all_well (binding_record ''DEFAULT'')) binding_db = (Inr (2, 1, loaded plain_collation bound_db), bound_db)"
    using coherent_run[where F = all_well and m = "insertMutationV2 (binding_record ''DEFAULT'')" and wr = "insert_applicability all_well (binding_record ''DEFAULT'')",
        OF all_well _ binding_inserted(2) e'(1) bound_valid] e'(2) by (simp add: insertMutationV2_def)
  show ?thesis
    by (simp add: InsertV2_def insertApplicabilityAggregateV2_def plain write_result_run blank named)
qed

end
