(* ===== verification/StockExample.thy ===== *)
theory StockExample
  imports ResourceStore CatalogStoreTheorems PurchaseStoreTheorems
begin

text \<open>
  Concrete tables for the witnesses of the resource repository: one class with two families, one type, one
  unit and one required quantity, before and after a resource is created. Nothing here models code.
\<close>

definition stock_db :: catalog_db where
  "stock_db = \<lparr>tb_classes = [\<lparr>row_id = 1, row_revision = 1, row_active = True, cl_code = ''M'', cl_name = ''M'', cl_plural = ''M'',
       cl_slug = ''m'', cl_order = 1, cl_aliases = [], cl_keywords = []\<rparr>],
     tb_option_sets = [\<lparr>row_id = 1, row_revision = 1, row_active = True, st_code = ''D'', st_name = ''D''\<rparr>],
     tb_families = [\<lparr>row_id = 1, row_revision = 1, row_active = True, fa_class = 1, fa_code = ''F'', fa_name = ''F''\<rparr>,
       \<lparr>row_id = 2, row_revision = 1, row_active = True, fa_class = 1, fa_code = ''G'', fa_name = ''G''\<rparr>],
     tb_types = [\<lparr>row_id = 1, row_revision = 1, row_active = True, ty_class = 1, ty_family = 1, ty_code = ''T'', ty_name = ''T''\<rparr>],
     tb_units = [\<lparr>row_id = 1, row_revision = 1, row_active = True, un_code = ''U'', un_name = ''U'', un_symbol = ''u'', un_dimension = ''u''\<rparr>],
     tb_policies = [\<lparr>row_id = 1, row_revision = 1, row_active = True, po_family = 1, po_unit = 1, po_allowed = True, po_suggested = False\<rparr>],
     tb_definitions = [\<lparr>row_id = 1, row_revision = 1, row_active = True, de_code = ''n'', de_name = ''N'',
       de_value_type = ValueTypeQuantity, de_dimension = None, de_identity = True\<rparr>],
     tb_options = [], tb_relations = [],
     tb_attributes = [\<lparr>row_id = 1, row_revision = 1, row_active = True, at_class = 1, at_family = 1, at_type = None, at_definition = 1,
       at_set = ''D'', at_mode = ModeRequired, at_identity = True, at_order = 1\<rparr>],
     tb_rules = [], tb_fields = [], tb_resources = [], tb_values = [], tb_sequences = []\<rparr>"

definition stock_value :: "nat \<Rightarrow> nat attr_value" where
  "stock_value n = empty_value\<lparr>av_code := ''n'', av_type := ValueTypeQuantity, av_quantity := Some \<lparr>q_value = n, q_unit = ''U''\<rparr>\<rparr>"

definition stock_item :: "int \<Rightarrow> nat \<Rightarrow> nat resource" where
  "stock_item i n = \<lparr>r_id = i, r_class = ''M'', r_family = ''F'', r_type = ''T'', r_unit = ''U'', r_attributes = [stock_value n],
     r_identity = ''v1|a'', r_revision = 0, r_active = True, r_canonical = True\<rparr>"

definition stocked_db :: catalog_db where
  "stocked_db = stock_db\<lparr>tb_resources := [\<lparr>row_id = 1, row_revision = 1, row_active = True, rs_class = 1, rs_family = 1, rs_type = 1,
       rs_unit = 1, rs_name = ''F'', rs_identity = ''v1|a''\<rparr>],
     tb_values := [\<lparr>va_id = 1, va_resource = 1, va_family = 1, va_attribute = 1, va_definition = 1, va_set = ''D'', va_state = ''SET'',
       va_option = None, va_integer = None, va_decimal = None, va_quantity = Some ''5'', va_unit = Some 1, va_boolean = None, va_text = None\<rparr>],
     tb_sequences := [(''recursos'', 1), (''resource_attribute_values'', 1)]\<rparr>"

lemma stock_ok: "tables_ok stock_db" "tables_ok stocked_db" by code_simp+

lemma stock_created: "store_create all_well False demo_decimals (stock_item 0 5) stock_db = (Inr (), stocked_db)"
  by code_simp

lemma stock_read: "store_get all_well demo_decimals plain_collation ''M'' ''v1|a'' stocked_db = Inr (stock_item 1 5)"
  by code_simp

lemma stock_updated:
  "fst (store_update_revision all_well False demo_decimals plain_collation (stock_item 1 7) 1 stocked_db)
    = Inr ((stock_item 1 7)\<lparr>r_revision := 2\<rparr>)"
  by code_simp

lemma stock_retired:
  "fst (setLifecycleRevision all_well False demo_decimals plain_collation 1 False [] 1 stocked_db)
    = Inr ((stock_item 1 5)\<lparr>r_revision := 2, r_active := False\<rparr>)"
  by code_simp

end
