(* ===== verification/ResourceStoreTheorems.thy ===== *)
theory ResourceStoreTheorems
  imports ResourceStore CatalogSnapshotTheorems ImportTheorems StockExample
begin

text \<open>
  The resource repository over the tables: every write keeps the constraints, what is written is decoded as
  it was given, what a read guarantees about the rules, and what the expected revision of a write decides.
\<close>

section \<open>Statements and transactions\<close>

lemma pool_Inr [simp]: "pool_check F = Inr u \<longleftrightarrow> F ''pool'' 0 = None"
  by (simp add: pool_check_def split: option.split)

lemma read_back_steps [intro, simp]: "steps_in I (read_back q)"
  by (simp add: steps_in_def read_back_def)

lemma read_back_Inr [simp]: "read_back q s = (Inr x, t) \<longleftrightarrow> q s = Inr x \<and> t = s"
  by (auto simp: read_back_def)

lemma asks_steps [intro, simp]: "steps_in I (asks q)"
  by (simp add: steps_in_def asks_def)

lemma transact_as_steps:
  assumes "steps_in I body" "\<And>s t. I (undo_tables s t) \<longleftrightarrow> I s"
  shows "steps_in I (transact_as F begins applied body)"
  using assms unfolding steps_in_def transact_as_def by (auto split: option.split prod.split sum.split dest: snd_eqD)

lemma transact_as_Inr:
  "transact_as F begins applied body s = (Inr x, t) \<longleftrightarrow>
     F ''begin'' 0 = None \<and> F ''commit'' 0 = None \<and> (\<exists>label. body s = (Inr (label, x), t))"
  by (auto simp: transact_as_def split: option.splits prod.splits sum.splits)

text \<open>After any transaction the tables are those before it or those its body left.\<close>

lemma transact_as_state:
  assumes "transact_as F begins applied body s = (q, t)"
  shows "t = s \<or> (\<exists>u. t = undo_tables s u) \<or> (\<exists>label x. body s = (Inr (label, x), t))"
  using assms unfolding transact_as_def by (auto split: option.splits prod.splits sum.splits if_splits)

lemma insert_value_ok [kept]: "steps_in tables_ok (insert_value row)"
  using sql_insert_ok[of "''resource_attribute_values''" tb_values_update "\<lambda>_. Some row"]
  unfolding steps_in_def insert_value_def by (auto simp: tables_ok_def split: option.split)

lemma resolve_target_steps [kept, intro!]: "steps_in I (resolveAttributeTarget F k x v)"
  unfolding resolveAttributeTarget_def by (auto split: list.split)

lemma count_steps [kept, intro!]: "steps_in I (verifyAttributeCount F i n)"
  unfolding verifyAttributeCount_def by auto

lemma persist_steps [kept]:
  assumes "\<And>row. steps_in I (insert_value row)"
  shows "steps_in I (persistAttributeValue F D k x i v)" "steps_in I (persist_values F D x i k vs)"
proof -
  show one: "steps_in I (persistAttributeValue F D k x i v)" for k v
    unfolding persistAttributeValue_def using assms by (auto split: sum.split)
  show "steps_in I (persist_values F D x i k vs)"
    by (induction vs arbitrary: k) (auto intro: one)
qed

lemma resource_tx_steps:
  "steps_in tables_ok (create_tx F D x)" "steps_in tables_ok (update_tx F D x)" "steps_in tables_ok (lifecycle_tx F i active key)"
  "steps_in tables_ok (lifecycle_revision_tx F i active key er)" "steps_in tables_ok (update_revision_tx F D x er)"
  unfolding create_tx_def update_tx_def lifecycle_tx_def lifecycle_revision_tx_def update_revision_tx_def
    resolve_scope_def replace_values_def bump_affected_def
  by (auto intro!: kept split: sum.split db_error.split)

section \<open>Calls\<close>

text \<open>Every write of the repository, under any fault.\<close>

datatype (plugins only: code size) 'd resource_write =
    WriteCreate "'d resource"
  | WriteUpdate "'d resource"
  | WriteLifecycle int bool gstring
  | WriteSetActive int bool
  | WriteLifecycleRevision int bool gstring revision
  | WriteUpdateRevision "'d resource" revision

fun run_resource_write ::
  "sql_faults \<Rightarrow> bool \<Rightarrow> 'd decimal_ops \<Rightarrow> (gstring \<Rightarrow> gstring) \<Rightarrow> 'd resource_write \<Rightarrow> unit catalog_sql" where
  "run_resource_write F applied D coll (WriteCreate x) = store_create F applied D x"
| "run_resource_write F applied D coll (WriteUpdate x) = store_update F applied D x"
| "run_resource_write F applied D coll (WriteLifecycle i active key) = discard (setLifecycle F applied D coll i active key)"
| "run_resource_write F applied D coll (WriteSetActive i active) = store_set_active F applied D coll i active"
| "run_resource_write F applied D coll (WriteLifecycleRevision i active key er) =
     discard (setLifecycleRevision F applied D coll i active key er)"
| "run_resource_write F applied D coll (WriteUpdateRevision x er) = discard (store_update_revision F applied D coll x er)"

lemma lifecycle_steps:
  assumes "steps_in I (lifecycle_tx F i active key)" "\<And>s t. I (undo_tables s t) \<longleftrightarrow> I s"
  shows "steps_in I (setLifecycle F applied D coll i active key)"
  unfolding setLifecycle_def using assms by (auto intro!: transact_as_steps)

lemma resource_write_steps:
  "steps_in tables_ok (run_resource_write F applied D coll call)"
proof -
  note txs = transact_as_steps[OF resource_tx_steps(1) undo_tables_ok] transact_as_steps[OF resource_tx_steps(2) undo_tables_ok]
    transact_as_steps[OF resource_tx_steps(4) undo_tables_ok] transact_as_steps[OF resource_tx_steps(5) undo_tables_ok]
    lifecycle_steps[OF resource_tx_steps(3) undo_tables_ok]
  show ?thesis
    by (cases call) (auto intro!: discard_steps txs simp: store_create_def store_update_def store_set_active_def store_deactivate_def
      setLifecycleRevision_def store_update_revision_def)
qed

text \<open>The two repositories share the tables.\<close>

fun run_write :: "pattern_match \<Rightarrow> (gstring \<Rightarrow> gstring) \<Rightarrow> 'd decimal_ops
    \<Rightarrow> sql_faults \<times> bool \<times> (store_call + 'd resource_write) \<Rightarrow> catalog_db \<Rightarrow> catalog_db" where
  "run_write ilike coll D (F, applied, Inl call) db = snd (run_store F applied ilike coll call db)"
| "run_write ilike coll D (F, applied, Inr call) db = snd (run_resource_write F applied D coll call db)"

lemma run_write_ok: "tables_ok db \<Longrightarrow> tables_ok (run_write ilike coll D w db)"
  using run_store_steps resource_write_steps[where D = D] unfolding steps_in_def
  by (cases "(ilike, coll, D, w, db)" rule: run_write.cases) auto

section \<open>Values read back as they were written\<close>

text \<open>The same value of an attribute: only the payload of its type counts, decimals are compared by the library.\<close>

definition same_value :: "'d decimal_ops \<Rightarrow> 'd attr_value \<Rightarrow> 'd attr_value \<Rightarrow> bool" where
  "same_value D w v \<longleftrightarrow> av_code w = av_code v \<and> av_type w = av_type v
     \<and> (av_text w = NotApplicableText \<longleftrightarrow> av_text v = NotApplicableText)
     \<and> (av_text v \<noteq> NotApplicableText \<longrightarrow>
          (av_type v = ValueTypeControlledOption \<longrightarrow> av_option w = av_option v)
        \<and> (av_type v = ValueTypeInteger \<longrightarrow> av_integer w = av_integer v)
        \<and> (av_type v = ValueTypeDecimal \<longrightarrow> rel_option (dec_equal D) (av_decimal w) (av_decimal v))
        \<and> (av_type v = ValueTypeQuantity \<longrightarrow>
             rel_option (\<lambda>q p. dec_equal D (q_value q) (q_value p) \<and> q_unit q = q_unit p) (av_quantity w) (av_quantity v))
        \<and> (av_type v = ValueTypeBoolean \<longrightarrow> av_boolean w = av_boolean v)
        \<and> (av_type v = ValueTypeControlledText \<longrightarrow> av_text w = av_text v))"

text \<open>A stored row holds a value: it is bound to the definition of the value, and decodes to it.\<close>

definition stores :: "'d decimal_ops \<Rightarrow> catalog_db \<Rightarrow> pg_value \<Rightarrow> 'd attr_value \<Rightarrow> bool" where
  "stores D db row v \<longleftrightarrow>
     (\<exists>d\<in>set (tb_definitions db). row_id d = va_definition row \<and> de_code d = av_code v \<and> de_value_type d = av_type v)
   \<and> (\<exists>w. decodeValue D (av_code v) (av_type v) (columns_of db row) = Inr w \<and> same_value D w v)"

lemma stores_cong:
  "tb_definitions t = tb_definitions db \<Longrightarrow> tb_units t = tb_units db \<Longrightarrow> stores D t row v = stores D db row v"
  by (simp add: stores_def columns_of_def unit_code_def)

lemmas value_types = ValueTypeControlledOption_def ValueTypeInteger_def ValueTypeDecimal_def ValueTypeQuantity_def
  ValueTypeBoolean_def ValueTypeControlledText_def

lemma value_types_distinct:
  "distinct [ValueTypeControlledOption, ValueTypeInteger, ValueTypeDecimal, ValueTypeQuantity, ValueTypeBoolean, ValueTypeControlledText]"
  by (simp add: value_types)

lemma dereference_nullable [simp]: "dereference (nullableString s) = s"
  by (simp add: dereference_def nullableString_def)

lemma decode_number_string:
  assumes "decimal_laws D"
  shows "\<exists>y. decode_number D format (Some (dec_string D x)) = Inr y \<and> dec_equal D y x"
proof -
  obtain y where "dec_parse D (dec_string D x) = Some y" "dec_equal D y x" using assms unfolding decimal_laws_def by blast
  then show ?thesis by (simp add: decode_number_def dereference_def)
qed

lemma encode_cases:
  assumes "encodeValue v = Inr p"
  obtains "av_text v = NotApplicableText" "p = no_payload NotApplicableText"
  | "av_text v \<noteq> NotApplicableText" "av_type v = ValueTypeControlledOption" "p = (no_payload ''SET'')\<lparr>pay_option := av_option v\<rparr>"
  | "av_text v \<noteq> NotApplicableText" "av_type v = ValueTypeInteger" "p = (no_payload ''SET'')\<lparr>pay_integer := av_integer v\<rparr>"
  | "av_text v \<noteq> NotApplicableText" "av_type v = ValueTypeDecimal" "p = (no_payload ''SET'')\<lparr>pay_decimal := av_decimal v\<rparr>"
  | q where "av_text v \<noteq> NotApplicableText" "av_type v = ValueTypeQuantity" "av_quantity v = Some q"
      "p = (no_payload ''SET'')\<lparr>pay_quantity := Some (q_value q), pay_quantity_unit := q_unit q\<rparr>"
  | "av_text v \<noteq> NotApplicableText" "av_type v = ValueTypeBoolean" "p = (no_payload ''SET'')\<lparr>pay_boolean := av_boolean v\<rparr>"
  | "av_text v \<noteq> NotApplicableText" "av_type v = ValueTypeControlledText" "p = (no_payload ''SET'')\<lparr>pay_text := av_text v\<rparr>"
proof (cases "av_text v = NotApplicableText")
  case True
  then show thesis using assms that(1) by (simp add: encodeValue_def split: if_splits)
next
  case False
  note run = assms[unfolded encodeValue_def Let_def if_not_P[OF False]]
  consider "av_type v = ValueTypeControlledOption" | "av_type v = ValueTypeInteger" | "av_type v = ValueTypeDecimal"
    | "av_type v = ValueTypeQuantity" | "av_type v = ValueTypeBoolean" | "av_type v = ValueTypeControlledText"
    using run by (simp split: if_splits)
  then show thesis
  proof cases
    case 1 with run False that(2) show thesis by simp
  next
    case 2 with run False that(3) show thesis by (simp add: value_types)
  next
    case 3 with run False that(4) show thesis by (simp add: value_types)
  next
    case 4
    then obtain q where "av_quantity v = Some q" using run by (simp add: value_types split: option.splits)
    with 4 run False that(5) show thesis by (simp add: value_types)
  next
    case 5 with run False that(6) show thesis by (simp add: value_types)
  next
    case 6 with run False that(7) show thesis by (simp add: value_types)
  qed
qed

lemma codec_round_trip:
  assumes laws: "decimal_laws D" and enc: "encodeValue v = Inr p"
    and count: "payload_count (value_row D i tg p j) = (if pay_state p = NotApplicableText then 0 else 1)"
    and unit: "av_type v = ValueTypeQuantity \<Longrightarrow> unit_code db (tg_unit tg) = Some (quantityUnitCode v)"
  shows "\<exists>w. decodeValue D (av_code v) (av_type v) (columns_of db (value_row D i tg p j)) = Inr w \<and> same_value D w v"
proof -
  note defs = columns_of_def value_row_def no_payload_def decodeValue_def same_value_def dereference_def empty_value_def
    NotApplicableText_def value_types payload_count_def nullableQuantity_def quantityUnitCode_def nullableString_def
  from enc show ?thesis
  proof (cases rule: encode_cases)
    case 4
    then obtain d where d: "av_decimal v = Some d" using count by (cases "av_decimal v") (auto simp: defs)
    obtain y where "decode_number D ''decode decimal %q'' (Some (dec_string D d)) = Inr y" "dec_equal D y d"
      using decode_number_string[OF laws] by blast
    then show ?thesis using 4 d by (simp add: defs)
  next
    case (5 q)
    then have "q_unit q \<noteq> []" using count by (auto simp: defs)
    moreover obtain y where "decode_number D ''decode quantity %q'' (Some (dec_string D (q_value q))) = Inr y" "dec_equal D y (q_value q)"
      using decode_number_string[OF laws] by blast
    ultimately show ?thesis using 5 unit by (simp add: defs)
  qed (simp_all add: defs)
qed

section \<open>Writing the values of a resource\<close>

lemma tables_ok_values:
  assumes "tables_ok db"
  shows "\<forall>v\<in>set (tb_values db). payload_count v = (if va_state v = NotApplicableText then 0 else 1)"
    "\<forall>v\<in>set (tb_values db). (va_resource v, va_family v) \<in> (\<lambda>r. (row_id r, rs_family r)) ` set (tb_resources db)"
  using tables_ok_parts(14)[OF assms]
  unfolding value_constraints_def Let_def list.pred_inject foreign_rows_iff check_rows_def set_map fst_conv
  by (simp_all add: list_all_iff)

lemma tables_ok_resources: "tables_ok db \<Longrightarrow> distinct (map row_id (tb_resources db))"
  using tables_ok_parts(13)[of db] by (simp add: resource_constraints_def key_constraint_def unique_rows_def Let_def)

lemma resolve_target_Inr:
  assumes "resolveAttributeTarget F k x v db = (Inr tg, t)" "tables_ok db"
  shows "t = db \<and> (\<exists>d\<in>set (tb_definitions db). row_id d = tg_definition tg \<and> de_code d = av_code v \<and> de_value_type d = av_type v)
    \<and> (av_type v = ValueTypeQuantity \<longrightarrow> unit_code db (tg_unit tg) = Some (quantityUnitCode v))"
proof -
  have one: "attribute_targets db x v = [tg]" "t = db" "av_type v = ValueTypeQuantity \<longrightarrow> tg_unit tg \<noteq> None"
    using assms(1) unfolding resolveAttributeTarget_def
    by (auto simp: bnd_Inr stmt_Inr ret_def fail_def asks_def split: list.splits if_splits)
  then have "tg \<in> set (attribute_targets db x v)" by simp
  then have d: "\<exists>d\<in>set (tb_definitions db). row_id d = tg_definition tg \<and> de_code d = av_code v \<and> de_value_type d = av_type v"
    and u: "tg_unit tg = map_option row_id (find (\<lambda>u. un_code u = quantityUnitCode v \<and> row_active u) (tb_units db))"
    unfolding attribute_targets_def by auto
  have "unit_code db (tg_unit tg) = Some (quantityUnitCode v)" if some: "tg_unit tg \<noteq> None"
  proof -
    obtain y where y: "find (\<lambda>u. un_code u = quantityUnitCode v \<and> row_active u) (tb_units db) = Some y" 
      using some u by (cases "find (\<lambda>u. un_code u = quantityUnitCode v \<and> row_active u) (tb_units db)") auto
    then show ?thesis using find_in[OF y] find_row[OF tables_ok_keys(4)[OF assms(2)]] u by (simp add: unit_code_def)
  qed
  then show ?thesis using one d by blast
qed

lemma insert_value_Inr:
  assumes "insert_value row db = (Inr j, t)"
  shows "\<exists>q. t = db\<lparr>tb_values := tb_values db @ [row j], tb_sequences := q\<rparr> \<and> violation t = None"
proof -
  have "j = nextval ''resource_attribute_values'' db" "violation t = None"
    "t = tb_values_update (\<lambda>rows. rows @ [row (nextval ''resource_attribute_values'' db)])
      (db\<lparr>tb_sequences := gput ''resource_attribute_values'' (nextval ''resource_attribute_values'' db) (tb_sequences db)\<rparr>)"
    using assms unfolding insert_value_def sql_insert_def Let_def by (auto simp: enforce_Inr split: option.splits)
  then show ?thesis by (intro exI[of _ "tb_sequences t"]) simp
qed

text \<open>One value appends one row that holds it.\<close>

lemma persist_value_Inr:
  assumes run: "persistAttributeValue F D k x i v db = (Inr (), t)" and ok: "tables_ok db" and laws: "decimal_laws D"
  shows "\<exists>row q. t = db\<lparr>tb_values := tb_values db @ [row], tb_sequences := q\<rparr> \<and> va_resource row = i \<and> stores D db row v"
proof -
  obtain p tg j where enc: "encodeValue v = Inr p" and tg: "resolveAttributeTarget F k x v db = (Inr tg, db)"
    and ins: "insert_value (value_row D i tg p) db = (Inr j, t)"
    using run resolve_target_Inr[OF _ ok] unfolding persistAttributeValue_def
    by (auto simp: bnd_Inr stmt_Inr ret_def fail_def split: sum.splits) blast
  obtain q where t: "t = db\<lparr>tb_values := tb_values db @ [value_row D i tg p j], tb_sequences := q\<rparr>" "violation t = None"
    using insert_value_Inr[OF ins] by blast
  note target = resolve_target_Inr[OF tg ok]
  have "value_row D i tg p j \<in> set (tb_values t)" by (simp add: t(1))
  then have "payload_count (value_row D i tg p j) = (if pay_state p = NotApplicableText then 0 else 1)"
    using tables_ok_values(1)[of t] t(2) by (simp add: tables_ok_def value_row_def)
  then have "\<exists>w. decodeValue D (av_code v) (av_type v) (columns_of db (value_row D i tg p j)) = Inr w \<and> same_value D w v"
    using codec_round_trip[OF laws enc] target by blast
  then have "stores D db (value_row D i tg p j) v" using target by (simp add: stores_def value_row_def)
  then show ?thesis using t(1) by (intro exI[of _ "value_row D i tg p j"] exI[of _ q]) (simp add: value_row_def)
qed

lemma persist_values_Inr:
  assumes "persist_values F D x i k vs db = (Inr (), t)" "tables_ok db" "decimal_laws D"
  shows "\<exists>rows q. t = db\<lparr>tb_values := tb_values db @ rows, tb_sequences := q\<rparr>
    \<and> (\<forall>row\<in>set rows. va_resource row = i) \<and> list_all2 (stores D db) rows vs"
  using assms
proof (induction vs arbitrary: k db)
  case Nil
  then show ?case by (intro exI[of _ "[]"] exI[of _ "tb_sequences db"]) (simp add: ret_def)
next
  case (Cons v vs)
  obtain u where one: "persistAttributeValue F D k x i v db = (Inr (), u)" and rest: "persist_values F D x i (Suc k) vs u = (Inr (), t)"
    using Cons.prems(1) by (auto simp: bnd_Inr)
  obtain row q where u: "u = db\<lparr>tb_values := tb_values db @ [row], tb_sequences := q\<rparr>" "va_resource row = i" "stores D db row v"
    using persist_value_Inr[OF one Cons.prems(2,3)] by blast
  have "tables_ok u" using persist_steps(1)[OF insert_value_ok] Cons.prems(2) one unfolding steps_in_def by (metis snd_conv)
  from Cons.IH[OF rest this Cons.prems(3)] obtain rows q' where
    t: "t = u\<lparr>tb_values := tb_values u @ rows, tb_sequences := q'\<rparr>" "\<forall>row\<in>set rows. va_resource row = i"
      "list_all2 (stores D u) rows vs" by blast
  have "stores D u = stores D db" by (intro ext stores_cong) (simp_all add: u(1))
  then show ?case using t u by (intro exI[of _ "row # rows"] exI[of _ q']) simp
qed

section \<open>Resources stored as they were given\<close>

definition values_of :: "catalog_db \<Rightarrow> int \<Rightarrow> pg_value list" where
  "values_of db i = filter (\<lambda>v. va_resource v = i) (tb_values db)"

text \<open>A row belongs to the class, family, type and unit the resource names.\<close>

definition scope_named :: "catalog_db \<Rightarrow> 'd resource \<Rightarrow> pg_resource \<Rightarrow> bool" where
  "scope_named db x r \<longleftrightarrow>
     (\<exists>cl\<in>set (tb_classes db). row_id cl = rs_class r \<and> cl_code cl = r_class x)
   \<and> (\<exists>f\<in>set (tb_families db). row_id f = rs_family r \<and> fa_code f = r_family x)
   \<and> (\<exists>t\<in>set (tb_types db). row_id t = rs_type r \<and> ty_code t = r_type x)
   \<and> (\<exists>u\<in>set (tb_units db). row_id u = rs_unit r \<and> un_code u = r_unit x)"

text \<open>The resource \<open>i\<close> of the tables is \<open>x\<close>: its scope, and one row for each of its values, in order.\<close>

definition resource_stored :: "'d decimal_ops \<Rightarrow> catalog_db \<Rightarrow> int \<Rightarrow> 'd resource \<Rightarrow> pg_resource \<Rightarrow> bool" where
  "resource_stored D db i x r \<longleftrightarrow> r \<in> set (tb_resources db) \<and> row_id r = i \<and> scope_named db x r
     \<and> list_all2 (stores D db) (values_of db i) (r_attributes x)"

text \<open>Everything the tables hold of the other resources is as it was.\<close>

definition others_kept :: "int \<Rightarrow> catalog_db \<Rightarrow> catalog_db \<Rightarrow> bool" where
  "others_kept i db t \<longleftrightarrow> filter (\<lambda>r. row_id r \<noteq> i) (tb_resources t) = filter (\<lambda>r. row_id r \<noteq> i) (tb_resources db)
     \<and> (\<forall>j. j \<noteq> i \<longrightarrow> values_of t j = values_of db j)"

definition same_schema :: "catalog_db \<Rightarrow> catalog_db \<Rightarrow> bool" where
  "same_schema db t \<longleftrightarrow> tb_classes t = tb_classes db \<and> tb_families t = tb_families db \<and> tb_types t = tb_types db
     \<and> tb_units t = tb_units db \<and> tb_definitions t = tb_definitions db"

lemma scope_named_cong: "same_schema db t \<Longrightarrow> scope_named t x r = scope_named db x r"
  by (simp add: scope_named_def same_schema_def)

lemma stores_schema: "same_schema db t \<Longrightarrow> stores D t = stores D db"
  by (intro ext stores_cong) (simp_all add: same_schema_def)

lemma active_scope_named:
  assumes "first_row (active_scope db x) = Some (c, f, ty, u)" "rs_class r = c" "rs_family r = f" "rs_type r = ty" "rs_unit r = u"
  shows "scope_named db x r"
proof -
  have "(c, f, ty, u) \<in> set (active_scope db x)" using assms(1) by (cases "active_scope db x") (auto simp: first_row_def)
  then show ?thesis using assms(2-) unfolding active_scope_def scope_named_def by auto
qed

lemma verify_count_Inr: "verifyAttributeCount F i n db = (Inr y, t) \<Longrightarrow> t = db"
  using count_steps[of "\<lambda>u. u = db"] unfolding steps_in_def by (metis snd_conv)

lemma delete_Inr: "sql_delete sel remove match db = (Inr n, t) \<longleftrightarrow> n = int (length (filter match (sel db))) \<and> t = remove match db
    \<and> violation t = None"
  by (auto simp: sql_delete_def enforce_Inr)

lemma replace_values_Inr:
  assumes run: "replace_values F D x db = (Inr (), t)" and laws: "decimal_laws D"
  shows "\<exists>rows q. t = db\<lparr>tb_values := filter (\<lambda>v. va_resource v \<noteq> r_id x) (tb_values db) @ rows, tb_sequences := q\<rparr>
    \<and> (\<forall>row\<in>set rows. va_resource row = r_id x) \<and> list_all2 (stores D db) rows (r_attributes x)"
proof -
  obtain n u where del: "sql_delete tb_values (remove_rows tb_values_update) (\<lambda>v. va_resource v = r_id x) db = (Inr n, u)"
    and ins: "persist_values F D x (r_id x) 0 (r_attributes x) u = (Inr (), t)"
    using run unfolding replace_values_def by (auto simp: bnd_Inr stmt_Inr dest: verify_count_Inr)
  have u: "u = db\<lparr>tb_values := filter (\<lambda>v. va_resource v \<noteq> r_id x) (tb_values db)\<rparr>" "tables_ok u"
    using del by (auto simp: delete_Inr remove_rows_def tables_ok_def)
  have "stores D u = stores D db" by (rule stores_schema) (simp add: same_schema_def u(1))
  with persist_values_Inr[OF ins u(2) laws] show ?thesis unfolding u(1) by auto
qed

text \<open>The update statement of one resource followed by its new values.\<close>

lemma updated_resource:
  assumes ok: "tables_ok db" and r: "r \<in> set (tb_resources db)" "row_id r = r_id x" and keep: "row_id (g r) = row_id r"
    and named: "scope_named db x (g r)"
    and u: "u = db\<lparr>tb_resources := map (\<lambda>y. if row_id y = r_id x then g y else y) (tb_resources db)\<rparr>"
    and run: "replace_values F D x u = (Inr (), t)" and laws: "decimal_laws D"
  shows "resource_stored D t (r_id x) x (g r) \<and> others_kept (r_id x) db t"
proof -
  obtain rows q where t: "t = u\<lparr>tb_values := filter (\<lambda>v. va_resource v \<noteq> r_id x) (tb_values u) @ rows, tb_sequences := q\<rparr>"
    and rows: "\<forall>row\<in>set rows. va_resource row = r_id x" "list_all2 (stores D u) rows (r_attributes x)"
    using replace_values_Inr[OF run laws] by blast
  have schema: "same_schema db t" "same_schema u t" by (simp_all add: same_schema_def t u)
  have mine: "values_of t (r_id x) = rows" using rows(1) by (auto simp: values_of_def t filter_empty_conv)
  have others: "values_of t j = values_of db j" if "j \<noteq> r_id x" for j
  proof -
    have "filter (\<lambda>v. va_resource v = j) rows = []" using rows(1) that by (auto simp: filter_empty_conv)
    moreover have "filter (\<lambda>v. va_resource v \<noteq> r_id x \<and> va_resource v = j) vs = filter (\<lambda>v. va_resource v = j) vs" for vs
      using that by (intro filter_cong) auto
    ultimately show ?thesis by (simp add: values_of_def t u filter_filter)
  qed
  have unique: "y = r" if "y \<in> set (tb_resources db)" "row_id y = r_id x" for y
    using unique_row[OF tables_ok_resources[OF ok] that(1) r(1)] that(2) r(2) by simp
  have "filter (\<lambda>y. row_id y \<noteq> r_id x) (map (\<lambda>y. if row_id y = r_id x then g y else y) ys) = filter (\<lambda>y. row_id y \<noteq> r_id x) ys"
    if "set ys \<subseteq> set (tb_resources db)" for ys
    using that
  proof (induction ys)
    case (Cons y ys)
    then show ?case using unique[of y] keep r(2) by auto
  qed simp
  then have "others_kept (r_id x) db t" using others by (simp add: others_kept_def t u)
  moreover have "resource_stored D t (r_id x) x (g r)"
    unfolding resource_stored_def mine scope_named_cong[OF schema(1)] stores_schema[OF schema(2)]
    using r keep named rows(2) by (auto simp: t u intro!: image_eqI[of _ _ r])
  ultimately show ?thesis by blast
qed

text \<open>C5: Create: a successful create adds one active row under a fresh identifier, at revision 1, with the
  identity given, in the class, family, type and unit the resource names, and one row for each of its
  attribute values, in order, each of which decodes to the value given; nothing the tables hold of any
  other resource changes.\<close>

theorem create_stores_resource:
  assumes ok: "tables_ok db" and laws: "decimal_laws D" and run: "store_create F applied D x db = (Inr (), t)"
  shows "\<exists>i r. row_by_id (tb_resources db) i = None \<and> resource_stored D t i x r \<and> others_kept i db t
    \<and> rs_identity r = r_identity x \<and> row_active r \<and> row_revision r = 1"
proof -
  obtain i u where ins: "sql_insert ''recursos'' tb_resources_update
      (\<lambda>db. map_option (\<lambda>ids. resource_row ids x) (first_row (active_scope db x))) db = (Inr i, u)"
    and vals: "persist_values F D x i 0 (r_attributes x) u = (Inr (), t)"
    using run unfolding store_create_def create_tx_def
    by (auto simp: bnd_Inr transact_as_Inr stmt_Inr ret_def pure_Inr dest: verify_count_Inr)
  obtain c f ty un where ids: "first_row (active_scope db x) = Some (c, f, ty, un)"
    using ins by (cases "first_row (active_scope db x)") (auto simp: sql_insert_def)
  define r where "r = resource_row (c, f, ty, un) x i"
  define q where "q = gput ''recursos'' i (tb_sequences db)"
  have u: "u = db\<lparr>tb_resources := tb_resources db @ [r], tb_sequences := q\<rparr>" and "violation u = None"
    using ins ids by (auto simp: sql_insert_def Let_def enforce_Inr r_def q_def)
  then have ok': "tables_ok u" by (simp add: tables_ok_def)
  obtain rows q' where t: "t = u\<lparr>tb_values := tb_values u @ rows, tb_sequences := q'\<rparr>"
    and rows: "\<forall>row\<in>set rows. va_resource row = i" "list_all2 (stores D u) rows (r_attributes x)"
    using persist_values_Inr[OF vals ok' laws] by blast
  have r: "row_id r = i" "scope_named db x r" using active_scope_named[OF ids] by (simp_all add: r_def resource_row_def)
  have fresh: "\<forall>y\<in>set (tb_resources db). row_id y \<noteq> i" using tables_ok_resources[OF ok'] r(1) by (auto simp: u) (metis imageI)
  then have none: "row_by_id (tb_resources db) i = None" by (auto simp: row_by_id_def find_None_iff)
  have "\<forall>v\<in>set (tb_values db). va_resource v \<in> row_id ` set (tb_resources db)"
    using tables_ok_values(2)[OF ok] by (force dest: bspec)
  then have "values_of db i = []" using fresh by (fastforce simp: values_of_def filter_empty_conv)
  then have mine: "values_of t i = rows" using rows(1) by (simp add: values_of_def t u)
  have schema: "same_schema db t" "same_schema u t" by (simp_all add: same_schema_def t u)
  have "resource_stored D t i x r"
    unfolding resource_stored_def mine scope_named_cong[OF schema(1)] stores_schema[OF schema(2)]
    using rows(2) r by (simp add: t u)
  moreover have "filter (\<lambda>v. va_resource v = j) rows = []" if "j \<noteq> i" for j using rows(1) that by (auto simp: filter_empty_conv)
  then have "others_kept i db t" using r(1) by (simp add: others_kept_def values_of_def t u)
  ultimately show ?thesis using none
    by (intro exI[of _ i] exI[of _ r]) (simp add: r_def resource_row_def)
qed

theorem create_stores_resource_witness:
  "\<exists>i r. row_by_id (tb_resources stock_db) i = None \<and> resource_stored demo_decimals stocked_db i (stock_item 0 5) r
    \<and> row_active r"
  using create_stores_resource[OF stock_ok(1) demo_decimal_laws stock_created] by blast

lemma sql_update_Inr: "sql_update sel upd match f db = (Inr n, t) \<longleftrightarrow> n = int (length (filter match (sel db)))
    \<and> t = upd (map (\<lambda>r. if match r then f r else r)) db \<and> violation t = None"
  by (auto simp: sql_update_def enforce_Inr)

lemma row_in: "filter (\<lambda>r. row_id r = i) rows \<noteq> [] \<Longrightarrow> \<exists>r. r \<in> set rows \<and> row_id r = i"
  by (auto simp: filter_empty_conv)

lemma store_update_Inr:
  assumes "store_update F applied D x db = (Inr (), t)"
  obtains r ids u where "r \<in> set (tb_resources db)" "row_id r = r_id x" "first_row (active_scope db x) = Some ids"
    "u = db\<lparr>tb_resources := map (\<lambda>y. if row_id y = r_id x then (set_scope ids x y)\<lparr>rs_identity := r_identity x\<rparr> else y) (tb_resources db)\<rparr>"
    "tables_ok u" "replace_values F D x u = (Inr (), t)"
proof -
  obtain ids n u where ids: "first_row (active_scope db x) = Some ids"
    and upd: "sql_update tb_resources tb_resources_update (\<lambda>r. row_id r = r_id x)
      (\<lambda>r. (set_scope ids x r)\<lparr>rs_identity := r_identity x\<rparr>) db = (Inr n, u)"
    and n: "n \<noteq> 0" and vals: "replace_values F D x u = (Inr (), t)"
    using assms unfolding store_update_def update_tx_def resolve_scope_def
    by (auto simp: bnd_Inr transact_as_Inr stmt_Inr ret_def fail_def pure_Inr read_Inr split: if_splits)
  have u: "u = db\<lparr>tb_resources := map (\<lambda>y. if row_id y = r_id x then (set_scope ids x y)\<lparr>rs_identity := r_identity x\<rparr> else y) (tb_resources db)\<rparr>"
    and hit: "filter (\<lambda>r. row_id r = r_id x) (tb_resources db) \<noteq> []" and ok: "tables_ok u"
    using upd n by (auto simp: sql_update_Inr tables_ok_def)
  then show thesis using that row_in[OF hit] ids vals by blast
qed

text \<open>Update without a revision: on success the resource has the scope and the identity given and exactly
  the values given, the other resources are as they were, and its revision is the one it had, so a caller
  that still holds that revision does not see the change.\<close>

theorem update_stores_resource:
  assumes ok: "tables_ok db" and laws: "decimal_laws D" and run: "store_update F applied D x db = (Inr (), t)"
  shows "\<exists>r0 r. row_by_id (tb_resources db) (r_id x) = Some r0 \<and> resource_stored D t (r_id x) x r
    \<and> others_kept (r_id x) db t \<and> rs_identity r = r_identity x \<and> row_revision r = row_revision r0 \<and> row_active r = row_active r0"
proof -
  from run obtain r ids u where r: "r \<in> set (tb_resources db)" "row_id r = r_id x" and scope: "first_row (active_scope db x) = Some ids"
    and u: "u = db\<lparr>tb_resources := map (\<lambda>y. if row_id y = r_id x then (set_scope ids x y)\<lparr>rs_identity := r_identity x\<rparr> else y) (tb_resources db)\<rparr>"
    and vals: "replace_values F D x u = (Inr (), t)"
    by (rule store_update_Inr)
  obtain c f ty un where four: "ids = (c, f, ty, un)" by (cases ids)
  note ids = scope[unfolded four] and u = u[unfolded four]
  let ?g = "\<lambda>r. (set_scope (c, f, ty, un) x r)\<lparr>rs_identity := r_identity x\<rparr>"
  have "scope_named db x (?g r)" by (rule active_scope_named[OF ids]) (simp_all add: set_scope_def)
  with updated_resource[OF ok r _ _ u vals laws] have "resource_stored D t (r_id x) x (?g r) \<and> others_kept (r_id x) db t"
    by (simp add: set_scope_def)
  then show ?thesis using find_row[OF tables_ok_resources[OF ok] r(1)] r(2)
    by (intro exI[of _ r] exI[of _ "?g r"]) (simp add: set_scope_def)
qed

lemma bump_affected_ok:
  assumes "bump_affected F operation match f db = (Inr b, u)" "tables_ok db"
  shows "tables_ok u"
proof -
  have "steps_in tables_ok (bump_affected F operation match f)"
    unfolding bump_affected_def by (auto intro!: kept split: sum.split db_error.split)
  then show ?thesis using assms unfolding steps_in_def by (metis snd_conv)
qed

lemma bump_affected_bump:
  assumes "bump_affected F operation match f db = (Inr True, u)"
  shows "\<exists>v. sql_bump tb_resources tb_resources_update (match db) f db = (Inr v, u)"
  using assms unfolding bump_affected_def
  by (cases "sql_bump tb_resources tb_resources_update (match db) f db")
    (simp add: bnd_run ret_def fail_def stmt_def split: option.splits sum.splits db_error.splits)

lemma bump_affected_Inr:
  assumes run: "bump_affected F operation match f db = (Inr True, u)"
    and match: "\<And>x. match db x \<longleftrightarrow> p x \<and> row_id x = i \<and> row_revision x = er"
    and ok: "tables_ok db" and r: "r \<in> set (tb_resources db)" "row_id r = i" "row_revision r = er"
  shows "p r \<and> u = db\<lparr>tb_resources := map (\<lambda>y. if row_id y = i then (f y)\<lparr>row_revision := er + 1\<rparr> else y) (tb_resources db)\<rparr>"
proof -
  let ?bump = "map (\<lambda>r. if match db r then (f r)\<lparr>row_revision := row_revision r + 1\<rparr> else r)"
  obtain v where bump: "sql_bump tb_resources tb_resources_update (match db) f db = (Inr v, u)"
    using bump_affected_bump[OF run] by blast
  have u: "u = tb_resources_update ?bump db" and hit: "filter (match db) (tb_resources db) \<noteq> []"
    using bump by (simp_all add: sql_bump_def enforce_Inr split: list.splits if_splits)
  have unique: "y = r" if "y \<in> set (tb_resources db)" "row_id y = i" for y
    using unique_row[OF tables_ok_resources[OF ok] that(1) r(1)] that(2) r(2) by simp
  obtain y where "y \<in> set (tb_resources db)" "match db y" using hit by (auto simp: filter_empty_conv)
  then have p: "p r" using unique[of y] match by simp
  have "?bump (tb_resources db) = map (\<lambda>y. if row_id y = i then (f y)\<lparr>row_revision := er + 1\<rparr> else y) (tb_resources db)"
  proof (rule map_cong[OF refl])
    fix y assume "y \<in> set (tb_resources db)"
    then show "(if match db y then (f y)\<lparr>row_revision := row_revision y + 1\<rparr> else y)
        = (if row_id y = i then (f y)\<lparr>row_revision := er + 1\<rparr> else y)"
      using unique[of y] p r match by auto
  qed
  then show ?thesis using p u by simp
qed

lemma store_update_revision_Inr:
  assumes ok: "tables_ok db" and run: "store_update_revision F applied D coll x er db = (Inr y, t)"
  obtains r0 cl ids u where "class_of_resource db (r_id x) = Some (r0, cl)" "row_revision r0 = er" "er \<noteq> 0"
    "r0 \<in> set (tb_resources db)" "row_id r0 = r_id x" "first_row (active_scope db x) = Some ids"
    "u = db\<lparr>tb_resources := map (\<lambda>y. if row_id y = r_id x then (set_scope ids x y)\<lparr>row_revision := er + 1\<rparr> else y) (tb_resources db)\<rparr>"
    "tables_ok u" "replace_values F D x u = (Inr (), t)"
    "getWithRevision F D coll (r_id x) (cl_code cl) (rs_identity r0) t = Inr y"
proof -
  obtain r0 cl ids u where r0: "class_of_resource db (r_id x) = Some (r0, cl)" "row_revision r0 = er" "er \<noteq> 0"
    and ids: "first_row (active_scope db x) = Some ids"
    and upd: "bump_affected F ''update resource revision'' (\<lambda>_ x'. row_id x' = r_id x \<and> row_revision x' = er)
      (set_scope ids x) db = (Inr True, u)"
    and vals: "replace_values F D x u = (Inr (), t)"
    and reread: "getWithRevision F D coll (r_id x) (cl_code cl) (rs_identity r0) t = Inr y"
    using run unfolding store_update_revision_def update_revision_tx_def resolve_scope_def
    by (auto simp: bnd_Inr transact_as_Inr ret_def fail_def pure_Inr read_Inr split: if_splits prod.splits)
  have r: "r0 \<in> set (tb_resources db)" "row_id r0 = r_id x" using r0(1) by (auto simp: class_of_resource_def dest!: find_in)
  have "u = db\<lparr>tb_resources := map (\<lambda>y. if row_id y = r_id x then (set_scope ids x y)\<lparr>row_revision := er + 1\<rparr> else y) (tb_resources db)\<rparr>"
    using bump_affected_Inr[OF upd _ ok r r0(2), where p = "\<lambda>_. True"] by simp
  then show thesis using that r0 r ids bump_affected_ok[OF upd ok] vals reread by blast
qed

text \<open>C17: Update with a revision: a success that the caller sees means the stored revision was the expected one;
  it is then one higher, the scope and the values are those given, the identity stays the one stored before,
  and the other resources are as they were.\<close>

theorem update_revision_stores_resource:
  assumes ok: "tables_ok db" and laws: "decimal_laws D"
    and run: "store_update_revision F applied D coll x er db = (Inr y, t)"
  shows "\<exists>r0 r. row_by_id (tb_resources db) (r_id x) = Some r0 \<and> row_revision r0 = er \<and> er \<noteq> 0
    \<and> resource_stored D t (r_id x) x r \<and> others_kept (r_id x) db t
    \<and> row_revision r = er + 1 \<and> r_revision y = er + 1 \<and> rs_identity r = rs_identity r0 \<and> row_active r = row_active r0"
proof -
  have ok': "tables_ok t" using resource_write_steps[of F applied D coll "WriteUpdateRevision x er"] ok run
    unfolding steps_in_def by (auto simp: discard_def bnd_run ret_def dest!: spec[of _ db])
  from ok run obtain r0 cl ids u where r0: "class_of_resource db (r_id x) = Some (r0, cl)" "row_revision r0 = er" "er \<noteq> 0"
    and r: "r0 \<in> set (tb_resources db)" "row_id r0 = r_id x" and scope: "first_row (active_scope db x) = Some ids"
    and u: "u = db\<lparr>tb_resources := map (\<lambda>y. if row_id y = r_id x then (set_scope ids x y)\<lparr>row_revision := er + 1\<rparr> else y) (tb_resources db)\<rparr>"
    and vals: "replace_values F D x u = (Inr (), t)"
    and reread: "getWithRevision F D coll (r_id x) (cl_code cl) (rs_identity r0) t = Inr y"
    by (rule store_update_revision_Inr)
  obtain c f ty un where four: "ids = (c, f, ty, un)" by (cases ids)
  note ids = scope[unfolded four] and u = u[unfolded four]
  let ?g = "\<lambda>r. (set_scope (c, f, ty, un) x r)\<lparr>row_revision := er + 1\<rparr>"
  have "scope_named db x (?g r0)" by (rule active_scope_named[OF ids]) (simp_all add: set_scope_def)
  with updated_resource[OF ok r _ _ u vals laws] have new: "resource_stored D t (r_id x) x (?g r0) \<and> others_kept (r_id x) db t"
    by (simp add: set_scope_def)
  then have "?g r0 \<in> set (tb_resources t)" "row_id (?g r0) = r_id x" by (auto simp: resource_stored_def)
  then have "row_by_id (tb_resources t) (r_id x) = Some (?g r0)" using find_row[OF tables_ok_resources[OF ok'], of "?g r0"] by simp
  then have "r_revision y = er + 1" using reread unfolding getWithRevision_def
    by (auto simp: bindr_Inr_iff query_one_def split: option.splits)
  then show ?thesis using new r0(2,3) r find_row[OF tables_ok_resources[OF ok] r(1)]
    by (intro exI[of _ r0] exI[of _ "?g r0"]) (simp add: set_scope_def)
qed

theorem update_revision_stores_resource_witness:
  "\<exists>t r. snd (store_update_revision all_well False demo_decimals plain_collation (stock_item 1 7) 1 stocked_db) = t
    \<and> resource_stored demo_decimals t 1 (stock_item 1 7) r \<and> row_revision r = 2"
proof -
  obtain t where "store_update_revision all_well False demo_decimals plain_collation (stock_item 1 7) 1 stocked_db
      = (Inr ((stock_item 1 7)\<lparr>r_revision := 2\<rparr>), t)"
    using stock_updated by (metis prod.collapse)
  from this update_revision_stores_resource[OF stock_ok(2) demo_decimal_laws this] show ?thesis by (auto simp: stock_item_def)
qed

section \<open>The expected revision of a write\<close>

text \<open>A revision-aware write of a resource, as the service calls it.\<close>

datatype (plugins only: code size) 'd revision_write =
    LifecycleWrite int bool gstring
  | UpdateWrite "'d resource"

fun written_id :: "'d revision_write \<Rightarrow> int" where
  "written_id (LifecycleWrite i active key) = i"
| "written_id (UpdateWrite x) = r_id x"

fun revision_result ::
  "sql_faults \<Rightarrow> bool \<Rightarrow> 'd decimal_ops \<Rightarrow> (gstring \<Rightarrow> gstring) \<Rightarrow> 'd revision_write \<Rightarrow> revision \<Rightarrow> 'd resource catalog_sql" where
  "revision_result F applied D coll (LifecycleWrite i active key) er = setLifecycleRevision F applied D coll i active key er"
| "revision_result F applied D coll (UpdateWrite x) er = store_update_revision F applied D coll x er"

lemma class_of_resource_row:
  assumes "class_of_resource db i = Some (r, cl)" "tables_ok db"
  shows "r \<in> set (tb_resources db) \<and> row_id r = i \<and> row_by_id (tb_resources db) i = Some r"
  using assms find_row[OF tables_ok_resources[OF assms(2)]] by (auto simp: class_of_resource_def dest!: find_in)

lemma with_revision_Inr:
  assumes "getWithRevision F D coll i c k db = Inr y"
  shows "\<exists>r. row_by_id (tb_resources db) i = Some r \<and> r_revision y = row_revision r"
  using assms by (auto simp: getWithRevision_def bindr_Inr_iff query_one_def split: option.splits)

lemma revision_result_steps: "steps_in tables_ok (revision_result F applied D coll call er)"
  using transact_as_steps[OF resource_tx_steps(4) undo_tables_ok] transact_as_steps[OF resource_tx_steps(5) undo_tables_ok]
  by (cases call) (auto simp: setLifecycleRevision_def store_update_revision_def)

text \<open>A success read the expected revision and returns the one now stored.\<close>

lemma revision_result_Inr:
  assumes "revision_result F applied D coll call er db = (Inr y, t)" "tables_ok db"
  shows "er \<noteq> 0 \<and> (\<exists>r0. row_by_id (tb_resources db) (written_id call) = Some r0 \<and> row_revision r0 = er)
    \<and> (\<exists>r. row_by_id (tb_resources t) (written_id call) = Some r \<and> r_revision y = row_revision r)"
proof -
  have "er \<noteq> 0 \<and> (\<exists>r0 cl. class_of_resource db (written_id call) = Some (r0, cl) \<and> row_revision r0 = er)
      \<and> (\<exists>c k. getWithRevision F D coll (written_id call) c k t = Inr y)"
  proof (cases call)
    case (LifecycleWrite i active key)
    show ?thesis using assms(1) unfolding LifecycleWrite revision_result.simps written_id.simps
        setLifecycleRevision_def lifecycle_revision_tx_def
      by (auto simp: bnd_Inr transact_as_Inr pure_Inr read_Inr fail_def split: if_splits prod.splits)
  next
    case (UpdateWrite x)
    show ?thesis using assms(1) unfolding UpdateWrite revision_result.simps written_id.simps
        store_update_revision_def update_revision_tx_def
      by (auto simp: bnd_Inr transact_as_Inr pure_Inr read_Inr fail_def split: if_splits prod.splits)
  qed
  then show ?thesis using class_of_resource_row[OF _ assms(2)] with_revision_Inr by blast
qed

text \<open>A write whose expected revision is not the stored one changes nothing.\<close>

lemma read_row_run: "read_row F l missing sel db = (case F l 0 of Some f \<Rightarrow> (Inl (wrap_read l (fault_error (f))), db)
    | None \<Rightarrow> (case sel db of None \<Rightarrow> (Inl missing, db) | Some x \<Rightarrow> (Inr x, db)))"
  by (auto simp: read_row_def stmt_def map_err_run query_row_def split: option.split)

lemma transact_as_failed:
  assumes "\<exists>e. body db = (Inl e, db)"
  shows "\<exists>e. transact_as F begins applied body db = (Inl e, db)"
  using assms by (auto simp: transact_as_def undo_tables_def split: option.split)

lemma stale_tx:
  assumes "tables_ok db" "row_by_id (tb_resources db) i = Some r" "row_revision r \<noteq> er"
  shows "\<exists>e. lifecycle_revision_tx F i active key er db = (Inl e, db)"
    "i = r_id x \<Longrightarrow> \<exists>e. update_revision_tx F D x er db = (Inl e, db)"
proof -
  have "row_revision r' \<noteq> er" if "class_of_resource db i = Some (r', cl)" for r' cl
    using class_of_resource_row[OF that assms(1)] assms(2,3) by simp
  then show "\<exists>e. lifecycle_revision_tx F i active key er db = (Inl e, db)"
      "i = r_id x \<Longrightarrow> \<exists>e. update_revision_tx F D x er db = (Inl e, db)"
    unfolding lifecycle_revision_tx_def update_revision_tx_def
    by (auto simp: bnd_run read_row_run split: option.split)
qed

lemma stale_write:
  assumes "tables_ok db" "row_by_id (tb_resources db) (written_id call) = Some r" "row_revision r \<noteq> er"
  shows "\<exists>e. revision_result F applied D coll call er db = (Inl e, db)"
proof -
  have run: "\<exists>e. bnd (transact_as F begins applied body) f db = (Inl e, db)" if "\<exists>e. body db = (Inl e, db)"
    for begins and body :: "(gstring \<times> gstring \<times> gstring) catalog_sql" and f :: "_ \<Rightarrow> 'a resource catalog_sql"
    using transact_as_failed[where body = body and db = db, OF that] by (metis bnd_Inl)
  have pool: "\<exists>e. bnd (lift (pool_check F)) (\<lambda>_. m) db = (Inl e, db)" if "\<exists>e. m db = (Inl e, db)" for m :: "'a resource catalog_sql"
    using that unfolding bnd_lift by (auto split: sum.split)
  note tx = stale_tx[OF assms]
  show ?thesis
  proof (cases call)
    case (LifecycleWrite i active key)
    then show ?thesis using tx(1) by (auto simp: setLifecycleRevision_def intro!: pool run)
  next
    case (UpdateWrite x)
    then show ?thesis using tx(2)[of x] by (cases "ValidateForPersistence x") (auto simp: store_update_revision_def intro!: pool run)
  qed
qed

text \<open>C8: The expected revision decides: once a revision-aware write of a resource succeeded and moved its revision,
  no other write that expects the old revision succeeds, whatever it asks for and whatever fails, and the
  tables are as the first write left them.\<close>

theorem resource_revision_wins_once:
  assumes "tables_ok db" "revision_result F applied D coll call er db = (Inr y, t)" "r_revision y \<noteq> er"
    and "written_id call' = written_id call"
  shows "\<exists>e. revision_result F' applied' D coll call' er t = (Inl e, t)"
proof -
  have "tables_ok t" using revision_result_steps assms(1,2) unfolding steps_in_def by (metis snd_conv)
  then show ?thesis using revision_result_Inr[OF assms(2,1)] assms(3,4) by (auto intro!: stale_write)
qed

theorem resource_revision_wins_once_witness:
  "\<exists>e t. revision_result all_well False demo_decimals plain_collation (LifecycleWrite 1 False []) 1 stocked_db
      = (Inr ((stock_item 1 5)\<lparr>r_revision := 2, r_active := False\<rparr>), t)
    \<and> revision_result all_well False demo_decimals plain_collation (UpdateWrite (stock_item 1 7)) 1 t = (Inl e, t)"
proof -
  obtain t where run: "revision_result all_well False demo_decimals plain_collation (LifecycleWrite 1 False []) 1 stocked_db
      = (Inr ((stock_item 1 5)\<lparr>r_revision := 2, r_active := False\<rparr>), t)"
    using stock_retired unfolding revision_result.simps by (metis prod.collapse)
  from resource_revision_wins_once[OF stock_ok(2) run, of "UpdateWrite (stock_item 1 7)" all_well False] run
  show ?thesis by (auto simp: stock_item_def)
qed

lemma lifecycle_update:
  assumes ok: "tables_ok db" and r: "class_of_resource db i = Some (r, cl)" "row_revision r = er"
    and run: "bump_affected F operation (\<lambda>db x. lifecycle_rows i active db x \<and> row_revision x = er)
      (\<lambda>x. x\<lparr>row_active := active\<rparr>) db = (Inr True, u)"
  shows "(active \<longrightarrow> scope_active db r)
    \<and> u = db\<lparr>tb_resources := map (\<lambda>y. if row_id y = i then y\<lparr>row_active := active, row_revision := er + 1\<rparr> else y) (tb_resources db)\<rparr>"
proof -
  have match: "lifecycle_rows i active db x \<and> row_revision x = er \<longleftrightarrow> (active \<longrightarrow> scope_active db x) \<and> row_id x = i \<and> row_revision x = er" for x
    by (auto simp: lifecycle_rows_def)
  from class_of_resource_row[OF r(1) ok] have "r \<in> set (tb_resources db)" "row_id r = i" by simp_all
  then show ?thesis using bump_affected_Inr[OF run match ok _ _ r(2)] by blast
qed

lemma lifecycle_revision_tx_Inr:
  assumes "lifecycle_revision_tx F i active key er db = (Inr (label, c, k), t)"
  shows "\<exists>r cl. class_of_resource db i = Some (r, cl) \<and> row_revision r = er \<and> (key \<noteq> [] \<longrightarrow> rs_identity r = key)
    \<and> (if row_active r = active then t = db
       else bump_affected F ''set resource active revision'' (\<lambda>db x. lifecycle_rows i active db x \<and> row_revision x = er)
        (\<lambda>x. x\<lparr>row_active := active\<rparr>) db = (Inr True, t))"
proof -
  let ?bump = "bump_affected F ''set resource active revision'' (\<lambda>db x. lifecycle_rows i active db x \<and> row_revision x = er)
        (\<lambda>x. x\<lparr>row_active := active\<rparr>)"
  obtain r cl where r: "class_of_resource db i = Some (r, cl)" and
    run: "(if key \<noteq> [] \<and> key \<noteq> rs_identity r then fail (Sentinel (Dom ErrResourceIntegrity))
      else if row_revision r \<noteq> er then fail revision_conflict
      else if row_active r = active then ret (''commit resource lifecycle revision no-op'', cl_code cl, rs_identity r)
      else bnd ?bump (\<lambda>affected. if affected then ret (''commit resource lifecycle revision'', cl_code cl, rs_identity r)
        else if active then fail (Sentinel (Dom ErrResourceReference)) else fail (resource_not_found i))) db = (Inr (label, c, k), t)"
    using assms unfolding lifecycle_revision_tx_def 
    by (auto simp only: bnd_Inr read_Inr prod.case)
  have "t = db" if "row_active r = active" using run that by (simp split: if_splits)
  moreover have "?bump db = (Inr True, t)" if "row_active r \<noteq> active"
    using run that by (cases "?bump db") (auto simp: bnd_run split: if_splits sum.splits)
  ultimately show ?thesis using r run by (intro exI[of _ r] exI[of _ cl]) (auto split: if_splits)
qed

lemma lifecycle_revision_body:
  assumes "setLifecycleRevision F applied D coll i active key er db = (Inr y, t)"
  shows "\<exists>label c k. lifecycle_revision_tx F i active key er db = (Inr (label, c, k), t)"
  using assms unfolding setLifecycleRevision_def
  by (cases "er = 0") (auto simp: bnd_Inr transact_as_Inr pure_Inr)

definition flag_set :: "int \<Rightarrow> bool \<Rightarrow> revision \<Rightarrow> catalog_db \<Rightarrow> catalog_db" where
  "flag_set i active v db = db\<lparr>tb_resources :=
     map (\<lambda>y. if row_id y = i then y\<lparr>row_active := active, row_revision := v\<rparr> else y) (tb_resources db)\<rparr>"

lemma flag_set_revision:
  assumes "row_by_id (tb_resources (flag_set i active v db)) i = Some z"
  shows "row_revision z = v"
proof -
  have z: "z \<in> set (tb_resources (flag_set i active v db))" "row_id z = i" using row_by_id_SomeD[OF assms] by blast+
  let ?f = "\<lambda>y. if row_id y = i then y\<lparr>row_active := active, row_revision := v\<rparr> else y"
  have "tb_resources (flag_set i active v db) = map ?f (tb_resources db)" by (simp add: flag_set_def)
  with z(1) have "z \<in> ?f ` set (tb_resources db)" by (simp only: set_map)
  then obtain x where "z = ?f x" by (rule imageE)
  then show ?thesis using z(2) by (cases "row_id x = i") simp_all
qed

text \<open>Deactivating or reactivating with a revision: a success the caller sees started from the expected revision and
  leaves the resource with the requested flag; the revision moves by one exactly when the flag changed, and a
  reactivation that changed it found the class, family, type, unit and unit policy active. Nothing else of
  the tables changes.\<close>

theorem lifecycle_revision_sets:
  assumes "tables_ok db" "setLifecycleRevision F applied D coll i active key er db = (Inr y, t)"
  shows "\<exists>r. row_by_id (tb_resources db) i = Some r \<and> row_revision r = er \<and> (key \<noteq> [] \<longrightarrow> rs_identity r = key)
    \<and> (if row_active r = active then t = db \<and> r_revision y = er
       else (active \<longrightarrow> scope_active db r) \<and> r_revision y = er + 1
         \<and> t = flag_set i active (er + 1) db)"
proof -
  have run: "revision_result F applied D coll (LifecycleWrite i active key) er db = (Inr y, t)" using assms(2) by simp
  obtain z where z: "row_by_id (tb_resources t) i = Some z" "r_revision y = row_revision z"
    using revision_result_Inr[OF run assms(1)] unfolding written_id.simps by blast
  obtain label c k where "lifecycle_revision_tx F i active key er db = (Inr (label, c, k), t)"
    using lifecycle_revision_body[OF assms(2)] by blast
  then obtain r cl where r: "class_of_resource db i = Some (r, cl)" "row_revision r = er" "key \<noteq> [] \<longrightarrow> rs_identity r = key"
    and body: "if row_active r = active then t = db
       else bump_affected F ''set resource active revision'' (\<lambda>db x. lifecycle_rows i active db x \<and> row_revision x = er)
        (\<lambda>x. x\<lparr>row_active := active\<rparr>) db = (Inr True, t)"
    using lifecycle_revision_tx_Inr by blast
  have row: "row_by_id (tb_resources db) i = Some r" using class_of_resource_row[OF r(1) assms(1)] by blast
  show ?thesis
  proof (cases "row_active r = active")
    case True
    then have t: "t = db" using body by simp
    then have "r_revision y = er" using z row r(2) by simp
    then show ?thesis using True t r(2,3) row by simp
  next
    case False
    have t: "(active \<longrightarrow> scope_active db r) \<and> t = flag_set i active (er + 1) db"
      using lifecycle_update[OF assms(1) r(1,2)] False body unfolding flag_set_def by simp
    then have "r_revision y = er + 1" using flag_set_revision[of i active "er + 1" db z] z by simp
    then show ?thesis using False t r(2,3) row by simp
  qed
qed

theorem lifecycle_revision_sets_witness:
  "snd (setLifecycleRevision all_well False demo_decimals plain_collation 1 False [] 1 stocked_db) = flag_set 1 False 2 stocked_db"
proof -
  obtain t where "setLifecycleRevision all_well False demo_decimals plain_collation 1 False [] 1 stocked_db
      = (Inr ((stock_item 1 5)\<lparr>r_revision := 2, r_active := False\<rparr>), t)"
    using stock_retired by (metis prod.collapse)
  from this lifecycle_revision_sets[OF stock_ok(2) this] show ?thesis by (simp add: row_by_id_def stocked_db_def)
qed

section \<open>Changing the family\<close>

lemma family_kept:
  assumes ok: "tables_ok db" and u: "u = db\<lparr>tb_resources := map (\<lambda>y. if row_id y = i then g y else y) (tb_resources db)\<rparr>" "tables_ok u"
    and v: "values_of db i \<noteq> []" and r: "r \<in> set (tb_resources db)" "row_id r = i" and keep: "\<And>y. row_id (g y) = row_id y"
  shows "rs_family (g r) = rs_family r"
proof -
  obtain w where w: "w \<in> set (tb_values db)" "va_resource w = i" using v by (auto simp: values_of_def filter_empty_conv)
  have unique: "y = r" if "y \<in> set (tb_resources db)" "row_id y = i" for y
    using unique_row[OF tables_ok_resources[OF ok] that(1) r(1)] that(2) r(2) by simp
  obtain y where y: "y \<in> set (tb_resources db)" "(va_resource w, va_family w) = (row_id y, rs_family y)"
    using tables_ok_values(2)[OF ok] w(1) by blast
  have "w \<in> set (tb_values u)" using w(1) by (simp add: u(1))
  then have "(va_resource w, va_family w) \<in> (\<lambda>r. (row_id r, rs_family r)) ` set (tb_resources u)"
    using tables_ok_values(2)[OF u(2)] by blast
  then obtain z where z: "z \<in> set (tb_resources db)" "row_id (if row_id z = i then g z else z) = i"
    "rs_family (if row_id z = i then g z else z) = va_family w"
    using w(2) by (auto simp: u(1))
  have "row_id z = i" using z(2) keep by (simp split: if_splits)
  then show ?thesis using unique[OF z(1)] z(3) unique[OF y(1)] y(2) w(2) by simp
qed

text \<open>C40: A change of family is never stored: both updates write the new family while the old values still refer to the
  resource under its old one, so the foreign key refuses the statement before the values are replaced; a
  resource that has attribute values cannot be moved, whatever is asked for.\<close>

theorem family_change_refused:
  assumes ok: "tables_ok db" and row: "row_by_id (tb_resources db) (r_id x) = Some r0" and v: "values_of db (r_id x) \<noteq> []"
    and other: "\<forall>f\<in>set (tb_families db). row_id f = rs_family r0 \<longrightarrow> fa_code f \<noteq> r_family x"
  shows "(\<exists>e. fst (store_update F applied D x db) = Inl e) \<and> (\<exists>e. fst (store_update_revision F applied D coll x er db) = Inl e)"
proof -
  have r0: "r0 \<in> set (tb_resources db)" "row_id r0 = r_id x" using row_by_id_SomeD[OF row] by simp_all
  have impossible: False if ids: "first_row (active_scope db x) = Some ids" and g: "\<And>y. row_id (g y) = row_id y"
      "rs_family (g r0) = fst (snd ids)"
      and u: "u = db\<lparr>tb_resources := map (\<lambda>y. if row_id y = r_id x then g y else y) (tb_resources db)\<rparr>" "tables_ok u"
    for ids g and u :: catalog_db
  proof -
    obtain c f ty un where four: "ids = (c, f, ty, un)" by (cases ids)
    have "scope_named db x (r0\<lparr>rs_class := c, rs_family := f, rs_type := ty, rs_unit := un\<rparr>)"
      by (rule active_scope_named[OF ids[unfolded four]]) simp_all
    then obtain y where "y \<in> set (tb_families db)" "row_id y = f" "fa_code y = r_family x" by (auto simp: scope_named_def)
    moreover have "f = rs_family r0" using family_kept[OF ok u v r0 g(1)] g(2) four by simp
    ultimately show False using other by simp
  qed
  have "fst (store_update F applied D x db) \<noteq> Inr ()"
  proof
    assume "fst (store_update F applied D x db) = Inr ()"
    then obtain t where "store_update F applied D x db = (Inr (), t)" by (metis prod.collapse)
    then show False by (rule store_update_Inr, elim impossible) (simp_all add: set_scope_def split_def)
  qed
  moreover have "fst (store_update_revision F applied D coll x er db) \<noteq> Inr y" for y
  proof
    assume "fst (store_update_revision F applied D coll x er db) = Inr y"
    then obtain t where "store_update_revision F applied D coll x er db = (Inr y, t)" by (metis prod.collapse)
    with ok show False by (rule store_update_revision_Inr, elim impossible) (simp_all add: set_scope_def split_def)
  qed
  ultimately show ?thesis by (metis (full_types) old.sum.exhaust old.unit.exhaust)
qed

theorem family_change_refused_witness:
  "\<exists>e. fst (store_update_revision all_well False demo_decimals plain_collation ((stock_item 1 7)\<lparr>r_family := ''G''\<rparr>) 1 stocked_db) = Inl e"
proof -
  have "row_by_id (tb_resources stocked_db) 1 = Some \<lparr>row_id = 1, row_revision = 1, row_active = True, rs_class = 1, rs_family = 1,
      rs_type = 1, rs_unit = 1, rs_name = ''F'', rs_identity = ''v1|a''\<rparr>" "values_of stocked_db 1 \<noteq> []"
    by (simp_all add: stocked_db_def row_by_id_def values_of_def)
  from family_change_refused[OF stock_ok(2), where x = "(stock_item 1 7)\<lparr>r_family := ''G''\<rparr>" and F = all_well] this
  show ?thesis by (fastforce simp: stock_item_def stocked_db_def stock_db_def)
qed

section \<open>What a read guarantees\<close>

definition attributes_at :: "(int, 'd attr_value list) gmap \<Rightarrow> int \<Rightarrow> 'd attr_value list" where
  "attributes_at m i = (case map_of m i of None \<Rightarrow> [] | Some vs \<Rightarrow> vs)"

lemma collect_attributes_Inr:
  assumes "collect_attributes D db ls m = Inr m'"
  shows "(\<forall>l\<in>set ls. \<exists>val. attribute_of_line D db l = Inr val)
    \<and> set (attributes_at m' i) = set (attributes_at m i) \<union> {v. \<exists>l\<in>set ls. al_resource l = i \<and> attribute_of_line D db l = Inr (Some v)}"
  using assms
proof (induction ls arbitrary: m)
  case (Cons l ls)
  obtain val where line: "attribute_of_line D db l = Inr val"
    and rest: "collect_attributes D db ls (gput (al_resource l)
      (case val of None \<Rightarrow> attributes_at m (al_resource l) | Some v \<Rightarrow> attributes_at m (al_resource l) @ [v]) m) = Inr m'"
    using Cons.prems unfolding collect_attributes.simps bindr_Inr_iff Let_def attributes_at_def by blast
  show ?case using Cons.IH[OF rest] line
    by (cases val; cases "al_resource l = i") (auto simp: attributes_at_def map_of_gput)
qed simp

lemma decodeValue_Inr:
  assumes "decodeValue D code vt c = Inr v"
  shows "av_code v = code \<and> av_type v = vt \<and> (dereference (vc_state c) = NotApplicableText \<longrightarrow> av_text v = NotApplicableText)"
  using assms unfolding decodeValue_def Let_def by (auto simp: bindr_Inr_iff empty_value_def split: if_splits)

lemma attribute_of_line_Inr:
  assumes "attribute_of_line D db l = Inr val"
  shows "(al_mode l = ModeRequired \<longrightarrow> val \<noteq> None)
    \<and> (\<forall>v. val = Some v \<longrightarrow> av_code v = de_code (al_definition l) \<and> av_type v = de_value_type (al_definition l)
        \<and> (al_mode l = ModeForbidden \<longrightarrow> av_text v = NotApplicableText))"
  using assms decodeValue_Inr unfolding attribute_of_line_def Let_def
  by (fastforce simp: columns_of_def dereference_def split: option.splits prod.splits sum.splits if_splits)

lemma in_concat_pairs: "l \<in> set (concat (map f ps)) \<longleftrightarrow> (\<exists>a b. (a, b) \<in> set ps \<and> l \<in> set (f (a, b)))"
  by force

lemma line_applicable:
  assumes "l \<in> set (attribute_lines db r)"
  shows "(al_definition l, al_mode l) \<in> set (applicable_attributes db r) \<and> al_resource l = row_id r"
proof -
  obtain d mode where d: "(d, mode) \<in> set (applicable_attributes db r)"
    and l: "l \<in> set (case filter (\<lambda>(c, _). ev_code c = de_code d) (effective_values db r) of
        [] \<Rightarrow> [\<lparr>al_resource = row_id r, al_definition = d, al_mode = mode, al_value = None\<rparr>]
      | evs \<Rightarrow> map (\<lambda>ev. \<lparr>al_resource = row_id r, al_definition = d, al_mode = mode, al_value = Some ev\<rparr>) evs)"
    using assms unfolding attribute_lines_def in_concat_pairs prod.case by blast
  show ?thesis using d l by (cases "filter (\<lambda>(c, _). ev_code c = de_code d) (effective_values db r)") auto
qed

lemma applicable_line:
  assumes "(d, mode) \<in> set (applicable_attributes db r)"
  shows "\<exists>l\<in>set (attribute_lines db r). al_definition l = d \<and> al_mode l = mode"
proof (cases "filter (\<lambda>(c, _). ev_code c = de_code d) (effective_values db r)")
  case Nil
  then show ?thesis using assms unfolding attribute_lines_def Bex_def in_concat_pairs prod.case
    by (intro exI[of _ "\<lparr>al_resource = row_id r, al_definition = d, al_mode = mode, al_value = None\<rparr>"] conjI exI[of _ d] exI[of _ mode])
      simp_all
next
  case (Cons ev evs)
  then show ?thesis using assms unfolding attribute_lines_def Bex_def in_concat_pairs prod.case
    by (intro exI[of _ "\<lparr>al_resource = row_id r, al_definition = d, al_mode = mode, al_value = Some ev\<rparr>"] conjI exI[of _ d] exI[of _ mode])
      simp_all
qed

lemma wrap_result_Inr [simp]: "wrap_result format args q = Inr x \<longleftrightarrow> q = Inr x"
  by (auto simp: wrap_result_def split: sum.split)

lemma query_one_Inr [simp]: "query_one F operation missing sel db = Inr x \<longleftrightarrow> F operation 0 = None \<and> sel db = Some x"
  by (auto simp: query_one_def split: option.split)

text \<open>C14: Reading: a resource that is read carries its row's identity and flag, a value for every attribute that
  the stored rules require of it, no value but of an attribute that applies to it, each under the definition's
  type, and only the not-applicable mark for a forbidden one; anything else is an integrity error.\<close>

theorem read_respects_rules:
  assumes ok: "tables_ok db" and run: "store_get F D coll classCode identityKey db = Inr x"
  shows "\<exists>r. row_by_id (tb_resources db) (r_id x) = Some r \<and> rs_identity r = identityKey \<and> r_active x = row_active r
    \<and> (\<forall>(d, mode)\<in>set (applicable_attributes db r). mode = ModeRequired \<longrightarrow> (\<exists>v\<in>set (r_attributes x). av_code v = de_code d))
    \<and> (\<forall>v\<in>set (r_attributes x). \<exists>(d, mode)\<in>set (applicable_attributes db r). av_code v = de_code d \<and> av_type v = de_value_type d
        \<and> (mode = ModeForbidden \<longrightarrow> av_text v = NotApplicableText))"
proof -
  obtain r cl f t u attributes where row: "(r, cl, f, t, u) \<in> set (stored_resources db)" "rs_identity r = identityKey"
    and load: "loadEffectiveAttributes F D coll [row_id r] db = Inr attributes"
    and x: "hydrate_row attributes identityKey (r, cl, f, t, u) = Inr x"
    using run unfolding store_get_def
    by (auto simp: bindr_Inr_iff dest!: find_in)
  have r: "r \<in> set (tb_resources db)" using row(1) by (auto simp: stored_resources_def)
  have only: "y = r" if "y \<in> set (tb_resources db)" "row_id y = row_id r" for y
    using unique_row[OF tables_ok_resources[OF ok] that(1) r] that(2) by simp
  let ?lines = "sort_key (\<lambda>l. (al_resource l, coll (de_code (al_definition l))))
    (concat (map (attribute_lines db) (filter (\<lambda>y. row_id y \<in> set [row_id r]) (tb_resources db))))"
  have collect: "collect_attributes D db ?lines [] = Inr attributes"
    using load by (simp add: loadEffectiveAttributes_def split: option.splits)
  have lines: "set ?lines = set (attribute_lines db r)" using r only by auto
  note got = collect_attributes_Inr[OF collect, of "row_id r", unfolded lines]
  have fields: "r_id x = row_id r" "r_active x = row_active r" "r_attributes x = attributes_at attributes (row_id r)"
    using x by (auto simp: hydrate_row_def HydrateResource_def attributes_at_def split: if_splits)
  have read: "set (r_attributes x) = {v. \<exists>l\<in>set (attribute_lines db r). attribute_of_line D db l = Inr (Some v)}"
    using got line_applicable unfolding fields by (auto simp: attributes_at_def)
  have required: "\<exists>v\<in>set (r_attributes x). av_code v = de_code d"
    if applies: "(d, mode) \<in> set (applicable_attributes db r)" and needed: "mode = ModeRequired" for d mode
  proof -
    obtain l where l: "l \<in> set (attribute_lines db r)" "al_definition l = d" "al_mode l = mode" using applicable_line[OF applies] by blast
    then obtain val where "attribute_of_line D db l = Inr val" using got by blast
    then show ?thesis using attribute_of_line_Inr[of D db l val] l needed unfolding read by blast
  qed
  have typed: "\<exists>(d, mode)\<in>set (applicable_attributes db r). av_code v = de_code d \<and> av_type v = de_value_type d
      \<and> (mode = ModeForbidden \<longrightarrow> av_text v = NotApplicableText)" if "v \<in> set (r_attributes x)" for v
  proof -
    obtain l where l: "l \<in> set (attribute_lines db r)" "attribute_of_line D db l = Inr (Some v)" using \<open>v \<in> _\<close> unfolding read by blast
    then show ?thesis using line_applicable[OF l(1)] attribute_of_line_Inr[OF l(2)]
      by (intro bexI[of _ "(al_definition l, al_mode l)"]) simp_all
  qed
  show ?thesis using find_row[OF tables_ok_resources[OF ok] r] row(2) fields required typed by (intro exI[of _ r]) auto
qed

theorem read_respects_rules_witness:
  "\<exists>r. row_by_id (tb_resources stocked_db) 1 = Some r \<and> rs_identity r = ''v1|a''"
  using read_respects_rules[OF stock_ok(2) stock_read] by (auto simp: stock_item_def)

end
