(* ===== verification/PublicResource.thy ===== *)
theory PublicResource
  imports CatalogKinds AttributeOrder
begin

text \<open>
  The data and the request checks of the public Resource Master contract (package
  \<^verbatim>\<open>resourcecore\<close>: \<^verbatim>\<open>errors.go\<close>, \<^verbatim>\<open>types.go\<close>, \<^verbatim>\<open>values.go\<close>, \<^verbatim>\<open>queries.go\<close>, \<^verbatim>\<open>write_types.go\<close>, the
  validation functions of \<^verbatim>\<open>reader.go\<close> and \<^verbatim>\<open>writer.go\<close>).

  Public structs that repeat a domain struct field by field (\<^verbatim>\<open>ResourceScope\<close>,
  \<^verbatim>\<open>AttributeOrderKey\<close>, \<^verbatim>\<open>EnumValue\<close>) are the record of that struct. A Go map of values is an
  association list; where Go visits a map in an unspecified order, the model visits it in list order,
  which decides only which of several messages is reported. The copies the package makes of every slice
  and map it hands over are the identity on HOL values, except that copying the rules of a record turns
  a nil slice into an empty one.
\<close>

section \<open>Errors\<close>

text \<open>What a call of the contract can end with instead of a value: an error with its code and message,
  or a run-time panic.\<close>

datatype (plugins only: code size) public_failure = PublicError error_code gstring | PublicPanic gstring

definition public_code :: "public_failure option \<Rightarrow> error_code option" where
  "public_code e = (case e of Some (PublicError c m) \<Rightarrow> Some c | Some (PublicPanic m) \<Rightarrow> Some Internal | None \<Rightarrow> None)"

definition IsCode :: "public_failure option \<Rightarrow> error_code \<Rightarrow> bool" where
  "IsCode e c \<longleftrightarrow> public_code e = Some c"

definition refused :: "gstring \<Rightarrow> public_failure" where
  "refused message = PublicError InvalidArgument message"

section \<open>Types\<close>

definition ScopeActive :: gstring where "ScopeActive = ''ACTIVE''"
definition ScopeInactive :: gstring where "ScopeInactive = ''INACTIVE''"
definition ScopeAll :: gstring where "ScopeAll = ''ALL''"

definition ValueText :: gstring where "ValueText = ''TEXT''"
definition ValueCode :: gstring where "ValueCode = ''CODE''"
definition ValueBool :: gstring where "ValueBool = ''BOOLEAN''"
definition ValueInteger :: gstring where "ValueInteger = ''INTEGER''"
definition ValueDecimal :: gstring where "ValueDecimal = ''DECIMAL''"
definition ValueQuantity :: gstring where "ValueQuantity = ''QUANTITY''"
definition ValueReference :: gstring where "ValueReference = ''REFERENCE''"
definition ValueEnum :: gstring where "ValueEnum = ''ENUM''"
definition ValueStringList :: gstring where "ValueStringList = ''STRING_LIST''"
definition ValueControlledOption :: gstring where "ValueControlledOption = ''CONTROLLED_OPTION''"
definition ValueNotApplicable :: gstring where "ValueNotApplicable = ''NOT_APPLICABLE''"

lemmas scope_defs = ScopeActive_def ScopeInactive_def ScopeAll_def
lemmas value_kind_defs = ValueText_def ValueCode_def ValueBool_def ValueInteger_def ValueDecimal_def ValueQuantity_def
  ValueReference_def ValueEnum_def ValueStringList_def ValueControlledOption_def ValueNotApplicable_def

record public_reference =
  pref_kind :: gstring
  pref_id :: int
  pref_code :: gstring

record public_value =
  pv_kind :: gstring
  pv_text :: gstring
  pv_bool :: bool
  pv_unit :: gstring
  pv_reference :: "public_reference option"
  pv_strings :: "gstring list"

record applicability_rule =
  pr_attribute :: gstring
  pr_equals :: public_value
  pr_mode :: gstring
  pr_identity :: bool
  pr_not_applicable :: bool
  pr_active :: bool

record public_record =
  prec_kind :: gstring
  prec_id :: int
  prec_revision :: revision
  prec_active :: bool
  prec_values :: "(gstring, public_value) gmap"
  prec_rules :: "applicability_rule list option"

record public_attribute =
  pa_code :: gstring
  pa_value :: public_value
  pa_unit :: gstring

record public_resource =
  pres_id :: int
  pres_identity :: gstring
  pres_scope :: resource_scope
  pres_unit :: gstring
  pres_active :: bool
  pres_revision :: revision
  pres_attributes :: "public_attribute list"

record public_field =
  pfd_name :: gstring
  pfd_label :: gstring
  pfd_kind :: gstring
  pfd_required :: bool
  pfd_ref_kind :: gstring
  pfd_ref_scoped_by :: "gstring list"
  pfd_allow_create :: bool
  pfd_enum_values :: "enum_value list"

record public_descriptor =
  pd_kind :: gstring
  pd_singular :: gstring
  pd_plural :: gstring
  pd_fields :: "public_field list"
  pd_identity_fields :: "gstring list"
  pd_parent_kind :: gstring
  pd_parent_field :: gstring

record characteristic_descriptor =
  cd_code :: gstring
  cd_name :: gstring
  cd_value_type :: gstring
  cd_dimension :: gstring

record public_option =
  po_code :: gstring
  po_label :: gstring

record public_effective =
  pe_characteristic :: characteristic_descriptor
  pe_mode :: gstring
  pe_identity :: bool
  pe_not_applicable :: bool
  pe_position :: int
  pe_has_position :: bool
  pe_option_set :: gstring
  pe_source_level :: gstring
  pe_source_code :: gstring
  pe_rules :: "applicability_rule list"
  pe_options :: "public_option list"

section \<open>Queries and requests\<close>

record catalog_query =
  cq_kind :: gstring
  cq_scope :: gstring
  cq_text :: gstring
  cq_class :: gstring
  cq_family :: gstring
  cq_type :: gstring
  cq_option_set :: gstring
  cq_characteristic :: gstring
  cq_limit :: int
  cq_offset :: int

record resource_query =
  rq_scope :: gstring
  rq_text :: gstring
  rq_class :: gstring
  rq_family :: gstring
  rq_type :: gstring
  rq_limit :: int
  rq_offset :: int

record catalog_page =
  cpg_query :: catalog_query
  cpg_records :: "public_record list"
  cpg_previous :: bool
  cpg_next :: bool

record public_page =
  ppg_query :: resource_query
  ppg_resources :: "public_resource list"
  ppg_previous :: bool
  ppg_next :: bool

record catalog_key =
  key_kind :: gstring
  key_id :: int

record resource_key =
  key_class :: gstring
  key_identity :: gstring

record catalog_write_request =
  wq_actor :: gstring
  wq_kind :: gstring
  wq_active :: bool
  wq_values :: "(gstring, public_value) gmap"
  wq_rules :: "applicability_rule list option"

record catalog_update_request = catalog_write_request +
  wq_id :: int
  wq_expected :: revision

record resource_write_request =
  rw_actor :: gstring
  rw_scope :: resource_scope
  rw_unit :: gstring
  rw_attributes :: "public_attribute list"

record resource_update_request = resource_write_request +
  rw_id :: int
  rw_expected :: revision

record catalog_lifecycle_request =
  lq_actor :: gstring
  lq_kind :: gstring
  lq_id :: int
  lq_expected :: revision

record resource_lifecycle_request =
  ll_actor :: gstring
  ll_id :: int
  ll_expected :: revision

record order_write_request =
  ow_actor :: gstring
  ow_scope :: resource_scope
  ow_expected :: gstring
  ow_keys :: "order_key list"

section \<open>Numerals\<close>

text \<open>\<^verbatim>\<open>strconv.ParseInt(s, 10, 64)\<close>: an optional sign, then digits only. \<open>Inl\<close> tells the two errors apart:
  \<open>None\<close> is a syntax error, \<open>Some v\<close> the nearest value of a number out of range.\<close>

definition all_digits :: "gstring \<Rightarrow> bool" where
  "all_digits s \<longleftrightarrow> s \<noteq> [] \<and> list_all (\<lambda>c. CHR ''0'' \<le> c \<and> c \<le> CHR ''9'') s"

definition clamp_int64 :: "int \<Rightarrow> int option + int" where
  "clamp_int64 i = (if i < - (2 ^ 63) then Inl (Some (- (2 ^ 63))) else if 2 ^ 63 - 1 < i then Inl (Some (2 ^ 63 - 1)) else Inr i)"

definition parse_int64 :: "gstring \<Rightarrow> int option + int" where
  "parse_int64 s =
     (let negative = (s \<noteq> [] \<and> hd s = CHR ''-'');
          ds = (if s \<noteq> [] \<and> (hd s = CHR ''-'' \<or> hd s = CHR ''+'') then tl s else s) in
      if all_digits ds then clamp_int64 (if negative then - int (read_nat ds) else int (read_nat ds)) else Inl None)"

text \<open>The value of \<^verbatim>\<open>n, _ := strconv.Atoi(s)\<close>, its error dropped.\<close>

definition atoi_value :: "gstring \<Rightarrow> int" where
  "atoi_value s = (case parse_int64 s of Inr n \<Rightarrow> n | Inl (Some n) \<Rightarrow> n | Inl None \<Rightarrow> 0)"

definition CanonicalIntString :: "int \<Rightarrow> gstring" where
  "CanonicalIntString v = show_int v"

definition CanonicalDecimalString :: "'d decimal_ops \<Rightarrow> gstring \<Rightarrow> gstring option" where
  "CanonicalDecimalString D s = (case dec_parse D s of None \<Rightarrow> None
     | Some d \<Rightarrow> Some (if dec_is_zero D d then ''0'' else dec_string D d))"

section \<open>Values\<close>

definition public_zero :: public_value where
  "public_zero = \<lparr>pv_kind = [], pv_text = [], pv_bool = False, pv_unit = [], pv_reference = None, pv_strings = []\<rparr>"

definition text_value :: "gstring \<Rightarrow> gstring \<Rightarrow> public_value" where
  "text_value kind text = public_zero\<lparr>pv_kind := kind, pv_text := text\<rparr>"

definition NewIntegerValue :: "int \<Rightarrow> public_value" where
  "NewIntegerValue v = text_value ValueInteger (show_int v)"

definition NewDecimalValue :: "'d decimal_ops \<Rightarrow> gstring \<Rightarrow> public_value option" where
  "NewDecimalValue D s = map_option (text_value ValueDecimal) (CanonicalDecimalString D s)"

definition NewQuantityValue :: "'d decimal_ops \<Rightarrow> gstring \<Rightarrow> gstring \<Rightarrow> public_value option" where
  "NewQuantityValue D magnitude unitCode =
     map_option (\<lambda>c. (text_value ValueQuantity c)\<lparr>pv_unit := unitCode\<rparr>) (CanonicalDecimalString D magnitude)"

definition NotApplicableValue :: public_value where
  "NotApplicableValue = public_zero\<lparr>pv_kind := ValueNotApplicable\<rparr>"

definition CloneCatalogRecord :: "public_record \<Rightarrow> public_record" where
  "CloneCatalogRecord r = r\<lparr>prec_rules := Some (case prec_rules r of None \<Rightarrow> [] | Some rules \<Rightarrow> rules)\<rparr>"

section \<open>Request checks\<close>

definition blank :: "gstring \<Rightarrow> bool" where
  "blank s \<longleftrightarrow> trim_space s = []"

definition isKnownKind :: "gstring \<Rightarrow> bool" where
  "isKnownKind k \<longleftrightarrow> k \<in> set [KindClass, KindFamily, KindType, KindAttributeDefinition, KindOptionSet, KindOption,
     KindOptionRelation, KindUnit, KindUnitPolicy, KindAttributeBinding, KindPresentationField]"

definition isKnownAttributeMode :: "gstring \<Rightarrow> bool" where
  "isKnownAttributeMode mode \<longleftrightarrow> mode \<in> set [''REQUIRED'', ''OPTIONAL'', ''CONDITIONAL'', ''FORBIDDEN'']"

definition known_value_kinds :: "gstring list" where
  "known_value_kinds = [ValueText, ValueCode, ValueBool, ValueInteger, ValueDecimal, ValueQuantity, ValueReference, ValueEnum,
     ValueStringList, ValueControlledOption, ValueNotApplicable]"

definition validateValueShape :: "'d decimal_ops \<Rightarrow> public_value \<Rightarrow> public_failure option" where
  "validateValueShape D v =
     (if pv_kind v \<notin> set known_value_kinds then Some (refused ''unknown value kind'')
      else if (case pv_reference v of Some r \<Rightarrow> pref_id r \<noteq> 0 | None \<Rightarrow> False)
        then Some (refused ''reference id must be zero; references are by natural code'')
      else if pv_kind v = ValueQuantity \<and> blank (pv_unit v) then Some (refused ''unit code is required for quantity values'')
      else if pv_kind v \<noteq> ValueQuantity \<and> \<not> blank (pv_unit v) then Some (refused ''unit code is only valid for quantity values'')
      else if pv_kind v = ValueInteger \<and> (case parse_int64 (pv_text v) of Inl _ \<Rightarrow> True | Inr _ \<Rightarrow> False)
        then Some (refused ''invalid integer value'')
      else if (pv_kind v = ValueDecimal \<or> pv_kind v = ValueQuantity) \<and> CanonicalDecimalString D (pv_text v) = None
        then Some (refused ''invalid decimal value'')
      else None)"

fun first_refusal :: "('a \<Rightarrow> public_failure option) \<Rightarrow> 'a list \<Rightarrow> public_failure option" where
  "first_refusal f [] = None"
| "first_refusal f (x # xs) = (case f x of Some e \<Rightarrow> Some e | None \<Rightarrow> first_refusal f xs)"

definition validate_rule :: "applicability_rule \<Rightarrow> public_failure option" where
  "validate_rule r =
     (if pv_kind (pr_equals r) \<noteq> ValueText then Some (refused ''applicability rule equals must be a TEXT value'')
      else if \<not> isKnownAttributeMode (pr_mode r) then Some (refused ''invalid applicability rule mode'')
      else None)"

text \<open>The checks the create and the update request share: the kind, then the values, then the rules.\<close>

definition validate_content :: "'d decimal_ops \<Rightarrow> 'z catalog_write_request_scheme \<Rightarrow> public_failure option" where
  "validate_content D q =
     (if \<not> isKnownKind (wq_kind q) then Some (refused ''invalid catalog kind'')
      else if wq_values q = [] then Some (refused ''values are required'')
      else (case first_refusal (validateValueShape D) (map snd (wq_values q)) of
          Some e \<Rightarrow> Some e
        | None \<Rightarrow> first_refusal validate_rule (case wq_rules q of None \<Rightarrow> [] | Some rules \<Rightarrow> rules)))"

definition validateCatalogWriteRequest :: "'d decimal_ops \<Rightarrow> catalog_write_request \<Rightarrow> public_failure option" where
  "validateCatalogWriteRequest D q =
     (if blank (wq_actor q) then Some (refused ''actor is required'') else validate_content D q)"

definition validateCatalogUpdateRequest :: "'d decimal_ops \<Rightarrow> catalog_update_request \<Rightarrow> public_failure option" where
  "validateCatalogUpdateRequest D q =
     (if blank (wq_actor q) then Some (refused ''actor is required'')
      else if wq_id q = 0 then Some (refused ''id is required'')
      else if wq_expected q = 0 then Some (refused ''expected revision is required'')
      else validate_content D q)"

definition validateEffectiveAttributesScope :: "resource_scope \<Rightarrow> public_failure option" where
  "validateEffectiveAttributesScope s =
     (if blank (sc_class s) then Some (refused ''class code is required'')
      else if blank (sc_family s) then Some (refused ''family code is required'')
      else if blank (sc_type s) then Some (refused ''type code is required'')
      else None)"

definition validate_resource_content :: "'d decimal_ops \<Rightarrow> 'z resource_write_request_scheme \<Rightarrow> public_failure option" where
  "validate_resource_content D q = (case validateEffectiveAttributesScope (rw_scope q) of
       Some e \<Rightarrow> Some e
     | None \<Rightarrow>
         if blank (rw_unit q) then Some (refused ''natural unit is required'')
         else first_refusal (\<lambda>a. validateValueShape D (pa_value a)) (rw_attributes q))"

definition validateResourceWriteRequest :: "'d decimal_ops \<Rightarrow> resource_write_request \<Rightarrow> public_failure option" where
  "validateResourceWriteRequest D q =
     (if blank (rw_actor q) then Some (refused ''actor is required'') else validate_resource_content D q)"

definition validateResourceUpdateRequest :: "'d decimal_ops \<Rightarrow> resource_update_request \<Rightarrow> public_failure option" where
  "validateResourceUpdateRequest D q =
     (if blank (rw_actor q) then Some (refused ''actor is required'')
      else if rw_id q = 0 then Some (refused ''id is required'')
      else if rw_expected q = 0 then Some (refused ''expected revision is required'')
      else validate_resource_content D q)"

definition validateCatalogLifecycleRequest :: "catalog_lifecycle_request \<Rightarrow> public_failure option" where
  "validateCatalogLifecycleRequest q =
     (if blank (lq_actor q) then Some (refused ''actor is required'')
      else if lq_id q = 0 then Some (refused ''id is required'')
      else if lq_expected q = 0 then Some (refused ''expected revision is required'')
      else None)"

definition validateResourceLifecycleRequest :: "resource_lifecycle_request \<Rightarrow> public_failure option" where
  "validateResourceLifecycleRequest q =
     (if blank (ll_actor q) then Some (refused ''actor is required'')
      else if ll_id q = 0 then Some (refused ''id is required'')
      else if ll_expected q = 0 then Some (refused ''expected revision is required'')
      else None)"

definition validateAttributeOrderWriteRequest :: "order_write_request \<Rightarrow> public_failure option" where
  "validateAttributeOrderWriteRequest q =
     (if blank (ow_actor q) then Some (refused ''actor is required'')
      else (case validateEffectiveAttributesScope (ow_scope q) of
        Some e \<Rightarrow> Some e
      | None \<Rightarrow>
          if blank (ow_expected q) then Some (refused ''expected order revision is required'')
          else if ow_keys q = [] then Some (refused ''ordered attributes are required'')
          else None))"

definition known_scope :: "gstring \<Rightarrow> bool" where
  "known_scope s \<longleftrightarrow> s \<in> set [[], ScopeActive, ScopeInactive, ScopeAll]"

definition validateCatalogQuery :: "catalog_query \<Rightarrow> public_failure option" where
  "validateCatalogQuery q =
     (if \<not> isKnownKind (cq_kind q) then Some (refused ''invalid catalog kind'')
      else if \<not> known_scope (cq_scope q) then Some (refused ''invalid lifecycle scope'')
      else None)"

definition validateCatalogKey :: "catalog_key \<Rightarrow> public_failure option" where
  "validateCatalogKey k =
     (if \<not> isKnownKind (key_kind k) then Some (refused ''invalid catalog kind'')
      else if key_id k \<le> 0 then Some (refused ''catalog id must be positive'')
      else None)"

definition validateResourceQuery :: "resource_query \<Rightarrow> public_failure option" where
  "validateResourceQuery q = (if \<not> known_scope (rq_scope q) then Some (refused ''invalid lifecycle scope'') else None)"

definition validateResourceKey :: "resource_key \<Rightarrow> public_failure option" where
  "validateResourceKey k =
     (if blank (key_class k) then Some (refused ''class code is required'')
      else if blank (key_identity k) then Some (refused ''identity is required'')
      else None)"

section \<open>Lemmas\<close>

lemma isKnownKind_iff: "isKnownKind k \<longleftrightarrow> registry_kind k \<noteq> None"
  using registry_kind_None[of k] by (simp only: isKnownKind_def registry_codes not_not)

lemma show_nat_all_digits: "all_digits (show_nat n)"
proof -
  have ne: "show_nat n \<noteq> []" by (subst show_nat.simps) simp
  have "list_all (\<lambda>c. CHR ''0'' \<le> c \<and> c \<le> CHR ''9'') (show_nat n)"
    unfolding list_all_iff using show_nat_digits[of _ n]
    by (auto simp: less_eq_char_def)
  with ne show ?thesis by (simp add: all_digits_def)
qed

lemma parse_shown: "parse_int64 (show_int i) = clamp_int64 i"
proof (cases "i < 0")
  case True
  then show ?thesis by (simp add: show_int_def parse_int64_def Let_def show_nat_all_digits read_show_nat)
next
  case False
  have ne: "show_nat (nat i) \<noteq> []" using show_nat_all_digits all_digits_def by blast
  then have "hd (show_nat (nat i)) \<in> set (show_nat (nat i))" by simp
  then have "hd (show_nat (nat i)) \<noteq> CHR ''-''" "hd (show_nat (nat i)) \<noteq> CHR ''+''"
    using show_nat_digits[of "hd (show_nat (nat i))" "nat i"] by auto
  with False show ?thesis by (simp add: show_int_def parse_int64_def Let_def show_nat_all_digits read_show_nat)
qed

lemma parse_show_int: "- (2 ^ 63) \<le> i \<Longrightarrow> i < 2 ^ 63 \<Longrightarrow> parse_int64 (show_int i) = Inr i"
  by (simp add: parse_shown clamp_int64_def)

lemma atoi_show_int: "- (2 ^ 63) \<le> i \<Longrightarrow> i < 2 ^ 63 \<Longrightarrow> atoi_value (show_int i) = i"
  by (simp add: atoi_value_def parse_show_int)

end
