(* ===== verification/ResourceFacade.thy ===== *)
theory ResourceFacade
  imports PublicResource GoState
begin

text \<open>
  The public \<^verbatim>\<open>Reader\<close> and \<^verbatim>\<open>Writer\<close> of package \<^verbatim>\<open>resourcecore\<close> (\<^verbatim>\<open>reader.go\<close>, \<^verbatim>\<open>writer.go\<close>). The two
  capability interfaces are records of actions on an arbitrary state; a reader or writer is the record it
  was built with. Each method checks the shape of its request, delegates, and copies what it returns.
\<close>

section \<open>Capabilities\<close>

type_synonym ('s, 'a) public_action = "('s, public_failure, 'a) action"

record 's resource_reads =
  cap_active_classes :: "('s, public_record list) public_action"
  cap_descriptors :: "('s, public_descriptor list) public_action"
  cap_list_catalog :: "catalog_query \<Rightarrow> ('s, catalog_page) public_action"
  cap_get_catalog :: "catalog_key \<Rightarrow> ('s, public_record) public_action"
  cap_search :: "resource_query \<Rightarrow> ('s, public_page) public_action"
  cap_get_resource :: "resource_key \<Rightarrow> ('s, public_resource) public_action"
  cap_describe :: "resource_key \<Rightarrow> ('s, gstring) public_action"
  cap_effective :: "resource_scope \<Rightarrow> ('s, public_effective list) public_action"
  cap_evaluate :: "resource_scope \<Rightarrow> public_attribute list \<Rightarrow> ('s, public_effective list) public_action"
  cap_order :: "resource_scope \<Rightarrow> ('s, order_snapshot) public_action"

record 's resource_writes =
  cap_create_catalog :: "catalog_write_request \<Rightarrow> ('s, public_record) public_action"
  cap_create_resource :: "resource_write_request \<Rightarrow> ('s, public_resource) public_action"
  cap_update_catalog :: "catalog_update_request \<Rightarrow> ('s, public_record) public_action"
  cap_update_resource :: "resource_update_request \<Rightarrow> ('s, public_resource) public_action"
  cap_deactivate_catalog :: "catalog_lifecycle_request \<Rightarrow> ('s, public_record) public_action"
  cap_reactivate_catalog :: "catalog_lifecycle_request \<Rightarrow> ('s, public_record) public_action"
  cap_deactivate_resource :: "resource_lifecycle_request \<Rightarrow> ('s, public_resource) public_action"
  cap_reactivate_resource :: "resource_lifecycle_request \<Rightarrow> ('s, public_resource) public_action"
  cap_hard_delete :: "catalog_lifecycle_request \<Rightarrow> ('s, unit) public_action"
  cap_update_order :: "order_write_request \<Rightarrow> ('s, order_snapshot) public_action"

definition NewReadOnly :: "'s resource_reads option \<Rightarrow> public_failure + 's resource_reads" where
  "NewReadOnly cap = (case cap of None \<Rightarrow> Inl (refused ''read capabilities are required'') | Some c \<Rightarrow> Inr c)"

definition NewWriter :: "'s resource_writes option \<Rightarrow> public_failure + 's resource_writes" where
  "NewWriter cap = (case cap of None \<Rightarrow> Inl (refused ''write capabilities are required'') | Some c \<Rightarrow> Inr c)"

text \<open>The shape every checked method has.\<close>

definition checked ::
  "public_failure option \<Rightarrow> ('s, 'a) public_action \<Rightarrow> ('a \<Rightarrow> 'b) \<Rightarrow> ('s, 'b) public_action" where
  "checked c m copied = bnd (require c) (\<lambda>_. bnd m (\<lambda>x. ret (copied x)))"

section \<open>Reader\<close>

definition reader_active_classes :: "'s resource_reads \<Rightarrow> ('s, public_record list) public_action" where
  "reader_active_classes r = checked None (cap_active_classes r) (map CloneCatalogRecord)"

definition reader_descriptors :: "'s resource_reads \<Rightarrow> ('s, public_descriptor list) public_action" where
  "reader_descriptors r = checked None (cap_descriptors r) (\<lambda>x. x)"

definition reader_list_catalog :: "'s resource_reads \<Rightarrow> catalog_query \<Rightarrow> ('s, catalog_page) public_action" where
  "reader_list_catalog r q = checked (validateCatalogQuery q) (cap_list_catalog r q)
     (\<lambda>page. page\<lparr>cpg_records := map CloneCatalogRecord (cpg_records page)\<rparr>)"

definition reader_get_catalog :: "'s resource_reads \<Rightarrow> catalog_key \<Rightarrow> ('s, public_record) public_action" where
  "reader_get_catalog r k = checked (validateCatalogKey k) (cap_get_catalog r k) CloneCatalogRecord"

definition reader_search :: "'s resource_reads \<Rightarrow> resource_query \<Rightarrow> ('s, public_page) public_action" where
  "reader_search r q = checked (validateResourceQuery q) (cap_search r q) (\<lambda>x. x)"

definition reader_get_resource :: "'s resource_reads \<Rightarrow> resource_key \<Rightarrow> ('s, public_resource) public_action" where
  "reader_get_resource r k = checked (validateResourceKey k) (cap_get_resource r k) (\<lambda>x. x)"

definition reader_describe :: "'s resource_reads \<Rightarrow> resource_key \<Rightarrow> ('s, gstring) public_action" where
  "reader_describe r k = checked (validateResourceKey k) (cap_describe r k) (\<lambda>x. x)"

definition reader_effective :: "'s resource_reads \<Rightarrow> resource_scope \<Rightarrow> ('s, public_effective list) public_action" where
  "reader_effective r s = checked (validateEffectiveAttributesScope s) (cap_effective r s) (\<lambda>x. x)"

definition reader_evaluate ::
  "'s resource_reads \<Rightarrow> resource_scope \<Rightarrow> public_attribute list \<Rightarrow> ('s, public_effective list) public_action" where
  "reader_evaluate r s values = checked (validateEffectiveAttributesScope s) (cap_evaluate r s values) (\<lambda>x. x)"

definition reader_order :: "'s resource_reads \<Rightarrow> resource_scope \<Rightarrow> ('s, order_snapshot) public_action" where
  "reader_order r s = checked (validateEffectiveAttributesScope s) (cap_order r s) (\<lambda>x. x)"

section \<open>Writer\<close>

definition writer_create_catalog ::
  "'d decimal_ops \<Rightarrow> 's resource_writes \<Rightarrow> catalog_write_request \<Rightarrow> ('s, public_record) public_action" where
  "writer_create_catalog D w q = checked (validateCatalogWriteRequest D q) (cap_create_catalog w q) CloneCatalogRecord"

definition writer_create_resource ::
  "'d decimal_ops \<Rightarrow> 's resource_writes \<Rightarrow> resource_write_request \<Rightarrow> ('s, public_resource) public_action" where
  "writer_create_resource D w q = checked (validateResourceWriteRequest D q) (cap_create_resource w q) (\<lambda>x. x)"

definition writer_update_catalog ::
  "'d decimal_ops \<Rightarrow> 's resource_writes \<Rightarrow> catalog_update_request \<Rightarrow> ('s, public_record) public_action" where
  "writer_update_catalog D w q = checked (validateCatalogUpdateRequest D q) (cap_update_catalog w q) CloneCatalogRecord"

definition writer_update_resource ::
  "'d decimal_ops \<Rightarrow> 's resource_writes \<Rightarrow> resource_update_request \<Rightarrow> ('s, public_resource) public_action" where
  "writer_update_resource D w q = checked (validateResourceUpdateRequest D q) (cap_update_resource w q) (\<lambda>x. x)"

definition writer_deactivate_catalog ::
  "'s resource_writes \<Rightarrow> catalog_lifecycle_request \<Rightarrow> ('s, public_record) public_action" where
  "writer_deactivate_catalog w q = checked (validateCatalogLifecycleRequest q) (cap_deactivate_catalog w q) CloneCatalogRecord"

definition writer_reactivate_catalog ::
  "'s resource_writes \<Rightarrow> catalog_lifecycle_request \<Rightarrow> ('s, public_record) public_action" where
  "writer_reactivate_catalog w q = checked (validateCatalogLifecycleRequest q) (cap_reactivate_catalog w q) CloneCatalogRecord"

definition writer_deactivate_resource ::
  "'s resource_writes \<Rightarrow> resource_lifecycle_request \<Rightarrow> ('s, public_resource) public_action" where
  "writer_deactivate_resource w q = checked (validateResourceLifecycleRequest q) (cap_deactivate_resource w q) (\<lambda>x. x)"

definition writer_reactivate_resource ::
  "'s resource_writes \<Rightarrow> resource_lifecycle_request \<Rightarrow> ('s, public_resource) public_action" where
  "writer_reactivate_resource w q = checked (validateResourceLifecycleRequest q) (cap_reactivate_resource w q) (\<lambda>x. x)"

definition writer_hard_delete :: "'s resource_writes \<Rightarrow> catalog_lifecycle_request \<Rightarrow> ('s, unit) public_action" where
  "writer_hard_delete w q = checked (validateCatalogLifecycleRequest q) (cap_hard_delete w q) (\<lambda>x. x)"

definition writer_update_order :: "'s resource_writes \<Rightarrow> order_write_request \<Rightarrow> ('s, order_snapshot) public_action" where
  "writer_update_order w q = checked (validateAttributeOrderWriteRequest q) (cap_update_order w q) (\<lambda>x. x)"

section \<open>Calls\<close>

text \<open>The methods of both contracts as data, their results discarded.\<close>

datatype (plugins only: code size) resource_read_call =
    ReadActiveClasses | ReadDescriptors | ReadListCatalog catalog_query | ReadGetCatalog catalog_key
  | ReadSearch resource_query | ReadGetResource resource_key | ReadDescribe resource_key
  | ReadEffective resource_scope | ReadEvaluate resource_scope "public_attribute list" | ReadOrder resource_scope

fun run_resource_read :: "'s resource_reads \<Rightarrow> resource_read_call \<Rightarrow> ('s, unit) public_action" where
  "run_resource_read r ReadActiveClasses = checked None (reader_active_classes r) (\<lambda>_. ())"
| "run_resource_read r ReadDescriptors = checked None (reader_descriptors r) (\<lambda>_. ())"
| "run_resource_read r (ReadListCatalog q) = checked None (reader_list_catalog r q) (\<lambda>_. ())"
| "run_resource_read r (ReadGetCatalog k) = checked None (reader_get_catalog r k) (\<lambda>_. ())"
| "run_resource_read r (ReadSearch q) = checked None (reader_search r q) (\<lambda>_. ())"
| "run_resource_read r (ReadGetResource k) = checked None (reader_get_resource r k) (\<lambda>_. ())"
| "run_resource_read r (ReadDescribe k) = checked None (reader_describe r k) (\<lambda>_. ())"
| "run_resource_read r (ReadEffective s) = checked None (reader_effective r s) (\<lambda>_. ())"
| "run_resource_read r (ReadEvaluate s vs) = checked None (reader_evaluate r s vs) (\<lambda>_. ())"
| "run_resource_read r (ReadOrder s) = checked None (reader_order r s) (\<lambda>_. ())"

datatype (plugins only: code size) resource_write_call =
    WriteCreateCatalog catalog_write_request | WriteCreateResource resource_write_request
  | WriteUpdateCatalog catalog_update_request | WriteUpdateResource resource_update_request
  | WriteDeactivateCatalog catalog_lifecycle_request | WriteReactivateCatalog catalog_lifecycle_request
  | WriteDeactivateResource resource_lifecycle_request | WriteReactivateResource resource_lifecycle_request
  | WriteHardDelete catalog_lifecycle_request | WriteUpdateOrder order_write_request

fun run_public_write :: "'d decimal_ops \<Rightarrow> 's resource_writes \<Rightarrow> resource_write_call \<Rightarrow> ('s, unit) public_action" where
  "run_public_write D w (WriteCreateCatalog q) = checked None (writer_create_catalog D w q) (\<lambda>_. ())"
| "run_public_write D w (WriteCreateResource q) = checked None (writer_create_resource D w q) (\<lambda>_. ())"
| "run_public_write D w (WriteUpdateCatalog q) = checked None (writer_update_catalog D w q) (\<lambda>_. ())"
| "run_public_write D w (WriteUpdateResource q) = checked None (writer_update_resource D w q) (\<lambda>_. ())"
| "run_public_write D w (WriteDeactivateCatalog q) = checked None (writer_deactivate_catalog w q) (\<lambda>_. ())"
| "run_public_write D w (WriteReactivateCatalog q) = checked None (writer_reactivate_catalog w q) (\<lambda>_. ())"
| "run_public_write D w (WriteDeactivateResource q) = checked None (writer_deactivate_resource w q) (\<lambda>_. ())"
| "run_public_write D w (WriteReactivateResource q) = checked None (writer_reactivate_resource w q) (\<lambda>_. ())"
| "run_public_write D w (WriteHardDelete q) = checked None (writer_hard_delete w q) (\<lambda>_. ())"
| "run_public_write D w (WriteUpdateOrder q) = checked None (writer_update_order w q) (\<lambda>_. ())"

end
