(* ===== verification/ResourceBridge.thy ===== *)
theory ResourceBridge
  imports ResourceFacade ResourceService OrderStore
begin

text \<open>
  The bridge between the public Resource Master contract and the application services
  (\<^verbatim>\<open>internal/bridge/resourcecore/adapter.go\<close>): the adapter that implements both capability interfaces over
  \<open>CatalogService\<close> and \<open>ResourceService\<close>, and the two directions of every value conversion.

  The state is that of the catalog service; the resource service shares its authority and its database, as
  \<^verbatim>\<open>garfex.Open\<close> composes them. The repositories and the attribute order store behind the services are the
  record \<open>resource_core\<close>. The actor of a write is request metadata for diagnostics and is not modelled.
\<close>

section \<open>The composed services\<close>

record ('d, 'db) resource_core =
  rb_catalog :: "'db catalog_repo"
  rb_resources :: "('d, 'db) resource_repo"
  rb_order_read :: "(resource_scope \<Rightarrow> 'db \<Rightarrow> go_error + order_result) option"
  rb_order_write :: "(order_request \<Rightarrow> 'db \<Rightarrow> (go_error + order_result) \<times> 'db) option"
  rb_decimals :: "'d decimal_ops"
  rb_range :: range_order

definition on_resources :: "('db, 'a) recursos_action \<Rightarrow> ('db, 'a) catalogo_action" where
  "on_resources m = (\<lambda>s. case m \<lparr>rs_authority = cs_authority s, rs_db = cs_db s\<rparr> of (r, t) \<Rightarrow> (r, s\<lparr>cs_db := rs_db t\<rparr>))"

text \<open>The attribute order methods of \<^verbatim>\<open>recursos.Service\<close>: they delegate to the store that was wired.\<close>

definition order_unavailable :: go_error where
  "order_unavailable = Sentinel (App ErrAttributeOrderStoreUnavailable)"

definition service_read_order :: "('d, 'db) resource_core \<Rightarrow> resource_scope \<Rightarrow> ('db, order_result) recursos_action" where
  "service_read_order B scope = (case rb_order_read B of None \<Rightarrow> fail order_unavailable | Some store \<Rightarrow> rs_read (store scope))"

definition service_write_order :: "('d, 'db) resource_core \<Rightarrow> order_request \<Rightarrow> ('db, order_result) recursos_action" where
  "service_write_order B q = (case rb_order_write B of None \<Rightarrow> fail order_unavailable | Some store \<Rightarrow> rs_write (store q))"

section \<open>Errors\<close>

fun panicked :: "go_error \<Rightarrow> gstring option" and panicked_list :: "go_error list \<Rightarrow> gstring option" where
  "panicked (Panic m) = Some m"
| "panicked (Wrapf f args es) = panicked_list es"
| "panicked (Joined es) = panicked_list es"
| "panicked (Sentinel s) = None"
| "panicked (ErrNew m) = None"
| "panicked (SupFieldError f m) = None"
| "panicked (PurFieldError f m) = None"
| "panicked (Core c) = None"
| "panicked_list [] = None"
| "panicked_list (e # es) = (case panicked e of Some m \<Rightarrow> Some m | None \<Rightarrow> panicked_list es)"

definition mapError :: "go_error \<Rightarrow> public_failure" where
  "mapError e = (case panicked e of Some m \<Rightarrow> PublicPanic m
     | None \<Rightarrow> (case core_map (Some e) of Some c \<Rightarrow> PublicError (core_code c) (core_message c) | None \<Rightarrow> PublicError Internal []))"

definition public_errors :: "('s, go_error, 'a) action \<Rightarrow> ('s, 'a) public_action" where
  "public_errors m = (\<lambda>s. case m s of (Inl e, t) \<Rightarrow> (Inl (mapError e), t) | (Inr x, t) \<Rightarrow> (Inr x, t))"

section \<open>Catalog values\<close>

definition fieldKind :: "gstring \<Rightarrow> gstring \<Rightarrow> field_kind" where
  "fieldKind kind name = (case registry_kind kind of None \<Rightarrow> FieldText
     | Some k \<Rightarrow> (case find (\<lambda>f. fd_name f = name) (ck_fields k) of None \<Rightarrow> FieldText | Some f \<Rightarrow> fd_kind f))"

fun valueKindFromFieldKind :: "field_kind \<Rightarrow> gstring" where
  "valueKindFromFieldKind FieldText = ValueText"
| "valueKindFromFieldKind FieldCode = ValueCode"
| "valueKindFromFieldKind FieldBool = ValueBool"
| "valueKindFromFieldKind FieldInt = ValueInteger"
| "valueKindFromFieldKind FieldRef = ValueReference"
| "valueKindFromFieldKind FieldEnum = ValueEnum"
| "valueKindFromFieldKind FieldStringList = ValueStringList"

definition mapCatalogValue :: "gstring \<Rightarrow> gstring \<Rightarrow> catalog_value \<Rightarrow> public_value" where
  "mapCatalogValue kind name v = (case fieldKind kind name of
       FieldCode \<Rightarrow> text_value ValueCode (cv_text v)
     | FieldBool \<Rightarrow> public_zero\<lparr>pv_kind := ValueBool, pv_bool := cv_bool v\<rparr>
     | FieldInt \<Rightarrow> text_value ValueInteger (show_int (cv_int v))
     | FieldStringList \<Rightarrow> public_zero\<lparr>pv_kind := ValueStringList, pv_strings := cv_list v\<rparr>
     | FieldRef \<Rightarrow>
         if ref_code (cv_ref v) = [] \<and> ref_kind (cv_ref v) = [] then public_zero\<lparr>pv_kind := ValueReference\<rparr>
         else public_zero\<lparr>pv_kind := ValueReference, pv_reference :=
           Some \<lparr>pref_kind = ref_kind (cv_ref v), pref_id = ref_id (cv_ref v), pref_code = ref_code (cv_ref v)\<rparr>\<rparr>
     | FieldEnum \<Rightarrow> text_value ValueEnum (cv_text v)
     | FieldText \<Rightarrow> text_value ValueText (cv_text v))"

definition toDomainCatalogValue :: "gstring \<Rightarrow> gstring \<Rightarrow> public_value \<Rightarrow> catalog_value" where
  "toDomainCatalogValue kind name v =
     (let k = fieldKind kind name in
      if k = FieldCode \<or> k = FieldText \<or> k = FieldEnum then zero_value\<lparr>cv_text := pv_text v\<rparr>
      else if k = FieldBool then zero_value\<lparr>cv_bool := pv_bool v\<rparr>
      else if k = FieldInt then zero_value\<lparr>cv_int := atoi_value (pv_text v)\<rparr>
      else if k = FieldStringList then zero_value\<lparr>cv_list := pv_strings v\<rparr>
      else if k = FieldRef then (case pv_reference v of
          None \<Rightarrow> zero_value
        | Some r \<Rightarrow> zero_value\<lparr>cv_ref := \<lparr>ref_kind = pref_kind r, ref_code = pref_code r, ref_label = [], ref_id = 0\<rparr>\<rparr>)
      else zero_value\<lparr>cv_text := pv_text v\<rparr>)"

definition toDomainCatalogValues :: "gstring \<Rightarrow> (gstring, public_value) gmap \<Rightarrow> (gstring, catalog_value) gmap" where
  "toDomainCatalogValues kind values = map (\<lambda>(name, v). (name, toDomainCatalogValue kind name v)) values"

definition mapCatalogRule :: "attribute_rule \<Rightarrow> applicability_rule" where
  "mapCatalogRule r = \<lparr>pr_attribute = when_attribute (ar_when r), pr_equals = text_value ValueText (when_equals (ar_when r)),
     pr_mode = ar_mode r, pr_identity = ar_identity r, pr_not_applicable = ar_not_applicable r, pr_active = ar_active r\<rparr>"

definition toDomainCatalogRule :: "applicability_rule \<Rightarrow> attribute_rule" where
  "toDomainCatalogRule r = \<lparr>ar_when = \<lparr>when_attribute = pr_attribute r, when_equals = pv_text (pr_equals r)\<rparr>,
     ar_mode = pr_mode r, ar_identity = pr_identity r, ar_not_applicable = pr_not_applicable r, ar_active = pr_active r\<rparr>"

definition mapCatalogRecord :: "gstring \<Rightarrow> catalog_record \<Rightarrow> public_record" where
  "mapCatalogRecord kind r = \<lparr>prec_kind = rec_kind r, prec_id = rec_id r, prec_revision = rec_revision r,
     prec_active = rec_active r, prec_values = map (\<lambda>(name, v). (name, mapCatalogValue kind name v)) (rec_values r),
     prec_rules = map_option (map mapCatalogRule) (rec_rules r)\<rparr>"

definition mapCatalogDescriptor :: "catalog_kind \<Rightarrow> public_descriptor" where
  "mapCatalogDescriptor k = \<lparr>pd_kind = ck_code k, pd_singular = ck_singular k, pd_plural = ck_plural k,
     pd_fields = map (\<lambda>f. \<lparr>pfd_name = fd_name f, pfd_label = fd_label f, pfd_kind = valueKindFromFieldKind (fd_kind f),
         pfd_required = fd_required f, pfd_ref_kind = fd_ref_kind f, pfd_ref_scoped_by = fd_ref_scoped_by f,
         pfd_allow_create = fd_allow_create f, pfd_enum_values = fd_enum_values f\<rparr>) (ck_fields k),
     pd_identity_fields = ck_identity_fields k, pd_parent_kind = ck_parent_kind k, pd_parent_field = ck_parent_field k\<rparr>"

section \<open>Resources\<close>

definition mapResourceAttributeValue :: "'d decimal_ops \<Rightarrow> 'd attr_value \<Rightarrow> public_value" where
  "mapResourceAttributeValue D v =
     (if av_type v = ValueTypeControlledOption then text_value ValueControlledOption (av_option v)
      else if av_type v = ValueTypeInteger then
        text_value ValueInteger (case av_integer v of None \<Rightarrow> [] | Some i \<Rightarrow> show_int i)
      else if av_type v = ValueTypeDecimal then
        text_value ValueDecimal (case av_decimal v of None \<Rightarrow> [] | Some d \<Rightarrow> dec_string D d)
      else if av_type v = ValueTypeQuantity then (case av_quantity v of
          None \<Rightarrow> text_value ValueQuantity []
        | Some q \<Rightarrow> (text_value ValueQuantity (dec_string D (q_value q)))\<lparr>pv_unit := q_unit q\<rparr>)
      else if av_type v = ValueTypeBoolean then
        public_zero\<lparr>pv_kind := ValueBool, pv_bool := (case av_boolean v of None \<Rightarrow> False | Some b \<Rightarrow> b)\<rparr>
      else if av_type v = ValueTypeControlledText then
        (if av_text v = NotApplicableText then public_zero\<lparr>pv_kind := ValueNotApplicable\<rparr>
         else text_value ValueText (av_text v))
      else text_value ValueText (av_text v))"

definition resourceUnitCode :: "'d attr_value \<Rightarrow> gstring" where
  "resourceUnitCode v = (case av_quantity v of None \<Rightarrow> [] | Some q \<Rightarrow> q_unit q)"

definition mapResource :: "'d decimal_ops \<Rightarrow> 'd resource \<Rightarrow> public_resource" where
  "mapResource D r = \<lparr>pres_id = r_id r, pres_identity = r_identity r,
     pres_scope = \<lparr>sc_class = r_class r, sc_family = r_family r, sc_type = r_type r\<rparr>, pres_unit = r_unit r,
     pres_active = r_active r, pres_revision = r_revision r,
     pres_attributes = map (\<lambda>v. \<lparr>pa_code = av_code v, pa_value = mapResourceAttributeValue D v,
       pa_unit = resourceUnitCode v\<rparr>) (r_attributes r)\<rparr>"

definition toDomainResourceAttribute :: "'d decimal_ops \<Rightarrow> public_attribute \<Rightarrow> public_failure + 'd attr_value" where
  "toDomainResourceAttribute D a =
     (let v = pa_value a; base = empty_value\<lparr>av_code := pa_code a\<rparr> in
      if pv_kind v = ValueControlledOption then Inr (base\<lparr>av_type := ValueTypeControlledOption, av_option := pv_text v\<rparr>)
      else if pv_kind v = ValueInteger then (case parse_int64 (pv_text v) of
          Inl _ \<Rightarrow> Inl (refused ''invalid integer attribute value'')
        | Inr n \<Rightarrow> Inr (base\<lparr>av_type := ValueTypeInteger, av_integer := Some n\<rparr>))
      else if pv_kind v = ValueDecimal then (case dec_parse D (pv_text v) of
          None \<Rightarrow> Inl (refused ''invalid decimal attribute value'')
        | Some d \<Rightarrow> Inr (base\<lparr>av_type := ValueTypeDecimal, av_decimal := Some d\<rparr>))
      else if pv_kind v = ValueQuantity then (case dec_parse D (pv_text v) of
          None \<Rightarrow> Inl (refused ''invalid quantity attribute value'')
        | Some d \<Rightarrow> Inr (base\<lparr>av_type := ValueTypeQuantity, av_quantity := Some \<lparr>q_value = d, q_unit = pv_unit v\<rparr>\<rparr>))
      else if pv_kind v = ValueBool then Inr (base\<lparr>av_type := ValueTypeBoolean, av_boolean := Some (pv_bool v)\<rparr>)
      else if pv_kind v = ValueNotApplicable then Inr (base\<lparr>av_type := ValueTypeControlledText, av_text := NotApplicableText\<rparr>)
      else if pv_kind v = ValueText then Inr (base\<lparr>av_type := ValueTypeControlledText, av_text := pv_text v\<rparr>)
      else Inl (refused ''unsupported attribute value kind for a resource attribute''))"

definition toDomainResourceAttributes :: "'d decimal_ops \<Rightarrow> public_attribute list \<Rightarrow> public_failure + 'd attr_value list" where
  "toDomainResourceAttributes D attrs = mapr (toDomainResourceAttribute D) attrs"

definition mapEffectiveAttribute :: "effective_attribute \<Rightarrow> public_effective" where
  "mapEffectiveAttribute a = (let d = ra_definition (ea_attribute a) in
     \<lparr>pe_characteristic = \<lparr>cd_code = ad_code d, cd_name = ad_name d, cd_value_type = ad_value_type d, cd_dimension = ad_dimension d\<rparr>,
      pe_mode = ea_mode a, pe_identity = ea_identity a, pe_not_applicable = ea_not_applicable a,
      pe_position = ea_position a, pe_has_position = ea_has_position a, pe_option_set = ra_option_set (ea_attribute a),
      pe_source_level = ea_source_level a, pe_source_code = ea_source_code a,
      pe_rules = map mapCatalogRule (ra_rules (ea_attribute a)),
      pe_options = map (\<lambda>o'. \<lparr>po_code = ao_code o', po_label = ao_label o'\<rparr>) (ea_options a)\<rparr>)"

section \<open>Reads\<close>

definition catalogStatusFromPublic :: "gstring \<Rightarrow> 8 word" where
  "catalogStatusFromPublic s = (if s = ScopeInactive then 1 else if s = ScopeAll then 2 else 0)"

definition resourceLifecycleFromPublic :: "gstring \<Rightarrow> 8 word" where
  "resourceLifecycleFromPublic s = (if s = ScopeInactive then LifecycleScopeInactive else LifecycleScopeActive)"

definition publicScopeFromResourceLifecycle :: "8 word \<Rightarrow> gstring" where
  "publicScopeFromResourceLifecycle s = (if s = LifecycleScopeInactive then ScopeInactive else ScopeActive)"

definition parent_entry :: "gstring \<Rightarrow> gstring \<Rightarrow> gstring \<Rightarrow> (gstring, catalog_value) gmap" where
  "parent_entry name kind code = (if code = [] then [] else
     [(name, zero_value\<lparr>cv_ref := \<lparr>ref_kind = kind, ref_code = code, ref_label = [], ref_id = 0\<rparr>\<rparr>)])"

definition catalogParentFilter :: "catalog_query \<Rightarrow> (gstring, catalog_value) gmap" where
  "catalogParentFilter q = parent_entry ''class'' KindClass (cq_class q) @ parent_entry ''family'' KindFamily (cq_family q)
     @ parent_entry ''type'' KindType (cq_type q) @ parent_entry ''optionSet'' KindOptionSet (cq_option_set q)
     @ parent_entry ''characteristic'' KindAttributeDefinition (cq_characteristic q)"

definition buildCatalogPage :: "catalog_query \<Rightarrow> catalog_record list \<Rightarrow> catalog_page" where
  "buildCatalogPage q recs =
     (let hasNext = (int (length recs) > cq_limit q \<and> cq_limit q > 0);
          end' = (if hasNext then nat (cq_limit q) else length recs) in
      \<lparr>cpg_query = q, cpg_records = map (mapCatalogRecord (cq_kind q)) (take end' recs), cpg_previous = 0 < cq_offset q,
       cpg_next = hasNext \<and> cq_limit q \<noteq> 0\<rparr>)"

text \<open>\<^verbatim>\<open>q.Limit + 1\<close> on a 64-bit int.\<close>

definition probe_limit :: "int \<Rightarrow> int" where
  "probe_limit limit = signed_take_bit 63 (limit + 1)"

definition active_filter :: catalog_filter where
  "active_filter = \<lparr>cf_text = [], cf_parent = [], cf_status = 0, cf_limit = 0, cf_offset = 0\<rparr>"

definition query_filter :: "catalog_query \<Rightarrow> catalog_filter" where
  "query_filter q = \<lparr>cf_text = cq_text q, cf_parent = catalogParentFilter q, cf_status = catalogStatusFromPublic (cq_scope q),
     cf_limit = probe_limit (cq_limit q), cf_offset = cq_offset q\<rparr>"

definition adapter_active_classes :: "('d, 'db) resource_core \<Rightarrow> ('db catalogo, public_record list) public_action" where
  "adapter_active_classes B = bnd (public_errors (catalog_list (rb_catalog B) KindClass active_filter)) (\<lambda>recs.
     ret (map (mapCatalogRecord KindClass) recs))"

definition adapter_descriptors :: "('db catalogo, public_descriptor list) public_action" where
  "adapter_descriptors = ret (map mapCatalogDescriptor catalog_kinds)"

definition adapter_list_catalog :: "('d, 'db) resource_core \<Rightarrow> catalog_query \<Rightarrow> ('db catalogo, catalog_page) public_action" where
  "adapter_list_catalog B q = bnd (public_errors (catalog_list (rb_catalog B) (cq_kind q) (query_filter q))) (\<lambda>recs.
     ret (buildCatalogPage q recs))"

text \<open>The read every catalog write of the bridge ends with.\<close>

definition confirm_catalog :: "('d, 'db) resource_core \<Rightarrow> gstring \<Rightarrow> int \<Rightarrow> ('db catalogo, public_record) public_action" where
  "confirm_catalog B kind i = bnd (public_errors (catalog_get (rb_catalog B) kind i)) (\<lambda>r. ret (mapCatalogRecord kind r))"

definition adapter_get_catalog :: "('d, 'db) resource_core \<Rightarrow> catalog_key \<Rightarrow> ('db catalogo, public_record) public_action" where
  "adapter_get_catalog B k = confirm_catalog B (key_kind k) (key_id k)"

definition query_criteria :: "resource_query \<Rightarrow> 'd search_criteria" where
  "query_criteria q = \<lparr>cr_text = rq_text q, cr_class = rq_class q, cr_family = rq_family q, cr_type = rq_type q, cr_filters = [],
     cr_lifecycle = resourceLifecycleFromPublic (rq_scope q), cr_limit = rq_limit q, cr_offset = rq_offset q\<rparr>"

definition mapResourceQuery :: "'d search_criteria \<Rightarrow> resource_query" where
  "mapResourceQuery c = \<lparr>rq_scope = publicScopeFromResourceLifecycle (cr_lifecycle c), rq_text = cr_text c, rq_class = cr_class c,
     rq_family = cr_family c, rq_type = cr_type c, rq_limit = cr_limit c, rq_offset = cr_offset c\<rparr>"

definition adapter_search :: "('d, 'db) resource_core \<Rightarrow> resource_query \<Rightarrow> ('db catalogo, public_page) public_action" where
  "adapter_search B q =
     (if rq_scope q = ScopeAll then fail (refused ''ScopeAll is not supported for resource search'')
      else bnd (public_errors (on_resources (resource_search_page (rb_resources B) (query_criteria q)))) (\<lambda>page.
        ret \<lparr>ppg_query = mapResourceQuery (pg_criteria page), ppg_resources = map (mapResource (rb_decimals B)) (pg_resources page),
          ppg_previous = pg_previous page, ppg_next = pg_next page\<rparr>))"

definition adapter_get_resource :: "('d, 'db) resource_core \<Rightarrow> resource_key \<Rightarrow> ('db catalogo, public_resource) public_action" where
  "adapter_get_resource B k =
     bnd (public_errors (on_resources (resource_get (rb_resources B) (key_class k) (key_identity k)))) (\<lambda>r.
     ret (mapResource (rb_decimals B) r))"

definition adapter_describe :: "('d, 'db) resource_core \<Rightarrow> resource_key \<Rightarrow> ('db catalogo, gstring) public_action" where
  "adapter_describe B k =
     bnd (public_errors (on_resources (resource_get (rb_resources B) (key_class k) (key_identity k)))) (\<lambda>r.
     public_errors (on_resources (bnd (asks (resource_describe (rb_decimals B) r)) lift)))"

definition adapter_attributes ::
  "('d, 'db) resource_core \<Rightarrow> resource_scope \<Rightarrow> 'd attr_value list \<Rightarrow> ('db catalogo, public_effective list) public_action" where
  "adapter_attributes B scope current =
     bnd (public_errors (on_resources (resource_effective_attributes (rb_decimals B) scope current))) (\<lambda>attributes.
     ret (map mapEffectiveAttribute attributes))"

definition adapter_effective :: "('d, 'db) resource_core \<Rightarrow> resource_scope \<Rightarrow> ('db catalogo, public_effective list) public_action" where
  "adapter_effective B scope = adapter_attributes B scope []"

definition adapter_evaluate ::
  "('d, 'db) resource_core \<Rightarrow> resource_scope \<Rightarrow> public_attribute list \<Rightarrow> ('db catalogo, public_effective list) public_action" where
  "adapter_evaluate B scope values =
     bnd (lift (toDomainResourceAttributes (rb_decimals B) values)) (\<lambda>current. adapter_attributes B scope current)"

definition adapter_order :: "('d, 'db) resource_core \<Rightarrow> resource_scope \<Rightarrow> ('db catalogo, order_snapshot) public_action" where
  "adapter_order B scope =
     bnd (public_errors (on_resources (service_read_order B scope))) (\<lambda>(catalog, order). ret order)"

section \<open>Writes\<close>

definition request_record :: "int \<Rightarrow> 'z catalog_write_request_scheme \<Rightarrow> catalog_record" where
  "request_record i q = \<lparr>rec_kind = [], rec_id = i, rec_revision = 0, rec_active = wq_active q,
     rec_values = toDomainCatalogValues (wq_kind q) (wq_values q), rec_rules = map_option (map toDomainCatalogRule) (wq_rules q)\<rparr>"

definition adapter_create_catalog ::
  "('d, 'db) resource_core \<Rightarrow> catalog_write_request \<Rightarrow> ('db catalogo, public_record) public_action" where
  "adapter_create_catalog B q =
     bnd (public_errors (catalog_create (rb_catalog B) (wq_kind q) (request_record 0 q))) (\<lambda>created.
     confirm_catalog B (wq_kind q) (rec_id created))"

definition adapter_update_catalog ::
  "('d, 'db) resource_core \<Rightarrow> catalog_update_request \<Rightarrow> ('db catalogo, public_record) public_action" where
  "adapter_update_catalog B q =
     bnd (public_errors (UpdateRevision (rb_catalog B) (wq_kind q) (request_record (wq_id q) q) (wq_expected q))) (\<lambda>_.
     confirm_catalog B (wq_kind q) (wq_id q))"

definition adapter_deactivate_catalog ::
  "('d, 'db) resource_core \<Rightarrow> catalog_lifecycle_request \<Rightarrow> ('db catalogo, public_record) public_action" where
  "adapter_deactivate_catalog B q =
     bnd (public_errors (DeactivateRevision (rb_catalog B) (lq_kind q) (lq_id q) (lq_expected q))) (\<lambda>_.
     confirm_catalog B (lq_kind q) (lq_id q))"

definition adapter_reactivate_catalog ::
  "('d, 'db) resource_core \<Rightarrow> catalog_lifecycle_request \<Rightarrow> ('db catalogo, public_record) public_action" where
  "adapter_reactivate_catalog B q =
     bnd (public_errors (ReactivateRevision (rb_catalog B) (lq_kind q) (lq_id q) (lq_expected q))) (\<lambda>_.
     confirm_catalog B (lq_kind q) (lq_id q))"

definition adapter_hard_delete ::
  "('d, 'db) resource_core \<Rightarrow> catalog_lifecycle_request \<Rightarrow> ('db catalogo, unit) public_action" where
  "adapter_hard_delete B q = public_errors (HardDeleteRevision (rb_catalog B) (lq_kind q) (lq_id q) (lq_expected q))"

definition adapter_create_resource ::
  "('d, 'db) resource_core \<Rightarrow> resource_write_request \<Rightarrow> ('db catalogo, public_resource) public_action" where
  "adapter_create_resource B q =
     bnd (lift (toDomainResourceAttributes (rb_decimals B) (rw_attributes q))) (\<lambda>attrs.
     bnd (public_errors (on_resources (resource_create (rb_range B) (rb_decimals B) (rb_resources B)
            \<lparr>cmd_scope = rw_scope q, cmd_unit = rw_unit q, cmd_attributes = attrs\<rparr>))) (\<lambda>created.
     bnd (public_errors (on_resources (resource_get (rb_resources B) (r_class created) (r_identity created)))) (\<lambda>confirmed.
     ret (mapResource (rb_decimals B) confirmed))))"

definition adapter_update_resource ::
  "('d, 'db) resource_core \<Rightarrow> resource_update_request \<Rightarrow> ('db catalogo, public_resource) public_action" where
  "adapter_update_resource B q =
     bnd (lift (toDomainResourceAttributes (rb_decimals B) (rw_attributes q))) (\<lambda>attrs.
     bnd (public_errors (on_resources (resource_update_revision (rb_range B) (rb_decimals B) (rb_resources B)
            \<lparr>cmd_scope = rw_scope q, cmd_unit = rw_unit q, cmd_attributes = attrs, cmd_id = rw_id q\<rparr> (rw_expected q)))) (\<lambda>updated.
     ret (mapResource (rb_decimals B) updated)))"

text \<open>\<^verbatim>\<open>result.Resource\<close> of a lifecycle result, the zero struct where the result carries none.\<close>

definition lifecycle_resource :: "'d lifecycle_result \<Rightarrow> 'd resource" where
  "lifecycle_resource result = (case lr_resource result of Some x \<Rightarrow> x
     | None \<Rightarrow> \<lparr>r_id = 0, r_class = [], r_family = [], r_type = [], r_unit = [], r_attributes = [], r_identity = [],
         r_revision = 0, r_active = False, r_canonical = False\<rparr>)"

definition adapter_deactivate_resource ::
  "('d, 'db) resource_core \<Rightarrow> resource_lifecycle_request \<Rightarrow> ('db catalogo, public_resource) public_action" where
  "adapter_deactivate_resource B q =
     bnd (public_errors (on_resources (resource_deactivate_revision (rb_resources B) (ll_id q) (ll_expected q)))) (\<lambda>result.
     ret (mapResource (rb_decimals B) (lifecycle_resource result)))"

definition adapter_reactivate_resource ::
  "('d, 'db) resource_core \<Rightarrow> resource_lifecycle_request \<Rightarrow> ('db catalogo, public_resource) public_action" where
  "adapter_reactivate_resource B q =
     bnd (public_errors (on_resources (resource_reactivate_revision (rb_range B) (rb_decimals B) (rb_resources B)
            (ll_id q) (ll_expected q)))) (\<lambda>result.
     ret (mapResource (rb_decimals B) (lifecycle_resource result)))"

definition adapter_update_order ::
  "('d, 'db) resource_core \<Rightarrow> order_write_request \<Rightarrow> ('db catalogo, order_snapshot) public_action" where
  "adapter_update_order B q =
     bnd (public_errors (on_resources (service_write_order B
            \<lparr>oreq_scope = ow_scope q, oreq_expected = ow_expected q, oreq_keys = ow_keys q\<rparr>))) (\<lambda>(catalog, order). ret order)"

section \<open>The adapter\<close>

definition adapter_reads :: "('d, 'db) resource_core \<Rightarrow> 'db catalogo resource_reads" where
  "adapter_reads B = \<lparr>cap_active_classes = adapter_active_classes B, cap_descriptors = adapter_descriptors,
     cap_list_catalog = adapter_list_catalog B, cap_get_catalog = adapter_get_catalog B, cap_search = adapter_search B,
     cap_get_resource = adapter_get_resource B, cap_describe = adapter_describe B, cap_effective = adapter_effective B,
     cap_evaluate = adapter_evaluate B, cap_order = adapter_order B\<rparr>"

definition adapter_writes :: "('d, 'db) resource_core \<Rightarrow> 'db catalogo resource_writes" where
  "adapter_writes B = \<lparr>cap_create_catalog = adapter_create_catalog B, cap_create_resource = adapter_create_resource B,
     cap_update_catalog = adapter_update_catalog B, cap_update_resource = adapter_update_resource B,
     cap_deactivate_catalog = adapter_deactivate_catalog B, cap_reactivate_catalog = adapter_reactivate_catalog B,
     cap_deactivate_resource = adapter_deactivate_resource B, cap_reactivate_resource = adapter_reactivate_resource B,
     cap_hard_delete = adapter_hard_delete B, cap_update_order = adapter_update_order B\<rparr>"

end
