(* ===== verification/CoreTheorems.thy ===== *)
theory CoreTheorems
  imports ResourceBridge ResourceStoreTheorems
begin

text \<open>
  The composed Resource Master: the public reader and writer over the bridge, the two services and the
  PostgreSQL repositories. What a public write keeps of the state of the whole: the constraints of the
  tables, and that the snapshot of the service, the catalogue its authority serves to the resource service
  and the catalogue of the tables are one.
\<close>

section \<open>Resource writes leave the catalogue\<close>

definition catalogue_part :: "catalog_db \<Rightarrow> catalog_db" where
  "catalogue_part db = db\<lparr>tb_resources := [], tb_values := [], tb_sequences := []\<rparr>"

lemma loaded_part: "loaded coll (catalogue_part db) = loaded coll db"
  unfolding loaded_def catalogue_part_def loadClasses_def loadFamilies_def loadTypes_def loadPresentationFields_def loadUnits_def
    loadUnitPolicies_def loadDefinitions_def loadAttributes_def loadAttributeRules_def loadOptions_def loadRelations_def
    loadOptionSets_def
    join_families_def join_types_def join_fields_def join_policies_def join_rules_def left_type_def join_options_def join_relations_def
    join_attributes_def
  by (simp cong: if_cong option.case_cong)

lemma part_simps [simp]:
  "catalogue_part (undo_tables db t) = catalogue_part db" "catalogue_part (tb_resources_update g db) = catalogue_part db"
  "catalogue_part (tb_values_update g' db) = catalogue_part db" "catalogue_part (tb_sequences_update h db) = catalogue_part db"
  by (simp_all add: catalogue_part_def undo_tables_def)

lemma enforce_part: "catalogue_part t = c \<Longrightarrow> catalogue_part db = c \<Longrightarrow> catalogue_part (snd (enforce db x t)) = c"
  by (auto simp: enforce_def split: option.split)

lemma insert_part:
  assumes "\<And>g db. catalogue_part (upd g db) = catalogue_part db"
  shows "steps_in (\<lambda>db. catalogue_part db = c) (sql_insert table upd build)"
  unfolding steps_in_def sql_insert_def by (auto simp: Let_def assms intro!: enforce_part split: option.split)

lemma update_part:
  assumes "\<And>g db. catalogue_part (upd g db) = catalogue_part db"
  shows "steps_in (\<lambda>db. catalogue_part db = c) (sql_update sel upd match f)"
    "steps_in (\<lambda>db. catalogue_part db = c) (\<lambda>db. sql_update sel upd (match' db) (f' db) db)"
    "steps_in (\<lambda>db. catalogue_part db = c) (sql_delete sel (remove_rows upd) match)"
  unfolding steps_in_def sql_update_def sql_delete_def remove_rows_def
  by (auto simp: assms intro!: enforce_part)

lemma bump_part:
  assumes "\<And>g db. catalogue_part (upd g db) = catalogue_part db"
  shows "steps_in (\<lambda>db. catalogue_part db = c) (\<lambda>db. sql_bump sel upd (match db) (f db) db)"
  unfolding steps_in_def sql_bump_def by (auto simp: assms intro!: enforce_part split: list.split)

lemma value_part: "steps_in (\<lambda>db. catalogue_part db = c) (insert_value row)"
  using insert_part[of tb_values_update c "''resource_attribute_values''" "\<lambda>_. Some row"]
  unfolding steps_in_def insert_value_def by (auto split: option.split)

lemmas table_parts = insert_part[of tb_resources_update] insert_part[of tb_values_update] update_part[of tb_resources_update]
  update_part[of tb_values_update] bump_part[of tb_resources_update]

lemma persist_part: "steps_in (\<lambda>db. catalogue_part db = c) (persist_values F D x i k vs)"
  by (rule persist_steps(2)) (rule value_part)

lemma tx_part:
  "steps_in (\<lambda>db. catalogue_part db = c) (create_tx F D x)" "steps_in (\<lambda>db. catalogue_part db = c) (update_tx F D x)"
  "steps_in (\<lambda>db. catalogue_part db = c) (lifecycle_tx F i active key)"
  "steps_in (\<lambda>db. catalogue_part db = c) (lifecycle_revision_tx F i active key er)"
  "steps_in (\<lambda>db. catalogue_part db = c) (update_revision_tx F D x er)"
  unfolding create_tx_def update_tx_def lifecycle_tx_def lifecycle_revision_tx_def update_revision_tx_def
    resolve_scope_def replace_values_def bump_affected_def
  by (auto intro!: table_parts persist_part split: sum.split db_error.split)

section \<open>An invariant of the database under the resource service\<close>

lemma steps_in_both: "steps_in I m \<Longrightarrow> steps_in J m \<Longrightarrow> steps_in (\<lambda>s. I s \<and> J s) m"
  by (simp add: steps_in_def)

text \<open>What the resource service needs of its repository to keep an invariant of the database.\<close>

locale resource_repository =
  fixes repo :: "('d, 'db) resource_repo" and J :: "'db \<Rightarrow> bool"
  assumes create_keeps: "steps_in J (rr_create repo x)"
    and update_keeps: "rr_v2 repo = Some v2 \<Longrightarrow> steps_in J (rv_update v2 x er)"
    and deactivate_keeps: "rr_v2 repo = Some v2 \<Longrightarrow> steps_in J (rv_deactivate v2 i er)"
    and reactivate_keeps: "rr_v2 repo = Some v2 \<Longrightarrow> steps_in J (rv_reactivate v2 i key er)"
begin

definition kept_by :: "('db, 'a) recursos_action \<Rightarrow> bool" where
  "kept_by m \<longleftrightarrow> steps_in (\<lambda>s. J (rs_db s)) m"

lemma kept_steps: "kept_by m \<Longrightarrow> (\<And>x. kept_by (f x)) \<Longrightarrow> kept_by (bnd m f)" "kept_by m \<Longrightarrow> kept_by (on_error h m)"
  "kept_by (lift r)" "kept_by (fail e)" "kept_by (ret x)" "kept_by (asks g)" "kept_by (rs_read q)"
  by (auto simp: kept_by_def steps_in_def on_error_def bnd_def rs_read_def action_defs split: prod.splits sum.splits)

lemma write_kept: "steps_in J q \<Longrightarrow> kept_by (rs_write q)"
  by (auto simp: kept_by_def steps_in_def rs_write_def split: prod.split)

lemma load_kept: "kept_by (load_for_reactivation repo i)"
  by (auto simp: load_for_reactivation_def kept_steps split: option.split)

lemma service_kept: "kept_by (resource_create rng D repo command)" "kept_by (resource_update_revision rng D repo command' er)"
  "kept_by (resource_deactivate_revision repo i er)" "kept_by (resource_reactivate_revision rng D repo i er)"
  unfolding resource_create_def resource_update_revision_def resource_deactivate_revision_def resource_reactivate_revision_def Let_def
  by (auto intro!: kept_steps write_kept load_kept create_keeps update_keeps deactivate_keeps reactivate_keeps split: option.split)

end

definition catalogue_is :: "resource_catalog \<Rightarrow> (gstring \<Rightarrow> gstring) \<Rightarrow> catalog_db \<Rightarrow> bool" where
  "catalogue_is c coll db \<longleftrightarrow> tables_ok db \<and> loaded coll db = c"

lemma catalogue_is_steps:
  assumes "steps_in tables_ok m" "\<And>p. steps_in (\<lambda>db. catalogue_part db = p) m"
  shows "steps_in (catalogue_is c coll) m"
  using assms unfolding steps_in_def catalogue_is_def by (metis loaded_part)

lemma catalogue_is_undo: "catalogue_is c coll (undo_tables s t) \<longleftrightarrow> catalogue_is c coll s"
proof -
  have "loaded coll (undo_tables s t) = loaded coll s" using loaded_part[of coll "undo_tables s t"] loaded_part[of coll s] by simp
  then show ?thesis by (simp add: catalogue_is_def)
qed

lemma tx_catalogue:
  "steps_in (catalogue_is c coll) (create_tx F D x)" "steps_in (catalogue_is c coll) (lifecycle_revision_tx F i active key er)"
  "steps_in (catalogue_is c coll) (update_revision_tx F D x er)"
  by (rule catalogue_is_steps, rule resource_tx_steps, rule tx_part)+

lemma store_catalogue:
  "steps_in (catalogue_is c coll) (store_create F applied D x)"
  "steps_in (catalogue_is c coll) (setLifecycleRevision F applied D coll' i active key er)"
  "steps_in (catalogue_is c coll) (store_update_revision F applied D coll' x er)"
  unfolding store_create_def setLifecycleRevision_def store_update_revision_def
  by (auto intro!: transact_as_steps tx_catalogue catalogue_is_undo)

interpretation pg_resources: resource_repository "resource_store F applied D ilike coll'" "catalogue_is c coll"
  for F applied D ilike coll' c coll
  by unfold_locales (auto simp: resource_store_def store_catalogue)

section \<open>An invariant of the service under its revision-aware writes\<close>

text \<open>What the catalogue service needs of its port to keep an invariant of its state.\<close>

locale port_invariant =
  fixes v2 :: "'db catalog_repo_v2" and I :: "'db catalogo \<Rightarrow> bool"
  assumes configured: "I s \<Longrightarrow> cs_repo_v2 s = Some v2"
    and insert_keeps: "steps_in I (v2_write (v2_insert v2 r))"
    and update_keeps: "steps_in I (v2_write (v2_update v2 r er))"
    and set_active_keeps: "steps_in I (v2_write (v2_set_active v2 kind i active er))"
    and delete_keeps: "steps_in I (v2_write (v2_delete v2 kind i er))"
begin

lemma prepared: "steps_in I (f v2) \<Longrightarrow> steps_in I (bnd prepare_v2_write f)"
  using configured unfolding steps_in_def prepare_v2_write_def by (auto simp: bnd_def split: option.splits)

lemma quiet_kept: "steps_in I (candidate m)" "steps_in I (update_candidate repo kind r)"
  "steps_in I (delete_candidate repo kind i)" "steps_in I (db_read q)" "steps_in I (catalog_get repo kind i)"
  by (rule quiet_steps, simp add: catalog_get_def)+

lemma revision_kept: "steps_in I (UpdateRevision repo kind r er)" "steps_in I (DeactivateRevision repo kind i er)"
  "steps_in I (ReactivateRevision repo kind i er)" "steps_in I (HardDeleteRevision repo kind i er)"
  unfolding UpdateRevision_def DeactivateRevision_def ReactivateRevision_def set_active_revision_def HardDeleteRevision_def Let_def
  by (auto intro!: prepared quiet_kept update_keeps set_active_keeps delete_keeps)

lemma create_kept: "steps_in I (catalog_create repo kind r)"
proof -
  have "steps_in I (bnd prepare_v2_write (\<lambda>v2. insert_locked v2 (r\<lparr>rec_kind := kind\<rparr>)))"
    by (rule prepared) (auto simp: insert_locked_def Let_def intro!: quiet_kept insert_keeps)
  moreover have "catalog_create repo kind r s = bnd prepare_v2_write (\<lambda>v2. insert_locked v2 (r\<lparr>rec_kind := kind\<rparr>)) s" if "I s" for s
    using configured[OF that] by (simp add: catalog_create_def Let_def)
  ultimately show ?thesis by (simp add: steps_in_def)
qed

end

text \<open>The state of the composed core: the constraints of the tables hold, the snapshot is valid and is what
  the authority serves, and it is the catalogue of the tables.\<close>

definition core_ok :: "(gstring \<Rightarrow> gstring) \<Rightarrow> catalog_db catalogo \<Rightarrow> bool" where
  "core_ok coll s \<longleftrightarrow> tables_ok (cs_db s) \<and> coherent s \<and> cs_snapshot s = loaded coll (cs_db s)"

definition core_with :: "(gstring \<Rightarrow> gstring) \<Rightarrow> catalog_db catalog_repo_v2 \<Rightarrow> catalog_db catalogo \<Rightarrow> bool" where
  "core_with coll v2 s \<longleftrightarrow> core_ok coll s \<and> cs_repo_v2 s = Some v2"

lemma core_v2_write:
  assumes "shows_view (loaded coll) q" "steps_in tables_ok q" "\<And>db result t. q db = (Inr result, t) \<Longrightarrow> catalog_valid (wr_catalog result)"
  shows "steps_in (core_with coll v2) (v2_write q)"
  unfolding steps_in_def
proof (intro allI impI)
  fix s
  assume s: "core_with coll v2 s"
  obtain r t where q: "q (cs_db s) = (r, t)" by (cases "q (cs_db s)")
  have ok: "tables_ok t" using assms(2) s q unfolding steps_in_def core_with_def core_ok_def by (metis snd_conv)
  have view: "case r of Inr result \<Rightarrow> wr_catalog result = loaded coll t | Inl e \<Rightarrow> loaded coll t = loaded coll (cs_db s)"
    using assms(1) q unfolding shows_view_def by (auto dest: spec[of _ "cs_db s"] split: sum.splits)
  show "core_with coll v2 (snd (v2_write q s))"
    using s ok view q
    by (cases r) (auto simp: v2_write_def bnd_def attempt_def db_write_def publish_def change_def ret_def classify_v2_write_error_def
        core_with_def core_ok_def coherent_def authority_publish_def dest!: assms(3))
qed

lemma announced_quiet [simp]: "quiet (announced F ilike coll call)"
  by (cases call) (simp_all add: quiet_pure)

lemma v2_result_valid:
  assumes "v2_result F applied ilike coll call db = (Inr result, t)"
  shows "catalog_valid (wr_catalog result)"
  using v2_result_tx[OF assms] coherent_Inr announced_quiet validate_catalog_iff by metis

interpretation pg_port: port_invariant "catalogAdminRepositoryV2 F False ilike coll" "core_with coll (catalogAdminRepositoryV2 F False ilike coll)"
  for F ilike coll
proof unfold_locales
  show "core_with coll v2 s \<Longrightarrow> cs_repo_v2 s = Some v2" for v2 s by (simp add: core_with_def)
qed (auto simp: catalogAdminRepositoryV2_def intro!: core_v2_write insert_v2_shows update_v2_shows set_active_v2_shows delete_v2_shows
    insert_v2_steps update_v2_steps lifecycle_v2_steps
    dest: v2_result_valid[where call = "RevisionInsert _", simplified] v2_result_valid[where call = "RevisionUpdate _ _", simplified]
      v2_result_valid[where call = "RevisionSetActive _ _ _ _", simplified] v2_result_valid[where call = "RevisionDelete _ _ _", simplified])

section \<open>The composition\<close>

text \<open>The core as \<^verbatim>\<open>garfex.Open\<close> composes it, on the repositories as they are during one call. The tables
  of the attribute order are no tables of \<open>catalog_db\<close>: on it the order store only answers.\<close>

definition pg_core ::
  "sql_faults \<Rightarrow> bool \<Rightarrow> pattern_match \<Rightarrow> (gstring \<Rightarrow> gstring) \<Rightarrow> 'd decimal_ops \<Rightarrow> range_order
     \<Rightarrow> (resource_scope \<Rightarrow> catalog_db \<Rightarrow> go_error + order_result) \<Rightarrow> (order_request \<Rightarrow> catalog_db \<Rightarrow> go_error + order_result)
     \<Rightarrow> ('d, catalog_db) resource_core" where
  "pg_core F applied ilike coll D rng order_read order_write =
     \<lparr>rb_catalog = catalogAdminRepository F applied ilike coll, rb_resources = resource_store F applied D ilike coll,
      rb_order_read = Some order_read, rb_order_write = Some (\<lambda>q db. (order_write q db, db)), rb_decimals = D, rb_range = rng\<rparr>"

lemma pg_core_simps [simp]:
  "rb_catalog (pg_core F applied ilike coll D rng oread owrite) = catalogAdminRepository F applied ilike coll"
  "rb_resources (pg_core F applied ilike coll D rng oread owrite) = resource_store F applied D ilike coll"
  "rb_decimals (pg_core F applied ilike coll D rng oread owrite) = D"
  "rb_range (pg_core F applied ilike coll D rng oread owrite) = rng"
  by (simp_all add: pg_core_def)

lemma public_steps [intro!]: "steps_in I m \<Longrightarrow> steps_in I (public_errors m)"
  by (auto simp: steps_in_def public_errors_def split: prod.splits sum.splits)

lemma checked_steps [intro!]: "steps_in I m \<Longrightarrow> steps_in I (checked c m f)"
  by (auto simp: checked_def)

lemma quiet_confirm: "quiet (confirm_catalog B kind i)"
proof -
  have "quiet (catalog_get (rb_catalog B) kind i)" by (simp add: catalog_get_def)
  then have "quiet (public_errors (catalog_get (rb_catalog B) kind i))"
    by (auto simp: quiet_def public_errors_def split: prod.split sum.split dest: spec)
      (metis snd_conv)+
  then show ?thesis unfolding confirm_catalog_def by (rule quiet_bnd) simp
qed

lemma core_on_resources:
  assumes "\<And>c. steps_in (\<lambda>r. catalogue_is c coll (rs_db r)) m"
  shows "steps_in (core_with coll v2) (on_resources m)"
  unfolding steps_in_def
proof (intro allI impI)
  fix s
  assume s: "core_with coll v2 s"
  obtain r t where m: "m \<lparr>rs_authority = cs_authority s, rs_db = cs_db s\<rparr> = (r, t)" by fastforce
  have "catalogue_is (loaded coll (cs_db s)) coll (rs_db t)"
    using assms[of "loaded coll (cs_db s)"] m s unfolding steps_in_def
    by (auto simp: catalogue_is_def core_with_def core_ok_def dest: spec[of _ "\<lparr>rs_authority = cs_authority s, rs_db = cs_db s\<rparr>"])
  then show "core_with coll v2 (snd (on_resources m s))"
    using s m by (auto simp: on_resources_def core_with_def core_ok_def catalogue_is_def coherent_def)
qed

lemmas pg_service = pg_resources.service_kept[unfolded pg_resources.kept_by_def]

lemma quiet_resource_get: "steps_in I (on_resources (resource_get repo c k))"
  by (auto simp: steps_in_def on_resources_def resource_get_def on_error_def rs_read_def fail_def split: prod.split sum.split)

lemma adapter_kept:
  defines "I F ilike coll \<equiv> core_with coll (catalogAdminRepositoryV2 F False ilike coll)"
  shows "steps_in (I F ilike coll) (run_public_write D (adapter_writes (pg_core F applied ilike coll D rng oread owrite)) call)"
proof -
  note confirm = quiet_steps[OF quiet_confirm]
  have order: "steps_in (I F ilike coll) (on_resources (service_write_order (pg_core F applied ilike coll D rng oread owrite) q))" for q
    by (auto simp: I_def steps_in_def on_resources_def service_write_order_def pg_core_def rs_write_def)
  note res = core_on_resources[OF pg_service(1)] core_on_resources[OF pg_service(2)] core_on_resources[OF pg_service(3)]
    core_on_resources[OF pg_service(4)]
  show ?thesis
    unfolding I_def
    by (cases call)
      (auto simp: adapter_writes_def writer_create_catalog_def writer_create_resource_def writer_update_catalog_def
        writer_update_resource_def writer_deactivate_catalog_def writer_reactivate_catalog_def writer_deactivate_resource_def
        writer_reactivate_resource_def writer_hard_delete_def writer_update_order_def adapter_create_catalog_def
        adapter_update_catalog_def adapter_deactivate_catalog_def adapter_reactivate_catalog_def adapter_hard_delete_def
        adapter_create_resource_def adapter_update_resource_def adapter_deactivate_resource_def adapter_reactivate_resource_def
        adapter_update_order_def
        intro!: pg_port.create_kept pg_port.revision_kept confirm res quiet_resource_get order[unfolded I_def])
qed

definition public_step ::
  "pattern_match \<Rightarrow> (gstring \<Rightarrow> gstring) \<Rightarrow> 'd decimal_ops \<Rightarrow> range_order
     \<Rightarrow> (resource_scope \<Rightarrow> catalog_db \<Rightarrow> go_error + order_result) \<Rightarrow> (order_request \<Rightarrow> catalog_db \<Rightarrow> go_error + order_result)
     \<Rightarrow> sql_faults \<times> bool \<times> resource_write_call \<Rightarrow> catalog_db catalogo \<Rightarrow> (public_failure + unit) \<times> catalog_db catalogo" where
  "public_step ilike coll D rng oread owrite = (\<lambda>(F, applied, call) s.
     run_public_write D (adapter_writes (pg_core F applied ilike coll D rng oread owrite)) call
       (s\<lparr>cs_repo_v2 := Some (catalogAdminRepositoryV2 F applied ilike coll)\<rparr>))"

lemma public_step_ok:
  assumes "(\<lambda>(F, applied, call). applied \<longrightarrow> F ''commit'' 0 = None) w" "core_ok coll s"
  shows "core_ok coll (snd (public_step ilike coll D rng oread owrite w s))"
proof -
  obtain F applied call where w: "w = (F, applied, call)" by (cases w)
  let ?s = "s\<lparr>cs_repo_v2 := Some (catalogAdminRepositoryV2 F False ilike coll)\<rparr>"
  have "core_with coll (catalogAdminRepositoryV2 F False ilike coll) ?s"
    using assms(2) by (auto simp: core_with_def core_ok_def coherent_def)
  then have "core_with coll (catalogAdminRepositoryV2 F False ilike coll)
      (snd (run_public_write D (adapter_writes (pg_core F applied ilike coll D rng oread owrite)) call ?s))"
    using adapter_kept unfolding steps_in_def by blast
  moreover have "catalogAdminRepositoryV2 F applied ilike coll = catalogAdminRepositoryV2 F False ilike coll"
    using assms(1) w by (intro applied_irrelevant) simp
  ultimately show ?thesis by (simp add: public_step_def w core_with_def)
qed

end
