(* ===== verification/BridgeTheorems.thy ===== *)
theory BridgeTheorems
  imports CoreTheorems
begin

text \<open>
  The properties of the public Resource Master contract over the composed core: its reads change nothing, its
  writes keep the core coherent, what a page of the catalogue holds, what the expected revision of a write decides,
  and a flow of the contract that cannot succeed.
\<close>

section \<open>Concrete cores for the witnesses\<close>

definition core_service :: "catalog_db \<Rightarrow> catalog_db catalogo" where
  "core_service db = \<lparr>cs_snapshot = loaded plain_collation db, cs_authority = NewCatalogAuthority (loaded plain_collation db),
     cs_writer_unavailable = False, cs_repo_v2 = Some (catalogAdminRepositoryV2 all_well False no_match plain_collation), cs_db = db\<rparr>"

definition no_order :: "'a \<Rightarrow> 'b \<Rightarrow> go_error + order_result" where
  "no_order q db = Inl order_unavailable"

definition sound_core :: "(nat, catalog_db) resource_core" where
  "sound_core = pg_core all_well False no_match plain_collation demo_decimals (\<lambda>x. x) no_order no_order"

text \<open>One family with one required attribute of a value type, in the default option set, which has one option.\<close>

definition typed_db :: "gstring \<Rightarrow> catalog_db" where
  "typed_db valueType = stock_db\<lparr>
     tb_option_sets := [\<lparr>row_id = 1, row_revision = 1, row_active = True, st_code = ''DEFAULT'', st_name = ''D''\<rparr>],
     tb_definitions := [\<lparr>row_id = 1, row_revision = 1, row_active = True, de_code = ''n'', de_name = ''N'',
       de_value_type = valueType, de_dimension = None, de_identity = True\<rparr>,
       \<lparr>row_id = 2, row_revision = 1, row_active = True, de_code = ''a'', de_name = ''A'',
         de_value_type = ValueTypeControlledOption, de_dimension = None, de_identity = False\<rparr>],
     tb_options := [\<lparr>row_id = 1, row_revision = 1, row_active = True, op_set = ''DEFAULT'', op_definition = 2, op_code = ''R'',
       op_label = ''R'', op_order = 1\<rparr>],
     tb_attributes := [\<lparr>row_id = 1, row_revision = 1, row_active = True, at_class = 1, at_family = 1, at_type = None, at_definition = 1,
       at_set = ''DEFAULT'', at_mode = ModeRequired, at_identity = True, at_order = 1\<rparr>]\<rparr>"

lemma typed_core: "valueType = ValueTypeControlledText \<or> valueType = ValueTypeInteger \<Longrightarrow> core_ok plain_collation (core_service (typed_db valueType))"
proof -
  have textual: "tables_ok (typed_db ValueTypeControlledText)" "validate_catalog (loaded plain_collation (typed_db ValueTypeControlledText)) = None"
    by code_simp+
  have number: "tables_ok (typed_db ValueTypeInteger)" "validate_catalog (loaded plain_collation (typed_db ValueTypeInteger)) = None"
    by code_simp+
  assume "valueType = ValueTypeControlledText \<or> valueType = ValueTypeInteger"
  then show ?thesis
    using textual number
    by (auto simp: core_ok_def core_service_def coherent_def NewCatalogAuthority_def validate_catalog_iff)
qed

definition text_request :: "public_value \<Rightarrow> resource_write_request" where
  "text_request v = \<lparr>rw_actor = ''u'', rw_scope = \<lparr>sc_class = ''M'', sc_family = ''F'', sc_type = ''T''\<rparr>, rw_unit = ''U'',
     rw_attributes = [\<lparr>pa_code = ''n'', pa_value = v, pa_unit = []\<rparr>]\<rparr>"

section \<open>Reads\<close>

locale quiet_reads =
  fixes cap :: "'s resource_reads"
  assumes quiet_caps: "quiet (cap_active_classes cap)" "quiet (cap_descriptors cap)" "quiet (cap_list_catalog cap q)"
    "quiet (cap_get_catalog cap k)" "quiet (cap_search cap rq)" "quiet (cap_get_resource cap rk)" "quiet (cap_describe cap rk)"
    "quiet (cap_effective cap scope)" "quiet (cap_evaluate cap scope values)" "quiet (cap_order cap scope)"
begin

lemma quiet_checked: "quiet m \<Longrightarrow> quiet (checked c m f)"
  by (auto simp: checked_def intro!: quiet_bnd)

lemma reader_quiet: "quiet (run_resource_read cap call)"
  by (cases call) (auto simp: reader_active_classes_def reader_descriptors_def reader_list_catalog_def reader_get_catalog_def
    reader_search_def reader_get_resource_def reader_describe_def reader_effective_def reader_evaluate_def reader_order_def
    intro!: quiet_checked quiet_caps)

end

lemma quiet_public: "quiet m \<Longrightarrow> quiet (public_errors m)"
  unfolding quiet_def public_errors_def by (auto split: prod.split sum.split dest: spec) (metis snd_conv)+

lemma quiet_on_resources: "quiet m \<Longrightarrow> quiet (on_resources m)"
  unfolding quiet_def on_resources_def by (auto split: prod.split) (metis recursos.select_convs(2) snd_conv catalogo.surjective catalogo.update_convs(5))

lemma quiet_errors: "quiet m \<Longrightarrow> quiet (on_error f m)" "quiet (rs_read q)"
  unfolding quiet_def on_error_def rs_read_def by (auto split: prod.split sum.split) (metis snd_conv)+

lemma quiet_attributes: "quiet (adapter_attributes B scope current)"
  by (auto simp: adapter_attributes_def resource_effective_attributes_def intro!: quiet_bnd quiet_public quiet_on_resources)

interpretation adapter: quiet_reads "adapter_reads B" for B
proof unfold_locales
  show "quiet (cap_list_catalog (adapter_reads B) q)" "quiet (cap_active_classes (adapter_reads B))"
    "quiet (cap_descriptors (adapter_reads B))" for B :: "('d, 'db) resource_core" and q
    by (auto simp: adapter_reads_def adapter_list_catalog_def adapter_active_classes_def adapter_descriptors_def catalog_list_def
        intro!: quiet_bnd quiet_public)
  show "quiet (cap_get_catalog (adapter_reads B) k)" for B :: "('d, 'db) resource_core" and k
    by (simp add: adapter_reads_def adapter_get_catalog_def quiet_confirm)
  show "quiet (cap_search (adapter_reads B) rq)" for B :: "('d, 'db) resource_core" and rq
    by (auto simp: adapter_reads_def adapter_search_def resource_search_page_def split: option.split
        intro!: quiet_bnd quiet_public quiet_on_resources quiet_errors)
  show "quiet (cap_get_resource (adapter_reads B) rk)" "quiet (cap_describe (adapter_reads B) rk)" for B :: "('d, 'db) resource_core" and rk
    by (auto simp: adapter_reads_def adapter_get_resource_def adapter_describe_def resource_get_def
        intro!: quiet_bnd quiet_public quiet_on_resources quiet_errors)
  show "quiet (cap_effective (adapter_reads B) scope)" "quiet (cap_evaluate (adapter_reads B) scope values)"
    for B :: "('d, 'db) resource_core" and scope "values"
    by (auto simp: adapter_reads_def adapter_effective_def adapter_evaluate_def quiet_attributes intro!: quiet_bnd)
  show "quiet (cap_order (adapter_reads B) scope)" for B :: "('d, 'db) resource_core" and scope
    by (auto simp: adapter_reads_def adapter_order_def service_read_order_def split: option.split
        intro!: quiet_bnd quiet_public quiet_on_resources quiet_errors)
qed

text \<open>No call of the public reader changes anything: not the snapshot, the authority, the writer latch or any
  table, whatever the request and whether it is answered or refused.\<close>

theorem reads_change_nothing:
  assumes "run_resource_read (adapter_reads B) call s = (r, t)"
  shows "t = s"
  using quietD[OF adapter.reader_quiet assms] .

theorem reads_change_nothing_witness:
  "snd (run_resource_read (adapter_reads sound_core) ReadActiveClasses (core_service (typed_db ValueTypeInteger)))
     = core_service (typed_db ValueTypeInteger)"
  by (rule reads_change_nothing) (rule surjective_pairing)

section \<open>Writes\<close>

text \<open>C7: The composed core: from a state whose tables satisfy their constraints and whose snapshot, authority and
  tables hold one valid catalogue, every sequence of calls of the public writer, on the catalogue and on resources in any
  order, leaves such a state, whatever the requests, whichever statement fails at each call, and whether a call
  succeeds, is refused or fails after its commit, provided no failed commit was applied after all.\<close>

theorem public_writes_keep_core:
  assumes "list_all (\<lambda>(F, applied, call). applied \<longrightarrow> F ''commit'' 0 = None) ws" "core_ok coll s"
  shows "core_ok coll (fold (\<lambda>w s. snd (public_step ilike coll D rng oread owrite w s)) ws s)"
  using assms by (induction ws arbitrary: s) (simp_all add: public_step_ok)


theorem public_writes_keep_core_witness:
  "core_ok plain_collation (fold (\<lambda>w s. snd (public_step no_match plain_collation demo_decimals (\<lambda>x. x) no_order no_order w s))
     [(all_well, True, WriteCreateResource (text_request (NewIntegerValue 7))),
      (commit_lost, False, WriteHardDelete \<lparr>lq_actor = ''u'', lq_kind = KindUnit, lq_id = 1, lq_expected = 1\<rparr>)]
     (core_service (typed_db ValueTypeInteger)))"
  by (rule public_writes_keep_core) (simp_all add: typed_core)

section \<open>The revision of a resource that was read\<close>

lemma hydrate_row_zero: "hydrate_row attributes k row = Inr x \<Longrightarrow> r_revision x = 0"
  by (auto simp: hydrate_row_def HydrateResource_def split: prod.splits if_splits)

lemma hydrate_rows_zero: "hydrate_rows attributes rows = Inr xs \<Longrightarrow> x \<in> set xs \<Longrightarrow> r_revision x = 0"
  by (induction rows arbitrary: xs) (auto simp: bindr_Inr_iff wrap_result_def hydrate_row_zero split: sum.splits)

lemma store_get_zero: "store_get F D coll c k db = Inr x \<Longrightarrow> r_revision x = 0"
  by (auto simp: store_get_def bindr_Inr_iff hydrate_row_zero)

lemma search_page_zero: "SearchPage F D ilike coll criteria db = Inr result \<Longrightarrow> x \<in> set (pg_resources result) \<Longrightarrow> r_revision x = 0"
  by (auto simp: SearchPage_def bindr_Inr_iff Let_def hydrate_rows_zero split: option.splits if_splits)

text \<open>The public resources a client that holds no revision yet can obtain from a state: by key, from a page, or as the answer of a create.\<close>

definition obtains_resource :: "('d, 'db) resource_core \<Rightarrow> 'db catalogo \<Rightarrow> public_resource \<Rightarrow> bool" where
  "obtains_resource B s x \<longleftrightarrow>
     (\<exists>k t. reader_get_resource (adapter_reads B) k s = (Inr x, t))
   \<or> (\<exists>q found t. reader_search (adapter_reads B) q s = (Inr found, t) \<and> x \<in> set (ppg_resources found))
   \<or> (\<exists>q t. writer_create_resource (rb_decimals B) (adapter_writes B) q s = (Inr x, t))"

lemma public_Inr: "public_errors m s = (Inr x, t) \<longleftrightarrow> m s = (Inr x, t)"
  by (auto simp: public_errors_def split: prod.splits sum.splits)

lemma checked_Inr: "checked c m f s = (Inr y, t) \<longleftrightarrow> c = None \<and> (\<exists>x. m s = (Inr x, t) \<and> y = f x)"
  by (cases c) (auto simp: checked_def bnd_Inr ret_def fail_def)

lemma get_resource_zero:
  assumes "on_resources (resource_get (resource_store F applied D ilike coll) c k) s = (Inr x, t)"
  shows "r_revision x = 0"
  using assms by (auto simp: on_resources_def resource_get_def on_error_def rs_read_def fail_def resource_store_def store_get_zero
    split: prod.splits sum.splits if_splits)

lemma search_resource_zero:
  assumes "on_resources (resource_search_page (resource_store F applied D ilike coll) criteria) s = (Inr found, t)"
  shows "\<forall>x\<in>set (pg_resources found). r_revision x = 0"
  using assms by (auto simp: on_resources_def resource_search_page_def bnd_run bnd_lift on_error_def rs_read_def ret_def resource_store_def
    split: prod.splits sum.splits) (metis search_page_zero)

lemma obtained_zero:
  assumes "obtains_resource (pg_core F applied ilike coll D rng oread owrite) s x"
  shows "pres_revision x = 0"
  using assms unfolding obtains_resource_def
  by (auto simp: reader_get_resource_def reader_search_def writer_create_resource_def adapter_reads_def adapter_writes_def
      adapter_get_resource_def adapter_search_def adapter_create_resource_def checked_Inr bnd_Inr public_Inr ret_def fail_def mapResource_def
      split: if_splits dest!: get_resource_zero search_resource_zero)

text \<open>C23: Optimistic concurrency over resources cannot be started from a read: a resource read by its key, found in a page
  or answered by a create carries revision zero, whatever revision its row has, and an update, a deactivation or a
  reactivation that expects the revision it was given is refused as an invalid argument before anything is looked at.
  Only the answers of those three writes carry the stored revision.\<close>

theorem obtained_revision_refused:
  assumes "obtains_resource (pg_core F applied ilike coll D rng oread owrite) s x"
  shows "(rw_expected u = pres_revision x \<longrightarrow> (\<exists>m. writer_update_resource D' w u s' = (Inl (refused m), s')))
    \<and> (ll_expected l = pres_revision x \<longrightarrow> (\<exists>m. writer_deactivate_resource w l s' = (Inl (refused m), s')))
    \<and> (ll_expected l = pres_revision x \<longrightarrow> (\<exists>m. writer_reactivate_resource w l s' = (Inl (refused m), s')))"
  using obtained_zero[OF assms]
  by (auto simp: writer_update_resource_def writer_deactivate_resource_def writer_reactivate_resource_def checked_def
      validateResourceUpdateRequest_def validateResourceLifecycleRequest_def fail_def)

definition seventh :: public_resource where
  "seventh = \<lparr>pres_id = 1, pres_identity = ''v1|1:M1:F1:T1:n7:INTEGER1:7'',
     pres_scope = \<lparr>sc_class = ''M'', sc_family = ''F'', sc_type = ''T''\<rparr>, pres_unit = ''U'', pres_active = True, pres_revision = 0,
     pres_attributes = [\<lparr>pa_code = ''n'', pa_value = NewIntegerValue 7, pa_unit = []\<rparr>]\<rparr>"

lemma seventh_created:
  "fst (writer_create_resource demo_decimals (adapter_writes sound_core) (text_request (NewIntegerValue 7))
     (core_service (typed_db ValueTypeInteger))) = Inr seventh"
  by code_simp

theorem obtained_revision_refused_witness:
  "\<exists>m. writer_deactivate_resource (adapter_writes sound_core) \<lparr>ll_actor = ''u'', ll_id = 1, ll_expected = 0\<rparr>
     (core_service (typed_db ValueTypeInteger)) = (Inl (refused m), core_service (typed_db ValueTypeInteger))"
proof -
  have "obtains_resource sound_core (core_service (typed_db ValueTypeInteger)) seventh"
    using seventh_created unfolding obtains_resource_def sound_core_def by (metis pg_core_simps(3) prod.exhaust_sel)
  from obtained_revision_refused[OF this[unfolded sound_core_def],
      where l = "\<lparr>ll_actor = ''u'', ll_id = 1, ll_expected = 0\<rparr>" and w = "adapter_writes sound_core"]
  show ?thesis by (simp add: seventh_def) blast
qed

section \<open>Pages of the catalogue\<close>

definition unbounded :: "catalog_filter \<Rightarrow> catalog_filter" where
  "unbounded f = f\<lparr>cf_limit := 0, cf_offset := 0\<rparr>"

lemma unbounded_simps [simp]:
  "cf_text (unbounded f) = cf_text f" "cf_status (unbounded f) = cf_status f" "parentRefCode (unbounded f) k = parentRefCode f k"
  "limitOffsetClause (unbounded f) rows = rows"
  by (simp_all add: unbounded_def parentRefCode_def limitOffsetClause_def)

lemma window_map: "limitOffsetClause f (map h rows) = map h (limitOffsetClause f rows)"
  by (simp add: limitOffsetClause_def Let_def take_map drop_map)

lemma list_rows_window: "fst (list_rows F t (\<lambda>db. map (h db) (finalizeQuery c k f (rows db))) db)
    = map_sum id (limitOffsetClause f) (fst (list_rows F t (\<lambda>db. map (h db) (finalizeQuery c k (unbounded f) (rows db))) db))"
  by (simp add: list_rows_def read_table_def map_err_run stmt_def asks_def fail_def finalizeQuery_def window_map split: option.split)

definition windowed :: "(catalog_filter \<Rightarrow> catalog_record list catalog_sql) \<Rightarrow> bool" where
  "windowed q \<longleftrightarrow> (\<forall>f db. fst (q f db) = map_sum id (limitOffsetClause f) (fst (q (unbounded f) db)))"

lemma lists_windowed:
  "windowed (listClasses F ilike coll)" "windowed (listFamilies F ilike)" "windowed (listTypes F ilike)" "windowed (listDefinitions F ilike)" "windowed (listOptionSets F ilike coll)" "windowed (listOptions F ilike)" "windowed (listOptionRelations F)" "windowed (listUnits F ilike)" "windowed (listUnitPolicies F)" "windowed (listAttributeBindings F)" "windowed (listPresentationFields F)"
  unfolding windowed_def listClasses_def listFamilies_def listTypes_def listDefinitions_def listOptionSets_def listOptions_def listOptionRelations_def listUnits_def listUnitPolicies_def listAttributeBindings_def listPresentationFields_def unbounded_simps
  by (intro allI, rule list_rows_window)+

lemma kind_windowed:
  assumes "map_of (kindTables F ilike coll) kind = Some h"
  shows "windowed (kh_list h)"
proof -
  have "list_all (\<lambda>(kind, h). windowed (kh_list h)) (kindTables F ilike coll)"
    unfolding kindTables_def by (simp only: list.pred_inject prod.case kind_handlers.simps lists_windowed simp_thms)
  then show ?thesis using map_of_SomeD[OF assms] by (auto simp: list_all_iff)
qed

lemma repo_list_window:
  "cr_list (catalogAdminRepository F applied ilike coll) kind f db
    = map_sum id (limitOffsetClause f) (cr_list (catalogAdminRepository F applied ilike coll) kind (unbounded f) db)"
proof (cases "map_of (kindTables F ilike coll) kind")
  case None
  then show ?thesis by (simp add: catalogAdminRepository_def repo_list_def with_kind_def fail_def)
next
  case (Some h)
  have "fst (kh_list h f db) = map_sum id (limitOffsetClause f) (fst (kh_list h (unbounded f) db))"
    using kind_windowed[OF Some] unfolding windowed_def by blast
  then show ?thesis by (simp only: catalogAdminRepository_def catalog_repo.simps repo_list_def with_kind_def Some option.case)
qed

text \<open>The records a page is a window of: the answer of the same query without limit and offset.\<close>

definition matching_records ::
  "('d, 'db) resource_core \<Rightarrow> catalog_query \<Rightarrow> 'db catalogo \<Rightarrow> go_error + catalog_record list" where
  "matching_records B q s = cr_list (rb_catalog B) (cq_kind q) (unbounded (query_filter q)) (cs_db s)"

lemma probe_limit:
  assumes "- (2 ^ 63) \<le> n" "n < 2 ^ 63"
  shows "probe_limit n = (if n = 2 ^ 63 - 1 then - (2 ^ 63) else n + 1)"
proof (cases "n = 2 ^ 63 - 1")
  case True
  then show ?thesis by (simp add: probe_limit_def)
next
  case False
  then have "n + 1 < 2 ^ 63" using assms(2) by simp
  then show ?thesis using assms False by (simp add: probe_limit_def signed_take_bit_int_eq_self)
qed

text \<open>C26: A page of the catalogue is an exact window. For a positive limit, whatever its size, the records are the first that many
  after the offset of the records the query matches, and the page says that there is a next one exactly when more are
  left. A zero limit is not "no limit": the page then has at most one record and denies that there are more. A
  negative limit returns all that are left.\<close>

theorem catalog_page_window:
  assumes "reader_list_catalog (adapter_reads (pg_core F applied ilike coll D rng oread owrite)) q s = (Inr listed, t)"
    and "- (2 ^ 63) \<le> cq_limit q" "cq_limit q < 2 ^ 63"
  shows "\<exists>matched. matching_records (pg_core F applied ilike coll D rng oread owrite) q s = Inr matched \<and>
     (let left = drop (nat (cq_offset q)) matched;
          size = (if cq_limit q = 0 then 1 else if cq_limit q < 0 then length left else nat (cq_limit q)) in
      cpg_records listed = map (CloneCatalogRecord \<circ> mapCatalogRecord (cq_kind q)) (take size left)
      \<and> (cpg_next listed \<longleftrightarrow> 0 < cq_limit q \<and> size < length left) \<and> (cpg_previous listed \<longleftrightarrow> 0 < cq_offset q))"
proof -
  obtain recs where recs: "cr_list (catalogAdminRepository F applied ilike coll) (cq_kind q) (query_filter q) (cs_db s) = Inr recs"
    and listed: "listed = (buildCatalogPage q recs)\<lparr>cpg_records := map CloneCatalogRecord (cpg_records (buildCatalogPage q recs))\<rparr>"
    using assms(1) by (auto simp: reader_list_catalog_def adapter_reads_def adapter_list_catalog_def checked_Inr bnd_Inr public_Inr
        catalog_list_def db_read_def ret_def)
  obtain matched where matched: "matching_records (pg_core F applied ilike coll D rng oread owrite) q s = Inr matched"
    and window: "recs = limitOffsetClause (query_filter q) matched"
    using recs repo_list_window[of F applied ilike coll "cq_kind q" "query_filter q" "cs_db s"]
    by (cases "cr_list (catalogAdminRepository F applied ilike coll) (cq_kind q) (unbounded (query_filter q)) (cs_db s)")
      (auto simp: matching_records_def)
  let ?left = "drop (nat (cq_offset q)) matched"
  have left: "(if 0 < cq_offset q then ?left else matched) = ?left" by simp
  have recs: "recs = (if 0 < probe_limit (cq_limit q) then take (nat (probe_limit (cq_limit q))) ?left else ?left)"
    unfolding window limitOffsetClause_def by (simp add: query_filter_def Let_def left)
  let ?n = "cq_limit q"
  have records: "cpg_records listed = map (CloneCatalogRecord \<circ> mapCatalogRecord (cq_kind q))
      (take (if int (length recs) > ?n \<and> ?n > 0 then nat ?n else length recs) recs)"
    and more: "cpg_next listed \<longleftrightarrow> int (length recs) > ?n \<and> ?n > 0" and "cpg_previous listed \<longleftrightarrow> 0 < cq_offset q"
    unfolding listed buildCatalogPage_def by (auto simp: Let_def)
  consider "?n < 0" | "?n = 0" | "0 < ?n" "?n = 2 ^ 63 - 1" | "0 < ?n" "?n < 2 ^ 63 - 1" using assms(3) by linarith
  then have "recs = (if ?n = 0 then take 1 ?left else if ?n < 0 then ?left
      else if ?n = 2 ^ 63 - 1 then ?left else take (nat ?n + 1) ?left)"
    using recs probe_limit[OF assms(2,3)] by cases (auto simp: nat_add_distrib)
  then show ?thesis
    using \<open>cpg_previous listed \<longleftrightarrow> _\<close> by (intro exI[of _ matched] conjI matched) (auto simp: records more Let_def)
qed

definition first_family :: catalog_query where
  "first_family = \<lparr>cq_kind = KindFamily, cq_scope = ScopeActive, cq_text = [], cq_class = [], cq_family = [], cq_type = [],
     cq_option_set = [], cq_characteristic = [], cq_limit = 1, cq_offset = 0\<rparr>"

theorem catalog_page_window_witness:
  "\<exists>listed matched. fst (reader_list_catalog (adapter_reads sound_core) first_family (core_service stock_db)) = Inr listed
     \<and> matching_records sound_core first_family (core_service stock_db) = Inr matched \<and> cpg_next listed
     \<and> cpg_records listed = map (CloneCatalogRecord \<circ> mapCatalogRecord KindFamily) (take 1 matched)"
proof -
  have "case fst (reader_list_catalog (adapter_reads sound_core) first_family (core_service stock_db)) of
      Inr listed \<Rightarrow> cpg_next listed | Inl e \<Rightarrow> False" by code_simp
  then obtain listed where listed: "fst (reader_list_catalog (adapter_reads sound_core) first_family (core_service stock_db)) = Inr listed"
    "cpg_next listed" by (auto split: sum.splits)
  then have run: "reader_list_catalog (adapter_reads (pg_core all_well False no_match plain_collation demo_decimals (\<lambda>x. x) no_order no_order))
      first_family (core_service stock_db) = (Inr listed, snd (reader_list_catalog (adapter_reads sound_core) first_family (core_service stock_db)))"
    by (simp add: sound_core_def prod_eq_iff)
  from catalog_page_window[OF run] listed show ?thesis
    by (auto simp: first_family_def sound_core_def Let_def)
qed

section \<open>The expected revision of a catalogue write\<close>

fun addressed :: "resource_write_call \<Rightarrow> (gstring \<times> int \<times> revision) option" where
  "addressed (WriteUpdateCatalog q) = Some (wq_kind q, wq_id q, wq_expected q)"
| "addressed (WriteDeactivateCatalog q) = Some (lq_kind q, lq_id q, lq_expected q)"
| "addressed (WriteReactivateCatalog q) = Some (lq_kind q, lq_id q, lq_expected q)"
| "addressed (WriteHardDelete q) = Some (lq_kind q, lq_id q, lq_expected q)"
| "addressed _ = None"

fun revision_after :: "resource_write_call \<Rightarrow> revision \<Rightarrow> revision option" where
  "revision_after (WriteHardDelete q) er = None"
| "revision_after _ er = Some (er + 1)"

lemma v2_write_Inr: "v2_write q s = (Inr result, t) \<Longrightarrow> q (cs_db s) = (Inr result, cs_db t)"
  by (auto simp: v2_write_def bnd_def attempt_def db_write_def publish_def change_def ret_def classify_v2_write_error_def
      split: prod.splits sum.splits if_splits)

lemma canonical_keeps: "rec_kind (canonicalize_codes r) = rec_kind r" "rec_id (canonicalize_codes r) = rec_id r"
proof -
  have *: "rec_kind (foldl (\<lambda>r f. if fd_kind f \<noteq> FieldCode then r else (case map_of (rec_values r) (fd_name f) of None \<Rightarrow> r
      | Some v \<Rightarrow> r\<lparr>rec_values := gput (fd_name f) (v\<lparr>cv_text := canonical (cv_text v)\<rparr>) (rec_values r)\<rparr>)) r fs) = rec_kind r
    \<and> rec_id (foldl (\<lambda>r f. if fd_kind f \<noteq> FieldCode then r else (case map_of (rec_values r) (fd_name f) of None \<Rightarrow> r
      | Some v \<Rightarrow> r\<lparr>rec_values := gput (fd_name f) (v\<lparr>cv_text := canonical (cv_text v)\<rparr>) (rec_values r)\<rparr>)) r fs) = rec_id r" for fs r
    by (induction fs arbitrary: r) (auto split: option.split)
  then show "rec_kind (canonicalize_codes r) = rec_kind r" "rec_id (canonicalize_codes r) = rec_id r"
    unfolding canonicalize_codes_def CanonicalizeCatalogRecordCodes_def by (auto split: option.split)
qed

lemma revision_Inr:
  assumes "cs_repo_v2 s = Some v2"
  shows "UpdateRevision repo kind r er s = (Inr x, t) \<Longrightarrow>
      \<exists>r' result. rec_kind r' = kind \<and> rec_id r' = rec_id r \<and> v2_update v2 r' er (cs_db s) = (Inr result, cs_db t)"
    "set_active_revision repo kind i active er s = (Inr y, t) \<Longrightarrow>
      t = s \<and> (\<exists>r. cr_get repo kind i (cs_db s) = Inr r \<and> rec_active r = active)
      \<or> (\<exists>result. v2_set_active v2 kind i active er (cs_db s) = (Inr result, cs_db t))"
    "HardDeleteRevision repo kind i er s = (Inr z, t) \<Longrightarrow> \<exists>result. v2_delete v2 kind i er (cs_db s) = (Inr result, cs_db t)"
proof -
  note run = bnd_Inr prepare_v2_write_def ret_def fail_def Let_def
  show "UpdateRevision repo kind r er s = (Inr x, t) \<Longrightarrow>
      \<exists>r' result. rec_kind r' = kind \<and> rec_id r' = rec_id r \<and> v2_update v2 r' er (cs_db s) = (Inr result, cs_db t)"
    using assms canonical_keeps[of "r\<lparr>rec_kind := kind\<rparr>"]
    by (auto simp: UpdateRevision_def run split: if_splits dest!: v2_write_Inr quietD[OF quiet_update_candidate])
  show "set_active_revision repo kind i active er s = (Inr y, t) \<Longrightarrow>
      t = s \<and> (\<exists>r. cr_get repo kind i (cs_db s) = Inr r \<and> rec_active r = active)
      \<or> (\<exists>result. v2_set_active v2 kind i active er (cs_db s) = (Inr result, cs_db t))"
    using assms by (auto simp: set_active_revision_def run db_read_def split: if_splits sum.splits dest!: v2_write_Inr quietD[OF quiet_candidate])
  show "HardDeleteRevision repo kind i er s = (Inr z, t) \<Longrightarrow> \<exists>result. v2_delete v2 kind i er (cs_db s) = (Inr result, cs_db t)"
    using assms by (auto simp: HardDeleteRevision_def run split: if_splits dest!: v2_write_Inr quietD[OF quiet_delete_candidate])
qed

lemma writer_Inr:
  "run_public_write D w call s = (Inr (), t) \<Longrightarrow> call = WriteUpdateCatalog uq \<Longrightarrow> \<exists>x. cap_update_catalog w uq s = (Inr x, t)"
  "run_public_write D w call s = (Inr (), t) \<Longrightarrow> call = WriteDeactivateCatalog lq \<Longrightarrow> \<exists>x. cap_deactivate_catalog w lq s = (Inr x, t)"
  "run_public_write D w call s = (Inr (), t) \<Longrightarrow> call = WriteReactivateCatalog lq \<Longrightarrow> \<exists>x. cap_reactivate_catalog w lq s = (Inr x, t)"
  "run_public_write D w call s = (Inr (), t) \<Longrightarrow> call = WriteHardDelete lq \<Longrightarrow> cap_hard_delete w lq s = (Inr (), t)"
  by (auto simp: checked_Inr writer_update_catalog_def writer_deactivate_catalog_def writer_reactivate_catalog_def writer_hard_delete_def)

lemma confirmed_Inr:
  "bnd (public_errors m) (\<lambda>_. confirm_catalog B kind i) s = (Inr x, t) \<Longrightarrow> \<exists>y. m s = (Inr y, t)"
  by (auto simp: bnd_Inr public_Inr dest!: quietD[OF quiet_confirm])

text \<open>The state a row of a kind has in the tables.\<close>

definition row_flags :: "('r pg_row_scheme) list \<Rightarrow> (int \<times> bool) list" where
  "row_flags rows = map (\<lambda>r. (row_id r, row_active r)) rows"

definition kind_flags :: "(gstring, catalog_db \<Rightarrow> (int \<times> bool) list) gmap" where
  "kind_flags = [(KindClass, \<lambda>db. row_flags (tb_classes db)), (KindFamily, \<lambda>db. row_flags (tb_families db)),
     (KindType, \<lambda>db. row_flags (tb_types db)), (KindAttributeDefinition, \<lambda>db. row_flags (tb_definitions db)),
     (KindOptionSet, \<lambda>db. row_flags (tb_option_sets db)), (KindOption, \<lambda>db. row_flags (tb_options db)),
     (KindOptionRelation, \<lambda>db. row_flags (tb_relations db)), (KindUnit, \<lambda>db. row_flags (tb_units db)),
     (KindUnitPolicy, \<lambda>db. row_flags (tb_policies db)), (KindAttributeBinding, \<lambda>db. row_flags (tb_attributes db)),
     (KindPresentationField, \<lambda>db. row_flags (tb_fields db))]"

definition stored_flag :: "gstring \<Rightarrow> int \<Rightarrow> bool \<Rightarrow> catalog_db \<Rightarrow> bool" where
  "stored_flag kind i active db \<longleftrightarrow> (\<exists>flags. map_of kind_flags kind = Some flags \<and> (i, active) \<in> set (flags db))"

lemma read_row_Inr: "read_row F operation missing q db = (Inr r, t) \<Longrightarrow> q db = Some r"
  by (auto simp: read_row_def map_err_Inr stmt_Inr query_row_def split: option.splits)

lemma flag_of_row: "row_by_id rows i = Some x \<Longrightarrow> (i, row_active x) \<in> set (row_flags rows)"
  by (auto simp: row_by_id_def find_Some_iff row_flags_def)

lemma flag_of_member: "x \<in> set rows \<Longrightarrow> (row_id x, row_active x) \<in> set (row_flags rows)"
  by (auto simp: row_flags_def)

lemma found_in: "find P xs = Some x \<Longrightarrow> x \<in> set xs \<and> P x"
  by (auto simp: find_Some_iff)

lemma record_flag [simp]: "rec_active (row_record kind x vs) = row_active x"
  by (simp add: row_record_def)

lemma get_row_flag:
  "getClass F i db = (Inr r, t) \<Longrightarrow> (i, rec_active r) \<in> set (row_flags (tb_classes db))"
  "getFamily F i db = (Inr r, t) \<Longrightarrow> (i, rec_active r) \<in> set (row_flags (tb_families db))"
  "getType F i db = (Inr r, t) \<Longrightarrow> (i, rec_active r) \<in> set (row_flags (tb_types db))"
  "getDefinition F i db = (Inr r, t) \<Longrightarrow> (i, rec_active r) \<in> set (row_flags (tb_definitions db))"
  "getOptionSet F i db = (Inr r, t) \<Longrightarrow> (i, rec_active r) \<in> set (row_flags (tb_option_sets db))"
  "getOption F i db = (Inr r, t) \<Longrightarrow> (i, rec_active r) \<in> set (row_flags (tb_options db))"
  "getOptionRelation F i db = (Inr r, t) \<Longrightarrow> (i, rec_active r) \<in> set (row_flags (tb_relations db))"
  "getUnit F i db = (Inr r, t) \<Longrightarrow> (i, rec_active r) \<in> set (row_flags (tb_units db))"
  "getUnitPolicy F i db = (Inr r, t) \<Longrightarrow> (i, rec_active r) \<in> set (row_flags (tb_policies db))"
  "getAttributeBinding F i db = (Inr r, t) \<Longrightarrow> (i, rec_active r) \<in> set (row_flags (tb_attributes db))"
  "getPresentationField F i db = (Inr r, t) \<Longrightarrow> (i, rec_active r) \<in> set (row_flags (tb_fields db))"
  by (auto simp: getClass_def getFamily_def getType_def getDefinition_def getOptionSet_def getOption_def getOptionRelation_def
      getUnit_def getUnitPolicy_def getAttributeBinding_def getPresentationField_def
      classRecord_def familyRecord_def typeRecord_def definitionRecord_def optionSetRecord_def optionRecord_def optionRelationRecord_def
      unitRecord_def unitPolicyRecord_def attributeBindingRecord_def presentationFieldRecord_def
      join_families_def join_types_def join_option_rows_def join_relation_rows_def join_policies_def join_attributes_def join_fields_def
      intro: flag_of_row flag_of_member dest!: read_row_Inr found_in)

lemma get_flag:
  assumes "fst (repo_get F ilike coll kind i db) = Inr r"
  shows "stored_flag kind i (rec_active r) db"
proof -
  obtain t h where h: "map_of (kindTables F ilike coll) kind = Some h" "kh_get h i db = (Inr r, t)"
    using assms by (cases "repo_get F ilike coll kind i db") (auto simp: repo_get_def with_kind_def fail_def split: option.splits)
  then show ?thesis
    by (auto simp: kindTables_def stored_flag_def kind_flags_def dest!: get_row_flag split: if_splits)
qed

text \<open>C13: Optimistic concurrency over the catalogue, end to end. An update or a hard delete through the public writer
  succeeds only if the row that the request addresses holds the expected revision in the tables; it then raises that
  revision by one, or removes the row, and changes the revision of no other row of any table. A deactivation or a
  reactivation does the same, or the row already has the requested state in the tables: then it succeeds without
  looking at the expected revision, and the tables stay as they are.\<close>

theorem public_write_swaps_revision:
  assumes "tables_ok (cs_db s)" "public_step ilike coll D rng oread owrite (F, applied, call) s = (Inr (), t)"
    and "addressed call = Some (kind, i, er)"
  shows "swaps kind i er (revision_after call er) (cs_db s) (cs_db t)
    \<or> (\<exists>q. call = WriteDeactivateCatalog q) \<and> stored_flag kind i False (cs_db s) \<and> cs_db t = cs_db s
    \<or> (\<exists>q. call = WriteReactivateCatalog q) \<and> stored_flag kind i True (cs_db s) \<and> cs_db t = cs_db s"
proof -
  let ?v2 = "catalogAdminRepositoryV2 F applied ilike coll"
  let ?s = "s\<lparr>cs_repo_v2 := Some ?v2\<rparr>" and ?w = "adapter_writes (pg_core F applied ilike coll D rng oread owrite)"
  have run: "run_public_write D ?w call ?s = (Inr (), t)" using assms(2) by (simp add: public_step_def)
  have v2: "cs_repo_v2 ?s = Some ?v2" and db: "cs_db ?s = cs_db s" by simp_all
  have swap: "swaps kind i er (outcome c) (cs_db s) (cs_db t)"
    if "v2_result F applied ilike coll c (cs_db s) = (Inr result, cs_db t)" "target c = Some (kind, i, er)" for c result
    using v2_result_swaps[OF assms(1) that] .
  show ?thesis
  proof (cases call)
    case (WriteUpdateCatalog q)
    with writer_Inr(1)[OF run] obtain x where "adapter_update_catalog (pg_core F applied ilike coll D rng oread owrite) q ?s = (Inr x, t)"
      by (auto simp: adapter_writes_def)
    from confirmed_Inr[OF this[unfolded adapter_update_catalog_def]] obtain y where
      "UpdateRevision (catalogAdminRepository F applied ilike coll) kind (request_record i q) er ?s = (Inr y, t)"
      using assms(3) WriteUpdateCatalog by auto
    from revision_Inr(1)[OF v2 this] obtain r' result where "rec_kind r' = kind" "rec_id r' = i"
      "UpdateV2 F applied ilike coll r' er (cs_db s) = (Inr result, cs_db t)"
      by (auto simp: catalogAdminRepositoryV2_def request_record_def)
    then show ?thesis using swap[of "RevisionUpdate r' er" result] WriteUpdateCatalog by simp
  next
    case (WriteDeactivateCatalog q)
    with writer_Inr(2)[OF run] obtain x where "adapter_deactivate_catalog (pg_core F applied ilike coll D rng oread owrite) q ?s = (Inr x, t)"
      by (auto simp: adapter_writes_def)
    from confirmed_Inr[OF this[unfolded adapter_deactivate_catalog_def]] obtain y where
      "set_active_revision (catalogAdminRepository F applied ilike coll) kind i False er ?s = (Inr y, t)"
      using assms(3) WriteDeactivateCatalog by (auto simp: DeactivateRevision_def)
    from revision_Inr(2)[OF v2 this] show ?thesis
      using swap[of "RevisionSetActive kind i False er"] WriteDeactivateCatalog
      by (auto simp: catalogAdminRepositoryV2_def catalogAdminRepository_def dest!: get_flag)
  next
    case (WriteReactivateCatalog q)
    with writer_Inr(3)[OF run] obtain x where "adapter_reactivate_catalog (pg_core F applied ilike coll D rng oread owrite) q ?s = (Inr x, t)"
      by (auto simp: adapter_writes_def)
    from confirmed_Inr[OF this[unfolded adapter_reactivate_catalog_def]] obtain y where
      "set_active_revision (catalogAdminRepository F applied ilike coll) kind i True er ?s = (Inr y, t)"
      using assms(3) WriteReactivateCatalog by (auto simp: ReactivateRevision_def)
    from revision_Inr(2)[OF v2 this] show ?thesis
      using swap[of "RevisionSetActive kind i True er"] WriteReactivateCatalog
      by (auto simp: catalogAdminRepositoryV2_def catalogAdminRepository_def dest!: get_flag)
  next
    case (WriteHardDelete q)
    with writer_Inr(4)[OF run] have "HardDeleteRevision (catalogAdminRepository F applied ilike coll) kind i er ?s = (Inr (), t)"
      using assms(3) by (auto simp: adapter_writes_def adapter_hard_delete_def public_Inr)
    from revision_Inr(3)[OF v2 this] show ?thesis
      using swap[of "RevisionDelete kind i er"] WriteHardDelete by (auto simp: catalogAdminRepositoryV2_def)
  qed (use assms(3) in simp_all)
qed

lemma kilo_served:
  "case repo_get all_well no_match plain_collation KindUnit 1 small_kilo_db of (Inr r, _) \<Rightarrow> rec_active r \<and>
     (case apply_mutation (loaded plain_collation small_kilo_db) \<lparr>mut_op = OpDeactivate, mut_record = r, mut_replacement = None\<rparr> of
        Inr nxt \<Rightarrow> validate_catalog nxt = None | Inl _ \<Rightarrow> False) | _ \<Rightarrow> False"
  "case fst (repo_get all_well no_match plain_collation KindUnit 1 kilo_off_db) of Inr r \<Rightarrow> True | Inl _ \<Rightarrow> False"
  by code_simp+

definition retire_kilo :: catalog_lifecycle_request where
  "retire_kilo = \<lparr>lq_actor = ''u'', lq_kind = KindUnit, lq_id = 1, lq_expected = 1\<rparr>"

lemma kilo_retired:
  "\<exists>t. public_step no_match plain_collation demo_decimals (\<lambda>x. x) no_order no_order
     (all_well, False, WriteDeactivateCatalog retire_kilo) (core_service small_kilo_db) = (Inr (), t) \<and> cs_db t = kilo_off_db"
proof -
  let ?repo = "catalogAdminRepository all_well False no_match plain_collation"
  let ?s = "core_service small_kilo_db"
  obtain r nxt where r: "cr_get ?repo KindUnit 1 small_kilo_db = Inr r" "rec_active r"
    "apply_mutation (loaded plain_collation small_kilo_db) \<lparr>mut_op = OpDeactivate, mut_record = r, mut_replacement = None\<rparr> = Inr nxt"
    "validate_catalog nxt = None"
    using kilo_served(1) by (auto simp: catalogAdminRepository_def split: prod.splits sum.splits)
  obtain r' where r': "cr_get ?repo KindUnit 1 kilo_off_db = Inr r'"
    using kilo_served(2) by (auto simp: catalogAdminRepository_def split: sum.splits)
  obtain result where off: "SetActiveV2 all_well False no_match plain_collation KindUnit 1 False 1 small_kilo_db = (Inr result, kilo_off_db)"
    using kilo_off by blast
  have valid: "validateCatalogLifecycleRequest retire_kilo = None" by code_simp
  show ?thesis
    by (simp add: public_step_def checked_def writer_deactivate_catalog_def valid[unfolded retire_kilo_def] adapter_writes_def adapter_deactivate_catalog_def
        DeactivateRevision_def set_active_revision_def retire_kilo_def bnd_run public_errors_def prepare_v2_write_def core_service_def
        db_read_def r candidate_def wrap_invalid_catalog_def v2_write_def attempt_def db_write_def catalogAdminRepositoryV2_def off
        publish_def confirm_catalog_def catalog_get_def r')
qed

theorem public_write_swaps_revision_witness: "swaps KindUnit 1 1 (Some 2) small_kilo_db kilo_off_db"
proof -
  obtain t where t: "public_step no_match plain_collation demo_decimals (\<lambda>x. x) no_order no_order
     (all_well, False, WriteDeactivateCatalog retire_kilo) (core_service small_kilo_db) = (Inr (), t)" "cs_db t = kilo_off_db"
    using kilo_retired by blast
  have "map row_active (tb_units kilo_off_db) \<noteq> map row_active (tb_units small_kilo_db)" by code_simp
  then have moved: "kilo_off_db \<noteq> small_kilo_db" by auto
  have ok: "tables_ok (cs_db (core_service small_kilo_db))" unfolding core_service_def catalogo.simps by code_simp
  have "addressed (WriteDeactivateCatalog retire_kilo) = Some (KindUnit, 1, 1)" by (simp add: retire_kilo_def)
  from public_write_swaps_revision[OF ok t(1) this] show ?thesis using moved t(2) by (simp add: core_service_def)
qed
end
