(* ===== verification/ResourceReadTheorems.thy ===== *)
theory ResourceReadTheorems
  imports BridgeTheorems
begin

text \<open>
  Reading resources through the public contract: what comes back when a resource that was read is written
  again, and what a row that cannot be read does to every page it is on.
\<close>

section \<open>What a read value carries\<close>

lemma read_values:
  assumes "store_get F D coll c k db = Inr x" "v \<in> set (r_attributes x)"
  obtains r l where "r \<in> set (tb_resources db)" "l \<in> set (attribute_lines db r)" "attribute_of_line D db l = Inr (Some v)"
proof -
  obtain r cl f t u attributes where row: "(r, cl, f, t, u) \<in> set (stored_resources db)"
    and load: "loadEffectiveAttributes F D coll [row_id r] db = Inr attributes"
    and x: "hydrate_row attributes k (r, cl, f, t, u) = Inr x"
    using assms(1) unfolding store_get_def by (auto simp: bindr_Inr_iff dest!: found_in)
  have "r_attributes x = attributes_at attributes (row_id r)"
    using x by (auto simp: hydrate_row_def HydrateResource_def attributes_at_def split: if_splits)
  moreover have collect: "collect_attributes D db (sort_key (\<lambda>l. (al_resource l, coll (de_code (al_definition l))))
      (concat (map (attribute_lines db) (filter (\<lambda>y. row_id y \<in> set [row_id r]) (tb_resources db))))) [] = Inr attributes"
    using load by (simp add: loadEffectiveAttributes_def split: option.splits)
  ultimately show thesis
    using collect_attributes_Inr[OF collect, of "row_id r"] assms(2) that by (auto simp: attributes_at_def)
qed

lemma value_type_known:
  assumes "tables_ok db" "l \<in> set (attribute_lines db r)"
  shows "de_value_type (al_definition l) \<in> {ValueTypeControlledOption, ValueTypeInteger, ValueTypeDecimal, ValueTypeQuantity,
    ValueTypeBoolean, ValueTypeControlledText}"
proof -
  have "al_definition l \<in> set (tb_definitions db)"
    using line_applicable[OF assms(2)] by (auto simp: applicable_attributes_def Let_def)
  then show ?thesis using tables_ok_parts(7)[OF assms(1)]
    by (auto simp: definition_constraints_def check_rows_def list_all_iff Let_def)
qed

text \<open>A value carries the payload of its type. A mark that it does not apply is a payload of texts only; an integer
  has to fit 64 bits, which the column it is stored in guarantees.\<close>

definition int64 :: "int \<Rightarrow> bool" where
  "int64 i \<longleftrightarrow> - (2 ^ 63) \<le> i \<and> i < 2 ^ 63"

definition carried :: "'d attr_value \<Rightarrow> bool" where
  "carried v \<longleftrightarrow> (av_text v = NotApplicableText \<longrightarrow> av_type v = ValueTypeControlledText)
     \<and> (av_type v = ValueTypeInteger \<longrightarrow> pred_option int64 (av_integer v) \<and> av_integer v \<noteq> None)
     \<and> (av_type v = ValueTypeBoolean \<longrightarrow> av_boolean v \<noteq> None)"

text \<open>What the bridge makes of the public form of a value: the same value; where the payload is missing, the empty
  option, false, or a refusal.\<close>

definition written_back :: "'d decimal_ops \<Rightarrow> 'd attr_value \<Rightarrow> public_attribute \<Rightarrow> bool" where
  "written_back D v a \<longleftrightarrow>
     (if carried v then \<exists>w. toDomainResourceAttribute D a = Inr w \<and> same_value D w v
      else if av_type v = ValueTypeControlledOption then toDomainResourceAttribute D a = Inr (option_value (av_code v) [])
      else if av_type v = ValueTypeBoolean then toDomainResourceAttribute D a = Inr (boolean_value (av_code v) False)
      else \<exists>m. toDomainResourceAttribute D a = Inl (refused m))"

lemmas back_defs = toDomainResourceAttribute_def mapResourceAttributeValue_def text_value_def public_zero_def empty_value_def
  option_value_def boolean_value_def Let_def

lemma kinds_differ:
  "ValueInteger \<noteq> ValueControlledOption" "ValueDecimal \<noteq> ValueControlledOption" "ValueDecimal \<noteq> ValueInteger"
  "ValueQuantity \<noteq> ValueControlledOption" "ValueQuantity \<noteq> ValueInteger" "ValueQuantity \<noteq> ValueDecimal"
  "ValueBool \<noteq> ValueControlledOption" "ValueBool \<noteq> ValueInteger" "ValueBool \<noteq> ValueDecimal" "ValueBool \<noteq> ValueQuantity"
  "ValueNotApplicable \<noteq> ValueControlledOption" "ValueNotApplicable \<noteq> ValueInteger" "ValueNotApplicable \<noteq> ValueDecimal"
  "ValueNotApplicable \<noteq> ValueQuantity" "ValueNotApplicable \<noteq> ValueBool"
  "ValueText \<noteq> ValueControlledOption" "ValueText \<noteq> ValueInteger" "ValueText \<noteq> ValueDecimal"
  "ValueText \<noteq> ValueQuantity" "ValueText \<noteq> ValueBool" "ValueText \<noteq> ValueNotApplicable"
  by (simp_all add: value_kind_defs)

text \<open>The way back, by the type of the value.\<close>

lemma option_back: "av_type v = ValueTypeControlledOption \<Longrightarrow>
    toDomainResourceAttribute D \<lparr>pa_code = c, pa_value = mapResourceAttributeValue D v, pa_unit = u\<rparr> = Inr (option_value c (av_option v))"
  by (simp add: back_defs)

lemma integer_back: "av_type v = ValueTypeInteger \<Longrightarrow>
    toDomainResourceAttribute D \<lparr>pa_code = c, pa_value = mapResourceAttributeValue D v, pa_unit = u\<rparr>
      = (case av_integer v of None \<Rightarrow> Inl (refused ''invalid integer attribute value'')
         | Some i \<Rightarrow> if int64 i then Inr (integer_value c i) else Inl (refused ''invalid integer attribute value''))"
  by (simp add: back_defs kinds_differ integer_value_def parse_shown clamp_int64_def int64_def parse_int64_def[of "[]"]
      all_digits_def split: option.split)

lemma decimal_back: "av_type v = ValueTypeDecimal \<Longrightarrow>
    toDomainResourceAttribute D \<lparr>pa_code = c, pa_value = mapResourceAttributeValue D v, pa_unit = u\<rparr>
      = (case dec_parse D (case av_decimal v of None \<Rightarrow> [] | Some d \<Rightarrow> dec_string D d) of
           None \<Rightarrow> Inl (refused ''invalid decimal attribute value'')
         | Some d \<Rightarrow> Inr (empty_value\<lparr>av_code := c, av_type := ValueTypeDecimal, av_decimal := Some d\<rparr>))"
  by (simp add: back_defs kinds_differ split: option.split)

lemma quantity_back: "av_type v = ValueTypeQuantity \<Longrightarrow>
    toDomainResourceAttribute D \<lparr>pa_code = c, pa_value = mapResourceAttributeValue D v, pa_unit = u\<rparr>
      = (case dec_parse D (case av_quantity v of None \<Rightarrow> [] | Some q \<Rightarrow> dec_string D (q_value q)) of
           None \<Rightarrow> Inl (refused ''invalid quantity attribute value'')
         | Some d \<Rightarrow> Inr (empty_value\<lparr>av_code := c, av_type := ValueTypeQuantity, av_quantity := Some \<lparr>q_value = d,
             q_unit = (case av_quantity v of None \<Rightarrow> [] | Some q \<Rightarrow> q_unit q)\<rparr>\<rparr>))"
  by (cases "av_quantity v") (simp_all add: back_defs kinds_differ split: option.split)

lemma boolean_back: "av_type v = ValueTypeBoolean \<Longrightarrow>
    toDomainResourceAttribute D \<lparr>pa_code = c, pa_value = mapResourceAttributeValue D v, pa_unit = u\<rparr>
      = Inr (boolean_value c (case av_boolean v of None \<Rightarrow> False | Some b \<Rightarrow> b))"
  by (simp add: back_defs kinds_differ)

lemma text_back: "av_type v = ValueTypeControlledText \<Longrightarrow>
    toDomainResourceAttribute D \<lparr>pa_code = c, pa_value = mapResourceAttributeValue D v, pa_unit = u\<rparr> = Inr (controlled_text_value c (av_text v))"
  by (simp add: back_defs kinds_differ controlled_text_value_def)

lemmas value_back_simps = written_back_def carried_def same_value_def bindr_Inr_iff empty_value_def NotApplicableText_def
  option_value_def integer_value_def boolean_value_def controlled_text_value_def

lemma decoded_back:
  assumes read: "decodeValue D code vt c = Inr v" and laws: "decimal_laws D" "dec_parse D [] = None"
    and vt: "vt \<in> {ValueTypeControlledOption, ValueTypeInteger, ValueTypeDecimal, ValueTypeQuantity, ValueTypeBoolean, ValueTypeControlledText}"
  shows "written_back D v \<lparr>pa_code = av_code v, pa_value = mapResourceAttributeValue D v, pa_unit = u\<rparr>"
proof -
  have number: "\<exists>y. dec_parse D (dec_string D d) = Some y \<and> dec_equal D y d" for d using laws(1) by (simp add: decimal_laws_def)
  have same: "av_type v = vt" "av_code v = code" using decodeValue_Inr[OF read] by simp_all
  note run = read[unfolded decodeValue_def Let_def]
  from vt consider "vt = ValueTypeControlledOption" | "vt = ValueTypeInteger" | "vt = ValueTypeDecimal" | "vt = ValueTypeQuantity"
    | "vt = ValueTypeBoolean" | "vt = ValueTypeControlledText" by auto
  then show ?thesis
  proof cases
    case 1
    note returned = option_back[of v D "av_code v" u, unfolded same, OF 1]
    show ?thesis using run returned 1
      by (auto simp: value_back_simps split: if_splits)
  next
    case 2
    note returned = integer_back[of v D "av_code v" u, unfolded same, OF 2]
    show ?thesis using run returned 2
      by (auto simp: value_back_simps split: if_splits option.splits)
  next
    case 3
    note returned = decimal_back[of v D "av_code v" u, unfolded same, OF 3]
    show ?thesis using run returned 3 laws(2) number[of "the (av_decimal v)"]
      by (auto simp: value_back_simps split: if_splits)
  next
    case 4
    note returned = quantity_back[of v D "av_code v" u, unfolded same, OF 4]
    show ?thesis using run returned 4 laws(2) number[of "q_value (the (av_quantity v))"]
      by (auto simp: value_back_simps split: if_splits)
  next
    case 5
    note returned = boolean_back[of v D "av_code v" u, unfolded same, OF 5]
    show ?thesis using run returned 5
      by (auto simp: value_back_simps split: if_splits option.splits)
  next
    case 6
    note returned = text_back[of v D "av_code v" u, unfolded same, OF 6]
    show ?thesis using run returned 6
      by (auto simp: value_back_simps split: if_splits)
  qed
qed

lemma decoded_line:
  assumes "attribute_of_line D db l = Inr (Some v)"
  shows "\<exists>c. decodeValue D (de_code (al_definition l)) (de_value_type (al_definition l)) c = Inr v"
  using assms unfolding attribute_of_line_def Let_def by (auto split: option.splits prod.splits sum.splits if_splits)

lemma get_stored:
  assumes "reader_get_resource (adapter_reads (pg_core F applied ilike coll D rng oread owrite)) key s = (Inr x, t)"
  shows "\<exists>r. store_get F D coll (key_class key) (key_identity key) (cs_db s) = Inr r \<and> x = mapResource D r"
  using assms by (auto simp: reader_get_resource_def adapter_reads_def adapter_get_resource_def checked_Inr bnd_Inr public_Inr ret_def
    on_resources_def resource_get_def on_error_def rs_read_def fail_def resource_store_def split: prod.splits sum.splits if_splits)

lemma all_carried:
  assumes "list_all2 (written_back D) vs as" "list_all carried vs"
  shows "\<exists>ws. toDomainResourceAttributes D as = Inr ws \<and> list_all2 (same_value D) ws vs"
  using assms
proof (induction rule: list_all2_induct)
  case Nil
  then show ?case by (simp add: toDomainResourceAttributes_def)
next
  case (Cons v vs a as)
  then obtain w ws where "toDomainResourceAttribute D a = Inr w" "same_value D w v"
    "toDomainResourceAttributes D as = Inr ws" "list_all2 (same_value D) ws vs" by (auto simp: written_back_def)
  then show ?case by (simp add: toDomainResourceAttributes_def)
qed

text \<open>C29: Reading a resource through the public contract and writing its attributes back. Each attribute of the answer stands for
  one value of the stored resource, in order. A value that carries the payload of its type, the text mark of
  a value that does not apply included, comes back as the same value, so that an update that repeats what was read
  is given the stored values when all of them do. A value without payload does not: the mark on an attribute of any other
  type, which the read of a forbidden attribute yields, comes back as the empty option or as false, and is refused as an
  invalid argument for numbers and quantities. The library of decimals is assumed to read back what it
  prints, and no number from an empty text.\<close>

theorem resource_round_trip:
  assumes "reader_get_resource (adapter_reads (pg_core F applied ilike coll D rng oread owrite)) key s = (Inr x, t)"
    and "tables_ok (cs_db s)" "decimal_laws D" "dec_parse D [] = None"
  shows "\<exists>r. store_get F D coll (key_class key) (key_identity key) (cs_db s) = Inr r
    \<and> list_all2 (written_back D) (r_attributes r) (pres_attributes x)
    \<and> (list_all carried (r_attributes r) \<longrightarrow>
        (\<exists>ws. toDomainResourceAttributes D (pres_attributes x) = Inr ws \<and> list_all2 (same_value D) ws (r_attributes r)))"
proof -
  obtain r where r: "store_get F D coll (key_class key) (key_identity key) (cs_db s) = Inr r" "x = mapResource D r"
    using get_stored[OF assms(1)] by blast
  have "written_back D v \<lparr>pa_code = av_code v, pa_value = mapResourceAttributeValue D v, pa_unit = resourceUnitCode v\<rparr>"
    if "v \<in> set (r_attributes r)" for v
  proof -
    obtain y l where l: "l \<in> set (attribute_lines (cs_db s) y)" "attribute_of_line D (cs_db s) l = Inr (Some v)"
      using read_values[OF r(1) \<open>v \<in> _\<close>] by blast
    then show ?thesis using decoded_line[OF l(2)] decoded_back[OF _ assms(3,4) value_type_known[OF assms(2) l(1)]] by blast
  qed
  then have "list_all2 (written_back D) (r_attributes r) (pres_attributes x)"
    by (auto simp: r(2) mapResource_def list_all2_map2 list.rel_refl_strong intro: list_all2_all_nthI)
  then show ?thesis using r(1) all_carried by blast
qed

definition stored_key :: resource_key where
  "stored_key = \<lparr>key_class = ''M'', key_identity = ''v1|a''\<rparr>"

lemma stored_answer: "fst (reader_get_resource (adapter_reads sound_core) stored_key (core_service stocked_db))
    = Inr (mapResource demo_decimals (stock_item 1 5))"
proof -
  have key: "validateResourceKey stored_key = None" "trim_space ''M'' \<noteq> []" "trim_space ''v1|a'' \<noteq> []" by code_simp+
  show ?thesis
    by (simp add: reader_get_resource_def checked_def key[unfolded stored_key_def] stored_key_def adapter_reads_def adapter_get_resource_def
        sound_core_def bnd_run public_errors_def on_resources_def resource_get_def on_error_def rs_read_def resource_store_def
        core_service_def stock_read)
qed

theorem resource_round_trip_witness:
  "\<exists>x t ws. reader_get_resource (adapter_reads sound_core) stored_key (core_service stocked_db) = (Inr x, t)
     \<and> toDomainResourceAttributes demo_decimals (pres_attributes x) = Inr ws \<and> list_all2 (same_value demo_decimals) ws [stock_value 5]"
proof -
  obtain x t where run: "reader_get_resource (adapter_reads sound_core) stored_key (core_service stocked_db) = (Inr x, t)"
    using stored_answer by (metis prod.collapse)
  have db: "cs_db (core_service stocked_db) = stocked_db" by (simp add: core_service_def)
  have "dec_parse demo_decimals [] = None" by (simp add: demo_decimals_def)
  from resource_round_trip[OF run[unfolded sound_core_def], unfolded db, OF stock_ok(2) demo_decimal_laws this] run
  show ?thesis by (auto simp: stored_key_def stock_read stock_item_def carried_def stock_value_def empty_value_def NotApplicableText_def)
qed

section \<open>A row that blocks the pages it is on\<close>

text \<open>The rows of a page of a search, and an attribute that applies to a row but is stored as not applicable.\<close>

definition page_rows ::
  "pattern_match \<Rightarrow> (gstring \<Rightarrow> gstring) \<Rightarrow> 'd search_criteria \<Rightarrow> catalog_db \<Rightarrow> (pg_resource \<times> pg_class \<times> pg_family \<times> pg_type \<times> pg_unit) list" where
  "page_rows ilike coll criteria db = page (cr_limit criteria) (cr_offset criteria)
     (sort_key (\<lambda>(r, _). (coll (rs_identity r), row_id r)) (filter (search_matches ilike criteria [] db) (stored_resources db)))"

definition marked :: "catalog_db \<Rightarrow> pg_resource \<Rightarrow> bool" where
  "marked db r \<longleftrightarrow> (\<exists>l\<in>set (attribute_lines db r). \<exists>c n. al_value l = Some (c, n) \<and> va_state (ev_value c) = NotApplicableText
     \<and> al_mode l \<noteq> ModeForbidden)"

definition integrity :: "go_error \<Rightarrow> bool" where
  "integrity e \<longleftrightarrow> (\<exists>format args. e = integrityError format args)"

lemma line_integrity: "attribute_of_line D db l = Inl e \<Longrightarrow> integrity e"
  by (auto simp: attribute_of_line_def integrity_def Let_def split: option.splits prod.splits sum.splits if_splits)

lemma collect_integrity: "collect_attributes D db ls m = Inl e \<Longrightarrow> integrity e"
proof (induction ls arbitrary: m)
  case (Cons l ls)
  then show ?case by (cases "attribute_of_line D db l") (auto simp: Let_def dest: line_integrity)
qed simp

lemma marked_fails:
  assumes "marked db r" "r \<in> set (tb_resources db)" "row_id r \<in> set ids"
  shows "\<exists>e. loadEffectiveAttributes all_well D coll ids db = Inl e \<and> integrity e"
proof -
  let ?ls = "sort_key (\<lambda>l. (al_resource l, coll (de_code (al_definition l))))
    (concat (map (attribute_lines db) (filter (\<lambda>r. row_id r \<in> set ids) (tb_resources db))))"
  have load: "loadEffectiveAttributes all_well D coll ids db = collect_attributes D db ?ls []"
    using assms(3) by (auto simp: loadEffectiveAttributes_def)
  obtain l c n where line: "l \<in> set (attribute_lines db r)" "al_value l = Some (c, n)" "va_state (ev_value c) = NotApplicableText"
    "al_mode l \<noteq> ModeForbidden" using assms(1) unfolding marked_def by blast
  have l: "l \<in> set ?ls" using line(1) assms(2,3) by auto
  have bad: "attribute_of_line D db l \<noteq> Inr v" for v using line(2-4) by (simp add: attribute_of_line_def Let_def)
  have "\<exists>e. collect_attributes D db ?ls [] = Inl e"
  proof (cases "collect_attributes D db ?ls []")
    case (Inr m)
    with collect_attributes_Inr[OF Inr] l bad show ?thesis by blast
  qed simp
  then show ?thesis using collect_integrity load by metis
qed

lemma integrity_public:
  assumes "integrity e"
  shows "mapError (Wrapf f args [e]) = PublicError Integrity (messages Integrity)"
    "mapError (Wrapf f args [Wrapf g args' [e]]) = PublicError Integrity (messages Integrity)"
  using assms by (auto simp: integrity_def integrityError_def mapError_def core_map_def wraps_simps core_new_def)

lemma probed_window: "0 \<le> l \<Longrightarrow> (if l < int (length (page (l + 1) o' xs)) then take (nat l) (page (l + 1) o' xs) else page (l + 1) o' xs) = page l o' xs"
  by (auto simp: page_def min_def nat_add_distrib le_nat_iff)

lemma page_blocked:
  fixes D :: "'d decimal_ops" and criteria :: "'d search_criteria"
  assumes "Normalize criteria = Inr criteria" "cr_filters criteria = []" "row \<in> set (page_rows ilike coll criteria db)" "marked db (fst row)"
  shows "\<exists>e. SearchPage all_well D ilike coll criteria db = Inl e \<and> mapError (Wrapf f args [e]) = PublicError Integrity (messages Integrity)"
proof -
  let ?sorted = "sort_key (\<lambda>(r, _). (coll (rs_identity r), row_id r)) (filter (search_matches ilike criteria [] db) (stored_resources db))"
  define bases where "bases = page_rows ilike coll criteria db"
  have window: "(if cr_limit criteria < int (length (page (cr_limit criteria + 1) (cr_offset criteria) ?sorted))
      then take (nat (cr_limit criteria)) (page (cr_limit criteria + 1) (cr_offset criteria) ?sorted)
      else page (cr_limit criteria + 1) (cr_offset criteria) ?sorted) = bases"
    unfolding bases_def page_rows_def
    by (rule probed_window) (use assms(1) in \<open>auto simp: Normalize_def Let_def split: if_splits\<close>)
  have row: "row \<in> set bases" "fst row \<in> set (tb_resources db)"
    using assms(3) by (auto simp: bases_def page_rows_def page_def stored_resources_def dest!: in_set_takeD in_set_dropD)
  show ?thesis
  proof (cases "find (\<lambda>(r, _). duplicate_values db r) bases")
    case None
    have "row_id (fst row) \<in> set (map (\<lambda>(r, _). row_id r) bases)"
      unfolding set_map by (rule image_eqI[OF _ row(1)]) (simp add: split_def)
    then obtain e where e: "loadEffectiveAttributes all_well D coll (map (\<lambda>(r, _). row_id r) bases) db = Inl e" "integrity e"
      using marked_fails[OF assms(4) row(2)] by blast
    have "bases \<noteq> []" using row(1) by auto
    then have "SearchPage all_well D ilike coll criteria db = Inl (Wrapf ''hydrate search results: %w'' [] [e])"
      using assms(1,2) None e(1) window by (simp add: SearchPage_def pool_check_def wrap_result_def query_one_def Let_def)
    then show ?thesis using integrity_public(2)[OF e(2)] by blast
  next
    case (Some x)
    then have "SearchPage all_well D ilike coll criteria db
        = Inl (integrityError ''resource %d has duplicate effective attribute values'' [show_int (row_id (fst x))])"
      using assms(1,2) window by (cases x) (simp add: SearchPage_def pool_check_def wrap_result_def query_one_def Let_def)
    moreover have "integrity (integrityError ''resource %d has duplicate effective attribute values'' [show_int (row_id (fst x))])"
      by (auto simp: integrity_def)
    ultimately show ?thesis using integrity_public(1) by blast
  qed
qed

text \<open>C32: One row blocks every page it is on. If the rows of a page of a search include one that is stored with the mark
  not applicable for an attribute that is required or optional for it, the search answers INTEGRITY and no resource
  at all, whatever the query, the page, the other rows and the state of the
  services, with no failing statement, and changes nothing. Such a row
  is what the public value NOT_APPLICABLE of a required controlled text leaves: the example creates it through the public writer, which
  answers INTEGRITY although the row is stored.\<close>

theorem marked_row_blocks_page:
  fixes D :: "'d decimal_ops" and criteria :: "'d search_criteria"
  assumes "validateResourceQuery q = None" "rq_scope q \<noteq> ScopeAll" "Normalize (query_criteria q) = Inr criteria"
    and "row \<in> set (page_rows ilike coll criteria (cs_db s))" "marked (cs_db s) (fst row)"
  shows "reader_search (adapter_reads (pg_core all_well applied ilike coll D rng oread owrite)) q s
    = (Inl (PublicError Integrity (messages Integrity)), s)"
proof -
  have normal: "Normalize criteria = Inr criteria" "cr_filters criteria = []"
    using assms(3) by (auto simp: Normalize_def query_criteria_def Let_def split: if_splits)
  obtain e where "SearchPage all_well D ilike coll criteria (cs_db s) = Inl e"
    "mapError (Wrapf ''search resources: %w'' [] [e]) = PublicError Integrity (messages Integrity)"
    using page_blocked[OF normal assms(4,5)] by blast
  then show ?thesis using assms(1-3)
    by (simp add: reader_search_def checked_def adapter_reads_def adapter_search_def resource_search_page_def bnd_run public_errors_def
        on_resources_def on_error_def rs_read_def resource_store_def lift_def del: messages.simps)
qed

text \<open>The tables after a controlled text was created with the value NOT_APPLICABLE.\<close>

definition blocked_db :: catalog_db where
  "blocked_db = (typed_db ValueTypeControlledText)\<lparr>tb_resources := [\<lparr>row_id = 1, row_revision = 1, row_active = True, rs_class = 1,
       rs_family = 1, rs_type = 1, rs_unit = 1, rs_name = ''F'', rs_identity = ''v1|1:M1:F1:T1:n15:CONTROLLED_TEXT14:NOT_APPLICABLE''\<rparr>],
     tb_values := [\<lparr>va_id = 1, va_resource = 1, va_family = 1, va_attribute = 1, va_definition = 1, va_set = ''DEFAULT'',
       va_state = ''NOT_APPLICABLE'', va_option = None, va_integer = None, va_decimal = None, va_quantity = None, va_unit = None,
       va_boolean = None, va_text = None\<rparr>],
     tb_sequences := [(''recursos'', 1), (''resource_attribute_values'', 1)]\<rparr>"

definition na_resource :: "nat resource" where
  "na_resource = \<lparr>r_id = 0, r_class = ''M'', r_family = ''F'', r_type = ''T'', r_unit = ''U'', r_attributes = [controlled_text_value ''n'' NotApplicableText],
     r_identity = ''v1|1:M1:F1:T1:n15:CONTROLLED_TEXT14:NOT_APPLICABLE'', r_revision = 0, r_active = True, r_canonical = True\<rparr>"

lemma na_steps:
  "NewResource (\<lambda>x. x) demo_decimals (loaded plain_collation (typed_db ValueTypeControlledText))
     \<lparr>sc_class = ''M'', sc_family = ''F'', sc_type = ''T''\<rparr> ''U'' [controlled_text_value ''n'' NotApplicableText] = Inr na_resource"
  "store_create all_well False demo_decimals na_resource (typed_db ValueTypeControlledText) = (Inr (), blocked_db)"
  by code_simp+

lemma blocked_get:
  "\<exists>e. store_get all_well demo_decimals plain_collation ''M'' (r_identity na_resource) blocked_db = Inl e
     \<and> mapError (first_sentinel [ErrResourceNotFound] (Wrapf ''get resource %s/%s: %w'' [''M'', r_identity na_resource] [e]) e)
         = PublicError Integrity (messages Integrity)"
proof -
  have "case store_get all_well demo_decimals plain_collation ''M'' (r_identity na_resource) blocked_db of Inr x \<Rightarrow> False | Inl e \<Rightarrow>
      mapError (first_sentinel [ErrResourceNotFound] (Wrapf ''get resource %s/%s: %w'' [''M'', r_identity na_resource] [e]) e)
        = PublicError Integrity (messages Integrity)" by code_simp
  then show ?thesis by (auto split: sum.splits)
qed

lemma na_request:
  "validateResourceWriteRequest demo_decimals (text_request NotApplicableValue) = None"
  "toDomainResourceAttributes demo_decimals (rw_attributes (text_request NotApplicableValue)) = Inr [controlled_text_value ''n'' NotApplicableText]"
  by code_simp+

definition any_resource :: resource_query where
  "any_resource = \<lparr>rq_scope = ScopeActive, rq_text = [], rq_class = [], rq_family = [], rq_type = [], rq_limit = 0, rq_offset = 0\<rparr>"

lemma any_normal: "Normalize (query_criteria any_resource :: nat search_criteria) = Inr \<lparr>cr_text = [], cr_class = [], cr_family = [], cr_type = [],
       cr_filters = [], cr_lifecycle = LifecycleScopeActive, cr_limit = 50, cr_offset = 0\<rparr>"
  by code_simp

lemma na_created:
  "writer_create_resource demo_decimals (adapter_writes sound_core) (text_request NotApplicableValue) (core_service (typed_db ValueTypeControlledText))
    = (Inl (PublicError Integrity (messages Integrity)), (core_service (typed_db ValueTypeControlledText))\<lparr>cs_db := blocked_db\<rparr>)"
proof -
  obtain e where get: "store_get all_well demo_decimals plain_collation ''M'' (r_identity na_resource) blocked_db = Inl e"
    and get_error: "mapError (first_sentinel [ErrResourceNotFound] (Wrapf ''get resource %s/%s: %w'' [''M'', r_identity na_resource] [e]) e)
         = PublicError Integrity (messages Integrity)" using blocked_get by blast
  have filled: "trim_space ''M'' \<noteq> []" "trim_space (r_identity na_resource) \<noteq> []" "r_class na_resource = ''M''" by code_simp+
  have scope: "rw_scope (text_request v) = \<lparr>sc_class = ''M'', sc_family = ''F'', sc_type = ''T''\<rparr>" "rw_unit (text_request v) = ''U''" for v
    by (simp_all add: text_request_def)
  show ?thesis
    unfolding writer_create_resource_def checked_def na_request(1)
    by (simp add: adapter_writes_def adapter_create_resource_def sound_core_def na_request(2) scope bnd_run public_errors_def on_resources_def
        resource_create_def rs_catalog_def authority_current_def core_service_def NewCatalogAuthority_def na_steps(1) on_error_def
        rs_write_def resource_store_def na_steps(2) resource_get_def rs_read_def filled get get_error[unfolded filled]
        del: first_sentinel.simps messages.simps)
qed

lemma blocked_row:
  "case page_rows no_match plain_collation \<lparr>cr_text = [], cr_class = [], cr_family = [], cr_type = [], cr_filters = [] :: nat attr_value list,
       cr_lifecycle = LifecycleScopeActive, cr_limit = 50, cr_offset = 0\<rparr> blocked_db of row # rows \<Rightarrow> rows = [] \<and>
     list_ex (\<lambda>l. case al_value l of Some (c, n) \<Rightarrow> va_state (ev_value c) = NotApplicableText \<and> al_mode l \<noteq> ModeForbidden | None \<Rightarrow> False)
       (attribute_lines blocked_db (fst row)) | [] \<Rightarrow> False"
  by code_simp

theorem marked_row_blocks_page_witness:
  "\<exists>t. writer_create_resource demo_decimals (adapter_writes sound_core) (text_request NotApplicableValue) (core_service (typed_db ValueTypeControlledText))
      = (Inl (PublicError Integrity (messages Integrity)), t)
    \<and> length (tb_resources (cs_db t)) = 1 \<and> tables_ok (cs_db t)
    \<and> reader_search (adapter_reads sound_core) any_resource t = (Inl (PublicError Integrity (messages Integrity)), t)"
proof -
  let ?t = "(core_service (typed_db ValueTypeControlledText))\<lparr>cs_db := blocked_db\<rparr>"
  obtain row where row: "row \<in> set (page_rows no_match plain_collation \<lparr>cr_text = [], cr_class = [], cr_family = [], cr_type = [],
       cr_filters = [] :: nat attr_value list, cr_lifecycle = LifecycleScopeActive, cr_limit = 50, cr_offset = 0\<rparr> (cs_db ?t))"
    "marked (cs_db ?t) (fst row)"
    using blocked_row by (auto simp: marked_def list_ex_iff split: list.splits option.splits prod.splits)
  have query: "validateResourceQuery any_resource = None" "rq_scope any_resource \<noteq> ScopeAll" by code_simp+
  have "tables_ok blocked_db" "length (tb_resources blocked_db) = 1" by code_simp+
  then show ?thesis
    using na_created marked_row_blocks_page[OF query any_normal row, where applied = False and D = demo_decimals] unfolding sound_core_def
    by (intro exI[of _ ?t]) (simp del: messages.simps)
qed

end
