(* ===== verification/SupplierBridge.thy ===== *)
theory SupplierBridge
  imports SupplierService ResourceFacade
begin

text \<open>
  The public Supplier Master contract (package \<^verbatim>\<open>suppliercore\<close>: \<^verbatim>\<open>errors.go\<close>, \<^verbatim>\<open>queries.go\<close>,
  \<^verbatim>\<open>write_types.go\<close>, \<^verbatim>\<open>reader.go\<close>, \<^verbatim>\<open>writer.go\<close>) and its bridge to the supplier use cases
  (\<^verbatim>\<open>internal/bridge/suppliercore/adapter.go\<close>).

  The public Supplier, Branch and Contact repeat the domain structs field by field, so they are the
  records of those structs; the five error codes and the lifecycle scopes carry the same texts as those
  of package \<^verbatim>\<open>resourcecore\<close> and share their constants. The copies of slices and pointers are the identity.
  The actor of a write is request metadata and reaches no decision below the public writer.
\<close>

section \<open>Queries and requests\<close>

record supplier_query =
  sq_text :: gstring
  sq_scope :: gstring
  sq_limit :: int
  sq_offset :: int

record branch_query = supplier_query +
  sq_supplier :: int

record contact_query = branch_query +
  sq_branch :: "int option"

record ('q, 'a) listing =
  li_query :: 'q
  li_items :: "'a list"
  li_previous :: bool
  li_next :: bool

record supplier_write_request =
  sw_actor :: gstring
  sw_details :: supplier_details

record supplier_update_request = supplier_write_request +
  sw_id :: int

section \<open>Capabilities\<close>

record 's supplier_reads =
  sc_get :: "int \<Rightarrow> ('s, supplier) public_action"
  sc_by_tax :: "gstring \<Rightarrow> ('s, supplier) public_action"
  sc_search :: "supplier_query \<Rightarrow> ('s, (supplier_query, supplier) listing) public_action"
  sc_branches :: "branch_query \<Rightarrow> ('s, (branch_query, branch) listing) public_action"
  sc_branch :: "int \<Rightarrow> int \<Rightarrow> ('s, branch) public_action"
  sc_contacts :: "contact_query \<Rightarrow> ('s, (contact_query, contact) listing) public_action"
  sc_contact :: "int \<Rightarrow> int \<Rightarrow> ('s, contact) public_action"

record 's supplier_writes =
  sc_create :: "supplier_write_request \<Rightarrow> ('s, supplier) public_action"
  sc_update :: "supplier_update_request \<Rightarrow> ('s, supplier) public_action"

definition supplier_reader :: "'s supplier_reads option \<Rightarrow> public_failure + 's supplier_reads" where
  "supplier_reader cap = (case cap of None \<Rightarrow> Inl (refused ''read capabilities are required'') | Some c \<Rightarrow> Inr c)"

definition supplier_writer :: "'s supplier_writes option \<Rightarrow> public_failure + 's supplier_writes" where
  "supplier_writer cap = (case cap of None \<Rightarrow> Inl (refused ''write capabilities are required'') | Some c \<Rightarrow> Inr c)"

section \<open>Reader\<close>

definition validateScope :: "gstring \<Rightarrow> public_failure option" where
  "validateScope s = (if s \<noteq> [] \<and> s \<noteq> ScopeActive \<and> s \<noteq> ScopeInactive \<and> s \<noteq> ScopeAll
     then Some (refused ''invalid lifecycle scope'') else None)"

definition positive :: "gstring \<Rightarrow> int \<Rightarrow> public_failure option" where
  "positive message i = (if i \<le> 0 then Some (refused message) else None)"

text \<open>The first of two checks that refuses.\<close>

definition or_else :: "public_failure option \<Rightarrow> public_failure option \<Rightarrow> public_failure option" where
  "or_else c d = (case c of None \<Rightarrow> d | Some e \<Rightarrow> Some e)"

definition reader_supplier :: "'s supplier_reads \<Rightarrow> int \<Rightarrow> ('s, supplier) public_action" where
  "reader_supplier r i = checked (positive ''supplier id must be positive'' i) (sc_get r i) (\<lambda>x. x)"

definition reader_supplier_by_tax :: "'s supplier_reads \<Rightarrow> gstring \<Rightarrow> ('s, supplier) public_action" where
  "reader_supplier_by_tax r tax =
     checked (if blank tax then Some (refused ''tax identifier must not be blank'') else None) (sc_by_tax r tax) (\<lambda>x. x)"

definition reader_suppliers :: "'s supplier_reads \<Rightarrow> supplier_query \<Rightarrow> ('s, (supplier_query, supplier) listing) public_action" where
  "reader_suppliers r q = checked (validateScope (sq_scope q)) (sc_search r q) (\<lambda>x. x)"

definition reader_branches :: "'s supplier_reads \<Rightarrow> branch_query \<Rightarrow> ('s, (branch_query, branch) listing) public_action" where
  "reader_branches r q = checked (or_else (positive ''supplier id must be positive'' (sq_supplier q)) (validateScope (sq_scope q)))
     (sc_branches r q) (\<lambda>x. x)"

definition reader_branch :: "'s supplier_reads \<Rightarrow> int \<Rightarrow> int \<Rightarrow> ('s, branch) public_action" where
  "reader_branch r supplierID branchID =
     checked (or_else (positive ''supplier id must be positive'' supplierID) (positive ''branch id must be positive'' branchID))
       (sc_branch r supplierID branchID) (\<lambda>x. x)"

definition reader_contacts :: "'s supplier_reads \<Rightarrow> contact_query \<Rightarrow> ('s, (contact_query, contact) listing) public_action" where
  "reader_contacts r q =
     checked (or_else (positive ''supplier id must be positive'' (sq_supplier q))
       (or_else (case sq_branch q of None \<Rightarrow> None | Some b \<Rightarrow> positive ''branch id must be positive when provided'' b)
         (validateScope (sq_scope q)))) (sc_contacts r q) (\<lambda>x. x)"

definition reader_contact :: "'s supplier_reads \<Rightarrow> int \<Rightarrow> int \<Rightarrow> ('s, contact) public_action" where
  "reader_contact r supplierID contactID =
     checked (or_else (positive ''supplier id must be positive'' supplierID) (positive ''contact id must be positive'' contactID))
       (sc_contact r supplierID contactID) (\<lambda>x. x)"

section \<open>Writer\<close>

definition validateSupplierWriteRequest :: "supplier_write_request \<Rightarrow> public_failure option" where
  "validateSupplierWriteRequest q = (if blank (sw_actor q) then Some (refused ''actor is required'') else None)"

definition validateSupplierUpdateRequest :: "supplier_update_request \<Rightarrow> public_failure option" where
  "validateSupplierUpdateRequest q =
     or_else (if blank (sw_actor q) then Some (refused ''actor is required'') else None) (positive ''id must be positive'' (sw_id q))"

definition writer_create_supplier :: "'s supplier_writes \<Rightarrow> supplier_write_request \<Rightarrow> ('s, supplier) public_action" where
  "writer_create_supplier w q = checked (validateSupplierWriteRequest q) (sc_create w q) (\<lambda>x. x)"

definition writer_update_supplier :: "'s supplier_writes \<Rightarrow> supplier_update_request \<Rightarrow> ('s, supplier) public_action" where
  "writer_update_supplier w q = checked (validateSupplierUpdateRequest q) (sc_update w q) (\<lambda>x. x)"

section \<open>The bridge\<close>

definition mapSupplierError :: "go_error \<Rightarrow> public_failure" where
  "mapSupplierError e =
     (if error_is e (Sup SupErrNotFound) then PublicError NotFound ''supplier master record not found''
      else if error_is e (Sup ErrBranchOwnership) then PublicError Validation ''branch does not belong to supplier''
      else if error_is e (Sup SupErrValidation) then PublicError Validation ''supplier master validation failed''
      else if error_is e (Sup SupErrConflict) then PublicError Conflict ''supplier master conflict''
      else PublicError Internal ''supplier master operation failed'')"

definition supplier_errors :: "('s, go_error, 'a) action \<Rightarrow> ('s, 'a) public_action" where
  "supplier_errors m = map_err mapSupplierError m"

definition effectiveLimit :: "int \<Rightarrow> int" where
  "effectiveLimit requested = (if requested \<le> 0 then 100 else requested)"

definition trimToPage :: "int \<Rightarrow> int \<Rightarrow> int \<times> bool" where
  "trimToPage results limit = (if results > limit then (limit, True) else (results, False))"

definition activeFromScope :: "gstring \<Rightarrow> bool option" where
  "activeFromScope scope = (if scope = ScopeInactive then Some False else if scope = ScopeAll then None else Some True)"

text \<open>The page every list method of the bridge builds: what was fetched, cut to the limit.\<close>

definition listing_of :: "'q \<Rightarrow> int \<Rightarrow> int \<Rightarrow> 'a list \<Rightarrow> ('q, 'a) listing" where
  "listing_of query limit offset fetched = (case trimToPage (int (length fetched)) limit of (end', hasNext) \<Rightarrow>
     \<lparr>li_query = query, li_items = take (nat end') fetched, li_previous = 0 < offset, li_next = hasNext\<rparr>)"

text \<open>\<^verbatim>\<open>limit + 1\<close> on a 64-bit int.\<close>

definition one_more :: "int \<Rightarrow> int" where
  "one_more limit = signed_take_bit 63 (limit + 1)"

definition bridge_suppliers :: "'s supplier_repo \<Rightarrow> supplier_query \<Rightarrow> ('s, (supplier_query, supplier) listing) public_action" where
  "bridge_suppliers R q = (let limit = effectiveLimit (sq_limit q) in
     bnd (supplier_errors (search_suppliers R \<lparr>ss_text = sq_text q, ss_active = activeFromScope (sq_scope q),
            ss_limit = one_more limit, ss_offset = sq_offset q\<rparr>)) (\<lambda>suppliers.
     ret (listing_of (q\<lparr>sq_limit := limit\<rparr>) limit (sq_offset q) suppliers)))"

definition bridge_branches :: "'s supplier_repo \<Rightarrow> branch_query \<Rightarrow> ('s, (branch_query, branch) listing) public_action" where
  "bridge_branches R q = (let limit = effectiveLimit (sq_limit q) in
     bnd (supplier_errors (list_branches R (sq_supplier q) \<lparr>lc_text = sq_text q, lc_active = activeFromScope (sq_scope q),
            lc_limit = limit, lc_offset = sq_offset q\<rparr>)) (\<lambda>branches.
     ret (listing_of (q\<lparr>sq_limit := limit\<rparr>) limit (sq_offset q) branches)))"

definition bridge_contacts :: "'s supplier_repo \<Rightarrow> contact_query \<Rightarrow> ('s, (contact_query, contact) listing) public_action" where
  "bridge_contacts R q = (let limit = effectiveLimit (sq_limit q) in
     bnd (supplier_errors (list_contacts R (sq_supplier q) \<lparr>lc_text = sq_text q, lc_active = activeFromScope (sq_scope q),
            lc_limit = limit, lc_offset = sq_offset q, lc_branch = sq_branch q\<rparr>)) (\<lambda>contacts.
     ret (listing_of (q\<lparr>sq_limit := limit\<rparr>) limit (sq_offset q) contacts)))"

definition bridge_create_supplier :: "'s supplier_repo \<Rightarrow> supplier_write_request \<Rightarrow> ('s, supplier) public_action" where
  "bridge_create_supplier R q = supplier_errors (create_supplier R (sw_details q))"

definition bridge_update_supplier :: "'s supplier_repo \<Rightarrow> supplier_update_request \<Rightarrow> ('s, supplier) public_action" where
  "bridge_update_supplier R q = supplier_errors (update_supplier_details R (sw_id q) (sw_details q))"

definition supplier_bridge_reads :: "'s supplier_repo \<Rightarrow> 's supplier_reads" where
  "supplier_bridge_reads R = \<lparr>sc_get = (\<lambda>i. supplier_errors (get_supplier R i)),
     sc_by_tax = (\<lambda>tax. supplier_errors (get_supplier_by_tax R tax)), sc_search = bridge_suppliers R,
     sc_branches = bridge_branches R, sc_branch = (\<lambda>s b. supplier_errors (get_branch R s b)),
     sc_contacts = bridge_contacts R, sc_contact = (\<lambda>s c. supplier_errors (get_contact R s c))\<rparr>"

definition supplier_bridge_writes :: "'s supplier_repo \<Rightarrow> 's supplier_writes" where
  "supplier_bridge_writes R = \<lparr>sc_create = bridge_create_supplier R, sc_update = bridge_update_supplier R\<rparr>"

end
