(* ===== verification/Paging.thy ===== *)
theory Paging
  imports SupplierBridge
begin

text \<open>
  Reading a list page by page. \<open>walk\<close> is the client that follows \<^verbatim>\<open>HasNext\<close>: it asks for a page, and for the
  next one at the offset after it while there is one. The locale states what a paged read promises, and
  proves once that such a client sees every row exactly once and in order.
\<close>

section \<open>The client\<close>

type_synonym ('s, 'e, 'a) paged_read = "int \<Rightarrow> int \<Rightarrow> ('s, 'e, 'a list \<times> bool) action"

fun walk :: "nat \<Rightarrow> (int \<Rightarrow> int) \<Rightarrow> ('s, 'e, 'a) paged_read \<Rightarrow> int \<Rightarrow> int \<Rightarrow> ('s, 'e, 'a list) action" where
  "walk 0 width fetch limit offset = ret []"
| "walk (Suc n) width fetch limit offset = bnd (fetch limit offset) (\<lambda>(items, more).
     if more then bnd (walk n width fetch limit (offset + width limit)) (\<lambda>rest. ret (items @ rest)) else ret items)"

text \<open>What a listing tells the client.\<close>

definition seen :: "('s, 'e, ('q, 'a) listing) action \<Rightarrow> ('s, 'e, 'a list \<times> bool) action" where
  "seen m = bnd m (\<lambda>l. ret (li_items l, li_next l))"

section \<open>The contract\<close>

lemma effectiveLimit_pos: "0 < effectiveLimit limit"
  by (simp add: effectiveLimit_def)

locale paged_rows =
  fixes fetch :: "('s, 'e, 'a) paged_read" and width :: "int \<Rightarrow> int" and allowed :: "int \<Rightarrow> bool"
    and rows :: "'s \<Rightarrow> 'a list" and serves :: "'s \<Rightarrow> bool"
  assumes width_pos: "0 < width limit"
    and window: "serves s \<Longrightarrow> allowed limit \<Longrightarrow> 0 \<le> offset \<Longrightarrow>
      fetch limit offset s = (Inr (take (nat (width limit)) (drop (nat offset) (rows s)),
        nat offset + nat (width limit) < length (rows s)), s)"
begin

lemma walk_from:
  "serves s \<Longrightarrow> allowed limit \<Longrightarrow> 0 \<le> offset \<Longrightarrow> length (rows s) \<le> n + nat offset \<Longrightarrow>
     walk (Suc n) width fetch limit offset s = (Inr (drop (nat offset) (rows s)), s)"
proof (induction n arbitrary: offset)
  case 0
  then show ?case by (simp add: window bnd_run)
next
  case (Suc n)
  let ?k = "width limit"
  have k: "0 < ?k" "nat (offset + ?k) = nat offset + nat ?k" using width_pos[of limit] Suc.prems(3) by (simp_all add: nat_add_distrib)
  show ?case
  proof (cases "nat offset + nat ?k < length (rows s)")
    case True
    have "walk (Suc n) width fetch limit (offset + ?k) s = (Inr (drop (nat (offset + ?k)) (rows s)), s)"
      by (rule Suc.IH) (use Suc.prems k in auto)
    moreover have "take (nat ?k) (drop (nat offset) (rows s)) @ drop (nat offset + nat ?k) (rows s) = drop (nat offset) (rows s)"
      by (metis add.commute append_take_drop_id drop_drop)
    ultimately show ?thesis using True Suc.prems(1-3) k(2)
      by (subst walk.simps) (simp add: window bnd_run del: walk.simps)
  next
    case False
    then show ?thesis using Suc.prems(1-3)
      by (subst walk.simps) (simp add: window bnd_run del: walk.simps)
  qed
qed

lemma walk_complete:
  "serves s \<Longrightarrow> allowed limit \<Longrightarrow> length (rows s) \<le> n \<Longrightarrow> walk (Suc n) width fetch limit 0 s = (Inr (rows s), s)"
  using walk_from[of s limit 0 n] by simp

end

text \<open>The limits of the lists with a default page of 100: everything but the largest 64-bit number, to which no row
  can be added.\<close>

definition addable :: "int \<Rightarrow> bool" where
  "addable limit \<longleftrightarrow> limit < 2 ^ 63 - 1"

section \<open>Over-fetching by one row\<close>

lemma one_more_exact: "0 < limit \<Longrightarrow> limit < 2 ^ 63 - 1 \<Longrightarrow> one_more limit = limit + 1"
  unfolding one_more_def by (rule signed_take_bit_int_eq_self) simp_all

lemma one_more_effective: "addable limit \<Longrightarrow> one_more (effectiveLimit limit) = effectiveLimit limit + 1"
  by (rule one_more_exact[OF effectiveLimit_pos]) (simp add: effectiveLimit_def addable_def)

text \<open>A window of one row more than the page, cut back to the page.\<close>

lemma overfetched:
  assumes "0 < limit" "0 \<le> offset"
  shows "trimToPage (int (length (page (limit + 1) offset xs))) limit
      = (if nat offset + nat limit < length xs then (limit, True) else (int (length xs - nat offset), False))"
    "take (nat limit) (page (limit + 1) offset xs) = take (nat limit) (drop (nat offset) xs)"
proof -
  have "nat (limit + 1) = Suc (nat limit)" using assms(1) by simp
  then show "trimToPage (int (length (page (limit + 1) offset xs))) limit
      = (if nat offset + nat limit < length xs then (limit, True) else (int (length xs - nat offset), False))"
    "take (nat limit) (page (limit + 1) offset xs) = take (nat limit) (drop (nat offset) xs)"
    using assms by (auto simp: trimToPage_def page_def min_def)
qed

lemma listing_window:
  assumes "0 < limit" "0 \<le> offset"
  shows "li_items (listing_of q limit offset (page (limit + 1) offset xs)) = take (nat limit) (drop (nat offset) xs)"
    "li_next (listing_of q limit offset (page (limit + 1) offset xs)) \<longleftrightarrow> nat offset + nat limit < length xs"
  using overfetched[OF assms, of xs] by (auto simp: listing_of_def page_def split: if_splits)

end
