(* ===== verification/SupplierBridgeTheorems.thy ===== *)
theory SupplierBridgeTheorems
  imports Paging SupplierTheorems
begin

text \<open>
  The public supplier contract over the PostgreSQL repository: what a client that reads a list page by page
  sees, and what every registration of a supplier answers.
\<close>

section \<open>The rows of a list\<close>

definition found_suppliers ::
  "(gstring \<Rightarrow> gstring \<Rightarrow> bool) \<Rightarrow> (gstring \<Rightarrow> gstring) \<Rightarrow> supplier_query \<Rightarrow> 'x supplier_db_scheme \<Rightarrow> supplier list" where
  "found_suppliers ilike coll q db = sort_key (\<lambda>s. (coll (display_key s), su_id s)) (filter (\<lambda>s.
     matches ilike (sq_text q) ([su_trade s, su_legal s] @ (if su_tax s = [] then [] else [su_tax s]))
     \<and> nullableBool_matches (activeFromScope (sq_scope q)) (su_active s)) (map snd (sdb_suppliers db)))"

definition found_branches ::
  "(gstring \<Rightarrow> gstring \<Rightarrow> bool) \<Rightarrow> (gstring \<Rightarrow> gstring) \<Rightarrow> branch_query \<Rightarrow> 'x supplier_db_scheme \<Rightarrow> branch list" where
  "found_branches ilike coll q db = sort_key (\<lambda>b. (coll (to_lower (bh_city b)), coll (to_lower (bh_name b)), bh_id b)) (filter (\<lambda>b.
     bh_supplier b = sq_supplier q \<and> nullableBool_matches (activeFromScope (sq_scope q)) (bh_active b)
     \<and> matches ilike (sq_text q) [bh_name b, bh_reference b, bh_city b, bh_state b, bh_country b, bh_address b,
         bh_phone b, bh_email b, bh_notes b]) (map snd (sdb_branches db)))"

definition found_contacts ::
  "(gstring \<Rightarrow> gstring \<Rightarrow> bool) \<Rightarrow> (gstring \<Rightarrow> gstring) \<Rightarrow> contact_query \<Rightarrow> 'x supplier_db_scheme \<Rightarrow> contact list" where
  "found_contacts ilike coll q db = sort_key (\<lambda>x. (coll (to_lower (co_name x)), co_id x)) (filter (\<lambda>x.
     co_supplier x = sq_supplier q \<and> nullableBool_matches (activeFromScope (sq_scope q)) (co_active x)
     \<and> (sq_branch q = None \<or> co_branch x = sq_branch q)
     \<and> matches ilike (sq_text q) [co_name x, co_role x, co_phone x, co_mobile x, co_email x, co_notes x])
     (map snd (sdb_contacts db)))"

definition pg_suppliers ::
  "(gstring \<Rightarrow> gstring \<Rightarrow> bool) \<Rightarrow> (gstring \<Rightarrow> gstring) \<Rightarrow> int \<Rightarrow> 'x supplier_db_scheme supplier_repo" where
  "pg_suppliers ilike coll now = supplier_repository no_faults False now ilike coll"

definition supplier_pages :: "(gstring \<Rightarrow> gstring \<Rightarrow> bool) \<Rightarrow> (gstring \<Rightarrow> gstring) \<Rightarrow> int \<Rightarrow> supplier_query
    \<Rightarrow> ('x supplier_db_scheme, public_failure, supplier) paged_read" where
  "supplier_pages ilike coll now q = (\<lambda>limit offset. seen (reader_suppliers (supplier_bridge_reads (pg_suppliers ilike coll now))
     (q\<lparr>sq_limit := limit, sq_offset := offset\<rparr>)))"

definition branch_pages :: "(gstring \<Rightarrow> gstring \<Rightarrow> bool) \<Rightarrow> (gstring \<Rightarrow> gstring) \<Rightarrow> int \<Rightarrow> branch_query
    \<Rightarrow> ('x supplier_db_scheme, public_failure, branch) paged_read" where
  "branch_pages ilike coll now q = (\<lambda>limit offset. seen (reader_branches (supplier_bridge_reads (pg_suppliers ilike coll now))
     (q\<lparr>sq_limit := limit, sq_offset := offset\<rparr>)))"

definition contact_pages :: "(gstring \<Rightarrow> gstring \<Rightarrow> bool) \<Rightarrow> (gstring \<Rightarrow> gstring) \<Rightarrow> int \<Rightarrow> contact_query
    \<Rightarrow> ('x supplier_db_scheme, public_failure, contact) paged_read" where
  "contact_pages ilike coll now q = (\<lambda>limit offset. seen (reader_contacts (supplier_bridge_reads (pg_suppliers ilike coll now))
     (q\<lparr>sq_limit := limit, sq_offset := offset\<rparr>)))"

text \<open>Which queries are answered: a known scope; for branches and contacts a stored supplier; for a branch filter
  one of its branches.\<close>

definition supplier_served :: "('q) supplier_query_scheme \<Rightarrow> bool" where
  "supplier_served q \<longleftrightarrow> validateScope (sq_scope q) = None"

definition branch_served :: "('q) branch_query_scheme \<Rightarrow> 'x supplier_db_scheme \<Rightarrow> bool" where
  "branch_served q db \<longleftrightarrow> supplier_served q \<and> 0 < sq_supplier q \<and> map_of (sdb_suppliers db) (sq_supplier q) \<noteq> None"

definition contact_served :: "contact_query \<Rightarrow> 'x supplier_db_scheme \<Rightarrow> bool" where
  "contact_served q db \<longleftrightarrow> branch_served q db
     \<and> (case sq_branch q of None \<Rightarrow> True | Some b \<Rightarrow> 0 < b \<and> find_branch (sq_supplier q) b db \<noteq> None)"

lemmas public_run = checked_def supplier_errors_def wrapped_def repo_ready_def pool_ready_def no_faults_def stmt_def map_err_run
  bnd_run asks_def query_row_def

lemma plus_one: "sql_offset offset = offset" "limitPlusOne (effectiveLimit limit) = effectiveLimit limit + 1"
    "sql_limit (effectiveLimit limit + 1) = effectiveLimit limit + 1" if "0 \<le> offset"
  using that effectiveLimit_pos[of limit] by (simp_all add: limitPlusOne_def sql_limit_def sql_offset_def)

text \<open>The rows the repository returns for a page of the bridge.\<close>

lemma fetched_rows:
  assumes "0 \<le> offset"
  shows "search_suppliers (pg_suppliers ilike coll now) \<lparr>ss_text = sq_text p, ss_active = activeFromScope (sq_scope p),
      ss_limit = effectiveLimit limit + 1, ss_offset = offset\<rparr> db
    = (Inr (page (effectiveLimit limit + 1) offset (found_suppliers ilike coll p db)), db)"
    "sr_list_branches (pg_suppliers ilike coll now) (sq_supplier b) \<lparr>lc_text = sq_text b, lc_active = activeFromScope (sq_scope b),
      lc_limit = effectiveLimit limit, lc_offset = offset\<rparr> db
    = (Inr (page (effectiveLimit limit + 1) offset (found_branches ilike coll b db)), db)"
    "sr_list_contacts (pg_suppliers ilike coll now) (sq_supplier c) \<lparr>lc_text = sq_text c, lc_active = activeFromScope (sq_scope c),
      lc_limit = effectiveLimit limit, lc_offset = offset, lc_branch = sq_branch c\<rparr> db
    = (Inr (page (effectiveLimit limit + 1) offset (found_contacts ilike coll c db)), db)"
  by (simp_all add: pg_suppliers_def supplier_repository_def search_suppliers_def SearchSuppliers_def ListBranches_def ListContacts_def
      public_run plus_one[OF assms] found_suppliers_def found_branches_def found_contacts_def)

lemma known_supplier_read:
  "0 < i \<Longrightarrow> map_of (sdb_suppliers db) i = Some s \<Longrightarrow> get_supplier (pg_suppliers ilike coll now) i db = (Inr s, db)"
  by (simp add: get_supplier_def sup_valid_id_def pg_suppliers_def supplier_repository_def GetSupplier_def public_run)

lemma owned_branch:
  assumes "contact_served q db"
  shows "ensureBranchOwnership (pg_suppliers ilike coll now) (sq_supplier q) (sq_branch q) db = (Inr (), db)"
  using assms
  by (auto simp: ensureBranchOwnership_def contact_served_def branch_served_def get_branch_def sup_valid_id_def pg_suppliers_def
      supplier_repository_def GetBranch_def public_run split: option.splits)

lemmas page_run = seen_def supplier_bridge_reads_def Let_def checked_def supplier_errors_def wrapped_def map_err_run bnd_run

lemma supplier_window:
  assumes "supplier_served q" "addable limit" "0 \<le> offset"
  shows "supplier_pages ilike coll now q limit offset db = (Inr (take (nat (effectiveLimit limit)) (drop (nat offset) (found_suppliers ilike coll q db)),
      nat offset + nat (effectiveLimit limit) < length (found_suppliers ilike coll q db)), db)"
  using assms(1)
  by (simp add: supplier_pages_def reader_suppliers_def bridge_suppliers_def page_run supplier_served_def one_more_effective[OF assms(2)]
      fetched_rows[OF assms(3)] listing_window[OF effectiveLimit_pos assms(3)])

lemma branch_window:
  assumes "branch_served q db" "addable limit" "0 \<le> offset"
  shows "branch_pages ilike coll now q limit offset db = (Inr (take (nat (effectiveLimit limit)) (drop (nat offset) (found_branches ilike coll q db)),
      nat offset + nat (effectiveLimit limit) < length (found_branches ilike coll q db)), db)"
proof -
  obtain s where "get_supplier (pg_suppliers ilike coll now) (sq_supplier q) db = (Inr s, db)"
    using assms(1) known_supplier_read unfolding branch_served_def by fast
  then show ?thesis using assms(1)
    by (simp add: branch_pages_def reader_branches_def bridge_branches_def page_run list_branches_def branch_served_def supplier_served_def
        positive_def or_else_def fetched_rows[OF assms(3)] listing_window[OF effectiveLimit_pos assms(3)])
qed

lemma contact_window:
  assumes "contact_served q db" "addable limit" "0 \<le> offset"
  shows "contact_pages ilike coll now q limit offset db = (Inr (take (nat (effectiveLimit limit)) (drop (nat offset) (found_contacts ilike coll q db)),
      nat offset + nat (effectiveLimit limit) < length (found_contacts ilike coll q db)), db)"
proof -
  obtain s where s: "get_supplier (pg_suppliers ilike coll now) (sq_supplier q) db = (Inr s, db)"
    using assms(1) known_supplier_read unfolding contact_served_def branch_served_def by fast
  have "(case sq_branch q of None \<Rightarrow> None | Some b \<Rightarrow> positive m b) = None" for m
    using assms(1) by (auto simp: contact_served_def positive_def split: option.splits)
  then show ?thesis using assms(1)
    by (simp add: contact_pages_def reader_contacts_def bridge_contacts_def page_run list_contacts_def contact_served_def branch_served_def
        supplier_served_def positive_def or_else_def s owned_branch[OF assms(1)] fetched_rows[OF assms(3)]
        listing_window[OF effectiveLimit_pos assms(3)])
qed

interpretation suppliers: paged_rows "supplier_pages ilike coll now q" effectiveLimit addable "found_suppliers ilike coll q" "\<lambda>db. supplier_served q"
  by unfold_locales (simp add: effectiveLimit_pos, rule supplier_window)

interpretation branches: paged_rows "branch_pages ilike coll now q" effectiveLimit addable "found_branches ilike coll q" "branch_served q"
  by unfold_locales (simp add: effectiveLimit_pos, rule branch_window)

interpretation contacts: paged_rows "contact_pages ilike coll now q" effectiveLimit addable "found_contacts ilike coll q" "contact_served q"
  by unfold_locales (simp add: effectiveLimit_pos, rule contact_window)

text \<open>C15: A client that reads suppliers, branches or contacts page by page, with any page size, zero for the default
  included, and asks for the page at the next offset as long as the answer says there is one, gets exactly the
  records that match its query, each once and in the order of the list, and leaves the tables alone.\<close>

theorem supplier_listings_complete:
  assumes "addable limit" "supplier_served sq" "branch_served bq db" "contact_served cq db"
  shows "walk (Suc (length (found_suppliers ilike coll sq db))) effectiveLimit (supplier_pages ilike coll now sq) limit 0 db
      = (Inr (found_suppliers ilike coll sq db), db)
    \<and> walk (Suc (length (found_branches ilike coll bq db))) effectiveLimit (branch_pages ilike coll now bq) limit 0 db
      = (Inr (found_branches ilike coll bq db), db)
    \<and> walk (Suc (length (found_contacts ilike coll cq db))) effectiveLimit (contact_pages ilike coll now cq) limit 0 db
      = (Inr (found_contacts ilike coll cq db), db)"
  using assms by (simp_all add: suppliers.walk_complete branches.walk_complete contacts.walk_complete del: walk.simps)

definition all_records :: supplier_query where
  "all_records = \<lparr>sq_text = [], sq_scope = ScopeAll, sq_limit = 0, sq_offset = 0\<rparr>"

definition of_first :: contact_query where
  "of_first = \<lparr>sq_text = [], sq_scope = [], sq_limit = 0, sq_offset = 0, sq_supplier = 1, sq_branch = Some 1\<rparr>"

definition branches_of_first :: branch_query where
  "branches_of_first = \<lparr>sq_text = [], sq_scope = ScopeActive, sq_limit = 0, sq_offset = 0, sq_supplier = 1\<rparr>"

definition three_suppliers :: supplier_db where
  "three_suppliers = fold (run_supplier_call plain_suppliers) [CallCreateSupplier (demo_supplier\<lparr>su_tax := ''B''\<rparr>),
     CallCreateSupplier (demo_supplier\<lparr>su_tax := ''A''\<rparr>)] demo_suppliers"

theorem supplier_listings_complete_witness:
  "map su_tax (found_suppliers (=) (\<lambda>s. s) all_records three_suppliers) = [''abc010101aa1'', ''B'', ''A'']
     \<and> walk 4 effectiveLimit (supplier_pages (=) (\<lambda>s. s) 0 all_records) 1 0 three_suppliers
       = (Inr (found_suppliers (=) (\<lambda>s. s) all_records three_suppliers), three_suppliers)
     \<and> length (found_contacts (=) (\<lambda>s. s) of_first three_suppliers) = 1
     \<and> walk 2 effectiveLimit (contact_pages (=) (\<lambda>s. s) 0 of_first) 1 0 three_suppliers
       = (Inr (found_contacts (=) (\<lambda>s. s) of_first three_suppliers), three_suppliers)"
proof -
  have rows: "map su_tax (found_suppliers (=) (\<lambda>s. s) all_records three_suppliers) = [''abc010101aa1'', ''B'', ''A'']"
    "length (found_suppliers (=) (\<lambda>s. s) all_records three_suppliers) = 3"
    "length (found_contacts (=) (\<lambda>s. s) of_first three_suppliers) = 1" by code_simp+
  have served: "supplier_served all_records" "branch_served branches_of_first three_suppliers" "contact_served of_first three_suppliers"
    by code_simp+
  have four: "Suc 3 = 4" "Suc 1 = 2" "addable 1" by (simp_all add: addable_def)
  note all = supplier_listings_complete[of 1 all_records branches_of_first three_suppliers of_first "(=)" "\<lambda>s. s" 0, OF four(3) served]
  have "walk 4 effectiveLimit (supplier_pages (=) (\<lambda>s. s) 0 all_records) 1 0 three_suppliers
       = (Inr (found_suppliers (=) (\<lambda>s. s) all_records three_suppliers), three_suppliers)"
    using all unfolding rows(2) four(1) by simp
  moreover have "walk 2 effectiveLimit (contact_pages (=) (\<lambda>s. s) 0 of_first) 1 0 three_suppliers
       = (Inr (found_contacts (=) (\<lambda>s. s) of_first three_suppliers), three_suppliers)"
    using all unfolding rows(3) four(2) by simp
  ultimately show ?thesis using rows by simp
qed

section \<open>Registering a supplier\<close>

lemma trimmed_key: "NewSupplier d = Inr v \<Longrightarrow> btrim (su_tax v) = su_tax v \<and> btrim (su_trade v) = su_trade v \<and> btrim (su_legal v) = su_legal v
    \<and> (su_trade v \<noteq> [] \<or> su_legal v \<noteq> [] \<or> su_tax v \<noteq> [])"
  by (auto simp: NewSupplier_def canonical_supplier_def btrim_trim Let_def split: if_splits)

definition registered :: "int \<Rightarrow> 'x supplier_db_scheme \<Rightarrow> supplier \<Rightarrow> supplier" where
  "registered now db v = v\<lparr>su_id := sdb_supplier_seq db + 1, su_created := now, su_updated := now\<rparr>"

lemma new_violation:
  "NewSupplier d = Inr v \<Longrightarrow> supplier_violation (registered now db v) db
     = (if tax_taken (sdb_supplier_seq db + 1) (su_tax v) db then Some (violates ''23505'' ''suppliers_tax_identifier_key'') else None)"
  using trimmed_key[of d v] by (auto simp: supplier_violation_def registered_def)

lemma tax_conflict_code: "mapSupplierError (wrap_read ''create supplier'' (supplier_write_fault ''create supplier''
    (PgError ''23505'' ''suppliers_tax_identifier_key'' m))) = PublicError Conflict ''supplier master conflict''"
  by (simp add: mapSupplierError_def wrap_read_def sup_error_def wraps_simps)

text \<open>C24: What the public writer answers to every request to register a supplier, with no failing statement: a blank
  actor is an invalid argument, a request without trade name, legal name or tax identifier fails validation, a tax
  identifier another supplier holds is a conflict that only uses up a number, and every other request stores the trimmed
  details as an active supplier under the next number and returns that row.\<close>

theorem public_supplier_create:
  "writer_create_supplier (supplier_bridge_writes (pg_suppliers ilike coll now)) q db =
    (if blank (sw_actor q) then (Inl (PublicError InvalidArgument ''actor is required''), db)
     else case NewSupplier (sw_details q) of
       Inl e \<Rightarrow> (Inl (PublicError Validation ''supplier master validation failed''), db)
     | Inr v \<Rightarrow> if tax_taken (sdb_supplier_seq db + 1) (su_tax v) db
         then (Inl (PublicError Conflict ''supplier master conflict''), db\<lparr>sdb_supplier_seq := sdb_supplier_seq db + 1\<rparr>)
         else (Inr (registered now db v), db\<lparr>sdb_supplier_seq := sdb_supplier_seq db + 1,
           sdb_suppliers := gput (sdb_supplier_seq db + 1) (registered now db v) (sdb_suppliers db)\<rparr>))"
proof (cases "NewSupplier (sw_details q)")
  case (Inl e)
  then have "mapSupplierError e = PublicError Validation ''supplier master validation failed''"
    by (auto simp: NewSupplier_def Let_def mapSupplierError_def split: if_splits)
  then show ?thesis using Inl
    by (simp add: writer_create_supplier_def validateSupplierWriteRequest_def supplier_bridge_writes_def bridge_create_supplier_def
        create_supplier_def public_run refused_def)
next
  case (Inr v)
  note violation = new_violation[OF Inr, of now db, unfolded registered_def]
  show ?thesis using Inr violation tax_conflict_code
    by (simp add: writer_create_supplier_def validateSupplierWriteRequest_def supplier_bridge_writes_def bridge_create_supplier_def
        create_supplier_def pg_suppliers_def supplier_repository_def CreateSupplier_def autocommit_def insert_supplier_def Let_def
        public_run refused_def registered_def violates_def write_error_def)
qed

end
