(* ===== verification/PurchaseFacade.thy ===== *)
theory PurchaseFacade
  imports PurchaseService
begin

text \<open>
  The public Purchase Core contract (package \<^verbatim>\<open>purchasecore\<close>: \<^verbatim>\<open>errors.go\<close>, \<^verbatim>\<open>types.go\<close>,
  \<^verbatim>\<open>queries.go\<close>, \<^verbatim>\<open>write_types.go\<close>, \<^verbatim>\<open>reader.go\<close>, \<^verbatim>\<open>writer.go\<close>).

  The public structs repeat the domain structs with every decimal rendered as its text, so they are the
  domain records at the number type \<open>gstring\<close>; the public product adds its mapping state and cause, which the
  domain computes. The copies the package makes are the identity. An instant is a number of nanoseconds since
  the zero time, so \<^verbatim>\<open>IsZero\<close> is a comparison with 0.
\<close>

section \<open>Errors\<close>

datatype purchase_code =
    Shared error_code
  | PurchaseLineNotFound | ResourceNotFound | ResourceInactive | CommercialSupplierSKURequired
  | CommercialSupplierSKUForbidden | PurchaseLineStateConflict | StaleResolutionRevision | StaleMappingRevision
  | SupplierProductTargetConflict | InvalidMappingTransition | IntegrityConflict

datatype purchase_failure = PurchaseFailure (failure_code: purchase_code) (failure_message: gstring)

definition invalid :: "gstring \<Rightarrow> purchase_failure" where
  "invalid message = PurchaseFailure (Shared InvalidArgument) message"

type_synonym ('s, 'a) purchase_action = "('s, purchase_failure, 'a) action"

section \<open>Types, queries and requests\<close>

record public_product = supplier_product +
  pup_state :: mapping_state
  pup_cause :: mapping_cause

record public_history =
  ph_line :: "gstring purchase_line"
  ph_product :: public_product
  ph_purchase :: int
  ph_uuid :: gstring
  ph_supplier :: int
  ph_branch :: "int option"
  ph_issued :: go_time
  ph_currency :: gstring

record list_window =
  lw_limit :: int
  lw_offset :: int

record ('q, 'a) purchase_page =
  pup_query :: 'q
  pup_items :: "'a list"
  pup_previous :: bool
  pup_next :: bool

record import_request =
  iq_actor :: gstring
  iq_xml :: "char list"
  iq_branch :: int
  iq_filename :: gstring

record resolve_request =
  vq_line :: int
  vq_resource :: int
  vq_sku :: gstring
  vq_product :: "int option"
  vq_mapping_revision :: "revision option"
  vq_revision :: revision
  vq_actor :: gstring
  vq_reason :: gstring

record public_resolution =
  pur_line :: "gstring purchase_line"
  pur_product :: public_product
  pur_disposition :: disposition

record override_request =
  oq_line :: int
  oq_override :: gstring
  oq_expected :: revision
  oq_actor :: gstring
  oq_reason :: gstring

text \<open>The five mapping requests share the product, the expected revision and the decision; the command
  says which request it is and carries its resource identifiers.\<close>

record mapping_change_request =
  mq_product :: int
  mq_command :: mapping_command
  mq_expected :: revision
  mq_decision :: decision_metadata

record public_import =
  pi_purchase :: "gstring purchase"
  pi_lines :: "gstring purchase_line list"
  pi_existed :: bool

section \<open>Capabilities\<close>

record 's purchase_reads =
  pc_get :: "int \<Rightarrow> ('s, gstring purchase) purchase_action"
  pc_by_uuid :: "gstring \<Rightarrow> ('s, gstring purchase) purchase_action"
  pc_lines :: "int \<Rightarrow> ('s, gstring purchase_line list) purchase_action"
  pc_workbench :: "workbench_criteria \<Rightarrow> ('s, (workbench_criteria, gstring workbench_row) purchase_page) purchase_action"
  pc_by_supplier :: "int \<Rightarrow> list_window \<Rightarrow> ('s, (list_window, gstring purchase) purchase_page) purchase_action"
  pc_product :: "int \<Rightarrow> ('s, public_product) purchase_action"
  pc_find_product :: "int \<Rightarrow> gstring \<Rightarrow> ('s, public_product) purchase_action"
  pc_products :: "int \<Rightarrow> list_window \<Rightarrow> ('s, (list_window, public_product) purchase_page) purchase_action"
  pc_history :: "int \<Rightarrow> list_window \<Rightarrow> ('s, (list_window, public_history) purchase_page) purchase_action"
  pc_audit :: "int \<Rightarrow> list_window \<Rightarrow> ('s, (list_window, mapping_audit_entry) purchase_page) purchase_action"

text \<open>An import is \<open>None\<close> when it does not return.\<close>

record 's purchase_writes =
  pc_import :: "import_request \<Rightarrow> ('s, public_import) purchase_action option"
  pc_mapping :: "mapping_change_request \<Rightarrow> ('s, public_product) purchase_action"
  pc_resolve :: "resolve_request \<Rightarrow> ('s, public_resolution) purchase_action"
  pc_override :: "override_request \<Rightarrow> ('s, gstring purchase_line) purchase_action"

definition purchase_reader :: "'s purchase_reads option \<Rightarrow> purchase_failure + 's purchase_reads" where
  "purchase_reader cap = (case cap of None \<Rightarrow> Inl (invalid ''read capabilities are required'') | Some c \<Rightarrow> Inr c)"

definition purchase_writer :: "'s purchase_writes option \<Rightarrow> purchase_failure + 's purchase_writes" where
  "purchase_writer cap = (case cap of None \<Rightarrow> Inl (invalid ''write capabilities are required'') | Some c \<Rightarrow> Inr c)"

section \<open>Reader\<close>

definition shaped :: "purchase_failure option \<Rightarrow> ('s, 'a) purchase_action \<Rightarrow> ('s, 'a) purchase_action" where
  "shaped c m = bnd (require c) (\<lambda>_. m)"

definition needs :: "bool \<Rightarrow> gstring \<Rightarrow> purchase_failure option" where
  "needs holds message = (if holds then None else Some (invalid message))"

definition reader_purchase :: "'s purchase_reads \<Rightarrow> int \<Rightarrow> ('s, gstring purchase) purchase_action" where
  "reader_purchase r i = shaped (needs (0 < i) ''purchase id must be positive'') (pc_get r i)"

definition reader_purchase_by_uuid :: "'s purchase_reads \<Rightarrow> gstring \<Rightarrow> ('s, gstring purchase) purchase_action" where
  "reader_purchase_by_uuid r uuid = shaped (needs (trim_space uuid \<noteq> []) ''cfdi uuid must not be blank'') (pc_by_uuid r uuid)"

definition reader_purchase_lines :: "'s purchase_reads \<Rightarrow> int \<Rightarrow> ('s, gstring purchase_line list) purchase_action" where
  "reader_purchase_lines r i = shaped (needs (0 < i) ''purchase id must be positive'') (pc_lines r i)"

definition validatePurchaseLineQuery :: "workbench_criteria \<Rightarrow> purchase_failure option" where
  "validatePurchaseLineQuery q =
     (if wc_limit q < 0 \<or> wc_limit q > 50 then Some (invalid ''limit must be between 1 and 50, or zero for the default'')
      else if wc_offset q < 0 then Some (invalid ''offset must not be negative'')
      else if (case wc_supplier q of Some s \<Rightarrow> s \<le> 0 | None \<Rightarrow> False)
        then Some (invalid ''supplier id must be positive when provided'')
      else if wc_from q = Some 0 then Some (invalid ''date from must be valid when provided'')
      else if wc_to q = Some 0 then Some (invalid ''date to must be valid when provided'')
      else if (case (wc_from q, wc_to q) of (Some a, Some b) \<Rightarrow> b < a | _ \<Rightarrow> False)
        then Some (invalid ''date from must not be after date to'')
      else if wc_status q \<in> set [[], LinkPending, LinkLinked, LinkSuspended, LinkNotApplicable, LinkConflict] then None
      else Some (invalid ''invalid effective status''))"

definition reader_workbench ::
  "'s purchase_reads \<Rightarrow> workbench_criteria \<Rightarrow> ('s, (workbench_criteria, gstring workbench_row) purchase_page) purchase_action" where
  "reader_workbench r q = shaped (validatePurchaseLineQuery q) (pc_workbench r q)"

definition reader_purchases_by_supplier ::
  "'s purchase_reads \<Rightarrow> int \<Rightarrow> list_window \<Rightarrow> ('s, (list_window, gstring purchase) purchase_page) purchase_action" where
  "reader_purchases_by_supplier r s w = shaped (needs (0 < s) ''supplier id must be positive'') (pc_by_supplier r s w)"

definition reader_product :: "'s purchase_reads \<Rightarrow> int \<Rightarrow> ('s, public_product) purchase_action" where
  "reader_product r i = shaped (needs (0 < i) ''supplier product id must be positive'') (pc_product r i)"

definition reader_find_product :: "'s purchase_reads \<Rightarrow> int \<Rightarrow> gstring \<Rightarrow> ('s, public_product) purchase_action" where
  "reader_find_product r s sku = shaped (if s \<le> 0 then Some (invalid ''supplier id must be positive'')
     else needs (trim_space sku \<noteq> []) ''sku must not be blank'') (pc_find_product r s sku)"

definition reader_products ::
  "'s purchase_reads \<Rightarrow> int \<Rightarrow> list_window \<Rightarrow> ('s, (list_window, public_product) purchase_page) purchase_action" where
  "reader_products r s w = shaped (needs (0 < s) ''supplier id must be positive'') (pc_products r s w)"

definition reader_history ::
  "'s purchase_reads \<Rightarrow> int \<Rightarrow> list_window \<Rightarrow> ('s, (list_window, public_history) purchase_page) purchase_action" where
  "reader_history r i w = shaped (needs (0 < i) ''resource id must be positive'') (pc_history r i w)"

definition reader_mapping_audit ::
  "'s purchase_reads \<Rightarrow> int \<Rightarrow> list_window \<Rightarrow> ('s, (list_window, mapping_audit_entry) purchase_page) purchase_action" where
  "reader_mapping_audit r i w = shaped (needs (0 < i) ''supplier product id must be positive'') (pc_audit r i w)"

section \<open>Writer\<close>

definition writer_import :: "'s purchase_writes \<Rightarrow> import_request \<Rightarrow> ('s, public_import) purchase_action option" where
  "writer_import w q =
     (if trim_space (iq_actor q) = [] then Some (fail (invalid ''actor is required''))
      else if iq_xml q = [] then Some (fail (invalid ''xml content is required''))
      else pc_import w q)"

definition validDecision :: "decision_metadata \<Rightarrow> purchase_failure option" where
  "validDecision d = needs (trim_space (dm_actor d) \<noteq> [] \<and> dm_origin d = MappingOriginManual \<and> dm_at d \<noteq> 0)
     ''complete manual decision metadata is required''"

fun command_ids :: "mapping_command \<Rightarrow> int list" where
  "command_ids (Confirm r) = [r]"
| "command_ids (Correct c r) = [c, r]"
| "command_ids (Unlink c) = [c]"
| "command_ids (ReportConflict c) = [c]"
| "command_ids (ResolveConflict c r) = [c, r]"

definition writer_mapping :: "'s purchase_writes \<Rightarrow> mapping_change_request \<Rightarrow> ('s, public_product) purchase_action" where
  "writer_mapping w q = shaped (case validDecision (mq_decision q) of Some e \<Rightarrow> Some e
     | None \<Rightarrow> needs (0 < mq_product q \<and> list_all (\<lambda>i. 0 < i) (command_ids (mq_command q))) ''mapping identifiers must be positive'')
     (pc_mapping w q)"

definition resolve_shape :: "resolve_request \<Rightarrow> purchase_failure option" where
  "resolve_shape q =
     (if vq_line q \<le> 0 \<or> vq_resource q \<le> 0 then Some (invalid ''line and resource identifiers must be positive'')
      else if trim_space (vq_actor q) = [] then Some (invalid ''actor is required'')
      else (case vq_product q of
          None \<Rightarrow> if vq_mapping_revision q \<noteq> None then Some (invalid ''mapping revision must be null without a supplier product'')
            else if trim_space (vq_sku q) = [] then Some (PurchaseFailure CommercialSupplierSKURequired ''commercial supplier sku is required'')
            else None
        | Some p \<Rightarrow> if p \<le> 0 \<or> vq_mapping_revision q = None then Some (invalid ''complete supplier product snapshot is required'')
            else if trim_space (vq_sku q) \<noteq> [] then Some (PurchaseFailure CommercialSupplierSKUForbidden ''commercial supplier sku is forbidden'')
            else None))"

definition writer_resolve :: "'s purchase_writes \<Rightarrow> resolve_request \<Rightarrow> ('s, public_resolution) purchase_action" where
  "writer_resolve w q = shaped (resolve_shape q) (pc_resolve w q)"

definition override_shape :: "override_request \<Rightarrow> purchase_failure option" where
  "override_shape q =
     (if oq_line q \<le> 0 then Some (invalid ''purchase line id must be positive'')
      else if oq_override q \<noteq> LinkStatusNone \<and> oq_override q \<noteq> LinkNotApplicable \<and> oq_override q \<noteq> LinkConflict
        then Some (invalid ''resolution override must be NONE, NO_APLICA, or CONFLICTO'')
      else needs (trim_space (oq_actor q) \<noteq> [] \<and> trim_space (oq_reason q) \<noteq> []) ''actor and reason are required'')"

definition writer_override :: "'s purchase_writes \<Rightarrow> override_request \<Rightarrow> ('s, gstring purchase_line) purchase_action" where
  "writer_override w q = shaped (override_shape q) (pc_override w q)"

end
