(* ===== verification/PurchaseBridge.thy ===== *)
theory PurchaseBridge
  imports PurchaseFacade SupplierBridge
begin

text \<open>
  The bridge between the public Purchase Core contract and the purchase use cases
  (\<^verbatim>\<open>internal/bridge/purchasecore/adapter.go\<close>): the translation of requests, the rendering of domain values,
  the over-fetched pages and the classification of errors. \<open>purchase_core\<close> is what the bridge is built on: the
  repository and the supplier directory of the service, and the clock, digest, decimals and XML decoder the
  service uses. The service never panics on a stamped document, so no panic reaches the bridge.
\<close>

section \<open>Values\<close>

definition mapPurchaseLine :: "'d decimal_ops \<Rightarrow> 'd purchase_line \<Rightarrow> gstring purchase_line" where
  "mapPurchaseLine D l = \<lparr>ld_number = ld_number l, ld_description = ld_description l, ld_sku = ld_sku l,
     ld_sat_code = ld_sat_code l, ld_quantity = dec_string D (ld_quantity l), ld_unit_code = ld_unit_code l, ld_unit = ld_unit l,
     ld_unit_price = dec_string D (ld_unit_price l), ld_amount = dec_string D (ld_amount l),
     ld_discount = dec_string D (ld_discount l), ld_tax_transferred = dec_string D (ld_tax_transferred l),
     ld_tax_withheld = dec_string D (ld_tax_withheld l), ld_tax_object = ld_tax_object l,
     pl_id = pl_id l, pl_purchase = pl_purchase l, pl_product = pl_product l, pl_override = pl_override l,
     pl_revision = pl_revision l, pl_status = pl_status l, pl_cause = pl_cause l\<rparr>"

definition mapPurchase :: "'d decimal_ops \<Rightarrow> 'd purchase \<Rightarrow> gstring purchase" where
  "mapPurchase D p = \<lparr>pd_party = pd_party p, pd_uuid = pd_uuid p, pd_series = pd_series p, pd_folio = pd_folio p,
     pd_issued = pd_issued p, pd_currency = pd_currency p, pd_exchange_rate = map_option (dec_string D) (pd_exchange_rate p),
     pd_subtotal = dec_string D (pd_subtotal p), pd_discount = dec_string D (pd_discount p),
     pd_tax_transferred = dec_string D (pd_tax_transferred p), pd_tax_withheld = dec_string D (pd_tax_withheld p),
     pd_total = dec_string D (pd_total p), pd_issuer_tax_id = pd_issuer_tax_id p, pd_issuer_name = pd_issuer_name p,
     pd_xml = pd_xml p, p_id = p_id p, p_imported = p_imported p, p_created = p_created p, p_updated = p_updated p\<rparr>"

definition mapPurchaseLineRow :: "'d decimal_ops \<Rightarrow> 'd workbench_row \<Rightarrow> gstring workbench_row" where
  "mapPurchaseLineRow D w = \<lparr>wr_line = wr_line w, wr_number = wr_number w, wr_purchase = wr_purchase w, wr_issued = wr_issued w,
     wr_series = wr_series w, wr_folio = wr_folio w, wr_uuid = wr_uuid w, wr_supplier = wr_supplier w,
     wr_supplier_name = wr_supplier_name w, wr_description = wr_description w, wr_sku = wr_sku w,
     wr_commercial_sku = wr_commercial_sku w, wr_sat_code = wr_sat_code w, wr_quantity = dec_string D (wr_quantity w),
     wr_unit_code = wr_unit_code w, wr_unit = wr_unit w, wr_unit_price = dec_string D (wr_unit_price w),
     wr_amount = dec_string D (wr_amount w), wr_currency = wr_currency w, wr_product = wr_product w, wr_resource = wr_resource w,
     wr_resource_identity = wr_resource_identity w, wr_resource_name = wr_resource_name w,
     wr_mapping_revision = wr_mapping_revision w, wr_override = wr_override w,
     wr_resolution_revision = wr_resolution_revision w, wr_status = wr_status w, wr_cause = wr_cause w\<rparr>"

definition mapSupplierProduct :: "supplier_product \<Rightarrow> public_product" where
  "mapSupplierProduct p = (let active = (case sp_resource_active p of None \<Rightarrow> True | Some a \<Rightarrow> a) in
     supplier_product.extend p \<lparr>pup_state = mapping_state_of (sp_mapping p) active, pup_cause = mapping_cause_of (sp_mapping p) active\<rparr>)"

definition mapPurchaseLineHistory :: "'d decimal_ops \<Rightarrow> 'd line_history \<Rightarrow> public_history" where
  "mapPurchaseLineHistory D h = \<lparr>ph_line = mapPurchaseLine D (lh_line h), ph_product = mapSupplierProduct (lh_product h),
     ph_purchase = lh_purchase h, ph_uuid = lh_uuid h, ph_supplier = lh_supplier h, ph_branch = lh_branch h,
     ph_issued = lh_issued h, ph_currency = lh_currency h\<rparr>"

text \<open>The audit entry copies field by field.\<close>

definition mapMappingAuditEntry :: "mapping_audit_entry \<Rightarrow> mapping_audit_entry" where
  "mapMappingAuditEntry e = \<lparr>ma_product = ma_product e, ma_previous = ma_previous e, ma_new = ma_new e,
     ma_previous_state = ma_previous_state e, ma_new_state = ma_new_state e, ma_previous_revision = ma_previous_revision e,
     ma_new_revision = ma_new_revision e, ma_operation = ma_operation e, ma_decision = ma_decision e\<rparr>"

section \<open>Errors\<close>

definition mapPurchaseError :: "go_error \<Rightarrow> purchase_failure" where
  "mapPurchaseError e =
     (if error_is e (Pur ErrPurchaseLineNotFound) then PurchaseFailure PurchaseLineNotFound ''purchase line not found''
      else if error_is e (Pur PurErrResourceNotFound) then PurchaseFailure ResourceNotFound ''resource not found''
      else if error_is e (Pur PurErrResourceInactive) then PurchaseFailure ResourceInactive ''resource is inactive''
      else if error_is e (Pur ErrCommercialSupplierSKURequired)
        then PurchaseFailure CommercialSupplierSKURequired ''commercial supplier sku is required''
      else if error_is e (Pur ErrCommercialSupplierSKUForbidden)
        then PurchaseFailure CommercialSupplierSKUForbidden ''commercial supplier sku is forbidden''
      else if error_is e (Pur ErrPurchaseLineStateConflict) then PurchaseFailure PurchaseLineStateConflict ''purchase line state changed''
      else if error_is e (Pur ErrStaleResolutionRevision)
        then PurchaseFailure StaleResolutionRevision ''purchase line resolution revision is stale''
      else if error_is e (Pur ErrStaleMappingRevision)
        then PurchaseFailure StaleMappingRevision ''supplier product mapping revision is stale''
      else if error_is e (Pur ErrMappingTargetConflict)
        then PurchaseFailure SupplierProductTargetConflict ''supplier product maps to a different target''
      else if error_is e (Pur ErrInvalidMappingTransition)
        then PurchaseFailure InvalidMappingTransition ''invalid supplier product mapping transition''
      else if error_is e (Pur ErrPurchaseIntegrityConflict) then PurchaseFailure IntegrityConflict ''purchase data integrity conflict''
      else if error_is e (Pur PurErrNotFound) \<or> error_is e (Sup SupErrNotFound)
        then PurchaseFailure (Shared NotFound) ''purchase master record not found''
      else if error_is e (Pur PurErrConflict) \<or> error_is e (Sup SupErrConflict)
        then PurchaseFailure (Shared Conflict) ''purchase master conflict''
      else if error_is e (Pur PurErrValidation) \<or> error_is e (Sup SupErrValidation)
        then PurchaseFailure (Shared Validation) ''purchase master validation failed''
      else if error_is e (Pur ErrCommitAmbiguous) then PurchaseFailure (Shared Conflict) ''purchase master mapping conflict''
      else PurchaseFailure (Shared error_code.Internal) ''purchase master operation failed'')"

definition purchase_errors :: "('s, go_error, 'a) action \<Rightarrow> ('s, 'a) purchase_action" where
  "purchase_errors m = map_err mapPurchaseError m"

section \<open>Reads\<close>

record ('s, 'd, 'x) purchase_core =
  pcr_repo :: "('s, 'd) purchase_repo"
  pcr_directory :: "'s supplier_directory"
  pcr_decimals :: "'d decimal_ops"
  pcr_digest :: "char list \<Rightarrow> gstring"
  pcr_decoder :: "'x xml_decoder"
  pcr_now :: go_time

definition effectivePurchaseLineLimit :: "int \<Rightarrow> int" where
  "effectivePurchaseLineLimit requested = (if requested \<le> 0 \<or> requested > 50 then 50 else requested)"

definition paged :: "'q \<Rightarrow> int \<Rightarrow> int \<Rightarrow> ('a \<Rightarrow> 'b) \<Rightarrow> 'a list \<Rightarrow> ('q, 'b) purchase_page" where
  "paged query limit offset f fetched = (case trimToPage (int (length fetched)) limit of (end', hasNext) \<Rightarrow>
     \<lparr>pup_query = query, pup_items = map f (take (nat end') fetched), pup_previous = 0 < offset, pup_next = hasNext\<rparr>)"

text \<open>The four lists of a supplier, a resource or a product: one row more than the page is requested.\<close>

definition bridge_list ::
  "(int \<Rightarrow> int \<Rightarrow> ('s, go_error, 'a list) action) \<Rightarrow> ('a \<Rightarrow> 'b) \<Rightarrow> list_window \<Rightarrow> ('s, (list_window, 'b) purchase_page) purchase_action" where
  "bridge_list fetch f w = (let limit = effectiveLimit (lw_limit w) in
     bnd (purchase_errors (fetch (one_more limit) (lw_offset w))) (\<lambda>rows.
     ret (paged \<lparr>lw_limit = limit, lw_offset = lw_offset w\<rparr> limit (lw_offset w) f rows)))"

definition bridge_workbench :: "('s, 'd, 'x) purchase_core \<Rightarrow> workbench_criteria
     \<Rightarrow> ('s, (workbench_criteria, gstring workbench_row) purchase_page) purchase_action" where
  "bridge_workbench B q = (let limit = effectivePurchaseLineLimit (wc_limit q) in
     bnd (purchase_errors (list_workbench (pcr_repo B) (q\<lparr>wc_limit := limit + 1\<rparr>))) (\<lambda>rows.
     ret (paged (q\<lparr>wc_limit := limit\<rparr>) limit (wc_offset q) (mapPurchaseLineRow (pcr_decimals B)) rows)))"

definition bridge_purchases_by_supplier ::
  "('s, 'd, 'x) purchase_core \<Rightarrow> int \<Rightarrow> list_window \<Rightarrow> ('s, (list_window, gstring purchase) purchase_page) purchase_action" where
  "bridge_purchases_by_supplier B s = bridge_list (list_purchases_by_supplier (pcr_repo B) s) (mapPurchase (pcr_decimals B))"

definition bridge_products ::
  "('s, 'd, 'x) purchase_core \<Rightarrow> int \<Rightarrow> list_window \<Rightarrow> ('s, (list_window, public_product) purchase_page) purchase_action" where
  "bridge_products B s = bridge_list (list_supplier_products (pcr_repo B) s) mapSupplierProduct"

definition bridge_history ::
  "('s, 'd, 'x) purchase_core \<Rightarrow> int \<Rightarrow> list_window \<Rightarrow> ('s, (list_window, public_history) purchase_page) purchase_action" where
  "bridge_history B i = bridge_list (list_lines_by_resource (pcr_repo B) i) (mapPurchaseLineHistory (pcr_decimals B))"

definition bridge_mapping_audit ::
  "('s, 'd, 'x) purchase_core \<Rightarrow> int \<Rightarrow> list_window \<Rightarrow> ('s, (list_window, mapping_audit_entry) purchase_page) purchase_action" where
  "bridge_mapping_audit B i = bridge_list (list_mapping_audit (pcr_repo B) i) mapMappingAuditEntry"

text \<open>A read of one value, mapped.\<close>

definition fetched_as :: "('a \<Rightarrow> 'b) \<Rightarrow> ('s, go_error, 'a) action \<Rightarrow> ('s, 'b) purchase_action" where
  "fetched_as f m = bnd (purchase_errors m) (\<lambda>x. ret (f x))"

definition purchase_bridge_reads :: "('s, 'd, 'x) purchase_core \<Rightarrow> 's purchase_reads" where
  "purchase_bridge_reads B = (let R = pcr_repo B; D = pcr_decimals B in
     \<lparr>pc_get = (\<lambda>i. fetched_as (mapPurchase D) (get_purchase R i)),
      pc_by_uuid = (\<lambda>uuid. fetched_as (mapPurchase D) (get_purchase_by_uuid R uuid)),
      pc_lines = (\<lambda>i. fetched_as (map (mapPurchaseLine D)) (list_purchase_lines R i)),
      pc_workbench = bridge_workbench B, pc_by_supplier = bridge_purchases_by_supplier B,
      pc_product = (\<lambda>i. fetched_as mapSupplierProduct (get_supplier_product R i)),
      pc_find_product = (\<lambda>s sku. fetched_as mapSupplierProduct (find_supplier_product R s sku)),
      pc_products = bridge_products B, pc_history = bridge_history B, pc_audit = bridge_mapping_audit B\<rparr>)"

section \<open>Writes\<close>

definition bridge_import :: "('s, 'd, 'x) purchase_core \<Rightarrow> import_request \<Rightarrow> ('s, public_import) purchase_action option" where
  "bridge_import B q = map_option (fetched_as (\<lambda>r. \<lparr>pi_purchase = mapPurchase (pcr_decimals B) (ir_purchase r),
       pi_lines = map (mapPurchaseLine (pcr_decimals B)) (ir_lines r), pi_existed = ir_existed r\<rparr>))
     (import_cfdi (pcr_decimals B) (pcr_digest B) (pcr_decoder B) (pcr_repo B) (pcr_directory B) (iq_xml q)
       \<lparr>io_branch = iq_branch q, io_filename = iq_filename q\<rparr>)"

definition decisionMetadata :: "decision_metadata \<Rightarrow> decision_metadata" where
  "decisionMetadata d = \<lparr>dm_actor = dm_actor d, dm_origin = dm_origin d, dm_reason = dm_reason d, dm_at = dm_at d\<rparr>"

text \<open>\<^verbatim>\<open>ConfirmMapping\<close>, \<^verbatim>\<open>CorrectMapping\<close>, \<^verbatim>\<open>ExceptionalUnlink\<close>, \<^verbatim>\<open>ReportIdentityConflict\<close> and
  \<^verbatim>\<open>ResolveIdentityConflict\<close>: the same call of the service with the command they name.\<close>

definition bridge_mapping :: "('s, 'd, 'x) purchase_core \<Rightarrow> mapping_change_request \<Rightarrow> ('s, public_product) purchase_action" where
  "bridge_mapping B q = fetched_as mapSupplierProduct
     (change_mapping (pcr_repo B) (mq_product q) (mq_command q) (mq_expected q) (decisionMetadata (mq_decision q)))"

text \<open>The command starts with the zero decision; the service fills it in.\<close>

definition bridge_resolve :: "('s, 'd, 'x) purchase_core \<Rightarrow> resolve_request \<Rightarrow> ('s, public_resolution) purchase_action" where
  "bridge_resolve B q = fetched_as (\<lambda>r. \<lparr>pur_line = mapPurchaseLine (pcr_decimals B) (rres_line r),
       pur_product = mapSupplierProduct (rres_product r), pur_disposition = rres_disposition r\<rparr>)
     (resolve_purchase_line (pcr_repo B) (pcr_now B)
       \<lparr>rc_line = vq_line q, rc_resource = vq_resource q, rc_sku = vq_sku q, rc_product = vq_product q,
        rc_mapping_revision = vq_mapping_revision q, rc_resolution_revision = vq_revision q, rc_actor = vq_actor q,
        rc_reason = vq_reason q, rc_decision = \<lparr>dm_actor = [], dm_origin = [], dm_reason = [], dm_at = 0\<rparr>\<rparr>)"

definition bridge_override :: "('s, 'd, 'x) purchase_core \<Rightarrow> override_request \<Rightarrow> ('s, gstring purchase_line) purchase_action" where
  "bridge_override B q = fetched_as (mapPurchaseLine (pcr_decimals B))
     (set_override (pcr_repo B) (pcr_now B) (oq_line q) (oq_override q) (oq_expected q) (oq_actor q) (oq_reason q))"

definition purchase_bridge_writes :: "('s, 'd, 'x) purchase_core \<Rightarrow> 's purchase_writes" where
  "purchase_bridge_writes B = \<lparr>pc_import = bridge_import B, pc_mapping = bridge_mapping B, pc_resolve = bridge_resolve B,
     pc_override = bridge_override B\<rparr>"

section \<open>Composition\<close>

text \<open>\<^verbatim>\<open>purchases.New(pool, suppliersModule.Service)\<close> in \<^verbatim>\<open>garfex.Open\<close>: one pool, the purchase repository and the
  supplier service over it.\<close>

definition pg_purchases ::
  "'d decimal_ops \<Rightarrow> (char list \<Rightarrow> gstring) \<Rightarrow> 'y xml_decoder \<Rightarrow> sql_faults \<Rightarrow> bool \<Rightarrow> int \<Rightarrow> (gstring \<Rightarrow> gstring \<Rightarrow> bool)
     \<Rightarrow> (gstring \<Rightarrow> gstring) \<Rightarrow> ('x purchase_db_scheme, 'd, 'y) purchase_core" where
  "pg_purchases D digest X F applied now ilike coll = \<lparr>pcr_repo = purchase_repository D F applied now ilike coll,
     pcr_directory = directory_of (supplier_repository F applied now ilike coll), pcr_decimals = D, pcr_digest = digest,
     pcr_decoder = X, pcr_now = now\<rparr>"

end
