(* ===== verification/PurchaseBridgeTheorems.thy ===== *)
theory PurchaseBridgeTheorems
  imports Paging PurchaseBridge PurchaseStoreTheorems
begin

text \<open>
  The public purchase contract over the PostgreSQL repository: what a client that reads a list page by page
  sees, and what a mapping request that the domain refuses answers.
\<close>

section \<open>The rows of a list\<close>

lemma mapr_page: "mapr f xs = Inr ys \<Longrightarrow> mapr f (page l o' xs) = Inr (page l o' ys)"
  by (auto simp: mapr_Inr_iff page_def list_all2_dropI list_all2_takeI)

definition decoded :: "'e + 'a list \<Rightarrow> 'a list" where
  "decoded r = (case r of Inr xs \<Rightarrow> xs | Inl e \<Rightarrow> [])"

definition readable :: "'e + 'a list \<Rightarrow> bool" where
  "readable r \<longleftrightarrow> (\<exists>xs. r = Inr xs)"

definition purchases_of :: "'d decimal_ops \<Rightarrow> int \<Rightarrow> 'x purchase_db_scheme \<Rightarrow> db_error + 'd purchase list" where
  "purchases_of D s db = mapr (scanPurchase D) (sort_key (\<lambda>p. (- pd_issued p, - p_id p))
     (filter (\<lambda>p. pp_supplier (pd_party p) = s) (map snd (pdb_purchases db))))"

definition products_of :: "(gstring \<Rightarrow> gstring) \<Rightarrow> int \<Rightarrow> 'x purchase_db_scheme \<Rightarrow> supplier_product list" where
  "products_of coll s db = map (joined_product db) (sort_key (\<lambda>sp. coll (sp_sku sp))
     (filter (\<lambda>sp. sp_supplier sp = s) (map snd (pdb_products db))))"

definition history_of :: "'d decimal_ops \<Rightarrow> int \<Rightarrow> 'x purchase_db_scheme \<Rightarrow> db_error + 'd line_history list" where
  "history_of D r db = mapr (scanPurchaseLineHistory D db) (sort_key (\<lambda>(row, sp, p). (- pd_issued p, - lr_id row))
     (List.map_filter (history_row r db) (map snd (pdb_lines db))))"

definition workbench_of :: "'d decimal_ops \<Rightarrow> (gstring \<Rightarrow> gstring \<Rightarrow> bool) \<Rightarrow> workbench_criteria \<Rightarrow> 'x purchase_db_scheme
    \<Rightarrow> db_error + 'd workbench_row list" where
  "workbench_of D ilike c db = mapr (scanPurchaseLineWorkbenchRow D) (sort_key (\<lambda>w. (- wr_issued w, - wr_line w))
     (filter (workbench_condition ilike c) (List.map_filter (line_projection db) (map snd (pdb_lines db)))))"

section \<open>The pages\<close>

definition seen_page :: "('s, 'e, ('q, 'a) purchase_page) action \<Rightarrow> ('s, 'e, 'a list \<times> bool) action" where
  "seen_page m = bnd m (\<lambda>l. ret (pup_items l, pup_next l))"

definition sound_purchases :: "'d decimal_ops \<Rightarrow> (char list \<Rightarrow> gstring) \<Rightarrow> 'y xml_decoder \<Rightarrow> int \<Rightarrow> (gstring \<Rightarrow> gstring \<Rightarrow> bool)
     \<Rightarrow> (gstring \<Rightarrow> gstring) \<Rightarrow> ('x purchase_db_scheme, 'd, 'y) purchase_core" where
  "sound_purchases D digest X now ilike coll = pg_purchases D digest X no_faults False now ilike coll"

definition purchase_pages :: "('s, 'd, 'y) purchase_core \<Rightarrow> int \<Rightarrow> ('s, purchase_failure, gstring purchase) paged_read" where
  "purchase_pages B s = (\<lambda>limit offset. seen_page (reader_purchases_by_supplier (purchase_bridge_reads B) s \<lparr>lw_limit = limit, lw_offset = offset\<rparr>))"

definition product_pages :: "('s, 'd, 'y) purchase_core \<Rightarrow> int \<Rightarrow> ('s, purchase_failure, public_product) paged_read" where
  "product_pages B s = (\<lambda>limit offset. seen_page (reader_products (purchase_bridge_reads B) s \<lparr>lw_limit = limit, lw_offset = offset\<rparr>))"

definition history_pages :: "('s, 'd, 'y) purchase_core \<Rightarrow> int \<Rightarrow> ('s, purchase_failure, public_history) paged_read" where
  "history_pages B r = (\<lambda>limit offset. seen_page (reader_history (purchase_bridge_reads B) r \<lparr>lw_limit = limit, lw_offset = offset\<rparr>))"

definition workbench_pages :: "('s, 'd, 'y) purchase_core \<Rightarrow> workbench_criteria \<Rightarrow> ('s, purchase_failure, gstring workbench_row) paged_read" where
  "workbench_pages B q = (\<lambda>limit offset. seen_page (reader_workbench (purchase_bridge_reads B) (q\<lparr>wc_limit := limit, wc_offset := offset\<rparr>)))"

lemma paged_window:
  assumes "0 < limit" "0 \<le> offset"
  shows "pup_items (paged q limit offset f (page (limit + 1) offset xs)) = take (nat limit) (drop (nat offset) (map f xs))"
    "pup_next (paged q limit offset f (page (limit + 1) offset xs)) \<longleftrightarrow> nat offset + nat limit < length xs"
  using overfetched[OF assms, of xs] assms by (auto simp: paged_def page_def take_map drop_map min_def split: if_splits)

lemma bridge_list_window:
  assumes "\<And>k. 0 < k \<Longrightarrow> fetch k offset db = (Inr (page k offset xs), db)" "addable limit" "0 \<le> offset"
  shows "seen_page (bridge_list fetch f \<lparr>lw_limit = limit, lw_offset = offset\<rparr>) db
    = (Inr (take (nat (effectiveLimit limit)) (drop (nat offset) (map f xs)), nat offset + nat (effectiveLimit limit) < length (map f xs)), db)"
  using assms(1)[of "effectiveLimit limit + 1"] effectiveLimit_pos[of limit]
  by (simp add: seen_page_def bridge_list_def purchase_errors_def map_err_run bnd_run one_more_effective[OF assms(2)]
      paged_window[OF effectiveLimit_pos assms(3)] Let_def)

lemmas purchase_run = pg_purchases_def sound_purchases_def purchase_repository_def purchase_ready_def pool_ready_def no_faults_def stmt_def
  wrapped_def map_err_run bnd_run asks_def lift_def pur_valid_id_def

lemma readable_page:
  assumes "readable (mapr f xs)"
  shows "mapr f (page l o' xs) = Inr (page l o' (decoded (mapr f xs)))"
  using assms mapr_page unfolding readable_def decoded_def by fastforce

lemma repository_pages:
  assumes "0 < k" "0 \<le> offset" "0 < i"
  shows "readable (purchases_of D i db) \<Longrightarrow> list_purchases_by_supplier (pcr_repo (sound_purchases D digest X now ilike coll)) i k offset db
      = (Inr (page k offset (decoded (purchases_of D i db))), db)"
    "list_supplier_products (pcr_repo (sound_purchases D digest X now ilike coll)) i k offset db = (Inr (page k offset (products_of coll i db)), db)"
    "readable (history_of D i db) \<Longrightarrow> list_lines_by_resource (pcr_repo (sound_purchases D digest X now ilike coll)) i k offset db
      = (Inr (page k offset (decoded (history_of D i db))), db)"
proof -
  have lim: "sql_limit k = k" "sql_offset offset = offset" using assms by (simp_all add: sql_limit_def sql_offset_def)
  show "readable (purchases_of D i db) \<Longrightarrow> list_purchases_by_supplier (pcr_repo (sound_purchases D digest X now ilike coll)) i k offset db
      = (Inr (page k offset (decoded (purchases_of D i db))), db)"
    using assms(3) unfolding purchases_of_def
    by (simp add: readable_page list_purchases_by_supplier_def ListPurchasesBySupplier_def purchase_run lim)
  show "list_supplier_products (pcr_repo (sound_purchases D digest X now ilike coll)) i k offset db = (Inr (page k offset (products_of coll i db)), db)"
    using assms(3) by (simp add: list_supplier_products_def ListSupplierProducts_def purchase_run lim products_of_def)
  show "readable (history_of D i db) \<Longrightarrow> list_lines_by_resource (pcr_repo (sound_purchases D digest X now ilike coll)) i k offset db
      = (Inr (page k offset (decoded (history_of D i db))), db)"
    using assms(3) unfolding history_of_def
    by (simp add: readable_page list_lines_by_resource_def ListPurchaseLinesByResource_def purchase_run lim)
qed

lemma purchase_window:
  assumes "0 < s \<and> readable (purchases_of D s db)" "addable limit" "0 \<le> offset"
  shows "purchase_pages (sound_purchases D digest X now ilike coll) s limit offset db
    = (Inr (take (nat (effectiveLimit limit)) (drop (nat offset) (map (mapPurchase D) (decoded (purchases_of D s db)))),
        nat offset + nat (effectiveLimit limit) < length (map (mapPurchase D) (decoded (purchases_of D s db)))), db)"
proof -
  let ?R = "pcr_repo (sound_purchases D digest X now ilike coll)"
  note rows = bridge_list_window[where fetch = "list_purchases_by_supplier ?R s" and db = db and f = "mapPurchase D", OF repository_pages(1) assms(2,3)]
  show ?thesis using assms rows
    by (simp add: purchase_pages_def reader_purchases_by_supplier_def shaped_def needs_def purchase_bridge_reads_def Let_def
      bridge_purchases_by_supplier_def sound_purchases_def pg_purchases_def)
qed

lemma product_window:
  assumes "0 < s" "addable limit" "0 \<le> offset"
  shows "product_pages (sound_purchases D digest X now ilike coll) s limit offset db
    = (Inr (take (nat (effectiveLimit limit)) (drop (nat offset) (map mapSupplierProduct (products_of coll s db))),
        nat offset + nat (effectiveLimit limit) < length (map mapSupplierProduct (products_of coll s db))), db)"
proof -
  let ?R = "pcr_repo (sound_purchases D digest X now ilike coll)"
  note rows = bridge_list_window[where fetch = "list_supplier_products ?R s" and db = db and f = "mapSupplierProduct", OF repository_pages(2) assms(2,3)]
  show ?thesis using assms rows
    by (simp add: product_pages_def reader_products_def shaped_def needs_def purchase_bridge_reads_def Let_def bridge_products_def)
qed

lemma history_window:
  assumes "0 < r \<and> readable (history_of D r db)" "addable limit" "0 \<le> offset"
  shows "history_pages (sound_purchases D digest X now ilike coll) r limit offset db
    = (Inr (take (nat (effectiveLimit limit)) (drop (nat offset) (map (mapPurchaseLineHistory D) (decoded (history_of D r db)))),
        nat offset + nat (effectiveLimit limit) < length (map (mapPurchaseLineHistory D) (decoded (history_of D r db)))), db)"
proof -
  let ?R = "pcr_repo (sound_purchases D digest X now ilike coll)"
  note rows = bridge_list_window[where fetch = "list_lines_by_resource ?R r" and db = db and f = "mapPurchaseLineHistory D", OF repository_pages(3) assms(2,3)]
  show ?thesis using assms rows
    by (simp add: history_pages_def reader_history_def shaped_def needs_def purchase_bridge_reads_def Let_def
      bridge_history_def sound_purchases_def pg_purchases_def)
qed

definition workbench_served :: "'d decimal_ops \<Rightarrow> (gstring \<Rightarrow> gstring \<Rightarrow> bool) \<Rightarrow> workbench_criteria \<Rightarrow> 'x purchase_db_scheme \<Rightarrow> bool" where
  "workbench_served D ilike q db \<longleftrightarrow> validatePurchaseLineQuery (q\<lparr>wc_limit := 0, wc_offset := 0\<rparr>) = None \<and> readable (workbench_of D ilike q db)"

definition workbench_allowed :: "int \<Rightarrow> bool" where
  "workbench_allowed limit \<longleftrightarrow> 0 \<le> limit \<and> limit \<le> 50"

lemma line_limit_pos: "0 < effectivePurchaseLineLimit limit"
  by (simp add: effectivePurchaseLineLimit_def)

lemma condition_ignores_window:
  "workbench_condition ilike (q\<lparr>wc_offset := off, wc_limit := k\<rparr>) = workbench_condition ilike q"
  by (simp add: workbench_condition_def fun_eq_iff)

lemma workbench_window:
  assumes "workbench_served D ilike q db" "workbench_allowed limit" "0 \<le> offset"
  shows "workbench_pages (sound_purchases D digest X now ilike coll) q limit offset db
    = (Inr (take (nat (effectivePurchaseLineLimit limit)) (drop (nat offset) (map (mapPurchaseLineRow D) (decoded (workbench_of D ilike q db)))),
        nat offset + nat (effectivePurchaseLineLimit limit) < length (map (mapPurchaseLineRow D) (decoded (workbench_of D ilike q db)))), db)"
proof -
  let ?k = "effectivePurchaseLineLimit limit"
  have lim: "workbench_limit (?k + 1) = ?k + 1" "sql_offset offset = offset"
    using assms(2,3) by (auto simp: workbench_limit_def effectivePurchaseLineLimit_def sql_offset_def workbench_allowed_def)
  have rows: "list_workbench (pcr_repo (sound_purchases D digest X now ilike coll)) (q\<lparr>wc_offset := offset, wc_limit := ?k + 1\<rparr>) db
      = (Inr (page (?k + 1) offset (decoded (workbench_of D ilike q db))), db)"
    using assms(1) unfolding workbench_of_def workbench_served_def
    by (simp add: readable_page list_workbench_def ListPurchaseLinesWorkbench_def purchase_run lim condition_ignores_window)
  have shape: "validatePurchaseLineQuery (q\<lparr>wc_limit := limit, wc_offset := offset\<rparr>) = None"
    using assms by (auto simp: workbench_served_def validatePurchaseLineQuery_def workbench_allowed_def split: if_splits)
  have decimals: "pcr_decimals (sound_purchases D digest X now ilike coll) = D" by (simp add: sound_purchases_def pg_purchases_def)
  show ?thesis
    by (simp add: workbench_pages_def reader_workbench_def shape shaped_def seen_page_def purchase_bridge_reads_def bridge_workbench_def Let_def
        purchase_errors_def map_err_run bnd_run rows decimals paged_window[OF line_limit_pos assms(3)])
qed

interpretation purchases: paged_rows "purchase_pages (sound_purchases D digest X now ilike coll) s" effectiveLimit addable
  "\<lambda>db. map (mapPurchase D) (decoded (purchases_of D s db))" "\<lambda>db. 0 < s \<and> readable (purchases_of D s db)"
  by unfold_locales (simp add: effectiveLimit_pos, rule purchase_window)

interpretation products: paged_rows "product_pages (sound_purchases D digest X now ilike coll) s" effectiveLimit addable
  "\<lambda>db. map mapSupplierProduct (products_of coll s db)" "\<lambda>db. 0 < s"
  by unfold_locales (simp add: effectiveLimit_pos, rule product_window)

interpretation history: paged_rows "history_pages (sound_purchases D digest X now ilike coll) r" effectiveLimit addable
  "\<lambda>db. map (mapPurchaseLineHistory D) (decoded (history_of D r db))" "\<lambda>db. 0 < r \<and> readable (history_of D r db)"
  by unfold_locales (simp add: effectiveLimit_pos, rule history_window)

interpretation workbench: paged_rows "workbench_pages (sound_purchases D digest X now ilike coll) q" effectivePurchaseLineLimit workbench_allowed
  "\<lambda>db. map (mapPurchaseLineRow D) (decoded (workbench_of D ilike q db))" "workbench_served D ilike q"
  by unfold_locales (simp add: line_limit_pos, rule workbench_window)

text \<open>C16: A client that reads the purchases of a supplier, the purchase history of a resource or the workbench of lines
  page by page, asking for the next page as long as the answer says there is one, gets exactly the stored purchases, lines
  or matching rows, each once and most recent first, with every amount rendered as its decimal text, provided the stored
  amounts can be decoded.\<close>

theorem purchase_listings_complete:
  assumes "addable limit" "0 < s" "0 < r" "purchases_of D s db = Inr ps" "history_of D r db = Inr hs"
    and "workbench_allowed lines" "validatePurchaseLineQuery (q\<lparr>wc_limit := 0, wc_offset := 0\<rparr>) = None" "workbench_of D ilike q db = Inr ws"
  shows "walk (Suc (length ps)) effectiveLimit (purchase_pages (sound_purchases D digest X now ilike coll) s) limit 0 db = (Inr (map (mapPurchase D) ps), db)
    \<and> walk (Suc (length hs)) effectiveLimit (history_pages (sound_purchases D digest X now ilike coll) r) limit 0 db = (Inr (map (mapPurchaseLineHistory D) hs), db)
    \<and> walk (Suc (length ws)) effectivePurchaseLineLimit (workbench_pages (sound_purchases D digest X now ilike coll) q) lines 0 db = (Inr (map (mapPurchaseLineRow D) ws), db)"
  using assms purchases.walk_complete[of s D db limit "length ps" digest X now ilike coll]
    history.walk_complete[of r D db limit "length hs" digest X now ilike coll]
    workbench.walk_complete[of D ilike q db lines "length ws" digest X now coll]
  by (simp add: decoded_def readable_def workbench_served_def del: walk.simps)

definition linked_lines :: workbench_criteria where
  "linked_lines = \<lparr>wc_limit = 0, wc_offset = 0, wc_supplier = Some 1, wc_status = LinkLinked, wc_from = None, wc_to = None,
     wc_invoice = [], wc_sku = [], wc_description = []\<rparr>"

text \<open>What the witnesses need of the example, evaluated in one go.\<close>

definition listed_rows :: "purchase_db \<Rightarrow> bool" where
  "listed_rows db \<longleftrightarrow> (case purchases_of demo_decimals 1 db of Inr ps \<Rightarrow> length ps = 1 | Inl _ \<Rightarrow> False)
     \<and> (case history_of demo_decimals 5 db of Inr hs \<Rightarrow> length hs = 2 | Inl _ \<Rightarrow> False)
     \<and> (case workbench_of demo_decimals (=) linked_lines db of Inr ws \<Rightarrow> length ws = 2 | Inl _ \<Rightarrow> False)
     \<and> (case map_of (pdb_products db) 1 of Some r \<Rightarrow> mapping_effect (Unlink 5) (sp_mapping r) \<noteq> None | None \<Rightarrow> False)"

lemma demo_rows: "listed_rows demo_purchases"
  by code_simp

theorem purchase_listings_complete_witness:
  "\<exists>hs ws. length hs = 2 \<and> length ws = 2 \<and> (\<forall>X :: unit xml_decoder.
     walk 3 effectiveLimit (history_pages (sound_purchases demo_decimals (\<lambda>x. x) X 0 (=) (\<lambda>x. x)) 5) 1 0 demo_purchases
       = (Inr (map (mapPurchaseLineHistory demo_decimals) hs), demo_purchases)
     \<and> walk 3 effectivePurchaseLineLimit (workbench_pages (sound_purchases demo_decimals (\<lambda>x. x) X 0 (=) (\<lambda>x. x)) linked_lines) 1 0 demo_purchases
       = (Inr (map (mapPurchaseLineRow demo_decimals) ws), demo_purchases))"
proof -
  from demo_rows obtain ps hs ws where rows: "purchases_of demo_decimals 1 demo_purchases = Inr ps" "history_of demo_decimals 5 demo_purchases = Inr hs"
    "workbench_of demo_decimals (=) linked_lines demo_purchases = Inr ws" "length hs = 2" "length ws = 2" by (auto simp: listed_rows_def split: sum.splits)
  have shape: "addable 1" "(0::int) < 1" "(0::int) < 5" "workbench_allowed 1"
    "validatePurchaseLineQuery (linked_lines\<lparr>wc_limit := 0, wc_offset := 0\<rparr>) = None" by code_simp+
  have three: "Suc 2 = 3" by simp
  show ?thesis
  proof (intro exI[of _ hs] exI[of _ ws] conjI allI)
    fix X :: "unit xml_decoder"
    note all = purchase_listings_complete[OF shape(1-3) rows(1,2) shape(4,5) rows(3), where digest = "\<lambda>x. x" and now = 0 and coll = "\<lambda>x. x"
        and X = X, unfolded rows(4,5) three]
    from all show "walk 3 effectiveLimit (history_pages (sound_purchases demo_decimals (\<lambda>x. x) X 0 (=) (\<lambda>x. x)) 5) 1 0 demo_purchases
       = (Inr (map (mapPurchaseLineHistory demo_decimals) hs), demo_purchases)" by (elim conjE)
    from all show "walk 3 effectivePurchaseLineLimit (workbench_pages (sound_purchases demo_decimals (\<lambda>x. x) X 0 (=) (\<lambda>x. x)) linked_lines) 1 0 demo_purchases
       = (Inr (map (mapPurchaseLineRow demo_decimals) ws), demo_purchases)" by (elim conjE)
  qed (rule rows)+
qed

section \<open>What a refused mapping request answers\<close>

lemma ordered_ids: "set (orderedResourceIDs ids) = {i \<in> set ids. 0 < i}"
proof -
  have "set (gkeys (foldl (\<lambda>m i. if 0 < i then gput i () m else m) m ids)) = set (gkeys m) \<union> {i \<in> set ids. 0 < i}" for m :: "(int, unit) gmap"
    by (induction ids arbitrary: m) (auto simp: gkeys_def dom_map_of_conv_image_fst[symmetric])
  then show ?thesis by (simp add: orderedResourceIDs_def gkeys_def)
qed

lemma lock_each_answers:
  "\<forall>i\<in>set ids. 0 < i \<and> known_resource db i \<Longrightarrow> \<exists>a. lock_each no_faults ids acc db = (Inr a, db)
     \<and> (\<forall>j. map_of a j = (if j \<in> set ids then Some (is_active db j) else map_of acc j))"
proof (induction ids arbitrary: acc)
  case (Cons i ids)
  then obtain r where r: "map_of (pdb_resources db) i = Some r" "0 < i" by (auto simp: known_resource_def)
  from Cons obtain a where "lock_each no_faults ids (gput i (rr_active r) acc) db = (Inr a, db)"
    "\<forall>j. map_of a j = (if j \<in> set ids then Some (is_active db j) else map_of (gput i (rr_active r) acc) j)" by fastforce
  with r show ?case by (auto simp: lockResource_def stmt_def no_faults_def query_row_def map_err_run bnd_run is_active_def)
qed (simp add: ret_def)

lemma locks_answer:
  assumes "\<forall>i\<in>set ids. 0 < i \<and> known_resource db i"
  obtains a where "lockResources no_faults ids db = (Inr a, db)" "\<And>j. j \<in> set ids \<Longrightarrow> map_of a j = Some (is_active db j)"
proof -
  from assms have "\<forall>i\<in>set (orderedResourceIDs ids). 0 < i \<and> known_resource db i" by (simp add: ordered_ids)
  then obtain a where a: "lock_each no_faults (orderedResourceIDs ids) [] db = (Inr a, db)"
    "\<forall>j. map_of a j = (if j \<in> set (orderedResourceIDs ids) then Some (is_active db j) else map_of [] j)"
    using lock_each_answers by blast
  have "\<not> (\<exists>i\<in>set ids. i \<le> 0)" using assms by force
  with a(1) have "lockResources no_faults ids db = (Inr a, db)" by (simp add: lockResources_def)
  moreover have "map_of a j = Some (is_active db j)" if "j \<in> set ids" for j using a(2) that assms by (simp add: ordered_ids)
  ultimately show thesis by (rule that)
qed

lemma ready: "purchase_ready no_faults = ret ()"
  by (simp add: purchase_ready_def pool_ready_def no_faults_def)

lemma transition_refused:
  assumes "map_of (pdb_products db) i = Some row" "body (joined_product db row) db = (Inl e, db)"
  shows "runMappingTransition no_faults applied now i expected body db = (Inl e, db)"
  using assms by (simp add: runMappingTransition_def purchase_ready_def pool_ready_def no_faults_def transact_def stmt_def query_row_def
      map_err_run bnd_run product_by_id_def flip: undo_self)

text \<open>A command whose target is active reaches the domain, whose refusal is the answer of the store.\<close>

lemma store_refuses:
  assumes inv: "purchase_inv db" and row: "map_of (pdb_products db) i = Some row" and m: "mapping_effect c (sp_mapping row) = Some m"
    and target: "pred_option (is_active db) (command_target c)"
    and refused: "run_mapping c expected d (joined_product db row) = Inl e"
  shows "store_mapping no_faults applied now i c expected d db = (Inl e, db)"
proof -
  have known: "known_resource db j" if "is_active db j" for j
    using that by (auto simp: is_active_def known_resource_def split: option.splits)
  have current: "known_resource db j" if "pm_resource (sp_mapping row) = Some j" for j
    using stored_product[OF inv row] that by (simp add: product_row_def)
  show ?thesis
  proof (cases c)
    case (Confirm r)
    then show ?thesis using refused by (simp add: store_confirm_def transition_refused[OF row] bnd_run)
  next
    case (Correct k r)
    then have ids: "\<forall>i\<in>set [k, r]. 0 < i \<and> known_resource db i" using m target known current by (auto split: if_splits)
    from locks_answer[OF ids] obtain a where "lockResources no_faults [k, r] db = (Inr a, db)" "map_of a r = Some (is_active db r)" by auto
    then show ?thesis using Correct refused target
      by (simp add: store_correct_def transition_refused[OF row] bnd_run requireTargetActive_def ready)
  next
    case (Unlink k)
    then have ids: "\<forall>i\<in>set [k]. 0 < i \<and> known_resource db i" using m current by (auto split: if_splits)
    from locks_answer[OF ids] obtain a where "lockResources no_faults [k] db = (Inr a, db)" by auto
    then show ?thesis using Unlink refused by (simp add: store_unlink_def transition_refused[OF row] bnd_run)
  next
    case (ReportConflict k)
    then have ids: "\<forall>i\<in>set [k]. 0 < i \<and> known_resource db i" using m current by (auto split: if_splits)
    from locks_answer[OF ids] obtain a where "lockResources no_faults [k] db = (Inr a, db)" by auto
    then show ?thesis using ReportConflict refused by (simp add: store_report_def transition_refused[OF row] bnd_run)
  next
    case (ResolveConflict k r)
    then have ids: "\<forall>i\<in>set [k, r]. 0 < i \<and> known_resource db i" using m target known current by (auto split: if_splits)
    from locks_answer[OF ids] obtain a where "lockResources no_faults [k, r] db = (Inr a, db)" "map_of a r = Some (is_active db r)" by auto
    then show ?thesis using ResolveConflict refused target
      by (simp add: store_resolve_def transition_refused[OF row] bnd_run requireTargetActive_def)
  qed
qed

lemma blank_reason_refused:
  assumes "mapping_effect c (sp_mapping sp) = Some m" "needs_reason c" "validDecision d = None" "trim_space (dm_reason d) = []"
  shows "run_mapping c expected d sp = Inl (Wrapf ''%w: reason is required'' [] [pur_error ErrInvalidDecisionMetadata])"
proof -
  obtain q k where sp: "sp_mapping sp = \<lparr>pm_resource = q, pm_conflict = k\<rparr>" by (cases "sp_mapping sp") simp
  have "decision_error d True = Some (Wrapf ''%w: reason is required'' [] [pur_error ErrInvalidDecisionMetadata])"
    using assms(3,4) by (auto simp: validDecision_def needs_def decision_error_def split: if_splits)
  then show ?thesis using assms(1,2) sp
    by (cases c; cases q) (auto simp: mapping_defs check_def Let_def split: if_splits)
qed

lemma stale_revision_refused:
  assumes "mapping_effect c (sp_mapping sp) = Some m" "decision_error d (needs_reason c) = None" "sp_revision sp \<noteq> expected"
  shows "\<exists>e. run_mapping c expected d sp = Inl e \<and> mapPurchaseError (wrap_read name e)
    = PurchaseFailure StaleMappingRevision ''supplier product mapping revision is stale''"
proof -
  obtain q k where sp: "sp_mapping sp = \<lparr>pm_resource = q, pm_conflict = k\<rparr>" by (cases "sp_mapping sp") simp
  show ?thesis using assms sp
    by (cases c; cases q) (auto simp: mapping_defs check_def Let_def mapPurchaseError_def wrap_read_def pur_error_def wraps_simps split: if_splits)
qed

lemma command_positive:
  "mapping_effect c m = Some m' \<Longrightarrow> list_all (\<lambda>i. 0 < i) (command_ids c) \<and> mapping_checks c = None"
  by (cases c) (auto simp: pur_valid_id_def split: if_splits)

lemma refused_answer:
  assumes inv: "purchase_inv db" and row: "map_of (pdb_products db) i = Some row" and m: "mapping_effect c (sp_mapping row) = Some m"
    and target: "pred_option (is_active db) (command_target c)" and d: "validDecision d = None"
    and refused: "run_mapping c expected d (joined_product db row) = Inl e"
  shows "writer_mapping (purchase_bridge_writes (sound_purchases D digest X now ilike coll))
      \<lparr>mq_product = i, mq_command = c, mq_expected = expected, mq_decision = d\<rparr> db
    = (Inl (mapPurchaseError (wrap_read (mapping_name c) e)), db)"
proof -
  have "0 < i" using stored_product[OF inv row] by (simp add: product_row_def)
  moreover have "decisionMetadata d = d" by (simp add: decisionMetadata_def)
  moreover have "pr_mapping (pcr_repo (sound_purchases D digest X now ilike coll)) i c expected d db = store_mapping no_faults False now i c expected d db"
    by (simp add: sound_purchases_def pg_purchases_def purchase_repository_def)
  ultimately show ?thesis using command_positive[OF m] d store_refuses[OF inv row m target refused, of False now]
    by (simp add: writer_mapping_def shaped_def needs_def purchase_bridge_writes_def bridge_mapping_def fetched_as_def purchase_errors_def
        change_mapping_def pur_valid_id_def wrapped_def map_err_run bnd_run)
qed

text \<open>C27: A mapping request of the public writer that the domain would accept but for its reason or its revision: without
  the reason that every command but a confirmation needs it answers INTERNAL, the code of an unexpected failure, and with
  another revision than the stored one STALE_MAPPING_REVISION; the tables stay as they are.\<close>

theorem mapping_refusal_answers:
  assumes "purchase_inv db" "map_of (pdb_products db) i = Some row" "mapping_effect c (sp_mapping row) = Some m"
    and "pred_option (is_active db) (command_target c)" "validDecision d = None"
    and "needs_reason c \<and> trim_space (dm_reason d) = [] \<or> sp_revision row \<noteq> expected"
  shows "writer_mapping (purchase_bridge_writes (sound_purchases D digest X now ilike coll))
      \<lparr>mq_product = i, mq_command = c, mq_expected = expected, mq_decision = d\<rparr> db
    = (Inl (if needs_reason c \<and> trim_space (dm_reason d) = []
        then PurchaseFailure (Shared error_code.Internal) ''purchase master operation failed''
        else PurchaseFailure StaleMappingRevision ''supplier product mapping revision is stale''), db)"
proof -
  have m: "mapping_effect c (sp_mapping (joined_product db row)) = Some m" using assms(3) by (simp add: joined_product_def)
  show ?thesis
  proof (cases "needs_reason c \<and> trim_space (dm_reason d) = []")
    case True
    have "mapPurchaseError (wrap_read (mapping_name c) (Wrapf ''%w: reason is required'' [] [pur_error ErrInvalidDecisionMetadata]))
      = PurchaseFailure (Shared error_code.Internal) ''purchase master operation failed''"
      by (simp add: mapPurchaseError_def wrap_read_def pur_error_def wraps_simps)
    with True refused_answer[OF assms(1-5) blank_reason_refused[OF m _ assms(5)]] show ?thesis by simp
  next
    case False
    then have "decision_error d (needs_reason c) = None" "sp_revision (joined_product db row) \<noteq> expected"
      using assms(5,6) by (auto simp: validDecision_def needs_def decision_error_def joined_product_def split: if_splits)
    from stale_revision_refused[OF m this, of "mapping_name c"] obtain e where e: "run_mapping c expected d (joined_product db row) = Inl e"
      "mapPurchaseError (wrap_read (mapping_name c) e) = PurchaseFailure StaleMappingRevision ''supplier product mapping revision is stale''" by blast
    show ?thesis using refused_answer[OF assms(1-5) e(1)] False by (auto simp: e(2))
  qed
qed

theorem mapping_refusal_answers_witness:
  "\<forall>X :: unit xml_decoder. writer_mapping (purchase_bridge_writes (sound_purchases demo_decimals (\<lambda>x. x) X 0 (=) (\<lambda>x. x)))
      \<lparr>mq_product = 1, mq_command = Unlink 5, mq_expected = 1, mq_decision = demo_decision\<lparr>dm_reason := '' ''\<rparr>\<rparr> demo_purchases
    = (Inl (PurchaseFailure (Shared error_code.Internal) ''purchase master operation failed''), demo_purchases)"
proof
  fix X :: "unit xml_decoder"
  from demo_rows obtain row m where row: "map_of (pdb_products demo_purchases) 1 = Some row" "mapping_effect (Unlink 5) (sp_mapping row) = Some m"
    unfolding listed_rows_def by (auto split: option.splits)
  have d: "validDecision (demo_decision\<lparr>dm_reason := '' ''\<rparr>) = None" "trim_space (dm_reason (demo_decision\<lparr>dm_reason := '' ''\<rparr>)) = []"
    by code_simp+
  from mapping_refusal_answers[OF reachable_inv[OF demo_reachable] row _ d(1)] d(2)
  show "writer_mapping (purchase_bridge_writes (sound_purchases demo_decimals (\<lambda>x. x) X 0 (=) (\<lambda>x. x)))
      \<lparr>mq_product = 1, mq_command = Unlink 5, mq_expected = 1, mq_decision = demo_decision\<lparr>dm_reason := '' ''\<rparr>\<rparr> demo_purchases
    = (Inl (PurchaseFailure (Shared error_code.Internal) ''purchase master operation failed''), demo_purchases)" by simp
qed

end
