(* ===== verification/SupplierWriteTheorems.thy ===== *)
theory SupplierWriteTheorems
  imports SupplierTheorems
begin

text \<open>
  What the nine writing use cases of the supplier master do to the tables, whatever statement fails, and what
  the requests about contacts answer.
\<close>

section \<open>The rows a call writes\<close>

text \<open>Details are stored without surrounding white space, every text of them.\<close>

definition supplier_texts :: "supplier_details \<Rightarrow> supplier \<Rightarrow> supplier" where
  "supplier_texts d s = s\<lparr>su_trade := trim_space (su_trade d), su_legal := trim_space (su_legal d), su_tax := trim_space (su_tax d),
     su_website := trim_space (su_website d), su_notes := trim_space (su_notes d)\<rparr>"

definition branch_texts :: "branch_details \<Rightarrow> branch \<Rightarrow> branch" where
  "branch_texts d b = b\<lparr>bh_name := trim_space (bh_name d), bh_reference := trim_space (bh_reference d), bh_city := trim_space (bh_city d),
     bh_state := trim_space (bh_state d), bh_country := trim_space (bh_country d), bh_address := trim_space (bh_address d),
     bh_phone := trim_space (bh_phone d), bh_email := trim_space (bh_email d), bh_notes := trim_space (bh_notes d)\<rparr>"

definition contact_texts :: "contact_details \<Rightarrow> contact \<Rightarrow> contact" where
  "contact_texts d c = c\<lparr>co_branch := co_branch d, co_name := trim_space (co_name d), co_role := trim_space (co_role d),
     co_phone := trim_space (co_phone d), co_mobile := trim_space (co_mobile d), co_email := trim_space (co_email d),
     co_notes := trim_space (co_notes d)\<rparr>"

definition blank_supplier :: "int \<Rightarrow> int \<Rightarrow> supplier" where
  "blank_supplier now i = \<lparr>su_trade = [], su_legal = [], su_tax = [], su_website = [], su_notes = [], su_id = i, su_active = True,
     su_created = now, su_updated = now\<rparr>"

definition blank_branch :: "int \<Rightarrow> int \<Rightarrow> int \<Rightarrow> branch" where
  "blank_branch now supplierID i = \<lparr>bh_name = [], bh_reference = [], bh_city = [], bh_state = [], bh_country = [], bh_address = [],
     bh_phone = [], bh_email = [], bh_notes = [], bh_id = i, bh_supplier = supplierID, bh_active = True, bh_created = now, bh_updated = now\<rparr>"

definition blank_contact :: "int \<Rightarrow> int \<Rightarrow> int \<Rightarrow> contact" where
  "blank_contact now supplierID i = \<lparr>co_branch = None, co_name = [], co_role = [], co_phone = [], co_mobile = [], co_email = [],
     co_notes = [], co_id = i, co_supplier = supplierID, co_active = True, co_created = now, co_updated = now\<rparr>"

definition identified :: "supplier_details \<Rightarrow> bool" where
  "identified d \<longleftrightarrow> trim_space (su_trade d) \<noteq> [] \<or> trim_space (su_legal d) \<noteq> [] \<or> trim_space (su_tax d) \<noteq> []"

definition reachable_contact :: "int \<Rightarrow> contact_details \<Rightarrow> 'x supplier_db_scheme \<Rightarrow> bool" where
  "reachable_contact supplierID d db \<longleftrightarrow> trim_space (co_name d) \<noteq> []
     \<and> (case co_branch d of None \<Rightarrow> True | Some b \<Rightarrow> 0 < b \<and> owns_branch supplierID b db)"

text \<open>The change of a call that is carried out.\<close>

fun call_effect :: "int \<Rightarrow> supplier_call \<Rightarrow> 'x supplier_db_scheme \<Rightarrow> 'x supplier_db_scheme \<Rightarrow> bool" where
  "call_effect now (CallCreateSupplier d) db t \<longleftrightarrow> (let i = sdb_supplier_seq db + 1 in
     identified d \<and> \<not> tax_taken i (trim_space (su_tax d)) db
     \<and> t = db\<lparr>sdb_supplier_seq := i, sdb_suppliers := gput i (supplier_texts d (blank_supplier now i)) (sdb_suppliers db)\<rparr>)"
| "call_effect now (CallUpdateSupplier i d) db t \<longleftrightarrow> (\<exists>old. map_of (sdb_suppliers db) i = Some old
     \<and> identified d \<and> \<not> tax_taken i (trim_space (su_tax d)) db
     \<and> t = db\<lparr>sdb_suppliers := gput i ((supplier_texts d old)\<lparr>su_updated := now\<rparr>) (sdb_suppliers db)\<rparr>)"
| "call_effect now (CallSupplierActive i a) db t \<longleftrightarrow> (\<exists>old. map_of (sdb_suppliers db) i = Some old \<and> su_active old \<noteq> a
     \<and> t = db\<lparr>sdb_suppliers := gput i (old\<lparr>su_active := a, su_updated := now\<rparr>) (sdb_suppliers db)\<rparr>)"
| "call_effect now (CallAddBranch s d) db t \<longleftrightarrow> (let i = sdb_branch_seq db + 1 in map_of (sdb_suppliers db) s \<noteq> None
     \<and> t = db\<lparr>sdb_branch_seq := i, sdb_branches := gput i (branch_texts d (blank_branch now s i)) (sdb_branches db)\<rparr>)"
| "call_effect now (CallUpdateBranch s i d) db t \<longleftrightarrow> (\<exists>old. map_of (sdb_branches db) i = Some old \<and> bh_supplier old = s
     \<and> t = db\<lparr>sdb_branches := gput i ((branch_texts d old)\<lparr>bh_updated := now\<rparr>) (sdb_branches db)\<rparr>)"
| "call_effect now (CallBranchActive s i a) db t \<longleftrightarrow> (\<exists>old. map_of (sdb_branches db) i = Some old \<and> bh_supplier old = s \<and> bh_active old \<noteq> a
     \<and> t = db\<lparr>sdb_branches := gput i (old\<lparr>bh_active := a, bh_updated := now\<rparr>) (sdb_branches db)\<rparr>)"
| "call_effect now (CallAddContact s d) db t \<longleftrightarrow> (let i = sdb_contact_seq db + 1 in map_of (sdb_suppliers db) s \<noteq> None \<and> reachable_contact s d db
     \<and> t = db\<lparr>sdb_contact_seq := i, sdb_contacts := gput i (contact_texts d (blank_contact now s i)) (sdb_contacts db)\<rparr>)"
| "call_effect now (CallUpdateContact s i d) db t \<longleftrightarrow> (\<exists>old. map_of (sdb_contacts db) i = Some old \<and> co_supplier old = s \<and> reachable_contact s d db
     \<and> t = db\<lparr>sdb_contacts := gput i ((contact_texts d old)\<lparr>co_updated := now\<rparr>) (sdb_contacts db)\<rparr>)"
| "call_effect now (CallContactActive s i a) db t \<longleftrightarrow> (\<exists>old. map_of (sdb_contacts db) i = Some old \<and> co_supplier old = s \<and> co_active old \<noteq> a
     \<and> t = db\<lparr>sdb_contacts := gput i (old\<lparr>co_active := a, co_updated := now\<rparr>) (sdb_contacts db)\<rparr>)"

text \<open>A call that is not carried out: only the registration of a supplier can get as far as the sequence and be refused
  by the server, because of its tax identifier.\<close>

definition call_refused :: "supplier_call \<Rightarrow> 'x supplier_db_scheme \<Rightarrow> 'x supplier_db_scheme \<Rightarrow> bool" where
  "call_refused c db t \<longleftrightarrow> t = db \<or> (\<exists>d. c = CallCreateSupplier d \<and> identified d
     \<and> tax_taken (sdb_supplier_seq db + 1) (trim_space (su_tax d)) db \<and> t = db\<lparr>sdb_supplier_seq := sdb_supplier_seq db + 1\<rparr>)"

section \<open>Steps\<close>











section \<open>The effect of every call\<close>

lemma exact_forms:
  "NewSupplier d = Inr v \<longleftrightarrow> identified d \<and> v = supplier_texts d (blank_supplier 0 0)"
  "NewBranch j bd = Inr b \<longleftrightarrow> 0 < j \<and> b = branch_texts bd (blank_branch 0 j 0)"
  "NewContact j cd = Inr c \<longleftrightarrow> 0 < j \<and> (case co_branch cd of None \<Rightarrow> True | Some i \<Rightarrow> 0 < i) \<and> trim_space (co_name cd) \<noteq> []
     \<and> c = contact_texts cd (blank_contact 0 j 0)"
  by (auto simp: NewSupplier_def canonical_supplier_def identified_def supplier_texts_def blank_supplier_def
      NewBranch_def canonical_branch_def branch_texts_def blank_branch_def
      NewContact_def canonical_contact_def contact_texts_def blank_contact_def Let_def split: option.splits)



definition done_or_refused :: "int \<Rightarrow> supplier_call \<Rightarrow> 'x supplier_db_scheme \<Rightarrow> 'x supplier_db_scheme \<Rightarrow> bool" where
  "done_or_refused now c db t \<longleftrightarrow> call_effect now c db t \<or> call_refused c db t"

lemma refused_same [simp]: "done_or_refused now c db db"
  by (simp add: done_or_refused_def call_refused_def)












lemma owned_contact:
  assumes "map_of (sdb_suppliers db) j \<noteq> None" "trim_space (co_name d) \<noteq> []"
    "case co_branch d of None \<Rightarrow> True | Some b \<Rightarrow> 0 < b \<and> owns_branch j b db"
  shows "reachable_contact j d db" "co_supplier c = j \<Longrightarrow> contact_violation (contact_texts d c) db = None"
  using assms by (auto simp: reachable_contact_def contact_violation_def contact_texts_def btrim_trim split: option.splits)








section \<open>Requests about contacts\<close>

lemmas answered = supplier_repository_def GetSupplier_def GetBranch_def CreateContact_def repo_ready_def pool_ready_def no_faults_def stmt_def
  query_row_def map_err_def bnd_run ret_def fail_def require_def lift_def wrapped_def autocommit_def read_error_def

lemma supplier_answer:
  "get_supplier (supplier_repository no_faults a now ilike coll) j db =
    (if j \<le> 0 then Inl (SupFieldError ''supplier_id'' ''must be positive'')
     else case map_of (sdb_suppliers db) j of None \<Rightarrow> Inl (wrap_read ''get supplier'' (supplier_not_found j)) | Some s \<Rightarrow> Inr s, db)"
  by (simp add: get_supplier_def sup_valid_id_def answered split: option.split)

lemma ownership_answer:
  assumes "0 < j" "case b of None \<Rightarrow> True | Some i \<Rightarrow> 0 < i"
  shows "ensureBranchOwnership (supplier_repository no_faults a now ilike coll) j b db =
    (case b of None \<Rightarrow> Inr ()
     | Some i \<Rightarrow> if owns_branch j i db then Inr ()
         else Inl (Wrapf ''%w: branch %d is outside supplier %d'' [show_int i, show_int j] [sup_error ErrBranchOwnership]), db)"
  using assms by (auto simp: ensureBranchOwnership_def get_branch_def sup_valid_id_def answered find_branch_def owns_branch_def
      branch_not_found_def wrap_read_def sup_error_def wraps_simps split: option.splits)

lemma contact_answer: "insert_contact now v db = (Inr r, t) \<Longrightarrow>
    wrapped ''add contact'' (sr_create_contact (supplier_repository no_faults a now ilike coll) v) db = (Inr r, t)"
  by (simp add: answered)

text \<open>C25: The answer to every request to add a contact, with no failing statement: an identifier that is not positive, a
  supplier that is not stored, a branch number that is not positive and a blank name are refused in this order, each
  with its own error; then a branch that is not stored or is another supplier's is refused as a violated ownership
  before the server is asked to write, so that no number is used up; every other request stores the trimmed details as an active
  contact under the next number and returns that row.\<close>

theorem add_contact_answers:
  "add_contact (supplier_repository no_faults a now ilike coll) j d db =
    (if j \<le> 0 then (Inl (SupFieldError ''supplier_id'' ''must be positive''), db)
     else if map_of (sdb_suppliers db) j = None then (Inl (wrap_read ''get supplier'' (supplier_not_found j)), db)
     else if \<exists>b. co_branch d = Some b \<and> b \<le> 0 then (Inl (SupFieldError ''branch_id'' ''must be positive when provided''), db)
     else if trim_space (co_name d) = [] then (Inl (SupFieldError ''name'' ''is required''), db)
     else case Option.bind (co_branch d) (\<lambda>b. if owns_branch j b db then None else Some b) of
       Some b \<Rightarrow> (Inl (Wrapf ''%w: branch %d is outside supplier %d'' [show_int b, show_int j] [sup_error ErrBranchOwnership]), db)
     | None \<Rightarrow> let i = sdb_contact_seq db + 1; row = contact_texts d (blank_contact now j i) in
         (Inr row, db\<lparr>sdb_contact_seq := i, sdb_contacts := gput i row (sdb_contacts db)\<rparr>))"
proof (cases "NewContact j d")
  case (Inl e)
  then show ?thesis
    by (auto simp: add_contact_def supplier_answer bnd_run lift_def NewContact_def canonical_contact_def Let_def split: option.splits if_splits)
next
  case (Inr v)
  then have ids: "0 < j" "case co_branch v of None \<Rightarrow> True | Some i \<Rightarrow> 0 < i" "co_branch v = co_branch d" "trim_space (co_name d) \<noteq> []"
    by (auto simp: exact_forms contact_texts_def)
  have row: "v\<lparr>co_id := i, co_created := now, co_updated := now\<rparr> = contact_texts d (blank_contact now j i)" for i
    using Inr by (simp add: exact_forms contact_texts_def blank_contact_def)
  have fits: "contact_violation (contact_texts d (blank_contact now j i)) db = None"
    if "map_of (sdb_suppliers db) j \<noteq> None" "case co_branch d of None \<Rightarrow> True | Some b \<Rightarrow> owns_branch j b db" for i
    using that Inr owned_contact(2)[of db j d "blank_contact now j i"] by (auto simp: exact_forms blank_contact_def split: option.splits)
  have put_row: "insert_contact now v db = (Inr (contact_texts d (blank_contact now j (sdb_contact_seq db + 1))),
      db\<lparr>sdb_contact_seq := sdb_contact_seq db + 1, sdb_contacts := gput (sdb_contact_seq db + 1)
        (contact_texts d (blank_contact now j (sdb_contact_seq db + 1))) (sdb_contacts db)\<rparr>)"
    if "map_of (sdb_suppliers db) j \<noteq> None" "case co_branch d of None \<Rightarrow> True | Some b \<Rightarrow> owns_branch j b db"
    using fits[OF that] by (simp add: insert_contact_def Let_def row)
  show ?thesis
    using Inr ids contact_answer[OF put_row] ownership_answer[OF ids(1,2), of a now ilike coll db]
    by (auto simp: add_contact_def supplier_answer bnd_run lift_def Let_def split: option.splits)
qed

end
