(* ===== verification/Spec2Isabelle.thy ===== *)
theory Spec2Isabelle
  imports ResourceTheorems ErrorTheorems CatalogValidateTheorems CatalogMutationTheorems CatalogServiceTheorems
    OrderStoreTheorems CatalogEquivalence ResourceServiceTheorems SupplierTheorems PurchaseDomainTheorems
    LineStatusTheorems PurchaseServiceTheorems ResourceStoreTheorems
    ResourceReadTheorems SupplierBridgeTheorems PurchaseBridgeTheorems SupplierWriteTheorems
begin

text \<open>
  A model of the GARFEX back end: a catalogue of construction resources, the resources built from it, the
  master of suppliers and the purchases imported from CFDI invoices, over PostgreSQL. Every definition is
  translated from the Go sources under \<^verbatim>\<open>src/\<close> and is executable; the text block that opens each theory
  names the files it models.

  \<^bold>\<open>How the program is put together.\<close> \<^verbatim>\<open>internal/domain\<close> holds the resource master: the catalogue (classes,
  families, types, characteristics, option sets, options, relations, units, policies, bindings, presentation
  fields) and resources, whose identity key is computed from the identifying values. \<^verbatim>\<open>internal/app\<close> holds the
  use cases over repository interfaces, \<^verbatim>\<open>internal/postgres\<close> and \<^verbatim>\<open>internal/modules/*/postgres\<close> implement
  them in SQL, \<^verbatim>\<open>internal/modules/suppliers\<close> and \<^verbatim>\<open>internal/modules/purchases\<close> are two modules of the same
  shape, \<^verbatim>\<open>cfdicore\<close> reads invoices, \<^verbatim>\<open>internal/core\<close> classifies errors at the boundary.

  \<^bold>\<open>Conventions.\<close> A struct is a record whose fields carry a prefix, a Go string a list of code points up to
  U+00FF, an error a value of \<open>go_error\<close> (sentinels, wrapping, joined errors), a fallible function a sum, a
  stateful method an action of \<open>GoState\<close> that returns the state also when it fails. Revisions are 64-bit
  words, unit and line positions integers. A repository interface is a record of operations or a locale; each
  locale is interpreted on the model of the code that provides it.

  \<^bold>\<open>The theories.\<close>
  \<^item> Shared: \<open>GoPrelude\<close> (strings, results, maps), \<open>Errors\<close> (sentinels and \<^verbatim>\<open>core.Map\<close>), \<open>GoState\<close> (actions),
    \<open>Sql\<close> (statements, transactions, paging).
  \<^item> Catalogue and resources: \<open>CatalogTypes\<close>, \<open>Canonical\<close>, \<open>CatalogQuery\<close>, \<open>CatalogValidate\<close>, \<open>ResourceModel\<close>,
    \<open>SeedCatalog\<close>, \<open>CatalogEquivalence\<close>; lemmas in \<open>ResourceLemmas\<close>, properties in \<open>ResourceTheorems\<close>,
    \<open>ErrorTheorems\<close>, \<open>CatalogValidateTheorems\<close>. They show what the identity key identifies, that created
    resources are canonical and survive the store, what \<^verbatim>\<open>Validate\<close> decides, which queries return what.
  \<^item> Catalogue administration: \<open>CatalogKinds\<close>, \<open>CatalogMutation\<close> and its lemmas and theorems, \<open>CatalogService\<close>
    (\<^verbatim>\<open>internal/app/catalogo\<close>) and its theorems: a write publishes exactly one valid catalogue or nothing.
  \<^item> Attribute order: \<open>AttributeOrder\<close>, \<open>OrderStore\<close>, \<open>OrderStoreTheorems\<close>: the compare-and-swap of a saved
    permutation.
  \<^item> Resources: \<open>ResourceService\<close> (\<^verbatim>\<open>internal/app/recursos\<close>), \<open>ResourceServiceTheorems\<close>.
  \<^item> Catalogue database: \<open>CatalogTables\<close> (the tables of \<^verbatim>\<open>migrations\<close> with every constraint, and the SQL
    statements over them), \<open>CatalogLoader\<close> (\<^verbatim>\<open>catalog_loader.go\<close>), \<open>CatalogKindStore\<close> (\<^verbatim>\<open>catalog_admin_kinds.go\<close> and
    the repository over it), \<open>CatalogStoreV2\<close> (the revision-aware repository). \<open>CatalogStoreInvariant\<close> shows that
    every statement keeps the constraints, \<open>CatalogLoadTheorems\<close> that the loader then loses no row and leaves no
    code dangling, \<open>CatalogStoreTheorems\<close> that a successful write is the announced mutation,
    \<open>CatalogRevisionTheorems\<close> what the expected revision decides, \<open>CatalogSnapshotTheorems\<close> that the snapshot of
    the service is the database as long as commits are acknowledged, and what happens when one is not.
  \<^item> Resource database: \<open>ResourceStore\<close> (\<^verbatim>\<open>resource_repository_*.go\<close>: codec, effective values, writes, lifecycle,
    search), \<open>ResourceStoreTheorems\<close>: every write keeps the constraints of the shared tables, what is written is decoded as it was given, what a read guarantees about the rules, what the
    expected revision decides, and why a change of family is always refused. \<open>StockExample\<close> holds the tables of
    the witnesses.
  \<^item> Suppliers: \<open>SupplierDomain\<close>, \<open>SupplierStore\<close>, \<open>SupplierService\<close>, \<open>SupplierTheorems\<close> (the constraints of
    the tables), \<open>SupplierWriteTheorems\<close> (what every writing use case does to them).
  \<^item> Purchases: \<open>SupplierProduct\<close> (the aggregate and its five mapping commands), \<open>PurchaseDomain\<close>, \<open>AuditTrail\<close>,
    \<open>PurchaseStore\<close>, \<open>PurchaseLineStore\<close>, \<open>PurchaseImport\<close>, \<open>PurchaseViews\<close> (the SQL repositories),
    \<open>PurchaseInvariant\<close> and \<open>PurchaseTransactions\<close> (every statement keeps the database well formed),
    \<open>PurchaseStoreTheorems\<close>, \<open>ImportTheorems\<close>, \<open>LineStatusTheorems\<close>, \<open>PurchaseDomainTheorems\<close>, \<open>PurchaseService\<close>
    (the use cases) and \<open>PurchaseServiceTheorems\<close>.
  \<^item> Public contracts: \<open>PublicResource\<close>, \<open>ResourceFacade\<close> (\<^verbatim>\<open>resourcecore\<close>), \<open>ResourceBridge\<close>
    (\<^verbatim>\<open>internal/bridge/resourcecore\<close>), \<open>SupplierBridge\<close> and \<open>PurchaseFacade\<close>, \<open>PurchaseBridge\<close> (the same two
    layers of suppliers and purchases). A facade is a record of capabilities with its checks; a bridge fills that record
    with the services and translates values, pages and errors. \<open>CoreTheorems\<close> composes the services over one
    database as \<^verbatim>\<open>garfex.go\<close> does, interprets the locales of ports on the composition and shows that each public
    call keeps the core coherent; \<open>BridgeTheorems\<close>, \<open>ResourceReadTheorems\<close> (what a read
    resource is when it is written back, and which rows block a page), \<open>SupplierBridgeTheorems\<close> and
    \<open>PurchaseBridgeTheorems\<close> hold the properties a client sees. \<open>Paging\<close> is the locale of a paged list, whose client reads every page, with one
    interpretation for each list. Public amounts are unbounded integers in a fetch size except where the code adds one to
    a limit at 64 bits (\<open>probe_limit\<close>).
  \<^item> CFDI: \<open>Cfdi\<close> (\<^verbatim>\<open>cfdicore\<close>) and \<open>CfdiTheorems\<close>.

  \<^bold>\<open>Parameters.\<close> Code that is not in the repository is a parameter: \<open>decimal_ops\<close> (shopspring/decimal),
  \<open>digest\<close> (SHA-256), \<open>xml_decoder\<close> (encoding/xml), \<open>ilike\<close> and \<open>coll\<close> (pattern matching and collation of
  the server), \<open>rng\<close> (the iteration order of a Go map), \<open>now\<close> (the clock of the server), \<open>F\<close> (which statement
  fails and how) and \<open>applied\<close> (whether a change whose acknowledgement was lost took effect). A theorem holds
  for every value of them, or names what it needs of them as a hypothesis that its witness discharges on a
  concrete function.

  \<^bold>\<open>Bounds.\<close> The only fuel is that of the CFDI reader's walk over the tokens: one step per token, so the
  number of tokens is enough and the walk returns on every document. All other recursion is structural or
  has its termination proof.

  \<^bold>\<open>Not modelled.\<close> The values Go returns beside a non-nil error; contexts and deadlines (cancellation is a
  fault of the statement it interrupts); the diagnostics seam; mutexes, of which a call is one step; the
  interleaving inside a transaction, because row locks make each one step; defensive copies, which are the
  identity on values; the write of a canonical unit through the caller's \<^verbatim>\<open>Quantity\<close> pointer in
  \<^verbatim>\<open>canonicalValue\<close>; column ranges other than those of revisions; the text labels of errors met while
  rows are scanned. The HTTP layer (\<^verbatim>\<open>internal/httpapi\<close>, \<^verbatim>\<open>cmd/api\<close>) renders the public
  contracts over net/http and encoding/json and keeps no state of its own.
\<close>

end
